(* ===== verification/Prelude.thy ===== *)
theory Prelude
  imports Main "HOL-Library.Word"
begin

text \<open>
  Shared vocabulary of the development: the machine integer types of the C sources
  (\<open>uint8_t\<close> to \<open>uint128_t\<close> as words, where \<open>+\<close>, \<open>-\<close> and \<open>*\<close> wrap around),
  the lemmas that read a word operation as an integer operation when it does not
  overflow, and positional values of byte strings. The predicate \<open>wval x v b\<close> says
  that the word \<open>x\<close> holds the integer \<open>v\<close>, which is at most \<open>b\<close>; the rules of the
  collection \<open>wval_intro\<close> compute \<open>v\<close> and \<open>b\<close> along an expression and leave one
  side condition per operation, the absence of overflow there.
\<close>

unbundle bit_operations_syntax

type_synonym u8 = "8 word"
type_synonym u32 = "32 word"
type_synonym u64 = "64 word"
type_synonym u128 = "128 word"

named_theorems wval_intro \<open>value and bound of a word expression\<close>

section \<open>Positional values\<close>

text \<open>Value of a big endian byte string, the encoding of all 32-byte arguments.\<close>

definition be_val :: "u8 list \<Rightarrow> int" where
  "be_val bs = foldl (\<lambda>v b. 256 * v + uint b) 0 bs"

text \<open>The big endian string of \<open>k\<close> bytes of a number.\<close>

definition be_bytes :: "nat \<Rightarrow> int \<Rightarrow> u8 list" where
  "be_bytes k v = map (\<lambda>i. word_of_int (v div 256 ^ (k - 1 - i))) [0..<k]"

text \<open>
  The number that a vector of limbs in radix \<open>2 ^ w\<close> stands for, least significant limb
  first, and the pass that carries the excess of each limb over \<open>w\<close> bits into the next.
\<close>

fun limbs_val :: "nat \<Rightarrow> 'a::len word list \<Rightarrow> int" where
  "limbs_val w [] = 0"
| "limbs_val w (x # xs) = uint x + 2 ^ w * limbs_val w xs"

fun limbs_carry :: "nat \<Rightarrow> 'a::len word \<Rightarrow> 'a word list \<Rightarrow> 'a word list" where
  "limbs_carry w c [] = []"
| "limbs_carry w c [x] = [x + c]"
| "limbs_carry w c (x # y # ys) =
    ((x + c) AND mask w) # limbs_carry w (drop_bit w (x + c)) (y # ys)"

text \<open>
  The comparison loop of \<^verbatim>\<open>fe_cmp_var\<close>, on limbs from the most significant one.
\<close>

fun limbs_cmp :: "'a::len word list \<Rightarrow> 'a word list \<Rightarrow> int" where
  "limbs_cmp (x # xs) (y # ys) = (if y < x then 1 else if x < y then - 1 else limbs_cmp xs ys)"
| "limbs_cmp _ _ = 0"

text \<open>The \<open>k\<close> limbs of a number.\<close>

definition limbs_of :: "nat \<Rightarrow> nat \<Rightarrow> int \<Rightarrow> 'a::len word list" where
  "limbs_of w k v = map (\<lambda>i. word_of_int (take_bit w (drop_bit (w * i) v))) [0..<k]"

text \<open>The word holds the integer \<open>v\<close>, and \<open>v\<close> is at most \<open>b\<close>.\<close>

definition wval :: "'a::len word \<Rightarrow> int \<Rightarrow> int \<Rightarrow> bool" where
  "wval x v b \<longleftrightarrow> uint x = v \<and> v \<le> b"

section \<open>Words read as integers\<close>

lemma uint_add_noov:
  "uint x + uint y < 2 ^ LENGTH('a) \<Longrightarrow> uint (x + y) = uint x + uint y"
  for x y :: "'a::len word"
  by (simp add: uint_word_ariths)

lemma uint_mult_noov:
  "uint x * uint y < 2 ^ LENGTH('a) \<Longrightarrow> uint (x * y) = uint x * uint y"
  for x y :: "'a::len word"
  by (simp add: uint_word_ariths)

lemma uint_diff_noov:
  "uint y \<le> uint x \<Longrightarrow> uint (x - y) = uint x - uint y"
  for x y :: "'a::len word"
  using uint_bounded [of x] uint_nonnegative [of y] by (simp add: uint_word_ariths)

lemma uint_drop_bit: "uint (drop_bit n x) = uint x div 2 ^ n"
  for x :: "'a::len word"
proof -
  have "uint (drop_bit n x) = drop_bit n (take_bit LENGTH('a) (uint x))"
    by (rule unsigned_drop_bit_eq)
  moreover have "take_bit LENGTH('a) (uint x) = uint x"
    by (rule take_bit_int_eq_self) simp_all
  ultimately show ?thesis by (simp only: drop_bit_eq_div)
qed

lemma uint_and_mask: "uint (x AND mask n) = uint x mod 2 ^ n"
  for x :: "'a::len word"
proof -
  have "uint (take_bit n x) = take_bit n (uint x)"
    by (rule unsigned_take_bit_eq)
  then show ?thesis
    by (simp only: take_bit_eq_mask [symmetric] take_bit_eq_mod [where 'a=int])
qed

lemma uint_push_bit: "uint (push_bit n x) = (uint x * 2 ^ n) mod 2 ^ LENGTH('a)"
  for x :: "'a::len word"
proof -
  have "uint (push_bit n x) = take_bit LENGTH('a) (push_bit n (uint x))"
    by (rule unsigned_push_bit_eq)
  then show ?thesis by (simp only: push_bit_eq_mult take_bit_eq_mod)
qed

lemma uint_push_bit_noov:
  "uint x * 2 ^ n < 2 ^ LENGTH('a) \<Longrightarrow> uint (push_bit n x) = uint x * 2 ^ n"
  for x :: "'a::len word"
  by (simp add: uint_push_bit)

lemma uint_ucast: "uint (ucast x :: 'b::len word) = uint x mod 2 ^ LENGTH('b)"
  for x :: "'a::len word"
  by (simp add: unsigned_ucast_eq take_bit_eq_mod)

lemma uint_ucast_up:
  "LENGTH('a) \<le> LENGTH('b) \<Longrightarrow> uint (ucast x :: 'b::len word) = uint x"
  for x :: "'a::len word"
  by (simp add: is_up uint_up_ucast)

lemma int_or_add: "x OR y = x + y" if "x mod 2 ^ n = 0" "0 \<le> y" "y < 2 ^ n" for x y :: int
proof -
  have "take_bit n x = 0" "take_bit n y = y"
    using that by (simp_all add: take_bit_eq_mod)
  then have "x AND y = 0"
    by (metis and.left_commute and_zero_eq take_bit_eq_mask and.commute)
  then show ?thesis by (simp add: disjunctive_add_eq_or)
qed

lemma uint_or_add:
  "uint x mod 2 ^ n = 0 \<Longrightarrow> uint y < 2 ^ n \<Longrightarrow> uint (x OR y) = uint x + uint y"
  for x y :: "'a::len word"
  by (simp add: unsigned_or_eq int_or_add)

lemma uint_drop_bit_less: "w \<le> LENGTH('a) \<Longrightarrow> uint (drop_bit w x) < 2 ^ (LENGTH('a) - w)"
  for x :: "'a::len word"
proof (rule ccontr)
  assume w: "w \<le> LENGTH('a)" and "\<not> uint (drop_bit w x) < 2 ^ (LENGTH('a) - w)"
  then have "2 ^ (LENGTH('a) - w) * 2 ^ w \<le> uint x div 2 ^ w * 2 ^ w"
    by (simp add: uint_drop_bit)
  also have "\<dots> \<le> uint x"
    by (simp flip: minus_mod_eq_div_mult)
  finally show False
    using uint_bounded [of x] w by (simp flip: power_add)
qed

section \<open>Values with bounds\<close>

lemma wval_nonneg: "wval x v b \<Longrightarrow> 0 \<le> v \<and> 0 \<le> b"
  using order_trans [OF uint_nonnegative [of x]] by (auto simp add: wval_def)

lemma wval_weaken: "wval x v b \<Longrightarrow> b \<le> c \<Longrightarrow> wval x v c"
  by (simp add: wval_def)

lemma wval_uintD: "wval x v b \<Longrightarrow> uint x = v"
  by (simp add: wval_def)

lemma wval_leaf: "uint x \<le> b \<Longrightarrow> wval x (uint x) b"
  by (simp add: wval_def)

lemma wval_add [wval_intro]:
  "wval x v b \<Longrightarrow> wval y w c \<Longrightarrow> b + c < 2 ^ LENGTH('a) \<Longrightarrow> wval (x + y) (v + w) (b + c)"
  for x y :: "'a::len word"
  by (simp add: wval_def uint_add_noov)

lemma wval_mult [wval_intro]:
  "wval x v b \<Longrightarrow> wval y w c \<Longrightarrow> b * c < 2 ^ LENGTH('a) \<Longrightarrow> wval (x * y) (v * w) (b * c)"
  for x y :: "'a::len word"
proof -
  assume x: "wval x v b" and y: "wval y w c" and bc: "b * c < 2 ^ LENGTH('a)"
  have "v * w \<le> b * c"
    using x y wval_nonneg [OF x] wval_nonneg [OF y]
    by (intro mult_mono) (simp_all add: wval_def)
  then show "wval (x * y) (v * w) (b * c)"
    using x y bc by (simp add: wval_def uint_mult_noov)
qed

lemma wval_drop_bit [wval_intro]:
  "wval x v b \<Longrightarrow> wval (drop_bit n x) (v div 2 ^ n) (b div 2 ^ n)"
  by (simp add: wval_def uint_drop_bit zdiv_mono1)

lemma wval_push_bit [wval_intro]:
  "wval x v b \<Longrightarrow> b * 2 ^ n < 2 ^ LENGTH('a) \<Longrightarrow> wval (push_bit n x) (v * 2 ^ n) (b * 2 ^ n)"
  for x :: "'a::len word"
proof -
  assume x: "wval x v b" and b: "b * 2 ^ n < 2 ^ LENGTH('a)"
  have le: "v * 2 ^ n \<le> b * 2 ^ n" using x by (simp add: wval_def)
  have "uint (push_bit n x) = v * 2 ^ n"
    using x le_less_trans [OF le b] uint_push_bit_noov [of x n] by (simp add: wval_def)
  then show ?thesis using le by (simp only: wval_def)
qed

lemma wval_and_mask [wval_intro]:
  "wval x v b \<Longrightarrow> wval (x AND mask n) (v mod 2 ^ n) (2 ^ n - 1)"
  by (auto simp add: wval_def uint_and_mask)

lemma wval_ucast [wval_intro]:
  "wval x v b \<Longrightarrow> LENGTH('a) \<le> LENGTH('b) \<Longrightarrow> wval (ucast x :: 'b::len word) v b"
  for x :: "'a::len word"
  by (simp add: wval_def uint_ucast_up)

lemma wval_numeral [wval_intro]:
  "numeral k < (2 :: int) ^ LENGTH('a) \<Longrightarrow>
    wval (numeral k :: 'a::len word) (numeral k) (numeral k)"
  by (simp add: wval_def take_bit_int_eq_self)

lemma wval_mul32:
  "uint x \<le> b \<Longrightarrow> uint y \<le> c \<Longrightarrow> 0 \<le> b \<Longrightarrow> wval (ucast x * ucast y :: u64) (uint x * uint y) (b * c)"
  for x y :: u32
proof -
  assume le: "uint x \<le> b" "uint y \<le> c" "0 \<le> b"
  have "uint x * uint y \<le> b * c"
    using le by (intro mult_mono) simp_all
  moreover have "uint x * uint y \<le> (2 ^ 32 - 1) * (2 ^ 32 - 1)"
    using uint_bounded [of x] uint_bounded [of y] by (intro mult_mono) simp_all
  ultimately show ?thesis
    by (simp add: wval_def uint_mult_noov uint_ucast_up)
qed

lemma wval_mul64:
  "uint x \<le> b \<Longrightarrow> uint y \<le> c \<Longrightarrow> 0 \<le> b \<Longrightarrow> wval (ucast x * ucast y :: u128) (uint x * uint y) (b * c)"
  for x y :: u64
proof -
  assume le: "uint x \<le> b" "uint y \<le> c" "0 \<le> b"
  have "uint x * uint y \<le> b * c"
    using le by (intro mult_mono) simp_all
  moreover have "uint x * uint y \<le> (2 ^ 64 - 1) * (2 ^ 64 - 1)"
    using uint_bounded [of x] uint_bounded [of y] by (intro mult_mono) simp_all
  ultimately show ?thesis
    by (simp add: wval_def uint_mult_noov uint_ucast_up)
qed

section \<open>Bitwise tests\<close>

lemma word_and_eq_full:
  "uint x < 2 ^ n \<Longrightarrow> (x AND y = mask n \<longleftrightarrow> x = mask n \<and> y AND mask n = mask n)"
  for x y :: "'a::len word"
proof -
  assume "uint x < 2 ^ n"
  then have "uint (x AND mask n) = uint x" by (simp add: uint_and_mask)
  then have x: "x AND mask n = x" by (simp only: word_uint_eq_iff)
  show ?thesis
  proof
    assume eq: "x AND y = mask n"
    have "x AND mask n = mask n" "y AND mask n = mask n"
      by (simp_all add: eq [symmetric] and.left_commute)
    then show "x = mask n \<and> y AND mask n = mask n" using x by simp
  next
    assume "x = mask n \<and> y AND mask n = mask n"
    then show "x AND y = mask n" by (simp add: and.commute)
  qed
qed

lemma uint_xor_less: "uint x < 2 ^ n \<Longrightarrow> uint y < 2 ^ n \<Longrightarrow> uint (x XOR y) < 2 ^ n"
  for x y :: "'a::len word"
  by (simp add: unsigned_xor_eq XOR_upper)

lemma word_xor_eq_iff: "x XOR c = m \<longleftrightarrow> x = m XOR c" for x :: "'a::len word"
  by (metis xor.assoc xor_self_eq xor.right_neutral)

lemma word_or_eq_0: "x OR y = 0 \<longleftrightarrow> x = 0 \<and> y = 0" for x y :: "'a::len word"
  by (simp add: or_eq_0_iff)

lemma word_and_1_odd: "x AND 1 \<noteq> 0 \<longleftrightarrow> odd (uint x)" for x :: "'a::len word"
  using uint_and_mask [of x 1] by (auto simp add: uint_0_iff [symmetric] odd_iff_mod_2_eq_one)

lemma uint_word_of_int_small: "0 \<le> m \<Longrightarrow> m < 2 ^ LENGTH('a) \<Longrightarrow> uint (word_of_int m :: 'a::len word) = m"
  by (simp add: uint_word_of_int)

lemma ucast_double:
  "uint x \<le> 0x7FFFFFFF \<Longrightarrow> (ucast (x * 2) :: u64) = ucast x + ucast x" for x :: u32
  by (simp add: word_uint_eq_iff uint_add_noov uint_mult_noov uint_ucast_up)

lemma bit_int_less: "0 \<le> v \<Longrightarrow> v < 2 ^ n \<Longrightarrow> bit v m \<Longrightarrow> m < n" for v :: int
  using bit_take_bit_iff [of n v m] by (simp add: take_bit_int_eq_self)

section \<open>Limb vectors\<close>

lemma limbs_val_nonneg [simp]: "0 \<le> limbs_val w xs"
  by (induction xs) simp_all

lemma limbs_val_carry:
  fixes x :: "'a::len word"
  assumes "uint x + uint c < 2 ^ LENGTH('a)" "w \<le> LENGTH('a)"
    "\<forall>y \<in> set xs. uint y + 2 ^ (LENGTH('a) - w) \<le> 2 ^ LENGTH('a)"
  shows "limbs_val w (limbs_carry w c (x # xs)) = limbs_val w (x # xs) + uint c"
  using assms
proof (induction xs arbitrary: x c)
  case Nil
  then show ?case by (simp add: uint_add_noov)
next
  case (Cons y ys)
  have le: "uint y + uint (drop_bit w (x + c)) < 2 ^ LENGTH('a)"
    using Cons.prems uint_drop_bit_less [of w "x + c"] by simp
  have s: "uint x + uint c = uint (x + c)"
    using Cons.prems by (simp add: uint_add_noov)
  have "limbs_val w (limbs_carry w (drop_bit w (x + c)) (y # ys))
      = limbs_val w (y # ys) + uint (x + c) div 2 ^ w"
    using Cons.IH [OF le] Cons.prems by (simp add: uint_drop_bit)
  then have "limbs_val w (limbs_carry w c (x # y # ys))
      = (uint (x + c) mod 2 ^ w + 2 ^ w * (uint (x + c) div 2 ^ w)) + 2 ^ w * limbs_val w (y # ys)"
    by (simp add: uint_and_mask distrib_left)
  then show ?case by (simp add: s [symmetric] del: limbs_carry.simps)
qed

lemma limbs_carry_less: "x \<in> set (butlast (limbs_carry w c xs)) \<Longrightarrow> uint x < 2 ^ w"
  by (induction w c xs rule: limbs_carry.induct) (auto simp add: uint_and_mask split: if_splits)

lemma length_limbs_carry [simp]: "length (limbs_carry w c xs) = length xs"
  by (induction w c xs rule: limbs_carry.induct) simp_all

lemma limbs_val_inj:
  "length xs = length ys \<Longrightarrow> \<forall>x \<in> set xs. uint x < 2 ^ w \<Longrightarrow> \<forall>y \<in> set ys. uint y < 2 ^ w \<Longrightarrow>
    limbs_val w xs = limbs_val w ys \<Longrightarrow> xs = ys"
proof (induction xs ys rule: list_induct2)
  case (Cons x xs y ys)
  have eq: "uint x + 2 ^ w * limbs_val w xs = uint y + 2 ^ w * limbs_val w ys"
    using Cons.prems by simp
  have lt: "uint x < 2 ^ w" "uint y < 2 ^ w" using Cons.prems by simp_all
  have "uint x = uint y" using arg_cong [OF eq, of "\<lambda>v. v mod 2 ^ w"] lt by simp
  then show ?case using eq Cons by (simp add: word_uint_eq_iff)
qed simp

lemma limbs_val_snoc: "limbs_val w (xs @ [x]) = limbs_val w xs + 2 ^ (w * length xs) * uint x"
  by (induction xs) (simp_all add: algebra_simps power_add)

lemma limbs_val_less: "\<forall>x \<in> set xs. uint x < 2 ^ w \<Longrightarrow> limbs_val w xs < 2 ^ (w * length xs)"
proof (induction xs)
  case (Cons x xs)
  have "2 ^ w * limbs_val w xs \<le> 2 ^ w * (2 ^ (w * length xs) - 1)"
    using Cons by (intro mult_left_mono) simp_all
  then have "limbs_val w (x # xs) < 2 ^ w * 2 ^ (w * length xs)"
    using Cons.prems by (simp add: right_diff_distrib)
  then show ?case by (simp add: power_add)
qed simp

lemma limbs_val_eq_0: "limbs_val w xs = 0 \<longleftrightarrow> (\<forall>x \<in> set xs. uint x = 0)"
  by (induction xs) (simp_all add: add_nonneg_eq_0_iff)

lemma limbs_val_sum: "limbs_val w p = (\<Sum>k<length p. 2 ^ (w * k) * uint (p ! k))"
proof (induction p)
  case (Cons x p)
  have "(\<Sum>k<length (x # p). 2 ^ (w * k) * uint ((x # p) ! k))
      = uint x + (\<Sum>k<length p. 2 ^ (w * Suc k) * uint (p ! k))"
    by (simp only: length_Cons sum.lessThan_Suc_shift) simp
  also have "\<dots> = uint x + 2 ^ w * (\<Sum>k<length p. 2 ^ (w * k) * uint (p ! k))"
    by (simp add: sum_distrib_left power_add mult.assoc)
  finally show ?case using Cons by simp
qed simp

lemma wvals_limbs:
  assumes "list_all2 (\<lambda>x (v, m). wval x v m) p vs"
  shows "limbs_val w p = foldr (\<lambda>(v, m) s. v + 2 ^ w * s) vs 0"
    "k < length p \<Longrightarrow> uint (p ! k) \<le> snd (vs ! k)" "length p = length vs"
  using assms
  by (induction p vs arbitrary: k rule: list_all2_induct)
    (auto simp add: wval_def less_Suc_eq_0_disj)

section \<open>Comparison of limb vectors\<close>

lemma limbs_val_snoc_less:
  assumes "uint u < uint v" "length us = length vs" "limbs_val w us < 2 ^ (w * length us)"
  shows "limbs_val w (us @ [u]) < limbs_val w (vs @ [v])"
proof -
  let ?W = "2 ^ (w * length vs) :: int"
  have "?W * (uint u + 1) \<le> ?W * uint v"
    using assms by (intro mult_left_mono) simp_all
  then have "?W * uint u + ?W \<le> ?W * uint v" by (simp add: distrib_left)
  then show ?thesis
    using assms(3) limbs_val_nonneg [of w vs] unfolding limbs_val_snoc assms(2) by linarith
qed

lemma limbs_cmp_sgn:
  "length xs = length ys \<Longrightarrow> \<forall>x \<in> set xs. uint x < 2 ^ w \<Longrightarrow> \<forall>y \<in> set ys. uint y < 2 ^ w \<Longrightarrow>
    limbs_cmp (rev xs) (rev ys) = sgn (limbs_val w xs - limbs_val w ys)"
proof (induction xs arbitrary: ys rule: rev_induct)
  case (snoc x xs)
  obtain zs z where ys: "ys = zs @ [z]" using snoc.prems(1) by (cases ys rule: rev_cases) auto
  have len: "length xs = length zs" using snoc.prems ys by simp
  have b: "limbs_val w xs < 2 ^ (w * length xs)" "limbs_val w zs < 2 ^ (w * length zs)"
    using snoc.prems ys limbs_val_less [of xs w] limbs_val_less [of zs w] by simp_all
  consider "uint z < uint x" | "uint x < uint z" | "x = z"
    by (metis linorder_neqE word_uint_eq_iff)
  then show ?case
  proof cases
    case 1
    then have "limbs_cmp (rev (xs @ [x])) (rev ys) = 1" using ys by (simp add: word_less_def)
    then show ?thesis using limbs_val_snoc_less [OF 1 len [symmetric] b(2)] ys by simp
  next
    case 2
    then have "limbs_cmp (rev (xs @ [x])) (rev ys) = - 1" using ys by (simp add: word_less_def)
    then show ?thesis using limbs_val_snoc_less [OF 2 len b(1)] ys by simp
  next
    case 3
    have "limbs_cmp (rev xs) (rev zs) = sgn (limbs_val w xs - limbs_val w zs)"
      using snoc ys by simp
    then show ?thesis using 3 ys len by (simp add: limbs_val_snoc)
  qed
qed simp

section \<open>Limbs of a number\<close>

lemma length_limbs_of [simp]: "length (limbs_of w k v) = k"
  by (simp add: limbs_of_def)

lemma bit_limbs_of:
  "i < k \<Longrightarrow> w \<le> LENGTH('a) \<Longrightarrow>
    bit ((limbs_of w k v :: 'a::len word list) ! i) b \<longleftrightarrow> b < w \<and> bit v (w * i + b)"
  by (auto simp add: limbs_of_def bit_word_of_int_iff bit_take_bit_iff bit_drop_bit_eq)

lemma limbs_of_0: "limbs_of w k 0 = replicate k 0"
  by (simp add: limbs_of_def map_replicate_trivial)

lemma limbs_val_limbs_of:
  "w \<le> LENGTH('a) \<Longrightarrow> limbs_val w (limbs_of w k v :: 'a::len word list) = take_bit (w * k) v"
proof (induction k)
  case (Suc k)
  have "limbs_val w (limbs_of w (Suc k) v :: 'a word list)
      = take_bit (w * k) v + 2 ^ (w * k) * take_bit w (drop_bit (w * k) v)"
    using Suc by (simp add: limbs_of_def limbs_val_snoc [of w "map _ _" _, unfolded length_map] uint_word_of_int
      take_bit_eq_mod [symmetric] min_def)
  also have "\<dots> = take_bit (w * Suc k) v"
    using zmod_zmult2_eq [of "2 ^ w" v "2 ^ (w * k)"]
    by (simp add: take_bit_eq_mod drop_bit_eq_div power_add mult.commute [of "2 ^ w"])
  finally show ?case .
qed (simp add: limbs_of_def)

lemma limbs_of_less:
  "x \<in> set (limbs_of w k v) \<Longrightarrow> w \<le> LENGTH('a) \<Longrightarrow> uint x < 2 ^ w" for x :: "'a::len word"
  by (auto simp add: limbs_of_def uint_word_of_int take_bit_eq_mod [symmetric] min_def)

lemma limbs_of_limbs_val:
  fixes xs :: "'a::len word list"
  assumes "\<forall>x \<in> set xs. uint x < 2 ^ w" "w \<le> LENGTH('a)"
  shows "limbs_of w (length xs) (limbs_val w xs) = xs"
proof (rule limbs_val_inj [where w = w])
  show "\<forall>x \<in> set (limbs_of w (length xs) (limbs_val w xs) :: 'a word list). uint x < 2 ^ w"
    using assms(2) by (auto intro: limbs_of_less)
  show "limbs_val w (limbs_of w (length xs) (limbs_val w xs) :: 'a word list) = limbs_val w xs"
    using limbs_val_less [OF assms(1)] assms(2) by (simp add: limbs_val_limbs_of take_bit_int_eq_self)
qed (use assms in simp_all)

lemma bit_nth_limbs:
  fixes xs :: "'a::len word list"
  assumes "\<forall>x \<in> set xs. uint x < 2 ^ w" "w \<le> LENGTH('a)" "i < length xs"
  shows "bit (xs ! i) b \<longleftrightarrow> b < w \<and> bit (limbs_val w xs) (w * i + b)"
  using bit_limbs_of [OF assms(3,2), of "limbs_val w xs" b]
  by (simp only: limbs_of_limbs_val [OF assms(1,2)])

lemma limbs_eq_limbs_ofI:
  fixes xs :: "'a::len word list"
  assumes "length xs = k" "w \<le> LENGTH('a)" "\<And>i b. i < k \<Longrightarrow> bit (xs ! i) b \<longleftrightarrow> b < w \<and> bit v (w * i + b)"
  shows "xs = limbs_of w k v"
  using assms by (intro nth_equalityI bit_word_eqI) (simp_all add: bit_limbs_of)

lemma limbs_of_or_chunk:
  fixes ch :: "'a::len word"
  assumes q: "q dvd w" "q dvd pos" "0 < q" and w: "w \<le> LENGTH('a)" "pos < w * k"
    and ch: "\<And>b. bit ch b \<longleftrightarrow> b < q \<and> bit v (pos + b)"
  defines "n \<equiv> limbs_of w k (take_bit pos v) :: 'a word list"
  shows "n[pos div w := n ! (pos div w) OR push_bit (pos mod w) ch] = limbs_of w k (take_bit (pos + q) v)"
proof (rule nth_equalityI)
  fix i assume "i < length (n[pos div w := n ! (pos div w) OR push_bit (pos mod w) ch])"
  then have i: "i < k" by (simp add: n_def)
  have w0: "0 < w" using w(2) by (cases w) simp_all
  have sq: "pos mod w + q \<le> w"
  proof -
    have "q dvd w - pos mod w" using q by (intro dvd_diff_nat) (simp_all add: dvd_mod)
    moreover have "0 < w - pos mod w" using w0 by simp
    ultimately have "q \<le> w - pos mod w" by (rule dvd_imp_le)
    then show ?thesis using mod_less_divisor [OF w0, of pos] by linarith
  qed
  have pos: "w * (pos div w) + pos mod w = pos" by simp
  show "n[pos div w := n ! (pos div w) OR push_bit (pos mod w) ch] ! i
      = limbs_of w k (take_bit (pos + q) v) ! i"
  proof (cases "i = pos div w")
    case True
    have len: "pos div w < k" using True i by simp
    have shift: "pos + (b - pos mod w) = w * i + b" if "pos mod w \<le> b" for b
      unfolding True using that pos by linarith
    show ?thesis
    proof (rule bit_word_eqI)
      fix b assume b: "b < LENGTH('a)"
      have "w * i + b < pos + q \<longleftrightarrow> b < pos mod w + q" "w * i + b < pos \<longleftrightarrow> b < pos mod w"
        unfolding True using pos by linarith+
      then show "bit (n[pos div w := n ! (pos div w) OR push_bit (pos mod w) ch] ! i) b
          \<longleftrightarrow> bit (limbs_of w k (take_bit (pos + q) v) ! i :: 'a word) b"
        using b len w(1) sq shift [of b] True
        by (auto simp add: n_def bit_or_iff bit_push_bit_iff bit_limbs_of bit_take_bit_iff ch)
    qed
  next
    case False
    have "w * i + b < pos + q \<longleftrightarrow> w * i + b < pos" if "b < w" for b
    proof (cases "i < pos div w")
      case True
      then have "w * (i + 1) \<le> w * (pos div w)" by (intro mult_le_mono) simp_all
      then have "w * i + w \<le> w * (pos div w)" by (simp add: distrib_left)
      then show ?thesis using that pos by linarith
    next
      case ge: False
      then have "w * (pos div w + 1) \<le> w * i" using False by (intro mult_le_mono) simp_all
      then have "w * (pos div w) + w \<le> w * i" by (simp add: distrib_left)
      then show ?thesis using pos sq by linarith
    qed
    then show ?thesis
      using False i w(1) by (intro bit_word_eqI) (auto simp add: n_def bit_limbs_of bit_take_bit_iff)
  qed
qed (simp add: n_def)

lemma fold_limbs_of:
  assumes "\<And>j. j < m \<Longrightarrow> f j (limbs_of w k (take_bit (q * j) v)) = limbs_of w k (take_bit (q * j + q) v)"
  shows "fold f [0..<m] (replicate k 0) = limbs_of w k (take_bit (q * m) v)"
  using assms
  by (induction m) (simp_all add: limbs_of_0 add.commute)

section \<open>Byte strings\<close>

lemma be_val_Nil [simp]: "be_val [] = 0"
  by (simp add: be_val_def)

lemma be_val_snoc [simp]: "be_val (bs @ [b]) = 256 * be_val bs + uint b"
  by (simp add: be_val_def)

lemma be_val_append: "be_val (bs @ cs) = 256 ^ length cs * be_val bs + be_val cs"
proof (induction cs rule: rev_induct)
  case (snoc c cs)
  have "be_val (bs @ cs @ [c]) = 256 * be_val (bs @ cs) + uint c"
    using be_val_snoc [of "bs @ cs" c] by simp
  then show ?case using snoc by (simp add: algebra_simps)
qed simp

lemma be_val_Cons: "be_val (b # bs) = 256 ^ length bs * uint b + be_val bs"
  using be_val_append [of "[b]" bs] be_val_snoc [of "[]" b] by simp

lemma be_val_nonneg [simp]: "0 \<le> be_val bs"
  by (induction bs rule: rev_induct) simp_all

lemma be_val_less: "be_val bs < 256 ^ length bs"
proof (induction bs rule: rev_induct)
  case (snoc b bs)
  have "uint b < 2 ^ LENGTH(8)" by (rule uint_bounded)
  then show ?case using snoc by simp
qed simp

lemma be_val_inj: "length bs = length cs \<Longrightarrow> be_val bs = be_val cs \<Longrightarrow> bs = cs"
proof (induction bs arbitrary: cs rule: rev_induct)
  case (snoc b bs)
  obtain ds d where cs: "cs = ds @ [d]" using snoc.prems(1) by (cases cs rule: rev_cases) auto
  have lt: "uint b < 256" "uint d < 256"
    using uint_bounded [of b] uint_bounded [of d] by simp_all
  have eq: "256 * be_val bs + uint b = 256 * be_val ds + uint d"
    using snoc.prems(2) cs by simp
  have "uint b = uint d" using arg_cong [OF eq, of "\<lambda>v. v mod 256"] lt by simp
  moreover from this have "be_val bs = be_val ds" using eq by simp
  ultimately show ?case using snoc cs by (simp add: word_uint_eq_iff)
qed simp

lemma length_be_bytes [simp]: "length (be_bytes k v) = k"
  by (simp add: be_bytes_def)

lemma be_bytes_Suc: "be_bytes (Suc k) v = be_bytes k (v div 256) @ [word_of_int v]"
proof -
  have "256 ^ (Suc k - 1 - i) = 256 * (256 :: int) ^ (k - 1 - i)" if "i < k" for i
    using that power_Suc [of "256 :: int" "k - 1 - i"] by (simp add: Suc_diff_Suc)
  then show ?thesis
    by (auto simp add: be_bytes_def zdiv_zmult2_eq)
qed

lemma be_val_be_bytes: "be_val (be_bytes k v) = v mod 256 ^ k"
proof (induction k arbitrary: v)
  case (Suc k)
  have "v mod (256 * 256 ^ k) = 256 * (v div 256 mod 256 ^ k) + v mod 256"
    by (rule zmod_zmult2_eq) simp
  then show ?case
    by (simp add: be_bytes_Suc Suc.IH uint_word_of_int)
qed (simp add: be_bytes_def)

lemma be_bytes_be_val: "be_bytes (length bs) (be_val bs) = bs"
  by (rule be_val_inj) (simp_all add: be_val_be_bytes be_val_less)

lemma bit_be_val:
  "i < length bs \<Longrightarrow> b < 8 \<Longrightarrow> bit (be_val bs) (8 * i + b) \<longleftrightarrow> bit (bs ! (length bs - 1 - i)) b"
proof (induction bs arbitrary: i rule: rev_induct)
  case (snoc c bs)
  have e: "be_val (bs @ [c]) = push_bit 8 (be_val bs) OR uint c"
    using int_or_add [of "push_bit 8 (be_val bs)" 8 "uint c"] uint_bounded [of c] be_val_snoc [of bs c]
    by (simp add: push_bit_eq_mult del: be_val_snoc)
  have c: "bit (uint c) n \<longleftrightarrow> bit c n" for n by (auto simp add: bit_uint_iff dest: bit_imp_le_length)
  have "\<not> bit c n" if "8 \<le> n" for n using bit_imp_le_length [of c n] that by auto
  then show ?case
    using snoc by (cases i) (auto simp add: e bit_or_iff bit_push_bit_iff c nth_append simp del: be_val_snoc)
qed simp

lemma be_bytes_nth_bit: "i < k \<Longrightarrow> b < 8 \<Longrightarrow> bit (be_bytes k v ! (k - 1 - i)) b \<longleftrightarrow> bit v (8 * i + b)"
proof -
  assume i: "i < k" "b < 8"
  have "be_bytes k v ! (k - 1 - i) = word_of_int (drop_bit (8 * i) v)"
    using i by (simp add: be_bytes_def drop_bit_eq_div power_mult)
  then show ?thesis using i by (simp add: bit_word_of_int_iff bit_drop_bit_eq)
qed

lemma be_bytes_eqI:
  assumes "length bs = k" "\<And>i b. i < k \<Longrightarrow> b < 8 \<Longrightarrow> bit (bs ! (k - 1 - i)) b \<longleftrightarrow> bit v (8 * i + b)"
  shows "bs = be_bytes k v"
proof (rule nth_equalityI)
  fix j assume "j < length bs"
  then have j: "k - 1 - j < k" "k - 1 - (k - 1 - j) = j" using assms(1) by simp_all
  show "bs ! j = be_bytes k v ! j"
    by (rule bit_word_eqI) (use assms(2) [OF j(1)] be_bytes_nth_bit [OF j(1)] j(2) in simp)
qed (simp add: assms)

lemma limbs_val_append: "limbs_val w (xs @ ys) = limbs_val w xs + 2 ^ (w * length xs) * limbs_val w ys"
  by (induction xs) (simp_all add: algebra_simps power_add)

lemma limbs_val_take_drop:
  "k \<le> length xs \<Longrightarrow> limbs_val w xs = limbs_val w (take k xs) + 2 ^ (w * k) * limbs_val w (drop k xs)"
  using limbs_val_append [of w "take k xs" "drop k xs"] by simp

lemma round_div: "0 < k \<Longrightarrow> v div 2 ^ k + of_bool (bit v (k - 1)) = (v + 2 ^ (k - 1)) div 2 ^ k" for v :: int
proof -
  assume "0 < k"
  then obtain j where k: "k = Suc j" by (cases k) auto
  have b: "bit v j \<longleftrightarrow> odd (v div 2 ^ j)" by (simp add: bit_iff_odd)
  have "(v + 2 ^ j) div 2 ^ k = ((v + 2 ^ j) div 2 ^ j) div 2"
    unfolding k power_Suc2 by (rule zdiv_zmult2_eq) simp
  also have "\<dots> = (v div 2 ^ j + 1) div 2" using div_mult_self1 [of "2 ^ j" v 1] by simp
  also have "\<dots> = (v div 2 ^ j) div 2 + of_bool (odd (v div 2 ^ j))"
    by (cases "even (v div 2 ^ j)") (auto elim!: evenE oddE)
  also have "(v div 2 ^ j) div 2 = v div 2 ^ k"
    unfolding k power_Suc2 by (rule zdiv_zmult2_eq [symmetric]) simp
  finally show ?thesis by (simp add: k b)
qed

lemma or_xor_eq_0: "(x XOR y) OR z = 0 \<longleftrightarrow> x = y \<and> z = 0" for x y z :: "'a::len word"
  by (auto simp: bit_eq_iff bit_or_iff bit_xor_iff)

lemma div_le_self_int: "0 \<le> a \<Longrightarrow> 0 < b \<Longrightarrow> a div b \<le> a" for a b :: int
  using zdiv_mono2 [of a 1 b] by simp

end
