(* ===== verification/Field.thy ===== *)
theory Field
  imports Prelude
begin

text \<open>
  The field interface \<^verbatim>\<open>field.h\<close>. It holds the field characteristic, the record \<open>field_ops\<close> of the operations that the
  representation independent code is compiled against, and the locale \<open>field_repr\<close> with
  the contract of these operations. The locale reads an element by its residue \<open>res\<close>; the
  two ghost fields of a \<^verbatim>\<open>VERIFY\<close> build, the magnitude and the flag \<^verbatim>\<open>normalized\<close>, are
  its predicates \<open>mag\<close> and \<open>norm\<close>.
\<close>

text \<open>The field characteristic \<open>2 ^ 256 - 0x1000003D1\<close>.\<close>

definition field_p :: int where
  "field_p = 0xFFFFFFFFFFFFFFFFFFFFFFFFFFFFFFFFFFFFFFFFFFFFFFFFFFFFFFFEFFFFFC2F"

text \<open>
  The operations of \<^verbatim>\<open>field.h\<close> that depend on the representation. A C function with an
  output pointer is a function that returns the new value; \<^verbatim>\<open>fe_set_b32\<close> also returns its
  status.
\<close>

record ('fe, 'st) field_ops =
  fe_normalize :: "'fe \<Rightarrow> 'fe"
  fe_normalize_weak :: "'fe \<Rightarrow> 'fe"
  fe_normalize_var :: "'fe \<Rightarrow> 'fe"
  fe_normalizes_to_zero :: "'fe \<Rightarrow> bool"
  fe_normalizes_to_zero_var :: "'fe \<Rightarrow> bool"
  fe_set_int :: "int \<Rightarrow> 'fe"
  fe_clear :: 'fe
  fe_is_zero :: "'fe \<Rightarrow> bool"
  fe_is_odd :: "'fe \<Rightarrow> bool"
  fe_cmp_var :: "'fe \<Rightarrow> 'fe \<Rightarrow> int"
  fe_set_b32 :: "u8 list \<Rightarrow> 'fe \<times> bool"
  fe_get_b32 :: "'fe \<Rightarrow> u8 list"
  fe_negate :: "'fe \<Rightarrow> int \<Rightarrow> 'fe"
  fe_mul_int :: "'fe \<Rightarrow> int \<Rightarrow> 'fe"
  fe_add :: "'fe \<Rightarrow> 'fe \<Rightarrow> 'fe"
  fe_mul :: "'fe \<Rightarrow> 'fe \<Rightarrow> 'fe"
  fe_sqr :: "'fe \<Rightarrow> 'fe"
  fe_cmov :: "'fe \<Rightarrow> 'fe \<Rightarrow> int \<Rightarrow> 'fe"
  fe_storage_cmov :: "'st \<Rightarrow> 'st \<Rightarrow> int \<Rightarrow> 'st"
  fe_to_storage :: "'fe \<Rightarrow> 'st"
  fe_from_storage :: "'st \<Rightarrow> 'fe"
  fe_const :: "u32 \<Rightarrow> u32 \<Rightarrow> u32 \<Rightarrow> u32 \<Rightarrow> u32 \<Rightarrow> u32 \<Rightarrow> u32 \<Rightarrow> u32 \<Rightarrow> 'fe"

section \<open>Reduction by at most one multiple of the characteristic\<close>

lemma field_p_pos [simp]: "0 < field_p"
  by (simp add: field_p_def)

lemma mod_minus_mult [simp]: "(a - m * k) mod m = a mod m" for a m k :: int
  using mod_diff_right_eq [of a "m * k" m] by simp

lemma field_mod_once:
  assumes "field_p \<le> v" "v < 2 ^ 256 + 2 ^ 241"
  shows "v mod field_p = v - field_p"
proof -
  have "v mod field_p = (v - field_p) mod field_p" by simp
  also have "\<dots> = v - field_p"
    using assms by (intro mod_pos_pos_trivial) (simp_all add: field_p_def)
  finally show ?thesis .
qed

lemma field_reduce_once:
  assumes "0 \<le> v" "v < 2 ^ 256 + 2 ^ 241"
  shows "(v + 0x1000003D1 * of_bool (field_p \<le> v)) mod 2 ^ 256 = v mod field_p"
proof (cases "field_p \<le> v")
  case True
  have "(v + 0x1000003D1) mod 2 ^ 256 = (v - field_p + 2 ^ 256) mod 2 ^ 256"
    by (simp add: field_p_def add.commute)
  also have "\<dots> = (v - field_p) mod 2 ^ 256"
    by (rule mod_add_self2)
  also have "\<dots> = v - field_p"
    using True assms by (intro mod_pos_pos_trivial) (simp_all add: field_p_def)
  finally show ?thesis using True field_mod_once [OF True assms(2)] by simp
next
  case False
  then show ?thesis using assms by (simp add: field_p_def)
qed

lemma field_mod_eq_0:
  assumes "0 \<le> v" "v < 2 ^ 256 + 2 ^ 241"
  shows "v mod field_p = 0 \<longleftrightarrow> v = 0 \<or> v = field_p"
proof (cases "field_p \<le> v")
  case True
  then show ?thesis using field_mod_once [OF True assms(2)] by (auto simp add: field_p_def)
next
  case False
  then show ?thesis using assms by (simp add: field_p_def)
qed

section \<open>The contract\<close>

locale field_repr =
  fixes F :: "('fe, 'st) field_ops"
    and res :: "'fe \<Rightarrow> int"
    and mag :: "int \<Rightarrow> 'fe \<Rightarrow> bool"
    and norm :: "'fe \<Rightarrow> bool"
    and sval :: "'st \<Rightarrow> int"
  assumes res_range: "0 \<le> res a" "res a < field_p"
    and mag_range: "mag m a \<Longrightarrow> 0 \<le> m \<and> m \<le> 31"
    and mag_mono: "mag m a \<Longrightarrow> m \<le> n \<Longrightarrow> n \<le> 31 \<Longrightarrow> mag n a"
    and norm_mag: "norm a \<Longrightarrow> mag 1 a"
    and norm_inj: "norm a \<Longrightarrow> norm b \<Longrightarrow> res a = res b \<Longrightarrow> a = b"
    and normalize: "mag m a \<Longrightarrow> res (fe_normalize F a) = res a \<and> norm (fe_normalize F a)"
    and normalize_weak:
      "mag m a \<Longrightarrow> res (fe_normalize_weak F a) = res a \<and> mag 1 (fe_normalize_weak F a)"
    and normalize_var: "mag m a \<Longrightarrow> fe_normalize_var F a = fe_normalize F a"
    and normalizes_to_zero: "mag m a \<Longrightarrow> fe_normalizes_to_zero F a \<longleftrightarrow> res a = 0"
    and normalizes_to_zero_var: "mag m a \<Longrightarrow> fe_normalizes_to_zero_var F a \<longleftrightarrow> res a = 0"
    and set_int: "0 \<le> k \<Longrightarrow> k \<le> 0x3FFFFFF \<Longrightarrow> res (fe_set_int F k) = k \<and> norm (fe_set_int F k)"
    and clear: "res (fe_clear F) = 0 \<and> norm (fe_clear F)"
    and is_zero: "norm a \<Longrightarrow> fe_is_zero F a \<longleftrightarrow> res a = 0"
    and is_odd: "norm a \<Longrightarrow> fe_is_odd F a \<longleftrightarrow> odd (res a)"
    and cmp_var: "norm a \<Longrightarrow> norm b \<Longrightarrow> fe_cmp_var F a b = sgn (res a - res b)"
    and set_b32: "length bs = 32 \<Longrightarrow> res (fst (fe_set_b32 F bs)) = be_val bs mod field_p \<and>
      mag 1 (fst (fe_set_b32 F bs)) \<and>
      (snd (fe_set_b32 F bs) \<longleftrightarrow> be_val bs < field_p) \<and>
      (be_val bs < field_p \<longrightarrow> norm (fst (fe_set_b32 F bs)))"
    and get_b32: "norm a \<Longrightarrow> fe_get_b32 F a = be_bytes 32 (res a)"
    and negate: "mag m a \<Longrightarrow> m \<le> 30 \<Longrightarrow>
      res (fe_negate F a m) = (- res a) mod field_p \<and> mag (m + 1) (fe_negate F a m)"
    and mul_int: "mag m a \<Longrightarrow> 0 \<le> k \<Longrightarrow> k \<le> 31 \<Longrightarrow> m * k \<le> 31 \<Longrightarrow>
      res (fe_mul_int F a k) = (res a * k) mod field_p \<and> mag (m * k) (fe_mul_int F a k)"
    and add: "mag m a \<Longrightarrow> mag n b \<Longrightarrow> m + n \<le> 31 \<Longrightarrow>
      res (fe_add F a b) = (res a + res b) mod field_p \<and> mag (m + n) (fe_add F a b)"
    and mul: "mag 8 a \<Longrightarrow> mag 8 b \<Longrightarrow>
      res (fe_mul F a b) = (res a * res b) mod field_p \<and> mag 1 (fe_mul F a b)"
    and sqr: "mag 8 a \<Longrightarrow> res (fe_sqr F a) = (res a * res a) mod field_p \<and> mag 1 (fe_sqr F a)"
    and cmov: "fe_cmov F a b (of_bool c) = (if c then b else a)"
    and storage_cmov: "fe_storage_cmov F s t (of_bool c) = (if c then t else s)"
    and to_storage: "norm a \<Longrightarrow> sval (fe_to_storage F a) = res a"
    and from_storage: "res (fe_from_storage F s) = sval s mod field_p \<and> mag 1 (fe_from_storage F s)"
    and storage_roundtrip: "norm a \<Longrightarrow> fe_from_storage F (fe_to_storage F a) = a"
    and const: "res (fe_const F d7 d6 d5 d4 d3 d2 d1 d0)
        = limbs_val 32 [d0, d1, d2, d3, d4, d5, d6, d7] mod field_p \<and>
      mag 1 (fe_const F d7 d6 d5 d4 d3 d2 d1 d0) \<and>
      (limbs_val 32 [d0, d1, d2, d3, d4, d5, d6, d7] < field_p \<longrightarrow>
        norm (fe_const F d7 d6 d5 d4 d3 d2 d1 d0))"

end
