(* ===== verification/Field_10x26.thy ===== *)
theory Field_10x26
  imports Field
begin

text \<open>
  The field representation compiled in (\<^verbatim>\<open>USE_FIELD_10X26\<close>): ten 32-bit limbs in
  radix \<open>2 ^ 26\<close>, from \<^verbatim>\<open>field_10x26.h\<close> and \<^verbatim>\<open>field_10x26_impl.h\<close>. Limbs may exceed
  26 bits; how far is their magnitude. Every statement of the C functions is one binding
  here, with the name of the assigned variable. A constant with the suffix
  \<^verbatim>\<open>UL\<close> is read at the width of the limbs: additions, multiplications and left
  shifts commute with the truncation of the assignment, and right shifts and comparisons
  are only applied to sums that stay below \<open>2 ^ 27\<close>.

  The lemmas show that no operation overflows within the magnitudes that
  \<^verbatim>\<open>field.h\<close> allows and compute the residue of each result, ending in the
  interpretation of the interface \<open>field_repr\<close>.
\<close>

section \<open>Data\<close>

record fe_10x26 =
  fe_n0 :: u32
  fe_n1 :: u32
  fe_n2 :: u32
  fe_n3 :: u32
  fe_n4 :: u32
  fe_n5 :: u32
  fe_n6 :: u32
  fe_n7 :: u32
  fe_n8 :: u32
  fe_n9 :: u32

record fe_storage_8x32 =
  fs_n0 :: u32
  fs_n1 :: u32
  fs_n2 :: u32
  fs_n3 :: u32
  fs_n4 :: u32
  fs_n5 :: u32
  fs_n6 :: u32
  fs_n7 :: u32

text \<open>The array view of the struct, for the loops that index it.\<close>

definition fe_limbs_10x26 :: "fe_10x26 \<Rightarrow> u32 list" where
  "fe_limbs_10x26 a =
    [fe_n0 a, fe_n1 a, fe_n2 a, fe_n3 a, fe_n4 a, fe_n5 a, fe_n6 a, fe_n7 a, fe_n8 a, fe_n9 a]"

definition fe_of_limbs_10x26 :: "u32 list \<Rightarrow> fe_10x26" where
  "fe_of_limbs_10x26 n =
    \<lparr>fe_n0 = n ! 0, fe_n1 = n ! 1, fe_n2 = n ! 2, fe_n3 = n ! 3, fe_n4 = n ! 4,
     fe_n5 = n ! 5, fe_n6 = n ! 6, fe_n7 = n ! 7, fe_n8 = n ! 8, fe_n9 = n ! 9\<rparr>"

definition fs_limbs_8x32 :: "fe_storage_8x32 \<Rightarrow> u32 list" where
  "fs_limbs_8x32 s = [fs_n0 s, fs_n1 s, fs_n2 s, fs_n3 s, fs_n4 s, fs_n5 s, fs_n6 s, fs_n7 s]"

text \<open>The integer a limb vector stands for, before reduction.\<close>

definition fe_val_10x26 :: "fe_10x26 \<Rightarrow> int" where
  "fe_val_10x26 a = limbs_val 26 (fe_limbs_10x26 a)"

definition fs_val_8x32 :: "fe_storage_8x32 \<Rightarrow> int" where
  "fs_val_8x32 s = limbs_val 32 (fs_limbs_8x32 s)"

text \<open>The limb bounds of \<^verbatim>\<open>secp256k1_fe_verify\<close> for a factor \<open>m\<close>.\<close>

definition fe_bounded_10x26 :: "int \<Rightarrow> fe_10x26 \<Rightarrow> bool" where
  "fe_bounded_10x26 m a \<longleftrightarrow>
    uint (fe_n0 a) \<le> 0x3FFFFFF * m \<and> uint (fe_n1 a) \<le> 0x3FFFFFF * m \<and>
    uint (fe_n2 a) \<le> 0x3FFFFFF * m \<and> uint (fe_n3 a) \<le> 0x3FFFFFF * m \<and>
    uint (fe_n4 a) \<le> 0x3FFFFFF * m \<and> uint (fe_n5 a) \<le> 0x3FFFFFF * m \<and>
    uint (fe_n6 a) \<le> 0x3FFFFFF * m \<and> uint (fe_n7 a) \<le> 0x3FFFFFF * m \<and>
    uint (fe_n8 a) \<le> 0x3FFFFFF * m \<and> uint (fe_n9 a) \<le> 0x3FFFFF * m"

text \<open>
  The test for a value of at least \<open>p\<close> on limbs of 26 bits, which \<^verbatim>\<open>fe_verify\<close>,
  \<^verbatim>\<open>fe_normalize\<close>, \<^verbatim>\<open>fe_normalize_var\<close> and \<^verbatim>\<open>fe_set_b32\<close> share.
\<close>

definition fe_ge_p_10x26 :: "fe_10x26 \<Rightarrow> bool" where
  "fe_ge_p_10x26 r \<longleftrightarrow>
    fe_n9 r = 0x3FFFFF \<and>
    fe_n2 r AND fe_n3 r AND fe_n4 r AND fe_n5 r AND fe_n6 r AND fe_n7 r AND fe_n8 r = 0x3FFFFFF \<and>
    0x3FFFFFF < fe_n1 r + 0x40 + drop_bit 26 (fe_n0 r + 0x3D1)"

definition fe_verify_10x26 :: "bool \<Rightarrow> int \<Rightarrow> fe_10x26 \<Rightarrow> bool" where
  "fe_verify_10x26 normalized magnitude a \<longleftrightarrow>
    fe_bounded_10x26 (if normalized then 1 else 2 * magnitude) a \<and> 0 \<le> magnitude \<and> magnitude \<le> 32 \<and>
    (normalized \<longrightarrow> magnitude \<le> 1 \<and> \<not> fe_ge_p_10x26 a)"

section \<open>Normalization\<close>

text \<open>One pass of carries from limb to limb.\<close>

definition fe_carry_10x26 :: "fe_10x26 \<Rightarrow> fe_10x26" where
  "fe_carry_10x26 r =
    (let
     t0 = fe_n0 r; t1 = fe_n1 r; t2 = fe_n2 r; t3 = fe_n3 r; t4 = fe_n4 r;
     t5 = fe_n5 r; t6 = fe_n6 r; t7 = fe_n7 r; t8 = fe_n8 r; t9 = fe_n9 r;
     t1 = t1 + drop_bit 26 t0; t0 = t0 AND 0x3FFFFFF;
     t2 = t2 + drop_bit 26 t1; t1 = t1 AND 0x3FFFFFF;
     t3 = t3 + drop_bit 26 t2; t2 = t2 AND 0x3FFFFFF;
     t4 = t4 + drop_bit 26 t3; t3 = t3 AND 0x3FFFFFF;
     t5 = t5 + drop_bit 26 t4; t4 = t4 AND 0x3FFFFFF;
     t6 = t6 + drop_bit 26 t5; t5 = t5 AND 0x3FFFFFF;
     t7 = t7 + drop_bit 26 t6; t6 = t6 AND 0x3FFFFFF;
     t8 = t8 + drop_bit 26 t7; t7 = t7 AND 0x3FFFFFF;
     t9 = t9 + drop_bit 26 t8; t8 = t8 AND 0x3FFFFFF
     in \<lparr>fe_n0 = t0, fe_n1 = t1, fe_n2 = t2, fe_n3 = t3, fe_n4 = t4,
       fe_n5 = t5, fe_n6 = t6, fe_n7 = t7, fe_n8 = t8, fe_n9 = t9\<rparr>)"

text \<open>
  The lines before the carries: \<open>x\<close> multiples of \<open>2 ^ 256\<close> are added back as
  \<open>x * 0x1000003D1\<close>.
\<close>

definition fe_fold_10x26 :: "u32 \<Rightarrow> fe_10x26 \<Rightarrow> fe_10x26" where
  "fe_fold_10x26 x r = r\<lparr>fe_n0 := fe_n0 r + x * 0x3D1, fe_n1 := fe_n1 r + push_bit 6 x\<rparr>"

text \<open>The first pass, common to all five functions.\<close>

definition fe_first_pass_10x26 :: "fe_10x26 \<Rightarrow> fe_10x26" where
  "fe_first_pass_10x26 r =
    (let x = drop_bit 22 (fe_n9 r) in
     fe_carry_10x26 (fe_fold_10x26 x (r\<lparr>fe_n9 := fe_n9 r AND 0x3FFFFF\<rparr>)))"

definition fe_normalize_weak_10x26 :: "fe_10x26 \<Rightarrow> fe_10x26" where
  "fe_normalize_weak_10x26 r = fe_first_pass_10x26 r"

definition fe_normalize_10x26 :: "fe_10x26 \<Rightarrow> fe_10x26" where
  "fe_normalize_10x26 r =
    (let t = fe_first_pass_10x26 r;
         x = drop_bit 22 (fe_n9 t) OR of_bool (fe_ge_p_10x26 t);
         t = fe_carry_10x26 (fe_fold_10x26 x t)
     in t\<lparr>fe_n9 := fe_n9 t AND 0x3FFFFF\<rparr>)"

definition fe_normalize_var_10x26 :: "fe_10x26 \<Rightarrow> fe_10x26" where
  "fe_normalize_var_10x26 r =
    (let t = fe_first_pass_10x26 r;
         x = drop_bit 22 (fe_n9 t) OR of_bool (fe_ge_p_10x26 t)
     in if x \<noteq> 0 then
          let t = fe_carry_10x26 (t\<lparr>fe_n0 := fe_n0 t + 0x3D1, fe_n1 := fe_n1 t + push_bit 6 x\<rparr>)
          in t\<lparr>fe_n9 := fe_n9 t AND 0x3FFFFF\<rparr>
        else t)"

definition fe_normalizes_to_zero_10x26 :: "fe_10x26 \<Rightarrow> bool" where
  "fe_normalizes_to_zero_10x26 r =
    (let t = fe_first_pass_10x26 r;
         z0 = fe_n0 t OR fe_n1 t OR fe_n2 t OR fe_n3 t OR fe_n4 t OR fe_n5 t OR fe_n6 t OR fe_n7 t
              OR fe_n8 t OR fe_n9 t;
         z1 = (fe_n0 t XOR 0x3D0) AND (fe_n1 t XOR 0x40) AND fe_n2 t AND fe_n3 t AND fe_n4 t
              AND fe_n5 t AND fe_n6 t AND fe_n7 t AND fe_n8 t AND (fe_n9 t XOR 0x3C00000)
     in z0 = 0 \<or> z1 = 0x3FFFFFF)"

definition fe_normalizes_to_zero_var_10x26 :: "fe_10x26 \<Rightarrow> bool" where
  "fe_normalizes_to_zero_var_10x26 r =
    (let t0 = fe_n0 r; t9 = fe_n9 r;
         x = drop_bit 22 t9;
         t0 = t0 + x * 0x3D1;
         z0 = t0 AND 0x3FFFFFF;
         z1 = z0 XOR 0x3D0
     in if z0 \<noteq> 0 \<and> z1 \<noteq> 0x3FFFFFF then False
        else
     let t1 = fe_n1 r; t2 = fe_n2 r; t3 = fe_n3 r; t4 = fe_n4 r;
         t5 = fe_n5 r; t6 = fe_n6 r; t7 = fe_n7 r; t8 = fe_n8 r;
         t9 = t9 AND 0x3FFFFF;
         t1 = t1 + push_bit 6 x;
         t1 = t1 + drop_bit 26 t0;
         t2 = t2 + drop_bit 26 t1; t1 = t1 AND 0x3FFFFFF; z0 = z0 OR t1; z1 = z1 AND (t1 XOR 0x40);
         t3 = t3 + drop_bit 26 t2; t2 = t2 AND 0x3FFFFFF; z0 = z0 OR t2; z1 = z1 AND t2;
         t4 = t4 + drop_bit 26 t3; t3 = t3 AND 0x3FFFFFF; z0 = z0 OR t3; z1 = z1 AND t3;
         t5 = t5 + drop_bit 26 t4; t4 = t4 AND 0x3FFFFFF; z0 = z0 OR t4; z1 = z1 AND t4;
         t6 = t6 + drop_bit 26 t5; t5 = t5 AND 0x3FFFFFF; z0 = z0 OR t5; z1 = z1 AND t5;
         t7 = t7 + drop_bit 26 t6; t6 = t6 AND 0x3FFFFFF; z0 = z0 OR t6; z1 = z1 AND t6;
         t8 = t8 + drop_bit 26 t7; t7 = t7 AND 0x3FFFFFF; z0 = z0 OR t7; z1 = z1 AND t7;
         t9 = t9 + drop_bit 26 t8; t8 = t8 AND 0x3FFFFFF; z0 = z0 OR t8; z1 = z1 AND t8;
         z0 = z0 OR t9; z1 = z1 AND (t9 XOR 0x3C00000)
     in z0 = 0 \<or> z1 = 0x3FFFFFF)"

section \<open>Setting, testing and comparing\<close>

definition fe_set_int_10x26 :: "int \<Rightarrow> fe_10x26" where
  "fe_set_int_10x26 a =
    \<lparr>fe_n0 = word_of_int a, fe_n1 = 0, fe_n2 = 0, fe_n3 = 0, fe_n4 = 0,
     fe_n5 = 0, fe_n6 = 0, fe_n7 = 0, fe_n8 = 0, fe_n9 = 0\<rparr>"

definition fe_is_zero_10x26 :: "fe_10x26 \<Rightarrow> bool" where
  "fe_is_zero_10x26 t \<longleftrightarrow>
    fe_n0 t OR fe_n1 t OR fe_n2 t OR fe_n3 t OR fe_n4 t OR fe_n5 t OR fe_n6 t OR fe_n7 t
    OR fe_n8 t OR fe_n9 t = 0"

definition fe_is_odd_10x26 :: "fe_10x26 \<Rightarrow> bool" where
  "fe_is_odd_10x26 a \<longleftrightarrow> fe_n0 a AND 1 \<noteq> 0"

definition fe_clear_10x26 :: fe_10x26 where
  "fe_clear_10x26 = fe_of_limbs_10x26 (replicate 10 0)"

definition fe_cmp_var_10x26 :: "fe_10x26 \<Rightarrow> fe_10x26 \<Rightarrow> int" where
  "fe_cmp_var_10x26 a b = limbs_cmp (rev (fe_limbs_10x26 a)) (rev (fe_limbs_10x26 b))"

section \<open>Byte strings\<close>

text \<open>
  The loop bodies over \<open>i\<close> and \<open>j\<close>; the byte arrays have 32 entries.
\<close>

definition fe_set_b32_step_10x26 :: "u8 list \<Rightarrow> nat \<times> nat \<Rightarrow> u32 list \<Rightarrow> u32 list" where
  "fe_set_b32_step_10x26 a = (\<lambda>(i, j) n.
    let limb = (8 * i + 2 * j) div 26;
        shift = (8 * i + 2 * j) mod 26
    in n[limb := n ! limb OR push_bit shift (ucast (drop_bit (2 * j) (a ! (31 - i)) AND 3))])"

definition fe_set_b32_10x26 :: "u8 list \<Rightarrow> fe_10x26 \<times> bool" where
  "fe_set_b32_10x26 a =
    (let r = fe_of_limbs_10x26
           (fold (fe_set_b32_step_10x26 a) (List.product [0..<32] [0..<4]) (replicate 10 0))
     in (r, \<not> fe_ge_p_10x26 r))"

definition fe_get_b32_byte_10x26 :: "u32 list \<Rightarrow> nat \<Rightarrow> u8" where
  "fe_get_b32_byte_10x26 n i =
    ucast (fold (\<lambda>j c.
      let limb = (8 * i + 2 * j) div 26;
          shift = (8 * i + 2 * j) mod 26
      in c OR push_bit (2 * j) (drop_bit shift (n ! limb) AND 3)) [0..<4] 0)"

definition fe_get_b32_10x26 :: "fe_10x26 \<Rightarrow> u8 list" where
  "fe_get_b32_10x26 a = rev (map (fe_get_b32_byte_10x26 (fe_limbs_10x26 a)) [0..<32])"

section \<open>Linear operations\<close>

definition fe_negate_10x26 :: "fe_10x26 \<Rightarrow> int \<Rightarrow> fe_10x26" where
  "fe_negate_10x26 a m =
    \<lparr>fe_n0 = 0x3FFFC2F * 2 * word_of_int (m + 1) - fe_n0 a,
     fe_n1 = 0x3FFFFBF * 2 * word_of_int (m + 1) - fe_n1 a,
     fe_n2 = 0x3FFFFFF * 2 * word_of_int (m + 1) - fe_n2 a,
     fe_n3 = 0x3FFFFFF * 2 * word_of_int (m + 1) - fe_n3 a,
     fe_n4 = 0x3FFFFFF * 2 * word_of_int (m + 1) - fe_n4 a,
     fe_n5 = 0x3FFFFFF * 2 * word_of_int (m + 1) - fe_n5 a,
     fe_n6 = 0x3FFFFFF * 2 * word_of_int (m + 1) - fe_n6 a,
     fe_n7 = 0x3FFFFFF * 2 * word_of_int (m + 1) - fe_n7 a,
     fe_n8 = 0x3FFFFFF * 2 * word_of_int (m + 1) - fe_n8 a,
     fe_n9 = 0x3FFFFF * 2 * word_of_int (m + 1) - fe_n9 a\<rparr>"

definition fe_mul_int_10x26 :: "fe_10x26 \<Rightarrow> int \<Rightarrow> fe_10x26" where
  "fe_mul_int_10x26 r a =
    \<lparr>fe_n0 = fe_n0 r * word_of_int a,
     fe_n1 = fe_n1 r * word_of_int a,
     fe_n2 = fe_n2 r * word_of_int a,
     fe_n3 = fe_n3 r * word_of_int a,
     fe_n4 = fe_n4 r * word_of_int a,
     fe_n5 = fe_n5 r * word_of_int a,
     fe_n6 = fe_n6 r * word_of_int a,
     fe_n7 = fe_n7 r * word_of_int a,
     fe_n8 = fe_n8 r * word_of_int a,
     fe_n9 = fe_n9 r * word_of_int a\<rparr>"

definition fe_add_10x26 :: "fe_10x26 \<Rightarrow> fe_10x26 \<Rightarrow> fe_10x26" where
  "fe_add_10x26 r a =
    \<lparr>fe_n0 = fe_n0 r + fe_n0 a,
     fe_n1 = fe_n1 r + fe_n1 a,
     fe_n2 = fe_n2 r + fe_n2 a,
     fe_n3 = fe_n3 r + fe_n3 a,
     fe_n4 = fe_n4 r + fe_n4 a,
     fe_n5 = fe_n5 r + fe_n5 a,
     fe_n6 = fe_n6 r + fe_n6 a,
     fe_n7 = fe_n7 r + fe_n7 a,
     fe_n8 = fe_n8 r + fe_n8 a,
     fe_n9 = fe_n9 r + fe_n9 a\<rparr>"

section \<open>Multiplication and squaring\<close>

text \<open>
  \<^verbatim>\<open>fe_mul_inner\<close> interleaves the sums \<open>p0\<close> to \<open>p18\<close> of its comments with one
  reduction step per sum. The sums are the list \<open>p\<close> below; the steps are the same in
  \<^verbatim>\<open>fe_sqr_inner\<close>.
\<close>

definition fe_mul_cols_10x26 :: "fe_10x26 \<Rightarrow> fe_10x26 \<Rightarrow> u64 list" where
  "fe_mul_cols_10x26 a b = [
      ucast (fe_n0 a) * ucast (fe_n0 b),
      ucast (fe_n0 a) * ucast (fe_n1 b) + ucast (fe_n1 a) * ucast (fe_n0 b),
      ucast (fe_n0 a) * ucast (fe_n2 b) + ucast (fe_n1 a) * ucast (fe_n1 b)
        + ucast (fe_n2 a) * ucast (fe_n0 b),
      ucast (fe_n0 a) * ucast (fe_n3 b) + ucast (fe_n1 a) * ucast (fe_n2 b)
        + ucast (fe_n2 a) * ucast (fe_n1 b) + ucast (fe_n3 a) * ucast (fe_n0 b),
      ucast (fe_n0 a) * ucast (fe_n4 b) + ucast (fe_n1 a) * ucast (fe_n3 b)
        + ucast (fe_n2 a) * ucast (fe_n2 b) + ucast (fe_n3 a) * ucast (fe_n1 b)
        + ucast (fe_n4 a) * ucast (fe_n0 b),
      ucast (fe_n0 a) * ucast (fe_n5 b) + ucast (fe_n1 a) * ucast (fe_n4 b)
        + ucast (fe_n2 a) * ucast (fe_n3 b) + ucast (fe_n3 a) * ucast (fe_n2 b)
        + ucast (fe_n4 a) * ucast (fe_n1 b) + ucast (fe_n5 a) * ucast (fe_n0 b),
      ucast (fe_n0 a) * ucast (fe_n6 b) + ucast (fe_n1 a) * ucast (fe_n5 b)
        + ucast (fe_n2 a) * ucast (fe_n4 b) + ucast (fe_n3 a) * ucast (fe_n3 b)
        + ucast (fe_n4 a) * ucast (fe_n2 b) + ucast (fe_n5 a) * ucast (fe_n1 b)
        + ucast (fe_n6 a) * ucast (fe_n0 b),
      ucast (fe_n0 a) * ucast (fe_n7 b) + ucast (fe_n1 a) * ucast (fe_n6 b)
        + ucast (fe_n2 a) * ucast (fe_n5 b) + ucast (fe_n3 a) * ucast (fe_n4 b)
        + ucast (fe_n4 a) * ucast (fe_n3 b) + ucast (fe_n5 a) * ucast (fe_n2 b)
        + ucast (fe_n6 a) * ucast (fe_n1 b) + ucast (fe_n7 a) * ucast (fe_n0 b),
      ucast (fe_n0 a) * ucast (fe_n8 b) + ucast (fe_n1 a) * ucast (fe_n7 b)
        + ucast (fe_n2 a) * ucast (fe_n6 b) + ucast (fe_n3 a) * ucast (fe_n5 b)
        + ucast (fe_n4 a) * ucast (fe_n4 b) + ucast (fe_n5 a) * ucast (fe_n3 b)
        + ucast (fe_n6 a) * ucast (fe_n2 b) + ucast (fe_n7 a) * ucast (fe_n1 b)
        + ucast (fe_n8 a) * ucast (fe_n0 b),
      ucast (fe_n0 a) * ucast (fe_n9 b) + ucast (fe_n1 a) * ucast (fe_n8 b)
        + ucast (fe_n2 a) * ucast (fe_n7 b) + ucast (fe_n3 a) * ucast (fe_n6 b)
        + ucast (fe_n4 a) * ucast (fe_n5 b) + ucast (fe_n5 a) * ucast (fe_n4 b)
        + ucast (fe_n6 a) * ucast (fe_n3 b) + ucast (fe_n7 a) * ucast (fe_n2 b)
        + ucast (fe_n8 a) * ucast (fe_n1 b) + ucast (fe_n9 a) * ucast (fe_n0 b),
      ucast (fe_n1 a) * ucast (fe_n9 b) + ucast (fe_n2 a) * ucast (fe_n8 b)
        + ucast (fe_n3 a) * ucast (fe_n7 b) + ucast (fe_n4 a) * ucast (fe_n6 b)
        + ucast (fe_n5 a) * ucast (fe_n5 b) + ucast (fe_n6 a) * ucast (fe_n4 b)
        + ucast (fe_n7 a) * ucast (fe_n3 b) + ucast (fe_n8 a) * ucast (fe_n2 b)
        + ucast (fe_n9 a) * ucast (fe_n1 b),
      ucast (fe_n2 a) * ucast (fe_n9 b) + ucast (fe_n3 a) * ucast (fe_n8 b)
        + ucast (fe_n4 a) * ucast (fe_n7 b) + ucast (fe_n5 a) * ucast (fe_n6 b)
        + ucast (fe_n6 a) * ucast (fe_n5 b) + ucast (fe_n7 a) * ucast (fe_n4 b)
        + ucast (fe_n8 a) * ucast (fe_n3 b) + ucast (fe_n9 a) * ucast (fe_n2 b),
      ucast (fe_n3 a) * ucast (fe_n9 b) + ucast (fe_n4 a) * ucast (fe_n8 b)
        + ucast (fe_n5 a) * ucast (fe_n7 b) + ucast (fe_n6 a) * ucast (fe_n6 b)
        + ucast (fe_n7 a) * ucast (fe_n5 b) + ucast (fe_n8 a) * ucast (fe_n4 b)
        + ucast (fe_n9 a) * ucast (fe_n3 b),
      ucast (fe_n4 a) * ucast (fe_n9 b) + ucast (fe_n5 a) * ucast (fe_n8 b)
        + ucast (fe_n6 a) * ucast (fe_n7 b) + ucast (fe_n7 a) * ucast (fe_n6 b)
        + ucast (fe_n8 a) * ucast (fe_n5 b) + ucast (fe_n9 a) * ucast (fe_n4 b),
      ucast (fe_n5 a) * ucast (fe_n9 b) + ucast (fe_n6 a) * ucast (fe_n8 b)
        + ucast (fe_n7 a) * ucast (fe_n7 b) + ucast (fe_n8 a) * ucast (fe_n6 b)
        + ucast (fe_n9 a) * ucast (fe_n5 b),
      ucast (fe_n6 a) * ucast (fe_n9 b) + ucast (fe_n7 a) * ucast (fe_n8 b)
        + ucast (fe_n8 a) * ucast (fe_n7 b) + ucast (fe_n9 a) * ucast (fe_n6 b),
      ucast (fe_n7 a) * ucast (fe_n9 b) + ucast (fe_n8 a) * ucast (fe_n8 b)
        + ucast (fe_n9 a) * ucast (fe_n7 b),
      ucast (fe_n8 a) * ucast (fe_n9 b) + ucast (fe_n9 a) * ucast (fe_n8 b),
      ucast (fe_n9 a) * ucast (fe_n9 b)]"

definition fe_sqr_cols_10x26 :: "fe_10x26 \<Rightarrow> u64 list" where
  "fe_sqr_cols_10x26 a = [
      ucast (fe_n0 a) * ucast (fe_n0 a),
      ucast (fe_n0 a * 2) * ucast (fe_n1 a),
      ucast (fe_n0 a * 2) * ucast (fe_n2 a) + ucast (fe_n1 a) * ucast (fe_n1 a),
      ucast (fe_n0 a * 2) * ucast (fe_n3 a) + ucast (fe_n1 a * 2) * ucast (fe_n2 a),
      ucast (fe_n0 a * 2) * ucast (fe_n4 a) + ucast (fe_n1 a * 2) * ucast (fe_n3 a)
        + ucast (fe_n2 a) * ucast (fe_n2 a),
      ucast (fe_n0 a * 2) * ucast (fe_n5 a) + ucast (fe_n1 a * 2) * ucast (fe_n4 a)
        + ucast (fe_n2 a * 2) * ucast (fe_n3 a),
      ucast (fe_n0 a * 2) * ucast (fe_n6 a) + ucast (fe_n1 a * 2) * ucast (fe_n5 a)
        + ucast (fe_n2 a * 2) * ucast (fe_n4 a) + ucast (fe_n3 a) * ucast (fe_n3 a),
      ucast (fe_n0 a * 2) * ucast (fe_n7 a) + ucast (fe_n1 a * 2) * ucast (fe_n6 a)
        + ucast (fe_n2 a * 2) * ucast (fe_n5 a) + ucast (fe_n3 a * 2) * ucast (fe_n4 a),
      ucast (fe_n0 a * 2) * ucast (fe_n8 a) + ucast (fe_n1 a * 2) * ucast (fe_n7 a)
        + ucast (fe_n2 a * 2) * ucast (fe_n6 a) + ucast (fe_n3 a * 2) * ucast (fe_n5 a)
        + ucast (fe_n4 a) * ucast (fe_n4 a),
      ucast (fe_n0 a * 2) * ucast (fe_n9 a) + ucast (fe_n1 a * 2) * ucast (fe_n8 a)
        + ucast (fe_n2 a * 2) * ucast (fe_n7 a) + ucast (fe_n3 a * 2) * ucast (fe_n6 a)
        + ucast (fe_n4 a * 2) * ucast (fe_n5 a),
      ucast (fe_n1 a * 2) * ucast (fe_n9 a) + ucast (fe_n2 a * 2) * ucast (fe_n8 a)
        + ucast (fe_n3 a * 2) * ucast (fe_n7 a) + ucast (fe_n4 a * 2) * ucast (fe_n6 a)
        + ucast (fe_n5 a) * ucast (fe_n5 a),
      ucast (fe_n2 a * 2) * ucast (fe_n9 a) + ucast (fe_n3 a * 2) * ucast (fe_n8 a)
        + ucast (fe_n4 a * 2) * ucast (fe_n7 a) + ucast (fe_n5 a * 2) * ucast (fe_n6 a),
      ucast (fe_n3 a * 2) * ucast (fe_n9 a) + ucast (fe_n4 a * 2) * ucast (fe_n8 a)
        + ucast (fe_n5 a * 2) * ucast (fe_n7 a) + ucast (fe_n6 a) * ucast (fe_n6 a),
      ucast (fe_n4 a * 2) * ucast (fe_n9 a) + ucast (fe_n5 a * 2) * ucast (fe_n8 a)
        + ucast (fe_n6 a * 2) * ucast (fe_n7 a),
      ucast (fe_n5 a * 2) * ucast (fe_n9 a) + ucast (fe_n6 a * 2) * ucast (fe_n8 a)
        + ucast (fe_n7 a) * ucast (fe_n7 a),
      ucast (fe_n6 a * 2) * ucast (fe_n9 a) + ucast (fe_n7 a * 2) * ucast (fe_n8 a),
      ucast (fe_n7 a * 2) * ucast (fe_n9 a) + ucast (fe_n8 a) * ucast (fe_n8 a),
      ucast (fe_n8 a * 2) * ucast (fe_n9 a),
      ucast (fe_n9 a) * ucast (fe_n9 a)]"

text \<open>
  The repeated step: the low limb \<open>u\<close> of \<open>d\<close> is moved down by \<open>2 ^ 260\<close> with
  \<open>R0 = 0x3D10\<close> and \<open>R1 = 0x400\<close>, and one limb leaves \<open>c\<close>.
\<close>

definition fe_mul_step_10x26 :: "u64 \<Rightarrow> u64 \<Rightarrow> u32 \<times> u64 \<times> u64" where
  "fe_mul_step_10x26 c d =
    (let u = d AND 0x3FFFFFF; d = drop_bit 26 d; c = c + u * 0x3D10;
         t = ucast (c AND 0x3FFFFFF); c = drop_bit 26 c; c = c + u * 0x400
     in (t, c, d))"

text \<open>The lines after the last step, from \<^verbatim>\<open>c += d * R0 + t9\<close> on.\<close>

definition fe_mul_tail_10x26 ::
    "u64 \<Rightarrow> u64 \<Rightarrow> u32 \<Rightarrow> u32 \<Rightarrow> u32 \<Rightarrow> u32 \<Rightarrow> u32 \<times> u32 \<times> u32 \<times> u32" where
  "fe_mul_tail_10x26 c d t9 t0 t1 t2 =
    (let c = c + d * 0x3D10 + ucast t9;
         r9 = ucast (c AND 0x3FFFFF); c = drop_bit 22 c; c = c + d * 0x4000;
         d = c * 0x3D1 + ucast t0;
         r0 = ucast (d AND 0x3FFFFFF); d = drop_bit 26 d;
         d = d + (c * 0x40 + ucast t1);
         r1 = ucast (d AND 0x3FFFFFF); d = drop_bit 26 d;
         d = d + ucast t2;
         r2 = ucast d
     in (r0, r1, r2, r9))"

definition fe_reduce_cols_10x26 :: "u64 list \<Rightarrow> fe_10x26" where
  "fe_reduce_cols_10x26 p =
    (let d = p ! 9;
         t9 = ucast (d AND 0x3FFFFFF); d = drop_bit 26 d;
         c = p ! 0; d = d + p ! 10; (t0, c, d) = fe_mul_step_10x26 c d;
         c = c + p ! 1; d = d + p ! 11; (t1, c, d) = fe_mul_step_10x26 c d;
         c = c + p ! 2; d = d + p ! 12; (t2, c, d) = fe_mul_step_10x26 c d;
         c = c + p ! 3; d = d + p ! 13; (t3, c, d) = fe_mul_step_10x26 c d;
         c = c + p ! 4; d = d + p ! 14; (t4, c, d) = fe_mul_step_10x26 c d;
         c = c + p ! 5; d = d + p ! 15; (t5, c, d) = fe_mul_step_10x26 c d;
         c = c + p ! 6; d = d + p ! 16; (t6, c, d) = fe_mul_step_10x26 c d;
         c = c + p ! 7; d = d + p ! 17; (t7, c, d) = fe_mul_step_10x26 c d;
         c = c + p ! 8; d = d + p ! 18; (r8, c, d) = fe_mul_step_10x26 c d;
         (r0, r1, r2, r9) = fe_mul_tail_10x26 c d t9 t0 t1 t2
     in \<lparr>fe_n0 = r0, fe_n1 = r1, fe_n2 = r2, fe_n3 = t3, fe_n4 = t4,
       fe_n5 = t5, fe_n6 = t6, fe_n7 = t7, fe_n8 = r8, fe_n9 = r9\<rparr>)"

definition fe_mul_inner_10x26 :: "fe_10x26 \<Rightarrow> fe_10x26 \<Rightarrow> fe_10x26" where
  "fe_mul_inner_10x26 a b = fe_reduce_cols_10x26 (fe_mul_cols_10x26 a b)"

definition fe_sqr_inner_10x26 :: "fe_10x26 \<Rightarrow> fe_10x26" where
  "fe_sqr_inner_10x26 a = fe_reduce_cols_10x26 (fe_sqr_cols_10x26 a)"

definition fe_mul_10x26 :: "fe_10x26 \<Rightarrow> fe_10x26 \<Rightarrow> fe_10x26" where
  "fe_mul_10x26 a b = fe_mul_inner_10x26 a b"

definition fe_sqr_10x26 :: "fe_10x26 \<Rightarrow> fe_10x26" where
  "fe_sqr_10x26 a = fe_sqr_inner_10x26 a"

section \<open>Conditional moves and storage\<close>

definition fe_cmov_10x26 :: "fe_10x26 \<Rightarrow> fe_10x26 \<Rightarrow> int \<Rightarrow> fe_10x26" where
  "fe_cmov_10x26 r a flag =
    (let mask0 = word_of_int flag + NOT 0; mask1 = NOT mask0 in
    \<lparr>fe_n0 = (fe_n0 r AND mask0) OR (fe_n0 a AND mask1),
     fe_n1 = (fe_n1 r AND mask0) OR (fe_n1 a AND mask1),
     fe_n2 = (fe_n2 r AND mask0) OR (fe_n2 a AND mask1),
     fe_n3 = (fe_n3 r AND mask0) OR (fe_n3 a AND mask1),
     fe_n4 = (fe_n4 r AND mask0) OR (fe_n4 a AND mask1),
     fe_n5 = (fe_n5 r AND mask0) OR (fe_n5 a AND mask1),
     fe_n6 = (fe_n6 r AND mask0) OR (fe_n6 a AND mask1),
     fe_n7 = (fe_n7 r AND mask0) OR (fe_n7 a AND mask1),
     fe_n8 = (fe_n8 r AND mask0) OR (fe_n8 a AND mask1),
     fe_n9 = (fe_n9 r AND mask0) OR (fe_n9 a AND mask1)\<rparr>)"

definition fe_storage_cmov_8x32 ::
    "fe_storage_8x32 \<Rightarrow> fe_storage_8x32 \<Rightarrow> int \<Rightarrow> fe_storage_8x32" where
  "fe_storage_cmov_8x32 r a flag =
    (let mask0 = word_of_int flag + NOT 0; mask1 = NOT mask0 in
    \<lparr>fs_n0 = (fs_n0 r AND mask0) OR (fs_n0 a AND mask1),
     fs_n1 = (fs_n1 r AND mask0) OR (fs_n1 a AND mask1),
     fs_n2 = (fs_n2 r AND mask0) OR (fs_n2 a AND mask1),
     fs_n3 = (fs_n3 r AND mask0) OR (fs_n3 a AND mask1),
     fs_n4 = (fs_n4 r AND mask0) OR (fs_n4 a AND mask1),
     fs_n5 = (fs_n5 r AND mask0) OR (fs_n5 a AND mask1),
     fs_n6 = (fs_n6 r AND mask0) OR (fs_n6 a AND mask1),
     fs_n7 = (fs_n7 r AND mask0) OR (fs_n7 a AND mask1)\<rparr>)"

definition fe_to_storage_10x26 :: "fe_10x26 \<Rightarrow> fe_storage_8x32" where
  "fe_to_storage_10x26 a =
    \<lparr>fs_n0 = fe_n0 a OR push_bit 26 (fe_n1 a),
     fs_n1 = drop_bit 6 (fe_n1 a) OR push_bit 20 (fe_n2 a),
     fs_n2 = drop_bit 12 (fe_n2 a) OR push_bit 14 (fe_n3 a),
     fs_n3 = drop_bit 18 (fe_n3 a) OR push_bit 8 (fe_n4 a),
     fs_n4 = drop_bit 24 (fe_n4 a) OR push_bit 2 (fe_n5 a) OR push_bit 28 (fe_n6 a),
     fs_n5 = drop_bit 4 (fe_n6 a) OR push_bit 22 (fe_n7 a),
     fs_n6 = drop_bit 10 (fe_n7 a) OR push_bit 16 (fe_n8 a),
     fs_n7 = drop_bit 16 (fe_n8 a) OR push_bit 10 (fe_n9 a)\<rparr>"

definition fe_from_storage_10x26 :: "fe_storage_8x32 \<Rightarrow> fe_10x26" where
  "fe_from_storage_10x26 a =
    \<lparr>fe_n0 = fs_n0 a AND 0x3FFFFFF,
     fe_n1 = drop_bit 26 (fs_n0 a) OR (push_bit 6 (fs_n1 a) AND 0x3FFFFFF),
     fe_n2 = drop_bit 20 (fs_n1 a) OR (push_bit 12 (fs_n2 a) AND 0x3FFFFFF),
     fe_n3 = drop_bit 14 (fs_n2 a) OR (push_bit 18 (fs_n3 a) AND 0x3FFFFFF),
     fe_n4 = drop_bit 8 (fs_n3 a) OR (push_bit 24 (fs_n4 a) AND 0x3FFFFFF),
     fe_n5 = drop_bit 2 (fs_n4 a) AND 0x3FFFFFF,
     fe_n6 = drop_bit 28 (fs_n4 a) OR (push_bit 4 (fs_n5 a) AND 0x3FFFFFF),
     fe_n7 = drop_bit 22 (fs_n5 a) OR (push_bit 10 (fs_n6 a) AND 0x3FFFFFF),
     fe_n8 = drop_bit 16 (fs_n6 a) OR (push_bit 16 (fs_n7 a) AND 0x3FFFFFF),
     fe_n9 = drop_bit 10 (fs_n7 a)\<rparr>"

text \<open>The constant macro, on eight 32-bit words from the most significant one.\<close>

definition fe_const_10x26 :: "u32 \<Rightarrow> u32 \<Rightarrow> u32 \<Rightarrow> u32 \<Rightarrow> u32 \<Rightarrow> u32 \<Rightarrow> u32 \<Rightarrow> u32 \<Rightarrow> fe_10x26" where
  "fe_const_10x26 d7 d6 d5 d4 d3 d2 d1 d0 =
    \<lparr>fe_n0 = d0 AND 0x3FFFFFF,
     fe_n1 = drop_bit 26 d0 OR push_bit 6 (d1 AND 0xFFFFF),
     fe_n2 = drop_bit 20 d1 OR push_bit 12 (d2 AND 0x3FFF),
     fe_n3 = drop_bit 14 d2 OR push_bit 18 (d3 AND 0xFF),
     fe_n4 = drop_bit 8 d3 OR push_bit 24 (d4 AND 0x3),
     fe_n5 = drop_bit 2 d4 AND 0x3FFFFFF,
     fe_n6 = drop_bit 28 d4 OR push_bit 4 (d5 AND 0x3FFFFF),
     fe_n7 = drop_bit 22 d5 OR push_bit 10 (d6 AND 0xFFFF),
     fe_n8 = drop_bit 16 d6 OR push_bit 16 (d7 AND 0x3FF),
     fe_n9 = drop_bit 10 d7\<rparr>"

section \<open>The representation as field operations\<close>

definition F10x26 :: "(fe_10x26, fe_storage_8x32) field_ops" where
  "F10x26 = \<lparr>
    fe_normalize = fe_normalize_10x26,
    fe_normalize_weak = fe_normalize_weak_10x26,
    fe_normalize_var = fe_normalize_var_10x26,
    fe_normalizes_to_zero = fe_normalizes_to_zero_10x26,
    fe_normalizes_to_zero_var = fe_normalizes_to_zero_var_10x26,
    fe_set_int = fe_set_int_10x26,
    fe_clear = fe_clear_10x26,
    fe_is_zero = fe_is_zero_10x26,
    fe_is_odd = fe_is_odd_10x26,
    fe_cmp_var = fe_cmp_var_10x26,
    fe_set_b32 = fe_set_b32_10x26,
    fe_get_b32 = fe_get_b32_10x26,
    fe_negate = fe_negate_10x26,
    fe_mul_int = fe_mul_int_10x26,
    fe_add = fe_add_10x26,
    fe_mul = fe_mul_10x26,
    fe_sqr = fe_sqr_10x26,
    fe_cmov = fe_cmov_10x26,
    fe_storage_cmov = fe_storage_cmov_8x32,
    fe_to_storage = fe_to_storage_10x26,
    fe_from_storage = fe_from_storage_10x26,
    fe_const = fe_const_10x26\<rparr>"

definition fe_res_10x26 :: "fe_10x26 \<Rightarrow> int" where
  "fe_res_10x26 a = fe_val_10x26 a mod field_p"

text \<open>
  Magnitudes up to 31. \<^verbatim>\<open>fe_verify\<close> admits 32, where the first addition of
  \<^verbatim>\<open>fe_normalize\<close> may overflow its 32 bits.
\<close>

definition fe_mag_10x26 :: "int \<Rightarrow> fe_10x26 \<Rightarrow> bool" where
  "fe_mag_10x26 m a \<longleftrightarrow> m \<le> 31 \<and> fe_verify_10x26 False m a"

definition fe_norm_10x26 :: "fe_10x26 \<Rightarrow> bool" where
  "fe_norm_10x26 a \<longleftrightarrow> fe_verify_10x26 True 1 a"

text \<open>What the first pass leaves: limbs of 26 bits and at most one bit above bit 255.\<close>

definition fe_weak_10x26 :: "fe_10x26 \<Rightarrow> bool" where
  "fe_weak_10x26 t \<longleftrightarrow> fe_bounded_10x26 1 (t\<lparr>fe_n9 := 0\<rparr>) \<and> fe_val_10x26 t < 0x10002000000000000000000000000000000000000000000000000000000000000"

section \<open>Limbs and values\<close>

lemma fe_val_expand_10x26:
  "fe_val_10x26 a = uint (fe_n0 a)
    + 0x4000000 * uint (fe_n1 a)
    + 0x10000000000000 * uint (fe_n2 a)
    + 0x40000000000000000000 * uint (fe_n3 a)
    + 0x100000000000000000000000000 * uint (fe_n4 a)
    + 0x400000000000000000000000000000000 * uint (fe_n5 a)
    + 0x1000000000000000000000000000000000000000 * uint (fe_n6 a)
    + 0x4000000000000000000000000000000000000000000000 * uint (fe_n7 a)
    + 0x10000000000000000000000000000000000000000000000000000 * uint (fe_n8 a)
    + 0x40000000000000000000000000000000000000000000000000000000000 * uint (fe_n9 a)"
  by (simp add: fe_val_10x26_def fe_limbs_10x26_def)

lemma fe_limbs_nonneg_10x26:
  fixes a :: fe_10x26
  shows     "0 \<le> uint (fe_n0 a)"
    "0 \<le> uint (fe_n1 a)"
    "0 \<le> uint (fe_n2 a)"
    "0 \<le> uint (fe_n3 a)"
    "0 \<le> uint (fe_n4 a)"
    "0 \<le> uint (fe_n5 a)"
    "0 \<le> uint (fe_n6 a)"
    "0 \<le> uint (fe_n7 a)"
    "0 \<le> uint (fe_n8 a)"
    "0 \<le> uint (fe_n9 a)"
  by simp_all

lemma uint_and_M26 [simp]: "uint (x AND 0x3FFFFFF) = uint x mod 0x4000000" for x :: "'a::len word"
  using uint_and_mask [of x 26] by (simp add: mask_eq_exp_minus_1)

lemma uint_and_M22 [simp]: "uint (x AND 0x3FFFFF) = uint x mod 0x400000" for x :: "'a::len word"
  using uint_and_mask [of x 22] by (simp add: mask_eq_exp_minus_1)

lemma fe_val_inj_10x26:
  "fe_bounded_10x26 1 a \<Longrightarrow> fe_bounded_10x26 1 b \<Longrightarrow> fe_val_10x26 a = fe_val_10x26 b \<Longrightarrow> a = b"
  using limbs_val_inj [of "fe_limbs_10x26 a" "fe_limbs_10x26 b" 26]
  by (simp add: fe_val_10x26_def fe_bounded_10x26_def fe_limbs_10x26_def)

lemma fe_of_limbs_inverse_10x26 [simp]: "length n = 10 \<Longrightarrow> fe_limbs_10x26 (fe_of_limbs_10x26 n) = n"
  by (auto simp add: fe_limbs_10x26_def fe_of_limbs_10x26_def numeral_eq_Suc length_Suc_conv)

lemma fe_bounded_limbs_10x26:
  "fe_bounded_10x26 1 a \<longleftrightarrow> (\<forall>x \<in> set (fe_limbs_10x26 a). uint x < 2 ^ 26) \<and> uint (fe_n9 a) < 2 ^ 22"
  by (auto simp add: fe_bounded_10x26_def fe_limbs_10x26_def)

lemma fe_bounded_limbs_of_10x26:
  assumes "0 \<le> v" "v < 2 ^ 256"
  shows "fe_val_10x26 (fe_of_limbs_10x26 (limbs_of 26 10 v)) = v"
    "fe_bounded_10x26 1 (fe_of_limbs_10x26 (limbs_of 26 10 v))"
proof -
  show "fe_val_10x26 (fe_of_limbs_10x26 (limbs_of 26 10 v)) = v"
    using assms by (simp add: fe_val_10x26_def limbs_val_limbs_of take_bit_int_eq_self)
  have "fe_n9 (fe_of_limbs_10x26 (limbs_of 26 10 v)) = word_of_int (take_bit 26 (drop_bit 234 v))"
    by (simp add: fe_of_limbs_10x26_def limbs_of_def)
  moreover have "0 \<le> drop_bit 234 v" "drop_bit 234 v < 2 ^ 22"
    using assms zdiv_mono1 [of v "2 ^ 256 - 1" "2 ^ 234"] by (simp_all add: drop_bit_eq_div)
  ultimately have "uint (fe_n9 (fe_of_limbs_10x26 (limbs_of 26 10 v))) < 2 ^ 22"
    by (simp add: uint_word_of_int take_bit_eq_mod)
  then show "fe_bounded_10x26 1 (fe_of_limbs_10x26 (limbs_of 26 10 v))"
    using limbs_of_less [where 'a = 32 and w = 26 and k = 10 and v = v]
    by (simp add: fe_bounded_limbs_10x26)
qed

lemma fe_limbs_eq_10x26:
  assumes "fe_bounded_10x26 1 a"
  shows "fe_limbs_10x26 a = limbs_of 26 10 (fe_val_10x26 a)"
proof -
  have "length (fe_limbs_10x26 a) = 10" by (simp add: fe_limbs_10x26_def)
  then show ?thesis
    using assms limbs_of_limbs_val [of "fe_limbs_10x26 a" 26]
    by (simp add: fe_bounded_limbs_10x26 fe_val_10x26_def)
qed

lemma mask_26_word: "(0x3FFFFFF :: u32) = mask 26" by (simp add: mask_eq_exp_minus_1)

section \<open>Correctness of the normalization functions\<close>

lemma fe_limbs_carry_10x26:
  "fe_limbs_10x26 (fe_carry_10x26 r) = limbs_carry 26 0 (fe_limbs_10x26 r)"
  by (simp add: fe_limbs_10x26_def fe_carry_10x26_def Let_def mask_eq_exp_minus_1)

lemma fe_val_carry_10x26:
  assumes "fe_bounded_10x26 63 r"
  shows "fe_val_10x26 (fe_carry_10x26 r) = fe_val_10x26 r"
  using assms limbs_val_carry [of "fe_n0 r" 0 26 "tl (fe_limbs_10x26 r)"] 
  unfolding fe_val_10x26_def fe_limbs_carry_10x26 fe_bounded_10x26_def
  by (simp add: fe_limbs_10x26_def)

lemma fe_carry_less_10x26:
  "uint (fe_n0 (fe_carry_10x26 r)) < 0x4000000"
  "uint (fe_n1 (fe_carry_10x26 r)) < 0x4000000"
  "uint (fe_n2 (fe_carry_10x26 r)) < 0x4000000"
  "uint (fe_n3 (fe_carry_10x26 r)) < 0x4000000"
  "uint (fe_n4 (fe_carry_10x26 r)) < 0x4000000"
  "uint (fe_n5 (fe_carry_10x26 r)) < 0x4000000"
  "uint (fe_n6 (fe_carry_10x26 r)) < 0x4000000"
  "uint (fe_n7 (fe_carry_10x26 r)) < 0x4000000"
  "uint (fe_n8 (fe_carry_10x26 r)) < 0x4000000"
  using limbs_carry_less [of _ 26 0 "fe_limbs_10x26 r"]
  unfolding fe_limbs_carry_10x26 [symmetric]
  by (simp_all add: fe_limbs_10x26_def)

lemma fe_val_fold_10x26:
  assumes "fe_bounded_10x26 m r" "m \<le> 62" "uint x \<le> 63"
  shows "fe_val_10x26 (fe_fold_10x26 x r) = fe_val_10x26 r + 0x1000003D1 * uint x"
    "fe_bounded_10x26 63 (fe_fold_10x26 x r)"
proof -
  have "uint (fe_n0 r + x * 0x3D1) = uint (fe_n0 r) + uint x * 0x3D1"
    using assms by (simp add: fe_bounded_10x26_def uint_add_noov uint_mult_noov)
  moreover have "uint (fe_n1 r + push_bit 6 x) = uint (fe_n1 r) + uint x * 0x40"
    using assms by (simp add: fe_bounded_10x26_def uint_add_noov uint_push_bit_noov)
  ultimately show "fe_val_10x26 (fe_fold_10x26 x r) = fe_val_10x26 r + 0x1000003D1 * uint x"
    "fe_bounded_10x26 63 (fe_fold_10x26 x r)"
    using assms by (simp_all add: fe_val_expand_10x26 fe_fold_10x26_def fe_bounded_10x26_def)
qed

lemma fe_weak_carry_10x26:
  "fe_val_10x26 (fe_carry_10x26 r) < 0x10002000000000000000000000000000000000000000000000000000000000000 \<Longrightarrow> fe_weak_10x26 (fe_carry_10x26 r)"
  using fe_carry_less_10x26 [of r] by (simp add: fe_weak_10x26_def fe_bounded_10x26_def)

lemma fe_first_pass_10x26:
  assumes "fe_bounded_10x26 m r" "m \<le> 62"
  shows "fe_val_10x26 (fe_first_pass_10x26 r) = fe_val_10x26 r - field_p * (uint (fe_n9 r) div 2 ^ 22)"
    "fe_weak_10x26 (fe_first_pass_10x26 r)"
proof -
  define x where "x = drop_bit 22 (fe_n9 r)"
  define s where "s = r\<lparr>fe_n9 := fe_n9 r AND 0x3FFFFF\<rparr>"
  have x: "uint x = uint (fe_n9 r) div 2 ^ 22" "uint x \<le> 63"
    using assms by (auto simp add: x_def uint_drop_bit fe_bounded_10x26_def)
  have s: "fe_bounded_10x26 m s"
    using assms zmod_le_nonneg_dividend [of "uint (fe_n9 r)" "0x400000"]
    by (simp add: s_def fe_bounded_10x26_def)
  have n9: "uint (fe_n9 s) < 0x400000"
    by (simp add: s_def)
  have t: "fe_first_pass_10x26 r = fe_carry_10x26 (fe_fold_10x26 x s)"
    by (simp add: fe_first_pass_10x26_def x_def s_def Let_def)
  have v: "fe_val_10x26 (fe_first_pass_10x26 r) = fe_val_10x26 s + 0x1000003D1 * uint x"
    unfolding t using fe_val_fold_10x26 [OF s assms(2) x(2)] by (simp add: fe_val_carry_10x26)
  have "fe_val_10x26 s = fe_val_10x26 r - 2 ^ 256 * (uint (fe_n9 r) div 2 ^ 22)"
    by (simp add: fe_val_expand_10x26 s_def algebra_simps flip: minus_div_mult_eq_mod)
  then show "fe_val_10x26 (fe_first_pass_10x26 r) = fe_val_10x26 r - field_p * (uint (fe_n9 r) div 2 ^ 22)"
    using v x by (simp add: field_p_def)
  have "fe_val_10x26 s < 0x10001000000000000000000000000000000000000000000000000000000000000"
    using s assms(2) n9 by (simp add: fe_val_expand_10x26 fe_bounded_10x26_def)
  then show "fe_weak_10x26 (fe_first_pass_10x26 r)"
    using v x unfolding t by (intro fe_weak_carry_10x26) simp
qed

lemma fe_ge_p_10x26:
  assumes "fe_bounded_10x26 1 t"
  shows "fe_ge_p_10x26 t \<longleftrightarrow> field_p \<le> fe_val_10x26 t"
proof -
  have b: "uint (fe_n0 t) < 2 ^ 26" "uint (fe_n1 t) < 2 ^ 26" "uint (fe_n2 t) < 2 ^ 26"
    "uint (fe_n3 t) < 2 ^ 26" "uint (fe_n4 t) < 2 ^ 26" "uint (fe_n5 t) < 2 ^ 26"
    "uint (fe_n6 t) < 2 ^ 26" "uint (fe_n7 t) < 2 ^ 26" "uint (fe_n8 t) < 2 ^ 26" "uint (fe_n9 t) < 2 ^ 22"
    using assms by (simp_all add: fe_bounded_10x26_def)
  have M: "(0x3FFFFFF :: u32) = mask 26" "(x = mask 26 \<longleftrightarrow> uint x = 0x3FFFFFF)" for x :: u32
    by (simp_all add: mask_eq_exp_minus_1 word_uint_eq_iff)
  have M8: "fe_n8 t AND mask 26 = mask 26 \<longleftrightarrow> fe_n8 t = mask 26"
    using word_and_eq_full [OF b(9), of "mask 26"] by (simp only: and.idem simp_thms)
  have mid: "fe_n2 t AND fe_n3 t AND fe_n4 t AND fe_n5 t AND fe_n6 t AND fe_n7 t AND fe_n8 t = 0x3FFFFFF
    \<longleftrightarrow> uint (fe_n2 t) = 0x3FFFFFF \<and> uint (fe_n3 t) = 0x3FFFFFF \<and> uint (fe_n4 t) = 0x3FFFFFF \<and>
      uint (fe_n5 t) = 0x3FFFFFF \<and> uint (fe_n6 t) = 0x3FFFFFF \<and> uint (fe_n7 t) = 0x3FFFFFF \<and>
      uint (fe_n8 t) = 0x3FFFFFF"
    by (simp only: M(1) and.assoc and.idem word_and_eq_full [OF b(3)] word_and_eq_full [OF b(4)]
      word_and_eq_full [OF b(5)] word_and_eq_full [OF b(6)] word_and_eq_full [OF b(7)]
      word_and_eq_full [OF b(8)] M8) (simp only: M(2))
  have lo: "0x3FFFFFF < fe_n1 t + 0x40 + drop_bit 26 (fe_n0 t + 0x3D1) \<longleftrightarrow>
      0x3FFFFFF < uint (fe_n1 t) + 0x40 + (uint (fe_n0 t) + 0x3D1) div 0x4000000"
    using b(1,2) by (simp add: word_less_def uint_add_noov uint_drop_bit)
  have n9: "fe_n9 t = 0x3FFFFF \<longleftrightarrow> uint (fe_n9 t) = 0x3FFFFF"
    by (simp add: word_uint_eq_iff)
  have d: "(uint (fe_n0 t) + 0x3D1) div 0x4000000 = (if uint (fe_n0 t) < 0x3FFFC2F then 0 else 1)"
    using b(1) by (simp split: if_split) linarith
  have c: "uint (fe_n0 t) < 0x4000000" "uint (fe_n1 t) < 0x4000000" "uint (fe_n2 t) < 0x4000000"
    "uint (fe_n3 t) < 0x4000000" "uint (fe_n4 t) < 0x4000000" "uint (fe_n5 t) < 0x4000000"
    "uint (fe_n6 t) < 0x4000000" "uint (fe_n7 t) < 0x4000000" "uint (fe_n8 t) < 0x4000000"
    "uint (fe_n9 t) < 0x400000"
    using b by simp_all
  show ?thesis
    unfolding fe_ge_p_10x26_def mid lo d fe_val_expand_10x26 field_p_def n9
    using c fe_limbs_nonneg_10x26 [of t]
    by (cases "uint (fe_n0 t) < 0x3FFFC2F"; simp only: if_True if_False;
      intro iffI conjI; (elim conjE)?; linarith)
qed

lemma fe_weak_limbs_10x26:
  assumes "fe_weak_10x26 t"
  shows "uint (fe_n9 t) < 0x800000" "uint (fe_n9 t) < 0x400000 \<longleftrightarrow> fe_val_10x26 t < 0x10000000000000000000000000000000000000000000000000000000000000000"
    "fe_bounded_10x26 2 t" "uint (fe_n9 t) < 0x400000 \<Longrightarrow> fe_bounded_10x26 1 t"
proof -
  have b: "uint (fe_n0 t) < 0x4000000" "uint (fe_n1 t) < 0x4000000" "uint (fe_n2 t) < 0x4000000"
    "uint (fe_n3 t) < 0x4000000" "uint (fe_n4 t) < 0x4000000" "uint (fe_n5 t) < 0x4000000"
    "uint (fe_n6 t) < 0x4000000" "uint (fe_n7 t) < 0x4000000" "uint (fe_n8 t) < 0x4000000"
    "fe_val_10x26 t < 0x10002000000000000000000000000000000000000000000000000000000000000"
    using assms by (simp_all add: fe_weak_10x26_def fe_bounded_10x26_def)
  have n9: "uint (fe_n9 t) < 0x400100"
    using b(10) fe_limbs_nonneg_10x26 [of t] unfolding fe_val_expand_10x26 by linarith
  then show "uint (fe_n9 t) < 0x800000" by simp
  show "uint (fe_n9 t) < 0x400000 \<longleftrightarrow> fe_val_10x26 t < 0x10000000000000000000000000000000000000000000000000000000000000000"
    using b(1-9) fe_limbs_nonneg_10x26 [of t] unfolding fe_val_expand_10x26 by linarith
  show "fe_bounded_10x26 2 t" "uint (fe_n9 t) < 0x400000 \<Longrightarrow> fe_bounded_10x26 1 t"
    using b(1-9) n9 by (simp_all add: fe_bounded_10x26_def)
qed

lemma fe_final_x_10x26:
  assumes "fe_weak_10x26 t"
  shows "drop_bit 22 (fe_n9 t) OR of_bool (fe_ge_p_10x26 t) = of_bool (field_p \<le> fe_val_10x26 t)"
proof (cases "uint (fe_n9 t) < 0x400000")
  case True
  then have "drop_bit 22 (fe_n9 t) = 0"
    by (simp add: word_uint_eq_iff uint_drop_bit)
  then show ?thesis
    using fe_ge_p_10x26 [OF fe_weak_limbs_10x26(4) [OF assms True]] by simp
next
  case False
  have "uint (fe_n9 t) div 0x400000 = 1"
    using False fe_weak_limbs_10x26(1) [OF assms] by simp
  then have "drop_bit 22 (fe_n9 t) = 1"
    by (simp add: word_uint_eq_iff uint_drop_bit)
  moreover have "\<not> fe_ge_p_10x26 t" using False by (auto simp add: fe_ge_p_10x26_def)
  moreover have "field_p \<le> fe_val_10x26 t"
    using False fe_weak_limbs_10x26(2) [OF assms] by (simp add: field_p_def)
  ultimately show ?thesis by simp
qed

lemma fe_val_mask_10x26:
  assumes "fe_bounded_10x26 1 (t\<lparr>fe_n9 := 0\<rparr>)"
  shows "fe_val_10x26 (t\<lparr>fe_n9 := fe_n9 t AND 0x3FFFFF\<rparr>) = fe_val_10x26 t mod 2 ^ 256"
    "fe_bounded_10x26 1 (t\<lparr>fe_n9 := fe_n9 t AND 0x3FFFFF\<rparr>)"
proof -
  define s where "s = t\<lparr>fe_n9 := fe_n9 t AND 0x3FFFFF\<rparr>"
  have n9: "uint (fe_n9 s) < 0x400000" by (simp add: s_def)
  then show b: "fe_bounded_10x26 1 (t\<lparr>fe_n9 := fe_n9 t AND 0x3FFFFF\<rparr>)"
    using assms by (simp add: fe_bounded_10x26_def s_def)
  have "fe_val_10x26 s < 0x10000000000000000000000000000000000000000000000000000000000000000 \<and> 0 \<le> fe_val_10x26 s"
    using b fe_limbs_nonneg_10x26 [of s] n9 unfolding fe_val_expand_10x26 fe_bounded_10x26_def s_def [symmetric]
    by linarith
  moreover have "fe_val_10x26 t = fe_val_10x26 s + 2 ^ 256 * (uint (fe_n9 t) div 2 ^ 22)"
    by (simp add: fe_val_expand_10x26 s_def algebra_simps flip: minus_div_mult_eq_mod)
  ultimately show "fe_val_10x26 (t\<lparr>fe_n9 := fe_n9 t AND 0x3FFFFF\<rparr>) = fe_val_10x26 t mod 2 ^ 256"
    by (simp add: s_def)
qed

lemma fe_carry_bounded_10x26: "fe_bounded_10x26 1 ((fe_carry_10x26 r)\<lparr>fe_n9 := 0\<rparr>)"
  using fe_carry_less_10x26 [of r] by (simp add: fe_bounded_10x26_def)

lemma fe_reduce_once_10x26:
  assumes "fe_weak_10x26 t"
  defines "s \<equiv> fe_carry_10x26 (fe_fold_10x26 (of_bool (field_p \<le> fe_val_10x26 t)) t)"
  shows "fe_val_10x26 (s\<lparr>fe_n9 := fe_n9 s AND 0x3FFFFF\<rparr>) = fe_val_10x26 t mod field_p"
    "fe_bounded_10x26 1 (s\<lparr>fe_n9 := fe_n9 s AND 0x3FFFFF\<rparr>)"
proof -
  let ?x = "of_bool (field_p \<le> fe_val_10x26 t) :: u32"
  note f = fe_val_fold_10x26 [OF fe_weak_limbs_10x26(3) [OF assms(1)], of ?x]
  have "fe_val_10x26 s = fe_val_10x26 t + 0x1000003D1 * of_bool (field_p \<le> fe_val_10x26 t)"
    unfolding s_def using f by (simp add: fe_val_carry_10x26)
  moreover have "fe_val_10x26 t < 2 ^ 256 + 2 ^ 241" "0 \<le> fe_val_10x26 t"
    using assms(1) by (simp_all add: fe_weak_10x26_def fe_val_10x26_def)
  ultimately have v: "fe_val_10x26 s mod 2 ^ 256 = fe_val_10x26 t mod field_p"
    using field_reduce_once [of "fe_val_10x26 t"] by (simp only:)
  have "fe_bounded_10x26 1 (s\<lparr>fe_n9 := 0\<rparr>)"
    unfolding s_def by (rule fe_carry_bounded_10x26)
  from fe_val_mask_10x26 [OF this] v
  show "fe_val_10x26 (s\<lparr>fe_n9 := fe_n9 s AND 0x3FFFFF\<rparr>) = fe_val_10x26 t mod field_p"
    "fe_bounded_10x26 1 (s\<lparr>fe_n9 := fe_n9 s AND 0x3FFFFF\<rparr>)" by simp_all
qed

lemma fe_normalize_10x26_val:
  assumes "fe_bounded_10x26 m r" "m \<le> 62"
  shows "fe_val_10x26 (fe_normalize_10x26 r) = fe_val_10x26 r mod field_p"
    "fe_bounded_10x26 1 (fe_normalize_10x26 r)"
proof -
  note t = fe_first_pass_10x26 [OF assms]
  have v: "fe_val_10x26 (fe_first_pass_10x26 r) mod field_p = fe_val_10x26 r mod field_p"
    unfolding t(1) by simp
  show "fe_val_10x26 (fe_normalize_10x26 r) = fe_val_10x26 r mod field_p"
    "fe_bounded_10x26 1 (fe_normalize_10x26 r)"
    unfolding fe_normalize_10x26_def Let_def fe_final_x_10x26 [OF t(2)]
    using fe_reduce_once_10x26 [OF t(2)] v by simp_all
qed

lemma fe_normalize_var_10x26_eq:
  assumes "fe_bounded_10x26 m r" "m \<le> 62"
  shows "fe_normalize_var_10x26 r = fe_normalize_10x26 r"
proof (cases "field_p \<le> fe_val_10x26 (fe_first_pass_10x26 r)")
  case True
  then show ?thesis
    unfolding fe_normalize_var_10x26_def fe_normalize_10x26_def Let_def
      fe_final_x_10x26 [OF fe_first_pass_10x26(2) [OF assms]]
    by (simp add: fe_fold_10x26_def)
next
  case False
  let ?t = "fe_first_pass_10x26 r"
  note t = fe_first_pass_10x26 [OF assms]
  have "fe_normalize_var_10x26 r = ?t"
    using False unfolding fe_normalize_var_10x26_def Let_def fe_final_x_10x26 [OF t(2)] by simp
  moreover have "fe_bounded_10x26 1 ?t"
    using False fe_weak_limbs_10x26 [OF t(2)] by (simp add: field_p_def)
  moreover have "fe_val_10x26 ?t = fe_val_10x26 (fe_normalize_10x26 r)"
    using fe_reduce_once_10x26(1) [OF t(2)] False
    unfolding fe_normalize_10x26_def Let_def fe_final_x_10x26 [OF t(2)]
    by (simp add: fe_val_10x26_def)
  ultimately show ?thesis
    using fe_val_inj_10x26 fe_normalize_10x26_val [OF assms] by simp
qed

lemma fe_normalizes_to_zero_10x26_val:
  assumes "fe_bounded_10x26 m r" "m \<le> 62"
  shows "fe_normalizes_to_zero_10x26 r \<longleftrightarrow> fe_val_10x26 r mod field_p = 0"
proof -
  define t where "t = fe_first_pass_10x26 r"
  have w: "fe_weak_10x26 t" and v: "fe_val_10x26 t mod field_p = fe_val_10x26 r mod field_p"
    using fe_first_pass_10x26 [OF assms] by (simp_all add: t_def)
  have b: "uint (fe_n0 t) < 2 ^ 26" "uint (fe_n1 t) < 2 ^ 26" "uint (fe_n2 t) < 2 ^ 26"
    "uint (fe_n3 t) < 2 ^ 26" "uint (fe_n4 t) < 2 ^ 26" "uint (fe_n5 t) < 2 ^ 26"
    "uint (fe_n6 t) < 2 ^ 26" "uint (fe_n7 t) < 2 ^ 26" "uint (fe_n8 t) < 2 ^ 26" "uint (fe_n9 t) < 2 ^ 26"
    using w fe_weak_limbs_10x26(1) [OF w] by (simp_all add: fe_weak_10x26_def fe_bounded_10x26_def)
  have x: "uint (fe_n0 t XOR 0x3D0) < 2 ^ 26" "uint (fe_n1 t XOR 0x40) < 2 ^ 26"
    "uint (fe_n9 t XOR 0x3C00000) < 2 ^ 26"
    by (rule uint_xor_less; use b in simp)+
  have M: "(0x3FFFFFF :: u32) = mask 26" by (simp add: mask_eq_exp_minus_1)
  have M9: "(fe_n9 t XOR 0x3C00000) AND mask 26 = mask 26 \<longleftrightarrow> fe_n9 t XOR 0x3C00000 = mask 26"
    using word_and_eq_full [OF x(3), of "mask 26"] by (simp only: and.idem simp_thms)
  have z1: "(fe_n0 t XOR 0x3D0) AND (fe_n1 t XOR 0x40) AND fe_n2 t AND fe_n3 t AND fe_n4 t
      AND fe_n5 t AND fe_n6 t AND fe_n7 t AND fe_n8 t AND (fe_n9 t XOR 0x3C00000) = 0x3FFFFFF \<longleftrightarrow>
    fe_n0 t XOR 0x3D0 = 0x3FFFFFF \<and> fe_n1 t XOR 0x40 = 0x3FFFFFF \<and> fe_n2 t = 0x3FFFFFF \<and>
    fe_n3 t = 0x3FFFFFF \<and> fe_n4 t = 0x3FFFFFF \<and> fe_n5 t = 0x3FFFFFF \<and> fe_n6 t = 0x3FFFFFF \<and>
    fe_n7 t = 0x3FFFFFF \<and> fe_n8 t = 0x3FFFFFF \<and> fe_n9 t XOR 0x3C00000 = 0x3FFFFFF"
    by (simp only: M and.assoc and.idem word_and_eq_full [OF x(1)] word_and_eq_full [OF x(2)]
      word_and_eq_full [OF b(3)] word_and_eq_full [OF b(4)] word_and_eq_full [OF b(5)]
      word_and_eq_full [OF b(6)] word_and_eq_full [OF b(7)] word_and_eq_full [OF b(8)]
      word_and_eq_full [OF b(9)] M9)
  define P where "P = \<lparr>fe_n0 = 0x3FFFC2F, fe_n1 = 0x3FFFFBF, fe_n2 = 0x3FFFFFF, fe_n3 = 0x3FFFFFF,
    fe_n4 = 0x3FFFFFF, fe_n5 = 0x3FFFFFF, fe_n6 = 0x3FFFFFF, fe_n7 = 0x3FFFFFF, fe_n8 = 0x3FFFFFF,
    fe_n9 = (0x3FFFFF :: u32)\<rparr>"
  have "fe_normalizes_to_zero_10x26 r \<longleftrightarrow> t = fe_clear_10x26 \<or> t = P"
    unfolding fe_normalizes_to_zero_10x26_def t_def [symmetric] Let_def z1
    by (auto simp add: word_xor_eq_iff word_or_eq_0 P_def fe_clear_10x26_def fe_of_limbs_10x26_def)
  also have "\<dots> \<longleftrightarrow> fe_val_10x26 t = 0 \<or> fe_val_10x26 t = field_p"
  proof -
    have "fe_bounded_10x26 1 t" if "fe_val_10x26 t = 0 \<or> fe_val_10x26 t = field_p"
      using that fe_weak_limbs_10x26(2,4) [OF w] by (auto simp add: field_p_def)
    moreover have "fe_bounded_10x26 1 fe_clear_10x26" "fe_val_10x26 fe_clear_10x26 = 0"
      by (simp_all add: fe_clear_10x26_def fe_of_limbs_10x26_def fe_bounded_10x26_def fe_val_expand_10x26)
    moreover have "fe_bounded_10x26 1 P" "fe_val_10x26 P = field_p"
      by (simp_all add: P_def fe_bounded_10x26_def fe_val_expand_10x26 field_p_def)
    ultimately show ?thesis using fe_val_inj_10x26 by metis
  qed
  also have "\<dots> \<longleftrightarrow> fe_val_10x26 r mod field_p = 0"
    unfolding v [symmetric] using w
    by (subst field_mod_eq_0) (simp_all add: fe_weak_10x26_def fe_val_10x26_def)
  finally show ?thesis .
qed

lemma fe_normalizes_to_zero_var_10x26_eq:
  "fe_normalizes_to_zero_var_10x26 r = fe_normalizes_to_zero_10x26 r"
proof -
  define t where "t = fe_first_pass_10x26 r"
  let ?t0 = "(fe_n0 r + drop_bit 22 (fe_n9 r) * 0x3D1)"
  have n0: "fe_n0 t = ?t0 AND 0x3FFFFFF"
    by (simp add: t_def fe_first_pass_10x26_def fe_carry_10x26_def fe_fold_10x26_def Let_def)
  show ?thesis
  proof (cases "fe_n0 t \<noteq> 0 \<and> fe_n0 t XOR 0x3D0 \<noteq> 0x3FFFFFF")
    case True
    have "uint (fe_n0 t XOR 0x3D0) < 2 ^ 26" unfolding n0 by (rule uint_xor_less) simp_all
    from word_and_eq_full [OF this] True
    have "\<not> fe_normalizes_to_zero_10x26 r"
      by (simp add: fe_normalizes_to_zero_10x26_def t_def [symmetric] Let_def word_or_eq_0
        mask_eq_exp_minus_1)
    moreover have "\<not> fe_normalizes_to_zero_var_10x26 r"
      using True unfolding n0 by (simp add: fe_normalizes_to_zero_var_10x26_def Let_def)
    ultimately show ?thesis by simp
  next
    case False
    then show ?thesis
      by (cases r) (simp only: n0 fe_normalizes_to_zero_10x26_def fe_normalizes_to_zero_var_10x26_def
        fe_first_pass_10x26_def fe_carry_10x26_def fe_fold_10x26_def Let_def if_False
        fe_10x26.select_convs fe_10x26.update_convs or.assoc and.assoc)
  qed
qed

section \<open>Correctness of the linear operations\<close>

lemma fe_cmp_var_10x26_val:
  assumes "fe_bounded_10x26 1 a" "fe_bounded_10x26 1 b"
  shows "fe_cmp_var_10x26 a b = sgn (fe_val_10x26 a - fe_val_10x26 b)"
proof -
  have "\<forall>x \<in> set (fe_limbs_10x26 c). uint x < 2 ^ 26" if "fe_bounded_10x26 1 c" for c
    using that by (simp add: fe_limbs_10x26_def fe_bounded_10x26_def)
  moreover have "length (fe_limbs_10x26 c) = 10" for c
    by (simp add: fe_limbs_10x26_def)
  ultimately show ?thesis
    using assms limbs_cmp_sgn [of "fe_limbs_10x26 a" "fe_limbs_10x26 b" 26] 
    by (simp add: fe_cmp_var_10x26_def fe_val_10x26_def)
qed

lemma fe_add_10x26_val:
  assumes "fe_bounded_10x26 m a" "fe_bounded_10x26 n b" "m + n \<le> 64"
  shows "fe_val_10x26 (fe_add_10x26 a b) = fe_val_10x26 a + fe_val_10x26 b"
    "fe_bounded_10x26 (m + n) (fe_add_10x26 a b)"
proof -
  have s: "uint (x + y) = uint x + uint y" if "uint x \<le> 0x3FFFFFF * m" "uint y \<le> 0x3FFFFFF * n" for x y :: u32
    using that assms(3) by (simp add: uint_add_noov)
  have s9: "uint (x + y) = uint x + uint y" if "uint x \<le> 0x3FFFFF * m" "uint y \<le> 0x3FFFFF * n" for x y :: u32
    using that assms(3) by (simp add: uint_add_noov)
  show "fe_val_10x26 (fe_add_10x26 a b) = fe_val_10x26 a + fe_val_10x26 b"
    "fe_bounded_10x26 (m + n) (fe_add_10x26 a b)"
    using assms by (simp_all add: fe_add_10x26_def fe_val_expand_10x26 fe_bounded_10x26_def s s9 distrib_left)
qed

lemma fe_mul_int_10x26_val:
  assumes "fe_bounded_10x26 m r" "0 \<le> a" "a \<le> 64" "m * a \<le> 64"
  shows "fe_val_10x26 (fe_mul_int_10x26 r a) = fe_val_10x26 r * a"
    "fe_bounded_10x26 (m * a) (fe_mul_int_10x26 r a)"
proof -
  have a: "uint (word_of_int a :: u32) = a" using assms by (simp add: uint_word_of_int_small)
  have le: "uint x * a \<le> c * (m * a)" if "uint x \<le> c * m" for x :: u32 and c
    using mult_right_mono [OF that assms(2)] by (simp add: mult.assoc)
  have s: "uint (x * word_of_int a) = uint x * a" if "uint x \<le> c * m" "c \<le> 0x3FFFFFF" "0 \<le> c" for x :: u32 and c
  proof -
    have "c * (m * a) \<le> c * 64" using that assms(4) by (intro mult_left_mono) simp_all
    then have "uint x * a < 2 ^ 32" using le [OF that(1)] that(2) by simp
    then show ?thesis using a by (simp add: uint_mult_noov)
  qed
  show "fe_val_10x26 (fe_mul_int_10x26 r a) = fe_val_10x26 r * a"
    "fe_bounded_10x26 (m * a) (fe_mul_int_10x26 r a)"
    using assms(1) by (simp_all add: fe_mul_int_10x26_def fe_val_expand_10x26 fe_bounded_10x26_def
      s [of _ "0x3FFFFFF"] s [of _ "0x3FFFFF"] le distrib_right)
qed

lemma fe_negate_10x26_val:
  assumes "fe_bounded_10x26 (2 * m) a" "0 \<le> m" "m \<le> 31"
  shows "fe_val_10x26 (fe_negate_10x26 a m) = 2 * (m + 1) * field_p - fe_val_10x26 a"
    "fe_bounded_10x26 (2 * (m + 1)) (fe_negate_10x26 a m)"
proof -
  have a: "uint (word_of_int m + 1 :: u32) = m + 1"
    using assms by (simp add: uint_word_of_int_small uint_add_noov)
  have s: "uint (c * 2 * (word_of_int m + 1) - x) = uint c * 2 * (m + 1) - uint x"
    if "uint c \<le> 0x3FFFFFF" "uint x \<le> uint c * 2 * (m + 1)" for x c :: u32
  proof -
    have "uint (c * 2) = uint c * 2" using that by (simp add: uint_mult_noov)
    moreover have "uint c * 2 * (m + 1) \<le> 0x3FFFFFF * 2 * 32"
      using that assms by (intro mult_mono) simp_all
    ultimately have "uint (c * 2 * (word_of_int m + 1)) = uint c * 2 * (m + 1)"
      using a by (simp add: uint_mult_noov)
    then show ?thesis using that by (simp add: uint_diff_noov)
  qed
  have limbs:
    "uint (fe_n0 (fe_negate_10x26 a m)) = 0x7fff85e * m + 0x7fff85e - uint (fe_n0 a)"
    "uint (fe_n1 (fe_negate_10x26 a m)) = 0x7ffff7e * m + 0x7ffff7e - uint (fe_n1 a)"
    "uint (fe_n2 (fe_negate_10x26 a m)) = 0x7fffffe * m + 0x7fffffe - uint (fe_n2 a)"
    "uint (fe_n3 (fe_negate_10x26 a m)) = 0x7fffffe * m + 0x7fffffe - uint (fe_n3 a)"
    "uint (fe_n4 (fe_negate_10x26 a m)) = 0x7fffffe * m + 0x7fffffe - uint (fe_n4 a)"
    "uint (fe_n5 (fe_negate_10x26 a m)) = 0x7fffffe * m + 0x7fffffe - uint (fe_n5 a)"
    "uint (fe_n6 (fe_negate_10x26 a m)) = 0x7fffffe * m + 0x7fffffe - uint (fe_n6 a)"
    "uint (fe_n7 (fe_negate_10x26 a m)) = 0x7fffffe * m + 0x7fffffe - uint (fe_n7 a)"
    "uint (fe_n8 (fe_negate_10x26 a m)) = 0x7fffffe * m + 0x7fffffe - uint (fe_n8 a)"
    "uint (fe_n9 (fe_negate_10x26 a m)) = 0x7ffffe * m + 0x7ffffe - uint (fe_n9 a)"
    using assms s [of "0x3FFFC2F" "fe_n0 a"]
      s [of "0x3FFFFBF" "fe_n1 a"]
      s [of "0x3FFFFFF" "fe_n2 a"]
      s [of "0x3FFFFFF" "fe_n3 a"]
      s [of "0x3FFFFFF" "fe_n4 a"]
      s [of "0x3FFFFFF" "fe_n5 a"]
      s [of "0x3FFFFFF" "fe_n6 a"]
      s [of "0x3FFFFFF" "fe_n7 a"]
      s [of "0x3FFFFFF" "fe_n8 a"]
      s [of "0x3FFFFF" "fe_n9 a"]
    by (simp_all add: fe_negate_10x26_def fe_bounded_10x26_def)
  show "fe_val_10x26 (fe_negate_10x26 a m) = 2 * (m + 1) * field_p - fe_val_10x26 a"
    unfolding fe_val_expand_10x26 limbs field_p_def by simp
  show "fe_bounded_10x26 (2 * (m + 1)) (fe_negate_10x26 a m)"
    unfolding fe_bounded_10x26_def limbs distrib_left mult.assoc [symmetric] mult_1_right
    using fe_limbs_nonneg_10x26 [of a] assms(2) by (intro conjI) linarith+
qed

lemma fe_set_int_10x26_val:
  "0 \<le> a \<Longrightarrow> a \<le> 0x3FFFFFF \<Longrightarrow> fe_val_10x26 (fe_set_int_10x26 a) = a \<and> fe_bounded_10x26 1 (fe_set_int_10x26 a)"
  by (simp add: fe_set_int_10x26_def fe_val_expand_10x26 fe_bounded_10x26_def uint_word_of_int_small)

lemma fe_clear_10x26_val: "fe_val_10x26 fe_clear_10x26 = 0" "fe_bounded_10x26 1 fe_clear_10x26"
  by (simp_all add: fe_clear_10x26_def fe_of_limbs_10x26_def fe_bounded_10x26_def fe_val_expand_10x26)

lemma fe_is_zero_10x26_val: "fe_is_zero_10x26 a \<longleftrightarrow> fe_val_10x26 a = 0"
proof -
  have "fe_val_10x26 a = 0 \<longleftrightarrow> (\<forall>x \<in> set (fe_limbs_10x26 a). uint x = 0)"
    unfolding fe_val_10x26_def by (rule limbs_val_eq_0)
  then show ?thesis by (auto simp add: fe_is_zero_10x26_def word_or_eq_0 fe_limbs_10x26_def uint_0_iff)
qed

lemma fe_is_odd_10x26_val: "fe_is_odd_10x26 a \<longleftrightarrow> odd (fe_val_10x26 a)"
  by (simp add: fe_is_odd_10x26_def word_and_1_odd fe_val_expand_10x26)

lemma fe_cmov_10x26_val: "fe_cmov_10x26 r a (of_bool b) = (if b then a else r)"
  by (simp add: fe_cmov_10x26_def)

lemma fe_storage_cmov_8x32_val: "fe_storage_cmov_8x32 r a (of_bool b) = (if b then a else r)"
  by (simp add: fe_storage_cmov_8x32_def)

section \<open>Correctness of multiplication and squaring\<close>

text \<open>The weight of \<open>d\<close> relative to \<open>c\<close>: \<open>2 ^ 260\<close> modulo the characteristic.\<close>

abbreviation "K10 \<equiv> 0x1000003D10 :: int"

lemma fe_mul_step_10x26_val:
  assumes "fe_mul_step_10x26 c d = (t, c', d')" "uint c \<le> bc" "uint d \<le> bd" "bc + 0x3FFFFFF * 0x3D10 < 2 ^ 64"
  shows "uint t + 0x4000000 * (uint c' + K10 * uint d') = uint c + K10 * uint d" (is ?V)
    "uint t < 0x4000000" "uint d' \<le> bd div 0x4000000"
    "uint c' \<le> (bc + 0x3FFFFFF * 0x3D10) div 0x4000000 + 0x3FFFFFF * 0x400"
proof -
  define u where "u = uint d mod 0x4000000"
  define C where "C = uint c + u * 0x3D10"
  have u: "uint (d AND 0x3FFFFFF) = u" "0 \<le> u" "u \<le> 0x3FFFFFF" by (simp_all add: u_def)
  have C: "uint (c + (d AND 0x3FFFFFF) * 0x3D10) = C"
    using u assms by (simp add: C_def uint_add_noov uint_mult_noov)
  have C_le: "C \<le> bc + 0x3FFFFFF * 0x3D10" using u assms by (simp add: C_def)
  have C64: "C < 2 ^ 64" using C_le assms(4) by linarith
  have t: "uint t = C mod 0x4000000"
    using assms(1) C by (auto simp add: fe_mul_step_10x26_def Let_def uint_ucast)
  have c': "uint c' = C div 0x4000000 + u * 0x400"
  proof -
    have "c' = drop_bit 26 (c + (d AND 0x3FFFFFF) * 0x3D10) + (d AND 0x3FFFFFF) * 0x400"
      using assms(1) by (simp add: fe_mul_step_10x26_def Let_def)
    moreover have "uint (drop_bit 26 (c + (d AND 0x3FFFFFF) * 0x3D10)) = C div 0x4000000"
      using C by (simp add: uint_drop_bit)
    moreover have "C div 0x4000000 \<le> 0x4000000000"
      using zdiv_mono1 [of C "2 ^ 64" "0x4000000"] C64 by simp
    moreover have "uint ((d AND 0x3FFFFFF) * 0x400) = u * 0x400"
      using u by (simp add: uint_mult_noov)
    ultimately show ?thesis using u by (simp add: uint_add_noov)
  qed
  have d': "uint d' = uint d div 0x4000000"
    using assms(1) by (auto simp add: fe_mul_step_10x26_def Let_def uint_drop_bit)
  show "uint t < 0x4000000" by (simp add: t)
  show "uint d' \<le> bd div 0x4000000" using assms(3) by (simp add: d' zdiv_mono1)
  show "uint c' \<le> (bc + 0x3FFFFFF * 0x3D10) div 0x4000000 + 0x3FFFFFF * 0x400"
    using zdiv_mono1 [OF C_le, of "0x4000000"] u by (simp add: c')
  show ?V
    unfolding t c' d' by (simp add: C_def u_def algebra_simps flip: minus_div_mult_eq_mod)
qed

lemma fe_mul_tail_10x26_val:
  assumes "fe_mul_tail_10x26 c d t9 t0 t1 t2 = (r0, r1, r2, r9)"
    "uint c \<le> 0x4000000000" "uint d \<le> 0x80000000"
    "uint t9 < 0x4000000" "uint t0 < 0x4000000" "uint t1 < 0x4000000" "uint t2 < 0x4000000"
  shows "\<exists>q. uint r0 + 0x4000000 * uint r1 + 0x10000000000000 * uint r2 + 2 ^ 234 * uint r9
      = uint t0 + 0x4000000 * uint t1 + 0x10000000000000 * uint t2
        + 2 ^ 234 * (uint c + K10 * uint d + uint t9) - field_p * q"
    "uint r0 < 0x4000000" "uint r1 < 0x4000000" "uint r2 \<le> 0x7FFFFFE" "uint r9 < 0x400000"
proof -
  define c1 where "c1 = c + d * 0x3D10 + ucast t9"
  define c2 where "c2 = drop_bit 22 c1 + d * 0x4000"
  define d0 where "d0 = c2 * 0x3D1 + ucast t0"
  define d1 where "d1 = drop_bit 26 d0 + (c2 * 0x40 + ucast t1)"
  define d2 where "d2 = drop_bit 26 d1 + ucast t2"
  have r: "r0 = ucast (d0 AND 0x3FFFFFF)" "r1 = ucast (d1 AND 0x3FFFFFF)" "r2 = ucast d2"
    "r9 = ucast (c1 AND 0x3FFFFF)"
    using assms(1) by (simp_all add: fe_mul_tail_10x26_def Let_def d2_def d1_def d0_def c2_def c1_def)
  have c1: "uint c1 = uint c + uint d * 0x3D10 + uint t9"
    using assms by (simp add: c1_def uint_add_noov uint_mult_noov uint_ucast_up)
  have c1_le: "uint c1 div 0x400000 \<le> 0x8000000"
    using zdiv_mono1 [of "uint c1" "0x2000000000000" "0x400000"] c1 assms by simp
  have c2: "uint c2 = uint c1 div 0x400000 + uint d * 0x4000"
    using assms c1_le by (simp add: c2_def uint_add_noov uint_mult_noov uint_drop_bit)
  have c2_le: "uint c2 \<le> 0x200008000000"
    using c2 c1_le assms by simp
  have d0: "uint d0 = uint c2 * 0x3D1 + uint t0"
    using assms c2_le by (simp add: d0_def uint_add_noov uint_mult_noov uint_ucast_up)
  have d0_le: "uint d0 div 0x4000000 \<le> 0x40000000"
    using zdiv_mono1 [of "uint d0" "0x100000000000000" "0x4000000"] d0 c2_le assms by simp
  have d1: "uint d1 = uint d0 div 0x4000000 + uint c2 * 0x40 + uint t1"
    using assms c2_le d0_le by (simp add: d1_def uint_add_noov uint_mult_noov uint_ucast_up uint_drop_bit)
  have d1_le: "uint d1 div 0x4000000 \<le> 0x2100000"
    using zdiv_mono1 [of "uint d1" "0x84000000000000" "0x4000000"] d1 d0_le c2_le assms by simp
  have d2: "uint d2 = uint d1 div 0x4000000 + uint t2"
    using assms d1_le by (simp add: d2_def uint_add_noov uint_ucast_up uint_drop_bit)
  have d2_lt: "uint d2 < 0x100000000" using d2 d1_le assms by simp
  have u: "uint r0 = uint d0 mod 0x4000000" "uint r1 = uint d1 mod 0x4000000" "uint r2 = uint d2"
    "uint r9 = uint c1 mod 0x400000"
    using d2_lt by (simp_all add: r uint_ucast)
  show "uint r0 < 0x4000000" "uint r1 < 0x4000000" "uint r2 \<le> 0x7FFFFFE" "uint r9 < 0x400000"
    using d2 d1_le assms by (simp_all add: u)
  have "uint r0 + 0x4000000 * uint r1 + 0x10000000000000 * uint r2 + 2 ^ 234 * uint r9
      = uint t0 + 0x4000000 * uint t1 + 0x10000000000000 * uint t2
        + 2 ^ 234 * (uint c + K10 * uint d + uint t9) - field_p * uint c2"
    unfolding u d2 using d1 d0 c2 c1
    by (simp add: field_p_def algebra_simps flip: minus_div_mult_eq_mod)
  then show "\<exists>q. uint r0 + 0x4000000 * uint r1 + 0x10000000000000 * uint r2 + 2 ^ 234 * uint r9
      = uint t0 + 0x4000000 * uint t1 + 0x10000000000000 * uint t2
        + 2 ^ 234 * (uint c + K10 * uint d + uint t9) - field_p * q" ..
qed

lemma fe_mul_stepE_10x26:
  assumes "uint c \<le> 0x4000000000" "uint d \<le> 0x4000000000"
    "uint P \<le> 0x9000000000000000" "uint Q \<le> bq" "bq \<le> 0x9000000000000000"
    "(0x4000000000 + bq) div 0x4000000 \<le> bd"
  obtains t c' d' where "fe_mul_step_10x26 (c + P) (d + Q) = (t, c', d')"
    "uint t + 0x4000000 * (uint c' + K10 * uint d') = uint c + uint P + K10 * (uint d + uint Q)"
    "uint t < 0x4000000" "uint c' \<le> 0x4000000000" "uint d' \<le> bd"
proof -
  obtain t c' d' where s: "fe_mul_step_10x26 (c + P) (d + Q) = (t, c', d')"
    by (cases "fe_mul_step_10x26 (c + P) (d + Q)")
  have u: "uint (c + P) = uint c + uint P" "uint (d + Q) = uint d + uint Q"
    using assms by (simp_all add: uint_add_noov)
  show thesis
    using that [OF s] fe_mul_step_10x26_val [OF s, of "0x9000004000000000" "0x4000000000 + bq"] u assms
    by simp
qed

lemma fe_reduce_cols_10x26_val:
  assumes p: "\<And>k. k < 19 \<Longrightarrow> uint (p ! k) \<le> 0x9000000000000000"
    "uint (p ! 17) \<le> 2 ^ 57" "uint (p ! 18) \<le> 2 ^ 52"
  shows "fe_val_10x26 (fe_reduce_cols_10x26 p) mod field_p =
    (uint (p ! 0)
      + 2 ^ 26 * uint (p ! 1)
      + 2 ^ 52 * uint (p ! 2)
      + 2 ^ 78 * uint (p ! 3)
      + 2 ^ 104 * uint (p ! 4)
      + 2 ^ 130 * uint (p ! 5)
      + 2 ^ 156 * uint (p ! 6)
      + 2 ^ 182 * uint (p ! 7)
      + 2 ^ 208 * uint (p ! 8)
      + 2 ^ 234 * uint (p ! 9)
      + 2 ^ 260 * uint (p ! 10)
      + 2 ^ 286 * uint (p ! 11)
      + 2 ^ 312 * uint (p ! 12)
      + 2 ^ 338 * uint (p ! 13)
      + 2 ^ 364 * uint (p ! 14)
      + 2 ^ 390 * uint (p ! 15)
      + 2 ^ 416 * uint (p ! 16)
      + 2 ^ 442 * uint (p ! 17)
      + 2 ^ 468 * uint (p ! 18)) mod field_p"
    "fe_bounded_10x26 2 (fe_reduce_cols_10x26 p)"
proof -
  define e where "e = drop_bit 26 (p ! 9)"
  define t9 :: u32 where "t9 = ucast ((p ! 9) AND 0x3FFFFFF)"
  have e: "uint (p ! 9) = uint t9 + 0x4000000 * uint e" "uint t9 < 0x4000000" "uint e \<le> 0x4000000000"
    using zdiv_mono1 [OF p(1) [of 9], of "0x4000000"]
    by (simp_all add: e_def t9_def uint_ucast uint_drop_bit)
  note E = fe_mul_stepE_10x26 [OF _ _ p(1) p(1) order_refl, of _ _ _ _ "0x4000000000"]
  obtain t0 c0 d0 where s0: "fe_mul_step_10x26 (p ! 0) (e + p ! 10) = (t0, c0, d0)" and
    v0: "uint t0 + 0x4000000 * (uint c0 + K10 * uint d0) = uint (p ! 0) + K10 * (uint e + uint (p ! 10))"
      "uint t0 < 0x4000000" "uint c0 \<le> 0x4000000000" "uint d0 \<le> 0x4000000000"
    using E [of 0 e 0 10] e(3) by auto
  obtain t1 c1 d1 where s1: "fe_mul_step_10x26 (c0 + p ! 1) (d0 + p ! 11) = (t1, c1, d1)" and
    v1: "uint t1 + 0x4000000 * (uint c1 + K10 * uint d1) = uint c0 + uint (p ! 1) + K10 * (uint d0 + uint (p ! 11))"
      "uint t1 < 0x4000000" "uint c1 \<le> 0x4000000000" "uint d1 \<le> 0x4000000000"
    using E [of c0 d0 1 11] v0(3,4) by auto
  obtain t2 c2 d2 where s2: "fe_mul_step_10x26 (c1 + p ! 2) (d1 + p ! 12) = (t2, c2, d2)" and
    v2: "uint t2 + 0x4000000 * (uint c2 + K10 * uint d2) = uint c1 + uint (p ! 2) + K10 * (uint d1 + uint (p ! 12))"
      "uint t2 < 0x4000000" "uint c2 \<le> 0x4000000000" "uint d2 \<le> 0x4000000000"
    using E [of c1 d1 2 12] v1(3,4) by auto
  obtain t3 c3 d3 where s3: "fe_mul_step_10x26 (c2 + p ! 3) (d2 + p ! 13) = (t3, c3, d3)" and
    v3: "uint t3 + 0x4000000 * (uint c3 + K10 * uint d3) = uint c2 + uint (p ! 3) + K10 * (uint d2 + uint (p ! 13))"
      "uint t3 < 0x4000000" "uint c3 \<le> 0x4000000000" "uint d3 \<le> 0x4000000000"
    using E [of c2 d2 3 13] v2(3,4) by auto
  obtain t4 c4 d4 where s4: "fe_mul_step_10x26 (c3 + p ! 4) (d3 + p ! 14) = (t4, c4, d4)" and
    v4: "uint t4 + 0x4000000 * (uint c4 + K10 * uint d4) = uint c3 + uint (p ! 4) + K10 * (uint d3 + uint (p ! 14))"
      "uint t4 < 0x4000000" "uint c4 \<le> 0x4000000000" "uint d4 \<le> 0x4000000000"
    using E [of c3 d3 4 14] v3(3,4) by auto
  obtain t5 c5 d5 where s5: "fe_mul_step_10x26 (c4 + p ! 5) (d4 + p ! 15) = (t5, c5, d5)" and
    v5: "uint t5 + 0x4000000 * (uint c5 + K10 * uint d5) = uint c4 + uint (p ! 5) + K10 * (uint d4 + uint (p ! 15))"
      "uint t5 < 0x4000000" "uint c5 \<le> 0x4000000000" "uint d5 \<le> 0x4000000000"
    using E [of c4 d4 5 15] v4(3,4) by auto
  obtain t6 c6 d6 where s6: "fe_mul_step_10x26 (c5 + p ! 6) (d5 + p ! 16) = (t6, c6, d6)" and
    v6: "uint t6 + 0x4000000 * (uint c6 + K10 * uint d6) = uint c5 + uint (p ! 6) + K10 * (uint d5 + uint (p ! 16))"
      "uint t6 < 0x4000000" "uint c6 \<le> 0x4000000000" "uint d6 \<le> 0x4000000000"
    using E [of c5 d5 6 16] v5(3,4) by auto
  obtain t7 c7 d7 where s7: "fe_mul_step_10x26 (c6 + p ! 7) (d6 + p ! 17) = (t7, c7, d7)" and
    v7: "uint t7 + 0x4000000 * (uint c7 + K10 * uint d7) = uint c6 + uint (p ! 7) + K10 * (uint d6 + uint (p ! 17))"
      "uint t7 < 0x4000000" "uint c7 \<le> 0x4000000000" "uint d7 \<le> 0x80001000"
    using fe_mul_stepE_10x26 [OF _ _ p(1) p(2), of c6 d6 7 "0x80001000"] v6(3,4) by auto
  obtain t8 c8 d8 where s8: "fe_mul_step_10x26 (c7 + p ! 8) (d7 + p ! 18) = (t8, c8, d8)" and
    v8: "uint t8 + 0x4000000 * (uint c8 + K10 * uint d8) = uint c7 + uint (p ! 8) + K10 * (uint d7 + uint (p ! 18))"
      "uint t8 < 0x4000000" "uint c8 \<le> 0x4000000000" "uint d8 \<le> 0x80000000"
    using fe_mul_stepE_10x26 [OF _ _ p(1) p(3), of c7 d7 8 "0x80000000"] v7(3,4) by auto
  obtain r0 r1 r2 r9 where s9: "fe_mul_tail_10x26 c8 d8 t9 t0 t1 t2 = (r0, r1, r2, r9)"
    by (cases "fe_mul_tail_10x26 c8 d8 t9 t0 t1 t2")
  note tail = fe_mul_tail_10x26_val [OF s9 v8(3,4) e(2) v0(2) v1(2) v2(2)]
  have r: "fe_reduce_cols_10x26 p = \<lparr>fe_n0 = r0, fe_n1 = r1, fe_n2 = r2, fe_n3 = t3, fe_n4 = t4,
      fe_n5 = t5, fe_n6 = t6, fe_n7 = t7, fe_n8 = t8, fe_n9 = r9\<rparr>"
    using s0 s1 s2 s3 s4 s5 s6 s7 s8 s9
    by (simp add: fe_reduce_cols_10x26_def Let_def e_def t9_def)
  show "fe_bounded_10x26 2 (fe_reduce_cols_10x26 p)"
    using tail(2-5) v3(2) v4(2) v5(2) v6(2) v7(2) v8(2) by (simp add: r fe_bounded_10x26_def)
  from tail(1) obtain q where q: "uint r0 + 0x4000000 * uint r1 + 0x10000000000000 * uint r2 + 2 ^ 234 * uint r9
      = uint t0 + 0x4000000 * uint t1 + 0x10000000000000 * uint t2
        + 2 ^ 234 * (uint c8 + K10 * uint d8 + uint t9) - field_p * q" ..

  have "fe_val_10x26 (fe_reduce_cols_10x26 p) =
    (uint (p ! 0)
      + 2 ^ 26 * uint (p ! 1)
      + 2 ^ 52 * uint (p ! 2)
      + 2 ^ 78 * uint (p ! 3)
      + 2 ^ 104 * uint (p ! 4)
      + 2 ^ 130 * uint (p ! 5)
      + 2 ^ 156 * uint (p ! 6)
      + 2 ^ 182 * uint (p ! 7)
      + 2 ^ 208 * uint (p ! 8)
      + 2 ^ 234 * uint (p ! 9)
      + 2 ^ 260 * uint (p ! 10)
      + 2 ^ 286 * uint (p ! 11)
      + 2 ^ 312 * uint (p ! 12)
      + 2 ^ 338 * uint (p ! 13)
      + 2 ^ 364 * uint (p ! 14)
      + 2 ^ 390 * uint (p ! 15)
      + 2 ^ 416 * uint (p ! 16)
      + 2 ^ 442 * uint (p ! 17)
      + 2 ^ 468 * uint (p ! 18)) - field_p * (q + 16 * (uint e + 2 ^ 0 * uint (p ! 10) + 2 ^ 26 * uint (p ! 11) + 2 ^ 52 * uint (p ! 12) + 2 ^ 78 * uint (p ! 13) + 2 ^ 104 * uint (p ! 14) + 2 ^ 130 * uint (p ! 15) + 2 ^ 156 * uint (p ! 16) + 2 ^ 182 * uint (p ! 17) + 2 ^ 208 * uint (p ! 18)))"
    unfolding r fe_val_expand_10x26 fe_10x26.select_convs
    using q v0(1) v1(1) v2(1) v3(1) v4(1) v5(1) v6(1) v7(1) v8(1) e(1)
    by (simp add: field_p_def)
  then show "fe_val_10x26 (fe_reduce_cols_10x26 p) mod field_p =
    (uint (p ! 0)
      + 2 ^ 26 * uint (p ! 1)
      + 2 ^ 52 * uint (p ! 2)
      + 2 ^ 78 * uint (p ! 3)
      + 2 ^ 104 * uint (p ! 4)
      + 2 ^ 130 * uint (p ! 5)
      + 2 ^ 156 * uint (p ! 6)
      + 2 ^ 182 * uint (p ! 7)
      + 2 ^ 208 * uint (p ! 8)
      + 2 ^ 234 * uint (p ! 9)
      + 2 ^ 260 * uint (p ! 10)
      + 2 ^ 286 * uint (p ! 11)
      + 2 ^ 312 * uint (p ! 12)
      + 2 ^ 338 * uint (p ! 13)
      + 2 ^ 364 * uint (p ! 14)
      + 2 ^ 390 * uint (p ! 15)
      + 2 ^ 416 * uint (p ! 16)
      + 2 ^ 442 * uint (p ! 17)
      + 2 ^ 468 * uint (p ! 18)) mod field_p"
    by (simp only: mod_minus_mult)
qed

lemma fe_mul_cols_10x26_wval:
  assumes "fe_bounded_10x26 16 a" "fe_bounded_10x26 16 b"
  shows "list_all2 (\<lambda>x (v, m). wval x v m) (fe_mul_cols_10x26 a b) [
       (uint (fe_n0 a) * uint (fe_n0 b), 0xFFFFFF800000100),
       (uint (fe_n0 a) * uint (fe_n1 b) + uint (fe_n1 a) * uint (fe_n0 b), 0x1FFFFFF000000200),
       (uint (fe_n0 a) * uint (fe_n2 b) + uint (fe_n1 a) * uint (fe_n1 b) + uint (fe_n2 a) * uint (fe_n0 b), 0x2FFFFFE800000300),
       (uint (fe_n0 a) * uint (fe_n3 b) + uint (fe_n1 a) * uint (fe_n2 b) + uint (fe_n2 a) * uint (fe_n1 b)
        + uint (fe_n3 a) * uint (fe_n0 b), 0x3FFFFFE000000400),
       (uint (fe_n0 a) * uint (fe_n4 b) + uint (fe_n1 a) * uint (fe_n3 b) + uint (fe_n2 a) * uint (fe_n2 b)
        + uint (fe_n3 a) * uint (fe_n1 b) + uint (fe_n4 a) * uint (fe_n0 b), 0x4FFFFFD800000500),
       (uint (fe_n0 a) * uint (fe_n5 b) + uint (fe_n1 a) * uint (fe_n4 b) + uint (fe_n2 a) * uint (fe_n3 b)
        + uint (fe_n3 a) * uint (fe_n2 b) + uint (fe_n4 a) * uint (fe_n1 b) + uint (fe_n5 a) * uint (fe_n0 b), 0x5FFFFFD000000600),
       (uint (fe_n0 a) * uint (fe_n6 b) + uint (fe_n1 a) * uint (fe_n5 b) + uint (fe_n2 a) * uint (fe_n4 b)
        + uint (fe_n3 a) * uint (fe_n3 b) + uint (fe_n4 a) * uint (fe_n2 b) + uint (fe_n5 a) * uint (fe_n1 b)
        + uint (fe_n6 a) * uint (fe_n0 b), 0x6FFFFFC800000700),
       (uint (fe_n0 a) * uint (fe_n7 b) + uint (fe_n1 a) * uint (fe_n6 b) + uint (fe_n2 a) * uint (fe_n5 b)
        + uint (fe_n3 a) * uint (fe_n4 b) + uint (fe_n4 a) * uint (fe_n3 b) + uint (fe_n5 a) * uint (fe_n2 b)
        + uint (fe_n6 a) * uint (fe_n1 b) + uint (fe_n7 a) * uint (fe_n0 b), 0x7FFFFFC000000800),
       (uint (fe_n0 a) * uint (fe_n8 b) + uint (fe_n1 a) * uint (fe_n7 b) + uint (fe_n2 a) * uint (fe_n6 b)
        + uint (fe_n3 a) * uint (fe_n5 b) + uint (fe_n4 a) * uint (fe_n4 b) + uint (fe_n5 a) * uint (fe_n3 b)
        + uint (fe_n6 a) * uint (fe_n2 b) + uint (fe_n7 a) * uint (fe_n1 b) + uint (fe_n8 a) * uint (fe_n0 b), 0x8FFFFFB800000900),
       (uint (fe_n0 a) * uint (fe_n9 b) + uint (fe_n1 a) * uint (fe_n8 b) + uint (fe_n2 a) * uint (fe_n7 b)
        + uint (fe_n3 a) * uint (fe_n6 b) + uint (fe_n4 a) * uint (fe_n5 b) + uint (fe_n5 a) * uint (fe_n4 b)
        + uint (fe_n6 a) * uint (fe_n3 b) + uint (fe_n7 a) * uint (fe_n2 b) + uint (fe_n8 a) * uint (fe_n1 b)
        + uint (fe_n9 a) * uint (fe_n0 b), 0x81FFFFB780000A00),
       (uint (fe_n1 a) * uint (fe_n9 b) + uint (fe_n2 a) * uint (fe_n8 b) + uint (fe_n3 a) * uint (fe_n7 b)
        + uint (fe_n4 a) * uint (fe_n6 b) + uint (fe_n5 a) * uint (fe_n5 b) + uint (fe_n6 a) * uint (fe_n4 b)
        + uint (fe_n7 a) * uint (fe_n3 b) + uint (fe_n8 a) * uint (fe_n2 b) + uint (fe_n9 a) * uint (fe_n1 b), 0x71FFFFBF80000900),
       (uint (fe_n2 a) * uint (fe_n9 b) + uint (fe_n3 a) * uint (fe_n8 b) + uint (fe_n4 a) * uint (fe_n7 b)
        + uint (fe_n5 a) * uint (fe_n6 b) + uint (fe_n6 a) * uint (fe_n5 b) + uint (fe_n7 a) * uint (fe_n4 b)
        + uint (fe_n8 a) * uint (fe_n3 b) + uint (fe_n9 a) * uint (fe_n2 b), 0x61FFFFC780000800),
       (uint (fe_n3 a) * uint (fe_n9 b) + uint (fe_n4 a) * uint (fe_n8 b) + uint (fe_n5 a) * uint (fe_n7 b)
        + uint (fe_n6 a) * uint (fe_n6 b) + uint (fe_n7 a) * uint (fe_n5 b) + uint (fe_n8 a) * uint (fe_n4 b)
        + uint (fe_n9 a) * uint (fe_n3 b), 0x51FFFFCF80000700),
       (uint (fe_n4 a) * uint (fe_n9 b) + uint (fe_n5 a) * uint (fe_n8 b) + uint (fe_n6 a) * uint (fe_n7 b)
        + uint (fe_n7 a) * uint (fe_n6 b) + uint (fe_n8 a) * uint (fe_n5 b) + uint (fe_n9 a) * uint (fe_n4 b), 0x41FFFFD780000600),
       (uint (fe_n5 a) * uint (fe_n9 b) + uint (fe_n6 a) * uint (fe_n8 b) + uint (fe_n7 a) * uint (fe_n7 b)
        + uint (fe_n8 a) * uint (fe_n6 b) + uint (fe_n9 a) * uint (fe_n5 b), 0x31FFFFDF80000500),
       (uint (fe_n6 a) * uint (fe_n9 b) + uint (fe_n7 a) * uint (fe_n8 b) + uint (fe_n8 a) * uint (fe_n7 b)
        + uint (fe_n9 a) * uint (fe_n6 b), 0x21FFFFE780000400),
       (uint (fe_n7 a) * uint (fe_n9 b) + uint (fe_n8 a) * uint (fe_n8 b) + uint (fe_n9 a) * uint (fe_n7 b), 0x11FFFFEF80000300),
       (uint (fe_n8 a) * uint (fe_n9 b) + uint (fe_n9 a) * uint (fe_n8 b), 0x1FFFFF780000200),
       (uint (fe_n9 a) * uint (fe_n9 b), 0xFFFFF80000100)]"
proof -
  have a: "uint (fe_n0 a) \<le> 0x3FFFFFF0" "uint (fe_n1 a) \<le> 0x3FFFFFF0" "uint (fe_n2 a) \<le> 0x3FFFFFF0"
    "uint (fe_n3 a) \<le> 0x3FFFFFF0" "uint (fe_n4 a) \<le> 0x3FFFFFF0" "uint (fe_n5 a) \<le> 0x3FFFFFF0"
    "uint (fe_n6 a) \<le> 0x3FFFFFF0" "uint (fe_n7 a) \<le> 0x3FFFFFF0" "uint (fe_n8 a) \<le> 0x3FFFFFF0"
    "uint (fe_n9 a) \<le> 0x3FFFFF0" if "fe_bounded_10x26 16 a" for a
    using that by (simp_all add: fe_bounded_10x26_def)
  show ?thesis
    unfolding fe_mul_cols_10x26_def list.rel_inject prod.case list_all2_Cons
    by (intro conjI list_all2_Nil [THEN iffD2] refl;
      rule wval_weaken, ((rule wval_add wval_mul32 a assms | (simp; fail))+))
qed

lemma limbs_val_19:
  "length p = 19 \<Longrightarrow> limbs_val 26 p = uint (p ! 0) + 2 ^ 26 * uint (p ! 1)
      + 2 ^ 52 * uint (p ! 2)
      + 2 ^ 78 * uint (p ! 3)
      + 2 ^ 104 * uint (p ! 4)
      + 2 ^ 130 * uint (p ! 5)
      + 2 ^ 156 * uint (p ! 6)
      + 2 ^ 182 * uint (p ! 7)
      + 2 ^ 208 * uint (p ! 8)
      + 2 ^ 234 * uint (p ! 9)
      + 2 ^ 260 * uint (p ! 10)
      + 2 ^ 286 * uint (p ! 11)
      + 2 ^ 312 * uint (p ! 12)
      + 2 ^ 338 * uint (p ! 13)
      + 2 ^ 364 * uint (p ! 14)
      + 2 ^ 390 * uint (p ! 15)
      + 2 ^ 416 * uint (p ! 16)
      + 2 ^ 442 * uint (p ! 17)
      + 2 ^ 468 * uint (p ! 18)"
  by (simp add: limbs_val_sum numeral_eq_Suc)

lemma fe_mul_10x26_val:
  assumes "fe_bounded_10x26 16 a" "fe_bounded_10x26 16 b"
  shows "fe_val_10x26 (fe_mul_10x26 a b) mod field_p = (fe_val_10x26 a * fe_val_10x26 b) mod field_p"
    "fe_bounded_10x26 2 (fe_mul_10x26 a b)"
proof -
  let ?p = "fe_mul_cols_10x26 a b"
  note w = wvals_limbs [OF fe_mul_cols_10x26_wval [OF assms]]
  have len: "length ?p = 19" by (simp add: fe_mul_cols_10x26_def)
  have "limbs_val 26 ?p = fe_val_10x26 a * fe_val_10x26 b"
    unfolding w(1) fe_val_expand_10x26 by (simp add: algebra_simps)
  moreover have "uint (?p ! k) \<le> 0x9000000000000000" if "k < 19" for k
    using w(2) [of k] that by (auto simp add: len less_Suc_eq numeral_eq_Suc)
  moreover have "uint (?p ! 17) \<le> 2 ^ 57" "uint (?p ! 18) \<le> 2 ^ 52"
    using w(2) [of 17] w(2) [of 18] by (simp_all add: len)
  ultimately show "fe_val_10x26 (fe_mul_10x26 a b) mod field_p = (fe_val_10x26 a * fe_val_10x26 b) mod field_p"
    "fe_bounded_10x26 2 (fe_mul_10x26 a b)"
    using fe_reduce_cols_10x26_val [of ?p]
    unfolding fe_mul_10x26_def fe_mul_inner_10x26_def limbs_val_19 [OF len, symmetric] by simp_all
qed

lemma fe_sqr_cols_10x26_eq:
  assumes "fe_bounded_10x26 16 a"
  shows "fe_sqr_cols_10x26 a = fe_mul_cols_10x26 a a"
proof -
  have d: "(ucast (fe_n0 a * 2) :: u64) = ucast (fe_n0 a) + ucast (fe_n0 a)"
    "(ucast (fe_n1 a * 2) :: u64) = ucast (fe_n1 a) + ucast (fe_n1 a)"
    "(ucast (fe_n2 a * 2) :: u64) = ucast (fe_n2 a) + ucast (fe_n2 a)"
    "(ucast (fe_n3 a * 2) :: u64) = ucast (fe_n3 a) + ucast (fe_n3 a)"
    "(ucast (fe_n4 a * 2) :: u64) = ucast (fe_n4 a) + ucast (fe_n4 a)"
    "(ucast (fe_n5 a * 2) :: u64) = ucast (fe_n5 a) + ucast (fe_n5 a)"
    "(ucast (fe_n6 a * 2) :: u64) = ucast (fe_n6 a) + ucast (fe_n6 a)"
    "(ucast (fe_n7 a * 2) :: u64) = ucast (fe_n7 a) + ucast (fe_n7 a)"
    "(ucast (fe_n8 a * 2) :: u64) = ucast (fe_n8 a) + ucast (fe_n8 a)"
    by (rule ucast_double, use assms in \<open>simp add: fe_bounded_10x26_def\<close>)+
  show ?thesis
    unfolding fe_sqr_cols_10x26_def fe_mul_cols_10x26_def d
    by (simp only: distrib_right distrib_left list.inject simp_thms ac_simps)
qed

lemma fe_sqr_10x26_eq: "fe_bounded_10x26 16 a \<Longrightarrow> fe_sqr_10x26 a = fe_mul_10x26 a a"
  by (simp add: fe_sqr_10x26_def fe_sqr_inner_10x26_def fe_mul_10x26_def fe_mul_inner_10x26_def
    fe_sqr_cols_10x26_eq)

section \<open>Correctness of the encodings\<close>

lemma fe_set_b32_step_10x26_limbs:
  assumes len: "length a = 32" and j: "i < 32" "j < 4"
  shows "fe_set_b32_step_10x26 a (i, j) (limbs_of 26 10 (take_bit (8 * i + 2 * j) (be_val a)))
    = limbs_of 26 10 (take_bit (8 * i + 2 * j + 2) (be_val a))"
proof -
  let ?ch = "ucast (drop_bit (2 * j) (a ! (31 - i)) AND 3) :: u32"
  have 3: "(3 :: u8) = mask 2" by (simp add: mask_eq_exp_minus_1)
  have ch: "bit ?ch b \<longleftrightarrow> b < 2 \<and> bit (be_val a) (8 * i + 2 * j + b)" for b
    using bit_be_val [of i a "2 * j + b"] len j
    by (auto simp add: bit_ucast_iff bit_and_iff bit_drop_bit_eq 3 bit_mask_iff add.assoc
      dest: bit_imp_le_length)
  show ?thesis
    unfolding fe_set_b32_step_10x26_def Let_def prod.case
    by (rule limbs_of_or_chunk) (use ch j in auto)
qed

lemma eight_div_mod: "8 * (k div 4) + 2 * (k mod 4) = 2 * k" for k :: nat
  by presburger

lemma fe_set_b32_limbs_10x26:
  assumes "length a = 32"
  shows "fold (fe_set_b32_step_10x26 a) (List.product [0..<32] [0..<4]) (replicate 10 0) = limbs_of 26 10 (be_val a)"
proof -
  have p: "List.product [0..<32] [0..<4] = map (\<lambda>k. (k div 4, k mod 4)) [0..<128 :: nat]"
    by code_simp
  have "fold (\<lambda>k. fe_set_b32_step_10x26 a (k div 4, k mod 4)) [0..<128] (replicate 10 0)
      = limbs_of 26 10 (take_bit (2 * 128) (be_val a))"
  proof (rule fold_limbs_of)
    fix k :: nat assume "k < 128"
    then show "fe_set_b32_step_10x26 a (k div 4, k mod 4) (limbs_of 26 10 (take_bit (2 * k) (be_val a)))
        = limbs_of 26 10 (take_bit (2 * k + 2) (be_val a))"
      using fe_set_b32_step_10x26_limbs [OF assms, of "k div 4" "k mod 4"]
      by (simp add: eight_div_mod)
  qed
  moreover have "take_bit (2 * 128) (be_val a) = be_val a"
    using be_val_less [of a] assms by (intro take_bit_int_eq_self) simp_all
  ultimately show ?thesis by (simp add: p fold_map comp_def)
qed

lemma fe_set_b32_10x26_val:
  assumes "length a = 32"
  shows "fe_val_10x26 (fst (fe_set_b32_10x26 a)) = be_val a" "fe_bounded_10x26 1 (fst (fe_set_b32_10x26 a))"
    "snd (fe_set_b32_10x26 a) \<longleftrightarrow> be_val a < field_p"
proof -
  have v: "0 \<le> be_val a" "be_val a < 2 ^ 256" using be_val_less [of a] assms by simp_all
  show "fe_val_10x26 (fst (fe_set_b32_10x26 a)) = be_val a" "fe_bounded_10x26 1 (fst (fe_set_b32_10x26 a))"
    "snd (fe_set_b32_10x26 a) \<longleftrightarrow> be_val a < field_p"
    using fe_bounded_limbs_of_10x26 [OF v] fe_ge_p_10x26 [OF fe_bounded_limbs_of_10x26(2) [OF v]]
    by (simp_all add: fe_set_b32_10x26_def Let_def fe_set_b32_limbs_10x26 [OF assms] not_le)
qed

lemma fe_get_b32_byte_10x26_bits:
  assumes "i < 32" "b < 8"
  shows "bit (fe_get_b32_byte_10x26 (limbs_of 26 10 v) i) b \<longleftrightarrow> bit v (8 * i + b)"
proof -
  let ?n = "limbs_of 26 10 v :: u32 list"
  have 3: "(3 :: u32) = mask 2" by (simp add: mask_eq_exp_minus_1)
  have upt: "[0..<4] = [0, 1, 2, 3 :: nat]" by code_simp
  define g where "g j = push_bit (2 * j) (drop_bit ((8 * i + 2 * j) mod 26) (?n ! ((8 * i + 2 * j) div 26)) AND 3)" for j
  have g: "bit (g j) b \<longleftrightarrow> 2 * j \<le> b \<and> b < 2 * j + 2 \<and> bit v (8 * i + b)" if "j < 4" for j
  proof -
    define l where "l = (8 * i + 2 * j) div 26"
    define s where "s = (8 * i + 2 * j) mod 26"
    have ls: "26 * l + s = 8 * i + 2 * j" by (simp add: l_def s_def)
    have "even s" unfolding s_def by (rule dvd_mod) simp_all
    moreover have "s < 26" by (simp add: s_def)
    ultimately have "s < 25" by (cases "s = 25") simp_all
    moreover have "l < 10" using ls that assms by linarith
    moreover have "26 * l + (s + (b - 2 * j)) = 8 * i + b" if "2 * j \<le> b"
      using that ls by linarith
    ultimately show ?thesis
      using assms that unfolding g_def l_def [symmetric] s_def [symmetric]
      by (auto simp add: bit_push_bit_iff bit_and_iff bit_drop_bit_eq 3 bit_mask_iff bit_limbs_of)
  qed
  have "fe_get_b32_byte_10x26 ?n i = ucast (0 OR g 0 OR g 1 OR g 2 OR g 3)"
    by (simp only: fe_get_b32_byte_10x26_def upt fold_simps comp_def id_def Let_def g_def or.assoc)
  then show ?thesis
    using assms(2) by (auto simp add: bit_ucast_iff bit_or_iff g)
qed

lemma fe_get_b32_10x26_val:
  assumes "fe_bounded_10x26 1 a"
  shows "fe_get_b32_10x26 a = be_bytes 32 (fe_val_10x26 a)"
proof (rule be_bytes_eqI)
  have "length (fe_limbs_10x26 a) = 10" by (simp add: fe_limbs_10x26_def)
  then have l: "fe_limbs_10x26 a = limbs_of 26 10 (fe_val_10x26 a)"
    using assms limbs_of_limbs_val [of "fe_limbs_10x26 a" 26]
    by (simp add: fe_bounded_limbs_10x26 fe_val_10x26_def)
  fix i b :: nat assume "i < 32" "b < 8"
  then show "bit (fe_get_b32_10x26 a ! (32 - 1 - i)) b \<longleftrightarrow> bit (fe_val_10x26 a) (8 * i + b)"
    using fe_get_b32_byte_10x26_bits by (simp add: fe_get_b32_10x26_def rev_nth l)
qed (simp add: fe_get_b32_10x26_def)

lemma length_fs_limbs_8x32: "length (fs_limbs_8x32 s) = 8"
  by (simp add: fs_limbs_8x32_def)

lemma fs_val_less_8x32: "fs_val_8x32 s < 2 ^ 256"
  using limbs_val_less [of "fs_limbs_8x32 s" 32] uint_bounded [where 'a = 32]
  by (simp add: fs_val_8x32_def length_fs_limbs_8x32)

lemma bit_fs_8x32:
  fixes s :: fe_storage_8x32
  shows "bit (fs_n0 s) b \<longleftrightarrow> b < 32 \<and> bit (fs_val_8x32 s) b"
    "bit (fs_n1 s) b \<longleftrightarrow> b < 32 \<and> bit (fs_val_8x32 s) (32 + b)"
    "bit (fs_n2 s) b \<longleftrightarrow> b < 32 \<and> bit (fs_val_8x32 s) (64 + b)"
    "bit (fs_n3 s) b \<longleftrightarrow> b < 32 \<and> bit (fs_val_8x32 s) (96 + b)"
    "bit (fs_n4 s) b \<longleftrightarrow> b < 32 \<and> bit (fs_val_8x32 s) (128 + b)"
    "bit (fs_n5 s) b \<longleftrightarrow> b < 32 \<and> bit (fs_val_8x32 s) (160 + b)"
    "bit (fs_n6 s) b \<longleftrightarrow> b < 32 \<and> bit (fs_val_8x32 s) (192 + b)"
    "bit (fs_n7 s) b \<longleftrightarrow> b < 32 \<and> bit (fs_val_8x32 s) (224 + b)"
proof -
  have l: "fs_limbs_8x32 s = limbs_of 32 8 (fs_val_8x32 s)"
    using limbs_of_limbs_val [of "fs_limbs_8x32 s" 32] uint_bounded [where 'a = 32]
    by (simp add: fs_val_8x32_def length_fs_limbs_8x32)
  have "bit (fs_limbs_8x32 s ! i) b \<longleftrightarrow> b < 32 \<and> bit (fs_val_8x32 s) (32 * i + b)" if "i < 8" for i
    unfolding l using that by (simp add: bit_limbs_of)
  from this [of 0] this [of 1] this [of 2] this [of 3] this [of 4] this [of 5] this [of 6] this [of 7]
  show "bit (fs_n0 s) b \<longleftrightarrow> b < 32 \<and> bit (fs_val_8x32 s) b"
    "bit (fs_n1 s) b \<longleftrightarrow> b < 32 \<and> bit (fs_val_8x32 s) (32 + b)"
    "bit (fs_n2 s) b \<longleftrightarrow> b < 32 \<and> bit (fs_val_8x32 s) (64 + b)"
    "bit (fs_n3 s) b \<longleftrightarrow> b < 32 \<and> bit (fs_val_8x32 s) (96 + b)"
    "bit (fs_n4 s) b \<longleftrightarrow> b < 32 \<and> bit (fs_val_8x32 s) (128 + b)"
    "bit (fs_n5 s) b \<longleftrightarrow> b < 32 \<and> bit (fs_val_8x32 s) (160 + b)"
    "bit (fs_n6 s) b \<longleftrightarrow> b < 32 \<and> bit (fs_val_8x32 s) (192 + b)"
    "bit (fs_n7 s) b \<longleftrightarrow> b < 32 \<and> bit (fs_val_8x32 s) (224 + b)"
    by (simp_all add: fs_limbs_8x32_def)
qed

lemma less_10_cases: "i < 10 \<Longrightarrow> i = 0 \<or> i = 1 \<or> i = 2 \<or> i = 3 \<or> i = 4 \<or> i = 5 \<or> i = 6 \<or> i = 7 \<or> i = 8 \<or> i = (9 :: nat)"
  by auto

lemma fe_from_storage_10x26_limbs:
  "fe_limbs_10x26 (fe_from_storage_10x26 s) = limbs_of 26 10 (fs_val_8x32 s)"
proof (rule limbs_eq_limbs_ofI)
  fix i b :: nat assume "i < 10"
  have top: "n < 256" if "bit (fs_val_8x32 s) n" for n
    using that fs_val_less_8x32 [of s] bit_int_less [of "fs_val_8x32 s" 256 n]
    by (simp add: fs_val_8x32_def)
  show "bit (fe_limbs_10x26 (fe_from_storage_10x26 s) ! i) b \<longleftrightarrow> b < 26 \<and> bit (fs_val_8x32 s) (26 * i + b)"
    using less_10_cases [OF \<open>i < 10\<close>] top [of "234 + b"]
    by (elim disjE) (auto simp add: fe_limbs_10x26_def fe_from_storage_10x26_def bit_or_iff bit_and_iff
      bit_drop_bit_eq bit_push_bit_iff mask_26_word bit_mask_iff bit_fs_8x32)
qed (simp_all add: fe_limbs_10x26_def)

lemma bit_fe_10x26:
  assumes "fe_bounded_10x26 1 a"
  shows "bit (fe_n0 a) b \<longleftrightarrow> b < 26 \<and> bit (fe_val_10x26 a) b"
    "bit (fe_n1 a) b \<longleftrightarrow> b < 26 \<and> bit (fe_val_10x26 a) (26 + b)"
    "bit (fe_n2 a) b \<longleftrightarrow> b < 26 \<and> bit (fe_val_10x26 a) (52 + b)"
    "bit (fe_n3 a) b \<longleftrightarrow> b < 26 \<and> bit (fe_val_10x26 a) (78 + b)"
    "bit (fe_n4 a) b \<longleftrightarrow> b < 26 \<and> bit (fe_val_10x26 a) (104 + b)"
    "bit (fe_n5 a) b \<longleftrightarrow> b < 26 \<and> bit (fe_val_10x26 a) (130 + b)"
    "bit (fe_n6 a) b \<longleftrightarrow> b < 26 \<and> bit (fe_val_10x26 a) (156 + b)"
    "bit (fe_n7 a) b \<longleftrightarrow> b < 26 \<and> bit (fe_val_10x26 a) (182 + b)"
    "bit (fe_n8 a) b \<longleftrightarrow> b < 26 \<and> bit (fe_val_10x26 a) (208 + b)"
    "bit (fe_n9 a) b \<longleftrightarrow> b < 26 \<and> bit (fe_val_10x26 a) (234 + b)"
proof -
  have "bit (fe_limbs_10x26 a ! i) b \<longleftrightarrow> b < 26 \<and> bit (fe_val_10x26 a) (26 * i + b)" if "i < 10" for i
    unfolding fe_limbs_eq_10x26 [OF assms] using that by (simp add: bit_limbs_of)
  from this [of 0] this [of 1] this [of 2] this [of 3] this [of 4] this [of 5] this [of 6] this [of 7]
    this [of 8] this [of 9]
  show "bit (fe_n0 a) b \<longleftrightarrow> b < 26 \<and> bit (fe_val_10x26 a) b"
    "bit (fe_n1 a) b \<longleftrightarrow> b < 26 \<and> bit (fe_val_10x26 a) (26 + b)"
    "bit (fe_n2 a) b \<longleftrightarrow> b < 26 \<and> bit (fe_val_10x26 a) (52 + b)"
    "bit (fe_n3 a) b \<longleftrightarrow> b < 26 \<and> bit (fe_val_10x26 a) (78 + b)"
    "bit (fe_n4 a) b \<longleftrightarrow> b < 26 \<and> bit (fe_val_10x26 a) (104 + b)"
    "bit (fe_n5 a) b \<longleftrightarrow> b < 26 \<and> bit (fe_val_10x26 a) (130 + b)"
    "bit (fe_n6 a) b \<longleftrightarrow> b < 26 \<and> bit (fe_val_10x26 a) (156 + b)"
    "bit (fe_n7 a) b \<longleftrightarrow> b < 26 \<and> bit (fe_val_10x26 a) (182 + b)"
    "bit (fe_n8 a) b \<longleftrightarrow> b < 26 \<and> bit (fe_val_10x26 a) (208 + b)"
    "bit (fe_n9 a) b \<longleftrightarrow> b < 26 \<and> bit (fe_val_10x26 a) (234 + b)"
    by (simp_all add: fe_limbs_10x26_def)
qed

lemma less_8_cases: "i < 8 \<Longrightarrow> i = 0 \<or> i = 1 \<or> i = 2 \<or> i = 3 \<or> i = 4 \<or> i = 5 \<or> i = 6 \<or> i = (7 :: nat)"
  by auto

lemma fe_to_storage_10x26_limbs:
  assumes "fe_bounded_10x26 1 a"
  shows "fs_limbs_8x32 (fe_to_storage_10x26 a) = limbs_of 32 8 (fe_val_10x26 a)"
proof (rule limbs_eq_limbs_ofI)
  fix i b :: nat assume "i < 8"
  show "bit (fs_limbs_8x32 (fe_to_storage_10x26 a) ! i) b \<longleftrightarrow> b < 32 \<and> bit (fe_val_10x26 a) (32 * i + b)"
    using less_8_cases [OF \<open>i < 8\<close>]
    by (cases "28 \<le> b"; elim disjE) (auto simp add: fs_limbs_8x32_def fe_to_storage_10x26_def bit_or_iff
      bit_drop_bit_eq bit_push_bit_iff bit_fe_10x26 [OF assms])
qed (simp_all add: fs_limbs_8x32_def)

lemma fe_const_10x26_storage:
  "fe_const_10x26 d7 d6 d5 d4 d3 d2 d1 d0 = fe_from_storage_10x26 \<lparr>fs_n0 = d0, fs_n1 = d1, fs_n2 = d2,
    fs_n3 = d3, fs_n4 = d4, fs_n5 = d5, fs_n6 = d6, fs_n7 = d7\<rparr>"
proof -
  have e: "push_bit k (x AND mask (26 - k)) = push_bit k x AND 0x3FFFFFF" if "k \<le> 26" for x :: u32 and k
    by (rule bit_word_eqI) (use that in \<open>auto simp add: bit_push_bit_iff bit_and_iff bit_mask_iff mask_26_word\<close>)
  show ?thesis
    using e [of 6 d1] e [of 12 d2] e [of 18 d3] e [of 24 d4] e [of 4 d5] e [of 10 d6] e [of 16 d7]
    by (simp add: fe_const_10x26_def fe_from_storage_10x26_def mask_eq_exp_minus_1)
qed

lemma fe_storage_roundtrip_10x26:
  "fe_val_10x26 (fe_from_storage_10x26 s) = fs_val_8x32 s"
  "fe_bounded_10x26 1 (fe_from_storage_10x26 s)"
  "fe_bounded_10x26 1 a \<Longrightarrow> fs_val_8x32 (fe_to_storage_10x26 a) = fe_val_10x26 a"
  "fe_bounded_10x26 1 a \<Longrightarrow> fe_from_storage_10x26 (fe_to_storage_10x26 a) = a"
proof -
  have ofl: "fe_of_limbs_10x26 (fe_limbs_10x26 x) = x" for x
    by (simp add: fe_of_limbs_10x26_def fe_limbs_10x26_def)
  have nn: "0 \<le> fs_val_8x32 t" for t by (simp add: fs_val_8x32_def)
  have eq: "fe_from_storage_10x26 t = fe_of_limbs_10x26 (limbs_of 26 10 (fs_val_8x32 t))" for t
    using ofl [of "fe_from_storage_10x26 t"] by (simp add: fe_from_storage_10x26_limbs)
  have fromv: "fe_val_10x26 (fe_from_storage_10x26 t) = fs_val_8x32 t" "fe_bounded_10x26 1 (fe_from_storage_10x26 t)" for t
    unfolding eq using fe_bounded_limbs_of_10x26 [OF nn fs_val_less_8x32] by simp_all
  then show "fe_val_10x26 (fe_from_storage_10x26 s) = fs_val_8x32 s" "fe_bounded_10x26 1 (fe_from_storage_10x26 s)"
    by simp_all
  assume a: "fe_bounded_10x26 1 a"
  have "fe_val_10x26 a < 2 ^ 256"
    using a unfolding fe_val_expand_10x26 fe_bounded_10x26_def by simp
  then show v: "fs_val_8x32 (fe_to_storage_10x26 a) = fe_val_10x26 a"
    using fe_to_storage_10x26_limbs [OF a]
    by (simp add: fs_val_8x32_def limbs_val_limbs_of take_bit_int_eq_self fe_val_10x26_def)
  show "fe_from_storage_10x26 (fe_to_storage_10x26 a) = a"
    by (rule fe_val_inj_10x26) (use fromv a v in simp_all)
qed

section \<open>The contract holds\<close>

lemma fe_norm_10x26_iff: "fe_norm_10x26 a \<longleftrightarrow> fe_bounded_10x26 1 a \<and> fe_val_10x26 a < field_p"
  using fe_ge_p_10x26 [of a] by (auto simp add: fe_norm_10x26_def fe_verify_10x26_def)

lemma fe_norm_res_10x26: "fe_norm_10x26 a \<Longrightarrow> fe_res_10x26 a = fe_val_10x26 a"
  by (simp add: fe_norm_10x26_iff fe_res_10x26_def fe_val_10x26_def)

lemma fe_mag_10x26_iff: "fe_mag_10x26 m a \<longleftrightarrow> 0 \<le> m \<and> m \<le> 31 \<and> fe_bounded_10x26 (2 * m) a"
  by (auto simp add: fe_mag_10x26_def fe_verify_10x26_def)

lemma fe_bounded_mono_10x26: "fe_bounded_10x26 m a \<Longrightarrow> m \<le> n \<Longrightarrow> fe_bounded_10x26 n a"
  by (simp add: fe_bounded_10x26_def)

lemma fe_normI_10x26:
  "fe_bounded_10x26 1 a \<Longrightarrow> fe_val_10x26 a < field_p \<Longrightarrow> fe_norm_10x26 a"
  "fe_bounded_10x26 1 a \<Longrightarrow> fe_mag_10x26 1 a"
  by (simp_all add: fe_norm_10x26_iff fe_mag_10x26_iff fe_bounded_mono_10x26 [of 1])

lemma fe_mag_normalize_10x26:
  "fe_mag_10x26 m a \<Longrightarrow> fe_res_10x26 (fe_normalize_10x26 a) = fe_res_10x26 a \<and>
    fe_norm_10x26 (fe_normalize_10x26 a)"
  using fe_normalize_10x26_val [of "2 * m" a]
  by (simp add: fe_mag_10x26_iff fe_norm_10x26_iff fe_res_10x26_def)

lemma fe_mag_normalize_weak_10x26:
  assumes "fe_mag_10x26 m a"
  shows "fe_res_10x26 (fe_normalize_weak_10x26 a) = fe_res_10x26 a \<and>
    fe_mag_10x26 1 (fe_normalize_weak_10x26 a)"
  using fe_first_pass_10x26 [of "2 * m" a] assms fe_weak_limbs_10x26(3) [of "fe_first_pass_10x26 a"]
  by (simp add: fe_mag_10x26_iff fe_res_10x26_def fe_normalize_weak_10x26_def)

lemma fe_mag_linear_10x26:
  "fe_mag_10x26 m a \<Longrightarrow> m \<le> 30 \<Longrightarrow>
    fe_res_10x26 (fe_negate_10x26 a m) = (- fe_res_10x26 a) mod field_p \<and> fe_mag_10x26 (m + 1) (fe_negate_10x26 a m)"
  "fe_mag_10x26 m a \<Longrightarrow> 0 \<le> k \<Longrightarrow> k \<le> 31 \<Longrightarrow> m * k \<le> 31 \<Longrightarrow>
    fe_res_10x26 (fe_mul_int_10x26 a k) = (fe_res_10x26 a * k) mod field_p \<and> fe_mag_10x26 (m * k) (fe_mul_int_10x26 a k)"
  "fe_mag_10x26 m a \<Longrightarrow> fe_mag_10x26 n b \<Longrightarrow> m + n \<le> 31 \<Longrightarrow>
    fe_res_10x26 (fe_add_10x26 a b) = (fe_res_10x26 a + fe_res_10x26 b) mod field_p \<and>
    fe_mag_10x26 (m + n) (fe_add_10x26 a b)"
proof -
  assume "fe_mag_10x26 m a" "m \<le> 30"
  then show "fe_res_10x26 (fe_negate_10x26 a m) = (- fe_res_10x26 a) mod field_p \<and> fe_mag_10x26 (m + 1) (fe_negate_10x26 a m)"
    using fe_negate_10x26_val [of m a] mod_mult_self1 [of "- fe_val_10x26 a" "2 * (m + 1)" field_p]
    by (simp add: fe_mag_10x26_iff fe_res_10x26_def mod_minus_eq)
next
  assume "fe_mag_10x26 m a" "0 \<le> k" "k \<le> 31" "m * k \<le> 31"
  then show "fe_res_10x26 (fe_mul_int_10x26 a k) = (fe_res_10x26 a * k) mod field_p \<and> fe_mag_10x26 (m * k) (fe_mul_int_10x26 a k)"
    using fe_mul_int_10x26_val [of "2 * m" a k]
    by (simp add: fe_mag_10x26_iff fe_res_10x26_def mod_mult_left_eq mult.assoc mult.commute [of k m])
next
  assume "fe_mag_10x26 m a" "fe_mag_10x26 n b" "m + n \<le> 31"
  then show "fe_res_10x26 (fe_add_10x26 a b) = (fe_res_10x26 a + fe_res_10x26 b) mod field_p \<and>
    fe_mag_10x26 (m + n) (fe_add_10x26 a b)"
    using fe_add_10x26_val [of "2 * m" a "2 * n" b]
    by (simp add: fe_mag_10x26_iff fe_res_10x26_def mod_add_eq distrib_left)
qed

lemma fe_mag_mul_10x26:
  "fe_mag_10x26 8 a \<Longrightarrow> fe_mag_10x26 8 b \<Longrightarrow>
    fe_res_10x26 (fe_mul_10x26 a b) = (fe_res_10x26 a * fe_res_10x26 b) mod field_p \<and> fe_mag_10x26 1 (fe_mul_10x26 a b)"
  using fe_mul_10x26_val [of a b] by (simp add: fe_mag_10x26_iff fe_res_10x26_def mod_mult_eq)

lemma fe_const_10x26_val:
  "fe_val_10x26 (fe_const_10x26 d7 d6 d5 d4 d3 d2 d1 d0) = limbs_val 32 [d0, d1, d2, d3, d4, d5, d6, d7]"
  "fe_bounded_10x26 1 (fe_const_10x26 d7 d6 d5 d4 d3 d2 d1 d0)"
  unfolding fe_const_10x26_storage fe_storage_roundtrip_10x26
  by (simp_all add: fs_val_8x32_def fs_limbs_8x32_def fe_storage_roundtrip_10x26)

interpretation fe10: field_repr F10x26 fe_res_10x26 fe_mag_10x26 fe_norm_10x26 fs_val_8x32
proof (unfold_locales, goal_cases)
  case 1 then show ?case by (simp add: fe_res_10x26_def)
next
  case 2 then show ?case by (simp add: fe_res_10x26_def)
next
  case 3 then show ?case by (simp add: fe_mag_10x26_iff)
next
  case 4 then show ?case by (auto simp add: fe_mag_10x26_iff intro: fe_bounded_mono_10x26)
next
  case 5 then show ?case by (simp add: fe_norm_10x26_iff fe_normI_10x26)
next
  case 6 then show ?case using fe_val_inj_10x26 by (simp add: fe_norm_res_10x26 fe_norm_10x26_iff)
next
  case 7 then show ?case using fe_mag_normalize_10x26 by (simp add: F10x26_def)
next
  case 8 then show ?case using fe_mag_normalize_weak_10x26 by (simp add: F10x26_def)
next
  case (9 m a) then show ?case using fe_normalize_var_10x26_eq [of "2 * m" a] by (simp add: F10x26_def fe_mag_10x26_iff)
next
  case (10 m a) then show ?case
    using fe_normalizes_to_zero_10x26_val [of "2 * m" a] by (simp add: F10x26_def fe_mag_10x26_iff fe_res_10x26_def)
next
  case (11 m a) then show ?case
    using fe_normalizes_to_zero_10x26_val [of "2 * m" a] by (simp add: F10x26_def fe_mag_10x26_iff fe_res_10x26_def
      fe_normalizes_to_zero_var_10x26_eq)
next
  case 12 then show ?case
    using fe_set_int_10x26_val by (simp add: F10x26_def fe_norm_10x26_iff fe_res_10x26_def field_p_def)
next
  case 13 then show ?case
    by (simp add: F10x26_def fe_norm_10x26_iff fe_res_10x26_def fe_clear_10x26_val)
next
  case 14 then show ?case by (simp add: F10x26_def fe_is_zero_10x26_val fe_norm_res_10x26)
next
  case 15 then show ?case by (simp add: F10x26_def fe_is_odd_10x26_val fe_norm_res_10x26)
next
  case 16 then show ?case
    using fe_cmp_var_10x26_val by (simp add: F10x26_def fe_norm_res_10x26 fe_norm_10x26_iff)
next
  case 17 then show ?case
    using fe_set_b32_10x26_val by (simp add: F10x26_def fe_res_10x26_def fe_normI_10x26)
next
  case 18 then show ?case
    using fe_get_b32_10x26_val by (simp add: F10x26_def fe_norm_res_10x26 fe_norm_10x26_iff)
next
  case 19 then show ?case using fe_mag_linear_10x26(1) by (simp add: F10x26_def)
next
  case 20 then show ?case using fe_mag_linear_10x26(2) by (simp add: F10x26_def)
next
  case 21 then show ?case using fe_mag_linear_10x26(3) by (simp add: F10x26_def)
next
  case 22 then show ?case using fe_mag_mul_10x26 by (simp add: F10x26_def)
next
  case 23 then show ?case
    using fe_mag_mul_10x26 fe_sqr_10x26_eq by (simp add: F10x26_def fe_mag_10x26_iff)
next
  case 24 then show ?case by (simp add: F10x26_def fe_cmov_10x26_val)
next
  case 25 then show ?case by (simp add: F10x26_def fe_storage_cmov_8x32_val)
next
  case 26 then show ?case
    by (simp add: F10x26_def fe_storage_roundtrip_10x26 fe_norm_res_10x26 fe_norm_10x26_iff)
next
  case 27 then show ?case
    by (simp add: F10x26_def fe_storage_roundtrip_10x26 fe_res_10x26_def fe_normI_10x26)
next
  case 28 then show ?case by (simp add: F10x26_def fe_storage_roundtrip_10x26 fe_norm_10x26_iff)
next
  case 29 then show ?case
    by (simp add: F10x26_def fe_const_10x26_val fe_res_10x26_def fe_normI_10x26 del: limbs_val.simps)
qed

section \<open>Properties\<close>

text \<open>
  C3: the product of two field elements of magnitude at most 8 has magnitude 1 and represents
  the product of the represented numbers modulo the field characteristic.
\<close>

theorem fe_mul_correct:
  assumes "fe_verify_10x26 False m a" "m \<le> 8" "fe_verify_10x26 False n b" "n \<le> 8"
  shows "fe_val_10x26 (fe_mul_10x26 a b) mod field_p = (fe_val_10x26 a * fe_val_10x26 b) mod field_p \<and>
    fe_verify_10x26 False 1 (fe_mul_10x26 a b)"
proof -
  have "fe_bounded_10x26 16 a" "fe_bounded_10x26 16 b"
    using assms by (auto simp add: fe_verify_10x26_def intro: fe_bounded_mono_10x26)
  then show ?thesis
    using fe_mul_10x26_val [of a b] by (simp add: fe_verify_10x26_def)
qed

theorem fe_mul_correct_witness:
  "fe_verify_10x26 False 8 (fe_mul_int_10x26 (fe_set_int_10x26 3) 8) \<and>
    fe_verify_10x26 False 1 (fe_mul_10x26 (fe_mul_int_10x26 (fe_set_int_10x26 3) 8) (fe_set_int_10x26 5))"
proof -
  have "fe_verify_10x26 False 8 (fe_mul_int_10x26 (fe_set_int_10x26 3) 8)" "fe_verify_10x26 False 1 (fe_set_int_10x26 5)"
    by (simp_all add: fe_verify_10x26_def fe_bounded_10x26_def fe_mul_int_10x26_def fe_set_int_10x26_def)
  with fe_mul_correct [of 8 "fe_mul_int_10x26 (fe_set_int_10x26 3) 8" 1 "fe_set_int_10x26 5"]
  show ?thesis by simp
qed

text \<open>
  C31: squaring agrees with multiplication of an element with itself, limb by limb, on every
  element of magnitude at most 8, although \<^verbatim>\<open>secp256k1_fe_sqr_inner\<close> doubles limbs in 32 bits.
\<close>

theorem fe_sqr_is_mul:
  assumes "fe_verify_10x26 False m a" "m \<le> 8"
  shows "fe_sqr_10x26 a = fe_mul_10x26 a a"
proof -
  have "fe_bounded_10x26 16 a"
    using assms by (auto simp add: fe_verify_10x26_def intro: fe_bounded_mono_10x26)
  then show ?thesis by (rule fe_sqr_10x26_eq)
qed

theorem fe_sqr_is_mul_witness:
  "fe_sqr_10x26 (fe_mul_int_10x26 (fe_set_int_10x26 3) 8) =
    fe_mul_10x26 (fe_mul_int_10x26 (fe_set_int_10x26 3) 8) (fe_mul_int_10x26 (fe_set_int_10x26 3) 8)"
  by (rule fe_sqr_is_mul [of 8])
    (simp_all add: fe_verify_10x26_def fe_bounded_10x26_def fe_mul_int_10x26_def fe_set_int_10x26_def)

text \<open>
  C5: for every element of magnitude at most 31, \<^verbatim>\<open>secp256k1_fe_normalize\<close> returns the
  canonical representation of its residue, the variable-time variant computes the same limbs, and
  the two zero tests, which do not write the element, decide whether the residue is 0.
\<close>

theorem fe_normalize_correct:
  assumes "fe_verify_10x26 False m a" "m \<le> 31"
  shows "fe_verify_10x26 True 1 (fe_normalize_10x26 a) \<and>
    fe_val_10x26 (fe_normalize_10x26 a) = fe_val_10x26 a mod field_p \<and>
    fe_normalize_var_10x26 a = fe_normalize_10x26 a \<and>
    fe_normalizes_to_zero_10x26 a = (fe_val_10x26 a mod field_p = 0) \<and>
    fe_normalizes_to_zero_var_10x26 a = (fe_val_10x26 a mod field_p = 0)"
proof -
  have "fe_mag_10x26 m a" using assms by (simp add: fe_mag_10x26_def)
  from fe10.normalize [OF this] fe10.normalize_var [OF this] fe10.normalizes_to_zero [OF this]
    fe10.normalizes_to_zero_var [OF this]
  show ?thesis
    using fe_norm_res_10x26 [of "fe_normalize_10x26 a"]
    by (simp add: F10x26_def fe_norm_10x26_def fe_res_10x26_def)
qed

theorem fe_normalize_correct_witness:
  "fe_val_10x26 (fe_normalize_10x26 (fe_mul_int_10x26 (fe_set_int_10x26 3) 31)) = 93"
proof -
  have "fe_verify_10x26 False 31 (fe_mul_int_10x26 (fe_set_int_10x26 3) 31)"
    by (simp add: fe_verify_10x26_def fe_bounded_10x26_def fe_mul_int_10x26_def fe_set_int_10x26_def)
  with fe_normalize_correct [of 31 "fe_mul_int_10x26 (fe_set_int_10x26 3) 31"]
  show ?thesis
    by (simp add: fe_val_expand_10x26 fe_mul_int_10x26_def fe_set_int_10x26_def field_p_def)
qed

text \<open>
  The bound 31 of the previous property is sharp. \<^verbatim>\<open>secp256k1_fe_verify\<close> admits magnitude 32,
  but there is an element of magnitude 32 on which the first addition of
  \<^verbatim>\<open>secp256k1_fe_normalize\<close> wraps around and the result has another residue.
\<close>

theorem fe_normalize_magnitude_32:
  "\<exists>a. fe_verify_10x26 False 32 a \<and>
    fe_val_10x26 (fe_normalize_10x26 a) mod field_p \<noteq> fe_val_10x26 a mod field_p"
proof -
  define a where "a = \<lparr>fe_n0 = 0xFFFFFFC0, fe_n1 = 0, fe_n2 = 0, fe_n3 = 0, fe_n4 = 0, fe_n5 = 0,
    fe_n6 = 0, fe_n7 = 0, fe_n8 = 0, fe_n9 = 0xFFFFFC0\<rparr>"
  have v: "fe_verify_10x26 False 32 a"
    by (simp add: a_def fe_verify_10x26_def fe_bounded_10x26_def)
  have n: "fe_val_10x26 (fe_normalize_10x26 a) mod field_p = 115790322390251417039241401711187164934754157181743688420499462401982420021295"
    by (simp add: a_def fe_normalize_10x26_def fe_first_pass_10x26_def fe_fold_10x26_def fe_carry_10x26_def
        fe_ge_p_10x26_def Let_def fe_val_expand_10x26 field_p_def)
  have "fe_val_10x26 a mod field_p = 115790322390251417039241401711187164934754157181743688420499462401986714988591"
    by (simp add: a_def fe_val_expand_10x26 field_p_def)
  with v n show ?thesis by (intro exI [of _ a]) simp
qed

text \<open>
  C35: the byte and storage encodings are lossless. Decoding the 32 bytes of a normalized element
  gives the element back and succeeds; decoding succeeds exactly on the strings below the field
  characteristic and encoding then restores the string; and an element survives its storage form.
\<close>

theorem fe_encodings_roundtrip:
  assumes "fe_verify_10x26 True 1 a" "length bs = 32"
  shows "fe_set_b32_10x26 (fe_get_b32_10x26 a) = (a, True) \<and>
    snd (fe_set_b32_10x26 bs) = (be_val bs < field_p) \<and>
    (be_val bs < field_p \<longrightarrow> fe_get_b32_10x26 (fst (fe_set_b32_10x26 bs)) = bs) \<and>
    fe_from_storage_10x26 (fe_to_storage_10x26 a) = a"
proof -
  have n: "fe_norm_10x26 a" using assms(1) by (simp add: fe_norm_10x26_def)
  let ?b = "be_bytes 32 (fe_res_10x26 a)"
  have g: "fe_get_b32_10x26 a = ?b" using fe10.get_b32 [OF n] by (simp add: F10x26_def)
  have v: "be_val ?b = fe_res_10x26 a"
    using fe10.res_range [of a] by (simp add: be_val_be_bytes field_p_def)
  have s: "snd (fe_set_b32_10x26 ?b)" "fe_norm_10x26 (fst (fe_set_b32_10x26 ?b))"
    "fe_res_10x26 (fst (fe_set_b32_10x26 ?b)) = fe_res_10x26 a"
    using fe10.set_b32 [of ?b] v fe10.res_range [of a] by (simp_all add: F10x26_def)
  have "fst (fe_set_b32_10x26 ?b) = a" using fe10.norm_inj [OF s(2) n s(3)] .
  then have "fe_set_b32_10x26 (fe_get_b32_10x26 a) = (a, True)"
    using s(1) g by (metis prod.collapse)
  moreover have "fe_get_b32_10x26 (fst (fe_set_b32_10x26 bs)) = bs" if "be_val bs < field_p"
  proof -
    have f: "fe_norm_10x26 (fst (fe_set_b32_10x26 bs))" "fe_res_10x26 (fst (fe_set_b32_10x26 bs)) = be_val bs"
      using fe10.set_b32 [OF assms(2)] that by (simp_all add: F10x26_def)
    then show ?thesis using fe10.get_b32 [OF f(1)] be_bytes_be_val [of bs] assms(2) by (simp add: F10x26_def)
  qed
  ultimately show ?thesis
    using fe10.set_b32 [OF assms(2)] fe10.storage_roundtrip [OF n] by (simp add: F10x26_def)
qed

theorem fe_encodings_roundtrip_witness:
  "fe_set_b32_10x26 (fe_get_b32_10x26 (fe_set_int_10x26 7)) = (fe_set_int_10x26 7, True) \<and>
    snd (fe_set_b32_10x26 (be_bytes 32 (2 ^ 256 - 1))) = False"
proof -
  have "fe_verify_10x26 True 1 (fe_set_int_10x26 7)"
    by (simp add: fe_verify_10x26_def fe_bounded_10x26_def fe_set_int_10x26_def fe_ge_p_10x26_def)
  with fe_encodings_roundtrip [of "fe_set_int_10x26 7" "be_bytes 32 (2 ^ 256 - 1)"]
  show ?thesis by (simp add: be_val_be_bytes field_p_def)
qed

text \<open>
  C34: the magnitude rules of \<^verbatim>\<open>field.h\<close>. Negation with the bound \<open>m\<close>, addition and multiplication
  by a small integer return elements of the announced magnitude that represent the negated
  number, the sum and the multiple, as long as the magnitude stays within 31.
\<close>

theorem fe_magnitude_rules:
  assumes "fe_verify_10x26 False m a" "fe_verify_10x26 False n b" "m + n \<le> 31" "m \<le> 30"
    and "0 \<le> k" "k \<le> 31" "m * k \<le> 31"
  shows "fe_verify_10x26 False (m + 1) (fe_negate_10x26 a m) \<and>
    fe_res_10x26 (fe_negate_10x26 a m) = (- fe_res_10x26 a) mod field_p \<and>
    fe_verify_10x26 False (m + n) (fe_add_10x26 a b) \<and>
    fe_res_10x26 (fe_add_10x26 a b) = (fe_res_10x26 a + fe_res_10x26 b) mod field_p \<and>
    fe_verify_10x26 False (m * k) (fe_mul_int_10x26 a k) \<and>
    fe_res_10x26 (fe_mul_int_10x26 a k) = (fe_res_10x26 a * k) mod field_p"
proof -
  have "0 \<le> m" "0 \<le> n" using assms(1,2) by (simp_all add: fe_verify_10x26_def)
  then have "fe_mag_10x26 m a" "fe_mag_10x26 n b" using assms by (simp_all add: fe_mag_10x26_def)
  from fe10.negate [OF this(1)] fe10.add [OF this] fe10.mul_int [OF this(1)] assms
  show ?thesis by (simp add: F10x26_def fe_mag_10x26_def)
qed

theorem fe_magnitude_rules_witness:
  "fe_verify_10x26 False 2 (fe_negate_10x26 (fe_set_int_10x26 3) 1) \<and>
    fe_res_10x26 (fe_add_10x26 (fe_set_int_10x26 3) (fe_set_int_10x26 4)) = 7"
proof -
  have "fe_verify_10x26 False 1 (fe_set_int_10x26 3)" "fe_verify_10x26 False 1 (fe_set_int_10x26 4)"
    by (simp_all add: fe_verify_10x26_def fe_bounded_10x26_def fe_set_int_10x26_def)
  with fe_magnitude_rules [of 1 "fe_set_int_10x26 3" 1 "fe_set_int_10x26 4" 2]
  show ?thesis
    by (simp add: fe_res_10x26_def fe_val_expand_10x26 fe_set_int_10x26_def field_p_def)
qed

end
