(* ===== verification/Field_5x52.thy ===== *)
theory Field_5x52
  imports Field
begin

text \<open>
  The field representation for 64-bit machines (\<^verbatim>\<open>USE_FIELD_5X52\<close>): five 64-bit limbs in
  radix \<open>2 ^ 52\<close>, from \<^verbatim>\<open>field_5x52.h\<close>, \<^verbatim>\<open>field_5x52_impl.h\<close> and, for the products,
  \<^verbatim>\<open>field_5x52_int128_impl.h\<close>. The structure follows \<open>Field_10x26\<close>; the lemmas end
  in a second interpretation of \<open>field_repr\<close>, so that the code above the field may be compiled
  against either representation.
\<close>

section \<open>Data\<close>

record fe_5x52 =
  fe5_n0 :: u64
  fe5_n1 :: u64
  fe5_n2 :: u64
  fe5_n3 :: u64
  fe5_n4 :: u64

record fe_storage_4x64 =
  fs4_n0 :: u64
  fs4_n1 :: u64
  fs4_n2 :: u64
  fs4_n3 :: u64

definition fe_limbs_5x52 :: "fe_5x52 \<Rightarrow> u64 list" where
  "fe_limbs_5x52 a = [fe5_n0 a, fe5_n1 a, fe5_n2 a, fe5_n3 a, fe5_n4 a]"

definition fe_of_limbs_5x52 :: "u64 list \<Rightarrow> fe_5x52" where
  "fe_of_limbs_5x52 n =
    \<lparr>fe5_n0 = n ! 0, fe5_n1 = n ! 1, fe5_n2 = n ! 2, fe5_n3 = n ! 3, fe5_n4 = n ! 4\<rparr>"

definition fs_limbs_4x64 :: "fe_storage_4x64 \<Rightarrow> u64 list" where
  "fs_limbs_4x64 s = [fs4_n0 s, fs4_n1 s, fs4_n2 s, fs4_n3 s]"

definition fe_val_5x52 :: "fe_5x52 \<Rightarrow> int" where
  "fe_val_5x52 a = limbs_val 52 (fe_limbs_5x52 a)"

definition fs_val_4x64 :: "fe_storage_4x64 \<Rightarrow> int" where
  "fs_val_4x64 s = limbs_val 64 (fs_limbs_4x64 s)"

definition fe_bounded_5x52 :: "int \<Rightarrow> fe_5x52 \<Rightarrow> bool" where
  "fe_bounded_5x52 m a \<longleftrightarrow>
    uint (fe5_n0 a) \<le> 0xFFFFFFFFFFFFF * m \<and> uint (fe5_n1 a) \<le> 0xFFFFFFFFFFFFF * m \<and>
    uint (fe5_n2 a) \<le> 0xFFFFFFFFFFFFF * m \<and> uint (fe5_n3 a) \<le> 0xFFFFFFFFFFFFF * m \<and>
    uint (fe5_n4 a) \<le> 0xFFFFFFFFFFFF * m"

definition fe_ge_p_5x52 :: "fe_5x52 \<Rightarrow> bool" where
  "fe_ge_p_5x52 r \<longleftrightarrow>
    fe5_n4 r = 0xFFFFFFFFFFFF \<and> fe5_n1 r AND fe5_n2 r AND fe5_n3 r = 0xFFFFFFFFFFFFF \<and>
    0xFFFFEFFFFFC2F \<le> fe5_n0 r"

definition fe_verify_5x52 :: "bool \<Rightarrow> int \<Rightarrow> fe_5x52 \<Rightarrow> bool" where
  "fe_verify_5x52 normalized magnitude a \<longleftrightarrow>
    fe_bounded_5x52 (if normalized then 1 else 2 * magnitude) a \<and> 0 \<le> magnitude \<and> magnitude \<le> 2048 \<and>
    (normalized \<longrightarrow> magnitude \<le> 1 \<and> \<not> fe_ge_p_5x52 a)"

section \<open>Normalization\<close>

definition fe_carry_5x52 :: "fe_5x52 \<Rightarrow> fe_5x52" where
  "fe_carry_5x52 r =
    (let
     t0 = fe5_n0 r; t1 = fe5_n1 r; t2 = fe5_n2 r; t3 = fe5_n3 r; t4 = fe5_n4 r;
     t1 = t1 + drop_bit 52 t0; t0 = t0 AND 0xFFFFFFFFFFFFF;
     t2 = t2 + drop_bit 52 t1; t1 = t1 AND 0xFFFFFFFFFFFFF;
     t3 = t3 + drop_bit 52 t2; t2 = t2 AND 0xFFFFFFFFFFFFF;
     t4 = t4 + drop_bit 52 t3; t3 = t3 AND 0xFFFFFFFFFFFFF
     in \<lparr>fe5_n0 = t0, fe5_n1 = t1, fe5_n2 = t2, fe5_n3 = t3, fe5_n4 = t4\<rparr>)"

definition fe_fold_5x52 :: "u64 \<Rightarrow> fe_5x52 \<Rightarrow> fe_5x52" where
  "fe_fold_5x52 x r = r\<lparr>fe5_n0 := fe5_n0 r + x * 0x1000003D1\<rparr>"

definition fe_first_pass_5x52 :: "fe_5x52 \<Rightarrow> fe_5x52" where
  "fe_first_pass_5x52 r =
    (let x = drop_bit 48 (fe5_n4 r) in
     fe_carry_5x52 (fe_fold_5x52 x (r\<lparr>fe5_n4 := fe5_n4 r AND 0xFFFFFFFFFFFF\<rparr>)))"

definition fe_normalize_weak_5x52 :: "fe_5x52 \<Rightarrow> fe_5x52" where
  "fe_normalize_weak_5x52 r = fe_first_pass_5x52 r"

definition fe_normalize_5x52 :: "fe_5x52 \<Rightarrow> fe_5x52" where
  "fe_normalize_5x52 r =
    (let t = fe_first_pass_5x52 r;
         x = drop_bit 48 (fe5_n4 t) OR of_bool (fe_ge_p_5x52 t);
         t = fe_carry_5x52 (fe_fold_5x52 x t)
     in t\<lparr>fe5_n4 := fe5_n4 t AND 0xFFFFFFFFFFFF\<rparr>)"

definition fe_normalize_var_5x52 :: "fe_5x52 \<Rightarrow> fe_5x52" where
  "fe_normalize_var_5x52 r =
    (let t = fe_first_pass_5x52 r;
         x = drop_bit 48 (fe5_n4 t) OR of_bool (fe_ge_p_5x52 t)
     in if x \<noteq> 0 then
          let t = fe_carry_5x52 (t\<lparr>fe5_n0 := fe5_n0 t + 0x1000003D1\<rparr>)
          in t\<lparr>fe5_n4 := fe5_n4 t AND 0xFFFFFFFFFFFF\<rparr>
        else t)"

definition fe_normalizes_to_zero_5x52 :: "fe_5x52 \<Rightarrow> bool" where
  "fe_normalizes_to_zero_5x52 r =
    (let t = fe_first_pass_5x52 r;
         z0 = fe5_n0 t OR fe5_n1 t OR fe5_n2 t OR fe5_n3 t OR fe5_n4 t;
         z1 = (fe5_n0 t XOR 0x1000003D0) AND fe5_n1 t AND fe5_n2 t AND fe5_n3 t
              AND (fe5_n4 t XOR 0xF000000000000)
     in z0 = 0 \<or> z1 = 0xFFFFFFFFFFFFF)"

definition fe_normalizes_to_zero_var_5x52 :: "fe_5x52 \<Rightarrow> bool" where
  "fe_normalizes_to_zero_var_5x52 r =
    (let t0 = fe5_n0 r; t4 = fe5_n4 r;
         x = drop_bit 48 t4;
         t0 = t0 + x * 0x1000003D1;
         z0 = t0 AND 0xFFFFFFFFFFFFF;
         z1 = z0 XOR 0x1000003D0
     in if z0 \<noteq> 0 \<and> z1 \<noteq> 0xFFFFFFFFFFFFF then False
        else
     let t1 = fe5_n1 r; t2 = fe5_n2 r; t3 = fe5_n3 r;
         t4 = t4 AND 0xFFFFFFFFFFFF;
         t1 = t1 + drop_bit 52 t0;
         t2 = t2 + drop_bit 52 t1; t1 = t1 AND 0xFFFFFFFFFFFFF; z0 = z0 OR t1; z1 = z1 AND t1;
         t3 = t3 + drop_bit 52 t2; t2 = t2 AND 0xFFFFFFFFFFFFF; z0 = z0 OR t2; z1 = z1 AND t2;
         t4 = t4 + drop_bit 52 t3; t3 = t3 AND 0xFFFFFFFFFFFFF; z0 = z0 OR t3; z1 = z1 AND t3;
         z0 = z0 OR t4; z1 = z1 AND (t4 XOR 0xF000000000000)
     in z0 = 0 \<or> z1 = 0xFFFFFFFFFFFFF)"

section \<open>Setting, testing and comparing\<close>

definition fe_set_int_5x52 :: "int \<Rightarrow> fe_5x52" where
  "fe_set_int_5x52 a =
    \<lparr>fe5_n0 = word_of_int a, fe5_n1 = 0, fe5_n2 = 0, fe5_n3 = 0, fe5_n4 = 0\<rparr>"

definition fe_is_zero_5x52 :: "fe_5x52 \<Rightarrow> bool" where
  "fe_is_zero_5x52 t \<longleftrightarrow> fe5_n0 t OR fe5_n1 t OR fe5_n2 t OR fe5_n3 t OR fe5_n4 t = 0"

definition fe_is_odd_5x52 :: "fe_5x52 \<Rightarrow> bool" where
  "fe_is_odd_5x52 a \<longleftrightarrow> fe5_n0 a AND 1 \<noteq> 0"

definition fe_clear_5x52 :: fe_5x52 where
  "fe_clear_5x52 = fe_of_limbs_5x52 (replicate 5 0)"

definition fe_cmp_var_5x52 :: "fe_5x52 \<Rightarrow> fe_5x52 \<Rightarrow> int" where
  "fe_cmp_var_5x52 a b = limbs_cmp (rev (fe_limbs_5x52 a)) (rev (fe_limbs_5x52 b))"

section \<open>Byte strings\<close>

definition fe_set_b32_step_5x52 :: "u8 list \<Rightarrow> nat \<times> nat \<Rightarrow> u64 list \<Rightarrow> u64 list" where
  "fe_set_b32_step_5x52 a = (\<lambda>(i, j) n.
    let limb = (8 * i + 4 * j) div 52;
        shift = (8 * i + 4 * j) mod 52
    in n[limb := n ! limb OR push_bit shift (ucast (drop_bit (4 * j) (a ! (31 - i)) AND 15))])"

definition fe_set_b32_5x52 :: "u8 list \<Rightarrow> fe_5x52 \<times> bool" where
  "fe_set_b32_5x52 a =
    (let r = fe_of_limbs_5x52
           (fold (fe_set_b32_step_5x52 a) (List.product [0..<32] [0..<2]) (replicate 5 0))
     in (r, \<not> fe_ge_p_5x52 r))"

definition fe_get_b32_byte_5x52 :: "u64 list \<Rightarrow> nat \<Rightarrow> u8" where
  "fe_get_b32_byte_5x52 n i =
    ucast (fold (\<lambda>j c.
      let limb = (8 * i + 4 * j) div 52;
          shift = (8 * i + 4 * j) mod 52
      in c OR push_bit (4 * j) (drop_bit shift (n ! limb) AND 15)) [0..<2] 0)"

definition fe_get_b32_5x52 :: "fe_5x52 \<Rightarrow> u8 list" where
  "fe_get_b32_5x52 a = rev (map (fe_get_b32_byte_5x52 (fe_limbs_5x52 a)) [0..<32])"

section \<open>Linear operations\<close>

definition fe_negate_5x52 :: "fe_5x52 \<Rightarrow> int \<Rightarrow> fe_5x52" where
  "fe_negate_5x52 a m =
    \<lparr>fe5_n0 = 0xFFFFEFFFFFC2F * 2 * word_of_int (m + 1) - fe5_n0 a,
     fe5_n1 = 0xFFFFFFFFFFFFF * 2 * word_of_int (m + 1) - fe5_n1 a,
     fe5_n2 = 0xFFFFFFFFFFFFF * 2 * word_of_int (m + 1) - fe5_n2 a,
     fe5_n3 = 0xFFFFFFFFFFFFF * 2 * word_of_int (m + 1) - fe5_n3 a,
     fe5_n4 = 0xFFFFFFFFFFFF * 2 * word_of_int (m + 1) - fe5_n4 a\<rparr>"

definition fe_mul_int_5x52 :: "fe_5x52 \<Rightarrow> int \<Rightarrow> fe_5x52" where
  "fe_mul_int_5x52 r a =
    \<lparr>fe5_n0 = fe5_n0 r * word_of_int a,
     fe5_n1 = fe5_n1 r * word_of_int a,
     fe5_n2 = fe5_n2 r * word_of_int a,
     fe5_n3 = fe5_n3 r * word_of_int a,
     fe5_n4 = fe5_n4 r * word_of_int a\<rparr>"

definition fe_add_5x52 :: "fe_5x52 \<Rightarrow> fe_5x52 \<Rightarrow> fe_5x52" where
  "fe_add_5x52 r a =
    \<lparr>fe5_n0 = fe5_n0 r + fe5_n0 a,
     fe5_n1 = fe5_n1 r + fe5_n1 a,
     fe5_n2 = fe5_n2 r + fe5_n2 a,
     fe5_n3 = fe5_n3 r + fe5_n3 a,
     fe5_n4 = fe5_n4 r + fe5_n4 a\<rparr>"

section \<open>Multiplication and squaring\<close>

text \<open>
  The sums \<open>p0\<close> to \<open>p8\<close> of the comments in \<^verbatim>\<open>fe_mul_inner\<close> and \<^verbatim>\<open>fe_sqr_inner\<close>, and
  the reduction that both functions interleave with them. The variables \<open>t3\<close>, \<open>t4\<close>,
  \<open>tx\<close> and \<open>u0\<close> are \<^verbatim>\<open>int64_t\<close> in \<^verbatim>\<open>fe_sqr_inner\<close>; their values stay below
  \<open>2 ^ 56\<close>, where the signed and the unsigned type agree.
\<close>

definition fe_mul_cols_5x52 :: "fe_5x52 \<Rightarrow> fe_5x52 \<Rightarrow> u128 list" where
  "fe_mul_cols_5x52 a b = [
      ucast (fe5_n0 a) * ucast (fe5_n0 b),
      ucast (fe5_n0 a) * ucast (fe5_n1 b) + ucast (fe5_n1 a) * ucast (fe5_n0 b),
      ucast (fe5_n0 a) * ucast (fe5_n2 b) + ucast (fe5_n1 a) * ucast (fe5_n1 b)
        + ucast (fe5_n2 a) * ucast (fe5_n0 b),
      ucast (fe5_n0 a) * ucast (fe5_n3 b) + ucast (fe5_n1 a) * ucast (fe5_n2 b)
        + ucast (fe5_n2 a) * ucast (fe5_n1 b) + ucast (fe5_n3 a) * ucast (fe5_n0 b),
      ucast (fe5_n0 a) * ucast (fe5_n4 b) + ucast (fe5_n1 a) * ucast (fe5_n3 b)
        + ucast (fe5_n2 a) * ucast (fe5_n2 b) + ucast (fe5_n3 a) * ucast (fe5_n1 b)
        + ucast (fe5_n4 a) * ucast (fe5_n0 b),
      ucast (fe5_n1 a) * ucast (fe5_n4 b) + ucast (fe5_n2 a) * ucast (fe5_n3 b)
        + ucast (fe5_n3 a) * ucast (fe5_n2 b) + ucast (fe5_n4 a) * ucast (fe5_n1 b),
      ucast (fe5_n2 a) * ucast (fe5_n4 b) + ucast (fe5_n3 a) * ucast (fe5_n3 b)
        + ucast (fe5_n4 a) * ucast (fe5_n2 b),
      ucast (fe5_n3 a) * ucast (fe5_n4 b) + ucast (fe5_n4 a) * ucast (fe5_n3 b),
      ucast (fe5_n4 a) * ucast (fe5_n4 b)]"

definition fe_sqr_cols_5x52 :: "fe_5x52 \<Rightarrow> u128 list" where
  "fe_sqr_cols_5x52 a = [
      ucast (fe5_n0 a) * ucast (fe5_n0 a),
      ucast (fe5_n0 a * 2) * ucast (fe5_n1 a),
      ucast (fe5_n0 a * 2) * ucast (fe5_n2 a) + ucast (fe5_n1 a) * ucast (fe5_n1 a),
      ucast (fe5_n0 a * 2) * ucast (fe5_n3 a) + ucast (fe5_n1 a * 2) * ucast (fe5_n2 a),
      ucast (fe5_n0 a) * ucast (fe5_n4 a * 2) + ucast (fe5_n1 a * 2) * ucast (fe5_n3 a)
        + ucast (fe5_n2 a) * ucast (fe5_n2 a),
      ucast (fe5_n1 a) * ucast (fe5_n4 a * 2) + ucast (fe5_n2 a * 2) * ucast (fe5_n3 a),
      ucast (fe5_n2 a) * ucast (fe5_n4 a * 2) + ucast (fe5_n3 a) * ucast (fe5_n3 a),
      ucast (fe5_n3 a) * ucast (fe5_n4 a * 2),
      ucast (fe5_n4 a) * ucast (fe5_n4 a)]"

text \<open>From the top product down to the limbs \<open>t3\<close> and \<open>t4\<close>.\<close>

definition fe_mul_high_5x52 :: "u128 list \<Rightarrow> u64 \<times> u64 \<times> u64 \<times> u128" where
  "fe_mul_high_5x52 p =
    (let d = p ! 3;
         c = p ! 8;
         d = d + (c AND 0xFFFFFFFFFFFFF) * 0x1000003D10; c = drop_bit 52 c;
         t3 = ucast (d AND 0xFFFFFFFFFFFFF); d = drop_bit 52 d;
         d = d + p ! 4;
         d = d + c * 0x1000003D10;
         t4 = ucast (d AND 0xFFFFFFFFFFFFF); d = drop_bit 52 d;
         tx = drop_bit 48 t4; t4 = t4 AND 0xFFFFFFFFFFFF
     in (t3, t4, tx, d))"

text \<open>The limb \<open>r0\<close>.\<close>

definition fe_mul_mid_5x52 :: "u128 list \<Rightarrow> u64 \<Rightarrow> u128 \<Rightarrow> u64 \<times> u128 \<times> u128" where
  "fe_mul_mid_5x52 p tx d =
    (let c = p ! 0;
         d = d + p ! 5;
         u0 = ucast (d AND 0xFFFFFFFFFFFFF); d = drop_bit 52 d;
         u0 = push_bit 4 u0 OR tx;
         c = c + ucast u0 * 0x1000003D1;
         r0 = ucast (c AND 0xFFFFFFFFFFFFF); c = drop_bit 52 c
     in (r0, c, d))"

text \<open>The other limbs.\<close>

definition fe_mul_low_5x52 ::
    "u128 list \<Rightarrow> u64 \<Rightarrow> u64 \<Rightarrow> u128 \<Rightarrow> u128 \<Rightarrow> u64 \<times> u64 \<times> u64 \<times> u64" where
  "fe_mul_low_5x52 p t3 t4 c d =
    (let c = c + p ! 1;
         d = d + p ! 6;
         c = c + (d AND 0xFFFFFFFFFFFFF) * 0x1000003D10; d = drop_bit 52 d;
         r1 = ucast (c AND 0xFFFFFFFFFFFFF); c = drop_bit 52 c;
         c = c + p ! 2;
         d = d + p ! 7;
         c = c + (d AND 0xFFFFFFFFFFFFF) * 0x1000003D10; d = drop_bit 52 d;
         r2 = ucast (c AND 0xFFFFFFFFFFFFF); c = drop_bit 52 c;
         c = c + (d * 0x1000003D10 + ucast t3);
         r3 = ucast (c AND 0xFFFFFFFFFFFFF); c = drop_bit 52 c;
         c = c + ucast t4;
         r4 = ucast c
     in (r1, r2, r3, r4))"

definition fe_reduce_cols_5x52 :: "u128 list \<Rightarrow> fe_5x52" where
  "fe_reduce_cols_5x52 p = 
    (let (t3, t4, tx, d) = fe_mul_high_5x52 p;
         (r0, c, d) = fe_mul_mid_5x52 p tx d;
         (r1, r2, r3, r4) = fe_mul_low_5x52 p t3 t4 c d
     in \<lparr>fe5_n0 = r0, fe5_n1 = r1, fe5_n2 = r2, fe5_n3 = r3, fe5_n4 = r4\<rparr>)"

definition fe_mul_inner_5x52 :: "fe_5x52 \<Rightarrow> fe_5x52 \<Rightarrow> fe_5x52" where
  "fe_mul_inner_5x52 a b = fe_reduce_cols_5x52 (fe_mul_cols_5x52 a b)"

definition fe_sqr_inner_5x52 :: "fe_5x52 \<Rightarrow> fe_5x52" where
  "fe_sqr_inner_5x52 a = fe_reduce_cols_5x52 (fe_sqr_cols_5x52 a)"

definition fe_mul_5x52 :: "fe_5x52 \<Rightarrow> fe_5x52 \<Rightarrow> fe_5x52" where
  "fe_mul_5x52 a b = fe_mul_inner_5x52 a b"

definition fe_sqr_5x52 :: "fe_5x52 \<Rightarrow> fe_5x52" where
  "fe_sqr_5x52 a = fe_sqr_inner_5x52 a"

section \<open>Conditional moves and storage\<close>

definition fe_cmov_5x52 :: "fe_5x52 \<Rightarrow> fe_5x52 \<Rightarrow> int \<Rightarrow> fe_5x52" where
  "fe_cmov_5x52 r a flag =
    (let mask0 = word_of_int flag + NOT 0; mask1 = NOT mask0 in
    \<lparr>fe5_n0 = (fe5_n0 r AND mask0) OR (fe5_n0 a AND mask1),
     fe5_n1 = (fe5_n1 r AND mask0) OR (fe5_n1 a AND mask1),
     fe5_n2 = (fe5_n2 r AND mask0) OR (fe5_n2 a AND mask1),
     fe5_n3 = (fe5_n3 r AND mask0) OR (fe5_n3 a AND mask1),
     fe5_n4 = (fe5_n4 r AND mask0) OR (fe5_n4 a AND mask1)\<rparr>)"

definition fe_storage_cmov_4x64 ::
    "fe_storage_4x64 \<Rightarrow> fe_storage_4x64 \<Rightarrow> int \<Rightarrow> fe_storage_4x64" where
  "fe_storage_cmov_4x64 r a flag =
    (let mask0 = word_of_int flag + NOT 0; mask1 = NOT mask0 in
    \<lparr>fs4_n0 = (fs4_n0 r AND mask0) OR (fs4_n0 a AND mask1),
     fs4_n1 = (fs4_n1 r AND mask0) OR (fs4_n1 a AND mask1),
     fs4_n2 = (fs4_n2 r AND mask0) OR (fs4_n2 a AND mask1),
     fs4_n3 = (fs4_n3 r AND mask0) OR (fs4_n3 a AND mask1)\<rparr>)"

definition fe_to_storage_5x52 :: "fe_5x52 \<Rightarrow> fe_storage_4x64" where
  "fe_to_storage_5x52 a =
    \<lparr>fs4_n0 = fe5_n0 a OR push_bit 52 (fe5_n1 a),
     fs4_n1 = drop_bit 12 (fe5_n1 a) OR push_bit 40 (fe5_n2 a),
     fs4_n2 = drop_bit 24 (fe5_n2 a) OR push_bit 28 (fe5_n3 a),
     fs4_n3 = drop_bit 36 (fe5_n3 a) OR push_bit 16 (fe5_n4 a)\<rparr>"

definition fe_from_storage_5x52 :: "fe_storage_4x64 \<Rightarrow> fe_5x52" where
  "fe_from_storage_5x52 a =
    \<lparr>fe5_n0 = fs4_n0 a AND 0xFFFFFFFFFFFFF,
     fe5_n1 = drop_bit 52 (fs4_n0 a) OR (push_bit 12 (fs4_n1 a) AND 0xFFFFFFFFFFFFF),
     fe5_n2 = drop_bit 40 (fs4_n1 a) OR (push_bit 24 (fs4_n2 a) AND 0xFFFFFFFFFFFFF),
     fe5_n3 = drop_bit 28 (fs4_n2 a) OR (push_bit 36 (fs4_n3 a) AND 0xFFFFFFFFFFFFF),
     fe5_n4 = drop_bit 16 (fs4_n3 a)\<rparr>"

definition fe_const_5x52 :: "u32 \<Rightarrow> u32 \<Rightarrow> u32 \<Rightarrow> u32 \<Rightarrow> u32 \<Rightarrow> u32 \<Rightarrow> u32 \<Rightarrow> u32 \<Rightarrow> fe_5x52" where
  "fe_const_5x52 d7 d6 d5 d4 d3 d2 d1 d0 =
    \<lparr>fe5_n0 = ucast d0 OR push_bit 32 (ucast d1 AND 0xFFFFF),
     fe5_n1 = drop_bit 20 (ucast d1) OR push_bit 12 (ucast d2) OR push_bit 44 (ucast d3 AND 0xFF),
     fe5_n2 = drop_bit 8 (ucast d3) OR push_bit 24 (ucast d4 AND 0xFFFFFFF),
     fe5_n3 = drop_bit 28 (ucast d4) OR push_bit 4 (ucast d5) OR push_bit 36 (ucast d6 AND 0xFFFF),
     fe5_n4 = drop_bit 16 (ucast d6) OR push_bit 16 (ucast d7)\<rparr>"

section \<open>The representation as field operations\<close>

definition F5x52 :: "(fe_5x52, fe_storage_4x64) field_ops" where
  "F5x52 = \<lparr>
    fe_normalize = fe_normalize_5x52,
    fe_normalize_weak = fe_normalize_weak_5x52,
    fe_normalize_var = fe_normalize_var_5x52,
    fe_normalizes_to_zero = fe_normalizes_to_zero_5x52,
    fe_normalizes_to_zero_var = fe_normalizes_to_zero_var_5x52,
    fe_set_int = fe_set_int_5x52,
    fe_clear = fe_clear_5x52,
    fe_is_zero = fe_is_zero_5x52,
    fe_is_odd = fe_is_odd_5x52,
    fe_cmp_var = fe_cmp_var_5x52,
    fe_set_b32 = fe_set_b32_5x52,
    fe_get_b32 = fe_get_b32_5x52,
    fe_negate = fe_negate_5x52,
    fe_mul_int = fe_mul_int_5x52,
    fe_add = fe_add_5x52,
    fe_mul = fe_mul_5x52,
    fe_sqr = fe_sqr_5x52,
    fe_cmov = fe_cmov_5x52,
    fe_storage_cmov = fe_storage_cmov_4x64,
    fe_to_storage = fe_to_storage_5x52,
    fe_from_storage = fe_from_storage_5x52,
    fe_const = fe_const_5x52\<rparr>"

definition fe_res_5x52 :: "fe_5x52 \<Rightarrow> int" where
  "fe_res_5x52 a = fe_val_5x52 a mod field_p"

definition fe_mag_5x52 :: "int \<Rightarrow> fe_5x52 \<Rightarrow> bool" where
  "fe_mag_5x52 m a \<longleftrightarrow> m \<le> 31 \<and> fe_verify_5x52 False m a"

definition fe_norm_5x52 :: "fe_5x52 \<Rightarrow> bool" where
  "fe_norm_5x52 a \<longleftrightarrow> fe_verify_5x52 True 1 a"

definition fe_weak_5x52 :: "fe_5x52 \<Rightarrow> bool" where
  "fe_weak_5x52 t \<longleftrightarrow> fe_bounded_5x52 1 (t\<lparr>fe5_n4 := 0\<rparr>) \<and>
    fe_val_5x52 t < 0x10002000000000000000000000000000000000000000000000000000000000000"

section \<open>Limbs and values\<close>

lemma fe_val_expand_5x52:
  "fe_val_5x52 a = uint (fe5_n0 a)
    + 0x10000000000000 * uint (fe5_n1 a)
    + 0x100000000000000000000000000 * uint (fe5_n2 a)
    + 0x1000000000000000000000000000000000000000 * uint (fe5_n3 a)
    + 0x10000000000000000000000000000000000000000000000000000 * uint (fe5_n4 a)"
  by (simp add: fe_val_5x52_def fe_limbs_5x52_def)

lemma fe_limbs_nonneg_5x52:
  fixes a :: fe_5x52
  shows "0 \<le> uint (fe5_n0 a)" "0 \<le> uint (fe5_n1 a)" "0 \<le> uint (fe5_n2 a)" "0 \<le> uint (fe5_n3 a)"
    "0 \<le> uint (fe5_n4 a)"
  by simp_all

lemma uint_and_M52 [simp]: "uint (x AND 0xFFFFFFFFFFFFF) = uint x mod 0x10000000000000" for x :: "'a::len word"
  using uint_and_mask [of x 52] by (simp add: mask_eq_exp_minus_1)

lemma uint_and_M48 [simp]: "uint (x AND 0xFFFFFFFFFFFF) = uint x mod 0x1000000000000" for x :: "'a::len word"
  using uint_and_mask [of x 48] by (simp add: mask_eq_exp_minus_1)

lemma mask_52_word: "(0xFFFFFFFFFFFFF :: u64) = mask 52"
  by (simp add: mask_eq_exp_minus_1)

lemma fe_val_inj_5x52:
  "fe_bounded_5x52 1 a \<Longrightarrow> fe_bounded_5x52 1 b \<Longrightarrow> fe_val_5x52 a = fe_val_5x52 b \<Longrightarrow> a = b"
  using limbs_val_inj [of "fe_limbs_5x52 a" "fe_limbs_5x52 b" 52]
  by (simp add: fe_val_5x52_def fe_bounded_5x52_def fe_limbs_5x52_def)

lemma fe_of_limbs_inverse_5x52 [simp]: "length n = 5 \<Longrightarrow> fe_limbs_5x52 (fe_of_limbs_5x52 n) = n"
  by (auto simp add: fe_limbs_5x52_def fe_of_limbs_5x52_def numeral_eq_Suc length_Suc_conv)

lemma fe_bounded_limbs_5x52:
  "fe_bounded_5x52 1 a \<longleftrightarrow> (\<forall>x \<in> set (fe_limbs_5x52 a). uint x < 2 ^ 52) \<and> uint (fe5_n4 a) < 2 ^ 48"
  by (auto simp add: fe_bounded_5x52_def fe_limbs_5x52_def)

lemma fe_bounded_limbs_of_5x52:
  assumes "0 \<le> v" "v < 2 ^ 256"
  shows "fe_val_5x52 (fe_of_limbs_5x52 (limbs_of 52 5 v)) = v"
    "fe_bounded_5x52 1 (fe_of_limbs_5x52 (limbs_of 52 5 v))"
proof -
  show "fe_val_5x52 (fe_of_limbs_5x52 (limbs_of 52 5 v)) = v"
    using assms by (simp add: fe_val_5x52_def limbs_val_limbs_of take_bit_int_eq_self)
  have "fe5_n4 (fe_of_limbs_5x52 (limbs_of 52 5 v)) = word_of_int (take_bit 52 (drop_bit 208 v))"
    by (simp add: fe_of_limbs_5x52_def limbs_of_def)
  moreover have "0 \<le> drop_bit 208 v" "drop_bit 208 v < 2 ^ 48"
    using assms zdiv_mono1 [of v "2 ^ 256 - 1" "2 ^ 208"] by (simp_all add: drop_bit_eq_div)
  ultimately have "uint (fe5_n4 (fe_of_limbs_5x52 (limbs_of 52 5 v))) < 2 ^ 48"
    by (simp add: uint_word_of_int take_bit_eq_mod)
  then show "fe_bounded_5x52 1 (fe_of_limbs_5x52 (limbs_of 52 5 v))"
    using limbs_of_less [where 'a = 64 and w = 52 and k = 5 and v = v]
    by (simp add: fe_bounded_limbs_5x52)
qed

lemma fe_limbs_eq_5x52:
  assumes "fe_bounded_5x52 1 a"
  shows "fe_limbs_5x52 a = limbs_of 52 5 (fe_val_5x52 a)"
proof -
  have "length (fe_limbs_5x52 a) = 5" by (simp add: fe_limbs_5x52_def)
  then show ?thesis
    using assms limbs_of_limbs_val [of "fe_limbs_5x52 a" 52]
    by (simp add: fe_bounded_limbs_5x52 fe_val_5x52_def)
qed

section \<open>Correctness of the normalization functions\<close>

lemma fe_limbs_carry_5x52:
  "fe_limbs_5x52 (fe_carry_5x52 r) = limbs_carry 52 0 (fe_limbs_5x52 r)"
  by (simp add: fe_limbs_5x52_def fe_carry_5x52_def Let_def mask_eq_exp_minus_1)

lemma fe_val_carry_5x52:
  assumes "fe_bounded_5x52 4095 r"
  shows "fe_val_5x52 (fe_carry_5x52 r) = fe_val_5x52 r"
  using assms limbs_val_carry [of "fe5_n0 r" 0 52 "tl (fe_limbs_5x52 r)"]
  unfolding fe_val_5x52_def fe_limbs_carry_5x52 fe_bounded_5x52_def
  by (simp add: fe_limbs_5x52_def)

lemma fe_carry_less_5x52:
  "uint (fe5_n0 (fe_carry_5x52 r)) < 0x10000000000000" "uint (fe5_n1 (fe_carry_5x52 r)) < 0x10000000000000"
  "uint (fe5_n2 (fe_carry_5x52 r)) < 0x10000000000000" "uint (fe5_n3 (fe_carry_5x52 r)) < 0x10000000000000"
  using limbs_carry_less [of _ 52 0 "fe_limbs_5x52 r"]
  unfolding fe_limbs_carry_5x52 [symmetric]
  by (simp_all add: fe_limbs_5x52_def)

lemma fe_carry_bounded_5x52: "fe_bounded_5x52 1 ((fe_carry_5x52 r)\<lparr>fe5_n4 := 0\<rparr>)"
  using fe_carry_less_5x52 [of r] by (simp add: fe_bounded_5x52_def)

lemma fe_val_fold_5x52:
  assumes "fe_bounded_5x52 m r" "m \<le> 4094" "uint x \<le> 4095"
  shows "fe_val_5x52 (fe_fold_5x52 x r) = fe_val_5x52 r + 0x1000003D1 * uint x"
    "fe_bounded_5x52 4095 (fe_fold_5x52 x r)"
proof -
  have "uint (fe5_n0 r + x * 0x1000003D1) = uint (fe5_n0 r) + uint x * 0x1000003D1"
    using assms by (simp add: fe_bounded_5x52_def uint_add_noov uint_mult_noov)
  then show "fe_val_5x52 (fe_fold_5x52 x r) = fe_val_5x52 r + 0x1000003D1 * uint x"
    "fe_bounded_5x52 4095 (fe_fold_5x52 x r)"
    using assms by (simp_all add: fe_val_expand_5x52 fe_fold_5x52_def fe_bounded_5x52_def)
qed

lemma fe_first_pass_5x52:
  assumes "fe_bounded_5x52 m r" "m \<le> 4094"
  shows "fe_val_5x52 (fe_first_pass_5x52 r) = fe_val_5x52 r - field_p * (uint (fe5_n4 r) div 2 ^ 48)"
    "fe_weak_5x52 (fe_first_pass_5x52 r)"
proof -
  define x where "x = drop_bit 48 (fe5_n4 r)"
  define s where "s = r\<lparr>fe5_n4 := fe5_n4 r AND 0xFFFFFFFFFFFF\<rparr>"
  have "uint (fe5_n4 r) div 0x1000000000000 \<le> 4095"
    using zdiv_mono1 [of "uint (fe5_n4 r)" "4094 * 0xFFFFFFFFFFFF" "0x1000000000000"] assms by (simp add: fe_bounded_5x52_def)
  then have x: "uint x = uint (fe5_n4 r) div 2 ^ 48" "uint x \<le> 4095"
    by (simp_all add: x_def uint_drop_bit)
  have s: "fe_bounded_5x52 m s"
    using assms zmod_le_nonneg_dividend [of "uint (fe5_n4 r)" "0x1000000000000"]
    by (simp add: s_def fe_bounded_5x52_def)
  have n4: "uint (fe5_n4 s) < 0x1000000000000"
    by (simp add: s_def)
  have t: "fe_first_pass_5x52 r = fe_carry_5x52 (fe_fold_5x52 x s)"
    by (simp add: fe_first_pass_5x52_def x_def s_def Let_def)
  have v: "fe_val_5x52 (fe_first_pass_5x52 r) = fe_val_5x52 s + 0x1000003D1 * uint x"
    unfolding t using fe_val_fold_5x52 [OF s assms(2) x(2)] by (simp add: fe_val_carry_5x52)
  have "fe_val_5x52 s = fe_val_5x52 r - 2 ^ 256 * (uint (fe5_n4 r) div 2 ^ 48)"
    by (simp add: fe_val_expand_5x52 s_def algebra_simps flip: minus_div_mult_eq_mod)
  then show "fe_val_5x52 (fe_first_pass_5x52 r) = fe_val_5x52 r - field_p * (uint (fe5_n4 r) div 2 ^ 48)"
    using v x by (simp add: field_p_def)
  have "fe_val_5x52 s < 0x10001000000000000000000000000000000000000000000000000000000000000"
    using s assms(2) n4 by (simp add: fe_val_expand_5x52 fe_bounded_5x52_def)
  then show "fe_weak_5x52 (fe_first_pass_5x52 r)"
    using v x fe_carry_bounded_5x52 by (simp add: fe_weak_5x52_def t)
qed

lemma fe_ge_p_5x52:
  assumes "fe_bounded_5x52 1 t"
  shows "fe_ge_p_5x52 t \<longleftrightarrow> field_p \<le> fe_val_5x52 t"
proof -
  have b: "uint (fe5_n0 t) < 2 ^ 52"
    "uint (fe5_n1 t) < 2 ^ 52"
    "uint (fe5_n2 t) < 2 ^ 52"
    "uint (fe5_n3 t) < 2 ^ 52"
    "uint (fe5_n4 t) < 2 ^ 48"
    using assms by (simp_all add: fe_bounded_5x52_def)
  have M: "(x = mask 52 \<longleftrightarrow> uint x = 0xFFFFFFFFFFFFF)" for x :: u64
    by (simp add: mask_eq_exp_minus_1 word_uint_eq_iff)
  have M3: "fe5_n3 t AND mask 52 = mask 52 \<longleftrightarrow> fe5_n3 t = mask 52"
    using word_and_eq_full [OF b(4), of "mask 52"] by (simp only: and.idem simp_thms)
  have mid: "fe5_n1 t AND fe5_n2 t AND fe5_n3 t = 0xFFFFFFFFFFFFF
    \<longleftrightarrow> uint (fe5_n1 t) = 0xFFFFFFFFFFFFF \<and> uint (fe5_n2 t) = 0xFFFFFFFFFFFFF \<and> uint (fe5_n3 t) = 0xFFFFFFFFFFFFF"
    by (simp only: mask_52_word and.assoc and.idem word_and_eq_full [OF b(2)] word_and_eq_full [OF b(3)] M3)
      (simp only: M)
  have lo: "0xFFFFEFFFFFC2F \<le> fe5_n0 t \<longleftrightarrow> 0xFFFFEFFFFFC2F \<le> uint (fe5_n0 t)"
    by (simp add: word_le_def)
  have n4: "fe5_n4 t = 0xFFFFFFFFFFFF \<longleftrightarrow> uint (fe5_n4 t) = 0xFFFFFFFFFFFF"
    by (simp add: word_uint_eq_iff)
  have c: "uint (fe5_n0 t) < 0x10000000000000"
    "uint (fe5_n1 t) < 0x10000000000000"
    "uint (fe5_n2 t) < 0x10000000000000"
    "uint (fe5_n3 t) < 0x10000000000000"
    "uint (fe5_n4 t) < 0x1000000000000"
    using b by simp_all
  show ?thesis
    unfolding fe_ge_p_5x52_def mid lo fe_val_expand_5x52 field_p_def n4
    using c fe_limbs_nonneg_5x52 [of t] by (intro iffI conjI; (elim conjE)?; linarith)
qed

lemma fe_weak_limbs_5x52:
  assumes "fe_weak_5x52 t"
  shows "uint (fe5_n4 t) < 0x2000000000000" "uint (fe5_n4 t) < 0x1000000000000 \<longleftrightarrow> fe_val_5x52 t < 0x10000000000000000000000000000000000000000000000000000000000000000"
    "fe_bounded_5x52 2 t" "uint (fe5_n4 t) < 0x1000000000000 \<Longrightarrow> fe_bounded_5x52 1 t"
proof -
  have b: "uint (fe5_n0 t) < 0x10000000000000" "uint (fe5_n1 t) < 0x10000000000000" "uint (fe5_n2 t) < 0x10000000000000" "uint (fe5_n3 t) < 0x10000000000000"
    "fe_val_5x52 t < 0x10002000000000000000000000000000000000000000000000000000000000000"
    using assms by (simp_all add: fe_weak_5x52_def fe_bounded_5x52_def)
  have n4: "uint (fe5_n4 t) < 0x1000400000000"
    using b(5) fe_limbs_nonneg_5x52 [of t] unfolding fe_val_expand_5x52 by linarith
  then show "uint (fe5_n4 t) < 0x2000000000000" by simp
  show "uint (fe5_n4 t) < 0x1000000000000 \<longleftrightarrow> fe_val_5x52 t < 0x10000000000000000000000000000000000000000000000000000000000000000"
    using b(1-4) fe_limbs_nonneg_5x52 [of t] unfolding fe_val_expand_5x52 by linarith
  show "fe_bounded_5x52 2 t" "uint (fe5_n4 t) < 0x1000000000000 \<Longrightarrow> fe_bounded_5x52 1 t"
    using b(1-4) n4 by (simp_all add: fe_bounded_5x52_def)
qed

lemma fe_final_x_5x52:
  assumes "fe_weak_5x52 t"
  shows "drop_bit 48 (fe5_n4 t) OR of_bool (fe_ge_p_5x52 t) = of_bool (field_p \<le> fe_val_5x52 t)"
proof (cases "uint (fe5_n4 t) < 0x1000000000000")
  case True
  then have "drop_bit 48 (fe5_n4 t) = 0"
    by (simp add: word_uint_eq_iff uint_drop_bit)
  then show ?thesis
    using fe_ge_p_5x52 [OF fe_weak_limbs_5x52(4) [OF assms True]] by simp
next
  case False
  have "uint (fe5_n4 t) div 0x1000000000000 = 1"
    using False fe_weak_limbs_5x52(1) [OF assms] by simp
  then have "drop_bit 48 (fe5_n4 t) = 1"
    by (simp add: word_uint_eq_iff uint_drop_bit)
  moreover have "\<not> fe_ge_p_5x52 t" using False by (auto simp add: fe_ge_p_5x52_def)
  moreover have "field_p \<le> fe_val_5x52 t"
    using False fe_weak_limbs_5x52(2) [OF assms] by (simp add: field_p_def)
  ultimately show ?thesis by simp
qed

lemma fe_val_mask_5x52:
  assumes "fe_bounded_5x52 1 (t\<lparr>fe5_n4 := 0\<rparr>)"
  shows "fe_val_5x52 (t\<lparr>fe5_n4 := fe5_n4 t AND 0xFFFFFFFFFFFF\<rparr>) = fe_val_5x52 t mod 2 ^ 256"
    "fe_bounded_5x52 1 (t\<lparr>fe5_n4 := fe5_n4 t AND 0xFFFFFFFFFFFF\<rparr>)"
proof -
  define s where "s = t\<lparr>fe5_n4 := fe5_n4 t AND 0xFFFFFFFFFFFF\<rparr>"
  have n4: "uint (fe5_n4 s) < 0x1000000000000" by (simp add: s_def)
  then show b: "fe_bounded_5x52 1 (t\<lparr>fe5_n4 := fe5_n4 t AND 0xFFFFFFFFFFFF\<rparr>)"
    using assms by (simp add: fe_bounded_5x52_def s_def)
  have "fe_val_5x52 s < 0x10000000000000000000000000000000000000000000000000000000000000000 \<and> 0 \<le> fe_val_5x52 s"
    using b fe_limbs_nonneg_5x52 [of s] n4 unfolding fe_val_expand_5x52 fe_bounded_5x52_def s_def [symmetric]
    by linarith
  moreover have "fe_val_5x52 t = fe_val_5x52 s + 2 ^ 256 * (uint (fe5_n4 t) div 2 ^ 48)"
    by (simp add: fe_val_expand_5x52 s_def algebra_simps flip: minus_div_mult_eq_mod)
  ultimately show "fe_val_5x52 (t\<lparr>fe5_n4 := fe5_n4 t AND 0xFFFFFFFFFFFF\<rparr>) = fe_val_5x52 t mod 2 ^ 256"
    by (simp add: s_def)
qed

lemma fe_reduce_once_5x52:
  assumes "fe_weak_5x52 t"
  defines "s \<equiv> fe_carry_5x52 (fe_fold_5x52 (of_bool (field_p \<le> fe_val_5x52 t)) t)"
  shows "fe_val_5x52 (s\<lparr>fe5_n4 := fe5_n4 s AND 0xFFFFFFFFFFFF\<rparr>) = fe_val_5x52 t mod field_p"
    "fe_bounded_5x52 1 (s\<lparr>fe5_n4 := fe5_n4 s AND 0xFFFFFFFFFFFF\<rparr>)"
proof -
  let ?x = "of_bool (field_p \<le> fe_val_5x52 t) :: u64"
  note f = fe_val_fold_5x52 [OF fe_weak_limbs_5x52(3) [OF assms(1)], of ?x]
  have "fe_val_5x52 s = fe_val_5x52 t + 0x1000003D1 * of_bool (field_p \<le> fe_val_5x52 t)"
    unfolding s_def using f by (simp add: fe_val_carry_5x52)
  moreover have "fe_val_5x52 t < 2 ^ 256 + 2 ^ 241" "0 \<le> fe_val_5x52 t"
    using assms(1) by (simp_all add: fe_weak_5x52_def fe_val_5x52_def)
  ultimately have v: "fe_val_5x52 s mod 2 ^ 256 = fe_val_5x52 t mod field_p"
    using field_reduce_once [of "fe_val_5x52 t"] by (simp only:)
  have "fe_bounded_5x52 1 (s\<lparr>fe5_n4 := 0\<rparr>)"
    unfolding s_def by (rule fe_carry_bounded_5x52)
  from fe_val_mask_5x52 [OF this] v
  show "fe_val_5x52 (s\<lparr>fe5_n4 := fe5_n4 s AND 0xFFFFFFFFFFFF\<rparr>) = fe_val_5x52 t mod field_p"
    "fe_bounded_5x52 1 (s\<lparr>fe5_n4 := fe5_n4 s AND 0xFFFFFFFFFFFF\<rparr>)" by simp_all
qed

lemma fe_normalize_5x52_val:
  assumes "fe_bounded_5x52 m r" "m \<le> 4094"
  shows "fe_val_5x52 (fe_normalize_5x52 r) = fe_val_5x52 r mod field_p"
    "fe_bounded_5x52 1 (fe_normalize_5x52 r)"
proof -
  note t = fe_first_pass_5x52 [OF assms]
  have v: "fe_val_5x52 (fe_first_pass_5x52 r) mod field_p = fe_val_5x52 r mod field_p"
    unfolding t(1) by simp
  show "fe_val_5x52 (fe_normalize_5x52 r) = fe_val_5x52 r mod field_p"
    "fe_bounded_5x52 1 (fe_normalize_5x52 r)"
    unfolding fe_normalize_5x52_def Let_def fe_final_x_5x52 [OF t(2)]
    using fe_reduce_once_5x52 [OF t(2)] v by simp_all
qed

lemma fe_normalize_var_5x52_eq:
  assumes "fe_bounded_5x52 m r" "m \<le> 4094"
  shows "fe_normalize_var_5x52 r = fe_normalize_5x52 r"
proof (cases "field_p \<le> fe_val_5x52 (fe_first_pass_5x52 r)")
  case True
  then show ?thesis
    unfolding fe_normalize_var_5x52_def fe_normalize_5x52_def Let_def
      fe_final_x_5x52 [OF fe_first_pass_5x52(2) [OF assms]]
    by (simp add: fe_fold_5x52_def)
next
  case False
  let ?t = "fe_first_pass_5x52 r"
  note t = fe_first_pass_5x52 [OF assms]
  have "fe_normalize_var_5x52 r = ?t"
    using False unfolding fe_normalize_var_5x52_def Let_def fe_final_x_5x52 [OF t(2)] by simp
  moreover have "fe_bounded_5x52 1 ?t"
    using False fe_weak_limbs_5x52 [OF t(2)] by (simp add: field_p_def)
  moreover have "fe_val_5x52 ?t = fe_val_5x52 (fe_normalize_5x52 r)"
    using fe_reduce_once_5x52(1) [OF t(2)] False
    unfolding fe_normalize_5x52_def Let_def fe_final_x_5x52 [OF t(2)]
    by (simp add: fe_val_5x52_def)
  ultimately show ?thesis
    using fe_val_inj_5x52 fe_normalize_5x52_val [OF assms] by simp
qed

lemma fe_clear_5x52_val: "fe_val_5x52 fe_clear_5x52 = 0" "fe_bounded_5x52 1 fe_clear_5x52"
  by (simp_all add: fe_clear_5x52_def fe_of_limbs_5x52_def fe_bounded_5x52_def fe_val_expand_5x52)

lemma fe_normalizes_to_zero_5x52_val:
  assumes "fe_bounded_5x52 m r" "m \<le> 4094"
  shows "fe_normalizes_to_zero_5x52 r \<longleftrightarrow> fe_val_5x52 r mod field_p = 0"
proof -
  define t where "t = fe_first_pass_5x52 r"
  have w: "fe_weak_5x52 t" and v: "fe_val_5x52 t mod field_p = fe_val_5x52 r mod field_p"
    using fe_first_pass_5x52 [OF assms] by (simp_all add: t_def)
  have b: "uint (fe5_n0 t) < 2 ^ 52" "uint (fe5_n1 t) < 2 ^ 52" "uint (fe5_n2 t) < 2 ^ 52"
    "uint (fe5_n3 t) < 2 ^ 52" "uint (fe5_n4 t) < 2 ^ 52"
    using w fe_weak_limbs_5x52(1) [OF w] by (simp_all add: fe_weak_5x52_def fe_bounded_5x52_def)
  have x: "uint (fe5_n0 t XOR 0x1000003D0) < 2 ^ 52" "uint (fe5_n4 t XOR 0xF000000000000) < 2 ^ 52"
    by (rule uint_xor_less; use b in simp)+
  have M4: "(fe5_n4 t XOR 0xF000000000000) AND mask 52 = mask 52 \<longleftrightarrow> fe5_n4 t XOR 0xF000000000000 = mask 52"
    using word_and_eq_full [OF x(2), of "mask 52"] by (simp only: and.idem simp_thms)
  have z1: "(fe5_n0 t XOR 0x1000003D0) AND fe5_n1 t AND fe5_n2 t AND fe5_n3 t AND (fe5_n4 t XOR 0xF000000000000) = 0xFFFFFFFFFFFFF \<longleftrightarrow>
    fe5_n0 t XOR 0x1000003D0 = 0xFFFFFFFFFFFFF \<and> fe5_n1 t = 0xFFFFFFFFFFFFF \<and> fe5_n2 t = 0xFFFFFFFFFFFFF \<and> fe5_n3 t = 0xFFFFFFFFFFFFF \<and>
    fe5_n4 t XOR 0xF000000000000 = 0xFFFFFFFFFFFFF"
    by (simp only: mask_52_word and.assoc and.idem word_and_eq_full [OF x(1)] word_and_eq_full [OF b(2)]
      word_and_eq_full [OF b(3)] word_and_eq_full [OF b(4)] M4)
  define P where "P = \<lparr>fe5_n0 = 0xFFFFEFFFFFC2F, fe5_n1 = 0xFFFFFFFFFFFFF, fe5_n2 = 0xFFFFFFFFFFFFF, fe5_n3 = 0xFFFFFFFFFFFFF, fe5_n4 = (0xFFFFFFFFFFFF :: u64)\<rparr>"
  have "fe_normalizes_to_zero_5x52 r \<longleftrightarrow> t = fe_clear_5x52 \<or> t = P"
    unfolding fe_normalizes_to_zero_5x52_def t_def [symmetric] Let_def z1
    by (auto simp add: word_xor_eq_iff word_or_eq_0 P_def fe_clear_5x52_def fe_of_limbs_5x52_def)
  also have "\<dots> \<longleftrightarrow> fe_val_5x52 t = 0 \<or> fe_val_5x52 t = field_p"
  proof -
    have "fe_bounded_5x52 1 t" if "fe_val_5x52 t = 0 \<or> fe_val_5x52 t = field_p"
      using that fe_weak_limbs_5x52(2,4) [OF w] by (auto simp add: field_p_def)
    moreover have "fe_bounded_5x52 1 P" "fe_val_5x52 P = field_p"
      by (simp_all add: P_def fe_bounded_5x52_def fe_val_expand_5x52 field_p_def)
    ultimately show ?thesis using fe_val_inj_5x52 fe_clear_5x52_val by metis
  qed
  also have "\<dots> \<longleftrightarrow> fe_val_5x52 r mod field_p = 0"
    unfolding v [symmetric] using w
    by (subst field_mod_eq_0) (simp_all add: fe_weak_5x52_def fe_val_5x52_def)
  finally show ?thesis .
qed

lemma fe_normalizes_to_zero_var_5x52_eq:
  "fe_normalizes_to_zero_var_5x52 r = fe_normalizes_to_zero_5x52 r"
proof -
  define t where "t = fe_first_pass_5x52 r"
  let ?t0 = "(fe5_n0 r + drop_bit 48 (fe5_n4 r) * 0x1000003D1)"
  have n0: "fe5_n0 t = ?t0 AND 0xFFFFFFFFFFFFF"
    by (simp add: t_def fe_first_pass_5x52_def fe_carry_5x52_def fe_fold_5x52_def Let_def)
  show ?thesis
  proof (cases "fe5_n0 t \<noteq> 0 \<and> fe5_n0 t XOR 0x1000003D0 \<noteq> 0xFFFFFFFFFFFFF")
    case True
    have "uint (fe5_n0 t XOR 0x1000003D0) < 2 ^ 52" unfolding n0 by (rule uint_xor_less) simp_all
    from word_and_eq_full [OF this] True
    have "\<not> fe_normalizes_to_zero_5x52 r"
      by (simp add: fe_normalizes_to_zero_5x52_def t_def [symmetric] Let_def word_or_eq_0
        mask_eq_exp_minus_1)
    moreover have "\<not> fe_normalizes_to_zero_var_5x52 r"
      using True unfolding n0 by (simp add: fe_normalizes_to_zero_var_5x52_def Let_def)
    ultimately show ?thesis by simp
  next
    case False
    then show ?thesis
      by (cases r) (simp only: n0 fe_normalizes_to_zero_5x52_def fe_normalizes_to_zero_var_5x52_def
        fe_first_pass_5x52_def fe_carry_5x52_def fe_fold_5x52_def Let_def if_False
        fe_5x52.select_convs fe_5x52.update_convs or.assoc and.assoc)
  qed
qed

section \<open>Correctness of the linear operations\<close>

lemma fe_cmp_var_5x52_val:
  assumes "fe_bounded_5x52 1 a" "fe_bounded_5x52 1 b"
  shows "fe_cmp_var_5x52 a b = sgn (fe_val_5x52 a - fe_val_5x52 b)"
proof -
  have "\<forall>x \<in> set (fe_limbs_5x52 c). uint x < 2 ^ 52" if "fe_bounded_5x52 1 c" for c
    using that by (simp add: fe_limbs_5x52_def fe_bounded_5x52_def)
  moreover have "length (fe_limbs_5x52 c) = 5" for c
    by (simp add: fe_limbs_5x52_def)
  ultimately show ?thesis
    using assms limbs_cmp_sgn [of "fe_limbs_5x52 a" "fe_limbs_5x52 b" 52]
    by (simp add: fe_cmp_var_5x52_def fe_val_5x52_def)
qed

lemma fe_add_5x52_val:
  assumes "fe_bounded_5x52 m a" "fe_bounded_5x52 n b" "m + n \<le> 4096"
  shows "fe_val_5x52 (fe_add_5x52 a b) = fe_val_5x52 a + fe_val_5x52 b"
    "fe_bounded_5x52 (m + n) (fe_add_5x52 a b)"
proof -
  have s: "uint (x + y) = uint x + uint y" if "uint x \<le> 0xFFFFFFFFFFFFF * m" "uint y \<le> 0xFFFFFFFFFFFFF * n" for x y :: u64
    using that assms(3) by (simp add: uint_add_noov)
  have s4: "uint (x + y) = uint x + uint y" if "uint x \<le> 0xFFFFFFFFFFFF * m" "uint y \<le> 0xFFFFFFFFFFFF * n" for x y :: u64
    using that assms(3) by (simp add: uint_add_noov)
  show "fe_val_5x52 (fe_add_5x52 a b) = fe_val_5x52 a + fe_val_5x52 b"
    "fe_bounded_5x52 (m + n) (fe_add_5x52 a b)"
    using assms by (simp_all add: fe_add_5x52_def fe_val_expand_5x52 fe_bounded_5x52_def s s4 distrib_left)
qed

lemma fe_mul_int_5x52_val:
  assumes "fe_bounded_5x52 m r" "0 \<le> a" "a \<le> 4096" "m * a \<le> 4096"
  shows "fe_val_5x52 (fe_mul_int_5x52 r a) = fe_val_5x52 r * a"
    "fe_bounded_5x52 (m * a) (fe_mul_int_5x52 r a)"
proof -
  have a: "uint (word_of_int a :: u64) = a" using assms by (simp add: uint_word_of_int_small)
  have le: "uint x * a \<le> c * (m * a)" if "uint x \<le> c * m" for x :: u64 and c
    using mult_right_mono [OF that assms(2)] by (simp add: mult.assoc)
  have s: "uint (x * word_of_int a) = uint x * a" if "uint x \<le> c * m" "c \<le> 0xFFFFFFFFFFFFF" "0 \<le> c" for x :: u64 and c
  proof -
    have "c * (m * a) \<le> c * 4096" using that assms(4) by (intro mult_left_mono) simp_all
    then have "uint x * a < 2 ^ 64" using le [OF that(1)] that(2) by simp
    then show ?thesis using a by (simp add: uint_mult_noov)
  qed
  show "fe_val_5x52 (fe_mul_int_5x52 r a) = fe_val_5x52 r * a"
    "fe_bounded_5x52 (m * a) (fe_mul_int_5x52 r a)"
    using assms(1) by (simp_all add: fe_mul_int_5x52_def fe_val_expand_5x52 fe_bounded_5x52_def
      s [of _ "0xFFFFFFFFFFFFF"] s [of _ "0xFFFFFFFFFFFF"] le distrib_right)
qed

lemma fe_negate_5x52_val:
  assumes "fe_bounded_5x52 (2 * m) a" "0 \<le> m" "m \<le> 2047"
  shows "fe_val_5x52 (fe_negate_5x52 a m) = 2 * (m + 1) * field_p - fe_val_5x52 a"
    "fe_bounded_5x52 (2 * (m + 1)) (fe_negate_5x52 a m)"
proof -
  have a: "uint (word_of_int m + 1 :: u64) = m + 1"
    using assms by (simp add: uint_word_of_int_small uint_add_noov)
  have s: "uint (c * 2 * (word_of_int m + 1) - x) = uint c * 2 * (m + 1) - uint x"
    if "uint c \<le> 0xFFFFFFFFFFFFF" "uint x \<le> uint c * 2 * (m + 1)" for x c :: u64
  proof -
    have "uint (c * 2) = uint c * 2" using that by (simp add: uint_mult_noov)
    moreover have "uint c * 2 * (m + 1) \<le> 0xFFFFFFFFFFFFF * 2 * 2048"
      using that assms by (intro mult_mono) simp_all
    ultimately have "uint (c * 2 * (word_of_int m + 1)) = uint c * 2 * (m + 1)"
      using a by (simp add: uint_mult_noov)
    then show ?thesis using that by (simp add: uint_diff_noov)
  qed
  have limbs:
    "uint (fe5_n0 (fe_negate_5x52 a m)) = 0x1ffffdfffff85e * m + 0x1ffffdfffff85e - uint (fe5_n0 a)"
    "uint (fe5_n1 (fe_negate_5x52 a m)) = 0x1ffffffffffffe * m + 0x1ffffffffffffe - uint (fe5_n1 a)"
    "uint (fe5_n2 (fe_negate_5x52 a m)) = 0x1ffffffffffffe * m + 0x1ffffffffffffe - uint (fe5_n2 a)"
    "uint (fe5_n3 (fe_negate_5x52 a m)) = 0x1ffffffffffffe * m + 0x1ffffffffffffe - uint (fe5_n3 a)"
    "uint (fe5_n4 (fe_negate_5x52 a m)) = 0x1fffffffffffe * m + 0x1fffffffffffe - uint (fe5_n4 a)"
    using assms s [of "0xFFFFEFFFFFC2F" "fe5_n0 a"]
      s [of "0xFFFFFFFFFFFFF" "fe5_n1 a"]
      s [of "0xFFFFFFFFFFFFF" "fe5_n2 a"]
      s [of "0xFFFFFFFFFFFFF" "fe5_n3 a"]
      s [of "0xFFFFFFFFFFFF" "fe5_n4 a"]
    by (simp_all add: fe_negate_5x52_def fe_bounded_5x52_def)
  show "fe_val_5x52 (fe_negate_5x52 a m) = 2 * (m + 1) * field_p - fe_val_5x52 a"
    unfolding fe_val_expand_5x52 limbs field_p_def by simp
  show "fe_bounded_5x52 (2 * (m + 1)) (fe_negate_5x52 a m)"
    unfolding fe_bounded_5x52_def limbs distrib_left mult.assoc [symmetric] mult_1_right
    using fe_limbs_nonneg_5x52 [of a] assms(2) by (intro conjI) linarith+
qed

lemma fe_set_int_5x52_val:
  "0 \<le> a \<Longrightarrow> a \<le> 0x3FFFFFF \<Longrightarrow> fe_val_5x52 (fe_set_int_5x52 a) = a \<and> fe_bounded_5x52 1 (fe_set_int_5x52 a)"
  by (simp add: fe_set_int_5x52_def fe_val_expand_5x52 fe_bounded_5x52_def uint_word_of_int_small)

lemma fe_is_zero_5x52_val: "fe_is_zero_5x52 a \<longleftrightarrow> fe_val_5x52 a = 0"
proof -
  have "fe_val_5x52 a = 0 \<longleftrightarrow> (\<forall>x \<in> set (fe_limbs_5x52 a). uint x = 0)"
    unfolding fe_val_5x52_def by (rule limbs_val_eq_0)
  then show ?thesis by (auto simp add: fe_is_zero_5x52_def word_or_eq_0 fe_limbs_5x52_def uint_0_iff)
qed

lemma fe_is_odd_5x52_val: "fe_is_odd_5x52 a \<longleftrightarrow> odd (fe_val_5x52 a)"
  by (simp add: fe_is_odd_5x52_def word_and_1_odd fe_val_expand_5x52)

lemma fe_cmov_5x52_val: "fe_cmov_5x52 r a (of_bool b) = (if b then a else r)"
  by (simp add: fe_cmov_5x52_def)

lemma fe_storage_cmov_4x64_val: "fe_storage_cmov_4x64 r a (of_bool b) = (if b then a else r)"
  by (simp add: fe_storage_cmov_4x64_def)
section \<open>Correctness of multiplication and squaring\<close>

lemma fe_mul_cols_5x52_wval:
  assumes "fe_bounded_5x52 16 a" "fe_bounded_5x52 16 b"
  shows "list_all2 (\<lambda>x (v, m). wval x v m) (fe_mul_cols_5x52 a b) [
       (uint (fe5_n0 a) * uint (fe5_n0 b), 0xFFFFFFFFFFFFE000000000000100),
       (uint (fe5_n0 a) * uint (fe5_n1 b) + uint (fe5_n1 a) * uint (fe5_n0 b), 0x1FFFFFFFFFFFFC000000000000200),
       (uint (fe5_n0 a) * uint (fe5_n2 b) + uint (fe5_n1 a) * uint (fe5_n1 b) + uint (fe5_n2 a) * uint (fe5_n0 b), 0x2FFFFFFFFFFFFA000000000000300),
       (uint (fe5_n0 a) * uint (fe5_n3 b) + uint (fe5_n1 a) * uint (fe5_n2 b) + uint (fe5_n2 a) * uint (fe5_n1 b)
        + uint (fe5_n3 a) * uint (fe5_n0 b), 0x3FFFFFFFFFFFF8000000000000400),
       (uint (fe5_n0 a) * uint (fe5_n4 b) + uint (fe5_n1 a) * uint (fe5_n3 b) + uint (fe5_n2 a) * uint (fe5_n2 b)
        + uint (fe5_n3 a) * uint (fe5_n1 b) + uint (fe5_n4 a) * uint (fe5_n0 b), 0x31FFFFFFFFFFF7E00000000000500),
       (uint (fe5_n1 a) * uint (fe5_n4 b) + uint (fe5_n2 a) * uint (fe5_n3 b) + uint (fe5_n3 a) * uint (fe5_n2 b)
        + uint (fe5_n4 a) * uint (fe5_n1 b), 0x21FFFFFFFFFFF9E00000000000400),
       (uint (fe5_n2 a) * uint (fe5_n4 b) + uint (fe5_n3 a) * uint (fe5_n3 b) + uint (fe5_n4 a) * uint (fe5_n2 b), 0x11FFFFFFFFFFFBE00000000000300),
       (uint (fe5_n3 a) * uint (fe5_n4 b) + uint (fe5_n4 a) * uint (fe5_n3 b), 0x1FFFFFFFFFFFDE00000000000200),
       (uint (fe5_n4 a) * uint (fe5_n4 b), 0xFFFFFFFFFFFE00000000000100)]"
proof -
  have a: "uint (fe5_n0 a) \<le> 0xFFFFFFFFFFFFF0" "uint (fe5_n1 a) \<le> 0xFFFFFFFFFFFFF0" "uint (fe5_n2 a) \<le> 0xFFFFFFFFFFFFF0"
    "uint (fe5_n3 a) \<le> 0xFFFFFFFFFFFFF0" "uint (fe5_n4 a) \<le> 0xFFFFFFFFFFFF0" if "fe_bounded_5x52 16 a" for a
    using that by (simp_all add: fe_bounded_5x52_def)
  show ?thesis
    unfolding fe_mul_cols_5x52_def list.rel_inject prod.case list_all2_Cons
    by (intro conjI list_all2_Nil [THEN iffD2] refl;
      rule wval_weaken, ((rule wval_add wval_mul64 a assms | (simp; fail))+))
qed

lemma limbs_val_9:
  "length p = 9 \<Longrightarrow> limbs_val 52 p = uint (p ! 0)
      + 2 ^ 52 * uint (p ! 1)
      + 2 ^ 104 * uint (p ! 2)
      + 2 ^ 156 * uint (p ! 3)
      + 2 ^ 208 * uint (p ! 4)
      + 2 ^ 260 * uint (p ! 5)
      + 2 ^ 312 * uint (p ! 6)
      + 2 ^ 364 * uint (p ! 7)
      + 2 ^ 416 * uint (p ! 8)"
  by (simp add: limbs_val_sum numeral_eq_Suc)

lemma fe_mul_high_5x52_val:
  assumes "fe_mul_high_5x52 p = (t3, t4, tx, d)"
    "uint (p ! 3) \<le> 0x80000000000000000000000000000" "uint (p ! 4) \<le> 0x80000000000000000000000000000" "uint (p ! 8) \<le> 0x100000000000000000000000000"
  shows "uint t3 + 0x10000000000000 * (uint t4 + 0x1000000000000 * uint tx + 0x10000000000000 * uint d)
      = uint (p ! 3) + 0x10000000000000 * uint (p ! 4) + 0x1000003D10 * uint (p ! 8)"
    "uint t3 < 0x10000000000000" "uint t4 < 0x1000000000000" "uint tx < 16" "uint d \<le> 0x20000000000000000"
proof -
  define d1 where "d1 = p ! 3 + (p ! 8 AND 0xFFFFFFFFFFFFF) * 0x1000003D10"
  define d3 where "d3 = drop_bit 52 d1 + p ! 4 + drop_bit 52 (p ! 8) * 0x1000003D10"
  define t where "t = (ucast (d3 AND 0xFFFFFFFFFFFFF) :: u64)"
  have r: "t3 = ucast (d1 AND 0xFFFFFFFFFFFFF)" "tx = drop_bit 48 t" "t4 = t AND 0xFFFFFFFFFFFF" "d = drop_bit 52 d3"
    using assms(1) by (simp_all add: fe_mul_high_5x52_def Let_def t_def d3_def d1_def)
  have m: "uint (p ! 8) mod 0x10000000000000 \<le> 0xFFFFFFFFFFFFF" "uint (p ! 8) div 0x10000000000000 \<le> 0x10000000000000"
    using zdiv_mono1 [OF assms(4), of "0x10000000000000"] by simp_all
  have "uint (p ! 8) mod 0x10000000000000 * 0x1000003D10 \<le> 0xFFFFFFFFFFFFF * 0x1000003D10" using m(1) by simp
  then have d1: "uint d1 = uint (p ! 3) + uint (p ! 8) mod 0x10000000000000 * 0x1000003D10"
    using assms(2) m by (simp add: d1_def uint_add_noov uint_mult_noov)
  have "uint d1 \<le> 0x100000000000000000000000000000" using d1 m assms(2) by linarith
  then have d2: "uint d1 div 0x10000000000000 \<le> 0x10000000000000000"
    using zdiv_mono1 [of "uint d1" "0x100000000000000000000000000000" "0x10000000000000"] by simp
  have d3: "uint d3 = uint d1 div 0x10000000000000 + uint (p ! 4) + uint (p ! 8) div 0x10000000000000 * 0x1000003D10"
    using d2 m assms(3) by (simp add: d3_def uint_add_noov uint_mult_noov uint_drop_bit)
  have "uint d3 \<le> 0x100000000000000000000000000000" using d3 d2 m assms(3) by linarith
  then have d4: "uint d3 div 0x10000000000000 \<le> 0x20000000000000000"
    using zdiv_mono1 [of "uint d3" "0x100000000000000000000000000000" "0x10000000000000"] by simp
  have t: "uint t = uint d3 mod 0x10000000000000" by (simp add: t_def uint_ucast)
  have u: "uint t3 = uint d1 mod 0x10000000000000" "uint tx = uint t div 0x1000000000000" "uint t4 = uint t mod 0x1000000000000"
    "uint d = uint d3 div 0x10000000000000"
    by (simp_all add: r uint_ucast uint_drop_bit)
  have "uint t div 0x1000000000000 \<le> 15" using zdiv_mono1 [of "uint t" "0xFFFFFFFFFFFFF" "0x1000000000000"] t by simp
  then show "uint t3 < 0x10000000000000" "uint t4 < 0x1000000000000" "uint tx < 16" "uint d \<le> 0x20000000000000000"
    using d4 by (simp_all add: u)
  have "uint t4 + 0x1000000000000 * uint tx = uint t" by (simp add: u)
  moreover have "uint t + 0x10000000000000 * uint d = uint d3" by (simp add: u t)
  moreover have "uint t3 + 0x10000000000000 * (uint d1 div 0x10000000000000) = uint d1" by (simp add: u)
  moreover have "uint (p ! 8) mod 0x10000000000000 + 0x10000000000000 * (uint (p ! 8) div 0x10000000000000) = uint (p ! 8)" by simp
  ultimately show "uint t3 + 0x10000000000000 * (uint t4 + 0x1000000000000 * uint tx + 0x10000000000000 * uint d)
      = uint (p ! 3) + 0x10000000000000 * uint (p ! 4) + 0x1000003D10 * uint (p ! 8)"
    using d1 d3 by (simp add: algebra_simps flip: minus_div_mult_eq_mod)
qed

text \<open>One column: the low limb of \<open>d\<close> is folded into \<open>c\<close>, and one limb leaves \<open>c\<close>.\<close>

lemma fe_mul_col_5x52:
  fixes c d :: u128
  assumes "uint c \<le> 0x80000000000000000000000000000" "uint d \<le> 0x80000000000000000000000000000"
  defines "e \<equiv> c + (d AND 0xFFFFFFFFFFFFF) * 0x1000003D10"
  shows "uint (ucast (e AND 0xFFFFFFFFFFFFF) :: u64) + 0x10000000000000 * (uint (drop_bit 52 e) + 0x1000003D10 * uint (drop_bit 52 d))
      = uint c + 0x1000003D10 * uint d"
    "uint (ucast (e AND 0xFFFFFFFFFFFFF) :: u64) < 0x10000000000000" "uint (drop_bit 52 e) \<le> 0x10000000000000000"
    "uint (drop_bit 52 d) \<le> 0x8000000000000000"
proof -
  have "uint d mod 0x10000000000000 \<le> 0xFFFFFFFFFFFFF" by simp
  then have le: "uint d mod 0x10000000000000 * 0x1000003D10 \<le> 0xFFFFFFFFFFFFF * 0x1000003D10" by simp
  then have e: "uint e = uint c + uint d mod 0x10000000000000 * 0x1000003D10"
    using assms(1) by (simp add: e_def uint_add_noov uint_mult_noov)
  show "uint (ucast (e AND 0xFFFFFFFFFFFFF) :: u64) < 0x10000000000000" by (simp add: uint_ucast)
  have "uint e \<le> 0x100000000000000000000000000000" using e le assms(1) by linarith
  then show "uint (drop_bit 52 e) \<le> 0x10000000000000000"
    using zdiv_mono1 [of "uint e" "0x100000000000000000000000000000" "0x10000000000000"] by (simp add: uint_drop_bit)
  show "uint (drop_bit 52 d) \<le> 0x8000000000000000"
    using zdiv_mono1 [OF assms(2), of "0x10000000000000"] by (simp add: uint_drop_bit)
  show "uint (ucast (e AND 0xFFFFFFFFFFFFF) :: u64) + 0x10000000000000 * (uint (drop_bit 52 e) + 0x1000003D10 * uint (drop_bit 52 d))
      = uint c + 0x1000003D10 * uint d"
    using e by (simp add: uint_ucast uint_drop_bit algebra_simps flip: minus_div_mult_eq_mod)
qed

lemma fe_mul_mid_5x52_val:
  assumes "fe_mul_mid_5x52 p tx d = (r0, c', d')"
    "uint (p ! 0) \<le> 0x40000000000000000000000000000" "uint (p ! 5) \<le> 0x40000000000000000000000000000" "uint tx < 16" "uint d \<le> 0x20000000000000000"
  shows "\<exists>q. uint r0 + 0x10000000000000 * uint c' + 2 ^ 312 * uint d'
      = uint (p ! 0) + 2 ^ 256 * uint tx + 2 ^ 260 * (uint d + uint (p ! 5)) - field_p * q"
    "uint r0 < 0x10000000000000" "uint c' \<le> 0x8000000000000000" "uint d' \<le> 0x8000000000000000"
proof -
  define e where "e = d + p ! 5"
  define u where "u = push_bit 4 (ucast (e AND 0xFFFFFFFFFFFFF)) OR tx"
  define c where "c = p ! 0 + ucast u * 0x1000003D1"
  have r: "r0 = ucast (c AND 0xFFFFFFFFFFFFF)" "c' = drop_bit 52 c" "d' = drop_bit 52 e"
    using assms(1) by (simp_all add: fe_mul_mid_5x52_def Let_def c_def u_def e_def)
  have e: "uint e = uint d + uint (p ! 5)"
    using assms by (simp add: e_def uint_add_noov)
  show "uint d' \<le> 0x8000000000000000"
    using zdiv_mono1 [of "uint e" "0x80000000000000000000000000000" "0x10000000000000"] e assms by (simp add: r uint_drop_bit)
  have u: "uint u = 16 * (uint e mod 0x10000000000000) + uint tx"
  proof -
    have "uint (push_bit 4 (ucast (e AND 0xFFFFFFFFFFFFF)) :: u64) = (uint e mod 0x10000000000000) * 2 ^ 4"
      using pos_mod_bound [of "0x10000000000000" "uint e"] by (simp add: uint_push_bit uint_ucast)
    then show ?thesis
      using assms(4) uint_or_add [of "push_bit 4 (ucast (e AND 0xFFFFFFFFFFFFF))" 4 tx] by (simp add: u_def)
  qed
  have "uint e mod 0x10000000000000 \<le> 0xFFFFFFFFFFFFF" by simp
  then have u_le: "uint u \<le> 0x100000000000000" using u assms(4) by linarith
  have c: "uint c = uint (p ! 0) + uint u * 0x1000003D1"
    using assms(2) u_le by (simp add: c_def uint_add_noov uint_mult_noov uint_ucast_up)
  show "uint c' \<le> 0x8000000000000000"
    using zdiv_mono1 [of "uint c" "0x80000000000000000000000000000" "0x10000000000000"] c u_le assms by (simp add: r uint_drop_bit)
  show "uint r0 < 0x10000000000000" by (simp add: r uint_ucast)
  have "uint r0 + 0x10000000000000 * uint c' = uint c" "uint e mod 0x10000000000000 + 0x10000000000000 * uint d' = uint e"
    by (simp_all add: r uint_ucast uint_drop_bit)
  then have "uint r0 + 0x10000000000000 * uint c' + 2 ^ 312 * uint d'
      = uint (p ! 0) + 2 ^ 256 * uint tx + 2 ^ 260 * (uint d + uint (p ! 5)) - field_p * uint u"
    using c u e by (simp add: field_p_def)
  then show "\<exists>q. uint r0 + 0x10000000000000 * uint c' + 2 ^ 312 * uint d'
      = uint (p ! 0) + 2 ^ 256 * uint tx + 2 ^ 260 * (uint d + uint (p ! 5)) - field_p * q" ..
qed

lemma fe_mul_low_5x52_val:
  assumes "fe_mul_low_5x52 p t3 t4 c d = (r1, r2, r3, r4)"
    and p: "uint (p ! 1) \<le> 0x40000000000000000000000000000" "uint (p ! 2) \<le> 0x40000000000000000000000000000" "uint (p ! 6) \<le> 0x40000000000000000000000000000"
      "uint (p ! 7) \<le> 0x4000000000000000000000000000"
    and t: "uint t3 < 0x10000000000000" "uint t4 < 0x1000000000000" "uint c \<le> 0x8000000000000000" "uint d \<le> 0x8000000000000000"
  shows "uint r1 + 0x10000000000000 * uint r2 + 2 ^ 104 * uint r3 + 2 ^ 156 * uint r4
      = uint c + uint (p ! 1) + 0x1000003D10 * (uint d + uint (p ! 6))
        + 0x10000000000000 * (uint (p ! 2) + 0x1000003D10 * uint (p ! 7)) + 2 ^ 104 * uint t3 + 2 ^ 156 * uint t4"
    "uint r1 < 0x10000000000000" "uint r2 < 0x10000000000000" "uint r3 < 0x10000000000000" "uint r4 \<le> 0x1100000000000"
proof -
  define c1 where "c1 = c + p ! 1"
  define d1 where "d1 = d + p ! 6"
  define c2 where "c2 = c1 + (d1 AND 0xFFFFFFFFFFFFF) * 0x1000003D10"
  define c3 where "c3 = drop_bit 52 c2 + p ! 2"
  define d3 where "d3 = drop_bit 52 d1 + p ! 7"
  define c4 where "c4 = c3 + (d3 AND 0xFFFFFFFFFFFFF) * 0x1000003D10"
  define c5 where "c5 = drop_bit 52 c4 + (drop_bit 52 d3 * 0x1000003D10 + ucast t3)"
  define c6 where "c6 = drop_bit 52 c5 + ucast t4"
  have r: "r1 = ucast (c2 AND 0xFFFFFFFFFFFFF)" "r2 = ucast (c4 AND 0xFFFFFFFFFFFFF)" "r3 = ucast (c5 AND 0xFFFFFFFFFFFFF)" "r4 = ucast c6"
    using assms(1) by (simp_all add: fe_mul_low_5x52_def Let_def c6_def c5_def c4_def d3_def c3_def c2_def d1_def c1_def)
  have u1: "uint c1 = uint c + uint (p ! 1)" "uint d1 = uint d + uint (p ! 6)"
    using p t by (simp_all add: c1_def d1_def uint_add_noov)
  then have "uint c1 \<le> 0x80000000000000000000000000000" "uint d1 \<le> 0x80000000000000000000000000000" using p t by simp_all
  note s1 = fe_mul_col_5x52 [OF this, folded c2_def]
  have u3: "uint c3 = uint (drop_bit 52 c2) + uint (p ! 2)" "uint d3 = uint (drop_bit 52 d1) + uint (p ! 7)"
    using s1(3,4) p by (simp_all add: c3_def d3_def uint_add_noov)
  then have "uint c3 \<le> 0x80000000000000000000000000000" "uint d3 \<le> 0x80000000000000000000000000000" using s1(3,4) p by simp_all
  note s2 = fe_mul_col_5x52 [OF this, folded c4_def]
  have d4: "uint (drop_bit 52 d3) \<le> 0x800000000000000"
    using zdiv_mono1 [of "uint d3" "0x8000000000000000000000000000" "0x10000000000000"] u3 s1(4) p(4) by (simp add: uint_drop_bit)
  have c5: "uint c5 = uint (drop_bit 52 c4) + uint (drop_bit 52 d3) * 0x1000003D10 + uint t3"
    using s2(3) d4 t(1) by (simp add: c5_def uint_add_noov uint_mult_noov uint_ucast_up)
  have c5_le: "uint (drop_bit 52 c5) \<le> 0x100000000000"
    using zdiv_mono1 [of "uint c5" "0x1000000000000000000000000" "0x10000000000000"] c5 s2(3) d4 t(1) by (simp add: uint_drop_bit)
  have c6: "uint c6 = uint (drop_bit 52 c5) + uint t4"
    using c5_le t(2) by (simp add: c6_def uint_add_noov uint_ucast_up)
  then have c6_le: "uint c6 \<le> 0x1100000000000" using c5_le t(2) by simp
  have r4: "uint r4 = uint c6" using c6_le by (simp add: r uint_ucast)
  show "uint r1 < 0x10000000000000" "uint r2 < 0x10000000000000" "uint r3 < 0x10000000000000" "uint r4 \<le> 0x1100000000000"
    using s1(2) s2(2) c6_le unfolding r4 unfolding r by (simp_all add: uint_ucast)
  have r3: "uint r3 + 0x10000000000000 * uint (drop_bit 52 c5) = uint c5"
    by (simp add: r uint_ucast uint_drop_bit)
  show "uint r1 + 0x10000000000000 * uint r2 + 2 ^ 104 * uint r3 + 2 ^ 156 * uint r4
      = uint c + uint (p ! 1) + 0x1000003D10 * (uint d + uint (p ! 6))
        + 0x10000000000000 * (uint (p ! 2) + 0x1000003D10 * uint (p ! 7)) + 2 ^ 104 * uint t3 + 2 ^ 156 * uint t4"
    using s1(1) s2(1) u1 u3 c5 c6 r3 r4 unfolding r(1,2) by simp
qed

lemma fe_reduce_cols_5x52_val:
  assumes p: "\<And>k. k < 9 \<Longrightarrow> uint (p ! k) \<le> 0x40000000000000000000000000000" "uint (p ! 7) \<le> 0x4000000000000000000000000000" "uint (p ! 8) \<le> 0x100000000000000000000000000"
  shows "fe_val_5x52 (fe_reduce_cols_5x52 p) mod field_p =
    (uint (p ! 0)
      + 2 ^ 52 * uint (p ! 1)
      + 2 ^ 104 * uint (p ! 2)
      + 2 ^ 156 * uint (p ! 3)
      + 2 ^ 208 * uint (p ! 4)
      + 2 ^ 260 * uint (p ! 5)
      + 2 ^ 312 * uint (p ! 6)
      + 2 ^ 364 * uint (p ! 7)
      + 2 ^ 416 * uint (p ! 8)) mod field_p"
    "fe_bounded_5x52 2 (fe_reduce_cols_5x52 p)"
proof -
  obtain t3 t4 tx d where h: "fe_mul_high_5x52 p = (t3, t4, tx, d)" by (cases "fe_mul_high_5x52 p")
  obtain r0 c e where m: "fe_mul_mid_5x52 p tx d = (r0, c, e)" by (cases "fe_mul_mid_5x52 p tx d")
  obtain r1 r2 r3 r4 where l: "fe_mul_low_5x52 p t3 t4 c e = (r1, r2, r3, r4)"
    by (cases "fe_mul_low_5x52 p t3 t4 c e")
  have hi: "uint t3 + 0x10000000000000 * (uint t4 + 0x1000000000000 * uint tx + 0x10000000000000 * uint d)
      = uint (p ! 3) + 0x10000000000000 * uint (p ! 4) + 0x1000003D10 * uint (p ! 8)"
    "uint t3 < 0x10000000000000" "uint t4 < 0x1000000000000" "uint tx < 16" "uint d \<le> 0x20000000000000000"
    using fe_mul_high_5x52_val [OF h] p(1) [of 3] p(1) [of 4] p(3) by simp_all
  note mi = fe_mul_mid_5x52_val [OF m p(1) p(1) hi(4,5)]
  have lo: "uint r1 + 0x10000000000000 * uint r2 + 2 ^ 104 * uint r3 + 2 ^ 156 * uint r4
      = uint c + uint (p ! 1) + 0x1000003D10 * (uint e + uint (p ! 6))
        + 0x10000000000000 * (uint (p ! 2) + 0x1000003D10 * uint (p ! 7)) + 2 ^ 104 * uint t3 + 2 ^ 156 * uint t4"
    "uint r1 < 0x10000000000000" "uint r2 < 0x10000000000000" "uint r3 < 0x10000000000000" "uint r4 \<le> 0x1100000000000"
    using fe_mul_low_5x52_val [OF l p(1) p(1) p(1) p(2) hi(2,3)] mi(3,4) by simp_all
  have r: "fe_reduce_cols_5x52 p = \<lparr>fe5_n0 = r0, fe5_n1 = r1, fe5_n2 = r2, fe5_n3 = r3, fe5_n4 = r4\<rparr>"
    by (simp add: fe_reduce_cols_5x52_def h m l)
  show "fe_bounded_5x52 2 (fe_reduce_cols_5x52 p)"
    using mi(2) lo(2-5) by (simp add: r fe_bounded_5x52_def)
  obtain q where q: "uint r0 + 0x10000000000000 * uint c + 2 ^ 312 * uint e
      = uint (p ! 0) + 2 ^ 256 * uint tx + 2 ^ 260 * (uint d + uint (p ! 5)) - field_p * q"
    using mi(1) by auto
  have "fe_val_5x52 (fe_reduce_cols_5x52 p) =
    (uint (p ! 0)
      + 2 ^ 52 * uint (p ! 1)
      + 2 ^ 104 * uint (p ! 2)
      + 2 ^ 156 * uint (p ! 3)
      + 2 ^ 208 * uint (p ! 4)
      + 2 ^ 260 * uint (p ! 5)
      + 2 ^ 312 * uint (p ! 6)
      + 2 ^ 364 * uint (p ! 7)
      + 2 ^ 416 * uint (p ! 8)) - field_p * (q + 16 * (2 ^ 156 * uint (p ! 8) + 2 ^ 52 * (uint e + uint (p ! 6) + 2 ^ 52 * uint (p ! 7))))"
    unfolding r fe_val_expand_5x52 fe_5x52.select_convs
    using q hi(1) lo(1) by (simp add: field_p_def)
  then show "fe_val_5x52 (fe_reduce_cols_5x52 p) mod field_p =
    (uint (p ! 0)
      + 2 ^ 52 * uint (p ! 1)
      + 2 ^ 104 * uint (p ! 2)
      + 2 ^ 156 * uint (p ! 3)
      + 2 ^ 208 * uint (p ! 4)
      + 2 ^ 260 * uint (p ! 5)
      + 2 ^ 312 * uint (p ! 6)
      + 2 ^ 364 * uint (p ! 7)
      + 2 ^ 416 * uint (p ! 8)) mod field_p"
    by (simp only: mod_minus_mult)
qed

lemma fe_mul_5x52_val:
  assumes "fe_bounded_5x52 16 a" "fe_bounded_5x52 16 b"
  shows "fe_val_5x52 (fe_mul_5x52 a b) mod field_p = (fe_val_5x52 a * fe_val_5x52 b) mod field_p"
    "fe_bounded_5x52 2 (fe_mul_5x52 a b)"
proof -
  let ?p = "fe_mul_cols_5x52 a b"
  note w = wvals_limbs [OF fe_mul_cols_5x52_wval [OF assms]]
  have len: "length ?p = 9" by (simp add: fe_mul_cols_5x52_def)
  have "limbs_val 52 ?p = fe_val_5x52 a * fe_val_5x52 b"
    unfolding w(1) fe_val_expand_5x52 by (simp add: algebra_simps)
  moreover have "uint (?p ! k) \<le> 0x40000000000000000000000000000" if "k < 9" for k
    using w(2) [of k] that by (auto simp add: len less_Suc_eq numeral_eq_Suc)
  moreover have "uint (?p ! 7) \<le> 0x4000000000000000000000000000" "uint (?p ! 8) \<le> 0x100000000000000000000000000"
    using w(2) [of 7] w(2) [of 8] by (simp_all add: len)
  ultimately show "fe_val_5x52 (fe_mul_5x52 a b) mod field_p = (fe_val_5x52 a * fe_val_5x52 b) mod field_p"
    "fe_bounded_5x52 2 (fe_mul_5x52 a b)"
    using fe_reduce_cols_5x52_val [of ?p]
    unfolding fe_mul_5x52_def fe_mul_inner_5x52_def limbs_val_9 [OF len, symmetric] by simp_all
qed

lemma ucast_double64:
  "uint x \<le> 0x7FFFFFFFFFFFFFFF \<Longrightarrow> (ucast (x * 2) :: u128) = ucast x + ucast x" for x :: u64
  by (simp add: word_uint_eq_iff uint_add_noov uint_mult_noov uint_ucast_up)

lemma fe_sqr_cols_5x52_eq:
  assumes "fe_bounded_5x52 16 a"
  shows "fe_sqr_cols_5x52 a = fe_mul_cols_5x52 a a"
proof -
  have d: "(ucast (fe5_n0 a * 2) :: u128) = ucast (fe5_n0 a) + ucast (fe5_n0 a)"
    "(ucast (fe5_n1 a * 2) :: u128) = ucast (fe5_n1 a) + ucast (fe5_n1 a)"
    "(ucast (fe5_n2 a * 2) :: u128) = ucast (fe5_n2 a) + ucast (fe5_n2 a)"
    "(ucast (fe5_n4 a * 2) :: u128) = ucast (fe5_n4 a) + ucast (fe5_n4 a)"
    by (rule ucast_double64, use assms in \<open>simp add: fe_bounded_5x52_def\<close>)+
  show ?thesis
    unfolding fe_sqr_cols_5x52_def fe_mul_cols_5x52_def d
    by (simp only: distrib_right distrib_left list.inject simp_thms ac_simps)
qed

lemma fe_sqr_5x52_eq: "fe_bounded_5x52 16 a \<Longrightarrow> fe_sqr_5x52 a = fe_mul_5x52 a a"
  by (simp add: fe_sqr_5x52_def fe_sqr_inner_5x52_def fe_mul_5x52_def fe_mul_inner_5x52_def
    fe_sqr_cols_5x52_eq)

section \<open>Correctness of the encodings\<close>

lemma fe_set_b32_step_5x52_limbs:
  assumes len: "length a = 32" and j: "i < 32" "j < 2"
  shows "fe_set_b32_step_5x52 a (i, j) (limbs_of 52 5 (take_bit (8 * i + 4 * j) (be_val a)))
    = limbs_of 52 5 (take_bit (8 * i + 4 * j + 4) (be_val a))"
proof -
  let ?ch = "ucast (drop_bit (4 * j) (a ! (31 - i)) AND 15) :: u64"
  have 15: "(15 :: u8) = mask 4" by (simp add: mask_eq_exp_minus_1)
  have ch: "bit ?ch b \<longleftrightarrow> b < 4 \<and> bit (be_val a) (8 * i + 4 * j + b)" for b
    using bit_be_val [of i a "4 * j + b"] len j
    by (auto simp add: bit_ucast_iff bit_and_iff bit_drop_bit_eq 15 bit_mask_iff add.assoc
      dest: bit_imp_le_length)
  show ?thesis
    unfolding fe_set_b32_step_5x52_def Let_def prod.case
    by (rule limbs_of_or_chunk) (use ch j in auto)
qed

lemma eight_div_mod_2: "8 * (k div 2) + 4 * (k mod 2) = 4 * k" for k :: nat
  by presburger

lemma fe_set_b32_limbs_5x52:
  assumes "length a = 32"
  shows "fold (fe_set_b32_step_5x52 a) (List.product [0..<32] [0..<2]) (replicate 5 0) = limbs_of 52 5 (be_val a)"
proof -
  have p: "List.product [0..<32] [0..<2] = map (\<lambda>k. (k div 2, k mod 2)) [0..<64 :: nat]"
    by code_simp
  have "fold (\<lambda>k. fe_set_b32_step_5x52 a (k div 2, k mod 2)) [0..<64] (replicate 5 0)
      = limbs_of 52 5 (take_bit (4 * 64) (be_val a))"
  proof (rule fold_limbs_of)
    fix k :: nat assume "k < 64"
    then show "fe_set_b32_step_5x52 a (k div 2, k mod 2) (limbs_of 52 5 (take_bit (4 * k) (be_val a)))
        = limbs_of 52 5 (take_bit (4 * k + 4) (be_val a))"
      using fe_set_b32_step_5x52_limbs [OF assms, of "k div 2" "k mod 2"]
      by (simp add: eight_div_mod_2)
  qed
  moreover have "take_bit (4 * 64) (be_val a) = be_val a"
    using be_val_less [of a] assms by (intro take_bit_int_eq_self) simp_all
  ultimately show ?thesis by (simp add: p fold_map comp_def)
qed

lemma fe_set_b32_5x52_val:
  assumes "length a = 32"
  shows "fe_val_5x52 (fst (fe_set_b32_5x52 a)) = be_val a" "fe_bounded_5x52 1 (fst (fe_set_b32_5x52 a))"
    "snd (fe_set_b32_5x52 a) \<longleftrightarrow> be_val a < field_p"
proof -
  have v: "0 \<le> be_val a" "be_val a < 2 ^ 256" using be_val_less [of a] assms by simp_all
  show "fe_val_5x52 (fst (fe_set_b32_5x52 a)) = be_val a" "fe_bounded_5x52 1 (fst (fe_set_b32_5x52 a))"
    "snd (fe_set_b32_5x52 a) \<longleftrightarrow> be_val a < field_p"
    using fe_bounded_limbs_of_5x52 [OF v] fe_ge_p_5x52 [OF fe_bounded_limbs_of_5x52(2) [OF v]]
    by (simp_all add: fe_set_b32_5x52_def Let_def fe_set_b32_limbs_5x52 [OF assms] not_le)
qed

lemma fe_get_b32_byte_5x52_bits:
  assumes "i < 32" "b < 8"
  shows "bit (fe_get_b32_byte_5x52 (limbs_of 52 5 v) i) b \<longleftrightarrow> bit v (8 * i + b)"
proof -
  let ?n = "limbs_of 52 5 v :: u64 list"
  have 15: "(15 :: u64) = mask 4" by (simp add: mask_eq_exp_minus_1)
  have upt: "[0..<2] = [0, 1 :: nat]" by code_simp
  define g where "g j = push_bit (4 * j) (drop_bit ((8 * i + 4 * j) mod 52) (?n ! ((8 * i + 4 * j) div 52)) AND 15)" for j
  have g: "bit (g j) b \<longleftrightarrow> 4 * j \<le> b \<and> b < 4 * j + 4 \<and> bit v (8 * i + b)" if "j < 2" for j
  proof -
    define l where "l = (8 * i + 4 * j) div 52"
    define s where "s = (8 * i + 4 * j) mod 52"
    have ls: "52 * l + s = 8 * i + 4 * j" by (simp add: l_def s_def)
    have "4 dvd 52 - s" unfolding s_def by (rule dvd_diff_nat) (simp_all add: dvd_mod)
    moreover have "s < 52" by (simp add: s_def)
    ultimately have "4 \<le> 52 - s" by (intro dvd_imp_le) simp_all
    moreover have "l < 5" using ls that assms by linarith
    moreover have "52 * l + (s + (b - 4 * j)) = 8 * i + b" if "4 * j \<le> b"
      using that ls by linarith
    ultimately show ?thesis
      using assms that unfolding g_def l_def [symmetric] s_def [symmetric]
      by (auto simp add: bit_push_bit_iff bit_and_iff bit_drop_bit_eq 15 bit_mask_iff bit_limbs_of)
  qed
  have "fe_get_b32_byte_5x52 ?n i = ucast (0 OR g 0 OR g 1)"
    by (simp only: fe_get_b32_byte_5x52_def upt fold_simps comp_def id_def Let_def g_def or.assoc)
  then show ?thesis
    using assms(2) by (auto simp add: bit_ucast_iff bit_or_iff g)
qed

lemma fe_get_b32_5x52_val:
  assumes "fe_bounded_5x52 1 a"
  shows "fe_get_b32_5x52 a = be_bytes 32 (fe_val_5x52 a)"
proof (rule be_bytes_eqI)
  fix i b :: nat assume "i < 32" "b < 8"
  then show "bit (fe_get_b32_5x52 a ! (32 - 1 - i)) b \<longleftrightarrow> bit (fe_val_5x52 a) (8 * i + b)"
    using fe_get_b32_byte_5x52_bits by (simp add: fe_get_b32_5x52_def rev_nth fe_limbs_eq_5x52 [OF assms])
qed (simp add: fe_get_b32_5x52_def)

lemma length_fs_limbs_4x64: "length (fs_limbs_4x64 s) = 4"
  by (simp add: fs_limbs_4x64_def)

lemma fs_val_less_4x64: "fs_val_4x64 s < 2 ^ 256"
  using limbs_val_less [of "fs_limbs_4x64 s" 64] uint_bounded [where 'a = 64]
  by (simp add: fs_val_4x64_def length_fs_limbs_4x64)

lemma bit_fs_4x64:
  fixes s :: fe_storage_4x64
  shows "bit (fs4_n0 s) b \<longleftrightarrow> b < 64 \<and> bit (fs_val_4x64 s) (b)"
    "bit (fs4_n1 s) b \<longleftrightarrow> b < 64 \<and> bit (fs_val_4x64 s) (64 + b)"
    "bit (fs4_n2 s) b \<longleftrightarrow> b < 64 \<and> bit (fs_val_4x64 s) (128 + b)"
    "bit (fs4_n3 s) b \<longleftrightarrow> b < 64 \<and> bit (fs_val_4x64 s) (192 + b)"
proof -
  have l: "fs_limbs_4x64 s = limbs_of 64 4 (fs_val_4x64 s)"
    using limbs_of_limbs_val [of "fs_limbs_4x64 s" 64] uint_bounded [where 'a = 64]
    by (simp add: fs_val_4x64_def length_fs_limbs_4x64)
  have "bit (fs_limbs_4x64 s ! i) b \<longleftrightarrow> b < 64 \<and> bit (fs_val_4x64 s) (64 * i + b)" if "i < 4" for i
    unfolding l using that by (simp add: bit_limbs_of)
  from this [of 0] this [of 1] this [of 2] this [of 3]
  show "bit (fs4_n0 s) b \<longleftrightarrow> b < 64 \<and> bit (fs_val_4x64 s) (b)"
    "bit (fs4_n1 s) b \<longleftrightarrow> b < 64 \<and> bit (fs_val_4x64 s) (64 + b)"
    "bit (fs4_n2 s) b \<longleftrightarrow> b < 64 \<and> bit (fs_val_4x64 s) (128 + b)"
    "bit (fs4_n3 s) b \<longleftrightarrow> b < 64 \<and> bit (fs_val_4x64 s) (192 + b)"
    by (simp_all add: fs_limbs_4x64_def)
qed

lemma bit_fe_5x52:
  assumes "fe_bounded_5x52 1 a"
  shows "bit (fe5_n0 a) b \<longleftrightarrow> b < 52 \<and> bit (fe_val_5x52 a) (b)"
    "bit (fe5_n1 a) b \<longleftrightarrow> b < 52 \<and> bit (fe_val_5x52 a) (52 + b)"
    "bit (fe5_n2 a) b \<longleftrightarrow> b < 52 \<and> bit (fe_val_5x52 a) (104 + b)"
    "bit (fe5_n3 a) b \<longleftrightarrow> b < 52 \<and> bit (fe_val_5x52 a) (156 + b)"
    "bit (fe5_n4 a) b \<longleftrightarrow> b < 52 \<and> bit (fe_val_5x52 a) (208 + b)"
proof -
  have "bit (fe_limbs_5x52 a ! i) b \<longleftrightarrow> b < 52 \<and> bit (fe_val_5x52 a) (52 * i + b)" if "i < 5" for i
    unfolding fe_limbs_eq_5x52 [OF assms] using that by (simp add: bit_limbs_of)
  from this [of 0] this [of 1] this [of 2] this [of 3] this [of 4]
  show "bit (fe5_n0 a) b \<longleftrightarrow> b < 52 \<and> bit (fe_val_5x52 a) (b)"
    "bit (fe5_n1 a) b \<longleftrightarrow> b < 52 \<and> bit (fe_val_5x52 a) (52 + b)"
    "bit (fe5_n2 a) b \<longleftrightarrow> b < 52 \<and> bit (fe_val_5x52 a) (104 + b)"
    "bit (fe5_n3 a) b \<longleftrightarrow> b < 52 \<and> bit (fe_val_5x52 a) (156 + b)"
    "bit (fe5_n4 a) b \<longleftrightarrow> b < 52 \<and> bit (fe_val_5x52 a) (208 + b)"
    by (simp_all add: fe_limbs_5x52_def)
qed

lemma less_5_cases: "i < 5 \<Longrightarrow> i = 0 \<or> i = 1 \<or> i = 2 \<or> i = 3 \<or> i = (4 :: nat)"
  by auto

lemma fe_from_storage_5x52_limbs:
  "fe_limbs_5x52 (fe_from_storage_5x52 s) = limbs_of 52 5 (fs_val_4x64 s)"
proof (rule limbs_eq_limbs_ofI)
  fix i b :: nat assume "i < 5"
  have top: "n < 256" if "bit (fs_val_4x64 s) n" for n
    using that fs_val_less_4x64 [of s] bit_int_less [of "fs_val_4x64 s" 256 n]
    by (simp add: fs_val_4x64_def)
  show "bit (fe_limbs_5x52 (fe_from_storage_5x52 s) ! i) b \<longleftrightarrow> b < 52 \<and> bit (fs_val_4x64 s) (52 * i + b)"
    using less_5_cases [OF \<open>i < 5\<close>] top [of "208 + b"]
    by (elim disjE) (auto simp add: fe_limbs_5x52_def fe_from_storage_5x52_def bit_or_iff bit_and_iff
      bit_drop_bit_eq bit_push_bit_iff mask_52_word bit_mask_iff bit_fs_4x64)
qed (simp_all add: fe_limbs_5x52_def)

lemma less_4_cases: "i < 4 \<Longrightarrow> i = 0 \<or> i = 1 \<or> i = 2 \<or> i = (3 :: nat)"
  by auto

lemma fe_to_storage_5x52_limbs:
  assumes "fe_bounded_5x52 1 a"
  shows "fs_limbs_4x64 (fe_to_storage_5x52 a) = limbs_of 64 4 (fe_val_5x52 a)"
proof (rule limbs_eq_limbs_ofI)
  fix i b :: nat assume "i < 4"
  show "bit (fs_limbs_4x64 (fe_to_storage_5x52 a) ! i) b \<longleftrightarrow> b < 64 \<and> bit (fe_val_5x52 a) (64 * i + b)"
    using less_4_cases [OF \<open>i < 4\<close>]
    by (elim disjE) (auto simp add: fs_limbs_4x64_def fe_to_storage_5x52_def bit_or_iff
      bit_drop_bit_eq bit_push_bit_iff bit_fe_5x52 [OF assms])
qed (simp_all add: fs_limbs_4x64_def)

lemma fe_storage_roundtrip_5x52:
  "fe_val_5x52 (fe_from_storage_5x52 s) = fs_val_4x64 s"
  "fe_bounded_5x52 1 (fe_from_storage_5x52 s)"
  "fe_bounded_5x52 1 a \<Longrightarrow> fs_val_4x64 (fe_to_storage_5x52 a) = fe_val_5x52 a"
  "fe_bounded_5x52 1 a \<Longrightarrow> fe_from_storage_5x52 (fe_to_storage_5x52 a) = a"
proof -
  have ofl: "fe_of_limbs_5x52 (fe_limbs_5x52 x) = x" for x
    by (simp add: fe_of_limbs_5x52_def fe_limbs_5x52_def)
  have nn: "0 \<le> fs_val_4x64 t" for t by (simp add: fs_val_4x64_def)
  have eq: "fe_from_storage_5x52 t = fe_of_limbs_5x52 (limbs_of 52 5 (fs_val_4x64 t))" for t
    using ofl [of "fe_from_storage_5x52 t"] by (simp add: fe_from_storage_5x52_limbs)
  have fromv: "fe_val_5x52 (fe_from_storage_5x52 t) = fs_val_4x64 t" "fe_bounded_5x52 1 (fe_from_storage_5x52 t)" for t
    unfolding eq using fe_bounded_limbs_of_5x52 [OF nn fs_val_less_4x64] by simp_all
  then show "fe_val_5x52 (fe_from_storage_5x52 s) = fs_val_4x64 s" "fe_bounded_5x52 1 (fe_from_storage_5x52 s)"
    by simp_all
  assume a: "fe_bounded_5x52 1 a"
  have "fe_val_5x52 a < 2 ^ 256"
    using a unfolding fe_val_expand_5x52 fe_bounded_5x52_def by simp
  then show v: "fs_val_4x64 (fe_to_storage_5x52 a) = fe_val_5x52 a"
    using fe_to_storage_5x52_limbs [OF a]
    by (simp add: fs_val_4x64_def limbs_val_limbs_of take_bit_int_eq_self fe_val_5x52_def)
  show "fe_from_storage_5x52 (fe_to_storage_5x52 a) = a"
    by (rule fe_val_inj_5x52) (use fromv a v in simp_all)
qed

lemma fe_const_5x52_limbs:
  "fe_limbs_5x52 (fe_const_5x52 d7 d6 d5 d4 d3 d2 d1 d0)
    = limbs_of 52 5 (limbs_val 32 [d0, d1, d2, d3, d4, d5, d6, d7])" (is "_ = limbs_of 52 5 ?v")
proof (rule limbs_eq_limbs_ofI)
  let ?d = "[d0, d1, d2, d3, d4, d5, d6, d7]"
  have less: "\<forall>x \<in> set ?d. uint x < 2 ^ 32" using uint_bounded [where 'a = 32] by simp
  have "bit (?d ! i) b \<longleftrightarrow> b < 32 \<and> bit ?v (32 * i + b)" if "i < 8" for i b
    by (rule bit_nth_limbs [OF less]) (use that in simp_all)
  from this [of 0] this [of 1] this [of 2] this [of 3] this [of 4] this [of 5] this [of 6] this [of 7]
  have d: "bit d0 b \<longleftrightarrow> b < 32 \<and> bit ?v b" "bit d1 b \<longleftrightarrow> b < 32 \<and> bit ?v (32 + b)"
    "bit d2 b \<longleftrightarrow> b < 32 \<and> bit ?v (64 + b)" "bit d3 b \<longleftrightarrow> b < 32 \<and> bit ?v (96 + b)"
    "bit d4 b \<longleftrightarrow> b < 32 \<and> bit ?v (128 + b)" "bit d5 b \<longleftrightarrow> b < 32 \<and> bit ?v (160 + b)"
    "bit d6 b \<longleftrightarrow> b < 32 \<and> bit ?v (192 + b)" "bit d7 b \<longleftrightarrow> b < 32 \<and> bit ?v (224 + b)" for b
    by (simp_all del: limbs_val.simps)
  have top: "n < 256" if "bit ?v n" for n
    using that limbs_val_less [OF less] bit_int_less [of ?v 256 n] by (simp del: limbs_val.simps)
  have m: "(0xFFFFF :: u64) = mask 20" "(0xFF :: u64) = mask 8" "(0xFFFFFFF :: u64) = mask 28" "(0xFFFF :: u64) = mask 16"
    by (simp_all add: mask_eq_exp_minus_1)
  fix i b :: nat assume "i < 5"
  show "bit (fe_limbs_5x52 (fe_const_5x52 d7 d6 d5 d4 d3 d2 d1 d0) ! i) b \<longleftrightarrow> b < 52 \<and> bit ?v (52 * i + b)"
    using less_5_cases [OF \<open>i < 5\<close>] top [of "208 + b"]
    by (cases "44 \<le> b"; cases "36 \<le> b"; elim disjE) (auto simp add: fe_limbs_5x52_def fe_const_5x52_def bit_or_iff bit_and_iff
      bit_drop_bit_eq bit_push_bit_iff bit_mask_iff bit_ucast_iff m d simp del: limbs_val.simps)
qed (simp_all add: fe_limbs_5x52_def)

lemma fe_const_5x52_val:
  "fe_val_5x52 (fe_const_5x52 d7 d6 d5 d4 d3 d2 d1 d0) = limbs_val 32 [d0, d1, d2, d3, d4, d5, d6, d7]"
  "fe_bounded_5x52 1 (fe_const_5x52 d7 d6 d5 d4 d3 d2 d1 d0)"
proof -
  let ?c = "fe_const_5x52 d7 d6 d5 d4 d3 d2 d1 d0" and ?v = "limbs_val 32 [d0, d1, d2, d3, d4, d5, d6, d7]"
  have "\<forall>x \<in> set [d0, d1, d2, d3, d4, d5, d6, d7]. uint x < 2 ^ 32" using uint_bounded [where 'a = 32] by simp
  from limbs_val_less [OF this] have v: "0 \<le> ?v" "?v < 2 ^ 256" by simp_all
  have "?c = fe_of_limbs_5x52 (fe_limbs_5x52 ?c)"
    by (simp add: fe_of_limbs_5x52_def fe_limbs_5x52_def)
  then have "?c = fe_of_limbs_5x52 (limbs_of 52 5 ?v)" by (simp only: fe_const_5x52_limbs)
  then show "fe_val_5x52 ?c = ?v" "fe_bounded_5x52 1 ?c"
    using fe_bounded_limbs_of_5x52 [OF v] by (simp_all only:)
qed

section \<open>The contract holds\<close>

lemma fe_norm_5x52_iff: "fe_norm_5x52 a \<longleftrightarrow> fe_bounded_5x52 1 a \<and> fe_val_5x52 a < field_p"
  using fe_ge_p_5x52 [of a] by (auto simp add: fe_norm_5x52_def fe_verify_5x52_def)

lemma fe_norm_res_5x52: "fe_norm_5x52 a \<Longrightarrow> fe_res_5x52 a = fe_val_5x52 a"
  by (simp add: fe_norm_5x52_iff fe_res_5x52_def fe_val_5x52_def)

lemma fe_mag_5x52_iff: "fe_mag_5x52 m a \<longleftrightarrow> 0 \<le> m \<and> m \<le> 31 \<and> fe_bounded_5x52 (2 * m) a"
  by (auto simp add: fe_mag_5x52_def fe_verify_5x52_def)

lemma fe_bounded_mono_5x52: "fe_bounded_5x52 m a \<Longrightarrow> m \<le> n \<Longrightarrow> fe_bounded_5x52 n a"
  by (simp add: fe_bounded_5x52_def)

lemma fe_normI_5x52:
  "fe_bounded_5x52 1 a \<Longrightarrow> fe_val_5x52 a < field_p \<Longrightarrow> fe_norm_5x52 a"
  "fe_bounded_5x52 1 a \<Longrightarrow> fe_mag_5x52 1 a"
  by (simp_all add: fe_norm_5x52_iff fe_mag_5x52_iff fe_bounded_mono_5x52 [of 1])

lemma fe_mag_normalize_5x52:
  "fe_mag_5x52 m a \<Longrightarrow> fe_res_5x52 (fe_normalize_5x52 a) = fe_res_5x52 a \<and>
    fe_norm_5x52 (fe_normalize_5x52 a)"
  using fe_normalize_5x52_val [of "2 * m" a]
  by (simp add: fe_mag_5x52_iff fe_norm_5x52_iff fe_res_5x52_def)

lemma fe_mag_normalize_weak_5x52:
  assumes "fe_mag_5x52 m a"
  shows "fe_res_5x52 (fe_normalize_weak_5x52 a) = fe_res_5x52 a \<and>
    fe_mag_5x52 1 (fe_normalize_weak_5x52 a)"
  using fe_first_pass_5x52 [of "2 * m" a] assms fe_weak_limbs_5x52(3) [of "fe_first_pass_5x52 a"]
  by (simp add: fe_mag_5x52_iff fe_res_5x52_def fe_normalize_weak_5x52_def)

lemma fe_mag_linear_5x52:
  "fe_mag_5x52 m a \<Longrightarrow> m \<le> 30 \<Longrightarrow>
    fe_res_5x52 (fe_negate_5x52 a m) = (- fe_res_5x52 a) mod field_p \<and> fe_mag_5x52 (m + 1) (fe_negate_5x52 a m)"
  "fe_mag_5x52 m a \<Longrightarrow> 0 \<le> k \<Longrightarrow> k \<le> 31 \<Longrightarrow> m * k \<le> 31 \<Longrightarrow>
    fe_res_5x52 (fe_mul_int_5x52 a k) = (fe_res_5x52 a * k) mod field_p \<and> fe_mag_5x52 (m * k) (fe_mul_int_5x52 a k)"
  "fe_mag_5x52 m a \<Longrightarrow> fe_mag_5x52 n b \<Longrightarrow> m + n \<le> 31 \<Longrightarrow>
    fe_res_5x52 (fe_add_5x52 a b) = (fe_res_5x52 a + fe_res_5x52 b) mod field_p \<and>
    fe_mag_5x52 (m + n) (fe_add_5x52 a b)"
proof -
  assume "fe_mag_5x52 m a" "m \<le> 30"
  then show "fe_res_5x52 (fe_negate_5x52 a m) = (- fe_res_5x52 a) mod field_p \<and> fe_mag_5x52 (m + 1) (fe_negate_5x52 a m)"
    using fe_negate_5x52_val [of m a] mod_mult_self1 [of "- fe_val_5x52 a" "2 * (m + 1)" field_p]
    by (simp add: fe_mag_5x52_iff fe_res_5x52_def mod_minus_eq)
next
  assume "fe_mag_5x52 m a" "0 \<le> k" "k \<le> 31" "m * k \<le> 31"
  then show "fe_res_5x52 (fe_mul_int_5x52 a k) = (fe_res_5x52 a * k) mod field_p \<and> fe_mag_5x52 (m * k) (fe_mul_int_5x52 a k)"
    using fe_mul_int_5x52_val [of "2 * m" a k]
    by (simp add: fe_mag_5x52_iff fe_res_5x52_def mod_mult_left_eq mult.assoc mult.commute [of k m])
next
  assume "fe_mag_5x52 m a" "fe_mag_5x52 n b" "m + n \<le> 31"
  then show "fe_res_5x52 (fe_add_5x52 a b) = (fe_res_5x52 a + fe_res_5x52 b) mod field_p \<and>
    fe_mag_5x52 (m + n) (fe_add_5x52 a b)"
    using fe_add_5x52_val [of "2 * m" a "2 * n" b]
    by (simp add: fe_mag_5x52_iff fe_res_5x52_def mod_add_eq distrib_left)
qed

lemma fe_mag_mul_5x52:
  "fe_mag_5x52 8 a \<Longrightarrow> fe_mag_5x52 8 b \<Longrightarrow>
    fe_res_5x52 (fe_mul_5x52 a b) = (fe_res_5x52 a * fe_res_5x52 b) mod field_p \<and> fe_mag_5x52 1 (fe_mul_5x52 a b)"
  using fe_mul_5x52_val [of a b] by (simp add: fe_mag_5x52_iff fe_res_5x52_def mod_mult_eq)

interpretation fe5: field_repr F5x52 fe_res_5x52 fe_mag_5x52 fe_norm_5x52 fs_val_4x64
proof (unfold_locales, goal_cases)
  case 1 then show ?case by (simp add: fe_res_5x52_def)
next
  case 2 then show ?case by (simp add: fe_res_5x52_def)
next
  case 3 then show ?case by (simp add: fe_mag_5x52_iff)
next
  case 4 then show ?case by (auto simp add: fe_mag_5x52_iff intro: fe_bounded_mono_5x52)
next
  case 5 then show ?case by (simp add: fe_norm_5x52_iff fe_normI_5x52)
next
  case 6 then show ?case using fe_val_inj_5x52 by (simp add: fe_norm_res_5x52 fe_norm_5x52_iff)
next
  case 7 then show ?case using fe_mag_normalize_5x52 by (simp add: F5x52_def)
next
  case 8 then show ?case using fe_mag_normalize_weak_5x52 by (simp add: F5x52_def)
next
  case (9 m a) then show ?case using fe_normalize_var_5x52_eq [of "2 * m" a] by (simp add: F5x52_def fe_mag_5x52_iff)
next
  case (10 m a) then show ?case
    using fe_normalizes_to_zero_5x52_val [of "2 * m" a] by (simp add: F5x52_def fe_mag_5x52_iff fe_res_5x52_def)
next
  case (11 m a) then show ?case
    using fe_normalizes_to_zero_5x52_val [of "2 * m" a] by (simp add: F5x52_def fe_mag_5x52_iff fe_res_5x52_def
      fe_normalizes_to_zero_var_5x52_eq)
next
  case 12 then show ?case
    using fe_set_int_5x52_val by (simp add: F5x52_def fe_norm_5x52_iff fe_res_5x52_def field_p_def)
next
  case 13 then show ?case
    by (simp add: F5x52_def fe_norm_5x52_iff fe_res_5x52_def fe_clear_5x52_val)
next
  case 14 then show ?case by (simp add: F5x52_def fe_is_zero_5x52_val fe_norm_res_5x52)
next
  case 15 then show ?case by (simp add: F5x52_def fe_is_odd_5x52_val fe_norm_res_5x52)
next
  case 16 then show ?case
    using fe_cmp_var_5x52_val by (simp add: F5x52_def fe_norm_res_5x52 fe_norm_5x52_iff)
next
  case 17 then show ?case
    using fe_set_b32_5x52_val by (simp add: F5x52_def fe_res_5x52_def fe_normI_5x52)
next
  case 18 then show ?case
    using fe_get_b32_5x52_val by (simp add: F5x52_def fe_norm_res_5x52 fe_norm_5x52_iff)
next
  case 19 then show ?case using fe_mag_linear_5x52(1) by (simp add: F5x52_def)
next
  case 20 then show ?case using fe_mag_linear_5x52(2) by (simp add: F5x52_def)
next
  case 21 then show ?case using fe_mag_linear_5x52(3) by (simp add: F5x52_def)
next
  case 22 then show ?case using fe_mag_mul_5x52 by (simp add: F5x52_def)
next
  case 23 then show ?case
    using fe_mag_mul_5x52 fe_sqr_5x52_eq by (simp add: F5x52_def fe_mag_5x52_iff)
next
  case 24 then show ?case by (simp add: F5x52_def fe_cmov_5x52_val)
next
  case 25 then show ?case by (simp add: F5x52_def fe_storage_cmov_4x64_val)
next
  case 26 then show ?case
    by (simp add: F5x52_def fe_storage_roundtrip_5x52 fe_norm_res_5x52 fe_norm_5x52_iff)
next
  case 27 then show ?case
    by (simp add: F5x52_def fe_storage_roundtrip_5x52 fe_res_5x52_def fe_normI_5x52)
next
  case 28 then show ?case by (simp add: F5x52_def fe_storage_roundtrip_5x52 fe_norm_5x52_iff)
next
  case 29 then show ?case
    by (simp add: F5x52_def fe_const_5x52_val fe_res_5x52_def fe_normI_5x52 del: limbs_val.simps)
qed

end
