(* ===== verification/Field_Impl.thy ===== *)
theory Field_Impl
  imports Field
begin

text \<open>
  The representation independent part of the field module, \<^verbatim>\<open>field_impl.h\<close>: equality, the
  exponentiations for the square root and for the inverse, and the batch inversion. Every
  function takes the record \<open>F\<close> of the operations it is compiled against. The lemmas are
  proved once in the locale \<open>field_repr\<close>; the relation \<open>pw a k x\<close> (\<open>x\<close> represents the
  \<open>k\<close>-th power of \<open>a\<close>) is propagated through the addition chains by the rules of the
  collection \<open>pw_intro\<close>, which compute the exponent.
\<close>

named_theorems pw_intro \<open>exponents along an addition chain\<close>

section \<open>Definitions\<close>

definition fe_equal :: "('fe, 'st) field_ops \<Rightarrow> 'fe \<Rightarrow> 'fe \<Rightarrow> bool" where
  "fe_equal F a b =
    (let na = fe_negate F a 1;
         na = fe_add F na b
     in fe_normalizes_to_zero F na)"

definition fe_equal_var :: "('fe, 'st) field_ops \<Rightarrow> 'fe \<Rightarrow> 'fe \<Rightarrow> bool" where
  "fe_equal_var F a b =
    (let na = fe_negate F a 1;
         na = fe_add F na b
     in fe_normalizes_to_zero_var F na)"

text \<open>The loops \<^verbatim>\<open>for (j=0; j<n; j++) secp256k1_fe_sqr(&x, &x)\<close>.\<close>

primrec fe_sqr_n :: "('fe, 'st) field_ops \<Rightarrow> nat \<Rightarrow> 'fe \<Rightarrow> 'fe" where
  "fe_sqr_n F 0 x = x"
| "fe_sqr_n F (Suc n) x = fe_sqr_n F n (fe_sqr F x)"

text \<open>
  The common beginning of \<^verbatim>\<open>fe_sqrt\<close> and \<^verbatim>\<open>fe_inv\<close>: the powers \<open>2 ^ n - 1\<close> for
  \<open>n\<close> in 2, 22 and 223.
\<close>

definition fe_chain :: "('fe, 'st) field_ops \<Rightarrow> 'fe \<Rightarrow> 'fe \<times> 'fe \<times> 'fe" where
  "fe_chain F a =
    (let x2 = fe_sqr F a; x2 = fe_mul F x2 a;
         x3 = fe_sqr F x2; x3 = fe_mul F x3 a;
         x6 = fe_sqr_n F 3 x3; x6 = fe_mul F x6 x3;
         x9 = fe_sqr_n F 3 x6; x9 = fe_mul F x9 x3;
         x11 = fe_sqr_n F 2 x9; x11 = fe_mul F x11 x2;
         x22 = fe_sqr_n F 11 x11; x22 = fe_mul F x22 x11;
         x44 = fe_sqr_n F 22 x22; x44 = fe_mul F x44 x22;
         x88 = fe_sqr_n F 44 x44; x88 = fe_mul F x88 x44;
         x176 = fe_sqr_n F 88 x88; x176 = fe_mul F x176 x88;
         x220 = fe_sqr_n F 44 x176; x220 = fe_mul F x220 x44;
         x223 = fe_sqr_n F 3 x220; x223 = fe_mul F x223 x3
     in (x2, x22, x223))"

definition fe_sqrt :: "('fe, 'st) field_ops \<Rightarrow> 'fe \<Rightarrow> 'fe \<times> bool" where
  "fe_sqrt F a =
    (let (x2, x22, x223) = fe_chain F a;
         t1 = fe_sqr_n F 23 x223; t1 = fe_mul F t1 x22;
         t1 = fe_sqr_n F 6 t1; t1 = fe_mul F t1 x2;
         t1 = fe_sqr F t1; r = fe_sqr F t1;
         t1 = fe_sqr F r
     in (r, fe_equal F t1 a))"

definition fe_inv :: "('fe, 'st) field_ops \<Rightarrow> 'fe \<Rightarrow> 'fe" where
  "fe_inv F a =
    (let (x2, x22, x223) = fe_chain F a;
         t1 = fe_sqr_n F 23 x223; t1 = fe_mul F t1 x22;
         t1 = fe_sqr_n F 5 t1; t1 = fe_mul F t1 a;
         t1 = fe_sqr_n F 3 t1; t1 = fe_mul F t1 x2;
         t1 = fe_sqr_n F 2 t1
     in fe_mul F a t1)"

text \<open>With \<^verbatim>\<open>USE_FIELD_INV_BUILTIN\<close> and \<^verbatim>\<open>USE_NUM_NONE\<close>, as configured.\<close>

definition fe_inv_var :: "('fe, 'st) field_ops \<Rightarrow> 'fe \<Rightarrow> 'fe" where
  "fe_inv_var F a = fe_inv F a"

definition fe_is_quad_var :: "('fe, 'st) field_ops \<Rightarrow> 'fe \<Rightarrow> bool" where
  "fe_is_quad_var F a = snd (fe_sqrt F a)"

text \<open>
  The two loops of \<^verbatim>\<open>fe_inv_all_var\<close> on the output array \<open>r\<close>, which has the length of
  \<open>a\<close>: products of prefixes, and the way back with \<open>u\<close>, the inverse of the prefix product
  at the current index.
\<close>

primrec fe_inv_all_up :: "('fe, 'st) field_ops \<Rightarrow> 'fe list \<Rightarrow> nat \<Rightarrow> 'fe list \<Rightarrow> 'fe list" where
  "fe_inv_all_up F a 0 r = r[0 := a ! 0]"
| "fe_inv_all_up F a (Suc i) r =
    (let r = fe_inv_all_up F a i r in r[Suc i := fe_mul F (r ! i) (a ! Suc i)])"

primrec fe_inv_all_down :: "('fe, 'st) field_ops \<Rightarrow> 'fe list \<Rightarrow> nat \<Rightarrow> 'fe list \<Rightarrow> 'fe \<Rightarrow> 'fe list" where
  "fe_inv_all_down F a 0 r u = r[0 := u]"
| "fe_inv_all_down F a (Suc i) r u =
    fe_inv_all_down F a i (r[Suc i := fe_mul F (r ! i) u]) (fe_mul F u (a ! Suc i))"

definition fe_inv_all_var :: "('fe, 'st) field_ops \<Rightarrow> 'fe list \<Rightarrow> 'fe list \<Rightarrow> 'fe list" where
  "fe_inv_all_var F r a =
    (if length a < 1 then r
     else let i = length a - 1;
              r = fe_inv_all_up F a i r;
              u = fe_inv_var F (r ! i)
          in fe_inv_all_down F a i r u)"

section \<open>Correctness\<close>

text \<open>
  Fermat's congruence at \<open>x\<close>. The modulus being prime, every residue but 0 satisfies it; the
  exponentiation \<^verbatim>\<open>fe_inv\<close> inverts exactly the residues that do.
\<close>

definition field_unit :: "int \<Rightarrow> bool" where
  "field_unit x \<longleftrightarrow> x ^ nat (field_p - 1) mod field_p = 1"

lemma field_unit_mod [simp]: "field_unit (x mod field_p) \<longleftrightarrow> field_unit x"
  by (simp add: field_unit_def power_mod)

lemma field_unit_mult: "field_unit x \<Longrightarrow> field_unit y \<Longrightarrow> field_unit (x * y)"
  unfolding field_unit_def power_mult_distrib
  by (metis mod_mult_eq mult_1 mod_mod_trivial)


lemma field_mod_0_iff: "0 \<le> x \<Longrightarrow> x < field_p \<Longrightarrow> 0 \<le> y \<Longrightarrow> y < field_p \<Longrightarrow>
    ((- x) mod field_p + y) mod field_p = 0 \<longleftrightarrow> x = y"
proof -
  assume xy: "0 \<le> x" "x < field_p" "0 \<le> y" "y < field_p"
  have "((- x) mod field_p + y) mod field_p = (y - x) mod field_p"
    by (simp add: mod_add_left_eq)
  also have "\<dots> = 0 \<longleftrightarrow> field_p dvd y - x" by (simp add: dvd_eq_mod_eq_0)
  also have "\<dots> \<longleftrightarrow> x = y"
  proof
    assume "field_p dvd y - x"
    then have "\<bar>field_p\<bar> \<le> \<bar>y - x\<bar>" if "y \<noteq> x" using that by (intro dvd_imp_le_int) simp_all
    then show "x = y" using xy by fastforce
  qed simp
  finally show ?thesis .
qed

context field_repr
begin

lemma res_mod [simp]: "res a mod field_p = res a"
  using res_range [of a] by simp

lemma mag_weaken: "mag 1 a \<Longrightarrow> m \<le> 31 \<Longrightarrow> 1 \<le> m \<Longrightarrow> mag m a"
  using mag_mono by blast

lemma negate_add_1:
  assumes "mag 1 a" "mag m b" "m \<le> 29"
  shows "res (fe_add F (fe_negate F a 1) b) = ((- res a) mod field_p + res b) mod field_p \<and>
    mag (2 + m) (fe_add F (fe_negate F a 1) b)"
  using negate [OF assms(1)] add [of 2 "fe_negate F a 1" m b] assms by simp

lemma equal_correct:
  assumes "mag 1 a" "mag m b" "m \<le> 29"
  shows "fe_equal F a b \<longleftrightarrow> res a = res b"
  using negate_add_1 [OF assms] normalizes_to_zero [of "2 + m"]
    field_mod_0_iff [of "res a" "res b"] res_range
  by (simp add: fe_equal_def)

lemma equal_var_correct:
  assumes "mag 1 a" "mag m b" "m \<le> 29"
  shows "fe_equal_var F a b \<longleftrightarrow> res a = res b"
  using negate_add_1 [OF assms] normalizes_to_zero_var [of "2 + m"]
    field_mod_0_iff [of "res a" "res b"] res_range
  by (simp add: fe_equal_var_def)

definition pw :: "'fe \<Rightarrow> nat \<Rightarrow> 'fe \<Rightarrow> bool" where
  "pw a k x \<longleftrightarrow> mag 8 x \<and> res x = res a ^ k mod field_p"

lemma pw_self: "mag 8 a \<Longrightarrow> pw a 1 a"
  by (simp add: pw_def)

lemma pw_mul: "pw a j x \<Longrightarrow> pw a k y \<Longrightarrow> pw a (j + k) (fe_mul F x y) \<and> mag 1 (fe_mul F x y)"
  using mul [of x y] mag_weaken [of "fe_mul F x y" 8]
  by (simp add: pw_def mod_mult_eq power_add)

lemma pw_mul' [pw_intro]: "pw a j x \<Longrightarrow> pw a k y \<Longrightarrow> pw a (j + k) (fe_mul F x y)"
  using pw_mul by blast

lemma pw_sqr [pw_intro]: "pw a k x \<Longrightarrow> pw a (2 * k) (fe_sqr F x)"
  using sqr [of x] mag_weaken [of "fe_sqr F x" 8]
  by (simp add: pw_def mod_mult_eq mult_2 power_add)

lemma pw_sqr_n [pw_intro]: "pw a k x \<Longrightarrow> pw a (2 ^ n * k) (fe_sqr_n F n x)"
proof (induction n arbitrary: x k)
  case (Suc n)
  from Suc.IH [OF pw_sqr [OF Suc.prems]] show ?case
    by (simp add: mult.left_commute mult.assoc)
qed simp

lemma pw_cong: "pw a j x \<Longrightarrow> j = k \<Longrightarrow> pw a k x"
  by simp

lemma pw_step:
  assumes "pw a j x" "pw a k y" "2 ^ n * j + k = l"
  shows "pw a l (fe_mul F (fe_sqr_n F n x) y)"
  using pw_mul' [OF pw_sqr_n [OF assms(1), of n] assms(2)] assms(3) by simp

lemma chain_correct:
  assumes "mag 8 a" "fe_chain F a = (x2, x22, x223)"
  shows "pw a 3 x2" "pw a 0x3FFFFF x22"
    "pw a 0x7fffffffffffffffffffffffffffffffffffffffffffffffffffffff x223"
proof -
  define y2 where "y2 = fe_mul F (fe_sqr F a) a"
  define y3 where "y3 = fe_mul F (fe_sqr F y2) a"
  define y6 where "y6 = fe_mul F (fe_sqr_n F 3 y3) y3"
  define y9 where "y9 = fe_mul F (fe_sqr_n F 3 y6) y3"
  define y11 where "y11 = fe_mul F (fe_sqr_n F 2 y9) y2"
  define y22 where "y22 = fe_mul F (fe_sqr_n F 11 y11) y11"
  define y44 where "y44 = fe_mul F (fe_sqr_n F 22 y22) y22"
  define y88 where "y88 = fe_mul F (fe_sqr_n F 44 y44) y44"
  define y176 where "y176 = fe_mul F (fe_sqr_n F 88 y88) y88"
  define y220 where "y220 = fe_mul F (fe_sqr_n F 44 y176) y44"
  define y223 where "y223 = fe_mul F (fe_sqr_n F 3 y220) y3"
  have eq: "x2 = y2" "x22 = y22" "x223 = y223"
    using assms(2) [unfolded fe_chain_def Let_def, folded y2_def, folded y3_def, folded y6_def, folded y9_def, folded y11_def, folded y22_def, folded y44_def, folded y88_def, folded y176_def, folded y220_def, folded y223_def]
    by simp_all
  note one = pw_self [OF assms(1)]
  have p2: "pw a 3 y2"
    using pw_mul' [OF pw_sqr [OF one] one] by (simp add: y2_def)
  have p3: "pw a 7 y3"
    using pw_mul' [OF pw_sqr [OF p2] one] by (simp add: y3_def)
  have p6: "pw a 0x3f y6"
    unfolding y6_def by (rule pw_step [OF p3 p3]) simp
  have p9: "pw a 0x1ff y9"
    unfolding y9_def by (rule pw_step [OF p6 p3]) simp
  have p11: "pw a 0x7ff y11"
    unfolding y11_def by (rule pw_step [OF p9 p2]) simp
  have p22: "pw a 0x3fffff y22"
    unfolding y22_def by (rule pw_step [OF p11 p11]) simp
  have p44: "pw a 0xfffffffffff y44"
    unfolding y44_def by (rule pw_step [OF p22 p22]) simp
  have p88: "pw a 0xffffffffffffffffffffff y88"
    unfolding y88_def by (rule pw_step [OF p44 p44]) simp
  have p176: "pw a 0xffffffffffffffffffffffffffffffffffffffffffff y176"
    unfolding y176_def by (rule pw_step [OF p88 p88]) simp
  have p220: "pw a 0xfffffffffffffffffffffffffffffffffffffffffffffffffffffff y220"
    unfolding y220_def by (rule pw_step [OF p176 p44]) simp
  have p223: "pw a 0x7fffffffffffffffffffffffffffffffffffffffffffffffffffffff y223"
    unfolding y223_def by (rule pw_step [OF p220 p3]) simp
  show "pw a 3 x2" "pw a 0x3FFFFF x22"
    "pw a 0x7fffffffffffffffffffffffffffffffffffffffffffffffffffffff x223"
    using p2 p22 p223 by (simp_all add: eq)
qed

lemma inv_pow:
  assumes "mag 8 a"
  shows "mag 1 (fe_inv F a) \<and> res (fe_inv F a) = res a ^ nat (field_p - 2) mod field_p"
proof -
  obtain x2 x22 x223 where c: "fe_chain F a = (x2, x22, x223)" by (cases "fe_chain F a")
  note p = chain_correct [OF assms c] pw_self [OF assms]
  define t1 where "t1 = fe_mul F (fe_sqr_n F 23 x223) x22"
  define t2 where "t2 = fe_mul F (fe_sqr_n F 5 t1) a"
  define t3 where "t3 = fe_mul F (fe_sqr_n F 3 t2) x2"
  have t1: "pw a 0x3fffffffffffffffffffffffffffffffffffffffffffffffffffffffbfffff t1" unfolding t1_def by (rule pw_step [OF p(3,2)]) simp
  have t2: "pw a 0x7fffffffffffffffffffffffffffffffffffffffffffffffffffffff7ffffe1 t2" unfolding t2_def by (rule pw_step [OF t1 p(4)]) simp
  have t3: "pw a 0x3fffffffffffffffffffffffffffffffffffffffffffffffffffffffbfffff0b t3" unfolding t3_def by (rule pw_step [OF t2 p(1)]) simp
  have "fe_inv F a = fe_mul F a (fe_sqr_n F 2 t3)"
    by (simp add: fe_inv_def c t1_def t2_def t3_def)
  then show ?thesis
    using pw_mul [OF p(4) pw_sqr_n [OF t3, of 2]] by (simp add: pw_def field_p_def)
qed

lemma sqrt_pow:
  assumes "mag 8 a"
  shows "mag 1 (fst (fe_sqrt F a)) \<and>
    res (fst (fe_sqrt F a)) = res a ^ nat ((field_p + 1) div 4) mod field_p \<and>
    snd (fe_sqrt F a) = fe_equal F (fe_sqr F (fst (fe_sqrt F a))) a"
proof -
  obtain x2 x22 x223 where c: "fe_chain F a = (x2, x22, x223)" by (cases "fe_chain F a")
  note p = chain_correct [OF assms c]
  define t1 where "t1 = fe_mul F (fe_sqr_n F 23 x223) x22"
  define t2 where "t2 = fe_mul F (fe_sqr_n F 6 t1) x2"
  have t1: "pw a 0x3fffffffffffffffffffffffffffffffffffffffffffffffffffffffbfffff t1" unfolding t1_def by (rule pw_step [OF p(3,2)]) simp
  have t2: "pw a 0xfffffffffffffffffffffffffffffffffffffffffffffffffffffffefffffc3 t2" unfolding t2_def by (rule pw_step [OF t1 p(1)]) simp
  have "fst (fe_sqrt F a) = fe_sqr F (fe_sqr F t2)"
    by (simp add: fe_sqrt_def c t1_def t2_def Let_def)
  moreover have "snd (fe_sqrt F a) = fe_equal F (fe_sqr F (fst (fe_sqrt F a))) a"
    by (simp add: fe_sqrt_def c Let_def)
  ultimately show ?thesis
    using pw_sqr [OF pw_sqr [OF t2]] sqr [of "fe_sqr F t2"] pw_sqr [OF t2]
    by (simp add: pw_def field_p_def)
qed

lemma sqrt_flag:
  assumes "mag 8 a"
  shows "snd (fe_sqrt F a) \<longleftrightarrow> (res (fst (fe_sqrt F a)))\<^sup>2 mod field_p = res a"
  using sqrt_pow [OF assms] mag_weaken [of "fst (fe_sqrt F a)" 8] sqr [of "fst (fe_sqrt F a)"]
    equal_correct [of "fe_sqr F (fst (fe_sqrt F a))" 8 a] assms
  by (simp add: power2_eq_square)

lemma inv_correct:
  assumes "mag 8 a" "field_unit (res a)"
  shows "mag 1 (fe_inv F a)" "res (fe_inv F a) * res a mod field_p = 1"
proof -
  have "res (fe_inv F a) * res a mod field_p = res a ^ Suc (nat (field_p - 2)) mod field_p"
    using inv_pow [OF assms(1)] by (simp add: mod_mult_right_eq mult.commute)
  also have "Suc (nat (field_p - 2)) = nat (field_p - 1)" by (simp add: field_p_def)
  finally show "res (fe_inv F a) * res a mod field_p = 1"
    using assms(2) by (simp add: field_unit_def)
qed (use inv_pow [OF assms(1)] in simp)

lemma sqrt_exists:
  assumes "mag 8 a" "field_unit y" "res a = y\<^sup>2 mod field_p"
  shows "snd (fe_sqrt F a)"
proof -
  define k :: nat where "k = nat ((field_p + 1) div 4)"
  have e: "2 * (k * 2) = nat (field_p - 1) + 2" by (simp add: k_def field_p_def)
  have "(res (fst (fe_sqrt F a)))\<^sup>2 mod field_p = (res a ^ k)\<^sup>2 mod field_p"
    using sqrt_pow [OF assms(1)] by (simp add: k_def power_mod)
  also have "\<dots> = y ^ (2 * (k * 2)) mod field_p"
    by (simp add: assms(3) power_mod flip: power_mult)
  also have "\<dots> = (y ^ nat (field_p - 1) mod field_p * y\<^sup>2) mod field_p"
    unfolding e power_add by (simp only: mod_mult_left_eq)
  also have "\<dots> = res a"
    using assms(2,3) by (simp add: field_unit_def)
  finally show ?thesis using sqrt_flag [OF assms(1)] by simp
qed

subsection \<open>Batch inversion\<close>

definition prefix_res :: "'fe list \<Rightarrow> nat \<Rightarrow> int" where
  "prefix_res a i = (\<Prod>k\<le>i. res (a ! k))"

lemma prefix_res_simps:
  "prefix_res a 0 = res (a ! 0)"
  "prefix_res a (Suc i) = prefix_res a i * res (a ! Suc i)"
  by (simp_all add: prefix_res_def)

lemma inv_all_up_correct:
  assumes "\<And>k. k < length a \<Longrightarrow> mag 8 (a ! k)" "length r = length a" "i < length a"
  shows "length (fe_inv_all_up F a i r) = length a \<and>
    (\<forall>j\<le>i. mag 8 (fe_inv_all_up F a i r ! j) \<and>
      res (fe_inv_all_up F a i r ! j) = prefix_res a j mod field_p)"
  using assms(3)
proof (induction i)
  case 0
  then show ?case using assms by (simp add: prefix_res_simps)
next
  case (Suc i)
  let ?r = "fe_inv_all_up F a i r"
  have IH: "length ?r = length a" "mag 8 (?r ! i)" "res (?r ! i) = prefix_res a i mod field_p"
    using Suc by simp_all
  have "mag 8 (fe_mul F (?r ! i) (a ! Suc i)) \<and>
    res (fe_mul F (?r ! i) (a ! Suc i)) = prefix_res a (Suc i) mod field_p"
    using mul [OF IH(2) assms(1) [OF Suc.prems]] mag_weaken IH(3)
    by (simp add: prefix_res_simps mod_mult_left_eq)
  then show ?case
    using Suc IH(1) by (auto simp: Let_def nth_list_update le_Suc_eq)
qed

lemma inv_all_down_correct:
  assumes "\<And>k. k < length a \<Longrightarrow> mag 8 (a ! k)"
  shows "length r = length a \<Longrightarrow> i < length a \<Longrightarrow> mag 1 u \<Longrightarrow>
    (\<And>j. j < i \<Longrightarrow> mag 8 (r ! j) \<and> res (r ! j) = prefix_res a j mod field_p) \<Longrightarrow>
    res u * prefix_res a i mod field_p = 1 \<Longrightarrow>
    length (fe_inv_all_down F a i r u) = length a \<and>
    (\<forall>j>i. fe_inv_all_down F a i r u ! j = r ! j) \<and>
    (\<forall>j\<le>i. mag 1 (fe_inv_all_down F a i r u ! j) \<and>
      res (fe_inv_all_down F a i r u ! j) * res (a ! j) mod field_p = 1)"
proof (induction i arbitrary: r u)
  case 0
  then show ?case by (simp add: prefix_res_simps nth_list_update)
next
  case (Suc i)
  let ?r = "r[Suc i := fe_mul F (r ! i) u]" and ?u = "fe_mul F u (a ! Suc i)"
  note ri = Suc.prems(4) [of i, simplified]
  have u8: "mag 8 u" using Suc.prems(3) mag_weaken by simp
  note mu = mul [OF u8 assms [OF Suc.prems(2)]]
  note mr = mul [OF conjunct1 [OF ri] u8]
  have "res ?u * prefix_res a i mod field_p = res u * prefix_res a (Suc i) mod field_p"
    using mu by (simp add: prefix_res_simps mod_simps ac_simps)
  then have IH: "length (fe_inv_all_down F a i ?r ?u) = length a \<and>
    (\<forall>j>i. fe_inv_all_down F a i ?r ?u ! j = ?r ! j) \<and>
    (\<forall>j\<le>i. mag 1 (fe_inv_all_down F a i ?r ?u ! j) \<and>
      res (fe_inv_all_down F a i ?r ?u ! j) * res (a ! j) mod field_p = 1)"
    using Suc.prems mu by (intro Suc.IH) simp_all
  have "res (fe_mul F (r ! i) u) * res (a ! Suc i) mod field_p
      = res u * prefix_res a (Suc i) mod field_p"
    using mr ri by (simp add: prefix_res_simps mod_simps ac_simps)
  then show ?case using IH mr Suc.prems by (auto simp: le_Suc_eq)
qed

lemma unit_prefix:
  assumes "\<And>k. k \<le> i \<Longrightarrow> field_unit (res (a ! k))"
  shows "field_unit (prefix_res a i)"
  using assms by (induction i) (simp_all add: prefix_res_simps field_unit_mult)

lemma inv_all_var_correct:
  assumes "\<And>k. k < length a \<Longrightarrow> mag 8 (a ! k) \<and> field_unit (res (a ! k))"
    and "length r = length a" "j < length a"
  shows "mag 1 (fe_inv_all_var F r a ! j) \<and>
    res (fe_inv_all_var F r a ! j) * res (a ! j) mod field_p = 1"
proof -
  define i where "i = length a - 1"
  have i: "i < length a" "j \<le> i" using assms(3) by (auto simp: i_def)
  define r1 where "r1 = fe_inv_all_up F a i r"
  have up: "length r1 = length a"
    "\<And>j. j \<le> i \<Longrightarrow> mag 8 (r1 ! j) \<and> res (r1 ! j) = prefix_res a j mod field_p"
    using inv_all_up_correct [of a r i] assms i by (auto simp: r1_def)
  have "field_unit (res (r1 ! i))"
    using unit_prefix [of i a] assms(1) i up by (simp add: field_unit_mod)
  then have u: "mag 1 (fe_inv F (r1 ! i))"
    "res (fe_inv F (r1 ! i)) * prefix_res a i mod field_p = 1"
    using inv_correct [of "r1 ! i"] up(2) [of i] by (simp_all add: mod_mult_right_eq)
  have "fe_inv_all_var F r a = fe_inv_all_down F a i r1 (fe_inv F (r1 ! i))"
    using assms(3) by (auto simp: fe_inv_all_var_def fe_inv_var_def Let_def i_def r1_def)
  then show ?thesis
    using inv_all_down_correct [of a r1 i "fe_inv F (r1 ! i)"] assms(1) up u i by simp
qed

end

end
