(* ===== verification/Scalar.thy ===== *)
theory Scalar
  imports Prelude
begin

text \<open>
  The scalar interface \<^verbatim>\<open>scalar.h\<close>: integers modulo the group order \<open>scalar_n\<close>. This theory
  holds what the two limb representations share: the carry chains of the additive operations,
  the accumulator macros \<^verbatim>\<open>muladd\<close>, \<^verbatim>\<open>muladd_fast\<close>, \<^verbatim>\<open>muladd2\<close>, \<^verbatim>\<open>sumadd\<close>,
  \<^verbatim>\<open>sumadd_fast\<close>, \<^verbatim>\<open>extract\<close> and \<^verbatim>\<open>extract_fast\<close>, whose text is the same in
  \<^verbatim>\<open>scalar_8x32_impl.h\<close> and \<^verbatim>\<open>scalar_4x64_impl.h\<close> up to the width of the words, the record
  \<open>scalar_ops\<close> of the operations and its contract, the locale \<open>scalar_repr\<close>.

  The multiplication and reduction routines are straight-line sequences of macro calls. They are
  modelled as lists of \<open>acc_op\<close>, one element for each call in the order of the source, that
  \<open>acc_run\<close> executes with the macros. One theorem, \<open>acc_run_correct\<close>, gives the
  value of every such sequence: it asks for upper bounds of the operands under which the
  executable check \<open>acc_fits\<close> finds no overflow of the accumulator.
\<close>

section \<open>The group order\<close>

definition scalar_n :: int where
  "scalar_n = 0xFFFFFFFFFFFFFFFFFFFFFFFFFFFFFFFEBAAEDCE6AF48A03BBFD25E8CD0364141"

definition scalar_n_half :: int where
  "scalar_n_half = 0x7FFFFFFFFFFFFFFFFFFFFFFFFFFFFFFF5D576E7357A4501DDFE92F46681B20A0"

section \<open>Carry chains\<close>

text \<open>
  The unrolled sequence \<^verbatim>\<open>t += x; r->d[i] = t & m; t >>= w;\<close> over the limbs, with the
  final carry.
\<close>

fun carry_chain :: "nat \<Rightarrow> 'b::len word \<Rightarrow> 'b word \<Rightarrow> 'b word list \<Rightarrow> 'b word list \<times> 'b word" where
  "carry_chain w m t [] = ([], t)"
| "carry_chain w m t (x # xs) =
    (let t = t + x;
         (r, c) = carry_chain w m (drop_bit w t) xs
     in ((t AND m) # r, c))"

section \<open>The accumulator macros\<close>

type_synonym ('a, 'c) acc = "'a word \<times> 'a word \<times> 'c word"

text \<open>
  The parameter \<open>mw\<close> is the product in the double width, split into its high and low
  halves: \<^verbatim>\<open>t = (uint64_t)a * b; th = t >> 32; tl = t\<close>.
\<close>

definition muladd :: "('a::len word \<Rightarrow> 'a word \<Rightarrow> 'a word \<times> 'a word) \<Rightarrow>
    'a word \<Rightarrow> 'a word \<Rightarrow> ('a, 'c::len) acc \<Rightarrow> ('a, 'c) acc" where
  "muladd mw a b c =
    (let (c0, c1, c2) = c;
         (th, tl) = mw a b;
         c0 = c0 + tl;
         th = th + of_bool (c0 < tl);
         c1 = c1 + th;
         c2 = c2 + of_bool (c1 < th)
     in (c0, c1, c2))"

definition muladd_fast :: "('a::len word \<Rightarrow> 'a word \<Rightarrow> 'a word \<times> 'a word) \<Rightarrow>
    'a word \<Rightarrow> 'a word \<Rightarrow> ('a, 'c::len) acc \<Rightarrow> ('a, 'c) acc" where
  "muladd_fast mw a b c =
    (let (c0, c1, c2) = c;
         (th, tl) = mw a b;
         c0 = c0 + tl;
         th = th + of_bool (c0 < tl);
         c1 = c1 + th
     in (c0, c1, c2))"

definition muladd2 :: "('a::len word \<Rightarrow> 'a word \<Rightarrow> 'a word \<times> 'a word) \<Rightarrow>
    'a word \<Rightarrow> 'a word \<Rightarrow> ('a, 'c::len) acc \<Rightarrow> ('a, 'c) acc" where
  "muladd2 mw a b c =
    (let (c0, c1, c2) = c;
         (th, tl) = mw a b;
         th2 = th + th;
         c2 = c2 + of_bool (th2 < th);
         tl2 = tl + tl;
         th2 = th2 + of_bool (tl2 < tl);
         c0 = c0 + tl2;
         th2 = th2 + of_bool (c0 < tl2);
         c2 = c2 + of_bool (c0 < tl2 \<and> th2 = 0);
         c1 = c1 + th2;
         c2 = c2 + of_bool (c1 < th2)
     in (c0, c1, c2))"

definition sumadd :: "'a::len word \<Rightarrow> ('a, 'c::len) acc \<Rightarrow> ('a, 'c) acc" where
  "sumadd a c =
    (let (c0, c1, c2) = c;
         c0 = c0 + a;
         over = of_bool (c0 < a);
         c1 = c1 + over;
         c2 = c2 + of_bool (c1 < over)
     in (c0, c1, c2))"

definition sumadd_fast :: "'a::len word \<Rightarrow> ('a, 'c::len) acc \<Rightarrow> ('a, 'c) acc" where
  "sumadd_fast a c =
    (let (c0, c1, c2) = c;
         c0 = c0 + a;
         c1 = c1 + of_bool (c0 < a)
     in (c0, c1, c2))"

definition extract_limb :: "('a::len, 'c::len) acc \<Rightarrow> 'a word \<times> ('a, 'c) acc" where
  "extract_limb c = (let (c0, c1, c2) = c in (c0, (c1, ucast c2, 0)))"

definition extract_fast :: "('a::len, 'c::len) acc \<Rightarrow> 'a word \<times> ('a, 'c) acc" where
  "extract_fast c = (let (c0, c1, c2) = c in (c0, (c1, 0, c2)))"

datatype 'x acc_op = Muladd 'x 'x | Muladd_fast 'x 'x | Muladd2 'x 'x
  | Sumadd 'x | Sumadd_fast 'x | Extract | Extract_fast

text \<open>Execution of a sequence of macro calls: the extracted limbs and the accumulator.\<close>

fun acc_run :: "('a::len word \<Rightarrow> 'a word \<Rightarrow> 'a word \<times> 'a word) \<Rightarrow>
    'a word acc_op list \<Rightarrow> ('a, 'c::len) acc \<Rightarrow> 'a word list \<times> ('a, 'c) acc" where
  "acc_run mw [] c = ([], c)"
| "acc_run mw (Muladd a b # ops) c = acc_run mw ops (muladd mw a b c)"
| "acc_run mw (Muladd_fast a b # ops) c = acc_run mw ops (muladd_fast mw a b c)"
| "acc_run mw (Muladd2 a b # ops) c = acc_run mw ops (muladd2 mw a b c)"
| "acc_run mw (Sumadd a # ops) c = acc_run mw ops (sumadd a c)"
| "acc_run mw (Sumadd_fast a # ops) c = acc_run mw ops (sumadd_fast a c)"
| "acc_run mw (Extract # ops) c =
    (let (n, c) = extract_limb c; (l, c) = acc_run mw ops c in (n # l, c))"
| "acc_run mw (Extract_fast # ops) c =
    (let (n, c) = extract_fast c; (l, c) = acc_run mw ops c in (n # l, c))"

subsection \<open>What a sequence adds up, and when it does not overflow\<close>

definition acc_val :: "('a::len, 'c::len) acc \<Rightarrow> int" where
  "acc_val c = (case c of (c0, c1, c2) \<Rightarrow>
    uint c0 + 2 ^ LENGTH('a) * uint c1 + 2 ^ LENGTH('a) * (2 ^ LENGTH('a) * uint c2))"

fun acc_total :: "nat \<Rightarrow> int acc_op list \<Rightarrow> int" where
  "acc_total w [] = 0"
| "acc_total w (Muladd a b # ops) = a * b + acc_total w ops"
| "acc_total w (Muladd_fast a b # ops) = a * b + acc_total w ops"
| "acc_total w (Muladd2 a b # ops) = 2 * (a * b) + acc_total w ops"
| "acc_total w (Sumadd a # ops) = a + acc_total w ops"
| "acc_total w (Sumadd_fast a # ops) = a + acc_total w ops"
| "acc_total w (Extract # ops) = 2 ^ w * acc_total w ops"
| "acc_total w (Extract_fast # ops) = 2 ^ w * acc_total w ops"

text \<open>The operands and the accumulator are bounded by the given numbers.\<close>

fun acc_fits :: "nat \<Rightarrow> nat \<Rightarrow> int acc_op list \<Rightarrow> int \<Rightarrow> bool" where
  "acc_fits w h [] v \<longleftrightarrow> True"
| "acc_fits w h (Muladd a b # ops) v \<longleftrightarrow> v + a * b < 2 ^ (2 * w + h) \<and> acc_fits w h ops (v + a * b)"
| "acc_fits w h (Muladd_fast a b # ops) v \<longleftrightarrow> v + a * b < 2 ^ (2 * w) \<and> acc_fits w h ops (v + a * b)"
| "acc_fits w h (Muladd2 a b # ops) v \<longleftrightarrow>
    v + 2 * (a * b) < 2 ^ (2 * w + h) \<and> acc_fits w h ops (v + 2 * (a * b))"
| "acc_fits w h (Sumadd a # ops) v \<longleftrightarrow> v + a < 2 ^ (2 * w + h) \<and> acc_fits w h ops (v + a)"
| "acc_fits w h (Sumadd_fast a # ops) v \<longleftrightarrow> v + a < 2 ^ (2 * w) \<and> acc_fits w h ops (v + a)"
| "acc_fits w h (Extract # ops) v \<longleftrightarrow> acc_fits w h ops (v div 2 ^ w)"
| "acc_fits w h (Extract_fast # ops) v \<longleftrightarrow> v < 2 ^ (2 * w) \<and> acc_fits w h ops (v div 2 ^ w)"

fun acc_extracts :: "'x acc_op list \<Rightarrow> nat" where
  "acc_extracts [] = 0"
| "acc_extracts (Extract # ops) = Suc (acc_extracts ops)"
| "acc_extracts (Extract_fast # ops) = Suc (acc_extracts ops)"
| "acc_extracts (_ # ops) = acc_extracts ops"

section \<open>Bytes of a limb\<close>

text \<open>
  The expression \<^verbatim>\<open>b[i] | b[i-1] << 8 | b[i-2] << 16 | ...\<close> over \<open>k\<close> bytes, and the bytes of a
  limb from the most significant one, \<^verbatim>\<open>x >> 8*(k-1)\<close> to \<^verbatim>\<open>x\<close>.
\<close>

definition be_word :: "u8 list \<Rightarrow> nat \<Rightarrow> nat \<Rightarrow> 'a::len word" where
  "be_word b i k = fold (\<lambda>j x. x OR push_bit (8 * j) (ucast (b ! (i - j)))) [1..<k] (ucast (b ! i))"

definition word_bytes :: "nat \<Rightarrow> 'a::len word \<Rightarrow> u8 list" where
  "word_bytes k x = map (\<lambda>j. ucast (drop_bit (8 * (k - 1 - j)) x)) [0..<k]"

section \<open>Comparison flags\<close>

text \<open>
  The statements of the constant time comparisons on the pair \<open>(yes, no)\<close>:
  \<^verbatim>\<open>no |= (x < n)\<close>, \<^verbatim>\<open>no |= (x < n) & ~yes\<close>, \<^verbatim>\<open>yes |= (x > n) & ~no\<close> and
  \<^verbatim>\<open>yes |= (x >= n) & ~no\<close>.
\<close>

type_synonym flags = "bool \<times> bool"

definition no_less :: "'a::len word \<Rightarrow> 'a word \<Rightarrow> flags \<Rightarrow> flags" where
  "no_less x n f = (let (yes, no) = f in (yes, no \<or> x < n))"

definition no_less_unless_yes :: "'a::len word \<Rightarrow> 'a word \<Rightarrow> flags \<Rightarrow> flags" where
  "no_less_unless_yes x n f = (let (yes, no) = f in (yes, no \<or> x < n \<and> \<not> yes))"

definition yes_greater :: "'a::len word \<Rightarrow> 'a word \<Rightarrow> flags \<Rightarrow> flags" where
  "yes_greater x n f = (let (yes, no) = f in (yes \<or> n < x \<and> \<not> no, no))"

definition yes_greater_eq :: "'a::len word \<Rightarrow> 'a word \<Rightarrow> flags \<Rightarrow> flags" where
  "yes_greater_eq x n f = (let (yes, no) = f in (yes \<or> n \<le> x \<and> \<not> no, no))"

section \<open>The interface\<close>

text \<open>
  The operations of \<^verbatim>\<open>scalar.h\<close> that depend on the representation. An output pointer is a
  result, together with the returned flag where there is one.
\<close>

record 'sc scalar_ops =
  scalar_clear :: 'sc
  scalar_set_int :: "u32 \<Rightarrow> 'sc"
  scalar_get_bits :: "'sc \<Rightarrow> nat \<Rightarrow> nat \<Rightarrow> u32"
  scalar_get_bits_var :: "'sc \<Rightarrow> nat \<Rightarrow> nat \<Rightarrow> u32"
  scalar_set_b32 :: "u8 list \<Rightarrow> 'sc \<times> int"
  scalar_get_b32 :: "'sc \<Rightarrow> u8 list"
  scalar_add :: "'sc \<Rightarrow> 'sc \<Rightarrow> 'sc \<times> int"
  scalar_cadd_bit :: "'sc \<Rightarrow> nat \<Rightarrow> int \<Rightarrow> 'sc"
  scalar_mul :: "'sc \<Rightarrow> 'sc \<Rightarrow> 'sc"
  scalar_shr_int :: "'sc \<Rightarrow> nat \<Rightarrow> 'sc \<times> int"
  scalar_sqr :: "'sc \<Rightarrow> 'sc"
  scalar_negate :: "'sc \<Rightarrow> 'sc"
  scalar_is_zero :: "'sc \<Rightarrow> bool"
  scalar_is_one :: "'sc \<Rightarrow> bool"
  scalar_is_even :: "'sc \<Rightarrow> bool"
  scalar_is_high :: "'sc \<Rightarrow> bool"
  scalar_cond_negate :: "'sc \<Rightarrow> bool \<Rightarrow> 'sc \<times> int"
  scalar_eq :: "'sc \<Rightarrow> 'sc \<Rightarrow> bool"
  scalar_split_128 :: "'sc \<Rightarrow> 'sc \<times> 'sc"
  scalar_mul_shift_var :: "'sc \<Rightarrow> 'sc \<Rightarrow> nat \<Rightarrow> 'sc"
  scalar_const :: "u32 \<Rightarrow> u32 \<Rightarrow> u32 \<Rightarrow> u32 \<Rightarrow> u32 \<Rightarrow> u32 \<Rightarrow> u32 \<Rightarrow> u32 \<Rightarrow> 'sc"

section \<open>Carry chains add\<close>

lemma carry_chain_correct:
  fixes t :: "'b::len word"
  assumes "w \<le> LENGTH('b)" "\<forall>x \<in> set (take 1 xs). uint t + uint x < 2 ^ LENGTH('b)"
    "\<forall>x \<in> set (tl xs). uint x + 2 ^ (LENGTH('b) - w) \<le> 2 ^ LENGTH('b)"
  shows "limbs_val w (fst (carry_chain w (mask w) t xs)) + 2 ^ (w * length xs) * uint (snd (carry_chain w (mask w) t xs))
      = uint t + limbs_val w xs \<and>
    length (fst (carry_chain w (mask w) t xs)) = length xs \<and>
    (\<forall>x \<in> set (fst (carry_chain w (mask w) t xs)). uint x < 2 ^ w)"
  using assms(2,3)
proof (induction xs arbitrary: t)
  case (Cons x xs)
  let ?t = "drop_bit w (t + x)"
  have tx: "uint (t + x) = uint t + uint x" using Cons.prems(1) by (simp add: uint_add_noov)
  have "\<forall>y \<in> set (take 1 xs). uint ?t + uint y < 2 ^ LENGTH('b)"
    using Cons.prems(2) uint_drop_bit_less [OF assms(1), of "t + x"]
    by (cases xs) (auto simp: add.commute)
  moreover have "\<forall>y \<in> set (tl xs). uint y + 2 ^ (LENGTH('b) - w) \<le> 2 ^ LENGTH('b)"
    using Cons.prems(2) by (cases xs) auto
  ultimately have IH: "limbs_val w (fst (carry_chain w (mask w) ?t xs))
      + 2 ^ (w * length xs) * uint (snd (carry_chain w (mask w) ?t xs)) = uint ?t + limbs_val w xs"
    "length (fst (carry_chain w (mask w) ?t xs)) = length xs"
    "\<forall>x \<in> set (fst (carry_chain w (mask w) ?t xs)). uint x < 2 ^ w"
    using Cons.IH [of ?t] by simp_all
  have "limbs_val w (fst (carry_chain w (mask w) t (x # xs)))
      + 2 ^ (w * length (x # xs)) * uint (snd (carry_chain w (mask w) t (x # xs)))
      = uint (t + x) mod 2 ^ w + 2 ^ w * (limbs_val w (fst (carry_chain w (mask w) ?t xs))
        + 2 ^ (w * length xs) * uint (snd (carry_chain w (mask w) ?t xs)))"
    by (simp add: Let_def case_prod_beta uint_and_mask power_add distrib_left)
  also have "\<dots> = (uint (t + x) mod 2 ^ w + 2 ^ w * (uint (t + x) div 2 ^ w)) + 2 ^ w * limbs_val w xs"
    by (simp only: IH(1) uint_drop_bit distrib_left)
  also have "\<dots> = uint t + limbs_val w (x # xs)" by (simp add: tx)
  finally show ?case using IH(2,3) by (simp add: Let_def case_prod_beta uint_and_mask)
qed simp

section \<open>The macros\<close>

lemma word_add_carry:
  "uint x + uint y = uint (x + y) + 2 ^ LENGTH('a) * of_bool (x + y < y)" for x y :: "'a::len word"
proof (cases "uint x + uint y < 2 ^ LENGTH('a)")
  case True
  then show ?thesis by (simp add: uint_add_noov word_less_def)
next
  case False
  have b: "uint x < 2 ^ LENGTH('a)" "uint y < 2 ^ LENGTH('a)" by simp_all
  have "uint (x + y) = (uint x + uint y) mod 2 ^ LENGTH('a)" by (simp add: uint_word_ariths)
  also have "\<dots> = (uint x + uint y - 2 ^ LENGTH('a)) mod 2 ^ LENGTH('a)" by simp
  also have "\<dots> = uint x + uint y - 2 ^ LENGTH('a)" 
    using b False by (intro mod_pos_pos_trivial) linarith+
  finally show ?thesis using b by (simp add: word_less_def)
qed

lemma word_less_one: "x < 1 \<longleftrightarrow> x = 0" for x :: "'a::len word"
  by (simp add: word_less_nat_alt unat_eq_zero)

lemma word_inc_carry:
  "uint x + of_bool k = uint (x + of_bool k) + 2 ^ LENGTH('a) * of_bool (k \<and> x + of_bool k = 0)"
  for x :: "'a::len word"
  using word_add_carry [of x 1] by (cases k) (simp_all add: word_less_one)

lemma uint_add_of_bool: "uint x + of_bool k < 2 ^ LENGTH('a) \<Longrightarrow> uint (x + of_bool k) = uint x + of_bool k"
  for x :: "'a::len word"
  by (cases k) (simp_all add: uint_add_noov)

lemma acc_val_eq: "acc_val (c0, c1, c2)
    = uint c0 + 2 ^ LENGTH('a) * uint c1 + 2 ^ LENGTH('a) * (2 ^ LENGTH('a) * uint c2)"
  for c0 c1 :: "'a::len word"
  by (simp add: acc_val_def)

lemma acc_val_nonneg [simp]: "0 \<le> acc_val c"
  by (cases c) (simp add: acc_val_eq)

lemma power_3_mult: "2 ^ (2 * n + h) = 2 ^ n * (2 ^ n * 2 ^ h :: int)"
  by (simp flip: power_add)

lemma power_2_mult: "2 ^ (2 * n) = 2 ^ n * (2 ^ n :: int)"
  by (simp flip: power_add)

lemma acc_top_less:
  fixes W H x v r :: int
  assumes "v = r + W * (W * x)" "0 \<le> r" "v < W * (W * H)" "0 < W"
  shows "x < H"
proof -
  have "W * (W * x) < W * (W * H)" using assms by linarith
  then show ?thesis using assms(4) by (simp add: mult_less_cancel_left_pos)
qed

text \<open>
  The steps common to the macros: adding the two limbs \<open>tl\<close> and \<open>th\<close>, where the carry
  out of \<open>c0\<close> goes through \<open>th\<close>. The carries into the third limb are exact.
\<close>

lemma acc_add_eq:
  fixes c0 c1 tl th :: "'a::len word"
  defines "k0 \<equiv> c0 + tl < tl"
  defines "th' \<equiv> th + of_bool k0"
  shows "uint c0 + 2 ^ LENGTH('a) * uint c1 + (uint tl + 2 ^ LENGTH('a) * uint th)
    = uint (c0 + tl) + 2 ^ LENGTH('a) * uint (c1 + th')
      + 2 ^ LENGTH('a) * (2 ^ LENGTH('a) * (of_bool (k0 \<and> th' = 0) + of_bool (c1 + th' < th')))"
proof -
  let ?W = "2 ^ LENGTH('a) :: int"
  have e: "uint c0 + uint tl = uint (c0 + tl) + ?W * of_bool k0"
    "uint th + of_bool k0 = uint th' + ?W * of_bool (k0 \<and> th' = 0)"
    "uint c1 + uint th' = uint (c1 + th') + ?W * of_bool (c1 + th' < th')"
    unfolding k0_def th'_def by (rule word_add_carry word_inc_carry)+
  have "uint c0 + ?W * uint c1 + (uint tl + ?W * uint th)
      = (uint c0 + uint tl) + ?W * (uint c1 + uint th)" by (simp add: distrib_left)
  also have "\<dots> = uint (c0 + tl) + ?W * (uint c1 + (uint th + of_bool k0))"
    by (simp only: e distrib_left add.assoc add.left_commute add.commute)
  also have "\<dots> = uint (c0 + tl) + ?W * ((uint c1 + uint th') + ?W * of_bool (k0 \<and> th' = 0))"
    by (simp only: e(2) add.assoc)
  finally show ?thesis
    by (simp only: e(3) distrib_left add.assoc add.left_commute add.commute)
qed

lemma acc_add3:
  fixes c0 c1 tl th :: "'a::len word" and c2 :: "'c::len word"
  defines "th' \<equiv> th + of_bool (c0 + tl < tl)"
  assumes "uint th + 1 < 2 ^ LENGTH('a)"
    "acc_val (c0, c1, c2) + (uint tl + 2 ^ LENGTH('a) * uint th) < 2 ^ (2 * LENGTH('a) + LENGTH('c))"
  shows "acc_val (c0 + tl, c1 + th', c2 + of_bool (c1 + th' < th'))
    = acc_val (c0, c1, c2) + (uint tl + 2 ^ LENGTH('a) * uint th)"
proof -
  let ?W = "2 ^ LENGTH('a) :: int"
  have "uint th' = uint th + of_bool (c0 + tl < tl)"
    unfolding th'_def by (rule uint_add_of_bool) (use assms(2) in \<open>cases "c0 + tl < tl"; simp\<close>)
  then have "uint th + 1 = 0" if "c0 + tl < tl \<and> th' = 0" using that by simp
  moreover have "uint th + 1 \<noteq> 0" using uint_nonnegative [of th] by linarith
  ultimately have "\<not> (c0 + tl < tl \<and> th' = 0)" by blast
  then have e: "acc_val (c0, c1, c2) + (uint tl + ?W * uint th)
      = (uint (c0 + tl) + ?W * uint (c1 + th')) + ?W * (?W * (uint c2 + of_bool (c1 + th' < th')))"
    using acc_add_eq [of c0 c1 tl th] unfolding acc_val_eq th'_def [symmetric]
    by (simp only: distrib_left of_bool_eq mult_zero_right add_0_left ac_simps)
  have "uint c2 + of_bool (c1 + th' < th') < 2 ^ LENGTH('c)"
    by (rule acc_top_less [OF e]) (use assms(3) in \<open>simp_all add: power_3_mult\<close>)
  then show ?thesis using e by (simp only: acc_val_eq uint_add_of_bool)
qed

lemma acc_c2_0: "acc_val (c0, c1, c2) < 2 ^ (2 * LENGTH('a)) \<Longrightarrow> c2 = 0"
  for c0 c1 :: "'a::len word" and c2 :: "'c::len word"
proof (rule ccontr)
  let ?W = "2 ^ LENGTH('a) :: int"
  assume a: "acc_val (c0, c1, c2) < 2 ^ (2 * LENGTH('a))" and "c2 \<noteq> 0"
  then have "uint c2 \<noteq> 0" by (simp add: uint_0_iff)
  then have "1 \<le> uint c2" using uint_nonnegative [of c2] by linarith
  then have "?W * (?W * 1) \<le> ?W * (?W * uint c2)" by (intro mult_left_mono) simp_all
  moreover have "0 \<le> uint c0 + ?W * uint c1" by simp
  ultimately show False using a unfolding acc_val_eq power_2_mult by linarith
qed

lemma acc_add2:
  fixes c0 c1 tl th :: "'a::len word" and c2 :: "'c::len word"
  defines "th' \<equiv> th + of_bool (c0 + tl < tl)"
  assumes "uint th + 1 < 2 ^ LENGTH('a)"
    "acc_val (c0, c1, c2) + (uint tl + 2 ^ LENGTH('a) * uint th) < 2 ^ (2 * LENGTH('a))"
  shows "acc_val (c0 + tl, c1 + th', c2) = acc_val (c0, c1, c2) + (uint tl + 2 ^ LENGTH('a) * uint th)"
proof -
  have "(2 :: int) ^ (2 * LENGTH('a)) \<le> 2 ^ (2 * LENGTH('a) + LENGTH('c))" by (intro power_increasing) simp_all
  then have e: "acc_val (c0 + tl, c1 + th', c2 + of_bool (c1 + th' < th'))
      = acc_val (c0, c1, c2) + (uint tl + 2 ^ LENGTH('a) * uint th)"
    unfolding th'_def using assms(2,3) by (intro acc_add3) linarith+
  have "0 \<le> uint tl + 2 ^ LENGTH('a) * uint th" by simp
  then have "acc_val (c0, c1, c2) < 2 ^ (2 * LENGTH('a))" using assms(3) by linarith
  then have "c2 = 0" by (rule acc_c2_0)
  moreover have "c2 + of_bool (c1 + th' < th') = 0"
    using assms(3) by (intro acc_c2_0 [of "c0 + tl" "c1 + th'"]) (simp only: e)
  ultimately show ?thesis using e by simp
qed

lemma sumadd_val:
  "acc_val c + uint a < 2 ^ (2 * LENGTH('a) + LENGTH('c)) \<Longrightarrow> acc_val (sumadd a c) = acc_val c + uint a"
  for a :: "'a::len word" and c :: "('a, 'c::len) acc"
  using acc_add3 [of 0 "fst c" "fst (snd c)" "snd (snd c)" a]
  by (simp add: sumadd_def Let_def case_prod_beta del: word_less_1)

lemma sumadd_fast_val:
  "acc_val c + uint a < 2 ^ (2 * LENGTH('a)) \<Longrightarrow> acc_val (sumadd_fast a c) = acc_val c + uint a"
  for a :: "'a::len word"
  using acc_add2 [of 0 "fst c" "fst (snd c)" "snd (snd c)" a]
  by (simp add: sumadd_fast_def Let_def case_prod_beta)

lemma extract_limb_val:
  "acc_val c = uint (fst (extract_limb c)) + 2 ^ LENGTH('a) * acc_val (snd (extract_limb c))"
  if "LENGTH('c) \<le> LENGTH('a)" for c :: "('a::len, 'c::len) acc"
  using that by (cases c) (simp add: extract_limb_def acc_val_eq uint_ucast_up distrib_left)

lemma extract_fast_val:
  "acc_val c < 2 ^ (2 * LENGTH('a)) \<Longrightarrow>
    acc_val c = uint (fst (extract_fast c)) + 2 ^ LENGTH('a) * acc_val (snd (extract_fast c))"
  for c :: "('a::len, 'c::len) acc"
  using acc_c2_0 [of "fst c" "fst (snd c)" "snd (snd c)"]
  by (cases c) (simp add: extract_fast_def acc_val_eq)

section \<open>Sequences of macro calls\<close>

locale wide_mul =
  fixes mw :: "'a::len word \<Rightarrow> 'a word \<Rightarrow> 'a word \<times> 'a word"
  assumes wide: "uint (snd (mw a b)) + 2 ^ LENGTH('a) * uint (fst (mw a b)) = uint a * uint b"
begin

lemma wide_high: "uint (fst (mw a b)) + 1 < 2 ^ LENGTH('a)"
proof (rule ccontr)
  let ?W = "2 ^ LENGTH('a) :: int"
  assume "\<not> ?thesis"
  then have "?W * (?W - 1) \<le> ?W * uint (fst (mw a b))" by (intro mult_left_mono) simp_all
  moreover have "uint a * uint b \<le> (?W - 1) * (?W - 1)"
    using uint_bounded [of a] uint_bounded [of b] by (intro mult_mono) simp_all
  ultimately have "?W * (?W - 1) \<le> (?W - 1) * (?W - 1)"
    using wide [of a b] uint_nonnegative [of "snd (mw a b)"] by linarith
  then have "?W - 1 \<le> 0" by (simp add: mult_le_cancel_right)
  moreover have "1 < ?W" by (rule one_less_power) simp_all
  ultimately show False by linarith
qed

lemma muladd_val:
  "acc_val c + uint a * uint b < 2 ^ (2 * LENGTH('a) + LENGTH('c)) \<Longrightarrow>
    acc_val (muladd mw a b c) = acc_val c + uint a * uint b" for c :: "('a, 'c::len) acc"
  using acc_add3 [OF wide_high [of a b], of "fst c" "fst (snd c)" "snd (snd c)" "snd (mw a b)"]
    wide [of a b]
  by (simp only: muladd_def Let_def case_prod_beta prod.collapse)

lemma muladd_fast_val:
  "acc_val c + uint a * uint b < 2 ^ (2 * LENGTH('a)) \<Longrightarrow>
    acc_val (muladd_fast mw a b c) = acc_val c + uint a * uint b"
  using acc_add2 [OF wide_high [of a b], of "fst c" "fst (snd c)" "snd (snd c)" "snd (mw a b)"]
    wide [of a b]
  by (simp only: muladd_fast_def Let_def case_prod_beta prod.collapse)

lemma muladd2_val:
  fixes c :: "('a, 'c::len) acc"
  assumes "acc_val c + 2 * (uint a * uint b) < 2 ^ (2 * LENGTH('a) + LENGTH('c))"
  shows "acc_val (muladd2 mw a b c) = acc_val c + 2 * (uint a * uint b)"
proof -
  let ?W = "2 ^ LENGTH('a) :: int"
  obtain c0 c1 c2 where c: "c = (c0, c1, c2)" by (cases c)
  obtain th tl where m: "mw a b = (th, tl)" by (cases "mw a b")
  define th2 where "th2 = th + th"
  define tl2 where "tl2 = tl + tl"
  define th3 where "th3 = th2 + of_bool (tl2 < tl)"
  define th4 where "th4 = th3 + of_bool (c0 + tl2 < tl2)"
  define x1 :: int where "x1 = of_bool (th2 < th)"
  define x2 :: int where "x2 = of_bool (c0 + tl2 < tl2 \<and> th4 = 0)"
  define x3 :: int where "x3 = of_bool (c1 + th4 < th4)"
  have e1: "uint th + uint th = uint th2 + ?W * x1" unfolding th2_def x1_def by (rule word_add_carry)
  have e2: "uint tl + uint tl = uint tl2 + ?W * of_bool (tl2 < tl)"
    unfolding tl2_def by (rule word_add_carry)
  have "even (uint th2)"
  proof -
    have "even (uint th2 + ?W * x1)" unfolding e1 [symmetric] by simp
    then show ?thesis by simp
  qed
  moreover have "odd (?W - 1)" by simp
  ultimately have "uint th2 \<noteq> ?W - 1" by metis
  then have "uint th2 + 1 < ?W" using uint_bounded [of th2] by linarith
  then have e3: "uint th3 = uint th2 + of_bool (tl2 < tl)"
    unfolding th3_def by (intro uint_add_of_bool) (cases "tl2 < tl"; simp)
  have e4: "uint c0 + ?W * uint c1 + (uint tl2 + ?W * uint th3)
      = uint (c0 + tl2) + ?W * uint (c1 + th4) + ?W * (?W * (x2 + x3))"
    unfolding th4_def x2_def x3_def by (rule acc_add_eq)
  have "2 * (uint a * uint b) = (uint tl + uint tl) + ?W * (uint th + uint th)"
    using wide [of a b] by (simp add: m distrib_left flip: mult_2)
  also have "\<dots> = uint tl2 + ?W * uint th3 + ?W * (?W * x1)"
    by (simp only: e1 e2 e3 distrib_left add.assoc add.left_commute)
  finally have t: "acc_val c + 2 * (uint a * uint b)
      = (uint (c0 + tl2) + ?W * uint (c1 + th4)) + ?W * (?W * (uint c2 + x1 + x2 + x3))"
    using e4 unfolding c acc_val_eq distrib_left by linarith
  have lt: "uint c2 + x1 + x2 + x3 < 2 ^ LENGTH('c)"
    by (rule acc_top_less [OF t]) (use assms in \<open>simp_all add: power_3_mult\<close>)
  have pos: "0 \<le> x1" "0 \<le> x2" "0 \<le> x3" by (simp_all add: x1_def x2_def x3_def)
  have "uint (c2 + of_bool (th2 < th)) = uint c2 + x1"
    unfolding x1_def by (rule uint_add_of_bool) (use lt pos in \<open>simp add: x1_def\<close>)
  then have "uint (c2 + of_bool (th2 < th) + of_bool (c0 + tl2 < tl2 \<and> th4 = 0)) = uint c2 + x1 + x2"
    using uint_add_of_bool [of "c2 + of_bool (th2 < th)" "c0 + tl2 < tl2 \<and> th4 = 0"] lt pos
    by (simp only: x2_def)
  then have "uint (c2 + of_bool (th2 < th) + of_bool (c0 + tl2 < tl2 \<and> th4 = 0)
      + of_bool (c1 + th4 < th4)) = uint c2 + x1 + x2 + x3"
    using uint_add_of_bool [of "c2 + of_bool (th2 < th) + of_bool (c0 + tl2 < tl2 \<and> th4 = 0)"
        "c1 + th4 < th4"] lt by (simp only: x3_def)
  moreover have "muladd2 mw a b c = (c0 + tl2, c1 + th4,
      c2 + of_bool (th2 < th) + of_bool (c0 + tl2 < tl2 \<and> th4 = 0) + of_bool (c1 + th4 < th4))"
    by (simp only: muladd2_def c m Let_def prod.case th2_def tl2_def th3_def th4_def)
  ultimately show ?thesis by (simp only: t acc_val_eq)
qed

text \<open>
  The value of a sequence of macro calls. The bounds \<open>bops\<close> are a copy of the sequence with an
  upper bound in place of each operand, and \<open>v\<close> bounds the accumulator at the start.
\<close>

lemma mult_bounds: "uint (x :: 'a word) \<le> p \<Longrightarrow> uint (y :: 'a word) \<le> q \<Longrightarrow> uint x * uint y \<le> p * q"
  using order_trans [OF uint_nonnegative] by (intro mult_mono) auto

lemma acc_step_bound:
  assumes "acc_val c \<le> v" "x \<le> y" "v + y < m" "acc_val c + x < m \<Longrightarrow> acc_val d = acc_val c + x"
  shows "acc_val d = acc_val c + x" "acc_val d \<le> v + y"
  using assms by linarith+

lemma radix_step: "x + p * y = c + t \<Longrightarrow> n + w * x + w * p * y = n + w * c + w * t"
  for n w x p y c t :: int
  by (metis add.assoc distrib_left mult.assoc)

lemma acc_extract_bound:
  "acc_val (c :: ('a, 'c::len) acc) = uint (n :: 'a word) + 2 ^ LENGTH('a) * acc_val (d :: ('a, 'c) acc) \<Longrightarrow> acc_val c \<le> v \<Longrightarrow>
    acc_val d \<le> v div 2 ^ LENGTH('a)"
  using zdiv_mono1 [of "acc_val c" v "2 ^ LENGTH('a)"] by simp

lemma acc_run_correct:
  fixes c :: "('a, 'c::len) acc"
  assumes "list_all2 (rel_acc_op (\<lambda>x b. uint x \<le> b)) ops bops" "acc_val c \<le> v"
    "acc_fits LENGTH('a) LENGTH('c) bops v" "LENGTH('c) \<le> LENGTH('a)"
  shows "length (fst (acc_run mw ops c)) = acc_extracts ops \<and>
    limbs_val LENGTH('a) (fst (acc_run mw ops c))
      + 2 ^ (LENGTH('a) * acc_extracts ops) * acc_val (snd (acc_run mw ops c))
      = acc_val c + acc_total LENGTH('a) (map (map_acc_op uint) ops)"
  using assms(1-3)
proof (induction ops bops arbitrary: c v rule: list_all2_induct)
  case (Cons op ops bop bops)
  show ?case
  proof (cases op)
    case (Muladd a b)
    then obtain p q where bop: "bop = Muladd p q" and le: "uint a \<le> p" "uint b \<le> q"
      using Cons.hyps(1) by (cases bop) auto
    have f: "v + p * q < 2 ^ (2 * LENGTH('a) + LENGTH('c))" "acc_fits LENGTH('a) LENGTH('c) bops (v + p * q)"
      using Cons.prems(2) by (simp_all add: bop)
    note st = acc_step_bound [OF Cons.prems(1) mult_bounds [OF le] f(1) muladd_val]
    show ?thesis using Cons.IH [OF st(2) f(2)] st(1) by (simp add: Muladd)
  next
    case (Muladd_fast a b)
    then obtain p q where bop: "bop = Muladd_fast p q" and le: "uint a \<le> p" "uint b \<le> q"
      using Cons.hyps(1) by (cases bop) auto
    have f: "v + p * q < 2 ^ (2 * LENGTH('a))" "acc_fits LENGTH('a) LENGTH('c) bops (v + p * q)"
      using Cons.prems(2) by (simp_all add: bop)
    note st = acc_step_bound [OF Cons.prems(1) mult_bounds [OF le] f(1) muladd_fast_val]
    show ?thesis using Cons.IH [OF st(2) f(2)] st(1) by (simp add: Muladd_fast)
  next
    case (Muladd2 a b)
    then obtain p q where bop: "bop = Muladd2 p q" and le: "uint a \<le> p" "uint b \<le> q"
      using Cons.hyps(1) by (cases bop) auto
    have f: "v + 2 * (p * q) < 2 ^ (2 * LENGTH('a) + LENGTH('c))" "acc_fits LENGTH('a) LENGTH('c) bops (v + 2 * (p * q))"
      using Cons.prems(2) by (simp_all add: bop)
    have "2 * (uint a * uint b) \<le> 2 * (p * q)" using mult_bounds [OF le] by simp
    note st = acc_step_bound [OF Cons.prems(1) this f(1) muladd2_val]
    show ?thesis using Cons.IH [OF st(2) f(2)] st(1) by (simp add: Muladd2)
  next
    case (Sumadd a)
    then obtain p where bop: "bop = Sumadd p" and le: "uint a \<le> p"
      using Cons.hyps(1) by (cases bop) auto
    have f: "v + p < 2 ^ (2 * LENGTH('a) + LENGTH('c))" "acc_fits LENGTH('a) LENGTH('c) bops (v + p)"
      using Cons.prems(2) by (simp_all add: bop)
    note st = acc_step_bound [OF Cons.prems(1) le f(1) sumadd_val]
    show ?thesis using Cons.IH [OF st(2) f(2)] st(1) by (simp add: Sumadd)
  next
    case (Sumadd_fast a)
    then obtain p where bop: "bop = Sumadd_fast p" and le: "uint a \<le> p"
      using Cons.hyps(1) by (cases bop) auto
    have f: "v + p < 2 ^ (2 * LENGTH('a))" "acc_fits LENGTH('a) LENGTH('c) bops (v + p)"
      using Cons.prems(2) by (simp_all add: bop)
    note st = acc_step_bound [OF Cons.prems(1) le f(1) sumadd_fast_val]
    show ?thesis using Cons.IH [OF st(2) f(2)] st(1) by (simp add: Sumadd_fast)
  next
    case Extract
    then have bop: "bop = Extract" using Cons.hyps(1) by (cases bop) auto
    note e = extract_limb_val [OF assms(4), of c]
    have IH: "acc_fits LENGTH('a) LENGTH('c) bops (v div 2 ^ LENGTH('a))" using Cons.prems(2) by (simp add: bop)
    note IH = Cons.IH [OF acc_extract_bound [OF e Cons.prems(1)] IH]
    show ?thesis
      using IH radix_step [OF conjunct2 [OF IH], of "uint (fst (extract_limb c))" "2 ^ LENGTH('a)"]
      by (simp add: Extract Let_def case_prod_beta e power_add)
  next
    case Extract_fast
    then have bop: "bop = Extract_fast" using Cons.hyps(1) by (cases bop) auto
    have "acc_val c < 2 ^ (2 * LENGTH('a))" using Cons.prems by (simp add: bop)
    note e = extract_fast_val [OF this]
    have IH: "acc_fits LENGTH('a) LENGTH('c) bops (v div 2 ^ LENGTH('a))" using Cons.prems(2) by (simp add: bop)
    note IH = Cons.IH [OF acc_extract_bound [OF e Cons.prems(1)] IH]
    show ?thesis
      using IH radix_step [OF conjunct2 [OF IH], of "uint (fst (extract_fast c))" "2 ^ LENGTH('a)"]
      by (simp add: Extract_fast Let_def case_prod_beta e power_add)
  qed
qed simp

end

section \<open>Limb vectors of full words\<close>

text \<open>
  In the scalar code the limbs fill their words, so that the limb vector of \<open>k\<close> words stands for
  any number below \<open>2 ^ (w * k)\<close>. The sums are computed in words \<open>'b\<close> of twice the width.
\<close>

lemma len8_cases: "length d = 8 \<Longrightarrow> \<exists>d0 d1 d2 d3 d4 d5 d6 d7. d = [d0, d1, d2, d3, d4, d5, d6, d7]"
  by (auto simp: length_Suc_conv numeral_eq_Suc)

lemma limbs_val_full_less: "limbs_val LENGTH('a) xs < 2 ^ (LENGTH('a) * length xs)"
  for xs :: "'a::len word list"
  by (rule limbs_val_less) simp

lemma limbs_val_ucast_up:
  "LENGTH('a) \<le> LENGTH('b) \<Longrightarrow> limbs_val w (map ucast xs :: 'b::len word list) = limbs_val w xs"
  for xs :: "'a::len word list"
  by (induction xs) (simp_all add: uint_ucast_up)

lemma limbs_val_ucast_down:
  "\<forall>x \<in> set xs. uint x < 2 ^ LENGTH('b) \<Longrightarrow> limbs_val w (map ucast xs :: 'b::len word list) = limbs_val w xs"
  for xs :: "'a::len word list"
  by (induction xs) (simp_all add: uint_ucast)

lemma limbs_val_map2:
  "length xs = length ys \<Longrightarrow> (\<And>x y. uint (f x y) = uint x + uint y) \<Longrightarrow>
    limbs_val w (map2 f xs ys) = limbs_val w xs + limbs_val w ys"
  by (induction xs ys rule: list_induct2) (simp_all add: distrib_left)

lemma uint_not: "uint (NOT x) = 2 ^ LENGTH('a) - 1 - uint x" for x :: "'a::len word"
proof -
  have "NOT x = mask LENGTH('a) - x" by (simp add: minus_1_eq_mask [symmetric] not_eq_complement)
  moreover have m: "uint (mask LENGTH('a) :: 'a word) = 2 ^ LENGTH('a) - 1"
    by (simp add: minus_1_eq_mask [symmetric] unsigned_minus_1_eq_mask mask_eq_exp_minus_1)
  moreover have "uint x \<le> uint (mask LENGTH('a) :: 'a word)" unfolding m using uint_bounded [of x] by simp
  ultimately show ?thesis by (simp add: uint_diff_noov)
qed

lemma limbs_val_not: "limbs_val LENGTH('a) (map NOT xs) = 2 ^ (LENGTH('a) * length xs) - 1 - limbs_val LENGTH('a) xs"
  for xs :: "'a::len word list"
proof (induction xs)
  case (Cons x xs)
  then show ?case by (simp add: uint_not power_add right_diff_distrib)
qed simp

lemma carry_chain_limbs:
  fixes xs :: "'b::len word list"
  assumes "LENGTH('b) = 2 * LENGTH('a)" "\<forall>x \<in> set xs. uint x + 2 ^ LENGTH('a) \<le> 2 ^ LENGTH('b)"
    and r: "carry_chain LENGTH('a) (mask LENGTH('a)) 0 xs = (r, c)"
  shows "limbs_val LENGTH('a) (map ucast r :: 'a::len word list) + 2 ^ (LENGTH('a) * length xs) * uint c
      = limbs_val LENGTH('a) xs" "length r = length xs"
proof -
  have "\<forall>x \<in> set (take 1 xs). uint (0 :: 'b word) + uint x < 2 ^ LENGTH('b)" by simp
  moreover have "\<forall>x \<in> set (tl xs). uint x + 2 ^ (LENGTH('b) - LENGTH('a)) \<le> 2 ^ LENGTH('b)"
    using assms(1,2) by (cases xs) (auto simp: mult_2)
  ultimately have *: "limbs_val LENGTH('a) r + 2 ^ (LENGTH('a) * length xs) * uint c = limbs_val LENGTH('a) xs"
    "length r = length xs" "\<forall>x \<in> set r. uint x < 2 ^ LENGTH('a)"
    using carry_chain_correct [of "LENGTH('a)" xs 0] assms(1) r by simp_all
  then show "limbs_val LENGTH('a) (map ucast r :: 'a word list) + 2 ^ (LENGTH('a) * length xs) * uint c
      = limbs_val LENGTH('a) xs" "length r = length xs"
    by (simp_all add: limbs_val_ucast_down)
qed

lemma carry_chain_zero: "fst (carry_chain w 0 t xs) = replicate (length xs) 0"
  by (induction xs arbitrary: t) (simp_all add: Let_def case_prod_beta)

lemma uint_ucast_add:
  "LENGTH('b) = 2 * LENGTH('a) \<Longrightarrow> uint (ucast x + ucast y :: 'b::len word) = uint x + uint y"
  for x y :: "'a::len word"
proof -
  assume b: "LENGTH('b) = 2 * LENGTH('a)"
  have "uint x + uint y < 2 ^ LENGTH('a) + 2 ^ LENGTH('a)"
    using uint_bounded [of x] uint_bounded [of y] by linarith
  also have "\<dots> = 2 ^ (LENGTH('a) + 1)" by simp
  also have "\<dots> \<le> 2 ^ LENGTH('b)" using b by (intro power_increasing) (simp_all add: Suc_le_eq)
  finally show ?thesis using b by (simp add: uint_add_noov uint_ucast_up)
qed

lemma limbs_add_chain:
  fixes xs ys :: "'a::len word list"
  assumes "LENGTH('b::len) = 2 * LENGTH('a)" "length xs = length ys"
    and c: "carry_chain LENGTH('a) (mask LENGTH('a)) 0 (map2 (\<lambda>x y. ucast x + ucast y :: 'b word) xs ys) = (r, t)"
  shows "limbs_val LENGTH('a) (map ucast r :: 'a word list) + 2 ^ (LENGTH('a) * length xs) * uint t
      = limbs_val LENGTH('a) xs + limbs_val LENGTH('a) ys" "length r = length xs"
proof -
  let ?W = "2 ^ LENGTH('a) :: int"
  have u: "uint (ucast x + ucast y :: 'b word) = uint x + uint y" for x y :: "'a word"
    by (rule uint_ucast_add [OF assms(1)])
  have "uint x + uint y + ?W \<le> 2 ^ LENGTH('b)" for x y :: "'a word"
  proof -
    have "0 \<le> (?W - 1) * (?W - 2)"
      using one_less_power [of "2 :: int" "LENGTH('a)"] by (intro mult_nonneg_nonneg) simp_all
    then have "3 * ?W - 2 \<le> ?W * ?W" by (simp add: algebra_simps)
    moreover have "(2 :: int) ^ LENGTH('b) = ?W * ?W" by (simp add: assms(1) mult_2 power_add)
    ultimately show ?thesis using uint_bounded [of x] uint_bounded [of y] by linarith
  qed
  then have "\<forall>z \<in> set (map2 (\<lambda>x y. ucast x + ucast y :: 'b word) xs ys). uint z + ?W \<le> 2 ^ LENGTH('b)"
    by (auto simp: u)
  from carry_chain_limbs [OF assms(1) this c]
  show "limbs_val LENGTH('a) (map ucast r :: 'a word list) + 2 ^ (LENGTH('a) * length xs) * uint t
      = limbs_val LENGTH('a) xs + limbs_val LENGTH('a) ys" "length r = length xs"
    using assms(2) by (simp_all add: limbs_val_map2 [OF assms(2) u])
qed

lemma mod_of_sum: "r + m * t = x \<Longrightarrow> 0 \<le> r \<Longrightarrow> r < m \<Longrightarrow> r = x mod m" for r m t x :: int
  by auto

lemma map2_map2: "map2 f xs (map g ys) = map2 (\<lambda>x y. f x (g y)) xs ys"
  by (induction xs ys rule: list_induct2') simp_all

section \<open>Bit fields and shifts of limb vectors\<close>

lemma bit_full_limbs:
  fixes d :: "'a::len word list"
  assumes "i < length d"
  shows "bit (d ! i) b \<longleftrightarrow> b < LENGTH('a) \<and> bit (limbs_val LENGTH('a) d) (LENGTH('a) * i + b)"
  using assms by (intro bit_nth_limbs) simp_all

lemma bit_limbs_high:
  fixes d :: "'a::len word list"
  shows "bit (limbs_val LENGTH('a) d) j \<Longrightarrow> j < LENGTH('a) * length d"
  using bit_int_less [OF limbs_val_nonneg limbs_val_full_less] .

lemma word_of_take_bit:
  "(\<And>b. b < LENGTH('a) \<Longrightarrow> bit x b \<longleftrightarrow> b < count \<and> bit v (off + b)) \<Longrightarrow>
    x = word_of_int (take_bit count (drop_bit off v))" for x :: "'a::len word"
  by (rule bit_word_eqI) (simp add: bit_word_of_int_iff bit_take_bit_iff bit_drop_bit_eq)

lemma uint_take_bit_word:
  "count \<le> LENGTH('a) \<Longrightarrow> uint (word_of_int (take_bit count (drop_bit off v)) :: 'a::len word)
    = v div 2 ^ off mod 2 ^ count"
  by (simp add: uint_word_of_int_eq min_def) (simp add: take_bit_eq_mod drop_bit_eq_div)

lemma push_bit_1_mask: "push_bit n 1 - 1 = (mask n :: 'a::len word)"
  by (simp add: mask_eq_exp_minus_1)

lemma get_bits_limbs:
  fixes d :: "'a::len word list"
  assumes "off div LENGTH('a) < length d" "off mod LENGTH('a) + count \<le> LENGTH('a)"
  shows "drop_bit (off mod LENGTH('a)) (d ! (off div LENGTH('a))) AND mask count
    = word_of_int (take_bit count (drop_bit off (limbs_val LENGTH('a) d)))"
proof (rule word_of_take_bit)
  fix b
  have "LENGTH('a) * (off div LENGTH('a)) + (off mod LENGTH('a) + b) = off + b" by simp
  then show "bit (drop_bit (off mod LENGTH('a)) (d ! (off div LENGTH('a))) AND mask count) b
      \<longleftrightarrow> b < count \<and> bit (limbs_val LENGTH('a) d) (off + b)"
    using bit_full_limbs [OF assms(1), of "off mod LENGTH('a) + b"] assms(2)
    by (auto simp: bit_and_iff bit_mask_iff bit_drop_bit_eq)
qed

lemma get_bits_var_limbs:
  fixes d :: "'a::len word list"
  assumes "off div LENGTH('a) + 1 < length d" "count \<le> LENGTH('a)"
  shows "(drop_bit (off mod LENGTH('a)) (d ! (off div LENGTH('a))) OR
      push_bit (LENGTH('a) - off mod LENGTH('a)) (d ! (off div LENGTH('a) + 1))) AND mask count
    = word_of_int (take_bit count (drop_bit off (limbs_val LENGTH('a) d)))"
proof (rule word_of_take_bit)
  let ?w = "LENGTH('a)" and ?v = "limbs_val LENGTH('a) d"
  define q r where "q = off div ?w" and "r = off mod ?w"
  have off: "off = ?w * q + r" and r: "r < ?w" by (simp_all add: q_def r_def)
  fix b assume b: "b < ?w"
  have "bit (drop_bit r (d ! q)) b \<longleftrightarrow> r + b < ?w \<and> bit ?v (off + b)"
    using bit_full_limbs [of q d "r + b"] assms(1) by (auto simp: q_def [symmetric] off bit_drop_bit_eq add.assoc)
  moreover have "bit (push_bit (?w - r) (d ! (q + 1))) b \<longleftrightarrow> \<not> r + b < ?w \<and> bit ?v (off + b)"
  proof (cases "r + b < ?w")
    case False
    then have "?w * (q + 1) + (b - (?w - r)) = off + b" using r b by (simp add: off)
    then show ?thesis
      using bit_full_limbs [of "q + 1" d "b - (?w - r)"] assms(1) False r b
      by (auto simp: q_def [symmetric] bit_push_bit_iff ac_simps)
  qed (auto simp: bit_push_bit_iff)
  ultimately show "bit ((drop_bit (off mod ?w) (d ! (off div ?w)) OR
      push_bit (?w - off mod ?w) (d ! (off div ?w + 1))) AND mask count) b \<longleftrightarrow> b < count \<and> bit ?v (off + b)"
    using b by (auto simp: bit_and_iff bit_or_iff bit_mask_iff q_def r_def)
qed

lemma shr_limbs:
  fixes d :: "'a::len word list"
  assumes "length d = Suc m" "0 < n" "n < LENGTH('a)"
  shows "map (\<lambda>i. drop_bit n (d ! i) + push_bit (LENGTH('a) - n) (d ! (i + 1))) [0..<m] @ [drop_bit n (d ! m)]
    = limbs_of LENGTH('a) (Suc m) (drop_bit n (limbs_val LENGTH('a) d))"
proof (rule limbs_eq_limbs_ofI)
  let ?w = "LENGTH('a)" and ?v = "limbs_val LENGTH('a) d"
  fix i b assume i: "i < Suc m"
  have lo: "bit (drop_bit n (d ! i)) b \<longleftrightarrow> n + b < ?w \<and> bit ?v (n + (?w * i + b))"
    using bit_full_limbs [of i d "n + b"] i assms(1) by (simp add: bit_drop_bit_eq ac_simps)
  show "bit ((map (\<lambda>i. drop_bit n (d ! i) + push_bit (?w - n) (d ! (i + 1))) [0..<m] @ [drop_bit n (d ! m)]) ! i) b
      \<longleftrightarrow> b < ?w \<and> bit (drop_bit n ?v) (?w * i + b)"
  proof (cases "i = m")
    case True
    have "n + b < ?w" if "bit ?v (n + (?w * m + b))" using bit_limbs_high [OF that] assms(1) by simp
    then show ?thesis using lo True assms by (auto simp: nth_append bit_drop_bit_eq)
  next
    case False
    then have im: "i < m" using i by simp
    have hi: "bit (push_bit (?w - n) (d ! (i + 1))) b \<longleftrightarrow> ?w \<le> n + b \<and> b < ?w \<and> bit ?v (n + (?w * i + b))"
    proof (cases "?w \<le> n + b \<and> b < ?w")
      case True
      then have "?w * (i + 1) + (b - (?w - n)) = n + (?w * i + b)" using assms by simp
      then show ?thesis using bit_full_limbs [of "i + 1" d "b - (?w - n)"] im assms True
        by (auto simp: bit_push_bit_iff ac_simps)
    qed (use assms in \<open>auto simp: bit_push_bit_iff\<close>)
    have "drop_bit n (d ! i) AND push_bit (?w - n) (d ! (i + 1)) = 0"
      by (rule bit_word_eqI) (auto simp: bit_and_iff bit_drop_bit_eq bit_push_bit_iff dest: bit_imp_le_length)
    then have "drop_bit n (d ! i) + push_bit (?w - n) (d ! (i + 1)) = drop_bit n (d ! i) OR push_bit (?w - n) (d ! (i + 1))"
      by (simp add: disjunctive_add_eq_or)
    then show ?thesis using lo hi im by (auto simp: nth_append bit_or_iff bit_drop_bit_eq)
  qed
qed (use assms in simp_all)

lemma mul_shift_limb:
  fixes l :: "'a::len word list" and i shift :: nat
  defines "w \<equiv> LENGTH('a)"
  defines "q \<equiv> shift div w" and "r \<equiv> shift mod w"
  assumes x: "x = (if shift + w * i < w * length l
      then drop_bit r (l ! (i + q)) OR
        (if shift + w * Suc i < w * length l \<and> r \<noteq> 0 then push_bit (w - r) (l ! (i + 1 + q)) else 0)
      else 0)"
  shows "bit x b \<longleftrightarrow> b < w \<and> bit (limbs_val w l) (shift + (w * i + b))"
proof -
  have s: "shift = w * q + r" and r: "r < w" by (simp_all add: q_def r_def w_def)
  have lt: "j < length l" if "w * j + k < w * length l" for j k
    using that by (metis add_lessD1 mult_less_cancel1)
  have le: "w * j + k < w * length l" if "j < length l" "k < w" for j k
  proof -
    have "w * j + k < w * Suc j" using that by simp
    also have "\<dots> \<le> w * length l" using that by (intro mult_le_mono) simp_all
    finally show ?thesis .
  qed
  have c1: "shift + w * i < w * length l \<longleftrightarrow> i + q < length l"
    using lt [of "i + q" r] le [of "i + q" r] r by (auto simp: s algebra_simps)
  have c2: "shift + w * Suc i < w * length l \<longleftrightarrow> i + 1 + q < length l"
    using lt [of "i + 1 + q" r] le [of "i + 1 + q" r] r by (auto simp: s algebra_simps)
  have hi: "bit (limbs_val w l) j \<Longrightarrow> j < w * length l" for j
    unfolding w_def by (rule bit_limbs_high)
  have lo: "bit (drop_bit r (l ! (i + q))) b \<longleftrightarrow> r + b < w \<and> bit (limbs_val w l) (shift + (w * i + b))"
    if "i + q < length l"
    using bit_full_limbs [OF that, of "r + b"] by (simp add: bit_drop_bit_eq w_def [symmetric] s algebra_simps)
  have up: "bit (push_bit (w - r) (l ! (i + 1 + q))) b \<longleftrightarrow>
      w \<le> r + b \<and> b < w \<and> bit (limbs_val w l) (shift + (w * i + b))" if "i + 1 + q < length l"
  proof (cases "w \<le> r + b \<and> b < w")
    case True
    then have "w * (i + 1 + q) + (b - (w - r)) = shift + (w * i + b)" using r by (simp add: s algebra_simps)
    then have "bit (l ! (i + 1 + q)) (b - (w - r)) \<longleftrightarrow> b - (w - r) < w \<and> bit (limbs_val w l) (shift + (w * i + b))"
      using bit_full_limbs [OF that, of "b - (w - r)"] unfolding w_def [symmetric] by (simp only: )
    moreover have "w - r \<le> b" "b - (w - r) < w" using True r by linarith+
    ultimately show ?thesis using True by (simp add: bit_push_bit_iff w_def [symmetric])
  qed (auto simp: bit_push_bit_iff w_def [symmetric])
  have no: "\<not> bit (limbs_val w l) (shift + (w * i + b))" if "length l \<le> i + q"
  proof
    assume "bit (limbs_val w l) (shift + (w * i + b))"
    then have "w * (i + q) + (r + b) < w * length l" using hi by (fastforce simp: s algebra_simps)
    then show False using lt that by fastforce
  qed
  have no2: "r + b < w" if "length l \<le> i + 1 + q" "bit (limbs_val w l) (shift + (w * i + b))"
  proof (rule ccontr)
    assume "\<not> r + b < w"
    then have "w * (i + 1 + q) \<le> shift + (w * i + b)" by (simp add: s algebra_simps)
    moreover have "w * length l \<le> w * (i + 1 + q)" using that(1) by (rule mult_le_mono2)
    ultimately show False using hi [OF that(2)] by linarith
  qed
  show ?thesis
  proof (cases "i + q < length l")
    case True
    show ?thesis
    proof (cases "i + 1 + q < length l \<and> r \<noteq> 0")
      case both: True
      then show ?thesis using True lo up c1 c2 x by (auto simp: bit_or_iff)
    next
      case False
      have "x = drop_bit r (l ! (i + q))" using x c1 c2 True False by auto
      moreover have "r + b < w" if "b < w" "bit (limbs_val w l) (shift + (w * i + b))"
        using False no2 [OF _ that(2)] that(1) by fastforce
      ultimately show ?thesis using lo [OF True] by auto
    qed
  next
    case False
    then show ?thesis using x c1 no by auto
  qed
qed

lemma sint_small: "uint x < 2 ^ (LENGTH('a) - 1) \<Longrightarrow> sint x = uint x" for x :: "'a::len word"
  using order_trans [OF _ uint_nonnegative [of x], of "- (2 ^ (LENGTH('a) - 1))"]
  by (simp add: sint_uint signed_take_bit_int_eq_self)

lemma same_limb:
  fixes offset count w :: nat
  assumes "(offset + count - 1) div w = offset div w" "0 < count" "0 < w"
  shows "offset mod w + count \<le> w"
proof -
  have "offset + count - 1 = w * (offset div w) + (offset + count - 1) mod w"
    using mult_div_mod_eq [of w "offset + count - 1"] by (simp only: assms(1))
  moreover have "offset = w * (offset div w) + offset mod w" by simp
  moreover have "(offset + count - 1) mod w < w" using assms(3) by simp
  ultimately show ?thesis using assms(2) by linarith
qed

lemma next_limb:
  fixes offset count w k :: nat
  assumes "(offset + count - 1) div w \<noteq> offset div w" "0 < count" "offset + count \<le> w * k" "0 < w"
  shows "offset div w + 1 < k"
proof -
  have "offset div w \<le> (offset + count - 1) div w" using assms(2) by (intro div_le_mono) simp
  moreover have "(offset + count - 1) div w < k" using assms by (simp add: div_less_iff_less_mult mult.commute)
  ultimately show ?thesis using assms(1) by simp
qed

section \<open>Products of limb vectors\<close>

lemma acc_bounds_max:
  "list_all2 (rel_acc_op (\<lambda>x b. uint x \<le> b)) ops (map (map_acc_op (\<lambda>_. 2 ^ LENGTH('a) - 1)) ops)"
  for ops :: "'a::len word acc_op list"
proof (induction ops)
  case (Cons x ops)
  have "uint (y :: 'a word) \<le> 2 ^ LENGTH('a) - 1" for y using uint_bounded [of y] by linarith
  then show ?case using Cons by (cases x) simp_all
qed simp

lemma acc_val_zero [simp]: "acc_val (0, 0, 0) = 0"
  by (simp add: acc_val_def)

lemma acc_val_limb [simp]: "acc_val (x, 0, 0) = uint x"
  by (simp add: acc_val_def)

lemma acc_val_small:
  fixes c0 c1 :: "'a::len word"
  assumes "acc_val (c0, c1, c2) < 2 ^ LENGTH('a)"
  shows "acc_val (c0, c1, c2) = uint c0"
proof -
  let ?W = "2 ^ LENGTH('a) :: int"
  have e: "acc_val (c0, c1, c2) = uint c0 + ?W * (uint c1 + ?W * uint c2)"
    by (simp add: acc_val_eq distrib_left)
  have "acc_val (c0, c1, c2) mod ?W = uint c0" unfolding e by simp
  then show ?thesis using assms by simp
qed

lemma limbs_val_snoc_acc:
  fixes c0 c1 :: "'a::len word"
  assumes "limbs_val LENGTH('a) l + 2 ^ (LENGTH('a) * length l) * acc_val (c0, c1, c2) = v"
    "v < 2 ^ (LENGTH('a) * Suc (length l))"
  shows "limbs_val LENGTH('a) (l @ [c0]) = v" "acc_val (c0, c1, c2) = uint c0"
proof -
  have "2 ^ (LENGTH('a) * length l) * acc_val (c0, c1, c2) \<le> v" using assms(1) limbs_val_nonneg [of "LENGTH('a)" l] by linarith
  also have "v < 2 ^ (LENGTH('a) * length l) * 2 ^ LENGTH('a)" using assms(2) by (simp add: power_add mult.commute)
  finally have "acc_val (c0, c1, c2) < 2 ^ LENGTH('a)" by simp
  then show "acc_val (c0, c1, c2) = uint c0" by (rule acc_val_small)
  then show "limbs_val LENGTH('a) (l @ [c0]) = v" using assms(1) by (simp add: limbs_val_snoc)
qed

context wide_mul
begin

lemma acc_run_limbs:
  assumes "acc_run mw ops c = (l, c0, c1, c2 :: 'c::len word)" "LENGTH('c) \<le> LENGTH('a)"
    "list_all2 (rel_acc_op (\<lambda>x b. uint x \<le> b)) ops bops" "acc_val c \<le> b"
    "acc_fits LENGTH('a) LENGTH('c) bops b"
    "acc_val c + acc_total LENGTH('a) (map (map_acc_op uint) ops) = v" "acc_extracts ops = k"
    "v < 2 ^ (LENGTH('a) * Suc k)"
  shows "limbs_val LENGTH('a) (l @ [c0]) = v" "length l = k"
    "limbs_val LENGTH('a) l + 2 ^ (LENGTH('a) * k) * uint c0 = v"
proof -
  have *: "length l = k" "limbs_val LENGTH('a) l + 2 ^ (LENGTH('a) * k) * acc_val (c0, c1, c2) = v"
    using acc_run_correct [OF assms(3,4,5,2)] assms(1,6,7) by simp_all
  then show "limbs_val LENGTH('a) (l @ [c0]) = v" "length l = k"
    "limbs_val LENGTH('a) l + 2 ^ (LENGTH('a) * k) * uint c0 = v"
    using limbs_val_snoc_acc [of l c0 c1 c2 v] assms(8) by simp_all
qed

end

section \<open>Comparison flags compare\<close>

lemma limbs_lex:
  fixes x n :: "'a::len word"
  shows "limbs_val LENGTH('a) (n # ns) < limbs_val LENGTH('a) (x # xs) \<longleftrightarrow>
      limbs_val LENGTH('a) ns < limbs_val LENGTH('a) xs \<or>
      n < x \<and> limbs_val LENGTH('a) ns = limbs_val LENGTH('a) xs"
proof -
  let ?W = "2 ^ LENGTH('a) :: int" and ?v = "limbs_val LENGTH('a)"
  have b: "0 \<le> uint x" "uint x < ?W" "0 \<le> uint n" "uint n < ?W" by simp_all
  consider "?v ns + 1 \<le> ?v xs" | "?v xs + 1 \<le> ?v ns" | "?v xs = ?v ns" by linarith
  then show ?thesis
  proof cases
    case 1
    then have "?W * (?v ns + 1) \<le> ?W * ?v xs" by (intro mult_left_mono) simp_all
    then have "?v (n # ns) < ?v (x # xs)" using b unfolding limbs_val.simps distrib_left by linarith
    then show ?thesis using 1 by (simp del: limbs_val.simps)
  next
    case 2
    then have "?W * (?v xs + 1) \<le> ?W * ?v ns" by (intro mult_left_mono) simp_all
    then have "?v (x # xs) < ?v (n # ns)" using b unfolding limbs_val.simps distrib_left by linarith
    then show ?thesis using 2 by (simp del: limbs_val.simps)
  next
    case 3
    then show ?thesis by (simp add: word_less_def)
  qed
qed

lemma limbs_eq:
  fixes x n :: "'a::len word"
  shows "limbs_val LENGTH('a) (n # ns) = limbs_val LENGTH('a) (x # xs) \<longleftrightarrow>
    n = x \<and> limbs_val LENGTH('a) ns = limbs_val LENGTH('a) xs"
  using limbs_lex [of n ns x xs] limbs_lex [of x xs n ns] by (metis linorder_cases order.asym)

text \<open>The flags after comparing the limbs \<open>xs\<close> and \<open>ns\<close>.\<close>

definition flags_ok :: "'a::len word list \<Rightarrow> 'a word list \<Rightarrow> flags \<Rightarrow> bool" where
  "flags_ok xs ns f \<longleftrightarrow> (fst f \<longleftrightarrow> limbs_val LENGTH('a) ns < limbs_val LENGTH('a) xs) \<and>
    (limbs_val LENGTH('a) xs < limbs_val LENGTH('a) ns \<longrightarrow> snd f) \<and>
    (snd f \<longrightarrow> limbs_val LENGTH('a) xs \<noteq> limbs_val LENGTH('a) ns)"

lemmas flags_defs = flags_ok_def no_less_def no_less_unless_yes_def yes_greater_def yes_greater_eq_def
  limbs_lex limbs_eq

lemma flags_init: "flags_ok [] [] (False, False)"
  by (simp add: flags_ok_def)

lemma flags_top:
  assumes "\<not> n < x" "flags_ok xs ns f" "\<not> fst f"
  shows "flags_ok (x # xs) (n # ns) (no_less x n f) \<and> \<not> fst (no_less x n f)"
  using assms by (cases f) (auto simp: flags_defs simp del: limbs_val.simps)

lemma flags_max:
  assumes "\<not> n < x" "flags_ok xs ns f"
  shows "flags_ok (x # xs) (n # ns) (no_less_unless_yes x n f)"
  using assms by (cases f) (auto simp: flags_defs simp del: limbs_val.simps)

lemma flags_both:
  assumes "flags_ok xs ns f"
  shows "flags_ok (x # xs) (n # ns) (yes_greater x n (no_less x n f))"
    "flags_ok (x # xs) (n # ns) (yes_greater x n (no_less_unless_yes x n f))"
  using assms by (cases f; auto simp: flags_defs simp del: limbs_val.simps)+

lemma flags_final:
  fixes x :: "'a::len word"
  assumes "flags_ok xs ns f"
  shows "fst (yes_greater x n f) \<longleftrightarrow> limbs_val LENGTH('a) (n # ns) < limbs_val LENGTH('a) (x # xs)"
    "fst (yes_greater_eq x n f) \<longleftrightarrow> limbs_val LENGTH('a) (n # ns) \<le> limbs_val LENGTH('a) (x # xs)"
  using assms by (cases f; auto simp: flags_defs le_less simp del: limbs_val.simps)+

section \<open>Bytes\<close>

lemma bit_ucast_u8: "bit (ucast (x :: u8) :: 'a::len word) n \<longleftrightarrow> n < LENGTH('a) \<and> n < 8 \<and> bit x n"
  using bit_imp_le_length [of x n] by (auto simp: bit_ucast_iff)

lemma bit_be_word:
  assumes "0 < k" "8 * k \<le> LENGTH('a)"
  shows "bit (be_word b i k :: 'a::len word) n \<longleftrightarrow> n < 8 * k \<and> bit (b ! (i - n div 8)) (n mod 8)"
  using assms
proof (induction k)
  case (Suc k)
  show ?case
  proof (cases "k = 0")
    case True
    then show ?thesis using Suc.prems by (auto simp: be_word_def bit_ucast_u8)
  next
    case False
    have "(be_word b i (Suc k) :: 'a word) = be_word b i k OR push_bit (8 * k) (ucast (b ! (i - k)))"
      using False by (simp add: be_word_def)
    moreover have "n div 8 = k \<and> n mod 8 = n - 8 * k" if "8 * k \<le> n" "n < 8 * Suc k"
      using that div_nat_eqI [of 8 k n] minus_mult_div_eq_mod [of n 8] by simp
    ultimately show ?thesis using Suc False
      by (auto simp: bit_or_iff bit_push_bit_iff bit_ucast_u8)
  qed
qed simp

lemma limbs_of_be_word:
  assumes "length b = k * m" "0 < k" "8 * k \<le> LENGTH('a)"
  shows "map (\<lambda>j. be_word b (k * m - 1 - k * j) k :: 'a::len word) [0..<m] = limbs_of (8 * k) m (be_val b)"
proof (rule limbs_eq_limbs_ofI)
  fix i n assume i: "i < m"
  have "k * (i + 1) \<le> k * m" using i by (intro mult_le_mono) simp_all
  then have lt: "k * i + n div 8 < k * m" if "n < 8 * k" using that by simp
  have "8 * k * i + n = 8 * (k * i + n div 8) + n mod 8" by simp
  then have "bit (be_val b) (8 * k * i + n) \<longleftrightarrow> bit (b ! (k * m - 1 - k * i - n div 8)) (n mod 8)"
    if "n < 8 * k" using bit_be_val [of "k * i + n div 8" b "n mod 8"] lt [OF that] assms(1) by (simp add: diff_diff_add ac_simps)
  then show "bit (map (\<lambda>j. be_word b (k * m - 1 - k * j) k :: 'a word) [0..<m] ! i) n
      \<longleftrightarrow> n < 8 * k \<and> bit (be_val b) (8 * k * i + n)"
    using i assms by (auto simp: bit_be_word)
qed (use assms in simp_all)

lemma limbs_val_be_word:
  assumes "length b = k * m" "0 < k" "8 * k \<le> LENGTH('a)"
  shows "limbs_val (8 * k) (map (\<lambda>j. be_word b (k * m - 1 - k * j) k :: 'a::len word) [0..<m]) = be_val b"
proof -
  have "be_val b < 2 ^ (8 * k * m)" using be_val_less [of b] by (simp add: assms power_mult)
  then show ?thesis
    unfolding limbs_of_be_word [OF assms]
    by (simp add: limbs_val_limbs_of assms take_bit_int_eq_self)
qed

lemma word_bytes_be_bytes: "word_bytes k x = be_bytes k (uint x)"
proof -
  have "(ucast (drop_bit (8 * n) x) :: u8) = word_of_int (uint x div 256 ^ n)" for n
    by (simp add: word_uint_eq_iff uint_ucast uint_drop_bit uint_word_of_int power_mult)
  then show ?thesis by (simp add: word_bytes_def be_bytes_def)
qed

lemma concat_word_bytes:
  fixes xs :: "'a::len word list"
  assumes "8 * k = LENGTH('a)"
  shows "concat (map (word_bytes k) (rev xs)) = be_bytes (k * length xs) (limbs_val (8 * k) xs)"
proof -
  have l: "length (concat (map (word_bytes k) (rev ys))) = k * length ys" for ys :: "'a word list"
    by (induction ys) (simp_all add: word_bytes_def)
  have "be_val (concat (map (word_bytes k) (rev xs))) = limbs_val (8 * k) xs"
  proof (induction xs)
    case (Cons x xs)
    have "uint x < 256 ^ k" using uint_bounded [of x] by (simp add: assms [symmetric] power_mult)
    then show ?case using Cons
      by (simp add: be_val_append word_bytes_be_bytes be_val_be_bytes power_mult)
  qed simp
  then show ?thesis using be_bytes_be_val [of "concat (map (word_bytes k) (rev xs))"] l by simp
qed

section \<open>Reduction modulo the order\<close>

lemma scalar_n_pos [simp]: "0 < scalar_n"
  by (simp add: scalar_n_def)

lemma scalar_n_half_eq: "scalar_n = 2 * scalar_n_half + 1"
  by (simp add: scalar_n_def scalar_n_half_def)

text \<open>\<open>2 ^ 256 - scalar_n\<close>, the number whose limbs are \<^verbatim>\<open>SECP256K1_N_C_*\<close>.\<close>

definition scalar_nc :: int where
  "scalar_nc = 0x14551231950B75FC4402DA1732FC9BEBF"

lemma scalar_nc_eq: "scalar_nc = 2 ^ 256 - scalar_n"
  by (simp add: scalar_nc_def scalar_n_def)

lemma scalar_mod_once: "scalar_n \<le> v \<Longrightarrow> v < 2 * scalar_n \<Longrightarrow> v mod scalar_n = v - scalar_n"
proof -
  assume v: "scalar_n \<le> v" "v < 2 * scalar_n"
  have "v mod scalar_n = (v - scalar_n) mod scalar_n" by simp
  also have "\<dots> = v - scalar_n" using v by (intro mod_pos_pos_trivial) simp_all
  finally show ?thesis .
qed

lemma scalar_reduce_int:
  assumes "0 \<le> v" "v < 2 ^ 256"
  shows "(v + of_bool (scalar_n \<le> v) * scalar_nc) mod 2 ^ 256 = v mod scalar_n"
proof (cases "scalar_n \<le> v")
  case True
  have "v + scalar_nc = v - scalar_n + 2 ^ 256" unfolding scalar_nc_eq by (rule add_diff_eq [THEN trans]) simp
  then have "(v + scalar_nc) mod 2 ^ 256 = (v - scalar_n + 2 ^ 256) mod 2 ^ 256" by (rule arg_cong)
  also have "\<dots> = (v - scalar_n) mod 2 ^ 256" by (rule mod_add_self2)
  also have "\<dots> = v - scalar_n" using True assms by (intro mod_pos_pos_trivial) (simp_all add: scalar_n_def)
  also have "\<dots> = v mod scalar_n" using True assms scalar_mod_once [of v] by (simp add: scalar_n_def)
  finally show ?thesis using True by simp
qed (use assms in \<open>simp add: mod_pos_pos_trivial\<close>)

lemma scalar_reduce_once:
  assumes "r + 2 ^ 256 * t = v" "0 \<le> v" "v < 2 * scalar_n" "0 \<le> r" "r < 2 ^ 256" "0 \<le> t"
  shows "t + of_bool (scalar_n \<le> r) = of_bool (scalar_n \<le> v)"
    "(r + of_bool (scalar_n \<le> v) * scalar_nc) mod 2 ^ 256 = v mod scalar_n"
proof -
  have "t \<le> 1" using assms by (simp add: scalar_n_def)
  then consider "t = 0" | "t = 1" using assms(6) by linarith
  then have "t + of_bool (scalar_n \<le> r) = of_bool (scalar_n \<le> v) \<and>
    (r + of_bool (scalar_n \<le> v) * scalar_nc) mod 2 ^ 256 = v mod scalar_n"
  proof cases
    case 1
    then show ?thesis using assms scalar_reduce_int [of r] by simp
  next
    case 2
    have ge: "scalar_n \<le> v" using 2 assms by (simp add: scalar_n_def)
    have "(r + scalar_nc) = v - scalar_n" using 2 assms(1) by (simp add: scalar_nc_eq)
    then show ?thesis using 2 ge assms scalar_mod_once [OF ge] by (simp add: scalar_n_def)
  qed
  then show "t + of_bool (scalar_n \<le> r) = of_bool (scalar_n \<le> v)"
    "(r + of_bool (scalar_n \<le> v) * scalar_nc) mod 2 ^ 256 = v mod scalar_n" by simp_all
qed

lemma scalar_neg_int: "0 < v \<Longrightarrow> v < scalar_n \<Longrightarrow> (- v) mod scalar_n = scalar_n - v"
  using zmod_zminus1_eq_if [of v scalar_n] by simp

section \<open>The contract\<close>

text \<open>
  A scalar in use is below the group order: the predicate \<open>wf\<close>. Every operation keeps it and
  computes on the number \<open>val\<close>.
\<close>

lemma scalar_512_int:
  assumes lo: "0 \<le> lo" "lo < 2 ^ 256" and hi: "0 \<le> hi" "hi < 2 ^ 256"
    and M: "mlo + 2 ^ 256 * mhi = lo + hi * scalar_nc" "0 \<le> mlo" "mlo < 2 ^ 256" "0 \<le> mhi"
    and P: "plo + 2 ^ 256 * p = mlo + mhi * scalar_nc" "0 \<le> plo" "plo < 2 ^ 256" "0 \<le> p"
  shows "lo + hi * scalar_nc < 2 ^ 385" "p \<le> 2" "plo + p * scalar_nc < 2 * scalar_n"
    "(plo + p * scalar_nc) mod scalar_n = (lo + 2 ^ 256 * hi) mod scalar_n"
proof -
  show "lo + hi * scalar_nc < 2 ^ 385" using lo hi by (simp add: scalar_nc_def)
  have "mhi \<le> scalar_nc + 1" using lo hi M by (simp add: scalar_nc_def)
  then show p: "p \<le> 2" using M P by (simp add: scalar_nc_def)
  show "plo + p * scalar_nc < 2 * scalar_n" using p P by (simp add: scalar_nc_def scalar_n_def)
  have n: "2 ^ 256 = scalar_n + scalar_nc" by (simp add: scalar_nc_eq)
  have "lo + 2 ^ 256 * hi = lo + hi * scalar_nc + scalar_n * hi" by (simp only: n) (simp add: algebra_simps)
  also have "\<dots> = mlo + mhi * scalar_nc + scalar_n * (hi + mhi)"
    using M(1) unfolding n by (simp add: algebra_simps)
  also have "\<dots> = plo + p * scalar_nc + scalar_n * (hi + mhi + p)"
    using P(1) unfolding n by (simp add: algebra_simps)
  finally show "(plo + p * scalar_nc) mod scalar_n = (lo + 2 ^ 256 * hi) mod scalar_n" by simp
qed

lemma low_bit_limb:
  fixes l :: "'a::len word list"
  assumes "k div LENGTH('a) < length l"
  shows "drop_bit (k mod LENGTH('a)) (l ! (k div LENGTH('a))) AND 1 = of_bool (bit (limbs_val LENGTH('a) l) k)"
proof -
  have "bit (l ! (k div LENGTH('a))) (k mod LENGTH('a)) \<longleftrightarrow> bit (limbs_val LENGTH('a) l) k"
    using bit_full_limbs [OF assms, of "k mod LENGTH('a)"] by simp
  then show ?thesis by (simp add: and_one_eq bit_iff_odd_drop_bit mod_2_eq_odd)
qed

lemma scalar_prod_shift:
  assumes "0 \<le> a" "a < scalar_n" "0 \<le> b" "b < scalar_n" "256 \<le> shift"
  shows "0 \<le> a * b div 2 ^ shift" "a * b div 2 ^ shift + 1 < scalar_n"
proof -
  have "a * b \<le> (scalar_n - 1) * (scalar_n - 1)" using assms by (intro mult_mono) simp_all
  then have "a * b div 2 ^ 256 \<le> (scalar_n - 1) * (scalar_n - 1) div 2 ^ 256" by (rule zdiv_mono1) simp
  moreover have "a * b div 2 ^ shift \<le> a * b div 2 ^ 256"
    using assms power_increasing [OF assms(5), of "2 :: int"] by (intro zdiv_mono2) (simp_all only: mult_nonneg_nonneg, simp)
  ultimately show "a * b div 2 ^ shift + 1 < scalar_n" by (simp add: scalar_n_def)
  show "0 \<le> a * b div 2 ^ shift" using assms by (simp add: pos_imp_zdiv_nonneg_iff)
qed

locale scalar_repr =
  fixes S :: "'sc scalar_ops"
    and val :: "'sc \<Rightarrow> int"
    and wf :: "'sc \<Rightarrow> bool"
  assumes val_range: "wf a \<Longrightarrow> 0 \<le> val a \<and> val a < scalar_n"
    and val_inj: "wf a \<Longrightarrow> wf b \<Longrightarrow> val a = val b \<Longrightarrow> a = b"
    and clear: "wf (scalar_clear S) \<and> val (scalar_clear S) = 0"
    and set_int: "wf (scalar_set_int S v) \<and> val (scalar_set_int S v) = uint v"
    and get_bits: "wf a \<Longrightarrow> 0 < count \<Longrightarrow> count < 32 \<Longrightarrow> offset + count \<le> 256 \<Longrightarrow>
      (offset + count - 1) div 32 = offset div 32 \<Longrightarrow>
      uint (scalar_get_bits S a offset count) = val a div 2 ^ offset mod 2 ^ count"
    and get_bits_var: "wf a \<Longrightarrow> 0 < count \<Longrightarrow> count < 32 \<Longrightarrow> offset + count \<le> 256 \<Longrightarrow>
      uint (scalar_get_bits_var S a offset count) = val a div 2 ^ offset mod 2 ^ count"
    and set_b32: "length bs = 32 \<Longrightarrow> wf (fst (scalar_set_b32 S bs)) \<and>
      val (fst (scalar_set_b32 S bs)) = be_val bs mod scalar_n \<and>
      snd (scalar_set_b32 S bs) = of_bool (scalar_n \<le> be_val bs)"
    and get_b32: "wf a \<Longrightarrow> scalar_get_b32 S a = be_bytes 32 (val a)"
    and add: "wf a \<Longrightarrow> wf b \<Longrightarrow> wf (fst (scalar_add S a b)) \<and>
      val (fst (scalar_add S a b)) = (val a + val b) mod scalar_n \<and>
      snd (scalar_add S a b) = of_bool (scalar_n \<le> val a + val b)"
    and cadd_bit: "wf a \<Longrightarrow> k < 256 \<Longrightarrow> val a + of_bool f * 2 ^ k < scalar_n \<Longrightarrow>
      wf (scalar_cadd_bit S a k (of_bool f)) \<and>
      val (scalar_cadd_bit S a k (of_bool f)) = val a + of_bool f * 2 ^ k"
    and mul: "wf a \<Longrightarrow> wf b \<Longrightarrow> wf (scalar_mul S a b) \<and>
      val (scalar_mul S a b) = (val a * val b) mod scalar_n"
    and sqr: "wf a \<Longrightarrow> wf (scalar_sqr S a) \<and> val (scalar_sqr S a) = (val a * val a) mod scalar_n"
    and shr_int: "wf a \<Longrightarrow> 0 < n \<Longrightarrow> n < 16 \<Longrightarrow> wf (fst (scalar_shr_int S a n)) \<and>
      val (fst (scalar_shr_int S a n)) = val a div 2 ^ n \<and>
      snd (scalar_shr_int S a n) = val a mod 2 ^ n"
    and negate: "wf a \<Longrightarrow> wf (scalar_negate S a) \<and> val (scalar_negate S a) = (- val a) mod scalar_n"
    and is_zero: "wf a \<Longrightarrow> scalar_is_zero S a \<longleftrightarrow> val a = 0"
    and is_one: "wf a \<Longrightarrow> scalar_is_one S a \<longleftrightarrow> val a = 1"
    and is_even: "wf a \<Longrightarrow> scalar_is_even S a \<longleftrightarrow> even (val a)"
    and is_high: "wf a \<Longrightarrow> scalar_is_high S a \<longleftrightarrow> scalar_n_half < val a"
    and cond_negate: "wf a \<Longrightarrow> scalar_cond_negate S a f =
      (if f then (scalar_negate S a, - 1) else (a, 1))"
    and eq: "wf a \<Longrightarrow> wf b \<Longrightarrow> scalar_eq S a b \<longleftrightarrow> a = b"
    and split_128: "wf a \<Longrightarrow> wf (fst (scalar_split_128 S a)) \<and> wf (snd (scalar_split_128 S a)) \<and>
      val (fst (scalar_split_128 S a)) = val a mod 2 ^ 128 \<and>
      val (snd (scalar_split_128 S a)) = val a div 2 ^ 128"
    and mul_shift_var: "wf a \<Longrightarrow> wf b \<Longrightarrow> 256 \<le> shift \<Longrightarrow> shift < 512 \<Longrightarrow>
      wf (scalar_mul_shift_var S a b shift) \<and>
      val (scalar_mul_shift_var S a b shift) = (val a * val b + 2 ^ (shift - 1)) div 2 ^ shift"
    and const: "limbs_val 32 [d0, d1, d2, d3, d4, d5, d6, d7] < scalar_n \<Longrightarrow>
      wf (scalar_const S d7 d6 d5 d4 d3 d2 d1 d0) \<and>
      val (scalar_const S d7 d6 d5 d4 d3 d2 d1 d0) = limbs_val 32 [d0, d1, d2, d3, d4, d5, d6, d7]"

end
