(* ===== verification/Scalar_8x32.thy ===== *)
theory Scalar_8x32
  imports Scalar
begin

text \<open>
  The scalar representation that is compiled in (\<^verbatim>\<open>USE_SCALAR_8X32\<close>): eight 32-bit limbs, from
  \<^verbatim>\<open>scalar_8x32.h\<close> and \<^verbatim>\<open>scalar_8x32_impl.h\<close>. The lemmas end in the interpretation \<open>sc8\<close> of
  the contract \<open>scalar_repr\<close>.
\<close>

section \<open>Data\<close>

record scalar_8x32 =
  sc8_d :: "u32 list"

text \<open>The limbs of the order, of its complement to \<open>2 ^ 256\<close> and of half the order.\<close>

definition n_8x32 :: "u32 list" where
  "n_8x32 = [0xD0364141, 0xBFD25E8C, 0xAF48A03B, 0xBAAEDCE6, 0xFFFFFFFE, 0xFFFFFFFF, 0xFFFFFFFF, 0xFFFFFFFF]"

definition nc_8x32 :: "u32 list" where
  "nc_8x32 = [NOT (n_8x32 ! 0) + 1, NOT (n_8x32 ! 1), NOT (n_8x32 ! 2), NOT (n_8x32 ! 3), 1]"

definition nh_8x32 :: "u32 list" where
  "nh_8x32 = [0x681B20A0, 0xDFE92F46, 0x57A4501D, 0x5D576E73, 0xFFFFFFFF, 0xFFFFFFFF, 0xFFFFFFFF, 0x7FFFFFFF]"

definition scalar_val_8x32 :: "scalar_8x32 \<Rightarrow> int" where
  "scalar_val_8x32 a = limbs_val 32 (sc8_d a)"

definition scalar_wf_8x32 :: "scalar_8x32 \<Rightarrow> bool" where
  "scalar_wf_8x32 a \<longleftrightarrow> length (sc8_d a) = 8 \<and> scalar_val_8x32 a < scalar_n"

section \<open>Operations\<close>

definition scalar_clear_8x32 :: scalar_8x32 where
  "scalar_clear_8x32 = \<lparr>sc8_d = [0, 0, 0, 0, 0, 0, 0, 0]\<rparr>"

definition scalar_set_int_8x32 :: "u32 \<Rightarrow> scalar_8x32" where
  "scalar_set_int_8x32 v = \<lparr>sc8_d = [v, 0, 0, 0, 0, 0, 0, 0]\<rparr>"

definition scalar_get_bits_8x32 :: "scalar_8x32 \<Rightarrow> nat \<Rightarrow> nat \<Rightarrow> u32" where
  "scalar_get_bits_8x32 a offset count =
    drop_bit (offset mod 32) (sc8_d a ! (offset div 32)) AND (push_bit count 1 - 1)"

definition scalar_get_bits_var_8x32 :: "scalar_8x32 \<Rightarrow> nat \<Rightarrow> nat \<Rightarrow> u32" where
  "scalar_get_bits_var_8x32 a offset count =
    (if (offset + count - 1) div 32 = offset div 32 then scalar_get_bits_8x32 a offset count
     else (drop_bit (offset mod 32) (sc8_d a ! (offset div 32)) OR
        push_bit (32 - offset mod 32) (sc8_d a ! (offset div 32 + 1))) AND (push_bit count 1 - 1))"

definition scalar_check_overflow_8x32 :: "scalar_8x32 \<Rightarrow> bool" where
  "scalar_check_overflow_8x32 a =
    (let d = sc8_d a; N = n_8x32;
         f = (False, False);
         f = no_less (d ! 7) (N ! 7) f;
         f = no_less (d ! 6) (N ! 6) f;
         f = no_less (d ! 5) (N ! 5) f;
         f = no_less (d ! 4) (N ! 4) f;
         f = yes_greater (d ! 4) (N ! 4) f;
         f = no_less_unless_yes (d ! 3) (N ! 3) f;
         f = yes_greater (d ! 3) (N ! 3) f;
         f = no_less_unless_yes (d ! 2) (N ! 2) f;
         f = yes_greater (d ! 2) (N ! 2) f;
         f = no_less_unless_yes (d ! 1) (N ! 1) f;
         f = yes_greater (d ! 1) (N ! 1) f;
         f = yes_greater_eq (d ! 0) (N ! 0) f
     in fst f)"

definition scalar_reduce_8x32 :: "scalar_8x32 \<Rightarrow> u32 \<Rightarrow> scalar_8x32 \<times> int" where
  "scalar_reduce_8x32 r overflow =
    (let d = sc8_d r;
         (d', t) = carry_chain 32 (0xFFFFFFFF :: u64) 0
           (map2 (\<lambda>x c. ucast x + ucast (overflow * c)) (take 5 d) nc_8x32 @ map ucast (drop 5 d))
     in (\<lparr>sc8_d = map ucast d'\<rparr>, sint overflow))"

definition scalar_add_8x32 :: "scalar_8x32 \<Rightarrow> scalar_8x32 \<Rightarrow> scalar_8x32 \<times> int" where
  "scalar_add_8x32 a b =
    (let (d, t) = carry_chain 32 (0xFFFFFFFF :: u64) 0
           (map2 (\<lambda>x y. ucast x + ucast y) (sc8_d a) (sc8_d b));
         r = \<lparr>sc8_d = map ucast d\<rparr>;
         overflow = ucast (t + of_bool (scalar_check_overflow_8x32 r)) :: u32;
         (r, _) = scalar_reduce_8x32 r overflow
     in (r, sint overflow))"

definition scalar_cadd_bit_8x32 :: "scalar_8x32 \<Rightarrow> nat \<Rightarrow> int \<Rightarrow> scalar_8x32" where
  "scalar_cadd_bit_8x32 r pos flag =
    (let bit = of_nat pos + ((word_of_int flag - 1) AND 0x100) :: u32;
         (d, t) = carry_chain 32 (0xFFFFFFFF :: u64) 0
           (map2 (\<lambda>x i. ucast x + ucast (push_bit (unat (bit AND 0x1F)) (of_bool (drop_bit 5 bit = i)) :: u32))
             (sc8_d r) [0, 1, 2, 3, 4, 5, 6, 7])
     in \<lparr>sc8_d = map ucast d\<rparr>)"

definition scalar_set_b32_8x32 :: "u8 list \<Rightarrow> scalar_8x32 \<times> int" where
  "scalar_set_b32_8x32 b32 =
    (let r = \<lparr>sc8_d = map (\<lambda>i. be_word b32 (31 - 4 * i) 4) [0..<8]\<rparr>
     in scalar_reduce_8x32 r (of_bool (scalar_check_overflow_8x32 r)))"

definition scalar_get_b32_8x32 :: "scalar_8x32 \<Rightarrow> u8 list" where
  "scalar_get_b32_8x32 a = concat (map (word_bytes 4) (rev (sc8_d a)))"

definition scalar_is_zero_8x32 :: "scalar_8x32 \<Rightarrow> bool" where
  "scalar_is_zero_8x32 a =
    (let d = sc8_d a in d ! 0 OR d ! 1 OR d ! 2 OR d ! 3 OR d ! 4 OR d ! 5 OR d ! 6 OR d ! 7 = 0)"

definition scalar_negate_8x32 :: "scalar_8x32 \<Rightarrow> scalar_8x32" where
  "scalar_negate_8x32 a =
    (let nonzero = 0xFFFFFFFF * of_bool (\<not> scalar_is_zero_8x32 a) :: u32;
         d = sc8_d a; N = n_8x32;
         (d', t) = carry_chain 32 (ucast nonzero :: u64) 0
           ((ucast (NOT (d ! 0)) + ucast (N ! 0) + 1) #
            map2 (\<lambda>x n. ucast (NOT x) + ucast n) (tl d) (tl N))
     in \<lparr>sc8_d = map ucast d'\<rparr>)"

definition scalar_is_one_8x32 :: "scalar_8x32 \<Rightarrow> bool" where
  "scalar_is_one_8x32 a =
    (let d = sc8_d a
     in (d ! 0 XOR 1) OR d ! 1 OR d ! 2 OR d ! 3 OR d ! 4 OR d ! 5 OR d ! 6 OR d ! 7 = 0)"

definition scalar_is_even_8x32 :: "scalar_8x32 \<Rightarrow> bool" where
  "scalar_is_even_8x32 a \<longleftrightarrow> \<not> (sc8_d a ! 0 AND 1 \<noteq> 0)"

definition scalar_is_high_8x32 :: "scalar_8x32 \<Rightarrow> bool" where
  "scalar_is_high_8x32 a =
    (let d = sc8_d a; H = nh_8x32;
         f = (False, False);
         f = no_less (d ! 7) (H ! 7) f;
         f = yes_greater (d ! 7) (H ! 7) f;
         f = no_less_unless_yes (d ! 6) (H ! 6) f;
         f = no_less_unless_yes (d ! 5) (H ! 5) f;
         f = no_less_unless_yes (d ! 4) (H ! 4) f;
         f = no_less_unless_yes (d ! 3) (H ! 3) f;
         f = yes_greater (d ! 3) (H ! 3) f;
         f = no_less_unless_yes (d ! 2) (H ! 2) f;
         f = yes_greater (d ! 2) (H ! 2) f;
         f = no_less_unless_yes (d ! 1) (H ! 1) f;
         f = yes_greater (d ! 1) (H ! 1) f;
         f = yes_greater (d ! 0) (H ! 0) f
     in fst f)"

definition scalar_cond_negate_8x32 :: "scalar_8x32 \<Rightarrow> bool \<Rightarrow> scalar_8x32 \<times> int" where
  "scalar_cond_negate_8x32 r flag =
    (let mask = of_bool (\<not> flag) - 1 :: u32;
         nonzero = 0xFFFFFFFF * of_bool (\<not> scalar_is_zero_8x32 r) :: u32;
         d = sc8_d r; N = n_8x32;
         (d', t) = carry_chain 32 (ucast nonzero :: u64) 0
           ((ucast (d ! 0 XOR mask) + ucast ((N ! 0 + 1) AND mask)) #
            map2 (\<lambda>x n. ucast (x XOR mask) + ucast (n AND mask)) (tl d) (tl N))
     in (\<lparr>sc8_d = map ucast d'\<rparr>, 2 * of_bool (mask = 0) - 1))"

section \<open>Products\<close>

text \<open>\<^verbatim>\<open>t = (uint64_t)a * b; th = t >> 32; tl = t\<close>.\<close>

definition wide_mul_32 :: "u32 \<Rightarrow> u32 \<Rightarrow> u32 \<times> u32" where
  "wide_mul_32 a b = (let t = ucast a * ucast b :: u64 in (ucast (drop_bit 32 t), ucast t))"

definition scalar_reduce_512_m_8x32 :: "'x list \<Rightarrow> 'x list \<Rightarrow> 'x acc_op list" where
  "scalar_reduce_512_m_8x32 l nc =
    (let n0 = l ! 8; n1 = l ! 9; n2 = l ! 10; n3 = l ! 11;
         n4 = l ! 12; n5 = l ! 13; n6 = l ! 14; n7 = l ! 15
     in
      [Muladd_fast n0 (nc ! 0), Extract_fast,
       Sumadd_fast (l ! 1), Muladd n1 (nc ! 0), Muladd n0 (nc ! 1), Extract,
       Sumadd (l ! 2), Muladd n2 (nc ! 0), Muladd n1 (nc ! 1), Muladd n0 (nc ! 2), Extract,
       Sumadd (l ! 3), Muladd n3 (nc ! 0), Muladd n2 (nc ! 1), Muladd n1 (nc ! 2),
        Muladd n0 (nc ! 3), Extract,
       Sumadd (l ! 4), Muladd n4 (nc ! 0), Muladd n3 (nc ! 1), Muladd n2 (nc ! 2),
        Muladd n1 (nc ! 3), Sumadd n0, Extract,
       Sumadd (l ! 5), Muladd n5 (nc ! 0), Muladd n4 (nc ! 1), Muladd n3 (nc ! 2),
        Muladd n2 (nc ! 3), Sumadd n1, Extract,
       Sumadd (l ! 6), Muladd n6 (nc ! 0), Muladd n5 (nc ! 1), Muladd n4 (nc ! 2),
        Muladd n3 (nc ! 3), Sumadd n2, Extract,
       Sumadd (l ! 7), Muladd n7 (nc ! 0), Muladd n6 (nc ! 1), Muladd n5 (nc ! 2),
        Muladd n4 (nc ! 3), Sumadd n3, Extract,
       Muladd n7 (nc ! 1), Muladd n6 (nc ! 2), Muladd n5 (nc ! 3), Sumadd n4, Extract,
       Muladd n7 (nc ! 2), Muladd n6 (nc ! 3), Sumadd n5, Extract,
       Muladd n7 (nc ! 3), Sumadd n6, Extract,
       Sumadd_fast n7, Extract_fast])"

definition scalar_reduce_512_p_8x32 :: "'x list \<Rightarrow> 'x list \<Rightarrow> 'x acc_op list" where
  "scalar_reduce_512_p_8x32 m nc =
      [Muladd_fast (m ! 8) (nc ! 0), Extract_fast,
       Sumadd_fast (m ! 1), Muladd (m ! 9) (nc ! 0), Muladd (m ! 8) (nc ! 1), Extract,
       Sumadd (m ! 2), Muladd (m ! 10) (nc ! 0), Muladd (m ! 9) (nc ! 1), Muladd (m ! 8) (nc ! 2),
        Extract,
       Sumadd (m ! 3), Muladd (m ! 11) (nc ! 0), Muladd (m ! 10) (nc ! 1), Muladd (m ! 9) (nc ! 2),
        Muladd (m ! 8) (nc ! 3), Extract,
       Sumadd (m ! 4), Muladd (m ! 12) (nc ! 0), Muladd (m ! 11) (nc ! 1), Muladd (m ! 10) (nc ! 2),
        Muladd (m ! 9) (nc ! 3), Sumadd (m ! 8), Extract,
       Sumadd (m ! 5), Muladd (m ! 12) (nc ! 1), Muladd (m ! 11) (nc ! 2), Muladd (m ! 10) (nc ! 3),
        Sumadd (m ! 9), Extract,
       Sumadd (m ! 6), Muladd (m ! 12) (nc ! 2), Muladd (m ! 11) (nc ! 3), Sumadd (m ! 10), Extract,
       Sumadd_fast (m ! 7), Muladd_fast (m ! 12) (nc ! 3), Sumadd_fast (m ! 11), Extract_fast]"

definition scalar_reduce_512_8x32 :: "u32 list \<Rightarrow> scalar_8x32" where
  "scalar_reduce_512_8x32 l =
    (let nc = nc_8x32;
         (m, c0, c1, c2) = acc_run wide_mul_32 (scalar_reduce_512_m_8x32 l nc) (l ! 0, 0, 0 :: u32);
         m = m @ [c0];
         (p, c0, c1, c2) = acc_run wide_mul_32 (scalar_reduce_512_p_8x32 m nc) (m ! 0, 0, 0 :: u32);
         p8 = c0 + m ! 12;
         (d, c) = carry_chain 32 (0xFFFFFFFF :: u64) 0
           [ucast (p ! 0) + ucast (nc ! 0) * ucast p8, ucast (p ! 1) + ucast (nc ! 1) * ucast p8,
            ucast (p ! 2) + ucast (nc ! 2) * ucast p8, ucast (p ! 3) + ucast (nc ! 3) * ucast p8,
            ucast (p ! 4) + ucast p8, ucast (p ! 5), ucast (p ! 6), ucast (p ! 7)];
         r = \<lparr>sc8_d = map ucast d\<rparr>
     in fst (scalar_reduce_8x32 r (ucast (c + of_bool (scalar_check_overflow_8x32 r)))))"

definition scalar_mul_512_ops_8x32 :: "'x list \<Rightarrow> 'x list \<Rightarrow> 'x acc_op list" where
  "scalar_mul_512_ops_8x32 da db =
      [Muladd_fast (da ! 0) (db ! 0), Extract_fast,
       Muladd (da ! 0) (db ! 1), Muladd (da ! 1) (db ! 0), Extract,
       Muladd (da ! 0) (db ! 2), Muladd (da ! 1) (db ! 1), Muladd (da ! 2) (db ! 0), Extract,
       Muladd (da ! 0) (db ! 3), Muladd (da ! 1) (db ! 2), Muladd (da ! 2) (db ! 1),
        Muladd (da ! 3) (db ! 0), Extract,
       Muladd (da ! 0) (db ! 4), Muladd (da ! 1) (db ! 3), Muladd (da ! 2) (db ! 2),
        Muladd (da ! 3) (db ! 1), Muladd (da ! 4) (db ! 0), Extract,
       Muladd (da ! 0) (db ! 5), Muladd (da ! 1) (db ! 4), Muladd (da ! 2) (db ! 3),
        Muladd (da ! 3) (db ! 2), Muladd (da ! 4) (db ! 1), Muladd (da ! 5) (db ! 0), Extract,
       Muladd (da ! 0) (db ! 6), Muladd (da ! 1) (db ! 5), Muladd (da ! 2) (db ! 4),
        Muladd (da ! 3) (db ! 3), Muladd (da ! 4) (db ! 2), Muladd (da ! 5) (db ! 1),
        Muladd (da ! 6) (db ! 0), Extract,
       Muladd (da ! 0) (db ! 7), Muladd (da ! 1) (db ! 6), Muladd (da ! 2) (db ! 5),
        Muladd (da ! 3) (db ! 4), Muladd (da ! 4) (db ! 3), Muladd (da ! 5) (db ! 2),
        Muladd (da ! 6) (db ! 1), Muladd (da ! 7) (db ! 0), Extract,
       Muladd (da ! 1) (db ! 7), Muladd (da ! 2) (db ! 6), Muladd (da ! 3) (db ! 5),
        Muladd (da ! 4) (db ! 4), Muladd (da ! 5) (db ! 3), Muladd (da ! 6) (db ! 2),
        Muladd (da ! 7) (db ! 1), Extract,
       Muladd (da ! 2) (db ! 7), Muladd (da ! 3) (db ! 6), Muladd (da ! 4) (db ! 5),
        Muladd (da ! 5) (db ! 4), Muladd (da ! 6) (db ! 3), Muladd (da ! 7) (db ! 2), Extract,
       Muladd (da ! 3) (db ! 7), Muladd (da ! 4) (db ! 6), Muladd (da ! 5) (db ! 5),
        Muladd (da ! 6) (db ! 4), Muladd (da ! 7) (db ! 3), Extract,
       Muladd (da ! 4) (db ! 7), Muladd (da ! 5) (db ! 6), Muladd (da ! 6) (db ! 5),
        Muladd (da ! 7) (db ! 4), Extract,
       Muladd (da ! 5) (db ! 7), Muladd (da ! 6) (db ! 6), Muladd (da ! 7) (db ! 5), Extract,
       Muladd (da ! 6) (db ! 7), Muladd (da ! 7) (db ! 6), Extract,
       Muladd_fast (da ! 7) (db ! 7), Extract_fast]"

definition scalar_mul_512_8x32 :: "scalar_8x32 \<Rightarrow> scalar_8x32 \<Rightarrow> u32 list" where
  "scalar_mul_512_8x32 a b =
    (let (l, c0, c1, c2) = acc_run wide_mul_32 (scalar_mul_512_ops_8x32 (sc8_d a) (sc8_d b)) (0, 0, 0 :: u32)
     in l @ [c0])"

definition scalar_sqr_512_ops_8x32 :: "'x list \<Rightarrow> 'x acc_op list" where
  "scalar_sqr_512_ops_8x32 da =
      [Muladd_fast (da ! 0) (da ! 0), Extract_fast,
       Muladd2 (da ! 0) (da ! 1), Extract,
       Muladd2 (da ! 0) (da ! 2), Muladd (da ! 1) (da ! 1), Extract,
       Muladd2 (da ! 0) (da ! 3), Muladd2 (da ! 1) (da ! 2), Extract,
       Muladd2 (da ! 0) (da ! 4), Muladd2 (da ! 1) (da ! 3), Muladd (da ! 2) (da ! 2), Extract,
       Muladd2 (da ! 0) (da ! 5), Muladd2 (da ! 1) (da ! 4), Muladd2 (da ! 2) (da ! 3), Extract,
       Muladd2 (da ! 0) (da ! 6), Muladd2 (da ! 1) (da ! 5), Muladd2 (da ! 2) (da ! 4),
        Muladd (da ! 3) (da ! 3), Extract,
       Muladd2 (da ! 0) (da ! 7), Muladd2 (da ! 1) (da ! 6), Muladd2 (da ! 2) (da ! 5),
        Muladd2 (da ! 3) (da ! 4), Extract,
       Muladd2 (da ! 1) (da ! 7), Muladd2 (da ! 2) (da ! 6), Muladd2 (da ! 3) (da ! 5),
        Muladd (da ! 4) (da ! 4), Extract,
       Muladd2 (da ! 2) (da ! 7), Muladd2 (da ! 3) (da ! 6), Muladd2 (da ! 4) (da ! 5), Extract,
       Muladd2 (da ! 3) (da ! 7), Muladd2 (da ! 4) (da ! 6), Muladd (da ! 5) (da ! 5), Extract,
       Muladd2 (da ! 4) (da ! 7), Muladd2 (da ! 5) (da ! 6), Extract,
       Muladd2 (da ! 5) (da ! 7), Muladd (da ! 6) (da ! 6), Extract,
       Muladd2 (da ! 6) (da ! 7), Extract,
       Muladd_fast (da ! 7) (da ! 7), Extract_fast]"

definition scalar_sqr_512_8x32 :: "scalar_8x32 \<Rightarrow> u32 list" where
  "scalar_sqr_512_8x32 a =
    (let (l, c0, c1, c2) = acc_run wide_mul_32 (scalar_sqr_512_ops_8x32 (sc8_d a)) (0, 0, 0 :: u32)
     in l @ [c0])"

definition scalar_mul_8x32 :: "scalar_8x32 \<Rightarrow> scalar_8x32 \<Rightarrow> scalar_8x32" where
  "scalar_mul_8x32 a b = scalar_reduce_512_8x32 (scalar_mul_512_8x32 a b)"

definition scalar_sqr_8x32 :: "scalar_8x32 \<Rightarrow> scalar_8x32" where
  "scalar_sqr_8x32 a = scalar_reduce_512_8x32 (scalar_sqr_512_8x32 a)"

section \<open>Shifts and comparison\<close>

definition scalar_shr_int_8x32 :: "scalar_8x32 \<Rightarrow> nat \<Rightarrow> scalar_8x32 \<times> int" where
  "scalar_shr_int_8x32 r n =
    (let d = sc8_d r;
         ret = d ! 0 AND (push_bit n 1 - 1);
         d = map (\<lambda>i. drop_bit n (d ! i) + push_bit (32 - n) (d ! (i + 1))) [0..<7] @ [drop_bit n (d ! 7)]
     in (\<lparr>sc8_d = d\<rparr>, sint ret))"

definition scalar_split_128_8x32 :: "scalar_8x32 \<Rightarrow> scalar_8x32 \<times> scalar_8x32" where
  "scalar_split_128_8x32 a =
    (let d = sc8_d a
     in (\<lparr>sc8_d = [d ! 0, d ! 1, d ! 2, d ! 3, 0, 0, 0, 0]\<rparr>,
         \<lparr>sc8_d = [d ! 4, d ! 5, d ! 6, d ! 7, 0, 0, 0, 0]\<rparr>))"

definition scalar_eq_8x32 :: "scalar_8x32 \<Rightarrow> scalar_8x32 \<Rightarrow> bool" where
  "scalar_eq_8x32 a b =
    (let x = sc8_d a; y = sc8_d b
     in (x ! 0 XOR y ! 0) OR (x ! 1 XOR y ! 1) OR (x ! 2 XOR y ! 2) OR (x ! 3 XOR y ! 3) OR
        (x ! 4 XOR y ! 4) OR (x ! 5 XOR y ! 5) OR (x ! 6 XOR y ! 6) OR (x ! 7 XOR y ! 7) = 0)"

definition scalar_mul_shift_var_8x32 :: "scalar_8x32 \<Rightarrow> scalar_8x32 \<Rightarrow> nat \<Rightarrow> scalar_8x32" where
  "scalar_mul_shift_var_8x32 a b shift =
    (let l = scalar_mul_512_8x32 a b;
         shiftlimbs = shift div 32;
         shiftlow = shift mod 32;
         shifthigh = 32 - shiftlow;
         d = map (\<lambda>i. if shift < 512 - 32 * i
               then drop_bit shiftlow (l ! (i + shiftlimbs)) OR
                 (if shift < 480 - 32 * i \<and> shiftlow \<noteq> 0
                  then push_bit shifthigh (l ! (i + 1 + shiftlimbs)) else 0)
               else 0) [0..<7] @
             [if shift < 288 then drop_bit shiftlow (l ! (7 + shiftlimbs)) else 0]
     in scalar_cadd_bit_8x32 \<lparr>sc8_d = d\<rparr> 0
          (sint (drop_bit ((shift - 1) mod 32) (l ! ((shift - 1) div 32)) AND 1)))"

definition scalar_const_8x32 ::
    "u32 \<Rightarrow> u32 \<Rightarrow> u32 \<Rightarrow> u32 \<Rightarrow> u32 \<Rightarrow> u32 \<Rightarrow> u32 \<Rightarrow> u32 \<Rightarrow> scalar_8x32" where
  "scalar_const_8x32 d7 d6 d5 d4 d3 d2 d1 d0 =
    \<lparr>sc8_d = [d0, d1, d2, d3, d4, d5, d6, d7]\<rparr>"

definition S8x32 :: "scalar_8x32 scalar_ops" where
  "S8x32 = \<lparr>
    scalar_clear = scalar_clear_8x32, scalar_set_int = scalar_set_int_8x32,
    scalar_get_bits = scalar_get_bits_8x32, scalar_get_bits_var = scalar_get_bits_var_8x32,
    scalar_set_b32 = scalar_set_b32_8x32, scalar_get_b32 = scalar_get_b32_8x32,
    scalar_add = scalar_add_8x32, scalar_cadd_bit = scalar_cadd_bit_8x32,
    scalar_mul = scalar_mul_8x32, scalar_shr_int = scalar_shr_int_8x32,
    scalar_sqr = scalar_sqr_8x32, scalar_negate = scalar_negate_8x32,
    scalar_is_zero = scalar_is_zero_8x32, scalar_is_one = scalar_is_one_8x32,
    scalar_is_even = scalar_is_even_8x32, scalar_is_high = scalar_is_high_8x32,
    scalar_cond_negate = scalar_cond_negate_8x32, scalar_eq = scalar_eq_8x32,
    scalar_split_128 = scalar_split_128_8x32, scalar_mul_shift_var = scalar_mul_shift_var_8x32,
    scalar_const = scalar_const_8x32\<rparr>"

section \<open>Vectors of eight limbs\<close>

lemma mask_32: "(0xFFFFFFFF :: u64) = mask LENGTH(32)"
  by (simp add: mask_numeral)

lemma list8: "length d = 8 \<Longrightarrow> d = [d ! 0, d ! 1, d ! 2, d ! 3, d ! 4, d ! 5, d ! 6, d ! 7]"
  using len8_cases [of d] by auto

lemma limbs8_less: "length d = 8 \<Longrightarrow> limbs_val 32 d < 2 ^ 256" for d :: "u32 list"
  using limbs_val_full_less [of d] by simp

lemma scalar_inj_8x32: "length (sc8_d a) = 8 \<Longrightarrow> length (sc8_d b) = 8 \<Longrightarrow>
    scalar_val_8x32 a = scalar_val_8x32 b \<Longrightarrow> a = b"
  using limbs_val_inj [of "sc8_d a" "sc8_d b" 32] uint_bounded [where 'a=32]
  by (simp add: scalar_val_8x32_def)

lemma n_8x32_val: "limbs_val 32 n_8x32 = scalar_n" "length n_8x32 = 8"
  by (simp_all add: n_8x32_def scalar_n_def)

lemma nc_8x32_eq: "nc_8x32 = [0x2FC9BEBF, 0x402DA173, 0x50B75FC4, 0x45512319, 1]"
  by (simp add: nc_8x32_def n_8x32_def)

lemma nh_8x32_val: "limbs_val 32 nh_8x32 = scalar_n_half" "length nh_8x32 = 8"
  by (simp_all add: nh_8x32_def scalar_n_half_def)

lemma word_max_32: "\<not> 0xFFFFFFFF < (x :: u32)"
  using uint_bounded [of x] by (simp add: word_less_def)

lemma check_overflow_8x32:
  assumes "length (sc8_d a) = 8"
  shows "scalar_check_overflow_8x32 a \<longleftrightarrow> scalar_n \<le> scalar_val_8x32 a"
proof -
  obtain d0 d1 d2 d3 d4 d5 d6 d7 where d: "sc8_d a = [d0, d1, d2, d3, d4, d5, d6, d7]"
    using len8_cases [OF assms] by auto
  define f7 where "f7 = no_less d7 0xFFFFFFFF (False, False)"
  define f6 where "f6 = no_less d6 0xFFFFFFFF f7"
  define f5 where "f5 = no_less d5 0xFFFFFFFF f6"
  have 7: "flags_ok [d7] [0xFFFFFFFF] f7 \<and> \<not> fst f7"
    unfolding f7_def by (rule flags_top [OF word_max_32 flags_init]) simp
  have 6: "flags_ok [d6, d7] [0xFFFFFFFF, 0xFFFFFFFF] f6 \<and> \<not> fst f6"
    unfolding f6_def using flags_top [OF word_max_32] 7 by blast
  have 5: "flags_ok [d5, d6, d7] [0xFFFFFFFF, 0xFFFFFFFF, 0xFFFFFFFF] f5"
    unfolding f5_def using flags_top [OF word_max_32] 6 by blast
  note f1 = flags_both(2) [OF flags_both(2) [OF flags_both(2) [OF flags_both(1) [OF 5]]]]
  show ?thesis
    using flags_final(2) [OF f1, of d0 "0xD0364141" d1 "0xBFD25E8C" d2 "0xAF48A03B" d3 "0xBAAEDCE6" d4 "0xFFFFFFFE"] n_8x32_val(1)
    by (simp add: scalar_check_overflow_8x32_def scalar_val_8x32_def n_8x32_def d Let_def f5_def f6_def f7_def
      del: limbs_val.simps)
qed

lemma is_high_8x32:
  assumes "length (sc8_d a) = 8"
  shows "scalar_is_high_8x32 a \<longleftrightarrow> scalar_n_half < scalar_val_8x32 a"
proof -
  obtain d0 d1 d2 d3 d4 d5 d6 d7 where d: "sc8_d a = [d0, d1, d2, d3, d4, d5, d6, d7]"
    using len8_cases [OF assms] by auto
  note f1 = flags_both(2) [OF flags_both(2) [OF flags_both(2) [OF flags_max [OF word_max_32 flags_max [OF word_max_32
      flags_max [OF word_max_32 flags_both(1) [OF flags_init]]]]]]]
  show ?thesis
    using flags_final(1) [OF f1, of d0 "0x681B20A0" d1 "0xDFE92F46" d2 "0x57A4501D" d3 "0x5D576E73" d4 d5 d6 d7 "0x7FFFFFFF"]
      nh_8x32_val(1)
    by (simp add: scalar_is_high_8x32_def scalar_val_8x32_def nh_8x32_def d Let_def del: limbs_val.simps)
qed

section \<open>Additive operations\<close>

lemma add_chain_8x32:
  fixes xs ys :: "u32 list"
  assumes "length xs = 8" "length ys = 8"
    "carry_chain 32 (0xFFFFFFFF :: u64) 0 (map2 (\<lambda>x y. ucast x + ucast y) xs ys) = (r, t)"
  shows "limbs_val 32 (map ucast r :: u32 list) + 2 ^ 256 * uint t = limbs_val 32 xs + limbs_val 32 ys"
    "length r = 8"
    "limbs_val 32 (map ucast r :: u32 list) = (limbs_val 32 xs + limbs_val 32 ys) mod 2 ^ 256"
proof -
  show 1: "limbs_val 32 (map ucast r :: u32 list) + 2 ^ 256 * uint t = limbs_val 32 xs + limbs_val 32 ys"
    and l: "length r = 8"
    using limbs_add_chain [where 'b=64, of xs ys r t] assms by (simp_all add: mask_32)
  show "limbs_val 32 (map ucast r :: u32 list) = (limbs_val 32 xs + limbs_val 32 ys) mod 2 ^ 256"
    using mod_of_sum [OF 1] limbs8_less [of "map ucast r"] l by simp
qed

lemma reduce_8x32:
  assumes "length (sc8_d r) = 8"
  shows "length (sc8_d (fst (scalar_reduce_8x32 r (of_bool b)))) = 8 \<and>
    scalar_val_8x32 (fst (scalar_reduce_8x32 r (of_bool b)))
      = (scalar_val_8x32 r + of_bool b * scalar_nc) mod 2 ^ 256 \<and>
    snd (scalar_reduce_8x32 r (of_bool b)) = of_bool b"
proof -
  let ?ys = "map ((*) (of_bool b)) nc_8x32 @ [0, 0, 0]"
  obtain d0 d1 d2 d3 d4 d5 d6 d7 where d: "sc8_d r = [d0, d1, d2, d3, d4, d5, d6, d7]"
    using len8_cases [OF assms] by auto
  obtain r' t where c: "carry_chain 32 (0xFFFFFFFF :: u64) 0 (map2 (\<lambda>x y. ucast x + ucast y) (sc8_d r) ?ys) = (r', t)"
    by force
  have "map2 (\<lambda>x c. ucast x + ucast (of_bool b * c)) (take 5 (sc8_d r)) nc_8x32 @ map ucast (drop 5 (sc8_d r))
      = map2 (\<lambda>x y. ucast x + ucast y :: u64) (sc8_d r) ?ys"
    by (simp add: d nc_8x32_eq)
  then have "scalar_reduce_8x32 r (of_bool b) = (\<lparr>sc8_d = map ucast r'\<rparr>, of_bool b)"
    using c by (simp add: scalar_reduce_8x32_def Let_def del: of_bool_eq_iff)
  moreover have "limbs_val 32 ?ys = of_bool b * scalar_nc"
    by (cases b) (simp_all add: nc_8x32_eq scalar_nc_def)
  ultimately show ?thesis
    using add_chain_8x32 [OF _ _ c] assms by (simp add: scalar_val_8x32_def nc_8x32_eq)
qed

lemma reduce_check_8x32:
  assumes "length (sc8_d r) = 8"
  shows "scalar_wf_8x32 (fst (scalar_reduce_8x32 r (of_bool (scalar_check_overflow_8x32 r)))) \<and>
    scalar_val_8x32 (fst (scalar_reduce_8x32 r (of_bool (scalar_check_overflow_8x32 r))))
      = scalar_val_8x32 r mod scalar_n"
  using reduce_8x32 [OF assms] scalar_reduce_int [of "scalar_val_8x32 r"] limbs8_less [OF assms]
    check_overflow_8x32 [OF assms]
  by (simp add: scalar_wf_8x32_def scalar_val_8x32_def)

lemma add_8x32:
  assumes "scalar_wf_8x32 a" "scalar_wf_8x32 b"
  shows "scalar_wf_8x32 (fst (scalar_add_8x32 a b)) \<and>
    scalar_val_8x32 (fst (scalar_add_8x32 a b)) = (scalar_val_8x32 a + scalar_val_8x32 b) mod scalar_n \<and>
    snd (scalar_add_8x32 a b) = of_bool (scalar_n \<le> scalar_val_8x32 a + scalar_val_8x32 b)"
proof -
  obtain d t where c: "carry_chain 32 (0xFFFFFFFF :: u64) 0 (map2 (\<lambda>x y. ucast x + ucast y) (sc8_d a) (sc8_d b)) = (d, t)"
    by force
  let ?r = "\<lparr>sc8_d = map ucast d\<rparr>" and ?s = "scalar_val_8x32 a + scalar_val_8x32 b"
  have l: "length (sc8_d a) = 8" "length (sc8_d b) = 8" using assms by (simp_all add: scalar_wf_8x32_def)
  note ch = add_chain_8x32 [OF l c]
  have r: "scalar_val_8x32 ?r + 2 ^ 256 * uint t = ?s" "length (sc8_d ?r) = 8"
    using ch by (simp_all add: scalar_val_8x32_def)
  have i: "uint t + of_bool (scalar_n \<le> scalar_val_8x32 ?r) = of_bool (scalar_n \<le> ?s)"
    "(scalar_val_8x32 ?r + of_bool (scalar_n \<le> ?s) * scalar_nc) mod 2 ^ 256 = ?s mod scalar_n"
    using scalar_reduce_once [OF r(1)] limbs8_less [OF r(2)] assms
    by (simp_all add: scalar_val_8x32_def scalar_wf_8x32_def)
  have o: "ucast (t + of_bool (scalar_check_overflow_8x32 ?r)) = (of_bool (scalar_n \<le> ?s) :: u32)"
  proof -
    have "uint (t + of_bool (scalar_check_overflow_8x32 ?r)) = of_bool (scalar_n \<le> ?s)"
      using i(1) check_overflow_8x32 [OF r(2)] uint_add_of_bool [of t "scalar_n \<le> scalar_val_8x32 ?r"] by simp
    then show ?thesis by (simp add: word_uint_eq_iff uint_ucast)
  qed
  have "scalar_add_8x32 a b = (fst (scalar_reduce_8x32 ?r (of_bool (scalar_n \<le> ?s))), of_bool (scalar_n \<le> ?s))"
    unfolding scalar_add_8x32_def c Let_def prod.case o by (simp add: case_prod_beta)
  then show ?thesis using reduce_8x32 [OF r(2)] i(2) by (simp add: scalar_wf_8x32_def)
qed

lemma is_zero_8x32:
  assumes "length (sc8_d a) = 8"
  shows "scalar_is_zero_8x32 a \<longleftrightarrow> scalar_val_8x32 a = 0"
proof -
  obtain d0 d1 d2 d3 d4 d5 d6 d7 where d: "sc8_d a = [d0, d1, d2, d3, d4, d5, d6, d7]"
    using len8_cases [OF assms] by auto
  show ?thesis
    unfolding scalar_val_8x32_def limbs_val_eq_0 d scalar_is_zero_8x32_def Let_def
    by (simp add: word_or_eq_0 uint_0_iff)
qed

lemma is_one_8x32:
  assumes "length (sc8_d a) = 8"
  shows "scalar_is_one_8x32 a \<longleftrightarrow> scalar_val_8x32 a = 1"
proof -
  obtain d0 d1 d2 d3 d4 d5 d6 d7 where d: "sc8_d a = [d0, d1, d2, d3, d4, d5, d6, d7]"
    using len8_cases [OF assms] by auto
  have "scalar_is_one_8x32 a \<longleftrightarrow> a = scalar_set_int_8x32 1"
    by (cases a) (use d in \<open>simp add: scalar_is_one_8x32_def word_or_eq_0 word_xor_eq_iff scalar_set_int_8x32_def\<close>)
  also have "\<dots> \<longleftrightarrow> scalar_val_8x32 a = scalar_val_8x32 (scalar_set_int_8x32 1)"
    using scalar_inj_8x32 [of a "scalar_set_int_8x32 1"] assms by (auto simp: scalar_set_int_8x32_def)
  finally show ?thesis by (simp add: scalar_set_int_8x32_def scalar_val_8x32_def)
qed

lemma is_even_8x32:
  assumes "length (sc8_d a) = 8"
  shows "scalar_is_even_8x32 a \<longleftrightarrow> even (scalar_val_8x32 a)"
  using len8_cases [OF assms]
  by (auto simp: scalar_is_even_8x32_def scalar_val_8x32_def word_and_1_odd simp del: )

lemma limbs_single_8x32:
  "0 \<le> q \<Longrightarrow> q < 8 \<Longrightarrow>
    limbs_val 32 (map (\<lambda>i. if q = uint i then p else 0) [0, 1, 2, 3, 4, 5, 6, 7 :: u32]) = 2 ^ (32 * nat q) * uint p"
  for p :: u32
proof -
  assume "0 \<le> q" "q < 8"
  then consider "q = 0" | "q = 1" | "q = 2" | "q = 3" | "q = 4" | "q = 5" | "q = 6" | "q = 7" by linarith
  then show ?thesis by cases simp_all
qed

lemma cadd_addends_8x32:
  fixes pos :: u32
  assumes "uint pos < 512"
  shows "limbs_val 32 (map (\<lambda>i. push_bit (unat (pos AND 0x1F)) (of_bool (drop_bit 5 pos = i)) :: u32) [0, 1, 2, 3, 4, 5, 6, 7])
      = (if uint pos < 256 then 2 ^ nat (uint pos) else 0)"
proof -
  define k q where "k = uint pos mod 32" and "q = uint pos div 32"
  have u: "unat (pos AND 0x1F) = nat k"
    using uint_and_mask [of pos 5] by (simp add: k_def mask_numeral unat_eq_nat_uint)
  have i: "drop_bit 5 pos = i \<longleftrightarrow> q = uint i" for i
    by (simp add: word_uint_eq_iff uint_drop_bit q_def)
  have e: "(\<lambda>i. push_bit (unat (pos AND 0x1F)) (of_bool (drop_bit 5 pos = i)) :: u32)
      = (\<lambda>i. if q = uint i then push_bit (nat k) 1 else 0)"
    by (simp add: fun_eq_iff u i)
  have k: "0 \<le> k" "k < 32" "uint pos = k + 32 * q" "0 \<le> q"
    by (simp_all add: k_def q_def pos_imp_zdiv_nonneg_iff)
  have p: "uint (push_bit (nat k) 1 :: u32) = 2 ^ nat k"
  proof -
    have "uint (1 :: u32) * 2 ^ nat k < 2 ^ LENGTH(32)"
      using k power_strict_increasing [of "nat k" 32 "2 :: int"] by simp
    then show ?thesis by (simp only: uint_push_bit_noov) simp
  qed
  show ?thesis
  proof (cases "uint pos < 256")
    case True
    then have q: "q < 8" using k by linarith
    have "(2 :: int) ^ (32 * nat q) * 2 ^ nat k = 2 ^ nat (uint pos)"
      using k by (simp add: nat_add_distrib nat_mult_distrib flip: power_add)
    then show ?thesis unfolding e limbs_single_8x32 [OF k(4) q] p using True by simp
  next
    case False
    then have "8 \<le> q" using k by linarith
    then show ?thesis unfolding e using False by simp
  qed
qed

lemma cadd_bit_8x32:
  assumes "length (sc8_d a) = 8" "k < 256" "scalar_val_8x32 a + of_bool f * 2 ^ k < 2 ^ 256"
  shows "length (sc8_d (scalar_cadd_bit_8x32 a k (of_bool f))) = 8 \<and>
    scalar_val_8x32 (scalar_cadd_bit_8x32 a k (of_bool f)) = scalar_val_8x32 a + of_bool f * 2 ^ k"
proof -
  define pos :: u32 where "pos = of_nat k + ((word_of_int (of_bool f) - 1) AND 0x100)"
  have "uint (of_nat k :: u32) = int k"
    using assms(2) by (simp add: unsigned_of_nat take_bit_nat_eq_self)
  then have pos: "uint pos = int k + (if f then 0 else 256)"
    using assms(2) by (cases f) (simp_all add: pos_def uint_add_noov)
  let ?ys = "map (\<lambda>i. push_bit (unat (pos AND 0x1F)) (of_bool (drop_bit 5 pos = i)) :: u32) [0, 1, 2, 3, 4, 5, 6, 7]"
  have ys: "limbs_val 32 ?ys = of_bool f * 2 ^ k"
    using cadd_addends_8x32 [of pos] assms(2) by (simp add: pos split: if_splits)
  obtain r t where c: "carry_chain 32 (0xFFFFFFFF :: u64) 0 (map2 (\<lambda>x y. ucast x + ucast y) (sc8_d a) ?ys) = (r, t)"
    by force
  have "map2 (\<lambda>x i. ucast x + ucast (push_bit (unat (pos AND 0x1F)) (of_bool (drop_bit 5 pos = i)) :: u32))
      (sc8_d a) [0, 1, 2, 3, 4, 5, 6, 7] = map2 (\<lambda>x y. ucast x + ucast y :: u64) (sc8_d a) ?ys"
    by (simp only: map2_map2)
  then have "scalar_cadd_bit_8x32 a k (of_bool f) = \<lparr>sc8_d = map ucast r\<rparr>"
    using c by (simp only: scalar_cadd_bit_8x32_def Let_def pos_def [symmetric] prod.case)
  moreover have "limbs_val 32 (map ucast r :: u32 list) = scalar_val_8x32 a + of_bool f * 2 ^ k" "length r = 8"
    using add_chain_8x32(2,3) [OF assms(1) _ c] assms(3)
    by (simp_all only: ys scalar_val_8x32_def) (simp_all)
  ultimately show ?thesis by (simp add: scalar_val_8x32_def)
qed

lemma set_b32_8x32:
  assumes "length b = 32"
  shows "scalar_wf_8x32 (fst (scalar_set_b32_8x32 b)) \<and>
    scalar_val_8x32 (fst (scalar_set_b32_8x32 b)) = be_val b mod scalar_n \<and>
    snd (scalar_set_b32_8x32 b) = of_bool (scalar_n \<le> be_val b)"
proof -
  let ?r = "\<lparr>sc8_d = map (\<lambda>i. be_word b (31 - 4 * i) 4) [0..<8]\<rparr>"
  have v: "scalar_val_8x32 ?r = be_val b"
    using limbs_val_be_word [of b 4 8, where 'a=32] assms by (simp add: scalar_val_8x32_def)
  have l: "length (sc8_d ?r) = 8" by simp
  show ?thesis
    using reduce_check_8x32 [OF l] reduce_8x32 [OF l] check_overflow_8x32 [OF l] v
    by (simp add: scalar_set_b32_8x32_def Let_def del: upt_rec_numeral)
qed

lemma get_b32_8x32: "length (sc8_d a) = 8 \<Longrightarrow> scalar_get_b32_8x32 a = be_bytes 32 (scalar_val_8x32 a)"
  using concat_word_bytes [of 4 "sc8_d a"] by (simp add: scalar_get_b32_8x32_def scalar_val_8x32_def)

lemma neg_addends_8x32:
  fixes d :: "u32 list"
  assumes "length d = 8"
    and xs: "xs = (ucast (NOT (d ! 0)) + ucast (n_8x32 ! 0) + 1 :: u64) #
      map2 (\<lambda>x n. ucast (NOT x) + ucast n) (tl d) (tl n_8x32)"
  shows "limbs_val 32 xs = 2 ^ 256 + scalar_n - limbs_val 32 d"
    "\<forall>x \<in> set xs. uint x + 2 ^ 32 \<le> 2 ^ 64" "length xs = 8"
proof -
  obtain d0 d1 d2 d3 d4 d5 d6 d7 where d: "d = [d0, d1, d2, d3, d4, d5, d6, d7]"
    using len8_cases [OF assms(1)] by auto
  obtain n0 n1 n2 n3 n4 n5 n6 n7 where n: "n_8x32 = [n0, n1, n2, n3, n4, n5, n6, n7]"
    using len8_cases [OF n_8x32_val(2)] by auto
  have u: "uint (ucast (NOT x) + ucast n :: u64) = 2 ^ 32 - 1 - uint x + uint n" for x n :: u32
    by (simp add: uint_ucast_add uint_not)
  have u1: "uint (ucast (NOT x) + ucast n + 1 :: u64) = 2 ^ 32 - uint x + uint n" for x n :: u32
  proof -
    have "uint n < 4294967296" using uint_bounded [of n] by simp
    then have "uint n - uint x < 18446744069414584320" using uint_nonnegative [of x] by linarith
    then show ?thesis using u [of x n] by (subst uint_add_noov) simp_all
  qed
  have b: "2 ^ 32 - uint x + uint n + 2 ^ 32 \<le> 2 ^ 64" "2 ^ 32 - 1 - uint x + uint n + 2 ^ 32 \<le> 2 ^ 64"
    for x n :: u32
  proof -
    have "uint n < 4294967296" using uint_bounded [of n] by simp
    then have "uint n - uint x \<le> 18446744065119617024" using uint_nonnegative [of x] by linarith
    then show "2 ^ 32 - uint x + uint n + 2 ^ 32 \<le> 2 ^ 64" "2 ^ 32 - 1 - uint x + uint n + 2 ^ 32 \<le> 2 ^ 64"
      by simp_all
  qed
  show "limbs_val 32 xs = 2 ^ 256 + scalar_n - limbs_val 32 d"
    using n_8x32_val(1) by (simp add: xs d n u u1)
  show "\<forall>x \<in> set xs. uint x + 2 ^ 32 \<le> 2 ^ 64"
    unfolding xs d n using b by (simp add: u u1)
  show "length xs = 8" by (simp add: xs d n)
qed

lemma negate_8x32:
  assumes "scalar_wf_8x32 a"
  shows "scalar_wf_8x32 (scalar_negate_8x32 a) \<and>
    scalar_val_8x32 (scalar_negate_8x32 a) = (- scalar_val_8x32 a) mod scalar_n"
proof -
  let ?v = "scalar_val_8x32 a"
  have l: "length (sc8_d a) = 8" and n: "?v < scalar_n" using assms by (simp_all add: scalar_wf_8x32_def)
  have 0: "0 \<le> ?v" by (simp add: scalar_val_8x32_def)
  let ?xs = "(ucast (NOT (sc8_d a ! 0)) + ucast (n_8x32 ! 0) + 1 :: u64) #
      map2 (\<lambda>x n. ucast (NOT x) + ucast n) (tl (sc8_d a)) (tl n_8x32)"
  note xs = neg_addends_8x32 [OF l refl]
  show ?thesis
  proof (cases "?v = 0")
    case True
    then have "scalar_negate_8x32 a = \<lparr>sc8_d = map ucast (fst (carry_chain 32 (0 :: u64) 0 ?xs))\<rparr>"
      using is_zero_8x32 [OF l] by (simp add: scalar_negate_8x32_def Let_def case_prod_beta)
    also have "\<dots> = scalar_clear_8x32"
      unfolding carry_chain_zero xs(3) scalar_clear_8x32_def by (simp add: numeral_eq_Suc)
    finally have "scalar_negate_8x32 a = scalar_clear_8x32" .
    then show ?thesis using True
      by (simp add: scalar_wf_8x32_def scalar_val_8x32_def scalar_clear_8x32_def)
  next
    case False
    obtain r t where c: "carry_chain 32 (0xFFFFFFFF :: u64) 0 ?xs = (r, t)" by force
    have e: "scalar_negate_8x32 a = \<lparr>sc8_d = map ucast r\<rparr>"
      using False c is_zero_8x32 [OF l] by (simp add: scalar_negate_8x32_def Let_def del: carry_chain.simps)
    have lim: "limbs_val 32 (map ucast r :: u32 list) + 2 ^ 256 * uint t = 2 ^ 256 + scalar_n - ?v"
      and lr: "length r = 8"
      using carry_chain_limbs [where 'a=32, of ?xs r t] c xs
      by (simp_all add: mask_32 scalar_val_8x32_def del: list.set set_simps)
    have "limbs_val 32 (map ucast r :: u32 list) = (scalar_n - ?v + 2 ^ 256) mod 2 ^ 256"
      using mod_of_sum [OF lim] limbs8_less [of "map ucast r"] lr by (simp add: algebra_simps)
    also have "\<dots> = (scalar_n - ?v) mod 2 ^ 256" by (rule mod_add_self2)
    also have "\<dots> = scalar_n - ?v" using n 0 by (intro mod_pos_pos_trivial) (simp_all add: scalar_n_def)
    finally have "limbs_val 32 (map ucast r :: u32 list) = scalar_n - ?v" .
    moreover have "0 < ?v" using False 0 by linarith
    ultimately show ?thesis using e lr scalar_neg_int [of ?v] n
      by (simp add: scalar_wf_8x32_def scalar_val_8x32_def)
  qed
qed

lemma cond_negate_8x32:
  assumes "length (sc8_d a) = 8"
  shows "scalar_cond_negate_8x32 a f = (if f then (scalar_negate_8x32 a, - 1) else (a, 1))"
proof -
  obtain d0 d1 d2 d3 d4 d5 d6 d7 where d: "sc8_d a = [d0, d1, d2, d3, d4, d5, d6, d7]"
    using len8_cases [OF assms] by auto
  show ?thesis
  proof (cases f)
    case True
    have "(ucast ((n_8x32 ! 0 + 1)) :: u64) = ucast (n_8x32 ! 0) + 1" by (simp add: n_8x32_def)
    then show ?thesis using True
      by (simp add: scalar_cond_negate_8x32_def scalar_negate_8x32_def Let_def case_prod_beta add.assoc
        del: carry_chain.simps)
  next
    case False
    let ?xs = "map2 (\<lambda>x y. ucast x + ucast y :: u64) (sc8_d a) [0, 0, 0, 0, 0, 0, 0, 0 :: u32]"
    have xs: "(ucast (sc8_d a ! 0 XOR (of_bool (\<not> f) - 1)) + ucast ((n_8x32 ! 0 + 1) AND (of_bool (\<not> f) - 1))) #
        map2 (\<lambda>x n. ucast (x XOR (of_bool (\<not> f) - 1)) + ucast (n AND (of_bool (\<not> f) - 1))) (tl (sc8_d a)) (tl n_8x32) = ?xs"
      using False by (simp add: d n_8x32_def)
    let ?m = "ucast (0xFFFFFFFF * of_bool (\<not> scalar_is_zero_8x32 a) :: u32) :: u64"
    have "\<lparr>sc8_d = map ucast (fst (carry_chain 32 ?m 0 ?xs))\<rparr> = a"
    proof (cases "scalar_is_zero_8x32 a")
      case True
      then have "scalar_val_8x32 a = scalar_val_8x32 scalar_clear_8x32"
        using is_zero_8x32 [OF assms] by (simp add: scalar_val_8x32_def scalar_clear_8x32_def)
      then have "a = scalar_clear_8x32" using scalar_inj_8x32 assms by (simp add: scalar_clear_8x32_def)
      moreover have "\<lparr>sc8_d = map ucast (fst (carry_chain 32 ?m 0 ?xs))\<rparr> = scalar_clear_8x32"
        using True by (simp add: carry_chain_zero d scalar_clear_8x32_def del: carry_chain.simps)
      ultimately show ?thesis by simp
    next
      case False
      obtain r t where c: "carry_chain 32 (0xFFFFFFFF :: u64) 0 ?xs = (r, t)" by force
      have "scalar_val_8x32 \<lparr>sc8_d = map ucast r\<rparr> = scalar_val_8x32 a" "length r = 8"
        using add_chain_8x32(2,3) [OF assms _ c] limbs8_less [OF assms] by (simp_all add: scalar_val_8x32_def)
      then have "\<lparr>sc8_d = map ucast r\<rparr> = a" using assms by (intro scalar_inj_8x32) simp_all
      then show ?thesis using False c by (simp del: carry_chain.simps)
    qed
    then show ?thesis
      unfolding scalar_cond_negate_8x32_def Let_def xs using False by (simp add: case_prod_beta)
  qed
qed

lemma get_bits_8x32:
  assumes "length (sc8_d a) = 8" "offset + count \<le> 256" "0 < count" "(offset + count - 1) div 32 = offset div 32"
  shows "uint (scalar_get_bits_8x32 a offset count) = scalar_val_8x32 a div 2 ^ offset mod 2 ^ count"
proof -
  have "offset mod 32 + count \<le> 32" using same_limb [OF assms(4,3)] by simp
  moreover have "offset div 32 < 8" using assms(2,3) by (simp add: div_less_iff_less_mult)
  ultimately show ?thesis
    using get_bits_limbs [of offset "sc8_d a" count] uint_take_bit_word [of count, where 'a=32] assms
    by (simp add: scalar_get_bits_8x32_def push_bit_1_mask scalar_val_8x32_def del: push_bit_of_1)
qed

lemma get_bits_var_8x32:
  assumes "length (sc8_d a) = 8" "offset + count \<le> 256" "0 < count" "count < 32"
  shows "uint (scalar_get_bits_var_8x32 a offset count) = scalar_val_8x32 a div 2 ^ offset mod 2 ^ count"
proof (cases "(offset + count - 1) div 32 = offset div 32")
  case True
  then show ?thesis using get_bits_8x32 [OF assms(1-3)] by (simp add: scalar_get_bits_var_8x32_def)
next
  case False
  then have "offset div 32 + 1 < 8" using next_limb [of offset count 32 8] assms by simp
  then show ?thesis
    using False get_bits_var_limbs [of offset "sc8_d a" count] uint_take_bit_word [of count, where 'a=32] assms
    by (simp add: scalar_get_bits_var_8x32_def push_bit_1_mask scalar_val_8x32_def del: push_bit_of_1)
qed

lemma shr_int_8x32:
  assumes "length (sc8_d a) = 8" "0 < n" "n < 16"
  shows "length (sc8_d (fst (scalar_shr_int_8x32 a n))) = 8 \<and>
    scalar_val_8x32 (fst (scalar_shr_int_8x32 a n)) = scalar_val_8x32 a div 2 ^ n \<and>
    snd (scalar_shr_int_8x32 a n) = scalar_val_8x32 a mod 2 ^ n"
proof -
  let ?v = "limbs_val 32 (sc8_d a)"
  let ?d = "map (\<lambda>i. drop_bit n (sc8_d a ! i) + push_bit (32 - n) (sc8_d a ! (i + 1))) [0..<7] @ [drop_bit n (sc8_d a ! 7)]"
  have "?d = limbs_of 32 8 (drop_bit n ?v)"
    using shr_limbs [of "sc8_d a" 7 n] assms by simp
  moreover have "0 \<le> drop_bit n ?v" "drop_bit n ?v < 2 ^ 256"
    using limbs8_less [OF assms(1)] zdiv_mono2 [of ?v 1 "2 ^ n"]
    by (simp_all add: drop_bit_eq_div pos_imp_zdiv_nonneg_iff)
  ultimately have "limbs_val 32 ?d = drop_bit n ?v"
    using limbs_val_limbs_of [of 32 8 "drop_bit n ?v", where 'a=32] by (simp add: take_bit_int_eq_self)
  moreover have "sint (sc8_d a ! 0 AND mask n) = ?v mod 2 ^ n"
  proof -
    have "sc8_d a ! 0 AND mask n = word_of_int (take_bit n (drop_bit 0 ?v))"
      using get_bits_limbs [of 0 "sc8_d a" n] assms by simp
    then have u: "uint (sc8_d a ! 0 AND mask n) = ?v mod 2 ^ n"
      using uint_take_bit_word [of n 0 ?v, where 'a=32] assms by simp
    have "?v mod 2 ^ n < 2 ^ n" by simp
    also have "\<dots> \<le> 2 ^ 31" using assms by (intro power_increasing) simp_all
    finally show ?thesis using u by (simp add: sint_small)
  qed
  ultimately show ?thesis
    by (simp add: scalar_shr_int_8x32_def Let_def scalar_val_8x32_def push_bit_1_mask drop_bit_eq_div del: push_bit_of_1)
qed

section \<open>Multiplication\<close>

lemma wide_mul_32_law: "uint (snd (wide_mul_32 a b)) + 2 ^ LENGTH(32) * uint (fst (wide_mul_32 a b)) = uint a * uint b"
proof -
  have t: "uint (ucast a * ucast b :: u64) = uint a * uint b"
    using wval_uintD [OF wval_mul32 [of a "2 ^ 32 - 1" b "2 ^ 32 - 1"]] uint_bounded [of a] uint_bounded [of b] by simp
  have "uint a * uint b \<le> (2 ^ 32 - 1) * (2 ^ 32 - 1)"
    using uint_bounded [of a] uint_bounded [of b] by (intro mult_mono) simp_all
  then have "uint a * uint b div 2 ^ 32 < 2 ^ 32" by (simp add: div_less_iff_less_mult)
  then have "uint a * uint b div 2 ^ 32 mod 2 ^ 32 = uint a * uint b div 2 ^ 32"
    by (intro mod_pos_pos_trivial) (simp_all add: pos_imp_zdiv_nonneg_iff)
  then show ?thesis by (simp add: wide_mul_32_def Let_def uint_ucast uint_drop_bit t)
qed

interpretation wm32: wide_mul wide_mul_32
  by unfold_locales (rule wide_mul_32_law)

lemma mul_512_total_8x32:
  "acc_total w (scalar_mul_512_ops_8x32 [a0, a1, a2, a3, a4, a5, a6, a7] [b0, b1, b2, b3, b4, b5, b6, b7])
    = (a0 + 2 ^ w * (a1 + 2 ^ w * (a2 + 2 ^ w * (a3 + 2 ^ w * (a4 + 2 ^ w * (a5 + 2 ^ w * (a6 + 2 ^ w * a7))))))) *
      (b0 + 2 ^ w * (b1 + 2 ^ w * (b2 + 2 ^ w * (b3 + 2 ^ w * (b4 + 2 ^ w * (b5 + 2 ^ w * (b6 + 2 ^ w * b7)))))))"
  unfolding scalar_mul_512_ops_8x32_def by (simp add: algebra_simps)

lemma mul_512_fits_8x32:
  "length a = 8 \<Longrightarrow> length b = 8 \<Longrightarrow>
    acc_fits 32 32 (map (map_acc_op (\<lambda>_. 2 ^ 32 - 1)) (scalar_mul_512_ops_8x32 a b)) 0"
  unfolding scalar_mul_512_ops_8x32_def by simp

lemma mul_512_8x32:
  assumes "length (sc8_d a) = 8" "length (sc8_d b) = 8"
  shows "limbs_val 32 (scalar_mul_512_8x32 a b) = scalar_val_8x32 a * scalar_val_8x32 b"
    "length (scalar_mul_512_8x32 a b) = 16"
proof -
  let ?ops = "scalar_mul_512_ops_8x32 (sc8_d a) (sc8_d b)" and ?v = "scalar_val_8x32 a * scalar_val_8x32 b"
  obtain l c0 c1 c2 where r: "acc_run wide_mul_32 ?ops (0, 0, 0 :: u32) = (l, c0, c1, c2)"
    by (metis prod_cases3 surj_pair)
  obtain a0 a1 a2 a3 a4 a5 a6 a7 where a: "sc8_d a = [a0, a1, a2, a3, a4, a5, a6, a7]"
    using len8_cases [OF assms(1)] by auto
  obtain b0 b1 b2 b3 b4 b5 b6 b7 where b: "sc8_d b = [b0, b1, b2, b3, b4, b5, b6, b7]"
    using len8_cases [OF assms(2)] by auto
  have "acc_total 32 (map (map_acc_op uint) ?ops) = acc_total 32 (scalar_mul_512_ops_8x32 (map uint (sc8_d a)) (map uint (sc8_d b)))"
    by (simp add: scalar_mul_512_ops_8x32_def a b)
  also have "\<dots> = ?v"
    by (simp only: a b list.map mul_512_total_8x32 scalar_val_8x32_def limbs_val.simps mult_zero_right add_0_right)
  finally have t: "acc_total 32 (map (map_acc_op uint) ?ops) = ?v" .
  have n: "acc_extracts ?ops = 15" by (simp add: scalar_mul_512_ops_8x32_def)
  have "?v < 2 ^ 256 * 2 ^ 256"
    using limbs8_less [OF assms(1)] limbs8_less [OF assms(2)] unfolding scalar_val_8x32_def
    by (intro mult_strict_mono) simp_all
  then have "limbs_val 32 (l @ [c0]) = ?v" "length l = 15"
    using wm32.acc_run_limbs [OF r _ acc_bounds_max, of 0 ?v 15] mul_512_fits_8x32 [OF assms] t n by simp_all
  then show "limbs_val 32 (scalar_mul_512_8x32 a b) = ?v" "length (scalar_mul_512_8x32 a b) = 16"
    by (simp_all add: scalar_mul_512_8x32_def r)
qed

lemma sqr_512_total_8x32:
  "acc_total w (scalar_sqr_512_ops_8x32 [a0, a1, a2, a3, a4, a5, a6, a7])
    = (a0 + 2 ^ w * (a1 + 2 ^ w * (a2 + 2 ^ w * (a3 + 2 ^ w * (a4 + 2 ^ w * (a5 + 2 ^ w * (a6 + 2 ^ w * a7))))))) *
      (a0 + 2 ^ w * (a1 + 2 ^ w * (a2 + 2 ^ w * (a3 + 2 ^ w * (a4 + 2 ^ w * (a5 + 2 ^ w * (a6 + 2 ^ w * a7)))))))"
  unfolding scalar_sqr_512_ops_8x32_def by (simp add: algebra_simps)

lemma sqr_512_8x32:
  assumes "length (sc8_d a) = 8"
  shows "scalar_sqr_512_8x32 a = scalar_mul_512_8x32 a a"
proof -
  let ?ops = "scalar_sqr_512_ops_8x32 (sc8_d a)" and ?v = "scalar_val_8x32 a * scalar_val_8x32 a"
  obtain l c0 c1 c2 where r: "acc_run wide_mul_32 ?ops (0, 0, 0 :: u32) = (l, c0, c1, c2)"
    by (metis prod_cases3 surj_pair)
  obtain a0 a1 a2 a3 a4 a5 a6 a7 where a: "sc8_d a = [a0, a1, a2, a3, a4, a5, a6, a7]"
    using len8_cases [OF assms(1)] by auto
  have "acc_total 32 (map (map_acc_op uint) ?ops) = acc_total 32 (scalar_sqr_512_ops_8x32 (map uint (sc8_d a)))"
    by (simp add: scalar_sqr_512_ops_8x32_def a)
  also have "\<dots> = ?v"
    by (simp only: a list.map sqr_512_total_8x32 scalar_val_8x32_def limbs_val.simps mult_zero_right add_0_right)
  finally have t: "acc_total 32 (map (map_acc_op uint) ?ops) = ?v" .
  have n: "acc_extracts ?ops = 15" by (simp add: scalar_sqr_512_ops_8x32_def)
  have f: "acc_fits 32 32 (map (map_acc_op (\<lambda>_. 2 ^ 32 - 1)) ?ops) 0"
    unfolding scalar_sqr_512_ops_8x32_def by simp
  have "?v < 2 ^ 256 * 2 ^ 256"
    using limbs8_less [OF assms] unfolding scalar_val_8x32_def by (intro mult_strict_mono) simp_all
  then have "limbs_val 32 (l @ [c0]) = ?v" "length l = 15"
    using wm32.acc_run_limbs [OF r _ acc_bounds_max, of 0 ?v 15] f t n by simp_all
  then show ?thesis
    using limbs_val_inj [of "l @ [c0]" "scalar_mul_512_8x32 a a" 32] mul_512_8x32 [OF assms assms]
      uint_bounded [where 'a=32] by (simp add: scalar_sqr_512_8x32_def r)
qed

lemma nc_8x32_form:
  obtains k0 k1 k2 k3 where "nc_8x32 = [k0, k1, k2, k3, 1]"
    "uint k0 + 2 ^ 32 * (uint k1 + 2 ^ 32 * (uint k2 + 2 ^ 32 * (uint k3 + 2 ^ 32))) = scalar_nc"
  using nc_8x32_eq by (rule that) (simp add: scalar_nc_def)

lemma len16_cases: "length l = 16 \<Longrightarrow> \<exists>l0 l1 l2 l3 l4 l5 l6 l7 n0 n1 n2 n3 n4 n5 n6 n7.
    l = [l0, l1, l2, l3, l4, l5, l6, l7, n0, n1, n2, n3, n4, n5, n6, n7]"
  by (auto simp: length_Suc_conv numeral_eq_Suc)

lemma len13_cases: "length m = 13 \<Longrightarrow> \<exists>m0 m1 m2 m3 m4 m5 m6 m7 m8 m9 m10 m11 m12.
    m = [m0, m1, m2, m3, m4, m5, m6, m7, m8, m9, m10, m11, m12]"
  by (auto simp: length_Suc_conv numeral_eq_Suc)

lemma reduce_512_m_total_8x32:
  "l0 + acc_total w (scalar_reduce_512_m_8x32 [l0, l1, l2, l3, l4, l5, l6, l7, n0, n1, n2, n3, n4, n5, n6, n7]
      [k0, k1, k2, k3, k4])
    = (l0 + 2 ^ w * (l1 + 2 ^ w * (l2 + 2 ^ w * (l3 + 2 ^ w * (l4 + 2 ^ w * (l5 + 2 ^ w * (l6 + 2 ^ w * l7))))))) +
      (n0 + 2 ^ w * (n1 + 2 ^ w * (n2 + 2 ^ w * (n3 + 2 ^ w * (n4 + 2 ^ w * (n5 + 2 ^ w * (n6 + 2 ^ w * n7))))))) *
      (k0 + 2 ^ w * (k1 + 2 ^ w * (k2 + 2 ^ w * (k3 + 2 ^ w))))"
  unfolding scalar_reduce_512_m_8x32_def by (simp add: algebra_simps)

lemma reduce_512_p_total_8x32:
  "m0 + acc_total w (scalar_reduce_512_p_8x32 [m0, m1, m2, m3, m4, m5, m6, m7, m8, m9, m10, m11, m12]
      [k0, k1, k2, k3, k4]) + 2 ^ w * (2 ^ w * (2 ^ w * (2 ^ w * (2 ^ w * (2 ^ w * (2 ^ w * (2 ^ w * m12)))))))
    = (m0 + 2 ^ w * (m1 + 2 ^ w * (m2 + 2 ^ w * (m3 + 2 ^ w * (m4 + 2 ^ w * (m5 + 2 ^ w * (m6 + 2 ^ w * m7))))))) +
      (m8 + 2 ^ w * (m9 + 2 ^ w * (m10 + 2 ^ w * (m11 + 2 ^ w * m12)))) *
      (k0 + 2 ^ w * (k1 + 2 ^ w * (k2 + 2 ^ w * (k3 + 2 ^ w))))"
  unfolding scalar_reduce_512_p_8x32_def by (simp add: algebra_simps)

lemma limbs_val_bounds: "length l = k \<Longrightarrow> 0 \<le> limbs_val 32 l \<and> limbs_val 32 l < 2 ^ (32 * k)" for l :: "u32 list"
  using limbs_val_full_less [of l] by simp

lemma reduce_512_m_8x32:
  assumes "length l = 16" "acc_run wide_mul_32 (scalar_reduce_512_m_8x32 l nc_8x32) (l ! 0, 0, 0 :: u32) = (m, c0, c1, c2)"
  shows "length m = 12"
    "limbs_val 32 (m @ [c0]) = limbs_val 32 (take 8 l) + limbs_val 32 (drop 8 l) * scalar_nc"
proof -
  obtain l0 l1 l2 l3 l4 l5 l6 l7 n0 n1 n2 n3 n4 n5 n6 n7
    where l: "l = [l0, l1, l2, l3, l4, l5, l6, l7, n0, n1, n2, n3, n4, n5, n6, n7]"
    using len16_cases [OF assms(1)] by auto
  obtain k0 k1 k2 k3 where k: "nc_8x32 = [k0, k1, k2, k3, 1]"
    "uint k0 + 2 ^ 32 * (uint k1 + 2 ^ 32 * (uint k2 + 2 ^ 32 * (uint k3 + 2 ^ 32))) = scalar_nc"
    by (rule nc_8x32_form)
  let ?ops = "scalar_reduce_512_m_8x32 l nc_8x32"
  let ?v = "limbs_val 32 (take 8 l) + limbs_val 32 (drop 8 l) * scalar_nc"
  have e: "map (map_acc_op uint) ?ops = scalar_reduce_512_m_8x32 (map uint l) (map uint nc_8x32)"
    by (simp add: scalar_reduce_512_m_8x32_def l k Let_def)
  have t: "uint l0 + acc_total 32 (map (map_acc_op uint) ?ops) = ?v"
    unfolding e k(2) [symmetric] unfolding l k(1) list.map reduce_512_m_total_8x32 by simp
  have n: "acc_extracts ?ops = 12" by (simp add: scalar_reduce_512_m_8x32_def Let_def)
  have f: "acc_fits 32 32 (map (map_acc_op (\<lambda>_. 2 ^ 32 - 1)) ?ops) (2 ^ 32 - 1)"
    unfolding scalar_reduce_512_m_8x32_def Let_def by simp
  have "limbs_val 32 (take 8 l) < 2 ^ 256" "limbs_val 32 (drop 8 l) < 2 ^ 256"
    using limbs_val_bounds [of "take 8 l" 8] limbs_val_bounds [of "drop 8 l" 8] assms(1) by simp_all
  then have "?v < 2 ^ 416" by (simp add: scalar_nc_def)
  moreover have "uint l0 \<le> 2 ^ 32 - 1" using uint_bounded [of l0] by simp
  ultimately show "length m = 12" "limbs_val 32 (m @ [c0]) = ?v"
    using wm32.acc_run_limbs [OF assms(2) _ acc_bounds_max, of "2 ^ 32 - 1" ?v 12] f t n
    by (simp_all add: l)
qed

lemma reduce_512_p_8x32:
  assumes "length m = 13" "uint (m ! 12) \<le> 1"
    "acc_run wide_mul_32 (scalar_reduce_512_p_8x32 m nc_8x32) (m ! 0, 0, 0 :: u32) = (p, c0, c1, c2)"
  shows "length p = 8"
    "limbs_val 32 p + 2 ^ 256 * (uint c0 + uint (m ! 12))
      = limbs_val 32 (take 8 m) + limbs_val 32 (drop 8 m) * scalar_nc"
proof -
  obtain m0 m1 m2 m3 m4 m5 m6 m7 m8 m9 m10 m11 m12
    where m: "m = [m0, m1, m2, m3, m4, m5, m6, m7, m8, m9, m10, m11, m12]"
    using len13_cases [OF assms(1)] by auto
  obtain k0 k1 k2 k3 where k: "nc_8x32 = [k0, k1, k2, k3, 1]"
    "uint k0 + 2 ^ 32 * (uint k1 + 2 ^ 32 * (uint k2 + 2 ^ 32 * (uint k3 + 2 ^ 32))) = scalar_nc"
    by (rule nc_8x32_form)
  let ?ops = "scalar_reduce_512_p_8x32 m nc_8x32" and ?B = "2 ^ 32 - 1 :: int"
  let ?bops = "scalar_reduce_512_p_8x32 [?B, ?B, ?B, ?B, ?B, ?B, ?B, ?B, ?B, ?B, ?B, ?B, 1] [?B, ?B, ?B, ?B, 1]"
  let ?w = "limbs_val 32 (take 8 m) + limbs_val 32 (drop 8 m) * scalar_nc"
  let ?v = "?w - 2 ^ 256 * uint m12"
  have b: "uint (x :: u32) \<le> ?B" for x using uint_bounded [of x] by simp
  have bb: "list_all2 (rel_acc_op (\<lambda>x b. uint x \<le> b)) ?ops ?bops"
    unfolding scalar_reduce_512_p_8x32_def m k using b [simplified] assms(2) by (simp add: m)
  have e: "map (map_acc_op uint) ?ops = scalar_reduce_512_p_8x32 (map uint m) (map uint nc_8x32)"
    by (simp add: scalar_reduce_512_p_8x32_def m k)
  have t: "uint m0 + acc_total 32 (map (map_acc_op uint) ?ops) = ?v"
  proof -
    have "uint m0 + acc_total 32 (map (map_acc_op uint) ?ops) + 2 ^ 256 * uint m12 = ?w"
      unfolding e k(2) [symmetric] unfolding m k(1) list.map
      using reduce_512_p_total_8x32 [of "uint m0" 32 "uint m1" "uint m2" "uint m3" "uint m4" "uint m5" "uint m6"
        "uint m7" "uint m8" "uint m9" "uint m10" "uint m11" "uint m12" "uint k0" "uint k1" "uint k2" "uint k3" 1]
      by simp
    then show ?thesis by linarith
  qed
  have n: "acc_extracts ?ops = 8" by (simp add: scalar_reduce_512_p_8x32_def)
  have f: "acc_fits 32 32 ?bops ?B"
    unfolding scalar_reduce_512_p_8x32_def by simp
  have "limbs_val 32 [m8, m9, m10, m11] < 2 ^ 128" using limbs_val_bounds [of "[m8, m9, m10, m11]" 4] by simp
  then have "limbs_val 32 (drop 8 m) < 2 ^ 129" using assms(2) by (simp add: m)
  moreover have "limbs_val 32 (take 8 m) < 2 ^ 256" using limbs_val_bounds [of "take 8 m" 8] assms(1) by simp
  ultimately have "?w < 2 ^ 288" unfolding scalar_nc_def by simp
  moreover have "0 \<le> 2 ^ 256 * uint m12" by simp
  ultimately have "?v < 2 ^ 288" by linarith
  then show "length p = 8" "limbs_val 32 p + 2 ^ 256 * (uint c0 + uint (m ! 12)) = ?w"
    using wm32.acc_run_limbs(2,3) [OF assms(3) _ bb, of ?B ?v 8] f t n b [of m0]
    by (simp_all add: m)
qed

lemma reduce_512_tail_8x32:
  fixes p8 :: u32
  assumes "length p = 8" "uint p8 \<le> 2"
    and c: "carry_chain 32 (0xFFFFFFFF :: u64) 0
           [ucast (p ! 0) + ucast (nc_8x32 ! 0) * ucast p8, ucast (p ! 1) + ucast (nc_8x32 ! 1) * ucast p8,
            ucast (p ! 2) + ucast (nc_8x32 ! 2) * ucast p8, ucast (p ! 3) + ucast (nc_8x32 ! 3) * ucast p8,
            ucast (p ! 4) + ucast p8, ucast (p ! 5), ucast (p ! 6), ucast (p ! 7 :: u32)] = (d, t)"
  shows "length d = 8" "limbs_val 32 (map ucast d :: u32 list) + 2 ^ 256 * uint t = limbs_val 32 p + uint p8 * scalar_nc"
proof -
  obtain p0 p1 p2 p3 p4 p5 p6 p7 where p: "p = [p0, p1, p2, p3, p4, p5, p6, p7]"
    using len8_cases [OF assms(1)] by auto
  obtain k0 k1 k2 k3 where k: "nc_8x32 = [k0, k1, k2, k3, 1]"
    "uint k0 + 2 ^ 32 * (uint k1 + 2 ^ 32 * (uint k2 + 2 ^ 32 * (uint k3 + 2 ^ 32))) = scalar_nc"
    by (rule nc_8x32_form)
  have b: "uint (x :: u32) \<le> 4294967295" for x using uint_bounded [of x] by simp
  have w: "wval (ucast x + ucast k * ucast p8 :: u64) (uint x + uint k * uint p8) (4294967295 + 4294967295 * 2)" for x k :: u32
    by (rule wval_add [OF wval_ucast [OF wval_leaf [OF b]] wval_mul32 [OF b assms(2)]]) simp_all
  have w4: "wval (ucast x + ucast p8 :: u64) (uint x + uint p8) (4294967295 + 2)" for x :: u32
    by (rule wval_add [OF wval_ucast [OF wval_leaf [OF b]] wval_ucast [OF wval_leaf [OF assms(2)]]]) simp_all
  have u: "uint (ucast x :: u64) = uint x" for x :: u32 by (simp add: uint_ucast_up)
  note us = w [THEN wval_uintD] w4 [THEN wval_uintD] u
  let ?xs = "[ucast p0 + ucast k0 * ucast p8, ucast p1 + ucast k1 * ucast p8,
    ucast p2 + ucast k2 * ucast p8, ucast p3 + ucast k3 * ucast p8, ucast p4 + ucast p8, ucast p5, ucast p6, ucast p7 :: u64]"
  have bw: "uint (ucast x + ucast k * ucast p8 :: u64) + 2 ^ 32 \<le> 2 ^ 64"
    "uint (ucast x + ucast p8 :: u64) + 2 ^ 32 \<le> 2 ^ 64" "uint (ucast x :: u64) + 2 ^ 32 \<le> 2 ^ 64" for x k :: u32
    using w [of x k] w4 [of x] b [of x] by (simp_all add: wval_def u)
  have "carry_chain 32 (mask 32) 0 ?xs = (d, t)" using c mask_32 by (simp add: p k(1) del: carry_chain.simps)
  moreover have "\<forall>x \<in> set ?xs. uint x + 2 ^ 32 \<le> 2 ^ 64" unfolding list.set using bw by blast
  moreover have "limbs_val 32 ?xs = limbs_val 32 p + uint p8 * scalar_nc"
    unfolding k(2) [symmetric] p by (simp add: us) (simp add: algebra_simps)
  ultimately show "length d = 8" "limbs_val 32 (map ucast d :: u32 list) + 2 ^ 256 * uint t = limbs_val 32 p + uint p8 * scalar_nc"
    using carry_chain_limbs [where 'a=32, of ?xs d t] by (simp_all del: carry_chain.simps limbs_val.simps)
qed

lemma reduce_512_8x32:
  assumes "length l = 16"
  shows "scalar_wf_8x32 (scalar_reduce_512_8x32 l) \<and>
    scalar_val_8x32 (scalar_reduce_512_8x32 l) = limbs_val 32 l mod scalar_n"
proof -
  obtain m0 c0 c1 c2 where m: "acc_run wide_mul_32 (scalar_reduce_512_m_8x32 l nc_8x32) (l ! 0, 0, 0 :: u32) = (m0, c0, c1, c2)"
    by (metis prod_cases3 surj_pair)
  define m where "m = m0 @ [c0]"
  obtain p c0' c1' c2' where p: "acc_run wide_mul_32 (scalar_reduce_512_p_8x32 m nc_8x32) (m ! 0, 0, 0 :: u32) = (p, c0', c1', c2')"
    by (metis prod_cases3 surj_pair)
  define p8 where "p8 = c0' + m ! 12"
  obtain d t where d: "carry_chain 32 (0xFFFFFFFF :: u64) 0
      [ucast (p ! 0) + ucast (nc_8x32 ! 0) * ucast p8, ucast (p ! 1) + ucast (nc_8x32 ! 1) * ucast p8,
       ucast (p ! 2) + ucast (nc_8x32 ! 2) * ucast p8, ucast (p ! 3) + ucast (nc_8x32 ! 3) * ucast p8,
       ucast (p ! 4) + ucast p8, ucast (p ! 5), ucast (p ! 6), ucast (p ! 7)] = (d, t)" by force
  let ?r = "\<lparr>sc8_d = map ucast d\<rparr>"
  let ?lo = "limbs_val 32 (take 8 l)" and ?hi = "limbs_val 32 (drop 8 l)"
  have lohi: "0 \<le> ?lo" "?lo < 2 ^ 256" "0 \<le> ?hi" "?hi < 2 ^ 256"
    using limbs_val_bounds [of "take 8 l" 8] limbs_val_bounds [of "drop 8 l" 8] assms by simp_all
  have lm: "length m0 = 12" "length m = 13" and M: "limbs_val 32 m = ?lo + ?hi * scalar_nc"
    using reduce_512_m_8x32 [OF assms m] by (simp_all add: m_def)
  have mlo: "0 \<le> limbs_val 32 (take 8 m)" "limbs_val 32 (take 8 m) < 2 ^ 256" "0 \<le> limbs_val 32 (drop 8 m)"
    using limbs_val_bounds [of "take 8 m" 8] lm by simp_all
  have Ms: "limbs_val 32 (take 8 m) + 2 ^ 256 * limbs_val 32 (drop 8 m) = ?lo + ?hi * scalar_nc"
    using limbs_val_take_drop [of 8 m 32] M lm by simp
  have "?lo + ?hi * scalar_nc < 2 ^ 385" using lohi by (simp add: scalar_nc_def)
  moreover have "limbs_val 32 m = limbs_val 32 m0 + 2 ^ 384 * uint c0" using lm by (simp add: m_def limbs_val_snoc)
  ultimately have "2 ^ 384 * uint c0 < 2 ^ 385" using M limbs_val_nonneg [of 32 m0] by linarith
  then have "uint (m ! 12) \<le> 1" using lm by (simp add: m_def nth_append)
  note pp = reduce_512_p_8x32 [OF lm(2) this p]
  have plo: "0 \<le> limbs_val 32 p" "limbs_val 32 p < 2 ^ 256" using limbs_val_bounds [OF pp(1)] by simp_all
  note i = scalar_512_int [OF lohi Ms mlo pp(2) plo]
  have "0 \<le> uint c0' + uint (m ! 12)" by simp
  note i = i [OF this]
  have p8: "uint p8 = uint c0' + uint (m ! 12)" unfolding p8_def by (rule uint_add_noov) (use i(2) in simp)
  have t: "length (sc8_d ?r) = 8" "scalar_val_8x32 ?r + 2 ^ 256 * uint t = limbs_val 32 p + uint p8 * scalar_nc"
    using reduce_512_tail_8x32 [OF pp(1) _ d] i(2) p8 by (simp_all add: scalar_val_8x32_def)
  let ?v = "limbs_val 32 p + uint p8 * scalar_nc"
  have v: "0 \<le> ?v" "?v < 2 * scalar_n" "?v mod scalar_n = limbs_val 32 l mod scalar_n"
    using i(3,4) p8 plo(1) limbs_val_take_drop [of 8 l 32] assms
    by (simp_all add: scalar_nc_def)
  have r: "uint t + of_bool (scalar_n \<le> scalar_val_8x32 ?r) = of_bool (scalar_n \<le> ?v)"
    "(scalar_val_8x32 ?r + of_bool (scalar_n \<le> ?v) * scalar_nc) mod 2 ^ 256 = ?v mod scalar_n"
    using scalar_reduce_once [OF t(2) v(1,2)] limbs8_less [OF t(1)] by (simp_all add: scalar_val_8x32_def)
  have o: "ucast (t + of_bool (scalar_check_overflow_8x32 ?r)) = (of_bool (scalar_n \<le> ?v) :: u32)"
  proof -
    have "uint (t + of_bool (scalar_check_overflow_8x32 ?r)) = of_bool (scalar_n \<le> ?v)"
      using r(1) check_overflow_8x32 [OF t(1)] uint_add_of_bool [of t "scalar_n \<le> scalar_val_8x32 ?r"] by simp
    then show ?thesis by (simp add: word_uint_eq_iff uint_ucast)
  qed
  have "scalar_reduce_512_8x32 l = fst (scalar_reduce_8x32 ?r (of_bool (scalar_n \<le> ?v)))"
    unfolding scalar_reduce_512_8x32_def Let_def m prod.case m_def [symmetric] p p8_def [symmetric] d o ..
  then show ?thesis using reduce_8x32 [OF t(1)] r(2) v(3) by (simp add: scalar_wf_8x32_def)
qed

lemma mul_8x32:
  assumes "scalar_wf_8x32 a" "scalar_wf_8x32 b"
  shows "scalar_wf_8x32 (scalar_mul_8x32 a b) \<and>
    scalar_val_8x32 (scalar_mul_8x32 a b) = (scalar_val_8x32 a * scalar_val_8x32 b) mod scalar_n"
  using mul_512_8x32 [of a b] reduce_512_8x32 [of "scalar_mul_512_8x32 a b"] assms
  by (simp add: scalar_wf_8x32_def scalar_mul_8x32_def)

lemma sqr_is_mul_8x32: "scalar_wf_8x32 a \<Longrightarrow> scalar_sqr_8x32 a = scalar_mul_8x32 a a"
  by (simp add: scalar_sqr_8x32_def scalar_mul_8x32_def sqr_512_8x32 scalar_wf_8x32_def)

section \<open>Products shifted right\<close>

lemma mul_shift_limbs_8x32:
  assumes "length l = 16" "256 \<le> shift"
  shows "map (\<lambda>i. if shift < 512 - 32 * i
             then drop_bit (shift mod 32) (l ! (i + shift div 32)) OR
               (if shift < 480 - 32 * i \<and> shift mod 32 \<noteq> 0
                then push_bit (32 - shift mod 32) (l ! (i + 1 + shift div 32)) else 0)
             else 0) [0..<7] @
           [if shift < 288 then drop_bit (shift mod 32) (l ! (7 + shift div 32)) else 0]
    = (limbs_of 32 8 (drop_bit shift (limbs_val 32 l)) :: u32 list)"
proof (rule limbs_eq_limbs_ofI)
  let ?x = "\<lambda>i. if shift < 512 - 32 * i
             then drop_bit (shift mod 32) (l ! (i + shift div 32)) OR
               (if shift < 480 - 32 * i \<and> shift mod 32 \<noteq> 0
                then push_bit (32 - shift mod 32) (l ! (i + 1 + shift div 32)) else 0)
             else 0"
  let ?x7 = "if shift < 288 then drop_bit (shift mod 32) (l ! (7 + shift div 32)) else 0"
  have x7: "?x7 = ?x 7" using assms(2) by (simp add: add.commute)
  fix i b :: nat assume i: "i < 8"
  have "(map ?x [0..<7] @ [?x7]) ! i = ?x i"
    using i x7 by (cases "i = 7") (auto simp: nth_append)
  moreover have "bit (?x i) b \<longleftrightarrow> b < 32 \<and> bit (limbs_val 32 l) (shift + (32 * i + b))"
  proof -
    have c: "shift + 32 * i < 512 \<longleftrightarrow> shift < 512 - 32 * i" "shift + 32 * Suc i < 512 \<longleftrightarrow> shift < 480 - 32 * i"
      using i by auto
    have "?x i = (if shift + LENGTH(32) * i < LENGTH(32) * length l
      then drop_bit (shift mod LENGTH(32)) (l ! (i + shift div LENGTH(32))) OR
        (if shift + LENGTH(32) * Suc i < LENGTH(32) * length l \<and> shift mod LENGTH(32) \<noteq> 0
         then push_bit (LENGTH(32) - shift mod LENGTH(32)) (l ! (i + 1 + shift div LENGTH(32))) else 0)
      else 0)"
      using assms(1) c by simp
    moreover have "LENGTH(32) = 32" by simp
    ultimately show ?thesis using mul_shift_limb [of "?x i" shift i l b] by metis
  qed
  ultimately show "bit ((map ?x [0..<7] @ [?x7]) ! i) b \<longleftrightarrow> b < 32 \<and> bit (drop_bit shift (limbs_val 32 l)) (32 * i + b)"
    by (simp add: bit_drop_bit_eq)
qed simp_all

lemma mul_shift_var_8x32:
  assumes "scalar_wf_8x32 a" "scalar_wf_8x32 b" "256 \<le> shift" "shift \<le> 512"
  shows "scalar_wf_8x32 (scalar_mul_shift_var_8x32 a b shift) \<and>
    scalar_val_8x32 (scalar_mul_shift_var_8x32 a b shift)
      = (scalar_val_8x32 a * scalar_val_8x32 b + 2 ^ (shift - 1)) div 2 ^ shift"
proof -
  let ?l = "scalar_mul_512_8x32 a b" and ?v = "scalar_val_8x32 a * scalar_val_8x32 b"
  have l: "limbs_val 32 ?l = ?v" "length ?l = 16"
    using mul_512_8x32 [of a b] assms by (simp_all add: scalar_wf_8x32_def)
  let ?d = "limbs_of 32 8 (drop_bit shift ?v) :: u32 list"
  have ab: "0 \<le> scalar_val_8x32 a" "scalar_val_8x32 a < scalar_n" "0 \<le> scalar_val_8x32 b" "scalar_val_8x32 b < scalar_n"
    using assms by (simp_all add: scalar_wf_8x32_def scalar_val_8x32_def)
  note q = scalar_prod_shift [OF ab assms(3)]
  have "limbs_val 32 ?d = take_bit 256 (drop_bit shift ?v)" by (simp add: limbs_val_limbs_of)
  also have "\<dots> = ?v div 2 ^ shift"
    using q by (simp add: drop_bit_eq_div take_bit_int_eq_self scalar_n_def)
  finally have d: "scalar_val_8x32 \<lparr>sc8_d = ?d\<rparr> = ?v div 2 ^ shift" by (simp add: scalar_val_8x32_def)
  have "sint (drop_bit ((shift - 1) mod 32) (?l ! ((shift - 1) div 32)) AND 1) = of_bool (bit ?v (shift - 1))"
    using low_bit_limb [of "shift - 1" ?l] assms(3,4) l by (simp add: div_less_iff_less_mult Suc_leI)
  moreover have "length (sc8_d \<lparr>sc8_d = ?d\<rparr>) = 8" by simp
  ultimately have "scalar_mul_shift_var_8x32 a b shift
      = scalar_cadd_bit_8x32 \<lparr>sc8_d = ?d\<rparr> 0 (of_bool (bit ?v (shift - 1)))"
    using mul_shift_limbs_8x32 [OF l(2) assms(3)] l(1)
    unfolding scalar_mul_shift_var_8x32_def Let_def by (simp only:)
  moreover have "?v div 2 ^ shift + of_bool (bit ?v (shift - 1)) < scalar_n" using q by simp
  ultimately show ?thesis
    using cadd_bit_8x32 [of "\<lparr>sc8_d = ?d\<rparr>" 0 "bit ?v (shift - 1)"] d round_div [of shift ?v] assms(3)
    by (simp add: scalar_wf_8x32_def scalar_n_def)
qed

section \<open>The remaining operations and the interface\<close>

lemma split_128_8x32:
  assumes "scalar_wf_8x32 a"
  shows "scalar_wf_8x32 (fst (scalar_split_128_8x32 a)) \<and> scalar_wf_8x32 (snd (scalar_split_128_8x32 a)) \<and>
    scalar_val_8x32 (fst (scalar_split_128_8x32 a)) = scalar_val_8x32 a mod 2 ^ 128 \<and>
    scalar_val_8x32 (snd (scalar_split_128_8x32 a)) = scalar_val_8x32 a div 2 ^ 128"
proof -
  let ?d = "sc8_d a"
  let ?lo = "limbs_val 32 (take 4 ?d)" and ?hi = "limbs_val 32 (drop 4 ?d)"
  have l: "length ?d = 8" using assms by (simp add: scalar_wf_8x32_def)
  have "scalar_val_8x32 (fst (scalar_split_128_8x32 a)) = ?lo" "scalar_val_8x32 (snd (scalar_split_128_8x32 a)) = ?hi"
    "length (sc8_d (fst (scalar_split_128_8x32 a))) = 8" "length (sc8_d (snd (scalar_split_128_8x32 a))) = 8"
    using len8_cases [OF l]
    by (auto simp: scalar_split_128_8x32_def scalar_val_8x32_def Let_def)
  moreover have "scalar_val_8x32 a = ?lo + 2 ^ 128 * ?hi"
    using limbs_val_take_drop [of 4 ?d 32] l by (simp add: scalar_val_8x32_def)
  moreover have b: "0 \<le> ?lo" "?lo < 2 ^ 128" "0 \<le> ?hi" "?hi < 2 ^ 128"
    using limbs_val_bounds [of "take 4 ?d" 4] limbs_val_bounds [of "drop 4 ?d" 4] l by simp_all
  moreover have "(?lo + 2 ^ 128 * ?hi) mod 2 ^ 128 = ?lo" "(?lo + 2 ^ 128 * ?hi) div 2 ^ 128 = ?hi"
    using b by simp_all
  ultimately show ?thesis by (simp add: scalar_wf_8x32_def scalar_n_def)
qed

lemma eq_8x32:
  assumes "scalar_wf_8x32 a" "scalar_wf_8x32 b"
  shows "scalar_eq_8x32 a b \<longleftrightarrow> a = b"
proof -
  have l: "length (sc8_d a) = 8" "length (sc8_d b) = 8" using assms by (simp_all add: scalar_wf_8x32_def)
  have "x XOR y = 0 \<longleftrightarrow> x = y" for x y :: u32 using or_xor_eq_0 [of x y 0] by simp
  then show ?thesis
    using len8_cases [OF l(1)] len8_cases [OF l(2)]
    by (cases a; cases b) (auto simp: scalar_eq_8x32_def Let_def or_xor_eq_0 or.assoc)
qed

interpretation sc8: scalar_repr S8x32 scalar_val_8x32 scalar_wf_8x32
proof (unfold_locales, goal_cases)
  case (1 a) then show ?case by (simp add: scalar_wf_8x32_def scalar_val_8x32_def)
next
  case (2 a b) then show ?case using scalar_inj_8x32 [of a b] by (simp add: scalar_wf_8x32_def)
next
  case 3 show ?case by (simp add: S8x32_def scalar_clear_8x32_def scalar_wf_8x32_def scalar_val_8x32_def scalar_n_def)
next
  case (4 v) show ?case
    using uint_bounded [of v]
    by (simp add: S8x32_def scalar_set_int_8x32_def scalar_wf_8x32_def scalar_val_8x32_def scalar_n_def)
next
  case (5 a count offset) then show ?case using get_bits_8x32 [of a offset count] by (simp add: S8x32_def scalar_wf_8x32_def)
next
  case (6 a count offset) then show ?case using get_bits_var_8x32 [of a offset count] by (simp add: S8x32_def scalar_wf_8x32_def)
next
  case (7 bs) then show ?case using set_b32_8x32 by (simp add: S8x32_def)
next
  case (8 a) then show ?case using get_b32_8x32 by (simp add: S8x32_def scalar_wf_8x32_def)
next
  case (9 a b) then show ?case using add_8x32 by (simp add: S8x32_def)
next
  case (10 a k f) then show ?case
    using cadd_bit_8x32 [of a k f] by (simp add: S8x32_def scalar_wf_8x32_def scalar_n_def)
next
  case (11 a b) then show ?case using mul_8x32 by (simp add: S8x32_def)
next
  case (12 a) then show ?case using mul_8x32 [of a a] by (simp add: S8x32_def sqr_is_mul_8x32)
next
  case (13 a n)
  then have "scalar_val_8x32 a div 2 ^ n \<le> scalar_val_8x32 a"
    by (intro div_le_self_int) (simp_all add: scalar_val_8x32_def)
  then show ?case using shr_int_8x32 [of a n] 13 by (simp add: S8x32_def scalar_wf_8x32_def)
next
  case (14 a) then show ?case using negate_8x32 by (simp add: S8x32_def)
next
  case (15 a) then show ?case using is_zero_8x32 by (simp add: S8x32_def scalar_wf_8x32_def)
next
  case (16 a) then show ?case using is_one_8x32 by (simp add: S8x32_def scalar_wf_8x32_def)
next
  case (17 a) then show ?case using is_even_8x32 by (simp add: S8x32_def scalar_wf_8x32_def)
next
  case (18 a) then show ?case using is_high_8x32 by (simp add: S8x32_def scalar_wf_8x32_def)
next
  case (19 a f) then show ?case using cond_negate_8x32 by (simp add: S8x32_def scalar_wf_8x32_def)
next
  case (20 a b) then show ?case using eq_8x32 by (simp add: S8x32_def)
next
  case (21 a) then show ?case using split_128_8x32 by (simp add: S8x32_def)
next
  case (22 a b shift) then show ?case using mul_shift_var_8x32 by (simp add: S8x32_def)
next
  case (23 d0 d1 d2 d3 d4 d5 d6 d7) then show ?case
    by (simp add: S8x32_def scalar_const_8x32_def scalar_wf_8x32_def scalar_val_8x32_def del: limbs_val.simps)
qed

section \<open>Properties\<close>

text \<open>
  C4: the product of two reduced scalars is reduced and is their product modulo the group order;
  squaring agrees with it.
\<close>

theorem scalar_mul_correct:
  assumes "scalar_wf_8x32 a" "scalar_wf_8x32 b"
  shows "scalar_wf_8x32 (scalar_mul_8x32 a b) \<and>
    scalar_val_8x32 (scalar_mul_8x32 a b) = (scalar_val_8x32 a * scalar_val_8x32 b) mod scalar_n \<and>
    scalar_sqr_8x32 a = scalar_mul_8x32 a a"
proof -
  have "scalar_sqr_8x32 a = scalar_mul_8x32 a a"
    using sc8.sqr [OF assms(1)] sc8.mul [OF assms(1,1)] sc8.val_inj by (simp add: S8x32_def)
  then show ?thesis using sc8.mul [OF assms] by (simp add: S8x32_def)
qed

theorem scalar_mul_correct_witness:
  "scalar_wf_8x32 (scalar_mul_8x32 (scalar_set_int_8x32 5) (scalar_set_int_8x32 7)) \<and>
    scalar_val_8x32 (scalar_mul_8x32 (scalar_set_int_8x32 5) (scalar_set_int_8x32 7)) = 35"
  using scalar_mul_correct [of "scalar_set_int_8x32 5" "scalar_set_int_8x32 7"]
    sc8.set_int [of 5] sc8.set_int [of 7]
  by (simp add: S8x32_def scalar_n_def)

text \<open>
  C6: \<^verbatim>\<open>secp256k1_scalar_reduce_512\<close> reduces every 512-bit number modulo the group order; there is
  no precondition on its sixteen limbs.
\<close>

theorem scalar_reduce_512_correct:
  assumes "length l = 16"
  shows "scalar_wf_8x32 (scalar_reduce_512_8x32 l) \<and>
    scalar_val_8x32 (scalar_reduce_512_8x32 l) = limbs_val 32 l mod scalar_n"
  using reduce_512_8x32 [OF assms] .

theorem scalar_reduce_512_correct_witness:
  "scalar_val_8x32 (scalar_reduce_512_8x32 (limbs_of 32 16 (2 ^ 512 - 1))) = (2 ^ 512 - 1) mod scalar_n"
  using scalar_reduce_512_correct [of "limbs_of 32 16 (2 ^ 512 - 1)"]
  by (simp add: limbs_val_limbs_of)



text \<open>
  C33: addition and negation are those of the integers modulo the group order, and the flag that
  \<^verbatim>\<open>secp256k1_scalar_add\<close> returns says whether the sum was reduced. A scalar is high exactly when
  it exceeds half of the order, and the negation of a high scalar is not high.
\<close>

theorem scalar_add_negate_correct:
  assumes "scalar_wf_8x32 a" "scalar_wf_8x32 b"
  shows "scalar_val_8x32 (fst (scalar_add_8x32 a b)) = (scalar_val_8x32 a + scalar_val_8x32 b) mod scalar_n \<and>
    snd (scalar_add_8x32 a b) = of_bool (scalar_n \<le> scalar_val_8x32 a + scalar_val_8x32 b) \<and>
    scalar_val_8x32 (scalar_negate_8x32 a) = (- scalar_val_8x32 a) mod scalar_n \<and>
    scalar_is_high_8x32 a = (scalar_n < 2 * scalar_val_8x32 a) \<and>
    (scalar_is_high_8x32 a \<longrightarrow> \<not> scalar_is_high_8x32 (scalar_negate_8x32 a))"
proof -
  have n: "scalar_n = 2 * scalar_n_half + 1" by (simp add: scalar_n_def scalar_n_half_def)
  have r: "0 \<le> scalar_val_8x32 a" "scalar_val_8x32 a < scalar_n" using sc8.val_range [OF assms(1)] by simp_all
  have g: "scalar_wf_8x32 (scalar_negate_8x32 a)"
    "scalar_val_8x32 (scalar_negate_8x32 a) = (- scalar_val_8x32 a) mod scalar_n"
    using sc8.negate [OF assms(1)] by (simp_all add: S8x32_def)
  have "(- scalar_val_8x32 a) mod scalar_n = scalar_n - scalar_val_8x32 a" if "scalar_val_8x32 a \<noteq> 0"
    using that r by (simp add: zmod_zminus1_eq_if)
  then show ?thesis
    using sc8.add [OF assms] sc8.is_high [OF assms(1)] sc8.is_high [OF g(1)] g(2) r n
    by (auto simp: S8x32_def)
qed

theorem scalar_add_negate_correct_witness:
  "scalar_val_8x32 (fst (scalar_add_8x32 (scalar_set_int_8x32 5) (scalar_set_int_8x32 7))) = 12 \<and>
    \<not> scalar_is_high_8x32 (scalar_set_int_8x32 5)"
  using scalar_add_negate_correct [of "scalar_set_int_8x32 5" "scalar_set_int_8x32 7"]
    sc8.set_int [of 5] sc8.set_int [of 7]
  by (simp add: S8x32_def scalar_n_def)

text \<open>
  C36: reading 32 bytes reduces them modulo the group order and reports exactly the strings that
  are not below it; writing a reduced scalar and reading it back gives the scalar and no overflow.
\<close>

theorem scalar_b32_roundtrip:
  assumes "scalar_wf_8x32 a" "length bs = 32"
  shows "scalar_set_b32_8x32 (scalar_get_b32_8x32 a) = (a, 0) \<and>
    scalar_val_8x32 (fst (scalar_set_b32_8x32 bs)) = be_val bs mod scalar_n \<and>
    snd (scalar_set_b32_8x32 bs) = of_bool (scalar_n \<le> be_val bs) \<and>
    (be_val bs < scalar_n \<longrightarrow> scalar_get_b32_8x32 (fst (scalar_set_b32_8x32 bs)) = bs)"
proof -
  let ?b = "be_bytes 32 (scalar_val_8x32 a)"
  have r: "0 \<le> scalar_val_8x32 a" "scalar_val_8x32 a < scalar_n" using sc8.val_range [OF assms(1)] by simp_all
  have g: "scalar_get_b32_8x32 a = ?b" using sc8.get_b32 [OF assms(1)] by (simp add: S8x32_def)
  have v: "be_val ?b = scalar_val_8x32 a" using r by (simp add: be_val_be_bytes scalar_n_def)
  have "fst (scalar_set_b32_8x32 ?b) = a" "snd (scalar_set_b32_8x32 ?b) = 0"
    using sc8.set_b32 [of ?b] v r sc8.val_inj [OF _ assms(1)] by (simp_all add: S8x32_def)
  moreover have "scalar_get_b32_8x32 (fst (scalar_set_b32_8x32 bs)) = bs" if "be_val bs < scalar_n"
    using sc8.set_b32 [OF assms(2)] sc8.get_b32 [of "fst (scalar_set_b32_8x32 bs)"] that
      be_bytes_be_val [of bs] assms(2) by (simp add: S8x32_def)
  ultimately show ?thesis
    using sc8.set_b32 [OF assms(2)] g by (simp add: S8x32_def prod_eq_iff)
qed

theorem scalar_b32_roundtrip_witness:
  "scalar_set_b32_8x32 (scalar_get_b32_8x32 (scalar_set_int_8x32 5)) = (scalar_set_int_8x32 5, 0) \<and>
    snd (scalar_set_b32_8x32 (be_bytes 32 (2 ^ 256 - 1))) = 1"
  using scalar_b32_roundtrip [of "scalar_set_int_8x32 5" "be_bytes 32 (2 ^ 256 - 1)"] sc8.set_int [of 5]
  by (simp add: S8x32_def be_val_be_bytes scalar_n_def)

end
