(* ===== verification/Scalar_4x64.thy ===== *)
theory Scalar_4x64
  imports Scalar
begin

text \<open>
  The scalar representation for 64-bit machines (\<^verbatim>\<open>USE_SCALAR_4X64\<close>): four 64-bit limbs, from
  \<^verbatim>\<open>scalar_4x64.h\<close> and the portable code of \<^verbatim>\<open>scalar_4x64_impl.h\<close>. The lemmas end in the
  interpretation \<open>sc4\<close> of the contract \<open>scalar_repr\<close>.
\<close>

section \<open>Data\<close>

record scalar_4x64 =
  sc4_d :: "u64 list"

text \<open>The limbs of the order, of its complement to \<open>2 ^ 256\<close> and of half the order.\<close>

definition n_4x64 :: "u64 list" where
  "n_4x64 = [0xBFD25E8CD0364141, 0xBAAEDCE6AF48A03B, 0xFFFFFFFFFFFFFFFE, 0xFFFFFFFFFFFFFFFF]"

definition nc_4x64 :: "u64 list" where
  "nc_4x64 = [NOT (n_4x64 ! 0) + 1, NOT (n_4x64 ! 1), 1]"

definition nh_4x64 :: "u64 list" where
  "nh_4x64 = [0xDFE92F46681B20A0, 0x5D576E7357A4501D, 0xFFFFFFFFFFFFFFFF, 0x7FFFFFFFFFFFFFFF]"

definition scalar_val_4x64 :: "scalar_4x64 \<Rightarrow> int" where
  "scalar_val_4x64 a = limbs_val 64 (sc4_d a)"

definition scalar_wf_4x64 :: "scalar_4x64 \<Rightarrow> bool" where
  "scalar_wf_4x64 a \<longleftrightarrow> length (sc4_d a) = 4 \<and> scalar_val_4x64 a < scalar_n"

section \<open>Operations\<close>

definition scalar_clear_4x64 :: scalar_4x64 where
  "scalar_clear_4x64 = \<lparr>sc4_d = [0, 0, 0, 0]\<rparr>"

definition scalar_set_int_4x64 :: "u32 \<Rightarrow> scalar_4x64" where
  "scalar_set_int_4x64 v = \<lparr>sc4_d = [ucast v, 0, 0, 0]\<rparr>"

definition scalar_get_bits_4x64 :: "scalar_4x64 \<Rightarrow> nat \<Rightarrow> nat \<Rightarrow> u32" where
  "scalar_get_bits_4x64 a offset count =
    ucast (drop_bit (offset mod 64) (sc4_d a ! (offset div 64)) AND (push_bit count 1 - 1))"

definition scalar_get_bits_var_4x64 :: "scalar_4x64 \<Rightarrow> nat \<Rightarrow> nat \<Rightarrow> u32" where
  "scalar_get_bits_var_4x64 a offset count =
    (if (offset + count - 1) div 64 = offset div 64 then scalar_get_bits_4x64 a offset count
     else ucast ((drop_bit (offset mod 64) (sc4_d a ! (offset div 64)) OR
        push_bit (64 - offset mod 64) (sc4_d a ! (offset div 64 + 1))) AND (push_bit count 1 - 1)))"

definition scalar_check_overflow_4x64 :: "scalar_4x64 \<Rightarrow> bool" where
  "scalar_check_overflow_4x64 a =
    (let d = sc4_d a; N = n_4x64;
         f = (False, False);
         f = no_less (d ! 3) (N ! 3) f;
         f = no_less (d ! 2) (N ! 2) f;
         f = yes_greater (d ! 2) (N ! 2) f;
         f = no_less (d ! 1) (N ! 1) f;
         f = yes_greater (d ! 1) (N ! 1) f;
         f = yes_greater_eq (d ! 0) (N ! 0) f
     in fst f)"

definition scalar_reduce_4x64 :: "scalar_4x64 \<Rightarrow> u32 \<Rightarrow> scalar_4x64 \<times> int" where
  "scalar_reduce_4x64 r overflow =
    (let d = sc4_d r;
         (d', t) = carry_chain 64 (0xFFFFFFFFFFFFFFFF :: u128) 0
           (map2 (\<lambda>x c. ucast x + ucast (ucast overflow * c)) (take 3 d) nc_4x64 @ map ucast (drop 3 d))
     in (\<lparr>sc4_d = map ucast d'\<rparr>, sint overflow))"

definition scalar_add_4x64 :: "scalar_4x64 \<Rightarrow> scalar_4x64 \<Rightarrow> scalar_4x64 \<times> int" where
  "scalar_add_4x64 a b =
    (let (d, t) = carry_chain 64 (0xFFFFFFFFFFFFFFFF :: u128) 0
           (map2 (\<lambda>x y. ucast x + ucast y) (sc4_d a) (sc4_d b));
         r = \<lparr>sc4_d = map ucast d\<rparr>;
         overflow = ucast (t + of_bool (scalar_check_overflow_4x64 r)) :: u32;
         (r, _) = scalar_reduce_4x64 r overflow
     in (r, sint overflow))"

definition scalar_cadd_bit_4x64 :: "scalar_4x64 \<Rightarrow> nat \<Rightarrow> int \<Rightarrow> scalar_4x64" where
  "scalar_cadd_bit_4x64 r pos flag =
    (let bit = of_nat pos + ((word_of_int flag - 1) AND 0x100) :: u32;
         (d, t) = carry_chain 64 (0xFFFFFFFFFFFFFFFF :: u128) 0
           (map2 (\<lambda>x i. ucast x + ucast (push_bit (unat (bit AND 0x3F)) (of_bool (drop_bit 6 bit = i)) :: u64))
             (sc4_d r) [0, 1, 2, 3])
     in \<lparr>sc4_d = map ucast d\<rparr>)"

definition scalar_set_b32_4x64 :: "u8 list \<Rightarrow> scalar_4x64 \<times> int" where
  "scalar_set_b32_4x64 b32 =
    (let r = \<lparr>sc4_d = map (\<lambda>i. be_word b32 (31 - 8 * i) 8) [0..<4]\<rparr>
     in scalar_reduce_4x64 r (of_bool (scalar_check_overflow_4x64 r)))"

definition scalar_get_b32_4x64 :: "scalar_4x64 \<Rightarrow> u8 list" where
  "scalar_get_b32_4x64 a = concat (map (word_bytes 8) (rev (sc4_d a)))"

definition scalar_is_zero_4x64 :: "scalar_4x64 \<Rightarrow> bool" where
  "scalar_is_zero_4x64 a = (let d = sc4_d a in d ! 0 OR d ! 1 OR d ! 2 OR d ! 3 = 0)"

definition scalar_negate_4x64 :: "scalar_4x64 \<Rightarrow> scalar_4x64" where
  "scalar_negate_4x64 a =
    (let nonzero = 0xFFFFFFFFFFFFFFFF * of_bool (\<not> scalar_is_zero_4x64 a) :: u64;
         d = sc4_d a; N = n_4x64;
         (d', t) = carry_chain 64 (ucast nonzero :: u128) 0
           ((ucast (NOT (d ! 0)) + ucast (N ! 0) + 1) #
            map2 (\<lambda>x n. ucast (NOT x) + ucast n) (tl d) (tl N))
     in \<lparr>sc4_d = map ucast d'\<rparr>)"

definition scalar_is_one_4x64 :: "scalar_4x64 \<Rightarrow> bool" where
  "scalar_is_one_4x64 a = (let d = sc4_d a in (d ! 0 XOR 1) OR d ! 1 OR d ! 2 OR d ! 3 = 0)"

definition scalar_is_even_4x64 :: "scalar_4x64 \<Rightarrow> bool" where
  "scalar_is_even_4x64 a \<longleftrightarrow> \<not> (sc4_d a ! 0 AND 1 \<noteq> 0)"

definition scalar_is_high_4x64 :: "scalar_4x64 \<Rightarrow> bool" where
  "scalar_is_high_4x64 a =
    (let d = sc4_d a; H = nh_4x64;
         f = (False, False);
         f = no_less (d ! 3) (H ! 3) f;
         f = yes_greater (d ! 3) (H ! 3) f;
         f = no_less_unless_yes (d ! 2) (H ! 2) f;
         f = no_less_unless_yes (d ! 1) (H ! 1) f;
         f = yes_greater (d ! 1) (H ! 1) f;
         f = yes_greater (d ! 0) (H ! 0) f
     in fst f)"

definition scalar_cond_negate_4x64 :: "scalar_4x64 \<Rightarrow> bool \<Rightarrow> scalar_4x64 \<times> int" where
  "scalar_cond_negate_4x64 r flag =
    (let mask = of_bool (\<not> flag) - 1 :: u64;
         nonzero = of_bool (scalar_is_zero_4x64 r) - 1 :: u64;
         d = sc4_d r; N = n_4x64;
         (d', t) = carry_chain 64 (ucast nonzero :: u128) 0
           ((ucast (d ! 0 XOR mask) + ucast ((N ! 0 + 1) AND mask)) #
            map2 (\<lambda>x n. ucast (x XOR mask) + ucast (n AND mask)) (tl d) (tl N))
     in (\<lparr>sc4_d = map ucast d'\<rparr>, 2 * of_bool (mask = 0) - 1))"

section \<open>Products\<close>

text \<open>\<^verbatim>\<open>t = (uint128_t)a * b; th = t >> 64; tl = t\<close>.\<close>

definition wide_mul_64 :: "u64 \<Rightarrow> u64 \<Rightarrow> u64 \<times> u64" where
  "wide_mul_64 a b = (let t = ucast a * ucast b :: u128 in (ucast (drop_bit 64 t), ucast t))"

definition scalar_reduce_512_m_4x64 :: "'x list \<Rightarrow> 'x list \<Rightarrow> 'x acc_op list" where
  "scalar_reduce_512_m_4x64 l nc =
    (let n0 = l ! 4; n1 = l ! 5; n2 = l ! 6; n3 = l ! 7
     in
      [Muladd_fast n0 (nc ! 0), Extract_fast,
       Sumadd_fast (l ! 1), Muladd n1 (nc ! 0), Muladd n0 (nc ! 1), Extract,
       Sumadd (l ! 2), Muladd n2 (nc ! 0), Muladd n1 (nc ! 1), Sumadd n0, Extract,
       Sumadd (l ! 3), Muladd n3 (nc ! 0), Muladd n2 (nc ! 1), Sumadd n1, Extract,
       Muladd n3 (nc ! 1), Sumadd n2, Extract,
       Sumadd_fast n3, Extract_fast])"

definition scalar_reduce_512_p_4x64 :: "'x list \<Rightarrow> 'x list \<Rightarrow> 'x acc_op list" where
  "scalar_reduce_512_p_4x64 m nc =
      [Muladd_fast (m ! 4) (nc ! 0), Extract_fast,
       Sumadd_fast (m ! 1), Muladd (m ! 5) (nc ! 0), Muladd (m ! 4) (nc ! 1), Extract,
       Sumadd (m ! 2), Muladd (m ! 6) (nc ! 0), Muladd (m ! 5) (nc ! 1), Sumadd (m ! 4), Extract,
       Sumadd_fast (m ! 3), Muladd_fast (m ! 6) (nc ! 1), Sumadd_fast (m ! 5), Extract_fast]"

text \<open>
  The accumulator of the reduction has three 64-bit words; the top limbs \<open>m6\<close> and \<open>p4\<close> are kept
  in \<^verbatim>\<open>uint32_t\<close> variables.
\<close>

definition scalar_reduce_512_4x64 :: "u64 list \<Rightarrow> scalar_4x64" where
  "scalar_reduce_512_4x64 l =
    (let nc = nc_4x64;
         (m, c0, c1, c2) = acc_run wide_mul_64 (scalar_reduce_512_m_4x64 l nc) (l ! 0, 0, 0 :: u64);
         m6 = ucast c0 :: u32;
         m = m @ [ucast m6];
         (p, c0, c1, c2) = acc_run wide_mul_64 (scalar_reduce_512_p_4x64 m nc) (m ! 0, 0, 0 :: u64);
         p4 = ucast (c0 + ucast m6) :: u32;
         (d, c) = carry_chain 64 (0xFFFFFFFFFFFFFFFF :: u128) 0
           [ucast (p ! 0) + ucast (nc ! 0) * ucast p4, ucast (p ! 1) + ucast (nc ! 1) * ucast p4,
            ucast (p ! 2) + ucast p4, ucast (p ! 3)];
         r = \<lparr>sc4_d = map ucast d\<rparr>
     in fst (scalar_reduce_4x64 r (ucast (c + of_bool (scalar_check_overflow_4x64 r)))))"

definition scalar_mul_512_ops_4x64 :: "'x list \<Rightarrow> 'x list \<Rightarrow> 'x acc_op list" where
  "scalar_mul_512_ops_4x64 da db =
      [Muladd_fast (da ! 0) (db ! 0), Extract_fast,
       Muladd (da ! 0) (db ! 1), Muladd (da ! 1) (db ! 0), Extract,
       Muladd (da ! 0) (db ! 2), Muladd (da ! 1) (db ! 1), Muladd (da ! 2) (db ! 0), Extract,
       Muladd (da ! 0) (db ! 3), Muladd (da ! 1) (db ! 2), Muladd (da ! 2) (db ! 1),
        Muladd (da ! 3) (db ! 0), Extract,
       Muladd (da ! 1) (db ! 3), Muladd (da ! 2) (db ! 2), Muladd (da ! 3) (db ! 1), Extract,
       Muladd (da ! 2) (db ! 3), Muladd (da ! 3) (db ! 2), Extract,
       Muladd_fast (da ! 3) (db ! 3), Extract_fast]"

text \<open>The accumulator of the products has 160 bits: its third word is a \<^verbatim>\<open>uint32_t\<close>.\<close>

definition scalar_mul_512_4x64 :: "scalar_4x64 \<Rightarrow> scalar_4x64 \<Rightarrow> u64 list" where
  "scalar_mul_512_4x64 a b =
    (let (l, c0, c1, c2) = acc_run wide_mul_64 (scalar_mul_512_ops_4x64 (sc4_d a) (sc4_d b)) (0, 0, 0 :: u32)
     in l @ [c0])"

definition scalar_sqr_512_ops_4x64 :: "'x list \<Rightarrow> 'x acc_op list" where
  "scalar_sqr_512_ops_4x64 da =
      [Muladd_fast (da ! 0) (da ! 0), Extract_fast,
       Muladd2 (da ! 0) (da ! 1), Extract,
       Muladd2 (da ! 0) (da ! 2), Muladd (da ! 1) (da ! 1), Extract,
       Muladd2 (da ! 0) (da ! 3), Muladd2 (da ! 1) (da ! 2), Extract,
       Muladd2 (da ! 1) (da ! 3), Muladd (da ! 2) (da ! 2), Extract,
       Muladd2 (da ! 2) (da ! 3), Extract,
       Muladd_fast (da ! 3) (da ! 3), Extract_fast]"

definition scalar_sqr_512_4x64 :: "scalar_4x64 \<Rightarrow> u64 list" where
  "scalar_sqr_512_4x64 a =
    (let (l, c0, c1, c2) = acc_run wide_mul_64 (scalar_sqr_512_ops_4x64 (sc4_d a)) (0, 0, 0 :: u32)
     in l @ [c0])"

definition scalar_mul_4x64 :: "scalar_4x64 \<Rightarrow> scalar_4x64 \<Rightarrow> scalar_4x64" where
  "scalar_mul_4x64 a b = scalar_reduce_512_4x64 (scalar_mul_512_4x64 a b)"

definition scalar_sqr_4x64 :: "scalar_4x64 \<Rightarrow> scalar_4x64" where
  "scalar_sqr_4x64 a = scalar_reduce_512_4x64 (scalar_sqr_512_4x64 a)"

section \<open>Shifts and comparison\<close>

definition scalar_shr_int_4x64 :: "scalar_4x64 \<Rightarrow> nat \<Rightarrow> scalar_4x64 \<times> int" where
  "scalar_shr_int_4x64 r n =
    (let d = sc4_d r;
         ret = ucast (d ! 0 AND (push_bit n 1 - 1)) :: u32;
         d = map (\<lambda>i. drop_bit n (d ! i) + push_bit (64 - n) (d ! (i + 1))) [0..<3] @ [drop_bit n (d ! 3)]
     in (\<lparr>sc4_d = d\<rparr>, sint ret))"

definition scalar_split_128_4x64 :: "scalar_4x64 \<Rightarrow> scalar_4x64 \<times> scalar_4x64" where
  "scalar_split_128_4x64 a =
    (let d = sc4_d a in (\<lparr>sc4_d = [d ! 0, d ! 1, 0, 0]\<rparr>, \<lparr>sc4_d = [d ! 2, d ! 3, 0, 0]\<rparr>))"

definition scalar_eq_4x64 :: "scalar_4x64 \<Rightarrow> scalar_4x64 \<Rightarrow> bool" where
  "scalar_eq_4x64 a b =
    (let x = sc4_d a; y = sc4_d b
     in (x ! 0 XOR y ! 0) OR (x ! 1 XOR y ! 1) OR (x ! 2 XOR y ! 2) OR (x ! 3 XOR y ! 3) = 0)"

definition scalar_mul_shift_var_4x64 :: "scalar_4x64 \<Rightarrow> scalar_4x64 \<Rightarrow> nat \<Rightarrow> scalar_4x64" where
  "scalar_mul_shift_var_4x64 a b shift =
    (let l = scalar_mul_512_4x64 a b;
         shiftlimbs = shift div 64;
         shiftlow = shift mod 64;
         shifthigh = 64 - shiftlow;
         d = map (\<lambda>i. if shift < 512 - 64 * i
               then drop_bit shiftlow (l ! (i + shiftlimbs)) OR
                 (if shift < 448 - 64 * i \<and> shiftlow \<noteq> 0
                  then push_bit shifthigh (l ! (i + 1 + shiftlimbs)) else 0)
               else 0) [0..<3] @
             [if shift < 320 then drop_bit shiftlow (l ! (3 + shiftlimbs)) else 0]
     in scalar_cadd_bit_4x64 \<lparr>sc4_d = d\<rparr> 0
          (sint (ucast (drop_bit ((shift - 1) mod 64) (l ! ((shift - 1) div 64)) AND 1) :: u32)))"

definition scalar_const_4x64 ::
    "u32 \<Rightarrow> u32 \<Rightarrow> u32 \<Rightarrow> u32 \<Rightarrow> u32 \<Rightarrow> u32 \<Rightarrow> u32 \<Rightarrow> u32 \<Rightarrow> scalar_4x64" where
  "scalar_const_4x64 d7 d6 d5 d4 d3 d2 d1 d0 =
    \<lparr>sc4_d = [push_bit 32 (ucast d1) OR ucast d0, push_bit 32 (ucast d3) OR ucast d2,
       push_bit 32 (ucast d5) OR ucast d4, push_bit 32 (ucast d7) OR ucast d6]\<rparr>"

definition S4x64 :: "scalar_4x64 scalar_ops" where
  "S4x64 = \<lparr>
    scalar_clear = scalar_clear_4x64, scalar_set_int = scalar_set_int_4x64,
    scalar_get_bits = scalar_get_bits_4x64, scalar_get_bits_var = scalar_get_bits_var_4x64,
    scalar_set_b32 = scalar_set_b32_4x64, scalar_get_b32 = scalar_get_b32_4x64,
    scalar_add = scalar_add_4x64, scalar_cadd_bit = scalar_cadd_bit_4x64,
    scalar_mul = scalar_mul_4x64, scalar_shr_int = scalar_shr_int_4x64,
    scalar_sqr = scalar_sqr_4x64, scalar_negate = scalar_negate_4x64,
    scalar_is_zero = scalar_is_zero_4x64, scalar_is_one = scalar_is_one_4x64,
    scalar_is_even = scalar_is_even_4x64, scalar_is_high = scalar_is_high_4x64,
    scalar_cond_negate = scalar_cond_negate_4x64, scalar_eq = scalar_eq_4x64,
    scalar_split_128 = scalar_split_128_4x64, scalar_mul_shift_var = scalar_mul_shift_var_4x64,
    scalar_const = scalar_const_4x64\<rparr>"

section \<open>Vectors of four limbs\<close>

lemma mask_64: "(0xFFFFFFFFFFFFFFFF :: u128) = mask LENGTH(64)"
  by (simp add: mask_numeral)

lemma len4_cases: "length d = 4 \<Longrightarrow> \<exists>d0 d1 d2 d3. d = [d0, d1, d2, d3]"
  by (auto simp: length_Suc_conv numeral_eq_Suc)

lemma list4: "length d = 4 \<Longrightarrow> d = [d ! 0, d ! 1, d ! 2, d ! 3]"
  using len4_cases [of d] by auto

lemma limbs4_less: "length d = 4 \<Longrightarrow> limbs_val 64 d < 2 ^ 256" for d :: "u64 list"
  using limbs_val_full_less [of d] by simp

lemma scalar_inj_4x64: "length (sc4_d a) = 4 \<Longrightarrow> length (sc4_d b) = 4 \<Longrightarrow>
    scalar_val_4x64 a = scalar_val_4x64 b \<Longrightarrow> a = b"
  using limbs_val_inj [of "sc4_d a" "sc4_d b" 64] uint_bounded [where 'a=64]
  by (simp add: scalar_val_4x64_def)

lemma n_4x64_val: "limbs_val 64 n_4x64 = scalar_n" "length n_4x64 = 4"
  by (simp_all add: n_4x64_def scalar_n_def)

lemma nc_4x64_eq: "nc_4x64 = [0x402DA1732FC9BEBF, 0x4551231950B75FC4, 1]"
  by (simp add: nc_4x64_def n_4x64_def)

lemma nh_4x64_val: "limbs_val 64 nh_4x64 = scalar_n_half" "length nh_4x64 = 4"
  by (simp_all add: nh_4x64_def scalar_n_half_def)

lemma word_max_64: "\<not> 0xFFFFFFFFFFFFFFFF < (x :: u64)"
  using uint_bounded [of x] by (simp add: word_less_def)

lemma check_overflow_4x64:
  assumes "length (sc4_d a) = 4"
  shows "scalar_check_overflow_4x64 a \<longleftrightarrow> scalar_n \<le> scalar_val_4x64 a"
proof -
  obtain d0 d1 d2 d3 where d: "sc4_d a = [d0, d1, d2, d3]"
    using len4_cases [OF assms] by auto
  have 3: "flags_ok [d3] [0xFFFFFFFFFFFFFFFF] (no_less d3 0xFFFFFFFFFFFFFFFF (False, False))"
    using flags_top [OF word_max_64 flags_init] by simp
  note f1 = flags_both(1) [OF flags_both(1) [OF 3]]
  show ?thesis
    using flags_final(2) [OF f1, of d0 "0xBFD25E8CD0364141" d1 "0xBAAEDCE6AF48A03B" d2 "0xFFFFFFFFFFFFFFFE"] n_4x64_val(1)
    by (simp add: scalar_check_overflow_4x64_def scalar_val_4x64_def n_4x64_def d Let_def del: limbs_val.simps)
qed

lemma is_high_4x64:
  assumes "length (sc4_d a) = 4"
  shows "scalar_is_high_4x64 a \<longleftrightarrow> scalar_n_half < scalar_val_4x64 a"
proof -
  obtain d0 d1 d2 d3 where d: "sc4_d a = [d0, d1, d2, d3]"
    using len4_cases [OF assms] by auto
  note f1 = flags_both(2) [OF flags_max [OF word_max_64 flags_both(1) [OF flags_init]]]
  show ?thesis
    using flags_final(1) [OF f1, of d0 "0xDFE92F46681B20A0" d1 "0x5D576E7357A4501D" d2 d3 "0x7FFFFFFFFFFFFFFF"] nh_4x64_val(1)
    by (simp add: scalar_is_high_4x64_def scalar_val_4x64_def nh_4x64_def d Let_def del: limbs_val.simps)
qed

section \<open>Additive operations\<close>

lemma add_chain_4x64:
  fixes xs ys :: "u64 list"
  assumes "length xs = 4" "length ys = 4"
    "carry_chain 64 (0xFFFFFFFFFFFFFFFF :: u128) 0 (map2 (\<lambda>x y. ucast x + ucast y) xs ys) = (r, t)"
  shows "limbs_val 64 (map ucast r :: u64 list) + 2 ^ 256 * uint t = limbs_val 64 xs + limbs_val 64 ys"
    "length r = 4"
    "limbs_val 64 (map ucast r :: u64 list) = (limbs_val 64 xs + limbs_val 64 ys) mod 2 ^ 256"
proof -
  show 1: "limbs_val 64 (map ucast r :: u64 list) + 2 ^ 256 * uint t = limbs_val 64 xs + limbs_val 64 ys"
    and l: "length r = 4"
    using limbs_add_chain [where 'b=128, of xs ys r t] assms by (simp_all add: mask_64)
  show "limbs_val 64 (map ucast r :: u64 list) = (limbs_val 64 xs + limbs_val 64 ys) mod 2 ^ 256"
    using mod_of_sum [OF 1] limbs4_less [of "map ucast r"] l by simp
qed

lemma reduce_4x64:
  assumes "length (sc4_d r) = 4"
  shows "length (sc4_d (fst (scalar_reduce_4x64 r (of_bool b)))) = 4 \<and>
    scalar_val_4x64 (fst (scalar_reduce_4x64 r (of_bool b)))
      = (scalar_val_4x64 r + of_bool b * scalar_nc) mod 2 ^ 256 \<and>
    snd (scalar_reduce_4x64 r (of_bool b)) = of_bool b"
proof -
  let ?ys = "map ((*) (of_bool b)) nc_4x64 @ [0]"
  obtain d0 d1 d2 d3 where d: "sc4_d r = [d0, d1, d2, d3]"
    using len4_cases [OF assms] by auto
  obtain r' t where c: "carry_chain 64 (0xFFFFFFFFFFFFFFFF :: u128) 0 (map2 (\<lambda>x y. ucast x + ucast y) (sc4_d r) ?ys) = (r', t)"
    by force
  have "map2 (\<lambda>x c. ucast x + ucast (ucast (of_bool b :: u32) * c)) (take 3 (sc4_d r)) nc_4x64 @ map ucast (drop 3 (sc4_d r))
      = map2 (\<lambda>x y. ucast x + ucast y :: u128) (sc4_d r) ?ys"
    by (simp add: d nc_4x64_eq)
  then have "scalar_reduce_4x64 r (of_bool b) = (\<lparr>sc4_d = map ucast r'\<rparr>, of_bool b)"
    using c by (simp add: scalar_reduce_4x64_def Let_def del: of_bool_eq_iff)
  moreover have "limbs_val 64 ?ys = of_bool b * scalar_nc"
    by (cases b) (simp_all add: nc_4x64_eq scalar_nc_def)
  ultimately show ?thesis
    using add_chain_4x64 [OF _ _ c] assms by (simp add: scalar_val_4x64_def nc_4x64_eq)
qed

lemma reduce_check_4x64:
  assumes "length (sc4_d r) = 4"
  shows "scalar_wf_4x64 (fst (scalar_reduce_4x64 r (of_bool (scalar_check_overflow_4x64 r)))) \<and>
    scalar_val_4x64 (fst (scalar_reduce_4x64 r (of_bool (scalar_check_overflow_4x64 r))))
      = scalar_val_4x64 r mod scalar_n"
  using reduce_4x64 [OF assms] scalar_reduce_int [of "scalar_val_4x64 r"] limbs4_less [OF assms]
    check_overflow_4x64 [OF assms]
  by (simp add: scalar_wf_4x64_def scalar_val_4x64_def)

lemma add_4x64:
  assumes "scalar_wf_4x64 a" "scalar_wf_4x64 b"
  shows "scalar_wf_4x64 (fst (scalar_add_4x64 a b)) \<and>
    scalar_val_4x64 (fst (scalar_add_4x64 a b)) = (scalar_val_4x64 a + scalar_val_4x64 b) mod scalar_n \<and>
    snd (scalar_add_4x64 a b) = of_bool (scalar_n \<le> scalar_val_4x64 a + scalar_val_4x64 b)"
proof -
  obtain d t where c: "carry_chain 64 (0xFFFFFFFFFFFFFFFF :: u128) 0 (map2 (\<lambda>x y. ucast x + ucast y) (sc4_d a) (sc4_d b)) = (d, t)"
    by force
  let ?r = "\<lparr>sc4_d = map ucast d\<rparr>" and ?s = "scalar_val_4x64 a + scalar_val_4x64 b"
  have l: "length (sc4_d a) = 4" "length (sc4_d b) = 4" using assms by (simp_all add: scalar_wf_4x64_def)
  note ch = add_chain_4x64 [OF l c]
  have r: "scalar_val_4x64 ?r + 2 ^ 256 * uint t = ?s" "length (sc4_d ?r) = 4"
    using ch by (simp_all add: scalar_val_4x64_def)
  have i: "uint t + of_bool (scalar_n \<le> scalar_val_4x64 ?r) = of_bool (scalar_n \<le> ?s)"
    "(scalar_val_4x64 ?r + of_bool (scalar_n \<le> ?s) * scalar_nc) mod 2 ^ 256 = ?s mod scalar_n"
    using scalar_reduce_once [OF r(1)] limbs4_less [OF r(2)] assms
    by (simp_all add: scalar_val_4x64_def scalar_wf_4x64_def)
  have o: "ucast (t + of_bool (scalar_check_overflow_4x64 ?r)) = (of_bool (scalar_n \<le> ?s) :: u32)"
  proof -
    have "uint (t + of_bool (scalar_check_overflow_4x64 ?r)) = of_bool (scalar_n \<le> ?s)"
      using i(1) check_overflow_4x64 [OF r(2)] uint_add_of_bool [of t "scalar_n \<le> scalar_val_4x64 ?r"] by simp
    then show ?thesis by (simp add: word_uint_eq_iff uint_ucast)
  qed
  have "scalar_add_4x64 a b = (fst (scalar_reduce_4x64 ?r (of_bool (scalar_n \<le> ?s))), of_bool (scalar_n \<le> ?s))"
    unfolding scalar_add_4x64_def c Let_def prod.case o by (simp add: case_prod_beta)
  then show ?thesis using reduce_4x64 [OF r(2)] i(2) by (simp add: scalar_wf_4x64_def)
qed

lemma is_zero_4x64:
  assumes "length (sc4_d a) = 4"
  shows "scalar_is_zero_4x64 a \<longleftrightarrow> scalar_val_4x64 a = 0"
proof -
  obtain d0 d1 d2 d3 where d: "sc4_d a = [d0, d1, d2, d3]"
    using len4_cases [OF assms] by auto
  show ?thesis
    unfolding scalar_val_4x64_def limbs_val_eq_0 d scalar_is_zero_4x64_def Let_def
    by (simp add: word_or_eq_0 uint_0_iff)
qed

lemma is_one_4x64:
  assumes "length (sc4_d a) = 4"
  shows "scalar_is_one_4x64 a \<longleftrightarrow> scalar_val_4x64 a = 1"
proof -
  obtain d0 d1 d2 d3 where d: "sc4_d a = [d0, d1, d2, d3]"
    using len4_cases [OF assms] by auto
  have "scalar_is_one_4x64 a \<longleftrightarrow> a = scalar_set_int_4x64 1"
    by (cases a) (use d in \<open>simp add: scalar_is_one_4x64_def word_or_eq_0 word_xor_eq_iff scalar_set_int_4x64_def\<close>)
  also have "\<dots> \<longleftrightarrow> scalar_val_4x64 a = scalar_val_4x64 (scalar_set_int_4x64 1)"
    using scalar_inj_4x64 [of a "scalar_set_int_4x64 1"] assms by (auto simp: scalar_set_int_4x64_def)
  finally show ?thesis by (simp add: scalar_set_int_4x64_def scalar_val_4x64_def)
qed

lemma is_even_4x64:
  assumes "length (sc4_d a) = 4"
  shows "scalar_is_even_4x64 a \<longleftrightarrow> even (scalar_val_4x64 a)"
  using len4_cases [OF assms]
  by (auto simp: scalar_is_even_4x64_def scalar_val_4x64_def word_and_1_odd simp del: )

lemma limbs_single_4x64:
  "0 \<le> q \<Longrightarrow> q < 4 \<Longrightarrow>
    limbs_val 64 (map (\<lambda>i. if q = uint i then p else 0) [0, 1, 2, 3 :: u32]) = 2 ^ (64 * nat q) * uint p"
  for p :: u64
proof -
  assume "0 \<le> q" "q < 4"
  then consider "q = 0" | "q = 1" | "q = 2" | "q = 3" by linarith
  then show ?thesis by cases simp_all
qed

lemma cadd_addends_4x64:
  fixes pos :: u32
  assumes "uint pos < 512"
  shows "limbs_val 64 (map (\<lambda>i. push_bit (unat (pos AND 0x3F)) (of_bool (drop_bit 6 pos = i)) :: u64) [0, 1, 2, 3])
      = (if uint pos < 256 then 2 ^ nat (uint pos) else 0)"
proof -
  define k q where "k = uint pos mod 64" and "q = uint pos div 64"
  have u: "unat (pos AND 0x3F) = nat k"
    using uint_and_mask [of pos 6] by (simp add: k_def mask_numeral unat_eq_nat_uint)
  have i: "drop_bit 6 pos = i \<longleftrightarrow> q = uint i" for i
    by (simp add: word_uint_eq_iff uint_drop_bit q_def)
  have e: "(\<lambda>i. push_bit (unat (pos AND 0x3F)) (of_bool (drop_bit 6 pos = i)) :: u64)
      = (\<lambda>i. if q = uint i then push_bit (nat k) 1 else 0)"
    by (simp add: fun_eq_iff u i)
  have k: "0 \<le> k" "k < 64" "uint pos = k + 64 * q" "0 \<le> q"
    by (simp_all add: k_def q_def pos_imp_zdiv_nonneg_iff)
  have p: "uint (push_bit (nat k) 1 :: u64) = 2 ^ nat k"
  proof -
    have "uint (1 :: u64) * 2 ^ nat k < 2 ^ LENGTH(64)"
      using k power_strict_increasing [of "nat k" 64 "2 :: int"] by simp
    then show ?thesis by (simp only: uint_push_bit_noov) simp
  qed
  show ?thesis
  proof (cases "uint pos < 256")
    case True
    then have q: "q < 4" using k by linarith
    have "(2 :: int) ^ (64 * nat q) * 2 ^ nat k = 2 ^ nat (uint pos)"
      using k by (simp add: nat_add_distrib nat_mult_distrib flip: power_add)
    then show ?thesis unfolding e limbs_single_4x64 [OF k(4) q] p using True by simp
  next
    case False
    then have "4 \<le> q" using k by linarith
    then show ?thesis unfolding e using False by simp
  qed
qed

lemma cadd_bit_4x64:
  assumes "length (sc4_d a) = 4" "k < 256" "scalar_val_4x64 a + of_bool f * 2 ^ k < 2 ^ 256"
  shows "length (sc4_d (scalar_cadd_bit_4x64 a k (of_bool f))) = 4 \<and>
    scalar_val_4x64 (scalar_cadd_bit_4x64 a k (of_bool f)) = scalar_val_4x64 a + of_bool f * 2 ^ k"
proof -
  define pos :: u32 where "pos = of_nat k + ((word_of_int (of_bool f) - 1) AND 0x100)"
  have "uint (of_nat k :: u32) = int k"
    using assms(2) by (simp add: unsigned_of_nat take_bit_nat_eq_self)
  then have pos: "uint pos = int k + (if f then 0 else 256)"
    using assms(2) by (cases f) (simp_all add: pos_def uint_add_noov)
  let ?ys = "map (\<lambda>i. push_bit (unat (pos AND 0x3F)) (of_bool (drop_bit 6 pos = i)) :: u64) [0, 1, 2, 3]"
  have ys: "limbs_val 64 ?ys = of_bool f * 2 ^ k"
    using cadd_addends_4x64 [of pos] assms(2) by (simp add: pos split: if_splits)
  obtain r t where c: "carry_chain 64 (0xFFFFFFFFFFFFFFFF :: u128) 0 (map2 (\<lambda>x y. ucast x + ucast y) (sc4_d a) ?ys) = (r, t)"
    by force
  have "map2 (\<lambda>x i. ucast x + ucast (push_bit (unat (pos AND 0x3F)) (of_bool (drop_bit 6 pos = i)) :: u64))
      (sc4_d a) [0, 1, 2, 3] = map2 (\<lambda>x y. ucast x + ucast y :: u128) (sc4_d a) ?ys"
    by (simp only: map2_map2)
  then have "scalar_cadd_bit_4x64 a k (of_bool f) = \<lparr>sc4_d = map ucast r\<rparr>"
    using c by (simp only: scalar_cadd_bit_4x64_def Let_def pos_def [symmetric] prod.case)
  moreover have "limbs_val 64 (map ucast r :: u64 list) = scalar_val_4x64 a + of_bool f * 2 ^ k" "length r = 4"
    using add_chain_4x64(2,3) [OF assms(1) _ c] assms(3)
    by (simp_all only: ys scalar_val_4x64_def) (simp_all)
  ultimately show ?thesis by (simp add: scalar_val_4x64_def)
qed

lemma set_b32_4x64:
  assumes "length b = 32"
  shows "scalar_wf_4x64 (fst (scalar_set_b32_4x64 b)) \<and>
    scalar_val_4x64 (fst (scalar_set_b32_4x64 b)) = be_val b mod scalar_n \<and>
    snd (scalar_set_b32_4x64 b) = of_bool (scalar_n \<le> be_val b)"
proof -
  let ?r = "\<lparr>sc4_d = map (\<lambda>i. be_word b (31 - 8 * i) 8) [0..<4]\<rparr>"
  have v: "scalar_val_4x64 ?r = be_val b"
    using limbs_val_be_word [of b 8 4, where 'a=64] assms by (simp add: scalar_val_4x64_def)
  have l: "length (sc4_d ?r) = 4" by simp
  show ?thesis
    using reduce_check_4x64 [OF l] reduce_4x64 [OF l] check_overflow_4x64 [OF l] v
    by (simp add: scalar_set_b32_4x64_def Let_def del: upt_rec_numeral)
qed

lemma get_b32_4x64: "length (sc4_d a) = 4 \<Longrightarrow> scalar_get_b32_4x64 a = be_bytes 32 (scalar_val_4x64 a)"
  using concat_word_bytes [of 8 "sc4_d a"] by (simp add: scalar_get_b32_4x64_def scalar_val_4x64_def)

lemma neg_addends_4x64:
  fixes d :: "u64 list"
  assumes "length d = 4"
    and xs: "xs = (ucast (NOT (d ! 0)) + ucast (n_4x64 ! 0) + 1 :: u128) #
      map2 (\<lambda>x n. ucast (NOT x) + ucast n) (tl d) (tl n_4x64)"
  shows "limbs_val 64 xs = 2 ^ 256 + scalar_n - limbs_val 64 d"
    "\<forall>x \<in> set xs. uint x + 2 ^ 64 \<le> 2 ^ 128" "length xs = 4"
proof -
  obtain d0 d1 d2 d3 where d: "d = [d0, d1, d2, d3]"
    using len4_cases [OF assms(1)] by auto
  obtain n0 n1 n2 n3 where n: "n_4x64 = [n0, n1, n2, n3]"
    using len4_cases [OF n_4x64_val(2)] by auto
  have u: "uint (ucast (NOT x) + ucast n :: u128) = 2 ^ 64 - 1 - uint x + uint n" for x n :: u64
    by (simp add: uint_ucast_add uint_not)
  have u1: "uint (ucast (NOT x) + ucast n + 1 :: u128) = 2 ^ 64 - uint x + uint n" for x n :: u64
  proof -
    have "uint n < 18446744073709551616" using uint_bounded [of n] by simp
    then have "uint n - uint x < 340282366920938463444927863358058659840" using uint_nonnegative [of x] by linarith
    then show ?thesis using u [of x n] by (subst uint_add_noov) simp_all
  qed
  have b: "2 ^ 64 - uint x + uint n + 2 ^ 64 \<le> 2 ^ 128" "2 ^ 64 - 1 - uint x + uint n + 2 ^ 64 \<le> 2 ^ 128"
    for x n :: u64
  proof -
    have "uint n < 18446744073709551616" using uint_bounded [of n] by simp
    then have "uint n - uint x \<le> 340282366920938463426481119284349108224" using uint_nonnegative [of x] by linarith
    then show "2 ^ 64 - uint x + uint n + 2 ^ 64 \<le> 2 ^ 128" "2 ^ 64 - 1 - uint x + uint n + 2 ^ 64 \<le> 2 ^ 128"
      by simp_all
  qed
  show "limbs_val 64 xs = 2 ^ 256 + scalar_n - limbs_val 64 d"
    using n_4x64_val(1) by (simp add: xs d n u u1)
  show "\<forall>x \<in> set xs. uint x + 2 ^ 64 \<le> 2 ^ 128"
    unfolding xs d n using b by (simp add: u u1)
  show "length xs = 4" by (simp add: xs d n)
qed

lemma negate_4x64:
  assumes "scalar_wf_4x64 a"
  shows "scalar_wf_4x64 (scalar_negate_4x64 a) \<and>
    scalar_val_4x64 (scalar_negate_4x64 a) = (- scalar_val_4x64 a) mod scalar_n"
proof -
  let ?v = "scalar_val_4x64 a"
  have l: "length (sc4_d a) = 4" and n: "?v < scalar_n" using assms by (simp_all add: scalar_wf_4x64_def)
  have 0: "0 \<le> ?v" by (simp add: scalar_val_4x64_def)
  let ?xs = "(ucast (NOT (sc4_d a ! 0)) + ucast (n_4x64 ! 0) + 1 :: u128) #
      map2 (\<lambda>x n. ucast (NOT x) + ucast n) (tl (sc4_d a)) (tl n_4x64)"
  note xs = neg_addends_4x64 [OF l refl]
  show ?thesis
  proof (cases "?v = 0")
    case True
    then have "scalar_negate_4x64 a = \<lparr>sc4_d = map ucast (fst (carry_chain 64 (0 :: u128) 0 ?xs))\<rparr>"
      using is_zero_4x64 [OF l] by (simp add: scalar_negate_4x64_def Let_def case_prod_beta)
    also have "\<dots> = scalar_clear_4x64"
      unfolding carry_chain_zero xs(3) scalar_clear_4x64_def by (simp add: numeral_eq_Suc)
    finally have "scalar_negate_4x64 a = scalar_clear_4x64" .
    then show ?thesis using True
      by (simp add: scalar_wf_4x64_def scalar_val_4x64_def scalar_clear_4x64_def)
  next
    case False
    obtain r t where c: "carry_chain 64 (0xFFFFFFFFFFFFFFFF :: u128) 0 ?xs = (r, t)" by force
    have e: "scalar_negate_4x64 a = \<lparr>sc4_d = map ucast r\<rparr>"
      using False c is_zero_4x64 [OF l] by (simp add: scalar_negate_4x64_def Let_def del: carry_chain.simps)
    have lim: "limbs_val 64 (map ucast r :: u64 list) + 2 ^ 256 * uint t = 2 ^ 256 + scalar_n - ?v"
      and lr: "length r = 4"
      using carry_chain_limbs [where 'a=64, of ?xs r t] c xs
      by (simp_all add: mask_64 scalar_val_4x64_def del: list.set set_simps)
    have "limbs_val 64 (map ucast r :: u64 list) = (scalar_n - ?v + 2 ^ 256) mod 2 ^ 256"
      using mod_of_sum [OF lim] limbs4_less [of "map ucast r"] lr by (simp add: algebra_simps)
    also have "\<dots> = (scalar_n - ?v) mod 2 ^ 256" by (rule mod_add_self2)
    also have "\<dots> = scalar_n - ?v" using n 0 by (intro mod_pos_pos_trivial) (simp_all add: scalar_n_def)
    finally have "limbs_val 64 (map ucast r :: u64 list) = scalar_n - ?v" .
    moreover have "0 < ?v" using False 0 by linarith
    ultimately show ?thesis using e lr scalar_neg_int [of ?v] n
      by (simp add: scalar_wf_4x64_def scalar_val_4x64_def)
  qed
qed

lemma ucast_minus_1: "(ucast (- 1 :: u64) :: u128) = 0xFFFFFFFFFFFFFFFF"
  by (simp add: word_uint_eq_iff uint_ucast unsigned_minus_1_eq_mask mask_numeral)

lemma cond_negate_4x64:
  assumes "length (sc4_d a) = 4"
  shows "scalar_cond_negate_4x64 a f = (if f then (scalar_negate_4x64 a, - 1) else (a, 1))"
proof -
  obtain d0 d1 d2 d3 where d: "sc4_d a = [d0, d1, d2, d3]"
    using len4_cases [OF assms] by auto
  show ?thesis
  proof (cases f)
    case True
    have "(ucast ((n_4x64 ! 0 + 1)) :: u128) = ucast (n_4x64 ! 0) + 1" by (simp add: n_4x64_def)
    then show ?thesis using True
      by (simp add: scalar_cond_negate_4x64_def scalar_negate_4x64_def Let_def case_prod_beta add.assoc ucast_minus_1
        del: carry_chain.simps)
  next
    case False
    let ?xs = "map2 (\<lambda>x y. ucast x + ucast y :: u128) (sc4_d a) [0, 0, 0, 0 :: u64]"
    have xs: "(ucast (sc4_d a ! 0 XOR (of_bool (\<not> f) - 1)) + ucast ((n_4x64 ! 0 + 1) AND (of_bool (\<not> f) - 1))) #
        map2 (\<lambda>x n. ucast (x XOR (of_bool (\<not> f) - 1)) + ucast (n AND (of_bool (\<not> f) - 1))) (tl (sc4_d a)) (tl n_4x64) = ?xs"
      using False by (simp add: d n_4x64_def)
    let ?m = "ucast (of_bool (scalar_is_zero_4x64 a) - 1 :: u64) :: u128"
    have "\<lparr>sc4_d = map ucast (fst (carry_chain 64 ?m 0 ?xs))\<rparr> = a"
    proof (cases "scalar_is_zero_4x64 a")
      case True
      then have "scalar_val_4x64 a = scalar_val_4x64 scalar_clear_4x64"
        using is_zero_4x64 [OF assms] by (simp add: scalar_val_4x64_def scalar_clear_4x64_def)
      then have "a = scalar_clear_4x64" using scalar_inj_4x64 assms by (simp add: scalar_clear_4x64_def)
      moreover have "\<lparr>sc4_d = map ucast (fst (carry_chain 64 ?m 0 ?xs))\<rparr> = scalar_clear_4x64"
        using True by (simp add: carry_chain_zero d scalar_clear_4x64_def del: carry_chain.simps)
      ultimately show ?thesis by simp
    next
      case False
      obtain r t where c: "carry_chain 64 (0xFFFFFFFFFFFFFFFF :: u128) 0 ?xs = (r, t)" by force
      have "scalar_val_4x64 \<lparr>sc4_d = map ucast r\<rparr> = scalar_val_4x64 a" "length r = 4"
        using add_chain_4x64(2,3) [OF assms _ c] limbs4_less [OF assms] by (simp_all add: scalar_val_4x64_def)
      then have "\<lparr>sc4_d = map ucast r\<rparr> = a" using assms by (intro scalar_inj_4x64) simp_all
      then show ?thesis using False c by (simp add: ucast_minus_1 del: carry_chain.simps)
    qed
    then show ?thesis
      unfolding scalar_cond_negate_4x64_def Let_def xs using False by (simp add: case_prod_beta)
  qed
qed

lemma ucast_bits_64: "count < 32 \<Longrightarrow> uint (ucast (x AND mask count :: u64) :: u32) = uint (x AND mask count)"
proof -
  assume "count < 32"
  then have "(2 :: int) ^ count \<le> 2 ^ 32" by (intro power_increasing) simp_all
  moreover have "uint (x AND mask count) < 2 ^ count" by (simp add: uint_and_mask)
  ultimately show ?thesis by (simp add: uint_ucast)
qed

lemma get_bits_4x64:
  assumes "length (sc4_d a) = 4" "offset + count \<le> 256" "0 < count" "count < 32" "(offset + count - 1) div 64 = offset div 64"
  shows "uint (scalar_get_bits_4x64 a offset count) = scalar_val_4x64 a div 2 ^ offset mod 2 ^ count"
proof -
  have "offset mod 64 + count \<le> 64" using same_limb [OF assms(5,3)] by simp
  moreover have "offset div 64 < 4" using assms(2,3) by (simp add: div_less_iff_less_mult)
  ultimately have "uint (drop_bit (offset mod 64) (sc4_d a ! (offset div 64)) AND mask count)
      = scalar_val_4x64 a div 2 ^ offset mod 2 ^ count"
    using get_bits_limbs [of offset "sc4_d a" count] uint_take_bit_word [of count, where 'a=64] assms
    by (simp add: scalar_val_4x64_def)
  then show ?thesis
    by (simp only: scalar_get_bits_4x64_def push_bit_1_mask ucast_bits_64 [OF assms(4)])
qed

lemma get_bits_var_4x64:
  assumes "length (sc4_d a) = 4" "offset + count \<le> 256" "0 < count" "count < 32"
  shows "uint (scalar_get_bits_var_4x64 a offset count) = scalar_val_4x64 a div 2 ^ offset mod 2 ^ count"
proof (cases "(offset + count - 1) div 64 = offset div 64")
  case True
  then show ?thesis using get_bits_4x64 [OF assms] by (simp add: scalar_get_bits_var_4x64_def)
next
  case False
  then have "offset div 64 + 1 < 4" using next_limb [of offset count 64 4] assms by simp
  then have "uint ((drop_bit (offset mod 64) (sc4_d a ! (offset div 64)) OR
        push_bit (64 - offset mod 64) (sc4_d a ! (offset div 64 + 1))) AND mask count)
      = scalar_val_4x64 a div 2 ^ offset mod 2 ^ count"
    using False get_bits_var_limbs [of offset "sc4_d a" count] uint_take_bit_word [of count, where 'a=64] assms
    by (simp add: scalar_val_4x64_def)
  then show ?thesis using False
    by (simp only: scalar_get_bits_var_4x64_def push_bit_1_mask ucast_bits_64 [OF assms(4)] if_False)
qed

lemma shr_int_4x64:
  assumes "length (sc4_d a) = 4" "0 < n" "n < 16"
  shows "length (sc4_d (fst (scalar_shr_int_4x64 a n))) = 4 \<and>
    scalar_val_4x64 (fst (scalar_shr_int_4x64 a n)) = scalar_val_4x64 a div 2 ^ n \<and>
    snd (scalar_shr_int_4x64 a n) = scalar_val_4x64 a mod 2 ^ n"
proof -
  let ?v = "limbs_val 64 (sc4_d a)"
  let ?d = "map (\<lambda>i. drop_bit n (sc4_d a ! i) + push_bit (64 - n) (sc4_d a ! (i + 1))) [0..<3] @ [drop_bit n (sc4_d a ! 3)]"
  have "?d = limbs_of 64 4 (drop_bit n ?v)"
    using shr_limbs [of "sc4_d a" 3 n] assms by simp
  moreover have "0 \<le> drop_bit n ?v" "drop_bit n ?v < 2 ^ 256"
    using limbs4_less [OF assms(1)] zdiv_mono2 [of ?v 1 "2 ^ n"]
    by (simp_all add: drop_bit_eq_div pos_imp_zdiv_nonneg_iff)
  ultimately have "limbs_val 64 ?d = drop_bit n ?v"
    using limbs_val_limbs_of [of 64 4 "drop_bit n ?v", where 'a=64] by (simp add: take_bit_int_eq_self)
  moreover have "sint (ucast (sc4_d a ! 0 AND mask n) :: u32) = ?v mod 2 ^ n"
  proof -
    have "sc4_d a ! 0 AND mask n = word_of_int (take_bit n (drop_bit 0 ?v))"
      using get_bits_limbs [of 0 "sc4_d a" n] assms by simp
    then have "uint (sc4_d a ! 0 AND mask n) = ?v mod 2 ^ n"
      using uint_take_bit_word [of n 0 ?v, where 'a=64] assms by simp
    then have u: "uint (ucast (sc4_d a ! 0 AND mask n) :: u32) = ?v mod 2 ^ n"
      using ucast_bits_64 [of n "sc4_d a ! 0"] assms by simp
    have "?v mod 2 ^ n < 2 ^ n" by simp
    also have "\<dots> \<le> 2 ^ 31" using assms by (intro power_increasing) simp_all
    finally show ?thesis using u by (simp add: sint_small)
  qed
  ultimately show ?thesis
    by (simp add: scalar_shr_int_4x64_def Let_def scalar_val_4x64_def push_bit_1_mask drop_bit_eq_div del: push_bit_of_1)
qed

section \<open>Multiplication\<close>

lemma wide_mul_64_law: "uint (snd (wide_mul_64 a b)) + 2 ^ LENGTH(64) * uint (fst (wide_mul_64 a b)) = uint a * uint b"
proof -
  have t: "uint (ucast a * ucast b :: u128) = uint a * uint b"
    using wval_uintD [OF wval_mul64 [of a "2 ^ 64 - 1" b "2 ^ 64 - 1"]] uint_bounded [of a] uint_bounded [of b] by simp
  have "uint a * uint b \<le> (2 ^ 64 - 1) * (2 ^ 64 - 1)"
    using uint_bounded [of a] uint_bounded [of b] by (intro mult_mono) simp_all
  then have "uint a * uint b div 2 ^ 64 < 2 ^ 64" by (simp add: div_less_iff_less_mult)
  then have "uint a * uint b div 2 ^ 64 mod 2 ^ 64 = uint a * uint b div 2 ^ 64"
    by (intro mod_pos_pos_trivial) (simp_all add: pos_imp_zdiv_nonneg_iff)
  then show ?thesis by (simp add: wide_mul_64_def Let_def uint_ucast uint_drop_bit t)
qed

interpretation wm64: wide_mul wide_mul_64
  by unfold_locales (rule wide_mul_64_law)

lemma mul_512_total_4x64:
  "acc_total w (scalar_mul_512_ops_4x64 [a0, a1, a2, a3] [b0, b1, b2, b3])
    = (a0 + 2 ^ w * (a1 + 2 ^ w * (a2 + 2 ^ w * a3))) * (b0 + 2 ^ w * (b1 + 2 ^ w * (b2 + 2 ^ w * b3)))"
  unfolding scalar_mul_512_ops_4x64_def by (simp add: algebra_simps)

lemma mul_512_fits_4x64:
  "length a = 4 \<Longrightarrow> length b = 4 \<Longrightarrow>
    acc_fits 64 32 (map (map_acc_op (\<lambda>_. 2 ^ 64 - 1)) (scalar_mul_512_ops_4x64 a b)) 0"
  unfolding scalar_mul_512_ops_4x64_def by simp

lemma mul_512_4x64:
  assumes "length (sc4_d a) = 4" "length (sc4_d b) = 4"
  shows "limbs_val 64 (scalar_mul_512_4x64 a b) = scalar_val_4x64 a * scalar_val_4x64 b"
    "length (scalar_mul_512_4x64 a b) = 8"
proof -
  let ?ops = "scalar_mul_512_ops_4x64 (sc4_d a) (sc4_d b)" and ?v = "scalar_val_4x64 a * scalar_val_4x64 b"
  obtain l c0 c1 c2 where r: "acc_run wide_mul_64 ?ops (0, 0, 0 :: u32) = (l, c0, c1, c2)"
    by (metis prod_cases3 surj_pair)
  obtain a0 a1 a2 a3 where a: "sc4_d a = [a0, a1, a2, a3]"
    using len4_cases [OF assms(1)] by auto
  obtain b0 b1 b2 b3 where b: "sc4_d b = [b0, b1, b2, b3]"
    using len4_cases [OF assms(2)] by auto
  have "acc_total 64 (map (map_acc_op uint) ?ops) = acc_total 64 (scalar_mul_512_ops_4x64 (map uint (sc4_d a)) (map uint (sc4_d b)))"
    by (simp add: scalar_mul_512_ops_4x64_def a b)
  also have "\<dots> = ?v"
    by (simp only: a b list.map mul_512_total_4x64 scalar_val_4x64_def limbs_val.simps mult_zero_right add_0_right)
  finally have t: "acc_total 64 (map (map_acc_op uint) ?ops) = ?v" .
  have n: "acc_extracts ?ops = 7" by (simp add: scalar_mul_512_ops_4x64_def)
  have "?v < 2 ^ 256 * 2 ^ 256"
    using limbs4_less [OF assms(1)] limbs4_less [OF assms(2)] unfolding scalar_val_4x64_def
    by (intro mult_strict_mono) simp_all
  then have "limbs_val 64 (l @ [c0]) = ?v" "length l = 7"
    using wm64.acc_run_limbs [OF r _ acc_bounds_max, of 0 ?v 7] mul_512_fits_4x64 [OF assms] t n by simp_all
  then show "limbs_val 64 (scalar_mul_512_4x64 a b) = ?v" "length (scalar_mul_512_4x64 a b) = 8"
    by (simp_all add: scalar_mul_512_4x64_def r)
qed

lemma sqr_512_total_4x64:
  "acc_total w (scalar_sqr_512_ops_4x64 [a0, a1, a2, a3])
    = (a0 + 2 ^ w * (a1 + 2 ^ w * (a2 + 2 ^ w * a3))) * (a0 + 2 ^ w * (a1 + 2 ^ w * (a2 + 2 ^ w * a3)))"
  unfolding scalar_sqr_512_ops_4x64_def by (simp add: algebra_simps)

lemma sqr_512_4x64:
  assumes "length (sc4_d a) = 4"
  shows "scalar_sqr_512_4x64 a = scalar_mul_512_4x64 a a"
proof -
  let ?ops = "scalar_sqr_512_ops_4x64 (sc4_d a)" and ?v = "scalar_val_4x64 a * scalar_val_4x64 a"
  obtain l c0 c1 c2 where r: "acc_run wide_mul_64 ?ops (0, 0, 0 :: u32) = (l, c0, c1, c2)"
    by (metis prod_cases3 surj_pair)
  obtain a0 a1 a2 a3 where a: "sc4_d a = [a0, a1, a2, a3]"
    using len4_cases [OF assms(1)] by auto
  have "acc_total 64 (map (map_acc_op uint) ?ops) = acc_total 64 (scalar_sqr_512_ops_4x64 (map uint (sc4_d a)))"
    by (simp add: scalar_sqr_512_ops_4x64_def a)
  also have "\<dots> = ?v"
    by (simp only: a list.map sqr_512_total_4x64 scalar_val_4x64_def limbs_val.simps mult_zero_right add_0_right)
  finally have t: "acc_total 64 (map (map_acc_op uint) ?ops) = ?v" .
  have n: "acc_extracts ?ops = 7" by (simp add: scalar_sqr_512_ops_4x64_def)
  have f: "acc_fits 64 32 (map (map_acc_op (\<lambda>_. 2 ^ 64 - 1)) ?ops) 0"
    unfolding scalar_sqr_512_ops_4x64_def by simp
  have "?v < 2 ^ 256 * 2 ^ 256"
    using limbs4_less [OF assms] unfolding scalar_val_4x64_def by (intro mult_strict_mono) simp_all
  then have "limbs_val 64 (l @ [c0]) = ?v" "length l = 7"
    using wm64.acc_run_limbs [OF r _ acc_bounds_max, of 0 ?v 7] f t n by simp_all
  then show ?thesis
    using limbs_val_inj [of "l @ [c0]" "scalar_mul_512_4x64 a a" 64] mul_512_4x64 [OF assms assms]
      uint_bounded [where 'a=64] by (simp add: scalar_sqr_512_4x64_def r)
qed

lemma nc_4x64_form:
  obtains k0 k1 where "nc_4x64 = [k0, k1, 1]" "uint k0 + 2 ^ 64 * (uint k1 + 2 ^ 64) = scalar_nc"
  using nc_4x64_eq by (rule that) (simp add: scalar_nc_def)

lemma len7_cases: "length m = 7 \<Longrightarrow> \<exists>m0 m1 m2 m3 m4 m5 m6. m = [m0, m1, m2, m3, m4, m5, m6]"
  by (auto simp: length_Suc_conv numeral_eq_Suc)

lemma reduce_512_m_total_4x64:
  "l0 + acc_total w (scalar_reduce_512_m_4x64 [l0, l1, l2, l3, n0, n1, n2, n3] [k0, k1, k2])
    = (l0 + 2 ^ w * (l1 + 2 ^ w * (l2 + 2 ^ w * l3))) +
      (n0 + 2 ^ w * (n1 + 2 ^ w * (n2 + 2 ^ w * n3))) * (k0 + 2 ^ w * (k1 + 2 ^ w))"
  unfolding scalar_reduce_512_m_4x64_def by (simp add: algebra_simps)

lemma reduce_512_p_total_4x64:
  "m0 + acc_total w (scalar_reduce_512_p_4x64 [m0, m1, m2, m3, m4, m5, m6] [k0, k1, k2])
      + 2 ^ w * (2 ^ w * (2 ^ w * (2 ^ w * m6)))
    = (m0 + 2 ^ w * (m1 + 2 ^ w * (m2 + 2 ^ w * m3))) +
      (m4 + 2 ^ w * (m5 + 2 ^ w * m6)) * (k0 + 2 ^ w * (k1 + 2 ^ w))"
  unfolding scalar_reduce_512_p_4x64_def by (simp add: algebra_simps)

lemma limbs_val_bounds_64: "length l = k \<Longrightarrow> 0 \<le> limbs_val 64 l \<and> limbs_val 64 l < 2 ^ (64 * k)" for l :: "u64 list"
  using limbs_val_full_less [of l] by simp

lemma reduce_512_m_4x64:
  assumes "length l = 8" "acc_run wide_mul_64 (scalar_reduce_512_m_4x64 l nc_4x64) (l ! 0, 0, 0 :: u64) = (m, c0, c1, c2)"
  shows "length m = 6"
    "limbs_val 64 (m @ [c0]) = limbs_val 64 (take 4 l) + limbs_val 64 (drop 4 l) * scalar_nc"
proof -
  obtain l0 l1 l2 l3 n0 n1 n2 n3 where l: "l = [l0, l1, l2, l3, n0, n1, n2, n3]"
    using len8_cases [OF assms(1)] by auto
  obtain k0 k1 where k: "nc_4x64 = [k0, k1, 1]" "uint k0 + 2 ^ 64 * (uint k1 + 2 ^ 64) = scalar_nc"
    by (rule nc_4x64_form)
  let ?ops = "scalar_reduce_512_m_4x64 l nc_4x64"
  let ?v = "limbs_val 64 (take 4 l) + limbs_val 64 (drop 4 l) * scalar_nc"
  have e: "map (map_acc_op uint) ?ops = scalar_reduce_512_m_4x64 (map uint l) (map uint nc_4x64)"
    by (simp add: scalar_reduce_512_m_4x64_def l k Let_def)
  have t: "uint l0 + acc_total 64 (map (map_acc_op uint) ?ops) = ?v"
    unfolding e k(2) [symmetric] unfolding l k(1) list.map reduce_512_m_total_4x64 by simp
  have n: "acc_extracts ?ops = 6" by (simp add: scalar_reduce_512_m_4x64_def Let_def)
  have f: "acc_fits 64 64 (map (map_acc_op (\<lambda>_. 2 ^ 64 - 1)) ?ops) (2 ^ 64 - 1)"
    unfolding scalar_reduce_512_m_4x64_def Let_def by simp
  have "limbs_val 64 (take 4 l) < 2 ^ 256" "limbs_val 64 (drop 4 l) < 2 ^ 256"
    using limbs_val_bounds_64 [of "take 4 l" 4] limbs_val_bounds_64 [of "drop 4 l" 4] assms(1) by simp_all
  then have "?v < 2 ^ 448" by (simp add: scalar_nc_def)
  moreover have "uint l0 \<le> 2 ^ 64 - 1" using uint_bounded [of l0] by simp
  ultimately show "length m = 6" "limbs_val 64 (m @ [c0]) = ?v"
    using wm64.acc_run_limbs [OF assms(2) _ acc_bounds_max, of "2 ^ 64 - 1" ?v 6] f t n
    by (simp_all add: l)
qed

lemma reduce_512_p_4x64:
  assumes "length m = 7" "uint (m ! 6) \<le> 1"
    "acc_run wide_mul_64 (scalar_reduce_512_p_4x64 m nc_4x64) (m ! 0, 0, 0 :: u64) = (p, c0, c1, c2)"
  shows "length p = 4"
    "limbs_val 64 p + 2 ^ 256 * (uint c0 + uint (m ! 6))
      = limbs_val 64 (take 4 m) + limbs_val 64 (drop 4 m) * scalar_nc"
proof -
  obtain m0 m1 m2 m3 m4 m5 m6 where m: "m = [m0, m1, m2, m3, m4, m5, m6]"
    using len7_cases [OF assms(1)] by auto
  obtain k0 k1 where k: "nc_4x64 = [k0, k1, 1]" "uint k0 + 2 ^ 64 * (uint k1 + 2 ^ 64) = scalar_nc"
    by (rule nc_4x64_form)
  let ?ops = "scalar_reduce_512_p_4x64 m nc_4x64" and ?B = "2 ^ 64 - 1 :: int"
  let ?bops = "scalar_reduce_512_p_4x64 [?B, ?B, ?B, ?B, ?B, ?B, 1] [?B, ?B, 1]"
  let ?w = "limbs_val 64 (take 4 m) + limbs_val 64 (drop 4 m) * scalar_nc"
  let ?v = "?w - 2 ^ 256 * uint m6"
  have b: "uint (x :: u64) \<le> ?B" for x using uint_bounded [of x] by simp
  have bb: "list_all2 (rel_acc_op (\<lambda>x b. uint x \<le> b)) ?ops ?bops"
    unfolding scalar_reduce_512_p_4x64_def m k using b [simplified] assms(2) by (simp add: m)
  have e: "map (map_acc_op uint) ?ops = scalar_reduce_512_p_4x64 (map uint m) (map uint nc_4x64)"
    by (simp add: scalar_reduce_512_p_4x64_def m k)
  have t: "uint m0 + acc_total 64 (map (map_acc_op uint) ?ops) = ?v"
  proof -
    have "uint m0 + acc_total 64 (map (map_acc_op uint) ?ops) + 2 ^ 256 * uint m6 = ?w"
      unfolding e k(2) [symmetric] unfolding m k(1) list.map
      using reduce_512_p_total_4x64 [of "uint m0" 64 "uint m1" "uint m2" "uint m3" "uint m4" "uint m5" "uint m6"
        "uint k0" "uint k1" 1]
      by simp
    then show ?thesis by linarith
  qed
  have n: "acc_extracts ?ops = 4" by (simp add: scalar_reduce_512_p_4x64_def)
  have f: "acc_fits 64 64 ?bops ?B"
    unfolding scalar_reduce_512_p_4x64_def by simp
  have "limbs_val 64 [m4, m5] < 2 ^ 128" using limbs_val_bounds_64 [of "[m4, m5]" 2] by simp
  then have "limbs_val 64 (drop 4 m) < 2 ^ 129" using assms(2) by (simp add: m)
  moreover have "limbs_val 64 (take 4 m) < 2 ^ 256" using limbs_val_bounds_64 [of "take 4 m" 4] assms(1) by simp
  ultimately have "?w < 2 ^ 320" unfolding scalar_nc_def by simp
  moreover have "0 \<le> 2 ^ 256 * uint m6" by simp
  ultimately have "?v < 2 ^ 320" by linarith
  then show "length p = 4" "limbs_val 64 p + 2 ^ 256 * (uint c0 + uint (m ! 6)) = ?w"
    using wm64.acc_run_limbs(2,3) [OF assms(3) _ bb, of ?B ?v 4] f t n b [of m0]
    by (simp_all add: m)
qed

lemma reduce_512_tail_4x64:
  fixes p4 :: u32
  assumes "length p = 4" "uint p4 \<le> 2"
    and c: "carry_chain 64 (0xFFFFFFFFFFFFFFFF :: u128) 0
           [ucast (p ! 0) + ucast (nc_4x64 ! 0) * ucast p4, ucast (p ! 1) + ucast (nc_4x64 ! 1) * ucast p4,
            ucast (p ! 2) + ucast p4, ucast (p ! 3 :: u64)] = (d, t)"
  shows "length d = 4" "limbs_val 64 (map ucast d :: u64 list) + 2 ^ 256 * uint t = limbs_val 64 p + uint p4 * scalar_nc"
proof -
  obtain p0 p1 p2 p3 where p: "p = [p0, p1, p2, p3]"
    using len4_cases [OF assms(1)] by auto
  obtain k0 k1 where k: "nc_4x64 = [k0, k1, 1]" "uint k0 + 2 ^ 64 * (uint k1 + 2 ^ 64) = scalar_nc"
    by (rule nc_4x64_form)
  have b: "uint (x :: u64) \<le> 18446744073709551615" for x using uint_bounded [of x] by simp
  have x: "wval (ucast x :: u128) (uint x) 18446744073709551615" for x :: u64
    by (rule wval_ucast [OF wval_leaf [OF b]]) simp
  have y: "wval (ucast p4 :: u128) (uint p4) 2"
    by (rule wval_ucast [OF wval_leaf [OF assms(2)]]) simp
  have w: "wval (ucast x + ucast k * ucast p4 :: u128) (uint x + uint k * uint p4)
      (18446744073709551615 + 18446744073709551615 * 2)" for x k :: u64
    by (rule wval_add [OF x wval_mult [OF x y]]) simp_all
  have w4: "wval (ucast x + ucast p4 :: u128) (uint x + uint p4) (18446744073709551615 + 2)" for x :: u64
    by (rule wval_add [OF x y]) simp
  have u: "uint (ucast x :: u128) = uint x" for x :: u64 by (simp add: uint_ucast_up)
  note us = w [THEN wval_uintD] w4 [THEN wval_uintD] u
  let ?xs = "[ucast p0 + ucast k0 * ucast p4, ucast p1 + ucast k1 * ucast p4, ucast p2 + ucast p4, ucast p3 :: u128]"
  have bw: "uint (ucast x + ucast k * ucast p4 :: u128) + 2 ^ 64 \<le> 2 ^ 128"
    "uint (ucast x + ucast p4 :: u128) + 2 ^ 64 \<le> 2 ^ 128" "uint (ucast x :: u128) + 2 ^ 64 \<le> 2 ^ 128" for x k :: u64
    using w [of x k] w4 [of x] b [of x] by (simp_all add: wval_def u)
  have "carry_chain 64 (mask 64) 0 ?xs = (d, t)" using c mask_64 by (simp add: p k(1) del: carry_chain.simps)
  moreover have "\<forall>x \<in> set ?xs. uint x + 2 ^ 64 \<le> 2 ^ 128" unfolding list.set using bw by blast
  moreover have "limbs_val 64 ?xs = limbs_val 64 p + uint p4 * scalar_nc"
    unfolding k(2) [symmetric] p by (simp add: us) (simp add: algebra_simps)
  ultimately show "length d = 4" "limbs_val 64 (map ucast d :: u64 list) + 2 ^ 256 * uint t = limbs_val 64 p + uint p4 * scalar_nc"
    using carry_chain_limbs [where 'a=64, of ?xs d t] by (simp_all del: carry_chain.simps limbs_val.simps)
qed

lemma reduce_512_4x64:
  assumes "length l = 8"
  shows "scalar_wf_4x64 (scalar_reduce_512_4x64 l) \<and>
    scalar_val_4x64 (scalar_reduce_512_4x64 l) = limbs_val 64 l mod scalar_n"
proof -
  obtain m0 c0 c1 c2 where m: "acc_run wide_mul_64 (scalar_reduce_512_m_4x64 l nc_4x64) (l ! 0, 0, 0 :: u64) = (m0, c0, c1, c2)"
    by (metis prod_cases3 surj_pair)
  define m6 :: u32 where "m6 = ucast c0"
  define m where "m = m0 @ [ucast m6]"
  obtain p c0' c1' c2' where p: "acc_run wide_mul_64 (scalar_reduce_512_p_4x64 m nc_4x64) (m ! 0, 0, 0 :: u64) = (p, c0', c1', c2')"
    by (metis prod_cases3 surj_pair)
  define p4 :: u32 where "p4 = ucast (c0' + ucast m6)"
  obtain d t where d: "carry_chain 64 (0xFFFFFFFFFFFFFFFF :: u128) 0
      [ucast (p ! 0) + ucast (nc_4x64 ! 0) * ucast p4, ucast (p ! 1) + ucast (nc_4x64 ! 1) * ucast p4,
       ucast (p ! 2) + ucast p4, ucast (p ! 3)] = (d, t)" by force
  let ?r = "\<lparr>sc4_d = map ucast d\<rparr>"
  let ?lo = "limbs_val 64 (take 4 l)" and ?hi = "limbs_val 64 (drop 4 l)"
  have lohi: "0 \<le> ?lo" "?lo < 2 ^ 256" "0 \<le> ?hi" "?hi < 2 ^ 256"
    using limbs_val_bounds_64 [of "take 4 l" 4] limbs_val_bounds_64 [of "drop 4 l" 4] assms by simp_all
  have lm0: "length m0 = 6" and M0: "limbs_val 64 (m0 @ [c0]) = ?lo + ?hi * scalar_nc"
    using reduce_512_m_4x64 [OF assms m] by simp_all
  have "?lo + ?hi * scalar_nc < 2 ^ 385" using lohi by (simp add: scalar_nc_def)
  moreover have "limbs_val 64 (m0 @ [c0]) = limbs_val 64 m0 + 2 ^ 384 * uint c0" using lm0 by (simp add: limbs_val_snoc)
  ultimately have "2 ^ 384 * uint c0 < 2 ^ 385" using M0 limbs_val_nonneg [of 64 m0] by linarith
  then have c0: "uint c0 \<le> 1" by simp
  then have u6: "uint (ucast m6 :: u64) = uint c0" by (simp add: m6_def uint_ucast)
  then have m6: "ucast m6 = c0" by (simp add: word_uint_eq_iff)
  have lm: "length m = 7" "uint (m ! 6) \<le> 1" and M: "limbs_val 64 m = ?lo + ?hi * scalar_nc"
    using lm0 M0 c0 by (simp_all add: m_def m6 nth_append)
  have mlo: "0 \<le> limbs_val 64 (take 4 m)" "limbs_val 64 (take 4 m) < 2 ^ 256" "0 \<le> limbs_val 64 (drop 4 m)"
    using limbs_val_bounds_64 [of "take 4 m" 4] lm by simp_all
  have Ms: "limbs_val 64 (take 4 m) + 2 ^ 256 * limbs_val 64 (drop 4 m) = ?lo + ?hi * scalar_nc"
    using limbs_val_take_drop [of 4 m 64] M lm by simp
  note pp = reduce_512_p_4x64 [OF lm p]
  have plo: "0 \<le> limbs_val 64 p" "limbs_val 64 p < 2 ^ 256" using limbs_val_bounds_64 [OF pp(1)] by simp_all
  note i = scalar_512_int [OF lohi Ms mlo pp(2) plo]
  have "0 \<le> uint c0' + uint (m ! 6)" by simp
  note i = i [OF this]
  have "uint (c0' + ucast m6) = uint c0' + uint (m ! 6)"
    using i(2) lm0 by (subst uint_add_noov) (simp_all add: m_def nth_append)
  then have p4: "uint p4 = uint c0' + uint (m ! 6)" using i(2) by (simp add: p4_def uint_ucast)
  have t: "length (sc4_d ?r) = 4" "scalar_val_4x64 ?r + 2 ^ 256 * uint t = limbs_val 64 p + uint p4 * scalar_nc"
    using reduce_512_tail_4x64 [OF pp(1) _ d] i(2) p4 by (simp_all add: scalar_val_4x64_def)
  let ?v = "limbs_val 64 p + uint p4 * scalar_nc"
  have v: "0 \<le> ?v" "?v < 2 * scalar_n" "?v mod scalar_n = limbs_val 64 l mod scalar_n"
    using i(3,4) p4 plo(1) limbs_val_take_drop [of 4 l 64] assms
    by (simp_all add: scalar_nc_def)
  have r: "uint t + of_bool (scalar_n \<le> scalar_val_4x64 ?r) = of_bool (scalar_n \<le> ?v)"
    "(scalar_val_4x64 ?r + of_bool (scalar_n \<le> ?v) * scalar_nc) mod 2 ^ 256 = ?v mod scalar_n"
    using scalar_reduce_once [OF t(2) v(1,2)] limbs4_less [OF t(1)] by (simp_all add: scalar_val_4x64_def)
  have o: "ucast (t + of_bool (scalar_check_overflow_4x64 ?r)) = (of_bool (scalar_n \<le> ?v) :: u32)"
  proof -
    have "uint (t + of_bool (scalar_check_overflow_4x64 ?r)) = of_bool (scalar_n \<le> ?v)"
      using r(1) check_overflow_4x64 [OF t(1)] uint_add_of_bool [of t "scalar_n \<le> scalar_val_4x64 ?r"] by simp
    then show ?thesis by (simp add: word_uint_eq_iff uint_ucast)
  qed
  have "scalar_reduce_512_4x64 l = fst (scalar_reduce_4x64 ?r (of_bool (scalar_n \<le> ?v)))"
    unfolding scalar_reduce_512_4x64_def Let_def m prod.case m6_def [symmetric] m_def [symmetric] p p4_def [symmetric] d o ..
  then show ?thesis using reduce_4x64 [OF t(1)] r(2) v(3) by (simp add: scalar_wf_4x64_def)
qed

lemma mul_4x64:
  assumes "scalar_wf_4x64 a" "scalar_wf_4x64 b"
  shows "scalar_wf_4x64 (scalar_mul_4x64 a b) \<and>
    scalar_val_4x64 (scalar_mul_4x64 a b) = (scalar_val_4x64 a * scalar_val_4x64 b) mod scalar_n"
  using mul_512_4x64 [of a b] reduce_512_4x64 [of "scalar_mul_512_4x64 a b"] assms
  by (simp add: scalar_wf_4x64_def scalar_mul_4x64_def)

lemma sqr_is_mul_4x64: "scalar_wf_4x64 a \<Longrightarrow> scalar_sqr_4x64 a = scalar_mul_4x64 a a"
  by (simp add: scalar_sqr_4x64_def scalar_mul_4x64_def sqr_512_4x64 scalar_wf_4x64_def)

section \<open>Products shifted right\<close>

lemma mul_shift_limbs_4x64:
  assumes "length l = 8" "256 \<le> shift"
  shows "map (\<lambda>i. if shift < 512 - 64 * i
             then drop_bit (shift mod 64) (l ! (i + shift div 64)) OR
               (if shift < 448 - 64 * i \<and> shift mod 64 \<noteq> 0
                then push_bit (64 - shift mod 64) (l ! (i + 1 + shift div 64)) else 0)
             else 0) [0..<3] @
           [if shift < 320 then drop_bit (shift mod 64) (l ! (3 + shift div 64)) else 0]
    = (limbs_of 64 4 (drop_bit shift (limbs_val 64 l)) :: u64 list)"
proof (rule limbs_eq_limbs_ofI)
  let ?x = "\<lambda>i. if shift < 512 - 64 * i
             then drop_bit (shift mod 64) (l ! (i + shift div 64)) OR
               (if shift < 448 - 64 * i \<and> shift mod 64 \<noteq> 0
                then push_bit (64 - shift mod 64) (l ! (i + 1 + shift div 64)) else 0)
             else 0"
  let ?x3 = "if shift < 320 then drop_bit (shift mod 64) (l ! (3 + shift div 64)) else 0"
  have x3: "?x3 = ?x 3" using assms(2) by (simp add: add.commute)
  fix i b :: nat assume i: "i < 4"
  have "(map ?x [0..<3] @ [?x3]) ! i = ?x i"
    using i x3 by (cases "i = 3") (auto simp: nth_append)
  moreover have "bit (?x i) b \<longleftrightarrow> b < 64 \<and> bit (limbs_val 64 l) (shift + (64 * i + b))"
  proof -
    have c: "shift + 64 * i < 512 \<longleftrightarrow> shift < 512 - 64 * i" "shift + 64 * Suc i < 512 \<longleftrightarrow> shift < 448 - 64 * i"
      using i by auto
    have "?x i = (if shift + LENGTH(64) * i < LENGTH(64) * length l
      then drop_bit (shift mod LENGTH(64)) (l ! (i + shift div LENGTH(64))) OR
        (if shift + LENGTH(64) * Suc i < LENGTH(64) * length l \<and> shift mod LENGTH(64) \<noteq> 0
         then push_bit (LENGTH(64) - shift mod LENGTH(64)) (l ! (i + 1 + shift div LENGTH(64))) else 0)
      else 0)"
      using assms(1) c by simp
    moreover have "LENGTH(64) = 64" by simp
    ultimately show ?thesis using mul_shift_limb [of "?x i" shift i l b] by metis
  qed
  ultimately show "bit ((map ?x [0..<3] @ [?x3]) ! i) b \<longleftrightarrow> b < 64 \<and> bit (drop_bit shift (limbs_val 64 l)) (64 * i + b)"
    by (simp add: bit_drop_bit_eq)
qed simp_all

lemma mul_shift_var_4x64:
  assumes "scalar_wf_4x64 a" "scalar_wf_4x64 b" "256 \<le> shift" "shift \<le> 512"
  shows "scalar_wf_4x64 (scalar_mul_shift_var_4x64 a b shift) \<and>
    scalar_val_4x64 (scalar_mul_shift_var_4x64 a b shift)
      = (scalar_val_4x64 a * scalar_val_4x64 b + 2 ^ (shift - 1)) div 2 ^ shift"
proof -
  let ?l = "scalar_mul_512_4x64 a b" and ?v = "scalar_val_4x64 a * scalar_val_4x64 b"
  have l: "limbs_val 64 ?l = ?v" "length ?l = 8"
    using mul_512_4x64 [of a b] assms by (simp_all add: scalar_wf_4x64_def)
  let ?d = "limbs_of 64 4 (drop_bit shift ?v) :: u64 list"
  have ab: "0 \<le> scalar_val_4x64 a" "scalar_val_4x64 a < scalar_n" "0 \<le> scalar_val_4x64 b" "scalar_val_4x64 b < scalar_n"
    using assms by (simp_all add: scalar_wf_4x64_def scalar_val_4x64_def)
  note q = scalar_prod_shift [OF ab assms(3)]
  have "limbs_val 64 ?d = take_bit 256 (drop_bit shift ?v)" by (simp add: limbs_val_limbs_of)
  also have "\<dots> = ?v div 2 ^ shift"
    using q by (simp add: drop_bit_eq_div take_bit_int_eq_self scalar_n_def)
  finally have d: "scalar_val_4x64 \<lparr>sc4_d = ?d\<rparr> = ?v div 2 ^ shift" by (simp add: scalar_val_4x64_def)
  have k: "(shift - 1) div 64 < length ?l" using assms(3,4) l(2) by (simp add: div_less_iff_less_mult Suc_leI)
  have "sint (ucast (drop_bit ((shift - 1) mod 64) (?l ! ((shift - 1) div 64)) AND 1) :: u32) = of_bool (bit ?v (shift - 1))"
    using low_bit_limb [of "shift - 1" ?l] k l by simp
  moreover have "length (sc4_d \<lparr>sc4_d = ?d\<rparr>) = 4" by simp
  ultimately have "scalar_mul_shift_var_4x64 a b shift
      = scalar_cadd_bit_4x64 \<lparr>sc4_d = ?d\<rparr> 0 (of_bool (bit ?v (shift - 1)))"
    using mul_shift_limbs_4x64 [OF l(2) assms(3)] l(1)
    unfolding scalar_mul_shift_var_4x64_def Let_def by (simp only:)
  moreover have "?v div 2 ^ shift + of_bool (bit ?v (shift - 1)) < scalar_n" using q by simp
  ultimately show ?thesis
    using cadd_bit_4x64 [of "\<lparr>sc4_d = ?d\<rparr>" 0 "bit ?v (shift - 1)"] d round_div [of shift ?v] assms(3)
    by (simp add: scalar_wf_4x64_def scalar_n_def)
qed

section \<open>The remaining operations and the interface\<close>

lemma split_128_4x64:
  assumes "scalar_wf_4x64 a"
  shows "scalar_wf_4x64 (fst (scalar_split_128_4x64 a)) \<and> scalar_wf_4x64 (snd (scalar_split_128_4x64 a)) \<and>
    scalar_val_4x64 (fst (scalar_split_128_4x64 a)) = scalar_val_4x64 a mod 2 ^ 128 \<and>
    scalar_val_4x64 (snd (scalar_split_128_4x64 a)) = scalar_val_4x64 a div 2 ^ 128"
proof -
  let ?d = "sc4_d a"
  let ?lo = "limbs_val 64 (take 2 ?d)" and ?hi = "limbs_val 64 (drop 2 ?d)"
  have l: "length ?d = 4" using assms by (simp add: scalar_wf_4x64_def)
  have "scalar_val_4x64 (fst (scalar_split_128_4x64 a)) = ?lo" "scalar_val_4x64 (snd (scalar_split_128_4x64 a)) = ?hi"
    "length (sc4_d (fst (scalar_split_128_4x64 a))) = 4" "length (sc4_d (snd (scalar_split_128_4x64 a))) = 4"
    using len4_cases [OF l]
    by (auto simp: scalar_split_128_4x64_def scalar_val_4x64_def Let_def)
  moreover have "scalar_val_4x64 a = ?lo + 2 ^ 128 * ?hi"
    using limbs_val_take_drop [of 2 ?d 64] l by (simp add: scalar_val_4x64_def)
  moreover have b: "0 \<le> ?lo" "?lo < 2 ^ 128" "0 \<le> ?hi" "?hi < 2 ^ 128"
    using limbs_val_bounds_64 [of "take 2 ?d" 2] limbs_val_bounds_64 [of "drop 2 ?d" 2] l by simp_all
  moreover have "(?lo + 2 ^ 128 * ?hi) mod 2 ^ 128 = ?lo" "(?lo + 2 ^ 128 * ?hi) div 2 ^ 128 = ?hi"
    using b by simp_all
  ultimately show ?thesis by (simp add: scalar_wf_4x64_def scalar_n_def)
qed

lemma eq_4x64:
  assumes "scalar_wf_4x64 a" "scalar_wf_4x64 b"
  shows "scalar_eq_4x64 a b \<longleftrightarrow> a = b"
proof -
  have l: "length (sc4_d a) = 4" "length (sc4_d b) = 4" using assms by (simp_all add: scalar_wf_4x64_def)
  have "x XOR y = 0 \<longleftrightarrow> x = y" for x y :: u64 using or_xor_eq_0 [of x y 0] by simp
  then show ?thesis
    using len4_cases [OF l(1)] len4_cases [OF l(2)]
    by (cases a; cases b) (auto simp: scalar_eq_4x64_def Let_def or_xor_eq_0 or.assoc)
qed

lemma same_wider_limb: "x div 32 = y div 32 \<Longrightarrow> x div 64 = y div 64" for x y :: nat
  using div_mult2_eq [of x 32 2] div_mult2_eq [of y 32 2] by simp

lemma uint_pair_32: "uint (push_bit 32 (ucast y) OR ucast x :: u64) = uint x + 2 ^ 32 * uint y" for x y :: u32
proof -
  have "uint (push_bit 32 (ucast y) OR ucast x :: u64) = push_bit 32 (uint y) OR uint x"
    using uint_bounded [of y] by (simp add: unsigned_or_eq unsigned_push_bit_eq uint_ucast_up take_bit_push_bit take_bit_int_eq_self)
  also have "\<dots> = push_bit 32 (uint y) + uint x"
    using uint_bounded [of x] by (intro int_or_add [of _ 32]) (simp_all add: push_bit_eq_mult)
  finally show ?thesis by (simp add: push_bit_eq_mult)
qed

interpretation sc4: scalar_repr S4x64 scalar_val_4x64 scalar_wf_4x64
proof (unfold_locales, goal_cases)
  case (1 a) then show ?case by (simp add: scalar_wf_4x64_def scalar_val_4x64_def)
next
  case (2 a b) then show ?case using scalar_inj_4x64 [of a b] by (simp add: scalar_wf_4x64_def)
next
  case 3 show ?case by (simp add: S4x64_def scalar_clear_4x64_def scalar_wf_4x64_def scalar_val_4x64_def scalar_n_def)
next
  case (4 v) show ?case
    using uint_bounded [of v]
    by (simp add: S4x64_def scalar_set_int_4x64_def scalar_wf_4x64_def scalar_val_4x64_def scalar_n_def uint_ucast_up)
next
  case (5 a count offset)
  then have "(offset + count - 1) div 64 = offset div 64" using same_wider_limb [of "offset + count - 1" offset] by simp
  then show ?case using 5 get_bits_4x64 [of a offset count] by (simp add: S4x64_def scalar_wf_4x64_def)
next
  case (6 a count offset) then show ?case using get_bits_var_4x64 [of a offset count] by (simp add: S4x64_def scalar_wf_4x64_def)
next
  case (7 bs) then show ?case using set_b32_4x64 by (simp add: S4x64_def)
next
  case (8 a) then show ?case using get_b32_4x64 by (simp add: S4x64_def scalar_wf_4x64_def)
next
  case (9 a b) then show ?case using add_4x64 by (simp add: S4x64_def)
next
  case (10 a k f) then show ?case
    using cadd_bit_4x64 [of a k f] by (simp add: S4x64_def scalar_wf_4x64_def scalar_n_def)
next
  case (11 a b) then show ?case using mul_4x64 by (simp add: S4x64_def)
next
  case (12 a) then show ?case using mul_4x64 [of a a] by (simp add: S4x64_def sqr_is_mul_4x64)
next
  case (13 a n)
  then have "scalar_val_4x64 a div 2 ^ n \<le> scalar_val_4x64 a"
    by (intro div_le_self_int) (simp_all add: scalar_val_4x64_def)
  then show ?case using shr_int_4x64 [of a n] 13 by (simp add: S4x64_def scalar_wf_4x64_def)
next
  case (14 a) then show ?case using negate_4x64 by (simp add: S4x64_def)
next
  case (15 a) then show ?case using is_zero_4x64 by (simp add: S4x64_def scalar_wf_4x64_def)
next
  case (16 a) then show ?case using is_one_4x64 by (simp add: S4x64_def scalar_wf_4x64_def)
next
  case (17 a) then show ?case using is_even_4x64 by (simp add: S4x64_def scalar_wf_4x64_def)
next
  case (18 a) then show ?case using is_high_4x64 by (simp add: S4x64_def scalar_wf_4x64_def)
next
  case (19 a f) then show ?case using cond_negate_4x64 by (simp add: S4x64_def scalar_wf_4x64_def)
next
  case (20 a b) then show ?case using eq_4x64 by (simp add: S4x64_def)
next
  case (21 a) then show ?case using split_128_4x64 by (simp add: S4x64_def)
next
  case (22 a b shift) then show ?case using mul_shift_var_4x64 by (simp add: S4x64_def)
next
  case (23 d0 d1 d2 d3 d4 d5 d6 d7) then show ?case
    by (simp add: S4x64_def scalar_const_4x64_def scalar_wf_4x64_def scalar_val_4x64_def uint_pair_32)
qed

end
