(* ===== verification/Scalar_Impl.thy ===== *)
theory Scalar_Impl
  imports Scalar
begin

text \<open>
  The representation independent part of the scalar module, \<^verbatim>\<open>scalar_impl.h\<close>: the inverse modulo
  the group order, by an addition chain, and the decomposition of a scalar for the endomorphism.
  Every function takes the record \<open>S\<close> of the operations it is compiled against; the lemmas are
  proved once in the locale \<open>scalar_repr\<close>.
\<close>

section \<open>Definitions\<close>

text \<open>The loops \<^verbatim>\<open>for (i = 0; i < n; i++) secp256k1_scalar_sqr(t, t)\<close>.\<close>

primrec scalar_sqr_n :: "'sc scalar_ops \<Rightarrow> nat \<Rightarrow> 'sc \<Rightarrow> 'sc" where
  "scalar_sqr_n S 0 x = x"
| "scalar_sqr_n S (Suc n) x = scalar_sqr_n S n (scalar_sqr S x)"

text \<open>
  The second half of the addition chain is a sequence of \<open>n\<close> squarings of the accumulator \<open>t\<close>
  followed by a multiplication; it is written as the list of these pairs.
\<close>

fun scalar_accumulate :: "'sc scalar_ops \<Rightarrow> 'sc \<Rightarrow> (nat \<times> 'sc) list \<Rightarrow> 'sc" where
  "scalar_accumulate S t [] = t"
| "scalar_accumulate S t ((n, y) # steps) =
    scalar_accumulate S (scalar_mul S (scalar_sqr_n S n t) y) steps"

definition scalar_inverse :: "'sc scalar_ops \<Rightarrow> 'sc \<Rightarrow> 'sc" where
  "scalar_inverse S x =
    (let x2 = scalar_sqr S x; x2 = scalar_mul S x2 x;
         x3 = scalar_sqr S x2; x3 = scalar_mul S x3 x;
         x4 = scalar_sqr S x3; x4 = scalar_mul S x4 x;
         x6 = scalar_sqr S x4; x6 = scalar_sqr S x6; x6 = scalar_mul S x6 x2;
         x7 = scalar_sqr S x6; x7 = scalar_mul S x7 x;
         x8 = scalar_sqr S x7; x8 = scalar_mul S x8 x;
         x15 = scalar_sqr S x8; x15 = scalar_sqr_n S 6 x15; x15 = scalar_mul S x15 x7;
         x30 = scalar_sqr S x15; x30 = scalar_sqr_n S 14 x30; x30 = scalar_mul S x30 x15;
         x60 = scalar_sqr S x30; x60 = scalar_sqr_n S 29 x60; x60 = scalar_mul S x60 x30;
         x120 = scalar_sqr S x60; x120 = scalar_sqr_n S 59 x120; x120 = scalar_mul S x120 x60;
         x127 = scalar_sqr S x120; x127 = scalar_sqr_n S 6 x127; x127 = scalar_mul S x127 x7
     in scalar_accumulate S x127
          [(2, x), (4, x3), (2, x), (2, x), (2, x), (4, x3), (3, x2), (4, x3), (5, x3), (4, x2),
           (2, x), (2, x), (5, x4), (2, x), (3, x), (4, x), (2, x), (10, x3), (4, x3), (9, x8),
           (2, x), (3, x), (3, x), (5, x4), (2, x), (5, x2), (4, x2), (2, x), (8, x2), (3, x2),
           (3, x), (6, x), (8, x6)])"

definition scalar_inverse_var :: "'sc scalar_ops \<Rightarrow> 'sc \<Rightarrow> 'sc" where
  "scalar_inverse_var S x = scalar_inverse S x"

definition scalar_split_lambda :: "'sc scalar_ops \<Rightarrow> 'sc \<Rightarrow> 'sc \<times> 'sc" where
  "scalar_split_lambda S a =
    (let minus_lambda = scalar_const S 0xAC9C52B3 0x3FA3CF1F 0x5AD9E3FD 0x77ED9BA4
           0xA880B9FC 0x8EC739C2 0xE0CFC810 0xB51283CF;
         minus_b1 = scalar_const S 0x00000000 0x00000000 0x00000000 0x00000000
           0xE4437ED6 0x010E8828 0x6F547FA9 0x0ABFE4C3;
         minus_b2 = scalar_const S 0xFFFFFFFF 0xFFFFFFFF 0xFFFFFFFF 0xFFFFFFFE
           0x8A280AC5 0x0774346D 0xD765CDA8 0x3DB1562C;
         g1 = scalar_const S 0x00000000 0x00000000 0x00000000 0x00003086
           0xD221A7D4 0x6BCDE86C 0x90E49284 0xEB153DAB;
         g2 = scalar_const S 0x00000000 0x00000000 0x00000000 0x0000E443
           0x7ED6010E 0x88286F54 0x7FA90ABF 0xE4C42212;
         c1 = scalar_mul_shift_var S a g1 272;
         c2 = scalar_mul_shift_var S a g2 272;
         c1 = scalar_mul S c1 minus_b1;
         c2 = scalar_mul S c2 minus_b2;
         r2 = fst (scalar_add S c1 c2);
         r1 = scalar_mul S r2 minus_lambda;
         r1 = fst (scalar_add S r1 a)
     in (r1, r2))"

section \<open>The inverse\<close>

text \<open>
  Fermat's congruence at \<open>x\<close>. The order being prime, every residue but 0 satisfies it; the
  exponentiation inverts exactly the residues that do.
\<close>

definition scalar_unit :: "int \<Rightarrow> bool" where
  "scalar_unit x \<longleftrightarrow> x ^ nat (scalar_n - 1) mod scalar_n = 1"

context scalar_repr
begin

definition spw :: "'sc \<Rightarrow> nat \<Rightarrow> 'sc \<Rightarrow> bool" where
  "spw a k x \<longleftrightarrow> wf x \<and> val x = val a ^ k mod scalar_n"

lemma val_mod [simp]: "wf a \<Longrightarrow> val a mod scalar_n = val a"
  using val_range [of a] by simp

lemma spw_self: "wf a \<Longrightarrow> spw a 1 a"
  by (simp add: spw_def)

lemma spw_mul: "spw a j x \<Longrightarrow> spw a k y \<Longrightarrow> spw a (j + k) (scalar_mul S x y)"
  using mul [of x y] by (simp add: spw_def mod_mult_eq power_add)

lemma spw_sqr: "spw a k x \<Longrightarrow> spw a (2 * k) (scalar_sqr S x)"
  using sqr [of x] by (simp add: spw_def mod_mult_eq mult_2 power_add)

lemma spw_sqr_n: "spw a k x \<Longrightarrow> spw a (2 ^ n * k) (scalar_sqr_n S n x)"
proof (induction n arbitrary: x k)
  case (Suc n)
  from Suc.IH [OF spw_sqr [OF Suc.prems]] show ?case
    by (simp add: mult.left_commute mult.assoc)
qed simp

lemma spw_step:
  assumes "spw a j x" "spw a k y" "2 ^ n * j + k = l"
  shows "spw a l (scalar_mul S (scalar_sqr_n S n x) y)"
  using spw_mul [OF spw_sqr_n [OF assms(1), of n] assms(2)] assms(3) by simp

lemma spw_step_1:
  assumes "spw a j x" "spw a k y" "2 * j + k = l"
  shows "spw a l (scalar_mul S (scalar_sqr S x) y)"
  using spw_mul [OF spw_sqr [OF assms(1)] assms(2)] assms(3) by simp

lemma spw_step_Suc:
  assumes "spw a j x" "spw a k y" "2 ^ n * (2 * j) + k = l"
  shows "spw a l (scalar_mul S (scalar_sqr_n S n (scalar_sqr S x)) y)"
  using spw_step [OF spw_sqr [OF assms(1)] assms(2,3)] .

lemma spw_accumulate:
  assumes "list_all2 (\<lambda>(n, y) (m, k). n = m \<and> spw a k y) steps es" "spw a e t"
    "foldl (\<lambda>e (n, k). 2 ^ n * e + k) e es = l"
  shows "spw a l (scalar_accumulate S t steps)"
  using assms
proof (induction steps arbitrary: es e t)
  case (Cons st steps)
  obtain n y where st: "st = (n, y)" by (cases st)
  obtain k es' where es: "es = (n, k) # es'" and y: "spw a k y"
    and r: "list_all2 (\<lambda>(n, y) (m, k). n = m \<and> spw a k y) steps es'"
    using Cons.prems(1) by (auto simp: st list_all2_Cons1)
  show ?case
    using Cons.IH [OF r spw_step [OF Cons.prems(2) y refl]] Cons.prems(3) by (simp add: st es)
qed simp

lemma inverse_pow:
  assumes "wf x"
  shows "wf (scalar_inverse S x) \<and> val (scalar_inverse S x) = val x ^ nat (scalar_n - 2) mod scalar_n"
proof -
  define x2 where "x2 = scalar_mul S (scalar_sqr S x) x"
  define x3 where "x3 = scalar_mul S (scalar_sqr S x2) x"
  define x4 where "x4 = scalar_mul S (scalar_sqr S x3) x"
  define x6 where "x6 = scalar_mul S (scalar_sqr S (scalar_sqr S x4)) x2"
  define x7 where "x7 = scalar_mul S (scalar_sqr S x6) x"
  define x8 where "x8 = scalar_mul S (scalar_sqr S x7) x"
  define x15 where "x15 = scalar_mul S (scalar_sqr_n S 6 (scalar_sqr S x8)) x7"
  define x30 where "x30 = scalar_mul S (scalar_sqr_n S 14 (scalar_sqr S x15)) x15"
  define x60 where "x60 = scalar_mul S (scalar_sqr_n S 29 (scalar_sqr S x30)) x30"
  define x120 where "x120 = scalar_mul S (scalar_sqr_n S 59 (scalar_sqr S x60)) x60"
  define x127 where "x127 = scalar_mul S (scalar_sqr_n S 6 (scalar_sqr S x120)) x7"
  let ?steps = "\<lambda>x x2 x3 x4 x6 x8. [(2, x), (4, x3), (2, x), (2, x), (2, x), (4, x3), (3, x2), (4, x3), (5, x3), (4, x2),
           (2, x), (2, x), (5, x4), (2, x), (3, x), (4, x), (2, x), (10, x3), (4, x3), (9, x8),
           (2, x), (3, x), (3, x), (5, x4), (2, x), (5, x2), (4, x2), (2, x), (8, x2), (3, x2),
           (3, x), (6, x), (8 :: nat, x6)]"
  have eq: "scalar_inverse S x = scalar_accumulate S x127 (?steps x x2 x3 x4 x6 x8)"
    unfolding scalar_inverse_def Let_def x2_def [symmetric] x3_def [symmetric] x4_def [symmetric] x6_def [symmetric]
      x7_def [symmetric] x8_def [symmetric] x15_def [symmetric] x30_def [symmetric] x60_def [symmetric]
      x120_def [symmetric] x127_def [symmetric] ..
  note p1 = spw_self [OF assms]
  have p2: "spw x 3 x2" unfolding x2_def by (rule spw_step_1 [OF p1 p1]) simp
  have p3: "spw x 7 x3" unfolding x3_def by (rule spw_step_1 [OF p2 p1]) simp
  have p4: "spw x 15 x4" unfolding x4_def by (rule spw_step_1 [OF p3 p1]) simp
  have p6: "spw x 63 x6" unfolding x6_def by (rule spw_step_1 [OF spw_sqr [OF p4] p2]) simp
  have p7: "spw x 0x7F x7" unfolding x7_def by (rule spw_step_1 [OF p6 p1]) simp
  have p8: "spw x 0xFF x8" unfolding x8_def by (rule spw_step_1 [OF p7 p1]) simp
  have p15: "spw x 0x7FFF x15" unfolding x15_def by (rule spw_step_Suc [OF p8 p7]) simp
  have p30: "spw x 0x3FFFFFFF x30" unfolding x30_def by (rule spw_step_Suc [OF p15 p15]) simp
  have p60: "spw x 0xFFFFFFFFFFFFFFF x60" unfolding x60_def by (rule spw_step_Suc [OF p30 p30]) simp
  have p120: "spw x 0xFFFFFFFFFFFFFFFFFFFFFFFFFFFFFF x120" unfolding x120_def by (rule spw_step_Suc [OF p60 p60]) simp
  have p127: "spw x 0x7FFFFFFFFFFFFFFFFFFFFFFFFFFFFFFF x127" unfolding x127_def by (rule spw_step_Suc [OF p120 p7]) simp
  have "spw x (nat (scalar_n - 2)) (scalar_inverse S x)"
    unfolding eq
    by (rule spw_accumulate [where es = "?steps 1 3 7 15 63 0xFF", OF _ p127])
      (use p1 p2 p3 p4 p6 p8 in \<open>simp_all add: scalar_n_def\<close>)
  then show ?thesis by (simp add: spw_def)
qed

lemma inverse_correct:
  assumes "wf x" "scalar_unit (val x)"
  shows "wf (scalar_inverse S x)" "val (scalar_inverse S x) * val x mod scalar_n = 1"
proof -
  have "val (scalar_inverse S x) * val x mod scalar_n = val x ^ Suc (nat (scalar_n - 2)) mod scalar_n"
    using inverse_pow [OF assms(1)] by (simp add: mod_mult_right_eq mult.commute)
  also have "Suc (nat (scalar_n - 2)) = nat (scalar_n - 1)" by (simp add: scalar_n_def)
  finally show "val (scalar_inverse S x) * val x mod scalar_n = 1"
    using assms(2) by (simp add: scalar_unit_def)
qed (use inverse_pow [OF assms(1)] in simp)

end

section \<open>The decomposition for the endomorphism\<close>

text \<open>
  The constants of the comment at \<^verbatim>\<open>secp256k1_scalar_split_lambda\<close>: \<open>lambda\<close>, the vectors
  \<open>(a1, b1)\<close> and \<open>(a2, b2)\<close> of the lattice, and the multipliers that replace the divisions.
\<close>

definition scalar_lambda :: int where
  "scalar_lambda = 0x5363AD4CC05C30E0A5261C028812645A122E22EA20816678DF02967C1B23BD72"

definition lattice_a1 :: int where "lattice_a1 = 0x3086D221A7D46BCDE86C90E49284EB15"

definition lattice_mb1 :: int where "lattice_mb1 = 0xE4437ED6010E88286F547FA90ABFE4C3"

definition lattice_a2 :: int where "lattice_a2 = 0x114CA50F7A8E2F3F657C1108D9D44CFD8"

definition lattice_b2 :: int where "lattice_b2 = 0x3086D221A7D46BCDE86C90E49284EB15"

definition lattice_g1 :: int where "lattice_g1 = 0x3086D221A7D46BCDE86C90E49284EB153DAB"

definition lattice_g2 :: int where "lattice_g2 = 0xE4437ED6010E88286F547FA90ABFE4C42212"

lemmas lattice_defs = lattice_a1_def lattice_mb1_def lattice_a2_def lattice_b2_def lattice_g1_def lattice_g2_def

lemma lattice_vectors:
  "lattice_mb1 * (scalar_n - scalar_lambda) + lattice_a1 = scalar_n * 0x99E8BC1685AF502E7D796ED168161B42"
  "lattice_b2 * (scalar_n - scalar_lambda) - lattice_a2 = scalar_n * 0x20B83703D2E8EDFB76E267DE1A148963"
  by (simp_all add: lattice_defs scalar_n_def scalar_lambda_def)

lemma round_bounds:
  fixes v :: int
  shows "2 ^ 272 * ((v + 2 ^ (272 - 1)) div 2 ^ 272) \<le> v + 2 ^ 271"
    "v - 2 ^ 271 < 2 ^ 272 * ((v + 2 ^ (272 - 1)) div 2 ^ 272)"
proof -
  let ?w = "v + 2 ^ 271"
  have "?w = 2 ^ 272 * (?w div 2 ^ 272) + ?w mod 2 ^ 272" "0 \<le> ?w mod 2 ^ 272" "?w mod 2 ^ 272 < 2 ^ 272"
    by simp_all
  moreover have "(2 :: int) ^ 272 = 2 * 2 ^ 271" by simp
  moreover have e: "272 - 1 = (271 :: nat)" by simp
  ultimately show "2 ^ 272 * ((v + 2 ^ (272 - 1)) div 2 ^ 272) \<le> v + 2 ^ 271"
    "v - 2 ^ 271 < 2 ^ 272 * ((v + 2 ^ (272 - 1)) div 2 ^ 272)"
    unfolding e by linarith+
qed

lemma lattice_small:
  assumes "0 \<le> a" "a < scalar_n"
    and "c1 = (a * lattice_g1 + 2 ^ (272 - 1)) div 2 ^ 272" "c2 = (a * lattice_g2 + 2 ^ (272 - 1)) div 2 ^ 272"
  shows "\<bar>a - c1 * lattice_a1 - c2 * lattice_a2\<bar> < 2 ^ 128" "\<bar>c1 * lattice_mb1 - c2 * lattice_b2\<bar> < 2 ^ 128"
proof -
  note b = round_bounds [of "a * lattice_g1", folded assms(3)] round_bounds [of "a * lattice_g2", folded assms(4)]
    assms(2)
  note n = b [unfolded lattice_defs scalar_n_def, simplified]
  show "\<bar>a - c1 * lattice_a1 - c2 * lattice_a2\<bar> < 2 ^ 128" "\<bar>c1 * lattice_mb1 - c2 * lattice_b2\<bar> < 2 ^ 128"
    unfolding lattice_defs abs_less_iff using n assms(1) by (simp_all; linarith)+
qed

lemma mod_eqI: "x - y = n * k \<Longrightarrow> x mod n = y mod n" for x y n k :: int
  by (metis add.commute diff_add_cancel mod_mult_self2)

context scalar_repr
begin

lemma split_lambda_correct:
  assumes "wf a"
  defines "r1 \<equiv> fst (scalar_split_lambda S a)" and "r2 \<equiv> snd (scalar_split_lambda S a)"
  shows "wf r1 \<and> wf r2 \<and> (val r1 + scalar_lambda * val r2) mod scalar_n = val a \<and>
    (\<exists>k1 k2. val r1 = k1 mod scalar_n \<and> val r2 = k2 mod scalar_n \<and> \<bar>k1\<bar> < 2 ^ 128 \<and> \<bar>k2\<bar> < 2 ^ 128)"
proof -
  define ml where "ml = scalar_const S 0xAC9C52B3 0x3FA3CF1F 0x5AD9E3FD 0x77ED9BA4 0xA880B9FC 0x8EC739C2 0xE0CFC810 0xB51283CF"
  define mb1 where "mb1 = scalar_const S 0x00000000 0x00000000 0x00000000 0x00000000 0xE4437ED6 0x010E8828 0x6F547FA9 0x0ABFE4C3"
  define mb2 where "mb2 = scalar_const S 0xFFFFFFFF 0xFFFFFFFF 0xFFFFFFFF 0xFFFFFFFE 0x8A280AC5 0x0774346D 0xD765CDA8 0x3DB1562C"
  define g1 where "g1 = scalar_const S 0x00000000 0x00000000 0x00000000 0x00003086 0xD221A7D4 0x6BCDE86C 0x90E49284 0xEB153DAB"
  define g2 where "g2 = scalar_const S 0x00000000 0x00000000 0x00000000 0x0000E443 0x7ED6010E 0x88286F54 0x7FA90ABF 0xE4C42212"
  have ml: "wf ml \<and> val ml = scalar_n - scalar_lambda"
    unfolding ml_def by (subst const; simp add: scalar_n_def scalar_lambda_def)+
  have b1: "wf mb1 \<and> val mb1 = lattice_mb1"
    unfolding mb1_def by (subst const; simp add: scalar_n_def lattice_defs)+
  have b2: "wf mb2 \<and> val mb2 = scalar_n - lattice_b2"
    unfolding mb2_def by (subst const; simp add: scalar_n_def lattice_defs)+
  have g1: "wf g1 \<and> val g1 = lattice_g1"
    unfolding g1_def by (subst const; simp add: scalar_n_def lattice_defs)+
  have g2: "wf g2 \<and> val g2 = lattice_g2"
    unfolding g2_def by (subst const; simp add: scalar_n_def lattice_defs)+
  define c1 c2 where "c1 = scalar_mul_shift_var S a g1 272" and "c2 = scalar_mul_shift_var S a g2 272"
  have c1: "wf c1" "val c1 = (val a * lattice_g1 + 2 ^ (272 - 1)) div 2 ^ 272"
    using mul_shift_var [of a g1 272] g1 assms(1) by (simp_all add: c1_def)
  have c2: "wf c2" "val c2 = (val a * lattice_g2 + 2 ^ (272 - 1)) div 2 ^ 272"
    using mul_shift_var [of a g2 272] g2 assms(1) by (simp_all add: c2_def)
  have e: "r2 = fst (scalar_add S (scalar_mul S c1 mb1) (scalar_mul S c2 mb2))"
    "r1 = fst (scalar_add S (scalar_mul S r2 ml) a)"
    unfolding r1_def r2_def scalar_split_lambda_def Let_def fst_conv snd_conv
      ml_def mb1_def mb2_def g1_def g2_def c1_def c2_def by (rule refl)+
  let ?k1 = "val a - val c1 * lattice_a1 - val c2 * lattice_a2" and ?k2 = "val c1 * lattice_mb1 - val c2 * lattice_b2"
  have r2: "wf r2" "val r2 = (val c1 * lattice_mb1 + val c2 * (scalar_n - lattice_b2)) mod scalar_n"
    using add [of "scalar_mul S c1 mb1" "scalar_mul S c2 mb2"] mul [of c1 mb1] mul [of c2 mb2] c1(1) c2(1) b1 b2
    by (simp_all add: e(1) mod_add_eq)
  have k2: "val r2 = ?k2 mod scalar_n"
    unfolding r2(2) by (rule mod_eqI [where k = "val c2"]) (simp add: algebra_simps)
  have r1: "wf r1" "val r1 = (val r2 * (scalar_n - scalar_lambda) + val a) mod scalar_n"
    using add [of "scalar_mul S r2 ml" a] mul [of r2 ml] r2(1) ml assms(1) by (simp_all add: e(2) mod_add_left_eq)
  have "val r1 = (?k2 * (scalar_n - scalar_lambda) + val a) mod scalar_n"
    unfolding r1(2) k2 by (metis mod_add_left_eq mod_mult_left_eq)
  also have "\<dots> = ?k1 mod scalar_n"
  proof (rule mod_eqI)
    have "?k2 * (scalar_n - scalar_lambda) + val a - ?k1
        = val c1 * (lattice_mb1 * (scalar_n - scalar_lambda) + lattice_a1)
          - val c2 * (lattice_b2 * (scalar_n - scalar_lambda) - lattice_a2)"
      by (simp add: algebra_simps)
    then show "?k2 * (scalar_n - scalar_lambda) + val a - ?k1
        = scalar_n * (val c1 * 0x99E8BC1685AF502E7D796ED168161B42 - val c2 * 0x20B83703D2E8EDFB76E267DE1A148963)"
      unfolding lattice_vectors by (simp add: algebra_simps)
  qed
  finally have k1: "val r1 = ?k1 mod scalar_n" .
  have "(val r1 + scalar_lambda * val r2) mod scalar_n
      = (val r2 * (scalar_n - scalar_lambda) + val a + scalar_lambda * val r2) mod scalar_n"
    unfolding r1(2) by (rule mod_add_left_eq)
  also have "\<dots> = val a mod scalar_n"
    by (rule mod_eqI [where k = "val r2"]) (simp add: algebra_simps)
  finally have s: "(val r1 + scalar_lambda * val r2) mod scalar_n = val a" using assms(1) by simp
  have "0 \<le> val a" "val a < scalar_n" using val_range [OF assms(1)] by simp_all
  then show ?thesis using r1(1) r2(1) s k1 k2 lattice_small [OF _ _ c1(2) c2(2)] by blast
qed

end

end
