(* ===== verification/Hash.thy ===== *)
theory Hash
  imports Scalar
begin

text \<open>
  The hash functions of \<^verbatim>\<open>hash_impl.h\<close>: SHA-256 with its block buffer, HMAC-SHA256, and the
  nonce generator of RFC 6979, for a little endian machine with 64-bit \<^verbatim>\<open>size_t\<close>. The
  reference definitions follow FIPS 180-4, RFC 2104 and RFC 6979; the lemmas show that the unrolled
  transformation is the compression function, that the buffered writes hash the concatenation
  of what was written, whatever the sizes of the pieces, and that the generator runs through the
  states of RFC 6979.
\<close>

section \<open>SHA-256\<close>

record sha256_t =
  sha_s :: "u32 list"
  sha_buf :: "u8 list"
  sha_bytes :: u64

definition Ch :: "u32 \<Rightarrow> u32 \<Rightarrow> u32 \<Rightarrow> u32" where
  "Ch x y z = z XOR (x AND (y XOR z))"

definition Maj :: "u32 \<Rightarrow> u32 \<Rightarrow> u32 \<Rightarrow> u32" where
  "Maj x y z = (x AND y) OR (z AND (x OR y))"

definition Sigma0 :: "u32 \<Rightarrow> u32" where
  "Sigma0 x = (drop_bit 2 x OR push_bit 30 x) XOR (drop_bit 13 x OR push_bit 19 x) XOR
    (drop_bit 22 x OR push_bit 10 x)"

definition Sigma1 :: "u32 \<Rightarrow> u32" where
  "Sigma1 x = (drop_bit 6 x OR push_bit 26 x) XOR (drop_bit 11 x OR push_bit 21 x) XOR
    (drop_bit 25 x OR push_bit 7 x)"

definition sigma0 :: "u32 \<Rightarrow> u32" where
  "sigma0 x = (drop_bit 7 x OR push_bit 25 x) XOR (drop_bit 18 x OR push_bit 14 x) XOR drop_bit 3 x"

definition sigma1 :: "u32 \<Rightarrow> u32" where
  "sigma1 x = (drop_bit 17 x OR push_bit 15 x) XOR (drop_bit 19 x OR push_bit 13 x) XOR drop_bit 10 x"

text \<open>The macro \<^verbatim>\<open>Round\<close> updates its arguments \<open>d\<close> and \<open>h\<close>.\<close>

definition Round :: "u32 \<Rightarrow> u32 \<Rightarrow> u32 \<Rightarrow> u32 \<Rightarrow> u32 \<Rightarrow> u32 \<Rightarrow> u32 \<Rightarrow> u32 \<Rightarrow> u32 \<Rightarrow> u32 \<Rightarrow> u32 \<times> u32" where
  "Round a b c d e f g h k w =
    (let t1 = h + Sigma1 e + Ch e f g + k + w;
         t2 = Sigma0 a + Maj a b c
     in (d + t1, t1 + t2))"

definition BE32 :: "'a::len word \<Rightarrow> 'a word" where
  "BE32 p = push_bit 24 (p AND 0xFF) OR push_bit 8 (p AND 0xFF00) OR
    drop_bit 8 (p AND 0xFF0000) OR drop_bit 24 (p AND 0xFF000000)"

text \<open>
  The words of a byte buffer and the bytes of a word, as the machine stores them: the casts
  between \<^verbatim>\<open>uint32_t*\<close> and \<^verbatim>\<open>unsigned char*\<close>.
\<close>

definition load32 :: "u8 list \<Rightarrow> nat \<Rightarrow> u32" where
  "load32 b i = ucast (b ! (4 * i)) OR push_bit 8 (ucast (b ! (4 * i + 1))) OR
    push_bit 16 (ucast (b ! (4 * i + 2))) OR push_bit 24 (ucast (b ! (4 * i + 3)))"

definition store32 :: "u32 \<Rightarrow> u8 list" where
  "store32 x = [ucast x, ucast (drop_bit 8 x), ucast (drop_bit 16 x), ucast (drop_bit 24 x)]"

definition memcpy :: "'a list \<Rightarrow> nat \<Rightarrow> 'a list \<Rightarrow> 'a list" where
  "memcpy dst off src = take off dst @ src @ drop (off + length src) dst"

definition sha256_initialize :: "u8 list \<Rightarrow> sha256_t" where
  "sha256_initialize buf =
    \<lparr>sha_s = [0x6a09e667, 0xbb67ae85, 0x3c6ef372, 0xa54ff53a, 0x510e527f, 0x9b05688c, 0x1f83d9ab, 0x5be0cd19],
     sha_buf = buf, sha_bytes = 0\<rparr>"

text \<open>
  The transformation repeats eight times the same eight calls of \<^verbatim>\<open>Round\<close>, which rotate the
  roles of the variables; the sixteen words \<open>w0\<close> to \<open>w15\<close> are replaced three times by
  the same sixteen assignments.
\<close>

definition sha256_K :: "u32 list" where
  "sha256_K = [
    0x428a2f98, 0x71374491, 0xb5c0fbcf, 0xe9b5dba5, 0x3956c25b, 0x59f111f1, 0x923f82a4, 0xab1c5ed5,
    0xd807aa98, 0x12835b01, 0x243185be, 0x550c7dc3, 0x72be5d74, 0x80deb1fe, 0x9bdc06a7, 0xc19bf174,
    0xe49b69c1, 0xefbe4786, 0x0fc19dc6, 0x240ca1cc, 0x2de92c6f, 0x4a7484aa, 0x5cb0a9dc, 0x76f988da,
    0x983e5152, 0xa831c66d, 0xb00327c8, 0xbf597fc7, 0xc6e00bf3, 0xd5a79147, 0x06ca6351, 0x14292967,
    0x27b70a85, 0x2e1b2138, 0x4d2c6dfc, 0x53380d13, 0x650a7354, 0x766a0abb, 0x81c2c92e, 0x92722c85,
    0xa2bfe8a1, 0xa81a664b, 0xc24b8b70, 0xc76c51a3, 0xd192e819, 0xd6990624, 0xf40e3585, 0x106aa070,
    0x19a4c116, 0x1e376c08, 0x2748774c, 0x34b0bcb5, 0x391c0cb3, 0x4ed8aa4a, 0x5b9cca4f, 0x682e6ff3,
    0x748f82ee, 0x78a5636f, 0x84c87814, 0x8cc70208, 0x90befffa, 0xa4506ceb, 0xbef9a3f7, 0xc67178f2]"

definition sha256_rounds8 :: "u32 list \<Rightarrow> u32 list \<Rightarrow> u32 \<times> u32 \<times> u32 \<times> u32 \<times> u32 \<times> u32 \<times> u32 \<times> u32 \<Rightarrow>
    u32 \<times> u32 \<times> u32 \<times> u32 \<times> u32 \<times> u32 \<times> u32 \<times> u32" where
  "sha256_rounds8 ks ws st =
    (let (a, b, c, d, e, f, g, h) = st;
         (d, h) = Round a b c d e f g h (ks ! 0) (ws ! 0);
         (c, g) = Round h a b c d e f g (ks ! 1) (ws ! 1);
         (b, f) = Round g h a b c d e f (ks ! 2) (ws ! 2);
         (a, e) = Round f g h a b c d e (ks ! 3) (ws ! 3);
         (h, d) = Round e f g h a b c d (ks ! 4) (ws ! 4);
         (g, c) = Round d e f g h a b c (ks ! 5) (ws ! 5);
         (f, b) = Round c d e f g h a b (ks ! 6) (ws ! 6);
         (e, a) = Round b c d e f g h a (ks ! 7) (ws ! 7)
     in (a, b, c, d, e, f, g, h))"

definition sha256_expand :: "u32 list \<Rightarrow> u32 list" where
  "sha256_expand w =
    (let w0 = w ! 0; w1 = w ! 1; w2 = w ! 2; w3 = w ! 3; w4 = w ! 4; w5 = w ! 5; w6 = w ! 6; w7 = w ! 7;
         w8 = w ! 8; w9 = w ! 9; w10 = w ! 10; w11 = w ! 11; w12 = w ! 12; w13 = w ! 13; w14 = w ! 14; w15 = w ! 15;
         w0 = w0 + (sigma1 w14 + w9 + sigma0 w1);
         w1 = w1 + (sigma1 w15 + w10 + sigma0 w2);
         w2 = w2 + (sigma1 w0 + w11 + sigma0 w3);
         w3 = w3 + (sigma1 w1 + w12 + sigma0 w4);
         w4 = w4 + (sigma1 w2 + w13 + sigma0 w5);
         w5 = w5 + (sigma1 w3 + w14 + sigma0 w6);
         w6 = w6 + (sigma1 w4 + w15 + sigma0 w7);
         w7 = w7 + (sigma1 w5 + w0 + sigma0 w8);
         w8 = w8 + (sigma1 w6 + w1 + sigma0 w9);
         w9 = w9 + (sigma1 w7 + w2 + sigma0 w10);
         w10 = w10 + (sigma1 w8 + w3 + sigma0 w11);
         w11 = w11 + (sigma1 w9 + w4 + sigma0 w12);
         w12 = w12 + (sigma1 w10 + w5 + sigma0 w13);
         w13 = w13 + (sigma1 w11 + w6 + sigma0 w14);
         w14 = w14 + (sigma1 w12 + w7 + sigma0 w15);
         w15 = w15 + (sigma1 w13 + w8 + sigma0 w0)
     in [w0, w1, w2, w3, w4, w5, w6, w7, w8, w9, w10, w11, w12, w13, w14, w15])"

definition sha256_rounds16 :: "u32 list \<Rightarrow> u32 list \<Rightarrow> u32 \<times> u32 \<times> u32 \<times> u32 \<times> u32 \<times> u32 \<times> u32 \<times> u32 \<Rightarrow>
    u32 \<times> u32 \<times> u32 \<times> u32 \<times> u32 \<times> u32 \<times> u32 \<times> u32" where
  "sha256_rounds16 ks ws st = sha256_rounds8 (drop 8 ks) (drop 8 ws) (sha256_rounds8 ks ws st)"

definition sha256_transform :: "u32 list \<Rightarrow> u8 list \<Rightarrow> u32 list" where
  "sha256_transform s chunk =
    (let st = (s ! 0, s ! 1, s ! 2, s ! 3, s ! 4, s ! 5, s ! 6, s ! 7);
         w = map (\<lambda>i. BE32 (load32 chunk i)) [0..<16];
         st = sha256_rounds16 sha256_K w st;
         w = sha256_expand w;
         st = sha256_rounds16 (drop 16 sha256_K) w st;
         w = sha256_expand w;
         st = sha256_rounds16 (drop 32 sha256_K) w st;
         w = sha256_expand w;
         (a, b, c, d, e, f, g, h) = sha256_rounds16 (drop 48 sha256_K) w st
     in [s ! 0 + a, s ! 1 + b, s ! 2 + c, s ! 3 + d, s ! 4 + e, s ! 5 + f, s ! 6 + g, s ! 7 + h])"

text \<open>The loop of \<^verbatim>\<open>sha256_write\<close>: state, buffer, \<^verbatim>\<open>bufsize\<close> and the data that is left.\<close>

function sha256_write_loop ::
    "u32 list \<Rightarrow> u8 list \<Rightarrow> nat \<Rightarrow> u8 list \<Rightarrow> u32 list \<times> u8 list \<times> nat \<times> u8 list" where
  "sha256_write_loop s buf bufsize data =
    (if 64 \<le> bufsize + length data
     then let buf = memcpy buf bufsize (take (64 - bufsize) data)
          in sha256_write_loop (sha256_transform s buf) buf 0 (drop (64 - bufsize) data)
     else (s, buf, bufsize, data))"
  by pat_completeness auto
termination by (relation "measure (\<lambda>(s, buf, bufsize, data). bufsize + length data)") auto

definition sha256_write :: "sha256_t \<Rightarrow> u8 list \<Rightarrow> sha256_t" where
  "sha256_write hash data =
    (let bufsize = unat (sha_bytes hash AND 0x3F);
         bytes = sha_bytes hash + of_nat (length data);
         (s, buf, bufsize, data) = sha256_write_loop (sha_s hash) (sha_buf hash) bufsize data;
         buf = (if data \<noteq> [] then memcpy buf bufsize data else buf)
     in \<lparr>sha_s = s, sha_buf = buf, sha_bytes = bytes\<rparr>)"

definition sha256_finalize :: "sha256_t \<Rightarrow> sha256_t \<times> u8 list" where
  "sha256_finalize hash =
    (let pad = 0x80 # replicate 63 0;
         sizedesc0 = ucast (BE32 (drop_bit 29 (sha_bytes hash))) :: u32;
         sizedesc1 = ucast (BE32 (push_bit 3 (sha_bytes hash))) :: u32;
         hash = sha256_write hash (take (unat (1 + (119 - sha_bytes hash mod 64) mod 64)) pad);
         hash = sha256_write hash (store32 sizedesc0 @ store32 sizedesc1);
         out = map BE32 (sha_s hash)
     in (hash\<lparr>sha_s := replicate 8 0\<rparr>, concat (map store32 out)))"

section \<open>HMAC-SHA256\<close>

record hmac_sha256_t =
  hmac_inner :: sha256_t
  hmac_outer :: sha256_t

text \<open>
  The parameter \<open>buf\<close> is the content of the uninitialized buffers of the three hashes; no
  result depends on it.
\<close>

definition hmac_sha256_initialize :: "u8 list \<Rightarrow> u8 list \<Rightarrow> hmac_sha256_t" where
  "hmac_sha256_initialize buf key =
    (let rkey = (if length key \<le> 64 then key @ replicate (64 - length key) 0
           else let sha256 = sha256_initialize buf;
                    sha256 = sha256_write sha256 key;
                    (sha256, out) = sha256_finalize sha256
                in out @ replicate 32 0);
         outer = sha256_initialize buf;
         rkey = map (\<lambda>x. x XOR 0x5c) rkey;
         outer = sha256_write outer rkey;
         inner = sha256_initialize buf;
         rkey = map (\<lambda>x. x XOR (0x5c XOR 0x36)) rkey;
         inner = sha256_write inner rkey
     in \<lparr>hmac_inner = inner, hmac_outer = outer\<rparr>)"

definition hmac_sha256_write :: "hmac_sha256_t \<Rightarrow> u8 list \<Rightarrow> hmac_sha256_t" where
  "hmac_sha256_write hash data = hash\<lparr>hmac_inner := sha256_write (hmac_inner hash) data\<rparr>"

definition hmac_sha256_finalize :: "hmac_sha256_t \<Rightarrow> hmac_sha256_t \<times> u8 list" where
  "hmac_sha256_finalize hash =
    (let (inner, temp) = sha256_finalize (hmac_inner hash);
         outer = sha256_write (hmac_outer hash) temp;
         (outer, out32) = sha256_finalize outer
     in (\<lparr>hmac_inner = inner, hmac_outer = outer\<rparr>, out32))"

section \<open>The nonce generator\<close>

record rfc6979_hmac_sha256_t =
  rng_v :: "u8 list"
  rng_k :: "u8 list"
  rng_retry :: int

definition rfc6979_hmac_sha256_initialize :: "u8 list \<Rightarrow> u8 list \<Rightarrow> rfc6979_hmac_sha256_t" where
  "rfc6979_hmac_sha256_initialize buf key =
    (let v = replicate 32 0x01;
         k = replicate 32 0x00;
         hmac = hmac_sha256_initialize buf k;
         hmac = hmac_sha256_write hmac v;
         hmac = hmac_sha256_write hmac [0x00];
         hmac = hmac_sha256_write hmac key;
         (hmac, k) = hmac_sha256_finalize hmac;
         hmac = hmac_sha256_initialize buf k;
         hmac = hmac_sha256_write hmac v;
         (hmac, v) = hmac_sha256_finalize hmac;
         hmac = hmac_sha256_initialize buf k;
         hmac = hmac_sha256_write hmac v;
         hmac = hmac_sha256_write hmac [0x01];
         hmac = hmac_sha256_write hmac key;
         (hmac, k) = hmac_sha256_finalize hmac;
         hmac = hmac_sha256_initialize buf k;
         hmac = hmac_sha256_write hmac v;
         (hmac, v) = hmac_sha256_finalize hmac
     in \<lparr>rng_v = v, rng_k = k, rng_retry = 0\<rparr>)"

text \<open>The loop of \<^verbatim>\<open>generate\<close>: the bytes that are still to be produced, and those produced.\<close>

function rfc6979_generate_loop :: "u8 list \<Rightarrow> u8 list \<Rightarrow> u8 list \<Rightarrow> nat \<Rightarrow> u8 list \<times> u8 list" where
  "rfc6979_generate_loop buf k v outlen =
    (if 0 < outlen
     then let hmac = hmac_sha256_initialize buf k;
              hmac = hmac_sha256_write hmac v;
              (hmac, v) = hmac_sha256_finalize hmac;
              now = (if 32 < outlen then 32 else outlen);
              (v', out) = rfc6979_generate_loop buf k v (outlen - now)
          in (v', take now v @ out)
     else (v, []))"
  by pat_completeness auto
termination by (relation "measure (\<lambda>(buf, k, v, outlen). outlen)") auto

definition rfc6979_hmac_sha256_generate ::
    "u8 list \<Rightarrow> rfc6979_hmac_sha256_t \<Rightarrow> nat \<Rightarrow> rfc6979_hmac_sha256_t \<times> u8 list" where
  "rfc6979_hmac_sha256_generate buf rng outlen =
    (let (k, v) = (if rng_retry rng \<noteq> 0
           then let hmac = hmac_sha256_initialize buf (rng_k rng);
                    hmac = hmac_sha256_write hmac (rng_v rng);
                    hmac = hmac_sha256_write hmac [0x00];
                    (hmac, k) = hmac_sha256_finalize hmac;
                    hmac = hmac_sha256_initialize buf k;
                    hmac = hmac_sha256_write hmac (rng_v rng);
                    (hmac, v) = hmac_sha256_finalize hmac
                in (k, v)
           else (rng_k rng, rng_v rng));
         (v, out) = rfc6979_generate_loop buf k v outlen
     in (\<lparr>rng_v = v, rng_k = k, rng_retry = 1\<rparr>, out))"

definition rfc6979_hmac_sha256_finalize :: "rfc6979_hmac_sha256_t \<Rightarrow> rfc6979_hmac_sha256_t" where
  "rfc6979_hmac_sha256_finalize rng = \<lparr>rng_v = replicate 32 0, rng_k = replicate 32 0, rng_retry = 0\<rparr>"

section \<open>Reference definitions\<close>

text \<open>The functions of FIPS 180-4, section 4.1.2.\<close>

definition spec_Ch :: "u32 \<Rightarrow> u32 \<Rightarrow> u32 \<Rightarrow> u32" where
  "spec_Ch x y z = (x AND y) XOR (NOT x AND z)"

definition spec_Maj :: "u32 \<Rightarrow> u32 \<Rightarrow> u32 \<Rightarrow> u32" where
  "spec_Maj x y z = (x AND y) XOR (x AND z) XOR (y AND z)"

definition spec_Sigma0 :: "u32 \<Rightarrow> u32" where
  "spec_Sigma0 x = word_rotr 2 x XOR word_rotr 13 x XOR word_rotr 22 x"

definition spec_Sigma1 :: "u32 \<Rightarrow> u32" where
  "spec_Sigma1 x = word_rotr 6 x XOR word_rotr 11 x XOR word_rotr 25 x"

definition spec_sigma0 :: "u32 \<Rightarrow> u32" where
  "spec_sigma0 x = word_rotr 7 x XOR word_rotr 18 x XOR drop_bit 3 x"

definition spec_sigma1 :: "u32 \<Rightarrow> u32" where
  "spec_sigma1 x = word_rotr 17 x XOR word_rotr 19 x XOR drop_bit 10 x"

text \<open>The message schedule, the rounds and the compression function (section 6.2.2).\<close>

fun spec_W :: "u32 list \<Rightarrow> nat \<Rightarrow> u32" where
  "spec_W m t = (if t < 16 then m ! t
    else spec_sigma1 (spec_W m (t - 2)) + spec_W m (t - 7) + spec_sigma0 (spec_W m (t - 15)) + spec_W m (t - 16))"

definition spec_round :: "u32 \<times> u32 \<times> u32 \<times> u32 \<times> u32 \<times> u32 \<times> u32 \<times> u32 \<Rightarrow> u32 \<times> u32 \<Rightarrow>
    u32 \<times> u32 \<times> u32 \<times> u32 \<times> u32 \<times> u32 \<times> u32 \<times> u32" where
  "spec_round st kw =
    (let (a, b, c, d, e, f, g, h) = st;
         T1 = h + spec_Sigma1 e + spec_Ch e f g + fst kw + snd kw;
         T2 = spec_Sigma0 a + spec_Maj a b c
     in (T1 + T2, a, b, c, d + T1, e, f, g))"

definition spec_compress :: "u32 list \<Rightarrow> u8 list \<Rightarrow> u32 list" where
  "spec_compress s block =
    (let m = map (\<lambda>i. word_of_int (be_val (take 4 (drop (4 * i) block)))) [0..<16];
         (a, b, c, d, e, f, g, h) = foldl spec_round
           (s ! 0, s ! 1, s ! 2, s ! 3, s ! 4, s ! 5, s ! 6, s ! 7)
           (zip sha256_K (map (spec_W m) [0..<64]))
     in [s ! 0 + a, s ! 1 + b, s ! 2 + c, s ! 3 + d, s ! 4 + e, s ! 5 + f, s ! 6 + g, s ! 7 + h])"

text \<open>The hash of the 64-byte blocks of a message, the padding and the digest.\<close>

function spec_blocks :: "u32 list \<Rightarrow> u8 list \<Rightarrow> u32 list" where
  "spec_blocks s m = (if length m < 64 then s else spec_blocks (spec_compress s (take 64 m)) (drop 64 m))"
  by pat_completeness auto
termination by (relation "measure (\<lambda>(s, m). length m)") auto

definition spec_pad :: "nat \<Rightarrow> u8 list" where
  "spec_pad n = 0x80 # replicate (nat ((55 - int n) mod 64)) 0 @ be_bytes 8 (8 * int n)"

definition spec_IV :: "u32 list" where
  "spec_IV = [0x6a09e667, 0xbb67ae85, 0x3c6ef372, 0xa54ff53a, 0x510e527f, 0x9b05688c, 0x1f83d9ab, 0x5be0cd19]"

definition spec_sha256 :: "u8 list \<Rightarrow> u8 list" where
  "spec_sha256 m = concat (map (\<lambda>x. be_bytes 4 (uint x)) (spec_blocks spec_IV (m @ spec_pad (length m))))"

text \<open>HMAC (RFC 2104, section 2) with SHA-256, and the generator of RFC 6979, section 3.2.\<close>

definition spec_hmac :: "u8 list \<Rightarrow> u8 list \<Rightarrow> u8 list" where
  "spec_hmac key text =
    (let k0 = (if 64 < length key then spec_sha256 key else key);
         k0 = k0 @ replicate (64 - length k0) 0
     in spec_sha256 (map (\<lambda>x. x XOR 0x5c) k0 @ spec_sha256 (map (\<lambda>x. x XOR 0x36) k0 @ text)))"

definition spec_rfc6979_init :: "u8 list \<Rightarrow> u8 list \<times> u8 list" where
  "spec_rfc6979_init seed =
    (let V = replicate 32 0x01;
         K = replicate 32 0x00;
         K = spec_hmac K (V @ [0x00] @ seed);
         V = spec_hmac K V;
         K = spec_hmac K (V @ [0x01] @ seed);
         V = spec_hmac K V
     in (K, V))"

text \<open>Steps h.2 and h.3: \<open>n\<close> bytes of output, and the update before the next attempt.\<close>

fun spec_rfc6979_output :: "u8 list \<Rightarrow> u8 list \<Rightarrow> nat \<Rightarrow> u8 list" where
  "spec_rfc6979_output K V 0 = []"
| "spec_rfc6979_output K V (Suc blocks) = spec_hmac K V @ spec_rfc6979_output K (spec_hmac K V) blocks"

definition spec_rfc6979_retry :: "u8 list \<times> u8 list \<Rightarrow> u8 list \<times> u8 list" where
  "spec_rfc6979_retry KV =
    (let (K, V) = KV; K = spec_hmac K (V @ [0x00]) in (K, spec_hmac K V))"

section \<open>The transformation is the compression function\<close>

lemma rotr_32: "0 < n \<Longrightarrow> n < 32 \<Longrightarrow> drop_bit n x OR push_bit (32 - n) x = word_rotr n x" for x :: u32
proof (rule bit_word_eqI)
  fix i :: nat assume n: "0 < n" "n < 32" "i < LENGTH(32)"
  have "bit x (i + n) \<Longrightarrow> i + n < 32" using bit_imp_le_length [of x "i + n"] by simp
  moreover have "(i + n) mod 32 = (if i + n < 32 then i + n else i + n - 32)"
    using n by (simp add: mod_if)
  ultimately show "bit (drop_bit n x OR push_bit (32 - n) x) i \<longleftrightarrow> bit (word_rotr n x) i"
    using n by (auto simp: bit_or_iff bit_drop_bit_eq bit_push_bit_iff bit_word_rotr_iff add.commute)
qed

lemma Sigma_spec: "Sigma0 x = spec_Sigma0 x" "Sigma1 x = spec_Sigma1 x"
    "sigma0 x = spec_sigma0 x" "sigma1 x = spec_sigma1 x"
  using rotr_32 [of 2 x] rotr_32 [of 13 x] rotr_32 [of 22 x] rotr_32 [of 6 x] rotr_32 [of 11 x] rotr_32 [of 25 x]
    rotr_32 [of 7 x] rotr_32 [of 18 x] rotr_32 [of 17 x] rotr_32 [of 19 x]
  by (simp_all add: Sigma0_def Sigma1_def sigma0_def sigma1_def spec_Sigma0_def spec_Sigma1_def
    spec_sigma0_def spec_sigma1_def)

lemma Ch_spec: "Ch x y z = spec_Ch x y z"
  by (rule bit_word_eqI) (auto simp: Ch_def spec_Ch_def bit_and_iff bit_xor_iff bit_not_iff)

lemma Maj_spec: "Maj x y z = spec_Maj x y z"
  by (rule bit_word_eqI) (auto simp: Maj_def spec_Maj_def bit_and_iff bit_or_iff bit_xor_iff)

lemma Round_spec: "Round a b c d e f g h k w = (d', h') \<Longrightarrow>
    spec_round (a, b, c, d, e, f, g, h) (k, w) = (h', a, b, c, d', e, f, g)"
  by (simp add: Round_def spec_round_def Let_def Sigma_spec Ch_spec Maj_spec)

lemma rounds8_spec_list:
  "sha256_rounds8 (k0 # k1 # k2 # k3 # k4 # k5 # k6 # k7 # ks) (w0 # w1 # w2 # w3 # w4 # w5 # w6 # w7 # ws)
      (a, b, c, d, e, f, g, h)
    = foldl spec_round (a, b, c, d, e, f, g, h)
        [(k0, w0), (k1, w1), (k2, w2), (k3, w3), (k4, w4), (k5, w5), (k6, w6), (k7, w7)]"
proof -
  obtain d1 h1 where r0: "Round a b c d e f g h k0 w0 = (d1, h1)" by force
  obtain c1 g1 where r1: "Round h1 a b c d1 e f g k1 w1 = (c1, g1)" by force
  obtain b1 f1 where r2: "Round g1 h1 a b c1 d1 e f k2 w2 = (b1, f1)" by force
  obtain a1 e1 where r3: "Round f1 g1 h1 a b1 c1 d1 e k3 w3 = (a1, e1)" by force
  obtain h2 d2 where r4: "Round e1 f1 g1 h1 a1 b1 c1 d1 k4 w4 = (h2, d2)" by force
  obtain g2 c2 where r5: "Round d2 e1 f1 g1 h2 a1 b1 c1 k5 w5 = (g2, c2)" by force
  obtain f2 b2 where r6: "Round c2 d2 e1 f1 g2 h2 a1 b1 k6 w6 = (f2, b2)" by force
  obtain e2 a2 where r7: "Round b2 c2 d2 e1 f2 g2 h2 a1 k7 w7 = (e2, a2)" by force
  note r = r0 r1 r2 r3 r4 r5 r6 r7
  show ?thesis
    by (simp add: sha256_rounds8_def Let_def r r [THEN Round_spec])
qed

lemma long_cons8: "8 \<le> length xs \<Longrightarrow>
    \<exists>x0 x1 x2 x3 x4 x5 x6 x7 ys. xs = x0 # x1 # x2 # x3 # x4 # x5 # x6 # x7 # ys"
  by (auto simp: Suc_le_length_iff numeral_eq_Suc)

lemma rounds8_spec:
  assumes "8 \<le> length ks" "8 \<le> length ws"
  shows "sha256_rounds8 ks ws st = foldl spec_round st (zip (take 8 ks) (take 8 ws))"
  using long_cons8 [OF assms(1)] long_cons8 [OF assms(2)] by (cases st) (auto simp: rounds8_spec_list)

lemma rounds16_spec:
  assumes "16 \<le> length ks" "16 \<le> length ws"
  shows "sha256_rounds16 ks ws st = foldl spec_round st (zip (take 16 ks) (take 16 ws))"
proof -
  have "take 16 xs = take 8 xs @ take 8 (drop 8 xs)" for xs :: "u32 list"
    using take_add [of 8 8 xs] by simp
  then have "zip (take 16 ks) (take 16 ws) = zip (take 8 ks) (take 8 ws) @ zip (take 8 (drop 8 ks)) (take 8 (drop 8 ws))"
    using assms by (simp add: zip_append)
  then show ?thesis using assms by (simp add: sha256_rounds16_def rounds8_spec)
qed

lemma spec_W_first: "t < 16 \<Longrightarrow> spec_W m t = m ! t"
  by simp

lemma spec_W_step: "spec_W m (n + 16)
    = spec_W m n + (sigma1 (spec_W m (n + 14)) + spec_W m (n + 9) + sigma0 (spec_W m (n + 1)))"
proof -
  have e: "n + 16 - 2 = n + 14" "n + 16 - 7 = n + 9" "n + 16 - 15 = n + 1" "n + 16 - 16 = n" "\<not> n + 16 < 16"
    by simp_all
  show ?thesis
    by (subst spec_W.simps) (simp only: e if_False Sigma_spec ac_simps)
qed

lemma spec_W_at: "t = i + 16 \<Longrightarrow> j = i + 14 \<Longrightarrow> k = i + 9 \<Longrightarrow> l = i + 1 \<Longrightarrow>
    spec_W m t = spec_W m i + (sigma1 (spec_W m j) + spec_W m k + sigma0 (spec_W m l))"
  by (simp only: spec_W_step)

declare spec_W.simps [simp del]

lemma upt_16: "[n..<n + 16] = [n, n + 1, n + 2, n + 3, n + 4, n + 5, n + 6, n + 7, n + 8, n + 9, n + 10,
    n + 11, n + 12, n + 13, n + 14, n + 15]"
  by (simp add: upt_conv_Cons)

lemma nth_list16:
  "[x0, x1, x2, x3, x4, x5, x6, x7, x8, x9, x10, x11, x12, x13, x14, x15] ! 0 = x0"
  "[x0, x1, x2, x3, x4, x5, x6, x7, x8, x9, x10, x11, x12, x13, x14, x15] ! 1 = x1"
  "[x0, x1, x2, x3, x4, x5, x6, x7, x8, x9, x10, x11, x12, x13, x14, x15] ! 2 = x2"
  "[x0, x1, x2, x3, x4, x5, x6, x7, x8, x9, x10, x11, x12, x13, x14, x15] ! 3 = x3"
  "[x0, x1, x2, x3, x4, x5, x6, x7, x8, x9, x10, x11, x12, x13, x14, x15] ! 4 = x4"
  "[x0, x1, x2, x3, x4, x5, x6, x7, x8, x9, x10, x11, x12, x13, x14, x15] ! 5 = x5"
  "[x0, x1, x2, x3, x4, x5, x6, x7, x8, x9, x10, x11, x12, x13, x14, x15] ! 6 = x6"
  "[x0, x1, x2, x3, x4, x5, x6, x7, x8, x9, x10, x11, x12, x13, x14, x15] ! 7 = x7"
  "[x0, x1, x2, x3, x4, x5, x6, x7, x8, x9, x10, x11, x12, x13, x14, x15] ! 8 = x8"
  "[x0, x1, x2, x3, x4, x5, x6, x7, x8, x9, x10, x11, x12, x13, x14, x15] ! 9 = x9"
  "[x0, x1, x2, x3, x4, x5, x6, x7, x8, x9, x10, x11, x12, x13, x14, x15] ! 10 = x10"
  "[x0, x1, x2, x3, x4, x5, x6, x7, x8, x9, x10, x11, x12, x13, x14, x15] ! 11 = x11"
  "[x0, x1, x2, x3, x4, x5, x6, x7, x8, x9, x10, x11, x12, x13, x14, x15] ! 12 = x12"
  "[x0, x1, x2, x3, x4, x5, x6, x7, x8, x9, x10, x11, x12, x13, x14, x15] ! 13 = x13"
  "[x0, x1, x2, x3, x4, x5, x6, x7, x8, x9, x10, x11, x12, x13, x14, x15] ! 14 = x14"
  "[x0, x1, x2, x3, x4, x5, x6, x7, x8, x9, x10, x11, x12, x13, x14, x15] ! 15 = x15"
  by simp_all

lemma expand_spec: "sha256_expand (map (spec_W m) [n..<n + 16]) = map (spec_W m) [n + 16..<n + 32]"
proof -
  have u: "[n + 16..<n + 32] = [n + 16, n + 17, n + 18, n + 19, n + 20, n + 21, n + 22, n + 23, n + 24, n + 25, n + 26, n + 27, n + 28, n + 29, n + 30, n + 31]"
    using upt_16 [of "n + 16"] by (simp add: ac_simps)
  have e0: "spec_W m (n + 16) = spec_W m n + (sigma1 (spec_W m (n + 14)) + spec_W m (n + 9) + sigma0 (spec_W m (n + 1)))"
    by (rule spec_W_at) simp_all
  have e1: "spec_W m (n + 17) = spec_W m (n + 1) + (sigma1 (spec_W m (n + 15)) + spec_W m (n + 10) + sigma0 (spec_W m (n + 2)))"
    by (rule spec_W_at) simp_all
  have e2: "spec_W m (n + 18) = spec_W m (n + 2) + (sigma1 (spec_W m (n + 16)) + spec_W m (n + 11) + sigma0 (spec_W m (n + 3)))"
    by (rule spec_W_at) simp_all
  have e3: "spec_W m (n + 19) = spec_W m (n + 3) + (sigma1 (spec_W m (n + 17)) + spec_W m (n + 12) + sigma0 (spec_W m (n + 4)))"
    by (rule spec_W_at) simp_all
  have e4: "spec_W m (n + 20) = spec_W m (n + 4) + (sigma1 (spec_W m (n + 18)) + spec_W m (n + 13) + sigma0 (spec_W m (n + 5)))"
    by (rule spec_W_at) simp_all
  have e5: "spec_W m (n + 21) = spec_W m (n + 5) + (sigma1 (spec_W m (n + 19)) + spec_W m (n + 14) + sigma0 (spec_W m (n + 6)))"
    by (rule spec_W_at) simp_all
  have e6: "spec_W m (n + 22) = spec_W m (n + 6) + (sigma1 (spec_W m (n + 20)) + spec_W m (n + 15) + sigma0 (spec_W m (n + 7)))"
    by (rule spec_W_at) simp_all
  have e7: "spec_W m (n + 23) = spec_W m (n + 7) + (sigma1 (spec_W m (n + 21)) + spec_W m (n + 16) + sigma0 (spec_W m (n + 8)))"
    by (rule spec_W_at) simp_all
  have e8: "spec_W m (n + 24) = spec_W m (n + 8) + (sigma1 (spec_W m (n + 22)) + spec_W m (n + 17) + sigma0 (spec_W m (n + 9)))"
    by (rule spec_W_at) simp_all
  have e9: "spec_W m (n + 25) = spec_W m (n + 9) + (sigma1 (spec_W m (n + 23)) + spec_W m (n + 18) + sigma0 (spec_W m (n + 10)))"
    by (rule spec_W_at) simp_all
  have e10: "spec_W m (n + 26) = spec_W m (n + 10) + (sigma1 (spec_W m (n + 24)) + spec_W m (n + 19) + sigma0 (spec_W m (n + 11)))"
    by (rule spec_W_at) simp_all
  have e11: "spec_W m (n + 27) = spec_W m (n + 11) + (sigma1 (spec_W m (n + 25)) + spec_W m (n + 20) + sigma0 (spec_W m (n + 12)))"
    by (rule spec_W_at) simp_all
  have e12: "spec_W m (n + 28) = spec_W m (n + 12) + (sigma1 (spec_W m (n + 26)) + spec_W m (n + 21) + sigma0 (spec_W m (n + 13)))"
    by (rule spec_W_at) simp_all
  have e13: "spec_W m (n + 29) = spec_W m (n + 13) + (sigma1 (spec_W m (n + 27)) + spec_W m (n + 22) + sigma0 (spec_W m (n + 14)))"
    by (rule spec_W_at) simp_all
  have e14: "spec_W m (n + 30) = spec_W m (n + 14) + (sigma1 (spec_W m (n + 28)) + spec_W m (n + 23) + sigma0 (spec_W m (n + 15)))"
    by (rule spec_W_at) simp_all
  have e15: "spec_W m (n + 31) = spec_W m (n + 15) + (sigma1 (spec_W m (n + 29)) + spec_W m (n + 24) + sigma0 (spec_W m (n + 16)))"
    by (rule spec_W_at) simp_all
  note e = e0 e1 e2 e3 e4 e5 e6 e7 e8 e9 e10 e11 e12 e13 e14 e15
  show ?thesis
    unfolding upt_16 [of n] u sha256_expand_def Let_def list.map nth_list16
    by (simp only: e [symmetric])
qed

section \<open>Byte order\<close>

lemma BE32_masks: "(0xFF :: 'a::len word) = mask 8" "(0xFF00 :: 'a word) = push_bit 8 (mask 8)"
    "(0xFF0000 :: 'a word) = push_bit 16 (mask 8)" "(0xFF000000 :: 'a word) = push_bit 24 (mask 8)"
  by (simp_all add: mask_numeral push_bit_numeral_minus_1 push_bit_eq_mult)

lemma bit_BE32:
  fixes x :: "'a::len word"
  assumes "32 \<le> LENGTH('a)"
  shows "bit (BE32 x) n \<longleftrightarrow> n < 32 \<and> bit x (8 * (3 - n div 8) + n mod 8)"
proof -
  consider "n < 8" | "8 \<le> n" "n < 16" | "16 \<le> n" "n < 24" | "24 \<le> n" "n < 32" | "32 \<le> n" by linarith
  then show ?thesis
  proof cases
    case 1
    then have "n div 8 = 0" "n mod 8 = n" by simp_all
    then show ?thesis using 1 assms
      by (auto simp: BE32_def BE32_masks bit_or_iff bit_and_iff bit_push_bit_iff bit_drop_bit_eq bit_mask_iff add.commute)
  next
    case 2
    then have "n div 8 = 1" "n mod 8 = n - 8" using div_nat_eqI [of 8 1 n] minus_mult_div_eq_mod [of n 8] by simp_all
    then show ?thesis using 2 assms
      by (auto simp: BE32_def BE32_masks bit_or_iff bit_and_iff bit_push_bit_iff bit_drop_bit_eq bit_mask_iff add.commute)
  next
    case 3
    then have "n div 8 = 2" "n mod 8 = n - 16" using div_nat_eqI [of 8 2 n] minus_mult_div_eq_mod [of n 8] by simp_all
    then show ?thesis using 3 assms
      by (auto simp: BE32_def BE32_masks bit_or_iff bit_and_iff bit_push_bit_iff bit_drop_bit_eq bit_mask_iff add.commute)
  next
    case 4
    then have "n div 8 = 3" "n mod 8 = n - 24" using div_nat_eqI [of 8 3 n] minus_mult_div_eq_mod [of n 8] by simp_all
    then show ?thesis using 4 assms
      by (auto simp: BE32_def BE32_masks bit_or_iff bit_and_iff bit_push_bit_iff bit_drop_bit_eq bit_mask_iff add.commute)
  next
    case 5
    then show ?thesis
      by (auto simp: BE32_def BE32_masks bit_or_iff bit_and_iff bit_push_bit_iff bit_drop_bit_eq bit_mask_iff)
  qed
qed

lemma bit_load32: "bit (load32 b i) n \<longleftrightarrow> n < 32 \<and> bit (b ! (4 * i + n div 8)) (n mod 8)"
proof -
  consider "n < 8" | "8 \<le> n" "n < 16" | "16 \<le> n" "n < 24" | "24 \<le> n" "n < 32" | "32 \<le> n" by linarith
  then show ?thesis
  proof cases
    case 1
    then have "n div 8 = 0" "n mod 8 = n" by simp_all
    then show ?thesis using 1 by (auto simp: load32_def bit_or_iff bit_push_bit_iff bit_ucast_u8)
  next
    case 2
    then have "n div 8 = 1" "n mod 8 = n - 8" using div_nat_eqI [of 8 1 n] minus_mult_div_eq_mod [of n 8] by simp_all
    then show ?thesis using 2 by (auto simp: load32_def bit_or_iff bit_push_bit_iff bit_ucast_u8)
  next
    case 3
    then have "n div 8 = 2" "n mod 8 = n - 16" using div_nat_eqI [of 8 2 n] minus_mult_div_eq_mod [of n 8] by simp_all
    then show ?thesis using 3 by (auto simp: load32_def bit_or_iff bit_push_bit_iff bit_ucast_u8)
  next
    case 4
    then have "n div 8 = 3" "n mod 8 = n - 24" using div_nat_eqI [of 8 3 n] minus_mult_div_eq_mod [of n 8] by simp_all
    then show ?thesis using 4 by (auto simp: load32_def bit_or_iff bit_push_bit_iff bit_ucast_u8)
  next
    case 5
    then show ?thesis by (auto simp: load32_def bit_or_iff bit_push_bit_iff bit_ucast_u8)
  qed
qed

lemma BE32_load32:
  assumes "4 * i + 4 \<le> length b"
  shows "BE32 (load32 b i) = word_of_int (be_val (take 4 (drop (4 * i) b)))"
proof (rule bit_word_eqI)
  fix n :: nat assume "n < LENGTH(32)"
  then have n: "n < 32" "n div 8 < 4" "n mod 8 < 8" by (simp_all add: div_less_iff_less_mult)
  let ?t = "take 4 (drop (4 * i) b)"
  have "bit (be_val ?t) (8 * (n div 8) + n mod 8) \<longleftrightarrow> bit (?t ! (3 - n div 8)) (n mod 8)"
    using bit_be_val [of "n div 8" ?t "n mod 8"] n assms by simp
  moreover have "?t ! (3 - n div 8) = b ! (4 * i + (3 - n div 8))" using n assms by simp
  moreover have "8 * (3 - n div 8) + n mod 8 < 32" "(8 * (3 - n div 8) + n mod 8) div 8 = 3 - n div 8"
    using n by simp_all
  ultimately show "bit (BE32 (load32 b i)) n \<longleftrightarrow> bit (word_of_int (be_val ?t) :: u32) n"
    using n by (simp add: bit_BE32 bit_load32 bit_word_of_int_iff)
qed

lemma store32_BE32:
  fixes x :: "'a::len word"
  assumes "32 \<le> LENGTH('a)"
  shows "store32 (ucast (BE32 x)) = be_bytes 4 (uint x)"
proof (rule be_bytes_eqI)
  fix i b :: nat assume ib: "i < 4" "b < 8"
  have s: "store32 y ! (4 - 1 - i) = ucast (drop_bit (8 * (3 - i)) y)" for y
  proof -
    consider "i = 0" | "i = 1" | "i = 2" | "i = 3" using ib by linarith
    then show ?thesis by cases (simp_all add: store32_def)
  qed
  have d: "(8 * (3 - i) + b) div 8 = 3 - i" "(8 * (3 - i) + b) mod 8 = b" "8 * (3 - i) + b < 32" using ib by simp_all
  show "bit (store32 (ucast (BE32 x)) ! (4 - 1 - i)) b \<longleftrightarrow> bit (uint x) (8 * i + b)"
    unfolding s using ib assms d
    by (simp add: bit_ucast_iff bit_drop_bit_eq bit_BE32 [OF assms] bit_uint_iff)
qed (simp add: store32_def)

lemma be_bytes_8: "be_bytes 8 v = be_bytes 4 (v div 2 ^ 32) @ be_bytes 4 v"
  by (simp add: be_bytes_def upt_rec zdiv_zmult2_eq [symmetric])

lemma length_K: "length sha256_K = 64"
  by (simp add: sha256_K_def)

lemma zip_upt_split: "length ks = n + k \<Longrightarrow> zip ks (map f [a..<a + (n + k)])
    = zip (take n ks) (map f [a..<a + n]) @ zip (drop n ks) (map f [a + n..<a + (n + k)])"
proof -
  assume l: "length ks = n + k"
  have "[a..<a + (n + k)] = [a..<a + n] @ [a + n..<a + (n + k)]"
    using upt_add_eq_append [of a "a + n" k] by (simp add: add.assoc)
  then have "zip ks (map f [a..<a + (n + k)]) = zip (take n ks @ drop n ks) (map f [a..<a + n] @ map f [a + n..<a + (n + k)])"
    by simp
  also have "\<dots> = zip (take n ks) (map f [a..<a + n]) @ zip (drop n ks) (map f [a + n..<a + (n + k)])"
    using l by (intro zip_append) simp
  finally show ?thesis .
qed

lemma transform_spec:
  assumes "length chunk = 64"
  shows "sha256_transform s chunk = spec_compress s chunk"
proof -
  define m where "m = map (\<lambda>i. word_of_int (be_val (take 4 (drop (4 * i) chunk))) :: u32) [0..<16]"
  define st where "st = (s ! 0, s ! 1, s ! 2, s ! 3, s ! 4, s ! 5, s ! 6, s ! 7)"
  have w0: "map (\<lambda>i. BE32 (load32 chunk i)) [0..<16] = map (spec_W m) [0..<16]"
    using assms by (auto simp: m_def spec_W_first BE32_load32 simp del: upt_rec_numeral intro!: nth_equalityI)
  have w1: "sha256_expand (map (spec_W m) [0..<16]) = map (spec_W m) [16..<32]" using expand_spec [of m 0] by simp
  have w2: "sha256_expand (map (spec_W m) [16..<32]) = map (spec_W m) [32..<48]" using expand_spec [of m 16] by simp
  have w3: "sha256_expand (map (spec_W m) [32..<48]) = map (spec_W m) [48..<64]" using expand_spec [of m 32] by simp
  let ?K = sha256_K
  have z: "zip ?K (map (spec_W m) [0..<64]) = zip (take 16 ?K) (map (spec_W m) [0..<16])
      @ zip (take 16 (drop 16 ?K)) (map (spec_W m) [16..<32])
      @ zip (take 16 (drop 32 ?K)) (map (spec_W m) [32..<48]) @ zip (take 16 (drop 48 ?K)) (map (spec_W m) [48..<64])"
    using zip_upt_split [of ?K 16 48 "spec_W m" 0] zip_upt_split [of "drop 16 ?K" 16 32 "spec_W m" 16]
      zip_upt_split [of "drop 32 ?K" 16 16 "spec_W m" 32] by (simp add: length_K)
  show ?thesis
    unfolding sha256_transform_def spec_compress_def Let_def w0 w1 w2 w3 m_def [symmetric] st_def [symmetric] z
    by (simp add: rounds16_spec length_K del: upt_rec_numeral)
qed

section \<open>Buffered writes\<close>

declare spec_blocks.simps [simp del] sha256_write_loop.simps [simp del]

lemma spec_blocks_short: "length m < 64 \<Longrightarrow> spec_blocks s m = s"
  by (simp add: spec_blocks.simps)

lemma spec_blocks_block: "length b = 64 \<Longrightarrow> spec_blocks s (b @ m) = spec_blocks (spec_compress s b) m"
  by (subst spec_blocks.simps) simp

lemma spec_blocks_append:
  "64 dvd length m \<Longrightarrow> spec_blocks s (m @ d) = spec_blocks (spec_blocks s m) d"
proof (induction s m rule: spec_blocks.induct)
  case (1 s m)
  show ?case
  proof (cases "length m < 64")
    case True
    then have "m = []" using 1(2) by (auto dest: dvd_imp_le)
    then show ?thesis by (simp add: spec_blocks_short)
  next
    case False
    have "64 dvd length (drop 64 m)" using 1(2) False by (simp add: dvd_diff_nat)
    then have IH: "spec_blocks (spec_compress s (take 64 m)) (drop 64 m @ d)
        = spec_blocks (spec_blocks (spec_compress s (take 64 m)) (drop 64 m)) d"
      using 1(1) False by blast
    have "spec_blocks s (m @ d) = spec_blocks (spec_compress s (take 64 m)) (drop 64 m @ d)"
      using False spec_blocks.simps [of s "m @ d"] by simp
    moreover have "spec_blocks s m = spec_blocks (spec_compress s (take 64 m)) (drop 64 m)"
      using False spec_blocks.simps [of s m] by simp
    ultimately show ?thesis using IH by simp
  qed
qed

text \<open>
  The abstraction: a hash state stands for the message written so far. Its chaining value is
  the hash of the complete blocks, and the rest of the message is at the beginning of the buffer.
\<close>

definition full_blocks :: "u8 list \<Rightarrow> u8 list" where
  "full_blocks m = take (64 * (length m div 64)) m"

definition partial_block :: "u8 list \<Rightarrow> u8 list" where
  "partial_block m = drop (64 * (length m div 64)) m"

definition sha_rep :: "sha256_t \<Rightarrow> u8 list \<Rightarrow> bool" where
  "sha_rep h m \<longleftrightarrow> length (sha_buf h) = 64 \<and> sha_bytes h = of_nat (length m) \<and>
    sha_s h = spec_blocks spec_IV m \<and> take (length m mod 64) (sha_buf h) = partial_block m"

lemma length_partial_block: "length (partial_block m) = length m mod 64"
  by (simp add: partial_block_def minus_mult_div_eq_mod)

lemma full_partial: "full_blocks m @ partial_block m = m" "64 dvd length (full_blocks m)"
  by (simp_all add: full_blocks_def partial_block_def min_absorb2)

lemma spec_blocks_full: "spec_blocks s m = spec_blocks s (full_blocks m)"
proof -
  have "spec_blocks s (full_blocks m @ partial_block m) = spec_blocks s (full_blocks m)"
    by (simp only: spec_blocks_append full_partial(2)) (simp add: spec_blocks_short length_partial_block)
  then show ?thesis by (simp only: full_partial(1))
qed

lemma partial_append: "64 dvd length m \<Longrightarrow> partial_block (m @ d) = partial_block d"
  by (elim dvdE) (simp add: partial_block_def)

lemma partial_split: "partial_block (m @ d) = partial_block (partial_block m @ d)"
  using partial_append [of "full_blocks m" "partial_block m @ d"] full_partial [of m]
  by (simp only: append_assoc [symmetric])

lemma blocks_split: "spec_blocks s (m @ d) = spec_blocks (spec_blocks s m) (partial_block m @ d)"
  using spec_blocks_append [of "full_blocks m" s "partial_block m @ d"] full_partial [of m] spec_blocks_full [of s m]
  by (simp only: append_assoc [symmetric])

lemma write_loop_spec:
  "length buf = 64 \<Longrightarrow> bufsize < 64 \<Longrightarrow>
    (case sha256_write_loop s buf bufsize data of (s', buf', n', data') \<Rightarrow>
      length buf' = 64 \<and> s' = spec_blocks s (take bufsize buf @ data) \<and>
      take n' buf' @ data' = partial_block (take bufsize buf @ data) \<and> n' + length data' < 64)"
proof (induction s buf bufsize data rule: sha256_write_loop.induct)
  case (1 s buf bufsize data)
  show ?case
  proof (cases "64 \<le> bufsize + length data")
    case True
    define buf1 where "buf1 = memcpy buf bufsize (take (64 - bufsize) data)"
    define rest where "rest = drop (64 - bufsize) data"
    have b: "buf1 = take bufsize buf @ take (64 - bufsize) data" "length buf1 = 64"
      using True 1(2,3) by (simp_all add: buf1_def memcpy_def)
    then have p: "take bufsize buf @ data = buf1 @ rest" by (simp add: rest_def)
    have "spec_blocks s (buf1 @ rest) = spec_blocks (sha256_transform s buf1) rest"
      by (simp add: spec_blocks_block b(2) transform_spec)
    moreover have "partial_block (buf1 @ rest) = partial_block rest"
      by (rule partial_append) (simp add: b(2))
    moreover have "case sha256_write_loop (sha256_transform s buf1) buf1 0 rest of (s', buf', n', data') \<Rightarrow>
      length buf' = 64 \<and> s' = spec_blocks (sha256_transform s buf1) (take 0 buf1 @ rest) \<and>
      take n' buf' @ data' = partial_block (take 0 buf1 @ rest) \<and> n' + length data' < 64"
      unfolding rest_def by (rule 1(1) [OF True buf1_def]) (simp_all add: b(2))
    moreover have "sha256_write_loop s buf bufsize data = sha256_write_loop (sha256_transform s buf1) buf1 0 rest"
      using True by (subst sha256_write_loop.simps) (simp add: Let_def buf1_def rest_def)
    ultimately show ?thesis unfolding p by (simp add: case_prod_beta)
  next
    case False
    then have "sha256_write_loop s buf bufsize data = (s, buf, bufsize, data)"
      by (subst sha256_write_loop.simps) simp
    then show ?thesis using False 1(2,3) by (simp add: spec_blocks_short partial_block_def)
  qed
qed

lemma mask_6: "unat (x AND 0x3F) = unat x mod 64" for x :: u64
proof -
  have "(0x3F :: u64) = mask 6" by (simp add: mask_numeral)
  then have "uint (x AND 0x3F) = uint x mod 64" using uint_and_mask [of x 6] by simp
  then have "int (unat (x AND 0x3F)) = int (unat x mod 64)" unfolding of_nat_mod by simp
  then show ?thesis by (simp only: of_nat_eq_iff)
qed

lemma write_spec:
  assumes "sha_rep h m"
  shows "sha_rep (sha256_write h data) (m @ data)"
proof -
  have "unat (of_nat (length m) :: u64) mod 64 = length m mod 64"
    by (simp add: unsigned_of_nat take_bit_eq_mod mod_mod_cancel)
  then have n: "unat (sha_bytes h AND 0x3F) = length m mod 64"
    using assms by (simp add: sha_rep_def mask_6)
  obtain s' buf' n' d' where w: "sha256_write_loop (sha_s h) (sha_buf h) (length m mod 64) data = (s', buf', n', d')"
    by (rule prod_cases4)
  have sp: "length buf' = 64" "s' = spec_blocks (sha_s h) (partial_block m @ data)"
      "take n' buf' @ d' = partial_block (partial_block m @ data)" "n' + length d' < 64"
    using write_loop_spec [of "sha_buf h" "length m mod 64" "sha_s h" data] assms w by (simp_all add: sha_rep_def)
  have "length (take n' buf' @ d') = (length m mod 64 + length data) mod 64"
    unfolding sp(3) by (simp add: length_partial_block)
  then have l: "n' + length d' = (length m + length data) mod 64" using sp(1,4) by (simp add: mod_add_left_eq)
  define buf'' where "buf'' = (if d' \<noteq> [] then memcpy buf' n' d' else buf')"
  have b: "take (n' + length d') buf'' = take n' buf' @ d'" "length buf'' = 64"
    using sp(1,4) by (auto simp: buf''_def memcpy_def)
  have "sha256_write h data = \<lparr>sha_s = s', sha_buf = buf'', sha_bytes = sha_bytes h + of_nat (length data)\<rparr>"
    by (simp add: sha256_write_def n w Let_def buf''_def)
  moreover have "s' = spec_blocks spec_IV (m @ data)"
    using assms sp(2) by (subst blocks_split) (simp add: sha_rep_def)
  moreover have "take (length (m @ data) mod 64) buf'' = partial_block (m @ data)"
    using b(1) l sp(3) by (subst partial_split) simp
  ultimately show ?thesis using assms b(2) by (simp add: sha_rep_def)
qed

lemma initialize_spec: "length buf = 64 \<Longrightarrow> sha_rep (sha256_initialize buf) []"
  by (simp add: sha_rep_def sha256_initialize_def spec_blocks_short spec_IV_def partial_block_def)

lemma length_spec_blocks: "length s = 8 \<Longrightarrow> length (spec_blocks s m) = 8"
proof (induction s m rule: spec_blocks.induct)
  case (1 s m)
  have "length (spec_compress s (take 64 m)) = 8" by (simp add: spec_compress_def Let_def case_prod_beta)
  then show ?case using 1 by (simp add: spec_blocks.simps [of s m])
qed

lemma length_sha256 [simp]: "length (spec_sha256 m) = 32"
  using length_spec_blocks [of spec_IV "m @ spec_pad (length m)"]
  by (simp add: spec_sha256_def spec_IV_def length_concat comp_def sum_list_triv)

lemma pad_length:
  assumes "n < 2 ^ 61"
  shows "unat (1 + (119 - (of_nat n :: u64) mod 64) mod 64) = Suc (nat ((55 - int n) mod 64))"
proof -
  define x where "x = (of_nat n :: u64) mod 64"
  define y where "y = (119 - x) mod 64"
  have 64: "uint (64 :: u64) = 64" "uint (119 :: u64) = 119" by simp_all
  have "uint (of_nat n :: u64) = int n"
    using assms by (simp add: unsigned_of_nat take_bit_nat_eq_self)
  then have x: "uint x = int n mod 64" by (simp only: x_def uint_mod_distrib 64)
  moreover have "int n mod 64 < 64" by (rule pos_mod_bound) simp
  ultimately have "uint (119 - x) = 119 - int n mod 64"
    using uint_sub_lem [of x 119] by (simp only: 64) linarith
  then have "uint y = (119 - int n mod 64) mod 64" by (simp only: y_def uint_mod_distrib 64)
  also have "119 - int n mod 64 = (55 - int n) + (1 + int n div 64) * 64"
    using div_mult_mod_eq [of "int n" 64] by (simp only: distrib_right mult_1 diff_add_eq eq_diff_eq diff_eq_eq)
  also have "\<dots> mod 64 = (55 - int n) mod 64" by (rule mod_mult_self1)
  finally have y: "uint y = (55 - int n) mod 64" .
  moreover have "(55 - int n) mod 64 < 64" "0 \<le> (55 - int n) mod 64" by (simp_all only: pos_mod_bound pos_mod_sign zero_less_numeral)
  ultimately have "uint (1 + y) = 1 + (55 - int n) mod 64" using uint_add_noov [of 1 y] by simp
  then have "unat (1 + y) = nat (1 + (55 - int n) mod 64)" by (simp only: unat_eq_nat_uint)
  then show ?thesis unfolding x_def [symmetric] y_def [symmetric]
    using \<open>0 \<le> (55 - int n) mod 64\<close> by linarith
qed

lemma sizedesc_spec:
  assumes "n < 2 ^ 61"
  shows "store32 (ucast (BE32 (drop_bit 29 (of_nat n :: u64)))) @ store32 (ucast (BE32 (push_bit 3 (of_nat n :: u64))))
    = be_bytes 8 (8 * int n)"
proof -
  have b: "uint (of_nat n :: u64) = int n"
    using assms by (simp add: unsigned_of_nat take_bit_nat_eq_self)
  have "uint (drop_bit 29 (of_nat n :: u64)) = 8 * int n div 2 ^ 32"
    by (simp add: uint_drop_bit b)
  moreover have "uint (push_bit 3 (of_nat n :: u64)) = 8 * int n"
    using assms b by (subst uint_push_bit_noov) simp_all
  ultimately show ?thesis by (simp add: store32_BE32 be_bytes_8)
qed

lemma finalize_spec:
  assumes "sha_rep h m" "length m < 2 ^ 61"
  shows "snd (sha256_finalize h) = spec_sha256 m"
proof -
  define n where "n = unat (1 + (119 - sha_bytes h mod 64) mod 64)"
  define d where "d = store32 (ucast (BE32 (drop_bit 29 (sha_bytes h)))) @ store32 (ucast (BE32 (push_bit 3 (sha_bytes h))))"
  define h' where "h' = sha256_write (sha256_write h (take n (0x80 # replicate 63 0))) d"
  have bytes: "sha_bytes h = of_nat (length m)" using assms(1) by (simp add: sha_rep_def)
  have n: "n = Suc (nat ((55 - int (length m)) mod 64))"
    unfolding n_def bytes by (rule pad_length [OF assms(2)])
  have "(55 - int (length m)) mod 64 < 64" by simp
  then have "min 63 (nat ((55 - int (length m)) mod 64)) = nat ((55 - int (length m)) mod 64)" by linarith
  then have p: "take n (0x80 # replicate 63 0) = 0x80 # replicate (nat ((55 - int (length m)) mod 64)) (0 :: u8)"
    by (simp only: n take_Suc_Cons take_replicate min.commute)
  have "sha_rep h' (m @ spec_pad (length m))"
    using write_spec [OF write_spec [OF assms(1)], of "take n (0x80 # replicate 63 0)" d] sizedesc_spec [OF assms(2)]
    unfolding h'_def p d_def bytes spec_pad_def by simp
  then have "sha_s h' = spec_blocks spec_IV (m @ spec_pad (length m))" by (simp add: sha_rep_def)
  moreover have "snd (sha256_finalize h) = concat (map store32 (map BE32 (sha_s h')))"
    by (simp add: sha256_finalize_def Let_def n_def d_def h'_def)
  moreover have "store32 (BE32 x) = be_bytes 4 (uint x)" for x :: u32
    using store32_BE32 [of x] by simp
  ultimately show ?thesis by (simp add: spec_sha256_def comp_def)
qed

text \<open>Any sequence of writes.\<close>

lemma writes_spec: "sha_rep h m \<Longrightarrow> sha_rep (foldl sha256_write h ds) (m @ concat ds)"
proof (induction ds arbitrary: h m)
  case (Cons d ds)
  then show ?case using Cons.IH [OF write_spec [OF Cons.prems]] by simp
qed simp

section \<open>HMAC and the nonce generator\<close>

lemma hmac_key_pads: "map (\<lambda>x. x XOR (0x5c XOR 0x36)) (map (\<lambda>x. x XOR 0x5c) k) = map (\<lambda>x. x XOR 0x36) k" for k :: "u8 list"
proof -
  have "(x XOR 0x5c) XOR (0x5c XOR 0x36) = x XOR 0x36" for x :: u8
    by (rule bit_word_eqI) (auto simp only: bit_xor_iff)
  then show ?thesis by simp
qed

definition hmac_key :: "u8 list \<Rightarrow> u8 list" where
  "hmac_key key = (let k0 = (if 64 < length key then spec_sha256 key else key) in k0 @ replicate (64 - length k0) 0)"

definition hmac_rep :: "hmac_sha256_t \<Rightarrow> u8 list \<Rightarrow> u8 list \<Rightarrow> bool" where
  "hmac_rep h key m \<longleftrightarrow> sha_rep (hmac_inner h) (map (\<lambda>x. x XOR 0x36) (hmac_key key) @ m) \<and>
    sha_rep (hmac_outer h) (map (\<lambda>x. x XOR 0x5c) (hmac_key key))"

lemma length_hmac_key [simp]: "length (hmac_key key) = 64"
  by (simp add: hmac_key_def Let_def)

lemma hmac_initialize_spec:
  assumes "length buf = 64" "length key < 2 ^ 61"
  shows "hmac_rep (hmac_sha256_initialize buf key) key []"
proof -
  have "snd (sha256_finalize (sha256_write (sha256_initialize buf) key)) = spec_sha256 key"
    using finalize_spec [OF write_spec [OF initialize_spec [OF assms(1)]], of key] assms(2) by simp
  then have k: "(if length key \<le> 64 then key @ replicate (64 - length key) 0
      else snd (sha256_finalize (sha256_write (sha256_initialize buf) key)) @ replicate 32 0) = hmac_key key"
    by (simp add: hmac_key_def Let_def)
  have "hmac_sha256_initialize buf key =
      \<lparr>hmac_inner = sha256_write (sha256_initialize buf) (map (\<lambda>x. x XOR 0x36) (hmac_key key)),
       hmac_outer = sha256_write (sha256_initialize buf) (map (\<lambda>x. x XOR 0x5c) (hmac_key key))\<rparr>"
    unfolding hmac_sha256_initialize_def Let_def case_prod_beta k hmac_key_pads ..
  then show ?thesis
    using write_spec [OF initialize_spec [OF assms(1)]] by (simp add: hmac_rep_def)
qed

lemma hmac_write_spec: "hmac_rep h key m \<Longrightarrow> hmac_rep (hmac_sha256_write h d) key (m @ d)"
  using write_spec [of "hmac_inner h" "map (\<lambda>x. x XOR 0x36) (hmac_key key) @ m" d]
  by (simp add: hmac_rep_def hmac_sha256_write_def)

lemma hmac_finalize_spec:
  assumes "hmac_rep h key m" "length m < 2 ^ 60"
  shows "snd (hmac_sha256_finalize h) = spec_hmac key m"
proof -
  have i: "snd (sha256_finalize (hmac_inner h)) = spec_sha256 (map (\<lambda>x. x XOR 0x36) (hmac_key key) @ m)"
    using finalize_spec [of "hmac_inner h" "map (\<lambda>x. x XOR 0x36) (hmac_key key) @ m"] assms by (simp add: hmac_rep_def)
  have "snd (sha256_finalize (sha256_write (hmac_outer h) (snd (sha256_finalize (hmac_inner h)))))
      = spec_sha256 (map (\<lambda>x. x XOR 0x5c) (hmac_key key) @ snd (sha256_finalize (hmac_inner h)))"
    using finalize_spec [OF write_spec, of "hmac_outer h" "map (\<lambda>x. x XOR 0x5c) (hmac_key key)" "snd (sha256_finalize (hmac_inner h))"]
      assms by (simp add: hmac_rep_def i)
  moreover have "snd (hmac_sha256_finalize h)
      = snd (sha256_finalize (sha256_write (hmac_outer h) (snd (sha256_finalize (hmac_inner h)))))"
    unfolding hmac_sha256_finalize_def by (simp add: case_prod_beta Let_def)
  moreover have "spec_hmac key m
      = spec_sha256 (map (\<lambda>x. x XOR 0x5c) (hmac_key key) @ spec_sha256 (map (\<lambda>x. x XOR 0x36) (hmac_key key) @ m))"
    unfolding spec_hmac_def hmac_key_def Let_def ..
  ultimately show ?thesis by (simp only: i)
qed

lemma length_hmac [simp]: "length (spec_hmac key m) = 32"
  by (simp add: spec_hmac_def Let_def)

lemma hmac_writes_spec:
  assumes "length buf = 64" "length key < 2 ^ 61" "length (concat ds) < 2 ^ 60"
  shows "snd (hmac_sha256_finalize (foldl hmac_sha256_write (hmac_sha256_initialize buf key) ds)) = spec_hmac key (concat ds)"
proof -
  have "hmac_rep h key m \<Longrightarrow> hmac_rep (foldl hmac_sha256_write h ds) key (m @ concat ds)" for h m
  proof (induction ds arbitrary: h m)
    case (Cons d ds)
    then show ?case using Cons.IH [OF hmac_write_spec [OF Cons.prems]] by simp
  qed simp
  from this [OF hmac_initialize_spec [OF assms(1,2)]] show ?thesis
    using hmac_finalize_spec assms(3) by simp
qed

lemma hmac_write_1:
  "length buf = 64 \<Longrightarrow> length key < 2 ^ 61 \<Longrightarrow> length a < 2 ^ 60 \<Longrightarrow>
    snd (hmac_sha256_finalize (hmac_sha256_write (hmac_sha256_initialize buf key) a)) = spec_hmac key a"
  using hmac_writes_spec [of buf key "[a]"] by simp

lemma hmac_write_2:
  "length buf = 64 \<Longrightarrow> length key < 2 ^ 61 \<Longrightarrow> length a + length b < 2 ^ 60 \<Longrightarrow>
    snd (hmac_sha256_finalize (hmac_sha256_write (hmac_sha256_write (hmac_sha256_initialize buf key) a) b))
      = spec_hmac key (a @ b)"
  using hmac_writes_spec [of buf key "[a, b]"] by simp

lemma hmac_write_3:
  "length buf = 64 \<Longrightarrow> length key < 2 ^ 61 \<Longrightarrow> length a + (length b + length c) < 2 ^ 60 \<Longrightarrow>
    snd (hmac_sha256_finalize (hmac_sha256_write (hmac_sha256_write (hmac_sha256_write (hmac_sha256_initialize buf key) a) b) c))
      = spec_hmac key (a @ b @ c)"
  using hmac_writes_spec [of buf key "[a, b, c]"] by simp

lemma rfc6979_initialize_spec:
  assumes "length buf = 64" "length key < 2 ^ 59"
  shows "rfc6979_hmac_sha256_initialize buf key =
    \<lparr>rng_v = snd (spec_rfc6979_init key), rng_k = fst (spec_rfc6979_init key), rng_retry = 0\<rparr>"
proof -
  have "32 + (1 + length key) < 2 ^ 60" using assms(2) by simp
  then show ?thesis
    using assms(1)
    by (simp add: rfc6979_hmac_sha256_initialize_def spec_rfc6979_init_def Let_def case_prod_beta
      hmac_write_1 hmac_write_3)
qed

definition rng_rep :: "rfc6979_hmac_sha256_t \<Rightarrow> u8 list \<times> u8 list \<Rightarrow> bool" where
  "rng_rep rng KV \<longleftrightarrow> rng_k rng = fst KV \<and> rng_v rng = snd KV \<and> length (fst KV) = 32 \<and> length (snd KV) = 32"

text \<open>The value \<open>V\<close> after \<open>n\<close> blocks of output.\<close>

fun spec_rfc6979_V :: "u8 list \<Rightarrow> u8 list \<Rightarrow> nat \<Rightarrow> u8 list" where
  "spec_rfc6979_V K V 0 = V"
| "spec_rfc6979_V K V (Suc blocks) = spec_rfc6979_V K (spec_hmac K V) blocks"

declare rfc6979_generate_loop.simps [simp del]

lemma generate_loop_spec:
  assumes "length buf = 64" "length k = 32" "length v = 32"
  shows "rfc6979_generate_loop buf k v outlen =
    (spec_rfc6979_V k v ((outlen + 31) div 32), take outlen (spec_rfc6979_output k v ((outlen + 31) div 32)))"
  using assms(3)
proof (induction outlen arbitrary: v rule: less_induct)
  case (less outlen)
  show ?case
  proof (cases "outlen = 0")
    case True
    then show ?thesis by (simp add: rfc6979_generate_loop.simps)
  next
    case False
    let ?v = "spec_hmac k v" and ?now = "if 32 < outlen then 32 else outlen"
    have "rfc6979_generate_loop buf k v outlen = (fst (rfc6979_generate_loop buf k ?v (outlen - ?now)),
        take ?now ?v @ snd (rfc6979_generate_loop buf k ?v (outlen - ?now)))"
      using False assms(1,2) less.prems
      by (subst rfc6979_generate_loop.simps) (simp add: Let_def case_prod_beta hmac_write_1)
    also have "\<dots> = (spec_rfc6979_V k ?v ((outlen - ?now + 31) div 32),
        take ?now ?v @ take (outlen - ?now) (spec_rfc6979_output k ?v ((outlen - ?now + 31) div 32)))"
      using less.IH [of "outlen - ?now" ?v] False by simp
    finally have l: "rfc6979_generate_loop buf k v outlen = \<dots>" .
    have b: "(outlen + 31) div 32 = Suc ((outlen - ?now + 31) div 32)"
    proof (cases "32 < outlen")
      case True
      then have "outlen + 31 = (outlen - 32 + 31) + 32" by simp
      then show ?thesis using True by (simp only: if_True)
    next
      case False
      then have "(outlen + 31) div 32 = 1" using \<open>outlen \<noteq> 0\<close> by (intro div_nat_eqI) simp_all
      then show ?thesis using False by simp
    qed
    show ?thesis unfolding l b using False by simp
  qed
qed

lemma generate_spec:
  fixes outlen :: nat
  assumes "length buf = 64" "rng_rep rng (K, V)"
  defines "KV \<equiv> (if rng_retry rng \<noteq> 0 then spec_rfc6979_retry (K, V) else (K, V))"
  defines "n \<equiv> (outlen + 31) div 32"
  shows "snd (rfc6979_hmac_sha256_generate buf rng outlen) = take outlen (spec_rfc6979_output (fst KV) (snd KV) n)"
    "rng_rep (fst (rfc6979_hmac_sha256_generate buf rng outlen)) (fst KV, spec_rfc6979_V (fst KV) (snd KV) n)"
    "rng_retry (fst (rfc6979_hmac_sha256_generate buf rng outlen)) = 1"
proof -
  have l: "length K = 32" "length V = 32" "rng_k rng = K" "rng_v rng = V"
    using assms(2) by (simp_all add: rng_rep_def)
  have lKV: "length (fst KV) = 32" "length (snd KV) = 32"
    using l by (simp_all add: KV_def spec_rfc6979_retry_def Let_def)
  have V: "length v = 32 \<Longrightarrow> length (spec_rfc6979_V k v m) = 32" for k v m
    by (induction m arbitrary: v) simp_all
  have g: "rfc6979_hmac_sha256_generate buf rng outlen =
      (\<lparr>rng_v = spec_rfc6979_V (fst KV) (snd KV) n, rng_k = fst KV, rng_retry = 1\<rparr>,
       take outlen (spec_rfc6979_output (fst KV) (snd KV) n))"
  proof (cases "rng_retry rng = 0")
    case True
    then show ?thesis
      using generate_loop_spec [OF assms(1) l(1,2), of outlen] l
      by (simp add: rfc6979_hmac_sha256_generate_def KV_def n_def)
  next
    case False
    then have KV: "KV = (spec_hmac K (V @ [0x00]), spec_hmac (spec_hmac K (V @ [0x00])) V)"
      by (simp add: KV_def spec_rfc6979_retry_def Let_def)
    show ?thesis
      using generate_loop_spec [OF assms(1) lKV, of outlen] l False assms(1)
      by (simp add: rfc6979_hmac_sha256_generate_def KV n_def Let_def case_prod_beta hmac_write_1 hmac_write_2)
  qed
  show "snd (rfc6979_hmac_sha256_generate buf rng outlen) = take outlen (spec_rfc6979_output (fst KV) (snd KV) n)"
    "rng_rep (fst (rfc6979_hmac_sha256_generate buf rng outlen)) (fst KV, spec_rfc6979_V (fst KV) (snd KV) n)"
    "rng_retry (fst (rfc6979_hmac_sha256_generate buf rng outlen)) = 1"
    unfolding g using lKV V by (simp_all add: rng_rep_def)
qed

text \<open>The constants are the first 32 bits of the fractional parts of square and cube roots of primes.\<close>

definition is_root_fraction :: "nat \<Rightarrow> int \<times> int \<Rightarrow> u32 \<Rightarrow> bool" where
  "is_root_fraction e pm k \<longleftrightarrow> (let (p, m) = pm; x = 2 ^ 32 * m + uint k
     in x ^ e \<le> p * 2 ^ (32 * e) \<and> p * 2 ^ (32 * e) < (x + 1) ^ e)"

lemma K_root_fractions:
  "list_all2 (is_root_fraction 3) [
    (2, 1), (3, 1), (5, 1), (7, 1), (11, 2), (13, 2), (17, 2), (19, 2), (23, 2), (29, 3), (31, 3), (37, 3),
    (41, 3), (43, 3), (47, 3), (53, 3), (59, 3), (61, 3), (67, 4), (71, 4), (73, 4), (79, 4), (83, 4), (89, 4),
    (97, 4), (101, 4), (103, 4), (107, 4), (109, 4), (113, 4), (127, 5), (131, 5), (137, 5), (139, 5), (149, 5),
    (151, 5), (157, 5), (163, 5), (167, 5), (173, 5), (179, 5), (181, 5), (191, 5), (193, 5), (197, 5), (199, 5),
    (211, 5), (223, 6), (227, 6), (229, 6), (233, 6), (239, 6), (241, 6), (251, 6), (257, 6), (263, 6), (269, 6),
    (271, 6), (277, 6), (281, 6), (283, 6), (293, 6), (307, 6), (311, 6)] sha256_K"
  unfolding sha256_K_def list_all2_Cons list_all2_Nil2 is_root_fraction_def
  by (intro conjI TrueI refl) (simp_all only: Let_def prod.case, simp_all)

lemma IV_root_fractions:
  "list_all2 (is_root_fraction 2) [(2, 1), (3, 1), (5, 2), (7, 2), (11, 3), (13, 3), (17, 4), (19, 4)] spec_IV"
  by (simp add: spec_IV_def is_root_fraction_def)

section \<open>Properties\<close>

text \<open>
  C21: the unrolled \<^verbatim>\<open>secp256k1_sha256_transform\<close>, which renames its eight variables instead of
  moving them and overwrites the sixteen words of the message schedule in place, computes the
  compression function of FIPS 180-4 on every block.
\<close>

theorem sha256_transform_is_compression:
  assumes "length chunk = 64"
  shows "sha256_transform s chunk = spec_compress s chunk"
  using transform_spec [OF assms] .

theorem sha256_transform_is_compression_witness:
  "sha256_transform spec_IV (0x80 # replicate 63 0) = spec_compress spec_IV (0x80 # replicate 63 0)"
  by (rule sha256_transform_is_compression) simp

text \<open>
  C7: hashing a message in arbitrary pieces, of any lengths, the empty one included, gives the
  SHA-256 digest of their concatenation, for messages of less than \<open>2 ^ 61\<close> bytes, whose length in
  bits fits the 64-bit counter.
\<close>

theorem sha256_streaming:
  assumes "length buf = 64" "length (concat ds) < 2 ^ 61"
  shows "snd (sha256_finalize (foldl sha256_write (sha256_initialize buf) ds)) = spec_sha256 (concat ds)"
  using finalize_spec [OF writes_spec [OF initialize_spec [OF assms(1)], of ds]] assms(2) by simp

theorem sha256_streaming_witness:
  "snd (sha256_finalize (foldl sha256_write (sha256_initialize (replicate 64 0)) [[0x61], [], [0x62, 0x63]]))
    = spec_sha256 [0x61, 0x62, 0x63]"
  using sha256_streaming [of "replicate 64 0" "[[0x61], [], [0x62, 0x63]]"] by simp

text \<open>
  C20: the keyed hash computed in pieces is HMAC-SHA256 of RFC 2104, for keys of any length: longer
  ones are hashed first.
\<close>

theorem hmac_sha256_streaming:
  assumes "length buf = 64" "length key < 2 ^ 61" "length (concat ds) < 2 ^ 60"
  shows "snd (hmac_sha256_finalize (foldl hmac_sha256_write (hmac_sha256_initialize buf key) ds))
    = spec_hmac key (concat ds)"
  using hmac_writes_spec [OF assms] .

theorem hmac_sha256_streaming_witness:
  "snd (hmac_sha256_finalize (foldl hmac_sha256_write (hmac_sha256_initialize (replicate 64 0) [0x6b]) [[0x61], [0x62]]))
    = spec_hmac [0x6b] [0x61, 0x62]"
  using hmac_sha256_streaming [of "replicate 64 0" "[0x6b]" "[[0x61], [0x62]]"] by simp

text \<open>
  C19: the generator follows RFC 6979, section 3.2: after \<^verbatim>\<open>initialize\<close> on a seed, the first
  \<^verbatim>\<open>generate\<close> returns the first \<open>outlen\<close> bytes of the sequence of blocks, a second one the bytes after
  the update of step h.3. The requests stay below \<open>2 ^ 31\<close>, where \<^verbatim>\<open>int now = outlen\<close> is exact.
\<close>

theorem rfc6979_generates:
  assumes "length buf = 64" "length seed < 2 ^ 59" "outlen < 2 ^ 31" "outlen' < 2 ^ 31"
  defines "KV \<equiv> spec_rfc6979_init seed"
  defines "KV' \<equiv> spec_rfc6979_retry (fst KV, spec_rfc6979_V (fst KV) (snd KV) ((outlen + 31) div 32))"
  shows "(let (rng, out) = rfc6979_hmac_sha256_generate buf (rfc6979_hmac_sha256_initialize buf seed) outlen;
              (rng', out') = rfc6979_hmac_sha256_generate buf rng outlen'
          in out = take outlen (spec_rfc6979_output (fst KV) (snd KV) ((outlen + 31) div 32)) \<and>
             out' = take outlen' (spec_rfc6979_output (fst KV') (snd KV') ((outlen' + 31) div 32)))"
proof -
  define rng where "rng = rfc6979_hmac_sha256_initialize buf seed"
  have i: "rng_rep rng (fst KV, snd KV)" "rng_retry rng = 0"
    using rfc6979_initialize_spec [OF assms(1,2)]
    by (simp_all add: rng_def rng_rep_def KV_def spec_rfc6979_init_def Let_def length_hmac)
  define r where "r = rfc6979_hmac_sha256_generate buf rng outlen"
  have g: "snd r = take outlen (spec_rfc6979_output (fst KV) (snd KV) ((outlen + 31) div 32))"
    "rng_rep (fst r) (fst KV, spec_rfc6979_V (fst KV) (snd KV) ((outlen + 31) div 32))"
    "rng_retry (fst r) = 1"
    using generate_spec [OF assms(1) i(1), of outlen] i(2) by (simp_all add: r_def)
  have "snd (rfc6979_hmac_sha256_generate buf (fst r) outlen')
      = take outlen' (spec_rfc6979_output (fst KV') (snd KV') ((outlen' + 31) div 32))"
    using generate_spec(1) [OF assms(1) g(2), of outlen'] g(3) by (simp add: KV'_def)
  with g(1) show ?thesis by (simp add: case_prod_beta Let_def r_def rng_def)
qed

theorem rfc6979_generates_witness:
  "\<exists>out. snd (rfc6979_hmac_sha256_generate (replicate 64 0)
      (rfc6979_hmac_sha256_initialize (replicate 64 0) [0x01]) 32) = out \<and>
    out = take 32 (spec_rfc6979_output (fst (spec_rfc6979_init [0x01])) (snd (spec_rfc6979_init [0x01])) 1)"
  using rfc6979_generates [of "replicate 64 0" "[0x01]" 32 32] by (simp add: case_prod_beta Let_def)

text \<open>
  C37: the literals of \<^verbatim>\<open>secp256k1_sha256_initialize\<close> and of the 64 rounds are the ones of FIPS
  180-4: the first 32 bits of the fractional parts of the square roots of the first 8 and of the
  cube roots of the first 64 primes.
\<close>

theorem sha256_constants:
  "list_all2 (is_root_fraction 2) [(2, 1), (3, 1), (5, 2), (7, 2), (11, 3), (13, 3), (17, 4), (19, 4)]
      (sha_s (sha256_initialize buf)) \<and>
    list_all2 (is_root_fraction 3) [
    (2, 1), (3, 1), (5, 1), (7, 1), (11, 2), (13, 2), (17, 2), (19, 2), (23, 2), (29, 3), (31, 3), (37, 3),
    (41, 3), (43, 3), (47, 3), (53, 3), (59, 3), (61, 3), (67, 4), (71, 4), (73, 4), (79, 4), (83, 4), (89, 4),
    (97, 4), (101, 4), (103, 4), (107, 4), (109, 4), (113, 4), (127, 5), (131, 5), (137, 5), (139, 5), (149, 5),
    (151, 5), (157, 5), (163, 5), (167, 5), (173, 5), (179, 5), (181, 5), (191, 5), (193, 5), (197, 5), (199, 5),
    (211, 5), (223, 6), (227, 6), (229, 6), (233, 6), (239, 6), (241, 6), (251, 6), (257, 6), (263, 6), (269, 6),
    (271, 6), (277, 6), (281, 6), (283, 6), (293, 6), (307, 6), (311, 6)] sha256_K"
  using IV_root_fractions K_root_fractions by (simp add: sha256_initialize_def spec_IV_def)

end
