(* ===== verification/Der.thy ===== *)
theory Der
  imports Scalar_8x32 "HOL-Library.Monad_Syntax"
begin

text \<open>
  The DER encoding of a signature, the first half of \<^verbatim>\<open>ecdsa_impl.h\<close>. The pair of pointers
  \<^verbatim>\<open>sig\<close> and \<^verbatim>\<open>sigend\<close> is the list of the bytes between them; advancing the pointer drops
  bytes. A read or a write outside the caller's buffer is the value \<^const>\<open>None\<close>: that every
  function returns \<^const>\<open>Some\<close> is its memory safety. Inside, \<^verbatim>\<open>return 0\<close> is
  \<open>Some None\<close>. A length is a \<^verbatim>\<open>size_t\<close>, a 64-bit word, and is truncated to an \<^verbatim>\<open>int\<close>
  where the source returns it as one.
\<close>

section \<open>Checked memory accesses\<close>

definition read_byte :: "u8 list \<Rightarrow> nat \<Rightarrow> u8 option" where
  "read_byte bs i = (if i < length bs then Some (bs ! i) else None)"

definition read_bytes :: "u8 list \<Rightarrow> nat \<Rightarrow> u8 list option" where
  "read_bytes bs n = (if n \<le> length bs then Some (take n bs) else None)"

definition write_bytes :: "u8 list \<Rightarrow> nat \<Rightarrow> u8 list \<Rightarrow> u8 list option" where
  "write_bytes buf off src =
    (if off + length src \<le> length buf then Some (take off buf @ src @ drop (off + length src) buf) else None)"

section \<open>Definitions\<close>

text \<open>
  The loop over the length octets. Its result is \<open>(None, sig)\<close> where the loop leaves the function
  with \<open>-1\<close>. The first test of the loop body in the source has an empty body.
\<close>

fun der_read_len_loop :: "nat \<Rightarrow> u64 \<Rightarrow> u8 list \<Rightarrow> (u64 option \<times> u8 list) option" where
  "der_read_len_loop 0 ret sig = Some (Some ret, sig)"
| "der_read_len_loop (Suc lenleft) ret sig = do {
    b \<leftarrow> read_byte sig 0;
    let ret = push_bit 8 ret OR ucast b;
    if of_nat (length sig) < ret + of_nat (Suc lenleft) then Some (None, sig)
    else der_read_len_loop lenleft ret (drop 1 sig)
  }"

definition der_read_len :: "u8 list \<Rightarrow> (int \<times> u8 list) option" where
  "der_read_len sig =
    (if sig = [] then Some (- 1, sig)
     else do {
       b1 \<leftarrow> read_byte sig 0;
       let sig = drop 1 sig;
       if b1 = 0xFF then Some (- 1, sig)
       else if b1 AND 0x80 = 0 then Some (uint b1, sig)
       else if b1 = 0x80 then Some (- 1, sig)
       else
         let lenleft = unat (b1 AND 0x7F)
         in if length sig < lenleft then Some (- 1, sig)
         else do {
           b \<leftarrow> read_byte sig 0;
           if b = 0 then Some (- 1, sig)
           else if 8 < lenleft then Some (- 1, sig)
           else do {
             (ret, sig) \<leftarrow> der_read_len_loop lenleft 0 sig;
             (case ret of None \<Rightarrow> Some (- 1, sig)
              | Some ret \<Rightarrow>
                if ret < 128 then Some (- 1, sig)
                else Some (sint (ucast ret :: u32), sig))
           }
         }
     })"

text \<open>The loop \<^verbatim>\<open>while (rlen > 0 && **sig == 0)\<close>, with the new \<^verbatim>\<open>rlen\<close> and position.\<close>

fun der_skip_zeros :: "nat \<Rightarrow> u8 list \<Rightarrow> (nat \<times> u8 list) option" where
  "der_skip_zeros 0 sig = Some (0, sig)"
| "der_skip_zeros (Suc rlen) sig = do {
    b \<leftarrow> read_byte sig 0;
    if b = 0 then der_skip_zeros rlen (drop 1 sig) else Some (Suc rlen, sig)
  }"

definition der_parse_integer :: "'sc scalar_ops \<Rightarrow> u8 list \<Rightarrow> ('sc \<times> u8 list) option option" where
  "der_parse_integer S sig =
    (if sig = [] then Some None
     else do {
       tag \<leftarrow> read_byte sig 0;
       if tag \<noteq> 0x02 then Some None
       else do {
         (rlen, sig) \<leftarrow> der_read_len (drop 1 sig);
         if rlen \<le> 0 \<or> int (length sig) < rlen then Some None
         else do {
           b0 \<leftarrow> read_byte sig 0;
           padded \<leftarrow> (if b0 = 0x00 \<and> 1 < rlen
                       then do { b1 \<leftarrow> read_byte sig 1; Some (b1 AND 0x80 = 0x00) } else Some False);
           padded \<leftarrow> (if \<not> padded \<and> b0 = 0xFF \<and> 1 < rlen
                       then do { b1 \<leftarrow> read_byte sig 1; Some (b1 AND 0x80 = 0x80) } else Some padded);
           if padded then Some None
           else do {
             let overflow = (b0 AND 0x80 = 0x80);
             (rlen, sig) \<leftarrow> der_skip_zeros (nat rlen) sig;
             let overflow = overflow \<or> 32 < rlen;
             (r, overflow) \<leftarrow>
               (if \<not> overflow
                then do {
                  src \<leftarrow> read_bytes sig rlen;
                  let ra = replicate (32 - rlen) 0 @ src;
                  let (r, over) = scalar_set_b32 S ra;
                  Some (r, over \<noteq> 0)
                }
                else Some (scalar_set_int S 0, overflow));
             let r = (if overflow then scalar_set_int S 0 else r);
             Some (Some (r, drop rlen sig))
           }
         }
       }
     })"

definition ecdsa_sig_parse :: "'sc scalar_ops \<Rightarrow> u8 list \<Rightarrow> ('sc \<times> 'sc) option option" where
  "ecdsa_sig_parse S sig =
    (if sig = [] then Some None
     else do {
       tag \<leftarrow> read_byte sig 0;
       if tag \<noteq> 0x30 then Some None
       else do {
         (rlen, sig) \<leftarrow> der_read_len (drop 1 sig);
         if rlen < 0 \<or> int (length sig) < rlen then Some None
         else if rlen \<noteq> int (length sig) then Some None
         else do {
           pr \<leftarrow> der_parse_integer S sig;
           (case pr of None \<Rightarrow> Some None
            | Some (rr, sig) \<Rightarrow> do {
                ps \<leftarrow> der_parse_integer S sig;
                (case ps of None \<Rightarrow> Some None
                 | Some (rs, sig) \<Rightarrow> if sig \<noteq> [] then Some None else Some (Some (rr, rs)))
              })
         }
       }
     })"

text \<open>The loop \<^verbatim>\<open>while (lenR > 1 && rp[0] == 0 && rp[1] < 0x80)\<close>; \<^verbatim>\<open>lenR\<close> is the length of the list at \<^verbatim>\<open>rp\<close>.\<close>

fun der_strip :: "u8 list \<Rightarrow> u8 list" where
  "der_strip (b0 # b1 # bs) = (if b0 = 0 \<and> b1 < 0x80 then der_strip (b1 # bs) else b0 # b1 # bs)"
| "der_strip bs = bs"

text \<open>
  The result is the returned flag, the new \<^verbatim>\<open>*size\<close> and the buffer at \<^verbatim>\<open>sig\<close>, into which the
  fields are written one after the other.
\<close>

definition ecdsa_sig_serialize ::
    "'sc scalar_ops \<Rightarrow> u8 list \<Rightarrow> nat \<Rightarrow> 'sc \<Rightarrow> 'sc \<Rightarrow> (bool \<times> nat \<times> u8 list) option" where
  "ecdsa_sig_serialize S sig sigsize ar as =
    (let rp = der_strip (0 # scalar_get_b32 S ar);
         sp = der_strip (0 # scalar_get_b32 S as);
         lenR = length rp;
         lenS = length sp
     in if sigsize < 6 + lenS + lenR then Some (False, 6 + lenS + lenR, sig)
     else do {
       sig \<leftarrow> write_bytes sig 0 [0x30];
       sig \<leftarrow> write_bytes sig 1 [of_nat (4 + lenS + lenR)];
       sig \<leftarrow> write_bytes sig 2 [0x02];
       sig \<leftarrow> write_bytes sig 3 [of_nat lenR];
       sig \<leftarrow> write_bytes sig 4 rp;
       sig \<leftarrow> write_bytes sig (4 + lenR) [0x02];
       sig \<leftarrow> write_bytes sig (5 + lenR) [of_nat lenS];
       sig \<leftarrow> write_bytes sig (lenR + 6) sp;
       Some (True, 6 + lenS + lenR, sig)
     })"

section \<open>Memory safety\<close>

lemma read_byte_0 [simp]: "read_byte (b # bs) 0 = Some b"
  by (simp add: read_byte_def)

lemma read_byte_Some [simp]: "i < length bs \<Longrightarrow> read_byte bs i = Some (bs ! i)"
  by (simp add: read_byte_def)

lemma read_bytes_Some [simp]: "n \<le> length bs \<Longrightarrow> read_bytes bs n = Some (take n bs)"
  by (simp add: read_bytes_def)

lemma write_bytes_Some [simp]:
  "off + length src \<le> length buf \<Longrightarrow>
    write_bytes buf off src = Some (take off buf @ src @ drop (off + length src) buf)"
  by (simp add: write_bytes_def)

lemma read_len_loop_safe: "lenleft \<le> length sig \<Longrightarrow> \<exists>r s. der_read_len_loop lenleft ret sig = Some (r, s)"
proof (induction lenleft arbitrary: ret sig)
  case (Suc n)
  then obtain b bs where sig: "sig = b # bs" by (cases sig) simp_all
  with Suc show ?case by (auto simp: Let_def)
qed simp

lemma byte_high: "b AND 0x80 = 0 \<longleftrightarrow> uint b < 128" for b :: u8
proof -
  have "b AND 0x80 = 0 \<longleftrightarrow> \<not> bit b 7" using and_exp_eq_0_iff_not_bit [of b 7] by simp
  also have "\<dots> \<longleftrightarrow> even (uint b div 128)" using bit_uint_iff [of b 7] bit_iff_odd [of "uint b" 7] by auto
  also have "uint b div 128 = of_bool (\<not> uint b < 128)"
    using uint_bounded [of b] div_pos_geq [of 128 "uint b"] by auto
  finally show ?thesis by simp
qed

lemma byte_128: "b AND 0x7F = 0 \<Longrightarrow> b AND 0x80 \<noteq> 0 \<Longrightarrow> b = 0x80" for b :: u8
proof -
  assume b: "b AND 0x7F = 0" "b AND 0x80 \<noteq> 0"
  have "(0x7F :: u8) = mask 7" by (simp add: mask_eq_exp_minus_1)
  then have "uint b mod 128 = 0" using b(1) uint_and_mask [of b 7] by simp
  moreover have "128 \<le> uint b" "uint b < 256" using b(2) uint_bounded [of b] by (simp_all add: byte_high)
  ultimately have "uint b = 128" using div_mult_mod_eq [of "uint b" 128] div_pos_geq [of 128 "uint b"] by simp
  then show ?thesis by (simp add: word_uint_eq_iff)
qed

lemma read_len_safe: "\<exists>r s. der_read_len sig = Some (r, s)"
proof (cases sig)
  case (Cons b bs)
  show ?thesis
  proof (cases "b AND 0x80 = 0 \<or> b = 0x80 \<or> b = 0xFF \<or> length bs < unat (b AND 0x7F)")
    case False
    then have "unat (b AND 0x7F) \<noteq> 0" using byte_128 [of b] by (auto simp: unat_eq_0)
    with False obtain c cs where bs: "bs = c # cs" by (cases bs) auto
    obtain r s where "der_read_len_loop (unat (b AND 0x7F)) 0 bs = Some (r, s)"
      using read_len_loop_safe [of "unat (b AND 0x7F)" bs 0] False by auto
    with False bs show ?thesis by (auto simp: Cons der_read_len_def Let_def split: option.split)
  qed (auto simp: Cons der_read_len_def Let_def)
qed (simp add: der_read_len_def)

lemma skip_zeros_safe:
  "rlen \<le> length sig \<Longrightarrow> \<exists>k s. der_skip_zeros rlen sig = Some (k, s) \<and> k \<le> length s"
proof (induction rlen arbitrary: sig)
  case (Suc n)
  then obtain b bs where sig: "sig = b # bs" by (cases sig) simp_all
  with Suc show ?case by auto
qed simp

lemma parse_integer_safe: "\<exists>r. der_parse_integer S sig = Some r"
proof (cases sig)
  case (Cons tag bs)
  obtain rlen s where l: "der_read_len bs = Some (rlen, s)" using read_len_safe by blast
  show ?thesis
  proof (cases "rlen \<le> 0 \<or> int (length s) < rlen")
    case False
    then have n: "nat rlen \<le> length s" "0 < length s" "1 < rlen \<Longrightarrow> 1 < length s" by auto
    obtain k s' where k: "der_skip_zeros (nat rlen) s = Some (k, s')" "k \<le> length s'"
      using skip_zeros_safe [OF n(1)] by blast
    then show ?thesis using l False n by (auto simp: Cons der_parse_integer_def Let_def split: prod.split)
  qed (use l in \<open>auto simp: Cons der_parse_integer_def\<close>)
qed (simp add: der_parse_integer_def)

lemma sig_parse_safe: "ecdsa_sig_parse S sig \<noteq> None"
proof (cases sig)
  case (Cons tag bs)
  obtain rlen s where l: "der_read_len bs = Some (rlen, s)" using read_len_safe by blast
  obtain r where r: "der_parse_integer S s = Some r" using parse_integer_safe by blast
  show ?thesis
  proof (cases r)
    case (Some q)
    obtain rr s' where q: "q = (rr, s')" by (cases q)
    obtain r' where "der_parse_integer S s' = Some r'" using parse_integer_safe by blast
    with l r Some q show ?thesis by (auto simp: Cons ecdsa_sig_parse_def split: option.split)
  qed (use l r in \<open>auto simp: Cons ecdsa_sig_parse_def\<close>)
qed (simp add: ecdsa_sig_parse_def)

section \<open>The language of the parser\<close>

text \<open>
  The content octets of an integer that the parser accepts, and the scalar it reads from them:
  0 for a negative number and for one that is not below the group order.
\<close>

definition der_int_ok :: "u8 list \<Rightarrow> bool" where
  "der_int_ok xs \<longleftrightarrow> xs \<noteq> [] \<and>
    \<not> (hd xs = 0x00 \<and> 1 < length xs \<and> uint (xs ! 1) < 128) \<and>
    \<not> (hd xs = 0xFF \<and> 1 < length xs \<and> \<not> uint (xs ! 1) < 128)"

definition der_int_val :: "'sc scalar_ops \<Rightarrow> u8 list \<Rightarrow> 'sc" where
  "der_int_val S xs =
    (let ys = dropWhile (\<lambda>b. b = 0) xs;
         (r, over) = scalar_set_b32 S (replicate (32 - length ys) 0 @ ys)
     in if 128 \<le> uint (hd xs) \<or> 32 < length ys \<or> over \<noteq> 0 then scalar_set_int S 0 else r)"

text \<open>The number an accepted integer stands for, with the same exceptions.\<close>

definition der_number :: "u8 list \<Rightarrow> int" where
  "der_number xs = (if uint (hd xs) < 128 \<and> be_val xs < scalar_n then be_val xs else 0)"

text \<open>
  The reference encoding, after X.690: the octets of a number without leading zeros, a length in the short or
  the long form, an integer with given content octets, and a signature, the sequence of two integers.
\<close>

fun octets :: "nat \<Rightarrow> u8 list" where
  "octets n = (if n = 0 then [] else octets (n div 256) @ [of_nat n])"

declare octets.simps [simp del]

definition der_length :: "nat \<Rightarrow> u8 list" where
  "der_length n = (if n < 128 then [of_nat n] else of_nat (128 + length (octets n)) # octets n)"

definition der_integer :: "u8 list \<Rightarrow> u8 list" where
  "der_integer xs = 0x02 # der_length (length xs) @ xs"

definition der_signature :: "u8 list \<Rightarrow> u8 list \<Rightarrow> u8 list" where
  "der_signature xs ys = 0x30 # der_length (length (der_integer xs @ der_integer ys)) @ der_integer xs @ der_integer ys"

text \<open>The number of content octets of a number that is not negative: there is room for a sign bit.\<close>

function der_int_octets :: "int \<Rightarrow> nat" where
  "der_int_octets v = (if v < 128 then 1 else Suc (der_int_octets (v div 256)))"
  by auto
termination by (relation "measure nat") auto

declare der_int_octets.simps [simp del]

lemma byte_high_set: "b AND 0x80 = 0x80 \<longleftrightarrow> \<not> uint b < 128" for b :: u8
proof
  show "\<not> uint b < 128" if "b AND 0x80 = 0x80" using that byte_high [of b] by auto
  show "b AND 0x80 = 0x80" if "\<not> uint b < 128"
  proof -
    have "bit b 7" using that byte_high [of b] and_exp_eq_0_iff_not_bit [of b 7] by simp
    then have "b AND 2 ^ 7 = 2 ^ 7"
      by (intro bit_word_eqI) (auto simp only: bit_and_iff bit_exp_iff)
    then show ?thesis by simp
  qed
qed

lemma skip_zeros_eq:
  "rlen \<le> length sig \<Longrightarrow>
    der_skip_zeros rlen sig
      = Some (length (dropWhile (\<lambda>b. b = 0) (take rlen sig)), dropWhile (\<lambda>b. b = 0) (take rlen sig) @ drop rlen sig)"
proof (induction rlen arbitrary: sig)
  case (Suc n)
  then obtain b bs where sig: "sig = b # bs" by (cases sig) simp_all
  with Suc show ?case by auto
qed simp

lemma parse_integer_content:
  assumes "der_read_len sig = Some (int (length xs), xs @ rest)" "xs \<noteq> []"
  shows "der_parse_integer S (0x02 # sig) = Some (if der_int_ok xs then Some (der_int_val S xs, rest) else None)"
proof -
  obtain b bs where xs: "xs = b # bs" using assms(2) by (cases xs) auto
  define ys where "ys = dropWhile (\<lambda>b. b = 0) xs"
  have z: "der_skip_zeros (length xs) (xs @ rest) = Some (length ys, ys @ rest)"
    using skip_zeros_eq [of "length xs" "xs @ rest"] by (simp add: ys_def)
  have b1: "1 < length xs \<Longrightarrow> read_byte (xs @ rest) 1 = Some (xs ! 1)" by (simp add: nth_append)
  have b0: "read_byte (xs @ rest) 0 = Some (hd xs)" by (simp add: xs)
  have l: "\<not> (int (length xs) \<le> 0 \<or> int (length (xs @ rest)) < int (length xs))" using assms(2) by simp
  have s: "hd xs \<noteq> 0 \<or> hd xs \<noteq> 0xFF" by auto
  obtain r over where r: "scalar_set_b32 S (replicate (32 - length ys) 0 @ ys) = (r, over)" by force
  show ?thesis
    using assms(1) b1 l
    by (auto simp: der_parse_integer_def b0 z der_int_ok_def der_int_val_def Let_def byte_high byte_high_set r
        ys_def [symmetric] assms(2))
qed

lemma read_len_short: "uint b < 128 \<Longrightarrow> der_read_len (b # bs) = Some (uint b, bs)"
  by (auto simp: der_read_len_def byte_high)

section \<open>The parser and the reference encoding\<close>

lemma octets_0 [simp]: "octets 0 = []"
  by (simp add: octets.simps)

lemma octets_pos: "0 < n \<Longrightarrow> octets n = octets (n div 256) @ [of_nat n]"
  by (subst octets.simps) simp

lemma of_nat_octet: "(of_nat (256 * k + unat b) :: u8) = b"
proof -
  have "(of_nat (256 * k) :: u8) = of_nat 256 * of_nat k" by (rule of_nat_mult)
  also have "(of_nat 256 :: u8) = 0" by simp
  finally have "(of_nat (256 * k) :: u8) = 0" by simp
  then show ?thesis unfolding of_nat_add by simp
qed

lemma octets_val: "be_val (octets n) = int n"
proof (induction n rule: octets.induct)
  case (1 n)
  show ?case
  proof (cases "n = 0")
    case False
    have "uint (of_nat n :: u8) = int n mod 256" by (simp add: unsigned_of_nat take_bit_eq_mod zmod_int)
    then have "be_val (octets (n div 256) @ [of_nat n]) = 256 * int (n div 256) + int n mod 256"
      using 1 [OF False] by (simp only: be_val_snoc)
    also have "\<dots> = int n" unfolding zdiv_int by simp
    finally show ?thesis using octets_pos [of n] False by simp
  qed simp
qed

lemma be_val_lower: "b \<noteq> 0 \<Longrightarrow> 256 ^ length bs \<le> be_val (b # bs)"
proof -
  assume "b \<noteq> 0"
  then have "uint b \<noteq> 0" by (simp add: uint_0_iff)
  then have "1 \<le> uint b" using uint_ge_0 [of b] by linarith
  then have "256 ^ length bs * 1 \<le> 256 ^ length bs * uint b" by (intro mult_left_mono) simp_all
  then show ?thesis using be_val_nonneg [of bs] unfolding be_val_Cons mult_1_right by linarith
qed

lemma be_val_pos: "l \<noteq> [] \<Longrightarrow> hd l \<noteq> 0 \<Longrightarrow> 0 < be_val l"
proof (cases l)
  case (Cons b bs)
  assume "hd l \<noteq> 0"
  then have "256 ^ length bs \<le> be_val l" using be_val_lower [of b bs] Cons by simp
  moreover have "0 < (256 :: int) ^ length bs" by simp
  ultimately show ?thesis by linarith
qed simp

lemma octets_be_val: "l \<noteq> [] \<Longrightarrow> hd l \<noteq> 0 \<Longrightarrow> octets (nat (be_val l)) = l"
proof (induction l rule: rev_induct)
  case (snoc b l)
  have b: "unat b < 256" by (rule order.strict_trans2 [OF unsigned_less]) simp
  have v: "nat (be_val (l @ [b])) = 256 * nat (be_val l) + unat b"
    by (simp add: nat_add_distrib nat_mult_distrib)
  have p: "0 < nat (be_val (l @ [b]))"
    using be_val_pos [OF snoc.prems] by simp
  have l: "octets (nat (be_val l)) = l" using snoc by (cases "l = []") simp_all
  have d: "nat (be_val (l @ [b])) div 256 = nat (be_val l)" unfolding v using b by simp
  show ?case unfolding octets_pos [OF p] d l unfolding v of_nat_octet ..
qed simp

lemma octets_length: "n < 256 ^ k \<Longrightarrow> length (octets n) \<le> k"
proof (induction n arbitrary: k rule: octets.induct)
  case (1 n)
  show ?case
  proof (cases "n = 0")
    case False
    then obtain j where k: "k = Suc j" using 1(2) by (cases k) auto
    have "n div 256 < 256 ^ j" using 1(2) unfolding k by (simp add: less_mult_imp_div_less mult.commute)
    then show ?thesis using 1(1) [OF False] False unfolding k by (simp add: octets_pos [of n])
  qed simp
qed

lemma octets_hd: "0 < n \<Longrightarrow> octets n \<noteq> [] \<and> hd (octets n) \<noteq> 0"
proof (induction n rule: octets.induct)
  case (1 n)
  show ?case
  proof (cases "n div 256 = 0")
    case True
    then have "uint (of_nat n :: u8) = int n" by (simp add: unsigned_of_nat take_bit_nat_eq_self div_eq_0_iff)
    then have "(of_nat n :: u8) \<noteq> 0" using 1(2) by auto
    then show ?thesis using True by (simp add: octets_pos [OF 1(2)])
  next
    case False
    then have "octets (n div 256) \<noteq> [] \<and> hd (octets (n div 256)) \<noteq> 0" using 1 by simp
    then show ?thesis by (simp add: octets_pos [OF 1(2)])
  qed
qed

text \<open>The encoding of a signature whose integers have the content octets \<open>xs\<close> and \<open>ys\<close>.\<close>

definition der_sig :: "u8 list \<Rightarrow> u8 list \<Rightarrow> u8 list" where
  "der_sig xs ys = 0x30 # of_nat (4 + length ys + length xs) # 0x02 # of_nat (length xs) # xs @
    0x02 # of_nat (length ys) # ys"

lemma length_der_sig [simp]: "length (der_sig xs ys) = 6 + length ys + length xs"
  by (simp add: der_sig_def)

lemma uint_len_octet: "n < 128 \<Longrightarrow> uint (of_nat n :: u8) = int n"
  by (simp add: unsigned_of_nat take_bit_nat_eq_self)

lemma read_len_octet: "n < 128 \<Longrightarrow> der_read_len (of_nat n # bs) = Some (int n, bs)"
  using read_len_short [of "of_nat n" bs] by (simp add: uint_len_octet)

lemma length_octet:
  fixes b :: u8
  assumes "b AND 0x80 \<noteq> 0"
  shows "b = of_nat (128 + unat (b AND 0x7F))"
proof -
  have m: "(0x7F :: u8) = mask 7" by (simp add: mask_eq_exp_minus_1)
  have b: "128 \<le> uint b" "uint b < 256" using assms uint_bounded [of b] by (simp_all add: byte_high)
  have "uint b mod 128 = (uint b - 128) mod 128" by simp
  also have "\<dots> = uint b - 128" using b by (intro mod_pos_pos_trivial) simp_all
  finally have u: "uint (b AND 0x7F) = uint b - 128" using uint_and_mask [of b 7] m by simp
  have "int (unat (b AND 0x7F)) = uint b - 128" unfolding u [symmetric] by simp
  then have "int (128 + unat (b AND 0x7F)) = uint b" by simp
  then have "(of_int (int (128 + unat (b AND 0x7F))) :: u8) = of_int (uint b)" by (rule arg_cong)
  then show ?thesis by simp
qed

lemma read_len_step:
  fixes ret :: u64 and b :: u8
  assumes "uint ret < 2 ^ 31" "length (b # bs) < 2 ^ 31" "n \<le> 7"
  defines "q \<equiv> push_bit 8 ret OR ucast b"
  shows "uint q = uint ret * 256 + uint b"
    "of_nat (length (b # bs)) < q + of_nat (Suc n) \<longleftrightarrow> int (length (b # bs)) < uint q + int (Suc n)"
proof -
  have b: "uint (ucast b :: u64) = uint b" "uint b < 256" using uint_bounded [of b] by (simp_all add: uint_ucast)
  have p: "uint (push_bit 8 ret) = uint ret * 256"
    using assms(1) by (subst uint_push_bit_noov) simp_all
  show q: "uint q = uint ret * 256 + uint b"
    unfolding q_def using b p by (subst uint_or_add [of _ 8]) simp_all
  have "uint (of_nat (Suc n) :: u64) = int (Suc n)"
    using assms(3) by (simp only: unsigned_of_nat, subst take_bit_nat_eq_self) simp_all
  then have a: "uint (q + of_nat (Suc n)) = uint q + int (Suc n)"
    using assms(1,3) b q by (subst uint_add_noov) simp_all
  have ls: "uint (of_nat (length (b # bs)) :: u64) = int (length (b # bs))"
    using assms(2) by (simp only: unsigned_of_nat, subst take_bit_nat_eq_self) simp_all
  show "of_nat (length (b # bs)) < q + of_nat (Suc n) \<longleftrightarrow> int (length (b # bs)) < uint q + int (Suc n)"
    unfolding word_less_def a ls ..
qed

lemma read_len_loop_value:
  "der_read_len_loop n ret sig = Some (Some r, s) \<Longrightarrow> uint ret < 2 ^ 31 \<Longrightarrow> length sig < 2 ^ 31 \<Longrightarrow> n \<le> 8 \<Longrightarrow>
    uint r < 2 ^ 31 \<and> (\<exists>l. sig = l @ s \<and> length l = n \<and> uint r = uint ret * 256 ^ n + be_val l)"
proof (induction n arbitrary: ret sig)
  case (Suc n)
  then obtain b bs where sig: "sig = b # bs" by (cases sig) (simp_all add: read_byte_def)
  define q where "q = push_bit 8 ret OR (ucast b :: u64)"
  have n: "n \<le> 7" using Suc.prems(4) by simp
  note st = read_len_step [OF Suc.prems(2) Suc.prems(3) [unfolded sig] n, folded q_def]
  have t: "\<not> of_nat (length (b # bs)) < q + of_nat (Suc n)"
    and l: "der_read_len_loop n q bs = Some (Some r, s)"
    using Suc.prems(1) by (auto simp: sig Let_def q_def split: if_splits)
  from t have "uint q \<le> int (length bs)" unfolding st(2) by simp
  then have q31: "uint q < 2 ^ 31" using Suc.prems(3) by (simp add: sig)
  have "length bs < 2 ^ 31" "n \<le> 8" using Suc.prems(3,4) by (simp_all add: sig)
  from Suc.IH [OF l q31 this] obtain ls where
    ih: "uint r < 2 ^ 31" "bs = ls @ s" "length ls = n" "uint r = uint q * 256 ^ n + be_val ls" by blast
  have "uint r = uint ret * 256 ^ Suc n + be_val (b # ls)"
    unfolding ih(4) st(1) be_val_Cons ih(3) by (simp add: algebra_simps)
  moreover have "sig = (b # ls) @ s" "length (b # ls) = Suc n" using ih(2,3) sig by simp_all
  ultimately show ?case using ih(1) by blast
qed auto

lemma read_len_loop_octets:
  "length l \<le> 8 \<Longrightarrow> uint ret * 256 ^ length l + be_val l \<le> int (length s) \<Longrightarrow> length (l @ s) < 2 ^ 31 \<Longrightarrow>
    der_read_len_loop (length l) ret (l @ s) = Some (Some (word_of_int (uint ret * 256 ^ length l + be_val l)), s)"
proof (induction l arbitrary: ret)
  case (Cons b l)
  define q where "q = push_bit 8 ret OR (ucast b :: u64)"
  have t: "uint ret * 256 ^ length (b # l) + be_val (b # l) = (uint ret * 256 + uint b) * 256 ^ length l + be_val l"
    unfolding be_val_Cons by (simp add: algebra_simps)
  have le: "uint ret * 256 + uint b \<le> (uint ret * 256 + uint b) * 256 ^ length l + be_val l"
  proof -
    have "(uint ret * 256 + uint b) * 1 \<le> (uint ret * 256 + uint b) * 256 ^ length l" by (intro mult_left_mono) simp_all
    then have "uint ret * 256 + uint b \<le> (uint ret * 256 + uint b) * 256 ^ length l" by (simp only: mult_1_right)
    then show ?thesis by (rule add_increasing2 [OF be_val_nonneg])
  qed
  have lt: "uint ret * 256 + uint b \<le> int (length s)" using order_trans [OF le] Cons.prems(2) unfolding t .
  moreover have "int (length s) < 2 ^ 31" using Cons.prems(3) by simp
  ultimately have r: "uint ret < 2 ^ 31" using uint_ge_0 [of ret] uint_ge_0 [of b] by linarith
  have n: "length l \<le> 7" and ls: "length (b # (l @ s)) < 2 ^ 31" using Cons.prems by simp_all
  note st = read_len_step [OF r ls n, folded q_def]
  have "\<not> of_nat (length (b # l @ s)) < q + of_nat (Suc (length l))"
    unfolding st(2) st(1) using lt by simp
  moreover have "der_read_len_loop (length l) q (l @ s) = Some (Some (word_of_int (uint q * 256 ^ length l + be_val l)), s)"
    using Cons.prems unfolding t by (intro Cons.IH) (simp_all add: st(1))
  ultimately show ?case unfolding t by (simp add: Let_def q_def [symmetric] st(1))
qed simp

lemma read_len_der:
  assumes "der_read_len sig = Some (rlen, s)" "0 \<le> rlen" "length sig < 2 ^ 31"
  shows "sig = der_length (nat rlen) @ s"
proof -
  from assms(1,2) obtain b bs where sig: "sig = b # bs" by (cases sig) (auto simp: der_read_len_def)
  show ?thesis
  proof (cases "b AND 0x80 = 0")
    case True
    then have "rlen = uint b" "s = bs" using assms(1,2) by (auto simp: der_read_len_def sig split: if_splits)
    moreover have "int (unat b) < 128" using True unfolding byte_high by simp
    then have "unat b < 128" by linarith
    ultimately show ?thesis by (simp add: sig der_length_def)
  next
    case False
    define k where "k = unat (b AND 0x7F)"
    from False obtain r where r: "der_read_len_loop k 0 bs = Some (Some r, s)" "k \<le> 8" "\<not> r < 128"
      "rlen = sint (ucast r :: u32)" "b \<noteq> 0x80" "k \<le> length bs" "bs \<noteq> [] \<Longrightarrow> hd bs \<noteq> 0"
      using assms(1,2) unfolding k_def
      by (cases bs) (auto simp: der_read_len_def sig Let_def split: if_splits Option.bind_splits option.splits)
    from read_len_loop_value [OF r(1)] r(2) assms(3) sig obtain l where
      f: "uint r < 2 ^ 31" "bs = l @ s" "length l = k" "uint r = be_val l" by auto
    have "k \<noteq> 0" using byte_128 [OF _ False] r(5) by (auto simp: k_def unat_eq_0)
    then have l: "l \<noteq> []" "hd l \<noteq> 0" using f(2,3) r(7) by auto
    have u: "uint (ucast r :: u32) = uint r" using f(1) by (simp add: uint_ucast)
    have n: "rlen = uint r" unfolding r(4) using f(1) by (subst sint_small) (simp_all add: u)
    have "octets (nat rlen) = l" unfolding n f(4) by (rule octets_be_val [OF l])
    moreover have "128 \<le> rlen" using r(3) by (simp add: n word_less_def)
    then have "\<not> nat rlen < 128" by linarith
    ultimately show ?thesis
      using length_octet [OF False] f(2,3) by (simp add: sig der_length_def k_def)
  qed
qed

lemma read_len_length:
  assumes "n \<le> length s" "length (der_length n @ s) < 2 ^ 31"
  shows "der_read_len (der_length n @ s) = Some (int n, s)"
proof (cases "n < 128")
  case True
  then show ?thesis using read_len_octet [OF True] by (simp add: der_length_def)
next
  case False
  define l where "l = octets n"
  have l: "l \<noteq> []" "hd l \<noteq> 0" "be_val l = int n" using octets_hd [of n] octets_val [of n] False by (simp_all add: l_def)
  have n31: "n < 2 ^ 31" using assms by simp
  then have k4: "length l \<le> 4" unfolding l_def by (intro octets_length) simp
  have e: "der_length n @ s = of_nat (128 + length l) # l @ s" using False by (simp add: der_length_def l_def)
  have b: "uint (of_nat (128 + length l) :: u8) = 128 + int (length l)"
    using k4 by (simp only: unsigned_of_nat, subst take_bit_nat_eq_self) simp_all
  have h: "(of_nat (128 + length l) :: u8) AND 0x80 \<noteq> 0" unfolding byte_high b by simp
  have m: "(0x7F :: u8) = mask 7" by (simp add: mask_eq_exp_minus_1)
  have "uint ((of_nat (128 + length l) :: u8) AND 0x7F) = int (length l)"
    unfolding m uint_and_mask b using k4 by (simp add: mod_pos_pos_trivial)
  then have "int (unat ((of_nat (128 + length l) :: u8) AND 0x7F)) = int (length l)" by simp
  then have k: "unat ((of_nat (128 + length l) :: u8) AND 0x7F) = length l" by linarith
  have ne: "(of_nat (128 + length l) :: u8) \<noteq> 0xFF" "(of_nat (128 + length l) :: u8) \<noteq> 0x80"
    using b k4 l(1) by (auto simp: word_uint_eq_iff)
  define w :: u64 where "w = word_of_int (int n)"
  have lp: "der_read_len_loop (length l) 0 (l @ s) = Some (Some w, s)"
    using read_len_loop_octets [of l 0 s] k4 l(3) assms e by (simp add: w_def)
  have u: "uint w = int n" unfolding w_def using n31 by (intro uint_word_of_int_small) simp_all
  then have "uint (ucast w :: u32) = int n" using n31 by (simp add: uint_ucast)
  then have i: "sint (ucast w :: u32) = int n" using n31 by (subst sint_small) simp_all
  have g: "\<not> w < 128" unfolding word_less_def u using False by simp
  have r0: "read_byte (l @ s) 0 = Some (hd l)" using l(1) by (cases l) simp_all
  show ?thesis
    unfolding e der_read_len_def using ne h k k4 l(2) r0 lp g i by simp
qed

lemma parse_integer_der:
  assumes "der_parse_integer S sig = Some (Some (r, rest))" "length sig < 2 ^ 31"
  shows "\<exists>xs. sig = der_integer xs @ rest \<and> der_int_ok xs \<and> r = der_int_val S xs"
proof -
  from assms(1) obtain bs where sig: "sig = 0x02 # bs"
    by (cases sig) (auto simp: der_parse_integer_def split: if_splits)
  obtain rlen s where l: "der_read_len bs = Some (rlen, s)" using read_len_safe by blast
  have len: "0 < rlen" "rlen \<le> int (length s)"
    using assms(1) by (auto simp: der_parse_integer_def sig l split: if_splits)
  define xs where "xs = take (nat rlen) s"
  have xs: "rlen = int (length xs)" "s = xs @ drop (nat rlen) s" "xs \<noteq> []" using len by (auto simp: xs_def)
  have "bs = der_length (nat rlen) @ s" using len assms(2) sig by (intro read_len_der [OF l]) simp_all
  moreover have "der_read_len bs = Some (int (length xs), xs @ drop (nat rlen) s)" using l xs by simp
  from parse_integer_content [OF this xs(3), of S] assms(1) sig
  have "der_int_ok xs" "r = der_int_val S xs" "rest = drop (nat rlen) s" by (auto split: if_splits)
  ultimately show ?thesis using sig xs by (intro exI [of _ xs]) (simp add: der_integer_def)
qed

lemma parse_integer_integer:
  assumes "der_int_ok xs" "length (der_integer xs @ rest) < 2 ^ 31"
  shows "der_parse_integer S (der_integer xs @ rest) = Some (Some (der_int_val S xs, rest))"
proof -
  have n: "xs \<noteq> []" using assms(1) by (auto simp: der_int_ok_def)
  have "der_read_len (der_length (length xs) @ xs @ rest) = Some (int (length xs), xs @ rest)"
    using assms(2) by (intro read_len_length) (simp_all add: der_integer_def)
  from parse_integer_content [OF this n, of S] assms(1) show ?thesis by (simp add: der_integer_def)
qed

lemma sig_parse_iff:
  assumes "length sig < 2 ^ 31"
  shows "ecdsa_sig_parse S sig = Some (Some (r, s)) \<longleftrightarrow>
    (\<exists>xs ys. sig = der_signature xs ys \<and> der_int_ok xs \<and> der_int_ok ys \<and> r = der_int_val S xs \<and> s = der_int_val S ys)"
proof
  assume p: "ecdsa_sig_parse S sig = Some (Some (r, s))"
  then obtain bs where sig: "sig = 0x30 # bs"
    by (cases sig) (auto simp: ecdsa_sig_parse_def split: if_splits)
  obtain rlen body where l: "der_read_len bs = Some (rlen, body)" using read_len_safe by blast
  have len: "rlen = int (length body)" using p by (auto simp: ecdsa_sig_parse_def sig l split: if_splits)
  have bs: "bs = der_length (length body) @ body" using read_len_der [OF l] len assms sig by simp
  obtain rest where r: "der_parse_integer S body = Some (Some (r, rest))"
    and s: "der_parse_integer S rest = Some (Some (s, []))"
    using p by (auto simp: ecdsa_sig_parse_def sig l len split: if_splits Option.bind_splits option.splits)
  from parse_integer_der [OF r] assms sig bs obtain xs where
    x: "body = der_integer xs @ rest" "der_int_ok xs" "r = der_int_val S xs" by auto
  from parse_integer_der [OF s] assms sig bs x(1) obtain ys where
    y: "rest = der_integer ys" "der_int_ok ys" "s = der_int_val S ys" by auto
  show "\<exists>xs ys. sig = der_signature xs ys \<and> der_int_ok xs \<and> der_int_ok ys \<and> r = der_int_val S xs \<and> s = der_int_val S ys"
    using sig bs x y by (intro exI [of _ xs] exI [of _ ys]) (simp add: der_signature_def)
next
  assume "\<exists>xs ys. sig = der_signature xs ys \<and> der_int_ok xs \<and> der_int_ok ys \<and> r = der_int_val S xs \<and> s = der_int_val S ys"
  then obtain xs ys where f: "sig = der_signature xs ys" "der_int_ok xs" "der_int_ok ys" "r = der_int_val S xs" "s = der_int_val S ys"
    by blast
  define body where "body = der_integer xs @ der_integer ys"
  have sig: "sig = 0x30 # der_length (length body) @ body" using f(1) by (simp add: der_signature_def body_def)
  have l: "der_read_len (der_length (length body) @ body) = Some (int (length body), body)"
    using assms by (intro read_len_length) (simp_all add: sig)
  have r: "der_parse_integer S body = Some (Some (r, der_integer ys))"
    unfolding body_def f(4) using assms by (intro parse_integer_integer [OF f(2)]) (simp add: sig body_def)
  have s: "der_parse_integer S (der_integer ys) = Some (Some (s, []))"
    using parse_integer_integer [OF f(3), of "[]" S] assms f(5) by (simp add: sig body_def)
  show "ecdsa_sig_parse S sig = Some (Some (r, s))" unfolding sig ecdsa_sig_parse_def using l r s by simp
qed

lemma der_signature_short:
  assumes "4 + length ys + length xs < 128"
  shows "der_signature xs ys = der_sig xs ys"
proof -
  have l: "der_length (length xs) = [of_nat (length xs)]" "der_length (length ys) = [of_nat (length ys)]"
    "der_length (4 + length ys + length xs) = [of_nat (4 + length ys + length xs)]"
    using assms by (simp_all add: der_length_def)
  have t: "length (der_integer xs @ der_integer ys) = 4 + length ys + length xs" by (simp add: der_integer_def l)
  show ?thesis unfolding der_signature_def der_sig_def t l(3) by (simp add: der_integer_def l)
qed

lemma sig_parse_short:
  assumes "der_int_ok xs" "der_int_ok ys" "4 + length ys + length xs < 128"
  shows "ecdsa_sig_parse S (der_sig xs ys) = Some (Some (der_int_val S xs, der_int_val S ys))"
proof -
  have "length (der_sig xs ys) < 2 ^ 31" using assms(3) by simp
  from sig_parse_iff [OF this] assms show ?thesis using der_signature_short [OF assms(3)] by metis
qed

section \<open>The serializer\<close>

lemma write_at:
  assumes "length pre = off" "length src \<le> length buf"
  shows "write_bytes (pre @ buf) off src = Some (pre @ src @ drop (length src) buf)"
  using assms by simp

lemma sig_serialize_eq:
  fixes S :: "'sc scalar_ops"
  defines "rp a \<equiv> der_strip (0 # scalar_get_b32 S a)"
  assumes "sigsize \<le> length buf"
  shows "ecdsa_sig_serialize S buf sigsize ar as =
    Some (if sigsize < 6 + length (rp as) + length (rp ar) then (False, 6 + length (rp as) + length (rp ar), buf)
      else (True, 6 + length (rp as) + length (rp ar),
        der_sig (rp ar) (rp as) @ drop (6 + length (rp as) + length (rp ar)) buf))"
proof (cases "sigsize < 6 + length (rp as) + length (rp ar)")
  case True
  then show ?thesis by (simp add: ecdsa_sig_serialize_def rp_def Let_def)
next
  case False
  define lr ls where "lr = length (rp ar)" and "ls = length (rp as)"
  have len: "6 + ls + lr \<le> length buf" using False assms(2) by (simp add: lr_def ls_def)
  let ?h = "[0x30, of_nat (4 + ls + lr), 0x02, of_nat lr]"
  have w0: "write_bytes buf 0 [0x30] = Some ([0x30] @ drop 1 buf)" using len by simp
  have w1: "write_bytes ([0x30] @ drop 1 buf) 1 [x] = Some ([0x30, x] @ drop 2 buf)" for x
    using len by (subst write_at) (simp_all add: eval_nat_numeral)
  have w2: "write_bytes ([0x30, x] @ drop 2 buf) 2 [0x02] = Some ([0x30, x, 0x02] @ drop 3 buf)" for x
    using len by (subst write_at) (simp_all add: eval_nat_numeral)
  have w3: "write_bytes ([0x30, x, 0x02] @ drop 3 buf) 3 [y] = Some ([0x30, x, 0x02, y] @ drop 4 buf)" for x y
    using len by (subst write_at) (simp_all add: eval_nat_numeral)
  have w4: "write_bytes (?h @ drop 4 buf) 4 (rp ar) = Some ((?h @ rp ar) @ drop (4 + lr) buf)"
    using len by (subst write_at) (simp_all add: lr_def add.commute)
  have w5: "write_bytes ((?h @ rp ar) @ drop (4 + lr) buf) (4 + lr) [0x02]
      = Some ((?h @ rp ar @ [0x02]) @ drop (5 + lr) buf)"
    using len by (subst write_at) (simp_all add: lr_def)
  have w6: "write_bytes ((?h @ rp ar @ [0x02]) @ drop (5 + lr) buf) (5 + lr) [of_nat ls]
      = Some ((?h @ rp ar @ [0x02, of_nat ls]) @ drop (6 + lr) buf)"
    using len by (subst write_at) (simp_all add: lr_def)
  have w7: "write_bytes ((?h @ rp ar @ [0x02, of_nat ls]) @ drop (6 + lr) buf) (lr + 6) (rp as)
      = Some ((?h @ rp ar @ [0x02, of_nat ls] @ rp as) @ drop (6 + ls + lr) buf)"
    using len by (subst write_at) (simp_all add: lr_def ls_def ac_simps)
  have "ecdsa_sig_serialize S buf sigsize ar as
      = Some (True, 6 + ls + lr, (?h @ rp ar @ [0x02, of_nat ls] @ rp as) @ drop (6 + ls + lr) buf)"
    unfolding ecdsa_sig_serialize_def Let_def rp_def [symmetric] lr_def [symmetric] ls_def [symmetric]
    using False w0 w1 w2 w3 w4 w5 w6 w7 by (simp add: lr_def [symmetric] ls_def [symmetric])
  then show ?thesis using False by (simp add: der_sig_def lr_def ls_def)
qed

section \<open>Round trip\<close>

lemma strip_zeros:
  "ys \<noteq> [] \<Longrightarrow> hd ys \<noteq> 0 \<Longrightarrow>
    der_strip (0 # replicate m 0 @ ys) = (if uint (hd ys) < 128 then ys else 0 # ys)"
proof (induction m)
  case 0
  then obtain b bs where "ys = b # bs" by (cases ys) simp_all
  with 0 show ?case by (cases bs) (simp_all add: word_less_def)
qed (simp add: word_less_def)

lemma strip_all_zeros: "der_strip (0 # replicate m 0) = [0]"
  by (induction m) (simp_all add: word_less_def)

lemma leading_zeros: "bs = replicate (length bs - length (dropWhile (\<lambda>b. b = 0) bs)) 0 @ dropWhile (\<lambda>b. b = 0) bs"
  for bs :: "u8 list"
proof (induction bs)
  case (Cons b bs)
  have "length (dropWhile (\<lambda>b. b = 0) bs) \<le> length bs" by (rule length_dropWhile_le)
  then show ?case using Cons by (auto simp: Suc_diff_le)
qed simp

lemma be_val_zeros: "be_val (replicate m 0 @ ys) = be_val ys"
  by (induction m) (simp_all add: be_val_Cons)

lemma dropWhile_hd: "dropWhile (\<lambda>b. b = 0) bs \<noteq> [] \<Longrightarrow> hd (dropWhile (\<lambda>b. b = 0) bs) \<noteq> 0"
  by (rule hd_dropWhile) (simp add: dropWhile_eq_Nil_conv)

lemma strip_cases:
  fixes bs :: "u8 list"
  defines "ys \<equiv> dropWhile (\<lambda>b. b = 0) bs" and "xs \<equiv> der_strip (0 # bs)"
  shows "der_int_ok xs \<and> uint (hd xs) < 128 \<and> dropWhile (\<lambda>b. b = 0) xs = ys \<and> length xs \<le> Suc (length bs)"
proof (cases "ys = []")
  case True
  then have "bs = replicate (length bs) 0" using replicate_length_same [of bs 0] by (simp add: ys_def)
  then have "xs = [0]" unfolding xs_def by (metis strip_all_zeros)
  then show ?thesis using True by (simp add: der_int_ok_def)
next
  case False
  then have h: "hd ys \<noteq> 0" using dropWhile_hd [of bs] by (simp add: ys_def)
  have "xs = (if uint (hd ys) < 128 then ys else 0 # ys)"
    using strip_zeros [OF False h, of "length bs - length ys"] leading_zeros [of bs, folded ys_def]
    by (simp only: xs_def)
  moreover have "length ys \<le> length bs" unfolding ys_def by (rule length_dropWhile_le)
  moreover obtain b zs where "ys = b # zs" using False by (cases ys) auto
  ultimately show ?thesis using h False by (auto simp: der_int_ok_def)
qed

lemma int_ok_strip:
  fixes xs :: "u8 list"
  defines "ys \<equiv> dropWhile (\<lambda>b. b = 0) xs"
  assumes "der_int_ok xs" "uint (hd xs) < 128" "ys \<noteq> []"
  shows "der_strip (0 # replicate m 0 @ ys) = xs"
proof -
  have h: "hd ys \<noteq> 0" using assms(4) dropWhile_hd [of xs] by (simp add: ys_def)
  obtain b bs where xs: "xs = b # bs" using assms(2) by (cases xs) (auto simp: der_int_ok_def)
  show ?thesis
  proof (cases "b = 0")
    case True
    then have "bs \<noteq> []" using assms(4) by (auto simp: ys_def xs)
    then obtain c cs where bs: "bs = c # cs" by (cases bs) auto
    have "\<not> uint c < 128" using assms(2) True by (simp add: der_int_ok_def xs bs)
    moreover from this have "ys = bs" using True by (auto simp: ys_def xs bs)
    ultimately show ?thesis using strip_zeros [OF assms(4) h] True by (simp add: xs bs)
  next
    case False
    then have "ys = xs" by (simp add: ys_def xs)
    then show ?thesis using strip_zeros [OF assms(4) h] assms(3) by simp
  qed
qed

lemma be_val_dropWhile: "be_val (dropWhile (\<lambda>b. b = 0) xs) = be_val xs"
  using leading_zeros [of xs] be_val_zeros by metis

lemma int_ok_butlast:
  assumes "der_int_ok (xs @ [b])" "xs \<noteq> []"
  shows "der_int_ok xs"
proof -
  obtain x ys where x: "xs = x # ys" using assms(2) by (cases xs) auto
  show ?thesis using assms(1) by (cases ys) (auto simp: x der_int_ok_def)
qed

lemma int_ok_ge_128:
  assumes "der_int_ok (x # y # ys)" "uint x < 128"
  shows "128 \<le> be_val (x # y # ys)"
proof (cases "x = 0")
  case True
  then have "y \<noteq> 0" "128 \<le> uint y" using assms by (auto simp: der_int_ok_def)
  have "1 * 128 \<le> 256 ^ length ys * uint y" using \<open>128 \<le> uint y\<close> by (intro mult_mono) simp_all
  then show ?thesis using be_val_nonneg [of ys] unfolding True be_val_Cons [of 0] be_val_Cons [of y] by (simp add: add_increasing2)
next
  case False
  have "256 ^ 1 \<le> (256 :: int) ^ length (y # ys)" by (intro power_increasing) simp_all
  then have "256 ^ 1 \<le> be_val (x # y # ys)" using be_val_lower [OF False] by (rule order_trans)
  then show ?thesis unfolding power_one_right by linarith
qed

lemma length_der_int: "der_int_ok xs \<Longrightarrow> uint (hd xs) < 128 \<Longrightarrow> length xs = der_int_octets (be_val xs)"
proof (induction xs rule: rev_induct)
  case Nil
  then show ?case by (simp add: der_int_ok_def)
next
  case (snoc b xs)
  show ?case
  proof (cases xs)
    case Nil
    then show ?thesis using snoc.prems by (simp add: der_int_octets.simps be_val_Cons)
  next
    case (Cons x ys)
    obtain c cs where c: "ys @ [b] = c # cs" by (cases "ys @ [b]") auto
    have ge: "128 \<le> be_val (xs @ [b])" using int_ok_ge_128 [of x c cs] snoc.prems c by (simp add: Cons)
    have b: "0 \<le> uint b" "uint b < 256" using uint_bounded [of b] by simp_all
    have d: "be_val (xs @ [b]) div 256 = be_val xs" unfolding be_val_snoc using b by simp
    have "length xs = der_int_octets (be_val xs)"
      using snoc int_ok_butlast [OF snoc.prems(1)] Cons by simp
    then show ?thesis using ge d by (subst der_int_octets.simps) simp
  qed
qed

context scalar_repr
begin

lemma der_int_get:
  assumes "wf r"
  defines "xs \<equiv> der_strip (0 # scalar_get_b32 S r)"
  shows "der_int_ok xs \<and> der_int_val S xs = r \<and> length xs \<le> 33"
proof -
  let ?bs = "be_bytes 32 (val r)"
  define ys where "ys = dropWhile (\<lambda>b. b = 0) ?bs"
  have xs: "xs = der_strip (0 # ?bs)" using get_b32 [OF assms(1)] by (simp add: xs_def)
  note s = strip_cases [of ?bs, folded xs ys_def]
  have e: "replicate (32 - length ys) 0 @ ys = ?bs" using leading_zeros [of ?bs] by (simp add: ys_def)
  have v: "be_val ?bs = val r" using val_range [OF assms(1)] by (simp add: be_val_be_bytes scalar_n_def)
  have l: "length ys \<le> 32" using length_dropWhile_le [of "\<lambda>b. b = 0" ?bs] by (simp add: ys_def)
  obtain q over where q: "scalar_set_b32 S ?bs = (q, over)" by force
  have "wf q" "val q = val r" "over = 0"
    using set_b32 [of ?bs] val_range [OF assms(1)] by (simp_all add: q v)
  then have "q = r" using val_inj assms(1) by simp
  with s e l q \<open>over = 0\<close> show ?thesis by (simp add: der_int_val_def Let_def)
qed

lemma der_int_val_strip:
  assumes "der_int_ok xs" "val (der_int_val S xs) \<noteq> 0"
  shows "der_strip (0 # scalar_get_b32 S (der_int_val S xs)) = xs \<and> length xs \<le> 33"
proof -
  define ys where "ys = dropWhile (\<lambda>b. b = 0) xs"
  let ?bs = "replicate (32 - length ys) 0 @ ys"
  obtain q over where q: "scalar_set_b32 S ?bs = (q, over)" by force
  have h: "uint (hd xs) < 128" "length ys \<le> 32" "over = 0" "der_int_val S xs = q"
    using assms(2) set_int [of 0] by (auto simp: der_int_val_def Let_def ys_def [symmetric] q split: if_splits)
  have w: "wf q" "val q = be_val ?bs mod scalar_n" "\<not> scalar_n \<le> be_val ?bs"
    using set_b32 [of ?bs] h(2,3) by (simp_all add: q split: if_splits)
  then have v: "val q = be_val ?bs" by simp
  have "scalar_get_b32 S q = ?bs"
    using get_b32 [OF w(1)] be_bytes_be_val [of ?bs] h(2) by (simp add: v)
  moreover have "ys \<noteq> []" using assms(2) h(4) v by (auto simp: be_val_zeros)
  ultimately have e: "der_strip (0 # scalar_get_b32 S q) = xs"
    using int_ok_strip [OF assms(1) h(1)] by (simp add: ys_def)
  have "length xs \<le> Suc (length ?bs)"
    using strip_cases [of ?bs] e \<open>scalar_get_b32 S q = ?bs\<close> by simp
  then show ?thesis using e h(2,4) by simp
qed

lemma der_int_val_number:
  assumes "der_int_ok xs"
  shows "wf (der_int_val S xs) \<and> val (der_int_val S xs) = der_number xs"
proof -
  define ys where "ys = dropWhile (\<lambda>b. b = 0) xs"
  have v: "be_val ys = be_val xs" unfolding ys_def by (rule be_val_dropWhile)
  have z: "wf (scalar_set_int S 0) \<and> val (scalar_set_int S 0) = 0" using set_int [of 0] by simp
  show ?thesis
  proof (cases "uint (hd xs) < 128 \<and> length ys \<le> 32")
    case True
    let ?bs = "replicate (32 - length ys) 0 @ ys"
    obtain q over where q: "scalar_set_b32 S ?bs = (q, over)" by force
    have w: "wf q" "val q = be_val xs mod scalar_n" "over = of_bool (scalar_n \<le> be_val xs)"
      using set_b32 [of ?bs] True by (simp_all add: q be_val_zeros v)
    show ?thesis using True w z
      by (auto simp: der_int_val_def der_number_def Let_def ys_def [symmetric] q)
  next
    case False
    have "\<not> be_val xs < scalar_n" if l: "32 < length ys"
    proof -
      obtain c cs where ys: "ys = c # cs" using l by (cases ys) auto
      then have "c \<noteq> 0" using dropWhile_hd [of xs] by (simp add: ys_def [symmetric])
      from be_val_lower [OF this, of cs] have "256 ^ length cs \<le> be_val xs" using v by (simp add: ys)
      moreover have "(256 :: int) ^ 32 \<le> 256 ^ length cs" using l by (intro power_increasing) (simp_all add: ys)
      moreover have "scalar_n < 256 ^ 32" by (simp add: scalar_n_def)
      ultimately show ?thesis by linarith
    qed
    then have "der_number xs = 0" using False by (auto simp: der_number_def)
    moreover have "der_int_val S xs = scalar_set_int S 0"
      using False by (auto simp: der_int_val_def Let_def ys_def [symmetric] split: prod.splits)
    ultimately show ?thesis using z by simp
  qed
qed

lemma length_strip:
  assumes "wf r"
  shows "length (der_strip (0 # scalar_get_b32 S r)) = der_int_octets (val r)"
proof -
  let ?bs = "be_bytes 32 (val r)"
  have g: "scalar_get_b32 S r = ?bs" by (rule get_b32 [OF assms])
  note s = strip_cases [of ?bs]
  have "be_val (der_strip (0 # ?bs)) = be_val ?bs"
    using be_val_dropWhile [of "der_strip (0 # ?bs)"] be_val_dropWhile [of ?bs] s by simp
  also have "\<dots> = val r" using val_range [OF assms] by (simp add: be_val_be_bytes scalar_n_def)
  finally show ?thesis using length_der_int [of "der_strip (0 # ?bs)"] s unfolding g by simp
qed

lemma sig_roundtrip:
  assumes "wf r" "wf s" "sigsize \<le> length buf"
  defines "n \<equiv> 6 + der_int_octets (val r) + der_int_octets (val s)"
  shows "n \<le> 72 \<and> (\<exists>buf'. ecdsa_sig_serialize S buf sigsize r s = Some (n \<le> sigsize, n, buf') \<and> length buf' = length buf \<and>
    (if n \<le> sigsize then ecdsa_sig_parse S (take n buf') = Some (Some (r, s)) \<and> drop n buf' = drop n buf else buf' = buf))"
proof -
  define xs ys where "xs = der_strip (0 # scalar_get_b32 S r)" and "ys = der_strip (0 # scalar_get_b32 S s)"
  note x = der_int_get [OF assms(1), folded xs_def] and y = der_int_get [OF assms(2), folded ys_def]
  have n: "n = 6 + length ys + length xs"
    unfolding n_def xs_def ys_def length_strip [OF assms(1)] length_strip [OF assms(2)] by simp
  have "4 + length ys + length xs < 128" using x y by simp
  from sig_parse_short [OF _ _ this, of S] x y
  have p: "ecdsa_sig_parse S (der_sig xs ys) = Some (Some (r, s))" by simp
  have "take n (der_sig xs ys @ drop n buf) = der_sig xs ys" "drop n (der_sig xs ys @ drop n buf) = drop n buf" by (simp_all add: n)
  moreover have "n \<le> 72" using x y by (simp add: n)
  moreover have "ecdsa_sig_serialize S buf sigsize r s
      = Some (n \<le> sigsize, n, if sigsize < n then buf else der_sig xs ys @ drop n buf)"
    using sig_serialize_eq [OF assms(3), of S r s, folded xs_def ys_def] by (simp add: n not_less)
  ultimately show ?thesis
    using p assms(3) by (intro conjI exI [of _ "if sigsize < n then buf else der_sig xs ys @ drop n buf"])
      (simp_all add: not_less n)
qed

lemma sig_parse_strict:
  assumes "ecdsa_sig_parse S sig = Some (Some (r, s))" "val r \<noteq> 0" "val s \<noteq> 0"
    and "length sig < 2 ^ 31" "length buf = length sig"
  shows "ecdsa_sig_serialize S buf (length buf) r s = Some (True, length sig, sig)"
proof -
  from iffD1 [OF sig_parse_iff [OF assms(4)] assms(1)] obtain xs ys where
    e: "sig = der_signature xs ys" and f: "der_int_ok xs" "der_int_ok ys" "r = der_int_val S xs" "s = der_int_val S ys"
    by blast
  have x: "der_strip (0 # scalar_get_b32 S r) = xs" "length xs \<le> 33"
    using der_int_val_strip [OF f(1)] f(3) assms(2) by simp_all
  have y: "der_strip (0 # scalar_get_b32 S s) = ys" "length ys \<le> 33"
    using der_int_val_strip [OF f(2)] f(4) assms(3) by simp_all
  have "4 + length ys + length xs < 128" using x(2) y(2) by linarith
  then have sig: "sig = der_sig xs ys" using e der_signature_short by simp
  have "length buf = 6 + length ys + length xs" using assms(5) sig by simp
  then show ?thesis
    using sig_serialize_eq [of "length buf" buf S r s] by (simp add: x(1) y(1) sig)
qed

lemma sig_parse_language:
  assumes "length sig < 2 ^ 31"
  shows "ecdsa_sig_parse S sig = Some (Some (r, s)) \<longleftrightarrow> wf r \<and> wf s \<and>
    (\<exists>xs ys. sig = der_signature xs ys \<and> der_int_ok xs \<and> der_int_ok ys \<and> val r = der_number xs \<and> val s = der_number ys)"
proof -
  have e: "r = der_int_val S xs \<longleftrightarrow> wf r \<and> val r = der_number xs" if "der_int_ok xs" for r xs
    using der_int_val_number [OF that] val_inj by metis
  show ?thesis unfolding sig_parse_iff [OF assms] using e by blast
qed

lemma sig_parse_rejects:
  assumes "length sig < 2 ^ 31"
  shows "ecdsa_sig_parse S sig = Some None \<longleftrightarrow> \<not> (\<exists>xs ys. sig = der_signature xs ys \<and> der_int_ok xs \<and> der_int_ok ys)"
proof -
  have "ecdsa_sig_parse S sig = Some None \<longleftrightarrow> \<not> (\<exists>r s. ecdsa_sig_parse S sig = Some (Some (r, s)))"
    using sig_parse_safe [of S sig] by (cases "ecdsa_sig_parse S sig"; cases "the (ecdsa_sig_parse S sig)") auto
  then show ?thesis unfolding sig_parse_iff [OF assms] by blast
qed

end

section \<open>Properties\<close>

text \<open>
  C8: the signature parser never reads outside its input, on any input: every access to a byte is checked
  against the bounds in the model, and none of them fails.
\<close>

theorem ecdsa_sig_parse_in_bounds: "ecdsa_sig_parse S8x32 sig \<noteq> None"
  by (rule sig_parse_safe)

text \<open>
  C16: serializing a signature of two reduced scalars never writes outside the buffer. The size needed is six
  octets and the octets of the two numbers with room for a sign bit, at most 72; it is reported in every case. If the announced size is
  smaller the call fails and leaves the buffer as it was; otherwise it succeeds, parsing the bytes it wrote gives the two
  scalars back, and the rest of the buffer is unchanged.
\<close>

theorem ecdsa_sig_roundtrip:
  assumes "scalar_wf_8x32 r" "scalar_wf_8x32 s" "sigsize \<le> length buf"
  shows "let n = 6 + der_int_octets (scalar_val_8x32 r) + der_int_octets (scalar_val_8x32 s) in n \<le> 72 \<and>
    (\<exists>buf'. ecdsa_sig_serialize S8x32 buf sigsize r s = Some (n \<le> sigsize, n, buf') \<and> length buf' = length buf \<and>
      (if n \<le> sigsize then ecdsa_sig_parse S8x32 (take n buf') = Some (Some (r, s)) \<and> drop n buf' = drop n buf else buf' = buf))"
  unfolding Let_def by (rule sc8.sig_roundtrip [OF assms])

theorem ecdsa_sig_roundtrip_witness:
  "\<exists>buf'. ecdsa_sig_serialize S8x32 (replicate 72 0) 72 (scalar_set_int_8x32 1) (scalar_set_int_8x32 200) = Some (True, 9, buf') \<and>
    ecdsa_sig_parse S8x32 (take 9 buf') = Some (Some (scalar_set_int_8x32 1, scalar_set_int_8x32 200))"
proof -
  have w: "scalar_wf_8x32 (scalar_set_int_8x32 1)" "scalar_val_8x32 (scalar_set_int_8x32 1) = 1"
    "scalar_wf_8x32 (scalar_set_int_8x32 200)" "scalar_val_8x32 (scalar_set_int_8x32 200) = 200"
    using sc8.set_int [of 1] sc8.set_int [of 200] by (simp_all add: S8x32_def)
  have "6 + der_int_octets 1 + der_int_octets 200 = 9" by (simp add: der_int_octets.simps [of 0] der_int_octets.simps [of 1] der_int_octets.simps [of 200])
  with ecdsa_sig_roundtrip [OF w(1,3), of 72 "replicate 72 0"] show ?thesis unfolding w(2,4) Let_def by auto
qed

text \<open>
  C18: the parser is strict. Whenever it returns two non-zero scalars, its input is the encoding
  that the serializer produces for them: no other length octets, padding or trailing bytes are
  accepted, so a signature has one encoding.
\<close>

theorem ecdsa_sig_parse_unique:
  assumes "ecdsa_sig_parse S8x32 sig = Some (Some (r, s))"
    and "scalar_val_8x32 r \<noteq> 0" "scalar_val_8x32 s \<noteq> 0" "length sig < 2 ^ 31" "length buf = length sig"
  shows "ecdsa_sig_serialize S8x32 buf (length buf) r s = Some (True, length sig, sig)"
  using sc8.sig_parse_strict [OF assms] .

theorem ecdsa_sig_parse_unique_witness:
  "\<exists>sig. ecdsa_sig_parse S8x32 sig = Some (Some (scalar_set_int_8x32 1, scalar_set_int_8x32 200)) \<and>
    ecdsa_sig_serialize S8x32 (replicate (length sig) 0) (length sig) (scalar_set_int_8x32 1) (scalar_set_int_8x32 200)
      = Some (True, length sig, sig)"
proof -
  have w: "scalar_wf_8x32 (scalar_set_int_8x32 1)" "scalar_wf_8x32 (scalar_set_int_8x32 200)"
    "scalar_val_8x32 (scalar_set_int_8x32 1) \<noteq> 0" "scalar_val_8x32 (scalar_set_int_8x32 200) \<noteq> 0"
    using sc8.set_int [of 1] sc8.set_int [of 200] by (simp_all add: S8x32_def)
  define n where "n = 6 + der_int_octets (scalar_val_8x32 (scalar_set_int_8x32 1)) + der_int_octets (scalar_val_8x32 (scalar_set_int_8x32 200))"
  from sc8.sig_roundtrip [OF w(1,2), of 72 "replicate 72 0", folded n_def] obtain buf where n: "n \<le> 72"
    "ecdsa_sig_parse S8x32 (take n buf) = Some (Some (scalar_set_int_8x32 1, scalar_set_int_8x32 200))"
    by auto
  from ecdsa_sig_parse_unique [OF n(2) w(3,4), of "replicate (length (take n buf)) 0"] n
  show ?thesis by (intro exI [of _ "take n buf"]) simp
qed

text \<open>
  C23: the parser accepts the DER encodings and nothing else. On inputs below \<open>2 ^ 31\<close> bytes it returns two scalars
  exactly if the input is the sequence of two integers, with lengths in the short form below 128 and in the long form without leading zeros
  above, and with minimal content octets; a scalar is the number encoded, or zero if this is negative or not
  below the group order. Every other input, truncated, extended, padded or with another tag, is rejected.
\<close>

theorem ecdsa_sig_parse_language:
  assumes "length sig < 2 ^ 31"
  shows "(ecdsa_sig_parse S8x32 sig = Some (Some (r, s)) \<longleftrightarrow> scalar_wf_8x32 r \<and> scalar_wf_8x32 s \<and>
      (\<exists>xs ys. sig = der_signature xs ys \<and> der_int_ok xs \<and> der_int_ok ys \<and>
        scalar_val_8x32 r = der_number xs \<and> scalar_val_8x32 s = der_number ys)) \<and>
    (ecdsa_sig_parse S8x32 sig = Some None \<longleftrightarrow> \<not> (\<exists>xs ys. sig = der_signature xs ys \<and> der_int_ok xs \<and> der_int_ok ys))"
  using sc8.sig_parse_language [OF assms] sc8.sig_parse_rejects [OF assms] by blast

theorem ecdsa_sig_parse_language_witness:
  "ecdsa_sig_parse S8x32 [0x30, 6, 0x02, 1, 1, 0x02, 1, 5] = Some (Some (scalar_set_int_8x32 1, scalar_set_int_8x32 5))"
proof -
  have e: "[0x30, 6, 0x02, 1, 1, 0x02, 1, 5] = der_signature [1] [5]"
    by (simp add: der_signature_def der_integer_def der_length_def)
  have w: "scalar_wf_8x32 (scalar_set_int_8x32 1)" "scalar_wf_8x32 (scalar_set_int_8x32 5)"
    and "scalar_val_8x32 (scalar_set_int_8x32 1) = der_number [1]" "scalar_val_8x32 (scalar_set_int_8x32 5) = der_number [5]"
    using sc8.set_int [of 1] sc8.set_int [of 5] by (simp_all add: S8x32_def der_number_def be_val_Cons scalar_n_def)
  moreover have "der_int_ok [1]" "der_int_ok [5]" by (simp_all add: der_int_ok_def)
  ultimately have "\<exists>xs ys. [0x30, 6, 0x02, 1, 1, 0x02, 1, 5] = der_signature xs ys \<and> der_int_ok xs \<and> der_int_ok ys \<and>
    scalar_val_8x32 (scalar_set_int_8x32 1) = der_number xs \<and> scalar_val_8x32 (scalar_set_int_8x32 5) = der_number ys"
    using e by blast
  with w show ?thesis
    using ecdsa_sig_parse_language [of "[0x30, 6, 0x02, 1, 1, 0x02, 1, 5]" "scalar_set_int_8x32 1" "scalar_set_int_8x32 5"] by simp
qed

end
