(* ===== verification/Primality.thy ===== *)
theory Primality
  imports Main
begin

text \<open>
  Primality of large numbers by Pocklington's criterion. Fermat's theorem and the criterion are
  proved for the integers; \<open>pow_chain\<close> is an executable checker for modular powers, which the
  certificates of the moduli of the curve use. A certificate lists, for every squaring step, the
  quotient and the remainder of the division by the modulus.
\<close>

section \<open>Prime numbers\<close>

definition is_prime :: "int \<Rightarrow> bool" where
  "is_prime p \<longleftrightarrow> 1 < p \<and> (\<forall>d > 0. d dvd p \<longrightarrow> d = 1 \<or> d = p)"

lemma is_prime_gt_1: "is_prime p \<Longrightarrow> 1 < p"
  by (simp add: is_prime_def)

lemma prime_coprime:
  assumes "is_prime p" "\<not> p dvd a"
  shows "coprime a p"
proof -
  have "gcd a p dvd p" "gcd a p dvd a" "gcd a p > 0" using assms(1) by (simp_all add: is_prime_def)
  then have "gcd a p = 1" using assms unfolding is_prime_def by metis
  then show ?thesis by (simp add: coprime_iff_gcd_eq_1)
qed

lemma prime_dvd_mult: "is_prime p \<Longrightarrow> p dvd a * b \<Longrightarrow> p dvd a \<or> p dvd b"
  using prime_coprime [of p a] coprime_dvd_mult_right_iff [of p a b] by (auto simp: coprime_commute)

lemma fermat_little:
  assumes "is_prime p" "\<not> p dvd a"
  shows "a ^ nat (p - 1) mod p = 1"
proof -
  let ?A = "{1..<p}" and ?f = "\<lambda>x. a * x mod p"
  have p: "1 < p" using assms(1) by (rule is_prime_gt_1)
  have c: "coprime x p" if "x \<in> ?A" for x
  proof -
    have "\<not> p dvd x" using zdvd_imp_le [of p x] that by auto
    then show ?thesis by (rule prime_coprime [OF assms(1)])
  qed
  have "?f ` ?A \<subseteq> ?A"
  proof (rule image_subsetI)
    fix x assume x: "x \<in> ?A"
    have "\<not> p dvd x" using zdvd_imp_le [of p x] x by auto
    then have "\<not> p dvd a * x" using prime_dvd_mult [OF assms(1)] assms(2) by blast
    then have "a * x mod p \<noteq> 0" by (simp add: dvd_eq_mod_eq_0)
    moreover have "0 \<le> a * x mod p" "a * x mod p < p" using p by simp_all
    ultimately show "?f x \<in> ?A" by auto
  qed
  moreover have i: "inj_on ?f ?A"
  proof (rule inj_onI)
    fix x y assume xy: "x \<in> ?A" "y \<in> ?A" "a * x mod p = a * y mod p"
    then have "p dvd a * (x - y)" by (simp add: mod_eq_dvd_iff right_diff_distrib)
    then have "p dvd x - y" using prime_dvd_mult [OF assms(1)] assms(2) by blast
    then have "x mod p = y mod p" by (simp add: mod_eq_dvd_iff)
    then show "x = y" using xy(1,2) by simp
  qed
  ultimately have s: "?f ` ?A = ?A" by (intro endo_inj_surj) simp_all
  have "(\<Prod>x\<in>?A. x) mod p = (\<Prod>x\<in>?A. ?f x) mod p"
    using prod.reindex [OF i, of "\<lambda>x. x"] by (simp add: s)
  also have "\<dots> = a ^ card ?A * (\<Prod>x\<in>?A. x) mod p"
    by (simp add: mod_prod_eq prod.distrib)
  finally have "p dvd (a ^ card ?A - 1) * (\<Prod>x\<in>?A. x)"
    by (simp add: mod_eq_dvd_iff left_diff_distrib dvd_diff_commute)
  moreover have "coprime (\<Prod>x\<in>?A. x) p" by (rule prod_coprime_left) (use c in simp)
  ultimately have "p dvd a ^ card ?A - 1"
    by (simp add: coprime_dvd_mult_left_iff coprime_commute)
  then have "a ^ card ?A mod p = 1 mod p" by (simp add: mod_eq_dvd_iff)
  then show ?thesis using p by simp
qed

lemma prime_divisor_exists: "1 < n \<Longrightarrow> \<exists>d. is_prime d \<and> d dvd n"
proof (induction "nat n" arbitrary: n rule: less_induct)
  case less
  show ?case
  proof (cases "is_prime n")
    case False
    then obtain d where d: "d > 0" "d dvd n" "d \<noteq> 1" "d \<noteq> n" using less.prems by (auto simp: is_prime_def)
    then have "d \<le> n" using zdvd_imp_le less.prems by auto
    then have "nat d < nat n" "1 < d" using d by simp_all
    from less.hyps [OF this] obtain e where "is_prime e" "e dvd d" by blast
    then show ?thesis using d(2) dvd_trans by blast
  qed (use dvd_refl in blast)
qed

lemma composite_small_prime:
  assumes "1 < n" "\<not> is_prime n"
  shows "\<exists>d. is_prime d \<and> d dvd n \<and> d * d \<le> n"
proof -
  obtain u where u: "u > 0" "u dvd n" "u \<noteq> 1" "u \<noteq> n" using assms by (auto simp: is_prime_def)
  then obtain v where v: "n = u * v" by auto
  have "0 < u * v" using v assms(1) by simp
  then have "v > 0" using u(1) by (rule zero_less_mult_pos)
  moreover have "v \<noteq> 1" using u(4) v by auto
  ultimately have uv: "1 < u" "1 < v" using u(1,3) by simp_all
  define w where "w = min u v"
  have w: "1 < w" "w dvd n" using uv by (simp_all add: w_def v min_def)
  have "w * w \<le> u * v" using uv by (intro mult_mono) (simp_all add: w_def)
  then have ww: "w * w \<le> n" by (simp add: v)
  obtain d where d: "is_prime d" "d dvd w" using prime_divisor_exists [OF w(1)] by blast
  have "d \<le> w" using zdvd_imp_le [OF d(2)] w(1) by simp
  then have "d * d \<le> w * w" using is_prime_gt_1 [OF d(1)] by (intro mult_mono) simp_all
  then show ?thesis using d(1) ww dvd_trans [OF d(2) w(2)] by (intro exI [of _ d]) simp
qed

lemma is_prime_trial:
  assumes "1 < n" "2 \<le> k" "n < k * k" "list_all (\<lambda>d. \<not> d dvd n) [2..k - 1]"
  shows "is_prime n"
proof (rule ccontr)
  assume "\<not> is_prime n"
  then obtain d where d: "is_prime d" "d dvd n" "d * d \<le> n" using composite_small_prime [OF assms(1)] by blast
  have "k * k \<le> d * d" if "k \<le> d" using that assms(2) by (intro mult_mono) simp_all
  then have "\<not> k \<le> d" using d(3) assms(3) by linarith
  then show False using assms(4) d(2) is_prime_gt_1 [OF d(1)] by (auto simp: list_all_iff)
qed

section \<open>Modular powers\<close>

definition pow_mod :: "int \<Rightarrow> int \<Rightarrow> nat \<Rightarrow> int \<Rightarrow> bool" where
  "pow_mod m a e x \<longleftrightarrow> a ^ e mod m = x mod m"

text \<open>
  The modulus is \<open>w - c\<close>. A step squares, squares and multiplies by the base, or multiplies by the
  base; the quotient \<open>k\<close> and the remainder \<open>y\<close> are part of the certificate.
\<close>

datatype pow_step = Sqr int int | Sqr_mul int int | Mul int int

fun pow_chain :: "int \<Rightarrow> int \<Rightarrow> int \<Rightarrow> nat \<Rightarrow> int \<Rightarrow> pow_step list \<Rightarrow> (nat \<times> int) option" where
  "pow_chain w c a e x [] = Some (e, x)"
| "pow_chain w c a e x (Sqr k y # cs) =
    (if x ^ 2 + k * c = k * w + y then pow_chain w c a (2 * e) y cs else None)"
| "pow_chain w c a e x (Sqr_mul k y # cs) =
    (if a * x ^ 2 + k * c = k * w + y then pow_chain w c a (2 * e + 1) y cs else None)"
| "pow_chain w c a e x (Mul k y # cs) =
    (if a * x + k * c = k * w + y then pow_chain w c a (e + 1) y cs else None)"

lemma pow_chain_step:
  assumes "pow_mod (w - c) a e x" "a ^ b * x ^ d + k * c = k * w + y"
  shows "pow_mod (w - c) a (d * e + b) y"
proof -
  have "a ^ b * x ^ d - y = (w - c) * k" using assms(2) by (simp add: algebra_simps)
  then have "a ^ b * x ^ d mod (w - c) = y mod (w - c)" by (simp add: mod_eq_dvd_iff)
  moreover have "a ^ (d * e + b) = a ^ b * (a ^ e) ^ d"
    by (simp add: power_add mult.commute flip: power_mult)
  moreover have "(a ^ b * (a ^ e) ^ d) mod (w - c) = (a ^ b * x ^ d) mod (w - c)"
    using assms(1) unfolding pow_mod_def by (metis mod_mult_right_eq power_mod)
  ultimately show ?thesis unfolding pow_mod_def by simp
qed

lemma pow_chain_correct:
  "pow_mod (w - c) a e x \<Longrightarrow> pow_chain w c a e x cs = Some (e', y') \<Longrightarrow> pow_mod (w - c) a e' y'"
proof (induction w c a e x cs rule: pow_chain.induct)
  case (2 w c a e x k y cs)
  have z: "x ^ 2 + k * c = k * w + y" by (rule ccontr) (use 2(3) in simp)
  then have "pow_chain w c a (2 * e) y cs = Some (e', y')" using 2(3) by simp
  with 2(1) [OF z] pow_chain_step [OF 2(2), of 0 2 k y] z show ?case by simp
next
  case (3 w c a e x k y cs)
  have z: "a * x ^ 2 + k * c = k * w + y" by (rule ccontr) (use 3(3) in simp)
  then have "pow_chain w c a (2 * e + 1) y cs = Some (e', y')" using 3(3) by simp
  with 3(1) [OF z] pow_chain_step [OF 3(2), of 1 2 k y] z show ?case by simp
next
  case (4 w c a e x k y cs)
  have z: "a * x + k * c = k * w + y" by (rule ccontr) (use 4(3) in simp)
  then have "pow_chain w c a (e + 1) y cs = Some (e', y')" using 4(3) by simp
  with 4(1) [OF z] pow_chain_step [OF 4(2), of 1 1 k y] z show ?case by simp
qed simp

lemma pow_mod_trans:
  assumes "pow_mod m a r g" "pow_mod m g q x"
  shows "pow_mod m a (q * r) x"
proof -
  have "a ^ (q * r) mod m = (a ^ r) ^ q mod m" by (simp add: mult.commute flip: power_mult)
  also have "\<dots> = g ^ q mod m" using assms(1) unfolding pow_mod_def by (metis power_mod)
  finally show ?thesis using assms(2) by (simp add: pow_mod_def)
qed

lemmas pow_chain_simps = pow_chain.simps power_numeral pow.simps sqr.simps numeral_times_numeral
  mult_num_simps add_num_simps numeral_plus_numeral numeral_plus_one one_plus_numeral
  power_one mult_zero_left mult_1_left mult_1_right add_0_left add_0_right simp_thms if_True

lemma pow_mod_cube:
  assumes "pow_mod m a e x" "x * x = k * m + y" "x * y = l * m + z"
  shows "pow_mod m a (3 * e) z"
proof -
  have "a ^ (3 * e) mod m = (a ^ e) ^ 3 mod m" by (simp add: mult.commute flip: power_mult)
  also have "\<dots> = x ^ 3 mod m" using assms(1) unfolding pow_mod_def by (metis power_mod)
  also have "x ^ 3 = (k * x + l) * m + z"
    using assms(2,3) by (simp add: power3_eq_cube algebra_simps)
  finally show ?thesis by (simp add: pow_mod_def)
qed

lemma not_dvd_cert: "m = k * t + r \<Longrightarrow> 0 < r \<Longrightarrow> r < t \<Longrightarrow> \<not> t dvd m" for m t :: int
  by (auto dest: zdvd_imp_le simp: dvd_add_right_iff)

section \<open>Pocklington's criterion\<close>

lemma pow_mod_dvd: "pow_mod m a e x \<Longrightarrow> d dvd m \<Longrightarrow> a ^ e mod d = x mod d"
  unfolding pow_mod_def by (metis mod_mod_cancel)

lemma pocklington_factor:
  assumes "is_prime q" "is_prime d" "d dvd m" "pow_mod m a e 1" "pow_mod m a r g" "e = nat q * r"
    and "(g - 1) * u = v * m + 1"
  shows "q dvd d - 1"
proof (rule ccontr)
  assume n: "\<not> q dvd d - 1"
  have q: "1 < q" and d: "1 < d" using assms(1,2) by (simp_all add: is_prime_gt_1)
  define h where "h = a ^ r"
  have h1: "h ^ nat q mod d = 1"
    using pow_mod_dvd [OF assms(4,3)] d by (simp add: h_def assms(6) mult.commute flip: power_mult)
  have hg: "h mod d = g mod d" using pow_mod_dvd [OF assms(5,3)] by (simp add: h_def)
  have "\<not> d dvd h"
  proof
    assume "d dvd h"
    then have "h ^ nat q mod d = 0" using q by (simp add: dvd_power dvd_imp_mod_0 dvd_trans [OF _ dvd_power])
    then show False using h1 by simp
  qed
  from fermat_little [OF assms(2) this] have f: "h ^ nat (d - 1) mod d = 1" .
  have "coprime (nat q) (nat (d - 1))"
    using prime_coprime [OF assms(1) n] q d coprime_int_iff [of "nat q" "nat (d - 1)"] by (simp add: coprime_commute)
  then obtain x y where xy: "nat q * x = nat (d - 1) * y + 1"
    using bezout_nat [of "nat q" "nat (d - 1)"] q by (auto simp: coprime_iff_gcd_eq_1)
  have "1 = (h ^ nat q mod d) ^ x mod d" using h1 d by simp
  also have "\<dots> = h ^ (nat q * x) mod d" by (simp add: power_mod power_mult)
  also have "\<dots> = ((h ^ nat (d - 1) mod d) ^ y * h) mod d"
    unfolding xy power_add power_mult power_one_right by (metis mod_mult_left_eq power_mod)
  finally have "g mod d = 1" using f hg d by simp
  then have "d dvd g - 1" using d by (simp add: mod_eq_dvd_iff [symmetric])
  then have "d dvd v * m + 1" unfolding assms(7) [symmetric] by simp
  then have "d dvd 1" using assms(3) by (metis dvd_add_right_iff dvd_mult)
  then show False using d by simp
qed

lemma pocklington:
  assumes "1 < m" "\<And>d. is_prime d \<Longrightarrow> d dvd m \<Longrightarrow> f dvd d - 1" "0 < f"
    and "m < (k * f + 1) * (k * f + 1)" "0 \<le> k" "list_all (\<lambda>j. \<not> (j * f + 1) dvd m) [1..k - 1]"
  shows "is_prime m"
proof (rule ccontr)
  assume "\<not> is_prime m"
  then obtain d where d: "is_prime d" "d dvd m" "d * d \<le> m" using composite_small_prime [OF assms(1)] by blast
  obtain j where j: "d - 1 = f * j" using assms(2) [OF d(1,2)] by blast
  have d1: "1 < d" using d(1) by (rule is_prime_gt_1)
  then have j0: "0 < j" using j assms(3) by (metis diff_gt_0_iff_gt zero_less_mult_pos)
  have "d = j * f + 1" using j by (simp add: algebra_simps)
  then have "k \<le> j" using assms(6) d(2) j0 by (force simp: list_all_iff)
  then have "k * f + 1 \<le> d" using \<open>d = j * f + 1\<close> assms(3) by (simp add: mult_right_mono)
  moreover have "0 \<le> k * f" using assms(3,5) by simp
  ultimately have "(k * f + 1) * (k * f + 1) \<le> d * d" by (intro mult_mono) simp_all
  then show False using d(3) assms(4) by simp
qed

lemma primes_dvd_mult:
  fixes p q d :: int
  assumes "is_prime p" "p dvd d" "q dvd d" "\<not> p dvd q"
  shows "p * q dvd d"
  using prime_coprime [OF assms(1,4)] assms(2,3) by (simp add: divides_mult coprime_commute mult.commute)

end
