(* ===== verification/Prime_Q.thy ===== *)
theory Prime_Q
  imports Primality
begin

text \<open>
  The certificate of the largest prime factor of the predecessor of the field characteristic.
\<close>

lemma prime_53: "is_prime 53"
  by (rule is_prime_trial [of _ 8]) (simp_all add: upto.simps)

lemma prime_29: "is_prime 29"
  by (rule is_prime_trial [of _ 6]) (simp_all add: upto.simps)

text \<open>The certificate of 107590001.\<close>

lemma pow_107590001_r5_0: "pow_mod (0x8000000 - 0x1964e8f) 2 14 16384"
  by (simp add: pow_mod_def)

lemma pow_107590001_r5_1: "pow_chain 0x8000000 0x1964e8f 2 14 16384 [
    Sqr 2 0x32c9d1e,
    Sqr 0x1923b53 0x3223ce1,
    Sqr_mul 0x3100d08 0x51c32fa,
    Sqr 0x4127381 0xec6f33,
    Sqr 0x220d0b 0xc5e74e,
    Sqr_mul 0x2fb6c3 0x3ac3875,
    Sqr_mul 0x434f46e 0x1d8d864,
    Sqr_mul 0x110616d 356355] = Some (3623, 356355)"
  by (simp)

lemma pow_107590001_r5_2: "pow_chain 0x8000000 0x1964e8f 2 3623 356355 [
    Sqr 1180 0x1f2bb2d,
    Sqr 0x978288 0x6061fe1,
    Sqr 0x5a89841 0x52b1e10,
    Sqr 0x42a5cc2 0x480ad5e,
    Sqr_mul 0x652a6db 0x5244b5d,
    Sqr_mul 0x83ec90d 0x3a183d5,
    Sqr 0x20e48e6 0xc27bb3,
    Sqr 0x170a19 0x4a9c120] = Some (927500, 0x4a9c120)"
  by (simp)

lemma pow_107590001_r5_3: "pow_chain 0x8000000 0x1964e8f 2 927500 0x4a9c120 [
    Sqr 0x3640957 0x5a4fd99,
    Sqr 0x4f7db3b 0x4113566] = Some (0x389c30, 0x4113566)"
  by (simp)

lemma pow_107590001_r5: "pow_mod 0x669b171 2 0x389c30 0x4113566"
  using pow_chain_correct [OF pow_chain_correct [OF pow_chain_correct [OF pow_107590001_r5_0 pow_107590001_r5_1] pow_107590001_r5_2] pow_107590001_r5_3] by simp

lemma pow_107590001_s_0: "pow_mod (0x8000000 - 0x1964e8f) 0x4113566 1 0x4113566"
  by (simp add: pow_mod_def)

lemma pow_107590001_s_1: "pow_chain 0x8000000 0x1964e8f 0x4113566 1 0x4113566 [
    Sqr 0x2945d3a 0x1f3240a,
    Mul 0x13c91be 0x291bb1e,
    Sqr 0x10783b7 0x24f2cbd,
    Mul 0x176f09c 0x283e372,
    Sqr 0xfc8a1c 0x4d0c68,
    Sqr 236982 0x1e076ea,
    Mul 0x130b96b 1] = Some (29, 1)"
  by (simp)

lemma pow_107590001_s: "pow_mod 0x669b171 0x4113566 29 1"
  using pow_chain_correct [OF pow_107590001_s_0 pow_107590001_s_1] by simp

lemma pow_107590001_f: "pow_mod 0x669b171 2 0x669b170 1"
  using pow_mod_trans [OF pow_107590001_r5 pow_107590001_s] by simp

lemma pow_107590001_r6_0: "pow_mod (0x8000000 - 0x1964e8f) 2 15 32768"
  by (simp add: pow_mod_def)

lemma pow_107590001_r6_1: "pow_chain 0x8000000 0x1964e8f 2 15 32768 [
    Sqr 9 0x648c307,
    Sqr_mul 0xc50fb71 0x4163681,
    Sqr_mul 0x5357451 0x6500141,
    Sqr_mul 0xc6d6fee 0x5f32ef4,
    Sqr_mul 0xb0a750c 0x3323ad4,
    Sqr_mul 0x32f9f12 0x146d62e,
    Sqr 0x41117c 0x2ad7c88,
    Sqr 0x11e394c 0x4331b4] = Some (3964, 0x4331b4)"
  by (simp)

lemma pow_107590001_r6_2: "pow_chain 0x8000000 0x1964e8f 2 3964 0x4331b4 [
    Sqr_mul 360479 0x502d071,
    Sqr_mul 0x7d4c64b 0x22f41a7,
    Sqr 0xbe83ef 0x3d0bf72,
    Sqr_mul 0x48a424f 0x38fb9a9,
    Sqr_mul 0x3f4aa56 0x4dcbd2c,
    Sqr 0x3afc43c 0x38ae514,
    Sqr 0x1f4fb51 0x56dd9cf,
    Sqr 0x498a462 0x5c441f] = Some (1015000, 0x5c441f)"
  by (simp)

lemma pow_107590001_r6_3: "pow_chain 0x8000000 0x1964e8f 2 1015000 0x5c441f [
    Sqr 339838 0x19a6723] = Some (0x1ef9b0, 0x19a6723)"
  by (simp)

lemma pow_107590001_r6: "pow_mod 0x669b171 2 0x1ef9b0 0x19a6723"
  using pow_chain_correct [OF pow_chain_correct [OF pow_chain_correct [OF pow_107590001_r6_0 pow_107590001_r6_1] pow_107590001_r6_2] pow_107590001_r6_3] by simp

lemma pow_107590001_d6: "is_prime d \<Longrightarrow> d dvd 0x669b171 \<Longrightarrow> 53 dvd d - 1"
  using pocklington_factor [OF prime_53 _ _ pow_107590001_f pow_107590001_r6, of d "0x48349cb" "0x120cec5"] by simp

lemma pow_107590001_d5: "is_prime d \<Longrightarrow> d dvd 0x669b171 \<Longrightarrow> 29 dvd d - 1"
  using pocklington_factor [OF prime_29 _ _ pow_107590001_f pow_107590001_r5, of d "0x5f72de4" "0x3c894a3"] by simp

lemma pow_107590001_n1: "\<not> 1538 dvd (0x669b171 :: int)"
  by (rule not_dvd_cert [of _ "69954" _ "749"]) simp_all

lemma pow_107590001_n2: "\<not> 3075 dvd (0x669b171 :: int)"
  by (rule not_dvd_cert [of _ "34988" _ "1901"]) simp_all

lemma pow_107590001_n3: "\<not> 4612 dvd (0x669b171 :: int)"
  by (rule not_dvd_cert [of _ "23328" _ "1265"]) simp_all

lemma pow_107590001_n4: "\<not> 6149 dvd (0x669b171 :: int)"
  by (rule not_dvd_cert [of _ "17497" _ "948"]) simp_all

lemma pow_107590001_n5: "\<not> 7686 dvd (0x669b171 :: int)"
  by (rule not_dvd_cert [of _ "13998" _ "1373"]) simp_all

lemma pow_107590001_n6: "\<not> 9223 dvd (0x669b171 :: int)"
  by (rule not_dvd_cert [of _ "11665" _ "3706"]) simp_all

lemma prime_107590001: "is_prime 0x669b171"
proof (rule pocklington [of _ "1537" 7])
  fix d assume d: "is_prime d" "d dvd 0x669b171"
  show "1537 dvd d - 1"
    using primes_dvd_mult [OF prime_53 pow_107590001_d6 [OF d] pow_107590001_d5 [OF d]] by simp
qed (simp_all add: upto.simps pow_107590001_n1 pow_107590001_n2 pow_107590001_n3 pow_107590001_n4 pow_107590001_n5 pow_107590001_n6)

lemma prime_419: "is_prime 419"
  by (rule is_prime_trial [of _ 21]) (simp_all add: upto.simps)

text \<open>The certificate of 20113.\<close>

lemma pow_20113_r9_0: "pow_mod (32768 - 12655) 2 12 4096"
  by (simp add: pow_mod_def)

lemma pow_20113_r9_1: "pow_chain 32768 12655 2 12 4096 [
    Sqr 834 2974,
    Sqr 439 15069] = Some (48, 15069)"
  by (simp)

lemma pow_20113_r9: "pow_mod 20113 2 48 15069"
  using pow_chain_correct [OF pow_20113_r9_0 pow_20113_r9_1] by simp

lemma pow_20113_s_0: "pow_mod (32768 - 12655) 15069 1 15069"
  by (simp add: pow_mod_def)

lemma pow_20113_s_1: "pow_chain 32768 12655 15069 1 15069 [
    Sqr 11289 19104,
    Mul 14313 807,
    Sqr 32 7633,
    Sqr 2896 15441,
    Mul 11568 13245,
    Sqr 8722 4439,
    Sqr 979 14094,
    Sqr 9876 4848,
    Sqr 1168 11120,
    Mul 8331 5877,
    Sqr 1717 5108,
    Mul 3827 1] = Some (419, 1)"
  by (simp)

lemma pow_20113_s: "pow_mod 20113 15069 419 1"
  using pow_chain_correct [OF pow_20113_s_0 pow_20113_s_1] by simp

lemma pow_20113_f: "pow_mod 20113 2 20112 1"
  using pow_mod_trans [OF pow_20113_r9 pow_20113_s] by simp

lemma pow_20113_d9: "is_prime d \<Longrightarrow> d dvd 20113 \<Longrightarrow> 419 dvd d - 1"
  using pocklington_factor [OF prime_419 _ _ pow_20113_f pow_20113_r9, of d "17111" "12819"] by simp

lemma prime_20113: "is_prime 20113"
proof (rule pocklington [of _ "419" 1])
  fix d assume d: "is_prime d" "d dvd 20113"
  show "419 dvd d - 1"
    using pow_20113_d9 [OF d] by simp
qed (simp_all add: upto.simps)

text \<open>The certificate of 1206781.\<close>

lemma pow_1206781_f_0: "pow_mod (0x200000 - 890371) 2 18 262144"
  by (simp add: pow_mod_def)

lemma pow_1206781_f_1: "pow_chain 0x200000 890371 2 18 262144 [
    Sqr 56944 539472,
    Sqr_mul 482324 638524,
    Sqr_mul 675703 255109,
    Sqr 53929 109332,
    Sqr_mul 19810 640838,
    Sqr 340304 940820,
    Sqr 733473 991987,
    Sqr_mul 0x18e280 36050] = Some (4713, 36050)"
  by (simp)

lemma pow_1206781_f_2: "pow_chain 0x200000 890371 2 4713 36050 [
    Sqr_mul 2153 1005507,
    Sqr_mul 0x199155 376593,
    Sqr_mul 235042 355496,
    Sqr_mul 209445 565487,
    Sqr_mul 529964 608454,
    Sqr_mul 613559 0x12426d,
    Sqr 0x121b31 0x1269fc,
    Sqr 0x1269fb 1] = Some (0x1269fc, 1)"
  by (simp)

lemma pow_1206781_f: "pow_mod 0x1269fd 2 0x1269fc 1"
  using pow_chain_correct [OF pow_chain_correct [OF pow_1206781_f_0 pow_1206781_f_1] pow_1206781_f_2] by simp

lemma pow_1206781_r15_0: "pow_mod (0x200000 - 890371) 2 15 32768"
  by (simp add: pow_mod_def)

lemma pow_1206781_r15_1: "pow_chain 0x200000 890371 2 15 32768 [
    Sqr 889 913515,
    Sqr 691517 78448] = Some (60, 78448)"
  by (simp)

lemma pow_1206781_r15: "pow_mod 0x1269fd 2 60 78448"
  using pow_chain_correct [OF pow_1206781_r15_0 pow_1206781_r15_1] by simp

lemma pow_1206781_d15: "is_prime d \<Longrightarrow> d dvd 0x1269fd \<Longrightarrow> 20113 dvd d - 1"
  using pocklington_factor [OF prime_20113 _ _ pow_1206781_f pow_1206781_r15, of d "709359" "46112"] by simp

lemma prime_1206781: "is_prime 0x1269fd"
proof (rule pocklington [of _ "20113" 1])
  fix d assume d: "is_prime d" "d dvd 0x1269fd"
  show "20113 dvd d - 1"
    using pow_1206781_d15 [OF d] by simp
qed (simp_all add: upto.simps)

text \<open>The certificate of 7240687.\<close>

lemma pow_7240687_f_0: "pow_mod (0x800000 - 0x118411) 2 13 8192"
  by (simp add: pow_mod_def)

lemma pow_7240687_f_1: "pow_chain 0x800000 0x118411 2 13 8192 [
    Sqr_mul 18 0x3b4932,
    Sqr_mul 0x3fa034 0x3b8efc,
    Sqr 0x201b2c 0x1505fc,
    Sqr 262171 0x18bddb,
    Sqr_mul 726217 473099,
    Sqr_mul 61823 0x422661,
    Sqr_mul 0x4f362b 0x15a65d,
    Sqr_mul 556058 336204] = Some (3535, 336204)"
  by (simp)

lemma pow_7240687_f_2: "pow_chain 0x800000 0x118411 2 3535 336204 [
    Sqr 15610 0x5ba32a,
    Sqr_mul 0x9802d7 725519,
    Sqr_mul 145394 0x30b8d4,
    Sqr_mul 0x2af8b1 0x39a6e1,
    Sqr_mul 0x3c2ab3 0x5b4565,
    Sqr_mul 0x96cc5d 0x4bb9df,
    Sqr 0x33e71e 0x39e13f,
    Sqr_mul 0x3ca4c5 860183] = Some (905085, 860183)"
  by (simp)

lemma pow_7240687_f_3: "pow_chain 0x800000 0x118411 2 905085 860183 [
    Sqr_mul 204376 0x69e7fa,
    Sqr_mul 0xcb0929 1,
    Sqr 0 1] = Some (0x6e7bee, 1)"
  by (simp)

lemma pow_7240687_f: "pow_mod 0x6e7bef 2 0x6e7bee 1"
  using pow_chain_correct [OF pow_chain_correct [OF pow_chain_correct [OF pow_7240687_f_0 pow_7240687_f_1] pow_7240687_f_2] pow_7240687_f_3] by simp

lemma pow_7240687_r21_0: "pow_mod (0x800000 - 0x118411) 2 6 64"
  by (simp add: pow_mod_def)

lemma pow_7240687_r21: "pow_mod 0x6e7bef 2 6 64"
  using pow_7240687_r21_0 by simp

lemma pow_7240687_d21: "is_prime d \<Longrightarrow> d dvd 0x6e7bef \<Longrightarrow> 0x1269fd dvd d - 1"
  using pocklington_factor [OF prime_1206781 _ _ pow_7240687_f pow_7240687_r21, of d "0x57af91" "50"] by simp

lemma prime_7240687: "is_prime 0x6e7bef"
proof (rule pocklington [of _ "0x1269fd" 1])
  fix d assume d: "is_prime d" "d dvd 0x6e7bef"
  show "0x1269fd dvd d - 1"
    using pow_7240687_d21 [OF d] by simp
qed (simp_all add: upto.simps)

lemma prime_239: "is_prime 239"
  by (rule is_prime_trial [of _ 16]) (simp_all add: upto.simps)

text \<open>The certificate of 96557.\<close>

lemma pow_96557_r8_0: "pow_mod (131072 - 34515) 2 12 4096"
  by (simp add: pow_mod_def)

lemma pow_96557_r8_1: "pow_chain 131072 34515 2 12 4096 [
    Sqr_mul 347 49153,
    Sqr 25021 64712,
    Sqr_mul 86739 28265,
    Sqr 8273 94164,
    Sqr 91830 29586] = Some (404, 29586)"
  by (simp)

lemma pow_96557_r8: "pow_mod 96557 2 404 29586"
  using pow_chain_correct [OF pow_96557_r8_0 pow_96557_r8_1] by simp

lemma pow_96557_s_0: "pow_mod (131072 - 34515) 29586 1 29586"
  by (simp add: pow_mod_def)

lemma pow_96557_s_1: "pow_chain 131072 34515 29586 1 29586 [
    Sqr 9065 42191,
    Mul 12927 70587,
    Sqr 51601 86812,
    Mul 26600 3632,
    Sqr 136 59672,
    Sqr 36877 15095,
    Mul 4625 24545,
    Sqr 6239 37902,
    Mul 11613 52131,
    Sqr 28145 44396,
    Mul 13603 35185,
    Sqr 12821 26928,
    Mul 8251 1] = Some (239, 1)"
  by (simp)

lemma pow_96557_s: "pow_mod 96557 29586 239 1"
  using pow_chain_correct [OF pow_96557_s_0 pow_96557_s_1] by simp

lemma pow_96557_f: "pow_mod 96557 2 96556 1"
  using pow_mod_trans [OF pow_96557_r8 pow_96557_s] by simp

lemma pow_96557_d8: "is_prime d \<Longrightarrow> d dvd 96557 \<Longrightarrow> 239 dvd d - 1"
  using pocklington_factor [OF prime_239 _ _ pow_96557_f pow_96557_r8, of d "8329" "2552"] by simp

lemma pow_96557_n1: "\<not> 240 dvd (96557 :: int)"
  by (rule not_dvd_cert [of _ "402" _ "77"]) simp_all

lemma prime_96557: "is_prime 96557"
proof (rule pocklington [of _ "239" 2])
  fix d assume d: "is_prime d" "d dvd 96557"
  show "239 dvd d - 1"
    using pow_96557_d8 [OF d] by simp
qed (simp_all add: upto.simps pow_96557_n1)

text \<open>The certificate of 255515944373312847190720520512484175977.\<close>

lemma pow_q128_r17_0: "pow_mod (0x100000000000000000000000000000000 - 0x3fc56b4d2c19bbe65fa3273340678f97) 2 65 0x20000000000000000"
  by (simp add: pow_mod_def)

lemma pow_q128_r17_1: "pow_chain 0x100000000000000000000000000000000 0x3fc56b4d2c19bbe65fa3273340678f97 2 65 0x20000000000000000 [
    Sqr 5 0x3edb1881dc80ab7fde2fc4004205cdf3,
    Sqr 0x148d89d5e7aebe947c836a439bf36081 0x10008a0fc0,
    Sqr_mul 0 0x200228484e9f7f02000,
    Sqr_mul 698586 0x3b01fd384184189bd32085ec72515e96,
    Sqr_mul 0x243a0f0754aea0e268006fefa233edfe 0x514229793854dafa6ac9e1471b81429a,
    Sqr_mul 0x44b2ddae29304aaada2ff870e2ce1305 0x101bf2e5a0b9e8e56a70416a243f8c3b,
    Sqr 0x1599870bfdf2bb8191f827a4bdd660c 0x29b3e22149f36129a187549164467aad,
    Sqr 0x90c0e757984c9984a7878c838584246 0x2aacc427498977acb38152d12ca38a33] = Some (16700, 0x2aacc427498977acb38152d12ca38a33)"
  by (simp only: pow_chain_simps)

lemma pow_q128_r17_2: "pow_chain 0x100000000000000000000000000000000 0x3fc56b4d2c19bbe65fa3273340678f97 2 16700 0x2aacc427498977acb38152d12ca38a33 [
    Sqr 0x9794d4bbc40906353c992a9ad384692 0xb4c37bdb9cae86a9ed104d774fe83447,
    Sqr_mul 0x153f6e4a750a4af3e2264fc35c10ea263 0xd567bbe22bcb2aa9150748a5ce5ecc7,
    Sqr 0xecea180bbf1b90498f7bb6be459aa2 0x76719d4234f476b127f52d3f52a2363f,
    Sqr_mul 0x91f5f5b636171820606404203a34cac6 0x24f5af8ccc5c4df052a1f1fd06877bcc,
    Sqr 0x71b3129ae4478777dbff9dbf1f09b10 0x24317e6f9da43bd1d82a7a5cdbff1100,
    Sqr 0x6d087e692c211a2f6237f4de46cf2d3 0x8b3d102ca4a0bcd64520e056e9ed1775,
    Sqr 0x64db0d3978d2141ef685979beb3401ba 0x2ba2e7e2012cbec8c36cc8a66542262f,
    Sqr 0x9e7d1b7b04c4e3a90d1c557585e3199 0x4853a49a3ea6c8abcc18b3d5bdc0b4e0] = Some (0x413c50, 0x4853a49a3ea6c8abcc18b3d5bdc0b4e0)"
  by (simp only: pow_chain_simps)

lemma pow_q128_r17_3: "pow_chain 0x100000000000000000000000000000000 0x3fc56b4d2c19bbe65fa3273340678f97 2 0x413c50 0x4853a49a3ea6c8abcc18b3d5bdc0b4e0 [
    Sqr_mul 0x366d24a887d5ab763b08cc16f6def98c 0x299547dac54692c102430434b1d5ed94,
    Sqr 0x8fecc269b84f6c786c5bb4f803935fc 0x1aa49be360bdb4d86ab797a82c0df934,
    Sqr_mul 0x762add3fb6a7eb5af15918c0c8480e1 0xa835d0da1509bf457d49a74ec46918d7,
    Sqr 0x933153ad70a8c78554b1646431770c0b 0x843ef0994b5819a7bfb4aa06e026440e,
    Sqr 0x5afadd36682a38e242b9dd3088b95f73 0xbefc249afa2b4896ecb73cd41f2cfa99,
    Sqr 0xbdbfc405be385ec54441b117ac6be563 0x95b63247652e71f5cf4780c22b82c9d6,
    Sqr_mul 0xe9326f5aa71d09377f0875ccb8f6241d 0x7708cac812d95561edb99dd85ff9fde3,
    Sqr 0x49b5be7221c094f1eadfa4f1c2c2b4d1 0x19af34a981cc50d266c29830fd50dd90] = Some (0x413c50a2, 0x19af34a981cc50d266c29830fd50dd90)"
  by (simp only: pow_chain_simps)

lemma pow_q128_r17_4: "pow_chain 0x100000000000000000000000000000000 0x3fc56b4d2c19bbe65fa3273340678f97 2 0x413c50a2 0x19af34a981cc50d266c29830fd50dd90 [
    Sqr 0x36e898b941f70ec33579992150c3657 0x63e1fb1a818f579c04efce3ab3519751,
    Sqr_mul 0x67cc7e5b2332589cdfd84215fd655965 0x2c00b61bc8ec51387c7a00640cbf74d5,
    Sqr_mul 0x14252c1b69532875b1cef3f64b8f889a 0x509c366101bcf6ec943e01273b3d0b48,
    Sqr_mul 0x439b62db41333de4297d6b1e51a116a7 0x8a83e69ff56b9e28fed5939d207b2e01,
    Sqr 0x63cf8226d42aebf081556769218e213b 0xbc93c3e9814180892179f6ffcb5ceace,
    Sqr_mul 0x171fd6a555e242ecca5bcdf212151d2f1 0x1f289797344cb034ffe710d319e986af,
    Sqr 0x50cef0c3cb730b8331a19c31cc42f6b 0x46990fc38a32da32fe25e31101ab68be,
    Sqr 0x19ed81aff91c19018297966a0a3e6262 0x9b6af4809e91919ccecda4f8dddb2d2] = Some (0x413c50a274, 0x9b6af4809e91919ccecda4f8dddb2d2)"
  by (simp only: pow_chain_simps)

lemma pow_q128_r17_5: "pow_chain 0x100000000000000000000000000000000 0x3fc56b4d2c19bbe65fa3273340678f97 2 0x413c50a274 0x9b6af4809e91919ccecda4f8dddb2d2 [
    Sqr 0x7da7ea4eefeceac990a6c16390cd9a 0x94609960d1c79b9feb950d9c65b5001a,
    Sqr_mul 0xe50f0184ded30078d83b93818de90a73 0x72774c4a95e829085bef807427186c1d,
    Sqr_mul 0x885251aa1722e98a2de50f30b94312a7 0x6cca11e1b9b93ed702c77f3f915d4013,
    Sqr 0x3d915fda8c4591ab326875706fdb5cf9 0x3b7cfefd8c7aedc10c6088d04f596f48,
    Sqr 0x1268dad2700b972cd2351e431beee14d 0xb94180980a2d6730df528fe3d02b6bab,
    Sqr 0xb2892d1d68cf37aee03deb824544f72e 0x4a3418b15b27a77c2c9a9cd28dfce25b,
    Sqr_mul 0x39499d11513e11314061c36b4a2daa47 0x80bc2b8ec60468d0aec5d3b3d837b193,
    Sqr 0x5636a48ce8f45fb06f930b852659c597 0x30376b67b46d37b30bec16e6dc6a7f7a] = Some (0x413c50a27462, 0x30376b67b46d37b30bec16e6dc6a7f7a)"
  by (simp only: pow_chain_simps)

lemma pow_q128_r17_6: "pow_chain 0x100000000000000000000000000000000 0x3fc56b4d2c19bbe65fa3273340678f97 2 0x413c50a27462 0x30376b67b46d37b30bec16e6dc6a7f7a [
    Sqr 0xc18150ec402b2fe9cd6a584e22d58de 0x8f0bbc32cb525bc2c8fcf7087f37b316,
    Sqr 0x6a7256bdcc2521d010b6a3d6ef40249d 0x4f8677aff6169bda2c742ad73330117f,
    Sqr_mul 0x41cca3394fff91b840f846269b2afb13 0x5a33ed7a960bc77bdd7b86eda2e2ef37,
    Sqr_mul 0x54a7a527d5854f2111a8f9239e7eeaa9 0x5ca6cdaad86a8eb6caa2d776bd374c51,
    Sqr_mul 0x59504146570c8164c572de3e16230d85 0x9156dfcc49b7510d7359b924ad9a7b5,
    Sqr_mul 0xdbc659e0b826e61e97ffc8e3024b3b 0x1e0ab6ad7ccd614770f305b4f88ca0bf,
    Sqr 0x4b1eaf8175abf63df6752ab30a58e17 0x4ee40f826a5e3178b76370275d1df712,
    Sqr_mul 0x40c0f537cfece06097575eba5d5c211e 0x91d71eb78bfe4b3abb7d5e6853f8c53a] = Some (0x413c50a274623d, 0x91d71eb78bfe4b3abb7d5e6853f8c53a)"
  by (simp only: pow_chain_simps)

lemma pow_q128_r17_7: "pow_chain 0x100000000000000000000000000000000 0x3fc56b4d2c19bbe65fa3273340678f97 2 0x413c50a274623d 0x91d71eb78bfe4b3abb7d5e6853f8c53a [
    Sqr_mul 0xdd4adf80bf60b6cf5d469483daf85e2e 0x843931d138c1781162cc693ef241e16a,
    Sqr 0x5af2f5b46dab52b40d2e2dfef0abc0a9 0x44542184125945a5ffdb3238503b8a93,
    Sqr_mul 0x309351c0f7fd25cbc811ff0c76fc85f4 0x3fd342038ed80999c95e50e387befbe,
    Sqr 0x15311487be89999457a7c87ad9014a 0x9a3a115d8b49dc7f72c2eb139669aa,
    Sqr 0x7bbccc8dfc0847fd2afe9978f64f 0x8e28c20635d2e0beb145fe0e2c8d4e7d,
    Sqr_mul 0xd2432829daa04a4bebc48d28ee1bebfe 0xb5f07a205602b9bb08b4a3488a01e6e4,
    Sqr 0xac335e9208ab720254cd0732a3ad05c8 0x6e86026df0e8478e400f8864f2c79c08,
    Sqr 0x3f8bdcda518ab4e81754151294da6386 0x4d580ea0c57c1bd2cff3ee7068dc4e4a] = Some (0x413c50a274623da4, 0x4d580ea0c57c1bd2cff3ee7068dc4e4a)"
  by (simp only: pow_chain_simps)

lemma pow_q128_r17_8: "pow_chain 0x100000000000000000000000000000000 0x3fc56b4d2c19bbe65fa3273340678f97 2 0x413c50a274623da4 0x4d580ea0c57c1bd2cff3ee7068dc4e4a [
    Sqr_mul 0x3e3d4032d220f74b944badb53806a53f 0x5a2a3472f205b64168bf149e8cd503f1,
    Sqr_mul 0x549566420710c0260e7af4ff2dd3cb8e 0x9531dce166045555876c05980af67484,
    Sqr_mul 0xe796e3f0f058da90e7aad4b2206e2581 0xb3a766f865d1bf99864410cfe441f637,
    Sqr_mul 0x14fcd9f0dafb9aae67471d6816469e86c 0x66e0ed733b65e7fd3dc8a8aac037eb56,
    Sqr_mul 0x6e1e6e7136365d6a7548b9835fad8ad3 0x6c4ad08b7a7be4a75e11345fe963c13d,
    Sqr_mul 0x7a03555c702d2ea85d97ad52e906ad23 0x764f66e3364488e522b9abcfb8d1bdb7,
    Sqr_mul 0x91a1afa454a4a3633a306f0cc5cedf08 0x1265747cb8d30568fb98809dba9e775a,
    Sqr 0x1c2b1f0bee218acd5cc7b3051404d84 0x74df2339947bc0e4687b04595b134080] = Some (0x413c50a274623da4fe, 0x74df2339947bc0e4687b04595b134080)"
  by (simp only: pow_chain_simps)

lemma pow_q128_r17_9: "pow_chain 0x100000000000000000000000000000000 0x3fc56b4d2c19bbe65fa3273340678f97 2 0x413c50a274623da4fe 0x74df2339947bc0e4687b04595b134080 [
    Sqr 0x470e4a8a60b4451711ca19b42cd8786e 0xc10cc07d05f4a4d379541bef676bae2,
    Sqr 0xc1dfd210f011782b10a715a8acd4fe 0x64639cc9759476c6de256c1563e2b356,
    Sqr 0x346d4d60ea269961f490a402bf07c836 0x433ea02e36727cab4c914cd6b9a0a2be,
    Sqr_mul 0x2f0be3143434e8ddd0903f53a90c9c3c 0x2a68663cb45dc5092af270317fc3b56c,
    Sqr 0x95b0abf639e231a44f67da8fcf04b11 0x5c5aedcb40e9b46f1d8e9dc3ea9bab97,
    Sqr_mul 0x58be350b1aaef8325c724b393aa51afa 0xb6e89136c6e09ba53f94d044bbc4b598,
    Sqr 0xae0a3dca8cda9eed6f1129420e832bb7 0x723bb7e1119f562c8dbfe56dccfb4c31,
    Sqr_mul 0x87c48d569b889da5d01972a904bbc7df 0x4a25c5cf632e4f94d133b6f607a7b84b] = Some (0x413c50a274623da4fe15, 0x4a25c5cf632e4f94d133b6f607a7b84b)"
  by (simp only: pow_chain_simps)

lemma pow_q128_r17_10: "pow_chain 0x100000000000000000000000000000000 0x3fc56b4d2c19bbe65fa3273340678f97 2 0x413c50a274623da4fe15 0x4a25c5cf632e4f94d133b6f607a7b84b [
    Sqr_mul 0x3933814b17217a7d6c5fbbadae9d5f78 0xa2cb02d75c70c42f921e7a47717b23ba,
    Sqr 0x89dd5b243235b24d1f0159067a74ec7d 0xb57a0e71a8b71412b0e8d33c7f14b3df,
    Sqr 0xab537d957485b42b51320a1ccdc3362f 0x824a807f2c843c445ebf100cd18bd2fa,
    Sqr_mul 0xb09ec7bea199f76e144b7d6c261cd3fe 0x81c5e22b111e6107447e20dd5b54251a,
    Sqr 0x579bf8e4ae3d3e6d66d64c2ea4b333e7 0x2b75600eebc253b8bd521388bc132ce5,
    Sqr 0x9d330b548e682070fdf85b3c32b21bf 0x67fbd4658dc9733be1e8449494011d82,
    Sqr 0x383fa7652e9553855c02e612c2709a44 0x9994f6e7109cf0cf8dc62188365db020,
    Sqr_mul 0xf568d9bfc69548e058c7b1a0811817ba 0x67972a61e8c429ed56b289a48724ecb6] = Some (0x413c50a274623da4fe1591, 0x67972a61e8c429ed56b289a48724ecb6)"
  by (simp only: pow_chain_simps)

lemma pow_q128_r17_11: "pow_chain 0x100000000000000000000000000000000 0x3fc56b4d2c19bbe65fa3273340678f97 2 0x413c50a274623da4fe1591 0x67972a61e8c429ed56b289a48724ecb6 [
    Sqr 0x37d2f4320b3b262d7b87c400872b1455 0x9abd8f16d222f04115791b559b078a87,
    Sqr 0x7c9024ac868057b4830de6adc8fe2dbd 0x7b98b5bb472c148a5ae60ec088dc60ac,
    Sqr 0x4f77e3354c4d2547b119e405f99255c8 0x4043ef62084b12b756601a8682d4c488,
    Sqr 0x157c297aac8e114f441457cee0c99566 0x51b671ba7e336b1f40dea52e0585a16a,
    Sqr_mul 0x457808954c7b06b90fe7f9dad3ffb027 0x768dda6cf99e5e03682a257c02bcafc9,
    Sqr_mul 0x923b9750f3acd3be06ad1a5cf65ffe8d 0x4e696c7ed79a3fef5ad90e23463bfcd,
    Sqr 0x1ffc1fc590ac9e90b3ab57e12bae2a 0x8d81ec10c2b07104fd00b6d5fa34baef,
    Sqr 0x682b62302bf541b60482d5aac4e2c0e2 0x2674cb69426e8689ff1bdc2c042e6f] = Some (0x413c50a274623da4fe15910c, 0x2674cb69426e8689ff1bdc2c042e6f)"
  by (simp only: pow_chain_simps)

lemma pow_q128_r17_12: "pow_chain 0x100000000000000000000000000000000 0x3fc56b4d2c19bbe65fa3273340678f97 2 0x413c50a274623da4fe15910c 0x2674cb69426e8689ff1bdc2c042e6f [
    Sqr_mul 0xf62fd4ec4d4bbe24fa68a9bfa29 0x65a5b42ad51be06c8a4b2cbf11049d71,
    Sqr_mul 0x6b7fa74db5b0d0923fdd026a60a136f2 0x7f8dc8f036f464526af09ec144de2e80,
    Sqr 0x54a37cec79c441d432cb3dcc188f4bfb 0x835b7a87e4db7c1efa87704a8866460d,
    Sqr_mul 0xb385e4c2ee778b732e669929b51ff515 0x7e03a4c4545e580e53d2ecb1f64183b5,
    Sqr 0x529b940478bf7359bd57a431e63fd562 0x7254a88d616a1955b1f094c7d3f358c7,
    Sqr 0x43ffee2cb89a87f35e0dfab5ceb88b2f 0x571c60c423fffdb72d98cb2a7715c46a,
    Sqr 0x2779b08e43260c04c5a8f5d0912c7fc1 0xa855da79e076bdd1ff4eafa47f59a5bb,
    Sqr_mul 0x126d2d56c79dcf936cfb3c976ab7a8482 0x2bf3572351a978af201118f2c837f3e0] = Some (0x413c50a274623da4fe15910cd1, 0x2bf3572351a978af201118f2c837f3e0)"
  by (simp only: pow_chain_simps)

lemma pow_q128_r17_13: "pow_chain 0x100000000000000000000000000000000 0x3fc56b4d2c19bbe65fa3273340678f97 2 0x413c50a274623da4fe15910cd1 0x2bf3572351a978af201118f2c837f3e0 [
    Sqr_mul 0x1418efc80b2896e7af9d77909555294e 0x7fde159d5df0eb0fd3cddf652ad5f702,
    Sqr 0x550e2f51ba6f6ea6a8ce0b9cec1b6ed0 0x13fdea6c87f15bcb04816b15cc6d68b4,
    Sqr 0x21443cbb2f1766212ffdeccadf3a7dc 0x470706a361932d390588cee2731aa554,
    Sqr 0x1a3e85f4370425274907c5f63fb1bf42 0x396f364e3efe6a85ecdc95edc711117e,
    Sqr 0x11290c4df7dea006100bd75b1437e14d 0x8f57669dc1e207d27fc938cb41b8e16f,
    Sqr_mul 0xd5c62288cdab52a72cde6d04feb8bbb8 0x1b7da8ba60a04f49265e2d375f031dca,
    Sqr 0x3ee769d63131cec66d4a434eec4810c 0x601c5e312c70f3e8c301484128053578,
    Sqr 0x300db9059997283c6d4ed7c00aaa2f9b 0x701473b54db70a9eb8b7bf3ce43191ad] = Some (0x413c50a274623da4fe15910cd184, 0x701473b54db70a9eb8b7bf3ce43191ad)"
  by (simp only: pow_chain_simps)

lemma pow_q128_r17_14: "pow_chain 0x100000000000000000000000000000000 0x3fc56b4d2c19bbe65fa3273340678f97 2 0x413c50a274623da4fe15910cd184 0x701473b54db70a9eb8b7bf3ce43191ad [
    Sqr 0x41594398792100669364624a35c602bd 0x23ac68c78f30cf7c8df9abfdec7d9f64] = Some (0x8278a144e8c47b49fc2b2219a308, 0x23ac68c78f30cf7c8df9abfdec7d9f64)"
  by (simp only: pow_chain_simps)

lemma pow_q128_r17: "pow_mod 0xc03a94b2d3e64419a05cd8ccbf987069 2 0x8278a144e8c47b49fc2b2219a308 0x23ac68c78f30cf7c8df9abfdec7d9f64"
  using pow_chain_correct [OF pow_chain_correct [OF pow_chain_correct [OF pow_chain_correct [OF pow_chain_correct [OF pow_chain_correct [OF pow_chain_correct [OF pow_chain_correct [OF pow_chain_correct [OF pow_chain_correct [OF pow_chain_correct [OF pow_chain_correct [OF pow_chain_correct [OF pow_chain_correct [OF pow_q128_r17_0 pow_q128_r17_1] pow_q128_r17_2] pow_q128_r17_3] pow_q128_r17_4] pow_q128_r17_5] pow_q128_r17_6] pow_q128_r17_7] pow_q128_r17_8] pow_q128_r17_9] pow_q128_r17_10] pow_q128_r17_11] pow_q128_r17_12] pow_q128_r17_13] pow_q128_r17_14] by simp

lemma pow_q128_s_0: "pow_mod (0x100000000000000000000000000000000 - 0x3fc56b4d2c19bbe65fa3273340678f97) 0x23ac68c78f30cf7c8df9abfdec7d9f64 1 0x23ac68c78f30cf7c8df9abfdec7d9f64"
  by (simp add: pow_mod_def)

lemma pow_q128_s_1: "pow_chain 0x100000000000000000000000000000000 0x3fc56b4d2c19bbe65fa3273340678f97 0x23ac68c78f30cf7c8df9abfdec7d9f64 1 0x23ac68c78f30cf7c8df9abfdec7d9f64 [
    Sqr 0x69ec698296058c6ed8914bf66049908 0xaa14df4df0b76191a5848cc2bb4f1ac8,
    Sqr 0x967c6394c31e488017dd55a400488778 0x9153282a0de15bfc706ca48ae9f92c08,
    Mul 0x1af817f579790550ba7ab999b697c5c1 0x542dbb49d29759a66268e85c53399ef7,
    Sqr 0x24dccf8489816e618204e2060c2a3769 0x7e774b8f49720e71999989b2a3cd2840,
    Mul 0x177825daa1759a02fdb6868619041bcb 0xa333c9aa0191e0c17ef030290b0342bd,
    Sqr 0x8a8f0b3096a05bdfdb6acafcbd2cd1c1 0x1a37c984da2753c28e0cf2fc23158760,
    Mul 0x4dd8fa77fdebb40f9ed43e50f38f96d 0x1966713f88a22e41ba1a1213162783cb,
    Sqr 0x35b33558838af45601c200dac8993b6 0x52e5f7d85b795c093e796fdddc962d53,
    Mul 0xf62557ae9c20a586542cdd5c335bb13 0x7913514e01c3eabfa283d61c432d36a1,
    Sqr 0x4c426bf65f5f4bdd7e707712767d5ac5 0x394af79918617e998ec279403529e674,
    Sqr 0x11136a869ed2bc8478508b20736d00e4 0x230808773d22285706d00d65fd23870c,
    Sqr 0x66250c7613e1ea847bb5c55a0620288 0x971519ae79db6760d4b391954a771ec8,
    Mul 0x1c09a0140c51f501a5675820e63a9f2f 0xa55ecb54d272450626c24c84d1b663d9] = Some (377, 0xa55ecb54d272450626c24c84d1b663d9)"
  by (simp only: pow_chain_simps)

lemma pow_q128_s_2: "pow_chain 0x100000000000000000000000000000000 0x3fc56b4d2c19bbe65fa3273340678f97 0x23ac68c78f30cf7c8df9abfdec7d9f64 377 0xa55ecb54d272450626c24c84d1b663d9 [
    Sqr 0x8e43b44fe5304c9fe0b36e29a2cc9517 0xafd494ea764629938bff376c7bb25782,
    Sqr 0xa0d4b35a1cb5f5cdb7a84c130bcca3e6 0x42ebc4f4685ca9c0ae63a9f9717dc4ae,
    Sqr 0x174c1d386ae643e926aedc4b3bb69ad2 0x801b619d16cdfd91d54c15a548b58622,
    Mul 0x17c61b4fa15635414ee669007a53dee5 0x21c183982bbfa78279c4e850eaeee75b,
    Sqr 0x5ed7948028d27f68e2169be6f199525 0x7a301d840c3135c85a23581b6e92fe2c,
    Sqr 0x4daad47a6135fa65e072d363249794fb 0x9f98ff82267466c3c2191e44a9296c9d,
    Mul 0x1d9e2aaef9311e667e07cd9d86ce1b93 0x30f250c5e4b69e0da1ad64b9106b5109,
    Sqr 0xc768cbd309005d5de74496b683b7053 0x5294239a4cfb0f6d1f4edd3b975f5046,
    Mul 0xf5325f1991bc9000f9bae6f2f1aeb2d 0x9f9df630dadf13872460af7fbf9eafe3,
    Sqr 0x8489b1783f0775270a8a7d19927cd99f 0x603ef01af1a4f0d7856d745c3395112,
    Sqr 0x303050d1fa4519ade410acb14b9237 0xb1d9d5213640aeaea00856dafe115cb5,
    Mul 0x210157c0361fcfb67cabaf711876bdbb 1] = Some (96557, 1)"
  by (simp only: pow_chain_simps)

lemma pow_q128_s: "pow_mod 0xc03a94b2d3e64419a05cd8ccbf987069 0x23ac68c78f30cf7c8df9abfdec7d9f64 96557 1"
  using pow_chain_correct [OF pow_chain_correct [OF pow_q128_s_0 pow_q128_s_1] pow_q128_s_2] by simp

lemma pow_q128_f: "pow_mod 0xc03a94b2d3e64419a05cd8ccbf987069 2 0xc03a94b2d3e64419a05cd8ccbf987068 1"
  using pow_mod_trans [OF pow_q128_r17 pow_q128_s] by simp

lemma pow_q128_r27_0: "pow_mod (0x100000000000000000000000000000000 - 0x3fc56b4d2c19bbe65fa3273340678f97) 2 119 0x800000000000000000000000000000"
  by (simp add: pow_mod_def)

lemma pow_q128_r27_1: "pow_chain 0x100000000000000000000000000000000 0x3fc56b4d2c19bbe65fa3273340678f97 2 119 0x800000000000000000000000000000 [
    Sqr_mul 0xaa76a822f9b190c09e9b91f22730 0x628385888d5c37d26a10d5131e08ed50,
    Sqr_mul 0x64f91609ea03992726bea8a4cc356192 0xbfb6b86dc26faa8301fb9ad7e8b58d1e,
    Sqr_mul 0x17e666d37fb6b46ecbd3a749d4e2ed852 0x917a957e7e5a6ad19225ca8f45e18566,
    Sqr 0x6e19332ebae37771d14b73451908d98b 0x4f21faddca23ef67a163bbe9bb791aa1,
    Sqr 0x2093615f55ec3837faaba91f340fc352 0x9deff20543a2b2bafb904f41fe5c1c9f,
    Sqr_mul 0x10386a5aa70794de3a033ac16b8232897 0x9390a635d4e2d2d92e3452fe88209f93,
    Sqr_mul 0xe28eb7104a2e5c7de6c6e636bac5afd6 0x7c6cb3e34aefc9ad2931928ec75d1e0c,
    Sqr 0x508968aebb49a4e893f3b0700bc0ad9b 0x9fea05ad672bcdfb7a43ad5aa93bcbfd] = Some (30694, 0x9fea05ad672bcdfb7a43ad5aa93bcbfd)"
  by (simp only: pow_chain_simps)

lemma pow_q128_r27_2: "pow_chain 0x100000000000000000000000000000000 0x3fc56b4d2c19bbe65fa3273340678f97 2 30694 0x9fea05ad672bcdfb7a43ad5aa93bcbfd [
    Sqr_mul 0x10a103fa7d84a00af9d57a83a2ec02303 0xe3ffa4e7b31b1e65265c376236ac3d7,
    Sqr_mul 0x21cd94ac9beea4903a55fd2f1559bd3 0x69ff8c90e6bc0b4d9f0fef39b9294397,
    Sqr_mul 0x74e6011209275194682eedbd8e9bfdd5 0xb044ee5baa88162d9429ed498dec79c5,
    Sqr 0xa1a27ccde20e9a433f2f0377c22532ce 0x967981a736750881e2d068b8fb57db1b,
    Sqr_mul 0xeb946e558fa194695d9d97cc230cfb21 0xbb157b7118186b58346c91cc6af8f929,
    Sqr 0xb613a29471b937ecb6b4fef6073ed9ee 0x735a66c7e6a802f8a595ca2b368145f3,
    Sqr_mul 0x8a715894ffa34b2007d2d03d27682456 0x6cd9a536795954ef46bdc50bb559420c,
    Sqr 0x3da30244e01c875198ff2149cc1c34f8 0x2561843314db96c0dce6d9166b63f6d8] = Some (0x77e6ea, 0x2561843314db96c0dce6d9166b63f6d8)"
  by (simp only: pow_chain_simps)

lemma pow_q128_r27_3: "pow_chain 0x100000000000000000000000000000000 0x3fc56b4d2c19bbe65fa3273340678f97 2 0x77e6ea 0x2561843314db96c0dce6d9166b63f6d8 [
    Sqr_mul 0xe89c9694fd5c93008027119ca951068 0x10c6c101aea72e51f3b8aa2e2e1671d8,
    Sqr_mul 0x2eda1c61fc5fa8c50c568570d042baf 0xa96b2670787ac30be00989171cc651b9,
    Sqr 0x9550a3779777538e5ecd0a59416c580f 0x650a810d70f77ea50be2df8a4663e98a,
    Sqr_mul 0x6a385d67ea7195a4eb4fc8ec46f11b65 0x218961195e44f8bb86ce27f4a7b8905b,
    Sqr 0x5d9d2ad269d0a454eb2784e68571fbd 0x36f5731114991c4f7dc7dc0ac95fcbd4,
    Sqr 0xfb67f3477b3e44ca7f0a68e696dc099 0x1ce8bd177f7d16212713322a0d82f8cf,
    Sqr 0x458fdb09aa9cc1a486d5301b3e1048c 0x7dd1c63a7821cffc2cc5d63e49a599f5,
    Sqr_mul 0xa4b47ddbc2e79c7430e34382df84b243 0x9eef615ef91648f65a48d78d889f1b77] = Some (0x77e6ead1, 0x9eef615ef91648f65a48d78d889f1b77)"
  by (simp only: pow_chain_simps)

lemma pow_q128_r27_4: "pow_chain 0x100000000000000000000000000000000 0x3fc56b4d2c19bbe65fa3273340678f97 2 0x77e6ead1 0x9eef615ef91648f65a48d78d889f1b77 [
    Sqr 0x836862bce6234c357a214b2050e0fec5 0x44e9c9013b7271bcce247edbb50da284,
    Sqr 0x18b48161a65bca77c190d3d941f8f4e9 0x751cc11a162d701aef68a93054f8f07f,
    Sqr 0x47594ac057993f74fa84e3b6c69d5a5c 0x65b9cbdea588ebceb6bddb81974c0f45,
    Sqr 0x35d5158db9f80f1f0b1a155f2cf56867 0x20355c222f0384392b4ff5c2d364465a,
    Sqr_mul 0xacb100c1aa620fba13b40a4b620129d 0x895deda90d38166fc87be07dfc65ce3,
    Sqr_mul 0xc453365f2d253da614f5ff015344db 0x41e8ffd3145cf12918b869625560d4bf,
    Sqr 0x16994d7d32cfc9e2490809c604811717 0x704c847c622cc494599192bee4585e12,
    Sqr 0x419ab4da08a8ea81b75a2d11d6b4ecf6 0x96a2e9390ebaf8043c888a486b00685e] = Some (0x77e6ead10c, 0x96a2e9390ebaf8043c888a486b00685e)"
  by (simp only: pow_chain_simps)

lemma pow_q128_r27_5: "pow_chain 0x100000000000000000000000000000000 0x3fc56b4d2c19bbe65fa3273340678f97 2 0x77e6ead10c 0x96a2e9390ebaf8043c888a486b00685e [
    Sqr 0x760b128a689e5372c957f379ddf0ed24 0x3990225a26e6e76857cb555ea59b7ec0,
    Sqr 0x113cbe3b67381f00b73414ec7396395a 0x823491cdcc63062c53670394e61caa16,
    Sqr_mul 0xb0635663e66845b41a123b79463e7d68 0x45b95831ed25ce751f73ed8627638420,
    Sqr_mul 0x329465f3b4bdef8385875ba9370c1eff 0x3ab2d7963642debdaea4dededff1c169,
    Sqr_mul 0x23d921a69af2639ebba6e5adc7ea7b5b 0x9166d97736439d37a36f4d39977691cf,
    Sqr 0x6dfb5674740dc94ba4c9db6b51eddf7d 0x30cb0f4c6903efd07bf3e9a74e50cb1c,
    Sqr_mul 0x18c52e10241511585478322174c9ed3b 0x45349802611c782924fc91e026a6b8ed,
    Sqr_mul 0x31d4833483314759f04fbe87ea58c4d0 0x9db81766d43fb7a12733b6e369df5d82] = Some (0x77e6ead10c3b, 0x9db81766d43fb7a12733b6e369df5d82)"
  by (simp only: pow_chain_simps)

lemma pow_q128_r27_6: "pow_chain 0x100000000000000000000000000000000 0x3fc56b4d2c19bbe65fa3273340678f97 2 0x77e6ead10c3b 0x9db81766d43fb7a12733b6e369df5d82 [
    Sqr 0x81679b4312e97470358a2b977846736a 0xb509415aab9ee89013a221fcea4fff8a,
    Sqr_mul 0x154fd87fd8e83b35067218484f1ff3919 0x5b6c6bede489fd912a3cd03983ff1187,
    Sqr_mul 0x56f6295b14f565982b6897a6e54b8481 0x9e3f39c4d28a04a7480f4d202ac0a179,
    Sqr_mul 0x1048b73e2a8d1bce8278adff9e6487bfe 0x51b339e70423412fc66cbc2953e8db34,
    Sqr_mul 0x45728fec1a498a3e49c00a58c7128880 0x6be82c99af329c60ca5deed9359208a0,
    Sqr_mul 0x792573cae31aa6e265e68dc7ed0585d3 0x78100d23bb177496cedbaf49a97c9475,
    Sqr 0x4afd3089d9818e762d1cebc4c04a8fc6 0xa835e97565db8cca383a22370c63e543,
    Sqr_mul 0x12662fd7bd1bbad2181cc301b7de86bc0 0xbd2ab3ddfcb7f704f60dcc640cdad52] = Some (0x77e6ead10c3b7d, 0xbd2ab3ddfcb7f704f60dcc640cdad52)"
  by (simp only: pow_chain_simps)

lemma pow_q128_r27_7: "pow_chain 0x100000000000000000000000000000000 0x3fc56b4d2c19bbe65fa3273340678f97 2 0x77e6ead10c3b7d 0xbd2ab3ddfcb7f704f60dcc640cdad52 [
    Sqr 0xba274f90aae6f7d3870920a579bd6c 0x6ecf6d3f2b40d864a515594adcbdfcf8,
    Sqr 0x3fe065591b06b007eba5a6e3c69579ce 0x2a1d8a577c32a4259a7a5e12e3401ac2,
    Sqr 0x93a205d473f37367abd3faa24bdd2e4 0x591fd3ea518a0cde1e3f8f2ffe4cbb80,
    Sqr_mul 0x52a481c780f3eeffa84d9ae815bfa2d2 0x195f7beee1c9c00ad75481d39d22d7de,
    Sqr 0x3595cd672f83626e86469f89cf7e857 0x1cc72104b7d3f66a4a0062f4a50248d5,
    Sqr_mul 0x89dcf4b651b13dd31153f382263eaf1 0x447dfa7bcfe2013d1820b324743c3599,
    Sqr_mul 0x30cee3df25c27116f81a21065d100676 0x5dd773753aa1cf7a10d20ed6976b247c,
    Sqr_mul 0x5b9f5ecc01fac9b75f2ef529d3f6d951 0xb42c6b6f927d39abe38edc3f334ba5e7] = Some (0x77e6ead10c3b7d17, 0xb42c6b6f927d39abe38edc3f334ba5e7)"
  by (simp only: pow_chain_simps)

lemma pow_q128_r27_8: "pow_chain 0x100000000000000000000000000000000 0x3fc56b4d2c19bbe65fa3273340678f97 2 0x77e6ead10c3b7d17 0xb42c6b6f927d39abe38edc3f334ba5e7 [
    Sqr_mul 0x151bf9aa5b18769f9a13663187be2b404 0x56089c61e60f0c75d23bf2f5789d973e,
    Sqr_mul 0x4d0299dcea823543a6d2606e24c4e6b1 0x1c1a20a64fc5601a1181ff9bb504576f,
    Sqr_mul 0x8376db738ae2c37f8c435f56ea1d626 0xbbc8e82136457487f7f3a508f007ceac,
    Sqr_mul 0x16ee31163743d2cfc5d84345539a20655 0x866cf2d05b2c6e8a8540ee2a34d0be43,
    Sqr_mul 0xbc01ef4ed53ec2b2e1a83301d1d6a4ee 0x1b0165d64b515cf160a341456c0d4574,
    Sqr_mul 0x79678a395e9185455c39781ab0a7e6e 0x6c093ceedbda94b96dd146691f517e02,
    Sqr 0x3cb7de6d073451b35b3ec329b233bc09 0x135dabd28ba9cf9cfee72ada6175e853,
    Sqr 0x1f374a6abea66e162cf132d01f08409 0x2db60fb623c215f6272482ecf2f27338] = Some (0x77e6ead10c3b7d17fc, 0x2db60fb623c215f6272482ecf2f27338)"
  by (simp only: pow_chain_simps)

lemma pow_q128_r27_9: "pow_chain 0x100000000000000000000000000000000 0x3fc56b4d2c19bbe65fa3273340678f97 2 0x77e6ead10c3b7d17fc 0x2db60fb623c215f6272482ecf2f27338 [
    Sqr_mul 0x15bd65f3f6d71e823ab75c6be4956b25 0x51f7bd144faffe88cad44017a559653,
    Sqr 0x22f39d3330a2a8e1dd6100918fa6ad 0x57650db1fa8192aadeb6871db0d451f4,
    Sqr 0x27bbaa22a522d9aa7d6b257436f43926 0x76312c074fffea80c7cae36caaa03ffa,
    Sqr 0x48aba693d917a5cc7c399af48d134681 0x32c23836e181638bf9d6d859a924a53b,
    Sqr 0xd672add4a7ce777f8d0e38fabc02e7d 0x628530093d9968fd4dbac8f465db5a54,
    Sqr 0x327e402ef5eff059151760cdae327a2f 0x2e24afb8619ec4be59a17431ce867e49,
    Sqr_mul 0x16271ec6fe42af29aec502706bfb601a 0x664eeef41ab68c6342cc15a923da16f8,
    Sqr_mul 0x6ce6c2a0938f1bfe91c780df18eec64c 0x788c18397d04a4f517cc3053bf0e8b54] = Some (0x77e6ead10c3b7d17fc83, 0x788c18397d04a4f517cc3053bf0e8b54)"
  by (simp only: pow_chain_simps)

lemma pow_q128_r27_10: "pow_chain 0x100000000000000000000000000000000 0x3fc56b4d2c19bbe65fa3273340678f97 2 0x77e6ead10c3b7d17fc83 0x788c18397d04a4f517cc3053bf0e8b54 [
    Sqr 0x4b9873e6edf7047c38669615bbdbdf0a 0x5e1df1f677b694f1558ba2bbe517876,
    Sqr_mul 0x5c293a056c3ca8890b9d6543551063 0x96777eb6b5f71ede9ce10c23c9dea42d,
    Sqr_mul 0xeb8e220533ffb92aac6008d0e5e43dc0 0x14bad34e7c3084887b54f6a2930a0c12,
    Sqr 0x23c48898957ab6807e9ddc17e8d1e74 0x4b4ecd4969a8f2ab00193b5c57e573b0,
    Sqr 0x1d80b0551033f86e6b3d3c54a32e8599 0x894c92eb0e1b3e5fb811b760ac7dd3f,
    Sqr 0x6210cf2d501ab40bb0db78946a31d7 0x46866adf339ee45a030a3a724d235452,
    Sqr_mul 0x33bfa36db222e075f50df58bf643e374 0x479a7fad0483167a04f41baaae28c9f4,
    Sqr_mul 0x3557e44d25446d901ff6305a4e7bce6c 0x5f878a34f75677bc59d0643957eb36d4] = Some (0x77e6ead10c3b7d17fc8363, 0x5f878a34f75677bc59d0643957eb36d4)"
  by (simp only: pow_chain_simps)

lemma pow_q128_r27_11: "pow_chain 0x100000000000000000000000000000000 0x3fc56b4d2c19bbe65fa3273340678f97 2 0x77e6ead10c3b7d17fc8363 0x5f878a34f75677bc59d0643957eb36d4 [
    Sqr 0x2f7959b0f891f70975027c14df416d57 0x9dff3c7cfb43b2c76d58d2ccc6a236e1,
    Sqr 0x81dc74631946a13033644522ba442b24 0xbc9b94c98ac0448fc7c02c2fda523ffd,
    Sqr 0xb90e0b3775c5fd5e843737c13af942bc 0x772bcf6a8a11db1e089d73a5d103e0ed,
    Sqr 0x49e123362fd661f98650f9cf13fd37b9 0x1749c0495ccae235b5c6dbcded18d088,
    Sqr_mul 0x5a48165f13d0957328d2aa485fd8c00 0x922b3da3845a2d7744997a8e247c2480,
    Sqr 0x6f2538d2fd9abdef12514e5d8865a04b 0xb203ad9a35dc6042197c1bad7dcb13d,
    Sqr_mul 0x149b3b648990d441284a1844d2563be 0xb1e2892341b89777126b4d292851c824,
    Sqr_mul 0x14938fd6803fbafc90c6c74981017388b 0x4f20ff9c12fabf682c1f4740fcb5891d] = Some (0x77e6ead10c3b7d17fc83630b, 0x4f20ff9c12fabf682c1f4740fcb5891d)"
  by (simp only: pow_chain_simps)

lemma pow_q128_r27_12: "pow_chain 0x100000000000000000000000000000000 0x3fc56b4d2c19bbe65fa3273340678f97 2 0x77e6ead10c3b7d17fc83630b 0x4f20ff9c12fabf682c1f4740fcb5891d [
    Sqr_mul 0x41252506c6f38b40f465a8261637ba53 0x35f822e5afab1d9adeb72dc27c3c5e87,
    Sqr 0xf26f472ff57fb596c18f3a5b1223c9e 0x9e9a23cf3231ab6cec738280b8cf6e63,
    Sqr_mul 0x105b728ad0fb90208cc0b21f771d3004f 0xa19105f3121ff6e5dabf71c2e7d0c42b,
    Sqr 0x87cb8b871c1cf8ac9a141fe65f655048 0x464f5a7debb55f33f27dfca1fc471b1,
    Sqr 0x19b77a1ad96ddec88b1ef7bdd182b2 0x1057bdf433f730018c6e82323bb9415f,
    Sqr 0x163b090c5717648e031324466b98322 0x3dfa0b72ac4474248036ce39d059b84f] = Some (0x1df9bab4430edf45ff20d8c2e8, 0x3dfa0b72ac4474248036ce39d059b84f)"
  by (simp only: pow_chain_simps)

lemma pow_q128_r27: "pow_mod 0xc03a94b2d3e64419a05cd8ccbf987069 2 0x1df9bab4430edf45ff20d8c2e8 0x3dfa0b72ac4474248036ce39d059b84f"
  using pow_chain_correct [OF pow_chain_correct [OF pow_chain_correct [OF pow_chain_correct [OF pow_chain_correct [OF pow_chain_correct [OF pow_chain_correct [OF pow_chain_correct [OF pow_chain_correct [OF pow_chain_correct [OF pow_chain_correct [OF pow_chain_correct [OF pow_q128_r27_0 pow_q128_r27_1] pow_q128_r27_2] pow_q128_r27_3] pow_q128_r27_4] pow_q128_r27_5] pow_q128_r27_6] pow_q128_r27_7] pow_q128_r27_8] pow_q128_r27_9] pow_q128_r27_10] pow_q128_r27_11] pow_q128_r27_12] by simp

lemma pow_q128_d27: "is_prime d \<Longrightarrow> d dvd 0xc03a94b2d3e64419a05cd8ccbf987069 \<Longrightarrow> 0x669b171 dvd d - 1"
  using pocklington_factor [OF prime_107590001 _ _ pow_q128_f pow_q128_r27, of d "0xb0db0609faeea74532ac512da850b227" "0x39052d42706f6ebb37eeac926c44f4b9"] by simp

lemma pow_q128_r23_0: "pow_mod (0x100000000000000000000000000000000 - 0x3fc56b4d2c19bbe65fa3273340678f97) 2 111 0x8000000000000000000000000000"
  by (simp add: pow_mod_def)

lemma pow_q128_r23_1: "pow_chain 0x100000000000000000000000000000000 0x3fc56b4d2c19bbe65fa3273340678f97 2 111 0x8000000000000000000000000000 [
    Sqr 0x553b54117cd8c8604f4dc8f9 0xeb6ad1352ac2e74720750405653a1df,
    Sqr_mul 0x2409e28bf766c70b49b27b0dcb58615 0x3967bd2e7d68db030918381295351e5,
    Sqr 0x1124956203d1c17363f54b98246cb6 0x7742959bd0e2f3d2b3004fcde2208033,
    Sqr_mul 0x93fac564d2d911229e2e6b9e391ee698 0x4a5852de6268e79309550de96d16fffa,
    Sqr_mul 0x39819aa98791a6a7328aa3fce666911c 0x8b5e1beb32c8f60815d5653e59aa3bcc,
    Sqr 0x650af252d115c79fe9c2d513f2a8982d 0x8e3492d4a1012d86e79284bf1975901b,
    Sqr_mul 0xd2661d5ec11757aa706a8e27cbb5caaf 0x6d033f2caa1ba28ee9719fc9a07413eb,
    Sqr 0x3dd2286ba5ebb520670b5194d1c408ab 0x7f47bfb286cdb371a9dded9d46ca5b96] = Some (28506, 0x7f47bfb286cdb371a9dded9d46ca5b96)"
  by (simp only: pow_chain_simps)

lemma pow_q128_r23_2: "pow_chain 0x100000000000000000000000000000000 0x3fc56b4d2c19bbe65fa3273340678f97 2 28506 0x7f47bfb286cdb371a9dded9d46ca5b96 [
    Sqr 0x5446a478118bf6ad69f14eb753e39a56 0x8562e54698abe46b1cfdb24fe88c0e9e,
    Sqr 0x5c8e4de97e08d233945b976aa179bc9d 0x2281fb35104815d6e422aa23bffa9d1f,
    Sqr_mul 0xc63a4e6720b15ca96f582dcde8e9472 0x14180373222f74fba5d5ce542ad950c0,
    Sqr 0x219b4ff113f3db23e5044f91bdf84fe 0xbcced312f3b1da14ecd423424d4be3d2,
    Sqr 0xb972a738aa4cfd964d021d2dddc94504 0xd61a7dba3c12f44c2e5fcc9fab09a0,
    Sqr_mul 0x1dcef48db09813bda074cb546ee2a 0xb91cffbdb1780dee0a8a96916ff38c6,
    Sqr_mul 0x16485b097d333105dff8f290b804430 0x681ec152af9d6848d71fab1a3c257a98,
    Sqr_mul 0x70caed65a4827939c9fab1c82290e8f7 0x6027b9dcfaed381061a3f0c3a646d731] = Some (0x6f5a27, 0x6027b9dcfaed381061a3f0c3a646d731)"
  by (simp only: pow_chain_simps)

lemma pow_q128_r23_3: "pow_chain 0x100000000000000000000000000000000 0x3fc56b4d2c19bbe65fa3273340678f97 2 0x6f5a27 0x6027b9dcfaed381061a3f0c3a646d731 [
    Sqr 0x301915414d81f5a5d99785ee8894e4b1 0xc152f5dbb94268b6b4f98a8ee781ac8,
    Sqr_mul 0x184d9dff1813063dd27b907b7386d49 0x97f4a37702e68aeb2e198bc0cc4db58f,
    Sqr 0x781eb285bdd89d2a84bf16d3c792d658 0x70e2cc555e212189c334720a9b891bc9,
    Sqr_mul 0x849580bd572202f90a30862b6b42bc16 0x16a6e4c6a31bb1f2ac080f580493429c,
    Sqr 0x2ab5501f18d85dce72378995b0a93b8 0x1309d2e59027df9049658a317b45b898,
    Sqr_mul 0x3c56898f1680a33300a6a3cae5d41bc 0xb0a2739d2104c29f7fcafcb791737e64,
    Sqr 0xa24e2d6cf3c63463ca30e8379d98febf 0x92d7938f31b7140c07a52761bea28ab9,
    Sqr_mul 0xe057d1faa22b28ec9c5d09f102b8fda2 0x1fa07872c531b46ec17b616b6f990bf0] = Some (0x6f5a2755, 0x1fa07872c531b46ec17b616b6f990bf0)"
  by (simp only: pow_chain_simps)

lemma pow_q128_r23_4: "pow_chain 0x100000000000000000000000000000000 0x3fc56b4d2c19bbe65fa3273340678f97 2 0x6f5a2755 0x1fa07872c531b46ec17b616b6f990bf0 [
    Sqr 0x5341694f36bab8f331ca80261bd27c0 0xa44177dda5527d94006424c4b3753340,
    Sqr_mul 0x118b4e0d0bcd215dd5a954aa7f671490e 0xe168e0447e455107deb30044ec80942,
    Sqr 0x10851619f7032c54010fde50cf18337 0x888bd2d1f66525170b805b46c556d375,
    Sqr 0x60fe3892e0830c543744e5ab60f1cc5b 0xcf18df30f6b2d07204ccb9f0ba97226,
    Sqr 0xdf1d916a870b3b195d6cb532b65afb 0x3ad9749179b00486a306c07e4e70bcb1,
    Sqr_mul 0x24085afe7fb7bb0fbaa750656c1ca8a9 0x922d368cee45fdff95215b4ee705c771,
    Sqr_mul 0xde50716898eb4f5e1bbce756643ee6e6 0x893f4f957396f35ccc7968a552346b6c,
    Sqr 0x61fdddde52559a59ffb32ab93ce19bdf 0x6420c3ab4c295fa43c51713466d0f719] = Some (0x6f5a275546, 0x6420c3ab4c295fa43c51713466d0f719)"
  by (simp only: pow_chain_simps)

lemma pow_q128_r23_5: "pow_chain 0x100000000000000000000000000000000 0x3fc56b4d2c19bbe65fa3273340678f97 2 0x6f5a275546 0x6420c3ab4c295fa43c51713466d0f719 [
    Sqr 0x3427926677204c3f74508b69d8cd2a08 0xb83dce04adbf80c7d2b01bd1c7d78329,
    Sqr_mul 0x1612bfc0d27f333840b5080498cb817a8 0x2d890af8455bdb521908d802fa86c53a,
    Sqr_mul 0x1592a8e7e6db82c1e4e158b73735d413 0x1ff30818e13c2ad09090667f6730567d,
    Sqr_mul 0xa9ec99fdd75a8e243712f80b655abdc 0x9006ad10c3fb19d2b7312886d13cb4d6,
    Sqr_mul 0xd7d22e5ac8803c1330a66f816387d10a 0x3dc3bf53c7b0b4d2eeabf2358e0228ae,
    Sqr 0x13d87063572ff81282586e8105df0164 0x38ec093a5a922090339c159248bb8440,
    Sqr 0x10db0301f6d6ffc4ad7e5c4b3184aa6f 0x3cc7fc8e814e648e1f09c1db1cef9879,
    Sqr_mul 0x266fe212c81c2627b005b7d7156780b7 0x3860bf45868b628b46eccc57040ff753] = Some (0x6f5a27554679, 0x3860bf45868b628b46eccc57040ff753)"
  by (simp only: pow_chain_simps)

lemma pow_q128_r23_6: "pow_chain 0x100000000000000000000000000000000 0x3fc56b4d2c19bbe65fa3273340678f97 2 0x6f5a27554679 0x3860bf45868b628b46eccc57040ff753 [
    Sqr 0x1088ea28e5db45305920392edfcc70e9 0x5136406b043e6a47fc29f1b365130558,
    Sqr 0x224f5dcd2500a75c544f414476ee09e9 0x1b4f44fcd6aa8a896286bf2d95dc8daf,
    Sqr_mul 0x7c27a2b3fb127f1a1969df75aaf226e 0x44515c2e40cf9be938391479be2f3c24,
    Sqr_mul 0x308f61499ea18d28bfa7f22c302decc2 0x2f65edd9872296ba2ca45d53fb16ce8e,
    Sqr_mul 0x175fc36bd18bfef513ef46e72da54c6a 0x1792ba820b9269a39f60b2e2b6f6f60e,
    Sqr_mul 0x5c8160b69cb497586c903dc5e0865d5 0x3289d69633b89f012aa8046acf56dd2b,
    Sqr 0xd4974e7c0e5f63847bc25d4bcd30036 0x3d875df0dd0bf77937923a6ab5448f13,
    Sqr 0x13b1b631a1e0a64bba737a63b0cb55b8 0x1315b6921ef1f283be240fdd89e792f1] = Some (0x6f5a275546793c, 0x1315b6921ef1f283be240fdd89e792f1)"
  by (simp only: pow_chain_simps)

lemma pow_q128_r23_7: "pow_chain 0x100000000000000000000000000000000 0x3fc56b4d2c19bbe65fa3273340678f97 2 0x6f5a275546793c 0x1315b6921ef1f283be240fdd89e792f1 [
    Sqr 0x1e50fed0eb02c93b5068b7ac5849320 0x550b5edbf2ca8bd3eedd451936876ec1,
    Sqr_mul 0x4b3fd9180be5e019baa52e572a00d207 0x54edaa3d0d06c4942f7f353e538fa623,
    Sqr_mul 0x4b0b50c2e3aee31db01a1b2212db29a9 0xa68899a046502836c75650780060cb41,
    Sqr_mul 0x1208bcbf5ba488e9e0554f5bd9f8994e2 0x8ce23407c91424a938732ea27f7f5c50,
    Sqr 0x6740c02f17fb97e9664044f26b82b9c7 0x5fa15eb6d5c28aec58a08aef079c5661,
    Sqr_mul 0x5f2612d995348af7bb6f47e294220089 0x7d0376d84b72bc4a011a9e2138347951,
    Sqr_mul 0xa29a13cf12569cb0f704b29dc665bbe1 0x76b0f9abef759774f3eaf90a9646d7f9,
    Sqr_mul 0x929248fd58ec84a8dff3ba6cdd10b8ad 0x5e70514375ac2840b4c1bf5c8660f16d] = Some (0x6f5a275546793c77, 0x5e70514375ac2840b4c1bf5c8660f16d)"
  by (simp only: pow_chain_simps)

lemma pow_q128_r23_8: "pow_chain 0x100000000000000000000000000000000 0x3fc56b4d2c19bbe65fa3273340678f97 2 0x6f5a275546793c77 0x5e70514375ac2840b4c1bf5c8660f16d [
    Sqr 0x2e65695fc79aa0251aacf374fe166eae 0x826d606b087d0b12728a2718807ee30b,
    Sqr 0x587eb0bbcd5b8faf93de415a32eebef8 0xb150c4a730954b65f082fddb8577aec1,
    Sqr 0xa38f254ef87c561146088df0e14cf4c4 0x89f38ec4dcb05d0626c5d4e0d4b2c91d,
    Sqr_mul 0xc5ffd2c8302db0b93a85130c34daea16 0x3a3285169b959aaefb2f321dc961778c,
    Sqr 0x119e882a41e2058ca94ddc7dc4133c1a 0x351888d45f0277b29dae934bc4c6de6,
    Sqr_mul 0x1d54d5029cc7dbf8ddb77fdaab972a 0x1edae0d14bb38cbcfbfb5f18a607f50e,
    Sqr 0x4f3dcf04a66cca20f478dedf9ea341b 0xade0e0a487c115e5b100e7486c749db1,
    Sqr_mul 0x13a8f3edcfe3f91d6b10e00a9c9423eee 0x4bebfb14a4330f57d607d7cc113924] = Some (0x6f5a275546793c7715, 0x4bebfb14a4330f57d607d7cc113924)"
  by (simp only: pow_chain_simps)

lemma pow_q128_r23_9: "pow_chain 0x100000000000000000000000000000000 0x3fc56b4d2c19bbe65fa3273340678f97 2 0x6f5a275546793c7715 0x4bebfb14a4330f57d607d7cc113924 [
    Sqr_mul 0x3bf8b025f7a45c8529bc1c4a5511 0x725939f6ae00ad6ee707ffb5b645c627,
    Sqr_mul 0x880abaa8c6aede4d95e787b818f85319 0x5569205891b4808c5267bd07dcbfaea1,
    Sqr_mul 0x4be61ec4efae6a40595fa79eba7baa61 0x777196c86161b437c25ec86966df30b9,
    Sqr 0x4a37c11e8f4c27370297e59f90e46374 0x7959b2330c35cc332435191665845b1d,
    Sqr_mul 0x99365b458c07a71b056a63917c3fd5ec 0xda492d24f54262cff289303f4c544c6,
    Sqr_mul 0x1efbff8353ad01c707a9533ef0f02bf 0x55b8b7e4ac7ed9efaa5be072f5a7e1f1,
    Sqr_mul 0x4c73d588e89466f56a84e81b7b33735a 0x70070e4576ca2051f9ffdfe705ad59d8,
    Sqr 0x4149a56e88ce3cd284a7a6c22277b3cd 0x404f262e74bde3a49c56546bc6fd772b] = Some (0x6f5a275546793c7715ee, 0x404f262e74bde3a49c56546bc6fd772b)"
  by (simp only: pow_chain_simps)

lemma pow_q128_r23_10: "pow_chain 0x100000000000000000000000000000000 0x3fc56b4d2c19bbe65fa3273340678f97 2 0x6f5a275546793c7715ee 0x404f262e74bde3a49c56546bc6fd772b [
    Sqr_mul 0x2b07534b4a123c4e6fcb3ff373ff3922 0x924f7cd1434da714910f8a9e0610b380,
    Sqr 0x6f5c5f40410021ce27b2bb4d4de410dc 0x921d8068f00c59491afd3f6a0d5115c4,
    Sqr 0x6f1054dfb699ff5d3e495ca48d3026b2 0x7aa7c89646280ba90f4f0fa3ee83ff0e,
    Sqr 0x4e43409b2567e8e0ff9aa1b2b1388c34 0xb52eec3e71bc013f7d4f9eaf9608a370,
    Sqr_mul 0x1558b7c7393a5222d7bb3cbd547b271aa 0xb285acd5c281ad8e68f903d1f1d4a346,
    Sqr 0xa5caf7d155a2f701f2b48fc3b852e030 0x83543d2f0d6e2b46ed8143b0d77f4374,
    Sqr 0x59b90dba2045c71638025d92ce2d5191 0x4e21a3ed8c8cfc56d2a84c56d5800817,
    Sqr_mul 0x3f83554efb7e429432f8784254ce3d14 0xa16adde1a9a513fa79e2ab9f875316ee] = Some (0x6f5a275546793c7715ee89, 0xa16adde1a9a513fa79e2ab9f875316ee)"
  by (simp only: pow_chain_simps)

lemma pow_q128_r23_11: "pow_chain 0x100000000000000000000000000000000 0x3fc56b4d2c19bbe65fa3273340678f97 2 0x6f5a275546793c7715ee89 0xa16adde1a9a513fa79e2ab9f875316ee [
    Sqr_mul 0x10f16de54f415cdb62394972ade9a0c15 0x4734295110067b9d871524663ed365eb,
    Sqr 0x1a5feb53715920252bd0804c861e2055 0x2ccbacf0e6746b82a71cb1642ffcd2dc,
    Sqr 0xa7057f87d9673063b9a8f6150df8b55 0xa914cbd66eca2a8839bad34578b05733,
    Sqr_mul 0x1297126f992f4b86177dc5adb578f4dd7 0x88800846d60ab44694c92ba86b2a6b23,
    Sqr 0x60ed78f6d9c122cd18c45a4737efbdeb 0x31501954238900c700b1f888a95e9166,
    Sqr 0xca67ceb8bd681dafb67fe9aada85cc7 0x585b1b9b7361713c54e1721953af9705,
    Sqr_mul 0x513940e0a59625aa3604339dbdd03bbd 0x2c59888e22c4775a490a3d1eb0169bad,
    Sqr_mul 0x1476d244be10f7ef30f7c7a83b379d74 0x9018e2b550e9d36f0588f5a593b913e] = Some (0x6f5a275546793c7715ee8993, 0x9018e2b550e9d36f0588f5a593b913e)"
  by (simp only: pow_chain_simps)

lemma pow_q128_r23_12: "pow_chain 0x100000000000000000000000000000000 0x3fc56b4d2c19bbe65fa3273340678f97 2 0x6f5a275546793c7715ee8993 0x9018e2b550e9d36f0588f5a593b913e [
    Sqr_mul 0xd808c49d5c7766340daa29469ce973 0xbbfce353dfc0d544702ad014bc3085dd,
    Sqr 0xb7d725dca8507d8054d7d2078c3d7e43 0x5252a49282ec1172a5d49ac8afa1474e,
    Sqr 0x23414e720fa8c4eda76125dbc2ad003b 0x4d98b32258f4bc0aec11d9c0b6e17391,
    Sqr 0x1f52ba8a894a327197567717eee7a302 0x311e8e2d9fe14f7f9d22ef48e98adc4f,
    Sqr 0xc8d1e6a78db93dba5df3fc68daff6f6 0x8a1f393f99c16c254e6eb298cb7bf57b,
    Sqr_mul 0xc67d3f2f746113a7892a4196c7f911f2 0xac6d21563b795afbbb1d75a907b15f0,
    Sqr_mul 0x13553d2a06699d56bb685fcb4affebc 0x4bbc57f2d55c1b8d918ac8278dc0c6e4,
    Sqr 0x1dd6c2d0954f6d50d30c36abdbf6258f 0x6df6dfa82b747beefd7f52e132398369] = Some (0x6f5a275546793c7715ee899386, 0x6df6dfa82b747beefd7f52e132398369)"
  by (simp only: pow_chain_simps)

lemma pow_q128_r23_13: "pow_chain 0x100000000000000000000000000000000 0x3fc56b4d2c19bbe65fa3273340678f97 2 0x6f5a275546793c7715ee899386 0x6df6dfa82b747beefd7f52e132398369 [
    Sqr 0x3ee7af559a3efaf5aee524a94b3f375e 0x43e84610493094b914c265b7453fcb83,
    Sqr 0x17fd38279f84d292bcc2df03888601ad 0x53aedf869210fdb3043e6a09b8d8a514] = Some (0x1bd689d5519e4f1dc57ba264e18, 0x53aedf869210fdb3043e6a09b8d8a514)"
  by (simp only: pow_chain_simps)

lemma pow_q128_r23: "pow_mod 0xc03a94b2d3e64419a05cd8ccbf987069 2 0x1bd689d5519e4f1dc57ba264e18 0x53aedf869210fdb3043e6a09b8d8a514"
  using pow_chain_correct [OF pow_chain_correct [OF pow_chain_correct [OF pow_chain_correct [OF pow_chain_correct [OF pow_chain_correct [OF pow_chain_correct [OF pow_chain_correct [OF pow_chain_correct [OF pow_chain_correct [OF pow_chain_correct [OF pow_chain_correct [OF pow_chain_correct [OF pow_q128_r23_0 pow_q128_r23_1] pow_q128_r23_2] pow_q128_r23_3] pow_q128_r23_4] pow_q128_r23_5] pow_q128_r23_6] pow_q128_r23_7] pow_q128_r23_8] pow_q128_r23_9] pow_q128_r23_10] pow_q128_r23_11] pow_q128_r23_12] pow_q128_r23_13] by simp

lemma pow_q128_d23: "is_prime d \<Longrightarrow> d dvd 0xc03a94b2d3e64419a05cd8ccbf987069 \<Longrightarrow> 0x6e7bef dvd d - 1"
  using pocklington_factor [OF prime_7240687 _ _ pow_q128_f pow_q128_r23, of d "0x84109eda3ae1d0866772b20b1456e44d" "0x397ded951cc0694dcdd7b28cf8586646"] by simp

lemma pow_q128_d17: "is_prime d \<Longrightarrow> d dvd 0xc03a94b2d3e64419a05cd8ccbf987069 \<Longrightarrow> 96557 dvd d - 1"
  using pocklington_factor [OF prime_96557 _ _ pow_q128_f pow_q128_r17, of d "0x275f06e520cf17b3013a76586486da13" "0x74e7283cdf390edd3e6f1d05c6cc498"] by simp

lemma prime_q128: "is_prime 0xc03a94b2d3e64419a05cd8ccbf987069"
proof (rule pocklington [of _ "0x413e46d83265fd453" 1])
  fix d assume d: "is_prime d" "d dvd 0xc03a94b2d3e64419a05cd8ccbf987069"
  show "0x413e46d83265fd453 dvd d - 1"
    using primes_dvd_mult [OF prime_107590001 pow_q128_d27 [OF d] primes_dvd_mult [OF prime_7240687 pow_q128_d23 [OF d] pow_q128_d17 [OF d]]] by simp
qed (simp_all add: upto.simps)

text \<open>The certificate of 205115282021455665897114700593932402728804164701536103180137503955397371.\<close>

lemma pow_q_r128_0: "pow_mod (0x200000000000000000000000000000000000000000000000000000000000 - 0x247d9f1a1c4b9f5b95ff77033095c5a6c928a27658892b3f25b0cc75505) 2 158 0x4000000000000000000000000000000000000000"
  by (simp add: pow_mod_def)

lemma pow_q_r128_1: "pow_chain 0x200000000000000000000000000000000000000000000000000000000000 0x247d9f1a1c4b9f5b95ff77033095c5a6c928a27658892b3f25b0cc75505 2 158 0x4000000000000000000000000000000000000000 [
    Sqr 0x89d2a000000000000000 0x1000003d2000000000000000,
    Sqr_mul 0 0x200000f48001d3088000000000000000000000000000000,
    Sqr 0x2274aa0e86b3093dbe7049113dc1cd95d9 0x3138ff07cc122c0104f90e6e2b7d458a60a9f5ba24184b48786b373fa3d,
    Sqr_mul 0xa30cccc9d3fc31c3607900a0f01ec7e2d90ff2e653adcf41c60d5d7561 0x167bcca9b875b41cb80da828a2993b28e841728223f0134ca0a04005e4f7,
    Sqr 0x110270a95d48ad55892e209ca2dd8a92931fc8077a5649a85dcbda955e0d 0x144ab2bf5e0121180008079e2441e737bb99d766cb72f47a0f10d3af0d92,
    Sqr 0xddad72a80a882e6b411754d6fc6ed82c1a6830243556f6a1075bffc906d 0x38ac6e53c80c8b97e78ed1ca3ab7e934c203a1a7fc1c241b63636f22a65,
    Sqr 0x6c12fd50a9f239fd3f3786fa8909baae5f51b7a25f44c867a292d4f46a 0x13b549ead2604147d3bff1a71ad23711795c6e542baa14f8c32d53af43eb,
    Sqr 0xd11bf29789396b6488d7722940d30dd1c7bc13d6972c495046871246f64 0x14eb950cea0a63b286e42e13926aba5d0e2da16189940fca8d58e4bd3aad] = Some (40528, 0x14eb950cea0a63b286e42e13926aba5d0e2da16189940fca8d58e4bd3aad)"
  by (simp only: pow_chain_simps)

lemma pow_q_r128_2: "pow_chain 0x200000000000000000000000000000000000000000000000000000000000 0x247d9f1a1c4b9f5b95ff77033095c5a6c928a27658892b3f25b0cc75505 2 40528 0x14eb950cea0a63b286e42e13926aba5d0e2da16189940fca8d58e4bd3aad [
    Sqr 0xeb9f08a7d9353423b0b633db06e1909fd07dd2ae3397969e140370b7405 0x14a89b436836b3ca9d8ef9fc855ed1258cb440f7785d60b988fa2586c602,
    Sqr_mul 0x1cb8796ad71f41f35ae30745896e10725177d0f54bc31dadd200f298af33 0x4cdca74794b8470e6b11ee31d1d0c3b7fb4451e842921cad4c9f24a8b07,
    Sqr_mul 0x18d91e5fc872d6ecfa83ca9853a4f808a7348fdba123346c5211692c9a6 0x1921ce98140a77dabb8c335710d640e81341e97a2f35d0d9b8cc84f542a0,
    Sqr_mul 0x2a817515db94293bf7832c033f857faaaef4263fe900a6246c0ee318331d 0x251cae456e9244e3967f9e1c6f988fcb0424dc324a747ed5a90bf2a6891,
    Sqr_mul 0x5caff682bbca5176d045d5f9db957bd2a5179e3ffa966edacd1f8083cc 0x2d0d91b3f9a5d62df5b8b6d42079b8f0c69259aa7489593626cfd6d933e,
    Sqr_mul 0x88989de5589f0c6e1c22a6476c850a1a1bd22d5e610d9299d65fb60efd 0xceb8dc4f67af60c142a1ea8b523fb53399af1323c996a668c9e5b2bd1f9,
    Sqr 0x59deb9e6743fc2a659a767f2610810abc8b6ed025e7097a447a790ab6c2 0x1d059eb5186a8b589c66fd321404fe601dec0de744c374dca99350907ffb,
    Sqr_mul 0x38ae8f9e1746930d9b69cf7b31579d904e91c12677669c283d3aeb57dae8 0x1b3ef737bddb225c17afb50fb0c0129d98ccf2bdc3ad89b2f5ef03744eba] = Some (0x9e507d, 0x1b3ef737bddb225c17afb50fb0c0129d98ccf2bdc3ad89b2f5ef03744eba)"
  by (simp only: pow_chain_simps)

lemma pow_q_r128_3: "pow_chain 0x200000000000000000000000000000000000000000000000000000000000 0x247d9f1a1c4b9f5b95ff77033095c5a6c928a27658892b3f25b0cc75505 2 0x9e507d 0x1b3ef737bddb225c17afb50fb0c0129d98ccf2bdc3ad89b2f5ef03744eba [
    Sqr 0x18fa7a9c7d7adb1cc77b3dfb1248cc82e8e8ad29c3838ea0d57b8f80d065 0x3723a2c3c13f2e76ae48c2844fbaea97ef1a00c5f44a6c448d919fe7a1d,
    Sqr_mul 0xcc9a5c1e5faa52928bf72d6bb9e7755a4ced7755f4e3dc026f5b6e564f 0xebe12dddac31de8c9cca101b169f22c78d6b3f89048744eac62a2d0391d,
    Sqr 0x75027a31e4d1262b114a2d3298fbe8163686f53271440976417bf95371d 0x6d0a4e055777a35953dca793cbef33e0fb05367f5ad9f6fa7cf0c9fa1da,
    Sqr_mul 0x3202338e95612c8ddc8259ed832675c6a0692a348c3ef4dbbc812aa3f66 0x14b5dd35fb3d81de3b12bdc97a629c6da80435f42fc296049632bae9f646,
    Sqr_mul 0x1cdd621a51cceebf19faaa58d24dbdb1bc51a5025281d1f06162393300bd 0x17cff1febe2603883c6bd3eec0b150d2be83f39b9e56f75961d65cd5faf9,
    Sqr_mul 0x26289e364f648fea3b6ea76dba8f1cfd818a072c423031245321c78be2fc 0x16de869ef8ce0b82c6d0b3d110757ed561a47202ea0d0e5fdf4bac7a74e,
    Sqr_mul 0x2332335f780e6ef674409416bcc974c6af6e25127f7fe5b826ad24baa7 0x1cbbb064ad16a1c9f251737c99abafa3bcaad90ac1d54f489eee40b7cfcb,
    Sqr_mul 0x378f36a56fd7a92580083a909a925d6e31aec3a6e5e4d7ecf72ae2062af9 0x1492104092a494dfbc1a56ab6481bdd5750b1de3ce19332e70dd03ba59cf] = Some (0x9e507d5f, 0x1492104092a494dfbc1a56ab6481bdd5750b1de3ce19332e70dd03ba59cf)"
  by (simp only: pow_chain_simps)

lemma pow_q_r128_4: "pow_chain 0x200000000000000000000000000000000000000000000000000000000000 0x247d9f1a1c4b9f5b95ff77033095c5a6c928a27658892b3f25b0cc75505 2 0x9e507d5f 0x1492104092a494dfbc1a56ab6481bdd5750b1de3ce19332e70dd03ba59cf [
    Sqr_mul 0x1c79ed580d7cae3da99a2b5d2d0897ec7f9fec3e09f5fa9b8cf3bedbb181 0xe7dd520dbc6655a34831f98eeff412e6d9e12193b7d3be58d64a81c7747,
    Sqr_mul 0xe21ecebe8863d65763e5d11652cd1668eeb30104938cacafc3613c6a80e 0xa9372d50daeacf0a9c9d0032e768607b2379789642ac10a1445a1c619a8,
    Sqr_mul 0x786f452d8b85995cd83659c4dd2b1a431e3d148caa9a92cb2d914a52f9a 0x1c54517a43d1f3e5b89d537db2cb3b4f5ffd8eb248c3b3ab90bb7da28c82,
    Sqr 0x1b0121442cb32fe8467b7961a6ba6f51b47d2f19cd37c835210096615fdf 0x189c8943dfb82cba4a4faa8fb965daf65fb4dc9e545b1c8ad9bf54bb5c5f,
    Sqr_mul 0x28c3537e6678b83faac62d2b4f4afebbfa688b7a4eb36d972c72b8bebbe9 0xefaf930a887bb0bb44ddd2cbd3ec8c19b0594a5e5009c2f537bc679df0f,
    Sqr_mul 0xf1a1f9a75f5fe0af56605af78a7a32c737e7f55ed3f742b2c82a947c84d 0x1198541f00cf80b163ad3141337fd8786bfd7d5fef8d6619d54518d5c043,
    Sqr 0xa6abe2c2b6aec8bcb04a35195b2b3ef5afde6a064d298f103d8205166b0 0x23e1b02a86454f6d40e29dd0bec1657dba9f60be485c73a8f3ecb6202f9,
    Sqr 0x2b52540effe0e661621920649accebfd909394cfaee8e814f06aef2764 0x1284989ff78daea43c2147757c720d8173ec7f4aaedfebc24f58fa28cf25] = Some (0x9e507d5fec, 0x1284989ff78daea43c2147757c720d8173ec7f4aaedfebc24f58fa28cf25)"
  by (simp only: pow_chain_simps)

lemma pow_q_r128_5: "pow_chain 0x200000000000000000000000000000000000000000000000000000000000 0x247d9f1a1c4b9f5b95ff77033095c5a6c928a27658892b3f25b0cc75505 2 0x9e507d5fec 0x1284989ff78daea43c2147757c720d8173ec7f4aaedfebc24f58fa28cf25 [
    Sqr_mul 0x1713adf9353bf5bd218dd52e6ddfd1338094ab89401fe9070d6c104b178f 0xbd104e36b9b36f23b751b8557b2f9d3a273b252f9b5372dd6df92cca77d,
    Sqr_mul 0x96582ac72bb4768558994c594fd83e22162ef3b4753280bd68e1deaa9b0 0xf050c2a672b22bd6ce8afd4538c411b8e6abe2d50d4e9d087b89556682,
    Sqr_mul 0xf2e7647c588d406ff1764b8b56376a2fdb0b71752dcdbb4d128e43e85 0x15471116a907a8550bc11ee0f5e50f49c64fb6bc25a9442b48c295a15a1,
    Sqr_mul 0x1e77ac5022da0a685f7201d9594da74fc58541c8abf2e018841d2c233f 0x377f6f1030e71a4880e862c8e65c4c0331c8303486c8eec4211259939bd,
    Sqr 0x67a2eb48a83943504cd7280241ff8c6ca78e49f707ca3935411d279ff3 0x7cf961da5e9302e634bfe44207de81385d02493c88eca17852226b68448,
    Sqr 0x20d88debaad7c52225f33908bd1beb31b62856d31c9bc03f95b67e1100d 0x1726e40dbe58ff42754de8874a4098304738e9c8ba78c6c8281f928ef581,
    Sqr 0x120928cd6684c3cb61d5d496c72e5e94c94156eb109a45b71519d0ef87b2 0x15bdc8f11877288c29ece4d367d26292d9907318df5b812245cfdaa5eb7b,
    Sqr 0xfe7ae96fdeebda623bcae3d6a1222a6a8c745c8e3d8e3358f12e4e09e32 0x18cf976bd0dddd35aec49732284699ca19df1616eb666bff22a93ef0be13] = Some (0x9e507d5fecf0, 0x18cf976bd0dddd35aec49732284699ca19df1616eb666bff22a93ef0be13)"
  by (simp only: pow_chain_simps)

lemma pow_q_r128_6: "pow_chain 0x200000000000000000000000000000000000000000000000000000000000 0x247d9f1a1c4b9f5b95ff77033095c5a6c928a27658892b3f25b0cc75505 2 0x9e507d5fecf0 0x18cf976bd0dddd35aec49732284699ca19df1616eb666bff22a93ef0be13 [
    Sqr 0x14b69108469ed3c1b6f55430e2547573d44918140199ea61be2deb248775 0x194dedb26913b43b3a5333c6b2ad995fb56d1d82ab863b48b5daa563b3b2,
    Sqr 0x158b9b61d916c1450daa7048f5973b756215ff201f38eaff9c6b55482c30 0x1e1da3f6e9b346ec1227d93e834739e319d79613ef91a3adf46283334b4,
    Sqr 0x1e847c77f3507a8e8fa36bca5ce16db9f4286399c22b2483bcc4cad2ec 0x213a7ec24812df0967c236914b5433c57a44ed80f9ea49d429e8004192c,
    Sqr 0x2526ea64f905d8c11706c9809780e042caead8c573f2cf6881e0f4f0ae 0x13bb004c7380e7fc5d7db2c478735ac5a5b438cda8899876950c3ce18f6,
    Sqr_mul 0x1a32a79729c7d15739a91c5a25c1eafdaa1eda2cec8449a6f1f7082134 0x153283f26ea9b04fbe95bfbbe83b89d96f43c3dbb3c3532f0381aa4902cc,
    Sqr_mul 0x1e3cedd8061d43f307c264f3b905af7a6b7a575d45e4e33942e6ec22d0b0 0x5547961de0bed1f5921cfc9db763cceae9edf7a6fdf94440695b5882890,
    Sqr 0xf4b5bf852969fa6c958b94c022c35a697b19ea7d27ffa0c0af9d3a78ca 0x302fc3397d9461c4acebc6d97fc1f6018fd9ab165f574d5b5f498b2bef2,
    Sqr_mul 0x9c421eca724a7a80d1febf75c7d0d805545aaaa813c3c71733673382d3 0x5ede1836c0b7b1e700de24313e179f877f31ba71b6d10f5012da25ed6a7] = Some (0x9e507d5fecf00d, 0x5ede1836c0b7b1e700de24313e179f877f31ba71b6d10f5012da25ed6a7)"
  by (simp only: pow_chain_simps)

lemma pow_q_r128_7: "pow_chain 0x200000000000000000000000000000000000000000000000000000000000 0x247d9f1a1c4b9f5b95ff77033095c5a6c928a27658892b3f25b0cc75505 2 0x9e507d5fecf00d 0x5ede1836c0b7b1e700de24313e179f877f31ba71b6d10f5012da25ed6a7 [
    Sqr_mul 0x25da8126c1a71f0781950f2111df3961552d04f0f32b761082aafcfaeba 0x167cf398f6ec74480dedc535eb456c300c5cb9ae29ae23628afc53e76d84,
    Sqr_mul 0x22085debbd94c8be4d5a1ec3acc83a756bf876d5049098ba0c9dd8af4b6e 0xc32dea2674d10902c7cd91c0e819dbb0bc4874a9131a8b9b823101d5746,
    Sqr 0x501d33171f750976720d6eb314cd09083a4da7984352cbb27dd01a8aad9 0x15b63a2d4abbb2c8feb8b6733797c7ea0c1a684c87be369f6389a7510a61,
    Sqr 0xfdca1bc29bac07ad780f817e487b57cc414bef09e7f1bd7489d6b844d89 0x13d3f340b486bd9b2559259b5932d3b0852266dc060a7c747ff7d8a0b96e,
    Sqr 0xd3a89416b20d1ac4934b461618f2bac32c9c6bf4f4592c6da60fc0eb57b 0xc029830124ee2f55c521cad2c64372912583f9b748e8e83745594f88dab,
    Sqr_mul 0x9b50070887c2f3e1e29acf2fbfbb6e1469874564fbd46609ae48bcf35c7 0x1b4779d3b2b53aa6788af9547c77009e6502555c3d1a7714a94ad03c055,
    Sqr_mul 0x32142f47ba25d6bb0595352c2c4334f4a1065adf1588d0829556e96d12 0x14c5f55dcbaa77e3ce47bc7e164ea0ec3cd555e715163a419d4ebdbf53cc,
    Sqr 0xe85282a04fb73be2b1b045fbc74c4ef5635cb404fdd31bdd42f09b89a5f 0xeca2e954c82553ad161aef9cac3ab09c92b74679ffd11c2ffb04d8b796b] = Some (0x9e507d5fecf00dc6, 0xeca2e954c82553ad161aef9cac3ab09c92b74679ffd11c2ffb04d8b796b)"
  by (simp only: pow_chain_simps)

lemma pow_q_r128_8: "pow_chain 0x200000000000000000000000000000000000000000000000000000000000 0x247d9f1a1c4b9f5b95ff77033095c5a6c928a27658892b3f25b0cc75505 2 0x9e507d5fecf00dc6 0xeca2e954c82553ad161aef9cac3ab09c92b74679ffd11c2ffb04d8b796b [
    Sqr 0x75c2fd756c67f437fb86320b85eaf4c91fde9dc1c16c14c6b20c3585a10 0x154a47e94858069487990b04d16261e1507c3685cae8d3be6a3e5ad96509,
    Sqr 0xf4070b4ee8bb5697d87d4bd7049fe249ceb4a8a95521db991a1c30e77a6 0x142726afbd68a740b14a112c04c44c88f1d2b0e89af64cc147cc2c2e8e8f,
    Sqr 0xdaa76fd238ff38b088d122671a6c526047c08da23f66b444a72e3a37ae5 0x1962706f7f0e521531725769e494d7ee9e8a7937641a24f4f072b0c9635a,
    Sqr 0x15ae96fabcf203acc20e7caf62cd1946a9ec80cc036a91300cd0cae7f53d 0x8dc2aec51505445b74c2685f1b2f526ed58085562b46f3bc7216342c6d5,
    Sqr 0x2a431aad6d20a47660e745ac6cf82629ebb0d5f6636bef4a03960eb504c 0xea290890ae0bb2124a54bb79954c4db126fc65528457ed2101ddf97fab5,
    Sqr_mul 0xe69ec9dc10b41190e1d4dcbe04b6415ad5f2e80cde8c942aeb488a0487f 0x1af3a1c2f8e1ba9ea5633a827bcb505e2fe55c9100e25b63020d4c049d6d,
    Sqr_mul 0x30e231646988a733f592fc53736b6cca085a1f492d34af2b58e4a4850f2f 0x196fccd9bab13b812f76396b93c99ba52455bc85532894ef78316e9aa7bd,
    Sqr_mul 0x2b8ae00d716f7d2918f2b954324d4a81a2936457e28ccbec19366a8cd57c 0x8e167db1bcac71194e94fa7961212802b0cc8a5b35f04236fdded9e9a7e] = Some (0x9e507d5fecf00dc607, 0x8e167db1bcac71194e94fa7961212802b0cc8a5b35f04236fdded9e9a7e)"
  by (simp only: pow_chain_simps)

lemma pow_q_r128_9: "pow_chain 0x200000000000000000000000000000000000000000000000000000000000 0x247d9f1a1c4b9f5b95ff77033095c5a6c928a27658892b3f25b0cc75505 2 0x9e507d5fecf00dc607 0x8e167db1bcac71194e94fa7961212802b0cc8a5b35f04236fdded9e9a7e [
    Sqr_mul 0x54ea43c3625206a8dfbb57b6bf2649bbe684b4243f5bfc770b660cabba2 0x17710a5d14547dcc7693863bad7455da5cbb74ceb74676fc726560b82032,
    Sqr_mul 0x24fad1ea8836d21c158da1a70ab40fe30c5491f32dcf799afdf15a915830 0x1b2df10d65c09ea7ba3880de5fd2db64358cebf1654307ad21066c47bc78,
    Sqr_mul 0x31b69ae2d3cdea2e64057b31419d8e94f1352a038b5da19bd5e813282a7d 0x11b5f66596a29bc42fad71212bbeb2ac357f2ec5e248e917080943b045f1,
    Sqr_mul 0x151be4f54fada3db6c640fad3403c2f4d3dbaa8a9e8d5cbdc37ae42b16ec 0x11ec4c59246c56abced1d5e7d82ab7f332f50527066a36c5b17b6ddf685e,
    Sqr 0xacf18ad1f762d0bc5224b5d1fea20db32c55fc1528770cc1abdc08210cb 0x1c3ca5cfb96cc67549832b5a9a9fdf9ad7e7ba9a9af688456ad88e3b3d7b,
    Sqr 0x1ad4139a8c0c39b0bfec85e2358dacf5710833d136af98fdc799bb4b7026 0xc4c70f25f8e13ab6a863f3bbc7379c28451c37cd512ce1f3d1283b5a7d7,
    Sqr 0x516e73e8fbb271dcbb3c542363b65d5d4b21fccbe883d7d10b25cfe3987 0x15d97bb64ada1f05630a7e84af2d777d9d6e67817320ae814c9314122934,
    Sqr 0x10104efe001f47255701e77044909705b922929ea14305a5081f95bc6b48 0x2f5403e5641e4cc9bc0ba2f6af42d0f4e36ad9a6b892b871bde3336b2f8] = Some (0x9e507d5fecf00dc607f0, 0x2f5403e5641e4cc9bc0ba2f6af42d0f4e36ad9a6b892b871bde3336b2f8)"
  by (simp only: pow_chain_simps)

lemma pow_q_r128_10: "pow_chain 0x200000000000000000000000000000000000000000000000000000000000 0x247d9f1a1c4b9f5b95ff77033095c5a6c928a27658892b3f25b0cc75505 2 0x9e507d5fecf00dc607f0 0x2f5403e5641e4cc9bc0ba2f6af42d0f4e36ad9a6b892b871bde3336b2f8 [
    Sqr 0x4b5ed0c5f87e8619e300aeffe32236229c3541badc2e938c9f2242102d 0x7b8f44ae97d041a360005f5847d18f33e61a44e273ebe8c26b617621221,
    Sqr 0x201b49ed1edc1b9023fa53830c6c9d10e0d709843001c60573441707535 0x1064d25a1770227a9351b74a96619b6a09bd8718ef17b6694d4006dc8b4a,
    Sqr 0x90b0f14305443b60fa05f285c7abbd4a108031c8166aa5421eaef9c4ded 0x16d61b51d362de99119f09c549bd11d9ac69fd43af9ccda73c136e21a805,
    Sqr_mul 0x23184e100696f1c2e2f664b9ec6098e6f642538f997350493e836a979417 0x153cd5bd180456acea82eef76a9a6915ad9611c8ee4f8b9ba705b223a7a5,
    Sqr_mul 0x1e5a660bf0475d44962d7252d396ebd50d60ddaa2619f8aed392b2deb9ee 0x1a835e885be567b233701d0c0d697789a9585f2fc98d69313fca93e50858,
    Sqr_mul 0x2f4e461636b09e4b4c8149f7ce5dfb04c9bf9566e89f4af83e39a8d74786 0x1625995778fba79165601139b6c9dfd6bdcc0f35149b986e6a3ea389201e,
    Sqr_mul 0x2101faedc63486f4d132bcf38805fb5ff11cc17de7db5d39bf3461fa7ddf 0x73e9df7de1d42e6e5edee1ff4c060b190d8ec0c03dcb36a3234924f8763,
    Sqr_mul 0x3883089bd0d2e9bb0e2e472205448b4cfeb626c29b62099e7ade752dd2b 0x157c8e62adc5664a9de44842c0b6311a0401e36700e0802632f87de1b969] = Some (0x9e507d5fecf00dc607f01f, 0x157c8e62adc5664a9de44842c0b6311a0401e36700e0802632f87de1b969)"
  by (simp only: pow_chain_simps)

lemma pow_q_r128_11: "pow_chain 0x200000000000000000000000000000000000000000000000000000000000 0x247d9f1a1c4b9f5b95ff77033095c5a6c928a27658892b3f25b0cc75505 2 0x9e507d5fecf00dc607f01f 0x157c8e62adc5664a9de44842c0b6311a0401e36700e0802632f87de1b969 [
    Sqr_mul 0x1f119bcfa625b73e4495ff98848041b80ceeba179849cbd5d4b53456731d 0xab642a012634a21b6339c6bee35d1f31bf4c8f67ecce29d4ee28729bab3,
    Sqr_mul 0x7b8d356e555c51ae57c431076e6a9116f9e2dea485e67e2ab21c43aa736 0x154c202ad86130b2d304eab5aa034ad30f3e124dc4f59d19d6f510a16460,
    Sqr 0xf43157204f16105ddfbf047dcf02cc430c433ed43e5d840b5974f057343 0x1171dc68ccb545c1230815b72b41627838de95355a85062ef8b17f90a34f,
    Sqr_mul 0x147ac6f807d4115f538f9b980b7709eb6b73b00996fea8f4af5421a7ff4a 0x1837309b801009129dbe25f3fdf9d90499c3be8ecf7bce8186ab60acf334,
    Sqr 0x13bb28401644093dbbee2212d0251aeb7288220277b2993558d508e17e45 0x33f56f6d351fe9f27d6042ce62e645a1897e838bd0fd8e3908e23e322e9,
    Sqr_mul 0xb5ae2df60bb17f417d37ae2eee0982bc4096254217afe67f90aaa8eeac 0x9d9908baee7a1a08221be81014f7011443dba2db0082a3d09404c31357e,
    Sqr 0x343b887484af52d49c812b6882eb68752f363ba64e6679e488ba690033e 0x1c910e5e7bee618fd637b1f4321f126487c9f3b7a74ef83da263d47f103a,
    Sqr 0x1b7568bf7db0f274dac7f3deebc6b177e9df7ec259f2dff8340ecfe83114 0x6cc4e9de1f9f78643e35b678af66276444281e7e9770825700668f3e688] = Some (0x9e507d5fecf00dc607f01fd4, 0x6cc4e9de1f9f78643e35b678af66276444281e7e9770825700668f3e688)"
  by (simp only: pow_chain_simps)

lemma pow_q_r128_12: "pow_chain 0x200000000000000000000000000000000000000000000000000000000000 0x247d9f1a1c4b9f5b95ff77033095c5a6c928a27658892b3f25b0cc75505 2 0x9e507d5fecf00dc607f01fd4 0x6cc4e9de1f9f78643e35b678af66276444281e7e9770825700668f3e688 [
    Sqr_mul 0x31c2a1a2bef1eed1e37566362aa3308c1ed55be65427d2d2cc1fcc3c737 0xa4cd5094bc3e951051f2d30a8a599b77e809d8fd76230bb84e64c4a7793,
    Sqr_mul 0x723bf20fe072b37d7f1da666848a1da164928fa20ce8bea68e0bc571ee1 0x1393f69ebc0ba499bfaf60d5ca1ef3a0df62a0f08bab68a255ac69874c37,
    Sqr 0xce5b1984c6ed934a31400c08e0d3dd007940bb019ccb646e932c2d016a2 0x2497a8e7ff30137800406438616dfdd622fbc592e13e691fd02ac34eefb,
    Sqr 0x2d0e1651e8ad8be09844c1d5dec1a47672d1f51c98200b15c80c9c7442 0x8750dfbbe46280457755cbca0aa4a7f4ee78c7559166e92b99ee605d963,
    Sqr_mul 0x4d038a8ea653ec33c877572f31545c6f731b1cd2010e4b5a6faf9b1fbc2 0x11acafb932918b903e2f10e5724c41ca6200ca91cdd27db9c8d4f9cd4d5c,
    Sqr_mul 0x1505ce24effde1864308731fedc7ac47d0e67f8593a4a28f448d24faaaef 0xbef76c515919eccc148bf8b1333aaa990740943dc0ad3122edff0e0a3cb,
    Sqr_mul 0x9962c847e684d5632a920680ac59ab3297a19986e87c0d553d7cd6cfa30 0x1da79d96c7fc0cf414f0ed5cd73298a0a0e2d43dd28d1c09f4b8459b18e2,
    Sqr_mul 0x3b2e3ca37ddbcb82fa91acae513873c1cdde3207be267e7962a0c4918fe7 0x110d6bf5229a876bc0cd566b26c91b4923849532d84c3008feccc5ed18b] = Some (0x9e507d5fecf00dc607f01fd4cf, 0x110d6bf5229a876bc0cd566b26c91b4923849532d84c3008feccc5ed18b)"
  by (simp only: pow_chain_simps)

lemma pow_q_r128_13: "pow_chain 0x200000000000000000000000000000000000000000000000000000000000 0x247d9f1a1c4b9f5b95ff77033095c5a6c928a27658892b3f25b0cc75505 2 0x9e507d5fecf00dc607f01fd4cf 0x110d6bf5229a876bc0cd566b26c91b4923849532d84c3008feccc5ed18b [
    Sqr_mul 0x13919aac4764acf14287c60762a23cf21c97ea25e1a988c65fab2af8ea 0x13c6f3445b1b8bae3812ca2446d389905dcb1e8a304da5452bac3d931184,
    Sqr 0xd293642324d1abfbb9c19264c07f7f597f67627d119e5b959c61dad91a5 0xb2b381c52d22301a83aeeea43a3b31ae9ace9237977780bc9562fcd6d49,
    Sqr_mul 0x8650c04e504b331255b8cf4d46bd99e8ca016a26524edc150ec45ee3227 0x47590665e0325903634890110371401b01d56d185cf479a843f4bc16b65,
    Sqr 0xab49300873a0e3c0c9aeb9c2cc715cecb278e2c0e2cfe88cee8a3c6d56 0x147cddf17d756fe93b61d2687da688964514062db4fdd618530012ad4687,
    Sqr_mul 0x1c3f5c1018f98f61f21e4b275461606eee309ba3a9e8894ea044947669b5 0x1d812e65854513583ad411126493235b7082eca0a26c04694360a2e45feb,
    Sqr 0x1d4a9c66ed1bfc3cf4fa372a7e1306712ff318eb2840053e12cd86596f15 0x7b08ccbe4749ceb24c5edd1bcdf1f473d4aac9b13960ce85a31117c6622] = Some (0x27941f57fb3c037181fc07f533ea, 0x7b08ccbe4749ceb24c5edd1bcdf1f473d4aac9b13960ce85a31117c6622)"
  by (simp only: pow_chain_simps)

lemma pow_q_r128: "pow_mod 0x1db8260e5e3b460a46a0088fccf6a3a5936d75d89a776d4c0da4f338aafb 2 0x27941f57fb3c037181fc07f533ea 0x7b08ccbe4749ceb24c5edd1bcdf1f473d4aac9b13960ce85a31117c6622"
  using pow_chain_correct [OF pow_chain_correct [OF pow_chain_correct [OF pow_chain_correct [OF pow_chain_correct [OF pow_chain_correct [OF pow_chain_correct [OF pow_chain_correct [OF pow_chain_correct [OF pow_chain_correct [OF pow_chain_correct [OF pow_chain_correct [OF pow_chain_correct [OF pow_q_r128_0 pow_q_r128_1] pow_q_r128_2] pow_q_r128_3] pow_q_r128_4] pow_q_r128_5] pow_q_r128_6] pow_q_r128_7] pow_q_r128_8] pow_q_r128_9] pow_q_r128_10] pow_q_r128_11] pow_q_r128_12] pow_q_r128_13] by simp

lemma pow_q_s_0: "pow_mod (0x200000000000000000000000000000000000000000000000000000000000 - 0x247d9f1a1c4b9f5b95ff77033095c5a6c928a27658892b3f25b0cc75505) 0x7b08ccbe4749ceb24c5edd1bcdf1f473d4aac9b13960ce85a31117c6622 1 0x7b08ccbe4749ceb24c5edd1bcdf1f473d4aac9b13960ce85a31117c6622"
  by (simp add: pow_mod_def)

lemma pow_q_s_1: "pow_chain 0x200000000000000000000000000000000000000000000000000000000000 0x247d9f1a1c4b9f5b95ff77033095c5a6c928a27658892b3f25b0cc75505 0x7b08ccbe4749ceb24c5edd1bcdf1f473d4aac9b13960ce85a31117c6622 1 0x7b08ccbe4749ceb24c5edd1bcdf1f473d4aac9b13960ce85a31117c6622 [
    Sqr 0x1fd58e0a7fd6c26f42bf22950ab0f57f3f9c755bc850e654ad8b59733dd 0xbb05379901636309a34e526d1ef5be8b5be9d24d69e825ac6150aa680d5,
    Mul 0x3063dca866702ef0fe8a336150019c1117a50a331eee700298a3206ad04 0x1507822a81adcb3f784cf47f5ab7482b6ff9bab672f0d25ca10b2d4daf5e,
    Sqr 0xee15bb1f2834df1af31cff9b14391bc2969c6c9785357e7bd902dc9df26 0xc2c2f007a20acccb560cced82337a62bdc0508930407ccc95372d40a042,
    Sqr 0x4fc5792283dccef3286a3f2f110d6de3644d51d673e2f28d2ca2f26fbf8 0x10df691d2c1007e565a341dded5c5b98c365e4241475181f34e41486d4dc,
    Sqr 0x9944795939d6a8f23d4929d3bc1b2df7c6d9ade9e61438f944170cb92b3 0xc905cdd02b233c77d7e4799bbcfa3ae99f29cab5e15a5f514a12021698f,
    Sqr 0x54fb994590e988b1e987514ed898d002d69aa9eb2c6a8b4be39c94ab294 0x14cf455dfb9b8a6251be9fe13da13932327bcc4765c15b28bfa09f313ec5,
    Sqr 0xe922fd43e94b30990a539a037cbaf5465d5005b04ecebc6b5267df3d878 0x686a3c0456b6022393d4f9c4333b9450636865a88b2cfd8ac9f1eb915f1,
    Sqr 0x16ed92e0bfdcdd8e8a5576082240a8009186ac1252fec649594f39a0a7c 0x16d2016f7fb66f916be1fdc1978df5835345d54cb48f2ff9e86e1214cd4d,
    Sqr 0x1185da22477e8c086c83f0ca83c8aa979a29f60bb48b2248fdd4801a4de2 0x113afb02a9e7acd5d7cdc8fb21f18b4152406b0f2837d2f193d9ebb9f893] = Some (384, 0x113afb02a9e7acd5d7cdc8fb21f18b4152406b0f2837d2f193d9ebb9f893)"
  by (simp only: pow_chain_simps)

lemma pow_q_s_2: "pow_chain 0x200000000000000000000000000000000000000000000000000000000000 0x247d9f1a1c4b9f5b95ff77033095c5a6c928a27658892b3f25b0cc75505 0x7b08ccbe4749ceb24c5edd1bcdf1f473d4aac9b13960ce85a31117c6622 384 0x113afb02a9e7acd5d7cdc8fb21f18b4152406b0f2837d2f193d9ebb9f893 [
    Sqr 0x9fd5b490b88f17c063300a7cd3c8abd343d055b82deed1f3fe69e25fc66 0xdb5c8ccaf13d522982aa827e7592f917ec8cc2755e58382de4ec6a8f067,
    Sqr 0x653216f683bc41cc76f3f0aad8cbae19dc6438eae26fc3e37a7d0413ca5 0x16e15e8d9d1dcdbb9bcb9d303fd63679ecdb7efc68b27762ec1579d41aa,
    Mul 0x5eb8c9ebd7c60a053636aa3c021a88f4c34adfb8dc3a7e6ce9716949d5 0xb5bf9af1d51fc1c5e87e1fb1266153e696b1d4dafbe049bc9e4f0899ebd,
    Sqr 0x4577b664974248a1c7f8b6a244ee5c7ad7d129e47c761c0ad05d0a9caf7 0xb4e9102c454fe4af0eab7f09e6fdd8c10d0ec7e8addb1b8faf8766dd15c,
    Mul 0x2ecf262ca8b074ad28f7d4e85fe13694a25468bc2c21a9af73b0e7cec56 0xf0a3b7fe46fecb5f045b2414bbd212646ec2fdb4524276d439c8253a1e6,
    Sqr 0x79c79acdc0cfaba0e17fa7d6fa575cbb7ad5419286500fc531cf8bd3aa9 0x1aad69a919417e4e6538d68e377e51462fe40069cf754777d4232f125cf1,
    Mul 0x6e70edc85db1564b695da7ee780c4a03d499ea68f33f64ba7a281f1c279 0x5c2310a28a1c0e86606be9fd85335fc344bb7e0bef8e422d1003e8e575f,
    Sqr 0x11da57ea58b955e00c16a6253747ff327dd7938acd3f0f40ad97e7a5d9b 0x148510c2f99acd10aee5e4d41044f4c353a38d26e829bfe8a650302b0048,
    Sqr 0xe2afe09df7f6349427f4db0e436d6af4b79db04444424f49c8a9e04b96a 0x90e8fdc854c6a3e835e944ce228aec2a88c52297e1ab6c9f48bd93de552,
    Mul 0x257e8fb5dde1804b8f583270302a82b791279de59eb5c80aa7f755d2473 0x8b0a2484f9d6365c96f4e5508250a9988a87c28660d5de22c7bfaa00623,
    Sqr 0x28a7c7aa0403c44e9070e1afef23f7b0035eb0322b527be67e490373e7b 0xd4008209c1cf8e677fd86e2783dcd3e5b68e6c4d98bdc64f6978655b830,
    Sqr 0x5e84f5cdccfe65bed717999f8283740f73c26ac39454fa5d748f58d128f 0x154246c48ffa11d546ca2d7dbf0b67ef77167332f99573b91477d878e0cb,
    Mul 0x58025aeb18f0d422ea0aab04241439e02e91ffacf9467ac87b74769b306 0x1994ed160204a7c9378d64291a629080448bda54e8af738c067b361e3a14] = Some (98421, 0x1994ed160204a7c9378d64291a629080448bda54e8af738c067b361e3a14)"
  by (simp only: pow_chain_simps)

lemma pow_q_s_3: "pow_chain 0x200000000000000000000000000000000000000000000000000000000000 0x247d9f1a1c4b9f5b95ff77033095c5a6c928a27658892b3f25b0cc75505 0x7b08ccbe4749ceb24c5edd1bcdf1f473d4aac9b13960ce85a31117c6622 98421 0x1994ed160204a7c9378d64291a629080448bda54e8af738c067b361e3a14 [
    Sqr 0x16052bb824e36e59f11547254c68107e68fed483026ea789bebbd7b5f73c 0xe1ae136a2de814e24cef8e9def176b7d8d41f7c7b05d1956bf2bb25d1bc,
    Sqr 0x6b1bf965b5a535ca28a27c488f98261ac499954a247327bb3e7d8808439 0x44e210c535e9dba5bfb0e60ba7a5c616c6b9ac9a2ca4589a8354ee5042d,
    Sqr 0x9fa8007cc44a0d292c9353eb45b28a5beeb1192e22df83f3512356e1ea 0x134d314c82162ae5a572e83ef6bdead72760c69ba70f4df0e4ae032e8b7b,
    Mul 0x4fe7edf8fb4f4a460f72fdb9f6fd7aba6992f2ca0d9169e0e887fb2df14 0x1a27400194477664aaeb1f8e55c5f8d9ae8655a4049f4878bc67ed7187ba,
    Sqr 0x1703e3c4ea99cb25dc35892b957279354beb7c34ff0a2de2c7b8b0dc75f4 0xc67a4b6ba003b6cee3e46badcb20743566d674240bb8d646f4b464e04e8,
    Sqr 0x52d83b3e75199a83bf8bb47dae92818fb319968f069d68b657cc6934284 0x532133589717f2ca78ff0458ac758321298b877d1e91ec4ec47880a32d4,
    Mul 0x158258d9c9cb95cd2e3ddcbb9d6263d551fee6cfe8cf25f6f23592f10ea 0x960acca505b0dd4163630b71579c913b4d5e90a7a0550af5e7550ba3eba,
    Sqr 0x2f58246dea4a487c2495c84bbb81dcb26ececfac9f123e43f8d9e92d5df 0xb17494f76545bf4b467e768a8413841cb9f672989186f1a9203e0d77f,
    Sqr 0x4239802bd3f2fb03ff6e1de4ad33117ffe19a5bd0ca30088a665f04 0x9e9ceb197de7ec94228028babea91424ecd507578af6b7459f58b4ec015,
    Sqr 0x34e85abdc54ce8b3899646e1c4fad9abed9301a4c176be1ce033faa2d5d 0xb18f31de76133f413ad51d527b79f9ec63986a26617f5da7aaec999458a,
    Mul 0x2df12ea94d1aafb37a9cf1b043af4bb9d462810874e54072c00b1848137 0x4b738de5086d1b1ce70c03190083aca6d250b332426081cce602d270167] = Some (0x1807529, 0x4b738de5086d1b1ce70c03190083aca6d250b332426081cce602d270167)"
  by (simp only: pow_chain_simps)

lemma pow_q_s_4: "pow_chain 0x200000000000000000000000000000000000000000000000000000000000 0x247d9f1a1c4b9f5b95ff77033095c5a6c928a27658892b3f25b0cc75505 0x7b08ccbe4749ceb24c5edd1bcdf1f473d4aac9b13960ce85a31117c6622 0x1807529 0x4b738de5086d1b1ce70c03190083aca6d250b332426081cce602d270167 [
    Sqr 0xbf8e4b7a68df7e1b16330b8c96693fda247057e72879835094fde749ab 0x32002a6e7ebf5968bd4039ff6fd1eecc9d4bdb1b88bf077a4edac4b2ec8,
    Sqr 0x541f5cee8144d50d48c40fa2af0f25656603694b00ac805ab0ab3b37fb 0x87d351186845b1f8a3e289c30014d89603de89e23de307d77707b97eb27,
    Mul 0x2324cf9a951399912f643c85b5cb8a40c409573500fee62131f834c4ff5 0x1d058e65616745f94bf7cb157f3693af04db4d9d2218c2f8db37fa3fadf7,
    Sqr 0x1c5727f39eeba1a1ab424ae930f72269d2e6f21ea731ef9af72cad6ec004 0x14cddb78bff3d7cf35e4387077be34dcf67489d3e63d1ad47eb81dd0d865,
    Mul 0x562064f0046bb0662251e60495b375ad91774157f81b9569c0c9f4614c3 0x306257d2e59f321d1135b3ad5cfee65f846afb182a8ac1f7a175ab92239,
    Sqr 0x4ec56ae48b4e9200b8c011f30981eac5a06e5383e6532aaffded8d1d08 0x298e7b96e78235310c062025cc49539c79924ef4814f8d513ebfe9269d9,
    Sqr 0x3a1bcd66e46eb14b7a1a3ad12e08048728ac4a86aeb37e7770bee3fb45 0xaa4ddba1ddfb73eaff6d2267b5b727855de31ce1dc7b74dcb497ecc8b4a,
    Sqr 0x3cfe9de87fe81f8358f561d4e6c894cfd35e13e4dfa8daad67cc8c2ef83 0x1502a4da151bb1d874a8ab8a27b64274b6d4135631d86f25942b19e39df3,
    Mul 0x56faecab73161f45a51287ba76f47b9e60c736b35bb3de19f904481b949 0x16d03d9943d36ed3502c3226d2c23bd21bf9d9cf87c1f6fd6454a2aaa7b3,
    Sqr 0x11832457a3979035dda4d4124bf657440e881ed83af61ca57f3c9677d94e 0xafed515e28fc7eb12b1e43cdc73b3315b5654ec8d726d5d7db202b72baf,
    Sqr 0x4116b9f90999b29d4d08c22d994f96e19ebaf8d87b1f0e4c32e9e107ec5 0x188f2b9be75d538aa4e4b363343f62206e84e8111d7dc1ed3e498f33247a,
    Mul 0x65ac1cae4b2e4e857fa090b1735edea70ccd3f7b6d7b409577a4dc87f39 0x1749e1d88690301f042c4496058a1c3581185cfc315f7ffa7faad2e2dd51] = Some (0x180752965, 0x1749e1d88690301f042c4496058a1c3581185cfc315f7ffa7faad2e2dd51)"
  by (simp only: pow_chain_simps)

lemma pow_q_s_5: "pow_chain 0x200000000000000000000000000000000000000000000000000000000000 0x247d9f1a1c4b9f5b95ff77033095c5a6c928a27658892b3f25b0cc75505 0x7b08ccbe4749ceb24c5edd1bcdf1f473d4aac9b13960ce85a31117c6622 0x180752965 0x1749e1d88690301f042c4496058a1c3581185cfc315f7ffa7faad2e2dd51 [
    Sqr 0x123fd693f2dd3450ae5211a522a8878022a75243a852d7e0333200a0b82e 0x17e59a974ec4d60433da818ed7df3cb56d8ec64eda39727eddd31a65d287,
    Mul 0x62ee20af5ca9109957d1405de2e6e3cff1fc44d46406ecba97f45f63af3 0x10b936e5d4bd46d353bfafb4a1f3b1848004536909ee22b809f55a1295ad,
    Sqr 0x96919ceec59662e4c365fc4f6127ab5eef1c58fe5fefd95d579911db5de 0x1c1eb030215cc09061f02ad3847c08cd7c082e75c61bbc4af6d082601a3f,
    Sqr 0x1a9b43b172717834f07064969e17921877f5ceb749a03a839865c4c6f241 0xbc4cea8b76a0add6a39d09777b5183bed901129f7c7111b168af0ca2bc6,
    Mul 0x30b8a6cba9ed928dead51f0375af02ff3a07d726165912a5c353ccf7bda 0x949f304dff1e14630c64b506183841d22968884b7c51454f9f074d5818e,
    Sqr 0x2e73c2d0a9d197f0bc9175f7304521b11d450b8d5bccfbb62b8edaad1db 0x146e192867331db1d1996431de2c7fe15221301c9cdd186b0ab8491d3b0b,
    Sqr 0xe0b589cf35959db2476e710de2205929da8535cbe8d4d81baac8af24f05 0x12f1a4acffcf1e94526f93f8441891be63eed9ba97ca3930892a87f74692,
    Sqr 0xc134bc91d6019cb92bcb13cfd0e48dfa21781baa319bec8994933d3cd8f 0xbdf245badcf9e595d4fa691696c1e5dd6a45fbe096ee25feaef11bcaa0f,
    Mul 0x3125ac99c20dfcdcc4edeef5ed12d65f5f5e3d4f3ed0c53c0cc1b20f906 0xf67a45e42e07480b3fdb321295476102e4b3651090b56b7c2cc3b126b1c,
    Sqr 0x7fc2a4a92ae91bddc0bb4c2c5f8ac557c4b52a53e28f055477f7e836a35 0xb56bcc7698519f99595f81d7e0b90e2494e89ae7aef4ff7b9ca4ac81719,
    Mul 0x2ef0f9d65acf5508f7a717c1f000524c487c90d511f6ea4ead06dda86ad 0xd4efaa9b955b45a33ecb9c857604e916140766b950d3043d620015a19b3,
    Sqr 0x5f5aaf0d050ec6255469e072ed6598de9282667258cc58ecba63811fb05 0x18e3e75d16bf6c690b0eccf49daac3ab0a324f0d0a9c379e120be8060342,
    Mul 0x670ae5e097ee49795d1fbf2a2488e99479dacc94bc3e346f26a9cdbe8de 0x18cc6886f3e7b61be4c82ea0c64bdeb7b4d6be3af448fb19c3baad3ffd1a] = Some (0x180752965a7, 0x18cc6886f3e7b61be4c82ea0c64bdeb7b4d6be3af448fb19c3baad3ffd1a)"
  by (simp only: pow_chain_simps)

lemma pow_q_s_6: "pow_chain 0x200000000000000000000000000000000000000000000000000000000000 0x247d9f1a1c4b9f5b95ff77033095c5a6c928a27658892b3f25b0cc75505 0x7b08ccbe4749ceb24c5edd1bcdf1f473d4aac9b13960ce85a31117c6622 0x180752965a7 0x18cc6886f3e7b61be4c82ea0c64bdeb7b4d6be3af448fb19c3baad3ffd1a [
    Sqr 0x14b140c29393a5dd9e24de152c8c20afc275ebb93b8e0ae7fc783fb662dc 0x8a8384fe655302f77ae72b8a1b4a0b4b7be645d25d1e5d3fcf9a76f60f0,
    Mul 0x23d6e0cc61e1a3288a1fbe133a6bd4e88e7c7ded4cb06967a2258bfbb43 0x1192b33af3bea46e1cca4991872bfc6e4b7a5467c217fd4429f79bab672f,
    Sqr 0xa64151bbfbe96f745e5c4084b6d39180e0548c8f9635f0d52c1f4f389d0 0x556d9b27a88cd0c35b596377b2bc80b5d8a3b46196d5cb5a13c72949bb1,
    Mul 0x161a97ac689f0ac19e5562aff5a8e6b9aa62a9ca7abbb23832dcfdc4c68 0x1a595f94fb89bfd88db7c345cc92af4b6a0082322a91cdb30b971205398a,
    Sqr 0x175c702549029aa04485292eab5ae68dfb2e93f6e099da2ee96875ca622f 0xcc571bf2fa4a05afc2a593b670e2eeb322cfb85d64c021e18c6ba69444f,
    Sqr 0x57cf9da6cbf771ff4150ff061b30923489f3b35829aa8eca063c6f5e2f5 0xa1d7dfa069d7d09deeae1215d29561ea42b52b10e80abeb56a056a3d82a,
    Sqr 0x3715a8678142d271def9c2524c9ff4d56a9c21b7992be70e6ff1091a3bc 0x100df571a3446e820da231de1e8f9ab86571fdcc4955776dbecbf95c8590,
    Mul 0x4276b94d8f0f6eacea5c816a377f2ef92f33904e0f10953ed1285b8917e 0xc95d63675e43913ad66ef22d8b22a547aa49f0195126662ef89231cca96,
    Sqr 0x5545b6f6df6a3aa145e78006ab1dfcb8d322f7e241a5ea11b287a95c976 0x1a27347bbc69b434c5e84c996da724b86f618db97ba0ad503c7f38ac2d32,
    Mul 0x6c45534b5c022dc8265ec583519d97a667edba197d90e51f44e16e6ec85 0x120954445428da5e281e35c4e4694ae9600a784926932576f7728d85b43d,
    Sqr 0xaf239121fceca686669f77bf4c44bdcecd37e11ca6e3c28c666f30ad600 0x1548e344de538be4289b46e4c4a4abc6fd9f7059dc2e985addaa8c0489,
    Sqr 0xf3e71cb23c5f49a78c7b3c955b1491b950fdb3242ea987cf89e80cc 0xfbcd0959cbe034270b934e4565fb5bdd0fde58ff9092dfe35e6145cd14d] = Some (0x180752965a7cc, 0xfbcd0959cbe034270b934e4565fb5bdd0fde58ff9092dfe35e6145cd14d)"
  by (simp only: pow_chain_simps)

lemma pow_q_s_7: "pow_chain 0x200000000000000000000000000000000000000000000000000000000000 0x247d9f1a1c4b9f5b95ff77033095c5a6c928a27658892b3f25b0cc75505 0x7b08ccbe4749ceb24c5edd1bcdf1f473d4aac9b13960ce85a31117c6622 0x180752965a7cc 0xfbcd0959cbe034270b934e4565fb5bdd0fde58ff9092dfe35e6145cd14d [
    Sqr 0x8556a94573ea2a3382e65afc800a0e3c3dacde2690b6290d0305ee6f81e 0x11a02f69ef120930396bf38d3cdeb70e67772ef5185357de301f4ad9fbf,
    Mul 0x48f7e450a339e569d46323bd843ed9523d4379b5cf24f9aba192fd63f3 0x9b402d6c0592b0a854f72b6d81d201f71a9ed15bf4dcfab1402d340f41d,
    Sqr 0x32b03733281c637de399c3a46ae013680d695b93b34ad902c1a31d7c92b 0xf146c4cbd76923435df1b768858ab5601662daa57b6ce530edac8b68020,
    Sqr 0x7a6cd9fe24413a2cb3ebd0fe2e1ead9c333c891568a194cd839eaf13dd3 0x4b5c7138dcea5f34d9e65b1f303942e11db83d6d2a7ee03355e10e2481f,
    Sqr 0xbf1902f9f38146d689816e48564c69b68bcd201c0f9a61ef29603ba28c 0x22833a5fca0992f19d379bc80a295ada9d6264284c2e49f004be4041c7d,
    Sqr 0x2814377c8807a54a959c7042b7915966dec4a5317569e9e0c9c7d60b25 0x9bd18de552f8acff63f75a9baed2f2930ba0ecdf2e9a0b0b767edb815c2,
    Mul 0x28511d95b4cf2e31c174526d997fee9d8e5e1fe21ebdd969a2afec95e83 0xa3f2282ec27fdc570408c1779d36223b30d1f5e63b96e62b83ac93b8753,
    Sqr 0x388674b6c08ce513b68fc55114bd38083a45f8eaa6dbb54cd07dc8c9f5b 0x1c89b60ba028f8f91921a3766a768bf73679e450354f86ab7b77212ff8b0,
    Sqr 0x1b674bc721bf69a150bd9a5f3edb69e6bb6248d4fdd17471dd65d7bac96b 0x1f1e2735b9717e5ff9ef20916ef0213ddf902bc877b85a1110573e8ef17,
    Sqr 0x209500f397594a47ad6e772e6b6080a09ffe188c0a02f68ef8f0aead23 0x127e4e43e70fc957488586925f9c7b97eca830ab530dba93dbc4d016f4c0] = Some (0x180752965a7cc88, 0x127e4e43e70fc957488586925f9c7b97eca830ab530dba93dbc4d016f4c0)"
  by (simp only: pow_chain_simps)

lemma pow_q_s_8: "pow_chain 0x200000000000000000000000000000000000000000000000000000000000 0x247d9f1a1c4b9f5b95ff77033095c5a6c928a27658892b3f25b0cc75505 0x7b08ccbe4749ceb24c5edd1bcdf1f473d4aac9b13960ce85a31117c6622 0x180752965a7cc88 0x127e4e43e70fc957488586925f9c7b97eca830ab530dba93dbc4d016f4c0 [
    Sqr 0xb8201816725e0289c80de090ff577f08fc9a17f63d1797475ebf492f8ad 0x810a1d0515b240cc70d2891a1fdad361c4b51a68de5d6252cfdf8e9dc61,
    Sqr 0x230481673d210b59e481cc61908fdde4d9df8bba0b25fc9dc2b74050a19 0x179f1f25be1ca48f5f40ee83e8769ef657d1707f33519b233ffecc2b5c3e,
    Sqr 0x12c6622fcc4f1ae72e332b639aaaadeb8c96b71c5bcc00708bc720d5765d 0x602ff234c5e5d9f38294489fe5270a0c70f09d260a0df70eb7d0d3cfd5,
    Mul 0x18e341bcfe6a7740b34808e7e29da7d33f9ea29decb6c0ca600ff621fa 0x3e0adfe6b211e99d6cecb6457b030b6bb2926b42cd37a0445c01b89242c,
    Sqr 0x81854e18d146ad3d5d4724544482a39fe3c82758273eb2a52b5dff6dad 0xf8ecab2a73d91ed891ccd1a7110b13223283801efd2806f62590716fcf1,
    Mul 0x406844a8739bcca4ac288bc6c9e9236cce7b102acf8f17fefb59923c26f 0x12f28c3998a6c7db2645c520f964fb4a98a0aeb33ef57ddc6078d51c452d,
    Sqr 0xc1473013ab1cf9b13496a1358e1209e76d56a77e2ba9e616bae4adfca4e 0x156c73cb642683bf6232d602d9353958a9f05d64492df31df8dbc5b6236f,
    Sqr 0xf718d83031ec74d6eee4ff7753db1e8943fea1ac5d0e737d5c94243c85d 0x13334b092767233e76ef90fc8d92a2714f6f2120d4d2f547571c25e054f2,
    Sqr 0xc678e7a6b053c35471fbeb03de4f972e3c3fa098508101be9aa168a6512 0x12cdd81cbae2315b681f2063b68df19a6ccfa31926cb125fab9884f0a81e,
    Mul 0x4dd8b911bb16096947f7f00520af04403e1101a8fbfe50c3d4b356347cd 0x174b3eadae28f225e73619bc54c560611e1a0ee7462c46324b4e659cbffd,
    Sqr 0x1241f957ed2f71306e76865a16d7b27e65911474c35a6d528f772de30c8d 0x1ad0cb19dff64fefeecc7b8c091b9f445ca081e405451160bb68d4888fca,
    Mul 0x6f036678fb62600276f54b29b85d0791166f601a11fb1368f49cb384811 0xbcbf7bb2f1ead6604506c9206743f7d82310216e67300b5cf0d2c83a229] = Some (0x180752965a7cc8833, 0xbcbf7bb2f1ead6604506c9206743f7d82310216e67300b5cf0d2c83a229)"
  by (simp only: pow_chain_simps)

lemma pow_q_s_9: "pow_chain 0x200000000000000000000000000000000000000000000000000000000000 0x247d9f1a1c4b9f5b95ff77033095c5a6c928a27658892b3f25b0cc75505 0x7b08ccbe4749ceb24c5edd1bcdf1f473d4aac9b13960ce85a31117c6622 0x180752965a7cc8833 0xbcbf7bb2f1ead6604506c9206743f7d82310216e67300b5cf0d2c83a229 [
    Sqr 0x4aebddecb6baa78aa0b7faae95e6c7ab4031c7ba5d9838f8a8622501ebc 0x19c2e1362a06fe1cf067173743bf05d74e0be12d4c2f92fd9a276e96f03d,
    Sqr 0x16548f5fa3d6897bf09bbd5c0854124ce8f6a9e95d0eee12caa2ad4e9a75 0x3cc62206ec8fb8aa858fba9b508b6172da052fa6731925b87afddb34bd2,
    Mul 0xfb98c1c58f644b1566a3434d581257d74b1f4e61288643f9809c9581f7 0xfc819da4ff64d23b976e4c734fe0ad9c9c0a617fb753c9bb861dbd14ab7,
    Sqr 0x86162d41f58b6292ca1d9b2c9acfc3e8fb845cc463be9f659f7829d069e 0xfe4ece2cef766107a2ec60f4d5e7941827fa299fa8f01cfa5b6bb1e5e7,
    Sqr 0x8801ba7e18dbef6981272a481a519bde9a46576c7229fba3358763eaf 0xc3316ec7354174b6e316fab4278b1b764a12806b1b554fe8478bd0d6adc,
    Sqr 0x5020167779672ddff87d0bbccfc71b2388108fb41b19808c0646e398b2b 0x3b6c30422b0df4f1bab5b213458f01f069cc53ff8dd975178d653b4ebe7,
    Sqr 0x76d029609f76f56207bfc640a92c851b8db352bac17636668d61975c22 0xa579c25ffa3c97b9c6201901c89c4a5817f24d43e9ac2729242c034011b,
    Sqr 0x3995bfaac329aadc7ee5acae2d6f150a719ff170acb904e38978e48c71f 0x137166e8f03a99e1e9835ffde1e475d8dfb6c68ba5c11000f146219b6774,
    Sqr 0xcb850b5072d8a569e79e409c17f344e72a3453d86c5ee7f21a9877165d6 0x1cdebb190f31441fb0007e8f4352df81b8e6010ce623122e75b8d5a797be] = Some (0x180752965a7cc883340, 0x1cdebb190f31441fb0007e8f4352df81b8e6010ce623122e75b8d5a797be)"
  by (simp only: pow_chain_simps)

lemma pow_q_s_10: "pow_chain 0x200000000000000000000000000000000000000000000000000000000000 0x247d9f1a1c4b9f5b95ff77033095c5a6c928a27658892b3f25b0cc75505 0x7b08ccbe4749ceb24c5edd1bcdf1f473d4aac9b13960ce85a31117c6622 0x180752965a7cc883340 0x1cdebb190f31441fb0007e8f4352df81b8e6010ce623122e75b8d5a797be [
    Sqr 0x1c0b86b42cd12f35f97ffbe48ff3f5b183f27f2a46f5af4f30be6dbd70ec 0x5cc3be826576cd5235cecd36559c203f9e74e99e1c87137b6f3627b41a0,
    Mul 0x18008bd8878d3cd26e2d2d105149bed84309bf1e1366c8ec0945c668775 0x1747a1d609cb35853be519c8a3858ffd3e3ffffec7e38d1460773af1f589,
    Sqr 0x123c50014f23b80d99d3ce4745049ae8015dc197603133eb3fb2bf16d31a 0x871cdfd7655e65dfde5d99caf7c15f426d2905a11608e936021ec3144d3,
    Sqr 0x2664329f11e68d368e47e863323b992433d4fa52bd28b06c16e75c8d69e 0x18800345676b4c577bedbdb9af39aed4157cb19896ca360cf262ac476cff,
    Mul 0x656d5c8f266e75405f469b3394edfce31772d7c227d15828b3da3a49bd2 0x1314cabb33e7734a079eaf4399a2055a4503c3e5ba2f7fa138d6e39fd8f8,
    Sqr 0xc40449259410f3e0f436a259abd57e3b2de8c52a08476f8d59b10ff6261 0x16b79e916a1f85933199fefb2aa6263aad5421a3844a14399f8032019125,
    Mul 0x5e0bf2fa26866f4ef69e2b846bd32bd3853cf34c7e333621f6c9210b91a 0xe7029418f59737e67f1cd9c8a47338faeb462777068e52cbdf789f5446c,
    Sqr 0x703a795446860dd58d1c4a11d5ec95b5133402b96da339174b8bb18b714 0x13bc5136141eb7d1f006c64e1c11b66c17778cb93e4e61972141bdd2c4f4,
    Mul 0x51b3f8d4cfa9a7c55bd4dc27a1ee335b1219466d3416eeafae740d84bff 0x1193764eca9cc482e7990dbf5f0764136ec7ff294450293554a0e7558763,
    Sqr 0xa64fbd3a0f613df441afd09d17fa89fcebb258589c23a6ce2b89f81c424 0x1645d6efeb6154424216f9423bd686f943d54ec124321de8391634fc58fd,
    Sqr 0x10b12d9cfe47b3484fd482accf12390244b341d79710ee67359062b43351 0xc0d0990983a9d7063b582c7234ad64a9afac8a84a0bf9656b408b8ccf9e,
    Sqr 0x4e2f49cb20c113f46adf4bd4b24f7c2d6edd9d6d09770417eaf7ac5471c 0x122a5d21346ef503c9914c521d30f15e6d996b2705616d2244bdce6b9510,
    Mul 0x4b33ef2605427d3c7a1d384dce735c55ec145cb773c1c54ed576bea028d 0x392c1f9c1dd679e2734f29cd7099fa8de1e8f9c652455bec135f17409e1] = Some (0x180752965a7cc883340b9, 0x392c1f9c1dd679e2734f29cd7099fa8de1e8f9c652455bec135f17409e1)"
  by (simp only: pow_chain_simps)

lemma pow_q_s_11: "pow_chain 0x200000000000000000000000000000000000000000000000000000000000 0x247d9f1a1c4b9f5b95ff77033095c5a6c928a27658892b3f25b0cc75505 0x7b08ccbe4749ceb24c5edd1bcdf1f473d4aac9b13960ce85a31117c6622 0x180752965a7cc883340b9 0x392c1f9c1dd679e2734f29cd7099fa8de1e8f9c652455bec135f17409e1 [
    Sqr 0x6dfc243baa88ba125f6b44e4baf586c6f8afc65a9e011667ef1d764e9d 0x1014fb3e18ad11d73881ad612b220b87fbb6c0b70d1130024345e9be41d2,
    Mul 0x4293cbf7e5a48fbfba9fdc94ef7a5b58531f90ee1e02ad70f8a31049396 0x44496cbb67fcb82da682701ede22a7d65328bb9321beb76d5e8e8e819d2,
    Sqr 0x9ce77c9f00f54cf83afd6aa17f4c6fc02fd2ff366a6a9e336e7b040174 0x12e9c562015c0cd87357c87f89c3fe75dacbea05f6d301dc6e46bbf63b88,
    Sqr 0xc0944aa1dd1dab2cea6d945f0bd36b97d8659f3c85c744437cf2555b223 0x985a0330d9c2e64a66d8c0d64965b269025b50d9f07218a6708733f11ef,
    Mul 0x276b788fb11246e130087fac929d1a35e9852d0e66695b2176ef8d6a07f 0xeea3c78bd6b30aa8304079d99982c2f89d7609e025b39266bd2d47de939,
    Sqr 0x77c39b4bf94402ffd274e97b71b77a19eda9b1b755a6f5afdfec97429f7 0x4956e996a9c5c29eaafa0f633cd61b3f799408ee8c7961d12a6b257a384,
    Mul 0x12f9dd41f2416d1fa7727c5441b629228a2b97ae9eb9410404aec04045c 0x13d39cd40c89b1754fb17bb250cabae2424e19e0d8feee9c1ba137c4f154,
    Sqr 0xd3a15f075deac0e17c6d3b16096d5c2c945a9f4a316a422065beaaa5334 0x12a2bc0bc8da21ccb93739688bc34783bca984e02c160eee415bc47f2794,
    Sqr 0xbaf846c9bfc18ccb0037c01766b82497b111e95d6a071686d0274c32725 0x1af4c01e5cfd944334a5c0faab6922acd5b449b998a1d55efe7c28887a49,
    Sqr 0x1873201e1c9b7256cbc4ec10e4674637041e0be85bc3fcebd090248c7ca5 0x2e602ca74f75432e1b4503adcd17e83b26c72c3e6d690a77857f45de10a,
    Sqr 0x485dfec6bccd6bac54e2ae363ee90b2e07cb3cff8531d90b3b5882dfa8 0xa9121fb21542b85a7da6dffd4ca1a6a4c6522ce1328ccc199b0417fbaac,
    Mul 0x2bbeeab705e27ba5f897de5876247e56776984193eeb6fe3e83088a2973 0x7be8c6fb6960234a53967f89ebbbee10c7412dc4502174e554f15825117] = Some (0x180752965a7cc883340b9b1, 0x7be8c6fb6960234a53967f89ebbbee10c7412dc4502174e554f15825117)"
  by (simp only: pow_chain_simps)

lemma pow_q_s_12: "pow_chain 0x200000000000000000000000000000000000000000000000000000000000 0x247d9f1a1c4b9f5b95ff77033095c5a6c928a27658892b3f25b0cc75505 0x7b08ccbe4749ceb24c5edd1bcdf1f473d4aac9b13960ce85a31117c6622 0x180752965a7cc883340b9b1 0x7be8c6fb6960234a53967f89ebbbee10c7412dc4502174e554f15825117 [
    Sqr 0x2049df328f0ddd918661fc5054045471c4d1929c6ffc173a1c05ec6670d 0x3cf5df55371137e79520e8dafa32445eeafc2240c210113e2bdac3de452,
    Mul 0xfc5e64798f114d87cd41a392263525fdd706cdcac46a9c7f7e2b6092eb 0x1b7bf7a208e220037b0a4b31475b29ce478e1239b21380bfc203b540e47b,
    Sqr 0x196ad15277d737da0363294f0894628bb657d2123c2d3fe2ad92661717d0 0x1cb25d7bebfa96b85cc23f928b74ea3e1931fb0fc88cbb7c222de376da29,
    Sqr 0x1bb596d6aa29cb4c1df05b8adc27eede5787b4d4a4c1906fe12e48b596b2 0xaeac6e1cf6603b141ff8a89d4da6388728c0a9a6145235d3606c0a8e60b,
    Sqr 0x402a217e29efa44614f2934a84fb2a59631845ccf35be491c1bad65b11a 0xc5ce8b5555812e32941936f1b82b7ca235f0a91540e911908b84727dbfb,
    Mul 0x332e5587ec1b73f3b9af188260c50d9335e1e347862503cf4c034e4eb39 0x1762b7228ce69adc45e6e96bd305ebb28fe8a935277bb726fc561d66be73,
    Sqr 0x1266d6b35d857e102618bfdaa38bcf2ae48f24f340bab116c2ebb9764346 0xab10184cd2461243be4f38c0ab86602d77b2c58e6c7442bacccd6627607,
    Mul 0x2c42de32a726e32a2a42683212c6422c2d949933ad9cb2ca4fa2c3c7a2f 0xd62cee5c9d532ef53b6ea9d80de0f4e5fb1100228897d85e8376c774d9,
    Sqr 0x6077a8375c92af886a68ea6946d3be51db11a8c1f6da0b21b9e460bb7 0x36fad2d9c5c717f40fc375b2ef2b2137d71b436b751b4558c58f3365d84,
    Sqr 0x65b5f56c2b04a08add3bcbcf1a4ec387c0cbd7f520f9754d7e5ea9481f 0x16ee10354a9c26a1589be6362f3aed72b452ab28b2b81018dab7c032dfab,
    Sqr 0x11b10b5fcccc25340a79dda4d8db7e325cab1d1ab5d210b216be54d16f8f 0x15fd196fd846a172fd629445ea7557dbad6353d3f8f0de195d540820504,
    Mul 0x5b07c7724f058f0ea6fcaa0b958b498b9b53eec8212dafd282b47a973a 0x15824d60a8adfcf789e7b3fbcafc2fe390d7546fbdc25fe3f9491e578aa] = Some (0x180752965a7cc883340b9b199, 0x15824d60a8adfcf789e7b3fbcafc2fe390d7546fbdc25fe3f9491e578aa)"
  by (simp only: pow_chain_simps)

lemma pow_q_s_13: "pow_chain 0x200000000000000000000000000000000000000000000000000000000000 0x247d9f1a1c4b9f5b95ff77033095c5a6c928a27658892b3f25b0cc75505 0x7b08ccbe4749ceb24c5edd1bcdf1f473d4aac9b13960ce85a31117c6622 0x180752965a7cc883340b9b199 0x15824d60a8adfcf789e7b3fbcafc2fe390d7546fbdc25fe3f9491e578aa [
    Sqr 0xf911e04d0c0fb87111f4d77e50136e5c6608cbd91e2ba4b7b7c97b35a 0x1c8a7ce61e90925396510f3a004a4f7b7ffbe48829c8b823360c1d7d33a6,
    Sqr 0x1b68c9b2116e583acfbab1b2eaf1944b55d1cd390ea7ad6d056a219740db 0x392cbc57d6f5c451d1ecd1a4a7e855ac521a9a7c44c48851a2fa5418aeb,
    Mul 0xecb2492b38cac5bcf9cf2559f49a82098edf74a440204a3ece4c628ee4 0x10d1d3e2265d58ba8fb58c28df2d1a914fa80215c5c3224c1cdfef7c93aa,
    Sqr 0x984e180b6757b092375b9c5cea7ea9600db1cf5786810b380beaa41ae6a 0x178000129a5230c04939848144232d3e13eb1900ec072619bdad7c7446f6,
    Mul 0x614980567578a5247bbe17d1cc31b704c019a4f84f9fc977a361528ada2 0x11e8d65169704656218bedc5c4fee82b9b3382167ffbc9def22d0d3f9ed6,
    Sqr 0xacaec6408310da67015b17de1e5454667e7a33fde00acd541602907703b 0xf717042de0505d5fe8e7991e896efcf72cfa037c322b80b12b19326a30b,
    Mul 0x3feebfd079e88c221f78894486f1be5390883d52686d39e2a08e5cfb62d 0x1cb89685aed2e9e2a802d8e65613bb8b849ac51c9fa18da29a56d1f28957,
    Sqr 0x1bc19c971cbb483678aa36eae76f48c40fc98a810cc7fbff32c75f956a1e 0x196fc215af332a90ff3930fa3922a265d9a396618d3531306fe65fa34427,
    Mul 0x694de0bd504c32141f8edc8387dc06109041f452e5dd7dcc8caaaa6c8db 0x5e3963bf53e7dacaee78ac6f5865ae6da2e9ace45b26651ae4e76ea3a75,
    Sqr 0x12abc1641487b071c907cf48189cdafc03278fb24471327043ca2b0584c 0x12e212ab9a145217a9af65d6b93540fad5deb4e116dd63b29ceeb5142ef5,
    Mul 0x4e2c77a9b3dbb633dab0dced706fb57fab541218b32218b2adcddcadb06 0x1846586b7f246ae67aa3c93bfd028d29eb053f1b95e1c5afbdaf54691fa8,
    Sqr 0x13d3e297d854fc08466d08bc219075215fa5e55f5d41e5473b9f4ef51586 0x1d66be50627de8a6e07c910eaeb0751f46601a411a27bddfbf1d29d307de,
    Mul 0x79b7cac616f8be2496d952cdcea025d74484e146002da96a2aa91539bb0 0x18e37661188b7046d7b84aea62c3a0471c6a58d62918436c3e350fd4f9ec,
    Sqr 0x14d7cbeaba1edb3f64f383f286dac7f0c912132a7fc21274ff0da225db6e 0x818420771289916def7e5786d657c23d61f90d74a6ed250c21c01f7c0b6,
    Mul 0x2182e49956d8969dd530a5d0865ca37afa9f6ae94eb157a0cb8b7f8a9c4 0x12a6d57cd0fdd7ae95912ff04b7132bb677bfac4955b149d16c2b76d8100] = Some (0x180752965a7cc883340b9b1997f, 0x12a6d57cd0fdd7ae95912ff04b7132bb677bfac4955b149d16c2b76d8100)"
  by (simp only: pow_chain_simps)

lemma pow_q_s_14: "pow_chain 0x200000000000000000000000000000000000000000000000000000000000 0x247d9f1a1c4b9f5b95ff77033095c5a6c928a27658892b3f25b0cc75505 0x7b08ccbe4749ceb24c5edd1bcdf1f473d4aac9b13960ce85a31117c6622 0x180752965a7cc883340b9b1997f 0x12a6d57cd0fdd7ae95912ff04b7132bb677bfac4955b149d16c2b76d8100 [
    Sqr 0xbb4a91b52af984e488c66e4f32cacd45c777f49ab81cb499fc1fed80f1e 0x460de613654d8540c47cbaa225d4337211d69d53a59c6ddbffffa904196,
    Sqr 0xa521b7923f2a2de4821a68f6d2b9d64ec425108c399e3da8e566010a69 0x137de0b46e79097315cff2930d8a38f70548f914d497aa7e522f2ba694f1,
    Sqr 0xcc8a8d519dcc3ef55d7774fdafa2efe72c17595c58c6d410b5026578617 0x16eaa3c7286af54acbffcd77d1dd677658d3fb129b7cfd569cb7944fcc54,
    Mul 0x5edf2ac7adc93a519847af29c058f2c2d6fc620507a6d131ea96fd1925a 0x23edf362cd298b54a3a345e2875c2cf046da2027ef2953a70f8cb5858ea,
    Sqr 0x2b6ff5625174b4f5e72d4abfdfd09ffbafc24e86bc07be955e0ff2e088 0x7eb812e57f9b6c3fe255a3b87d6fb1e96583072b4b15e638fad39c5408c,
    Mul 0x20c99ea835e69d8a7fd450a864e0d493993802f45b79cb257b5d59f71fa 0x7ecb1634514f51e089c7bb27d397941cb7d4ffe4273adba38494205967a,
    Sqr 0x21cf2168680901a56941a33efc955dd65e057e3f771c9625f6e492b2cc5 0xbd10499aca5bd8b05291eb01cbd5d58a66a29e6f5bc2482996cee0f7afd,
    Sqr 0x4b2c11b94b9a8f3bd3fa50d1f3bddae39c8d20983b2a589ec9f9e1c1b69 0xf8e873b8fb8040072f2add9ca09c75bfce1b71105d79178d128b7018416,
    Sqr 0x824ad453ca09ab140324d13b9542494f89e0fde97ab4041915a484a8080 0x191b8ea88e33b03522e3f645bf396fba7e2ac9ae2c9026298bedc9f1b464,
    Sqr 0x153629e5583d6f1ed9637bcff3c84217496cbac70aabedf26396f578291b 0xb3341c312de0ffb66ff0d927ed095b2ad7666b8399c15dcb10414608b97] = Some (0x180752965a7cc883340b9b1997f30, 0xb3341c312de0ffb66ff0d927ed095b2ad7666b8399c15dcb10414608b97)"
  by (simp only: pow_chain_simps)

lemma pow_q_s_15: "pow_chain 0x200000000000000000000000000000000000000000000000000000000000 0x247d9f1a1c4b9f5b95ff77033095c5a6c928a27658892b3f25b0cc75505 0x7b08ccbe4749ceb24c5edd1bcdf1f473d4aac9b13960ce85a31117c6622 0x180752965a7cc883340b9b1997f30 0xb3341c312de0ffb66ff0d927ed095b2ad7666b8399c15dcb10414608b97 [
    Sqr 0x43892c1795cd9c2a68171486db5dafa089e5bddd4b9a1a834a64ec2eb3b 0x19aaed88dfe3e8a31c4a92a289d52692d2953c989dfef3d764db76238238,
    Mul 0x6a42d551ca5abf924fb1b68cb5da4b6d38535e6aaf601aa0494ccc1ba6e 0x1c2e6c13dc24ce02b301e1c5b597e626a44814c94b166463071c07eac596,
    Sqr 0x1ab9124035e15c09933c773c4f14d22716a370841d3f3ba9c283d82a675f 0xd9d090a74c9b3c63f50b0be36c630bcda0d347357a2e12940d91eb7c3bf,
    Mul 0x385b9e1be303de5f436b7d54a86d0f919ad69263ab71eecbf6cb685f1bf 0xf829ef282049499bed423399aaacb5fdad06eb919a6938b4db7b5453d19,
    Sqr 0x8183ac1ca3b5dc8b9a1c6f439440aae8f077bbd8f9e66fd17de377151cb 0xa4f21cb47125f985f4cdd1535215590f9869f6650ee2eff00b2263aec68,
    Mul 0x2aadae943849ed2cc9029caba113ffffc7518e96f330a193a5e0f9ade96 0x14600d0ca43aecf3dcbe2e5998496c7a95763f0b3caea5aeff32c0ecfcbe,
    Sqr 0xdf80f147cc932a8cd7ab8275dcd620318774a1321011c42061cdb51fc0f 0xfb4c3e24ff72e56bff4205f1f0d699637d0f359fe4962b163fb1cca844f,
    Sqr 0x84ce650c2545c5486005a61d0ac5dc4dc6603beea0a22c3aabe638be706 0x1a3a8b74c4241e7221db84a3ffeb5a407323987e905f706dc28c9c28117f,
    Sqr 0x1725e5d4a92567845243d0b930c3a8d9af657b47f049904998a4ac46da3d 0xd75d6b5aea8d03cdd93d108053c5086d31beeaed71b27169de8a625a132,
    Sqr 0x618ab5a7a120114f539995a0c40bc32e1674ed4f244c54608313e637e70 0x2210cc68b964ba3e45cc889e3d0a0567b4cb86f93abf3d6cef69ff095f4,
    Sqr 0x270c2acd3217bd58bd2ce5597465aeb8cb4509ac4598bfa1171d282134 0x11feab2ad514f80db889c24f41b2ef6e424f0aac41dbfa24f0acbd90da94] = Some (0x180752965a7cc883340b9b1997f30e0, 0x11feab2ad514f80db889c24f41b2ef6e424f0aac41dbfa24f0acbd90da94)"
  by (simp only: pow_chain_simps)

lemma pow_q_s_16: "pow_chain 0x200000000000000000000000000000000000000000000000000000000000 0x247d9f1a1c4b9f5b95ff77033095c5a6c928a27658892b3f25b0cc75505 0x7b08ccbe4749ceb24c5edd1bcdf1f473d4aac9b13960ce85a31117c6622 0x180752965a7cc883340b9b1997f30e0 0x11feab2ad514f80db889c24f41b2ef6e424f0aac41dbfa24f0acbd90da94 [
    Sqr 0xae54c5aa521d19e6b62d4507326fc6c9cfc83900090fbfa1ee441214397 0x1519c4d0edbd611487f09060a3e9ce1784acf48432f81267c45e1898da83,
    Mul 0x575aa897f92aab194dab8878d70a5b4a2be5cbc1f2c17d4773fb2ba83bd 0x1bb3a4d20ea75fb5aa39dd0d06d16a5e47bed7a986d635a729da651e8b17,
    Sqr 0x19d2342414327fac3f60aaaf7a1e0ed79b70a39cfa0f8026a0bed1b4afc8 0x1cf3524e52221dab9f3f698169b077d916a15f5bd3ebb30ce5b62652d2f9,
    Mul 0x77d9f5a77debb93efdd320304cbf8ce3b328ce5fb67310358f44ca28317 0x7b9525fa47a569e80d83096b7839be6e4ea65935449e98f731d403f6d85,
    Sqr 0x201e584abd3223f2c3236f3130fb65d52fc1e2cf3ca75f9022d2ddbe021 0xe3243b57025073c59f28780d20cee1bec8f367eaa6f8a6ff1df42addcbe,
    Sqr 0x6c8047394fe7844bbbf834866cefafdb9953fc921114694aed8d32e6b0c 0x1a4d2c9da61fcde995e95140160805c03814e78c3ae952238ea25eea3040,
    Mul 0x6ce2837289ada071c75d67e5a5ecc16a5d0de4099a8976a0b6bc5260395 0xacef3ed62d06a38f8c1a22dfafaaf8307f636b023d7c4411084c7157369,
    Sqr 0x3ee4b0d24630537993d868aa7a97d8e84ac423fa68702cd759e714d9033 0x17b865daa7d6434defb0c1a2cfc2967921cf3d6909859ec69566d44b4110,
    Sqr 0x12eea5ccddc380ca6ce430d20c664ee571a9fabbba420441fa3286591cdc 0x84abd834f410a145e8196091c147329c2d785626c185839b30da53fbd4c,
    Sqr 0x250435fc2ffbfdd6b9283c70606a13de0d45d4adc8fa15ab81a61b4907e 0xc663b1f7a3723e9aab53852e9f6f0625dbb1943f075d091f97bc5d3f706,
    Mul 0x3354ecfe776edf8081d20fe7111c326ed1de72c8605a91c4ef9bbfa0e71 1] = Some (0xc03a94b2d3e64419a05cd8ccbf987069, 1)"
  by (simp only: pow_chain_simps)

lemma pow_q_s: "pow_mod 0x1db8260e5e3b460a46a0088fccf6a3a5936d75d89a776d4c0da4f338aafb 0x7b08ccbe4749ceb24c5edd1bcdf1f473d4aac9b13960ce85a31117c6622 0xc03a94b2d3e64419a05cd8ccbf987069 1"
  using pow_chain_correct [OF pow_chain_correct [OF pow_chain_correct [OF pow_chain_correct [OF pow_chain_correct [OF pow_chain_correct [OF pow_chain_correct [OF pow_chain_correct [OF pow_chain_correct [OF pow_chain_correct [OF pow_chain_correct [OF pow_chain_correct [OF pow_chain_correct [OF pow_chain_correct [OF pow_chain_correct [OF pow_chain_correct [OF pow_q_s_0 pow_q_s_1] pow_q_s_2] pow_q_s_3] pow_q_s_4] pow_q_s_5] pow_q_s_6] pow_q_s_7] pow_q_s_8] pow_q_s_9] pow_q_s_10] pow_q_s_11] pow_q_s_12] pow_q_s_13] pow_q_s_14] pow_q_s_15] pow_q_s_16] by simp

lemma pow_q_f: "pow_mod 0x1db8260e5e3b460a46a0088fccf6a3a5936d75d89a776d4c0da4f338aafb 2 0x1db8260e5e3b460a46a0088fccf6a3a5936d75d89a776d4c0da4f338aafa 1"
  using pow_mod_trans [OF pow_q_r128 pow_q_s] by simp

lemma pow_q_d128: "is_prime d \<Longrightarrow> d dvd 0x1db8260e5e3b460a46a0088fccf6a3a5936d75d89a776d4c0da4f338aafb \<Longrightarrow> 0xc03a94b2d3e64419a05cd8ccbf987069 dvd d - 1"
  using pocklington_factor [OF prime_q128 _ _ pow_q_f pow_q_r128, of d "0xbce1bae6645f252963752a74333138f457aaf3fbc9c842fbcd0b8d48aeb" "0x30df27ef44f1b0d7c0e67e1b615d72f105e1fae692a5c772c6dd0acacbe"] by simp

lemma prime_q: "is_prime 0x1db8260e5e3b460a46a0088fccf6a3a5936d75d89a776d4c0da4f338aafb"
proof (rule pocklington [of _ "0xc03a94b2d3e64419a05cd8ccbf987069" 1])
  fix d assume d: "is_prime d" "d dvd 0x1db8260e5e3b460a46a0088fccf6a3a5936d75d89a776d4c0da4f338aafb"
  show "0xc03a94b2d3e64419a05cd8ccbf987069 dvd d - 1"
    using pow_q_d128 [OF d] by simp
qed (simp_all add: upto.simps)

end
