(* ===== verification/Prime_P.thy ===== *)
theory Prime_P
  imports Prime_Q
begin

text \<open>
  The certificate that the field characteristic is prime, and that 7 is not a cube modulo it.
\<close>

text \<open>The certificate of 115792089237316195423570985008687907853269984665640564039457584007908834671663.\<close>

lemma pow_p_third_0: "pow_mod (0x10000000000000000000000000000000000000000000000000000000000000000 - 0x1000003d1) 7 85 0x62b68801ec048e694ca024f381769f5541392b34be4839cdca181dc19a27"
  by (simp add: pow_mod_def)

lemma pow_p_third_1: "pow_chain 0x10000000000000000000000000000000000000000000000000000000000000000 0x1000003d1 7 85 0x62b68801ec048e694ca024f381769f5541392b34be4839cdca181dc19a27 [
    Sqr 0x2610424723b11e4ba554f4e2a1a88f9098fb054dd29a9c31ad66af73 0xc0ac1621d65b051afc8529734a32f4022a41431b87946413ccf2abb0668487d4,
    Sqr_mul 0x3f71212238668d2f7a41b40949a020172f3f6bccbab9a075ba36f37ebf947308e 0xe632dbdb6b5938595651734a39636410f570c2baaaf10dc8a79ca291638942de,
    Sqr 0xceff6d28e36b65d6081309b65b6691c2c6ab29bf83793e5781b8d2bfe8b26cd3 0xde8217970e0693da10a6a0ccb19412f3aaf6d4ab0f97ea8be70e606680489c7,
    Sqr_mul 0x549c93529ab670155b21f9ae52f6fa8633a7218d4d4619f46776234d5db629b 0xd634a40a16ea79f193e7cfb72385bfd8bf65abdb16bbdc3cc0ab3fb724d97e62,
    Sqr 0xb33c0d13eb8640e3a607d58bcf2d682a9b789d1f754e515d1156f992ae6ea328 0x8cddb91833dba20fbecb7caf0a27589623964cdf39604afc72bdec62c4c5492c,
    Sqr_mul 0x21e96d16100583deda27a9bf0dca6a42b328b3dc7b076023319102b9134bef1d3 0x8e861b455c77ebd77fa70ebd0721ad41e2cb5738fcec909564a80f60cf27c333,
    Sqr 0x4f590c8182198b7a3d01f8052e54be895b741d11b3b92d1a48651c85a61dad5c 0x64da00bda4fadd7a862a1465d293769957a6f1ab2dd848c4a9433b847fa35845,
    Sqr_mul 0x1161d4791f32aa1699f9b78d6e424d54cbbd294e23d3c37baed18e96e7f812bd9 0x815d8e8792a267b2152235514d1a8edc4cd3819c6f632798a9d233478216e958] = Some (21845, 0x815d8e8792a267b2152235514d1a8edc4cd3819c6f632798a9d233478216e958)"
  by (simp only: pow_chain_simps)

lemma pow_p_third_2: "pow_chain 0x10000000000000000000000000000000000000000000000000000000000000000 0x1000003d1 7 21845 0x815d8e8792a267b2152235514d1a8edc4cd3819c6f632798a9d233478216e958 [
    Sqr 0x415f6bd57fa2e4f8f7006729717fc38dbd0c1edbb877207294564300f3b5ab85 0xeaef82231869d0509f2f3d8d14363a708fe2572a68b04044a11528016824e4d5,
    Sqr_mul 0x5e53b15e6da34d00a82a318b20910c2db9616779d7210b3f4ba00f5cee571bb48 0x49b286a0c24417479f96b03d44490a42d3e573dce851bbe984e2443b32386e57,
    Sqr 0x15374d472d25ac49e985380e310c2b5fac9a96c108c4dbb6aba17364083714ec 0x13c7adcfaa4326448a6f7af558d45374c988df1e186449b1bf77a153cbd5ba3d,
    Sqr_mul 0xab2bcd78ef504927ea2d3ad7ddb10f9fa785cc584e515b372d83ec909fe49d9 0x49dc660749534f6b0d8d15d22d4e8415100e12296d24d603f63cec8f6c6eb6e8,
    Sqr 0x154f6fefad01591f089205fe2ff7d2ef7f27605b50a47d7fcf37530c82caf63f 0x8414448c2f8c9eb4079299710dda0ceb1cedb0fc9ad6ccf464889a639aa478af,
    Sqr_mul 0x1dd025a0f710e85a06431a71f932c3948e921eedf1047deafc9f0ae919737312b 0x62af9022446ed3d5f05e16b345eaca7160c561cd0b95c781d910ae50dd6a5a82,
    Sqr 0x260ae2c09c64fb485892adc65ffffa36021969c2ddafd85b98ed0bf2ca5788b8 0x5057481ca4c650f640c86bc173029d3d28b3812a026b15ccd4443801bfb8703c,
    Sqr_mul 0xb07eabcbf75c78fea3e982b153762d9cb2d91cc42626d2e4ee54b1fecf585696 0xbcc01d0aa309ee4ad078bcae56e37c7501cf5176d293963a092add0bc5254e6] = Some (0x555555, 0xbcc01d0aa309ee4ad078bcae56e37c7501cf5176d293963a092add0bc5254e6)"
  by (simp only: pow_chain_simps)

lemma pow_p_third_3: "pow_chain 0x10000000000000000000000000000000000000000000000000000000000000000 0x1000003d1 7 0x555555 0xbcc01d0aa309ee4ad078bcae56e37c7501cf5176d293963a092add0bc5254e6 [
    Sqr 0x8b2abad332b68e44b70341249dda4b95d370e88f875536333415a1b5707fbd 0x943a57a122c555ef7ec0026f4a51a3436fe0395ef959e0214ca0e6cec1d73ef1,
    Sqr_mul 0x258c89252f67fe6df26ef4d0ef07a6087865e9fa219ed4e7f532943e7fd38331d 0x259f94192fdf5204ceeb7836ffe41cef1c38a8a589bb96d1e6708fad8b7069d4,
    Sqr 0x587844894cd26f1df30705da9e8e95c6495ec35255c3d7858b4b413174d5b41 0xf191e6899ddea2a7a4415e739764dd169e75d382ba0fe078828dbcedeb78daa1,
    Sqr_mul 0x63bac327a832f1ab80d951f1a32b10c36811bd44067b310102861b1e284440eee 0xc707ace6cc7544a69163dcf7ac486557b3fadbd9c6cc111676dc9437bd4b2b15,
    Sqr 0x9abcef09bb4471f651677ecbde22cd1f614f14a49b5a09be133b1eb1382dccc9 0x2930781b29d36715cbb777c0e4f3dfae64bfb7691815a29fd0facdd5ae589ad2,
    Sqr_mul 0x2e63ed89b98822b9be7726582d546511d8e337cd272ad727b0b23acd92848ae4 0xe3755aa00ef35f4b7fa858bf32670734f4d275e7dd86fcdaccc0a37e15df5e00,
    Sqr 0xca195483d0e6340acf7ef73071c009b455169662c1880066e7e6e8857a19ff3e 0x33a19d57b770dafd4a25a5f0d2d63cdad14064c181d324117dca54f5e3bb1b9e,
    Sqr_mul 0x48e48b09a4e2d9d4ea3e47e40f0c8d937aa53acf70df6e0147c9651343010dfe 0x816425eddac85a24490349864a71aba2f24bcc56a86bbdfcb1eb2595a5ad5cfa] = Some (0x55555555, 0x816425eddac85a24490349864a71aba2f24bcc56a86bbdfcb1eb2595a5ad5cfa)"
  by (simp only: pow_chain_simps)

lemma pow_p_third_4: "pow_chain 0x10000000000000000000000000000000000000000000000000000000000000000 0x1000003d1 7 0x55555555 0x816425eddac85a24490349864a71aba2f24bcc56a86bbdfcb1eb2595a5ad5cfa [
    Sqr 0x416615675def759bb9ed9547b010e2c987a278e9777c84e030e94a6474403a33 0x6e985277992760cba4a4781a6f6b06ea654e0042a111667e97891d7b8c6c0c7,
    Sqr_mul 0x14e72ca85b16fd38870ebc38ac10900fb0d9aaf04a264d5de51a719b4168232 0xe13f308bdc6b19272db56846fdf5cb8874c1dd26ec4b80a538ca0d121ce09ba9,
    Sqr 0xc63022eec77f7dfe8325a24f273d98df93481bdc658287df3a0a3f0b6fa1fcb7 0xc27d582f4c514c562487cd104e8ba38f13f1e22fd14d20986a178c3dc79b8bf8,
    Sqr_mul 0x40a4f813075a61614c805db240b77085275e1626d59c0c35ce01ae7d7acc5c239 0x40bcf6f31a22bd338756da0e4b60f0d025bd1be7719a246eab629c77da9cfd49,
    Sqr 0x105f06f53057deb50b977faa89a7565d72ab9a7f855eab2c3492d2303753a833 0x54f67dd2b112cde7b742a0b075d51202697e7791b04badbe9ae003ba25d64974,
    Sqr_mul 0xc562cf5a44c89721fc073d26a22982e606ee754cf6e40d56870adbb165dfd8c1 0x533a16bc6138f1f11baa10c5c4c2f5e661f8a18a6a05e58db235f8efb861c081,
    Sqr 0x1b0eb7ec766be604b355ced528f9085dd2ef759b48c4b6a4c1b9cd81e6164d63 0x7cc3e49aff964c5c60ffdb61036ae6a25f08b21431514e4785e5a50cfda117d4,
    Sqr_mul 0x1a9a47f85871c02624b0dc229bfd5264531d55bfb45dfab5bbfa3494171342f7f 0xf79df8523ee141a1637e015420851638292bd9786ad157891e0802a81c47b89f] = Some (0x5555555555, 0xf79df8523ee141a1637e015420851638292bd9786ad157891e0802a81c47b89f)"
  by (simp only: pow_chain_simps)

lemma pow_p_third_5: "pow_chain 0x10000000000000000000000000000000000000000000000000000000000000000 0x1000003d1 7 0x5555555555 0xf79df8523ee141a1637e015420851638292bd9786ad157891e0802a81c47b89f [
    Sqr 0xef8236a93b174130b4d9cd4471f1d36bae1ae143909465d8599ce45b02194aff 0x2d9ddffc76b64c5052cf2fbee490f6b03a9f49c8d4fce1ce0ff15b7cb7de29f0,
    Sqr_mul 0x38e62ebec99c8f9195c014662822f0c4c2ea8e8d019d3b77f4d8e804ccf1cf92 0x3b0d2c9db8af8e0e320125b4985cd888fd3235e495b1555fe98bb2b15cb07332,
    Sqr 0xd9f133e42ec45f75de38eb0bb0e5d27de963cb92670c7efc50aeecd70d3316d 0xee2b80effa06988619b0bbf5327da2231de5fc65541da50d3998af071e9596c1,
    Sqr_mul 0x60f126df36d25c993d4ef23083eca52fd1f1679bacda0be6b5e3c47224b3f5aa5 0x899bdf8a0ffd8f8216fc717ace0bd31b43a59033bda35d941d356b9aa6de1e3c,
    Sqr 0x49f8342a397e92f602851569a76211b1a20fad8b068367ef724da9733c68ba76 0xf7565633453e10f5a75c2c06562bbc713ed0a87f7e11ef6370ebc35dcf51ba66,
    Sqr_mul 0x688c60432c19f72868bfa69c36a374b402f5c70b3d0b73f8c544b487165490f21 0x49c83a27c34c8635552cf039a1a4a49eb94ad2b9165472c0ea272d639db1616d,
    Sqr 0x1543cdc598b8d6c7e1077165be90aedf7357be73bdd277069bd84fa9b8e06a49 0xfc61cbc58dcfd39be7d2005727d4654198c05e46351e45bd253329b920436902,
    Sqr_mul 0x6cdb4c5beebb2b42f3de6849f344fc6cb10a653de58d52f16481e8968fd590fea 0xd8c76e77747fd4c258fc3831f566b0abddcc74755d32460fd160cbd94fbc3826] = Some (0x555555555555, 0xd8c76e77747fd4c258fc3831f566b0abddcc74755d32460fd160cbd94fbc3826)"
  by (simp only: pow_chain_simps)

lemma pow_p_third_6: "pow_chain 0x10000000000000000000000000000000000000000000000000000000000000000 0x1000003d1 7 0x555555555555 0xd8c76e77747fd4c258fc3831f566b0abddcc74755d32460fd160cbd94fbc3826 [
    Sqr 0xb79125c681f9b5a01b02e0c010db5138d904a0111b144292ef3a47811a97af02 0x55c4e46e4ba9ef4cbdc0df641ba8f4008c1cb96d72a7347d077bbc2e75038c46,
    Sqr_mul 0xc92661dec4c37fee5f33f689b6a162479a90042d91a801264087653d3b8f4c97 0xceb709ef1d014056579850b77fb13998df199c4300c0125e28a6ef3f4f67c243,
    Sqr 0xa6eb16dc06ec2ab6328fd9a01c9de012979a7c47c590a420ae3d41e2b1fc6925 0xc0ebd9fc012965790c2bc908b8b62e2b43f49606e5c665007314c63b83a0e3be,
    Sqr_mul 0x3f9b261db9025f5c25a2c8698c24f9353c9f8b499c4748b77187e191a71401c06 0xffe39606ec8c9eede826b066086a6bf1a2d7b66f49f46d049f347859aa647a02,
    Sqr 0xffc72f353373c36489d099812d268da06770e273f882debc01a4857155184b4a 0x116c7c44bdd9cf7186918bae9f525aeb6f883454869c4c89c471dfadf56d3d6e,
    Sqr_mul 0x84d1d5784c475efa3e2b98d82bffb717de2bf8dae671e6772355ec9e210f5bc 0x8349cf2cfb630c801085cdf83e03f5df140c53123fb51fc30b364c452b9d1158,
    Sqr 0x43549f4fd89883b9c11124af643118836a834c179074ad61b2437976db4bb873 0xe6706f31e7874bdef77023ef1c701c058c153656871ff1b6dc5404afc317bd23,
    Sqr_mul 0x5ac03904a17f2168da6dcfd57e63e569ca203e52174e4be026db0344505193b8e 0xa9eb201d77fa7a0477ee0bd28b2713cba3d9d3f56840b5e2eea4ae4c6b7b2c6d] = Some (0x55555555555555, 0xa9eb201d77fa7a0477ee0bd28b2713cba3d9d3f56840b5e2eea4ae4c6b7b2c6d)"
  by (simp only: pow_chain_simps)

lemma pow_p_third_7: "pow_chain 0x10000000000000000000000000000000000000000000000000000000000000000 0x1000003d1 7 0x55555555555555 0xa9eb201d77fa7a0477ee0bd28b2713cba3d9d3f56840b5e2eea4ae4c6b7b2c6d [
    Sqr 0x70c8485ae28a5c58f0081027118a30ae317c25260a164bd44d566bc9b6ad311a 0x45e100d7828bf521b8b18491a893083a1de5074165a918cfe3cd4d0b016c0aa3,
    Sqr_mul 0x8585717e92696b174775c360fc12ba7249b4042345d24c4253efa06be7d16453 0xad92abf84456e3f88a33ea4874b0ae9e4f02eaf24e5b8b5bca8d8ff475efdb42,
    Sqr 0x75af90762710ff4a816dcea44759c38b4a5093109b3b3f0710ce0e97d8ddc47d 0xc23dd6dd868a9cb7f12ea6c1b2bc3d3782f939a595d09ae9a87a46f51b60de11,
    Sqr_mul 0x407ac7c26f4c7317f80ba1e537f048b0d2de4569184c1890e907b6da73061f8d7 0xdbfe51c70aaa1f7919ef2099e0e9f0b86dfae3b54985a0ed1b52e824dd91186e,
    Sqr 0xbd0d1c90ed57caf0e387e47ee34c4f59b2b21af51c11a167c8effac51fa40feb 0x61ac3ae627b00ff84fb9d46fc432bf792679c1ef4931687e2d22f935c118f1f,
    Sqr_mul 0x104dbcb8b4a48f31f3edbfeb4b04c3c41f5e77993858a7c1345476eee228305 0xd7df68df2eccdac61c8789bba4e89360985eaff509172cc6745abf1808a18e5c,
    Sqr 0xb609051ec065b8f6ec45bc5b90e68f0d34e4b73eeba6f0834cd5a3970034bc33 0x58fe3a91514a7da566949cfccbc00ba63d1ae4447aeb8bd653c8794e8246fb3,
    Sqr_mul 0xd88e61253f8edaa9e31aa314e1df2aab7083206c6c88128461ea45b37ddf86 0x1860a66d9be02659a854a0e14ef7179c5f958ef995ec9dc1cba2f7cc50f31085] = Some (0x5555555555555555, 0x1860a66d9be02659a854a0e14ef7179c5f958ef995ec9dc1cba2f7cc50f31085)"
  by (simp only: pow_chain_simps)

lemma pow_p_third_8: "pow_chain 0x10000000000000000000000000000000000000000000000000000000000000000 0x1000003d1 7 0x5555555555555555 0x1860a66d9be02659a854a0e14ef7179c5f958ef995ec9dc1cba2f7cc50f31085 [
    Sqr 0x25243b1cba1446260543efdb4fa8c4eb16ff85602e6001ffca8da026652c771 0xdc69235e1a6da4dff84271dd7ee53e9f87caba951b3d35b9a3ea95acff7a0b5a,
    Sqr_mul 0x530621fc66686f9f92d4467294376797ed9b142cd8397c014544cd1d5ab72f758 0x683adbbba76b1bbb662e8716051953d83f6fd356a211a707718073f025bff854,
    Sqr 0x2a6fe010c5a97d10195a2a70ae311a5e624c7ec18b600944b6207b5b01d9f980 0xf72b44b8be55bf5652d512eee8f2ff1586c563539743e391d66ee30ed71c0d10,
    Sqr_mul 0x6867fa9789694813df8d70ca0d3e99784ad5ca8dafe79864c65ccce8cfa7fc74b 0xe781bfd3139d90d6b4c26a0ccc032356378d70e89f401b032e4396ad26d1fc3b,
    Sqr 0xd15b69f1cfdcc57de7f6ef74e3ee00159700841be2b0d95f501200a01737ee33 0x93d932c1639786674022f7a1bf6acc67447a7d4881e517ed78156008f14e463c,
    Sqr_mul 0x255b61bf8440cc99c92e8f4515c4cd029ce48b882548ce7cf45e5358bc964e39d 0xdfdded23a9a7e7f19adc3852521cd465212e3957c5ed6b16ad37418b80dabc9d,
    Sqr 0xc3c463876cd07f161abeed822f8489874554a339bd3238c0c1f41b2d016f2ad8 0xff46059646ff31da8c8366ca0f375c910661c517175802ab5ace59b3f9d7aa1,
    Sqr_mul 0x6f5d7fffb0e350f114afced3ef94efef91385c35cebb99286c22c8d94c324c0 0xd079b41f315315ef9cab48ea74039e356334e2cc442d0d65d97d226aec463187] = Some (0x555555555555555555, 0xd079b41f315315ef9cab48ea74039e356334e2cc442d0d65d97d226aec463187)"
  by (simp only: pow_chain_simps)

lemma pow_p_third_9: "pow_chain 0x10000000000000000000000000000000000000000000000000000000000000000 0x1000003d1 7 0x555555555555555555 0xd079b41f315315ef9cab48ea74039e356334e2cc442d0d65d97d226aec463187 [
    Sqr 0xa9c5fe8e745f8559ed919e1daf67416489238a29324eb067f65f5f8e7a4878e8 0x523d00842d1607ae2ccdd6c2fdff9c088d3803a78c29b6c621748604b5fe6299,
    Sqr_mul 0xb8edf411731f0fa45e913b3c28d542da04735885580d7f66e8b9cb856515ff95 0xc3baa9e5f7a98b78ea17ab3a4e36e5729e70666d9c9b99f0ae9a6a90de0ae3bc,
    Sqr 0x95a5e6efaa399c6bbf66001277a7e1e3072f9dad8de19c28f870c7d40f744fea 0x73a71e1dcb6b56cf36972e227768fb5717e38363013db539557db729a02bee1a,
    Sqr_mul 0x16dbcff118639d4441fe2d7ccdfd369a9b3aff6fed12b8a8f9c231ea42d7f9065 0xbd99604f15f388a890eead839b86289f0795027e441633616242b6b1b288bf1,
    Sqr 0x8c6bd419092d3dc7742c4a549123a0c71d97a4b2e0f8c67be7bf04516cb8d2 0xaece57bd92d07260a3a5c95d35af46c489f96062f85e5f934e6e3db39dbcf253,
    Sqr_mul 0x3438c07212f323fdaa1f81a93b822180692540dcc3579eda1ca7ba239a6ca1d67 0xa03e05caa6b8829936ef41d36dd1417c2fb3b94b8d74e97444256b0d6596676,
    Sqr 0x644d96441eb0ef8d83bd9276e7f21ff4f58c6be2a554757b3f81b061b09e62 0x9fcf2bbeb5cb14a3dd96cb92fc998e7a6630fc8f48baebf2c324514c821ab266,
    Sqr_mul 0x2ba54fff6b1f928688c250ef1de245c365462a675c2323ec23f2c8f23e212823c 0x8665015359f79d60929d8d717712a5bc0b007d783f454bc2bffff5e7ffe90b78] = Some (0x55555555555555555555, 0x8665015359f79d60929d8d717712a5bc0b007d783f454bc2bffff5e7ffe90b78)"
  by (simp only: pow_chain_simps)

lemma pow_p_third_10: "pow_chain 0x10000000000000000000000000000000000000000000000000000000000000000 0x1000003d1 7 0x55555555555555555555 0x8665015359f79d60929d8d717712a5bc0b007d783f454bc2bffff5e7ffe90b78 [
    Sqr 0x468de53d4df5f7faad198916e880255c5ca6366cfb56ca8a7419d2a797e50b60 0x45c39752cacaf5571b11eb0ccfa6a03aaa65aca95335f2627dda7889a213f1a0,
    Sqr_mul 0x851523119443dc30cbac3ec534aede6340f5d1b2e0ae1db9d54bf87c8d8c7029 0x8a67f385a5022e59ddee044307792c470d7ee66be845b94ef55ecbc7019e8879,
    Sqr 0x4ad43cc1f3181ec13233c696c14709981bcac0e75ed3bdc558e8097d8789b3ed 0x505ce52aeedfffdbba9930518a08982648280b7e6f872c4a98dc9d5af4a474ae,
    Sqr_mul 0xb0975692711eb4509adf4fd10d7c0843ff06d91bf4dcb35e2362f3d90dfbadf3 0x234ce69c2449e5603c37199f828ac73916f31c12f185957ac7d1e2331a55e83f,
    Sqr 0x4de1e286e5eb10988f8290ce8f07461a24d6f114fd6e3951762c6472f37f06f 0xe95ee7176128eaf778ebd28e56d7a92695da6128666ed85bc70bfb350d04d720,
    Sqr_mul 0x5d1313ae1907540ae56d88e45f33c4ae439ae53aed16e986f6275cb3cead720c8 0xc901811e0783547abbe1ecdbcb0bc7d4f91bd549706a2550893afc98ff737748,
    Sqr 0x9dd35cc36b2790c782222dd0fffc8659c3b5694228ac5e453c5ac06821b184c3 0x445457c77f307d5b47178e967ab670b34735c83a766ecbfc3f84736168bfb073,
    Sqr_mul 0x7faa68f1f01d0450e826b8ff0f6bf49fab7a9bb3ae21d93fab34c9ca3a707b81 0x38ebf3b8a6aa6b365c04b86aa0891686c8cb5f0a56d87a85f3a2009f7bd1a0f0] = Some (0x5555555555555555555555, 0x38ebf3b8a6aa6b365c04b86aa0891686c8cb5f0a56d87a85f3a2009f7bd1a0f0)"
  by (simp only: pow_chain_simps)

lemma pow_p_third_11: "pow_chain 0x10000000000000000000000000000000000000000000000000000000000000000 0x1000003d1 7 0x5555555555555555555555 0x38ebf3b8a6aa6b365c04b86aa0891686c8cb5f0a56d87a85f3a2009f7bd1a0f0 [
    Sqr 0xca8141a25f49d602713c6ab87510d7b742b3501b3660081b105eca36a529034 0x61377d697b5a6e142bd5d3333861a4c935d9640e326ce52a5bf7b24b92253774,
    Sqr_mul 0x1026daf7771affb67370643092231e342b846fd31780191a68101768c60800ad5 0x6237444534136c1a51a53dd0b93760b04e4dc872d165f8e8087566fb0176aed5,
    Sqr 0x25ae5c3363d0157c084fbf481421a7f7dee99f7ab813a765af4f73c62725add8 0x13753270978397d3b9cd05fcb75ac960fbb479f85309d97c61f3b24b48eb291,
    Sqr_mul 0xa5a3dfaff6968adc0a6442f171585b20c8da94d872acc79aa6a6b4c196664 0xe06d2a7d7382027a9914c9b242588976910f309007a51b09cdd1cbe6dad57e8b,
    Sqr 0xc4bf38e8c005486d522f72e0b075313bfb8b1072042593dd9b1e9c8f9fe3733e 0x21262014395472712078c4d85cccb40762964c62df3d5192660d14b3c0e5ef17,
    Sqr_mul 0x1e0bf5a345a0f988d233928226b07a1a93c0933a4ad0796831865583e6ac8817 0xff5b79f60480e0246231bae43ec8fa51487776d0f45e556ff07e77b92d910c3e,
    Sqr 0xfeb75da80bfa6ed65122544f594b68275bf499f9014ec2095a9a82231c4740dd 0x6c12cf646ff3625e6924ac5188245dd24c638dbfa35551a5ee1b8ef496c06a71,
    Sqr_mul 0x13f5f2295f42cbfb933358f47b112f195bd6361d6dac095cf1b3aa047e67f38ca 0x1bd1d2e39ac7e78ff091254ef5911716860449869522954ffa3208e77d42411] = Some (0x555555555555555555555555, 0x1bd1d2e39ac7e78ff091254ef5911716860449869522954ffa3208e77d42411)"
  by (simp only: pow_chain_simps)

lemma pow_p_third_12: "pow_chain 0x10000000000000000000000000000000000000000000000000000000000000000 0x1000003d1 7 0x555555555555555555555555 0x1bd1d2e39ac7e78ff091254ef5911716860449869522954ffa3208e77d42411 [
    Sqr 0x305ee760803198c49c759835602fe4f91fc9d4da8c61872773f0a655e48e5 0xbb208bc0b52bc9ffb9d5f71df4c402bd91f3e2c9c38584bd3a8f0bc16c10fb16,
    Sqr_mul 0x3bd7bf227640ab5035cc6e544353532514703244a9477dbf51fa19bf9e06a0bd4 0xe73e831e847f2d7044b83aedff6f87f4e826079e9c4a671003d40185d3d42d50,
    Sqr 0xd0e1dfe4d90df0d81948b6449a13398ab8c9abf6a2c3da3842733bc1fe606e7e 0x5cae003bbb39aafee759ad2d94a62b4873e107ea01c3388ff6c0a586c28ae7de,
    Sqr_mul 0xeadead0abe5c16a0741b74b9a0fc4a1d020d3e40fee8fa1ef149cd8c9419a2fc 0xc528bb30664adbc55cc52a0edaf351537b7ec45b3f99dd9bb6cb36e41b4fc358,
    Sqr 0x97d7b693856eec3a5078ece7e7b26506e04d1492903ec7766bbef3e4284e20de 0xeef4476f4c15903790fcb1f4abc593569a57b598f4c06c6c9905eb6a878a9d7e,
    Sqr_mul 0x6194dd16e5af060f0d3b6867c38949851b115084dd0247fd48afb413f73c828e9 0xb5d79f068a8df3d50e78ddf91d18057c7eec87a0c2cda57c4b06da995406a755,
    Sqr 0x812a9c7bbfb29581f4dca87621831b2c19aa4213489e519d1e5dfd56a81942cd 0x2e4be146ff7bdf61dafcaaaa1c38d257903e64d8dff0779c134e401a95c3f296,
    Sqr_mul 0x3a9b80270398a57f97e11988c4711ea992726c04e2f706ed998a93d1c920b70b 0xa53f8a0a9bd2794cbf0c41524153c32ecdd14d2968cf51b08fd08c8616962037] = Some (0x55555555555555555555555555, 0xa53f8a0a9bd2794cbf0c41524153c32ecdd14d2968cf51b08fd08c8616962037)"
  by (simp only: pow_chain_simps)

lemma pow_p_third_13: "pow_chain 0x10000000000000000000000000000000000000000000000000000000000000000 0x1000003d1 7 0x55555555555555555555555555 0xa53f8a0a9bd2794cbf0c41524153c32ecdd14d2968cf51b08fd08c8616962037 [
    Sqr 0x6aaaf7b6e8857264181c98227ccfd48028fb4076e326bf74e59461239ef0c6bd 0xe64d489119aa20888626f89285bcd2d1c0f8674d187982c56ffb86d5cd68431e,
    Sqr_mul 0x5aa48b81239cf885aab715164288b9fe131df170bbe3ff8c224d027d4a6395b09 0x7701b50c4e442adf08de5c1497db8de26a49d70882acf9b8c4740ebbeab171f5,
    Sqr 0x375296545ae663a782edcf11d77735c12f313db70afce1278478f873904a992c 0x47ff15d4a8411aefb02681e5be16a48629444c121210295eaedaf1765836c565,
    Sqr_mul 0x8dbc65fb31e7344cca5227ecefc57e2504292e9107a704ffcd78dda7831ec4f2 0xeaf28da0ddc9ea8adda7e507ace529d7ba100cb976f73c0105538efe9021d481,
    Sqr 0xd7a050ba27f30bebb4aa6414f664ab6d98be7c38bf3472ae74e0d8c2f73cdca4 0xb678a326884c7f34c461d69b7f007c310101e34a1f6ad2d5b704fc3b28edf6e5,
    Sqr_mul 0x38e6e45cd094e7baf1dc4d8672938075f8fcfc1767fbb7f77308a4bda4f0c055f 0xc990baeddbb3d35fa32a73788a0b781e4723e595c81dbde90b10a0e31bb8dd7e,
    Sqr 0x9eb4975c57160c7bd079bb39e435deef2428f7001ad5f60ea12a1af1f3d594b7 0x3be0641422ed3ecf8d3f4bf31332f2339229a3578db76a68cafd3bc64adf586b,
    Sqr_mul 0x620863b4013b8102e09765bcbec4acda075ecb75c1f70f3497e9eedca5f1c07b 0x9b4583be2d369b7b5357f421434f13c9b4b9454d41d24ecfbd282afb7249be7a] = Some (0x5555555555555555555555555555, 0x9b4583be2d369b7b5357f421434f13c9b4b9454d41d24ecfbd282afb7249be7a)"
  by (simp only: pow_chain_simps)

lemma pow_p_third_14: "pow_chain 0x10000000000000000000000000000000000000000000000000000000000000000 0x1000003d1 7 0x5555555555555555555555555555 0x9b4583be2d369b7b5357f421434f13c9b4b9454d41d24ecfbd282afb7249be7a [
    Sqr 0x5e2d40689310af442f92afb4ed9b1e1e262ecc77e4ef2f40cda71e2fe114d8fa 0x9c16048b40b239a850170e52d52839fd1c63e3f87682e891e8205bd2d7dd643e,
    Sqr_mul 0x29a2be405780adab3839f5740762fa63ff970fe85371ead92e566423609c3c350 0xc361b3c9d720fe9c8a7fd309fb9db9c346fc700851f5e48d6315886fd833dd6c,
    Sqr 0x951dfd2f3af52cdf1846dbcaf5bca91038361029fc4d184918754c5a13697a72 0x3fb1a6c7d6ed12e9d73dd8454b408718f83af24fdb39e0a0959e32064e17f2a2,
    Sqr_mul 0x6eee6f94dd75a515d9e7b8c4e1f6f701fa23da850459639f0b5897ef5706e2d4 0x2c00823264bdfa66211061795c38014e97a47b73be847c09f1fb8710a2ca70b0,
    Sqr 0x7902cc194d8864f8f882396bea5d52d0446b9dde4e16e385eeab9bb8e88273c 0x790acb7fa5e63b7970cd6693e3149a4a9086ac875889b928692388bbbcf834fc,
    Sqr_mul 0x1909e71c661f20cbe38b642e6acef66b1de5e4437634878aa327c379a67975f91 0x8abc518d9e3207413a06f78c88e97b243bea514f16c32ceee2ce223c1f3720d1,
    Sqr 0x4b2f9274908935c047d1cc6cc7a85537910f70104faf544b864ff24f90c875f6 0x527a2453022eb7ea86682b305bf451793f6a7a1bcf131c3a469d8367490d1a77,
    Sqr_mul 0xba0152d2bbb03927a5b9bf9c1a71d5d00ba653052193d83d457574922f040c46 0xaf55af865749b70e66105312a15d64abc08a88a5430554b7f752dad264338e5d] = Some (0x555555555555555555555555555555, 0xaf55af865749b70e66105312a15d64abc08a88a5430554b7f752dad264338e5d)"
  by (simp only: pow_chain_simps)

lemma pow_p_third_15: "pow_chain 0x10000000000000000000000000000000000000000000000000000000000000000 0x1000003d1 7 0x555555555555555555555555555555 0xaf55af865749b70e66105312a15d64abc08a88a5430554b7f752dad264338e5d [
    Sqr 0x781642a7b2e5b10f864e9aad80222c46fc3fb586500effd5b30d6157f0237152 0x9d0079580081c0b1ab9a8d529d72c9c280d9e777783efe2d4a0c381c277cc7bb,
    Sqr_mul 0x2a20311db26f8339280e9ca503b7de10e49bff7755cc5d41a76ba893af1e354bf 0xa49414f35118566e055541ddc53be235eac2c2b977974532abe260c7a97c3f1e,
    Sqr 0x69ce107ffaf3decfc17115adb0758770fc2fc62a9fe05108f2a8d81914801048 0x505ec177cb7e3435d6c92ef460adda644056326633a857ece8eb0460d5dea4c,
    Sqr_mul 0xb09f83eea5932765b31e1a237e0f5f9082954702743f8e7935121693914935 0x892d6ecb1618f0f696d61102d801fcdc89ccfc5c096b7429ecce720cb1099135,
    Sqr 0x4981a8a580ff9ec620ac8202a747d8e28350d199e4650890dc857a36c3696ce6 0x4f7c824bb2ba55705a730003de494d8e4ea5a67324b793775ec3e404976faebf,
    Sqr_mul 0xacc292d06bb3cc06f9ccf0d8eb47bddcda24ee80fb392ee40866d06fbcb60f3e 0x75a0d81acd51b8456da8e0db15c09931c3e9a6c8c1d5bdc9484be18977378d25,
    Sqr 0x360c6a97579a95de0d4002fde7b05b70a3a32cb5c1e750c08c29e2aefcb6c325 0xecfbf7d5e6c9099e67635df5e2ba44a51bf186bcb5795ef1e353add7cf36878e,
    Sqr_mul 0x5ffaabea02839c22efcc65876ec340aa54bc0715cbd4a3c5cc67156e46fe34968 0xf0d02bb7beb7ea244b8d53fbfcbae29c64f532e9743576b3b8abcaa6c434a944] = Some (0x55555555555555555555555555555555, 0xf0d02bb7beb7ea244b8d53fbfcbae29c64f532e9743576b3b8abcaa6c434a944)"
  by (simp only: pow_chain_simps)

lemma pow_p_third_16: "pow_chain 0x10000000000000000000000000000000000000000000000000000000000000000 0x1000003d1 7 0x55555555555555555555555555555555 0xf0d02bb7beb7ea244b8d53fbfcbae29c64f532e9743576b3b8abcaa6c434a944 [
    Sqr 0xe286fb3f97a5ffd48a523814e7cdfdbb67bd751b4c6b837df344038155e7c866 0x78747cbe5e7cc7d66a04b576afea34a43bbd9e5752ada838c31cab342d1ea756,
    Sqr_mul 0x18cbde5aa4d3916b3b7c1009935cfc8fdaadd906a294c447610036694c83102d1 0x57acd9d504af4eda58c6c04e5285fc5a91247db9fd8478546c8c22b02dccf5dd,
    Sqr 0x1e06f0c438c8465c5d3bb6240bac1ddeed42d086acc92218a74a06181052d0ab 0xa9cdd1fa9c98b655d4126fbe7cf035e6cdfcf15941d7fc3f56de88e9c2671d64,
    Sqr_mul 0x31469c0fff8811c6e6ea91808dd46e6442e830aa680615247e9f703b7b1867b9f 0x93ea0fdd1711a3622848bcbab4ab7f36014561d55850f8d5cd2f0a711724733f,
    Sqr 0x5576a438e9a815865162f27c430f89a6b8d1d8e28e0524026bb2dc2bdca0f785 0x2e9ef62b81bc38cc03d2964230e6a9b32663c3e0dba707f862a3766df1ea4c16,
    Sqr_mul 0x3b6e9636fb4ffe56095f9e2e6e4ec86e7d6334ae068d08aa865ce1eaa3f139ac 0xf75699f21738e53c17479e98a6760f1fc8e626dfa643508ce63c11fe77096a8,
    Sqr 0xeef83a5cf40aa945e4fa576ea27f95ab326f1e24f9eff6efdc7bcd53a75ae7 0x507631e7693879bc07eb40f350570663b7999cc93f3b963343b6039a9d5b39d7,
    Sqr_mul 0xb1069852b9c2e946f46baf182e1dd323d1e953808fbc491c1ba75acf7203babc 0x2e538b7bc7f2ad7b93e36422c714786203f5d0d1a1a8ba214a78d74d4dabc973] = Some (0x5555555555555555555555555555555555, 0x2e538b7bc7f2ad7b93e36422c714786203f5d0d1a1a8ba214a78d74d4dabc973)"
  by (simp only: pow_chain_simps)

lemma pow_p_third_17: "pow_chain 0x10000000000000000000000000000000000000000000000000000000000000000 0x1000003d1 7 0x5555555555555555555555555555555555 0x2e538b7bc7f2ad7b93e36422c714786203f5d0d1a1a8ba214a78d74d4dabc973 [
    Sqr 0x86221643a1e84b02f09b48b0c77d144fbeb66411e53550983656294d8b61f08 0x97f7ad4050e7a53f722cc58eed3318808082527e31d508db03ba7cbafb343731,
    Sqr_mul 0x2777ad20b8f9daa2782fdc6a512d9d120804d4713c152cf339fc7cc7eecd2bce3 0x213404ab14b78088cc8720a6119a855919841e111baa7d0531a3e3d8b0e581fa,
    Sqr 0x44e73c600ed84a9e7251a13ed9e677b312d106ac1ca929b69616b1af4655d4e 0x8ad7066ca6b42b11aee94f5dc3bb0002ed2c18d449db47235b943186421afed2,
    Sqr_mul 0x20f17b4be84b8b0ea881692991e4e91d39abef6f0e94bec01adb232702d262a19 0xf065c1f14aff7a76e57a6dc519898bcafdf6b754db4f1b70d61042c888c46745,
    Sqr 0xe1bef41707f1e9b911bb2c0cc78b658e10b9f95bdafd47b2d3db5704b1a0ff5e 0x4c8950e501b4ceeeb55f6ca22e60f754d8f6b97227d85baebf8a4c7f82bf2e57,
    Sqr_mul 0xa02cbbcd95c9c631ea07b8a17ac26514303700c3bbe556828f6affe2ddab2b80 0x9cadcfc1cff5170093f309402da2809891e8a91cfd2f72de2b72416bc1b6ae77,
    Sqr 0x5fe44b36aa00c6535ec60dbace34c9a8dad415207fb9adcc837ec44c62daa544 0x9bb3f73c785bd5247d81144cb168eab4615ed12a70cd6b3bdb8507af3a8ab3d5,
    Sqr_mul 0x296e7f3505194d570b5928c003bc26e8486ed70933c5c661beb62205caad7ee10 0x3e41a81324a0a5632696021d2ccbd2989c64c1980b08c6c9b78e06a63dd8759f] = Some (0x555555555555555555555555555555555555, 0x3e41a81324a0a5632696021d2ccbd2989c64c1980b08c6c9b78e06a63dd8759f)"
  by (simp only: pow_chain_simps)

lemma pow_p_third_18: "pow_chain 0x10000000000000000000000000000000000000000000000000000000000000000 0x1000003d1 7 0x555555555555555555555555555555555555 0x3e41a81324a0a5632696021d2ccbd2989c64c1980b08c6c9b78e06a63dd8759f [
    Sqr 0xf23de400dcf8b31513283e2db3176e21d8b39b41af90f39dec63c23d279a312 0x2444c6b0cfb65b9254978508b22d7aea808e1f0cd4184ad33c960510ba921073,
    Sqr_mul 0x23f7e88331ed52630d2da3b1895976b4f6ee63e363c9aa1ef5d0b6c0f4cf546b 0x9dba5e3eb09e6c5b63efc96e7afb95c6c955bee60f8380ba45cea8226cdb35fa,
    Sqr 0x612e1f45fa6d102beb8b26324f8c4d06de95c4172c68c7bd793fbcbc12ac71ae 0x4392730d1467734449d1f15edf72705857771e6978050584409fe319993b5132,
    Sqr_mul 0x7cd9e401f3233d54b3925c2c062c106c12422bc574a714839bb0867bf9ee6c2a 0x59638dc24e8b6043e2ef808fe059478f657647cf4c8a79cd8a7b1340e2838ca6,
    Sqr 0x1f365f480d6546bc53adf60c4c184ea2e9821db49132a9ea47a442d4897e503d 0xfb069f6d6ccede6e0966f1d864b77fc85d3af9cb349d17e9a3f8dc4c123a3471,
    Sqr_mul 0x6bb09e9970e77109b101f3f0de0103d432eed4a743f838bcc4dd68b44e0e32c76 0x795bf012e44eb6ee3b9b5d2145231be45e165c38d5e9523e892bd43e209b637d,
    Sqr 0x398809f66a64265bbf63f5cdaf8a7ca71122420ff06900ecc36950f870415935 0x92a01201a801dfb1a890ab61f1798ad1b72cf881326c56de975fcd16496d5e4e,
    Sqr_mul 0x24bdccc62d0caa7e8dc845f2c0e4e782b2c208542e2f9aebf9dbc2cc24d4ab0b2 0x15233d40b71b4e48344b315cb83e26ea29f1f38af6df60bc5fee51a0762df5ae] = Some (0x55555555555555555555555555555555555555, 0x15233d40b71b4e48344b315cb83e26ea29f1f38af6df60bc5fee51a0762df5ae)"
  by (simp only: pow_chain_simps)

lemma pow_p_third_19: "pow_chain 0x10000000000000000000000000000000000000000000000000000000000000000 0x1000003d1 7 0x55555555555555555555555555555555555555 0x15233d40b71b4e48344b315cb83e26ea29f1f38af6df60bc5fee51a0762df5ae [
    Sqr 0x1becce66c6473ee54403c8386a20e350c8ed67fcc4552ecfe3876964f0a383e 0xa6bc1ba8118358e32494bf9553eae4410d8573d03ca11c57d88681e58f326e2,
    Sqr_mul 0x2f82b729e2bda9f94c7c973ccddeacf8793a365daccf1cf99c0f9fe825751db 0x44eec50b8c72b25f0c37a396449cfdae021c6811966b45681d1b0cb5efea8167,
    Sqr 0x128fb7611bc0dab40ca789cffcb45bf122d515f60754cb5f1773e6149aef682b 0xfe7de9b5b9cffbc5c94a775d34aa71345abf639031d20240dc8ed4e36f61838c,
    Sqr_mul 0x6eaf2b3e2bed755b495089bcaef92e69884989967cf799d022a4c6d8b72260c15 0x9cab69805c4cf01c41e774783f4c59a92618066fbe68de765be639c625082c15,
    Sqr 0x5fe15b5a8d739f7ec140cf2dac233545e72b5782dd6b23a5b3193bf9b3056999 0x27f72f52014e65af3a782e9e45d91e204e4ff360c17186974bb0350a128f3aa2,
    Sqr_mul 0x2bacb9a355b95916a0a07284d10a8e1164956852b5a246caec8009d58c86f039 0xb800ee0230ebc3512ed83c6664f623e6b76556a14857d9ac401d4377abdf6f25,
    Sqr 0x84415624039afbbfdf8a19909a7307b04981857536c96a6989a3e8bedbf5c274 0x47f7fc9f5bd585e4c126d22f5e01875da4c716efeaf79d57062df6bdb5a2380d,
    Sqr_mul 0x8da07474f4306c19dc6b0a728d13af95560d30e56b70002d5e18a56f7cc10af9 0x1c7021d4605995267a972d066876cea842154ef9d25fddaa07a42a2fb3ceb4e8] = Some (0x5555555555555555555555555555555555555555, 0x1c7021d4605995267a972d066876cea842154ef9d25fddaa07a42a2fb3ceb4e8)"
  by (simp only: pow_chain_simps)

lemma pow_p_third_20: "pow_chain 0x10000000000000000000000000000000000000000000000000000000000000000 0x1000003d1 7 0x5555555555555555555555555555555555555555 0x1c7021d4605995267a972d066876cea842154ef9d25fddaa07a42a2fb3ceb4e8 [
    Sqr 0x328b88413605809bd9298acb80c0e13fe8924ee25b3214ffe71d8fdc7122450 0xbf4c432e8b0c5f8a1934c151f920ea78c501b917260c2e07a85c89e8d173a790,
    Sqr_mul 0x3e8a434c3dd42ee14c31f38bfddcbff8faf191f71dd27857f4f302049fe6e4048 0x3ca5505de245df846ada5f81f1a245b6cc1f8d8391127d0bddf2a09bb21fa9c8,
    Sqr 0xe5de86cb4513eb20d3eb4fa3253484a43aa084ec1c2711bbacabd54bc207b03 0xd71b0d0c0dde3990b0a84c32d42c4746c355cbbab92cbbb1ac7eaf99a6ff22b3,
    Sqr_mul 0x4f135236a0382f0cd58c4903dd330b02a57131133eadf410c531717a6fbaa4ddc 0xaef16ed1e84f350b8a22ebcad3306587f80f93a0610d608de7a018c8761564bb,
    Sqr 0x778d16572efc20fec53bbe7bed1b0e73309ed4f1d6aa6c0a9ac7f0eca5c25209 0x44fc4447c66cc63014854d37b644d7102787f17bad5de5077958f803acebb4f2,
    Sqr_mul 0x8220ea08668682d03addecbe16865d7244ed08be1b7fd71c3bbac52e194d3990 0x16e08393fd6373c0073e75fc56f0f79c446fd7bb859667dd8c149b5ecd111fec,
    Sqr 0x20b5b83f62950d054c698f460327717a44afa6945c30665db2dc2d9d305fce2 0x1a4657870bb598dc003cfcd299688a0f02a0ee77e5b0e810630a45c5932d1c12,
    Sqr_mul 0x12e08bbfe71a80e97240a5fe1e316a64e015baf9209ee3fd152295e6700d750f 0x2295c9cafdfd81dc3793375e785bd670bf36526da45f09e80715bab98133571b] = Some (0x555555555555555555555555555555555555555555, 0x2295c9cafdfd81dc3793375e785bd670bf36526da45f09e80715bab98133571b)"
  by (simp only: pow_chain_simps)

lemma pow_p_third_21: "pow_chain 0x10000000000000000000000000000000000000000000000000000000000000000 0x1000003d1 7 0x555555555555555555555555555555555555555555 0x2295c9cafdfd81dc3793375e785bd670bf36526da45f09e80715bab98133571b [
    Sqr 0x4ac213e70d363658f179897a234bbd1d338dad17d65c3619f600277d74ac597 0xde50ccbff35db63b2cdf90b92b1134c32e37aef287a88853711e1a0eacc17220,
    Sqr_mul 0x54771a84ea8b7d4ec850975a9d613531c324fc79fe77d1e8048a32e04b5e08b09 0x44ce2bb8f3fa681d20af8be73841972630e0be63ec3a5b016b93a43d0fd63959,
    Sqr 0x127e2d44a6bd55e4c7b2a648c2a2f377b4827aa963080d69a06f6028cec921ef 0x1aab959908fe593df48c064aa6f65a433d8c3dae25abd7c960994812893f4210,
    Sqr_mul 0x13731dbdf5d8411d72abb975b7bfb63adc15fe89b4c1148c65285fabf8ae42fe 0xfe3d01ffbe2de43d6dcfdf8e99154a3680863e1b96d9746fb18c86d0383725e,
    Sqr 0xfc7d1e817147b1c173ac28f11db053f4b5c08c4008e1aee035eec45dfc6a36 0x5e4544fc7b5e8e55713f59d9f6f11ed24741409575339965321f41d9239d329a,
    Sqr_mul 0xf30099d5bd0d5459c126437a620cbd8be5c99bc8441091a8a24087f0e9621181 0x927c96db4ca7f49882a80cf38812e67119b8b221bcba93d392c952042f846dcd,
    Sqr 0x53d258b4a0c78f63f9b99f0a6416402676bfdf4b41bff399d8310e4d7b2460ed 0xf34c0a357259e0b82e0c6b8a025ac67891a053b58118841229929ddaa6561ea6,
    Sqr_mul 0x652921dc4b29b32828e63b199a00ca89f28b46b580c8b2676ba41e3e715528dbc 0x270cbfbf7524501ccef5d72f771be92f74af5796994ac6263e9692b3967633f8] = Some (0x55555555555555555555555555555555555555555555, 0x270cbfbf7524501ccef5d72f771be92f74af5796994ac6263e9692b3967633f8)"
  by (simp only: pow_chain_simps)

lemma pow_p_third_22: "pow_chain 0x10000000000000000000000000000000000000000000000000000000000000000 0x1000003d1 7 0x55555555555555555555555555555555555555555555 0x270cbfbf7524501ccef5d72f771be92f74af5796994ac6263e9692b3967633f8 [
    Sqr 0x5f4e30edf434bcc7b170ccd430688a72f6974464a6fff1a7d7310020bc04ae6 0x9232caf773ca0db2c6932103cc01a7bdbb671e1fcd219b066b82aaff6c0a9806,
    Sqr_mul 0x24871d31b2391ff4d6b8fbee1e43d64cded51162dc1b5b6386e850283d085ede2 0x7001889ba1297fde1741fa17ef931e06ebf151910195df1ae90ee791da5abc7e,
    Sqr 0x3101578a87214c0df9a7f28eb7b16c68bc3eec60b0dee5ec5dc618880ef7a8c2 0xc0f70260a40c455d1fc9c28bec01a850f2706f33dad4f964bef6dbeeca8c5a66,
    Sqr_mul 0x3fa281d4dd8105764398e48ad4665ba6f7286799f72c042100ba607e97f1d4079 0x865075f768f04345cd1abd77bb0f9eba782f3c951c31b9738f383772e3063245,
    Sqr 0x467854c8f2d9319e667be562e8a63a6e65fd6193fc28cb8a633a9e6cccaf0cd9 0xb9ba19c690f2f262615f92e773e3838922b108a1a5751d8a380812d2eb2b0ec2,
    Sqr_mul 0x3af3583c9306f07c4c265fd83cdc618b5e8b4887e0480298a72bb580334ac34ed 0x4c30206290eff650d01d7410786d4729c31e6b6be1ac0d70b3c41b7bf35e8999,
    Sqr 0x16ac9c46af1d9e6ba13b27e4c34428ff95dc05c6bd3112da6632bb76ad4a16ff 0x8576180926af70d40b40ebf374be00bdfcc5b6f641dbdd5f126aa2122412e0a0,
    Sqr_mul 0x1e70b7029ba39b7dad98e8a5af29d2e97acee4ca51f26b65beeeb3bba9eb9594e 0x42d943e56610e967109a4dee0cbf26474992364689b262f7f22c1dff42888eae] = Some (0x5555555555555555555555555555555555555555555555, 0x42d943e56610e967109a4dee0cbf26474992364689b262f7f22c1dff42888eae)"
  by (simp only: pow_chain_simps)

lemma pow_p_third_23: "pow_chain 0x10000000000000000000000000000000000000000000000000000000000000000 0x1000003d1 7 0x5555555555555555555555555555555555555555555555 0x42d943e56610e967109a4dee0cbf26474992364689b262f7f22c1dff42888eae [
    Sqr 0x1174bf667589a2017268b5f777e8017531d183cff35404535b34eb021065aff1 0xd76e5e13e50a9fcba16b765678228066f6a2f08b829ed92fb6d4efdf3479f505,
    Sqr_mul 0x4f509fb38ccb70efeb9d97380fbc7f2df0d75fe78e61e56f47e6b748822b15103 0xef518ada1f7eda4bb7e86ca62c935305ce54b9d64dfa5b4857d6e5025f5e2b22,
    Sqr 0xdfb95b3c7026adadf093bee8c897dc0a7312c7b7584e925884f836a1b3f149a7 0x6fc30fff1424fe271415acad7d51105018e734f51c85dafa7e3c4ff5ac1686db,
    Sqr_mul 0x1558b2784057492edd41ca82e73db0ff0eba79060dcc546d58b5cd80499be1272 0x4c6abc720ddcd5b30156df81f4a21357692521f38393821633df6e9ee7266081,
    Sqr 0x16cf8c64516650eff4561a3f36b53e28a13443c4c2d6bb372a4ffce033085967 0x3675a1fcaba38b2698fb273f0d814c71f6a5c007874f052b540eb02f5b8a3318,
    Sqr_mul 0x5118dcbc6f0fb044d34b48635435305b4915660386d9b4c828b1ea0811c33788 0x4ad9b18330d97be9cc3b6163c6ab00edbdce215a89be8f46194080871a88edc8,
    Sqr 0x15e293be43bd391f01aef5e4e660503dcb556e49ec451de2283a37d2d60f2465 0xd64e0aa8c27b8c84c57da8fbe7fdee7425109b4444ac220c3d3112821125d1b5,
    Sqr_mul 0x4e7cdfb487f06d49fa7cd11b304bfb539d7ba502b09c61c12762cc21b5606d93c 0xdb8a201799d4423a681d9018d14ed2e300a50dd483a003b94335026d9ce053cb] = Some (0x555555555555555555555555555555555555555555555555, 0xdb8a201799d4423a681d9018d14ed2e300a50dd483a003b94335026d9ce053cb)"
  by (simp only: pow_chain_simps)

lemma pow_p_third_24: "pow_chain 0x10000000000000000000000000000000000000000000000000000000000000000 0x1000003d1 7 0x555555555555555555555555555555555555555555555555 0xdb8a201799d4423a681d9018d14ed2e300a50dd483a003b94335026d9ce053cb [
    Sqr 0xbc459d6efea8eac9663cbc177c8690cbfa0ebeda1f6da827c6c039916f4ae862 0xb362a348de23ffc64d77479b1260805cbb51f95597b51ce65f6d4dfbe38e20fb,
    Sqr_mul 0x36fe59c71421c0c16d626ca4521d66956d907da133a9334ab09c7c2a7e92e1cbd 0x9e82b65f14badd743584a539f01c6f003ed88c95c04e40356e7534b411e5a7fc,
    Sqr 0x62259bdb18130bee73556a045b68500663232de3017c7897b5d9aa38e5750a06 0x93a49096e3253a64252a1027e800bd38a82df1aaf35ad1c47df295df22be00f6,
    Sqr_mul 0x2540cd6e002f5289ac0f666128a7f99f46a37efb65c79fd128fcd5c1afd40dbd5 0x9035d862ad8cacde9dc9cbd1b7e80688b15553789a775c6f35a2bfd0e8a56ea1,
    Sqr 0x513c9ec25300c9a0bec3ce8213a8582269d647ab91739dc14a14f77f511d77ac 0x2111b9269c1aa5b63d8e7b8c02c4108f2a55dca26d6e0499743a4b9c2cce78ad,
    Sqr_mul 0x1de704ba78faffed8cc1e8124659bb4a09bb4da4a89be301754bb7d342ecc629 0x546d14a6f333c170530e1953a8584a76a9f901995cd6b70f78f1c960bcc6c4d8,
    Sqr 0x1bd7c408276f93e4d48bb0f8448da11059206651bf03a2e6e2f242de7fe2d2b5 0x9e349b3f9756e5f743c28f475ae4ab547bc70d3efd31ab1dfe87634d66219b05,
    Sqr_mul 0x2ac62d91d878bb193f1a17711b9a4439120070b3e544aafbaaf63b5b2c9b32899 0xc5463f86eec4a6f05286314fcbf3e629150a46dd8084794434290493fcdd5298] = Some (0x55555555555555555555555555555555555555555555555555, 0xc5463f86eec4a6f05286314fcbf3e629150a46dd8084794434290493fcdd5298)"
  by (simp only: pow_chain_simps)

lemma pow_p_third_25: "pow_chain 0x10000000000000000000000000000000000000000000000000000000000000000 0x1000003d1 7 0x55555555555555555555555555555555555555555555555555 0xc5463f86eec4a6f05286314fcbf3e629150a46dd8084794434290493fcdd5298 [
    Sqr 0x9805310c7908ed1cc92af2f31e963d55670a7b871016efc452de85d3d85fbc45 0x47a0ee63fb9af66f8b9f3ff84a9764238e7d33940b0500b99ad28e44ba733d95,
    Sqr_mul 0x8c4aa1cc33bba4ee53a4c05589864c748ab102d922b93b0474609b999cfb231d 0xe91bcf5b9b80834edc0c1514769ad63b27ecc5f9a4f3e839d630afff69356ebc,
    Sqr 0xd443a27a26580262ff5c2a5cbd916e16a5da0ddb3e0897a6d1cbdd9e000af657 0x3c55dffdabbf329ad17d26df314429313dc72a56d8aaaad252a840da6b943c17,
    Sqr_mul 0x638a909dec9b30dd602592f96efed3e05b5bed995d806cf0b3cf7aa94b065103 0x5657a8bab9ada66cec6095cffd2d1ad26243c4d23df5d9d1572b13c3a5feb2ea,
    Sqr 0x1d1f036192e07bbe8e4acb279b7f952b52d5293363004a4405a45f4d9aa28399 0x8aaa6834abf639b7165e3024c5365bbf33efbd9c46e8245065c3d7494f9a78cd,
    Sqr_mul 0x20dc524737460ce96e3fc485b5934c1a1fb3aab6ed1d1e84076b10d0dbde0acbe 0xb4aea16c0ddaf69a2b1937d04d7b2400fb41f0b3bc2c2d66f80304f23df50e3d,
    Sqr 0x7f860a1fc827d77921dc016376183587255953201ec293fc59e6a9d23dbc514e 0x7b3cef612ea70916c04347450a14f019c1b74876378ef0feb737f35cef3f0537,
    Sqr_mul 0x19f4947bb498edd3ac64c2b8ebe75c0452d7c2eb9be997b201e6548d7b0d86461 0xfa7e1a30e83a9ea96c8d3dc8f35f02b569b4fa284265bbab1c4fa504c01372e8] = Some (0x5555555555555555555555555555555555555555555555555555, 0xfa7e1a30e83a9ea96c8d3dc8f35f02b569b4fa284265bbab1c4fa504c01372e8)"
  by (simp only: pow_chain_simps)

lemma pow_p_third_26: "pow_chain 0x10000000000000000000000000000000000000000000000000000000000000000 0x1000003d1 7 0x5555555555555555555555555555555555555555555555555555 0xfa7e1a30e83a9ea96c8d3dc8f35f02b569b4fa284265bbab1c4fa504c01372e8 [
    Sqr 0xf51a89455065101ae7aaee4a0e83e1b69e28f9fc98311b5a48765aa63ed909bc 0xeafd15cc3f73526e7756e677d9953de5f4bab148b81c1cf81890d3481c5198bc,
    Sqr_mul 0x5e5e98a5e60ebae06e0e374b65c77b35968918f216553e861ac2045618e2487ed 0x1a66d9d4838f46bb12654df3977d204d2a75011b476b37e2216db56a681145ed,
    Sqr 0x2b90d91796be7fd6ba17a295c2f46421d3eb7dcc348e90a3de57123abd619c4 0xd76fb4279bce79fa11fc4f1790b8cd30ff29482807d0d3cd4fc9f725b8abf26d,
    Sqr_mul 0x4f519b969c5d7922d1e59539eafd5cd13c188be863ed3eb4ef5f2ede42336e6d0 0xda13bbf41e6b20d5f6c877a9a5e95e38e2b4edb7b05509136c910ce18ad8b0af,
    Sqr 0xb9c59da13409850dc9dc847c9b9f810a932b534460385689085b8fb46cc15dad 0xfbf1215bbb8bbb19734d30b9700e648b5ec45fcff17662eccd341ec55b3798de,
    Sqr_mul 0x6c7a319c3f1cb446584ee4a29f608c4ca11a98465c03db46df37ea51e45e5cb8c 0xb043bcbe8f9ecbb99bc71586c42411e04617b0a060279a7dead3170ed8b474e8,
    Sqr 0x795d35725c61f60894db1637aca2bf013db72258c937072a2ec2693b3d89b0be 0x9f9352b70ba82a00891c31b355dbf3097f78921a9e0cd6c5601cc9aff61e975e,
    Sqr_mul 0x2b84a56b451f45f8c198b538deef03f1d3f5362ac2bb39d6e5cc4160ace1648e9 0xa473c681994c54143b7c2f451f43288e63162dbd3dd4ba794b55f3b4e3c46ed5] = Some (0x555555555555555555555555555555555555555555555555555555, 0xa473c681994c54143b7c2f451f43288e63162dbd3dd4ba794b55f3b4e3c46ed5)"
  by (simp only: pow_chain_simps)

lemma pow_p_third_27: "pow_chain 0x10000000000000000000000000000000000000000000000000000000000000000 0x1000003d1 7 0x555555555555555555555555555555555555555555555555555555 0xa473c681994c54143b7c2f451f43288e63162dbd3dd4ba794b55f3b4e3c46ed5 [
    Sqr 0x69a48ab1fec6410b632ce9cd4b29bd31cbf4a100a689c16b2a9d62bed0cea1b6 0xee2f299392417e9a0f92247fbec3ec703c764d324d7417b0dc30a8c088bae4cf,
    Sqr_mul 0x60f4215f6c82e958c7feebe3c2c308edd4cc6cf380b5eb19da16c10fa998e9bb4 0x9b6aca0b3a4434c3fc89317536996041a7eb4fc9bcbaeb357e1d76749a5dd59b,
    Sqr 0x5e5a7d35895090d2b88010f5fc72b3bdc605bedd41f97c6deb686515add20228 0x37c1516833fb4260bb8523e2bad207ada5a04401c7fc53b4d36349bfbf538681,
    Sqr_mul 0x550074be5b6422c87bf637636a777d4ffcd074207bd1216d6109357ab5de8b73 0xf68b7860302f1ffa8f5a98f6ce057dddbb8529d35f3f6b2d9cc7c3e7fc8b4cea,
    Sqr 0xed705754cda935f29ffe61579b11a2b173726931d9b82ccf65a79fe15086b9f1 0x91a322cf35159167baf1d6949c3f61c23a63f0c0f45aececfcbfba5a9f6366a5,
    Sqr_mul 0x243f775bc832215fb08a49b580f7b2f56d8994366983283c8b2e80e8bf5fdaf65 0xd45c997e9252d7343e97b3589c768bb4549de9c49830b1b5191324596093ace4,
    Sqr 0xb0297fb8515ae97497a32098c64f306310da6a33891028f32e9a94954e42f493 0x72436e705fb3d1d81fbc6e2bfc349547f11c8de77ff70f202fc96fc5b0229013,
    Sqr 0x3300201f13b30296bcd8bb3012ffe1420930b7383b36df5931a9aceab94298c2 0xbb86cf6abf01a27b7e43f2956475fa5f3fbec7d6e2c9da500f74691bd4a5dcb] = Some (0x55555555555555555555555555555555555555555555555555555554, 0xbb86cf6abf01a27b7e43f2956475fa5f3fbec7d6e2c9da500f74691bd4a5dcb)"
  by (simp only: pow_chain_simps)

lemma pow_p_third_28: "pow_chain 0x10000000000000000000000000000000000000000000000000000000000000000 0x1000003d1 7 0x55555555555555555555555555555555555555555555555555555554 0xbb86cf6abf01a27b7e43f2956475fa5f3fbec7d6e2c9da500f74691bd4a5dcb [
    Sqr_mul 0x3c193961a37f70d713ea81b3737aa6f7a75bb91e04fa3fd5479a9ecb1ca1198 0x82d220c7044031aaddb2c10e89f88d92779712d29404df6d8cb2aa4d383cfde7,
    Sqr_mul 0x1d3f6985b6d2db4cac072ea697f090ae5df345ad65ed1b6b21cf3c7bd88da1fba 0xa69e0ebb6f8ebfe846ad95cb159b22c06d3d4f0511f960363ab5816b92be1f1,
    Sqr_mul 0x2f71988d8e23b15a94db2a15bd49dec25515031ef6ec9049798170e52595194 0x31ecaa8f756e5b8498ced9f82f762881b042625eefcbea02313a21bc497cf7fb,
    Sqr_mul 0x44272c98d3a53c0745bd53f026cea1e02fd558d75ba1cc158d9b7027c77be16f 0x4a41a5c330b20176a203bda17de29029675d5a9ecce500c607df00db895b894e,
    Sqr_mul 0x96c620a9143bd1da0fa9c800c2abb8b9311e0016da3d0189f2a5405819906076 0xc8695fb7b3ef5fca2a9941b9b63ee0598d5002315f622f258da714ae45ac2cb2,
    Sqr_mul 0x44a41b686db6a5fd0135e2ff22b357fa84411f557516a02099476d90fa97cf357 0x503034bb8f6c5208d455752ec5effef02cd294b8d5cc5d87d0ab312122cc6163,
    Sqr_mul 0xafd3263f4bdb8505eda2a57cfc9cf60383bf929a880b085a666ee857e8c95b8e 0x9a7f1620c6d5e2bc04d89266b959dc84f4d60a340ea709148c798faf8439eed,
    Sqr_mul 0x28cac07fcc799d7a1bacd760075e50091f84035cc090f842eec3b4c9f644bb5 0x607faf72366c6463fe25ffd397613c115abb297a80b749bd5d1513d3a0c8c1a4] = Some (0x55555555555555555555555555555555555555555555555555555554ff, 0x607faf72366c6463fe25ffd397613c115abb297a80b749bd5d1513d3a0c8c1a4)"
  by (simp only: pow_chain_simps)

lemma pow_p_third_29: "pow_chain 0x10000000000000000000000000000000000000000000000000000000000000000 0x1000003d1 7 0x55555555555555555555555555555555555555555555555555555554ff 0x607faf72366c6463fe25ffd397613c115abb297a80b749bd5d1513d3a0c8c1a4 [
    Sqr_mul 0xfea016e46ea47d672a46d267123ef5c423a4c05c3439602335c09e49a283c611 0xe81a58e3debc16844e35c9e239f5e6cc8c159711e3960ed9e9979fe32bf3be51,
    Sqr_mul 0x5c10e5ac656013cd928412d6ce3fd5ffa61853a1cabdd960c12ddb95010d25efe 0xc5742b7acd721159688ac7ce47f8296feb796651a13e83c6096c0b26abacdec5,
    Sqr_mul 0x42a13fd7108139600bf6d87a04362dd36a6f3c88a834ecee7959029ae36801cd5 0x4b73ba9fa5b161a0775417814427f424a68e3508d75ec1769a5b6e79faede214,
    Sqr_mul 0x9bab19ab35f83a4f20bf75a3f56e9b16788b197217cac35331aae04b5691f434 0xa02f6bc3887ea5e20d8cfedced3d4ba684df830caa5e20c9b109e5177d03564,
    Sqr_mul 0x2bd9f2c6c247443260049f2bafb7b04512b25d57ccfc6a1c44928c3e3e15ff6 0xb0b0880a5b64cc689dd806611af3e97570056f4548599140b0bd215b16912346,
    Sqr_mul 0x355a671830d66e44aedfe12e3ffc9599ac6873e2e34d5ad9d9ba74930f179dbac 0xd90dd6cb24f832391392f29efb4523fb20b0924d0aa3e1ed9a4aec40a128dd68,
    Sqr_mul 0x5083b403b62af8187475e83b3fd4662f9d1f60bf0fdaacc6014b0ca1260067e94 0xfa2839b7c9dbed3b2d5555721ec289e5c5d4e63ea39502e77655d5c7b8b22a94,
    Sqr_mul 0x6af22215b58ebe35713e61ca98c75296899fd2bc74525c95ee09b5e285f7c46bf 0xfa70c0ad503869830baf4cd14067309644e24412b1aedfc901625e7538c45df] = Some (0x55555555555555555555555555555555555555555555555555555554ffff, 0xfa70c0ad503869830baf4cd14067309644e24412b1aedfc901625e7538c45df)"
  by (simp only: pow_chain_simps)

lemma pow_p_third_30: "pow_chain 0x10000000000000000000000000000000000000000000000000000000000000000 0x1000003d1 7 0x55555555555555555555555555555555555555555555555555555554ffff 0xfa70c0ad503869830baf4cd14067309644e24412b1aedfc901625e7538c45df [
    Sqr_mul 0x6b302e5e1a16d9bb8dff59d16361f37dcebe53582d9bc1fc8dd20f07109fe27 0x77ed355f1114e9a19f232030a8bdc4b9341a9486d32d3ebb3b8a681215f8bc9e,
    Sqr_mul 0x18944b7e7b935001c4631e2d613d63610919a20f3279e16c611fc740510623d59 0xe7b871c02eafb827b67e54b61da6190cec265a3c99ef456958109493e6973b45,
    Sqr_mul 0x5bc34af37cd6c2eff13b0a3a6db839cd8e61789ce190936e93e9dced1292a3b6e 0x4b68c70cdbdd1478f42655fe94a051f670a0935fb1700d397f321f3ece04f2fd,
    Sqr_mul 0x9b7dec9b124e349df4ff96cfc7eba0da1337c95578d41f75c3bcdb0cdc6b5c30 0xc6165f84551f435d469ea230d952ff9adf50fb609e61d46beb43e62edf89f56f,
    Sqr_mul 0x430ee4ff4ce65501eb8affb2b4a3d9acc7dff6625526f841bc8f9772c323334e0 0xe998fd4094e3d3b400e6e90e2dd38bc9c2a4d8086b839434f17a1757882e55c7,
    Sqr_mul 0x5d416eafcebc1a7731a70cc52bfe406917b0bca1ec4efb884b4b824f2089ba5fc 0x2b6fbab8111fc4d4eba0a4bf3dd4c7ad61bf9b40fefd1bc3f885e9297bd0bb93,
    Sqr_mul 0x3397126d02ec9451046d28719bf4a54518b5a25d5b98691f816ca653771a1e63 0xa39fca7b89b8e5cbfe2c238335ac267a3fcbf13f28607a185d42459ac2de94b2,
    Sqr 0x6894df9676fdb944a57c1ab0935a4a5e4332f18b1cf96e950a0b146609c7e8dd 0x6a8687a9be6284b51c6215e698ef76dd57eb11fcdb3ea1fa6221b7545705ff31] = Some (0x55555555555555555555555555555555555555555555555555555554fffffe, 0x6a8687a9be6284b51c6215e698ef76dd57eb11fcdb3ea1fa6221b7545705ff31)"
  by (simp only: pow_chain_simps)

lemma pow_p_third_31: "pow_chain 0x10000000000000000000000000000000000000000000000000000000000000000 0x1000003d1 7 0x55555555555555555555555555555555555555555555555555555554fffffe 0x6a8687a9be6284b51c6215e698ef76dd57eb11fcdb3ea1fa6221b7545705ff31 [
    Sqr_mul 0x13649c94c1ac986ac2920e774abb9ed390c621b4b8c94b2eb2b4a6724ed26a674 0x42665aa3660c8da6c80bcf56f577ce2a7420716d1689c78e1107e9bee99d45b,
    Sqr 0x1138efa89aeb1716d05128db9a1dde74cb074742258f0ecb655536fa353b89 0x25671368cfaa7f361a6f332949f179a9fbe195f8b3386259f3028fd49e150e32,
    Sqr_mul 0x2640b3ca72e1cff0e553d2007a88a6a238b4253c5d82d1533c4564b169cd50ef 0xf456300933e13069e5639b76a965bf8ef22bb3e4b9e4fc04888c2c7b23806c7b,
    Sqr_mul 0x6606edc18f6a5079cb07844d53e7bf3b9fe197892ea2b611f1564c18bc0787ef8 0x9804320cf572d25a25f62b408e402b5277e2888e049e1e30b90f634b98a4a627,
    Sqr_mul 0x277e2e086ef9f9968d921f73c18f289e27f4bab0550bd0b636d935c86bff544ea 0x3f2cd6d52103c0491b39ae9a2896b31b9d3b667be4c1da19c9538f8be7b236a1,
    Sqr 0xf97199773cc36904e81ea908e07a86d8cdf5605697412e8d7570528affd7ca9 0xcd6e3c1e14cec02afe40de54596cf176419396ea4ef9bfdf47c0786d37f5123a,
    Sqr_mul 0x481f4223f450dd72296a3c690ee19bc5970bbb6687ec7028745efa49618907a83 0x7ae96a2b657c07106e64479eac3434e99cf0497512f58995c1396c28719501ef,
    Sqr 0x3b034e03cbc0e9e67adf9b678b2ea8201dd5ea436049fdc542a0960dd5579c3d 0x7ae96a2b657c07106e64479eac3434e99cf0497512f58995c1396c28719501ee] = Some (0x55555555555555555555555555555555555555555555555555555554fffffeba, 0x7ae96a2b657c07106e64479eac3434e99cf0497512f58995c1396c28719501ee)"
  by (simp only: pow_chain_simps)

lemma pow_p_third: "pow_mod 0xfffffffffffffffffffffffffffffffffffffffffffffffffffffffefffffc2f 7 0x55555555555555555555555555555555555555555555555555555554fffffeba 0x7ae96a2b657c07106e64479eac3434e99cf0497512f58995c1396c28719501ee"
  using pow_chain_correct [OF pow_chain_correct [OF pow_chain_correct [OF pow_chain_correct [OF pow_chain_correct [OF pow_chain_correct [OF pow_chain_correct [OF pow_chain_correct [OF pow_chain_correct [OF pow_chain_correct [OF pow_chain_correct [OF pow_chain_correct [OF pow_chain_correct [OF pow_chain_correct [OF pow_chain_correct [OF pow_chain_correct [OF pow_chain_correct [OF pow_chain_correct [OF pow_chain_correct [OF pow_chain_correct [OF pow_chain_correct [OF pow_chain_correct [OF pow_chain_correct [OF pow_chain_correct [OF pow_chain_correct [OF pow_chain_correct [OF pow_chain_correct [OF pow_chain_correct [OF pow_chain_correct [OF pow_chain_correct [OF pow_chain_correct [OF pow_p_third_0 pow_p_third_1] pow_p_third_2] pow_p_third_3] pow_p_third_4] pow_p_third_5] pow_p_third_6] pow_p_third_7] pow_p_third_8] pow_p_third_9] pow_p_third_10] pow_p_third_11] pow_p_third_12] pow_p_third_13] pow_p_third_14] pow_p_third_15] pow_p_third_16] pow_p_third_17] pow_p_third_18] pow_p_third_19] pow_p_third_20] pow_p_third_21] pow_p_third_22] pow_p_third_23] pow_p_third_24] pow_p_third_25] pow_p_third_26] pow_p_third_27] pow_p_third_28] pow_p_third_29] pow_p_third_30] pow_p_third_31] by simp

lemma pow_p_f: "pow_mod 0xfffffffffffffffffffffffffffffffffffffffffffffffffffffffefffffc2f 7 0xfffffffffffffffffffffffffffffffffffffffffffffffffffffffefffffc2e 1"
  using pow_mod_cube [OF pow_p_third, of "0x3b034e03cbc0e9e67adf9b678b2ea8201dd5ea436049fdc542a0960dd5579c3c" "0x851695d49a83f8ef919bb86153cbcb16630fb68aed0a766a3ec693d68e6afa40" "0x3fe61c2799bb1d29f384ac3721058cc97f1a5f31b2ab8bd07e98d61a9c3d65b1" 1] by simp

lemma pow_p_r237_0: "pow_mod (0x10000000000000000000000000000000000000000000000000000000000000000 - 0x1000003d1) 7 68 0x77707ad1c8ba1ca143c8f33fc029ce4de5f311d79e2dbf61"
  by (simp add: pow_mod_def)

lemma pow_p_r237_1: "pow_chain 0x10000000000000000000000000000000000000000000000000000000000000000 0x1000003d1 7 68 0x77707ad1c8ba1ca143c8f33fc029ce4de5f311d79e2dbf61 [
    Sqr_mul 0x18614593b1db0fcdc1acf658f64efc4df 0x7186e229600bf905b28dfe058ff88268a1e286a5e66872fdc574407d3d418a56,
    Sqr_mul 0x1606a7b167d5962816403953280dc842f40fa9bac8b05da47f709fc7f00a3e035 0xbe64d6aedf7654288030041ade77566f72dd278ffae4e6706c1f41ba1e647c81,
    Sqr_mul 0x3df34dcbc027d64f599be4c051dc11f9925c49c003e209649bc1647c90c3ee241 0x4a228484cb4f398282672b521662557521f3da592796523f49efc712e9520918,
    Sqr 0x1577f9443d6904d6b886eb3d5c179a3e78f02df25165bce09e7ec493491f0cef 0x33ead746aa0c289dcfccd32c1f5b1d9166436d26b9474c20040e494093330e5f,
    Sqr_mul 0x49b3e06ee5c460ccebd885232bab093fde14f014e57e7ecaf7b5588a94037436 0x62c16ba86a501bf8666cc7db9e189e7c7d22b80253c6574d0e61a463b1ca34dd,
    Sqr 0x2618a890729bd9df07a284ea0f2790feb264f43464ea19ec2a51682653014d3f 0x5843169f4ab3a500c7319e35cf34eb657cd4366fa7bb150820c30f40d9a65438,
    Sqr 0x1e6e31225cbc5f6da8a9d366620bdd9e651cfcce78c55c5e012e7fe8d87a6f97 0x6431b1e304c1172f5ce2a9f19733ee1ff882bffc5c88488cb254aa116f98ab87,
    Sqr_mul 0x1128008589198ad7638f6f863d80427d4f79c5de27af14a869d900b44b251422a 0xb3803aaf8b9c619878b4e577699c890130b1593a620b35758c570d66fccceaa1] = Some (17641, 0xb3803aaf8b9c619878b4e577699c890130b1593a620b35758c570d66fccceaa1)"
  by (simp only: pow_chain_simps)

lemma pow_p_r237_2: "pow_chain 0x10000000000000000000000000000000000000000000000000000000000000000 0x1000003d1 7 17641 0xb3803aaf8b9c619878b4e577699c890130b1593a620b35758c570d66fccceaa1 [
    Sqr 0x7ddc924c3a3c507fd96f64741e82cd2df93854298d0bd0c884ba50cff631f42c 0x12bcca82bc01aaf6ea331f46a60c397d281a1ca1ea50d23f4f71c2165447952d,
    Sqr_mul 0x999a5ef22909dab981e6cc6eb5a7797b7941f072809519c60186158f04a2c06 0x3c24690a1783788d44ef5818d0f2e1c9aeafd37e047ca0cf8e6df7fa5c49e845,
    Sqr 0xe21166a70f5852bd15dc5601da028db9e8c74966b73ff5b0538af99043cb1b9 0x2b1fbf59e11ba0fb19fe46644ae3610fb1ef32c6c167c1194828d9be0db965a2,
    Sqr_mul 0x32d9c388aaed479c0a6569f6de36e137c7da400d6860d4be311fe35747d9100a 0xe9dcefef24b03463212186f607d16ca6feed88c3298ee4f1b88ead88b6d2cfc6,
    Sqr 0xd5a3eb6e94b0341d04c4ea443c09719d6484e030d3ff02c9da43dd57d915a287 0x3db223c3b5983b2656c15a924405ca706a7873c11455124a51c2a318d0b125b] = Some (564522, 0x3db223c3b5983b2656c15a924405ca706a7873c11455124a51c2a318d0b125b)"
  by (simp only: pow_chain_simps)

lemma pow_p_r237: "pow_mod 0xfffffffffffffffffffffffffffffffffffffffffffffffffffffffefffffc2f 7 564522 0x3db223c3b5983b2656c15a924405ca706a7873c11455124a51c2a318d0b125b"
  using pow_chain_correct [OF pow_chain_correct [OF pow_p_r237_0 pow_p_r237_1] pow_p_r237_2] by simp

lemma pow_p_d237: "is_prime d \<Longrightarrow> d dvd 0xfffffffffffffffffffffffffffffffffffffffffffffffffffffffefffffc2f \<Longrightarrow> 0x1db8260e5e3b460a46a0088fccf6a3a5936d75d89a776d4c0da4f338aafb dvd d - 1"
  using pocklington_factor [OF prime_q _ _ pow_p_f pow_p_r237, of d "0x96595cb215b189d7d44aa2b8fe2fcb3de430da90c3a63bfc166410a004555ddc" "0x243bea3a0b62ee3e2163af1abdb5ff42347e18879b7b00f65f974782b912559"] by simp

lemma prime_p: "is_prime 0xfffffffffffffffffffffffffffffffffffffffffffffffffffffffefffffc2f"
proof (rule pocklington [of _ "0x1db8260e5e3b460a46a0088fccf6a3a5936d75d89a776d4c0da4f338aafb" 1])
  fix d assume d: "is_prime d" "d dvd 0xfffffffffffffffffffffffffffffffffffffffffffffffffffffffefffffc2f"
  show "0x1db8260e5e3b460a46a0088fccf6a3a5936d75d89a776d4c0da4f338aafb dvd d - 1"
    using pow_p_d237 [OF d] by simp
qed (simp_all add: upto.simps)

end
