(* ===== verification/Fp.thy ===== *)
theory Fp
  imports Prime_P Field_Impl
begin

text \<open>
  The prime field as a type. The field characteristic is prime by the certificate of the theory
  \<open>Prime_P\<close>, so the residues form a field; an element of a representation is read as the element
  \<open>of_int (res a)\<close> of this type, and identities of the curve formulas are identities of field elements.
\<close>

lemma prime_field_p: "is_prime field_p"
  using prime_p by (simp add: field_p_def)

lemma field_unit_iff: "field_unit x \<longleftrightarrow> x mod field_p \<noteq> 0"
proof
  assume "x mod field_p \<noteq> 0"
  then have "\<not> field_p dvd x" by (simp only: dvd_eq_mod_eq_0 not_False_eq_True)
  then show "field_unit x" unfolding field_unit_def by (rule fermat_little [OF prime_field_p])
next
  assume u: "field_unit x"
  show "x mod field_p \<noteq> 0"
  proof
    assume "x mod field_p = 0"
    moreover have "field_p - 1 > 0" by (simp add: field_p_def)
    then obtain n where "nat (field_p - 1) = Suc n" by (metis gr0_implies_Suc zero_less_nat_eq)
    ultimately have "x ^ nat (field_p - 1) mod field_p = 0" by (simp only: power_Suc) (simp add: mod_mult_cong [of x _ 0])
    then show False using u by (simp only: field_unit_def)
  qed
qed

typedef fp = "{x :: int. 0 \<le> x \<and> x < field_p}"
  by (rule exI [of _ 0]) simp

setup_lifting type_definition_fp

instantiation fp :: field
begin

lift_definition zero_fp :: fp is 0 by simp

lift_definition one_fp :: fp is 1 by (simp add: field_p_def)

lift_definition plus_fp :: "fp \<Rightarrow> fp \<Rightarrow> fp" is "\<lambda>x y. (x + y) mod field_p" by simp

lift_definition minus_fp :: "fp \<Rightarrow> fp \<Rightarrow> fp" is "\<lambda>x y. (x - y) mod field_p" by simp

lift_definition uminus_fp :: "fp \<Rightarrow> fp" is "\<lambda>x. (- x) mod field_p" by simp

lift_definition times_fp :: "fp \<Rightarrow> fp \<Rightarrow> fp" is "\<lambda>x y. (x * y) mod field_p" by simp

lift_definition inverse_fp :: "fp \<Rightarrow> fp" is "\<lambda>x. x ^ nat (field_p - 2) mod field_p" by simp

definition divide_fp :: "fp \<Rightarrow> fp \<Rightarrow> fp" where
  "divide_fp x y = x * inverse y"

instance
proof
  fix a b c :: fp
  show "a * b * c = a * (b * c)" by transfer (simp add: mod_simps ac_simps)
  show "a * b = b * a" by transfer (simp add: ac_simps)
  show "1 * a = a" by transfer simp
  show "a + b + c = a + (b + c)" by transfer (simp add: mod_simps ac_simps)
  show "a + b = b + a" by transfer (simp add: ac_simps)
  show "0 + a = a" by transfer simp
  show "- a + a = 0" by transfer (simp add: mod_simps)
  show "a - b = a + - b" by transfer (simp add: mod_simps)
  show "(a + b) * c = a * c + b * c" by transfer (simp add: mod_simps algebra_simps)
  show "(0 :: fp) \<noteq> 1" by transfer simp
  show "a div b = a * inverse b" by (simp add: divide_fp_def)
  show "inverse (0 :: fp) = 0" by transfer (simp add: field_p_def)
  show "inverse a * a = 1" if "a \<noteq> 0"
    using that
  proof transfer
    fix x :: int
    assume x: "0 \<le> x \<and> x < field_p" "x \<noteq> 0"
    have "x ^ nat (field_p - 2) mod field_p * x mod field_p = x ^ Suc (nat (field_p - 2)) mod field_p"
      unfolding power_Suc by (simp only: mod_mult_left_eq mult.commute [of x])
    also have "Suc (nat (field_p - 2)) = nat (field_p - 1)" by (simp add: field_p_def)
    finally show "x ^ nat (field_p - 2) mod field_p * x mod field_p = 1"
      using field_unit_iff [of x] x by (simp only: field_unit_def mod_pos_pos_trivial not_False_eq_True)
  qed
qed

end

section \<open>Residues as field elements\<close>

lemma rep_of_nat: "Rep_fp (of_nat n) = int n mod field_p"
proof (induction n)
  case 0
  then show ?case by (simp add: zero_fp.rep_eq)
next
  case (Suc n)
  then show ?case by (simp add: plus_fp.rep_eq one_fp.rep_eq mod_add_right_eq)
qed

lemma rep_of_int: "Rep_fp (of_int x) = x mod field_p"
proof (cases x)
  case (neg n)
  have "(of_int x :: fp) = - of_nat (Suc n)" using neg by simp
  then have "Rep_fp (of_int x) = (- (int (Suc n) mod field_p)) mod field_p"
    by (simp only: uminus_fp.rep_eq rep_of_nat)
  then show ?thesis using neg by (simp only: mod_minus_eq)
qed (simp add: rep_of_nat)

lemma of_int_fp_eq_iff: "(of_int x :: fp) = of_int y \<longleftrightarrow> x mod field_p = y mod field_p"
  by (metis Rep_fp_inject rep_of_int)

lemma of_int_fp_0_iff: "(of_int x :: fp) = 0 \<longleftrightarrow> x mod field_p = 0"
  using of_int_fp_eq_iff [of x 0] by simp

lemma of_int_mod_fp [simp]: "(of_int (x mod field_p) :: fp) = of_int x"
  by (simp add: of_int_fp_eq_iff)

lemma of_int_Rep_fp [simp]: "of_int (Rep_fp a) = a"
  using Rep_fp [of a] by (simp add: rep_of_int flip: Rep_fp_inject)

lemma numeral_fp_neq_0:
  "(2 :: fp) \<noteq> 0" "(3 :: fp) \<noteq> 0" "(7 :: fp) \<noteq> 0"
  using of_int_fp_0_iff [of 2] of_int_fp_0_iff [of 3] of_int_fp_0_iff [of 7] by (simp_all add: field_p_def)

lemma fp_power_unit: "a \<noteq> 0 \<Longrightarrow> a ^ nat (field_p - 1) = 1" for a :: fp
proof -
  assume "a \<noteq> 0"
  then have "Rep_fp a mod field_p \<noteq> 0" using of_int_fp_0_iff [of "Rep_fp a"] by simp
  then have "Rep_fp a ^ nat (field_p - 1) mod field_p = 1"
    using field_unit_iff [of "Rep_fp a"] by (simp only: field_unit_def not_False_eq_True)
  moreover have "(1 :: int) = 1 mod field_p" by (simp add: field_p_def)
  ultimately have "Rep_fp a ^ nat (field_p - 1) mod field_p = 1 mod field_p" by simp
  then have "(of_int (Rep_fp a ^ nat (field_p - 1)) :: fp) = of_int 1" by (simp only: of_int_fp_eq_iff)
  then show ?thesis by (simp only: of_int_power of_int_Rep_fp of_int_1)
qed

end
