(* ===== verification/Curve.thy ===== *)
theory Curve
  imports Fp
begin

text \<open>
  The group of the curve \<open>y\<^sup>2 = x\<^sup>3 + 7\<close> over the prime field: the chord and tangent law on affine
  points, and the proof that it is an abelian group. Associativity rests on one observation: if
  \<open>l\<close> and \<open>m\<close> are the slopes of the lines through \<open>A, B\<close> and \<open>B, C\<close>, then the slopes \<open>s\<close> and \<open>t\<close> of
  the lines through \<open>A + B, C\<close> and \<open>A, B + C\<close> satisfy \<open>s - t = m - l\<close>.
\<close>

datatype point = Infinity | Point fp fp

definition on_curve :: "point \<Rightarrow> bool" where
  "on_curve P \<longleftrightarrow> (case P of Infinity \<Rightarrow> True | Point x y \<Rightarrow> y ^ 2 = x ^ 3 + 7)"

definition pneg :: "point \<Rightarrow> point" where
  "pneg P = (case P of Infinity \<Rightarrow> Infinity | Point x y \<Rightarrow> Point x (- y))"

definition slope :: "fp \<Rightarrow> fp \<Rightarrow> fp \<Rightarrow> fp \<Rightarrow> fp" where
  "slope x1 y1 x2 y2 = (if x1 = x2 then 3 * x1 ^ 2 / (2 * y1) else (y2 - y1) / (x2 - x1))"

fun padd :: "point \<Rightarrow> point \<Rightarrow> point" where
  "padd Infinity Q = Q"
| "padd P Infinity = P"
| "padd (Point x1 y1) (Point x2 y2) =
    (if x1 = x2 \<and> y1 = - y2 then Infinity
     else let l = slope x1 y1 x2 y2;
              x3 = l ^ 2 - x1 - x2
          in Point x3 (l * (x1 - x3) - y1))"

lemma on_curve_simps [simp]:
  "on_curve Infinity" "on_curve (Point x y) \<longleftrightarrow> y ^ 2 = x ^ 3 + 7"
  by (simp_all add: on_curve_def)

lemma pneg_simps [simp]: "pneg Infinity = Infinity" "pneg (Point x y) = Point x (- y)"
  by (simp_all add: pneg_def)

lemma padd_Infinity [simp]: "padd P Infinity = P"
  by (cases P) simp_all

section \<open>Slopes\<close>

text \<open>The slope satisfies the equation of the chord and that of the sum of the ordinates, always.\<close>

definition is_slope :: "fp \<Rightarrow> fp \<Rightarrow> fp \<Rightarrow> fp \<Rightarrow> fp \<Rightarrow> bool" where
  "is_slope l x1 y1 x2 y2 \<longleftrightarrow> l * (x2 - x1) = y2 - y1 \<and> l * (y1 + y2) = x1 ^ 2 + x1 * x2 + x2 ^ 2"

lemma same_x:
  fixes x :: fp
  assumes "y1 ^ 2 = x ^ 3 + 7" "y2 ^ 2 = x ^ 3 + 7"
  shows "y1 = y2 \<or> y1 = - y2"
  using assms power2_eq_iff [of y1 y2] by simp

lemma slope_is_slope:
  assumes "y1 ^ 2 = x1 ^ 3 + 7" "y2 ^ 2 = x2 ^ 3 + 7" "\<not> (x1 = x2 \<and> y1 = - y2)"
  shows "is_slope (slope x1 y1 x2 y2) x1 y1 x2 y2"
proof (cases "x1 = x2")
  case True
  then have y: "y1 = y2" using same_x [of y1 x1 y2] assms by auto
  then have "y1 \<noteq> 0" using assms(3) True by auto
  then have "2 * y1 \<noteq> 0" using numeral_fp_neq_0 by simp
  then show ?thesis
    using True y by (simp add: is_slope_def slope_def power2_eq_square flip: mult_2)
next
  case False
  define l where "l = slope x1 y1 x2 y2"
  have d: "x2 - x1 \<noteq> 0" using False by simp
  have l: "l * (x2 - x1) = y2 - y1" using d False by (simp add: l_def slope_def)
  have "(x2 - x1) * (l * (y1 + y2) - (x1 ^ 2 + x1 * x2 + x2 ^ 2)) = 0"
    using l assms(1,2) by algebra
  then show ?thesis using d l by (simp add: is_slope_def l_def)
qed

lemma is_slope_unique:
  assumes "is_slope l x1 y1 x2 y2" "is_slope l' x1 y1 x2 y2" "\<not> (x1 = x2 \<and> y1 = - y2)"
  shows "l = l'"
proof -
  have "l * (x2 - x1) = l' * (x2 - x1)" "l * (y1 + y2) = l' * (y1 + y2)"
    using assms(1,2) by (simp_all add: is_slope_def)
  then show ?thesis using assms(3) by (auto simp: add_eq_0_iff)
qed

lemma padd_slope:
  assumes "is_slope l x1 y1 x2 y2" "y1 ^ 2 = x1 ^ 3 + 7" "y2 ^ 2 = x2 ^ 3 + 7" "\<not> (x1 = x2 \<and> y1 = - y2)"
  shows "padd (Point x1 y1) (Point x2 y2) = Point (l ^ 2 - x1 - x2) (l * (x1 - (l ^ 2 - x1 - x2)) - y1)"
proof -
  have "slope x1 y1 x2 y2 = l"
    using is_slope_unique [OF slope_is_slope [OF assms(2-4)] assms(1,4)] .
  then show ?thesis using assms(4) by (simp add: Let_def)
qed

lemma is_slope_sym: "is_slope l x1 y1 x2 y2 \<Longrightarrow> is_slope l x2 y2 x1 y1"
  unfolding is_slope_def by algebra

lemma padd_commute: "on_curve P \<Longrightarrow> on_curve Q \<Longrightarrow> padd P Q = padd Q P"
proof (cases P; cases Q)
  fix x1 y1 x2 y2
  assume c: "on_curve P" "on_curve Q" and PQ: "P = Point x1 y1" "Q = Point x2 y2"
  show "padd P Q = padd Q P"
  proof (cases "x1 = x2 \<and> y1 = - y2")
    case False
    then have n: "\<not> (x2 = x1 \<and> y2 = - y1)" by auto
    obtain l where l: "is_slope l x1 y1 x2 y2" using slope_is_slope [OF _ _ False] c PQ by auto
    have "l * (x2 - x1) = y2 - y1" using l by (simp add: is_slope_def)
    then show ?thesis
      using padd_slope [OF l _ _ False] padd_slope [OF is_slope_sym [OF l] _ _ n] c PQ
      by (auto simp: algebra_simps)
  qed (auto simp: PQ)
qed simp_all

lemma pneg_on_curve [simp]: "on_curve (pneg P) \<longleftrightarrow> on_curve P"
  by (cases P) simp_all

lemma pneg_pneg [simp]: "pneg (pneg P) = P"
  by (cases P) simp_all

lemma padd_pneg: "padd P (pneg P) = Infinity"
  by (cases P) simp_all

lemma slope_curve:
  assumes "is_slope l x1 y1 x2 y2" "y1 ^ 2 = x1 ^ 3 + 7" "y2 ^ 2 = x2 ^ 3 + 7" "\<not> (x1 = x2 \<and> y1 = - y2)"
  defines "x3 \<equiv> l ^ 2 - x1 - x2"
  shows "(l * (x1 - x3) - y1) ^ 2 = x3 ^ 3 + 7"
    "(x1 - x2) * (x3 - x2) = 3 * x2 ^ 2 - 2 * y2 * l"
proof -
  have e: "l * (x2 - x1) = y2 - y1" "l * (y1 + y2) = x1 ^ 2 + x1 * x2 + x2 ^ 2" "x3 = l ^ 2 - x1 - x2"
    using assms(1) by (simp_all add: is_slope_def x3_def)
  show "(l * (x1 - x3) - y1) ^ 2 = x3 ^ 3 + 7" using e assms(2,3) by algebra
  show "(x1 - x2) * (x3 - x2) = 3 * x2 ^ 2 - 2 * y2 * l" using e by algebra
qed

lemma padd_on_curve [simp]: "on_curve P \<Longrightarrow> on_curve Q \<Longrightarrow> on_curve (padd P Q)"
proof (cases P; cases Q)
  fix x1 y1 x2 y2
  assume c: "on_curve P" "on_curve Q" and PQ: "P = Point x1 y1" "Q = Point x2 y2"
  show "on_curve (padd P Q)"
  proof (cases "x1 = x2 \<and> y1 = - y2")
    case False
    have l: "is_slope (slope x1 y1 x2 y2) x1 y1 x2 y2" using slope_is_slope [OF _ _ False] c PQ by auto
    show ?thesis
      using padd_slope [OF l _ _ False] slope_curve(1) [OF l _ _ False] c PQ by simp
  qed (auto simp: PQ)
qed simp_all

section \<open>Associativity\<close>

lemma outer_slope:
  fixes x2 :: fp
  assumes "is_slope s xD yD x3 y3" "\<not> (xD = x3 \<and> yD = - y3)"
    and "y3 = y2 + m * (x3 - x2)" "yD = - (y2 + l * (xD - x2))"
    and "x1 + xD + x2 = l ^ 2" "xE + x3 + x2 = m ^ 2"
    and "(x1 - x2) * (xD - x2) = 3 * x2 ^ 2 - 2 * y2 * l" "(x3 - x2) * (xE - x2) = 3 * x2 ^ 2 - 2 * y2 * m"
  shows "s * (m - l) = x3 + xD + x2 - m * l"
proof -
  have s: "s * (x3 - xD) = y3 - yD" "s * (yD + y3) = xD ^ 2 + xD * x3 + x3 ^ 2"
    using assms(1) by (simp_all add: is_slope_def)
  let ?K = "x3 + xD + x2 - m * l"
  have "(x3 - xD) * (s * (m - l) - ?K) = 0" using s(1) assms(3-8) by algebra
  then consider "s * (m - l) = ?K" | "x3 = xD" by auto
  then show ?thesis
  proof cases
    case 2
    then have "yD + y3 \<noteq> 0" using assms(2) by (auto simp: add_eq_0_iff)
    moreover have "(yD + y3) * (s * (m - l) - ?K) = 0" using s 2 assms(3-8) by algebra
    ultimately show ?thesis by simp
  qed
qed

lemma outer_slopes_agree:
  fixes x1 x2 x3 :: fp
  assumes "s * (m - l) = x3 + xD + x2 - m * l" "t * (l - m) = x1 + xE + x2 - l * m"
    and "x1 + xD + x2 = l ^ 2" "xE + x3 + x2 = m ^ 2" "l \<noteq> m"
    and "y3 = y2 + m * (x3 - x2)" "y1 = y2 + l * (x1 - x2)"
  shows "s ^ 2 - xD - x3 = t ^ 2 - x1 - xE"
    "s * (x3 - (s ^ 2 - xD - x3)) - y3 = t * (x1 - (t ^ 2 - x1 - xE)) - y1"
proof -
  have "(m - l) * (s - t - (m - l)) = 0" using assms(1-4) by algebra
  then have "s - t - (m - l) = 0" using assms(5) by simp
  then have st: "s = t + (m - l)" by algebra
  show x: "s ^ 2 - xD - x3 = t ^ 2 - x1 - xE" using st assms(1-4) by algebra
  have xF: "s ^ 2 - xD - x3 + xD + x3 = s * s" by (simp add: power2_eq_square)
  define xF where "xF = s ^ 2 - xD - x3"
  have "s * (x3 - xF) - y3 = t * (x1 - xF) - y1" using xF_def st assms(1-4,6,7) by algebra
  then show "s * (x3 - (s ^ 2 - xD - x3)) - y3 = t * (x1 - (t ^ 2 - x1 - xE)) - y1"
    unfolding x [symmetric] by (simp only: xF_def)
qed

lemma padd_slope':
  assumes "y1 ^ 2 = x1 ^ 3 + 7" "y2 ^ 2 = x2 ^ 3 + 7" "\<not> (x1 = x2 \<and> y1 = - y2)"
  obtains l x3 where "is_slope l x1 y1 x2 y2" "x1 + x3 + x2 = l ^ 2" "y1 = y2 + l * (x1 - x2)"
    "(x1 - x2) * (x3 - x2) = 3 * x2 ^ 2 - 2 * y2 * l"
    "padd (Point x1 y1) (Point x2 y2) = Point x3 (- (y2 + l * (x3 - x2)))"
    "(- (y2 + l * (x3 - x2))) ^ 2 = x3 ^ 3 + 7"
proof -
  define l x3 where "l = slope x1 y1 x2 y2" and "x3 = l ^ 2 - x1 - x2"
  have l: "is_slope l x1 y1 x2 y2" unfolding l_def by (rule slope_is_slope [OF assms])
  have y: "l * (x2 - x1) = y2 - y1" using l by (simp add: is_slope_def)
  have e: "l * (x1 - x3) - y1 = - (y2 + l * (x3 - x2))" using y by algebra
  show thesis
  proof (rule that [of l x3])
    show "padd (Point x1 y1) (Point x2 y2) = Point x3 (- (y2 + l * (x3 - x2)))"
      using padd_slope [OF l assms] by (simp only: x3_def [symmetric] e)
    show "(- (y2 + l * (x3 - x2))) ^ 2 = x3 ^ 3 + 7"
      using slope_curve(1) [OF l assms] by (simp only: x3_def [symmetric] e)
    show "(x1 - x2) * (x3 - x2) = 3 * x2 ^ 2 - 2 * y2 * l"
      using slope_curve(2) [OF l assms] by (simp only: x3_def)
    show "y1 = y2 + l * (x1 - x2)" using y by algebra
  qed (use l in \<open>simp_all add: x3_def\<close>)
qed

lemma padd_assoc_affine:
  assumes c: "on_curve (Point x1 y1)" "on_curve (Point x2 y2)" "on_curve (Point x3 y3)"
    and AB: "Point x1 y1 \<noteq> pneg (Point x2 y2)" and BC: "Point x3 y3 \<noteq> pneg (Point x2 y2)"
    and DC: "padd (Point x1 y1) (Point x2 y2) \<noteq> pneg (Point x3 y3)"
    and AE: "padd (Point x3 y3) (Point x2 y2) \<noteq> pneg (Point x1 y1)"
  shows "padd (padd (Point x1 y1) (Point x2 y2)) (Point x3 y3) = padd (padd (Point x3 y3) (Point x2 y2)) (Point x1 y1)"
proof -
  have n: "\<not> (x1 = x2 \<and> y1 = - y2)" "\<not> (x3 = x2 \<and> y3 = - y2)" using AB BC by auto
  obtain l xD where l: "is_slope l x1 y1 x2 y2" "x1 + xD + x2 = l ^ 2" "y1 = y2 + l * (x1 - x2)"
    "(x1 - x2) * (xD - x2) = 3 * x2 ^ 2 - 2 * y2 * l"
    and D: "padd (Point x1 y1) (Point x2 y2) = Point xD (- (y2 + l * (xD - x2)))"
    "(- (y2 + l * (xD - x2))) ^ 2 = xD ^ 3 + 7"
    using padd_slope' [OF _ _ n(1)] c by auto
  obtain m xE where m: "is_slope m x3 y3 x2 y2" "x3 + xE + x2 = m ^ 2" "y3 = y2 + m * (x3 - x2)"
    "(x3 - x2) * (xE - x2) = 3 * x2 ^ 2 - 2 * y2 * m"
    and E: "padd (Point x3 y3) (Point x2 y2) = Point xE (- (y2 + m * (xE - x2)))"
    "(- (y2 + m * (xE - x2))) ^ 2 = xE ^ 3 + 7"
    using padd_slope' [OF _ _ n(2)] c by auto
  define yD yE where yD: "yD = - (y2 + l * (xD - x2))" and yE: "yE = - (y2 + m * (xE - x2))"
  have nD: "\<not> (xD = x3 \<and> yD = - y3)" and nE: "\<not> (xE = x1 \<and> yE = - y1)"
    using DC [unfolded D(1)] AE [unfolded E(1)] by (auto simp: yD yE)
  have m2: "xE + x3 + x2 = m ^ 2" using m(2) by (simp add: ac_simps)
  have cD: "yD ^ 2 = xD ^ 3 + 7" and cE: "yE ^ 2 = xE ^ 3 + 7" using D(2) E(2) by (simp_all add: yD yE)
  have c': "y1 ^ 2 = x1 ^ 3 + 7" "y3 ^ 2 = x3 ^ 3 + 7" using c by simp_all
  note s = slope_is_slope [OF cD c'(2) nD] and t = slope_is_slope [OF cE c'(1) nE]
  define s' t' where "s' = slope xD yD x3 y3" and "t' = slope xE yE x1 y1"
  show ?thesis
  proof (cases "l = m")
    case False
    have S: "s' * (m - l) = x3 + xD + x2 - m * l" unfolding s'_def
      by (rule outer_slope [OF s nD m(3) yD l(2) m2 l(4) m(4)])
    have T: "t' * (l - m) = x1 + xE + x2 - l * m" unfolding t'_def
      by (rule outer_slope [OF t nE l(3) yE m(2) _ m(4) l(4)]) (use l(2) in \<open>simp add: ac_simps\<close>)
    have st: "s' * (x3 - xD) = y3 - yD" "t' * (x1 - xE) = y1 - yE"
      using s t by (simp_all add: is_slope_def s'_def t'_def)
    note oa = outer_slopes_agree [OF S T l(2) m2 False m(3) l(3)]
    have "s' * (xD - (s' ^ 2 - xD - x3)) - yD = s' * (x3 - (s' ^ 2 - xD - x3)) - y3" using st(1) by algebra
    moreover have "t' * (xE - (t' ^ 2 - xE - x1)) - yE = t' * (x1 - (t' ^ 2 - x1 - xE)) - y1" using st(2) by algebra
    moreover have "t' ^ 2 - x1 - xE = t' ^ 2 - xE - x1" by simp
    moreover note oa
    ultimately have "Point (s' ^ 2 - xD - x3) (s' * (xD - (s' ^ 2 - xD - x3)) - yD)
        = Point (t' ^ 2 - xE - x1) (t' * (xE - (t' ^ 2 - xE - x1)) - yE)"
      by (simp only:)
    then show ?thesis
      unfolding D(1) E(1) yD [symmetric] yE [symmetric]
        padd_slope [OF s cD c'(2) nD] padd_slope [OF t cE c'(1) nE] s'_def t'_def .
  next
    case True
    have "(x3 - x1) * (x3 - xD) = 0" using l(2,4) m(2,4) True by algebra
    then consider "x3 = x1" | "x3 = xD" by auto
    then show ?thesis
    proof cases
      case 1
      then have "y3 = y1" using l(3) m(3) True by simp
      with 1 show ?thesis by simp
    next
      case 2
      then have "yD = - y3" using m(3) True by (simp add: yD)
      with 2 nD show ?thesis by simp
    qed
  qed
qed

lemma pneg_padd:
  assumes "on_curve P" "on_curve Q"
  shows "pneg (padd P Q) = padd (pneg P) (pneg Q)"
proof (cases P; cases Q)
  fix x1 y1 x2 y2
  assume PQ: "P = Point x1 y1" "Q = Point x2 y2"
  show "pneg (padd P Q) = padd (pneg P) (pneg Q)"
  proof (cases "x1 = x2 \<and> y1 = - y2")
    case False
    then have n: "\<not> (x1 = x2 \<and> - y1 = - (- y2))" by (auto simp: minus_equation_iff)
    have l: "is_slope (slope x1 y1 x2 y2) x1 y1 x2 y2" using slope_is_slope [OF _ _ False] assms PQ by auto
    then have l': "is_slope (- slope x1 y1 x2 y2) x1 (- y1) x2 (- y2)"
      by (simp add: is_slope_def algebra_simps)
    show ?thesis
      using padd_slope [OF l _ _ False] padd_slope [OF l' _ _ n] assms PQ by simp
  qed (auto simp: PQ)
qed simp_all

lemma seven_neq_0: "(7 :: fp) \<noteq> 0"
  by (rule numeral_fp_neq_0)

lemma padd_cancel:
  assumes "on_curve P" "on_curve Q"
  shows "padd (padd P Q) (pneg Q) = P"
proof (cases P; cases Q)
  fix x1 y1 x2 y2
  assume PQ: "P = Point x1 y1" "Q = Point x2 y2"
  show "padd (padd P Q) (pneg Q) = P"
  proof (cases "x1 = x2 \<and> y1 = - y2")
    case False
    have c: "y1 ^ 2 = x1 ^ 3 + 7" "y2 ^ 2 = x2 ^ 3 + 7" using assms PQ by simp_all
    obtain l xD where l: "is_slope l x1 y1 x2 y2" "x1 + xD + x2 = l ^ 2" "y1 = y2 + l * (x1 - x2)"
      "(x1 - x2) * (xD - x2) = 3 * x2 ^ 2 - 2 * y2 * l"
      and D: "padd P Q = Point xD (- (y2 + l * (xD - x2)))" "(- (y2 + l * (xD - x2))) ^ 2 = xD ^ 3 + 7"
      using padd_slope' [OF c False] PQ by auto
    define yD where "yD = - (y2 + l * (xD - x2))"
    have e: "l * (y1 + y2) = x1 ^ 2 + x1 * x2 + x2 ^ 2" using l(1) by (simp add: is_slope_def)
    have n: "\<not> (xD = x2 \<and> yD = - (- y2))"
    proof
      assume a: "xD = x2 \<and> yD = - (- y2)"
      then have "xD = x2" "yD = y2" by simp_all
      then have "y2 = - y2" using yD_def by simp
      then have "2 * y2 = 0" by (simp only: mult_2 eq_neg_iff_add_eq_0)
      then have "y2 = 0" using numeral_fp_neq_0 by simp
      moreover have "3 * x2 ^ 2 = 2 * y2 * l" using l(4) a by simp
      ultimately have "x2 = 0" using numeral_fp_neq_0 by simp
      with \<open>y2 = 0\<close> show False using c(2) seven_neq_0 by simp
    qed
    have "- l * (x2 - xD) = - y2 - yD" "- l * (yD + - y2) = xD ^ 2 + xD * x2 + x2 ^ 2"
      using l(2-4) e c yD_def by algebra+
    then have s: "is_slope (- l) xD yD x2 (- y2)" by (simp add: is_slope_def)
    have "padd (Point xD yD) (Point x2 (- y2))
        = Point ((- l) ^ 2 - xD - x2) (- l * (xD - ((- l) ^ 2 - xD - x2)) - yD)"
      by (rule padd_slope [OF s _ _ n]) (use D(2) c in \<open>simp_all add: yD_def\<close>)
    moreover have x: "(- l) ^ 2 - xD - x2 = x1" using l(2) by algebra
    moreover have "- l * (xD - x1) - yD = y1" using l(3) yD_def by algebra
    ultimately have "padd (Point xD yD) (Point x2 (- y2)) = Point x1 y1" by (simp only:)
    then show ?thesis using D(1) by (simp only: PQ pneg_simps yD_def)
  qed (auto simp: PQ)
qed (use padd_pneg in simp_all)

lemma padd_cancel_left:
  assumes "on_curve P" "on_curve Q"
  shows "padd (pneg Q) (padd Q P) = P"
  using padd_cancel [OF assms] padd_commute [of P Q] padd_commute [of "pneg Q" "padd Q P"] assms by simp

lemma padd_assoc:
  assumes A: "on_curve A" and B: "on_curve B" and C: "on_curve C"
  shows "padd (padd A B) C = padd A (padd B C)"
proof -
  have comm: "padd B C = padd C B" "padd A (padd C B) = padd (padd C B) A"
    by (intro padd_commute padd_on_curve A B C)+
  have neg: "padd (pneg P) P = Infinity" for P
    using padd_pneg [of "pneg P"] by simp
  consider "A = Infinity \<or> B = Infinity \<or> C = Infinity" | "A = pneg B" | "C = pneg B"
    | "padd A B = pneg C" | "padd C B = pneg A"
    | x1 y1 x2 y2 x3 y3 where "A = Point x1 y1" "B = Point x2 y2" "C = Point x3 y3"
        "A \<noteq> pneg B" "C \<noteq> pneg B" "padd A B \<noteq> pneg C" "padd C B \<noteq> pneg A"
    by (meson point.exhaust)
  then show ?thesis
  proof cases
    case 1
    then show ?thesis by auto
  next
    case 2
    have "padd (padd A B) C = C" unfolding 2 by (simp only: neg padd.simps)
    moreover have "padd A (padd B C) = C" unfolding 2 by (rule padd_cancel_left [OF C B])
    ultimately show ?thesis by simp
  next
    case 3
    then show ?thesis using padd_cancel [OF A B] by (simp only: padd_pneg padd_Infinity)
  next
    case 4
    have "A = padd (pneg C) (pneg B)" using padd_cancel [OF A B] 4 by simp
    then have "A = pneg (padd C B)" using pneg_padd [OF C B] by simp
    then have "padd A (padd C B) = Infinity" by (simp only: neg)
    then show ?thesis by (simp only: 4 comm(1) neg)
  next
    case 5
    have "C = padd (pneg A) (pneg B)" using padd_cancel [OF C B] 5 by simp
    then have "C = pneg (padd A B)" using pneg_padd [OF A B] by simp
    then have "padd (padd A B) C = Infinity" by (simp only: padd_pneg)
    then show ?thesis by (simp only: 5 comm(1) padd_pneg)
  next
    case 6
    have "padd (padd A B) C = padd (padd C B) A"
      using padd_assoc_affine [of x1 y1 x2 y2 x3 y3] A B C 6 by (simp only: not_False_eq_True)
    then show ?thesis by (simp only: comm)
  qed
qed

section \<open>The group of curve points\<close>

typedef cpoint = "{P. on_curve P}"
  morphisms pt cpt
  by (rule exI [of _ Infinity]) simp

setup_lifting type_definition_cpoint

instantiation cpoint :: ab_group_add
begin

lift_definition zero_cpoint :: cpoint is Infinity by simp

lift_definition plus_cpoint :: "cpoint \<Rightarrow> cpoint \<Rightarrow> cpoint" is padd by simp

lift_definition uminus_cpoint :: "cpoint \<Rightarrow> cpoint" is pneg by simp

definition minus_cpoint :: "cpoint \<Rightarrow> cpoint \<Rightarrow> cpoint" where
  "minus_cpoint P Q = P + - Q"

instance
proof
  fix P Q R :: cpoint
  show "P + Q + R = P + (Q + R)" by transfer (simp add: padd_assoc)
  show "P + Q = Q + P" by transfer (simp add: padd_commute)
  show "0 + P = P" by transfer simp
  show "- P + P = 0" by transfer (metis padd_commute padd_pneg pneg_on_curve)
  show "P - Q = P + - Q" by (simp add: minus_cpoint_def)
qed

end

text \<open>Multiples of an element of an abelian group.\<close>

definition smul :: "int \<Rightarrow> 'a::ab_group_add \<Rightarrow> 'a" where
  "smul k P = (if 0 \<le> k then ((+) P ^^ nat k) 0 else - (((+) P ^^ nat (- k)) 0))"

lemma smul_simps [simp]:
  fixes P :: "'a::ab_group_add"
  shows "smul 0 P = 0" "smul 1 P = P" "smul k (0 :: 'a) = 0" "smul (- 1) P = - P"
proof -
  have "((+) (0 :: 'a) ^^ n) 0 = 0" for n by (induction n) simp_all
  then show "smul 0 P = 0" "smul 1 P = P" "smul k (0 :: 'a) = 0" "smul (- 1) P = - P" by (simp_all add: smul_def)
qed

lemma smul_succ: "smul (k + 1) P = smul k P + P"
proof (cases "0 \<le> k")
  case True
  then have "nat (k + 1) = Suc (nat k)" by simp
  then show ?thesis using True by (simp add: smul_def add.commute)
next
  case False
  then have "nat (- k) = Suc (nat (- (k + 1)))" by simp
  then show ?thesis using False by (cases "k + 1 = 0") (simp_all add: smul_def)
qed

lemma smul_pred: "smul (k - 1) P = smul k P - P"
  using smul_succ [of "k - 1" P] by simp

lemma smul_add: "smul (j + k) P = smul j P + smul k P"
proof (induction k rule: int_induct [of _ 0])
  case (step1 k)
  then show ?case using smul_succ [of "j + k" P] smul_succ [of k P] by (simp add: ac_simps)
next
  case (step2 k)
  then show ?case by (simp only: smul_pred add_diff_eq)
qed simp

lemma smul_neg: "smul (- k) P = - smul k P"
  using smul_add [of k "- k" P] by (simp add: eq_neg_iff_add_eq_0 add.commute)

lemma smul_distrib: "smul k (P + Q) = smul k P + smul k Q"
proof (induction k rule: int_induct [of _ 0])
  case (step1 k)
  then show ?case unfolding smul_succ by (simp add: ac_simps)
next
  case (step2 k)
  then show ?case unfolding smul_pred by (simp add: algebra_simps)
qed simp

lemma smul_mult: "smul (j * k) P = smul j (smul k P)"
proof (induction j rule: int_induct [of _ 0])
  case (step1 j)
  have "smul ((j + 1) * k) P = smul (j * k) P + smul k P" by (simp only: ring_distribs mult_1 smul_add)
  then show ?case by (simp only: step1(2) smul_succ)
next
  case (step2 j)
  have "smul ((j - 1) * k) P = smul (j * k) P - smul k P"
    using smul_add [of "j * k" "- k" P] by (simp add: left_diff_distrib smul_neg)
  then show ?case by (simp only: step2(2) smul_pred)
qed simp

lemma smul_minus: "smul k (- P) = - smul k P"
  using smul_mult [of k "- 1" P] smul_neg [of k P] by simp

lemma smul_2: "smul 2 P = P + P"
  using smul_add [of 1 1 P] by simp

section \<open>Constants of the curve\<close>

text \<open>No point of the curve has a vanishing ordinate: \<open>-7\<close> is not a cube.\<close>

lemma minus_7_not_cube: "(x :: fp) ^ 3 + 7 \<noteq> 0"
proof
  define e :: nat where e: "e = 0x55555555555555555555555555555555555555555555555555555554fffffeba"
  assume x: "x ^ 3 + 7 = 0"
  then have "x \<noteq> 0" using numeral_fp_neq_0 by auto
  then have "x ^ nat (field_p - 1) = 1" by (rule fp_power_unit)
  also have "nat (field_p - 1) = 3 * e" by (simp add: field_p_def e)
  also have "x ^ (3 * e) = (x ^ 3) ^ e" by (rule power_mult)
  also have "x ^ 3 = - 7" using x by (simp add: eq_neg_iff_add_eq_0)
  also have "(- 7 :: fp) ^ e = 7 ^ e" by (rule power_minus_even) (simp add: e)
  finally have "(of_int (7 ^ e) :: fp) = of_int 1" by (simp only: of_int_power of_int_numeral of_int_1)
  then have "(7 :: int) ^ e mod field_p = 1 mod field_p" by (simp only: of_int_fp_eq_iff)
  moreover have "(7 :: int) ^ e mod field_p \<noteq> 1 mod field_p"
    using pow_p_third unfolding pow_mod_def e [symmetric] field_p_def [symmetric] by (simp only:) (simp add: field_p_def)
  ultimately show False by simp
qed

lemma on_curve_y: "on_curve (Point x y) \<Longrightarrow> y \<noteq> 0"
  using minus_7_not_cube [of x] by auto

text \<open>The generator of SEC 2.\<close>

definition generator_x :: int where
  "generator_x = 0x79BE667EF9DCBBAC55A06295CE870B07029BFCDB2DCE28D959F2815B16F81798"

definition generator_y :: int where
  "generator_y = 0x483ADA7726A3C4655DA4FBFC0E1108A8FD17B448A68554199C47D08FFB10D4B8"

lemma field_p_literal: "field_p = 0xFFFFFFFFFFFFFFFFFFFFFFFFFFFFFFFFFFFFFFFFFFFFFFFFFFFFFFFEFFFFFC2F"
  by (simp add: field_p_def)

lemma generator_on_curve: "on_curve (Point (of_int generator_x) (of_int generator_y))"
proof -
  have "generator_x * (generator_x * generator_x) + 7 = generator_y * generator_y + field_p * 0x1b888e01a06e974017a28a5b4da436169761c9730b7aeedf75fc60f6a33cfc7792fe74711f025d590b10e57f1b3a7ce38ffc4c885c515894b45c19c9f413e5e9"
    unfolding generator_x_def generator_y_def field_p_literal
    by (simp only: numeral_times_numeral mult_num_simps add_num_simps numeral_plus_numeral)
  then have e: "(of_int (generator_x * (generator_x * generator_x) + 7) :: fp) = of_int (generator_y * generator_y)"
    unfolding of_int_fp_eq_iff by (simp only: mod_mult_self2)
  show ?thesis using e [symmetric] by (simp add: power2_eq_square power3_eq_cube mult.assoc)
qed

end
