(* ===== verification/Group.thy ===== *)
theory Group
  imports Curve Field_10x26
begin

text \<open>
  The group operations \<^verbatim>\<open>group_impl.h\<close>, written against the field interface \<open>F\<close>. A point in affine
  coordinates is a record \<open>ge\<close>, in Jacobian coordinates a record \<open>gej\<close>: it stands for the affine point
  \<open>(X / Z\<^sup>2, Y / Z\<^sup>3)\<close>, or for infinity. An operation that leaves fields of its output untouched
  takes the old value \<open>r\<close> of the output. The optional output \<^verbatim>\<open>rzr\<close> of the additions, the ratio of the
  Z coordinates, is an option: \<^const>\<open>None\<close> is a null pointer.
\<close>

named_theorems fr_intro "rules for the values and magnitudes of field operations"

section \<open>Definitions\<close>

record 'fe ge =
  ge_x :: 'fe
  ge_y :: 'fe
  ge_infinity :: bool

record 'fe gej =
  gej_x :: 'fe
  gej_y :: 'fe
  gej_z :: 'fe
  gej_infinity :: bool

record 'st ge_storage =
  gs_x :: 'st
  gs_y :: 'st

definition ge_const_g :: "('fe, 'st) field_ops \<Rightarrow> 'fe ge" where
  "ge_const_g F = \<lparr>
    ge_x = fe_const F 0x79BE667E 0xF9DCBBAC 0x55A06295 0xCE870B07 0x029BFCDB 0x2DCE28D9 0x59F2815B 0x16F81798,
    ge_y = fe_const F 0x483ADA77 0x26A3C465 0x5DA4FBFC 0x0E1108A8 0xFD17B448 0xA6855419 0x9C47D08F 0xFB10D4B8,
    ge_infinity = False\<rparr>"

definition CURVE_B :: int where
  "CURVE_B = 7"

definition ge_set_gej_zinv :: "('fe, 'st) field_ops \<Rightarrow> 'fe gej \<Rightarrow> 'fe \<Rightarrow> 'fe ge" where
  "ge_set_gej_zinv F a zi =
    (let zi2 = fe_sqr F zi;
         zi3 = fe_mul F zi2 zi
     in \<lparr>ge_x = fe_mul F (gej_x a) zi2, ge_y = fe_mul F (gej_y a) zi3, ge_infinity = gej_infinity a\<rparr>)"

definition ge_set_xy :: "'fe \<Rightarrow> 'fe \<Rightarrow> 'fe ge" where
  "ge_set_xy x y = \<lparr>ge_x = x, ge_y = y, ge_infinity = False\<rparr>"

definition ge_is_infinity :: "'fe ge \<Rightarrow> bool" where
  "ge_is_infinity a = ge_infinity a"

definition ge_neg :: "('fe, 'st) field_ops \<Rightarrow> 'fe ge \<Rightarrow> 'fe ge" where
  "ge_neg F a = a\<lparr>ge_y := fe_negate F (fe_normalize_weak F (ge_y a)) 1\<rparr>"

text \<open>The conversion also rescales its argument; the result is the pair of both.\<close>

definition ge_set_gej :: "('fe, 'st) field_ops \<Rightarrow> 'fe gej \<Rightarrow> 'fe ge \<times> 'fe gej" where
  "ge_set_gej F a =
    (let z = fe_inv F (gej_z a);
         z2 = fe_sqr F z;
         z3 = fe_mul F z z2;
         x = fe_mul F (gej_x a) z2;
         y = fe_mul F (gej_y a) z3
     in (\<lparr>ge_x = x, ge_y = y, ge_infinity = gej_infinity a\<rparr>,
         a\<lparr>gej_x := x, gej_y := y, gej_z := fe_set_int F 1\<rparr>))"

definition ge_set_gej_var :: "('fe, 'st) field_ops \<Rightarrow> 'fe ge \<Rightarrow> 'fe gej \<Rightarrow> 'fe ge \<times> 'fe gej" where
  "ge_set_gej_var F r a =
    (if gej_infinity a then (r\<lparr>ge_infinity := True\<rparr>, a)
     else
       let z = fe_inv_var F (gej_z a);
           z2 = fe_sqr F z;
           z3 = fe_mul F z z2;
           x = fe_mul F (gej_x a) z2;
           y = fe_mul F (gej_y a) z3
       in (\<lparr>ge_x = x, ge_y = y, ge_infinity = False\<rparr>,
           a\<lparr>gej_x := x, gej_y := y, gej_z := fe_set_int F 1\<rparr>))"

text \<open>
  The batch conversion: the Z coordinates of the finite points are gathered and inverted together,
  and the second loop consumes the inverses in the same order. \<open>azi\<close> is the uninitialized output
  array of the batch inversion.
\<close>

fun ge_set_all_fill :: "('fe, 'st) field_ops \<Rightarrow> 'fe ge list \<Rightarrow> 'fe gej list \<Rightarrow> 'fe list \<Rightarrow> 'fe ge list" where
  "ge_set_all_fill F (r # rs) (a # as) azi =
    (if gej_infinity a then r\<lparr>ge_infinity := True\<rparr> # ge_set_all_fill F rs as azi
     else ge_set_gej_zinv F a (hd azi) # ge_set_all_fill F rs as (tl azi))"
| "ge_set_all_fill F rs as azi = rs"

definition ge_set_all_gej_var :: "('fe, 'st) field_ops \<Rightarrow> 'fe ge list \<Rightarrow> 'fe list \<Rightarrow> 'fe gej list \<Rightarrow> 'fe ge list" where
  "ge_set_all_gej_var F r azi a =
    (let az = map gej_z (filter (\<lambda>p. \<not> gej_infinity p) a)
     in ge_set_all_fill F r a (fe_inv_all_var F azi az))"

text \<open>
  The two table conversions walk from the last entry to the first. The list of entries below
  index \<open>i\<close> is built from the right; \<open>zr ! i\<close> is the ratio of the Z coordinates of the entries \<open>i\<close> and \<open>i - 1\<close>.
\<close>

primrec ge_set_table_loop :: "('fe, 'st) field_ops \<Rightarrow> 'fe gej list \<Rightarrow> 'fe list \<Rightarrow> nat \<Rightarrow> 'fe \<Rightarrow> 'fe ge list" where
  "ge_set_table_loop F a zr 0 zi = []"
| "ge_set_table_loop F a zr (Suc i) zi =
    (let zi = fe_mul F zi (zr ! Suc i)
     in ge_set_table_loop F a zr i zi @ [ge_set_gej_zinv F (a ! i) zi])"

definition ge_set_table_gej_var :: "('fe, 'st) field_ops \<Rightarrow> 'fe gej list \<Rightarrow> 'fe list \<Rightarrow> 'fe ge list" where
  "ge_set_table_gej_var F a zr =
    (if 0 < length a
     then let i = length a - 1;
              zi = fe_inv F (gej_z (a ! i))
          in ge_set_table_loop F a zr i zi @ [ge_set_gej_zinv F (a ! i) zi]
     else [])"

primrec ge_globalz_loop :: "('fe, 'st) field_ops \<Rightarrow> 'fe gej list \<Rightarrow> 'fe list \<Rightarrow> nat \<Rightarrow> 'fe \<Rightarrow> 'fe ge list" where
  "ge_globalz_loop F a zr 0 zs = []"
| "ge_globalz_loop F a zr (Suc i) zs =
    (let zs = (if Suc i \<noteq> length a - 1 then fe_mul F zs (zr ! Suc i) else zs)
     in ge_globalz_loop F a zr i zs @ [ge_set_gej_zinv F (a ! i) zs])"

definition ge_globalz_set_table_gej :: "('fe, 'st) field_ops \<Rightarrow> 'fe \<Rightarrow> 'fe gej list \<Rightarrow> 'fe list \<Rightarrow> 'fe ge list \<times> 'fe" where
  "ge_globalz_set_table_gej F globalz a zr =
    (if 0 < length a
     then let i = length a - 1
          in (ge_globalz_loop F a zr i (zr ! i) @
                [\<lparr>ge_x = gej_x (a ! i), ge_y = gej_y (a ! i), ge_infinity = False\<rparr>], gej_z (a ! i))
     else ([], globalz))"

definition gej_set_infinity :: "('fe, 'st) field_ops \<Rightarrow> 'fe gej" where
  "gej_set_infinity F = \<lparr>gej_x = fe_clear F, gej_y = fe_clear F, gej_z = fe_clear F, gej_infinity = True\<rparr>"

definition gej_clear :: "('fe, 'st) field_ops \<Rightarrow> 'fe gej" where
  "gej_clear F = \<lparr>gej_x = fe_clear F, gej_y = fe_clear F, gej_z = fe_clear F, gej_infinity = False\<rparr>"

definition ge_clear :: "('fe, 'st) field_ops \<Rightarrow> 'fe ge" where
  "ge_clear F = \<lparr>ge_x = fe_clear F, ge_y = fe_clear F, ge_infinity = False\<rparr>"

definition ge_set_xquad :: "('fe, 'st) field_ops \<Rightarrow> 'fe \<Rightarrow> 'fe ge \<times> bool" where
  "ge_set_xquad F x =
    (let x2 = fe_sqr F x;
         x3 = fe_mul F x x2;
         c = fe_set_int F CURVE_B;
         c = fe_add F c x3;
         (y, ret) = fe_sqrt F c
     in (\<lparr>ge_x = x, ge_y = y, ge_infinity = False\<rparr>, ret))"

definition ge_set_xo_var :: "('fe, 'st) field_ops \<Rightarrow> 'fe \<Rightarrow> bool \<Rightarrow> 'fe ge \<times> bool" where
  "ge_set_xo_var F x is_odd =
    (let (r, ret) = ge_set_xquad F x
     in if \<not> ret then (r, False)
        else let y = fe_normalize_var F (ge_y r)
             in (r\<lparr>ge_y := if fe_is_odd F y \<noteq> is_odd then fe_negate F y 1 else y\<rparr>, True))"

definition gej_set_ge :: "('fe, 'st) field_ops \<Rightarrow> 'fe ge \<Rightarrow> 'fe gej" where
  "gej_set_ge F a = \<lparr>gej_x = ge_x a, gej_y = ge_y a, gej_z = fe_set_int F 1, gej_infinity = ge_infinity a\<rparr>"

definition gej_eq_x_var :: "('fe, 'st) field_ops \<Rightarrow> 'fe \<Rightarrow> 'fe gej \<Rightarrow> bool" where
  "gej_eq_x_var F x a =
    (let r = fe_sqr F (gej_z a);
         r = fe_mul F r x;
         r2 = fe_normalize_weak F (gej_x a)
     in fe_equal_var F r r2)"

definition gej_neg :: "('fe, 'st) field_ops \<Rightarrow> 'fe gej \<Rightarrow> 'fe gej" where
  "gej_neg F a = a\<lparr>gej_y := fe_negate F (fe_normalize_weak F (gej_y a)) 1\<rparr>"

definition gej_is_infinity :: "'fe gej \<Rightarrow> bool" where
  "gej_is_infinity a = gej_infinity a"

definition gej_is_valid_var :: "('fe, 'st) field_ops \<Rightarrow> 'fe gej \<Rightarrow> bool" where
  "gej_is_valid_var F a =
    (if gej_infinity a then False
     else
       let y2 = fe_sqr F (gej_y a);
           x3 = fe_sqr F (gej_x a);
           x3 = fe_mul F x3 (gej_x a);
           z2 = fe_sqr F (gej_z a);
           z6 = fe_sqr F z2;
           z6 = fe_mul F z6 z2;
           z6 = fe_mul_int F z6 CURVE_B;
           x3 = fe_add F x3 z6;
           x3 = fe_normalize_weak F x3
       in fe_equal_var F y2 x3)"

definition ge_is_valid_var :: "('fe, 'st) field_ops \<Rightarrow> 'fe ge \<Rightarrow> bool" where
  "ge_is_valid_var F a =
    (if ge_infinity a then False
     else
       let y2 = fe_sqr F (ge_y a);
           x3 = fe_sqr F (ge_x a);
           x3 = fe_mul F x3 (ge_x a);
           c = fe_set_int F CURVE_B;
           x3 = fe_add F x3 c;
           x3 = fe_normalize_weak F x3
       in fe_equal_var F y2 x3)"

definition gej_double_var :: "('fe, 'st) field_ops \<Rightarrow> 'fe gej \<Rightarrow> 'fe gej \<Rightarrow> 'fe option \<Rightarrow> 'fe gej \<times> 'fe option" where
  "gej_double_var F r a rzr =
    (if gej_infinity a then (r\<lparr>gej_infinity := True\<rparr>, map_option (\<lambda>_. fe_set_int F 1) rzr)
     else
       let rzr = map_option (\<lambda>_. fe_mul_int F (fe_normalize_weak F (gej_y a)) 2) rzr;
           z = fe_mul F (gej_z a) (gej_y a);
           z = fe_mul_int F z 2;
           t1 = fe_sqr F (gej_x a);
           t1 = fe_mul_int F t1 3;
           t2 = fe_sqr F t1;
           t3 = fe_sqr F (gej_y a);
           t3 = fe_mul_int F t3 2;
           t4 = fe_sqr F t3;
           t4 = fe_mul_int F t4 2;
           t3 = fe_mul F t3 (gej_x a);
           x = t3;
           x = fe_mul_int F x 4;
           x = fe_negate F x 4;
           x = fe_add F x t2;
           t2 = fe_negate F t2 1;
           t3 = fe_mul_int F t3 6;
           t3 = fe_add F t3 t2;
           y = fe_mul F t1 t3;
           t2 = fe_negate F t4 2;
           y = fe_add F y t2
       in (\<lparr>gej_x = x, gej_y = y, gej_z = z, gej_infinity = False\<rparr>, rzr))"

definition gej_double_nonzero :: "('fe, 'st) field_ops \<Rightarrow> 'fe gej \<Rightarrow> 'fe gej \<Rightarrow> 'fe option \<Rightarrow> 'fe gej \<times> 'fe option" where
  "gej_double_nonzero F r a rzr = gej_double_var F r a rzr"

text \<open>The last statements of the three variable-time additions, which are the same in the source.\<close>

definition gej_add_tail :: "('fe, 'st) field_ops \<Rightarrow> 'fe \<Rightarrow> 'fe \<Rightarrow> 'fe \<Rightarrow> 'fe \<Rightarrow> 'fe \<Rightarrow> 'fe \<Rightarrow> 'fe \<Rightarrow> 'fe gej" where
  "gej_add_tail F z u1 s1 h2 h3 i i2 =
    (let t = fe_mul F u1 h2;
         x = t;
         x = fe_mul_int F x 2;
         x = fe_add F x h3;
         x = fe_negate F x 3;
         x = fe_add F x i2;
         y = fe_negate F x 5;
         y = fe_add F y t;
         y = fe_mul F y i;
         h3 = fe_mul F h3 s1;
         h3 = fe_negate F h3 1;
         y = fe_add F y h3
     in \<lparr>gej_x = x, gej_y = y, gej_z = z, gej_infinity = False\<rparr>)"

definition gej_add_var ::
    "('fe, 'st) field_ops \<Rightarrow> 'fe gej \<Rightarrow> 'fe gej \<Rightarrow> 'fe gej \<Rightarrow> 'fe option \<Rightarrow> 'fe gej \<times> 'fe option" where
  "gej_add_var F r a b rzr =
    (if gej_infinity a then (b, rzr)
     else if gej_infinity b then (a, map_option (\<lambda>_. fe_set_int F 1) rzr)
     else
       let z22 = fe_sqr F (gej_z b);
           z12 = fe_sqr F (gej_z a);
           u1 = fe_mul F (gej_x a) z22;
           u2 = fe_mul F (gej_x b) z12;
           s1 = fe_mul F (gej_y a) z22;
           s1 = fe_mul F s1 (gej_z b);
           s2 = fe_mul F (gej_y b) z12;
           s2 = fe_mul F s2 (gej_z a);
           h = fe_negate F u1 1;
           h = fe_add F h u2;
           i = fe_negate F s1 1;
           i = fe_add F i s2
       in if fe_normalizes_to_zero_var F h
          then if fe_normalizes_to_zero_var F i then gej_double_var F r a rzr
               else (r\<lparr>gej_infinity := True\<rparr>, map_option (\<lambda>_. fe_set_int F 0) rzr)
          else
            let i2 = fe_sqr F i;
                h2 = fe_sqr F h;
                h3 = fe_mul F h h2;
                h = fe_mul F h (gej_z b);
                rzr = map_option (\<lambda>_. h) rzr;
                z = fe_mul F (gej_z a) h
            in (gej_add_tail F z u1 s1 h2 h3 i i2, rzr))"

definition gej_add_ge_var ::
    "('fe, 'st) field_ops \<Rightarrow> 'fe gej \<Rightarrow> 'fe gej \<Rightarrow> 'fe ge \<Rightarrow> 'fe option \<Rightarrow> 'fe gej \<times> 'fe option" where
  "gej_add_ge_var F r a b rzr =
    (if gej_infinity a then (gej_set_ge F b, rzr)
     else if ge_infinity b then (a, map_option (\<lambda>_. fe_set_int F 1) rzr)
     else
       let z12 = fe_sqr F (gej_z a);
           u1 = fe_normalize_weak F (gej_x a);
           u2 = fe_mul F (ge_x b) z12;
           s1 = fe_normalize_weak F (gej_y a);
           s2 = fe_mul F (ge_y b) z12;
           s2 = fe_mul F s2 (gej_z a);
           h = fe_negate F u1 1;
           h = fe_add F h u2;
           i = fe_negate F s1 1;
           i = fe_add F i s2
       in if fe_normalizes_to_zero_var F h
          then if fe_normalizes_to_zero_var F i then gej_double_var F r a rzr
               else (r\<lparr>gej_infinity := True\<rparr>, map_option (\<lambda>_. fe_set_int F 0) rzr)
          else
            let i2 = fe_sqr F i;
                h2 = fe_sqr F h;
                h3 = fe_mul F h h2;
                rzr = map_option (\<lambda>_. h) rzr;
                z = fe_mul F (gej_z a) h
            in (gej_add_tail F z u1 s1 h2 h3 i i2, rzr))"

definition gej_add_zinv_var ::
    "('fe, 'st) field_ops \<Rightarrow> 'fe gej \<Rightarrow> 'fe gej \<Rightarrow> 'fe ge \<Rightarrow> 'fe \<Rightarrow> 'fe gej" where
  "gej_add_zinv_var F r a b bzinv =
    (if ge_infinity b then a
     else if gej_infinity a
     then let bzinv2 = fe_sqr F bzinv;
              bzinv3 = fe_mul F bzinv2 bzinv
          in \<lparr>gej_x = fe_mul F (ge_x b) bzinv2, gej_y = fe_mul F (ge_y b) bzinv3,
              gej_z = fe_set_int F 1, gej_infinity = ge_infinity b\<rparr>
     else
       let az = fe_mul F (gej_z a) bzinv;
           z12 = fe_sqr F az;
           u1 = fe_normalize_weak F (gej_x a);
           u2 = fe_mul F (ge_x b) z12;
           s1 = fe_normalize_weak F (gej_y a);
           s2 = fe_mul F (ge_y b) z12;
           s2 = fe_mul F s2 az;
           h = fe_negate F u1 1;
           h = fe_add F h u2;
           i = fe_negate F s1 1;
           i = fe_add F i s2
       in if fe_normalizes_to_zero_var F h
          then if fe_normalizes_to_zero_var F i then fst (gej_double_var F r a None)
               else r\<lparr>gej_infinity := True\<rparr>
          else
            let i2 = fe_sqr F i;
                h2 = fe_sqr F h;
                h3 = fe_mul F h h2;
                z = fe_mul F (gej_z a) h
            in gej_add_tail F z u1 s1 h2 h3 i i2)"

definition gej_add_ge :: "('fe, 'st) field_ops \<Rightarrow> 'fe gej \<Rightarrow> 'fe ge \<Rightarrow> 'fe gej" where
  "gej_add_ge F a b =
    (let fe_1 = fe_const F 0 0 0 0 0 0 0 1;
         zz = fe_sqr F (gej_z a);
         u1 = fe_normalize_weak F (gej_x a);
         u2 = fe_mul F (ge_x b) zz;
         s1 = fe_normalize_weak F (gej_y a);
         s2 = fe_mul F (ge_y b) zz;
         s2 = fe_mul F s2 (gej_z a);
         t = fe_add F u1 u2;
         m = fe_add F s1 s2;
         rr = fe_sqr F t;
         m_alt = fe_negate F u2 1;
         tt = fe_mul F u1 m_alt;
         rr = fe_add F rr tt;
         degenerate = (fe_normalizes_to_zero F m \<and> fe_normalizes_to_zero F rr);
         rr_alt = s1;
         rr_alt = fe_mul_int F rr_alt 2;
         m_alt = fe_add F m_alt u1;
         rr_alt = fe_cmov F rr_alt rr (of_bool (\<not> degenerate));
         m_alt = fe_cmov F m_alt m (of_bool (\<not> degenerate));
         n = fe_sqr F m_alt;
         q = fe_mul F n t;
         n = fe_sqr F n;
         n = fe_cmov F n m (of_bool degenerate);
         t = fe_sqr F rr_alt;
         z = fe_mul F (gej_z a) m_alt;
         infinity = (fe_normalizes_to_zero F z \<and> \<not> gej_infinity a);
         z = fe_mul_int F z 2;
         q = fe_negate F q 1;
         t = fe_add F t q;
         t = fe_normalize_weak F t;
         x = t;
         t = fe_mul_int F t 2;
         t = fe_add F t q;
         t = fe_mul F t rr_alt;
         t = fe_add F t n;
         y = fe_negate F t 3;
         y = fe_normalize_weak F y;
         x = fe_mul_int F x 4;
         y = fe_mul_int F y 4;
         x = fe_cmov F x (ge_x b) (of_bool (gej_infinity a));
         y = fe_cmov F y (ge_y b) (of_bool (gej_infinity a));
         z = fe_cmov F z fe_1 (of_bool (gej_infinity a))
     in \<lparr>gej_x = x, gej_y = y, gej_z = z, gej_infinity = infinity\<rparr>)"

definition gej_rescale :: "('fe, 'st) field_ops \<Rightarrow> 'fe gej \<Rightarrow> 'fe \<Rightarrow> 'fe gej" where
  "gej_rescale F r s =
    (let zz = fe_sqr F s
     in r\<lparr>gej_x := fe_mul F (gej_x r) zz, gej_y := fe_mul F (fe_mul F (gej_y r) zz) s, gej_z := fe_mul F (gej_z r) s\<rparr>)"

definition ge_to_storage :: "('fe, 'st) field_ops \<Rightarrow> 'fe ge \<Rightarrow> 'st ge_storage" where
  "ge_to_storage F a = \<lparr>gs_x = fe_to_storage F (fe_normalize F (ge_x a)), gs_y = fe_to_storage F (fe_normalize F (ge_y a))\<rparr>"

definition ge_from_storage :: "('fe, 'st) field_ops \<Rightarrow> 'st ge_storage \<Rightarrow> 'fe ge" where
  "ge_from_storage F a = \<lparr>ge_x = fe_from_storage F (gs_x a), ge_y = fe_from_storage F (gs_y a), ge_infinity = False\<rparr>"

definition ge_storage_cmov :: "('fe, 'st) field_ops \<Rightarrow> 'st ge_storage \<Rightarrow> 'st ge_storage \<Rightarrow> int \<Rightarrow> 'st ge_storage" where
  "ge_storage_cmov F r a flag =
    \<lparr>gs_x = fe_storage_cmov F (gs_x r) (gs_x a) flag, gs_y = fe_storage_cmov F (gs_y r) (gs_y a) flag\<rparr>"

definition ge_mul_lambda :: "('fe, 'st) field_ops \<Rightarrow> 'fe ge \<Rightarrow> 'fe ge" where
  "ge_mul_lambda F a =
    (let beta = fe_const F 0x7ae96a2b 0x657c0710 0x6e64479e 0xac3434e9 0x9cf04975 0x12f58995 0xc1396c28 0x719501ee
     in a\<lparr>ge_x := fe_mul F (ge_x a) beta\<rparr>)"

definition gej_has_quad_y_var :: "('fe, 'st) field_ops \<Rightarrow> 'fe gej \<Rightarrow> bool" where
  "gej_has_quad_y_var F a =
    (if gej_infinity a then False else fe_is_quad_var F (fe_mul F (gej_y a) (gej_z a)))"


section \<open>Points\<close>

declare padd.simps(3) [simp del]

text \<open>The field element that a representation stands for, and what it means for a record to stand for a point.\<close>

definition fval :: "('fe \<Rightarrow> int) \<Rightarrow> 'fe \<Rightarrow> fp" where
  "fval res a = of_int (res a)"

text \<open>
  The multiplications work on an isomorphic curve: all coordinates are relative to a common factor \<open>c\<close> that
  is dropped from the Z coordinates. The relations carry this factor; it is \<open>1\<close> for ordinary points.
\<close>

definition ge_repz :: "(int \<Rightarrow> 'fe \<Rightarrow> bool) \<Rightarrow> ('fe \<Rightarrow> int) \<Rightarrow> fp \<Rightarrow> 'fe ge \<Rightarrow> point \<Rightarrow> bool" where
  "ge_repz mag res c a P \<longleftrightarrow> on_curve P \<and> (case P of
      Infinity \<Rightarrow> ge_infinity a
    | Point x y \<Rightarrow> \<not> ge_infinity a \<and> mag 8 (ge_x a) \<and> mag 8 (ge_y a) \<and>
        fval res (ge_x a) = x * c ^ 2 \<and> fval res (ge_y a) = y * c ^ 3)"

definition gej_repz :: "(int \<Rightarrow> 'fe \<Rightarrow> bool) \<Rightarrow> ('fe \<Rightarrow> int) \<Rightarrow> fp \<Rightarrow> 'fe gej \<Rightarrow> point \<Rightarrow> bool" where
  "gej_repz mag res c a P \<longleftrightarrow> on_curve P \<and> (case P of
      Infinity \<Rightarrow> gej_infinity a
    | Point x y \<Rightarrow> \<not> gej_infinity a \<and> mag 8 (gej_x a) \<and> mag 8 (gej_y a) \<and> mag 8 (gej_z a) \<and>
        fval res (gej_z a) \<noteq> 0 \<and>
        fval res (gej_x a) = x * (fval res (gej_z a) * c) ^ 2 \<and> fval res (gej_y a) = y * (fval res (gej_z a) * c) ^ 3)"

definition ge_rep :: "(int \<Rightarrow> 'fe \<Rightarrow> bool) \<Rightarrow> ('fe \<Rightarrow> int) \<Rightarrow> 'fe ge \<Rightarrow> point \<Rightarrow> bool" where
  "ge_rep mag res = ge_repz mag res 1"

definition gej_rep :: "(int \<Rightarrow> 'fe \<Rightarrow> bool) \<Rightarrow> ('fe \<Rightarrow> int) \<Rightarrow> 'fe gej \<Rightarrow> point \<Rightarrow> bool" where
  "gej_rep mag res = gej_repz mag res 1"

text \<open>The coordinates the formulas compute, as field identities.\<close>

lemma double_formula:
  fixes w :: fp
  assumes "on_curve (Point x y)" "w \<noteq> 0"
  defines "X \<equiv> x * w ^ 2" and "Y \<equiv> y * w ^ 3"
  defines "Z3 \<equiv> w * Y * 2"
  obtains x3 y3 where "padd (Point x y) (Point x y) = Point x3 y3" "Z3 \<noteq> 0"
    "- (2 * Y\<^sup>2 * X * 4) + (3 * X\<^sup>2)\<^sup>2 = x3 * Z3 ^ 2"
    "3 * X\<^sup>2 * (2 * Y\<^sup>2 * X * 6 - (3 * X\<^sup>2)\<^sup>2) - (2 * Y\<^sup>2)\<^sup>2 * 2 = y3 * Z3 ^ 3"
proof -
  have y: "y \<noteq> 0" using assms(1) by (rule on_curve_y)
  have n: "\<not> (x = x \<and> y = - y)" using y numeral_fp_neq_0 by (auto simp: eq_neg_iff_add_eq_0 simp flip: mult_2)
  define l where "l = slope x y x y"
  have s: "is_slope l x y x y" unfolding l_def using assms(1) n by (intro slope_is_slope) simp_all
  then have l: "l * (2 * y) = 3 * x ^ 2" unfolding is_slope_def by algebra
  define x3 y3 where "x3 = l ^ 2 - x - x" and "y3 = l * (x - x3) - y"
  show thesis
  proof (rule that [of x3 y3])
    show "padd (Point x y) (Point x y) = Point x3 y3"
      unfolding x3_def y3_def using padd_slope [OF s _ _ n] assms(1) by simp
    show "Z3 \<noteq> 0" using y assms(2) numeral_fp_neq_0 by (simp add: Z3_def Y_def)
    show "- (2 * Y\<^sup>2 * X * 4) + (3 * X\<^sup>2)\<^sup>2 = x3 * Z3 ^ 2"
      using l x3_def unfolding Z3_def X_def Y_def by algebra
    show "3 * X\<^sup>2 * (2 * Y\<^sup>2 * X * 6 - (3 * X\<^sup>2)\<^sup>2) - (2 * Y\<^sup>2)\<^sup>2 * 2 = y3 * Z3 ^ 3"
      using l x3_def y3_def unfolding Z3_def X_def Y_def by algebra
  qed
qed

lemma add_formula:
  fixes w :: fp
  assumes "on_curve (Point x1 y1)" "on_curve (Point x2 y2)" "w \<noteq> 0" "x1 \<noteq> x2"
    and "u = x1 * w ^ 2" "s = y1 * w ^ 3" "h = (x2 - x1) * w ^ 2" "i = (y2 - y1) * w ^ 3" "Z3 = w * h"
  obtains x3 y3 where "padd (Point x1 y1) (Point x2 y2) = Point x3 y3" "Z3 \<noteq> 0"
    "- (u * h\<^sup>2 * 2 + h ^ 3) + i\<^sup>2 = x3 * Z3 ^ 2"
    "(- (- (u * h\<^sup>2 * 2 + h ^ 3) + i\<^sup>2) + u * h\<^sup>2) * i - h ^ 3 * s = y3 * Z3 ^ 3"
proof -
  have n: "\<not> (x1 = x2 \<and> y1 = - y2)" using assms(4) by simp
  define l where "l = slope x1 y1 x2 y2"
  have sl: "is_slope l x1 y1 x2 y2" unfolding l_def using assms(1,2) n by (intro slope_is_slope) simp_all
  then have l: "l * (x2 - x1) = y2 - y1" by (simp add: is_slope_def)
  have i: "i = l * (x2 - x1) * w ^ 3" using assms(8) l by simp
  define x3 y3 where "x3 = l ^ 2 - x1 - x2" and "y3 = l * (x1 - x3) - y1"
  show thesis
  proof (rule that [of x3 y3])
    show "padd (Point x1 y1) (Point x2 y2) = Point x3 y3"
      unfolding x3_def y3_def using padd_slope [OF sl _ _ n] assms(1,2) by simp
    show "Z3 \<noteq> 0" using assms(3,4,7,9) by simp
    show "- (u * h\<^sup>2 * 2 + h ^ 3) + i\<^sup>2 = x3 * Z3 ^ 2"
      unfolding assms(5-7,9) i x3_def by algebra
    show "(- (- (u * h\<^sup>2 * 2 + h ^ 3) + i\<^sup>2) + u * h\<^sup>2) * i - h ^ 3 * s = y3 * Z3 ^ 3"
      unfolding assms(5-7,9) i y3_def x3_def by algebra
  qed
qed


lemma unified_formula:
  fixes w :: fp
  assumes c: "on_curve (Point x1 y1)" "on_curve (Point x2 y2)" and n: "\<not> (x1 = x2 \<and> y1 = - y2)"
    and L: "is_slope L x1 y1 x2 y2" and w: "w \<noteq> 0" "m \<noteq> 0"
    and e: "r = L * m * w" "k = (y1 + y2) * w ^ 3 * m ^ 3" "t = (x1 + x2) * w ^ 2" "Z3 = w * m * 2"
  obtains x3 y3 where "padd (Point x1 y1) (Point x2 y2) = Point x3 y3" "Z3 \<noteq> 0"
    "(r\<^sup>2 + - (m\<^sup>2 * t)) * 4 = x3 * Z3 ^ 2"
    "- (((r\<^sup>2 + - (m\<^sup>2 * t)) * 2 + - (m\<^sup>2 * t)) * r + k) * 4 = y3 * Z3 ^ 3"
proof -
  have l: "L * (x2 - x1) = y2 - y1" using L by (simp add: is_slope_def)
  define x3 y3 where x3: "x3 = L ^ 2 - x1 - x2" and y3: "y3 = L * (x1 - x3) - y1"
  show thesis
  proof (rule that [of x3 y3])
    show "padd (Point x1 y1) (Point x2 y2) = Point x3 y3"
      unfolding x3 y3 using padd_slope [OF L _ _ n] c by simp
    show "Z3 \<noteq> 0" using w e(4) numeral_fp_neq_0 by simp
    show "(r\<^sup>2 + - (m\<^sup>2 * t)) * 4 = x3 * Z3 ^ 2" unfolding e x3 by algebra
    show "- (((r\<^sup>2 + - (m\<^sup>2 * t)) * 2 + - (m\<^sup>2 * t)) * r + k) * 4 = y3 * Z3 ^ 3"
      using l unfolding e y3 x3 by algebra
  qed
qed

text \<open>The limbs of the generator of SEC 2.\<close>

lemma generator_limbs:
  "generator_x = limbs_val 32 [0x16F81798 :: 32 word, 0x59F2815B, 0x2DCE28D9, 0x029BFCDB, 0xCE870B07, 0x55A06295, 0xF9DCBBAC, 0x79BE667E]"
  "generator_y = limbs_val 32 [0xFB10D4B8 :: 32 word, 0x9C47D08F, 0xA6855419, 0xFD17B448, 0x0E1108A8, 0x5DA4FBFC, 0x26A3C465, 0x483ADA77]"
  by (simp_all add: generator_x_def generator_y_def)

section \<open>Correctness of the operations\<close>

context field_repr
begin

text \<open>\<open>fr m a v\<close>: the element \<open>a\<close> has magnitude \<open>m\<close> and the value \<open>v\<close>.\<close>

definition fr :: "int \<Rightarrow> 'fe \<Rightarrow> fp \<Rightarrow> bool" where
  "fr m a v \<longleftrightarrow> mag m a \<and> fval res a = v"

lemma frD: "fr m a v \<Longrightarrow> mag m a" "fr m a v \<Longrightarrow> fval res a = v" "fr m a v \<Longrightarrow> 0 \<le> m \<and> m \<le> 31"
  using mag_range by (auto simp: fr_def)

lemma fr_mono: "fr m a v \<Longrightarrow> m \<le> n \<Longrightarrow> n \<le> 31 \<Longrightarrow> fr n a v"
  using mag_mono by (auto simp: fr_def)

lemma fr_cong: "fr m a u \<Longrightarrow> m = n \<Longrightarrow> u = v \<Longrightarrow> fr n a v"
  by simp

lemma fr_mul [fr_intro]: "fr m a u \<Longrightarrow> fr n b v \<Longrightarrow> m \<le> 8 \<Longrightarrow> n \<le> 8 \<Longrightarrow> fr 1 (fe_mul F a b) (u * v)"
  using mul [of a b] mag_mono [of m a 8] mag_mono [of n b 8] by (auto simp: fr_def fval_def)

lemma fr_sqr [fr_intro]: "fr m a u \<Longrightarrow> m \<le> 8 \<Longrightarrow> fr 1 (fe_sqr F a) (u\<^sup>2)"
  using sqr [of a] mag_mono [of m a 8] by (auto simp: fr_def fval_def power2_eq_square)

lemma fr_add [fr_intro]: "fr m a u \<Longrightarrow> fr n b v \<Longrightarrow> m + n \<le> 31 \<Longrightarrow> fr (m + n) (fe_add F a b) (u + v)"
  using add [of m a n b] by (auto simp: fr_def fval_def)

lemma fr_negate [fr_intro]: "fr n a u \<Longrightarrow> n \<le> m \<Longrightarrow> m \<le> 30 \<Longrightarrow> fr (m + 1) (fe_negate F a m) (- u)"
  using negate [of m a] mag_mono [of n a m] by (auto simp: fr_def fval_def)

lemma fr_mul_int [fr_intro]:
  "fr m a u \<Longrightarrow> 0 \<le> k \<Longrightarrow> k \<le> 31 \<Longrightarrow> m * k \<le> 31 \<Longrightarrow> fr (m * k) (fe_mul_int F a k) (u * of_int k)"
  using mul_int [of m a k] by (auto simp: fr_def fval_def)

lemma fr_set_int [fr_intro]: "0 \<le> k \<Longrightarrow> k \<le> 0x3FFFFFF \<Longrightarrow> fr 1 (fe_set_int F k) (of_int k)"
  using set_int [of k] norm_mag by (auto simp: fr_def fval_def)

lemma fr_normalize_weak [fr_intro]: "fr m a u \<Longrightarrow> fr 1 (fe_normalize_weak F a) u"
  using normalize_weak [of m a] by (auto simp: fr_def fval_def)

lemma fval_0: "fval res a = 0 \<longleftrightarrow> res a = 0"
  by (simp add: fval_def of_int_fp_0_iff)

lemma fr_zero_var: "fr m a u \<Longrightarrow> fe_normalizes_to_zero_var F a \<longleftrightarrow> u = 0"
  using normalizes_to_zero_var [of m a] fval_0 [of a] by (auto simp: fr_def)

lemma fr_zero: "fr m a u \<Longrightarrow> fe_normalizes_to_zero F a \<longleftrightarrow> u = 0"
  using normalizes_to_zero [of m a] fval_0 [of a] by (auto simp: fr_def)

lemma fr_mul_cube: "fr m a u \<Longrightarrow> m \<le> 8 \<Longrightarrow> fr 1 (fe_mul F a (fe_sqr F a)) (u ^ 3)"
  using fr_mul [OF _ fr_sqr, of m a u m a u] by (simp add: power2_eq_square power3_eq_cube mult.assoc)

lemma gej_repz_Point:
  "gej_repz mag res c a (Point x y) \<longleftrightarrow> on_curve (Point x y) \<and> \<not> gej_infinity a \<and>
    (\<exists>v. v \<noteq> 0 \<and> fr 8 (gej_x a) (x * (v * c) ^ 2) \<and> fr 8 (gej_y a) (y * (v * c) ^ 3) \<and> fr 8 (gej_z a) v)"
  unfolding gej_repz_def fr_def by auto

lemma gej_repz_Infinity: "gej_repz mag res c a Infinity \<longleftrightarrow> gej_infinity a"
  by (simp add: gej_repz_def)

lemma ge_repz_Point:
  "ge_repz mag res c a (Point x y) \<longleftrightarrow>
    on_curve (Point x y) \<and> \<not> ge_infinity a \<and> fr 8 (ge_x a) (x * c ^ 2) \<and> fr 8 (ge_y a) (y * c ^ 3)"
  unfolding ge_repz_def fr_def by auto

lemma ge_repz_Infinity: "ge_repz mag res c a Infinity \<longleftrightarrow> ge_infinity a"
  by (simp add: ge_repz_def)

lemma gej_rep_Point:
  "gej_rep mag res a (Point x y) \<longleftrightarrow> on_curve (Point x y) \<and> \<not> gej_infinity a \<and>
    (\<exists>w. w \<noteq> 0 \<and> fr 8 (gej_x a) (x * w ^ 2) \<and> fr 8 (gej_y a) (y * w ^ 3) \<and> fr 8 (gej_z a) w)"
  unfolding gej_rep_def gej_repz_Point by simp

lemma gej_rep_Infinity: "gej_rep mag res a Infinity \<longleftrightarrow> gej_infinity a"
  by (simp add: gej_rep_def gej_repz_Infinity)

lemma ge_rep_Point:
  "ge_rep mag res a (Point x y) \<longleftrightarrow> on_curve (Point x y) \<and> \<not> ge_infinity a \<and> fr 8 (ge_x a) x \<and> fr 8 (ge_y a) y"
  unfolding ge_rep_def ge_repz_Point by simp

lemma ge_rep_Infinity: "ge_rep mag res a Infinity \<longleftrightarrow> ge_infinity a"
  by (simp add: ge_rep_def ge_repz_Infinity)

lemmas rep_simps = gej_rep_Point gej_rep_Infinity ge_rep_Point ge_rep_Infinity
  gej_repz_Point gej_repz_Infinity ge_repz_Point ge_repz_Infinity

lemma gej_repz_infinity_iff: "gej_repz mag res c a P \<Longrightarrow> gej_infinity a \<longleftrightarrow> P = Infinity"
  by (cases P) (simp_all add: rep_simps)

lemma ge_repz_infinity_iff: "ge_repz mag res c a P \<Longrightarrow> ge_infinity a \<longleftrightarrow> P = Infinity"
  by (cases P) (simp_all add: rep_simps)

lemmas gej_rep_infinity_iff = gej_repz_infinity_iff [where c = 1, folded gej_rep_def]
lemmas ge_rep_infinity_iff = ge_repz_infinity_iff [where c = 1, folded ge_rep_def]

lemma gej_repzI:
  assumes "padd P Q = Point x y" "on_curve P" "on_curve Q" "w \<noteq> 0"
    "fr m X u" "fr n Y v" "fr k Z w'" "m \<le> 8" "n \<le> 8" "k \<le> 8" "w' * c = w" "u = x * w ^ 2" "v = y * w ^ 3"
  shows "gej_repz mag res c \<lparr>gej_x = X, gej_y = Y, gej_z = Z, gej_infinity = False\<rparr> (padd P Q)"
  using assms padd_on_curve [OF assms(2,3)] fr_mono [of m X _ 8] fr_mono [of n Y _ 8] fr_mono [of k Z _ 8]
  unfolding assms(1) gej_repz_Point by auto

lemma fr_1: "fr 1 (fe_set_int F 1) 1"
  using fr_set_int [of 1] by simp

lemma gej_set_ge_repz: "ge_repz mag res c a P \<Longrightarrow> gej_repz mag res c (gej_set_ge F a) P"
  using fr_mono [OF fr_1, of 8] by (cases P) (auto simp: rep_simps gej_set_ge_def intro!: exI [of _ 1])

lemmas gej_set_ge_correct = gej_set_ge_repz [where c = 1, folded gej_rep_def ge_rep_def]

lemma gej_double_repz:
  assumes "gej_repz mag res c a P" "c \<noteq> 0"
  shows "gej_repz mag res c (fst (gej_double_var F r a rzr)) (padd P P)"
proof (cases P)
  case Infinity
  then show ?thesis using assms by (simp add: rep_simps gej_double_var_def)
next
  case (Point x y)
  obtain v where p: "on_curve (Point x y)" and i: "\<not> gej_infinity a" and v: "v \<noteq> 0"
    and X: "fr 8 (gej_x a) (x * (v * c) ^ 2)" and Y: "fr 8 (gej_y a) (y * (v * c) ^ 3)" and Z: "fr 8 (gej_z a) v"
    using assms unfolding Point gej_repz_Point by auto
  define w where "w = v * c"
  have w: "w \<noteq> 0" using v assms(2) by (simp add: w_def)
  note f = X [folded w_def] Y [folded w_def] Z
  obtain x3 y3 where e: "padd (Point x y) (Point x y) = Point x3 y3" "w * (y * w ^ 3) * 2 \<noteq> 0"
    "- (2 * (y * w ^ 3)\<^sup>2 * (x * w ^ 2) * 4) + (3 * (x * w ^ 2)\<^sup>2)\<^sup>2 = x3 * (w * (y * w ^ 3) * 2) ^ 2"
    "3 * (x * w ^ 2)\<^sup>2 * (2 * (y * w ^ 3)\<^sup>2 * (x * w ^ 2) * 6 - (3 * (x * w ^ 2)\<^sup>2)\<^sup>2) - (2 * (y * w ^ 3)\<^sup>2)\<^sup>2 * 2
      = y3 * (w * (y * w ^ 3) * 2) ^ 3"
    by (rule double_formula [OF p w])
  define t1 t3 where "t1 = fe_mul_int F (fe_sqr F (gej_x a)) 3" and "t3 = fe_mul_int F (fe_sqr F (gej_y a)) 2"
  have t1: "fr 3 t1 (3 * (x * w ^ 2)\<^sup>2)" unfolding t1_def
    by (rule fr_cong, (rule fr_intro f | simp)+)
  have t3: "fr 2 t3 (2 * (y * w ^ 3)\<^sup>2)" unfolding t3_def
    by (rule fr_cong, (rule fr_intro f | simp)+)
  have z: "v * (y * w ^ 3) * 2 * c = w * (y * w ^ 3) * 2" by (simp add: w_def)
  show ?thesis
    unfolding Point gej_double_var_def Let_def t1_def [symmetric] t3_def [symmetric] if_not_P [OF i] fst_conv
    by (rule gej_repzI [OF e(1) p p e(2)], (rule fr_intro f t1 t3 | simp; fail)+)
      (simp_all only: of_int_numeral z e [unfolded diff_conv_add_uminus])
qed

lemma gej_add_tail_repz:
  assumes p: "on_curve (Point x1 y1)" "on_curve (Point x2 y2)" and w: "w \<noteq> 0" "x1 \<noteq> x2"
    and v: "hv = (x2 - x1) * w ^ 2" "iv = (y2 - y1) * w ^ 3" "zv * c = w * hv"
    and fr: "fr 1 u1 (x1 * w ^ 2)" "fr 1 s1 (y1 * w ^ 3)" "fr 1 h2 (hv\<^sup>2)" "fr 1 h3 (hv ^ 3)" "fr 3 i iv"
      "fr 1 i2 (iv\<^sup>2)" "fr 1 z zv"
  shows "gej_repz mag res c (gej_add_tail F z u1 s1 h2 h3 i i2) (padd (Point x1 y1) (Point x2 y2))"
proof -
  obtain x3 y3 where e: "padd (Point x1 y1) (Point x2 y2) = Point x3 y3" "w * hv \<noteq> 0"
    "- (x1 * w ^ 2 * hv\<^sup>2 * 2 + hv ^ 3) + iv\<^sup>2 = x3 * (w * hv) ^ 2"
    "(- (- (x1 * w ^ 2 * hv\<^sup>2 * 2 + hv ^ 3) + iv\<^sup>2) + x1 * w ^ 2 * hv\<^sup>2) * iv - hv ^ 3 * (y1 * w ^ 3) = y3 * (w * hv) ^ 3"
    by (rule add_formula [OF p w refl refl v(1,2) refl])
  show ?thesis
    unfolding gej_add_tail_def Let_def
    by (rule gej_repzI [OF e(1) p e(2)], (rule fr_intro fr v(3) | simp; fail)+)
      (simp only: of_int_numeral e(3), simp only: of_int_numeral e(4) [unfolded diff_conv_add_uminus])
qed

text \<open>The branch of the additions on the differences \<open>h\<close> and \<open>i\<close>, on values.\<close>

lemma padd_same_x:
  assumes "on_curve (Point x1 y1)" "on_curve (Point x2 y2)" "w \<noteq> 0" "(x2 - x1) * w ^ 2 = 0"
  shows "(y2 - y1) * w ^ 3 = 0 \<Longrightarrow> padd (Point x1 y1) (Point x2 y2) = padd (Point x1 y1) (Point x1 y1)"
    and "(y2 - y1) * w ^ 3 \<noteq> 0 \<Longrightarrow> padd (Point x1 y1) (Point x2 y2) = Infinity"
proof -
  have x: "x2 = x1" using assms(3,4) by simp
  assume "(y2 - y1) * w ^ 3 = 0"
  then have "y2 = y1" using assms(3) by simp
  then show "padd (Point x1 y1) (Point x2 y2) = padd (Point x1 y1) (Point x1 y1)" by (simp only: x)
next
  have x: "x2 = x1" using assms(3,4) by simp
  assume "(y2 - y1) * w ^ 3 \<noteq> 0"
  then have "y1 \<noteq> y2" by auto
  then have "y1 = - y2" using same_x [of y1 x1 y2] assms(1,2) x by simp
  then show "padd (Point x1 y1) (Point x2 y2) = Infinity" by (simp only: padd.simps(3) x simp_thms if_True)
qed

lemma gej_add_branches:
  assumes p: "on_curve (Point x1 y1)" "on_curve (Point x2 y2)" and w: "w \<noteq> 0"
    and hv: "hv = (x2 - x1) * w ^ 2" and iv: "iv = (y2 - y1) * w ^ 3" and zv: "zv * c = w * hv"
    and fr: "fr 1 u1 (x1 * w ^ 2)" "fr 1 s1 (y1 * w ^ 3)" and h: "fr 3 h hv" and i: "fr 3 i iv" and z: "fr 1 z zv"
    and D: "gej_repz mag res c D (padd (Point x1 y1) (Point x1 y1))" and R: "gej_infinity R"
  shows "gej_repz mag res c
      (if fe_normalizes_to_zero_var F h then if fe_normalizes_to_zero_var F i then D else R
       else gej_add_tail F z u1 s1 (fe_sqr F h) (fe_mul F h (fe_sqr F h)) i (fe_sqr F i))
      (padd (Point x1 y1) (Point x2 y2))"
proof -
  consider "hv = 0" "iv = 0" | "hv = 0" "iv \<noteq> 0" | "hv \<noteq> 0" by auto
  then show ?thesis
  proof cases
    case 1
    have "padd (Point x1 y1) (Point x2 y2) = padd (Point x1 y1) (Point x1 y1)"
      using padd_same_x(1) [OF p w] 1 unfolding hv iv by blast
    then show ?thesis using D 1 by (simp only: fr_zero_var [OF h] fr_zero_var [OF i] if_True simp_thms)
  next
    case 2
    have "padd (Point x1 y1) (Point x2 y2) = Infinity"
      using padd_same_x(2) [OF p w] 2 unfolding hv iv by blast
    then show ?thesis using R 2 by (simp add: fr_zero_var [OF h] fr_zero_var [OF i] rep_simps)
  next
    case 3
    have x: "x1 \<noteq> x2" using 3 hv by auto
    have "gej_repz mag res c (gej_add_tail F z u1 s1 (fe_sqr F h) (fe_mul F h (fe_sqr F h)) i (fe_sqr F i))
        (padd (Point x1 y1) (Point x2 y2))"
      by (rule gej_add_tail_repz [OF p w x hv iv zv fr fr_sqr [OF h] fr_mul_cube [OF h] i fr_sqr [OF i] z]) simp_all
    then show ?thesis using 3 by (simp only: fr_zero_var [OF h] if_False)
  qed
qed

lemma gej_add_var_repz:
  assumes a: "gej_repz mag res c a P" and b: "gej_repz mag res c b Q" and c: "c \<noteq> 0"
  shows "gej_repz mag res c (fst (gej_add_var F r a b rzr)) (padd P Q)"
proof (cases "P = Infinity \<or> Q = Infinity")
  case True
  then show ?thesis
    using a b gej_repz_infinity_iff [OF a] gej_repz_infinity_iff [OF b] unfolding gej_add_var_def
    by (cases "P = Infinity") (simp_all only: if_True if_False simp_thms fst_conv padd.simps padd_Infinity)
next
  case False
  obtain x1 y1 x2 y2 where PQ: "P = Point x1 y1" "Q = Point x2 y2" using False by (meson point.exhaust)
  obtain v1 where p1: "on_curve (Point x1 y1)" and i1: "\<not> gej_infinity a" and v1: "v1 \<noteq> 0"
    and f1: "fr 8 (gej_x a) (x1 * (v1 * c) ^ 2)" "fr 8 (gej_y a) (y1 * (v1 * c) ^ 3)" "fr 8 (gej_z a) v1"
    using a unfolding PQ gej_repz_Point by auto
  obtain v2 where p2: "on_curve (Point x2 y2)" and i2: "\<not> gej_infinity b" and v2: "v2 \<noteq> 0"
    and f2: "fr 8 (gej_x b) (x2 * (v2 * c) ^ 2)" "fr 8 (gej_y b) (y2 * (v2 * c) ^ 3)" "fr 8 (gej_z b) v2"
    using b unfolding PQ gej_repz_Point by auto
  have w: "v1 * v2 * c \<noteq> 0" using v1 v2 c by simp
  have z: "v1 * ((x2 - x1) * (v1 * v2 * c) ^ 2 * v2) * c = v1 * v2 * c * ((x2 - x1) * (v1 * v2 * c) ^ 2)" by algebra
  show ?thesis
    unfolding gej_add_var_def Let_def if_not_P [OF i1] if_not_P [OF i2] if_distrib [of fst] fst_conv PQ
    by (rule gej_add_branches [OF p1 p2 w refl refl z _ _ _ _ _ gej_double_repz [OF a [unfolded PQ] c]];
        (rule fr_cong, (rule fr_intro f1 f2 | simp; fail)+, algebra)?) simp
qed

lemma gej_add_ge_var_repz:
  assumes a: "gej_repz mag res c a P" and b: "ge_repz mag res c b Q" and c: "c \<noteq> 0"
  shows "gej_repz mag res c (fst (gej_add_ge_var F r a b rzr)) (padd P Q)"
proof (cases "P = Infinity \<or> Q = Infinity")
  case True
  then show ?thesis
    using a gej_set_ge_repz [OF b] gej_repz_infinity_iff [OF a] ge_repz_infinity_iff [OF b]
    unfolding gej_add_ge_var_def
    by (cases "P = Infinity") (simp_all only: if_True if_False simp_thms fst_conv padd.simps padd_Infinity)
next
  case False
  obtain x1 y1 x2 y2 where PQ: "P = Point x1 y1" "Q = Point x2 y2" using False by (meson point.exhaust)
  obtain v where p1: "on_curve (Point x1 y1)" and i1: "\<not> gej_infinity a" and v: "v \<noteq> 0"
    and f1: "fr 8 (gej_x a) (x1 * (v * c) ^ 2)" "fr 8 (gej_y a) (y1 * (v * c) ^ 3)" "fr 8 (gej_z a) v"
    using a unfolding PQ gej_repz_Point by auto
  have p2: "on_curve (Point x2 y2)" and i2: "\<not> ge_infinity b"
    and f2: "fr 8 (ge_x b) (x2 * c ^ 2)" "fr 8 (ge_y b) (y2 * c ^ 3)"
    using b unfolding PQ ge_repz_Point by auto
  have w: "v * c \<noteq> 0" using v c by simp
  have z: "v * ((x2 - x1) * (v * c) ^ 2) * c = v * c * ((x2 - x1) * (v * c) ^ 2)" by algebra
  show ?thesis
    unfolding gej_add_ge_var_def Let_def if_not_P [OF i1] if_not_P [OF i2] if_distrib [of fst] fst_conv PQ
    by (rule gej_add_branches [OF p1 p2 w refl refl z _ _ _ _ _ gej_double_repz [OF a [unfolded PQ] c]];
        (rule fr_cong, (rule fr_intro f1 f2 | simp; fail)+, algebra?)?) simp
qed

lemma gej_add_zinv_var_repz:
  assumes a: "gej_repz mag res c a P" and c: "c \<noteq> 0" and p2: "on_curve (Point x2 y2)" and i2: "\<not> ge_infinity b"
    and f2: "fr 8 (ge_x b) bx" "fr 8 (ge_y b) by'" "fr 8 bzinv zi"
    and e: "bx * zi ^ 2 = x2 * c ^ 2" "by' * zi ^ 3 = y2 * c ^ 3"
  shows "gej_repz mag res c (gej_add_zinv_var F r a b bzinv) (padd P (Point x2 y2))"
proof (cases P)
  case Infinity
  have i1: "gej_infinity a" using gej_repz_infinity_iff [OF a] Infinity by simp
  have e': "by' * (zi ^ 2 * zi) = y2 * c ^ 3" using e(2) by algebra
  have "gej_repz mag res c \<lparr>gej_x = fe_mul F (ge_x b) (fe_sqr F bzinv),
      gej_y = fe_mul F (ge_y b) (fe_mul F (fe_sqr F bzinv) bzinv), gej_z = fe_set_int F 1, gej_infinity = False\<rparr>
      (padd Infinity (Point x2 y2))"
    by (rule gej_repzI [of _ _ _ _ c, OF padd.simps(1) on_curve_simps(1) p2 c],
        (rule fr_intro fr_1 f2 | simp; fail)+) (simp_all add: e e')
  then show ?thesis
    unfolding Infinity gej_add_zinv_var_def Let_def if_not_P [OF i2] if_P [OF i1] using i2 by simp
next
  case (Point x1 y1)
  obtain v where p1: "on_curve (Point x1 y1)" and i1: "\<not> gej_infinity a" and v: "v \<noteq> 0"
    and f1: "fr 8 (gej_x a) (x1 * (v * c) ^ 2)" "fr 8 (gej_y a) (y1 * (v * c) ^ 3)" "fr 8 (gej_z a) v"
    using a unfolding Point gej_repz_Point by auto
  have w: "v * c \<noteq> 0" using v c by simp
  have z: "v * ((x2 - x1) * (v * c) ^ 2) * c = v * c * ((x2 - x1) * (v * c) ^ 2)" by algebra
  show ?thesis
    unfolding gej_add_zinv_var_def Let_def if_not_P [OF i1] if_not_P [OF i2] Point
    by (rule gej_add_branches [OF p1 p2 w refl refl z _ _ _ _ _ gej_double_repz [OF a [unfolded Point] c]];
        (rule fr_cong, (rule fr_intro f1 f2 | simp; fail)+, (use e in algebra)?)?) simp
qed

lemmas gej_double_correct = gej_double_repz [OF _ one_neq_zero, folded gej_rep_def]
lemmas gej_add_var_correct = gej_add_var_repz [OF _ _ one_neq_zero, folded gej_rep_def]
lemmas gej_add_ge_var_correct = gej_add_ge_var_repz [OF _ _ one_neq_zero, folded gej_rep_def ge_rep_def]

lemma gej_neg_repz:
  assumes "gej_repz mag res c a P"
  shows "gej_repz mag res c (gej_neg F a) (pneg P)"
proof (cases P)
  case (Point x y)
  obtain v where "on_curve (Point x y)" "\<not> gej_infinity a" and v: "v \<noteq> 0"
    and f: "fr 8 (gej_x a) (x * (v * c) ^ 2)" "fr 8 (gej_y a) (y * (v * c) ^ 3)" "fr 8 (gej_z a) v"
    using assms unfolding Point gej_repz_Point by auto
  moreover have "fr 8 (fe_negate F (fe_normalize_weak F (gej_y a)) 1) (- (y * (v * c) ^ 3))"
    by (rule fr_mono, rule fr_negate, rule fr_normalize_weak, rule f(2)) simp_all
  ultimately show ?thesis unfolding Point pneg_simps gej_repz_Point by (auto simp: gej_neg_def)
qed (use assms in \<open>simp add: rep_simps gej_neg_def\<close>)

lemma ge_neg_repz:
  assumes "ge_repz mag res c a P"
  shows "ge_repz mag res c (ge_neg F a) (pneg P)"
proof (cases P)
  case (Point x y)
  have f: "on_curve (Point x y)" "\<not> ge_infinity a" "fr 8 (ge_x a) (x * c ^ 2)" "fr 8 (ge_y a) (y * c ^ 3)"
    using assms unfolding Point ge_repz_Point by auto
  moreover have "fr 8 (fe_negate F (fe_normalize_weak F (ge_y a)) 1) (- (y * c ^ 3))"
    by (rule fr_mono, rule fr_negate, rule fr_normalize_weak, rule f(4)) simp_all
  ultimately show ?thesis unfolding Point pneg_simps ge_repz_Point by (auto simp: ge_neg_def)
qed (use assms in \<open>simp add: rep_simps ge_neg_def\<close>)

lemmas gej_neg_correct = gej_neg_repz [where c = 1, folded gej_rep_def]
lemmas ge_neg_correct = ge_neg_repz [where c = 1, folded ge_rep_def]

text \<open>The unified addition: the two cases of the numerator and denominator of the slope.\<close>

lemma unified_slope:
  fixes w :: fp
  assumes c: "on_curve (Point x1 y1)" "on_curve (Point x2 y2)" and w: "w \<noteq> 0"
    and d: "degenerate \<longleftrightarrow> (y1 + y2) * w ^ 3 = 0 \<and> (x1 ^ 2 + x1 * x2 + x2 ^ 2) * w ^ 4 = 0"
    and m: "m = (if degenerate then (x1 - x2) * w ^ 2 else (y1 + y2) * w ^ 3)"
    and r: "r = (if degenerate then 2 * y1 * w ^ 3 else (x1 ^ 2 + x1 * x2 + x2 ^ 2) * w ^ 4)"
  shows "m = 0 \<longleftrightarrow> x1 = x2 \<and> y1 = - y2"
    and "m \<noteq> 0 \<Longrightarrow> r = slope x1 y1 x2 y2 * m * w"
proof -
  have cubes: "(y1 - y2) * (y1 + y2) = (x1 - x2) * (x1 ^ 2 + x1 * x2 + x2 ^ 2)" using c by (simp, algebra)
  show m0: "m = 0 \<longleftrightarrow> x1 = x2 \<and> y1 = - y2"
  proof
    assume "m = 0"
    then show "x1 = x2 \<and> y1 = - y2"
      using m d w cubes by (auto simp: add_eq_0_iff2 split: if_splits)
  next
    assume e: "x1 = x2 \<and> y1 = - y2"
    then show "m = 0" by (simp add: m)
  qed
  assume "m \<noteq> 0"
  then have "\<not> (x1 = x2 \<and> y1 = - y2)" using m0 by simp
  then have L: "is_slope (slope x1 y1 x2 y2) x1 y1 x2 y2" using c by (intro slope_is_slope) simp_all
  define l where "l = slope x1 y1 x2 y2"
  have l: "l * (x2 - x1) = y2 - y1" "l * (y1 + y2) = x1 ^ 2 + x1 * x2 + x2 ^ 2"
    using L by (simp_all add: is_slope_def l_def)
  show "r = slope x1 y1 x2 y2 * m * w"
  proof (cases degenerate)
    case True
    then have "y1 + y2 = 0" using d w by simp
    then have "2 * y1 * w ^ 3 = l * ((x1 - x2) * w ^ 2) * w" using l(1) by algebra
    then show ?thesis using True by (simp only: r m if_True l_def)
  next
    case False
    have "(x1 ^ 2 + x1 * x2 + x2 ^ 2) * w ^ 4 = l * ((y1 + y2) * w ^ 3) * w" using l(2) by algebra
    then show ?thesis using False by (simp only: r m if_False l_def)
  qed
qed

lemma gej_add_ge_finite:
  assumes c1: "on_curve (Point x1 y1)" and c2: "on_curve (Point x2 y2)" and v: "v \<noteq> 0" "c \<noteq> 0" and i1: "\<not> gej_infinity a"
    and f: "fr 8 (gej_x a) (x1 * (v * c) ^ 2)" "fr 8 (gej_y a) (y1 * (v * c) ^ 3)" "fr 8 (gej_z a) v"
    and f2: "fr 8 (ge_x b) (x2 * c ^ 2)" "fr 8 (ge_y b) (y2 * c ^ 3)"
  shows "gej_repz mag res c (gej_add_ge F a b) (padd (Point x1 y1) (Point x2 y2))"
proof -
  define w where w_def: "w = v * c"
  have w: "w \<noteq> 0" using v by (simp add: w_def)
  note f1 = f [folded w_def]
  define u1 s1 where "u1 = fe_normalize_weak F (gej_x a)" and "s1 = fe_normalize_weak F (gej_y a)"
  define u2 where "u2 = fe_mul F (ge_x b) (fe_sqr F (gej_z a))"
  define s2 where "s2 = fe_mul F (fe_mul F (ge_y b) (fe_sqr F (gej_z a))) (gej_z a)"
  define t m where "t = fe_add F u1 u2" and "m = fe_add F s1 s2"
  define rr where "rr = fe_add F (fe_sqr F t) (fe_mul F u1 (fe_negate F u2 1))"
  define degenerate where "degenerate \<longleftrightarrow> fe_normalizes_to_zero F m \<and> fe_normalizes_to_zero F rr"
  define ra where "ra = (if \<not> degenerate then rr else fe_mul_int F s1 2)"
  define ma where "ma = (if \<not> degenerate then m else fe_add F (fe_negate F u2 1) u1)"
  define n where "n = (if degenerate then m else fe_sqr F (fe_sqr F ma))"
  define rv where "rv = (if degenerate then 2 * y1 * w ^ 3 else (x1 ^ 2 + x1 * x2 + x2 ^ 2) * w ^ 4)"
  define mv where "mv = (if degenerate then (x1 - x2) * w ^ 2 else (y1 + y2) * w ^ 3)"
  have u1: "fr 1 u1 (x1 * w ^ 2)" and s1: "fr 1 s1 (y1 * w ^ 3)"
    unfolding u1_def s1_def by (rule fr_normalize_weak f1)+
  have u2: "fr 1 u2 (x2 * w ^ 2)" unfolding u2_def by (rule fr_cong, (rule fr_intro f1 f2 | simp; fail)+, unfold w_def, algebra)
  have s2: "fr 1 s2 (y2 * w ^ 3)" unfolding s2_def by (rule fr_cong, (rule fr_intro f1 f2 | simp; fail)+, unfold w_def, algebra)
  have t: "fr 2 t ((x1 + x2) * w ^ 2)" unfolding t_def by (rule fr_cong, (rule fr_intro u1 u2 | simp; fail)+, algebra)
  have m: "fr 2 m ((y1 + y2) * w ^ 3)" unfolding m_def by (rule fr_cong, (rule fr_intro s1 s2 | simp; fail)+, algebra)
  have rr: "fr 2 rr ((x1 ^ 2 + x1 * x2 + x2 ^ 2) * w ^ 4)" unfolding rr_def
    by (rule fr_cong, (rule fr_intro t u1 u2 | simp; fail)+, algebra)
  have d: "degenerate \<longleftrightarrow> (y1 + y2) * w ^ 3 = 0 \<and> (x1 ^ 2 + x1 * x2 + x2 ^ 2) * w ^ 4 = 0"
    unfolding degenerate_def fr_zero [OF m] fr_zero [OF rr] ..
  have "fr 2 (fe_mul_int F s1 2) (2 * y1 * w ^ 3)" by (rule fr_cong, (rule fr_intro s1 | simp; fail)+)
  then have ra: "fr 2 ra rv" using rr by (simp add: ra_def rv_def)
  have "fr 3 (fe_add F (fe_negate F u2 1) u1) ((x1 - x2) * w ^ 2)"
    by (rule fr_cong, (rule fr_intro u1 u2 | simp; fail)+, algebra)
  then have ma: "fr 3 ma mv" using fr_mono [OF m, of 3] by (simp add: ma_def mv_def)
  have n': "fr 2 (fe_sqr F (fe_sqr F ma)) ((mv\<^sup>2)\<^sup>2)" by (rule fr_mono, (rule fr_intro ma | simp; fail)+)
  have n: "fr 2 n ((y1 + y2) * w ^ 3 * mv ^ 3)"
  proof (cases degenerate)
    case True
    then have "y1 + y2 = 0" using d w by simp
    then show ?thesis using m True by (simp add: n_def)
  next
    case False
    then have "(mv\<^sup>2)\<^sup>2 = (y1 + y2) * w ^ 3 * mv ^ 3" unfolding mv_def by (simp, algebra)
    then show ?thesis using n' False by (simp only: n_def if_False)
  qed
  have z: "fr 1 (fe_mul F (gej_z a) ma) (v * mv)" by (rule fr_mul [OF f1(3) ma]) simp_all
  have zc: "v * mv * 2 * c = w * mv * 2" by (simp add: w_def)
  have inf: "fe_normalizes_to_zero F (fe_mul F (gej_z a) ma) \<longleftrightarrow> x1 = x2 \<and> y1 = - y2"
    using fr_zero [OF z] v unified_slope(1) [OF c1 c2 w d mv_def rv_def] by simp
  note unf = gej_add_ge_def Let_def u1_def [symmetric] s1_def [symmetric] u2_def [symmetric] s2_def [symmetric]
    t_def [symmetric] m_def [symmetric] rr_def [symmetric] degenerate_def [symmetric] cmov
    ra_def [symmetric] ma_def [symmetric] n_def [symmetric] inf
  show ?thesis
  proof (cases "x1 = x2 \<and> y1 = - y2")
    case True
    then show ?thesis unfolding unf using i1 by (simp add: rep_simps padd.simps(3))
  next
    case False
    then have mv: "mv \<noteq> 0" using unified_slope(1) [OF c1 c2 w d mv_def rv_def] by simp
    have L: "is_slope (slope x1 y1 x2 y2) x1 y1 x2 y2" using c1 c2 False by (intro slope_is_slope) simp_all
    obtain x3 y3 where e: "padd (Point x1 y1) (Point x2 y2) = Point x3 y3" "w * mv * 2 \<noteq> 0"
      "(rv\<^sup>2 + - (mv\<^sup>2 * ((x1 + x2) * w ^ 2))) * 4 = x3 * (w * mv * 2) ^ 2"
      "- (((rv\<^sup>2 + - (mv\<^sup>2 * ((x1 + x2) * w ^ 2))) * 2 + - (mv\<^sup>2 * ((x1 + x2) * w ^ 2))) * rv
        + (y1 + y2) * w ^ 3 * mv ^ 3) * 4 = y3 * (w * mv * 2) ^ 3"
      by (rule unified_formula [OF c1 c2 False L w mv unified_slope(2) [OF c1 c2 w d mv_def rv_def mv] refl refl refl])
    have "gej_infinity a = False" using i1 by simp
    then show ?thesis
      unfolding unf using False
      by (simp only: if_False simp_thms, intro gej_repzI [OF e(1) c1 c2 e(2)])
        (rule fr_intro z ra ma n t | simp only: of_int_numeral zc | simp only: of_int_numeral e(3) | simp only: of_int_numeral e(4) | simp; fail)+
  qed
qed

lemma gej_add_ge_repz:
  assumes a: "gej_repz mag res c a P" and b: "ge_repz mag res c b Q" "Q \<noteq> Infinity" and c: "c \<noteq> 0"
  shows "gej_repz mag res c (gej_add_ge F a b) (padd P Q)"
proof (cases P)
  case Infinity
  have i: "gej_infinity a" "\<not> ge_infinity b"
    using gej_repz_infinity_iff [OF a] ge_repz_infinity_iff [OF b(1)] Infinity b(2) by simp_all
  have one: "fr 8 (fe_const F 0 0 0 0 0 0 0 1) 1"
    using const [of 0 0 0 0 0 0 0 1] mag_mono [of 1 _ 8] by (simp add: fr_def fval_def field_p_def)
  have "gej_add_ge F a b
      = \<lparr>gej_x = ge_x b, gej_y = ge_y b, gej_z = fe_const F 0 0 0 0 0 0 0 1, gej_infinity = False\<rparr>"
    unfolding gej_add_ge_def Let_def cmov using i by simp
  then show ?thesis
    using b one Infinity by (cases Q) (auto simp: rep_simps intro!: exI [of _ 1])
next
  case (Point x1 y1)
  obtain x2 y2 where Q: "Q = Point x2 y2" using b(2) by (cases Q) auto
  obtain v where "on_curve (Point x1 y1)" "\<not> gej_infinity a" "v \<noteq> 0"
    "fr 8 (gej_x a) (x1 * (v * c) ^ 2)" "fr 8 (gej_y a) (y1 * (v * c) ^ 3)" "fr 8 (gej_z a) v"
    using a unfolding Point gej_repz_Point by auto
  then show ?thesis
    using b(1) c gej_add_ge_finite [of x1 y1 x2 y2 v c a b] unfolding Point Q ge_repz_Point by blast
qed

lemmas gej_add_ge_correct = gej_add_ge_repz [OF _ _ _ one_neq_zero, folded gej_rep_def ge_rep_def]

text \<open>Conversion to affine coordinates.\<close>

lemma fr_inv: "fr m a u \<Longrightarrow> m \<le> 8 \<Longrightarrow> u \<noteq> 0 \<Longrightarrow> fr 1 (fe_inv F a) (inverse u)"
proof -
  assume a: "fr m a u" "m \<le> 8" "u \<noteq> 0"
  have m: "mag 8 a" using a mag_mono [of m a 8] by (simp add: fr_def)
  have r: "res a \<noteq> 0" using a fval_0 [of a] by (auto simp: fr_def)
  then have "field_unit (res a)" unfolding field_unit_iff by simp
  note i = inv_correct [OF m this]
  have "(of_int (res (fe_inv F a) * res a) :: fp) = of_int 1"
    using i(2) of_int_mod_fp [of "res (fe_inv F a) * res a"] by simp
  then have "fval res (fe_inv F a) * u = 1" using a(1) by (simp add: fval_def fr_def)
  then show "fr 1 (fe_inv F a) (inverse u)" using i(1) by (simp add: fr_def inverse_unique mult.commute)
qed

lemma ge_set_gej_zinv_correct:
  assumes "gej_rep mag res a (Point x y)" "fr 8 zi (inverse (fval res (gej_z a)))"
  shows "ge_rep mag res (ge_set_gej_zinv F a zi) (Point x y)"
proof -
  obtain w where c: "on_curve (Point x y)" "\<not> gej_infinity a" and w: "w \<noteq> 0"
    and f: "fr 8 (gej_x a) (x * w ^ 2)" "fr 8 (gej_y a) (y * w ^ 3)" "fr 8 (gej_z a) w"
    using assms(1) unfolding gej_rep_Point by auto
  have zi: "fr 8 zi (inverse w)" using assms(2) frD(2) [OF f(3)] by simp
  have v: "x * w ^ 2 * (inverse w)\<^sup>2 = x" "y * w ^ 3 * ((inverse w)\<^sup>2 * inverse w) = y"
    using w by (simp_all add: power2_eq_square power3_eq_cube field_simps)
  have "fr 1 (fe_mul F (gej_x a) (fe_sqr F zi)) x"
    by (rule fr_cong, (rule fr_intro f zi | simp; fail)+, rule v)
  moreover have "fr 1 (fe_mul F (gej_y a) (fe_mul F (fe_sqr F zi) zi)) y"
    by (rule fr_cong, (rule fr_intro f zi | simp; fail)+, rule v)
  ultimately show ?thesis
    unfolding ge_rep_Point ge_set_gej_zinv_def Let_def using c fr_mono [of 1 _ _ 8] by simp
qed

lemma ge_set_gej_correct:
  assumes "gej_rep mag res a P"
  shows "ge_rep mag res (fst (ge_set_gej_var F r a)) P" "gej_rep mag res (snd (ge_set_gej_var F r a)) P"
    "ge_rep mag res (fst (ge_set_gej F a)) P" "gej_rep mag res (snd (ge_set_gej F a)) P"
proof -
  have "ge_rep mag res (fst (ge_set_gej_var F r a)) P \<and> gej_rep mag res (snd (ge_set_gej_var F r a)) P \<and>
    ge_rep mag res (fst (ge_set_gej F a)) P \<and> gej_rep mag res (snd (ge_set_gej F a)) P"
  proof (cases P)
    case Infinity
    then show ?thesis using assms by (simp add: rep_simps ge_set_gej_var_def ge_set_gej_def Let_def)
  next
    case (Point x y)
    obtain w where c: "on_curve (Point x y)" and i: "\<not> gej_infinity a" and w: "w \<noteq> 0"
      and f: "fr 8 (gej_x a) (x * w ^ 2)" "fr 8 (gej_y a) (y * w ^ 3)" "fr 8 (gej_z a) w"
      using assms unfolding Point gej_rep_Point by auto
    have zi: "fr 1 (fe_inv F (gej_z a)) (inverse w)" by (rule fr_inv [OF f(3)]) (use w in simp_all)
    have v: "x * w ^ 2 * (inverse w)\<^sup>2 = x" "y * w ^ 3 * (inverse w * (inverse w)\<^sup>2) = y"
      using w by (simp_all add: power2_eq_square power3_eq_cube field_simps)
    let ?x = "fe_mul F (gej_x a) (fe_sqr F (fe_inv F (gej_z a)))"
    let ?y = "fe_mul F (gej_y a) (fe_mul F (fe_inv F (gej_z a)) (fe_sqr F (fe_inv F (gej_z a))))"
    have "fr 1 ?x x" by (rule fr_cong, (rule fr_intro f zi | simp; fail)+, rule v)
    moreover have "fr 1 ?y y" by (rule fr_cong, (rule fr_intro f zi | simp; fail)+, rule v)
    ultimately show ?thesis
      unfolding Point rep_simps ge_set_gej_var_def ge_set_gej_def fe_inv_var_def Let_def if_not_P [OF i]
      using c i fr_mono [of 1 _ _ 8] fr_1 by (auto intro!: exI [of _ 1])
  qed
  then show "ge_rep mag res (fst (ge_set_gej_var F r a)) P" "gej_rep mag res (snd (ge_set_gej_var F r a)) P"
    "ge_rep mag res (fst (ge_set_gej F a)) P" "gej_rep mag res (snd (ge_set_gej F a)) P" by simp_all
qed

text \<open>The test of the curve equation, and the points with a given abscissa.\<close>

lemma fr_equal_var:
  assumes "fr 1 a u" "fr m b v" "m \<le> 29"
  shows "fe_equal_var F a b \<longleftrightarrow> u = v"
proof -
  have "fe_equal_var F a b \<longleftrightarrow> res a = res b" using equal_var_correct [of a m b] assms by (simp add: fr_def)
  also have "\<dots> \<longleftrightarrow> u = v" using assms of_int_fp_eq_iff [of "res a" "res b"] by (simp add: fr_def fval_def)
  finally show ?thesis .
qed

lemma ge_is_valid_var_correct:
  assumes "fr 8 (ge_x a) x" "fr 8 (ge_y a) y"
  shows "ge_is_valid_var F a \<longleftrightarrow> \<not> ge_infinity a \<and> on_curve (Point x y)"
proof -
  have 1: "fr 1 (fe_sqr F (ge_y a)) (y\<^sup>2)" by (rule fr_sqr [OF assms(2)]) simp
  have 2: "fr 1 (fe_normalize_weak F (fe_add F (fe_mul F (fe_sqr F (ge_x a)) (ge_x a)) (fe_set_int F CURVE_B))) (x ^ 3 + 7)"
    unfolding CURVE_B_def
    by (rule fr_cong, (rule fr_intro assms | simp; fail)+) (simp add: power2_eq_square power3_eq_cube)
  show ?thesis unfolding ge_is_valid_var_def Let_def fr_equal_var [OF 1 2, simplified] by simp
qed

lemma gej_is_valid_var_correct:
  assumes "fr 8 (gej_x a) x" "fr 8 (gej_y a) y" "fr 8 (gej_z a) z"
  shows "gej_is_valid_var F a \<longleftrightarrow> \<not> gej_infinity a \<and> y\<^sup>2 = x ^ 3 + 7 * z ^ 6"
proof -
  have 1: "fr 1 (fe_sqr F (gej_y a)) (y\<^sup>2)" by (rule fr_sqr [OF assms(2)]) simp
  have 2: "fr 1 (fe_normalize_weak F (fe_add F (fe_mul F (fe_sqr F (gej_x a)) (gej_x a))
      (fe_mul_int F (fe_mul F (fe_sqr F (fe_sqr F (gej_z a))) (fe_sqr F (gej_z a))) CURVE_B))) (x ^ 3 + 7 * z ^ 6)"
    unfolding CURVE_B_def
    by (rule fr_cong, (rule fr_intro assms | simp; fail)+) (simp, algebra)
  show ?thesis unfolding gej_is_valid_var_def Let_def fr_equal_var [OF 1 2, simplified] by simp
qed

lemma fr_sqrt:
  assumes "fr m a u" "m \<le> 8" "u \<noteq> 0"
  shows "snd (fe_sqrt F a) \<longleftrightarrow> (\<exists>y. y\<^sup>2 = u)"
    and "fr 1 (fst (fe_sqrt F a)) (fval res (fst (fe_sqrt F a)))"
    and "snd (fe_sqrt F a) \<Longrightarrow> (fval res (fst (fe_sqrt F a)))\<^sup>2 = u"
proof -
  let ?s = "fst (fe_sqrt F a)"
  have a: "mag 8 a" "of_int (res a) = u" using assms mag_mono [of m a 8] by (simp_all add: fr_def fval_def)
  show "fr 1 ?s (fval res ?s)" using sqrt_pow [OF a(1)] by (simp add: fr_def)
  have flag: "snd (fe_sqrt F a) \<longleftrightarrow> (fval res ?s)\<^sup>2 = u"
    using of_int_fp_eq_iff [of "(res ?s)\<^sup>2" "res a"] a(2) by (simp add: sqrt_flag [OF a(1)] fval_def)
  then show "snd (fe_sqrt F a) \<Longrightarrow> (fval res ?s)\<^sup>2 = u" by simp
  show "snd (fe_sqrt F a) \<longleftrightarrow> (\<exists>y. y\<^sup>2 = u)"
  proof
    assume "\<exists>y. y\<^sup>2 = u"
    then obtain y where y: "y\<^sup>2 = u" by blast
    then have "y \<noteq> 0" using assms(3) by auto
    then have "Rep_fp y mod field_p \<noteq> 0" using of_int_fp_0_iff [of "Rep_fp y"] by simp
    then have "field_unit (Rep_fp y)" unfolding field_unit_iff .
    moreover have "(of_int (res a) :: fp) = of_int ((Rep_fp y)\<^sup>2)" using a(2) y by simp
    then have "res a = (Rep_fp y)\<^sup>2 mod field_p" unfolding of_int_fp_eq_iff by simp
    ultimately show "snd (fe_sqrt F a)" by (rule sqrt_exists [OF a(1)])
  qed (use flag in blast)
qed

lemma ge_set_xquad_correct:
  assumes "fr 8 x v"
  shows "snd (ge_set_xquad F x) \<longleftrightarrow> (\<exists>y. on_curve (Point v y))"
    and "snd (ge_set_xquad F x) \<Longrightarrow> \<exists>y. ge_rep mag res (fst (ge_set_xquad F x)) (Point v y)"
    and "fr 1 (ge_y (fst (ge_set_xquad F x))) (fval res (ge_y (fst (ge_set_xquad F x))))"
proof -
  define c where "c = fe_add F (fe_set_int F CURVE_B) (fe_mul F x (fe_sqr F x))"
  have c: "fr 2 c (v ^ 3 + 7)" unfolding c_def CURVE_B_def
    by (rule fr_cong, (rule fr_intro assms | simp; fail)+) (simp add: power2_eq_square power3_eq_cube)
  have q: "ge_set_xquad F x = (\<lparr>ge_x = x, ge_y = fst (fe_sqrt F c), ge_infinity = False\<rparr>, snd (fe_sqrt F c))"
    by (simp add: ge_set_xquad_def Let_def c_def [symmetric] case_prod_beta)
  note s = fr_sqrt [OF c _ minus_7_not_cube, simplified]
  show "snd (ge_set_xquad F x) \<longleftrightarrow> (\<exists>y. on_curve (Point v y))" using s(1) by (simp add: q)
  show "fr 1 (ge_y (fst (ge_set_xquad F x))) (fval res (ge_y (fst (ge_set_xquad F x))))" using s(2) by (simp add: q)
  show "\<exists>y. ge_rep mag res (fst (ge_set_xquad F x)) (Point v y)" if "snd (ge_set_xquad F x)"
    using s(2,3) that assms fr_mono [OF s(2), of 8] unfolding q ge_rep_Point by auto
qed

lemma ge_set_xo_var_correct:
  assumes "fr 8 x v"
  shows "snd (ge_set_xo_var F x is_odd) \<longleftrightarrow> (\<exists>y. on_curve (Point v y))"
    and "snd (ge_set_xo_var F x is_odd) \<Longrightarrow>
      \<exists>y. ge_rep mag res (fst (ge_set_xo_var F x is_odd)) (Point v y) \<and> (odd (Rep_fp y) \<longleftrightarrow> is_odd)"
proof -
  define g where "g = fst (ge_set_xquad F x)"
  define y where "y = fe_normalize_var F (ge_y g)"
  note q = ge_set_xquad_correct [OF assms]
  have xo: "ge_set_xo_var F x is_odd = (if \<not> snd (ge_set_xquad F x) then (g, False)
      else (g\<lparr>ge_y := if fe_is_odd F y \<noteq> is_odd then fe_negate F y 1 else y\<rparr>, True))"
    by (simp add: ge_set_xo_var_def g_def y_def case_prod_beta Let_def)
  show "snd (ge_set_xo_var F x is_odd) \<longleftrightarrow> (\<exists>y. on_curve (Point v y))" using q(1) by (simp add: xo)
  assume "snd (ge_set_xo_var F x is_odd)"
  then have ret: "snd (ge_set_xquad F x)" by (simp add: xo split: if_splits)
  obtain yv where g: "on_curve (Point v yv)" "\<not> ge_infinity g" "fr 8 (ge_x g) v" "fr 8 (ge_y g) yv"
    using q(2) [OF ret] unfolding g_def ge_rep_Point by auto
  have n: "norm y" "res y = res (ge_y g)"
    using normalize [OF frD(1) [OF g(4)]] normalize_var [OF frD(1) [OF g(4)]] by (simp_all add: y_def)
  have y: "fr 1 y yv" using n norm_mag frD(2) [OF g(4)] by (simp add: fr_def fval_def)
  have rep: "Rep_fp yv = res y" using frD(2) [OF y] rep_of_int [of "res y"] by (simp add: fval_def)
  have ny: "fr 2 (fe_negate F y 1) (- yv)" by (rule fr_cong, (rule fr_intro y | simp; fail)+)
  have "yv \<noteq> 0" using g(1) by (rule on_curve_y)
  then have "res y \<noteq> 0" using frD(2) [OF y] fval_0 [of y] by auto
  then have "Rep_fp (- yv) = field_p - res y"
    using res_range [of y] by (simp add: uminus_fp.rep_eq rep zmod_zminus1_eq_if)
  then have odd_neg: "odd (Rep_fp (- yv)) \<longleftrightarrow> \<not> odd (res y)" by (simp add: field_p_def)
  show "\<exists>y. ge_rep mag res (fst (ge_set_xo_var F x is_odd)) (Point v y) \<and> (odd (Rep_fp y) \<longleftrightarrow> is_odd)"
  proof (cases "fe_is_odd F y \<noteq> is_odd")
    case True
    then show ?thesis
      using ret g fr_mono [OF ny, of 8] odd_neg is_odd [OF n(1)] unfolding xo ge_rep_Point
      by (intro exI [of _ "- yv"]) auto
  next
    case False
    then show ?thesis
      using ret g fr_mono [OF y, of 8] rep is_odd [OF n(1)] unfolding xo ge_rep_Point
      by (intro exI [of _ yv]) auto
  qed
qed

lemma ge_storage_roundtrip:
  assumes "ge_rep mag res a (Point x y)"
  shows "ge_rep mag res (ge_from_storage F (ge_to_storage F a)) (Point x y)"
proof -
  have f: "fr 8 (fe_normalize F b) v \<and> norm (fe_normalize F b)" if "fr 8 b v" for b v
    using that normalize [of 8 b] norm_mag [of "fe_normalize F b"] mag_mono [of 1 _ 8] by (auto simp: fr_def fval_def)
  show ?thesis
    using assms f [of "ge_x a" x] f [of "ge_y a" y]
    by (simp add: ge_rep_Point ge_from_storage_def ge_to_storage_def storage_roundtrip)
qed

lemma gej_rescale_correct:
  assumes "gej_rep mag res a P" "fr 8 k s" "s \<noteq> 0"
  shows "gej_rep mag res (gej_rescale F a k) P"
proof (cases P)
  case (Point x y)
  obtain w where c: "on_curve (Point x y)" "\<not> gej_infinity a" "w \<noteq> 0"
    and f: "fr 8 (gej_x a) (x * w ^ 2)" "fr 8 (gej_y a) (y * w ^ 3)" "fr 8 (gej_z a) w"
    using assms(1) unfolding Point gej_rep_Point by auto
  have "fr 8 (fe_mul F (gej_x a) (fe_sqr F k)) (x * (w * s) ^ 2)"
    by (rule fr_mono, rule fr_cong, (rule fr_intro f assms(2) | simp; fail)+, algebra, simp_all)
  moreover have "fr 8 (fe_mul F (fe_mul F (gej_y a) (fe_sqr F k)) k) (y * (w * s) ^ 3)"
    by (rule fr_mono, rule fr_cong, (rule fr_intro f assms(2) | simp; fail)+, algebra, simp_all)
  moreover have "fr 8 (fe_mul F (gej_z a) k) (w * s)"
    by (rule fr_mono, (rule fr_intro f assms(2) | simp; fail)+)
  ultimately show ?thesis
    unfolding Point gej_rep_Point using c assms(3)
    by (auto simp: gej_rescale_def Let_def intro!: exI [of _ "w * s"])
qed (use assms in \<open>simp add: rep_simps gej_rescale_def Let_def\<close>)

lemma gej_eq_x_var_correct:
  assumes "gej_rep mag res a (Point x y)" "fr 8 k v"
  shows "gej_eq_x_var F k a \<longleftrightarrow> x = v"
proof -
  obtain w where w: "w \<noteq> 0" and f: "fr 8 (gej_x a) (x * w ^ 2)" "fr 8 (gej_z a) w"
    using assms(1) unfolding gej_rep_Point by auto
  have "fr 1 (fe_mul F (fe_sqr F (gej_z a)) k) (w\<^sup>2 * v)" by (rule fr_intro f assms(2) | simp; fail)+
  from fr_equal_var [OF this fr_normalize_weak [OF f(1)]] show ?thesis
    unfolding gej_eq_x_var_def Let_def using w by (auto simp: mult.commute)
qed

lemma fr_const: "fr 8 (fe_const F d7 d6 d5 d4 d3 d2 d1 d0) (of_int (limbs_val 32 [d0, d1, d2, d3, d4, d5, d6, d7]))"
  using const [of d7 d6 d5 d4 d3 d2 d1 d0] mag_mono [of 1 "fe_const F d7 d6 d5 d4 d3 d2 d1 d0" 8]
  by (simp add: fr_def fval_def del: limbs_val.simps)

lemma generator_rep: "ge_rep mag res (ge_const_g F) (Point (of_int generator_x) (of_int generator_y))"
proof -
  have "fr 8 (ge_x (ge_const_g F)) (of_int generator_x)" "fr 8 (ge_y (ge_const_g F)) (of_int generator_y)"
    unfolding ge_const_g_def ge.simps generator_limbs by (rule fr_const)+
  then show ?thesis unfolding ge_rep_Point by (simp add: ge_const_g_def generator_on_curve del: on_curve_simps)
qed

end

section \<open>Properties\<close>

text \<open>
  C1: the variable-time addition of Jacobian points is the group law of the curve, on every branch:
  either operand at infinity, equal points, opposite points and the generic chord. The result keeps
  the magnitudes that the next operation needs. The output and the ratio of the Z coordinates may hold anything before.
\<close>

theorem gej_add_var_group:
  assumes "gej_rep fe_mag_10x26 fe_res_10x26 a P" "gej_rep fe_mag_10x26 fe_res_10x26 b Q"
  shows "gej_rep fe_mag_10x26 fe_res_10x26 (fst (gej_add_var F10x26 r a b rzr)) (padd P Q)"
  by (rule fe10.gej_add_var_correct [OF assms])

lemma generator_rep_10x26:
  obtains G where "ge_rep fe_mag_10x26 fe_res_10x26 (ge_const_g F10x26) G" "G \<noteq> Infinity"
    "gej_rep fe_mag_10x26 fe_res_10x26 (gej_set_ge F10x26 (ge_const_g F10x26)) G"
  using fe10.generator_rep fe10.gej_set_ge_correct [OF fe10.generator_rep] by blast

theorem gej_add_var_group_witness:
  "\<exists>G. G \<noteq> Infinity \<and> gej_rep fe_mag_10x26 fe_res_10x26
    (fst (gej_add_var F10x26 (gej_set_infinity F10x26) (gej_set_ge F10x26 (ge_const_g F10x26))
      (gej_set_ge F10x26 (ge_const_g F10x26)) None)) (padd G G)"
proof -
  obtain G where "G \<noteq> Infinity" "gej_rep fe_mag_10x26 fe_res_10x26 (gej_set_ge F10x26 (ge_const_g F10x26)) G"
    by (rule generator_rep_10x26)
  then show ?thesis using gej_add_var_group by blast
qed

text \<open>
  C2: the constant-time addition of an affine point, which computes one formula for all cases and
  selects by conditional moves, and the variable-time addition of an affine point compute the group law.
  The degenerate case of the unified formula, opposite ordinates with different abscissas, is included.
\<close>

theorem gej_add_ge_group:
  assumes "gej_rep fe_mag_10x26 fe_res_10x26 a P" "ge_rep fe_mag_10x26 fe_res_10x26 b Q" "Q \<noteq> Infinity"
  shows "gej_rep fe_mag_10x26 fe_res_10x26 (gej_add_ge F10x26 a b) (padd P Q) \<and>
    gej_rep fe_mag_10x26 fe_res_10x26 (fst (gej_add_ge_var F10x26 r a b rzr)) (padd P Q)"
  using fe10.gej_add_ge_correct [OF assms] fe10.gej_add_ge_var_correct [OF assms(1,2)] by blast

theorem gej_add_ge_group_witness:
  "\<exists>G. G \<noteq> Infinity \<and> gej_rep fe_mag_10x26 fe_res_10x26
    (gej_add_ge F10x26 (gej_set_ge F10x26 (ge_const_g F10x26)) (ge_const_g F10x26)) (padd G G)"
proof -
  obtain G where "ge_rep fe_mag_10x26 fe_res_10x26 (ge_const_g F10x26) G" "G \<noteq> Infinity"
    "gej_rep fe_mag_10x26 fe_res_10x26 (gej_set_ge F10x26 (ge_const_g F10x26)) G"
    by (rule generator_rep_10x26)
  then show ?thesis using gej_add_ge_group by blast
qed

text \<open>
  C13: doubling computes the sum of a point with itself, and the doubled point is at infinity only if
  the point is: no point of the curve has order two.
\<close>

theorem gej_double_var_group:
  assumes "gej_rep fe_mag_10x26 fe_res_10x26 a P"
  shows "gej_rep fe_mag_10x26 fe_res_10x26 (fst (gej_double_var F10x26 r a rzr)) (padd P P) \<and>
    (gej_infinity (fst (gej_double_var F10x26 r a rzr)) \<longleftrightarrow> gej_infinity a)"
  using fe10.gej_double_correct [OF assms] by (simp add: gej_double_var_def Let_def)

theorem gej_double_var_group_witness:
  "\<not> gej_infinity (fst (gej_double_var F10x26 (gej_set_infinity F10x26) (gej_set_ge F10x26 (ge_const_g F10x26)) None))"
proof -
  obtain G where G: "G \<noteq> Infinity" "gej_rep fe_mag_10x26 fe_res_10x26 (gej_set_ge F10x26 (ge_const_g F10x26)) G"
    by (rule generator_rep_10x26)
  then show ?thesis
    using gej_double_var_group [OF G(2)] fe10.gej_rep_infinity_iff [OF G(2)] by blast
qed

text \<open>
  C27: adding the negation of a point gives the point at infinity, whatever the representations.
\<close>

theorem gej_add_neg_infinity:
  assumes "gej_rep fe_mag_10x26 fe_res_10x26 a P" "gej_rep fe_mag_10x26 fe_res_10x26 b P"
  shows "gej_infinity (fst (gej_add_var F10x26 r a (gej_neg F10x26 b) rzr))"
  using fe10.gej_add_var_correct [OF assms(1) fe10.gej_neg_correct [OF assms(2)]]
  by (simp add: padd_pneg fe10.gej_rep_Infinity)

theorem gej_add_neg_infinity_witness:
  "gej_infinity (fst (gej_add_var F10x26 (gej_set_infinity F10x26) (gej_set_ge F10x26 (ge_const_g F10x26))
    (gej_neg F10x26 (gej_set_ge F10x26 (ge_const_g F10x26))) None))"
proof -
  obtain G where G: "gej_rep fe_mag_10x26 fe_res_10x26 (gej_set_ge F10x26 (ge_const_g F10x26)) G"
    by (rule generator_rep_10x26)
  then show ?thesis by (rule gej_add_neg_infinity [OF G])
qed

text \<open>
  C26: conversions keep the point. For every point, the one at infinity included, a record in affine coordinates taken to Jacobian
  coordinates and back stands for the same point, in constant and in variable time, directly and after a rescaling by a nonzero factor.
  The storage format keeps every finite point; it has no room for the flag of infinity.
\<close>

theorem ge_conversions_roundtrip:
  assumes "ge_rep fe_mag_10x26 fe_res_10x26 a P" "fe_mag_10x26 8 k" "fe_res_10x26 k \<noteq> 0"
  shows "gej_rep fe_mag_10x26 fe_res_10x26 (gej_set_ge F10x26 a) P \<and>
    ge_rep fe_mag_10x26 fe_res_10x26 (fst (ge_set_gej F10x26 (gej_set_ge F10x26 a))) P \<and>
    ge_rep fe_mag_10x26 fe_res_10x26 (fst (ge_set_gej_var F10x26 r (gej_set_ge F10x26 a))) P \<and>
    ge_rep fe_mag_10x26 fe_res_10x26 (fst (ge_set_gej F10x26 (gej_rescale F10x26 (gej_set_ge F10x26 a) k))) P \<and>
    ge_rep fe_mag_10x26 fe_res_10x26 (fst (ge_set_gej_var F10x26 r (gej_rescale F10x26 (gej_set_ge F10x26 a) k))) P \<and>
    (P \<noteq> Infinity \<longrightarrow> ge_rep fe_mag_10x26 fe_res_10x26 (ge_from_storage F10x26 (ge_to_storage F10x26 a)) P)"
proof -
  have k: "fe10.fr 8 k (fval fe_res_10x26 k)" "fval fe_res_10x26 k \<noteq> 0"
    using assms(2,3) fe10.fval_0 by (simp_all add: fe10.fr_def)
  note j = fe10.gej_set_ge_correct [OF assms(1)]
  note s = fe10.gej_rescale_correct [OF j k]
  have "ge_rep fe_mag_10x26 fe_res_10x26 (ge_from_storage F10x26 (ge_to_storage F10x26 a)) P" if "P \<noteq> Infinity"
    using that assms(1) fe10.ge_storage_roundtrip by (cases P) simp_all
  then show ?thesis using j fe10.ge_set_gej_correct(1,3) [OF j] fe10.ge_set_gej_correct(1,3) [OF s] by blast
qed

theorem ge_conversions_roundtrip_witness:
  "\<exists>x y. ge_rep fe_mag_10x26 fe_res_10x26 (fst (ge_set_gej F10x26
      (gej_rescale F10x26 (gej_set_ge F10x26 (ge_const_g F10x26)) (fe_set_int_10x26 3)))) (Point x y) \<and>
    ge_rep fe_mag_10x26 fe_res_10x26 (ge_from_storage F10x26 (ge_to_storage F10x26 (ge_const_g F10x26))) (Point x y)"
proof -
  have "fe_mag_10x26 8 (fe_set_int_10x26 3)" "fe_res_10x26 (fe_set_int_10x26 3) \<noteq> 0"
    using fe10.fr_mono [OF fe10.fr_set_int [of 3], of 8] fe10.set_int [of 3] by (simp_all add: fe10.fr_def F10x26_def)
  from ge_conversions_roundtrip [OF fe10.generator_rep this] show ?thesis by blast
qed

text \<open>
  C22: decompression. The function that completes an abscissa to a point succeeds exactly when the
  curve has a point there, and then returns the one whose ordinate has the requested parity.
\<close>

theorem ge_set_xo_var_decompresses:
  assumes "fe_mag_10x26 8 x"
  shows "(snd (ge_set_xo_var F10x26 x is_odd) \<longleftrightarrow> (\<exists>y. on_curve (Point (fval fe_res_10x26 x) y))) \<and>
    (snd (ge_set_xo_var F10x26 x is_odd) \<longrightarrow>
      (\<exists>y. ge_rep fe_mag_10x26 fe_res_10x26 (fst (ge_set_xo_var F10x26 x is_odd)) (Point (fval fe_res_10x26 x) y) \<and>
        (odd (Rep_fp y) \<longleftrightarrow> is_odd)))"
proof -
  have "fe10.fr 8 x (fval fe_res_10x26 x)" using assms by (simp add: fe10.fr_def)
  from fe10.ge_set_xo_var_correct [OF this] show ?thesis by blast
qed

theorem ge_set_xo_var_decompresses_witness:
  "snd (ge_set_xo_var F10x26 (ge_x (ge_const_g F10x26)) True)"
proof -
  obtain x y where g: "ge_rep fe_mag_10x26 fe_res_10x26 (ge_const_g F10x26) (Point x y)"
    using fe10.generator_rep by blast
  then have "fe_mag_10x26 8 (ge_x (ge_const_g F10x26))" "on_curve (Point (fval fe_res_10x26 (ge_x (ge_const_g F10x26))) y)"
    by (auto simp: ge_rep_def ge_repz_def)
  then show ?thesis using ge_set_xo_var_decompresses by blast
qed

text \<open>
  C25: the validity test accepts exactly the finite points of the curve. It is what a parsed public
  key has to pass.
\<close>

theorem ge_is_valid_var_on_curve:
  assumes "fe_mag_10x26 8 (ge_x a)" "fe_mag_10x26 8 (ge_y a)"
  shows "ge_is_valid_var F10x26 a \<longleftrightarrow>
    \<not> ge_infinity a \<and> on_curve (Point (fval fe_res_10x26 (ge_x a)) (fval fe_res_10x26 (ge_y a)))"
  using fe10.ge_is_valid_var_correct assms by (simp add: fe10.fr_def)

theorem ge_is_valid_var_on_curve_witness: "ge_is_valid_var F10x26 (ge_const_g F10x26)"
proof -
  obtain x y where g: "ge_rep fe_mag_10x26 fe_res_10x26 (ge_const_g F10x26) (Point x y)"
    using fe10.generator_rep by blast
  then show ?thesis using ge_is_valid_var_on_curve [of "ge_const_g F10x26"] by (auto simp: ge_rep_def ge_repz_def)
qed

text \<open>
  C24: on a nonzero element the addition chains compute the inverse, and a square root exactly when
  there is one. The characteristic is prime, so nothing is assumed of the element.
\<close>

theorem fe_inv_sqrt_correct:
  assumes "fe_mag_10x26 8 a" "fe_res_10x26 a \<noteq> 0"
  shows "fval fe_res_10x26 (fe_inv F10x26 a) * fval fe_res_10x26 a = 1 \<and>
    (snd (fe_sqrt F10x26 a) \<longleftrightarrow> (\<exists>y. y\<^sup>2 = fval fe_res_10x26 a)) \<and>
    (snd (fe_sqrt F10x26 a) \<longrightarrow> (fval fe_res_10x26 (fst (fe_sqrt F10x26 a)))\<^sup>2 = fval fe_res_10x26 a)"
proof -
  have a: "fe10.fr 8 a (fval fe_res_10x26 a)" "fval fe_res_10x26 a \<noteq> 0"
    using assms fe10.fval_0 by (simp_all add: fe10.fr_def)
  show ?thesis
    using fe10.fr_inv [OF a(1) _ a(2)] fe10.fr_sqrt [OF a(1) _ a(2)] a(2) by (simp add: fe10.fr_def)
qed

theorem fe_inv_sqrt_correct_witness:
  "fval fe_res_10x26 (fe_inv F10x26 (fe_set_int_10x26 3)) * fval fe_res_10x26 (fe_set_int_10x26 3) = 1"
proof -
  have "fe_mag_10x26 8 (fe_set_int_10x26 3)" "fe_res_10x26 (fe_set_int_10x26 3) \<noteq> 0"
    using fe10.fr_mono [OF fe10.fr_set_int [of 3], of 8] fe10.set_int [of 3] by (simp_all add: fe10.fr_def F10x26_def)
  from fe_inv_sqrt_correct [OF this] show ?thesis by blast
qed

end
