(* ===== verification/Ecmult.thy ===== *)
theory Ecmult
  imports Scalar_8x32
begin

text \<open>
  The signed windowed recoding of a scalar in \<^verbatim>\<open>ecmult_impl.h\<close>, \<^verbatim>\<open>secp256k1_ecmult_wnaf\<close>. The loop has fuel,
  because it does not end for a window of width zero; one unit for each position of the output is
  enough, which is proved for the widths of the code. A C \<^verbatim>\<open>int\<close> is an integer without bounds here: with the windows the
  code uses, 5 and 16, every value is below \<open>2 ^ 17\<close> in absolute value, while with a window of 31 bits, which the assertion in the source still
  admits, the shifted carry would not fit.
\<close>

unbundle bit_operations_syntax

section \<open>Definitions\<close>

definition WINDOW_A :: nat where
  "WINDOW_A = 5"

definition WINDOW_G :: nat where
  "WINDOW_G = 16"

primrec ecmult_wnaf_loop ::
    "'sc scalar_ops \<Rightarrow> nat \<Rightarrow> nat \<Rightarrow> 'sc \<Rightarrow> int \<Rightarrow> nat \<Rightarrow> nat \<Rightarrow> int \<Rightarrow> int list \<Rightarrow> int \<Rightarrow> (int list \<times> int) option" where
  "ecmult_wnaf_loop S len w s sign 0 pos carry wnaf last_set_bit =
    (if pos < len then None else Some (wnaf, last_set_bit))"
| "ecmult_wnaf_loop S len w s sign (Suc fuel) pos carry wnaf last_set_bit =
    (if pos < len then
       if uint (scalar_get_bits S s pos 1) = carry
       then ecmult_wnaf_loop S len w s sign fuel (pos + 1) carry wnaf last_set_bit
       else
         let now = w;
             now = (if len - pos < now then len - pos else now);
             word = uint (scalar_get_bits_var S s pos now) + carry;
             carry = drop_bit (w - 1) word AND 1;
             word = word - push_bit w carry
         in ecmult_wnaf_loop S len w s sign fuel (pos + now) carry (wnaf[pos := sign * word]) (int pos)
     else Some (wnaf, last_set_bit))"

definition ecmult_wnaf :: "'sc scalar_ops \<Rightarrow> nat \<Rightarrow> 'sc \<Rightarrow> nat \<Rightarrow> (int list \<times> int) option" where
  "ecmult_wnaf S len a w =
    (let wnaf = replicate len 0;
         (s, sign) = (if scalar_get_bits S a 255 1 \<noteq> 0 then (scalar_negate S a, - 1) else (a, 1))
     in map_option (\<lambda>(wnaf, last_set_bit). (wnaf, last_set_bit + 1))
          (ecmult_wnaf_loop S len w s sign len 0 0 wnaf (- 1)))"

section \<open>Recoding\<close>

text \<open>The number a list of signed digits stands for, and the form of a digit.\<close>

definition wnaf_val :: "int list \<Rightarrow> int" where
  "wnaf_val ds = (\<Sum>i<length ds. ds ! i * 2 ^ i)"

definition wnaf_digit :: "nat \<Rightarrow> int \<Rightarrow> bool" where
  "wnaf_digit w d \<longleftrightarrow> d = 0 \<or> odd d \<and> \<bar>d\<bar> \<le> 2 ^ (w - 1) - 1"

lemma wnaf_val_update:
  assumes "k < length ds" "ds ! k = 0"
  shows "wnaf_val (ds[k := d]) = wnaf_val ds + d * 2 ^ k"
proof -
  have "(\<Sum>i<length ds. ds[k := d] ! i * 2 ^ i) = d * 2 ^ k + (\<Sum>i\<in>{..<length ds} - {k}. ds[k := d] ! i * 2 ^ i)"
    using assms(1) by (subst sum.remove [of _ k]) simp_all
  also have "(\<Sum>i\<in>{..<length ds} - {k}. ds[k := d] ! i * 2 ^ i) = (\<Sum>i\<in>{..<length ds} - {k}. ds ! i * 2 ^ i)"
    by (rule sum.cong) simp_all
  also have "\<dots> = wnaf_val ds"
    unfolding wnaf_val_def using assms by (subst sum.remove [of _ k]) simp_all
  finally show ?thesis by (simp add: wnaf_val_def)
qed

text \<open>One window: the digit taken at a position whose bit differs from the carry.\<close>

lemma window_digit:
  fixes u c :: int
  assumes w: "2 \<le> w" and u: "0 \<le> u" "u < 2 ^ w" and c: "c = 0 \<or> c = 1" and p: "u mod 2 \<noteq> c"
  defines "c' \<equiv> drop_bit (w - 1) (u + c) AND 1"
  shows "c' = (if 2 ^ (w - 1) \<le> u + c then 1 else 0)" "wnaf_digit w (u + c - push_bit w c')"
proof -
  have pw: "(2 :: int) ^ w = 2 * 2 ^ (w - 1)" using w by (simp flip: power_Suc)
  have pe: "even ((2 :: int) ^ (w - 1))" using w by simp
  have o': "odd (u + c)" using p c by (auto simp: odd_iff_mod_2_eq_one)
  have le: "u + c < 2 ^ w"
  proof (cases "c = 1")
    case True
    then have "even u" using o' by simp
    then have "u \<noteq> 2 ^ w - 1" using w by auto
    then show ?thesis using u True by simp
  qed (use u c in auto)
  have "c' = (u + c) div 2 ^ (w - 1) mod 2"
    unfolding c'_def by (simp add: drop_bit_eq_div and_one_eq)
  also have "\<dots> = (if 2 ^ (w - 1) \<le> u + c then 1 else 0)"
  proof (cases "2 ^ (w - 1) \<le> u + c")
    case True
    then have "(u + c) div 2 ^ (w - 1) = (u + c - 2 ^ (w - 1)) div 2 ^ (w - 1) + 1" by (intro div_pos_geq) simp_all
    also have "(u + c - 2 ^ (w - 1)) div 2 ^ (w - 1) = 0" using True le pw by (intro div_pos_pos_trivial) simp_all
    finally show ?thesis using True by simp
  next
    case False
    then have "(u + c) div 2 ^ (w - 1) = 0" using u c by (intro div_pos_pos_trivial) auto
    then show ?thesis using False by simp
  qed
  finally show c': "c' = (if 2 ^ (w - 1) \<le> u + c then 1 else 0)" .
  have ne: "u + c \<noteq> 2 ^ (w - 1)" using o' pe by metis
  show "wnaf_digit w (u + c - push_bit w c')"
  proof (cases "2 ^ (w - 1) \<le> u + c")
    case True
    then have "u + c - push_bit w c' = u + c - 2 ^ w" using c' by (simp add: push_bit_eq_mult)
    then show ?thesis using True le ne o' pw w by (auto simp: wnaf_digit_def)
  next
    case False
    then have "u + c - push_bit w c' = u + c" using c' by simp
    then show ?thesis using False u c o' by (auto simp: wnaf_digit_def)
  qed
qed

text \<open>
  The invariant of the loop, for a scalar of value \<open>V\<close>: the digits below \<open>pos\<close> stand for the low bits of
  \<open>V\<close> minus the carry, and there is none above.
\<close>

definition wnaf_inv :: "nat \<Rightarrow> nat \<Rightarrow> int \<Rightarrow> int \<Rightarrow> nat \<Rightarrow> int \<Rightarrow> int list \<Rightarrow> int \<Rightarrow> bool" where
  "wnaf_inv len w sign V pos c ds lst \<longleftrightarrow> pos \<le> len \<and> (c = 0 \<or> c = 1) \<and> (pos = len \<longrightarrow> c = 0) \<and>
    length ds = len \<and> (\<forall>i. pos \<le> i \<longrightarrow> i < len \<longrightarrow> ds ! i = 0) \<and> (\<forall>d\<in>set ds. wnaf_digit w d) \<and>
    wnaf_val ds = sign * (V mod 2 ^ pos - c * 2 ^ pos) \<and>
    - 1 \<le> lst \<and> lst < int pos \<and> (\<forall>i<len. lst < int i \<longrightarrow> ds ! i = 0)"

lemma mod_bits_add: "V mod 2 ^ (m + n) = V mod 2 ^ m + V div 2 ^ m mod 2 ^ n * 2 ^ m" for V :: int
  by (simp add: power_add mod_mult2_eq' zmod_zmult2_eq)

lemma wnaf_inv_skip:
  assumes "wnaf_inv len w sign V pos c ds lst" "pos < len" "V div 2 ^ pos mod 2 = c" "0 \<le> V" "V < 2 ^ (len - 1)"
  shows "wnaf_inv len w sign V (pos + 1) c ds lst"
proof -
  have "V mod 2 ^ (pos + 1) - c * 2 ^ (pos + 1) = V mod 2 ^ pos - c * 2 ^ pos"
    using mod_bits_add [of V pos 1] assms(3) by simp
  moreover have "c = 0" if "pos + 1 = len"
  proof -
    have "V div 2 ^ pos = 0" using assms(4,5) that by (intro div_pos_pos_trivial) auto
    then show ?thesis using assms(3) by simp
  qed
  ultimately show ?thesis using assms(1,2) unfolding wnaf_inv_def by auto
qed

lemma wnaf_inv_set:
  assumes i: "wnaf_inv len w sign V pos c ds lst" and p: "pos < len" "V div 2 ^ pos mod 2 \<noteq> c"
    and V: "0 \<le> V" "V < 2 ^ (len - 1)" and w: "2 \<le> w" and sg: "sign = 1 \<or> sign = - 1"
  defines "now \<equiv> if len - pos < w then len - pos else w"
  defines "word \<equiv> V div 2 ^ pos mod 2 ^ now + c"
  defines "c' \<equiv> drop_bit (w - 1) word AND 1"
  shows "wnaf_inv len w sign V (pos + now) c' (ds[pos := sign * (word - push_bit w c')]) (int pos)"
proof -
  define u where "u = V div 2 ^ pos mod 2 ^ now"
  have now: "0 < now" "now \<le> w" "pos + now \<le> len" "pos + now = len \<or> now = w" using p w by (auto simp: now_def)
  have c: "c = 0 \<or> c = 1" using i by (simp add: wnaf_inv_def)
  have u: "0 \<le> u" "u < 2 ^ now" by (simp_all add: u_def)
  have uw: "u < 2 ^ w" using u now(2) by (smt (verit) power_increasing)
  have um: "u mod 2 = V div 2 ^ pos mod 2"
    unfolding u_def using now(1) by (simp add: mod_mod_cancel)
  have c': "c' = (if 2 ^ (w - 1) \<le> u + c then 1 else 0)" and dig: "wnaf_digit w (word - push_bit w c')"
    using window_digit [OF w u(1) uw c] p(2) um by (simp_all add: c'_def word_def u_def)
  have lst: "c' = 0" if e: "pos + now = len"
  proof -
    have "u = V div 2 ^ pos mod 2 ^ now" by (simp add: u_def)
    also have "\<dots> \<le> V div 2 ^ pos" using V by (intro zmod_le_nonneg_dividend) (simp add: pos_imp_zdiv_nonneg_iff)
    also have "\<dots> < 2 ^ (now - 1)"
    proof -
      have "(2 :: int) ^ (len - 1) = 2 ^ (now - 1) * 2 ^ pos" using e now(1) by (simp flip: power_add)
      then have "V < 2 ^ (now - 1) * 2 ^ pos" using V by simp
      moreover have "V div 2 ^ pos * 2 ^ pos \<le> V" by (simp add: minus_mod_eq_div_mult [symmetric])
      ultimately have "V div 2 ^ pos * 2 ^ pos < 2 ^ (now - 1) * 2 ^ pos" by linarith
      then show ?thesis by (rule mult_right_less_imp_less) simp
    qed
    finally have u': "u < 2 ^ (now - 1)" .
    have "u + c < 2 ^ (w - 1)"
    proof (cases "now = 1")
      case True
      moreover have "(2 :: int) ^ 1 \<le> 2 ^ (w - 1)" using w by (intro power_increasing) simp_all
      ultimately show ?thesis using u' u(1) c by auto
    next
      case False
      then have ev: "even ((2 :: int) ^ (now - 1))" using now(1) by simp
      have "odd (u + c)" using p(2) um c by (auto simp: odd_iff_mod_2_eq_one)
      then have "u + c \<noteq> 2 ^ (now - 1)" using ev by metis
      then have "u + c < 2 ^ (now - 1)" using u' c by auto
      also have "(2 :: int) ^ (now - 1) \<le> 2 ^ (w - 1)" using now(2) by (intro power_increasing) simp_all
      finally show ?thesis .
    qed
    then show ?thesis using c' by simp
  qed
  have shift: "c' * 2 ^ (pos + now) = push_bit w c' * 2 ^ pos"
    using now(4) lst by (auto simp: push_bit_eq_mult power_add)
  have sum: "V mod 2 ^ (pos + now) - c' * 2 ^ (pos + now) = V mod 2 ^ pos - c * 2 ^ pos + (word - push_bit w c') * 2 ^ pos"
    unfolding mod_bits_add [of V pos now] shift word_def by (simp add: left_diff_distrib distrib_right)
  have ds: "length ds = len" "ds ! pos = 0" using i p by (auto simp: wnaf_inv_def)
  have "wnaf_val (ds[pos := sign * (word - push_bit w c')]) = sign * (V mod 2 ^ (pos + now) - c' * 2 ^ (pos + now))"
    using i p unfolding sum by (subst wnaf_val_update) (auto simp: wnaf_inv_def algebra_simps)
  moreover have "wnaf_digit w (sign * (word - push_bit w c'))" using dig sg by (auto simp: wnaf_digit_def)
  then have "\<forall>d\<in>set (ds[pos := sign * (word - push_bit w c')]). wnaf_digit w d"
    using i set_update_subset_insert [of ds pos "sign * (word - push_bit w c')"] by (auto simp: wnaf_inv_def)
  moreover have "c' = 0 \<or> c' = 1" using c' by auto
  ultimately show ?thesis
    using i p now lst unfolding wnaf_inv_def by (auto simp: nth_list_update)
qed

context scalar_repr
begin

lemma wnaf_loop_correct:
  assumes "wf s" "val s < 2 ^ (len - 1)" "len \<le> 256" "2 \<le> w" "w < 32" "sign = 1 \<or> sign = - 1"
    and "wnaf_inv len w sign (val s) pos c ds lst" "len - pos \<le> fuel"
  shows "\<exists>ds' lst'. ecmult_wnaf_loop S len w s sign fuel pos c ds lst = Some (ds', lst') \<and>
    wnaf_inv len w sign (val s) len 0 ds' lst'"
  using assms(7,8)
proof (induction fuel arbitrary: pos c ds lst)
  case 0
  then show ?case by (auto simp: wnaf_inv_def)
next
  case (Suc fuel)
  have V: "0 \<le> val s" using val_range [OF assms(1)] by simp
  show ?case
  proof (cases "pos < len")
    case False
    then show ?thesis using Suc.prems(1) by (auto simp: wnaf_inv_def)
  next
    case True
    define now where "now = (if len - pos < w then len - pos else w)"
    have now: "0 < now" "now < 32" "pos + now \<le> 256" using True assms(3-5) by (auto simp: now_def)
    have b: "uint (scalar_get_bits S s pos 1) = val s div 2 ^ pos mod 2"
      using get_bits [OF assms(1), of 1 pos] True assms(3) by simp
    have g: "uint (scalar_get_bits_var S s pos now) = val s div 2 ^ pos mod 2 ^ now"
      using get_bits_var [OF assms(1) now] .
    show ?thesis
    proof (cases "val s div 2 ^ pos mod 2 = c")
      case c: True
      have "len - (pos + 1) \<le> fuel" using Suc.prems(2) by simp
      from Suc.IH [OF wnaf_inv_skip [OF Suc.prems(1) True c V assms(2)] this] show ?thesis
        using True b c by simp
    next
      case c: False
      have "len - (pos + now) \<le> fuel" using Suc.prems(2) now(1) by simp
      from Suc.IH [OF wnaf_inv_set [OF Suc.prems(1) True c V assms(2,4,6), folded now_def] this] show ?thesis
        using True b c g by (simp add: Let_def now_def [symmetric])
    qed
  qed
qed

lemma ecmult_wnaf_correct:
  assumes "wf a" "2 \<le> w" "w < 32"
  obtains ds n where "ecmult_wnaf S 256 a w = Some (ds, n)" "length ds = 256" "\<forall>d\<in>set ds. wnaf_digit w d"
    "wnaf_val ds mod scalar_n = val a" "0 \<le> n" "n \<le> 256" "\<forall>i<256. n \<le> int i \<longrightarrow> ds ! i = 0"
proof -
  define neg where "neg \<longleftrightarrow> scalar_get_bits S a 255 1 \<noteq> 0"
  define s where "s = (if neg then scalar_negate S a else a)"
  define sign :: int where "sign = (if neg then - 1 else 1)"
  have r: "0 \<le> val a" "val a < scalar_n" using val_range [OF assms(1)] by simp_all
  have g: "uint (scalar_get_bits S a 255 1) = val a div 2 ^ 255 mod 2" using get_bits [OF assms(1), of 1 255] by simp
  have neg: "neg \<longleftrightarrow> 2 ^ 255 \<le> val a"
  proof -
    have "neg \<longleftrightarrow> uint (scalar_get_bits S a 255 1) \<noteq> 0" by (simp add: neg_def uint_0_iff)
    also have "\<dots> \<longleftrightarrow> 2 ^ 255 \<le> val a" unfolding g
      using r div_pos_pos_trivial [of "val a" "2 ^ 255"] div_pos_geq [of "2 ^ 255" "val a"]
        div_pos_pos_trivial [of "val a - 2 ^ 255" "2 ^ 255"]
      by (cases "2 ^ 255 \<le> val a") (simp_all add: scalar_n_def)
    finally show ?thesis .
  qed
  have s: "wf s" "val s < 2 ^ (256 - 1)" "sign * val s mod scalar_n = val a"
  proof -
    show "wf s" using assms(1) negate by (simp add: s_def)
    show "val s < 2 ^ (256 - 1)"
      using neg r negate [OF assms(1)] zmod_zminus1_eq_if [of "val a" scalar_n]
      by (auto simp: s_def scalar_n_def)
    show "sign * val s mod scalar_n = val a"
      using negate [OF assms(1)] r by (auto simp: s_def sign_def mod_minus_eq)
  qed
  have "wnaf_inv 256 w sign (val s) 0 0 (replicate 256 0) (- 1)"
    by (auto simp: wnaf_inv_def wnaf_val_def wnaf_digit_def set_replicate_conv_if)
  moreover have "sign = 1 \<or> sign = - 1" by (simp add: sign_def)
  ultimately obtain ds lst
    where l: "ecmult_wnaf_loop S 256 w s sign 256 0 0 (replicate 256 0) (- 1) = Some (ds, lst)"
      and i: "wnaf_inv 256 w sign (val s) 256 0 ds lst"
    using wnaf_loop_correct [OF s(1,2) _ assms(2,3), of sign 0 0 "replicate 256 0" "- 1" 256] by auto
  have "val s mod 2 ^ 256 = val s" using val_range [OF s(1)] s(2) by (intro mod_pos_pos_trivial) auto
  then have v: "wnaf_val ds = sign * val s" using i by (simp add: wnaf_inv_def)
  have e: "ecmult_wnaf S 256 a w = Some (ds, lst + 1)"
    using l unfolding ecmult_wnaf_def s_def sign_def neg_def by (auto simp: Let_def)
  show thesis
    by (rule that [OF e]) (use i v s(3) in \<open>auto simp: wnaf_inv_def\<close>)
qed

end

section \<open>Properties\<close>

text \<open>
  C15: the loop of the recoding ends, within one step for each of the 256 positions, for every
  reduced scalar and every window of 2 to 31 bits, and so for the two windows of the code.
\<close>

theorem ecmult_wnaf_terminates:
  assumes "scalar_wf_8x32 a" "w \<in> {2..31}"
  shows "\<exists>ds n. ecmult_wnaf S8x32 256 a w = Some (ds, n) \<and> 0 \<le> n \<and> n \<le> 256"
proof -
  have w: "2 \<le> w" "w < 32" using assms(2) by simp_all
  show ?thesis by (rule sc8.ecmult_wnaf_correct [OF assms(1) w]) blast
qed

theorem ecmult_wnaf_terminates_witness:
  "\<exists>ds n. ecmult_wnaf S8x32 256 (scalar_set_int_8x32 7) WINDOW_A = Some (ds, n) \<and> n \<le> 256"
  using ecmult_wnaf_terminates [of "scalar_set_int_8x32 7" WINDOW_A] sc8.set_int [of 7]
  by (auto simp: S8x32_def WINDOW_A_def)

text \<open>
  C14: the recoding is faithful. The digits stand for the scalar modulo the group order, each is zero or
  odd and small enough to index a table of \<open>2 ^ (w - 2)\<close> odd multiples, and those from the
  returned count on are zero.
\<close>

theorem ecmult_wnaf_recodes:
  assumes "scalar_wf_8x32 a" "w \<in> {2..31}" "ecmult_wnaf S8x32 256 a w = Some (ds, n)"
  shows "length ds = 256 \<and> wnaf_val ds mod scalar_n = scalar_val_8x32 a \<and>
    (\<forall>i<256. wnaf_digit w (ds ! i)) \<and> (\<forall>i<256. n \<le> int i \<longrightarrow> ds ! i = 0)"
proof -
  have w: "2 \<le> w" "w < 32" using assms(2) by simp_all
  show ?thesis by (rule sc8.ecmult_wnaf_correct [OF assms(1) w]) (use assms(3) in auto)
qed

theorem ecmult_wnaf_recodes_witness:
  "\<exists>ds n. ecmult_wnaf S8x32 256 (scalar_set_int_8x32 7) WINDOW_G = Some (ds, n) \<and> wnaf_val ds mod scalar_n = 7"
proof -
  have a: "scalar_wf_8x32 (scalar_set_int_8x32 7)" "scalar_val_8x32 (scalar_set_int_8x32 7) = 7"
    using sc8.set_int [of 7] by (simp_all add: S8x32_def)
  have w: "WINDOW_G \<in> {2..31}" by (simp add: WINDOW_G_def)
  have "2 \<le> WINDOW_G" "WINDOW_G < 32" using w by simp_all
  then obtain ds n where "ecmult_wnaf S8x32 256 (scalar_set_int_8x32 7) WINDOW_G = Some (ds, n)"
    by (rule sc8.ecmult_wnaf_correct [OF a(1)])
  with ecmult_wnaf_recodes [OF a(1) w this] a(2) show ?thesis by (intro exI conjI) auto
qed

end
