(* ===== verification/Endo.thy ===== *)
theory Endo
  imports Curve
begin

text \<open>
  The endomorphism \<open>(x, y) \<mapsto> (beta x, y)\<close> of the curve, and chains of doublings and additions of points whose
  intermediate results are part of a certificate. Both serve to show that the generator has the group order as
  its order: a multiple by \<open>a + b phi\<close> is zero, so the multiple by the norm \<open>a\<^sup>2 - a b + b\<^sup>2\<close> is.
\<close>

lemmas big_num_simps = numeral_times_numeral mult_num_simps add_num_simps numeral_plus_numeral numeral_plus_one
  one_plus_numeral mult_1_left mult_1_right mult_zero_left add_0_left add_0_right

section \<open>The endomorphism\<close>

definition beta_x :: int where
  "beta_x = 0x7ae96a2b657c07106e64479eac3434e99cf0497512f58995c1396c28719501ee"

definition beta :: fp where
  "beta = of_int beta_x"

lemma beta_root: "beta ^ 2 + beta + 1 = 0"
proof -
  have "beta_x * beta_x + beta_x + 1 = field_p * 0x3b034e03cbc0e9e67adf9b678b2ea8201dd5ea436049fdc542a0960dd5579c3d"
    unfolding beta_x_def field_p_literal by (simp only: big_num_simps)
  then have "(of_int (beta_x * beta_x + beta_x + 1) :: fp) = 0"
    unfolding of_int_fp_0_iff by (simp only: mod_mult_self1_is_0)
  then show ?thesis by (simp add: beta_def power2_eq_square)
qed

lemma beta_cube: "beta ^ 3 = 1"
  using beta_root by algebra

lemma beta_neq_0: "beta \<noteq> 0"
  using beta_cube by auto

definition phi :: "point \<Rightarrow> point" where
  "phi P = (case P of Infinity \<Rightarrow> Infinity | Point x y \<Rightarrow> Point (beta * x) y)"

lemma phi_simps [simp]: "phi Infinity = Infinity" "phi (Point x y) = Point (beta * x) y"
  by (simp_all add: phi_def)

lemma phi_on_curve [simp]: "on_curve P \<Longrightarrow> on_curve (phi P)"
  by (cases P) (simp_all add: power_mult_distrib beta_cube)

lemma phi_padd:
  assumes "on_curve P" "on_curve Q"
  shows "phi (padd P Q) = padd (phi P) (phi Q)"
proof (cases P; cases Q)
  fix x1 y1 x2 y2
  assume PQ: "P = Point x1 y1" "Q = Point x2 y2"
  have c: "y1 ^ 2 = x1 ^ 3 + 7" "y2 ^ 2 = x2 ^ 3 + 7" using assms PQ by simp_all
  have c': "y1 ^ 2 = (beta * x1) ^ 3 + 7" "y2 ^ 2 = (beta * x2) ^ 3 + 7"
    using c by (simp_all add: power_mult_distrib beta_cube)
  show "phi (padd P Q) = padd (phi P) (phi Q)"
  proof (cases "x1 = x2 \<and> y1 = - y2")
    case True
    then show ?thesis by (simp add: PQ)
  next
    case False
    then have n: "\<not> (beta * x1 = beta * x2 \<and> y1 = - y2)" using beta_neq_0 by simp
    define l where "l = slope x1 y1 x2 y2"
    have l: "is_slope l x1 y1 x2 y2" unfolding l_def by (rule slope_is_slope [OF c False])
    then have e: "l * (x2 - x1) = y2 - y1" "l * (y1 + y2) = x1 ^ 2 + x1 * x2 + x2 ^ 2" by (simp_all add: is_slope_def)
    have "beta ^ 2 * l * (beta * x2 - beta * x1) = y2 - y1" using e(1) beta_cube by algebra
    moreover have "beta ^ 2 * l * (y1 + y2) = (beta * x1) ^ 2 + beta * x1 * (beta * x2) + (beta * x2) ^ 2"
      using e(2) by algebra
    ultimately have l': "is_slope (beta ^ 2 * l) (beta * x1) y1 (beta * x2) y2" by (simp add: is_slope_def)
    have x: "(beta ^ 2 * l) ^ 2 - beta * x1 - beta * x2 = beta * (l ^ 2 - x1 - x2)" using beta_cube by algebra
    have y: "beta ^ 2 * l * (beta * x1 - beta * (l ^ 2 - x1 - x2)) - y1 = l * (x1 - (l ^ 2 - x1 - x2)) - y1"
      using beta_cube by algebra
    show ?thesis
      unfolding PQ phi_simps padd_slope [OF l c False] padd_slope [OF l' c' n] x y ..
  qed
qed simp_all

lemma phi_sum:
  assumes "on_curve (Point x y)" "x \<noteq> 0"
  shows "padd (Point x y) (Point (beta * x) y) = Point (beta * (beta * x)) (- y)"
proof -
  have "beta \<noteq> 1"
  proof
    assume "beta = 1"
    then have "(3 :: fp) = 0" using beta_root by simp
    then show False using numeral_fp_neq_0 by simp
  qed
  then have x: "x \<noteq> beta * x" using assms(2) by simp
  have "- x - beta * x = beta * (beta * x)" using beta_root by algebra
  then show ?thesis using x by (simp add: slope_def Let_def)
qed

text \<open>The endomorphism on the group of curve points.\<close>

lift_definition cphi :: "cpoint \<Rightarrow> cpoint" is phi by simp

lemma cphi_add: "cphi (P + Q) = cphi P + cphi Q"
  by transfer (simp add: phi_padd)

lemma cphi_0 [simp]: "cphi 0 = 0"
  by transfer simp

lemma cphi_minus: "cphi (- P) = - cphi P"
  using cphi_add [of P "- P"] by (simp add: eq_neg_iff_add_eq_0 add.commute)

lemma cphi_smul: "cphi (smul k P) = smul k (cphi P)"
proof (induction k rule: int_induct [of _ 0])
  case (step1 k)
  then show ?case by (simp add: smul_succ cphi_add)
next
  case (step2 k)
  have "cphi (smul (k - 1) P) = cphi (smul k P) + cphi (- P)" unfolding smul_pred by (simp only: diff_conv_add_uminus cphi_add)
  then show ?case by (simp add: step2(2) cphi_minus smul_pred)
qed simp

section \<open>The generator\<close>

lift_definition generator :: cpoint is "Point (of_int generator_x) (of_int generator_y)"
  by (rule generator_on_curve)

lemma generator_neq_0: "generator \<noteq> 0"
  by transfer simp

lemma of_int_generator_x: "(of_int generator_x :: fp) \<noteq> 0"
  unfolding of_int_fp_0_iff by (simp add: generator_x_def field_p_def)

lemma generator_phi_sum: "cphi (cphi generator) = - (generator + cphi generator)"
proof -
  have "generator + cphi generator = - cphi (cphi generator)"
  proof transfer
    show "padd (Point (of_int generator_x) (of_int generator_y)) (phi (Point (of_int generator_x) (of_int generator_y))) =
      pneg (phi (phi (Point (of_int generator_x) (of_int generator_y))))"
      unfolding phi_simps phi_sum [OF generator_on_curve of_int_generator_x] by simp
  qed
  then show ?thesis by simp
qed

text \<open>The multiple of the generator by \<open>a + b phi\<close>.\<close>

definition emul :: "int \<Rightarrow> int \<Rightarrow> cpoint" where
  "emul a b = smul a generator + smul b (cphi generator)"

lemma emul_add: "emul a b + emul c d = emul (a + c) (b + d)"
  by (simp add: emul_def smul_add ac_simps)

lemma emul_norm:
  assumes "emul a b = 0"
  shows "smul (a * a - a * b + b * b) generator = 0"
proof -
  have m: "smul k (emul c d) = emul (k * c) (k * d)" for k c d
    by (simp add: emul_def smul_distrib smul_mult)
  have "cphi (emul a b) = smul a (cphi generator) + - smul b (generator + cphi generator)"
    unfolding emul_def cphi_add cphi_smul generator_phi_sum smul_minus ..
  also have "\<dots> = emul (- b) (a - b)"
    using smul_add [of a "- b" "cphi generator"] by (simp add: emul_def smul_distrib smul_neg ac_simps)
  finally have "cphi (emul a b) = emul (- b) (a - b)" .
  then have "emul (- b) (a - b) = 0" using assms by simp
  then have "smul (a - b) (emul a b) + smul (- b) (emul (- b) (a - b)) = 0" using assms by simp
  then have "emul ((a - b) * a + - b * - b) ((a - b) * b + - b * (a - b)) = 0" unfolding m emul_add .
  then show ?thesis by (simp add: emul_def algebra_simps)
qed

section \<open>Certified chains\<close>

text \<open>
  A step doubles the point or adds one of the six multiples of the generator by a unit, \<open>1, phi, phi\<^sup>2\<close> and their
  negations. The slope \<open>l\<close>, the new coordinates and the quotients are given; the integer equations are checked.
  The characteristic is \<open>w - c\<close>.
\<close>

datatype ec_unit = U1 | U2 | U3 | N1 | N2 | N3

primrec ux :: "ec_unit \<Rightarrow> int" where
  "ux U1 = 0x79be667ef9dcbbac55a06295ce870b07029bfcdb2dce28d959f2815b16f81798"
| "ux U2 = 0xbcace2e99da01887ab0102b696902325872844067f15e98da7bba04400b88fcb"
| "ux U3 = 0xc994b69768832bcbff5e9ab39ae8d1d3763bbf1e531bed98fe51de5ee84f50fb"
| "ux N1 = 0x79be667ef9dcbbac55a06295ce870b07029bfcdb2dce28d959f2815b16f81798"
| "ux N2 = 0xbcace2e99da01887ab0102b696902325872844067f15e98da7bba04400b88fcb"
| "ux N3 = 0xc994b69768832bcbff5e9ab39ae8d1d3763bbf1e531bed98fe51de5ee84f50fb"

primrec uy :: "ec_unit \<Rightarrow> int" where
  "uy U1 = 0x483ada7726a3c4655da4fbfc0e1108a8fd17b448a68554199c47d08ffb10d4b8"
| "uy U2 = 0x483ada7726a3c4655da4fbfc0e1108a8fd17b448a68554199c47d08ffb10d4b8"
| "uy U3 = 0x483ada7726a3c4655da4fbfc0e1108a8fd17b448a68554199c47d08ffb10d4b8"
| "uy N1 = 0xb7c52588d95c3b9aa25b0403f1eef75702e84bb7597aabe663b82f6f04ef2777"
| "uy N2 = 0xb7c52588d95c3b9aa25b0403f1eef75702e84bb7597aabe663b82f6f04ef2777"
| "uy N3 = 0xb7c52588d95c3b9aa25b0403f1eef75702e84bb7597aabe663b82f6f04ef2777"

primrec ua :: "ec_unit \<Rightarrow> int" where
  "ua U1 = 1" | "ua U2 = 0" | "ua U3 = - 1" | "ua N1 = - 1" | "ua N2 = 0" | "ua N3 = 1"

primrec ub :: "ec_unit \<Rightarrow> int" where
  "ub U1 = 0" | "ub U2 = 1" | "ub U3 = - 1" | "ub N1 = 0" | "ub N2 = - 1" | "ub N3 = 1"

datatype ec_step = Dbl int int int int int int int | Add ec_unit int int int int int int int int

fun ec_chain :: "int \<Rightarrow> int \<Rightarrow> int \<Rightarrow> int \<Rightarrow> ec_step list \<Rightarrow> (int \<times> int) option" where
  "ec_chain w c x y [] = Some (x, y)"
| "ec_chain w c x y (Dbl l k1 x3 k2 d y3 k3 # ss) =
    (if l * (y + y) + k1 * c = (x + x + x) * x + k1 * w \<and>
        x3 + (x + x) + k2 * w = l * l + k2 * c \<and> d + x3 + c = x + w \<and>
        y3 + y + k3 * w = l * d + k3 * c
     then ec_chain w c x3 y3 ss else None)"
| "ec_chain w c x y (Add u l dx k1 x3 k2 d y3 k3 # ss) =
    (if dx + x + c = ux u + w \<and> l * dx + y + k1 * c = uy u + k1 * w \<and> dx + c \<noteq> w \<and> 0 \<le> x \<and> x + c < w \<and>
        x3 + (x + ux u) + k2 * w = l * l + k2 * c \<and> d + x3 + c = x + w \<and>
        y3 + y + k3 * w = l * d + k3 * c
     then ec_chain w c x3 y3 ss else None)"

fun ec_digits :: "int \<Rightarrow> int \<Rightarrow> ec_step list \<Rightarrow> int \<times> int" where
  "ec_digits a b [] = (a, b)"
| "ec_digits a b (Dbl l k1 x3 k2 d y3 k3 # ss) = ec_digits (2 * a) (2 * b) ss"
| "ec_digits a b (Add u l dx k1 x3 k2 d y3 k3 # ss) = ec_digits (a + ua u) (b + ub u) ss"

definition at_point :: "cpoint \<Rightarrow> int \<Rightarrow> int \<Rightarrow> bool" where
  "at_point P x y \<longleftrightarrow> pt P = Point (of_int x) (of_int y)"

lemma of_int_cong_fp:
  assumes "w - c = field_p" "a + j * c = b + j * w"
  shows "(of_int a :: fp) = of_int b"
proof -
  have "a = b + (w - c) * j" using assms(2) by (simp add: algebra_simps)
  then show ?thesis unfolding of_int_fp_eq_iff assms(1) by (simp only: mod_mult_self2)
qed

lemma at_point_double:
  assumes m: "w - c = field_p" and P: "at_point P x y"
    and e: "l * (y + y) + k1 * c = (x + x + x) * x + k1 * w" "x3 + (x + x) + k2 * w = l * l + k2 * c"
      "d + x3 + c = x + w" "y3 + y + k3 * w = l * d + k3 * c"
  shows "at_point (P + P) x3 y3"
proof -
  define X Y L X3 D Y3 where "X = (of_int x :: fp)" and "Y = (of_int y :: fp)" and "L = (of_int l :: fp)"
    and "X3 = (of_int x3 :: fp)" and "D = (of_int d :: fp)" and "Y3 = (of_int y3 :: fp)"
  note defs = X_def Y_def L_def X3_def D_def Y3_def
  have "on_curve (pt P)" using pt [of P] by simp
  then have p: "on_curve (Point X Y)" using P by (simp add: at_point_def defs)
  then have Y: "Y \<noteq> 0" by (rule on_curve_y)
  have 1: "L * (Y + Y) = (X + X + X) * X"
    using of_int_cong_fp [OF m e(1)] by (simp only: defs of_int_mult of_int_add)
  have 2: "L * L = X3 + (X + X)"
    using of_int_cong_fp [OF m e(2) [symmetric]] by (simp only: defs of_int_mult of_int_add)
  have 3: "D + X3 = X" using of_int_cong_fp [OF m, of "d + x3" 1 x] e(3) by (simp add: defs)
  have 4: "L * D = Y3 + Y"
    using of_int_cong_fp [OF m e(4) [symmetric]] by (simp only: defs of_int_mult of_int_add)
  have n: "\<not> (X = X \<and> Y = - Y)" using Y numeral_fp_neq_0 by (auto simp: eq_neg_iff_add_eq_0 simp flip: mult_2)
  have s: "is_slope L X Y X Y" unfolding is_slope_def using 1 by (simp add: power2_eq_square distrib_right)
  have X3: "L ^ 2 - X - X = X3" using 2 by (simp add: power2_eq_square)
  have Y3: "L * (X - X3) - Y = Y3" unfolding 3 [symmetric] using 4 by simp
  have "padd (Point X Y) (Point X Y) = Point X3 Y3"
    using padd_slope [OF s _ _ n, unfolded X3 Y3] p by (simp only: on_curve_simps)
  then show ?thesis using P by (simp only: at_point_def plus_cpoint.rep_eq defs)
qed

lemma at_point_add:
  assumes m: "w - c = field_p" and P: "at_point P x y" and Q: "at_point Q x2 y2"
    and e: "dx + x + c = x2 + w" "l * dx + y + k1 * c = y2 + k1 * w" "x3 + (x + x2) + k2 * w = l * l + k2 * c"
      "d + x3 + c = x + w" "y3 + y + k3 * w = l * d + k3 * c"
    and x: "x \<noteq> x2" "0 \<le> x" "x < field_p" "0 \<le> x2" "x2 < field_p"
  shows "at_point (P + Q) x3 y3"
proof -
  define X Y X2 Y2 DX L X3 D Y3 where "X = (of_int x :: fp)" and "Y = (of_int y :: fp)" and "X2 = (of_int x2 :: fp)"
    and "Y2 = (of_int y2 :: fp)" and "DX = (of_int dx :: fp)" and "L = (of_int l :: fp)"
    and "X3 = (of_int x3 :: fp)" and "D = (of_int d :: fp)" and "Y3 = (of_int y3 :: fp)"
  note defs = X_def Y_def X2_def Y2_def DX_def L_def X3_def D_def Y3_def
  have X: "X \<noteq> X2" using x by (simp add: defs of_int_fp_eq_iff)
  have 0: "DX + X = X2" using of_int_cong_fp [OF m, of "dx + x" 1 x2] e(1) by (simp add: defs)
  have 1: "L * DX + Y = Y2"
    using of_int_cong_fp [OF m e(2)] by (simp only: defs of_int_mult of_int_add)
  have 2: "L * L = X3 + (X + X2)"
    using of_int_cong_fp [OF m e(3) [symmetric]] by (simp only: defs of_int_mult of_int_add)
  have 3: "D + X3 = X" using of_int_cong_fp [OF m, of "d + x3" 1 x] e(4) by (simp add: defs)
  have 4: "L * D = Y3 + Y"
    using of_int_cong_fp [OF m e(5) [symmetric]] by (simp only: defs of_int_mult of_int_add)
  have "L * (X2 - X) = Y2 - Y" unfolding 0 [symmetric] 1 [symmetric] by simp
  moreover have "X2 - X \<noteq> 0" using X by simp
  ultimately have "L = (Y2 - Y) / (X2 - X)" by (simp only: nonzero_eq_divide_eq not_False_eq_True)
  then have s: "slope X Y X2 Y2 = L" using X by (simp only: slope_def if_False)
  have X3: "L ^ 2 - X - X2 = X3" using 2 by (simp add: power2_eq_square)
  have Y3: "L * (X - X3) - Y = Y3" unfolding 3 [symmetric] using 4 by simp
  have "padd (Point X Y) (Point X2 Y2) = Point X3 Y3"
    using X by (simp only: padd.simps(3) Let_def simp_thms if_False s X3 Y3)
  then show ?thesis using P Q by (simp only: at_point_def plus_cpoint.rep_eq defs)
qed

lemma at_unit: "at_point (emul (ua u) (ub u)) (ux u) (uy u)"
proof -
  have g: "at_point generator generator_x generator_y"
    by (simp add: at_point_def generator.rep_eq)
  have ph: "at_point (cphi P) x' y" if "at_point P x y" "(of_int x' :: fp) = beta * of_int x" for P x x' y
    using that by (simp add: at_point_def cphi.rep_eq)
  have ng: "at_point (- P) x (field_p - y)" if "at_point P x y" for P x y
    using that of_int_fp_0_iff [of field_p] by (simp add: at_point_def uminus_cpoint.rep_eq)
  have "beta_x * generator_x = ux U2 + field_p * 0x3a73bda14653802611b9bd905282c9c5457276c52117e06fda604798139d168b" "beta_x * ux U2 = ux U3 + field_p * 0x5a966bbd6d893961a9bcb1c32ca01836d1dd9c67b22df0023ac27735bd80a871"
    unfolding beta_x_def generator_x_def field_p_literal ux.simps by (simp_all only: big_num_simps)
  then have "(of_int (ux U2) :: fp) = of_int (beta_x * generator_x)" "(of_int (ux U3) :: fp) = of_int (beta_x * ux U2)"
    unfolding of_int_fp_eq_iff by (simp_all only: mod_mult_self2)
  then have 2: "(of_int (ux U2) :: fp) = beta * of_int generator_x" and 3: "(of_int (ux U3) :: fp) = beta * of_int (ux U2)"
    by (simp_all only: beta_def of_int_mult)
  note p1 = g and p2 = ph [OF g 2] and p3 = ph [OF ph [OF g 2] 3]
  have e: "emul 1 0 = generator" "emul 0 1 = cphi generator" "emul (- 1) (- 1) = cphi (cphi generator)"
    "emul (- 1) 0 = - generator" "emul 0 (- 1) = - cphi generator" "emul 1 1 = - cphi (cphi generator)"
    by (simp_all add: emul_def generator_phi_sum)
  have c: "generator_x = ux U1" "generator_y = uy U1" "field_p - uy U1 = uy N1"
    by (simp_all add: generator_x_def generator_y_def field_p_def)
  show ?thesis
    using p1 p2 p3 ng [OF p1] ng [OF p2] ng [OF p3] unfolding c
    by (cases u) (simp_all only: ua.simps ub.simps e ux.simps uy.simps)
qed

lemma unit_range: "0 \<le> ux u \<and> ux u < field_p"
  by (cases u) (simp_all add: field_p_def)

lemma if_None_eq_Some: "((if P then r else None) = Some v) = (P \<and> r = Some v)"
  by simp

lemma ec_chain_correct:
  assumes w: "w - c = field_p"
  shows "ec_chain w c x y ss = Some (x', y') \<Longrightarrow> at_point (emul a b) x y \<Longrightarrow> ec_digits a b ss = (a', b') \<Longrightarrow>
    at_point (emul a' b') x' y'"
proof (induction ss arbitrary: x y a b)
  case Nil
  then show ?case by simp
next
  case (Cons s ss)
  show ?case
  proof (cases s)
    case (Dbl l k1 x3 k2 d y3 k3)
    note z = Cons(2) [unfolded Dbl ec_chain.simps if_None_eq_Some]
    have e: "emul a b + emul a b = emul (2 * a) (2 * b)" unfolding emul_add by (simp only: mult_2)
    from z have z': "l * (y + y) + k1 * c = (x + x + x) * x + k1 * w" "x3 + (x + x) + k2 * w = l * l + k2 * c"
      "d + x3 + c = x + w" "y3 + y + k3 * w = l * d + k3 * c" by blast+
    from at_point_double [OF w Cons(3) z'] have "at_point (emul (2 * a) (2 * b)) x3 y3" unfolding e .
    from Cons(1) [OF conjunct2 [OF z] this] Cons(4) show ?thesis by (simp only: Dbl ec_digits.simps)
  next
    case (Add u l dx k1 x3 k2 d y3 k3)
    note z = Cons(2) [unfolded Add ec_chain.simps if_None_eq_Some]
    from z have z': "dx + x + c = ux u + w" "l * dx + y + k1 * c = uy u + k1 * w"
      "x3 + (x + ux u) + k2 * w = l * l + k2 * c" "d + x3 + c = x + w" "y3 + y + k3 * w = l * d + k3 * c" by blast+
    from z have x: "dx + c \<noteq> w" "0 \<le> x" "x + c < w" by blast+
    have x': "x \<noteq> ux u" "0 \<le> x" "x < field_p" "0 \<le> ux u" "ux u < field_p"
      using x z'(1) unit_range [of u] w by linarith+
    from at_point_add [OF w Cons(3) at_unit z' x'] have "at_point (emul (a + ua u) (b + ub u)) x3 y3" by (simp only: emul_add)
    from Cons(1) [OF conjunct2 [OF z] this] Cons(4) show ?thesis by (simp only: Add ec_digits.simps)
  qed
qed

lemmas ec_chain_simps = ec_chain.simps ux.simps uy.simps big_num_simps simp_thms if_True numeral_eq_iff eq_num_simps numeral_less_iff
  zero_le_numeral less_num_simps le_num_simps

end
