(* ===== verification/Order_Cert.thy ===== *)
theory Order_Cert
  imports Endo
begin

text \<open>
  The certificate that the multiple of the generator by \<open>a + b phi\<close> is zero, for the element of norm \<open>scalar_n\<close>
  that the decomposition of scalars uses: a chain of doublings and additions of units, in pieces.
\<close>

lemma order_modulus: "0x10000000000000000000000000000000000000000000000000000000000000000 - 0x1000003d1 = field_p"
  by (simp add: field_p_def)

definition order_chain_0 :: "ec_step list" where
  "order_chain_0 = [Dbl 0x17df05feaa87293a98919fb7954ca25dfe4cf7571715512745288cd5185cbc8b8 0x832ec6fa77febebd1bb112e34697f95a3f487b74c177432a67e7ced9745a05eb 0xc360a6d0b34ce6df4135ee7d59f87b33d2fad8cce43837ef3e995b6ed89250e1 0x239d55f347550e278e9dcc204f220cf6dd868f6ccc80fe507b5a2d284e7d21987 0xf94c3c18ea5331a869cb14393c97a7f1b42d6b399addb19e692244d428263b19 0xe51e970159c23cc65c3a7be6b99315110809cd9acd992f1edc9bce55af301705 0x173f08a513a1f47d03f0754d16830378acd291e4fb3a0a958334731a3b16ce944,
    Dbl 0x153577aa6b6ce62c27bb968c9387620b6112ea60e4e7ea6e65b54848a0ae78a02 0xa01672655a529ece1dec107049a0aee6030609e9414b1e60decb392da68b64ff 0x1b77921f0d3829075c45faf8b90e324b714c30b5ab4871275bde5b333b306100 0x1c1d0ccba203a2ca48030b07eefa5238eb2c893cb03e1f3f74e6fd0dcfa9b345e 0x1a7e914b1a614bdd7e4eff384a0ea48e861aea81738efc6c7e2bb003a9d61ec10 0xae1266c15f2baa48a9bd1df6715aebb7269851cc404201bf30168422b88c630d 0x231ea81b66b02729734e89fde70c45d98db8f16f1a3321967d861c6dab3297952,
    Dbl 0x3f18b810595005f65d4c27d08b8189c91923a34ce3e6e569a9bb0de896b2313a 0x4cf75a53f56310e6ea87918239a8e78577d5907badca6dd90eb13ccf4083b55c 0x47ab650342d401a7aa77840f29e24892b4ff77152425765703e947742446cc73 0xf8d2cfb135da35eb1d89bf245817cbac398e6ed22aaa021098e350a3083271f 0xd3cc2d1bca64275fb1ce76e98f2be9b8bc4cb9a08722fad057f513be16e990bc 0xa3b25758beac66b6d6c2f7d5ecd2ec4b3d1dec2945a489e84a25d3479342132b 0x3433b286587c9ab4729adafc4730f73fc06532b4659e122ecb0baf5c2b64bda0,
    Add N3 0x7d492b02f8f15f1c8681afc23273fbf52b43889e16526017fecc2dfe390df860 0x181e9519425af2a2454e716a471068940c13c48092ef67741fa6896e9c40880b7 0xbcdd39344571af115fcb2ba21df34a07e09bb29a8480ef0a79fa8c72818c93ec 0xfde9f0a5fc339c4c9ede87499ce905cf3c83f4855630b904f12e02e421e0a94d 0x3d5088ea7607b034056cf91708beb9e5ff673c7615e9255507b9fe8befd2dccb 0x49c1745d46a0655b0b98fcc58cf942c3787b828fcdf4bd5212bb448f02661f55 0x8378eb19537d0da80ec984be76bf2085490d17368ee0ab492fd8f179e46375ca 0x24188a6013dcfc11c439ee55d893c11f87fcf4370645f0c2cbbb20a88ed5fe05,
    Dbl 0x38ff784b17beeca1f136f0311c7e1507792c31d3f7407c394b873567fbb607bcf 0xb52c228edb7597d5ab83c7fc49d2c3ef94dcbd4548868a7a0a301afd88138c9f 0x3a1c498ae2af307a8cbb4a5f301e7348b1c0e22d89aa583e376db54a920ad910 0xcb0c391b883522c2e10ea780a219bc200c02915f90243cf161e6cd93cea56a4f9 0x1c3cda71b19846bd212233cea6cca92868ac31257cc8660c6b9c04d988fd5cc6c 0xf7df167a0d8604c4f13d574b3b5a8265f7e4c3cd2c36dabbd5984c797584fd41 0x6497dab44f1079a8c00e4e9b0b73f4202e9bdd1534e0842c8bb8d4fcc7ad4d907,
    Add U1 0x571aa6991ef1f6844a368b491139ed9f32024e706f71d4b58bb72cc00b11e40e 0x13fa21cf4172d8b31c8e518369e6897be50db1aada423d09b2284cc0f84ed3ab7 0x6cc15e5031f784a44162564f254c0a841b0c220691bd87162a63c09fd169e465 0x8f53bc847db1b710eb32faf14f4399ca7890169c923acebb2594044479d97613 0x1da32002568dae6bc9f9fa987a3d254900cbde4a398277017f03a236f85cb747 0xaac88d0664fd7969a1884f6de0dad97e3930cb90f76f898311d9b10518315f2c 0x20ed64663e88025e19280ec14a530b40a61626318fab8a53f6ddb2c5342248a5 0x3a1bef6fb0ebc0186e21c8e4e5144db2794614d9086dc10bbe5c640eeb143f1e]"

lemma order_chain_0_points: "ec_chain 0x10000000000000000000000000000000000000000000000000000000000000000 0x1000003d1 0xbcace2e99da01887ab0102b696902325872844067f15e98da7bba04400b88fcb 0xb7c52588d95c3b9aa25b0403f1eef75702e84bb7597aabe663b82f6f04ef2777 order_chain_0 = Some (0x8f53bc847db1b710eb32faf14f4399ca7890169c923acebb2594044479d97613, 0x20ed64663e88025e19280ec14a530b40a61626318fab8a53f6ddb2c5342248a5)"
  unfolding order_chain_0_def by (simp only: ec_chain_simps)

lemma order_chain_0_digits: "ec_digits 0x0 (- 0x1) order_chain_0 = (0x3, (- 0xe))"
  by (simp add: order_chain_0_def)

definition order_chain_1 :: "ec_step list" where
  "order_chain_1 = [Dbl 0x45ee7ab06eb5f43fe11dfd0bbb39c2e5139049b10f8080b768d47a869c79fff79 0x2f191957bf03b7a72b36a95d2edb818c6c8c03d654712938613a2058bffc4f71 0xfa4c95718cb89c28c86eabc327788cfb4d351dd711b4930a57325e982b14dcf0 0x131a6c4b7688931a6cfe57cb23fc4ffa003d7fcb88ca963ba9806e992f20ed45d5 0x95072712f0f91ae822c44f2e27cb0ccf2b5af8c580863bb0ce61a5ab4ec49552 0x9ab7e78b0293213b20c2fc84ddc3400f395c1752a284af750c196d2a3b7e998c 0x28b5c19a8c8c0ebcbc412f7efb33736d4649b8bb807bf647bc55a7b56107bb03f,
    Dbl 0x271765de1b102793cfdafa72cb7167e92eaafafd69af307714468ebf2d6b206cc 0x15d80b3815a9995dc5541e3592c1795425e54ba3c51c331afbf3c36753ef75e0 0x79a7c3a91bb03600869b4491a83a4c30f58ce65b51d3497834379b87b92d72b3 0x5f8232d22b0cb03d7ffc1656a769a8aa89e82b1aec0377e6eb3cd023156597993 0x180a4d1c87108662841d367317f3e40ca57a8377bbfe1499222fac30f71e7666c 0xe8234514e23ec86adff2f1635a332183d63c8848eaf73f458a314e99784caa1a 0x3abc43d3209617a01896d47f45bd6f75865c48b62141104a11256cc47eb0ab7b6,
    Add N2 0x27cbc938cdbe25571bb5bf5207e88134845885348a0b597c1cb38770b053b188 0x143051f4081efe2872465be24ee55d6f4919b5dab2d42a015738404bb478b1947 0x3236eab94e3617ce7e315e40a71a7c9ef6061eb0193303bd2e21113dc62fc095 0x926ece93230f997bf01decea7e5d634c76c4d5aa0aea4ec8ea96f4b5efc75c26 0x62fb9880cf07a9f01c48730e59468413a7d8f420d3a1fd326fa91c3f827ed24 0xe738f515f8a09c84967d57a729dce8e47ec810b146e8faaf49a0a6d0c96612bc 0x6dfb01961731d6ad74113429c099b11dea138fcb123721eece5670ce3aed0ca5 0x23f1bd3fb804d67b354c8ac58a4adfbd3ab1d87ce45894706446ae703bf43baf,
    Dbl 0x18ebff27598fd2f1750f25937345a0564fffee9d3dcd8529f560e25e6aa0f9b79 0x5b55ab0ca4953effb239f00f23a48266a537ef6c07f45e2971dcaecc3c702652 0xc55ade76f1682598c571bd0699f40d94aa802a49ad8daeae9c8b6b35c1b698f8 0x26d1965d158d0137ca45f19b4c2394d58ac5d8a69f9e1e26e640aed7dced3e4a3 0xcd13f01c31a773e32aac2fe3e46955b7cc44ab605d5ca01a4e0b897f2e10bf5d 0xac9de2ba9d73507be709380e91681b10b64e4f2cbb20dc609b2037856600ec63 0x13f6ec36707e16eebfff9dc61dd21d7b59ddf6836e88a43e0e2bf6780267379a3,
    Dbl 0x2019f9706d4d7269fa852f4181e02646f1a212c1eaaa4c8d03092174f802bfe70 0xec390e8e51428df7306533efeec57e0fb045d96999f48f807c2d93e8db06cc20 0x74f2b748a6f3408728ac2bebee373d4d9d4b14580e1a29277e20ba7271c2c4d2 0x40680fec6549bbb52558ac22bf2dcab2f5bb8e68bb3dd8fa5cb39c577a4f1c422 0x15068272e4a74e5119cc5911aabbcd0470d3515f19f7385871e6ab0c24ff3d055 0x5c90620e7bec4b0b07fd2c8d3d9019641d3f3b3cb079fd0fcd3ad0905f146998 0x2a2f26daa8232b14fc42eeee03b6307528670b363a108c4d7eb48af7d20dae7db,
    Add U1 0xc5c5d815e25f0b8fbf92355c25912c7692fb89eada337050146b5f3224a9abc2 0x104cbaf3652e97b252cf436a9e04fcdb96550e8831fb3ffb1dbd1c6e7a5354ef5 0xc97a4ab4c9c352e45814007ce5468936923912d647393ff1bf8139cb2ac51296 0xc57a426d47d5d31fb268ca88838b970dbe875f372c649706329c826d6ad5fbb4 0x98ca1777f6799df2575a49b57d1f8048838ff86f8317c4ba55ea9af0fd292ffa 0xaf7874db5f1d6d67764361636aaba63fdec3b520e1b592214b84380406ecc54d 0x91a3d643f88482f23d1f15fed4798d1ebf231bfc3b1fd70608a9ac4dfd2018af 0x878f4dbb5fa601df2c5731a7bf88819142a29bbf3d8592407a8c13605b6a6c5d]"

lemma order_chain_1_points: "ec_chain 0x10000000000000000000000000000000000000000000000000000000000000000 0x1000003d1 0x8f53bc847db1b710eb32faf14f4399ca7890169c923acebb2594044479d97613 0x20ed64663e88025e19280ec14a530b40a61626318fab8a53f6ddb2c5342248a5 order_chain_1 = Some (0xc57a426d47d5d31fb268ca88838b970dbe875f372c649706329c826d6ad5fbb4, 0x91a3d643f88482f23d1f15fed4798d1ebf231bfc3b1fd70608a9ac4dfd2018af)"
  unfolding order_chain_1_def by (simp only: ec_chain_simps)

lemma order_chain_1_digits: "ec_digits 0x3 (- 0xe) order_chain_1 = (0x31, (- 0xe4))"
  by (simp add: order_chain_1_def)

definition order_chain_2 :: "ec_step list" where
  "order_chain_2 = [Dbl 0x1b67cc06b35e2af6bef02b23d38cefc668ddac55f40f3cc6e6954612f57e3c0a0 0x29ea64f9300cc25dfe13ceee234ee88cc1bfe83dc4ac411d3833c93d3b9365f0 0x2871e5a7a3e2780979c6dd7109d83f8bf50d72b4db4cf2015a4c9fa9941d1611 0x2ef0f1f39d4e0e1996464f4a0e50e016ed117977a0e83da96da58f200cd4b7d29 0x19d085cc5a3f35b1638a1ed1779b35781c979ec825117a504d84fe2c2d6b8e1d2 0xaa05f79a61c0fd8de70f11cc120912184b63bf1f7c4a393d9160cf023e517ac2 0x2c375953a554140e7dba55f78d92d0ffda8a2d857a04db199cc3c6b7f0d4d1e61,
    Add U3 0xa2948df4cc0e7fa253afd47e86dec95d3b9968b57247599b2c904f37c7474411 0x1a122d0efc4a0b3c28597bd4291109247812e4c6977cefb97a4053eb454323719 0x108ea17a793cdf0dc35057f9200b208a02c8094f72851bc95ba48ac06613c7cbd 0xb7cd5f6edf8689ec32333e65fe1a72d01010d79f0a079bbdf42806c0c7a61f5a 0x674059de4405dd2a9c7e8619f7023210b53f6713ebf8f18a808c4276129b4335 0x70a48638c45bee1d47939f0b0bbdccbbe4fc9b15d1455643662498e7cc76f2e6 0xee1de780c942077d44db1b1e02870decb3a7fbbe9890f6038246fc4b4a878986 0x47897a83d99a60339917ade9c2ff94415f85426172e64491eb9e37eef7ab4562,
    Dbl 0x16e0e256a114016803d3d3389a8c5fd87b94afeee035ecc764eb9fdd70c06a05c 0x11d12093c0b2d814b768c1d7284566cbc0ac4a7063950167af220d0bade24b3dc 0x56ffa606a4a2c469d6b4c430ba8feb15882cf32e0127a42ab3de5eadce8ca985 0x20b6c73c36664f847f5def8fdf3741996adddffa05fe9bc74911a0042b6539bd9 0x160cdb9683ae3c5825b7e7a35438a87ba87e3e47108dff7934049a811f9197204 0x83bcf82558c40af5d82297a2957096dd23a7b4f548f18b4702cc9e75e4684182 0x1f8799de310a5ae4128f4524bc3866f73400a601b02dd96c5583fb731d75c1618,
    Add U2 0x172daf84b0f6cd31b0cfe18563456869de4564326d68c99d7554ed0ba6185ed1 0x165ad3ce2f8fd541dd44c3e85dc00380ffefb50d87dee4562f3dd4195322be275 0x20626526e9770159baae50a65cbd6e00b11f65cd97ac93cd7c2f307fdf3991e1 0xe0fb339d3af1c9d4117d723b3cbb91097af32f29fa7edd59e579c10fbfb79492 0x2193db104c93e5b769f56a9208692dfed39b55fabb3661c1f8562a9e0737871 0x7604726969b0fa95c53751f57dd45a0c0d39c40406a8c6d0ce649d9d0ed51122 0xe72b0ed96d30fa3e987df02e76512bc7256ac307f032d35e458cea9069ff677a 0xaaf75f9cb1c5dc0dd89aa811195a7bbcbeb3558246367929115e55276413d1a,
    Dbl 0x16d72d1d7f12a83bf88fab1fe8ada3839c0a7213c7af72dddc6538331eea55b40 0x42d673374f7e80933a2bb58c004827890fc65fc6f201e27d13f8b2e497fa530c 0xf6c4d080197ef886b4bc291a30c71fc5ef004375b28d4d5aaf8f59a5908cdd70 0x209b09de15608537be6e9fb55e8ed11d637a4c336d8cadd1d757c71c679ec5654 0xea36631d2172d14d5cc149210bf471438bf2ebb447f18fff35ea67692f2ab351 0x6d7fd2455216bca9be74aba905dbebb6d922608820f92aa364014e4a8202cd4e 0x14e589784a2e5b81615e38360025146207a076dd906c5eef04caebd021a7bc708,
    Dbl 0x3ce1174750bef4e0205d08bce8ac1894592e8425a3c946c99c37d3ecc030991ed 0x77ab0a8f048e3714b431ffafac90c2a6cf064bcd7d92736efddc1c91b861b454 0x19d18ed10b948b302571227570cdf9bd4b4b597e9ddfa8b2214c0854d407c787 0xe7a48d35b5356d3b48881410f74a619c3d694f4c62bffaca3625d02de1208329e 0x1dcf341af0dea6d568f4b06a4bff92608a3b4e9f714ada4a88e43514fbc851218 0x5da2b79a2f657bbe33643f4fab01d519ac1b9b212d82e868e2295a2a94796dfb 0x716c60907aebe7c22e8645d50c12e17c6fd3a3db4d71a70a31f0f0c448b34fb41]"

lemma order_chain_2_points: "ec_chain 0x10000000000000000000000000000000000000000000000000000000000000000 0x1000003d1 0xc57a426d47d5d31fb268ca88838b970dbe875f372c649706329c826d6ad5fbb4 0x91a3d643f88482f23d1f15fed4798d1ebf231bfc3b1fd70608a9ac4dfd2018af order_chain_2 = Some (0x19d18ed10b948b302571227570cdf9bd4b4b597e9ddfa8b2214c0854d407c787, 0x5da2b79a2f657bbe33643f4fab01d519ac1b9b212d82e868e2295a2a94796dfb)"
  unfolding order_chain_2_def by (simp only: ec_chain_simps)

lemma order_chain_2_digits: "ec_digits 0x31 (- 0xe4) order_chain_2 = (0x308, (- 0xe44))"
  by (simp add: order_chain_2_def)

definition order_chain_3 :: "ec_step list" where
  "order_chain_3 = [Dbl 0xb889803dd1ebe0f5fc1fd1f3d10453dd13f058791842dd0af4da4993d8be9de4 0x7f2eb19818110aa158fdd5f18067c6be61da5762c6e65b277b9dc25f314a648b 0xc2c32ec4af8e638142e31ce627ce282382801d6c0a487e07b7129e8498c0c8d0 0x8505f233602ba2b1f937c7df9b820b354cc1e45bbdb8f2b4c803650dc3ee716e 0x570e600c5c0627aee28e058f48ffd199c8cb3c1293972aaa6a3969cf3b46fae6 0x9e1debba47e2975994dca637b5c6bd833db076eeb802eb4ac03ac0cf4ce6143a 0x3ec117567e97afe26dbf6d08101a7e89f15fcb4342b8766dd3dbb947bed421cd,
    Add U1 0xa35f8b9ec4fc82c9536aea7d6e3559e9a0f2127cbabde9113a9afeffe47445e9 0xb6fb37ba4a4e582b12bd45afa6b8e2e3801bdf6f2385aad1a2dfe2d57e374af7 0x74c63f812e8cd3f980949fafafa12b2486288c00b63e35ba3cfc2c55f68dae7f 0x3247b1ec3e42a0aa0defed595fce6ff44f4fd8e7f616c3745ac1e44da9b0c628 0x6842cf751ad58e5766f1c264dcf66d349ec530ae76e21d21ef1a7c3091221b4f 0x1907b7cd8714bc2d734f32f8cc7ffb82f333044841431ba935c50ba35ef0ffed7 0x96b4495752993d1ca49b5f16e547ac9efa0a904d50e13e574a794d6e4dad9249 0xff9418bc919f6d04a8c85ac2f67b33f4a22ae55d7f5045a6827d0d2ed751fd94,
    Dbl 0xb507a0d1ba73eb7780752768f73bea68704a29893df382872e1266db50c2257c 0xb783aa2c68174af125226403296c08cf269dfedc2b371ff93993dcc1a590eb88 0x968910499deb279978f48d7f92134c3297593c0cab539f42f4ab7271989288f0 0x8003c9a2c226f230bb97307bd2821152c8a234a69e6e7933e6767d4d4f062a30 0x9bbea1a2a057791094fb5fd9cdbb23c1b7f69cdb4ac32431661671db111e3967 0xcbc96df8ddadf75f968acd53850d438d569e2380a5a1b49d9ab35838a6660057 0x6e226c5523e6dc4c128f9940b4023854366335da4f5f0fc0b7b9e3370f1820fc,
    Add U3 0xcf4f1b480cfb6f5896e94c9f3238670f60e72e4406c7ddd16cad75d3ab0eb040 0x1330ba64dca980432866a0d3408d585a0dee28311a7c84e5609a66bec4fbcc43a 0xf8a54cc9de3588512b5c0b9084af76acfb700a05b0a9c132c888206d0c9d9511 0xf37b9507f5ea29975916dac9bea5ec22c2a85fc7dde2866c3af3e94ece60ce93 0xa7e106905e5ee844544e48f4ad28a1d036599c41efb6164e49f7ea10d2af461e 0xa30d7b41a800fe021fddb2b5d36d600fd4b0dc44cd7118d6b9b78921ca31b68c 0x9fe65e49ccabf58382536795074aaa92cb1fe3ae4f2a775b53afc7087d80d8e2 0x840a4933702b03cba7efdc76e5791736588c34e2b96d64b456134892f4b5ede9,
    Dbl 0x2d1b552b951315009401e834d73e044fb764d535987d09b80e0f53ed23daabe94 0xced69873203b9c4484d5f122e77333cf8286b7db3774538995e8faf418765efb 0x7a33ca397d668ecd3016ac6585126622a51e30f98d1acba1fbf26380c580221b 0x7f29edc65f01fd2b9528c6357c196270d0d88d4ba4e38ce5b524f29199b2b2fe1 0x17947cace78839aca29002e64399386001d8a2ece50c7baca3f0185cd08e0a8a7 0x5dcf8c072038b1c06157a4f618d8ec298601d18d1719430066fadfc7dfded1f5 0x4279e6bdc00e5f1ac442463b7fc25caaf28dac0ad43939c7e42b9437f99354d5b,
    Add U1 0x37420d6e42a068b163a5d372139e07891379abdc714b0129f22702cb6390f079 0xff8a9c457c762cdf2589b6304974a4e45d7dcbe1a0b35d375e001dd95177f1ac 0x3728b6b751a802b5f4f58a4ed0c331448bc45acbc63cec2e4943474f498cc1c7 0xe8b6acb8b6fdccd6ecabc2c907b230013c4beba3dcfa6f8a699a4256c10f81cb 0xbed72d04e2fa9f3d21bb96b0529fcf080397a6c89445ce9988aa7d13b1e01bd 0x917d1d80c668c1f6436ae99c7d60362168d24555b0205c179258212904709c7f 0xa5ff8621e0d947006825b31ddb2867962749f6c8495cce5805790e2995c4ce48 0x1f676b3a49f34b63c4988d547883efd8538688dfd64a1c3d70b2f622b7105056]"

lemma order_chain_3_points: "ec_chain 0x10000000000000000000000000000000000000000000000000000000000000000 0x1000003d1 0x19d18ed10b948b302571227570cdf9bd4b4b597e9ddfa8b2214c0854d407c787 0x5da2b79a2f657bbe33643f4fab01d519ac1b9b212d82e868e2295a2a94796dfb order_chain_3 = Some (0xe8b6acb8b6fdccd6ecabc2c907b230013c4beba3dcfa6f8a699a4256c10f81cb, 0xa5ff8621e0d947006825b31ddb2867962749f6c8495cce5805790e2995c4ce48)"
  unfolding order_chain_3_def by (simp only: ec_chain_simps)

lemma order_chain_3_digits: "ec_digits 0x308 (- 0xe44) order_chain_3 = (0x1843, (- 0x7222))"
  by (simp add: order_chain_3_def)

definition order_chain_4 :: "ec_step list" where
  "order_chain_4 = [Dbl 0x24f135e2aa9820e37bf093e12223542734bc65c57493200e629cff88d8f330b20 0x83e81922cad4b56ab97c2007377038865a75fd425e7c1a601f9023b7982715fb 0x72a0f442f17a2a64cfabe8b33ab9ddda9e9b2aa08f7a7df1ca2e08c3d58500d9 0x554ba6e40179f028b11ad9b6474e30a2a2e281997fa7ad3ee34560d9aaf56503f 0x17615b875c583a2721cffda15ccf852269db0c1034d7ff1989f6c3991eb8a7d21 0xa378e61fe0cef24a9fc6981eafca41906a816fb0b3df862fa580e543964926c9 0x35fb8720ee4b671374dc4581bc9d065f5f0fe445a762898c5708232276045e821,
    Dbl 0xf7626eb4ae45f7a839f38eac862030e30ac7b95b9e4dd62676680ea710d089ce 0xa1f5c5cac7252f71d891724c70f231f41aa303579ebe142f80143be224968da7 0x29b5c960cd2fb53d4dcb235139921cbbb761ec5aa74850226608776510095f6c 0xef0f17799a8036c1e67c61f1131216795d581f75a62d3417d56b9090db40c23a 0x148eb2ae2244a752781e0c5620127c11ee7393e45e8322dcf6425915dc57b9d9c 0x1a8797d69f7eee6d9571d5afaaea19afa6c5acc71570b65ecaf891336c299f2c 0x13dd95ea3cd46cadec8e8f447462b356bc71eedf90c98f2e6d456b188e26d3bdd,
    Add N3 0x1d43182c126a83f641ec656ebb5a8d1c9a6e8a94450c2363d2936cc87c6a73d0 0x19fdeed369b53768eb19377626156b517bed9d2c3abd39d76984966f8d845edbe 0x2f893f7bc35bb493e526a2a93543ad5c1fee198c501debdd70c31514888366fb 0x9def983585296ebe5e830b27badf85765eb32e437051c9fbf73ce51107dfa425 0x358450fa58610b12c84c09b57ea00f1feb3cd3cf89436ae62f99710eba9f1cc 0x8bc6312b4806467eef4818297eb2974558aebe1736f686266ecb92530829b776 0x784f5697c6814fa9fd6c8f37cc982d3d215c3cd3a37718fc103a9bb131a25970 0xffa15a36a372964129adc6e6a65af3208fdf0d784b2d8f2e350c4d5eebd15fc,
    Dbl 0x2244ef2796bf47f6e1588adcb60ab7149e91ff5458c51b06e274c6b3c94efb0c5 0xdf0e9c2d133c587ce91547deccf4d5bb6951314b39698b1c2d66315eddf658bb 0x37e50beef59141bc48bd38259141f6a905e8154e5655b7fde73992b8a14c3e89 0x4966216707dd6543e6ed92a2890dd690a699027db6a7dbbe699253e97ded1ec1a 0x1660a8c468f982d0215c5d302299d8ecd58cb18f519fc11fe10035257669361cb 0x53e005378937b2a25fa198eeb01f132cd78595c4d2dbd6b63eaf5528913c6651 0x2fedcfe9d9374deb64a3a1e1f1024f61e2e2d0085fab14c647c53b0be37c53a6a,
    Add U1 0x935ab4a68777abbf1b6063dff42f8d0895c853142a7aeb18454909061f37f08f 0x141d95a90044b79f00ce32a703d45145dfcb3e78cd77870db72b8eea175abd53e 0xb941d888ba06e8ad0ec280481bbdda5613611004a349317e3f51be9b1e771eb5 0xef25f4ce31d866088c6bc2bbf8707f38ebd362976d5e25ab8de9b6e7254d6489 0x54d14b9ac4254a367c36dbe5271ebd6a41fb36bde559bb4670fb45f1ef39ed79 0x48bf1720c3b8dbb3bc51756998d177701a14b2b6e8f79252594fdbd07bfed62f 0xb0e6382c564bf0f09e9f3129dda72e7f1bedb2a3d8282684bd1d54b7a4c27a23 0x29df80cba092c4d650e9f877628136bf672918fe027362cd8f4e5f2d3b4e04c3,
    Dbl 0x2378a2bc656efbac5175a1d1d80b528b0222324bd66dab89331fe5a7cc54fb378 0x7223135b5ce2b1f7900e15e78cef18878f7f1ac32b3c9283861bb336bdf9f6b3 0x880c601b80d7f1d13c1ca7d75619bb927cf6ec5d3f5d30cea08b00c6e9fcd45c 0x4ea35587bce6be2a98b076ad3291353ea1db39f8aa572e130c7ab70c3dd7b13ce 0x1671994b2b1007437504f1ae4a256c3a66edc763a2e00f4dced5eb61f3b508c5c 0xbaa05e2913451c0f5887fd6803c9a749f69b14f44bb38bdb4107273ad1418804 0x31c1b7989721150680a54093f84eb5169e30dd5f8e0e3084ffd2f659a1697e757]"

lemma order_chain_4_points: "ec_chain 0x10000000000000000000000000000000000000000000000000000000000000000 0x1000003d1 0xe8b6acb8b6fdccd6ecabc2c907b230013c4beba3dcfa6f8a699a4256c10f81cb 0xa5ff8621e0d947006825b31ddb2867962749f6c8495cce5805790e2995c4ce48 order_chain_4 = Some (0x880c601b80d7f1d13c1ca7d75619bb927cf6ec5d3f5d30cea08b00c6e9fcd45c, 0xbaa05e2913451c0f5887fd6803c9a749f69b14f44bb38bdb4107273ad1418804)"
  unfolding order_chain_4_def by (simp only: ec_chain_simps)

lemma order_chain_4_digits: "ec_digits 0x1843 (- 0x7222) order_chain_4 = (0x18436, (- 0x7221c))"
  by (simp add: order_chain_4_def)

definition order_chain_5 :: "ec_step list" where
  "order_chain_5 = [Dbl 0xee6099bcd7720fa5423c0a9f6496f42709337b5aaae4e81ff83f4fe99d94269b 0x82a7935ee62f8ae0f8b675fff81f15c22ffd8ccd184fa17dd85b6a700d8b86d8 0x531c5403233ccc78e35bf673b6b477884e8199a40eb54c788a61a0afb3412c31 0xddf7c24eca8cef767ea49dc6e8dadf4a8ca269a9b14324ecad00db2292685610 0x134f00c185d9b255858c0b1639f65440a2e7552b930a7e4561629601636bba45a 0x4673dd0d753444b203d874cab2b09914742660771d2bf53e734e0460e608e0c9 0x11fabbeca8bac08abf3b833f093efab61f34ff4b36662d8a98e1b65594767d41f,
    Add U1 0x71405cdda3e4c8565e6664a0db0aeb37d0b613a72b736db3c16c51182e57b70d 0x126a2127bd69fef3372446c2217d2937eb41a63371f18dc60cf90e0aa63b6e796 0x82579d8e9de1374a99d00d836fe8c5bc63412222dd0020ee1a41ff18de9f1b81 0x3d5d277aef045425504dac4438ab4a3f974d82c4e870f6e1cc71de17c579eca8 0x3219e22a3b31f8f13c72b49459c01f728e5fb4ef63193905a18113e80b84d748 0x115bf2c8834387853930e4a2f7e092d48b73416df26445596bdefc296edc73bb8 0xf17f57547a512f575c8cd46eb9cbc2a80312b3df1c76bedc928902fd7c6203fc 0x7adf37346cf5508dcac91a7996846c790786a586dbec93f4925fb2badf1fb9dd,
    Dbl 0x39a5ac47428d605dc9ceb54cdf3f4527e8934647218f4ba461150561801278e7 0x40a2b3f0def8f2c25074fecc1e3eba5bf5e7e3edd3ea7f3f1fa431f15f805078 0x6b2abea48bed3e2ae060e077cf44eabda3a90a3aecb96aa3d16b1f7a52ed7b9d 0xcfb31ef436e946bf1fae0294c6f2de266138c0c952a620a271cf6e63a1377bc 0xd23268d6631715fa6feccbcc69665f81f3a47889fbb78c3dfb06be9c728c6d3a 0xd763db10406547871dad72b17a82a3a32b047c9ee8084b22919dc0e4e38802b6 0x2f554149af4e33b9d87588d1c7f29bb8e08c0745f949d45c6ea01c48914bb49c,
    Dbl 0x8b3b3411149e4e0c4e69b9ff0de96bfbf69eef16a86a3fcdba92e9f61f698a82 0x63b3c805f392a9a7f6d8c174d06248d7f0a15fed523195d4f98199cec099c193 0xc5eefca323644cf96000720df86b45eae1881eb3281e203dff11d7f01c78c81e 0x4bb9583b96da5b3d6537704a6d830653611a12f1dda52aa3312a490d9a6db914 0xa53bc2016888f13180606e69d6d9a4d2c220eb87c49b4a65d25947893674afae 0x78d899916b74b69ba49ab5e51ca753edc7092bbcb0b1356aa4ab4a714d22ff8 0x59dda8b7a3c4764338c2347d30803c710fc15e638662e1df4c0fa0f5e83b39b2,
    Dbl 0x1edede73c0a709d3ef7123bf0361d258e1b24cb5eb3665a0d202b32d58cfff5e97 0x735cb0c9c48dfaffbcff93c39ce452d040f2afdb34bb4d4c78db20d41fadf3c 0x2bfd0c82ae7a945d55c6bf46d14717f39702e7e8ff7bc2b2ae87aaa3fc7f530d 0x3b8fe29b3363e7b13cb3007d7c6e3f60b045185245d76319e2a9a863e52df5c68b8 0x199f1f02074e9b89c0a39b2c727242df74a8536ca28a25d8b508a2d4b1ff97140 0xaeb909d4115479b598e2586c9b2d5464188f88452348a351e62bbad1557b8c79 0x316f3e2b3444baf073bc89f34a0faae6c0ae2b56de5c4aae2cc069b99d9bc005e1,
    Add U1 0x69db46219fb6c9b32d1de3a30c28be03960ca55351372c8bc21c56feef6c5cbb 0x14dc159fc4b62274effd9a34efd3ff3136b9914f22e526626ab6ad6b61a78c0ba 0x8a022dbf2a80ba89aac65398f14e16c86a353aec47ea4b95920f6dc238964f91 0x65ea9bbd2944bc80c9f6792d4a6de4d23401fcd5715971dd709b302e6522878 0x2bc59b58a5c19bf49aa443cd2edc35c8b9c9d6d31b5274434895efd35d226f44 0x1259e62c6dbe64895492757b3fca039a673c2c81ba8662b94d77df7a0162d26c4 0xd918cb035418dd806254e62019662af8a988cd77d185108a7985134278a3a226 0x79697571efebb2d33c3f94c485c787053deda05e2f5c9407767213ddcad1c203]"

lemma order_chain_5_points: "ec_chain 0x10000000000000000000000000000000000000000000000000000000000000000 0x1000003d1 0x880c601b80d7f1d13c1ca7d75619bb927cf6ec5d3f5d30cea08b00c6e9fcd45c 0xbaa05e2913451c0f5887fd6803c9a749f69b14f44bb38bdb4107273ad1418804 order_chain_5 = Some (0x65ea9bbd2944bc80c9f6792d4a6de4d23401fcd5715971dd709b302e6522878, 0xd918cb035418dd806254e62019662af8a988cd77d185108a7985134278a3a226)"
  unfolding order_chain_5_def by (simp only: ec_chain_simps)

lemma order_chain_5_digits: "ec_digits 0x18436 (- 0x7221c) order_chain_5 = (0x184369, (- 0x7221c0))"
  by (simp add: order_chain_5_def)

definition order_chain_6 :: "ec_step list" where
  "order_chain_6 = [Dbl 0x437f7d4c95ff94e2b259e59b7882f3a5c068876e61a1fc3b306fde57b1c442d1 0x72017c7f99af3c14392cf930e9c8c70eb607a05ba405a0b6b6532e1431ecd474 0x19f9686d12a33533f6945a92ef08f90286e245551553bdd960f7df217e2936fc 0x11cbfb13a5d47ce961514ea0b6c320cbab54f820a7ae1c8b9f4dbf49135d5e5b 0xec65414ebff11694160b0cffe59de54a9c5dda7841c1d9447611d3e06828edab 0x8e387a2998417622f34b50af1cda84bae434c39ec2533f11fc4edeb048e2fd1 0x3e543a072bc319f76bd3f30578beb6643873f306f40815c1fcedee5cf315609c,
    Add U2 0x4f6225b88dc53ebbffcbc00632f08421ed3ff489c09bdfa5a4d0dcd7324f83d6 0x1a2b37a7c8afce353b46ca823a7872a230045feb169c22bb446c3c121828f54fe 0x81d5e9331c24bdbf1addfc907ee7af12c445bd1287283fb0703044cc4232c923 0xf281d99a6d57cb87c004c183b6acd9cfb3e7062ddf3a14457a4ea548b2293e5a 0x189db8e8ce5b25c32dfefdc8271300679c434967e14150976d622e696d849aad 0x27778ed2a54b69ac368f990f385c1f32d2fb3f273619a993e6a939d7cbfff4d1 0xea2baa2877e0ba50bf52b052181115d813da335bba235cb78f439fec832011c9 0xc3d06a86913e81c2abc9fae2343251cef53dee377eefec18ba209c447f756a4,
    Dbl 0x19be59cd7f71693ee42291470a456642ffb4eeb32c15b0ef8f644d6de5e00eb8a 0x405f019db61ab3722b95be442c8ac4fdf31a547b54897fc38723467b1aa656b8 0xd4afe48cc908e0142cd660745b0fc9e589078f1a8903ac7fd400bf71e74ba14c 0x296bb138f6dda78b82b65b368f93727f9c56d4cc2483313b6c1bde9b6539d30dc 0x11dd1f50da44eeb73932e610f5b9d0fea2adf7713563667c5a64de5d5cadd993d 0xd0752b7f661d90cd82ff1e13d7d9fe9855fe263fc1634443d0417de42f953841 0x1cbe0705a2c8695d50ceb34ae197489e4a98b41fa7f36f18e0f0a2309d4e6ffa8,
    Dbl 0x1f239c8842c696175bb698f4269af5fde0a3cb94efe9e70cac747b2a629bdb421 0x1194a95cd08b06eeb511db13287ee809082532ce6fa580d23257b8fb3ead3f58e 0x4c2eb003ee5b041a20a08574b2a537493b078053373c50374513ac8f219db747 0x3c9a4dd2d24b48fbdf03d017ff38f56b4c26a41699fa1ae2375c55ca3473ed13e 0x188813488daaddbfa0c35daffa86a929c4e000ec751c75c488eed12e1c5ade634 0xc32c4ff39b7ce91642ac52e93a538d419760bff13f3ff522c0f09021990ef36a 0x2fbe3f06683a0af7e84f2ed06007094415b169190ae96d9cd3cb8fa2d3ed1e047,
    Dbl 0x851cc9359839c33e24e1bacee7a48e9fff37991463c4def29c8ad215de2dee4f 0x86f4ac7fbafcd419091fef1bc4c426d95636c6b9acd14493579f9addf6598ff7 0x74798a89d0c8effab8137200a8859457d084a2a8433f7a18c5b17cb19730a72e 0x4536ec4e520a85c45ef1b003e9241f3e6cbe6b94280111e277bfe189880ab16b 0xd7b5257a1d92141f688d13740a1fa2f16a82ddaaf3fcd61e7f622fdc8a6d0c48 0xd6af1de923a6d4fce61e59f4877e0a3db07dbf19de7adb22a5d55c6c49ba1829 0x70295dd2ede9fe078809a49673e00c4db7cadbe0d71825c5f03ebb47f7ed696b,
    Add N3 0x2f4694009c2cd2a0e15506b5ec011fe003116cb1070a1d140427a7297ac5d074 0x1551b2c0d97ba3bd1474b28b2f2633d7ba5b71c760fdc738038a061ac511ea5fc 0x3efe07b91022d1c9f40db457746a23520df2b5f1ff0f93ee533152adc8c704be 0xe877117c34d233f54091207651a990ca142876976bfe7c85958d24c4a5b991dd 0x8bafdcd7f3e926e7589200def213f64f24902daa759a2f90c6f55ef1d1c4996 0x8c02790d9bf6bc057782518a56dc038dbc5c2c10d740fd93302457ebf1771180 0xa6ddda251af7eaa0d513bccd6e63ab8401dde31b4a0f6d153c62b38f6cd80baa 0x19db0dd85cc0d58a2c996c024461840f387a4a9a91b4bb9f6decde5fe8b3fc63]"

lemma order_chain_6_points: "ec_chain 0x10000000000000000000000000000000000000000000000000000000000000000 0x1000003d1 0x65ea9bbd2944bc80c9f6792d4a6de4d23401fcd5715971dd709b302e6522878 0xd918cb035418dd806254e62019662af8a988cd77d185108a7985134278a3a226 order_chain_6 = Some (0xe877117c34d233f54091207651a990ca142876976bfe7c85958d24c4a5b991dd, 0xa6ddda251af7eaa0d513bccd6e63ab8401dde31b4a0f6d153c62b38f6cd80baa)"
  unfolding order_chain_6_def by (simp only: ec_chain_simps)

lemma order_chain_6_digits: "ec_digits 0x184369 (- 0x7221c0) order_chain_6 = (0x1843691, (- 0x7221bf7))"
  by (simp add: order_chain_6_def)

definition order_chain_7 :: "ec_step list" where
  "order_chain_7 = [Dbl 0x1efa8199c1332a034284a07b1f781342c82da64b3140cf277242facaf6b3bbe83 0xce100f573caae7f5f7f65b1e2fb88e889a46370ec8e0b277e0918d6bee31f2f 0x85444610b2715173b5d366e54722f15733c345364c76e39df541e4a200e4cfac 0x3bfab816b31a6d4e342b128269b109ba1d8674193ef6522fb566833d97ffacecd 0x16332cb6b8260e2818abdb9910a869f72e06531611f8798e7a04b4021a4d4be60 0x18af264b91e5ec50176d263b93ff54f2f522d23a3c4d205bd406ea1e188cdd8c 0x2afb87432e31b5e18dc7866021ba84c78e96463c48875ecba1dd1b04d7a707036,
    Dbl 0x4441f04825f68006cb7fef789d25b3cef3e533f235ef832893dcbaeb9d717a4e4 0x27c30f6a819235340a1f50a6c047209f125b30b733e0bed5d83b8040b25a050 0x9f5fa574fbf5ceb935065ea6ef3be19527d9b3d70fdf4f36b0b7437e2cae6cd 0x123318a23a5596b42fe53dee4b9d8ff18b79b2a938b2829cc9457e48a43bf90805 0x17b4e4bb962b1f488228300fad82f333de145a9f8db78eeaa8a3670691e19e50e 0xf2421a9a66ae844f6844d7369477a1e313e23ee00ecd60a02803b9590ab29d88 0x65227f02c58bf8ad9da7a1e8b9964ab1aff8bcb984eb0e6ea188b40d2a3df4bdc,
    Add U2 0x6673c5bf10c83f9b7b8fc0e5dbf54abeaad3b974649301fd401f84e992317110 0x1b2b6e8924de0bb9c17b09ccc279c650c34aaa8c90e17f49a3cb02c0b1deda52d 0xadf9789ff8b01b3c6491cd05dc4a00529d6aff9491e6e80a6aa8a95c0c064960 0x61c3303a7533a96739ab966262674b93bbdfd177be7bf63928d6bb27b8d885a8 0x290075ef83c8450749f56ba2fb5f9f7093cbb2bbcaae27493c44783b6a5a3740 0xa832ca1cda8bb38459a4cf880c8c7285969dc9c5b281feba4234b90f29f25d54 0xe579c3539e8f8ab9b44313e7ced058fb35ac02987df005cf33b460ad896606a4 0x43504d44e87d94174b6b84493e33f96eca67715fcf049c5e8451451873dea32c,
    Dbl 0x85efe5932125ee41ea1778ebe3cfafffdffbfd6c62462ca6e0147df1a440c3be 0x801e1bc6c8b9816e822b28e131b60cf9dcbdb7e12c5ac5044be8d16a13293650 0xdf0cbc229488a20dc63ee1c43dd49c426aa7e89b6182d865b2f29613f75db947 0x461325595709dc404e6bd505739a6755cfa04868bfaad24ccd36242bd8d4de23 0x82b67417e0ab0759736cb49e2492af515137e8dc5cf91dd375e42512c17ac890 0xac03e2b372b192bafb8956c95dbbcc38e0d6ca90f172a0b1f2488831b0eebf72 0x446347df1f8e832978746cca2b6d5c383f3ca725f30d1e28f3384c1a98298356,
    Dbl 0x2818db4d4498758d44489d4ed632e625a627f8127a47e69c016ca06a81689ce68 0x11724535dd94133c411a62604dcc1a930a03fb1f222b27ac13c8707b97f97f503 0x1326c01817800c71218ec8f5301d2812dac252e39dfc3119d69a633023dc5dfe 0x647c6f1ffc9cc015f0b41d44c8dad8a34c5e97526600a61a72bacb687e5b3308c 0x1cbe5fc0a7d08959ca4b018cf0db7742f8fe595b7c386a74bdc5832e2d3815778 0x28de31436d6c83939bb4863d6e1dc1146deae623ee867d43507568dec078b935 0x480896e9d289d2fac7f5a1606f3675269c584afbbddee268a250ffda770c12e37,
    Add N3 0x9b4543da108e008568f9dee6f3ba4124fe7919b697cc61da390bb213d13ecb7f 0x1b66df67f51031f5addcfd1be6acba9c09b796c3ab51fbc7f27b77b2dc472ef2c 0x109eb3416c3df05bd7040e51da173273939edc7e4f084a0cea1d261d188784e0e 0x40043d33ce75787d7902161535e35cb8b77d34ea54c366939bc3bcd9485e0a01 0x5e2cf2e7b594bf985c39f19ca8ff68cae6c3625cebb8a76cf3d239a3d3219ba9 0xd32282e4490a93f3a88cb2dffa39cb5a23451df94938ca863ad6a655db7e502c 0xfa8c3a423de6293650222b0f618acac66c0f8f0f4ca1066b7f36a91a02029702 0x800f0583610d92b34627a81fe0edce9d227e5fa70e73322d990e11e58d9757f3]"

lemma order_chain_7_points: "ec_chain 0x10000000000000000000000000000000000000000000000000000000000000000 0x1000003d1 0xe877117c34d233f54091207651a990ca142876976bfe7c85958d24c4a5b991dd 0xa6ddda251af7eaa0d513bccd6e63ab8401dde31b4a0f6d153c62b38f6cd80baa order_chain_7 = Some (0x40043d33ce75787d7902161535e35cb8b77d34ea54c366939bc3bcd9485e0a01, 0xfa8c3a423de6293650222b0f618acac66c0f8f0f4ca1066b7f36a91a02029702)"
  unfolding order_chain_7_def by (simp only: ec_chain_simps)

lemma order_chain_7_digits: "ec_digits 0x1843691 (- 0x7221bf7) order_chain_7 = (0x18436911, (- 0x7221bf6b))"
  by (simp add: order_chain_7_def)

definition order_chain_8 :: "ec_step list" where
  "order_chain_8 = [Dbl 0x887e053b965dcb3fb7964fd8c1a396174cb62c8b3d10d6144c0c00b15cc660d5 0xdb254e2a39c616edae45c00080a2b8f1f4f02788f2cbdf452379d24789262e7f 0x483f1d72750d753e43a19c8b7c1b91882b2dceefbdf3c999cf68b754de524de 0x48c6239876870e061746a5e35e5157c66e62dd54ecca4f9cd0120009c7e2c9f7 0x13b804b5ca724a12994c7fc4c7e21a3a034ca57fb58e429f9fecd3162fa78e152 0x4f4384c25498243681348474ed25e8af892eafb8b92709a1f92b27084bff7a96 0xa83777a141c0ab849347957b37b0152c40683e50eac0d6f12b87583e8b9ddffe,
    Dbl 0x2d09ad7849187e5a4aa0e61a447aae346419b2d6d1fd9b991ba96605a2c9a967 0x1ba6902705bb879ff12cd4a4c7b416504d1419fd812af43ca20af5d1e685c158 0xb00dcc2bada4856627d9c09781079d8bc6e38c67a76c289e6571007cb339de74 0x7ec6759f1b38b7457314820459dedc1beb61179c0a325bc9852701c725faf8f 0x547625ab79ac51edbc60593136ba1b8cbbcf5087547313fb37858af79aab4299 0x85f5327f30ff2fc936013869a623484746d722cd5a56690840ad63e99d162d33 0xedbf601fe5ee09186150b242f7a41195c9eedeeb0f7fc631392470ae0f3f81a,
    Add N1 0x5a9a973c5392594526cd9f9aa5eeacc35bd5fb2a2a0dd686edafb12615cff98a 0xc9b09a534c3836462dc6a1fe4d7f6d7b3bb870738662003af48180dd63be3553 0x4761e1a4d12a79763d89f291020cbc601d3b0c94e871b574b10c2ff9b75757a6 0x2a3385d537a36806877730930cad1332282ad2aeee05ce659936073d5d9dfb6b 0x20110fb0b8afaba5f3ace95a4e91748fccfdad815c82580c59d38e0dc6e1b5a3 0x185da465676011d5fa0629004745a8a599eb8b9b8b9665a38cc3af93e559bdf38 0x50cda4e219cf7081a10fef7fd2618fb0b7505212cc043241dd3ab43dc406fce4 0x89fa285853698019f171a2b61d1e9f21278c76d85d5be874ef0206aaf2c6cc37,
    Dbl 0xb675df46f5626f5ef732839f01b6f74b8bfae19a82940cf2690c544c770e66a5 0x5e4ff88396774da2ec10269f37b7c2904b1bdbc5549e6ca039263d262484d9d3 0x1370da03a8fb2882cefbb865df7ea0169186fd90352f76f5e95713dde834143b 0x820bcfbebe80f5816f5bb0f0d10629028df01cebead2c7af729638b377b51f38 0x116c2abd18ea83f83b87b782d2d2e731b96a3d51eb8d6576fafdef35e7569e35f 0xa8ea463d6a7019d6a32c82272eb207ded9cedb93e923819131a3470f13c4b3da 0xc6aec0405a4bd4d962979db441c83f0ecf26cc84e28998efbfdf5ade2a8c6213,
    Dbl 0xeb667264018f00549d3d83ae654ad0e4896ead4d232c4d6c1987034acc95376a 0x13237784542249f6237150e615391a5f61e5e28b0dfef9e22458b808b1edddfd3 0xb94fc5e463c9ce02dd675556ea6bb01523170a16b4297852ffc6c3044737ba4 0xd8753f02f5ab0104302248cec608874fd9801f45376eee5bc8b592de76da6456 0x107dbdda562be8ba2a125431070d7e5153f558ceec9ecdf70b95aa7aca3c094c6 0x383da26bf580cdf3223163db213d1afb4b57284e65a4141fbd0e1f4682fef89c 0xf2a06bf81dbbbcb304513ffde3c82ab58bab36430b39c9d2849c84f40ffe615a,
    Add U1 0x8277dcacfa51cf6a88c0b2cd67d3322cd5cfd0b22a209bc71c356bc8599b56e7 0x16e296a20b3a01ecc27c9ed405fe05005b06a8c39c28b915429f61529d2849823 0xba9c78c7f17bacd2a87a6269c33c0ff988effa7623450e37afb0111947303ed7 0xb0746ea0dd6832330c5661ed8dbbdd9e1b53646754dd806ae17df18bcf632807 0x427df43e954591d4f7208e32cb3ab06c2f6c13933db09ba8ec7f2ef059aa7832 0x5b208dbd68d46aad21801367e0eadd6336de0c3a1665171a4e7e7aa375104fcc 0x58114a7830ff16d378386c42d0bd513a66e6b0a0c709f946ad2c311fb8ce9531 0x2e7132a99f1083cf8bf468710443e9333cdf147fa07264cec4b373a7380b3469]"

lemma order_chain_8_points: "ec_chain 0x10000000000000000000000000000000000000000000000000000000000000000 0x1000003d1 0x40043d33ce75787d7902161535e35cb8b77d34ea54c366939bc3bcd9485e0a01 0xfa8c3a423de6293650222b0f618acac66c0f8f0f4ca1066b7f36a91a02029702 order_chain_8 = Some (0xb0746ea0dd6832330c5661ed8dbbdd9e1b53646754dd806ae17df18bcf632807, 0x58114a7830ff16d378386c42d0bd513a66e6b0a0c709f946ad2c311fb8ce9531)"
  unfolding order_chain_8_def by (simp only: ec_chain_simps)

lemma order_chain_8_digits: "ec_digits 0x18436911 (- 0x7221bf6b) order_chain_8 = (0x18436910d, (- 0x7221bf6b0))"
  by (simp add: order_chain_8_def)

definition order_chain_9 :: "ec_step list" where
  "order_chain_9 = [Dbl 0x2d7ee1b64c873f94cf3bb779539d150578e39b3fbb2fa1c1cc5ec772c05e5a8e1 0x87f520c134d2992eb12ff1849167bf0d06857e227f83cc96ea6dd30c94547aa1 0x4eacc39adf3f3a900ff0a0b8868a096d85702e8cb90065f03a041238f47d204f 0x815da3d0d5cd5d38c498e5b5e0847ecd4e77724e93aace9e4807852187ee0a3dc 0x161c7ab05fe28f7a2fc65c1350731d43095e335da9bdd1a7aa779df51dae603e7 0xd82e1c014db1fcf43bc209ad4b27ebfc8cc6952e6ad918b36eaf8e9b19c863e9 0x3edf7142a5a65544fbe1eebdf1187c5a85c2ba8dd6f941c245e1bc8f5825a75a3,
    Dbl 0x12246149fafa644f173859547ac3171c331d50123f7aaafc5e24e40fd1a9e5d99 0x1a1b5a021c2391f61e679a4bd289479f1f02fc7f8c4ccd1806802f0fd105aa5d1 0x751e6f1a27128e503f6a9bd6f2652b106dac895b2aa8b8cb2f68b8f1b05aa28d 0x14922d9e912f21a2e6199ef7dfc386f275628ff3b0496c6d6829a1339399b729a 0xd98e5480b82cac3fd08604e19424de5d17c3a5318e57ad250a9b5946442279f1 0x83deb7399b50153f54357ed5e38bc73c5eede85280ef29f9e1f58c5c31b656cf 0xf6aeca2bbf1b1a530dd8f8aee5749e8a069174021058a90ceed8424ae8c2e87f,
    Add U1 0x3a7a93a690c6251f7ca7423f3b1ac08d069ea9966087092b2fe02a1db230cf1a 0x1049ff764d2ca2d5c1635c6bedc21dff694ef73800325700e2a89c868669d713a 0x3b89089a2bfb47b87da51c4fb3c5b21b6efe9c545536aa154ea1dcd68f75a1f5 0xd6f6fc5c30ce5b19dfafa79fcedd6248f0522b9931ee4cb70a7e6085b6213a39 0xd5bc59889847c5147f86a8e685e17ca2fe62e6be239a68d51aba2eb0b457a9a 0x9e2772bdf64433365fbaf4372387c8c77d5a5dc1f8ba6c1424ea586afa396483 0x82613a780aa0cf99de9b88961bbd66c6584272177d8b6e6a3e642073e460614b 0x2420aa03463ae5ae540d080b465c7eaf7b205396beb56215169f9abfd347e80c,
    Dbl 0x2f40ce960165038517a942b6e283da580ce0e6cb637533739eb20b369e525fad3 0xe495d38d037648387e7c9d2881c299ac53fa735bc608f398d3c7ecc0cd3ffea1 0xd182b706f130ccbd6c65823ba74921d7f493885f24aba293bd8190f46e982467 0x8b8dc4306398bf0d5483f0f759690cac85dd2169074fbbaa7a5683ffe95da4bf0 0x1057445553f9d8e5c734a256427944070fbbea33a0d42aa234cfccf9047891201 0x31dce0f642816ed235ce28fd875d8a2e22a84c8615987fc4d78c5c19babc1c3 0x304288c8bf55ac67996b4a37902829b80edd6fe0a67a06d940654c7e8a174f44b,
    Dbl 0x52a7b0a8aadb3ccfbced6b0ea9a45476ccd630e70a1ba4f173ba9aacaa929c7b8f 0xc91d03a7b85bcb599205137797bd7b8478479c031bf19539e6123a5f0d8e29 0xdcce86cf4abb32f6ff27f319e56ea4dc21403106754543d583d17a50475cfb47 0x1aafdb04036bb70c9175f34a7d69e089ebfebe59c602b366941532f5b521bd3d37f4 0xf4b43037a67599c66d3d8f21c1da7cfbd3535758af665ebe39b016a3273b254f 0x9c1c49abae7b4210d2736438bedb883242bf3157be60f6ba6eac4850c4d7bc4a 0x4f0201da62566139f8111b9d8244282be40d0c0f93aa725ac0eeafe35680fbea2c,
    Dbl 0x26e445dedb7991f0863b89f2858b2a055a3d4f21e890a7208e90f6bf72ce4a107 0xbb91fc9f51c2ef4aabd1e9cbce2aa0827d2d3700395c622c5845478d9b9ead57 0x4055cb99ab814cf3b1b621cde1d6c63a7165845d99ba176ad7a4a8722ce48b27 0x5e8904ab130ec3047f6c5f36d7e4951d25ed05844587de2d6875d9fd2de7cb044 0x19c78bb359f39e6034d71d14c0397dea1afdaaca8db8b2c6aac2cd1dd1a786c4f 0xb251de8e4daa97d6e95ed4475efc75e9d6c92ac08f2772f5b9bc368d41d0c094 0x3ea9b7e44e2b5c7b4eb304d8b6e7d428897e7412ec2e70937b361446da46dc2a5]"

lemma order_chain_9_points: "ec_chain 0x10000000000000000000000000000000000000000000000000000000000000000 0x1000003d1 0xb0746ea0dd6832330c5661ed8dbbdd9e1b53646754dd806ae17df18bcf632807 0x58114a7830ff16d378386c42d0bd513a66e6b0a0c709f946ad2c311fb8ce9531 order_chain_9 = Some (0x4055cb99ab814cf3b1b621cde1d6c63a7165845d99ba176ad7a4a8722ce48b27, 0xb251de8e4daa97d6e95ed4475efc75e9d6c92ac08f2772f5b9bc368d41d0c094)"
  unfolding order_chain_9_def by (simp only: ec_chain_simps)

lemma order_chain_9_digits: "ec_digits 0x18436910d (- 0x7221bf6b0) order_chain_9 = (0x3086d221a8, (- 0xe4437ed600))"
  by (simp add: order_chain_9_def)

definition order_chain_10 :: "ec_step list" where
  "order_chain_10 = [Add N2 0x257788dbb32fd48f74e6f7ab05b2cadb3be4445cac6020e54307a0b4488f6776 0x17c57174ff21ecb93f94ae0e8b4b95ceb15c2bfa8e55bd222d016f7d0d3d400d3 0x37aa2e2f11435ed8f0eb4b4519c4bc1b1d9e9d6f9e41d646d22abd60930093d1 0x858f443417f0617a01c044d0cc559b17fbb3995bf9ab51aa460ea5fb8407a754 0x57bc560073694d7f8437829759c44b022f3df5fdd3a267a67e8feb76938dc42 0xbac687659390eb79aff5dcfd15812b2275b1eb01a00ec5c091960275a8dce002 0x52c8dc3b16555cb4d3e47413bc71c3d100dea5ff85b832cef0fbd1656855e49b 0x1b55e7b4610b0ae43a360f6b3457b45f4d39d468b16254a2c6f62cfefe7fa1d3,
    Dbl 0x21a6ebf8696357d41dc8be63369f921e3778d0ee88e29879725464b309872d8f4 0x8b31570230f7fd0052a60af0bbf81b876c45fc8eff099653230d2f358a1df5b8 0x30d55636a636514eedea07930172463050357e04b09ca97df8e90ba57927c94 0x46c75acead64c0355e09fadcbda929081d0ac36fbc62932da93f5fdd3bf753eec 0x18281eed0ad8cfc6512e1a4579c3e76b4f6b0417baea18712668015402c7526ef 0xebce818d22b81071fc5bcb43056b17e8022f182cd0508a474656b79ddfade9f8 0x32cec44e14e5e73a97db0c976b6a53d143a47ee25403259d3e3c6160fc2a34317,
    Dbl 0x3c00fafc5db63dc1bc821955b7ee2f1a89da32e9a4044106e079f4d8206ef379 0x6e6ea9041149d9beb344a5d1b85b2b345032a217acc0bc4df3fcd7c7f3733040 0xf07e4c70bbfefef208b00358f0a8e6aa3f97598189c1b0812d572422891a86c7 0xe1075a741ff4cc36212e014092967ebd61bd279d31743796c30605edffd0a5e 0x128f08f2ae646622e62e9d203f6e3db8c56bfe5ec1481a16b2376c96ce77f1fc 0x2d10f7e2a47e6dd54e287f232ea3346c97239b508247c2317558a35bc44ed6d7 0x459984adb34818c8b0a0c014ca95eeba721f6f1f770481d29d1258561a99d43,
    Dbl 0x7f4e57f717ee14f0ee383daca03ecddb7ade6af42528960e7f2a5eab34ad6a856 0x275f8b3f2cb01f48f3660876fb345b1f7bb1e0d85efcafe2f51bbd7e5703dc6f 0x7270623c184e1eded1b47edd31894ff54ddd141e255130624839a48c4e6da2f6 0x3f4ed340e28aae9ed111c77b0321e22d214c72342df88c82cafb1c8c2e8a4b81a0 0x17e0dea34a3b0e01336fb847bbf1f96b4f1ba45636470801ee51d7f953aace000 0xd2815015f7d9b3c01996ae2095faa2e823b3fd684969e9159d09b03a207705eb 0xbdfdd2b4f6fa0bb3f871e11db859a422a0899c41272b24c5d5a6be29473ae2b22,
    Add N1 0x86c3fc221efb88ca1669d80c04cf39c06ef7c7a8403adfa26678fd89cc65a49c 0x1074e0442e18e9ccd83ebe3b89cfdbb11b4bee8bd087cf87711b8dccdc88a70d1 0x8a9c69fc256eb74eabc66a6a1119056e5c4582284590942e73201953ca881730 0xb4e42856d4f4feee136389504097a6fb36a93c56574138d1ec7d9cb6990778cb 0x46f1c1fdccbdb7f16733106eef6d6a58ff50b8f0b736e1cf9aa664ac680adef9 0xbd8c39e543591ff0be50f58cf0f1a8fa1733d7c7ce0ff7905bbc07d4b566265a 0xceb4f272c35e84ffeaad994428695b1f4e1b26937ae306d24df6ca2c3d1c19c 0x63c882cd6770fee7c6f3f1c777629f9133b64c21808a8c08212c821a56391c7f,
    Dbl 0xf3f60eb93559711c65c70c81cd2c7b5d8292e131ba8440feb24f3922cfc8e17b2 0xa83f398c029ed9030e7b80649737b03244f778cdbeb55e2bc66f5d07c56240b 0xdd899678e23f71c86483681167a7ed18bda128615770b0c8c3a69ed41ef677d7 0xe87d0c73e8131c753a8e3a8cede44e509ba36367809c1a7c0c3ec296802f0e3e59 0xd75a91ddf2b58d25aee0213ed8efb9e2790813f4ffd0880928d6fde17a10fd23 0xd2ca5ecb4fc9348942fb24aacf88b40efd33fb943bab10f38590d374d6d255c7 0xcd39f5e099f819f14171ebf32eece5637c96a69d21be2071d5f937fd98b7ca37d]"

lemma order_chain_10_points: "ec_chain 0x10000000000000000000000000000000000000000000000000000000000000000 0x1000003d1 0x4055cb99ab814cf3b1b621cde1d6c63a7165845d99ba176ad7a4a8722ce48b27 0xb251de8e4daa97d6e95ed4475efc75e9d6c92ac08f2772f5b9bc368d41d0c094 order_chain_10 = Some (0xdd899678e23f71c86483681167a7ed18bda128615770b0c8c3a69ed41ef677d7, 0xd2ca5ecb4fc9348942fb24aacf88b40efd33fb943bab10f38590d374d6d255c7)"
  unfolding order_chain_10_def by (simp only: ec_chain_simps)

lemma order_chain_10_digits: "ec_digits 0x3086d221a8 (- 0xe4437ed600) order_chain_10 = (0x3086d221a7e, (- 0xe4437ed6010))"
  by (simp add: order_chain_10_def)

definition order_chain_11 :: "ec_step list" where
  "order_chain_11 = [Add U3 0x6644d124fa24b980f409ee4fad890c7d27ad15f2a5334a0a1adefd85eb279c14 0xec0b201e8643ba039adb32a23340e4bab89a96bcfbab3cd03aab3f89c958d553 0x5e4be297df08cffc493e78899808e819cd367d9133be3d292b70ef1460d78f65 0x6ea02e1e9f5578dffd6c5ba8592753cce9c656b74ab132f209dab003ce9715de 0x28dae9293dd78d1c949e097f81da306ee563c184df1b4b305dae3eed097b9320 0x16ee9685a42e9f8e867170c690e80994bd3dad1aa0cbf7dd6b9cbeecf505f5e28 0x78e0e5d28f80fc4ab15fc6797dc8b542f22966f63f19779e4b44c8a2039d6d39 0x9293a1553c2bef3f74d74e99dbfca4c51780e0fe921b8b2570ecba6ea746e1e0,
    Dbl 0xf139842c782e96be17748c5d64989e27723ccc678b9b991cdbcda2f7d277d12e 0x54639e1ab738d28a4a01e6c61524b75897feaa77348956b77c03b63e9cea1610 0x873d00f72f55c978399452f07895f18077a68f6fa380cdddcb7d6bb094bbe94a 0xe34d57c7da53203a9cb3718354dfb7b211b99136397c15dde7a257bfaff93f22 0xe7632d276fffaf67c3d808b7e091624c721fc747a73065143e5d445239db28c3 0x8ba0a8e08fe8d9f7c6e569e5b40d2b4b439ed4c50c6368b940368bf94f545696 0xda085a0e832c55d25ab67c0cd98bfea481b4aef5418c4df7e1485cbc3fb29bb5,
    Dbl 0x10bc11907f4b8eee95c79d2884c3d5f9b985045e60a8dc570e0ad037964b2914f 0x4dbf9326a053e181674f080cf3acd0ea776bb076e1099b4fc4bb3c262e426418 0x45142d3c5d1a4fa844b7cb7de0e78a31e60c8025e6488ba2b3f4cfb3c32a8866 0x1180c5bdd58eb4f3e6d7b3eafc107016f503bc2bad933c9b6ef65ef877a514e49 0x14228d3bad23b79cff4dc877297ae674e919a0f49bd38423b17889bfbd1915d13 0x9dcc50ab62f502d4c489e115c21446fbcbd065816bb28d2f1a46945e8606832b 0x150f3951b78df335427b768ca7d405d311f3ad5bdb04f2c352e25c7007e372ca4,
    Add U1 0x27c93f31bccb237381aa725630e4ad390c56e2149a51a982ab73642a6920ed5b 0x134aa39429cc26c0410e89717ed9f80d51c8f7cb547859d36a5fdb1a653cd8b61 0x2ff89491f77cfd362524962db54c9460755c31ede760fe5311e9047f6a2a6672 0x882c0e8dfe8dba163442e347c0610cb9ff17c09efcd5ab95921101812b4253e0 0x62eef757339e060a954f5ca3a4f6ac0f2b929d6aa22950d06cab9197f20e775 0xbce81eae5e8c95921074e83620867d77e6f4bf86e972e00d21e3ce3197e830b5 0x19b069ef40c83a8941ef4d8b5f98999a3c0e4b16e4272ba6b3f8c121b394b0d0 0x1d5bdd8e7a9acc90bbc2e2b942a4b4e3a2afc5f03c65ef9711061dfc5f19c564,
    Dbl 0x4ea28517c76fe542d99321778dcec590f7fca604de3985da49c75b6e0b431999f 0x2335637b80f80a281272669c087a917910cf060614360ef87fef649c1208b7a0 0xaa137336527033cb5685c66426342b57ee557b72c9cdc82ee6d94ce3548842c2 0x1827704734d250c29ae2d607ba7bcd3fbdd44bc20ce5b48ea645c4ef0f370042f1 0xde189b57ac1d864addbd1ce39a2ce16210c2452c3307e366ab37b49cd6ba0d4d 0x69102558cfc7e0acf1f0a879302113d037470da932f160cc55562e59bd08112b 0x44387e5e6ddc9f381c3a75006b4d2237d74704df0340804b3883b862c7a27a9a8,
    Add U2 0xc4c1cdd26e92c64de465fa9a7e3044cb02399a79de5c9ddb8c023679228197a3 0x112996fb34b2fe4bc547b3c52705bf7cd98d2c893b548215ec0e2535fac304938 0xd30d5bf912a7ecbba23742bdec0a1d4846fb78b7a9ee1855e3205d6eac5bf0d5 0x4a35b04a6e478aa6de8a8db93cb8ae14ecd58de8e8be74f1a90a444f900ab6e7 0x973955e236162b06f15717a833937e5e784e8357d512d3c6f2aef1c71449aebb 0x15fddc2ebe428a92477fb38aae97b7d43017fed89e10f533d3dcf0892c47d880a 0x643b2190f05445eca4f0eb8814a9696d30f7023f250ed75fc7c12504cb38b802 0x10e702a525f81f628441d179b48f1b7090f8e4f2ae936cfaa083737989752069f]"

lemma order_chain_11_points: "ec_chain 0x10000000000000000000000000000000000000000000000000000000000000000 0x1000003d1 0xdd899678e23f71c86483681167a7ed18bda128615770b0c8c3a69ed41ef677d7 0xd2ca5ecb4fc9348942fb24aacf88b40efd33fb943bab10f38590d374d6d255c7 order_chain_11 = Some (0x4a35b04a6e478aa6de8a8db93cb8ae14ecd58de8e8be74f1a90a444f900ab6e7, 0x643b2190f05445eca4f0eb8814a9696d30f7023f250ed75fc7c12504cb38b802)"
  unfolding order_chain_11_def by (simp only: ec_chain_simps)

lemma order_chain_11_digits: "ec_digits 0x3086d221a7e (- 0xe4437ed6010) order_chain_11 = (0x18436910d3ea, (- 0x7221bf6b0087))"
  by (simp add: order_chain_11_def)

definition order_chain_12 :: "ec_step list" where
  "order_chain_12 = [Dbl 0x6e06da1637f92a748f9e806173aec6a9f84c719d6ae87f7ef41af1efaa97a6dc 0x159eeedbbc9079cb26e779c0f88d34de42df30d3cc89b5f40cedce96f2c14b73 0xba0c0a0dae53aa649e3b9f255a62bef7b7a17a628819cf12b94494c7d1b58440 0x2f49e39a0aee996c3041c526195f9a63055be082c0b7c518f2241fbf29ca6a9e 0x9029a63cbff3e042404eee93e255ef1d3534138660a4a5deefc5af86be552ed6 0xeaf88fd2d0fad191d84290aec1132a4a2ab471b26594c79c188f009cf07c2f87 0x3df5c137fa9091e41c77071676fbda72feb00c391329dde782177aa187c7e6d1,
    Add U1 0xaab6ddf21daf0146bfcbbde4e8772589dea4488ffa44a8fa0d71fa0c3f40020b 0xbfb25c714b891147b764c37074244c0f4afa8278a5b459c6a0adec9245428f87 0x7fd560633b582a955804101105c349469328f439f2c957375194ace24f827324 0xe32cd8ff315f363781fbedf49d5c555f98469707d3cbbc05dfe34240fff53616 0x71d76165e41a8ec411d6fcbb2f79080a3a07e0efe0264b73088b119c6b07e465 0xd6df310e7cf4742d1c3fb130bd0669981f5ae35ab44e130cd9615285d1c04a59 0xa1d3010d6c856bffe20d709eebba73de21896ea657c54657704b30cce726f6b2 0x8f49b38a648738b5227841aa4b83d16263be79c5d8b092015730b6452a24d386,
    Dbl 0x2a91fea8e56d32a2b0116e9ae72ea7743c9421c11a0d5176c026999914cd7048d 0x10053432dbabe3448c4dd91ca93752efa3b6b5e3e038da3ee278abbe4d3019218 0x4bd031688e7fc1d0ed06dce42af6dec1e22ea8e41f537a07ca31d44c0d0caee 0x7143ad1e3ef51035b7b021f053ed2bf46f278974ac1a71dbbf561a39bad0a2ba1 0x1de6fd5e8a8773a1a732b80265aace7737a23ac7991d68465634024fb3f246757 0x60d9158ba471f85685d0a98ad88d4744360c1f9c32acbb6036f2f678383ebefa 0x4f8f325ef0d2517e3021655c9ee4acb5876ed78bf3a860a16460de7fb657227f1,
    Add U3 0xbc9535207870397e1130dc1256e32ec69b169c0faaed95893494b3df8ba082b 0x1c4d7b380df9b2faef08e2ce5583963e75818d4901126b5f881aec119277e823c 0x14d9657583663daf4467cf7818ec5d4695559c999425e6327c1b4f2dc7c6978a 0xadbd4f25a8effe4f553ea172e5bbfc920b8024882143d2d829d79edb137bece1 0x8aeb7cfe93b77d10e285bfd62fa3a88661e5015654cd179964df39b534a1c1 0x56ffb3f0dff7fdcdb991cc5b5cf3715a12a2c60620b164c852cb7e68ad54da3c 0xc2940050e35ae1635857de41931b146e29d88af3ac4c34f262ac84790fa53de7 0x40167d0698d1d5f58cb068a40db5d09833e4e318ad7e29cbb86ccc38fcecc3d,
    Dbl 0x17846a9f56793d2737562ca80202078c8d48faadfc9ea6588f561f6000e4827dc 0xda41f155a8064542aca5179225abcce713b126b8433b399eecb25ecfea12b44b 0xec25284c9c90dd189d4fd0296fe51a653afb48cb8b7e7472d4f851c2153675b0 0x2290fa6c2434ccd0ad6abef8e80f5a748c5a93b169ac5f3223a7e3855f2d3c6c2 0xc19826d90c5f2136b7eed14975d6e22cd084dbbc95c55e6554df4d17fe457360 0x51ef92fd9f328bbc34d8e7740299f5a7f87ab19fde01dab47c0cf65ea2f17a49 0x11c8ce930701b92d4d9ae1742820d9bf2b7511c068335ef75d9a581c8f68ab2b0,
    Dbl 0x42fd8a5c8fc98011a7fb6c9224d502890a0897dca8b8311cfdc3cb7f9cfd7e7c7 0x209fa737da0e007378feb3b840f383fd28f46b18d8bc4f10a7b7c58a36ee01e2 0x989cdfad4b24e2fb0d05e3f62af91c1b6943f44c16764571312ba4b72605b985 0x1187b6727fe006cd252d7c69d7149064b8b432c026f402ca4fb4a633d5176a35f4 0x15388489f516bfa1d9049ec3344ebfe49d1b7547f75082f01a3ccad09ef30b85a 0x581b21febd5e103e5ebf3eaa8e1e5d695c4b03d59f0a3dcabafb07c5f490428c 0x58d967eb1345a9c4d8c6922219e707a91cb28775c009f9174601e8433fb4f0daf]"

lemma order_chain_12_points: "ec_chain 0x10000000000000000000000000000000000000000000000000000000000000000 0x1000003d1 0x4a35b04a6e478aa6de8a8db93cb8ae14ecd58de8e8be74f1a90a444f900ab6e7 0x643b2190f05445eca4f0eb8814a9696d30f7023f250ed75fc7c12504cb38b802 order_chain_12 = Some (0x989cdfad4b24e2fb0d05e3f62af91c1b6943f44c16764571312ba4b72605b985, 0x581b21febd5e103e5ebf3eaa8e1e5d695c4b03d59f0a3dcabafb07c5f490428c)"
  unfolding order_chain_12_def by (simp only: ec_chain_simps)

lemma order_chain_12_digits: "ec_digits 0x18436910d3ea (- 0x7221bf6b0087) order_chain_12 = (0x18436910d3ea4, (- 0x7221bf6b00874))"
  by (simp add: order_chain_12_def)

definition order_chain_13 :: "ec_step list" where
  "order_chain_13 = [Dbl 0x26aaf1454fb2283d40b77a659ba20eab0d007eb2ec064218d519c1743225c9f6c 0x98eb85fba8efde3f9740c862f2a450f3b9965c16e42a34f7f115408965b82e3b 0x379a989e690b1ce199d128cf2a3be67be422e6ca6e926ded8dbb658e6cc680e8 0x5d731c5e71a4f611f2ce1b4d9f488f5716a292121d3deee45e6848b86e6dc9ac2 0x16102470ee219c6197334bb2700bd359f85210d81a7e3d783a3703f27b93f34cc 0x1beca94ed781d9c02f4bbd650355d6b349e41b846031f6ba7fb7b4d2b5a8b4f 0x35520ec21dd981625a72ae35f949568fe58c1d1963940d08a6786ce9cc46d90db,
    Add N1 0xbea01cfd808bcc2714397fc42a04c718766fce4fde61ff29b837430735209ccf 0x14223cde090d19ecabbcf39c6a44b248b1e791610bf3bbaebcc371bcbaa3192df 0xefe00da8417eeeea88ef31f47e65260bda36fd2a39f2aac7adcc1aa1a3e59127 0xfd1cfb5154fdc87c881fb2f4107d1d0dc9095e2ebd7181480617dda0ab4a0874 0x8df20f2c8af8a0ef1c64cbafdaa4d4d4ff29e428e18272f1a64054157c6f6c23 0x3a7d9d4d140d546511b175db19bec96e1b19889bb120eca587a387ecc17c74a3 0xfbfbccfb7603fff538a73cca9e99b576c00b3acaa03172c9672b6796d204245b 0x2b8dcfe12dc60fd602b01dcf62dcbda690de172f08243ef94e6b75e15d61064d,
    Dbl 0x24dccd4112243be285e7caeb12371e2a9ad34ae5ddd72a11322abefff7c360b2b 0x19a5103f27cb60cc451276c458cc923b9117e039bf42f82db02c0c84371c380be 0x8bd3917e02f01c6698e4f5c6bffe996369e15e4169f4e3656577b0fef5fc5a9a 0x54ed82bb982a6b6e297a880dc64c9a7069541ba87b419a0ad975e9d04d1573cf9 0x1714969d3520dac15ef3abd2d507e83aa5f27ffed537c9de2a0a02ca0b54daa09 0xad6120f50ad87a307fac08b2e2bd4605f16c0b69e354b57a054498e4c103aa40 0x352cd60e50b1f5762d9d3da65bc8bc76d2364326261f75d4fb3cf213e344a1898,
    Add U3 0x1093cea4ae6dc1eb109884a612415465234ae248da5f6dc4d42356c158b473b4 0x13dc1251965930f656679a4ecdaea38700c5a60dce9270a3398da2d5ef252f290 0x149388b7b8063b9006f3b131f737ceab66e699e53188f6cb7d04faa27974ffb8 0xf58755aff4a9ffd82b88770fe08cc881b9cb9aa7359cf0c83788163d41ba14a9 0x112cf2b8dbb7cf2ad98464a118618cc3f6c80e4a29ab50f62a0b3d5543b604e 0x964c3bce0e461c8e6d5c7eb6df71d0e1b015c39a3457f29d2def9ac0b4424220 0xd5770619ad7e97f16a4658b70e97cc6cf8766f844efe7b58e6cb4d5a8c234bc1 0x9bb8ad53f94f47ddbc2c454cd485f907b1a66323c98820022270656e62334b1,
    Dbl 0x1d513c8366364008762295dd307f50aaa9f7ed5afa189ff91df5c6d1d355bee17 0x4bd2253ed751decbcd23f9912d671485159295c11d546f25aa718990deb6b7f5 0xef28eebb813712d1295a7562c7961d8571786cf87eec1f44262cedfa3aad64fb 0x35b817d1e9cd431a2775e65e254394f66300fe5c228874e1f663aed4cd11ebf7c 0x1065e66f47372ed07022e01ad18f6aafc48532daeb6b0d184115b2842070cabdd 0xcf5d89a791b64b613492f9fe857617b387f30002f02712d6fe940abb09ddf064 0x1e0bf38d0f9dbcec3127449d2787dd88beb6ffba4816ab26561c3599d0941a52a,
    Add U1 0x4b980713102cc5f8e1347ad688ac979c162cf0468696827de23f962c346d132d 0x8a9577c378a5a8db2c45ed3306f0ed8191238fe2aee2099533c5935fdc4aaecc 0x28ec16a9c887fafb81069bd68e9e22ec70d7a436cd2a6ab28fdc88cfdd5d14f8 0x3781f20931f70fea5d2ea92cabac23137b1763c464276b21d3a8d54ae1c9093e 0x16526e6d924f7d78c5fece21a2265b1023efbb81b4ecd5b7b7e16a8bc9a6d368 0x1b7a6fcb24f4002e6cc2bcc361be9fa71f66109341ac4b422528418ae58e457ec 0x14713c377db474e102e5e9539a220c77f66bfca10052e4ab6b41d7b417de4175 0x81d30354952bc4bf79461d6d796cb241cab2a1e68d7aca1b0a91d6cbca123bcd]"

lemma order_chain_13_points: "ec_chain 0x10000000000000000000000000000000000000000000000000000000000000000 0x1000003d1 0x989cdfad4b24e2fb0d05e3f62af91c1b6943f44c16764571312ba4b72605b985 0x581b21febd5e103e5ebf3eaa8e1e5d695c4b03d59f0a3dcabafb07c5f490428c order_chain_13 = Some (0x3781f20931f70fea5d2ea92cabac23137b1763c464276b21d3a8d54ae1c9093e, 0x14713c377db474e102e5e9539a220c77f66bfca10052e4ab6b41d7b417de4175)"
  unfolding order_chain_13_def by (simp only: ec_chain_simps)

lemma order_chain_13_digits: "ec_digits 0x18436910d3ea4 (- 0x7221bf6b00874) order_chain_13 = (0xc21b48869f51b, (- 0x3910dfb58043a2))"
  by (simp add: order_chain_13_def)

definition order_chain_14 :: "ec_step list" where
  "order_chain_14 = [Dbl 0x1d287b9a70349d67d89cc4af865c8c0fb4dd8651f089c749d5ebba67d8146d19c 0x2666a46c8cc1104917bf0de7bb83ded90fe704261c82f04d1ebda13d6ec88a34 0x9ecab66d618e079ce6a69156ed0b0730ecc101cad4201508fb234608674713e 0x3523267d95cc1187744752fad69f88bb5605c75ca5f2d2c3572a6c5ad865bfe8a 0x12d9546a25bde2f708ec440173cdb72a06c4b53a7b6e569d143f6a0e95b54942f 0x14b870895d091a8d6e85559318d86f99f559cf8e6e7b597350563140c431702e 0x225999f016b2508e71f1a60d070c449a692a424c1d3143a0d4c89aba756faf0cf,
    Dbl 0x65ccce919d183cece2be5a23778dc16edb232ac10e0d1c1d8e3dcfe887a6d318 0xf5333a30b8f0e55657a33f84967734617397757b606ea0a2a5010f2a3bdb4ac 0xc3f33f1d969a396142c5c9eb3618cb492c1ed573e476b71e4225d99eb59d2ea5 0x287b3ed8c4b62a5a5c5c90c8e29778dfccd047fef87d6774e9d23ad9dd26de11 0x45f96c493f7ea7188ba49f2a38b7e529e2ad3aa8c8cb4a324d8c5ac0d0d73ec8 0x390a22d18ff53589d9e1d79d7d5953c53839824c52d555ce3d80733fde9478e8 0x1bd362f1b2c56ee0fff3775c6878e7594d4e3ba66ae6839017159278c4e7ac76,
    Dbl 0x46c4965aa573dcb04cb0e6c216f6752419061ab904885eb17b80744507471f07e 0x369ced2b34f562fa24b880cff3df504317c8185ed2033c92c6bb33399a2145bb 0xf1902e8ca2e597f9118768f2a40c25646e163547d427993163fe80beed57be00 0x1390193025971016deea81d4001012732e550cb124cfd36ca12241eac05fe49866 0xd2631090f3b4a168313e60f8920ca5e4be08a02c104f1decde2758dec8456cd4 0xbc94996ddfc9824817ef377a376c57fe5d716d5158badc52a3bf387e41f8ebfa 0x3a28a5f0dc1fcdbb78e033b07243dd45bc35862922f070a7e2342c243874d806a,
    Dbl 0x2c181281d731e3c4a1a628450a79646dc3d39d3903734b42c81b0c458a8853e70 0x1639663600a5f68488c9566529485ff15e30a263c20637815a0018592ea5f2940 0xe8f820daf181d53ce87ffc7fa996fd7c2914fcc7b0ed305d3a47be315c0fd1f1 0x79848a01ba803c3e5a37632d31b434a2a4c89d56b3b8588be7b2cac68e0a12f21 0x108980db1b163c2bc29076c72fa7527e845013880233a68d429b6c28c9147e83e 0x10b1cbb574506b905b5505cac77c348bdc830f08dd83f3dbc8a3a490ffb9198f 0x2d9303bcb7266fdaea47a0d97274014eb1371ee316a61d7cb166c47e61c8b5719,
    Add U3 0x2a1943372a1bc92e2a53b059fb4d52d272a587f2e70952256f59a1e1e20aa3cc 0xe09c95bc7701568f16de9e33f151d4574d26c256a22ebd3bc40a202c8c3f7b39 0x24efdad4ecb4679001e89221417135cbe21c1f5d909532074e665b04a0cc232d 0x1f4fbcd49a58b199a67031bec5a211b845a7e1aedc923ca191e2334df4eea4ef 0x6ec4c8c4c3d435e1b13773b2a073ecb10bd130bc5aea5bfc54875ae94c9625b 0x1c9a86406572923a3420fcac0e3f4ebc3e36d1b18d45af3bba8658ae267212931 0x342d90ff532d53086f0d6bda65ab7d798acf9ada19653cc7f44b76f6c61eb7ca 0x4b42ca047f8db5dd17608f34610c1bedec9b51f8689c1c5de7bdaa9b1dc4dabd,
    Dbl 0x85a5849a73c83963aa5c9a3db21b550f6049f8b768fad7e526fe71e06daa1819 0x2afd97bf6d758d7e3382d844258765ac87cef704365fa8964ece6cbb9ea6f7bf 0x8cc3c64015a91c5ed8c3286f8d1d4fe0ffed9f09e714ddc1ca6a5dad34c56ec1 0x45c566ccb016f05185ef2764a8b81b72f891ea17205e7e2f036ca89f5cf8b4ce 0x928bf69484af953acdad094f3884c1d745ba42a4f57d5edfc777d59fc029325d 0x364fdf1b5d0f7331a533b1083dd5f1780e74422b4e4386e931166cb3cb364547 0x4c817739ac47256ca983785144e769489f7ec60a8b497216438b447dadb2653c]"

lemma order_chain_14_points: "ec_chain 0x10000000000000000000000000000000000000000000000000000000000000000 0x1000003d1 0x3781f20931f70fea5d2ea92cabac23137b1763c464276b21d3a8d54ae1c9093e 0x14713c377db474e102e5e9539a220c77f66bfca10052e4ab6b41d7b417de4175 order_chain_14 = Some (0x8cc3c64015a91c5ed8c3286f8d1d4fe0ffed9f09e714ddc1ca6a5dad34c56ec1, 0x364fdf1b5d0f7331a533b1083dd5f1780e74422b4e4386e931166cb3cb364547)"
  unfolding order_chain_14_def by (simp only: ec_chain_simps)

lemma order_chain_14_digits: "ec_digits 0xc21b48869f51b (- 0x3910dfb58043a2) order_chain_14 = (0x18436910d3ea35e, (- 0x7221bf6b0087442))"
  by (simp add: order_chain_14_def)

definition order_chain_15 :: "ec_step list" where
  "order_chain_15 = [Dbl 0x261e96a485c552ff9d36a8562b5ee36b8a4e2694207c9a667123653a2fd91d266 0x1a96ea5404e525c804f71c311a231daac247908824e43a99408b65e0fcf38fbf 0x66fd75fa0761cd12657f6d729179cca9577839b3eb1f9ae4b93fe5489bbebc52 0x5ad18607eeb25623e9196dcf60a7ff6334f0391e3e38902aeeb47ef76cf5dc230 0x125c650460e474f4c7343bafcfba38337a8756555fbf542dd112a78639906ae9e 0x6c8ee4c57e1ba2168709f2d271856e53c6f9fa77e2ea83d2ae8c805a72247ede 0x2bbe8a06cdeb33ee9834efdfb8b4085931a6dd75d4e898aa92dde3dfb93f9b361,
    Add N3 0xf72781f06b16ce57f8bc3bc9c64befc1653709ecbb7d862cde7d212e18312a03 0x16297409d61215eb999df2d41096f052a1ec3856a67fc52b44511f9154c9090d8 0x15656a85dea61aec846cd3fca30daa03638c07eec4f81deb487278fdb0abd2e41 0x67b09a4b6cb253bd05609203441251ae67611050b3f98885cb780f497a4c8d89 0xee9d42d6c7dad0d6944ca4df50b034d57887aa89c2f7269551e56cb45abed63d 0xff4cdbae9aaf7955601edb6f4d677afaf01729633726125eedc7d5fe21722af8 0xdf73bbe44700312b62f6e047dfab86a3acb8a5dca725fc59de1e5653b82b1836 0xf67a8e406c65aca4bc012862c6bb052d2b2a01e9427aa6188545d48ccccaaa6c,
    Dbl 0x7dd41cfe5dd4cdce77900512b4d4a3016a98c3e8960049e98106ba0434ac0d2b 0x5daa8dd1db78c997985b3366086f4cbe6c847524e7f427c13235722b78050d9f 0x9f9e34dde250c4662ccd519b8f9b98a9c6d1c29060ecbb67367e9a66d249c04d 0x3dd8d4107035dab5606a89c6f4c24c44002ad6883c095c8ec8011751d9e77b46 0xc812656d8a618f56d8934067b476b904a08f4dc0530ccd1e94f974e1a802c96b 0x11ffaac46f9a6a996bb93350d070b6bb9c2c54fefda1b896c56765fa80aecac9 0x6256c16b49f5d886f5987387a491f8cd2fecda87ca8abc189b32217100bbae26,
    Add U2 0x85ddd50d2903f677eba85244189bc3a20bf0677c7ee58b2dd5329cac5553988d 0x11d0eae0bbb4f54217e33b11b06f48a7bc05681761e292e26713d05dc2e6ecbad 0x950fa35436ab47201a1eec3283f222789fb71ddbe4354bc1a9512b899cdc30c6 0x525325c0c27996100b5dab824f2b55ecd3857fe203302396b6d45d8ae5572605 0x46003f9936a5d5ddef06a16ef0b82374048e378d1ed5d89d5c936be866aa5234 0x14d4b0f1d1fd72e56216fa619407042bcf34c42ae5dbc97d07faa3cdaecf29677 0xbf91954f4eaa0de0838531bc919e0f36db7fcc463e7ccfef93b8a604e15cc941 0xae48ce06c37875fd7fdec72f5e3892ce2943358f8cba23940593f29ad206af4f,
    Dbl 0x6d98bcab5bc6468936136c1183e22f8ddd5f47d63ef22b30c3f38c77cd099a1e 0x549a72d228de9329c7a54d56ea01ba28bcd2355265166d621192f492f20a22df 0x41dcfdd6de2da769a7d80d7dec2c1d6c92fa1dece137c3d4b63bca7e417c9d15 0x2eeb6bca82aff5038e5f1388bfe81a2ed7282a9b4f9a0c7f9bb75769d08571ab 0x1107627e9e44beea663859e0462ff3880408b61f521f85fc20098930ba3da851f 0x6f517950f6377a67e7002efa29981b0605d2336d45ea965499d26fae81fc3542 0x74a4ddf36efd553b27e60f34be936129e348ff5eb922c2dae9e5c1f08aef1e11,
    Dbl 0xec37cc1f007ea2d6e752c1de5ccc9c98c0abd37a9d55cc8c1b672de97c93425e 0x9a98d72f10c8426e210d18131c47398481e07c2ad8d479dc0f0393b034f07743 0x34a17e41c6adcce5aeaa68006c00f72b99228ee9f614363c6ec8d0b658524344 0xd9f6ec8280fd1f31250a2a5de6cadf08a3a4530fc6d0f99469539e70e179e0ca 0x10d3b7f95177fda83f92da57d802b2640f9d78f02eb238d984772f9c6e92a5600 0x7530d2a5547147430058e35f88c6bb0f8643b29abad7fc44196697f3fb52f1b1 0xf86d8811df165a3bcbcf876a02f8b06da8543fb6ebe53f17a36534e9348e6f83]"

lemma order_chain_15_points: "ec_chain 0x10000000000000000000000000000000000000000000000000000000000000000 0x1000003d1 0x8cc3c64015a91c5ed8c3286f8d1d4fe0ffed9f09e714ddc1ca6a5dad34c56ec1 0x364fdf1b5d0f7331a533b1083dd5f1780e74422b4e4386e931166cb3cb364547 order_chain_15 = Some (0x34a17e41c6adcce5aeaa68006c00f72b99228ee9f614363c6ec8d0b658524344, 0x7530d2a5547147430058e35f88c6bb0f8643b29abad7fc44196697f3fb52f1b1)"
  unfolding order_chain_15_def by (simp only: ec_chain_simps)

lemma order_chain_15_digits: "ec_digits 0x18436910d3ea35e (- 0x7221bf6b0087442) order_chain_15 = (0x18436910d3ea35e8, (- 0x7221bf6b00874414))"
  by (simp add: order_chain_15_def)

definition order_chain_16 :: "ec_step list" where
  "order_chain_16 = [Add N1 0x6c639eb941440a11564446e228620ced4e391f5d78e4db8ffc0d6009fc4e8078 0x1451ce83d332eeec6a6f5fa95628613db69796df137b9f29ceb29b0a3bea5d083 0x89a6b5babd5ef12179583e50dc1c8723c04eb85434beb91153a175b09d06fffe 0x33d0959fe539d948a5c7a544d4d8508c7bc3d10282a2b322bdb5cd1194ae0ec8 0x2de434b074c315bdcb99e75ac2956fa4078a93dcc64ded24c418885442172824 0x100d0e8a1e173f39d08e2c2bb9728a69f1d5ebde773718319b11303a3c3a430ab 0x5878c4f55fee0a4fb5193b949fe862c3e1349a24cf9b581b6a81c45f74a51826 0x6cbc122909bc6d67655ed7c614d7d5cf18a98ccacc33a61320dcfb8705a0c57f,
    Dbl 0x65d67a2ed328840d5aea116bb0f7483432d47894c656aabcd6d66202e5770625 0x26ed3912cf2ac5918e1e9b189f03ffed0aa1b3dcefebb5968b6301cbe4439a84 0x13eafde28393c8d16b2d7d0f284155f5482270bb5c700c411515612f77cc06a 0x2882f0197337a9c27ea8b09f6a8fec15e6758192eeaf46a67e48c24df2f4cfd1 0x13291e5c1bd009cbb8f14cd73e2543b2d2741a9f6ccdbb25eac6476fd9d314a8d 0xbd6155bcd9d28e9bc863842b2e52f8cbb10e3b988cc0b1a64f6f1a3cdb01e8e3 0x79f467ed1a199e8912d78ee6db980cb65b9cc9614c6b88b3ccff5178a3f01428,
    Dbl 0x60d997ef36524c9b27483484e29f8620a964b37b8da145793434383fef72ecfd 0x8f4649ef8e90a76e3cde7f7552fefcc8f5e9d4d08835b51e1a5bb4bf4955509e 0x788a10f4b898b02d2c8fe6781fbc040f3a54c896d8a5ba1a7a1d4784b486c93b 0x24a3eae65673e295cc0fa49dd8eac84663e3bac4f337174a18b970ff30089726 0x88b49ee96fa08c5fea22f158d2c811501a2d5e74dd2146a997340e8d42f5f35e 0x97a24ff05fd4c12849ad870993acb08d81ce32a1f15ff1e8427467b13fecaf22 0x33b7edd48519ecca7c9f6957706517b1b61dff5c15dd4a9d05a05e4d81b81cef,
    Add N2 0x7d57f1a6ac959d95849fdeaf6666c736cdbfdb7c4d9ae099a80d592414a7e4f3 0x14422d1f4e507685a7e711c3e76d41f164cd37b6fa6702f732d9e58be4c31c2bf 0x9eb45a51becef8bc8ae71a33e8d7dedab71b48109b8619d57a0bb45c04c25a88 0xd4c599dd0cbc05f757473810665e67d4d14334ec8adfd89183863507ea716292 0x3d5f0032e7eea70b183988ef6116f401e445abccb1c8fb3db70f2a3d45bce4bf 0xa3c47717abdcaa35d548ae67b95d9c3a691193aa4dc5e188f697127bca1562d8 0x8d63119aeceb8bcc0d64b7f54972372b2b8c68d3b0bad8d920f990fdd29555ba 0x502f30819be05f6aaa3cb768fceefbaed38272e0925622f4f947a58111410d94,
    Dbl 0x2726329e2cfa738de020de5f94017857b820802594caac3e423a5cc25a331f6d0 0xa15e6ce8b91be5c82e2d2ac13e9334417d70814cd283dcfb72b01e9dc671b1cc 0xd8b6653c13a137ab2c1c6c7ad36a6c2c8091207980def49dbb7d60c0cae96349 0x5fca91f42abd4dcea99a8ef4d36098716bd52c4a31870177f21a46d8c200e34dd 0xfc0f34a0f91ace4c2b2acb9592f3fba850b214730a00e3f3c808d4461f87fb78 0x66230a27fe1115a77df2efecb78b2482d6087185370bee92291d56a52565f636 0x268bed1d0bcb3114ca6df7e8871a274ac1464209c720044665dac837218aacf70,
    Dbl 0x30a2c10a853dc47d811fedb206a14fcec3f01fae31bb27af8a46896a1bc7cee24 0x46933cb4d46eb9990a5ed400fb3defa0e7552882946ab3336843ecbda3d994d3 0x454836c225c49f788d31cf9f600fe1eeb23870dba6b47fdda5dd0cabca931756 0x93d6fdcd4d8a9318fb5391d757d0370ca1cb8b7fe00f738dffc4f7ed68d374958 0x1936e2e79eddc98329eea9cdb735a8a3dce58af9dda2a74c015a0541400564822 0xc44da327e58cdba55541cbad8619898fb68c97458ff023db63203c35a1e2b4a7 0x4ca524a6eb133444f6b0d44ab77e5314ebf69e1b4e1ab64641168a307beea2705]"

lemma order_chain_16_points: "ec_chain 0x10000000000000000000000000000000000000000000000000000000000000000 0x1000003d1 0x34a17e41c6adcce5aeaa68006c00f72b99228ee9f614363c6ec8d0b658524344 0x7530d2a5547147430058e35f88c6bb0f8643b29abad7fc44196697f3fb52f1b1 order_chain_16 = Some (0x454836c225c49f788d31cf9f600fe1eeb23870dba6b47fdda5dd0cabca931756, 0xc44da327e58cdba55541cbad8619898fb68c97458ff023db63203c35a1e2b4a7)"
  unfolding order_chain_16_def by (simp only: ec_chain_simps)

lemma order_chain_16_digits: "ec_digits 0x18436910d3ea35e8 (- 0x7221bf6b00874414) order_chain_16 = (0x18436910d3ea35e70, (- 0x7221bf6b008744144))"
  by (simp add: order_chain_16_def)

definition order_chain_17 :: "ec_step list" where
  "order_chain_17 = [Add N1 0x28f9fedc01df2791c600a39c559bcba98634d1451bff0923c6567e00515d3f37 0x134762fbcd4181c33c86e92f66e77291850638bff8719a8fbb41574ae4c64fc71 0x315fb1804afdc962af7ead51a63eb0318382838467dc85eb1b1bf17420ed2e39 0x2d18a4e3c01a9266d84cfe753fec82dff176b610305e7ee731fbed9b6faf2135 0x68f13c6864ab142918828a9d0435b05d062591cff29056d7db9112ff1769bb2 0x1182f91de65aa0d11b4e4d12a20235f0ec0c1bacb765600f673e11f0f5ae3f250 0xb685737dc603e89792481a03a77789226bdcbdabe56a27cf403e296da54f896b 0x2cd90bff9edbe4c04b97b776dbcc3a9281b1b205922631256b92371e31de1342,
    Dbl 0x480b2af16d3964cbdc0889ed5dad561b23c1be2823f80b283f5fe1916b4b5dc2 0x4ee5f8a485c38ad924b2925d48fcc164081a8498ac5ed9e4845c36faf8e1a98f 0x7d62b04601a62f9e62f08f485fb331f508e1c8f30c88b44c9e7b0217c598c8e 0x144648a48563c726ff064f0c1844487ad6f343f023b82d55c6a6e0cdc5dc49b4 0x1254279df60002f6cf21df580b9f14fc0a0e89980ff95f3a268143d78f35590d6 0x404e7185a30c5c9e4a6ed848aaad122799a1e52080b0d1e8b97a852a7f7c41d0 0x52877d53884b9b8ad3b89c4c00e22a6d6b0b826d08871ab9da1a17b7612778df,
    Add U2 0x2c46b5de456fafdc068fa87df294247bd8138247b6596925f5502e2817f63dcd 0x1b4d6b7e53d85b58dc4d1f9c21094f006369a27774e4d5e48ddd3f021845eff6c 0x4b8d90a8c7f6cfcfa751362cea144c36ba6728f83a2e8dd047542f1bd5ff2dac 0x7992ca8ae67131a4a5479acab61b310d08e7a588171034e703c4ef1640dab983 0x7a8620c5ea06cb43dcc80e48ad398806bf4548faf4f3c40b9e0f45d125c8043 0x8e43607979a9315540e76e29cfe0021247a6770719b8565dc622c10a3b7ecf3a 0x1936404f0a0395b02c9c90adeb45a3f0a25f8e805ca74c797137039c918b5652 0x189ae0126a5a1f0c2c074bc8bf0c65c244c4ce025c1c91ac2e77749a1e9f25b0,
    Dbl 0x382dcb07bf2350ad3168cab131b3a09ecc91ea54b0aee5651fdf0ae0d0c75a3fc 0x3d7cc432ecdcf013607d59cb4da0212d28e6639a98caa4a677a08c8475d64bb 0xc124b87301fea65327d4f83a511c443188497f35b0d84b01a0eccb1ba2fe54bf 0xc541104655def142718049b45bcbf18ae59fec5800307409831ae7a344d9dd2a5 0xb86e1217e4728b517d72a29064feecdb809e26526637e9e562d823f99ddc60f3 0xa97e1002c8ea98d4a3a18e2fbebc61d95d8cda899a348edaeefeec8e3057520d 0x28791193453b3815dcb781c2f2d15403112bd9c4219fad829fd6eb29843b16f3b,
    Add U1 0x13aaefad3bcd59e6cb1d5edf6b5da9e31231bd99d919dee84a727375ed23334d 0xb899ae0bf7de15592dcb6a5b7d6ac6d57a527da57cf5ddd7b905b63e73f9bf08 0xe2eaaccdbcf5e8f9e626f8390d832a1757a07cbc7a5e02d0cbfb1beec4050d3 0x4f05bb4fc674ae74f14bf1cb39a9e00aeb5a7676a9a0c4cdf529835ac76d2a9d 0x182d1b6e958d2f6f80cdc700455041e4949af55e0569ef5bbaf52e5356b2edb 0x1721efd233b89f7de3689066f177264269cef08bf07378633abc347bfdb912651 0xf07d3461cdb2b49f05f9afa400f5e787a123f5e6bdc30b5cf0a8b1e0d56a519a 0x1c6f6fe31a8bc58b69b288eb77224896a6feadf8cf61ba55956ade469ca63a2a,
    Dbl 0x84dfb03cb5be3bd2913b8106643b7ee3ab51bd7f8a21182781a57159c970c023 0xb077c61012bbeb8993215c7c91fadf5560bf454119ba60e6e90c934687c44b8f 0x9c737135ddc665fa12cbbdd7bc6df7fb58eedf9946742fe818db1183c9dfb521 0x44f771331e845768a3128313e1b5b43d38634a887d570466aa4522bc05afcaf2 0xb2924a19e8ae487ade8033f37d3be80f926b96dd632c94e5dc4e71d5fd8d71ab 0xca74710f9f9df71a4c1c922259a94db0ace6663916189c9c820dd49f74e77158 0x5caf7692d48cdbecc1906c64b910e335138c8edfdc8f4fed5427d1117d6498c1]"

lemma order_chain_17_points: "ec_chain 0x10000000000000000000000000000000000000000000000000000000000000000 0x1000003d1 0x454836c225c49f788d31cf9f600fe1eeb23870dba6b47fdda5dd0cabca931756 0xc44da327e58cdba55541cbad8619898fb68c97458ff023db63203c35a1e2b4a7 order_chain_17 = Some (0x9c737135ddc665fa12cbbdd7bc6df7fb58eedf9946742fe818db1183c9dfb521, 0xca74710f9f9df71a4c1c922259a94db0ace6663916189c9c820dd49f74e77158)"
  unfolding order_chain_17_def by (simp only: ec_chain_simps)

lemma order_chain_17_digits: "ec_digits 0x18436910d3ea35e70 (- 0x7221bf6b008744144) order_chain_17 = (0xc21b48869f51af37a, (- 0x3910dfb58043a20a1c))"
  by (simp add: order_chain_17_def)

definition order_chain_18 :: "ec_step list" where
  "order_chain_18 = [Dbl 0x143d8b8cf1fead3a067b359de96b454cd11b5924e434a4624c7e2f5b42da122e8 0xe161ec018837f2d94e9f72fcbcfffa10e8151621322d3d58f0241d26612736d3 0xe68be2b364f15a2e95ae195f40139cb0144e73322a41d9110bda0f0a2fbf8f7d 0x199ac99d30d7ad3c216511c9146717fff2a083f86484cdd475a6597644eae3a4f 0xb5e78e8278d50bcb7d1da4787c5a5b4b44a06c671c3256d70d0102789a2021d3 0xf80745a302c5afcd001a6c5b4ed9766885f9646fca6def55bb861eaa368dc472 0xe61d278077e2aa466c0f38669c0b85fa5cd57099adf97c0bc397debb1a8f5df2,
    Dbl 0x1ba21d74e9b8d0e479f98ba986439f0a0025d221478b58713b0be97480eccce25 0xe9dbb82c6f9221ca5c850bef960bc4252308a7de2aafb141b431528b7e6d0277 0x8486eaeeafee82dcc529afbd090377994df9e1b02efe4691551e724dc6d1c21f 0x2fb98dff4a87c51171807a87196d440bfaac16ac585264166fba915fc2e5b03c0 0x16204f7c4b502d751d08469a237102516c6549181fb43927fb6bb9cbb68edc98d 0xdd86a487dfef3b61c0e757e11a4281d20df5f3495dfc69b9668601d6aeecd1a9 0x2636b602c719801956fd5ffc48db4f1260bff208ab2f7e0ffb8eb8c6d955f439a,
    Dbl 0xa1a7f00c14c684d4b49899bb7eecf4aff7b51f9d8d79fb3a1547603e288b0b7b 0x49f3c3ec214dc8dbd4268f0ed487f2411737daa8d543f32bb2285d53e7c5eb4d 0x328409faf9c85fb26da5e07f99f5a9d5e211d06678d36b49ed511dc5c74ccd27 0x6614aa1a42fb759b060675b870fedb88d8b42a6168ec2fb5505385368a330e8c 0x15202e0f3b626232a5783cf3d6f0dcdc36be81149b62adb4767cd5486ff84f127 0xe925a68e2e4498dae70c87a1017fc9c825e7f41d38fb57825e2c7f907522b048 0xd5718c4caaff2c5e37f7a732b898996eb668c62e6419d7c99f839c4a7e7614f4,
    Add N3 0x894fc3a0dc7f678785c490298f20f1636dd6fc4f86afcbc742ac54a97bc96a05 0x19710ac9c6ebacc1991b8ba3400f327fd9429eeb7da48824f1100c09821028003 0xda56c196780c17376dcc826bbe08872a33f09fccc0c934a8fa139785480a0f20 0x12ee2a337c1789d8826533505ce68ed71655bd1cfe6e44def2e5aa89a4cbb30b 0x49a6783c7ec6e86f67b60a26ee6a02e17e4d0da7c45116723d38573e566f44d4 0x11f95dfc77db0d5d9eb40ad2f3d0f1afecbbc13497a65266afa6b733b2281164b 0x9159bd335912eb1797ce7ec15b02dabcf89bc1efe1e8c6d1e9b78eeb5954695e 0x9a40cfc5afa82966dde32244c7dec5adb032c8bb1cdd64e2301a1374fca19fff,
    Dbl 0x5ab5e35c7138074637d2d0bfc814832a83394efb13b6c5ce6fec9129d420463b 0x62ce91968f6e38cde1862f38fbf2261def359b13cadacfb5af6e203e2e2d9567 0x293947135de1126a48f6449e08e608342580b20d0f908c7caa4fe0e4fa9a8ecb 0x202465184a40908297c96f0931cef2bc4b2813bd2dd3c2ff3bf28fa7eef228c8 0xe9b4e3201e36776e396eeeb2540086a2f0d50b0feeddb8624895c9a3aa31206f 0xf9237da137d9670004b45bf1736bbe71e897b3219254055c8c25b80396681c84 0x52cfa44daa179b4b419837e142c0c4c874a2e54df21f6fffee122af658e811bd,
    Add U2 0x8c74fc6ed212e892b3bee4ebe654978269d6623ea3105c00a8c012439fa53c2e 0x193739bd63fbf061d620abe188daa1af161a791f96f855d10fd6bbf5e061dfd2f 0xdd5b97703c17d934f2d2c0e979d0d255c3e3a233b5e2abc370e2f86c45687422 0x3a0de639e3a9adbf3c8637b6ee8f994f0831767a4916d97ec4acd56d25a1860d 0x4d10298ef31d6d11a80f6649fb431ad726d9b7ac5ed27352f14c34d75d60092f 0xef2b60d97a3764ab0c700ce71a566ee51d4f3b92c679b2fde5a30b76d4f904ed 0xff2045db4c1d8bbd30f0e676ba2f1e493bd6887c73ec917253cd5b68303ced1f 0x833904750d9e9dafc730939e23267e1b80f315b10da06b5eecfd32cf48855e7d]"

lemma order_chain_18_points: "ec_chain 0x10000000000000000000000000000000000000000000000000000000000000000 0x1000003d1 0x9c737135ddc665fa12cbbdd7bc6df7fb58eedf9946742fe818db1183c9dfb521 0xca74710f9f9df71a4c1c922259a94db0ace6663916189c9c820dd49f74e77158 order_chain_18 = Some (0x3a0de639e3a9adbf3c8637b6ee8f994f0831767a4916d97ec4acd56d25a1860d, 0xff2045db4c1d8bbd30f0e676ba2f1e493bd6887c73ec917253cd5b68303ced1f)"
  unfolding order_chain_18_def by (simp only: ec_chain_simps)

lemma order_chain_18_digits: "ec_digits 0xc21b48869f51af37a (- 0x3910dfb58043a20a1c) order_chain_18 = (0xc21b48869f51af37a2, (- 0x3910dfb58043a20a1bd))"
  by (simp add: order_chain_18_def)

definition order_chain_19 :: "ec_step list" where
  "order_chain_19 = [Dbl 0x8a94f315995f2cbd31d575ec9d02eca1fd418dccbbd0f21b6bf857f0912e0050 0xecb8c5e940f9af85332b9b3981133a5b91c8331e6a3b83bf4e3d6ff3a07a36ab 0xdbfebd1c2ed2f891df6c6d7356fb30183fe90af5b4664d15fb4bb08ec26f0fe3 0x4b04ecbd4125f544e8eb2c753f8ef5bbe8c4bf8acdf04ed1c080be929181f36d 0x5e0f291db4d6b52d5d19ca4397946936c8486b8494b08c68c96124dd63327259 0x4ea697ac746ba4e4cd121bc0bd0143b647d72276abe1d7eebc66ec5bd6e94384 0x32eae63e1c47e385f7acded201d051869716e8a71d73c3bc8dae246349e90b63,
    Dbl 0x4666b93ed05c3f198bf1cfd8921e354b9bec62b1912aba11ddc34f868df29ca69 0x7cfa194ab9468b31359c2f20466a3b2248663a299f78dfe30ea8e81bc95c5223 0xcead51f15ffe9602d2f407dd1fe4ade0de4a94fb34f65defac0e6660ad5f9ad3 0x135c56867e0c54932a5b46c64557c249385066f9af112dae99a6dfd9b607062d08 0x10d516b2aced4628f0c78659637168237619e75fa7f6fef264f3d4a2d150f713f 0xbeb3f718ba98c83fd16cb7aa078584588995a679c6bd56034b536d6c9b154075 0x4a1054a052f9921f2a0ca0627db1ac271c314bfbd308d7c1056d17f9c062f7b82,
    Add U3 0xa9d91649f24c88501905ed1e63c6c07c6dd02e0bcbf2eaaae6cff6a30dd1658d 0xfae764a6088495c92c6a92d67b0423f297f12a231e258fa9524377fd3aefb257 0xa677856e487876c8dc2cee91cde6d2fcc2dd217419834188a4acad05e0619fd8 0x55dbe4bec4736ea33d74c37926c19a94c4ba4d610886e90635bf9dcdb8cac17d 0x70b057846d369cba153c89b20ed74909dd23d8f22c7412405f28881b17d93602 0x178d16d329b8b275f957f4463f923134c1990479a2c6f74e9764ec891f494d585 0xe99bc72315c28e466898d708061dcc5eddc52056769388547ef39a7eaec8a2e0 0xfa01cb6ad055d2ca342115e3ce29052432d593f025a3da7cb979231da760f7d4,
    Dbl 0xc6351a3bc523646932b0a6467182c2bfa50ae59909317c924be00764f8356753 0x1135a9a13e883d66900a91489f7ecd1e3ace42d20da2908e727d31799644017eb 0x93743bbfd6d478f2e9cf46476cdd963202d6e5c64f0f76ebb9bfd6b1b1102793 0x99762f98546291f9f47d6291941e4ff67b4b165420453c8ce0c09b412ce7c864 0xc267a8feed9ef5b053a57d31b9e40462c1e3679ab977721a7bffc71b07ba9619 0x2c1beda3929b3698c3963c0a0c5724d18a9647643f0008d7759fe19434c867c3 0x968480171352a04acf85f1f1fc5f2916757442abf8be8565f80db46ffb49c308,
    Dbl 0x3bea0f4990900e13f945e7c6a72175e501bb3e3c5add8a07f63e4f48a2f2313a3 0x4b8c6999b5a6ff3ed81abcbb1bedcd59c8de1944f4b5c5e96d76024f9765cf99 0x2ca32e9b6bddbb379f933d95e926f7bb7b31515b309fc641bb9b753c87a1a726 0xe05b90bdc0861eb96daac21f2e7b09b264e67ce75cb3bb0d3c156d41d8e75d413 0x166d10d246af6bdbb4a3c08b183b69e7687a5946b1e6fb0a9fe246174296e7c9c 0x4ccbd1b7a517009367725f05592d07d5d8fb1b8c1bdd95cd154bf167d903bb99 0x53fa3e8ac3f205a1db0e02b216b255e69d79010bf2d3ee535166925fbe57b6188,
    Add U3 0x4c23052a288ec01d0d1a17bcab6987fd49294dfa6d6781e6e5aeddac9e43514c 0x19cf187fbfca570945fcb5d1db1c1da17fb0a6dc3227c275742b6692160ada604 0x7ad031b91f28e46deecc93c634f8c820f31258a69bf193dd419e703e2eca43bf 0xe996dad643363b839b4d2087c10e0a4a9f90d95eafa5ee3c59118542f602634c 0x16a4cfdb71b685a0b07e2ae89958f78457b23a10c5b6884a5ff7c115107d574d 0x430c53c528a77fb404461d0e2818ed70dba077fc80f9d8056289eff8919f4009 0xe62a5cff9382f1d9fe84dde9b8fd378e0086030df0694e0a3dbc0c087557d6be 0x13f0d4e8444e3131f839683d7abe789956bb78b948814611b82667e786415dbb]"

lemma order_chain_19_points: "ec_chain 0x10000000000000000000000000000000000000000000000000000000000000000 0x1000003d1 0x3a0de639e3a9adbf3c8637b6ee8f994f0831767a4916d97ec4acd56d25a1860d 0xff2045db4c1d8bbd30f0e676ba2f1e493bd6887c73ec917253cd5b68303ced1f order_chain_19 = Some (0xe996dad643363b839b4d2087c10e0a4a9f90d95eafa5ee3c59118542f602634c, 0xe62a5cff9382f1d9fe84dde9b8fd378e0086030df0694e0a3dbc0c087557d6be)"
  unfolding order_chain_19_def by (simp only: ec_chain_simps)

lemma order_chain_19_digits: "ec_digits 0xc21b48869f51af37a2 (- 0x3910dfb58043a20a1bd) order_chain_19 = (0xc21b48869f51af37a1b, (- 0x3910dfb58043a20a1bd5))"
  by (simp add: order_chain_19_def)

definition order_chain_20 :: "ec_step list" where
  "order_chain_20 = [Dbl 0x1dce9e59be00a075d7aef8d297f2c02e93250af6c9de0b35117f3b8fca00cf0fd 0xda2646162cd0316067cd3ced68126cb7823aec401b5a1e9c4687645e45f7e2e4 0x420754864897168f68f1aeab6e951b134ebfce6d92f73e1c6cd044be92435fa5 0x37876a38f6cd35b600ab8536ce1bd675088b359fa154fe11614707bfa0f65d9f4 0x1a78f864ffa9f24f4325b71dc5278ef3750d10af11caeb01fec41408363beffd6 0x2d41d28c578f5007e4dad0499d9d283d5bb09c83d2154de956c589e387413896 0x31511db433e850e7c9bef71db4fff6f7918c06cf8347304498dc809cc24948ef6,
    Dbl 0x177055e37b81b66ae5b6beb95ce3b7bedf278253a5ae19f4a561862db4da88d18 0x5181655881f64d9c29a5659fc5d1d63d13303e40e452dcd67bc5f99cc7031bfb 0x2098d03c60aff93ef3cb90c6aec936f50e51f786e7abbcc4055975b754ded5cf 0x22560ba240e3a6f39923b4f0014cf643db15dfdba0e8066f585337661ef1c9889 0x1216e8449e7e71d5075261de4bfcbe41e406dd6e6ab4b81586776cf063d648605 0xd648064e723df11fcc79d40ff341234fc7ff4c9ef852d3ee67fce872087c575a 0x1a7fef5766b9d0c505941327ad749ab8748aea707b4f2edd7df0c1cbf630accf8,
    Add U1 0xf47a60e9c765916d120efbdba8cbbc6f55b4363897e5bfc59413ea764c41a155 0x159259642992cc26d61d4d1cf1fbdd411f44a055446226c1554990ba2c2193df8 0x1499cd1ca5e1f8c6680d336bb76312bcc0ad7aef94027fdd05da9c6609e989126 0x8f4017ab0092b89431ba994f5b356229e5133eb7f9bb93894b897e04a869bea1 0xe979833e279bd50f45a55cdc880cbe257cc5145871cbda2223f12baee6a8979f 0x9158b891601d40aac210f7775393d4cb293eb8ceedf0293ab9cff7b1ac75135d 0x8580d4102c5d1e26924982465dba8319c8dc5fe664f82a3a79a3678de3f2afa9 0x8ace0b38850fd1fa05dbe11d6b7b5b1cc159aaad85ac084a311d77559a776c82,
    Dbl 0x1be39dc4118e1b8ace4223f3ad79fa7ab3b60caf83b22ecd4a9633e25b6cc15a8 0xe0ef3c8974a6281fc6271bb0743f0288d379b569864b536a37f6b57b34016883 0x95ab384fc4246b01457f3a6dcc0789c13c95a1ac7f1675a90749141a57127686 0x309cda886a52f87504258f51e757dfc8ff67aafa7959d64d34eb3138280fc2708 0xf994df5b3c6e4d92ec3b5ee18f2dd868a87d9d0b7aa51de0444069e95157444a 0xeba722c1c7eb2a92749c667d6ec897be07713438466fbe2fe89b5acecd382690 0x1b309c6021599c2a2cbc61121db4698ec98a8cbffa3ad1b185ac8aa896af0a059,
    Add U3 0x1caa6b10ad9f24f42cb3f3faa381b5bc952568aef4a1c79c4d280ab6d9368387 0x133e97e47a45ec0cab9df6045cee1481239a61d71d40577eff708ca43913cd6a4 0x227a83a458c18efe721ac72dfd061980c05a63a60328904f038b8863f7657dec 0x1881ef866046cfbc720d1236288b9deddcba5a6722636e7829604240742c653 0x335b8de04e859abb09bf323d227e0cb2b02f9b7457ff3f16c0af78a0e0f3a33 0x1942319575e1ffe057e5e694a697ecfe25ec9fc060cf03ec184b30ff54fcfac62 0x2406d569b8185eec41a87fba2f0a60215b2bcce68de4049e05f23831be957cc3 0x2d40df1962300f17ba1a0d78d69ae3e893d5388c7d8885ae34bf992c71a7cd95,
    Dbl 0x946060032ce92eafa3cfb69fc84c570252ea304082a25aee30e12a112ccb65a6 0x29bbfd0bbb9bc20fd13757013fd1401734fd917bef908d0892c3a6328c3bad27 0x86e6ba2d452949f57940fb5cd86c9e1fbf953bb5ba1985899a30581a22c7ae0f 0x55ff934bd251ae97117ed65dbbcfca1544ccde1325392708999f9b5daf3beb41 0x7aa164cb20db23064ddfd5c68a1c1bbf1e3669f0b80cb15de865ac08e47b1473 0x1a71661f07e7765fad00a5c9e4119da0e59a3fe8d668be039405bea59f3a777e 0x471378c9465ecdb520859d31b65130d250a0809766342b29319101a5c7d70e7f]"

lemma order_chain_20_points: "ec_chain 0x10000000000000000000000000000000000000000000000000000000000000000 0x1000003d1 0xe996dad643363b839b4d2087c10e0a4a9f90d95eafa5ee3c59118542f602634c 0xe62a5cff9382f1d9fe84dde9b8fd378e0086030df0694e0a3dbc0c087557d6be order_chain_20 = Some (0x86e6ba2d452949f57940fb5cd86c9e1fbf953bb5ba1985899a30581a22c7ae0f, 0x1a71661f07e7765fad00a5c9e4119da0e59a3fe8d668be039405bea59f3a777e)"
  unfolding order_chain_20_def by (simp only: ec_chain_simps)

lemma order_chain_20_digits: "ec_digits 0xc21b48869f51af37a1b (- 0x3910dfb58043a20a1bd5) order_chain_20 = (0xc21b48869f51af37a1b2, (- 0x3910dfb58043a20a1bd52))"
  by (simp add: order_chain_20_def)

definition order_chain_21 :: "ec_step list" where
  "order_chain_21 = [Dbl 0x42342c5a0249fca53bffebea094027c9a0e68630e8a50d563bd7f231889edba3f 0x590eda1a07170acc7360b3ad0118b122dc08fa4de7fc2e4c2a641b445a06f6f 0x2650232e3c09ecae2bcdd30b6cd2d6cee2f4cf9a3488c3e63ea634c3539c7b6 0x111ef180756e24c2e0f403bf51651abb21b29f9de47de7a1a5ea7f3372b08546e3 0x18481b7fa6168ab2a96841e2c219f70b2d165eebc16d0f94b3645f4cced8de288 0x6b31ef4dd1be322ff30433157cc671d1c0802c63d1feb27a9bca83547406c68a 0x64789f16d0abc7ffda990e8b4de36887376c5d70fb2af30f2d2a6a027513c3990,
    Dbl 0xda467db292dd5b30c9fee1de3802abedf02c4890a0209c81e4add4ed983cf8bc 0xb6bae07920b513a31d4bffcd288c258a270718c4fcd06145f92ad1076e1c18bc 0x8a1d8d2b2d0b0d671b3d5313baff47ff38c7bde4d7f9562cced7aa3233e61cb8 0xba1c217d1d813059b1d64098050f7e9ac7e2e38e5273c9b7d5a70c7beea969d4 0x78477507b6b59163c77f8a1cfbcde56db5678f14cb4f36119512b9190153a72d 0x9a1f214e91015be3ccb776758f1caa09bacb03f2ab657823f947ed2ca93bbda2 0x668df8415c87784f2c2bcb3d095c0dc9065f2de73d0d6b0bcca6b5a026d51d20,
    Add U1 0xef98f5455abc6cb043f4d655a31e77a7823e30d3c1e4308a47b238419e4d2cdb 0xefa0d953ccd1ae453a630f821387c307c9d43ef655d4d2ac8b1ad727e311f70f 0xe04657fc21401110e4568beb784af89835fe0eb0b74b2c1e9f40fad162e45a71 0xb40de0803bbb393961b10587bbbbf87373008cd8f20a2040be728cd9c0666291 0xe03ef55bacc56528e1f8db25715134fe378ff33a3d0304d7b9c1ef9796d96508 0xd60facaaf14fd42db98c4d8bff434f8bc5c7310be5ef35ec10651d57737fb656 0xd473f4c8316470b9ff68ddfca780a6b16c2762ccd967afa7abad6f5fccc0d90 0xc85888991b21029a02c5097f86b29d3258b8831a3196ca5f1debdaa129a795a0,
    Dbl 0xe9b334234077236f3326d66f159e793d736cc24b2953711b5db909315571822a4 0x7f9f6e7a651dcb8abf743e18203d2b6c75574201f41d37a6b7d7d042ff7bb73 0xa172dfe11abd3bf17edd0e726c45120a79823fa950d65ab6355cc49aea889160 0xd557b25a1f435c270fd2e0ff684b09149d3faafc69a270ba69cdf99f4becb97cd2 0x1129b009f20fdfd47e2d3f7154f76e668f97e4d2fa133c58a8915c83dd5ddcd60 0x523409e654fce53d1c68e3ce33517250234fe911611ea8a1897e4239e1a19e09 0xfaaf4ddf90c331cb2c44270a7d6276e356ab9a2c920421c4319d584445e346bc9,
    Dbl 0x23020f4e0e0940515aa3f812ca6071fdaa2edb08ae3b5d72ee80e06dcabc3a7b2 0x3643c225e7dad69f70e2a67bdec22b58327b687ea5f3c7f84f991846354e9cbc 0xe5202f6f36192e9fd9be64de34f6da8839620461ca6bda6e05627ee1324d8c41 0x4c9903395f8fd2ce3fffdf5f269fdadbbf984ec19177180f41095acd15607f3ad 0xbc52b071e4a40d51a51ea994374e378240203b47866a80482ffa45b8b83b014e 0x2913babbcc950ed2ed1db5c3be64ca019d64443a704a499bea0c5567a8aa020 0x19c0d2073701fa127e7053d74ca7c6cbfa978bd1721a630f3af7ef00aef68415d,
    Dbl 0x782c16bec4bc766c496b536932de7731fb9eab4dbc6eb9c9cc32dc116760193e07 0x1d287933bc1b205f9311624750f0e5a1b1bf6accbd1a4579c91b4cc31040b53 0x1df888637a22bf4bcc7de4b60e99d3f85b92326af8f79a6d536fea6836f8dc07 0x38695ceaac09a7c73d596086afc01ff624b1e010f8c42daa2ac7853c468eb883d8d8 0x1c727a70bbbf66f540d408028265d068fddcfd1f6d1744000b1f29477fb54ac69 0x16cf2ae0dec78bb79c416e4d937cb20dd2c19a0c90471c80ec97dd6340d1da05 0xd5a8f98ecbb23ef7adea14fd484a05a72706211b73d2eeb6909e69b09f938ed066]"

lemma order_chain_21_points: "ec_chain 0x10000000000000000000000000000000000000000000000000000000000000000 0x1000003d1 0x86e6ba2d452949f57940fb5cd86c9e1fbf953bb5ba1985899a30581a22c7ae0f 0x1a71661f07e7765fad00a5c9e4119da0e59a3fe8d668be039405bea59f3a777e order_chain_21 = Some (0x1df888637a22bf4bcc7de4b60e99d3f85b92326af8f79a6d536fea6836f8dc07, 0x16cf2ae0dec78bb79c416e4d937cb20dd2c19a0c90471c80ec97dd6340d1da05)"
  unfolding order_chain_21_def by (simp only: ec_chain_simps)

lemma order_chain_21_digits: "ec_digits 0xc21b48869f51af37a1b2 (- 0x3910dfb58043a20a1bd52) order_chain_21 = (0x18436910d3ea35e6f43648, (- 0x7221bf6b0087441437aa40))"
  by (simp add: order_chain_21_def)

definition order_chain_22 :: "ec_step list" where
  "order_chain_22 = [Dbl 0xa93da560f1cee0ffc157139c9b1b2c4559e5a54ab8ff90ad3c2b083ade039058 0x13a1c2426fd3845e925e56eb3ab7b3c1d9633380c92bb86926ff39fa4445cab3 0x2484c4ecec1b65a17e6dad196f5d1dc5d9484bcdffa81ff3d7c082fb67a2bcb1 0x6fe273323a4c7e13d4c0b53fc9640db79112f945b97783a7a1d9ced87da4d94f 0xf973c3768e0759aa4e10379c9f3cb6328249e69cf94f7a797baf676bcf561b85 0x50216c534a28dc352fca034a0b7c64dda06ef349792fbe458895d45e20b5c957 0xa4e97dc4eb06f95a31817742c13b870993c0fb7f52944383fde8fa4516cce064,
    Add U1 0xc595900ebb5ac02636ae6e639d0eda92cf6f4822a7daa57658ff190307a4b5d3 0x15539a1920dc1560ad732b57c5f29ed412953b10d2e2608e58231fe5eaf555716 0x1075cb3e47c5ad5dd92e5520601f1a63dfb3a0d31193228d17376e5f68501ed0f 0x6f00407a780193b46fb269ee7dc2dce275309a140811eb2083e02cf8c3ec4efc 0x987f8717ae9056fd9bd9d38785ec72eb58362e5487d1d64d9e63aa859741849c 0xb58484727419d1ed0ebb432af19a40e36417b1b9f79634d353e05601a3b669e4 0x5882ebae76db4978045234dd7ee32a83ea305ee733aaa2bbc13102e127daee8 0x8c190632268d36b821a150b2951ea288686389f392f196fb2d28ac19739cabe3,
    Dbl 0xdc154e6221d0e66ad69cac332f2630ddee594c86564a9dc775e8a795bf66ec974 0x7cc19035d38df0e76d15c5967df946da16db4883a5e6bc930478e3da81c92f0 0xcb85b2c253a915ed6cd007d62ec99327e087f7441789df8c817c4864d168f1bb 0xbd34a07e9e388a86a335881ecaa7b161cd8096e289ea939acf304e1fddf39908b3 0xa37a8db824587dc702e262184ef949ba94a8a2cff0880b940263e492f2835970 0x4d7e369ee5cfebbc1b7e55715cd4e6d77a57d2ae3299bda3a4b15ae7a386e2f4 0x8c8aece5e10795e66f6c200fbc7609573f2830508d2adbe34f676889a3624fc5c,
    Add U2 0x46c3fecaff87a7fb0b74e031884897edf5317bf79485192cc7f8507757c3142c 0xf127302749f7029a3e30fae067c68ffda6a04cc2678c0a01263f57de2f4f9a3f 0x42a95808878faf1f2e0187f6410aa22e79d3908dd23890818aecf8dd8ae5bff0 0xec2b6500639bf10835ca3daae320b24474e11ac991d2ddad06f8b67bc50ad86c 0x138fc5652a96ec90a5322a1b5d23d551cc986c0fd7700291504b3143a1eb2ec2 0xdf5a4dc1f00d24e53705ca2b4ba8e0e36ba6dc7a85b701df7a8391e80c5e157e 0xbcacf5544f90c80e45a6aed58193a3e9ddf5bbbed4857cb0071a315deccafaca 0x3dbdb158f7b687f05c44517081e20065004c9524812f5a8e3c0a5c7a47c4a636,
    Dbl 0x27004b97e8a5c49112b1497875fd084fd78e75ffa947f125314bd5f4eb8895981 0x10a320613c6654a22a7c87adde2cfa3c780a33a1929b90f6b6d311638751cd65c 0x7776fe29f77b37b8e2b113878e23a6105b4d9379610a70cdbdd9b7e550afa319 0x5f117085f34de599bd9c8188df63e4e78e1cdebd2035554dcb1d5aa49e1bc3df0 0x174b466d66c20b94f53192a2354fd0c341993875030c86cdf491efe95745b3182 0x68f448e234506440d13fa8b3e76e12a84cf727d7694c9c1514d6b0522a7ba2b 0x38c7e9b8adb74a086192eebe64810ef1f0f1d51fcbe6389646a72c8a6cf787503,
    Dbl 0xd89638d4e16b874d2dbcd85554048c2cf36f6c1591e60371bd0a2a6f1c5b0dd25 0xa57e10da15a34133f0134c84dfa0ad5db9d5187a09c6f34fb90d3115abbeed5 0xf99bfa3ba93dcf21191083e193329b97c30adeae9e09ecb48b58c44b0dbca2cb 0xb73dd80de27b71f9f7685333ed9e7199d1496d6cfb0dc404bb04d828d958ce4464 0x7ddb03ee4e3d6897c9a08fa5faf10a789842b4cac30084193280f39942f2fc7d 0x38ee26c4e72cddf5ee0bfd31f16a4240582f36849ce70f6a52bdbd85ec172316 0x6a7aa595f0b366351c994c80dec14e02136d288d1f20338682f68cb6abeb68f30]"

lemma order_chain_22_points: "ec_chain 0x10000000000000000000000000000000000000000000000000000000000000000 0x1000003d1 0x1df888637a22bf4bcc7de4b60e99d3f85b92326af8f79a6d536fea6836f8dc07 0x16cf2ae0dec78bb79c416e4d937cb20dd2c19a0c90471c80ec97dd6340d1da05 order_chain_22 = Some (0xf99bfa3ba93dcf21191083e193329b97c30adeae9e09ecb48b58c44b0dbca2cb, 0x38ee26c4e72cddf5ee0bfd31f16a4240582f36849ce70f6a52bdbd85ec172316)"
  unfolding order_chain_22_def by (simp only: ec_chain_simps)

lemma order_chain_22_digits: "ec_digits 0x18436910d3ea35e6f43648 (- 0x7221bf6b0087441437aa40) order_chain_22 = (0x18436910d3ea35e6f436488, (- 0x7221bf6b0087441437aa3fc))"
  by (simp add: order_chain_22_def)

definition order_chain_23 :: "ec_step list" where
  "order_chain_23 = [Add U3 0xca34679b6fe34e62b9eb90f27d3591e2890656de367ca0d1b7a83b443237c575 0xcff8bc5bbf455caae64e16d207b6363bb330e06fb51200e472f91a12da92aa5f 0xa444d75201d80da02ea8204af7a4a0bf7913f38512b538d10284da8b934bd687 0x336d03087f8a360547244fd43a4402b0ce3c1a2a4451bb73940d042b4550b8a8 0x9fb6be3b8da69e753cbe8d67fa505d3540dc2df8948e0e9e9110fabe9fdc0be5 0x1c62ef73329b3991bd1ec340d58ee98e6f4cec48459b83140f74bc01ec86be652 0x1b0e9d699e6dccd75cfe6b0a9f3f2606028b048b05bc3e61a357371618ec9727 0x166be08693fb314f2683bdb33479f5e2f2e6a6287fa6095bded0f5467c5cd2053,
    Dbl 0xc0f2a410ffc5d6addac236ab0bcb740f0260e7a279397041b104ffb576ac52c8 0x9cb5d8b72a38909fb53eb4e9e8d0355ae7f78c3ad9ef6a3701b5c56189b08d0 0x1ec741c9e31a25d2c2f745c4c3f7ed7adbfea648bfb2ce7b830488f7aa096d2e 0x916cdc1418f21ce51c2a39c690ce2edb13a64344edc420c0faa3386ea85963de 0x114a5c13e9c701032842d0a0f764c1535f23d73e1849eecf811087b329b4747a9 0x1a99a451df8aa57cadfb9aef72784d5195e4ca76f9a8bff7dfea208a0025e9e1 0xd08286ec31130540473b11a7f74b6d9670ed13fe6ef4132ca1608441c0d3f300,
    Dbl 0x51b4963113fe18798a9a7714323822f5a6f8bf5d71c7ada94f22d63a169589ab 0x5e0d5b9241c85324ba555bcb3ec60dcd4f8046fc877b4f68b5be16293d31056 0xdb4f7b090a48815edf632837c08412ccc22bf55fdbd8034896c42c02ed4cdc7b 0x1a13c66e9bc875a5c224295cecf46188327cb548c09736d9fa26f2f592d1b23e 0x4377c6c0d8d1a473e3941d8d0373daae19d2b0e8e3dacb32ec405cf3bcbc8ce2 0x972b27fe02350e8718e72492d235ac2aa49b3743033f866c8224e236049cf026 0x15887dafe1d9ad6f692f3e492a288dc7359eca47d13923c465bff641ef21c541,
    Add N2 0xad28c18f91e0a256a428c714f1447066d39b7579aa02d8e407402ea39324a495 0xe15d67e093579728cb9dda7ed60c1058c4fc4ea6a33de64510f77440136baf7f 0x98700030cd9234d80072f6f50a6571be4509aabfa79c1d990475a6c3420f0786 0xb93209738435d5abc2297aae654676d0f7e2a63da7949be3310f1545269a9ab8 0x75201c191a60fc14d5cea7240ae5207544a9236382fe648a63fb76718bfd9e35 0x1221d71958612abb31d39ad895b3d9bfbca494f223443676565b516bcc6b23df2 0x478eefdedc057a1b298c15bb76a7dd1ba44933dee98bb6c7f0f131139b236d90 0xc43c15b6b15cfc9ebc303b0272a3f0ebceea8686df1139bf8f011ec23d154d1c,
    Dbl 0x3015a382392c54288bde390f6bb1b9d3cc230ebd9b517ca11db85dc4136ba69b5 0x1c2f1aaa06f3ad9c7d20cddefb7ca3552b814e3ca89faea83395d288645c1520 0x9f80ff0c05670656c6aeb9bd754a2e6ffb7b8b160e019644d3b3e7ac6d695fb3 0x9081f25113d17e19410284d472993a7ef02448bbb56f627e9eabcd70d9b03650a 0x119b10a677ececf54fb7ac0f0effc4860fc671b279993059e5d5b2d97b9313734 0x920f35d8122b75636641321dbfbe61664b7246a6abfbcce3e5d742ec31ae455f 0x34e9016446b48e7c8e291ef9b3afaeb8dcf51bde0ba880f53ef2e0d4d049c963b,
    Add U1 0x9bbdfe8c70d2b81ae629b7dccb2b3a2bc9ba332d58d82497988c0bb2322c52ec 0xda3d6772f475b5558ef1a8d8593cdc97072071c51fcc9294863e99ada98eb414 0x84c525f8a048e1b0600ecd0d2c6a2621c42ca3e19f86d63e088215f9b82e4d99 0x957b2e8cabdfffea0bf507c5a5511b5644f2adec49aa12e9750f97e4e0447e72 0x5ebf9f3fe918bf0227f62aef7a725def495ebb00ea59afc4e85181d872ec859d 0x10a05d07f5987066cbab9b1f7cff91319b688dd29c457835b5ea44fc68d24dd70 0x75292540a0172ed2fac8be13226fdd7801b9d57cce628d969a16277f47f9ff5 0xa1d6f40bbe83bd5962cd7abf2d37295b5fbd5f8e4a7b8e2a99f53bf70d7069d4]"

lemma order_chain_23_points: "ec_chain 0x10000000000000000000000000000000000000000000000000000000000000000 0x1000003d1 0xf99bfa3ba93dcf21191083e193329b97c30adeae9e09ecb48b58c44b0dbca2cb 0x38ee26c4e72cddf5ee0bfd31f16a4240582f36849ce70f6a52bdbd85ec172316 order_chain_23 = Some (0x957b2e8cabdfffea0bf507c5a5511b5644f2adec49aa12e9750f97e4e0447e72, 0x75292540a0172ed2fac8be13226fdd7801b9d57cce628d969a16277f47f9ff5)"
  unfolding order_chain_23_def by (simp only: ec_chain_simps)

lemma order_chain_23_digits: "ec_digits 0x18436910d3ea35e6f436488 (- 0x7221bf6b0087441437aa3fc) order_chain_23 = (0xc21b48869f51af37a1b2439, (- 0x3910dfb58043a20a1bd51fea))"
  by (simp add: order_chain_23_def)

definition order_chain_24 :: "ec_step list" where
  "order_chain_24 = [Dbl 0x1257032455b206ac299befa9834414fd3b4c69366ea2283197ed36b7182323285b 0x6bd02e98a0118aed1cdd0fde1924b04e423e4c509c728f778eb6ec50b59b3be 0x589803c3d0254a43f0f78e18070f9679bc71ddee41d174a8336e02e236b5c1c1 0x1505a043ec9271b21c7d351b25e1bb57c87f3a4f430db77286c1fd6746b389a988c 0x13ce32ac8dbbab5a61afd79ad9e4184dc8880cffe07d89e4141a19501a98eb8e0 0xcbb7268717a97c9260850b844708d826fd88d54c10d9b5e57cad8e496e70f582 0x16b3ae194d3bf7765f7c1eaac58fa0d95084149c31f5596728b95eaea9fc0bf927,
    Dbl 0xcf133c57edcd5a1872542f16b159c59f72b4d7e9194c3effb7ea3b0ea41252a1 0xed9636f6b4481998aa92b7d75ea47969f56542373577153e90d637eefc7a5fcf 0x499ac2fe28550b3bc3c234518f48a0903ee20d79c9963af35c07388d68e71381 0xa7801d0835d8b9daa939ac658a045236137eac6b00ae797f8246f7cd8878cc22 0x10efd40c5a7d03f082d3559c677c6f5e97d8fd074783b39b4d766ca53cdceaa6f 0x344028a230d3339a916549923596072243d8b300e2c38d14e0ecdbdc195a70d2 0xdb33240c1056030fe4e1745ac9cff3d7d6139389d9c600d88973efb176e8ca75,
    Add N2 0x19f25a3697c3189393e2d467f9de682b1883611025d4ed5cdf1f14e83ffbfc59 0x173121feb754b0d4be73ece65074782954846368cb57fae9a4bb467b597d17879 0x259c0f03ac0f3367eb236f4239b557955fa632f7253bdf953b3149806394f854 0x823e6ddec25cd6aa73a7096ec8df690e8009cc32431bdd6e8b137ae3b5095124 0x2a13b0d58a57600d773c440501173531a42ffa6b3e46d7913d26f855507704f 0xc75c551f65f83491501b2ae2c6693781bed84147867a5d84d0f3bda8b3ddbe8c 0x7a5806f3f12bed979654078f7381bb561d5557d207baf9e459fa160c3cce9784 0x1434bfd9823a04ea98411d25527242c7cea79a4556ff2a7b089635d30ebcfb8a,
    Dbl 0x104bf5fb2356268b3b10b8d518158efeb7982d36d68baf2a20ab93532bf85864b 0x326f54829f20adba8d5b899ac3bca82e22f19c09d1c0a978754629a9dda12058 0x35c491f93f4a8799be96d91e3f88b72385720779664dbb84b31450fff8fbcafa 0x109954971ec214d328d7282c1f10380ba975024c44aa041424daf5a94b1908df9 0x14c79dbe583124f10b51030508956b1eafa97c4b8dcce21e9d7ff29e2bc0d8259 0xc29f059c03a864b439155e5ce8a7ac242840ab7f72d444d256c709c4ce0918cf 0x152a44e88d4057d5675e5ecdea9b4ec55bd7f253dbed71134b4da7bc983361640,
    Add U1 0x9ba47a6231d3762c41df24cea7eec4ba4ab0e306eb1a43783ea697a475699a2f 0x143f9d485ba923412970989778efe53e37d29f561c7806d54a6de305a1dfc48cd 0xc4f86a9a719b8f70a356150e7f00a1e996129721dd5681264688bc50e5a0d766 0x6fc000fe55ba9d6c19f591705b3262baa7159a1654b3ed4be75d76384b2bdc9d 0x5ea095dff0a7a530bcb3e70d7ac848bbfffa8b5293183c0de816a2bb44028b2e 0xc60490fae98fea2da4a147ade4565468de5c6d631199ce38cbb6dac6adcfea8c 0x9bb1ca70dd380e563a0b6cb93de6c8b3d0c617f3899526960ba2114d67e30ede 0x7863fd5eed89474382afe721cf3051bdf1e6b8e9a1e82d4738767a96fbd16ba9,
    Dbl 0x8a04968e57a999cb5982a6b33922ade2410580a4576e4fdc128cb13e5cdde3c9 0x158910575b9519b60d6691d6daec26128bf65e696443a109ec96a480365ef30f 0x9946417f6af5d4948841a2e0a96704f6422eeed6a50b94ad8c6df40c1d0ae838 0x4a68f2668380b4fc2941492f7935d0a88ca3b9278e51d3431d7e8a54713c70d1 0xd679bf7eeac4c8d791b3ee8fb1cb5dc464e6ab3fafa8589e5aef822b2e20f094 0x70e0be86de0b7cc50e825600e4af80735669778a6facdfcc91309aabc8fc6cfa 0x73a17943ffb7cc998c4c558885d159b2b931a525651b61692e9d59fd20b97e64]"

lemma order_chain_24_points: "ec_chain 0x10000000000000000000000000000000000000000000000000000000000000000 0x1000003d1 0x957b2e8cabdfffea0bf507c5a5511b5644f2adec49aa12e9750f97e4e0447e72 0x75292540a0172ed2fac8be13226fdd7801b9d57cce628d969a16277f47f9ff5 order_chain_24 = Some (0x9946417f6af5d4948841a2e0a96704f6422eeed6a50b94ad8c6df40c1d0ae838, 0x70e0be86de0b7cc50e825600e4af80735669778a6facdfcc91309aabc8fc6cfa)"
  unfolding order_chain_24_def by (simp only: ec_chain_simps)

lemma order_chain_24_digits: "ec_digits 0xc21b48869f51af37a1b2439 (- 0x3910dfb58043a20a1bd51fea) order_chain_24 = (0xc21b48869f51af37a1b24392, (- 0x3910dfb58043a20a1bd51fea4))"
  by (simp add: order_chain_24_def)

definition order_chain_25 :: "ec_step list" where
  "order_chain_25 = [Dbl 0x1a80dbe3c0a7c40b217cfeabe4bd2a0aeb38c578a624caa1dd8a849f4bca953fa 0x62a56cfe15c25e1f4b84e0689cff83ec7eadaa5fe598c40b4a64c4a30cbf9ef8 0x2ea634df4fcb8d56e74192879ebbae3ce53fc27017791c9beb475df4717596e3 0x2be6d86e3c231d491dbabc4e4a322c0f690bc46d37e88fd286d7a36845ce36aff 0x16aa00ca01b2a473da10010590aab56b95cef2c668d927811a1269616ab954d84 0x1a5e4dbff5f111d590d494e3a98de6cf1e3d043cb3c4e090470244e167c1b4eb 0x258ac8c81a6db727c165a3a74e751e4bd24a1a83252385e6f0c912185e8f8936d,
    Add U1 0x8d6a82b8f3f67d203bde71144ace0e6a9a095a70bb6c5af6d8f20e42e78c1739 0x14b18319faa112e556e5ed00e2fcb5cca1d5c3a6b16550c3d6eab2365a5827ce4 0xb6e6146afae562eff195c57574d36486de7ed203ff9f61f460b603a8e868a3b9 0x14e6ded583e75b92afabc7b6fc22c87557ca241045d1f39cb95b8be88d32f13a 0x4e1e805040a7eb5b128b16c9e293f05e45dc2df7afa236c20357fa3b9bdb19c4 0x119bf5609cbe431c43795cad0a298e5c78d759e5fd1a728ff31ebd20ae442a1d8 0x403e4b4e2c0fa80bee310cce53799f75c27832f9aa3206ade0227f81d77ca0e1 0x9ba39b7bbd11d2b7fbeae97e8d7a6d5778be42724e7a322d21e10ecd1fb60a74,
    Dbl 0x92c9ea830adfcc2a8d0d7f7690fe40495495520f3fddb46da954d85690baa92c 0x448dbc577f2fb10eb020ca74677986cfa7b3127ea82952339e66337769fd4bd4 0x3e838bbddb4260e53d1e706a8efaa91704ebf3ac7f3b2ed6b5a122262293a42e 0x542aeebf91022b446673e19716618857368c1ed71d19ad248657bed7c9e27472 0xd6635317a8a4faad728d574c6d281f5e52de3063c696c4c603ba69c16a9f493b 0x7db5220dcc64475995260754b4d67a50c61f05931445ec5815c00a193f4e1f39 0x7aedbdc443a3f280ede7368e094a07b03eb09033103cb23cb41817431ded7316,
    Add U3 0x7686ec569e3258166da35852786f7ce189ef1c777fbb3d99be1846298a757bf2 0x18b112ad98d40cae6c2402a490bee28bc714fcb71d3e0bec248b0bc37c5bba8fc 0xb6ea217634630a7ae8369448c24c0058ba7eb99c704f3af86987ee46344b3397 0x15e57e20b8ff483dc36528fca6f6d7c7111d74229f51791e7d74fb3e58fbeec0 0x36e0a8fc1eb3d6e4628c1445885c2378c10d9e85d96c726b19315716b26db315 0x1289e0d9d224318a779b9476de803d14ff3ce7f89dfe9b5b8382c26e6c997b19d 0x6625c73849fe822f998e02531e32cb1cedb4e2ed6b484b15944a29fa06335368 0x89552ed79efc2c316c2ba2c064215bbb4b8f49ac5df09d3f68edf22fc4c8fa87,
    Dbl 0xf0d72e3014739a26e0d6b0dd504e6d2e06a915973eb44c5e15d5be2ebcb0e773 0xba943095544356cf1107b1e41c0e828908116bd1efc70e15948c66eb22fafb90 0x6808e90399c0e6bdef4357b1cb487d564f141e047e2f977c442f9629403ed8d1 0xe2942b78c3706b970b423fe77144253b49d34b8c108c962e1936b65e0fb76028 0xaddc951d1f3e617fd421d14adbae5a70c209561e2121e1a23945651418bd121e 0xcd4a251e1813590255499cb231482c6041de905147f7cb8d1753da128c8ff651 0xa390ef6ad2caa84d261c7d70d6d698e3cee7849e286a17cafcd07aaced3aeb0f,
    Dbl 0x104656a822009e9ab4d96488059525c8659da53ffee97b4ae3e02dabf322764cf 0x122cb89d19059a96ebe26caae4b89b76348afa576cd7f9fdc43cfca80111804d5 0xb5d08a8b8ef59e9b697c3a97df69d784b224ad2511d0d5edca3665bcd28973dc 0x108de288588116f231a5a24e2421bffce5268b893cced6864d2706d1263fcec8d 0xb2385e780acb482285c71d19ebdea5d19cef70df6c5ec18e79f9306b6db56124 0xd892e0893f10d1c235c8fc7257a8257765fbea86ddb1ce5484710f2bde1a78ca 0xb547da551e5e575b0fcda81feed74ab6204c9c9cb0caf77702ed076d54a42dcf]"

lemma order_chain_25_points: "ec_chain 0x10000000000000000000000000000000000000000000000000000000000000000 0x1000003d1 0x9946417f6af5d4948841a2e0a96704f6422eeed6a50b94ad8c6df40c1d0ae838 0x70e0be86de0b7cc50e825600e4af80735669778a6facdfcc91309aabc8fc6cfa order_chain_25 = Some (0xb5d08a8b8ef59e9b697c3a97df69d784b224ad2511d0d5edca3665bcd28973dc, 0xd892e0893f10d1c235c8fc7257a8257765fbea86ddb1ce5484710f2bde1a78ca)"
  unfolding order_chain_25_def by (simp only: ec_chain_simps)

lemma order_chain_25_digits: "ec_digits 0xc21b48869f51af37a1b24392 (- 0x3910dfb58043a20a1bd51fea4) order_chain_25 = (0xc21b48869f51af37a1b243924, (- 0x3910dfb58043a20a1bd51fea44))"
  by (simp add: order_chain_25_def)

definition order_chain_26 :: "ec_step list" where
  "order_chain_26 = [Add U2 0x60d1a9bf34948821bafb272eca5008824661fba71dd060cac78345e5f5ee6f4b 0x106dc585e0eaa79ec4184c81eb7264ba0d50396e16d45139fdd853a862e2f181e 0x6369e953350331df80d3a8aff63e0a50306a03a905bf1c223c01995ded6773e4 0x95823f1711b944e2a9e94e6fa935b28e60d7a89a9d34d2623a08cc31c48d0072 0x249deb06023142db2f7c042911fcb16c0f67486670553af6906d8053887e4a20 0x1204e4b747d3c59b8bf92ec28363424f6514d048a749c038b902d998a0dfc6f99 0x22658a561e7554967d2997d002bd7e2265bb972c9ec7cbca1babbeb8dab596b9 0x6d097b624e824067ac776831a573b6ac68fd7e1c800c6c3f470be0f903edb7b0,
    Dbl 0x47b1f250367a76dba723b3512611691edb99331e2053f1a86058463f8d21a6545 0x2e4fa50a812f850c6ce4b5218d075c40b5b4a3e68e4b3e9670cba0d1ee6753f2 0x5a51cc34ec5aa29f0828d6795ae2d0aa2f4fd47eb2fa38c0759524a20f64bb66 0x14143019767f0367d34c62d719b7634ca305847914321dc351d7cb526b0fa24de1 0x13b3072e2255ea243a1c077f64e52e1e43187d41bea3a99a1c473a78eb528413b 0x78dec9bc8a5b0dbe8392c446146070e429fba9c7f5de905d2fd0fb12dfd4df0 0x584586b2b589c3174e6cb4bdf27e1493deb24d44f99fc9f208be0841497cad722,
    Add U1 0x492ad2d325a2a9bd3d3eca7fb3730df4079a6fd420e6cffc20926a47b69607d8 0x11f6c9a4a0d82190d4d778c1c73a43a5cd34c285c7ad3f018e45d5cb807935861 0x52260c8495558e3442a9e209bb908ff825c628f25e8c2018823665eece619af0 0xe1d176373b8ee361b6b23220f7ed03af2b5647fd82aeab1313f6c0a5c1c44da7 0x14e97366465e36138d2c9af137bae161eb2ee63c3953636f1878940e85007655 0x788055fdb0cbbf3d5176a45862f5ccfb03f98c81304b8dad619e63fb4da069ee 0x414d830cc5bd025300cc5aa71d48a14a723725e791391ffd7b6b6327cbf2d0d8 0x2270c0d01d11339f98888b2a321fc04d7276b0b8e38c72a66b3a923205fad278,
    Dbl 0x4aca65d02aa25a625c4e032a949d2544d0ae3feee04b4fa011e3633f7e119e8c5 0xceb88eaff03d4736a2b03ce4774841eb6ed308214e7b089bf21b6c41d978df3 0xf7a60d75307e6b844e583beb93510059e261cd48ef836e0006b09ad5ebb1a8c9 0x15d9a2e12da70f60ead4ee3bf511da77b9e71ab22723a014a51533a7656cb40a1e 0xea2b68c20b1077dd6859f635649c035548f47ab4932b3d130d4625ced612a10d 0xfb23c1e94b12c321956e5d39225e59791c42a51e333ed47cef3dc47720dd13c1 0x4469afaa4ae8cb006e07123f4c81b43e76c6199e79f99ab010e70c59c48e23218,
    Add U2 0x8de780623cca7f3f001382a27d8ef9531c7b5d8220ce1244d07843f8db036892 0xc506d5746d21ad035ca8c6cb033f22cba4c676bd8f927b8da10b056d1506e331 0x6d36ef8ac24b662b2d8bca5d4b76e689353951baefd827b007a1aad45e31a0f5 0xf05e795b348992a7fe4e7d04a4a8c1e9efbe1c9e993893571eaded32fca8c859 0x4ea8d4c528a3281a227f993ee7d56e3d54a7fc4bfff9f204503221329a339a59 0x107479419fbf4d8dc5009bee6eea83e6ff2a3b0aa564adaa8e802ada1ef08dc9f 0x9f5ffba2a3bf78f8f88d4fcebe6ea5b9d8ca7336f2ccbf8d580c6a9926cf7346 0x91f08231c530ed5c27c35c5fa402454993f29f88f7968585a0a50dd5bc11da09,
    Dbl 0x2de16d0a48af486025d265fdc61d7794a02cc07bc1949cc6b10013db05da7a162 0xecf2fc07aacd21b27d3768b7bd85e3342094e01d09ce0b6e188cf1348365514b 0xf58542d234778db295dff5470e19e31cde24e6824f13d3256855dfb807150287 0x83906d6781325de0c450c24bc36f6c7f2da5e1193ea2cb0c695ca0667af4174a5 0xfad93689001204f5686e87bd968edecd1199361c4a24c031b6580d79f593c201 0xab7c40f6fcf7588dd82001157fb02467abd02f6ac6153d11c6d17b2c74ec7319 0x2cf51257935989d549638e2b2d324e4266f7df9a9a331a0ad26a8994771a7916d]"

lemma order_chain_26_points: "ec_chain 0x10000000000000000000000000000000000000000000000000000000000000000 0x1000003d1 0xb5d08a8b8ef59e9b697c3a97df69d784b224ad2511d0d5edca3665bcd28973dc 0xd892e0893f10d1c235c8fc7257a8257765fbea86ddb1ce5484710f2bde1a78ca order_chain_26 = Some (0xf58542d234778db295dff5470e19e31cde24e6824f13d3256855dfb807150287, 0xab7c40f6fcf7588dd82001157fb02467abd02f6ac6153d11c6d17b2c74ec7319)"
  unfolding order_chain_26_def by (simp only: ec_chain_simps)

lemma order_chain_26_digits: "ec_digits 0xc21b48869f51af37a1b243924 (- 0x3910dfb58043a20a1bd51fea44) order_chain_26 = (0x610da4434fa8d79bd0d921c924, (- 0x1c886fdac021d1050dea8ff5216))"
  by (simp add: order_chain_26_def)

definition order_chain_27 :: "ec_step list" where
  "order_chain_27 = [Add U1 0x66a9f820899fedf0d63b45bd3db7e196239d849b1b4047d8d1beab1708c4f03d 0x843923acc5652df9bfc06d4ec06d27ea24771658deba55b3f19ca1a20fe31140 0x35068e178c7da36975a677bca6436f43329c187420a16c1b4ca843b3e571f22f 0xdb80219eac1bf30ca73bf68cfcdc9c3790934b973d4c21091c32a9c879ee666e 0x292be2937920358ca1acc1b27a9778f07e539d777d4e1bd2782455797aa346c4 0x11a052133885b9aa5eea3feba113d46e54d919aeb11c7b21c4c2335ee8d269848 0x2c7bfb7d26a034a1b254b11fb43ddb37d4f214c6b92b54a2697276e7c4cf2516 0x711949f643c484b5416c17a61360aa9aa5c60cc05f25f298108c7429de9c1357,
    Dbl 0x721a890132378a52e7c924b718bd9af2a20dbccf591bc47cabc8b752bf0565461 0x45dcdf853df82b960acbf542e89f6f8c14992c0362c7da771299814b3b9fb120 0x7b365834f185c384f0876b38ec11467088eff055eee8820c947dcfe8d1d2dbba 0x32dba4c52e49f23acf9bc85ebcffcdf029944a8fb92f1eb9039d66bb5776b92cc5 0x16049c969ba962f87b6b48b5410cb55c707a35b414e639efc87b4d9dea81b86e3 0xe92d90c162e0fa3fb27cacc67e265f612891f120e4d8175c591208d8f3ab1b2f 0x9d055fb8ac020a3a268013e33f59635698867e4089fb4b633653c9746f256dea2,
    Add U2 0x31670c6054ebe346fff84bb673d71499252e24c84134c1267e269490c7b3dd33 0x141768ab4ac1a5502ba79977daa7edcb4fe3853b0902d6781133dd05a2ee5b040 0x3e0916c8e939df6960cdeed525ff259ccab6c36a5fce31bd727c190a87505f79 0x408925ffdc22d7a73ac970566f099324e52b2c9401c34e1c30f5545db9f1aa0d 0x9889c37d69fcf07fb83ca89ac9751d64db2c6d1d48bc2e710f244cda38d3e19 0x13aad32351562ebddb5bdfae27d07b34ba3c4c3c1ed2533f063887b8a17e12ddc 0x4e34ddf0dabc588e394d6b83e7d3fe61123b2797d991ac8c0b27121afaeb3227 0x3cb9d181e423a3b05967f1a8b55f6ad0f3fc5035dab374dcdeb2d79066e5e0e2,
    Dbl 0x54843b8e932453b121470965385e8520874de2ba7184e40761a98379130f21d5 0x2d4e7218c1a55d7480d1e7fa83f15c5a4b6624ee8d4ed95a2705c51614eb805 0x3617011f94e8b7626b616fbcd467f816d5c38e8760e04e5b3dc1da4a0d3dfeee 0x1be70b6309729b9cdbf42a88d7e88404b869bfb084445597150b3ef3b82e099f 0x10a7224e0473a2044cf6800999aa19b0e0f679e0ca0e2ffc0f3337a12acb3a74e 0xca12f57d1f079c66e0d0082186ccb56b15dda1533c6bf412204470027136a596 0x57f714f14df94bb6752a14d85e9306a4b63f484be2f20e69294f82fc6c793127,
    Dbl 0xdd126a127277bae737571b7da916b0dc9360ec80222ca93eec2c852c4094aeb1 0x13ab8aa59cc56f5017149a83c662b8d5f5c9a45737e4857a273aede2c19972060 0x36c4d3244f0d1f41c3bf367bf2fed4a5085a7478115477ceb10f410ef78da304 0xbee8cc76f02e19a8f0dcca83f754b6f73fa9c5942bccc08d5f98914c318dcd4f 0xff522dfb45db9820a7a23940e1692371cd691a0f4f8bd68c8cb2993a15b05819 0xc2d2881436a82cecb6e38369a3a75fb0047e017bebcb907ae4ab42ea4689d735 0xdc7c4f4393f4c4724e1be61370cb6b3c0f3ad45507537f11ff2d0eabdaf887e2,
    Dbl 0x321940ee7b8a81809e95489db25eefcc12858b62fc6d9f33c2b32429af3fd69e 0x2919cbe4cb8e3ff055786ff455542e6dbce8bc8a98a8bf50cea787049135df84 0xf9068748bb3a0751d00c1c02abc6674a898a3602c48d16f0f1c946e85b0b71da 0x9cddfdae74e5792baf8c758c2ed17c8eba3622c0cb47482b2ee042c4dce55fe 0x3dbe4bdb93d317eff3b31a7947386d5a7ed03e754cc760ddbf45fa259c822d59 0x3090fdd4a7b276bf14691573b0ad9c41ed80e87d2b95e414f9cb28cebc6e6da7 0xc15420f62fdeba5b6472954510706ccc77dd6181508ec7680b1362f6227848e]"

lemma order_chain_27_points: "ec_chain 0x10000000000000000000000000000000000000000000000000000000000000000 0x1000003d1 0xf58542d234778db295dff5470e19e31cde24e6824f13d3256855dfb807150287 0xab7c40f6fcf7588dd82001157fb02467abd02f6ac6153d11c6d17b2c74ec7319 order_chain_27 = Some (0xf9068748bb3a0751d00c1c02abc6674a898a3602c48d16f0f1c946e85b0b71da, 0x3090fdd4a7b276bf14691573b0ad9c41ed80e87d2b95e414f9cb28cebc6e6da7)"
  unfolding order_chain_27_def by (simp only: ec_chain_simps)

lemma order_chain_27_digits: "ec_digits 0x610da4434fa8d79bd0d921c924 (- 0x1c886fdac021d1050dea8ff5216) order_chain_27 = (0x610da4434fa8d79bd0d921c9250, (- 0x1c886fdac021d1050dea8ff52158))"
  by (simp add: order_chain_27_def)

definition order_chain_28 :: "ec_step list" where
  "order_chain_28 = [Dbl 0x84b3b075b15cfa43a29b09411e800187ee10ae01d951662b001cf0f4c99111a1d 0x4ee21da24153994e8899f85122433239289b35dd8921a276c69264dc3cf24736 0x3da4a21376dfba8e9fec946f8c3b87c3f1818540367c25955ffb9de10a928cc6 0x44c9cc199d1ff4172c40bb98431415bc3a31f7bd73e27e13fe35f22db3aeab6761 0x1bb61e535445a4cc3301f87931f8adf869808b0c28e10f15b91cda9065078e143 0x808fd3ca3dccd6c2e79ea47ccb63401831906e02b9e0e88a2718df046ec75cfa 0xe5d5b141dfff732994d2a6cea703571197b82b3d634d0e93dc60bcfbc85930bea,
    Add U1 0x82580e3eea8b329631d0992d5e903a621574917dc569c1b85224b764ec670801 0x13c19c46b82fd011db5b3ce26424b8343111a779af7520343f9f6e3790c658701 0xa0f1d031361062bb70e5a344a66dcf2297af3db980ecbac8e6c5d35734b0ad2d 0x46f08b403c3c4b2db874fadcbcf0d186f7788715be6c23a27b959f390953901c 0x425d8cc1b2419030fdb1cd58e1311ae683973fd5687aa1a55e7e96a3d7e10829 0xf6b416d33aa36f60e7779992cf4ab63cfa08fe2a781001f2e465fea7013ef8d9 0x3c145f374b576f3ceef2672e6cad6533f4c42c0a7d9f4e36cab1f2462b63be63 0x7d9c4f399746fc8004cced4c9a13e7a636b9a3da5a5e6241ce410c124bd8a744,
    Dbl 0x177028d66dd9be91c437b71f8bd8a24d53e3336fff7bf15c6a6c17e49e0371e9e 0x750b971ea55845b6e403c88678ade69a3406bad4b1b1d6c24f4a08210bd80e3c 0x9bde3ee986980d62f9dd1c56b31d918872fab40ca7c3224d5765ea532c147c73 0x225587a49e0f4b4d389022a1f2e19d14b8aeedddf5f136f8e5ee905f91f11dd77 0xab124c56b5a43dcabe97de8609d33ffe847dd30916a90155242fb4e4dd3f0fd8 0x43004b51eed37ae7a79603a84d1862c3cc25c9d2f854521663d45822ceba1 0xfa9982756e2e2a25ec218e6e214a1d01904fe4badf477f794da6202f67105874,
    Dbl 0x21ff55bb6fc8fafff851b6e4488f90d3d7e93f73564cc7c732e62994f000fbca6f21 0x70ab7dbbce0c48095a738994eede0a15eecf0bd51ca93885fae7e4fcd8929 0xfb5a7270d68aaf297cc358aa31c2914e9a4b2bb378a0acfa78f590e99917fe44 0x483d2c63af08491ff12583f5fb6284274190cc0f7be61acd50eca776171dae8ac107d99 0xa083cc78b00d5e397d19c3ac815b0039d8af88592f227552de70596892fc7a5e 0xbc54a9059af40aa2df6cefe2468827258ea667472685094d1145e51a4d777fa0 0x15511665842aaf1495b9a2517dc45822c1f083c24106457051ca96a0ee275f8db8b3,
    Add U1 0x555611e738c221e2bd82175ce151449e3d0ae7a36ab8c5aadc06e71db846b1df 0x7e63f40e23520c82d8dd09eb9cc479b86850d127b52d7bdee0fcf0707de01583 0x2a21ae7379e5faaed6883c70ff4d90bcf78c4e365b37bf784662e209e8f4eb0b 0xc495ab829645adb5ea6ebcd6011deab30299d7ceaf47249aa685faa6c4ddc1c0 0x1c7244d3944b9350999e7d533af43ac955fab2b4a5fc09893bdb587a9132ef6b 0x136c4c6ee4045017392549bd430a4a69b97b153e4c959885fd26f9641d43a38b3 0xe850cd699f17b56d5d631067550ba12f1676f71d1ef464e811e541e6381b1fd2 0x6797d1e3b10c89afebcb908bd25f5f561d6828e9c06a1c7b40ad1d6eb5e89a75,
    Dbl 0x1240ebc025899b1047da1f4d83f4d38f7222208f4c6e0ad6338a4497255de8730 0x4d3280472d304f7636b8887ed3d8b6e01ae89cc9e2885b012bccd29e18a10140 0xda6120247ca7cd64fd93af0aa682ec468d2563e96a964d04d968618c5d9483a0 0x14d319dbe7473bec8d82696d416594079df103d79b831a3e69dbcdbae731aa420 0xea348b5e199de050ecdb0dcb5a9afe6c757473e544b0d795cd1d991967493a4f 0x88e6f7a9dce032e394104fc8189830a4d2c2bf32ce758646e857e87591e23bfd 0x10b3169d7b02e574ccab7a307606c9057cd2c2de107d9ac9d2c457d9c3d944ecf]"

lemma order_chain_28_points: "ec_chain 0x10000000000000000000000000000000000000000000000000000000000000000 0x1000003d1 0xf9068748bb3a0751d00c1c02abc6674a898a3602c48d16f0f1c946e85b0b71da 0x3090fdd4a7b276bf14691573b0ad9c41ed80e87d2b95e414f9cb28cebc6e6da7 order_chain_28 = Some (0xda6120247ca7cd64fd93af0aa682ec468d2563e96a964d04d968618c5d9483a0, 0x88e6f7a9dce032e394104fc8189830a4d2c2bf32ce758646e857e87591e23bfd)"
  unfolding order_chain_28_def by (simp only: ec_chain_simps)

lemma order_chain_28_digits: "ec_digits 0x610da4434fa8d79bd0d921c9250 (- 0x1c886fdac021d1050dea8ff52158) order_chain_28 = (0x610da4434fa8d79bd0d921c9250a, (- 0x1c886fdac021d1050dea8ff521580))"
  by (simp add: order_chain_28_def)

definition order_chain_29 :: "ec_step list" where
  "order_chain_29 = [Dbl 0x2a2198ef6530d3e023d2e2e93293bab7c71eb37424490614a9b31f005d8af2eac 0xa21ed757f1b9d9985ff96ec790e40b7b89afe86bc7c006bbf8ac2fd2694a4d88 0xdc8dac21bb5e998a259eb99e7fb59162f574527feaf8363a7f6cd378352a577b 0x6ef0a9756494424404fc65f559d3443bfc0aa5e842cd8e158d89f6cc2ae351a3b 0xfdd37402c14933dad7f4f56c26cd5ae397b111697f9e16ca59fb8e13286a2854 0xeb75e3ad3c52a156f5c3aae7f7619fd895a38e0093d3f4b1eeb3a5c5cff2995f 0x29c600ed51b0b4c5dcb448956573461fc3c5d5fce244900f427a72cefac566d2c,
    Add U2 0xbccc0ca6cbfc25af76670b2a8ccdbdc4ac2c188d8a66078a15e8a68fc822ca9b 0xe01f36c7e2417efd8562491816da91c291b3f186941db353284ecccacb8e347f 0xa549902deed4c9d3b57d4abdfa0cedb1d5c0f07748c7860d9539dc0a0bed9634 0x54ff859bf6665541b595f8a408dd5abab2a68a95faecf729cedaf6b464181dbd 0x8b3c5539260f8102969f3b65fe11c6118ae1ee332544644d070e27430ff9d50a 0x1878e2685c4f844487008c0fa76d836a842cdc7e9f00b3f10b091dcc2d11235ed 0x4e3363a0a42bf1745a59de625e42d81796e41e292450be3f68caa114444f6874 0x120c47ceab739ea12e1e4ef644e43e8b15a795fa056c805b831fdf4a11fa77d14,
    Dbl 0x133f34b38ae6825af74d6529899a9f8e7ea5b1cc06a22b3de0a3bcb462cbef08d 0x6779d849c5b7e4a597369aa8fad80fa41259271e5a0a1cd0e6f92dc0cff6df63 0x89f19c1041d4a203d2430527dca0128ad5223e30013ad7e4de05c68f073dd055 0x172716da1d60326d827c8e1cca75966e909aa188132eeb6ba7dcb1cf130d6e346 0xcb0de98bb491b33de352f37c2c3d482fdd844c65f9b21f44f0d530245cda4997 0x3aa467041a485ec61895103f2b82307a7e4708ac29cc4ac8387190f9b728e599 0xf442a8f141f434fe8e2a2074771cd8361d8af68f96afe900c7813d1a67aa1a42,
    Add U3 0xc7a41e0d0fb0ce31fc7e071e44df476dcf827be4d1cae55ee4303dde4c36463 0x13fa31a8726ae89c82d1b958bbe48bf48a11980ee51e115b4204c17cee1117cd5 0xf944b3a179a1f4741b515bb69c5642c589c20692d71a724d62da8b5338418c0 0xed9e26352430d4d0bf320d5dce3faf649e201a90e0eb36127b0dbd7801819515 0x9bb08feed2a80b71efd64b1162b99e945b26637386f32ea9cca81c5763895c 0x9c5375db1da3cd331310f7ca0e6063263702239f204fa1d262f8091605bc376f 0x12f50df5d460153294548497e92ce798f94fda010b84830c832e8dea94db5934 0x79e9186e960ad63e6847c72ec74e05cc0a8bf1960cf2ae306a2a3a1da645ce0,
    Dbl 0x11caa117c47af47ee19a4ed95790479e6c0662621485fde48eb04a38584517e9c1 0xce3d31a1c282e9117a8f000bcb8f6f445e26bbfffe90dac73751255b4a81653 0x38ee22af11d7a4fd110f3978882ab24e8ca36e537cff29b716272a5105eb8990 0x13c89c7c6f94dda3e9e8dfe296c51263c9e6124cf0e9693d87cc5c7b7aab01fa7e9 0x1b4b0038612592fd3ae22d3e54614fd16117cac3d63ec0c5b64e69325fb9607b4 0x121c24d9ffbbd1f9c4784cbe10eff591c36275613b8cfffe6a0c08fc6e3938ca 0x1e5955e9ec3288c70f739c2a330f10543abe849365d71ffc2d49060b8092e31f2a,
    Add U1 0xa16e6d005756e54b3520638ba6545e7a486a17b3ed0edd6cad01a82c527606ab 0x140d043cfe80516af4491291d465c58b875f88e87b0ceff2243cb5709110c8a37 0xca4d5cbbfe94179920099b1fa9119f81ff7d235cf777698e663fa32b08c9fd61 0xcc52fd85317f77e7c64b67adcf02731caf4b9f2386598e499659da4f436026f 0x65cc14bc488fa575c2829da0c201538ac3998044e1505ac9a57533c60dfc24fe 0x12c28f2d6bebfad7e94aa82fdab3a8b1cc1aeb461449990d27cc18cab11b58350 0x3798132bc8b7fa01b137d726cb20a26168c07dd21effbde0d3ea895def3be832 0xbd473a1f3c09bed2233cecf4745b4057037174e18a29f5f170ee516b02a780cc]"

lemma order_chain_29_points: "ec_chain 0x10000000000000000000000000000000000000000000000000000000000000000 0x1000003d1 0xda6120247ca7cd64fd93af0aa682ec468d2563e96a964d04d968618c5d9483a0 0x88e6f7a9dce032e394104fc8189830a4d2c2bf32ce758646e857e87591e23bfd order_chain_29 = Some (0xcc52fd85317f77e7c64b67adcf02731caf4b9f2386598e499659da4f436026f, 0x3798132bc8b7fa01b137d726cb20a26168c07dd21effbde0d3ea895def3be832)"
  unfolding order_chain_29_def by (simp only: ec_chain_simps)

lemma order_chain_29_digits: "ec_digits 0x610da4434fa8d79bd0d921c9250a (- 0x1c886fdac021d1050dea8ff521580) order_chain_29 = (0x3086d221a7d46bcde86c90e49284f, (- 0xe4437ed6010e88286f547fa90abfe))"
  by (simp add: order_chain_29_def)

definition order_chain_30 :: "ec_step list" where
  "order_chain_30 = [Dbl 0x59caacdaf2ef28f60751934e81218d8a717d0cffdff81793427e110b11f754fd 0x2516874949edb8400ffadb2ed7c66e490a328baf56f7079de9001f5288c5e75f 0x66c0d568756e2d839380e376c052c3a0a2595785c695745dc1793e295af364ff 0x1f7e8ca57b289d9bba3faae1ca533023ac78e4334742579c42638a181388c394 0xa6045a6fdda9c9fae8e3d3041c9d6391289b626c71d02486d7ec5f7a9942999f 0x7d947de7511fe56514ae49622a1c152bbf3cc5d4ef61d03642a91bc7cb5d4299 0x3a3af2f92a585180da476639b28c5bbc6eb556c46bb7194a1c0b529c3ba55428,
    Dbl 0x162f6fe98611019b0d9fa1c47202378fd545ff180cd7aba24eb28c394f246e698 0xe0864d6db9d22bdb55771bff9b985eefa53bb1b4d994a4ac48d4cb21850edee3 0xe8a7ecaa37b0835fe1d4d2e314862260677efe483e885d3bd384314782529798 0x1ec30066bb67dcd4dd5a149ed749164766cb3850cfb8656605357c4551a721576 0x7e18e8be3dbdaa23b1ac1093abcca1403ada593d880d1721edf50ce0d8a0c996 0xdd0ef01500cc3a8c8c1335d77a02b8cf8ae01dfd1c84c2de8212ea13379566f8 0xaed81b2e7db5ea23ddeab96cc6f42dba15824613ba7a1544522cfbf5b9c7c1b1,
    Add U3 0xb96d1c77b8b31c410131153fb123de75663066c1e6afd59d221ca963611d4cb5 0xe0ecc9ed30d2a86c1d89c7d08662af730ebcc0d61493905d2acdad1665fcb592 0xa2eafbc178b5638742eb123e709a0bdf51b2efe113ff081ae013daeafee27ca6 0x3e7cf06a7ca56ba14b381fe56695c71ed325c9d6b9ab292e4f8530f34077bf7e 0x864ee1a64a108fc06d086721f646e1fb42f6e5d8a37d42f37b9a45309d39ac98 0x1aa2afc3fbb0b17be969cb2fdadf05b419459347184dd340d83ff005341dad449 0x3afb1c4ec0213d9786f8372726b0e7b3fc37bf0cfaee0a4c7c8b1fd7361a740 0x134aeb3fb7658f25c193ae72f1025192bbfe3348460c9f2bb44ac9a7fbe9b5eab,
    Dbl 0x7236c8c1fb436c162e3b1a7d6f1df28a361d349b60f26cbc2fd2e97893e55d913 0x6de9f5fbb07bb67dc4b5664f1dfa638b5f1b612c4cc65d2b0926dd74182e8cc 0xcbf33a18a763ef8f35b2b6e64eb49d825409e36141aa371f00d059372de70994 0x32f4d686130db84b85b10dea324a4d356f0911e272de81bbdc27a22c75bff69b77 0x7289b651d5417c12158568ff17e1299c7f1be6757800f20f4eb4d7bb1290b219 0x9e74683ca71ba2b2bb21afb3a13ca45d0f168c88371999c7ddc9996974ca0427 0x3319d60f46e7b78621a4037b2e81d7a9e0f42eab2daef56058d676511ee19b8cc,
    Dbl 0x250dddeb159ca4925531f29f65bf6ee273cc3b83d763474d785a095cfc90213af 0xf67a1b129a20ab02cb0b6b84afd7e148a319a1ddddecc9472d90938f1b8278fe 0x31ef6b90d78d5470dfc6d5355469db184e8be8e3547d3b7c73802d8aaa08124f 0x55d02e63e7f34ac270af5ce5c52294b2c85f22b9f4e8c7eb4b8f37e631101b9f6 0x19a03ce87cfd69b1e55ebe1b0fa4ac26a057dfa7ded2cfba28d502bab83def374 0x3bc2ea5c27b989c9193176ccf48bd385ac5d4ea348c8ea2bcf3864a3522fb634 0x3b58c278eb5699411e9c589d1764e25960483e3eda623da2b5a56594a89112fdf,
    Add U3 0x3898252d9f6ccc86b574d7794996077bc109e5f6194cbffcb97dec089af030a1 0x197a54b0690f5d75b1f97c57e467ef6bb27afd63afe9eb21c8ad1b0d33e473adb 0x5a1e6dc1855ee531c469416132c20af9d064a21eef18f209e24e905e0a46ad79 0x55b0234f41a1c8f24f9945d78fca03e59855555dc9e1f6eec7c1e7a2426339e8 0xc82eab0215322e4b201c5210c0d0bab6a69b9d325cba1cba65858094cc03a21 0xdc3f484195eb8b7e902d8f5dc49fd732b63693858a9b448dabbe45e767a4d496 0x15f46c42f28eaffcf8aaf8e663298063eaa03043aa1eecfe7af8e1ceeb32d550 0x30b0bd5da576a11a72da4772cd6e48aca45acaa5967e0e0bef85ac565b9bf7ce]"

lemma order_chain_30_points: "ec_chain 0x10000000000000000000000000000000000000000000000000000000000000000 0x1000003d1 0xcc52fd85317f77e7c64b67adcf02731caf4b9f2386598e499659da4f436026f 0x3798132bc8b7fa01b137d726cb20a26168c07dd21effbde0d3ea895def3be832 order_chain_30 = Some (0x55b0234f41a1c8f24f9945d78fca03e59855555dc9e1f6eec7c1e7a2426339e8, 0x15f46c42f28eaffcf8aaf8e663298063eaa03043aa1eecfe7af8e1ceeb32d550)"
  unfolding order_chain_30_def by (simp only: ec_chain_simps)

lemma order_chain_30_digits: "ec_digits 0x3086d221a7d46bcde86c90e49284f (- 0xe4437ed6010e88286f547fa90abfe) order_chain_30 = (0x3086d221a7d46bcde86c90e49284eb, (- 0xe4437ed6010e88286f547fa90abfe5))"
  by (simp add: order_chain_30_def)

definition order_chain_31 :: "ec_step list" where
  "order_chain_31 = [Dbl 0x264bb527a289dda1f502b7b0b9670f8d17f3683deaa9380df75afc91f23a3d047 0x130d74f23086c7018585ea428cc805f56081ff998749f3f5257977752352c660 0x3b63cb0d5633980eaa17f4c03b2cfdff1a8b0ee22b10a708f741581e601ad550 0x5ba902b69ab3c8dd23db0ae887bcde64809cc6ef4c23633321b9cf6e099f6d53f 0x11a4c5841eb6e30e3a5815117549d05e67dca467b9ed14fe5d0808f82e24860c7 0x32f9a1383a4786802822fc0d47c31aac458395a41aa08f80bba0433f0d772e1e 0x2a3ad13b5386b925564247d9815988bbd1d205ce728efe09fffa24caeb8e168ad,
    Dbl 0x13fbdef211ace1b3767c016c2fe1fc03a0f91e81248eaf004d716a362fee43969 0x56005020ff03d343fe433c784d22f28377a5588e859b3068883e927ae48f2124 0xe2846e7dc4ac66a32a504697288609c129fb4fb8165f9e150d49259db5d0f845 0x18f5ae6df770e107d0722e5d40c670a5bd6770fd4cb7584a344d8af3e3b29b194 0x58df5c8f9187316b7fc7ae2912a6f43df08fbf2a14b108f3e9f8327faa49d93a 0x24f907363bebce641de1bf08bab5a90af657cc9b90e564e4e30e647543bb44b2 0x6f00444241d91b59453b4e41ef4f53752730c2b4fb976cb8afab5e47bc66af26,
    Add U2 0x2ac6f219ca4776e5af4900f4bf59b980f8819a7c327409cf214fd404d993348d 0xda28746bd8f3b1e480b0bc1f6e0a19645d2cf44e68b64b789a727aa54ae793b5 0x24742cb3f563ebb1662216e3d30c8324bf262529c1e3e28a7d8a01b3e65e4a45 0xc8c5876b3696f9931c97fa9dd35d761e5c1a8fe9eda5bf111c77fed425057c63 0x725e20bdb391e9787636d15aeb154e76a86f71aee80f6a794b6c645265e06aa 0x119bee7128e156d100db84bf9552893a2cde0bfce28b9df03f0d126c890cb7811 0x98dfef978a5caf7932adba11bd466950545e6fef5d70831b2a644f699f1a0ec5 0x2f1446029c5cccb89f4f16150d50687b2d37b27c91a86e5db5133542974ec4fa,
    Dbl 0x1a2145ba40b630728f5695c7207195ec1ee1ac29dadcde19cda3c1e88d450262f 0x1af3e6d7c88e05fe38bcef9fa4c697c843aaed9054143b4b5d4b11cc03014475 0xe43d311aad22834c29d9e55e80de19dfefef2283d1aca3a7ee97daeef1ce992b 0x2aac67ce2279f3411de4c5e3a36af99f5e9c7819234f027a5f4fd48a72cad2450 0xe488565089747646f2be153f527f5c3e6c2b6d661bf91b692de023e43336df67 0xae176ad91cc42e0352546b9ea80d0e221f8f0339aaa9a2898767527e7524b39f 0x17538c96526eb1580ac57b5cbd8ec93179ba19b940eb9522abe88c386f12cc28b,
    Add U1 0x7d2fc678e29c131d6291e46097851330d5eacce2cd9be91aac34765fe4647732 0x958135644cba38602bc67d374da8f12712acda575c2185316b5aa66b25297a9c 0x491bfdb34f14d51c22f212d1ec2aac3a9ecb3512275b7266102472544f2bfdd1 0xeb42d690ec70f77a451d0508cb8b3a4701a090279af12a1b989deb1dc25e2f2a 0x3d37b0bc878ed7985f87fb8574c23594a76f1b6ca08146153489f213d62dbed9 0xf8fa5a89c0b18bd1e4bce055b552df98ee4e925c36bb798c55f9efd02f706630 0xd192843e022c372be25fa56cb867c7880dbebdf9ebfab4c0d643d202bb11d1ed 0x79c0b5331626dc8dbe97789fc65097346a10918567d55ff3e3dfd06e3813646c,
    Dbl 0x1bdc82178c7f86e705c142854815d49e29fa3dc0a0050c0ae2f665a33378a0123 0x5143b5578155d40b4decdb43f40dc32096d17bf78686d83623aa93a28ffd877e 0x36bd272cafd8e5ba6e8abbc9d9ed05fde8e39908f5e5f1240932cfbf35877771 0x3084160d2384e80a95142a1912b928b682fdee1ee6601568eda81e6e758f2c63c 0x1b485af643c9811bfd692493ef19e344918bcf71ea50b38f78f6b1b5d8cd6b3e8 0x8fe40ca9d5c7571a64770dd82fc440cf88448bc142edb72a4d8679777c8fddc 0x2f821a36572e5599e347f1970f4730676ee3d8158e540bb844ba5b0df16dea741]"

lemma order_chain_31_points: "ec_chain 0x10000000000000000000000000000000000000000000000000000000000000000 0x1000003d1 0x55b0234f41a1c8f24f9945d78fca03e59855555dc9e1f6eec7c1e7a2426339e8 0x15f46c42f28eaffcf8aaf8e663298063eaa03043aa1eecfe7af8e1ceeb32d550 order_chain_31 = Some (0x36bd272cafd8e5ba6e8abbc9d9ed05fde8e39908f5e5f1240932cfbf35877771, 0x8fe40ca9d5c7571a64770dd82fc440cf88448bc142edb72a4d8679777c8fddc)"
  unfolding order_chain_31_def by (simp only: ec_chain_simps)

lemma order_chain_31_digits: "ec_digits 0x3086d221a7d46bcde86c90e49284eb (- 0xe4437ed6010e88286f547fa90abfe5) order_chain_31 = (0x3086d221a7d46bcde86c90e49284eb2, (- 0xe4437ed6010e88286f547fa90abfe4c))"
  by (simp add: order_chain_31_def)

definition order_chain_32 :: "ec_step list" where
  "order_chain_32 = [Dbl 0x2adc22f2fba2b506797babeaf407316cbe79000c2b76d69c314461b1a751f1668 0xd11428a0ef4985bb7e2e6697e077b354269917551afc3c95f69a4900d3b1673 0xa7888391cf858cb53f41e90f0331a71cbc09ac87e92503d2e3fd51ce65856b7c 0x72cf8c3d0f754853209cfdf69cda5330490cc8a7d3a782cbb065d3df69d098bbe 0x8f34a39ae05359052f48d2bad6bb5ee12cd9ec810cc0ed5125357defd0020824 0xf10fd2b5a8dd2427a41421d07b741e9444e2862b46e7748df7bbacb4b59cd5b3 0x17f9c7a0ec274f6ab3a47f632081bd886eab7f588fd515e2af0328206fa4054bf,
    Add N1 0x98c06a6dd6e975e2ce60b13d05281e191f6264a9b2037fa58d03686fbaf72cf4 0xd235e2ed2a572ef7165e7986cb5563ea4692505344a9250675f52f8bb172a84b 0x7d6dfe8b84641753b82a1429a55e8eb9065ab78ed01dfa874261789058761bc8 0x2e73bd84a08c41c3da360726f11f392b43f1c132af4968be1b88cae3528153ff 0x5b250f024036bf483621bf8d20f34410a8d74812e4670766c8e9a9a14094e613 0x17914c60d2ef94af1650be1e812126df17817eb5539db9b14c87486ea130413ac 0xee61ded1204764e55d463c21e73301ec749aa9e846104877a78401e1f68bfad2 0xe0ffc1f0c23047a39c53db8ab11c2f32f2562c0fe6042bf83b6e68fd9d307585,
    Dbl 0x10a41a12c3a66208b6d8e9b060b49d22a4dbeb15ac07c3da0a7c83af51a3f3db7 0x1d6943798c479b1bba69d76978ecc09f271d3997f1172d2741ffc80ff2107c417 0x337902d5b48417caec5bf4ab4acd57e82bc266552c3cf4c011f843dfae108e77 0x114ec73c3274a8c96dbd6fbcb716d1bb9733444a0168fead73f06ac1fa8ef0064 0xfafabaaeec0829f8edda127ba651e143182f5add830c73fe09908702a470c1b7 0x8b71e83545fc2b5872589f99d948c03108d36797c4de363ebd3ff6a9e1a95b10 0x10508dda6336b704b0f336fbc439129a46c0b3302c2f3f6323554eb527312f941,
    Add U3 0xb04e51fbb3f7c3363380042dca88f0bcdbf72a12dcec4c226af678b3c8d3d0f7 0x1961bb3c1b3ff14011302a608501b79eb4a7958c926def8d8ec599a7e3a3ebeb3 0x117af4a13ff4c276ffc09a760a3ca7be1eeafd13b33702aff595d40dd85586783 0xee38067db0c7811d0a5b131dde99217caeb39cc3bf3ae9ed8690e8c13a3991b7 0x796bc8b0271796c2abbceb699588e73b16bd967677afeb6a77b5c6ac89c26358 0x4540fc5803bc96ade200e18d6c34366b7d0ec9916d020ad28b675b1d73d6f8ef 0x8ebbbff6e6ddd78cf327dc85b6f0145d501c2d82833eec943681bc61eccceeda 0x2fb1dd770ca1857bf75389f454f829370c384e5ef8684cd142d3f52262a5cf81,
    Dbl 0x2e1d301976fb399add38a5dd05f54cb8db6a6e85c3fc58875514735e695da7354 0x9dbba992c0461633ef9e942b93a9f50259ca04062e0ba6beea0ec764deceb8f3 0xe484db4013e80e83052b1267603def814791291a8a098469934ed0bc5f7e2739 0x84e809d1590ccc55e8e5d4a3c0f22bc1980eb71bd7aa19b403e2a876a2f89ce67 0x109b32b3d9cdf729a053000b67e5b31fb672273a935316583f3421803dabb66ad 0xc0c686408d517dfd67c2367651380d00d126e4229631fd03f8ff35eef1a61e3c 0x2fdc7cfcfe4306b94b6b4926622ac81503cd4331909d0011188e67790fc469eb2,
    Dbl 0x1968c0ffb15f4a01415d996da8f13efb2fba8e419d3a2337e2ba82986c6a62878 0x51e09214ff23af22a3ba9751b671914f1cf228a5bbba2c9958ba7242614e63 0xc994b69768832bcbff5e9ab39ae8d1d3763bbf1e531bed98fe51de5ee84f50fb 0x285a08f51e5435225859c5e716b339ddd9db62ab7338b937b1994793c4ebe909d 0x11af024a8ab64e2b705cc77b3c5551dadd15569fc36ed96d094fcf25c772ed26d 0x483ada7726a3c4655da4fbfc0e1108a8fd17b448a68554199c47d08ffb10d4b8 0x1c153a7211fed9ef645218ecaf465fc75a68622df993c14d960242eca59df4d1c]"

lemma order_chain_32_points: "ec_chain 0x10000000000000000000000000000000000000000000000000000000000000000 0x1000003d1 0x36bd272cafd8e5ba6e8abbc9d9ed05fde8e39908f5e5f1240932cfbf35877771 0x8fe40ca9d5c7571a64770dd82fc440cf88448bc142edb72a4d8679777c8fddc order_chain_32 = Some (0xc994b69768832bcbff5e9ab39ae8d1d3763bbf1e531bed98fe51de5ee84f50fb, 0x483ada7726a3c4655da4fbfc0e1108a8fd17b448a68554199c47d08ffb10d4b8)"
  unfolding order_chain_32_def by (simp only: ec_chain_simps)

lemma order_chain_32_digits: "ec_digits 0x3086d221a7d46bcde86c90e49284eb2 (- 0xe4437ed6010e88286f547fa90abfe4c) order_chain_32 = (0x3086d221a7d46bcde86c90e49284eb14, (- 0xe4437ed6010e88286f547fa90abfe4c4))"
  by (simp add: order_chain_32_def)

text \<open>The pieces in sequence.\<close>

lemma order_at_start: "at_point (emul 0x0 (- 0x1)) 0xbcace2e99da01887ab0102b696902325872844067f15e98da7bba04400b88fcb 0xb7c52588d95c3b9aa25b0403f1eef75702e84bb7597aabe663b82f6f04ef2777"
  using at_unit [of N2] by simp

lemma order_at_0: "at_point (emul 0x3 (- 0xe)) 0x8f53bc847db1b710eb32faf14f4399ca7890169c923acebb2594044479d97613 0x20ed64663e88025e19280ec14a530b40a61626318fab8a53f6ddb2c5342248a5"
  by (rule ec_chain_correct [OF order_modulus order_chain_0_points order_at_start order_chain_0_digits])

lemma order_at_1: "at_point (emul 0x31 (- 0xe4)) 0xc57a426d47d5d31fb268ca88838b970dbe875f372c649706329c826d6ad5fbb4 0x91a3d643f88482f23d1f15fed4798d1ebf231bfc3b1fd70608a9ac4dfd2018af"
  by (rule ec_chain_correct [OF order_modulus order_chain_1_points order_at_0 order_chain_1_digits])

lemma order_at_2: "at_point (emul 0x308 (- 0xe44)) 0x19d18ed10b948b302571227570cdf9bd4b4b597e9ddfa8b2214c0854d407c787 0x5da2b79a2f657bbe33643f4fab01d519ac1b9b212d82e868e2295a2a94796dfb"
  by (rule ec_chain_correct [OF order_modulus order_chain_2_points order_at_1 order_chain_2_digits])

lemma order_at_3: "at_point (emul 0x1843 (- 0x7222)) 0xe8b6acb8b6fdccd6ecabc2c907b230013c4beba3dcfa6f8a699a4256c10f81cb 0xa5ff8621e0d947006825b31ddb2867962749f6c8495cce5805790e2995c4ce48"
  by (rule ec_chain_correct [OF order_modulus order_chain_3_points order_at_2 order_chain_3_digits])

lemma order_at_4: "at_point (emul 0x18436 (- 0x7221c)) 0x880c601b80d7f1d13c1ca7d75619bb927cf6ec5d3f5d30cea08b00c6e9fcd45c 0xbaa05e2913451c0f5887fd6803c9a749f69b14f44bb38bdb4107273ad1418804"
  by (rule ec_chain_correct [OF order_modulus order_chain_4_points order_at_3 order_chain_4_digits])

lemma order_at_5: "at_point (emul 0x184369 (- 0x7221c0)) 0x65ea9bbd2944bc80c9f6792d4a6de4d23401fcd5715971dd709b302e6522878 0xd918cb035418dd806254e62019662af8a988cd77d185108a7985134278a3a226"
  by (rule ec_chain_correct [OF order_modulus order_chain_5_points order_at_4 order_chain_5_digits])

lemma order_at_6: "at_point (emul 0x1843691 (- 0x7221bf7)) 0xe877117c34d233f54091207651a990ca142876976bfe7c85958d24c4a5b991dd 0xa6ddda251af7eaa0d513bccd6e63ab8401dde31b4a0f6d153c62b38f6cd80baa"
  by (rule ec_chain_correct [OF order_modulus order_chain_6_points order_at_5 order_chain_6_digits])

lemma order_at_7: "at_point (emul 0x18436911 (- 0x7221bf6b)) 0x40043d33ce75787d7902161535e35cb8b77d34ea54c366939bc3bcd9485e0a01 0xfa8c3a423de6293650222b0f618acac66c0f8f0f4ca1066b7f36a91a02029702"
  by (rule ec_chain_correct [OF order_modulus order_chain_7_points order_at_6 order_chain_7_digits])

lemma order_at_8: "at_point (emul 0x18436910d (- 0x7221bf6b0)) 0xb0746ea0dd6832330c5661ed8dbbdd9e1b53646754dd806ae17df18bcf632807 0x58114a7830ff16d378386c42d0bd513a66e6b0a0c709f946ad2c311fb8ce9531"
  by (rule ec_chain_correct [OF order_modulus order_chain_8_points order_at_7 order_chain_8_digits])

lemma order_at_9: "at_point (emul 0x3086d221a8 (- 0xe4437ed600)) 0x4055cb99ab814cf3b1b621cde1d6c63a7165845d99ba176ad7a4a8722ce48b27 0xb251de8e4daa97d6e95ed4475efc75e9d6c92ac08f2772f5b9bc368d41d0c094"
  by (rule ec_chain_correct [OF order_modulus order_chain_9_points order_at_8 order_chain_9_digits])

lemma order_at_10: "at_point (emul 0x3086d221a7e (- 0xe4437ed6010)) 0xdd899678e23f71c86483681167a7ed18bda128615770b0c8c3a69ed41ef677d7 0xd2ca5ecb4fc9348942fb24aacf88b40efd33fb943bab10f38590d374d6d255c7"
  by (rule ec_chain_correct [OF order_modulus order_chain_10_points order_at_9 order_chain_10_digits])

lemma order_at_11: "at_point (emul 0x18436910d3ea (- 0x7221bf6b0087)) 0x4a35b04a6e478aa6de8a8db93cb8ae14ecd58de8e8be74f1a90a444f900ab6e7 0x643b2190f05445eca4f0eb8814a9696d30f7023f250ed75fc7c12504cb38b802"
  by (rule ec_chain_correct [OF order_modulus order_chain_11_points order_at_10 order_chain_11_digits])

lemma order_at_12: "at_point (emul 0x18436910d3ea4 (- 0x7221bf6b00874)) 0x989cdfad4b24e2fb0d05e3f62af91c1b6943f44c16764571312ba4b72605b985 0x581b21febd5e103e5ebf3eaa8e1e5d695c4b03d59f0a3dcabafb07c5f490428c"
  by (rule ec_chain_correct [OF order_modulus order_chain_12_points order_at_11 order_chain_12_digits])

lemma order_at_13: "at_point (emul 0xc21b48869f51b (- 0x3910dfb58043a2)) 0x3781f20931f70fea5d2ea92cabac23137b1763c464276b21d3a8d54ae1c9093e 0x14713c377db474e102e5e9539a220c77f66bfca10052e4ab6b41d7b417de4175"
  by (rule ec_chain_correct [OF order_modulus order_chain_13_points order_at_12 order_chain_13_digits])

lemma order_at_14: "at_point (emul 0x18436910d3ea35e (- 0x7221bf6b0087442)) 0x8cc3c64015a91c5ed8c3286f8d1d4fe0ffed9f09e714ddc1ca6a5dad34c56ec1 0x364fdf1b5d0f7331a533b1083dd5f1780e74422b4e4386e931166cb3cb364547"
  by (rule ec_chain_correct [OF order_modulus order_chain_14_points order_at_13 order_chain_14_digits])

lemma order_at_15: "at_point (emul 0x18436910d3ea35e8 (- 0x7221bf6b00874414)) 0x34a17e41c6adcce5aeaa68006c00f72b99228ee9f614363c6ec8d0b658524344 0x7530d2a5547147430058e35f88c6bb0f8643b29abad7fc44196697f3fb52f1b1"
  by (rule ec_chain_correct [OF order_modulus order_chain_15_points order_at_14 order_chain_15_digits])

lemma order_at_16: "at_point (emul 0x18436910d3ea35e70 (- 0x7221bf6b008744144)) 0x454836c225c49f788d31cf9f600fe1eeb23870dba6b47fdda5dd0cabca931756 0xc44da327e58cdba55541cbad8619898fb68c97458ff023db63203c35a1e2b4a7"
  by (rule ec_chain_correct [OF order_modulus order_chain_16_points order_at_15 order_chain_16_digits])

lemma order_at_17: "at_point (emul 0xc21b48869f51af37a (- 0x3910dfb58043a20a1c)) 0x9c737135ddc665fa12cbbdd7bc6df7fb58eedf9946742fe818db1183c9dfb521 0xca74710f9f9df71a4c1c922259a94db0ace6663916189c9c820dd49f74e77158"
  by (rule ec_chain_correct [OF order_modulus order_chain_17_points order_at_16 order_chain_17_digits])

lemma order_at_18: "at_point (emul 0xc21b48869f51af37a2 (- 0x3910dfb58043a20a1bd)) 0x3a0de639e3a9adbf3c8637b6ee8f994f0831767a4916d97ec4acd56d25a1860d 0xff2045db4c1d8bbd30f0e676ba2f1e493bd6887c73ec917253cd5b68303ced1f"
  by (rule ec_chain_correct [OF order_modulus order_chain_18_points order_at_17 order_chain_18_digits])

lemma order_at_19: "at_point (emul 0xc21b48869f51af37a1b (- 0x3910dfb58043a20a1bd5)) 0xe996dad643363b839b4d2087c10e0a4a9f90d95eafa5ee3c59118542f602634c 0xe62a5cff9382f1d9fe84dde9b8fd378e0086030df0694e0a3dbc0c087557d6be"
  by (rule ec_chain_correct [OF order_modulus order_chain_19_points order_at_18 order_chain_19_digits])

lemma order_at_20: "at_point (emul 0xc21b48869f51af37a1b2 (- 0x3910dfb58043a20a1bd52)) 0x86e6ba2d452949f57940fb5cd86c9e1fbf953bb5ba1985899a30581a22c7ae0f 0x1a71661f07e7765fad00a5c9e4119da0e59a3fe8d668be039405bea59f3a777e"
  by (rule ec_chain_correct [OF order_modulus order_chain_20_points order_at_19 order_chain_20_digits])

lemma order_at_21: "at_point (emul 0x18436910d3ea35e6f43648 (- 0x7221bf6b0087441437aa40)) 0x1df888637a22bf4bcc7de4b60e99d3f85b92326af8f79a6d536fea6836f8dc07 0x16cf2ae0dec78bb79c416e4d937cb20dd2c19a0c90471c80ec97dd6340d1da05"
  by (rule ec_chain_correct [OF order_modulus order_chain_21_points order_at_20 order_chain_21_digits])

lemma order_at_22: "at_point (emul 0x18436910d3ea35e6f436488 (- 0x7221bf6b0087441437aa3fc)) 0xf99bfa3ba93dcf21191083e193329b97c30adeae9e09ecb48b58c44b0dbca2cb 0x38ee26c4e72cddf5ee0bfd31f16a4240582f36849ce70f6a52bdbd85ec172316"
  by (rule ec_chain_correct [OF order_modulus order_chain_22_points order_at_21 order_chain_22_digits])

lemma order_at_23: "at_point (emul 0xc21b48869f51af37a1b2439 (- 0x3910dfb58043a20a1bd51fea)) 0x957b2e8cabdfffea0bf507c5a5511b5644f2adec49aa12e9750f97e4e0447e72 0x75292540a0172ed2fac8be13226fdd7801b9d57cce628d969a16277f47f9ff5"
  by (rule ec_chain_correct [OF order_modulus order_chain_23_points order_at_22 order_chain_23_digits])

lemma order_at_24: "at_point (emul 0xc21b48869f51af37a1b24392 (- 0x3910dfb58043a20a1bd51fea4)) 0x9946417f6af5d4948841a2e0a96704f6422eeed6a50b94ad8c6df40c1d0ae838 0x70e0be86de0b7cc50e825600e4af80735669778a6facdfcc91309aabc8fc6cfa"
  by (rule ec_chain_correct [OF order_modulus order_chain_24_points order_at_23 order_chain_24_digits])

lemma order_at_25: "at_point (emul 0xc21b48869f51af37a1b243924 (- 0x3910dfb58043a20a1bd51fea44)) 0xb5d08a8b8ef59e9b697c3a97df69d784b224ad2511d0d5edca3665bcd28973dc 0xd892e0893f10d1c235c8fc7257a8257765fbea86ddb1ce5484710f2bde1a78ca"
  by (rule ec_chain_correct [OF order_modulus order_chain_25_points order_at_24 order_chain_25_digits])

lemma order_at_26: "at_point (emul 0x610da4434fa8d79bd0d921c924 (- 0x1c886fdac021d1050dea8ff5216)) 0xf58542d234778db295dff5470e19e31cde24e6824f13d3256855dfb807150287 0xab7c40f6fcf7588dd82001157fb02467abd02f6ac6153d11c6d17b2c74ec7319"
  by (rule ec_chain_correct [OF order_modulus order_chain_26_points order_at_25 order_chain_26_digits])

lemma order_at_27: "at_point (emul 0x610da4434fa8d79bd0d921c9250 (- 0x1c886fdac021d1050dea8ff52158)) 0xf9068748bb3a0751d00c1c02abc6674a898a3602c48d16f0f1c946e85b0b71da 0x3090fdd4a7b276bf14691573b0ad9c41ed80e87d2b95e414f9cb28cebc6e6da7"
  by (rule ec_chain_correct [OF order_modulus order_chain_27_points order_at_26 order_chain_27_digits])

lemma order_at_28: "at_point (emul 0x610da4434fa8d79bd0d921c9250a (- 0x1c886fdac021d1050dea8ff521580)) 0xda6120247ca7cd64fd93af0aa682ec468d2563e96a964d04d968618c5d9483a0 0x88e6f7a9dce032e394104fc8189830a4d2c2bf32ce758646e857e87591e23bfd"
  by (rule ec_chain_correct [OF order_modulus order_chain_28_points order_at_27 order_chain_28_digits])

lemma order_at_29: "at_point (emul 0x3086d221a7d46bcde86c90e49284f (- 0xe4437ed6010e88286f547fa90abfe)) 0xcc52fd85317f77e7c64b67adcf02731caf4b9f2386598e499659da4f436026f 0x3798132bc8b7fa01b137d726cb20a26168c07dd21effbde0d3ea895def3be832"
  by (rule ec_chain_correct [OF order_modulus order_chain_29_points order_at_28 order_chain_29_digits])

lemma order_at_30: "at_point (emul 0x3086d221a7d46bcde86c90e49284eb (- 0xe4437ed6010e88286f547fa90abfe5)) 0x55b0234f41a1c8f24f9945d78fca03e59855555dc9e1f6eec7c1e7a2426339e8 0x15f46c42f28eaffcf8aaf8e663298063eaa03043aa1eecfe7af8e1ceeb32d550"
  by (rule ec_chain_correct [OF order_modulus order_chain_30_points order_at_29 order_chain_30_digits])

lemma order_at_31: "at_point (emul 0x3086d221a7d46bcde86c90e49284eb2 (- 0xe4437ed6010e88286f547fa90abfe4c)) 0x36bd272cafd8e5ba6e8abbc9d9ed05fde8e39908f5e5f1240932cfbf35877771 0x8fe40ca9d5c7571a64770dd82fc440cf88448bc142edb72a4d8679777c8fddc"
  by (rule ec_chain_correct [OF order_modulus order_chain_31_points order_at_30 order_chain_31_digits])

lemma order_at_32: "at_point (emul 0x3086d221a7d46bcde86c90e49284eb14 (- 0xe4437ed6010e88286f547fa90abfe4c4)) 0xc994b69768832bcbff5e9ab39ae8d1d3763bbf1e531bed98fe51de5ee84f50fb 0x483ada7726a3c4655da4fbfc0e1108a8fd17b448a68554199c47d08ffb10d4b8"
  by (rule ec_chain_correct [OF order_modulus order_chain_32_points order_at_31 order_chain_32_digits])

lemma order_emul: "emul 0x3086d221a7d46bcde86c90e49284eb15 (- 0xe4437ed6010e88286f547fa90abfe4c3) = 0"
proof -
  have "pt (emul 0x3086d221a7d46bcde86c90e49284eb14 (- 0xe4437ed6010e88286f547fa90abfe4c4)) = pt (emul (ua U3) (ub U3))"
    using order_at_32 at_unit [of U3] by (simp only: at_point_def ux.simps uy.simps)
  then have "emul 0x3086d221a7d46bcde86c90e49284eb14 (- 0xe4437ed6010e88286f547fa90abfe4c4) = emul (ua U3) (ub U3)" by (simp only: pt_inject)
  then have "emul 0x3086d221a7d46bcde86c90e49284eb14 (- 0xe4437ed6010e88286f547fa90abfe4c4) + emul (ua N3) (ub N3) = emul (ua U3 + ua N3) (ub U3 + ub N3)" by (simp only: emul_add)
  then show ?thesis by (simp add: emul_add) (simp add: emul_def)
qed

end
