(* ===== verification/Prime_N.thy ===== *)
theory Prime_N
  imports Primality
begin

text \<open>
  The certificate that the group order is prime, with those of the prime factors of its predecessor.
\<close>

lemma prime_41: "is_prime 41"
  by (rule is_prime_trial [of _ 7]) (simp_all add: upto.simps)

text \<open>The certificate of 9349.\<close>

lemma pow_9349_r6_0: "pow_mod (16384 - 7035) 2 7 128"
  by (simp add: pow_mod_def)

lemma pow_9349_r6_1: "pow_chain 16384 7035 2 7 128 [
    Sqr 1 7035,
    Sqr 5293 6968,
    Sqr_mul 10386 7334,
    Sqr 5753 2759,
    Sqr 814 1995] = Some (228, 1995)"
  by (simp)

lemma pow_9349_r6: "pow_mod 9349 2 228 1995"
  using pow_chain_correct [OF pow_9349_r6_0 pow_9349_r6_1] by simp

lemma pow_9349_s_0: "pow_mod (16384 - 7035) 1995 1 1995"
  by (simp add: pow_mod_def)

lemma pow_9349_s_1: "pow_chain 16384 7035 1995 1 1995 [
    Sqr 425 6700,
    Sqr 4801 5451,
    Mul 1163 1858,
    Sqr 369 2383,
    Sqr 607 3846,
    Sqr 1582 1598,
    Mul 341 1] = Some (41, 1)"
  by (simp)

lemma pow_9349_s: "pow_mod 9349 1995 41 1"
  using pow_chain_correct [OF pow_9349_s_0 pow_9349_s_1] by simp

lemma pow_9349_f: "pow_mod 9349 2 9348 1"
  using pow_mod_trans [OF pow_9349_r6 pow_9349_s] by simp

lemma pow_9349_d6: "is_prime d \<Longrightarrow> d dvd 9349 \<Longrightarrow> 41 dvd d - 1"
  using pocklington_factor [OF prime_41 _ _ pow_9349_f pow_9349_r6, of d "7422" "1583"] by simp

lemma pow_9349_n1: "\<not> 42 dvd (9349 :: int)"
  by (rule not_dvd_cert [of _ "222" _ "25"]) simp_all

lemma pow_9349_n2: "\<not> 83 dvd (9349 :: int)"
  by (rule not_dvd_cert [of _ "112" _ "53"]) simp_all

lemma prime_9349: "is_prime 9349"
proof (rule pocklington [of _ "41" 3])
  fix d assume d: "is_prime d" "d dvd 9349"
  show "41 dvd d - 1"
    using pow_9349_d6 [OF d] by simp
qed (simp_all add: upto.simps pow_9349_n1 pow_9349_n2)

text \<open>The certificate of 44706919.\<close>

lemma pow_44706919_r14_0: "pow_mod (0x4000000 - 0x155d399) 2 18 262144"
  by (simp add: pow_mod_def)

lemma pow_44706919_r14_1: "pow_chain 0x4000000 0x155d399 2 18 262144 [
    Sqr_mul 3074 0x96d332,
    Sqr 0x2158bb 0x1fa9e87,
    Sqr_mul 0x2f07c79 0x12cf5b3,
    Sqr 0x84c6d9 0x1a4cdda,
    Sqr_mul 0x2072718 0x24e0a0,
    Sqr_mul 261298 0xf38462,
    Sqr_mul 0xaddb98 0x260f0e0,
    Sqr 0x21f91ed 0x17a51a5] = Some (4782, 0x17a51a5)"
  by (simp)

lemma pow_44706919_r14: "pow_mod 0x2aa2c67 2 4782 0x17a51a5"
  using pow_chain_correct [OF pow_44706919_r14_0 pow_44706919_r14_1] by simp

lemma pow_44706919_s_0: "pow_mod (0x4000000 - 0x155d399) 0x17a51a5 1 0x17a51a5"
  by (simp add: pow_mod_def)

lemma pow_44706919_s_1: "pow_chain 0x4000000 0x155d399 0x17a51a5 1 0x17a51a5 [
    Sqr 0xd1cec2 0x864c4b,
    Sqr 0x1a705f 0x23713c0,
    Sqr 0x1d7665f 0x1ad8bc7,
    Mul 0xee3794 0x3d41b7,
    Sqr 360489 0x9cd452,
    Sqr 0x240df6 0x1c4044a,
    Sqr 0x12b8313 0x1bb64bf,
    Mul 0xf5e58a 0x2a74b95,
    Sqr 0x2a46dde 0x2404867,
    Sqr 0x1e6d440 0x11fb3b1] = Some (292, 0x11fb3b1)"
  by (simp)

lemma pow_44706919_s_2: "pow_chain 0x4000000 0x155d399 0x17a51a5 292 0x11fb3b1 [
    Sqr 0x795617 0x1b6920,
    Sqr 72181 0x51b66d,
    Sqr 641450 0x17bcf03,
    Mul 0xd2a241 0x1edebc8,
    Sqr 0x1659e62 0x1493ad2,
    Sqr 0x9ee47a 0x110ef2e,
    Mul 0x975d13 1] = Some (9349, 1)"
  by (simp)

lemma pow_44706919_s: "pow_mod 0x2aa2c67 0x17a51a5 9349 1"
  using pow_chain_correct [OF pow_chain_correct [OF pow_44706919_s_0 pow_44706919_s_1] pow_44706919_s_2] by simp

lemma pow_44706919_f: "pow_mod 0x2aa2c67 2 0x2aa2c66 1"
  using pow_mod_trans [OF pow_44706919_r14 pow_44706919_s] by simp

lemma pow_44706919_d14: "is_prime d \<Longrightarrow> d dvd 0x2aa2c67 \<Longrightarrow> 9349 dvd d - 1"
  using pocklington_factor [OF prime_9349 _ _ pow_44706919_f pow_44706919_r14, of d "0x22308de" "0x12f5fb1"] by simp

lemma prime_44706919: "is_prime 0x2aa2c67"
proof (rule pocklington [of _ "9349" 1])
  fix d assume d: "is_prime d" "d dvd 0x2aa2c67"
  show "9349 dvd d - 1"
    using pow_44706919_d14 [OF d] by simp
qed (simp_all add: upto.simps)

lemma prime_113: "is_prime 113"
  by (rule is_prime_trial [of _ 11]) (simp_all add: upto.simps)

text \<open>The certificate of 120233.\<close>

lemma pow_120233_r7_0: "pow_mod (131072 - 10839) 2 16 65536"
  by (simp add: pow_mod_def)

lemma pow_120233_r7_1: "pow_chain 131072 10839 2 16 65536 [
    Sqr_mul 71444 8140,
    Sqr 551 11217,
    Sqr_mul 2092 114742,
    Sqr 109501 92831,
    Sqr 71674 14519,
    Sqr 1753 32912] = Some (1064, 32912)"
  by (simp)

lemma pow_120233_r7: "pow_mod 120233 2 1064 32912"
  using pow_chain_correct [OF pow_120233_r7_0 pow_120233_r7_1] by simp

lemma pow_120233_s_0: "pow_mod (131072 - 10839) 32912 1 32912"
  by (simp add: pow_mod_def)

lemma pow_120233_s_1: "pow_chain 131072 10839 32912 1 32912 [
    Sqr 9009 20647,
    Mul 5651 97381,
    Sqr 78872 41985,
    Mul 11492 92684,
    Sqr 71447 36705,
    Sqr 11205 46260,
    Sqr 17798 80666,
    Sqr 54119 113829,
    Mul 31159 1] = Some (113, 1)"
  by (simp)

lemma pow_120233_s: "pow_mod 120233 32912 113 1"
  using pow_chain_correct [OF pow_120233_s_0 pow_120233_s_1] by simp

lemma pow_120233_f: "pow_mod 120233 2 120232 1"
  using pow_mod_trans [OF pow_120233_r7 pow_120233_s] by simp

lemma pow_120233_d7: "is_prime d \<Longrightarrow> d dvd 120233 \<Longrightarrow> 113 dvd d - 1"
  using pocklington_factor [OF prime_113 _ _ pow_120233_f pow_120233_r7, of d "118505" "32438"] by simp

lemma pow_120233_n1: "\<not> 114 dvd (120233 :: int)"
  by (rule not_dvd_cert [of _ "1054" _ "77"]) simp_all

lemma pow_120233_n2: "\<not> 227 dvd (120233 :: int)"
  by (rule not_dvd_cert [of _ "529" _ "150"]) simp_all

lemma pow_120233_n3: "\<not> 340 dvd (120233 :: int)"
  by (rule not_dvd_cert [of _ "353" _ "213"]) simp_all

lemma prime_120233: "is_prime 120233"
proof (rule pocklington [of _ "113" 4])
  fix d assume d: "is_prime d" "d dvd 120233"
  show "113 dvd d - 1"
    using pow_120233_d7 [OF d] by simp
qed (simp_all add: upto.simps pow_120233_n1 pow_120233_n2 pow_120233_n3)

text \<open>The certificate of 174723607534414371449.\<close>

lemma pow_q68_r17_0: "pow_mod (0x100000000000000000 - 0x687390cac3c776587) 2 41 0x20000000000"
  by (simp add: pow_mod_def)

lemma pow_q68_r17_1: "pow_chain 0x100000000000000000 0x687390cac3c776587 2 41 0x20000000000 [
    Sqr 27676 0x2db960c58fbe40ec4,
    Sqr_mul 0x1b9752b29be59b6ee 0x68d18db55e31169a2,
    Sqr 0x487f6d56583e532db 0xdeac404471d58301,
    Sqr 0x1472d4d132930ffa 0x782ba799adac514d7,
    Sqr_mul 0xbe941d6a406645fd1 0x183fdb25500139559,
    Sqr_mul 0x7c2a682b8fd15da7 0x554deb06322a9b7f3,
    Sqr 0x30043aaf58aa8704d 0x437b0f0ddc1efea44,
    Sqr_mul 0x3c18485cfd607ec1a 0x3e36cf57b691a87d6] = Some (10573, 0x3e36cf57b691a87d6)"
  by (simp only: pow_chain_simps)

lemma pow_q68_r17_2: "pow_chain 0x100000000000000000 0x687390cac3c776587 2 10573 0x3e36cf57b691a87d6 [
    Sqr 0x198a5069b72d78f5f 0x177b769bbeff17cfd,
    Sqr_mul 0x746f0542c79c8bb9 0x2433c035e446ccfa1,
    Sqr_mul 0x114bc9e2bf0ab978b 0x7e71ba55e635f47cf,
    Sqr_mul 0xd2ff3c728e19d7f2f 0x807ce673433a18f8b,
    Sqr_mul 0xd9df60964fd89dbc9 0x96c03ed2bdc7d5ef1,
    Sqr 0x95f5218d74f8dbcc7 0x43fac404d5649eed2,
    Sqr_mul 0x3cfc94f497b0a4b6d 0x506790a43e2f91003,
    Sqr_mul 0x5551583dce0c4b084 0x938ecabf40465e9ae] = Some (0x294d7b, 0x938ecabf40465e9ae)"
  by (simp only: pow_chain_simps)

lemma pow_q68_r17_3: "pow_chain 0x100000000000000000 0x687390cac3c776587 2 0x294d7b 0x938ecabf40465e9ae [
    Sqr_mul 0x11f581b13b19eb0673 0x645c218aa9252a2d,
    Sqr 0x42761433848ee48 0x1ccd2b35fb9e4dbe1,
    Sqr 0x57940c12168aec5b 0x696ad04ed7c7246be,
    Sqr_mul 0x92a8131934f3f8bfc 0x23b4a824a486a27ec,
    Sqr_mul 0x10d32dff4bbbbebd8 0x71908dab510e11a08,
    Sqr 0x5519d9ffa97f8dca4 0x625a97a30183aaebc,
    Sqr_mul 0x7fa96e87c62fa6b1a 0xda81170ca84df0d6,
    Sqr_mul 0x2761551efe94317c 0x344a175c0eebea2c] = Some (0x294d7b9b, 0x344a175c0eebea2c)"
  by (simp only: pow_chain_simps)

lemma pow_q68_r17_4: "pow_chain 0x100000000000000000 0x687390cac3c776587 2 0x294d7b9b 0x344a175c0eebea2c [
    Sqr_mul 0x24155096e5a8dd3 0x6b09e00e572c2f865,
    Sqr 0x4b99e964ba90bca3a 0x5cbf6a8d9c30e5e6f,
    Sqr 0x38c2f8402b2effb1f 0x50d7ef41b9b035c7a,
    Sqr_mul 0x564077bcabe4a9d3b 0x9062ae5b0c4560565,
    Sqr 0x898f9a1b86717bc4d 0x769e496db9692c774,
    Sqr 0x5cd7f0f97a0129fae 0x6bf2c875d0696752,
    Sqr_mul 0x99c8a1422a75faf 0xf0619e97234aacd1,
    Sqr_mul 0x2fa91de4ed54dc8c 0x31bddc0bdfed28f16] = Some (0x294d7b9b93, 0x31bddc0bdfed28f16)"
  by (simp only: pow_chain_simps)

lemma pow_q68_r17_5: "pow_chain 0x100000000000000000 0x687390cac3c776587 2 0x294d7b9b93 0x31bddc0bdfed28f16 [
    Sqr 0x105389c6c0fb9e86f 0x7792b27446b67f36d,
    Sqr 0x5e5815b98bc6f5415 0x5c801510f33d2bc7c,
    Sqr 0x38758d6978333f867 0x8979e08597b7ffd61,
    Sqr 0x7cb5d883eaf2017aa 0x48cecdabf724f6b67,
    Sqr_mul 0x45f51e9fab9ccc66a 0x80bd7fa693dccfac8,
    Sqr_mul 0xdabaaaccc969a73bc 0x38741f5f22056aca4,
    Sqr 0x150795638800d7a8c 0x41aee6def1225a4e4,
    Sqr_mul 0x38ef9d2715e9f0119 0x82f291f74821474f] = Some (0x294d7b9b930d, 0x82f291f74821474f)"
  by (simp only: pow_chain_simps)

lemma pow_q68_r17_6: "pow_chain 0x100000000000000000 0x687390cac3c776587 2 0x294d7b9b930d 0x82f291f74821474f [
    Sqr_mul 0xe24b3c954cc243e 0x40ac46c6f6f3b6774,
    Sqr_mul 0x3732b1eaee8b03d40 0x37abc1f809867a5e0,
    Sqr 0x147357848164f83dc 0x78988276fe3f2d904,
    Sqr 0x5ff6fefd05f163dce 0x2d26f41550966a5b2,
    Sqr 0xd73db9b85dcc1fe0 0x54d08d619496f1ee4] = Some (0x529af737261b8, 0x54d08d619496f1ee4)"
  by (simp only: pow_chain_simps)

lemma pow_q68_r17: "pow_mod 0x978c6f353c3889a79 2 0x529af737261b8 0x54d08d619496f1ee4"
  using pow_chain_correct [OF pow_chain_correct [OF pow_chain_correct [OF pow_chain_correct [OF pow_chain_correct [OF pow_chain_correct [OF pow_q68_r17_0 pow_q68_r17_1] pow_q68_r17_2] pow_q68_r17_3] pow_q68_r17_4] pow_q68_r17_5] pow_q68_r17_6] by simp

lemma pow_q68_s_0: "pow_mod (0x100000000000000000 - 0x687390cac3c776587) 0x54d08d619496f1ee4 1 0x54d08d619496f1ee4"
  by (simp add: pow_mod_def)

lemma pow_q68_s_1: "pow_chain 0x100000000000000000 0x687390cac3c776587 0x54d08d619496f1ee4 1 0x54d08d619496f1ee4 [
    Sqr 0x2f77805a35035cb44 0x392b4d67bc79e3fec,
    Mul 0x1ffeb1f61a04befe3 0x17a2dec498bf7a5e5,
    Sqr 0x3afb8b57e5899c68 0x45f5dc4bba40581b1,
    Mul 0x27274ffae76b39184 0x11588671774501040,
    Sqr 0x1fc3fd7705757353 0x8b6112293700c9fc5,
    Sqr 0x802fdf3802ff7a0a8 0x7c245fed2ca3e4e31,
    Mul 0x4579fdc9b8e89573d 0x8ec405612801973cf,
    Sqr 0x867de9966775fd7cd 0xb2a8b371f2cb4f7c,
    Sqr 0xd29e81c13fdd943 0x24eb9f8d6fb0fc565,
    Mul 0x14a9a1cfc70269570 0x2a2819674eb56a204,
    Sqr 0xbba108f8dd759574 0x7b7a1f3a06f1da43c,
    Sqr 0x649af0732f2061ea3 0x495ecf9bf240a6505,
    Mul 0x290fdcacd3c56dac5 0x421f6024d7ef3a557] = Some (469, 0x421f6024d7ef3a557)"
  by (simp only: pow_chain_simps)

lemma pow_q68_s_2: "pow_chain 0x100000000000000000 0x687390cac3c776587 0x54d08d619496f1ee4 469 0x421f6024d7ef3a557 [
    Sqr 0x1cd9a0d77bac2ddf3 0x450b9e7ab703c2db6,
    Mul 0x26a437e9d7d5926e6 0x93ce6d555fe244b62,
    Sqr 0x902813754eb0063ac 0x244b038697b3dfd38,
    Sqr 0x8b105be3f5364d2c 0x6fd2ddd1f62b0ca74,
    Mul 0x3e951ebe9074d2b75 0x1dde210aa64b3fb03,
    Sqr 0x5e2ec9ee26e3ab8f 0x6fd54b4abec88c572,
    Sqr 0x528697d1a16fb3f72 0x5be66597d05ed15e2,
    Mul 0x336ea01e9de9afac7 0x60a487bd3bde1bb39,
    Sqr 0x3da1106f047d8f59c 0x4e32e84bc04f263f5,
    Sqr 0x2859ba9ffcc0898a1 0x2dde575cd75d26a60,
    Sqr 0xde20055218ea4818 0x38525ffb26d920a8,
    Mul 0x1f854a7f6508dad7 1] = Some (120233, 1)"
  by (simp only: pow_chain_simps)

lemma pow_q68_s: "pow_mod 0x978c6f353c3889a79 0x54d08d619496f1ee4 120233 1"
  using pow_chain_correct [OF pow_chain_correct [OF pow_q68_s_0 pow_q68_s_1] pow_q68_s_2] by simp

lemma pow_q68_f: "pow_mod 0x978c6f353c3889a79 2 0x978c6f353c3889a78 1"
  using pow_mod_trans [OF pow_q68_r17 pow_q68_s] by simp

lemma pow_q68_r26_0: "pow_mod (0x100000000000000000 - 0x687390cac3c776587) 2 56 0x100000000000000"
  by (simp add: pow_mod_def)

lemma pow_q68_r26_1: "pow_chain 0x100000000000000000 0x687390cac3c776587 2 56 0x100000000000000 [
    Sqr_mul 0x360e269e85cb 0x1bf0b9a22adbea50d,
    Sqr_mul 0xa4d6e90ccdfaa25b 0x8744732b944f20a4f,
    Sqr 0x78bc3dacbf3c0023c 0x8f83fb44edacd1e05,
    Sqr_mul 0x10fd111216b98eb5bc 0x7d4cebc7ae9675a56,
    Sqr_mul 0xcf3271d30afad610c 0x907416a7b275131c,
    Sqr_mul 0x113618ee2a72cc71 0x65a82ecd603c3bab7,
    Sqr_mul 0x88616b59630949fce 0x70cd7f0455c1f6944,
    Sqr_mul 0xa7ecfdb13061217af 0x567e3e24e70bd3c69] = Some (14559, 0x567e3e24e70bd3c69)"
  by (simp only: pow_chain_simps)

lemma pow_q68_r26_2: "pow_chain 0x100000000000000000 0x687390cac3c776587 2 14559 0x567e3e24e70bd3c69 [
    Sqr 0x315d373ef309f9ea0 0x75ef8ecebfb6d2971,
    Sqr 0x5bc734620d2ebbbce 0x678e5bbccb719b383,
    Sqr_mul 0x8d86164f767559c7c 0x2d0f85f08c1735b76,
    Sqr 0xd65e912d214c7945 0x3ff41e9877ef046c7,
    Sqr_mul 0x35fa16dbb74c2d508 0x61418daefb0e55c9a,
    Sqr_mul 0x7cd3ef5b7d71b86f6 0x4a3c77b42ca235302,
    Sqr_mul 0x48bab5dd2885b74c3 0x4bcf0ec84e2dd19dd,
    Sqr 0x25ebf37f04b7322d5 0x360d203cf31a7501c] = Some (0x38df2e, 0x360d203cf31a7501c)"
  by (simp only: pow_chain_simps)

lemma pow_q68_r26_3: "pow_chain 0x100000000000000000 0x687390cac3c776587 2 0x38df2e 0x360d203cf31a7501c [
    Sqr_mul 0x268e4a90fa05c2918 0x6055d90b3522b29c8,
    Sqr 0x3d3cdf3ecbb83983b 0x5b893310a94e33a5d,
    Sqr 0x3749beb505ce81a6f 0x29e950722f4a90152,
    Sqr 0xb973c76c67a028e1 0x65e46171fa07311eb,
    Sqr_mul 0x89032045315258036 0x3db388ffce83c05ec,
    Sqr 0x191ef9ce01f9fac38 0x70460c54f60f0fb18,
    Sqr 0x532d54d37d67625a5 0x8e4f0b0a2a4230543,
    Sqr 0x85a1de3aa33198cd0 0x51d2cfadf84250139] = Some (0x38df2e88, 0x51d2cfadf84250139)"
  by (simp only: pow_chain_simps)

lemma pow_q68_r26_4: "pow_chain 0x100000000000000000 0x687390cac3c776587 2 0x38df2e88 0x51d2cfadf84250139 [
    Sqr 0x2c2d842265dbd596e 0x6af82db039fc00db3,
    Sqr_mul 0x9701d7bf39f8fb5ea 0x40c20f1ab0dcb96b8,
    Sqr_mul 0x3757e6e93fd65be54 0x1fc7758690ee2cacc,
    Sqr 0x6a9f940a134dfaf5 0x35c75960c06db92c3,
    Sqr_mul 0x262afef7f6c87e6da 0x2d299ccbe649ec008,
    Sqr_mul 0x1aeae28d19df06e9f 0x429242e0e89301159,
    Sqr 0x1d3e387c636f8167f 0x692a1ee76db49e8ea,
    Sqr 0x48fa24eda24fbb481 0x49c73812af8470aeb] = Some (0x38df2e886c, 0x49c73812af8470aeb)"
  by (simp only: pow_chain_simps)

lemma pow_q68_r26_5: "pow_chain 0x100000000000000000 0x687390cac3c776587 2 0x38df2e886c 0x49c73812af8470aeb [
    Sqr_mul 0x47d5ae8dec611d74b 0x3460a64b8e2d886ff,
    Sqr 0x121a3cc060fe576fe 0x889604dbc1385e7f3,
    Sqr 0x7b19c8e5c97c3d9c8 0x7b19bc18a4fd23121,
    Sqr 0x63fe1cb431e966038 0x3c02f880550dc7bc9] = Some (0x38df2e886c8, 0x3c02f880550dc7bc9)"
  by (simp only: pow_chain_simps)

lemma pow_q68_r26: "pow_mod 0x978c6f353c3889a79 2 0x38df2e886c8 0x3c02f880550dc7bc9"
  using pow_chain_correct [OF pow_chain_correct [OF pow_chain_correct [OF pow_chain_correct [OF pow_chain_correct [OF pow_q68_r26_0 pow_q68_r26_1] pow_q68_r26_2] pow_q68_r26_3] pow_q68_r26_4] pow_q68_r26_5] by simp

lemma pow_q68_d26: "is_prime d \<Longrightarrow> d dvd 0x978c6f353c3889a79 \<Longrightarrow> 0x2aa2c67 dvd d - 1"
  using pocklington_factor [OF prime_44706919 _ _ pow_q68_f pow_q68_r26, of d "0x549464bf5eeee8eea" "0x217e1d6c99705d787"] by simp

lemma pow_q68_d17: "is_prime d \<Longrightarrow> d dvd 0x978c6f353c3889a79 \<Longrightarrow> 120233 dvd d - 1"
  using pocklington_factor [OF prime_120233 _ _ pow_q68_f pow_q68_r17, of d "0xc63ad50804f2104e" "0x6ef0a1b884084831"] by simp

lemma prime_q68: "is_prime 0x978c6f353c3889a79"
proof (rule pocklington [of _ "0x4e385b002ff" 1])
  fix d assume d: "is_prime d" "d dvd 0x978c6f353c3889a79"
  show "0x4e385b002ff dvd d - 1"
    using primes_dvd_mult [OF prime_44706919 pow_q68_d26 [OF d] pow_q68_d17 [OF d]] by simp
qed (simp_all add: upto.simps)

lemma prime_67: "is_prime 67"
  by (rule is_prime_trial [of _ 9]) (simp_all add: upto.simps)

text \<open>The certificate of 2011.\<close>

lemma pow_2011_r7_0: "pow_mod (2048 - 37) 2 7 128"
  by (simp add: pow_mod_def)

lemma pow_2011_r7_1: "pow_chain 2048 37 2 7 128 [
    Sqr_mul 16 592,
    Sqr 174 550] = Some (30, 550)"
  by (simp)

lemma pow_2011_r7: "pow_mod 2011 2 30 550"
  using pow_chain_correct [OF pow_2011_r7_0 pow_2011_r7_1] by simp

lemma pow_2011_s_0: "pow_mod (2048 - 37) 550 1 550"
  by (simp add: pow_mod_def)

lemma pow_2011_s_1: "pow_chain 2048 37 550 1 550 [
    Sqr 150 850,
    Sqr 359 551,
    Sqr 150 1951,
    Sqr 1892 1589,
    Sqr_mul 690555 445,
    Sqr_mul 54159 1] = Some (67, 1)"
  by (simp)

lemma pow_2011_s: "pow_mod 2011 550 67 1"
  using pow_chain_correct [OF pow_2011_s_0 pow_2011_s_1] by simp

lemma pow_2011_f: "pow_mod 2011 2 2010 1"
  using pow_mod_trans [OF pow_2011_r7 pow_2011_s] by simp

lemma pow_2011_d7: "is_prime d \<Longrightarrow> d dvd 2011 \<Longrightarrow> 67 dvd d - 1"
  using pocklington_factor [OF prime_67 _ _ pow_2011_f pow_2011_r7, of d "337" "92"] by simp

lemma prime_2011: "is_prime 2011"
proof (rule pocklington [of _ "67" 1])
  fix d assume d: "is_prime d" "d dvd 2011"
  show "67 dvd d - 1"
    using pow_2011_d7 [OF d] by simp
qed (simp_all add: upto.simps)

text \<open>The certificate of 4681609.\<close>

lemma pow_4681609_r11_0: "pow_mod (0x800000 - 0x389077) 2 18 262144"
  by (simp add: pow_mod_def)

lemma pow_4681609_r11_1: "pow_chain 0x800000 0x389077 2 18 262144 [
    Sqr 14678 0x2b06fa,
    Sqr 0x19ea8e 0x389426,
    Sqr_mul 0x599f8e 0x30f64a,
    Sqr_mul 0x431e05 0x125f1b,
    Sqr 309637 0x4619ac,
    Sqr 0x44ca33 112965,
    Sqr 2725 0x388f4c] = Some (2328, 0x388f4c)"
  by (simp)

lemma pow_4681609_r11: "pow_mod 0x476f89 2 2328 0x388f4c"
  using pow_chain_correct [OF pow_4681609_r11_0 pow_4681609_r11_1] by simp

lemma pow_4681609_s_0: "pow_mod (0x800000 - 0x389077) 0x388f4c 1 0x388f4c"
  by (simp add: pow_mod_def)

lemma pow_4681609_s_1: "pow_chain 0x800000 0x389077 0x388f4c 1 0x388f4c [
    Sqr 0x2cc818 0x1481b8,
    Mul 0x103c81 0x18fa97,
    Sqr 572413 0x40f7ac,
    Mul 0x337041 547143,
    Sqr 63944 0x470da9,
    Mul 0x3841cd 0x335b77,
    Sqr 0x24ec1c 0x315255,
    Mul 0x270cfe 0x3fd64e,
    Sqr 0x390bfc 0x2cd1e8,
    Sqr 0x1c1eeb 0x3b317d,
    Mul 0x2edde4 583960,
    Sqr 72840 882040,
    Mul 698361 0x450c5f,
    Sqr 0x42bda1 0x37c118] = Some (502, 0x37c118)"
  by (simp)

lemma pow_4681609_s_2: "pow_chain 0x800000 0x389077 0x388f4c 502 0x37c118 [
    Sqr 0x2b83e4 0x3fc13c,
    Mul 0x327a76 0x272eaa,
    Sqr 0x157dca 0x3ca1ca,
    Mul 0x30017f 1] = Some (2011, 1)"
  by (simp)

lemma pow_4681609_s: "pow_mod 0x476f89 0x388f4c 2011 1"
  using pow_chain_correct [OF pow_chain_correct [OF pow_4681609_s_0 pow_4681609_s_1] pow_4681609_s_2] by simp

lemma pow_4681609_f: "pow_mod 0x476f89 2 0x476f88 1"
  using pow_mod_trans [OF pow_4681609_r11 pow_4681609_s] by simp

lemma pow_4681609_d11: "is_prime d \<Longrightarrow> d dvd 0x476f89 \<Longrightarrow> 2011 dvd d - 1"
  using pocklington_factor [OF prime_2011 _ _ pow_4681609_f pow_4681609_r11, of d "0x16fcfc" "0x12337b"] by simp

lemma pow_4681609_n1: "\<not> 2012 dvd (0x476f89 :: int)"
  by (rule not_dvd_cert [of _ "2326" _ "1697"]) simp_all

lemma prime_4681609: "is_prime 0x476f89"
proof (rule pocklington [of _ "2011" 2])
  fix d assume d: "is_prime d" "d dvd 0x476f89"
  show "2011 dvd d - 1"
    using pow_4681609_d11 [OF d] by simp
qed (simp_all add: upto.simps pow_4681609_n1)

lemma prime_13: "is_prime 13"
  by (rule is_prime_trial [of _ 4]) (simp_all add: upto.simps)

text \<open>The certificate of 2861.\<close>

lemma pow_2861_r4_0: "pow_mod (4096 - 1235) 2 6 64"
  by (simp add: pow_mod_def)

lemma pow_2861_r4_1: "pow_chain 4096 1235 2 6 64 [
    Sqr_mul 2 2470,
    Sqr_mul 4264 2496,
    Sqr_mul 4355 377,
    Sqr 49 1940,
    Sqr 1315 1385] = Some (220, 1385)"
  by (simp)

lemma pow_2861_r4: "pow_mod 2861 2 220 1385"
  using pow_chain_correct [OF pow_2861_r4_0 pow_2861_r4_1] by simp

lemma pow_2861_s_0: "pow_mod (4096 - 1235) 1385 1 1385"
  by (simp add: pow_mod_def)

lemma pow_2861_s_1: "pow_chain 4096 1235 1385 1 1385 [
    Sqr 670 1355,
    Mul 655 2720,
    Sqr 2585 2715,
    Sqr 2576 1289,
    Mul 624 1] = Some (13, 1)"
  by (simp)

lemma pow_2861_s: "pow_mod 2861 1385 13 1"
  using pow_chain_correct [OF pow_2861_s_0 pow_2861_s_1] by simp

lemma pow_2861_f: "pow_mod 2861 2 2860 1"
  using pow_mod_trans [OF pow_2861_r4 pow_2861_s] by simp

lemma pow_2861_d4: "is_prime d \<Longrightarrow> d dvd 2861 \<Longrightarrow> 13 dvd d - 1"
  using pocklington_factor [OF prime_13 _ _ pow_2861_f pow_2861_r4, of d "2338" "1131"] by simp

lemma pow_2861_n1: "\<not> 14 dvd (2861 :: int)"
  by (rule not_dvd_cert [of _ "204" _ "5"]) simp_all

lemma pow_2861_n2: "\<not> 27 dvd (2861 :: int)"
  by (rule not_dvd_cert [of _ "105" _ "26"]) simp_all

lemma pow_2861_n3: "\<not> 40 dvd (2861 :: int)"
  by (rule not_dvd_cert [of _ "71" _ "21"]) simp_all

lemma pow_2861_n4: "\<not> 53 dvd (2861 :: int)"
  by (rule not_dvd_cert [of _ "53" _ "52"]) simp_all

lemma prime_2861: "is_prime 2861"
proof (rule pocklington [of _ "13" 5])
  fix d assume d: "is_prime d" "d dvd 2861"
  show "13 dvd d - 1"
    using pow_2861_d4 [OF d] by simp
qed (simp_all add: upto.simps pow_2861_n1 pow_2861_n2 pow_2861_n3 pow_2861_n4)

text \<open>The certificate of 85831.\<close>

lemma pow_85831_f_0: "pow_mod (131072 - 45241) 2 10 1024"
  by (simp add: pow_mod_def)

lemma pow_85831_f_1: "pow_chain 131072 45241 2 10 1024 [
    Sqr 12 18604,
    Sqr_mul 8064 76448,
    Sqr_mul 136181 41997,
    Sqr_mul 41098 13580,
    Sqr_mul 4297 16993,
    Sqr 3364 26565,
    Sqr_mul 16443 79317,
    Sqr 73297 31682] = Some (2682, 31682)"
  by (simp)

lemma pow_85831_f_2: "pow_chain 131072 45241 2 2682 31682 [
    Sqr 11694 41410,
    Sqr 19978 56382,
    Sqr_mul 74074 14354,
    Sqr_mul 4801 1,
    Sqr 0 1] = Some (85830, 1)"
  by (simp)

lemma pow_85831_f: "pow_mod 85831 2 85830 1"
  using pow_chain_correct [OF pow_chain_correct [OF pow_85831_f_0 pow_85831_f_1] pow_85831_f_2] by simp

lemma pow_85831_r12_0: "pow_mod (131072 - 45241) 2 15 32768"
  by (simp add: pow_mod_def)

lemma pow_85831_r12_1: "pow_chain 131072 45241 2 15 32768 [
    Sqr 12509 81845] = Some (30, 81845)"
  by (simp)

lemma pow_85831_r12: "pow_mod 85831 2 30 81845"
  using pow_chain_correct [OF pow_85831_r12_0 pow_85831_r12_1] by simp

lemma pow_85831_d12: "is_prime d \<Longrightarrow> d dvd 85831 \<Longrightarrow> 2861 dvd d - 1"
  using pocklington_factor [OF prime_2861 _ _ pow_85831_f pow_85831_r12, of d "38061" "36293"] by simp

lemma prime_85831: "is_prime 85831"
proof (rule pocklington [of _ "2861" 1])
  fix d assume d: "is_prime d" "d dvd 85831"
  show "2861 dvd d - 1"
    using pow_85831_d12 [OF d] by simp
qed (simp_all add: upto.simps)

text \<open>The certificate of 107361793816595537.\<close>

lemma pow_q57_r17_0: "pow_mod (0x200000000000000 - 0x829304711cf3af) 2 36 0x1000000000"
  by (simp add: pow_mod_def)

lemma pow_q57_r17_1: "pow_chain 0x200000000000000 0x829304711cf3af 2 36 0x1000000000 [
    Sqr 43985 0xcdfe2eaf68d6df,
    Sqr_mul 0xde7f47de573683 0xe79783e6c3c90f,
    Sqr_mul 0x1193bb354520b00 0xa5592e760ba2c2,
    Sqr 0x47adbc4a652ba6 0x25668c2be5837e,
    Sqr 0x3aad446476a81 0x715a6942fc7333,
    Sqr_mul 0x435f8be4acc15f 0x3ef1cbfb871543,
    Sqr_mul 0x14c6563226493f 0x622d7d1272fe23,
    Sqr_mul 0x328a8ccfc371e2 0xeca2ca41575110] = Some (9319, 0xeca2ca41575110)"
  by (simp)

lemma pow_q57_r17_2: "pow_chain 0x200000000000000 0x829304711cf3af 2 9319 0xeca2ca41575110 [
    Sqr_mul 0x1259df7ba09c7aa 0x124cd2ffae41d36,
    Sqr 0xe0c4e5c814c7bb 0x96ce8066c45139,
    Sqr 0x3ba01775b5c245 0xc373c098406adc,
    Sqr_mul 0xc84f29d5037c99 0xa578c5cb9941b7,
    Sqr 0x47c922a3acb00e 0x13b687a154e1463,
    Sqr 0x104d1214cb855a7 0x9154af2c87b072,
    Sqr 0x375fb9e3915a88 0x26a803a04edbc,
    Sqr 0x3eaee1dcfa5 0xe886ef182c32db] = Some (0x246790, 0xe886ef182c32db)"
  by (simp)

lemma pow_q57_r17_3: "pow_chain 0x200000000000000 0x829304711cf3af 2 0x246790 0xe886ef182c32db [
    Sqr_mul 0x11b82599ea73be4 0x120484f8ddfeb8e,
    Sqr_mul 0x1b3c4e6d955fa67 0x10fdf9b54fdf6f1,
    Sqr_mul 0x18392b930138436 0xc31f3d0cdac0ac,
    Sqr_mul 0xc7a214e3936c32 0xe6be014d7534e,
    Sqr_mul 0x1172c67400b37 0xe9fc6f50b03721,
    Sqr 0x8f89fed88d1164 0x6444cd7420019d,
    Sqr_mul 0x34b792508e8b4b 0x10b5e8d15629dd7,
    Sqr_mul 0x176d671f8ef50a4 0x1153ffa8aeea13e] = Some (0x246790fb, 0x1153ffa8aeea13e)"
  by (simp)

lemma pow_q57_r17_4: "pow_chain 0x200000000000000 0x829304711cf3af 2 0x246790fb 0x1153ffa8aeea13e [
    Sqr 0xc986de92b0449a 0x13b66ba1f4c1e4a,
    Sqr 0x104ce3c73f660d2 0x9d67dd57d0f2f2,
    Sqr_mul 0x81ea5fe60c55cd 0x14cab592ee917ab,
    Sqr 0x122253333aeeef1 0x1348511703645f8,
    Sqr 0xf98c9591bec81f 0x35abf0e383da71,
    Sqr_mul 0xf1ac8709543d2 0x15bb0c92276fe50,
    Sqr_mul 0x279e0d4f8b24e25 0x15992337fe23c4b,
    Sqr 0x139163d52acac0c 0xdd120c75483e2d] = Some (0x246790fb26, 0xdd120c75483e2d)"
  by (simp)

lemma pow_q57_r17_5: "pow_chain 0x200000000000000 0x829304711cf3af 2 0x246790fb26 0xdd120c75483e2d [
    Sqr 0x802157389b69da 0x9e7aec2ff91def,
    Sqr 0x41d8fb8369b7aa 0xc800074fa0f057,
    Sqr 0x68deac4d2f7915 0x168fc495711f1ec] = Some (0x1233c87d930, 0x168fc495711f1ec)"
  by (simp)

lemma pow_q57_r17: "pow_mod 0x17d6cfb8ee30c51 2 0x1233c87d930 0x168fc495711f1ec"
  using pow_chain_correct [OF pow_chain_correct [OF pow_chain_correct [OF pow_chain_correct [OF pow_chain_correct [OF pow_q57_r17_0 pow_q57_r17_1] pow_q57_r17_2] pow_q57_r17_3] pow_q57_r17_4] pow_q57_r17_5] by simp

lemma pow_q57_s_0: "pow_mod (0x200000000000000 - 0x829304711cf3af) 0x168fc495711f1ec 1 0x168fc495711f1ec"
  by (simp add: pow_mod_def)

lemma pow_q57_s_1: "pow_chain 0x200000000000000 0x829304711cf3af 0x168fc495711f1ec 1 0x168fc495711f1ec [
    Sqr 0x155a40156e110a4 0xf37630aa8c3dac,
    Sqr 0x9b666c34fdbbc3 0x113ad2ea1fcdedd,
    Mul 0x104e73c8a638814 0xfe900c14fd8268,
    Sqr 0xa9e5030069c4e1 0x903999cbc8f30f,
    Sqr 0x3688d36e683187 0x2b1bd7da367b2a,
    Sqr 0x4df45958afcad 0x9a3ddbe0c05427,
    Mul 0x91f9d9fe1bb61a 0x1836d07fc174ba,
    Sqr 0x189853e44d289 0x16d4c0c268d0dcb,
    Mul 0x159b89de4cc2b2b 0x2d649b23bf2589,
    Sqr 0x566f421b88bb9 0x102fb87a8f301c8,
    Mul 0xf51a9adee1525a 0xe6c5b79405a5e6,
    Sqr 0x8b9f8871a24ff5 0x1846c87a24821f,
    Mul 0x16f9bd3922ea00 0x85c5faf0321994] = Some (335, 0x85c5faf0321994)"
  by (simp)

lemma pow_q57_s_2: "pow_chain 0x200000000000000 0x829304711cf3af 0x168fc495711f1ec 335 0x85c5faf0321994 [
    Sqr 0x2eeab9ef302b39 0xad7e359e8ee487,
    Sqr 0x4ee9faeb0bbff7 0xdf0f42d0086e0a,
    Mul 0xd31b27a1807d0b 0x106b30e51c1c6bd,
    Sqr 0xb4edd69fae6a2e 0x8b13107f4f26fb,
    Sqr 0x32b57f9efaaba3 0xe3496575f48786,
    Sqr 0x876feefaa7e53c 0x90b4f6611c4228,
    Sqr 0x36e645e19818db 0x15e8510d35d84f5,
    Mul 0x14bbc5c78580a8a 0xbd61a1e2ee6932,
    Sqr 0x5e07939a864a8b 0xe576ffa8f4f3c9,
    Mul 0xd92b05464bddf0 0xd7188522717d5c,
    Sqr 0x794c4cfeb7bf9f 0x705ac9077ee3c1,
    Mul 0x6a556aa6edfc7b 1] = Some (85831, 1)"
  by (simp)

lemma pow_q57_s: "pow_mod 0x17d6cfb8ee30c51 0x168fc495711f1ec 85831 1"
  using pow_chain_correct [OF pow_chain_correct [OF pow_q57_s_0 pow_q57_s_1] pow_q57_s_2] by simp

lemma pow_q57_f: "pow_mod 0x17d6cfb8ee30c51 2 0x17d6cfb8ee30c50 1"
  using pow_mod_trans [OF pow_q57_r17 pow_q57_s] by simp

lemma pow_q57_r23_0: "pow_mod (0x200000000000000 - 0x829304711cf3af) 2 42 0x40000000000"
  by (simp add: pow_mod_def)

lemma pow_q57_r23_1: "pow_chain 0x200000000000000 0x829304711cf3af 2 42 0x40000000000 [
    Sqr_mul 0x157a3148 0x427aafd72f0838,
    Sqr 0xb96363ab9d7c9 0x1200c89f4add9a7,
    Sqr_mul 0x1b31045a4d87967 0xcece5d6300d84b,
    Sqr_mul 0xe041e489f720a1 0x801fb3f8016d01,
    Sqr 0x2b09ac5ca232cc 0x4b52b4dbd43775,
    Sqr_mul 0x1dbfcf1b133cdd 0xb725f21af5905,
    Sqr_mul 0xafe236986bc1 0x1191d3e362ad021,
    Sqr_mul 0x19e5e14cd7ef9d6 0x14220b08a6e33cc] = Some (10935, 0x14220b08a6e33cc)"
  by (simp)

lemma pow_q57_r23_2: "pow_chain 0x200000000000000 0x829304711cf3af 2 10935 0x14220b08a6e33cc [
    Sqr 0x1100c63432e33bb 0x125d63778eec865,
    Sqr 0xe25c843647590d 0xc9b93537632ebc,
    Sqr_mul 0xd55ea8ff1aa60c 0x149f2c610051a54,
    Sqr 0x11d6b19fa992162 0x122d8fa1c13038e,
    Sqr 0xddc77c9e59ae2a 0x129225f8d588f7a,
    Sqr_mul 0x1cef0dc79e4dd1d 0x3386f83e14ba1b,
    Sqr_mul 0xdebf73433f164 0x62919ae79a6d0e,
    Sqr 0x1978eabfbc8c3b 0x82dfb913c0ca19] = Some (0x2ab726, 0x82dfb913c0ca19)"
  by (simp)

lemma pow_q57_r23_3: "pow_chain 0x200000000000000 0x829304711cf3af 2 0x2ab726 0x82dfb913c0ca19 [
    Sqr 0x2ce7b8824d1fdc 0x367f115b1211d5,
    Sqr 0x7c943c06cdad1 0x8bf9f7ff2bf318,
    Sqr_mul 0x66bcdb24f0cf9b 0xad6f8fb76f3075,
    Sqr 0x4edca82a08ca0c 0x5ebd78cdbd97ad,
    Sqr_mul 0x2f105be1f7d0e2 0x145352d11056650,
    Sqr_mul 0x22a8d213e6b0fb4 0x15f581506cf4a0c,
    Sqr_mul 0x287450bef612ac9 0x243a9c0faaeb87,
    Sqr 0x370ee0d0c9209 0xed4857462f8058] = Some (0x2ab7262e, 0xed4857462f8058)"
  by (simp)

lemma pow_q57_r23_4: "pow_chain 0x200000000000000 0x829304711cf3af 2 0x2ab7262e 0xed4857462f8058 [
    Sqr_mul 0x127395be627514a 0x117394136720c16,
    Sqr 0xcc6808328c7d38 0x10dcc2d5f2fd32c,
    Sqr 0xbed6aabd0d4780 0xd6dd50094bf010,
    Sqr 0x79098f3ac65176 0x409499164ab2aa,
    Sqr 0xaef3079e96155 0x243f62073210ff] = Some (0x556e4c5d0, 0x243f62073210ff)"
  by (simp)

lemma pow_q57_r23: "pow_mod 0x17d6cfb8ee30c51 2 0x556e4c5d0 0x243f62073210ff"
  using pow_chain_correct [OF pow_chain_correct [OF pow_chain_correct [OF pow_chain_correct [OF pow_q57_r23_0 pow_q57_r23_1] pow_q57_r23_2] pow_q57_r23_3] pow_q57_r23_4] by simp

lemma pow_q57_d23: "is_prime d \<Longrightarrow> d dvd 0x17d6cfb8ee30c51 \<Longrightarrow> 0x476f89 dvd d - 1"
  using pocklington_factor [OF prime_4681609 _ _ pow_q57_f pow_q57_r23, of d "0x9f4103445a07f8" "0xf225ac26cf65f"] by simp

lemma pow_q57_d17: "is_prime d \<Longrightarrow> d dvd 0x17d6cfb8ee30c51 \<Longrightarrow> 85831 dvd d - 1"
  using pocklington_factor [OF prime_85831 _ _ pow_q57_f pow_q57_r17, of d "0x13d8c85a225a422" "0x12c8823418aada5"] by simp

lemma prime_q57: "is_prime 0x17d6cfb8ee30c51"
proof (rule pocklington [of _ "0x5d8ec435ff" 1])
  fix d assume d: "is_prime d" "d dvd 0x17d6cfb8ee30c51"
  show "0x5d8ec435ff dvd d - 1"
    using primes_dvd_mult [OF prime_4681609 pow_q57_d23 [OF d] pow_q57_d17 [OF d]] by simp
qed (simp_all add: upto.simps)

text \<open>The certificate of 115792089237316195423570985008687907852837564279074904382605163141518161494337.\<close>

lemma pow_n_r57_0: "pow_mod (0x10000000000000000000000000000000000000000000000000000000000000000 - 0x14551231950b75fc4402da1732fc9bebf) 2 171 0x8000000000000000000000000000000000000000000"
  by (simp add: pow_mod_def)

lemma pow_n_r57_1: "pow_chain 0x10000000000000000000000000000000000000000000000000000000000000000 0x14551231950b75fc4402da1732fc9bebf 2 171 0x8000000000000000000000000000000000000000000 [
    Sqr_mul 0x8000000000000000000000 0xa2a8918ca85bafe22016d0b997e4df5f8000000000000000000000,
    Sqr_mul 0xceb38e6ac0e34de2f34bfaf22de683e39e0d30c8f2b8 0x132213e20907e4a70b29aaaec0060c7770668533bc93e516cfb3a90ae489a748,
    Sqr 0x16e137cd6ece6f4a639375137f8b7aa64b18208198c04062648c1398451fe09 0xf36754c8c5fe6a74c532d69c0a6b08eee191994b913fb41282a630ca68273af7,
    Sqr_mul 0x1cedaa954fb09607089b36dc31a338efb920c63b40f5092deeba3bc611f8f50fe 0x69a67962a62aaaec82871a08e74be4aea029062f5aea9cea437100d18d25a624,
    Sqr 0x2b99fbd491cce6a3a7e5e7cff855936f4ea5769a716c475885aba6f795861cd7 0xfdeaf98364893fa32f36b754a7df029330085479ebe05ee04c164a345080cb79,
    Sqr 0xfbda48dacc1befb3eb628c8be690ff08f5af578192f881cbb12cbef416f751bb 0xcd88b0e636c9118971da4caa6fb0951e906edb3d8843ffc33169c079ecbae3b6,
    Sqr 0xa504344d22959613b7828791b0b402540b0ca310fdbc3ea37be7b5c97e447264 0xbffad3afde5f6941c953f8b4e55262d6ede155a1afc39b4374e487096d7fd600,
    Sqr_mul 0x11ff07b4520b825999c0cfa1d7f224af1c07d9c1160346d038c0c2c41382bb0b5 0xe746dbfc310f3ff9a0b885789ea072efc72fc7cda95d074a0f14128b5ca42d0b] = Some (43985, 0xe746dbfc310f3ff9a0b885789ea072efc72fc7cda95d074a0f14128b5ca42d0b)"
  by (simp only: pow_chain_simps)

lemma pow_n_r57_2: "pow_chain 0x10000000000000000000000000000000000000000000000000000000000000000 0x14551231950b75fc4402da1732fc9bebf 2 43985 0xe746dbfc310f3ff9a0b885789ea072efc72fc7cda95d074a0f14128b5ca42d0b [
    Sqr_mul 0x1a1e1e93c56fb9c5866e5933dd5477a903a1c00bbb0ea260da2dcb0a4619bd4cb 0xf652ba6e78ab3d87cad32fdf1629829434be7df96926805d79fb0bea1f9f2a67,
    Sqr 0xed03190846731ef9263efef328e83b2c4ff8cee40341e975c44175b2ae318f50 0x25b8bd7c8568bc034f3a9509e0dbdaf478857e7612d09900da6c4a489a1f4221,
    Sqr 0x58eec16edd126756241d7b1171bdbca42137bf8c201b687996b79e6a7723d97 0x2f6a3454d06771315f6feae3df89d7a74b5389a983f7cb810f8b1d2495940dea,
    Sqr 0x8c82b46857521fd5174b9d6cc85bd3889d4a8c961c54193c164037d1b7a8d55 0x95904c55790aea3fdc14567aa48483f38065313b91c77bba38a915b98363224f,
    Sqr_mul 0xaec29462eba37abbe7301d0f8f6d9ed062610100d9176afbcf0a283b15466726 0x809ba570d98402aa5243f3766319b4632e206d2e93b6ec717a330a84e651521c,
    Sqr 0x409c04129b1612a8c446856a46e47c45fbef1730f29969a9e8df9569a0f0919e 0x94a34e5ff5e64aac0def20610e3fa517e13f4d86e850f9472941451956abdbf2,
    Sqr_mul 0xac9a7597b5080ed593aa347631c724011dab6da32e3d2293172345bbcf57babc 0x94433784255e456e5a1477e717e7a3ee55513283e0db279899391975452fbbcc,
    Sqr 0x55ddc9d6e66a9be5006c38a49d2409336a6050766e80c251eb65024b3b0b9f9d 0xcd0129174714d9e531064c259ba0ab824e7e65f2506062d97506bf834a1346b3] = Some (0xabd18a, 0xcd0129174714d9e531064c259ba0ab824e7e65f2506062d97506bf834a1346b3)"
  by (simp only: pow_chain_simps)

lemma pow_n_r57_3: "pow_chain 0x10000000000000000000000000000000000000000000000000000000000000000 0x14551231950b75fc4402da1732fc9bebf 2 0xabd18a 0xcd0129174714d9e531064c259ba0ab824e7e65f2506062d97506bf834a1346b3 [
    Sqr 0xa42adbd0a09e6a054b959b738d87c612751ae29ceb021ec2c9074104ab450f48 0x2f4036c41480d5bce4a03f00f644d1b4694fa629403fc9e8ec1de17d4f7e37e1,
    Sqr_mul 0x1171486eda91bb77f6f9065efbdda5635b4291e85623ccc87aebd99e11f7c729 0x857fc8110ae50724979cf633bf31b8d97eccc6e8045809fffef1f8b00b3bed19,
    Sqr 0x459e05a9d2956ad169e256c4130d7296ea5d35af5571f8f4d54360d2db0804dc 0x7482465811c9ed3dbd96a43bc18ff2650aa539a874f5f81cb8915facde703495,
    Sqr 0x3506520b54e5581b905260be4779b91877000a0648cf421807c737801919bd24 0xe746aa48d26a67d06ab0f8aaa6e0954d4f5eb770fec2901f26b88fe76b05b495,
    Sqr 0xd0f09ad0fcd3e5b74133ab07160727f234e5c3dd17d1ba04297fb52aded6a31d 0xe547da38df49f5d3a977dc5b3d23f88c0af1c7824641fa356261fdda0f2c175c,
    Sqr 0xcd59a094850b15bf726269969dbe5a4e495aa358a80fef3e9c0c8afcd965e62a 0xbbaef17caa42355ad2e335a7e6c90ba21f116e0dfbbd16ef1ebe642612958e66,
    Sqr 0x89990c594a00213941634e488092c76f2613ef693cc5552f034081b9f34c1bf0 0x823281e04010230e4bc7ba06c921b7864c7c5222899e219e026d9eaf6be648b4,
    Sqr_mul 0x846eabbd7d1a5dd14c4c8dc604cee348059d7674c8f9a5b24e74e7787a5e688a 0xed30f9ebd5b0ee5ed2b5dcd5da4b6980f504d52ea47668a6bc2d130f288be816] = Some (0xabd18a41, 0xed30f9ebd5b0ee5ed2b5dcd5da4b6980f504d52ea47668a6bc2d130f288be816)"
  by (simp only: pow_chain_simps)

lemma pow_n_r57_4: "pow_chain 0x10000000000000000000000000000000000000000000000000000000000000000 0x14551231950b75fc4402da1732fc9bebf 2 0xabd18a41 0xed30f9ebd5b0ee5ed2b5dcd5da4b6980f504d52ea47668a6bc2d130f288be816 [
    Sqr 0xdbc3b81d56165aa92a9dbe05d2d5bf5bfbe4d76c985e1771104f4cd418664cc4 0xdcb9a64d0be7c5cea1fe02d91f3007fb6925b5f48b33e63286e1e8611d7ca020,
    Sqr_mul 0x17c9f38ec67b3272f932ad67cff2989eafac354593266e888c1db00a4f6999d39 0x66e027cfd3dfa08b77f96108f69777fdd2af48f2cbcfbf17aa34d8946e5da387,
    Sqr_mul 0x52aec7fe9d73ed1d1b2e67abe8f54160e520f53dc0d74aa6cd079e4ac4d0e36d 0x3de90b64a3d262c099eceef8eb6cb570703f98e40dbe14a1bb532e56ed4ff6b5,
    Sqr 0xef8e393b3c645ac05a26587ad0ab8d6e6cf8bcc6a6c55bad40437c28f6ad38a 0x1631b12119de3ea7e723cbb55f264c7dc77761ad324702f38da5feb00a849bef,
    Sqr 0x1ec9416f9ace3e5d88e20cdc463f617d9be3b95cd84cd2704265133f953ae55 0x44577012d6e605f9c64d8867a84209853b5ae95e9baa72123fe55b377602708c,
    Sqr_mul 0x247d22cec01181e1e62d7cf3ad2df91f286fe1399e44e4371f28eec56b8614ed 0xc8f8957e46aad7ffa3fc421915c1e96a7cb3138478679b81ba69708bb4fc1bf3,
    Sqr 0x9dc55af74a60190e72a5f4b3b74e8c57e012a772c111a22040d2dbf56fc80d83 0xaddc32ce51417de86887afd5200b8a6ac91e28d80a37126f72b5b1f24a997766,
    Sqr 0x76135a1236836ac0f91afa27bec4a3ad30e1d4efe431bdbc664454ceea81ca68 0x6cebfae22f111498043f9f16a8376bedd57d0177a0efae70298bff153653303c] = Some (0xabd18a4164, 0x6cebfae22f111498043f9f16a8376bedd57d0177a0efae70298bff153653303c)"
  by (simp only: pow_chain_simps)

lemma pow_n_r57_5: "pow_chain 0x10000000000000000000000000000000000000000000000000000000000000000 0x14551231950b75fc4402da1732fc9bebf 2 0xabd18a4164 0x6cebfae22f111498043f9f16a8376bedd57d0177a0efae70298bff153653303c [
    Sqr_mul 0x5cafea6ad1aebd01236c0ce107f98a557b281e2a654d71a213ca2aaf3507a9b7 0x903e406fbcec4c4596e5cac8ce6c2fc2b5d3224e456085aa48028be95a598da9,
    Sqr_mul 0xa28c2f41f5c2cefd83e0eabd9da2230744f87a8d57b8b162b8f017ea13eec4bb 0x3c513fdcf7311a7ed1bf68508317f04780373017f00f9a8c9aefff2924c5c4a7,
    Sqr_mul 0x1c6c5f721b43e3c45964678cad85815c1c1ff6965c6cfe2a15b2bb4cb6fc8182 0x5d1ccc88c01f3d1793ffb077594ed0fd2d84e263e957fed90d5b74a4ebc165e0,
    Sqr_mul 0x43bbdfb179d5e8edf2db050a9464431bc18f42282a8d95afd6a53af022ca5b5e 0xf55d573f6176fcb2241c7609b6a7f6d6195c934673aac22a4ccb28262c2cf722,
    Sqr 0xeb2bcb07d256b4108ff98da265eef62cd1d2b8feebfc5dd0a0eff62205e12466 0x13ef5510b67c35dc1aadc2f64281851c758227c109a496261f95d1f75c567c9e,
    Sqr 0x18d66606c8f46310a4f59767d5d185fee6cac84c05d2473dfffe614d44c6875 0x6c1f5def2b9bc97561f847fbb4e30af8e2ccf6786b9bbc686a331383203736cf,
    Sqr_mul 0x5b54f6335e5f4daef38cbb6846207c4fc93b195844f8245052434a845a3a551a 0x9768ec721f195dd636ee3d503d12eca3a745525b20df4f2cafa34cbde574c128,
    Sqr 0x598cf1ef97cbcd856e3b5d33fe024325725b2fc3acb0b8eb65e7ee4eda3f6078 0xb9f7cbad76f939ec52f4275d0976ae1e77cb68b19ec9b88a33cf2b11d3175fc8] = Some (0xabd18a4164f2, 0xb9f7cbad76f939ec52f4275d0976ae1e77cb68b19ec9b88a33cf2b11d3175fc8)"
  by (simp only: pow_chain_simps)

lemma pow_n_r57_6: "pow_chain 0x10000000000000000000000000000000000000000000000000000000000000000 0x14551231950b75fc4402da1732fc9bebf 2 0xabd18a4164f2 0xb9f7cbad76f939ec52f4275d0976ae1e77cb68b19ec9b88a33cf2b11d3175fc8 [
    Sqr_mul 0x10e302876c178b5bd37d97a0eb1dc2b8ba8dcae10e415f441912ba480f598a534 0x42da480896d21871179ace1be2f56705a6e34a269e86e5f3352a1d34dcdff24c,
    Sqr_mul 0x22ea8e8661540f17c90816ad33565cc0c4b589657c7f588829093c3e9d76847e 0x66c06edc74a76ff9dc51c911f424df5476200c13de345308b3263905e627eb22,
    Sqr_mul 0x527bd1fc4f4d34f7570e015d2ef59f975892508bf716654d1356e67f18887568 0xdc4b6912ac25f68732197957124c4afb58c812c01dff59bc912eeb900441a9a0,
    Sqr 0xbd91b2ced3f2708a9ea7be7d8d6528eef2a1c277e4cc0d08c41aed9479e38a9a 0xe176c1b47108a42fa0b79f0081fde150dec12c5b9815d9575db0bdaa7e3158e6,
    Sqr_mul 0x18d23ef2ca735ec62841486a2222f5ae908128cb60c9efcd5512e6d0e182412a3 0x1d29011423b4df66139b0caaab6cc6324979fcab49e8e57ce62bde61758fbee5,
    Sqr_mul 0x6a4a19fd11728d364402307a75fa839870b6ce50a9fb94fea34ef3f499622bd 0xeac8277f19ffa2565f48827d9caa097b066f5f477227d4b6c5a35d7a968ea2b5,
    Sqr 0xd75284b21837ed3a3ee2bf8dd5fecb0e756369f9ba14440edc3c5fc3ae2d8b6c 0x85bcb67ebcdc40770e951a284b642594545d4d404d3c6606e21166cd1176c18d,
    Sqr 0x45dda0bc3c7ab1c203d152485fc3a25986d50b3780f05f06eeb51193f58034f3 0xc982150f1e0d3297ef1a381cadf80c8ddfb5b4dfe2ad10b8b05729c23c10c2f6] = Some (0xabd18a4164f2ec, 0xc982150f1e0d3297ef1a381cadf80c8ddfb5b4dfe2ad10b8b05729c23c10c2f6)"
  by (simp only: pow_chain_simps)

lemma pow_n_r57_7: "pow_chain 0x10000000000000000000000000000000000000000000000000000000000000000 0x14551231950b75fc4402da1732fc9bebf 2 0xabd18a4164f2ec 0xc982150f1e0d3297ef1a381cadf80c8ddfb5b4dfe2ad10b8b05729c23c10c2f6 [
    Sqr 0x9e9d872b2246baacab25f650220f9cee01eeb779b1aa14a7a14e4fd11cbfec04 0x6ce6a9f835ca67871c71d56bf36f6871d1bc0ad7c3881b72dba13e8032b9d360,
    Sqr 0x2e536f3f483d16b986ed90d978937b16ce382191c482f0c68c9995b2d10cd8fa 0xfc0371b56c5eb201b8c8952bf299046bf549039f5762beebc7a896407330d286,
    Sqr_mul 0x1f02d8fd2143945d32984fe5619d8058114aa34ececf63c7fe08a99acccd5e00a 0xde44be537bd8f3e8cba8449efd8e70c4d03dc36a2cf269057d2151685473cfbe,
    Sqr 0xc0fb4c8e74a61958e989f1e83e2162f1d9f07851e22d7425fb88930bd72e6314 0xcc252034e9b74a37d44e27cb1d665b13541e1e2bbd1a64007e7483b6d2194f0,
    Sqr_mul 0x14596616d4fa9e54411c66433a621636462e03a94631319b7b22ff1767fc7c3 0x39acb4ce7a52bb3d66c485fab77abae4e7bbaace7276b9c94dfc626c1dc0867d,
    Sqr 0xcfe5d0767a0391a612c404671874e1f0dc686cc1172020a00d6dade7db3f60e 0x66dea20933e44ca3ddd9d389af4972df2f53ddbb32e9297fab85dcc87108117b,
    Sqr_mul 0x52ac557987bf2612451fc997917eaeb7a86ec90746e961fa84a9dc4f303e2249 0x15a0e57d8f790f1df7964a67e8626809a3ffe8775b96ae75e74e6d81cbe1e4a9,
    Sqr_mul 0x3a7958c886e2823a381f8d6fb6f5209632496c07df9841ff9f31096c68eec14 0xbc3c292f5d00860e0f4816158f4062227ed9706c02cd23c0c728d4fac62bea0e] = Some (0xabd18a4164f2ec2b, 0xbc3c292f5d00860e0f4816158f4062227ed9706c02cd23c0c728d4fac62bea0e)"
  by (simp only: pow_chain_simps)

lemma pow_n_r57_8: "pow_chain 0x10000000000000000000000000000000000000000000000000000000000000000 0x14551231950b75fc4402da1732fc9bebf 2 0xabd18a4164f2ec2b 0xbc3c292f5d00860e0f4816158f4062227ed9706c02cd23c0c728d4fac62bea0e [
    Sqr 0x8a686aa0e56c91b0eff425af3559d2ef616fa03c9df0c2c31314d1f7c9511849 0xe753cb1f732533a5e7e665ac69f1df998f7925e8a45cd038499e9e23fa89e53b,
    Sqr_mul 0x1a210a80032b9639df998794f5589a40683d8f580bbdb27eb60467d0fcc43f0cd 0x34cb3d0a4d7d2a41364bd7701e8562298152edb7fb24722ddfae3c494c2f0625,
    Sqr 0xae332260c5fa7034cd9d5632020f6cfe1f870a004f1ea88eafd1751dd26609e 0x39f3067820e0a9262dce37c56d8784a72d31e7e17865a59ddc75697293211b3b,
    Sqr 0xd1e1f96c6dc4fbd7da617b6658cf7903d5e8c8cbe7fed9254d26411fb97a49c 0x774c181f82c3ac507485a87ccf5cb695c9911662b7bf6da573ee219beee717fd,
    Sqr_mul 0x6f2faa17411af58d752f27ce0f7dfd033ec575ed30eedd48b710547ac8934338 0xd29716c4e7c92868f81a678959f04215a1dd666cbcd5366a2ba6c1726596da,
    Sqr 0xad3c3a86ea95e4e433b49161d8c6a4848eba7fd994af74beb1da915a5daf 0x5df709c964b3e9b7a1ff8d439e153e2576e1d65b099f676065039515bc42f935,
    Sqr 0x227d6b80362ad2805c9f408e374d0bc99d4e041851c9c1f1d88dcf7f4910b293 0xd14041b9c405eabd59a2e1db27e9b22472bcaa0a4a92eecf9e93665d64557aa6,
    Sqr_mul 0x15613f6e47fa7112ce5c685fbf981c1bae336f7ca8f418590277a11e79e3bf9ca 0x8b9397fc44c3ed906b4a01049b9100ffba521079d285d44b36d54e181ba90fe] = Some (0xabd18a4164f2ec2b49, 0x8b9397fc44c3ed906b4a01049b9100ffba521079d285d44b36d54e181ba90fe)"
  by (simp only: pow_chain_simps)

lemma pow_n_r57_9: "pow_chain 0x10000000000000000000000000000000000000000000000000000000000000000 0x14551231950b75fc4402da1732fc9bebf 2 0xabd18a4164f2ec2b49 0x8b9397fc44c3ed906b4a01049b9100ffba521079d285d44b36d54e181ba90fe [
    Sqr_mul 0x98333847b13e9d687da4a64a652e1738ea4c0c222ff1e7b07ba2425da2f9fb 0xe8c266b6fbe8f755496ec41a9ca80e653edfc1832a1c7f6e12ca21c52ba1444d,
    Sqr_mul 0x1a741db96fe44c1d47d2cb839332821d082779aa4fbabad88182380996b74ea92 0x48a5d88b5474b0b6e83b6b42f70fb41ebb3e8bdd02a7332ec558edc09f1b5d40,
    Sqr_mul 0x293b6a7e748fd858d664413619f082e07f369c11f8abe1fda06707f2ba95c551 0xc88ba71a5c7112d1bc1aeee8e3a39e123e81a234de22c2688966694dc4b8756f,
    Sqr_mul 0x13a3502902848ef09292690121701a17ed72f8531ef53b6c6742306e119a6b53d 0xe34a6fd4fe4ff75674e7f0b7f71d6b7ab13f346c4f27f7531b1d108f58a6cac5,
    Sqr_mul 0x1939a2ff125fe793bb5c0a6b4a79f3c72f291e335168187eeef625c39c4b8a306 0x2823e5e0f2422ed601e2a0a5854dcbcef2989df2852a91df46dd8c04f8a50cac,
    Sqr_mul 0xc9679bdeb46479ddff2bb6e62ce228a865bc45692cea51eb00b70047c08843b 0xd910e8cc2bf74769703705d7c5dbc7a45022ef8cf542570f084bcc8bb0829925,
    Sqr 0xb80dabc80fc1687ff8813b0f67c4683fa4d13d1b546ce7c64a719e8eab0d2b7c 0x8b4b58feba75d5b5e83cdbe6e82982f7cffcb6f0c6e0a244a93587cd12a6b8dd,
    Sqr 0x4bcae8d1e2ad54c64f58bfe1a98327417ee346cb0156c926dd20ed073e9b605f 0x85b955f9378f33ed0afeb71d4e194743781b0c7bba7032b76fa0f7c17b24d7aa] = Some (0xabd18a4164f2ec2b49fc, 0x85b955f9378f33ed0afeb71d4e194743781b0c7bba7032b76fa0f7c17b24d7aa)"
  by (simp only: pow_chain_simps)

lemma pow_n_r57_10: "pow_chain 0x10000000000000000000000000000000000000000000000000000000000000000 0x14551231950b75fc4402da1732fc9bebf 2 0xabd18a4164f2ec2b49fc 0x85b955f9378f33ed0afeb71d4e194743781b0c7bba7032b76fa0f7c17b24d7aa [
    Sqr 0x45da198252cc8a6f9323d3408caeda922cece105e8085afaeb263a6cd3276288 0x2af97ac2a5ce3f5c0cf76d4cfef2dfd2633b607bc9cbdbd19e1cd2e2d3ca705c,
    Sqr_mul 0xe6d9ecfcfd8a413836361cc1e51e45d42923db91f4dc40f56d7f2f65bffdd1a 0x57afea282ca0b9d3d56ac203f9655b36c08f1e47ca16a808758c4fbb3e6a8486,
    Sqr 0x1e090a09476fb9efd86550f77209139efb571c8877d3089df10bf526f69b737d 0x1735a692e6eeb95ef3c726f000e1dcdeb70d61e8f2b2a51fde5c8fc8e9696667,
    Sqr_mul 0x4355e59956ab7e34446433acc043bd9a8b84dcdb1cb3f1e2cbf13847385be10 0x925aae11173bbfb229a2215a9f1fe1f701b3cd17a7886441518cc61fed5128d2,
    Sqr 0x53ab8eaa58dfb9635163a4b0ad3d875905b766799d74ac2ebbecce9634a6502a 0x412b55005c7bf155ae527035db5e279b2be4777a49ab5b8aff9a037b0df5479a,
    Sqr 0x1097087fd94f3f9b04faa3e72b24782daff15d3e10f3455b2e28f6d58283dbf6 0xe803f60b501e370f2f928538136c7f977f7ea9ece0422d87ac9712d9e092792e,
    Sqr 0xd2472e0431f462fade117f9ae24694e6a6ece6a56beb7412fd75301af9951b0e 0xeb8a4f08de48d92c5f1016dc29a171f6f6a44690217df00dcd38c48ba22617b6,
    Sqr 0xd8b737d3960fdec135f76a268efa3a4c6487d094f6db4cbd87d351ee2c862473 0x14e242af03198af1aec70edeedf4703e8147e5d8e3f39e7c6d0cd9bce6a7c131] = Some (0xabd18a4164f2ec2b49fc50, 0x14e242af03198af1aec70edeedf4703e8147e5d8e3f39e7c6d0cd9bce6a7c131)"
  by (simp only: pow_chain_simps)

lemma pow_n_r57_11: "pow_chain 0x10000000000000000000000000000000000000000000000000000000000000000 0x14551231950b75fc4402da1732fc9bebf 2 0xabd18a4164f2ec2b49fc50 0x14e242af03198af1aec70edeedf4703e8147e5d8e3f39e7c6d0cd9bce6a7c131 [
    Sqr_mul 0x36844ca4db8581afd43c4458ea3bcdd341e51097de652550facf38a9779f730 0xbe40b866e58fe92646ae621b9c0cfb520104565eb1c72e6090bf7c9bc596e392,
    Sqr_mul 0x11ac8442aea10f2c7ff7b91e3a1f99d312f699eb314f28f1fcd356e48f31b5484 0x2024a41db0bb38588b97deae09fb54b6ceae1a95451504a0ba5779159c8a8504,
    Sqr 0x4092e45fdbe909f606b67b176dcb1d729a1aca23a7d987bb6b1872543ab978a 0xafc76d47303687de651f8df032143e83eafe357cee6b4f56b0fdb449b645a406,
    Sqr 0x78b242c2673d356381099927061f9d37f0b29a9c471eaa05e09340712b1ca9b9 0xabbfe93ada5c53777eca5668a7827683221ed72333c2b653899bd9ca05ee9f2b,
    Sqr_mul 0xe673e2e4f40ab893d7706f8443ecafdd4ff46040143b74f61d3597f6139881bd 0xb87047c72b5bfadb256cb70771785d9a2f5ece86148edc752a25179a694cf475,
    Sqr_mul 0x109c330da61747c2ff6153a0684b5bfb6c69164c05c724d3d414384a00066e0b3 0x6e9d01470e8511f80d538373bf08a6c86e394821d213dddaebcb1ff902dffa7f,
    Sqr 0x2fcb4d63a1a3cc7f4e7ad83b8df36ee93e85d6de5fc607dd57b9e3c75f88b1dd 0x1046aed2760f2bc927b29f4322c39cb9c7495d038fcef0ae88c239d84ee204e4,
    Sqr_mul 0x211d2bcc27a768f3ba69dae10890e3b9bbadaae72f72e02565ce56b75357cc9 0xeccc563008ad12cbc03c8cb4d3539b69d6b246541b8f728ec237d2ec2ba61e17] = Some (0xabd18a4164f2ec2b49fc50cd, 0xeccc563008ad12cbc03c8cb4d3539b69d6b246541b8f728ec237d2ec2ba61e17)"
  by (simp only: pow_chain_simps)

lemma pow_n_r57_12: "pow_chain 0x10000000000000000000000000000000000000000000000000000000000000000 0x14551231950b75fc4402da1732fc9bebf 2 0xabd18a4164f2ec2b49fc50cd 0xeccc563008ad12cbc03c8cb4d3539b69d6b246541b8f728ec237d2ec2ba61e17 [
    Sqr_mul 0x1b612c40413227aaa51fa775b1fb032d788d5cb7e1e479c1d63096731e019a3e5 0x386674add0f71e053563ac9a41c58cc6c237fe28b9032ee291b2313e7b4d09fd,
    Sqr 0xc6cfc0d3b1c9d723f47f1b0ed2a228b59c13652996dd2246ac815cfd307ecb4 0x69d382f0c7d2dbfdecb44702ba89023d137b94d6ce254295c7cf028c5a80f655,
    Sqr_mul 0x577e60553f9b96ecbf07e7454a99b28ba12c80e04027065bd6fc543c0ce801e0 0x58239c6d9ac4dfa317b3840ca225c9efdb773b2570cd512d28ca3ac9776c9692,
    Sqr_mul 0x3cb100feffeade44c155203660b3f4fb7d33d2981a4d1c8a26c4601c5e85c18b 0x82ed4fd7a4bc364ca3c2e346140a85e39d14fa0517436c0217705bee8612673d,
    Sqr 0x42f5e113f17cf8f4a7e1576b53a171030556149ac62f75e3cca57514b26d631f 0x31f928fd45012a41f2995041f560e6a1a51cd35f035ef1ab467b82b35dbb1aaa,
    Sqr_mul 0x1382a8636f559d268e88c3d3693fd9cae511cc424b2f184646f483b043dd339f 0x3e5b49556072733124809320fd89d051c56507288da245941a0ff2c7d767769,
    Sqr_mul 0x1e60b02524d79d48514d935f990f4cf21309f36ced22f948198242e89daf47 0x4962a0875e44165dbe22e3846e141cf0fce5dcd4ba9544806d32167fea790a1b,
    Sqr_mul 0x2a12cb190020fc9881609f1531803f9983726519ceac6dd88a68accb20ef9799 0xeef04cd4e6d7d7e4106d546af670492127dc95eca4342884bd022ea9573ee6d9] = Some (0xabd18a4164f2ec2b49fc50cdb7, 0xeef04cd4e6d7d7e4106d546af670492127dc95eca4342884bd022ea9573ee6d9)"
  by (simp only: pow_chain_simps)

lemma pow_n_r57_13: "pow_chain 0x10000000000000000000000000000000000000000000000000000000000000000 0x14551231950b75fc4402da1732fc9bebf 2 0xabd18a4164f2ec2b49fc50cdb7 0xeef04cd4e6d7d7e4106d546af670492127dc95eca4342884bd022ea9573ee6d9 [
    Sqr_mul 0x1be0760d806f288804fff3eb6dd46302f364f4cc3ed4e53cf1a762dfb6bf74911 0x2108d57cabc6c04f181c6522db20c6e4aa3af46ea02c5bf9b2d2c5a8d1a06991,
    Sqr_mul 0x8868eb05c39592001f3bb9f3f002ebf70f52b56a519b922a1710a517febb20d 0xb49ccd40dfacca17a11d0925820d2854b492034591e82d46b4bb20bb53c505f5,
    Sqr_mul 0xfed9c15c0c591ae5b9b5219c9b7c0e5d9c91c5f538f1178362e90862485f2331 0x6fcf2685e440b3244467019104e7c3237aead44693061e151d5cb8104dfd9881,
    Sqr 0x30d54b076e4341c553e429609b9b0340f1756108a4899c7a6da2f2ddfb0a1efb 0xfccf940118a84a7d31241b362b7bf950b08cf300b9940bacbcc2b9679b71d846,
    Sqr 0xf9a953b2d7e27752b905e05c1c292028be40663205f1ef10dc28892ef4042530 0x9f52e3ed194f843c9976f401495b88fea31e740896bde52e0815b4a18de391f4,
    Sqr 0x632811f7544353aee1b30431bc9b44f888b31eec736cb526c91255bd033fc909 0x862b49c000107c51b1733a08f675a765c8b7ecad0ff693fcd24a97234cafc47,
    Sqr_mul 0x8ca2b10db7a0af7191aea08917171a4d29c6dd72cc0be236ad891cb3591753 0xf47ac54e97de04a0528b1f63a788bd2d82c4f244d43a53f56b6d7c625d42b84f,
    Sqr 0xe97a42fe787a064a9ea91b2d74f386d465cf412067a6b23699baec3bd1536ed7 0xef39c69dabfaeeb3b6e809e8acd14c71f3eb5f9941fe2eb5ca0c83368cbfecca] = Some (0xabd18a4164f2ec2b49fc50cdb7e2, 0xef39c69dabfaeeb3b6e809e8acd14c71f3eb5f9941fe2eb5ca0c83368cbfecca)"
  by (simp only: pow_chain_simps)

lemma pow_n_r57_14: "pow_chain 0x10000000000000000000000000000000000000000000000000000000000000000 0x14551231950b75fc4402da1732fc9bebf 2 0xabd18a4164f2ec2b49fc50cdb7e2 0xef39c69dabfaeeb3b6e809e8acd14c71f3eb5f9941fe2eb5ca0c83368cbfecca [
    Sqr 0xdf8cede4736d66966a1cae0d5029b55a96274aafdabb041f550378840d1210d9 0x8c8340d3aa47fa930b291293c5e8ba91b5fadfb03aa885616699a7135acdaf4b,
    Sqr_mul 0x9a3fa465d69307c2cfcd32b7a0afbd03cfb486d175864e0c09df6cc08a063586 0xdca42d7901c75bc4557d5a63b200e49d7f1a430874e056b0401c25471adca2ec,
    Sqr_mul 0x17c552ee48c5961f3966fd72ac1824fb12888a80fc4d02518672f541dae38e215 0xe65f2d004d252f100849467fd6a7f5c0d7841424b5d47d5f4a4e165e4c5856cb,
    Sqr_mul 0x19e9e507df1825a91cd29af60274adab46b3b8e3c5779849ec9a0ecb8dee4dafb 0x1a65a2d3f9a9d6f978e3f5df0ef347b70ad43ef5ae44a55c26007931cd52b537,
    Sqr 0x2b8cd6cf18a772ec2efa2edf313eda66315bc778d8d0deef3ff66610b490deb 0xc573cbec6ccf675b52078cebc2b6b2eceddbe4daf8ab28bec453a84363db9e26,
    Sqr 0x984b6c3ab851c65322dc5d6009877cb539b39437d482ea236f0cb1d2c8c82036 0xf81fbf94648a53bea86f1699fea33450eba302a4429a2aca37942f32e45509ee,
    Sqr 0xf07d871f781b1fcc7ee7b6a5b35d5d8dc3db27686480cc3c55c091aad0f80058 0x7e61b3c40f1e61367f8b9053b36e5639ac176660198c65f47f116ac1eed02aec,
    Sqr 0x3e64523eb7b12002f435aea58e3b3b76ee5e56b952991b234c6f5bfadc630768 0xd1d54be8aa2456e7ab47955ddab79a3e14c3c0abe222395abcbfa47d6cbc0028] = Some (0xabd18a4164f2ec2b49fc50cdb7e270, 0xd1d54be8aa2456e7ab47955ddab79a3e14c3c0abe222395abcbfa47d6cbc0028)"
  by (simp only: pow_chain_simps)

lemma pow_n_r57_15: "pow_chain 0x10000000000000000000000000000000000000000000000000000000000000000 0x14551231950b75fc4402da1732fc9bebf 2 0xabd18a4164f2ec2b49fc50cdb7e270 0xd1d54be8aa2456e7ab47955ddab79a3e14c3c0abe222395abcbfa47d6cbc0028 [
    Sqr 0xabfdf7a94d7c9d85010b71d86eb52ee233f2bdc31d339c4c2f074e17e08d6209 0x1dd8f5bc50a06daa576efcb5b5449f8f07cbbe956a2ef9abb4cc84c8130fd8f7,
    Sqr_mul 0x6f5bf1887dcc8d67c60ee5465ef208af147fe750806782fbf4e0c055f020a3d 0x1fd1841e79212034e99f663082b6c8fd9d8d78a36403ff9b9f0e0da740ab6625,
    Sqr 0x3f469785f473e6e2d4483131425dc568cfa61ae20f8ced038a4d73b5573ab16 0x141cda45144bcb96c7c233166c51c53d72c8d51f804177f32bcecfe716bc7ac3,
    Sqr_mul 0x3290ab688c4033242cd086b2dfc215113d961cc3680cbe36ac25cec230867d3 0x488c731f3ab46a63cceb12ee96f637ea82e52fd8fb1b46f21705a530bc8bf17f,
    Sqr 0x148f4dcfaef2c3b9dd2a0964bf3a09ec7b90571778dbf05670ab225bd4833313 0x129fb54d7b29159d6b8d7f6bbb3cbe211b06cc9baa94405d834ebcfc3070922e,
    Sqr_mul 0x2b5b24337eed75cce6737aad61b7bf4083cc15bb490f9806083909fbd97bbc1 0x89a71d4353b9e70cea9f4a85a9da300d0ef6ea8c08de0b0c2cf06bf5e2885387,
    Sqr 0x4a044a6940cc888453028a5351c9212a0ffb964e59101f0db8e2b6570ac7adab 0x4f70ce6f8fceae8c25cac5fffb1fab0e824ba1e2156789c6691f09e534d34dc6,
    Sqr 0x18a6d11e22d720a1e0e1afda4c411f0f203c4746d85ac4991eeda8b7393bc96b 0x7727228c393484c7aadcf83c589452c438be77fede95760bb3992368992065f9] = Some (0xabd18a4164f2ec2b49fc50cdb7e27054, 0x7727228c393484c7aadcf83c589452c438be77fede95760bb3992368992065f9)"
  by (simp only: pow_chain_simps)

lemma pow_n_r57_16: "pow_chain 0x10000000000000000000000000000000000000000000000000000000000000000 0x14551231950b75fc4402da1732fc9bebf 2 0xabd18a4164f2ec2b49fc50cdb7e27054 0x7727228c393484c7aadcf83c589452c438be77fede95760bb3992368992065f9 [
    Sqr 0x37756819e891cd72a72e2fc8706ebfeae0c30ee4f36da3c190831a2f3898b0eb 0xf2af78a4eb7e7fea24338e2897b403c52d432f90fce9088c62500078e39bd586,
    Sqr 0xe610385df79027ceb92fda89da80614a0894a04d3fb7586e6aaa24d131908c25 0x649bf58c733462201bd75c4a8421d214f08331ce5f1b9956736751dcfd4547bf,
    Sqr_mul 0x4f146db1fb351f50c32db45afeaaca7d023bd77a9c9e201e8f837bdbf624ccde 0x952d137f8782dc995c8bf0f05e44f13af25bec05ad836fb572cdb5b61ff29ea4,
    Sqr 0x56ed80a2501026713bf65b1fa44faab61de9d6592a7358d66c6bf08652f40cd6 0x4a6d664940e5cc890454a9db7cbeb70109106a044b909154ad0291706c0140ba,
    Sqr_mul 0x2b46dbc5398925392b5c58df16c1fed7b95546023b0d1942825bb22b0f9597b3 0xe1388edb2674cf54878ccb7f8813944799365c3f3cac6f0e9d2c1a25a36116d5,
    Sqr_mul 0x18c48ef38126403a365c85e51eccc1b02eb570d1393c2e1d2f1c4438af42211f2 0x5fa32314c54cb695168cbf3572402d2c82f70b741522dad342fe028e0ea59a00,
    Sqr_mul 0x4774f7fe3761bdab1d1f41331527e32a9de03572acc43b428322f8b51688fcf8 0x3ada142979c84b8b1eb1ec1604d9577365b1851069ca2bf2ed24292d63f4cd08,
    Sqr_mul 0x1b0f15d246d15a36757b92f6a88588ba369b112bf9862da17da16b8fa122f62e 0x53a21bc2bc08ba4f447df9996a3e760d711abc40b01efc52df4419083ed570d2] = Some (0xabd18a4164f2ec2b49fc50cdb7e270542f, 0x53a21bc2bc08ba4f447df9996a3e760d711abc40b01efc52df4419083ed570d2)"
  by (simp only: pow_chain_simps)

lemma pow_n_r57_17: "pow_chain 0x10000000000000000000000000000000000000000000000000000000000000000 0x14551231950b75fc4402da1732fc9bebf 2 0xabd18a4164f2ec2b49fc50cdb7e270542f 0x53a21bc2bc08ba4f447df9996a3e760d711abc40b01efc52df4419083ed570d2 [
    Sqr 0x1b5284a76b664ba6916049d05bc83713cb0d305b6d1c7a46ac545fbbd8c80a65 0xcd544a6ade0a38d748ea7b3753c4392fd1d7ef225207bc4695ce1d1d9070239f,
    Sqr 0xa4b01af013600ab8a1f8a6a549c88793786f1648be33368cf3953f8c8f753da4 0x7405222fc8a9fc092aaa48c561ff8f1156071592a9e834c615572b9a9e11921d,
    Sqr_mul 0x69294e2b50913a89335a03f35a8e0e0262c210a738ce823332f3d0c523ea588e 0x6045453da16b87f8590a4480103c9023443c35853b9cec7eb93bd7b2618da484,
    Sqr 0x243406ac9f03f1cbd8facd7442d9121c8556d74c5a44d0cfe535f1ab33278baf 0x7646d6fc1347a6bed07a6d7c976deb6e9708baa69288120ab71ebe9bfcb57da1,
    Sqr 0x36a561caa82b0158d9d5e2e81935d45efe41e7c125afaacd465947718325d8e2 0xbe50dd036fd04d4184c04d117c3d6e5dabc348b3b86566d80969f50b92f72bdf,
    Sqr_mul 0x11af84337f5dc07edfe374b9f67a3962cec99544abd6055ac19f4c6c37ac62064 0xb7fb641483b284fb800b97c600c963995ebd4a22c661dfd1e4258719880dbb1e,
    Sqr 0x84395ff2bba382b8a5c71da45ba61f70b0f3239e4e626d6161713c8f030dd3b1 0xfbb8d608bbb94cde5d945368d35b4bf8a48ea45bdfa99854f0bf739ba9382693,
    Sqr_mul 0x1ef07f252ff3ba28139d05f1cae181a281d4521998b556a0e398351d79703c426 0xe836b01cf6934c4ee8b74111a0d23c594f314d31b923d7935e2a467a6b797d2c] = Some (0xabd18a4164f2ec2b49fc50cdb7e270542f25, 0xe836b01cf6934c4ee8b74111a0d23c594f314d31b923d7935e2a467a6b797d2c)"
  by (simp only: pow_chain_simps)

lemma pow_n_r57_18: "pow_chain 0x10000000000000000000000000000000000000000000000000000000000000000 0x14551231950b75fc4402da1732fc9bebf 2 0xabd18a4164f2ec2b49fc50cdb7e270542f25 0xe836b01cf6934c4ee8b74111a0d23c594f314d31b923d7935e2a467a6b797d2c [
    Sqr 0xd2a32ae3444ad6c49dbaefe6a919c512af0831ddda3a82416a4a6c3b75f6d920 0x1b408e462d28627f44030717ccae82b8f81bde478363beb44611a231eb3dbe70,
    Sqr_mul 0x5cd5c947f5e0c9b3e99d61d945adf62c1b928fce155901330e5e92b1971982c 0x8bc5a12ff3bb396c0c2fc4d0ddb9ed27c7c98a46fce9739be4f6f3bab75212d4,
    Sqr_mul 0x98a06b3717ef901d35192c60b267d776eca7eca80949188df125f22b871469e0 0xbe57332f5eb733dce5aa36bb0730091460d55f46a92bb976397c56882143d40,
    Sqr 0x8d858dae25063a020e06debe6113e953dbc180cc28f82e131a76d1ad012366 0xae553128118224fb974b164d5745f10138f11dc8d391fbe5b05530dc11dcad1a,
    Sqr 0x76b7eb2c25d8e7abdcc2f3caf6f4f6ac68438e65453acfa1346731998d1ffdcd 0x6c09f864f5309f9296b10e3735637979191d708397efec025c02e8035feda897,
    Sqr 0x2d9869f896fe06ed9572c59929aa94ca8dec427f3c131bc7690ef8df9ebaa14b 0x5c8130860810fa136067a4f83f09b59a86853942af17c0310b810dc802738a06,
    Sqr 0x216d1c124612de0cc49fc837e698aedbe8073a99c0f9ce7717edd52632317f2d 0xf8bfbeeee9d67a4153955153d57d5bbbd2cfb10ecbcb1545339795dab074c0b7,
    Sqr 0xf1b4118d5bf7fcfafd486e2660d6fb97788708f7f75033b49893f6a8491eef36 0x75083b0b97e0b2ac798d9ff0831a7a3a954ac7038d52dfff3b886c3115ef901b] = Some (0xabd18a4164f2ec2b49fc50cdb7e270542f2560, 0x75083b0b97e0b2ac798d9ff0831a7a3a954ac7038d52dfff3b886c3115ef901b)"
  by (simp only: pow_chain_simps)

lemma pow_n_r57_19: "pow_chain 0x10000000000000000000000000000000000000000000000000000000000000000 0x14551231950b75fc4402da1732fc9bebf 2 0xabd18a4164f2ec2b49fc50cdb7e270542f2560 0x75083b0b97e0b2ac798d9ff0831a7a3a954ac7038d52dfff3b886c3115ef901b [
    Sqr_mul 0x6b010c78ae5673c997517fcc6562307a1d7316d9b627d160da8a7344e352d1e7 0x7330a55ac63961692e9f7566f95ab1f2d55747ba2387eb77ff37a3c3ed03d30b,
    Sqr 0x33d4bdcdfaf006bef8bba2e01a2094e3159971e89e21e090d2dbdc9aa91914d9 0x84483bd22641b9d29c9b065120fddec83e405c600523c05727823077facdbe60,
    Sqr_mul 0x88b52424d747ad7d9a56f6f40a777e23ea4dc3255b332434dfb674847600ce09 0xca5ec7b6b220fe63999936193444cb81c88c90e7215a1d61e08e36c4f63aaeb7,
    Sqr 0x9ff9b64397146d010de50a51303c4fdd184c0c566ddc607500a1d53b6674c200 0xbccb0fc19aa7c277e490f3113a0b8464067c4684fe154a114251c619c14204d1,
    Sqr 0x8b3ae0365929ee38b904ec59f4c2059e458236f1ccac3b3938b09a5eb24cd9f1 0x520b6129afc08d845ae5d2d4c7db561d5a24f5fc9d81fe8232dde0b50c2bab70,
    Sqr 0x1a4b4ac0330d132ea32f7e673ebe172ac1230ab0e6822ec617433bf1f2c694f5 0x831b92abdfba41844c7503609d6735e56c0299f2b23bac6781dde9ebfe82c9cb,
    Sqr 0x43253b142b424eec513c55bef5dcf4a8177572b759086abb23cfa2efef434b45 0xdb1a287e48c71337ea3d05782e41d45a0d61b3781132cd4069d2dc309e7bc574,
    Sqr 0xbb85c3f45093185b80c8f59cb776ce61e4de0d6156f02cbbfb1ce1e18ac2af62 0x1ff6eb15422d55023d1d0cb48d8dc5063c4abe552c3f081e4cf3776a3d2152ae] = Some (0xabd18a4164f2ec2b49fc50cdb7e270542f2560a0, 0x1ff6eb15422d55023d1d0cb48d8dc5063c4abe552c3f081e4cf3776a3d2152ae)"
  by (simp only: pow_chain_simps)

lemma pow_n_r57_20: "pow_chain 0x10000000000000000000000000000000000000000000000000000000000000000 0x14551231950b75fc4402da1732fc9bebf 2 0xabd18a4164f2ec2b49fc50cdb7e270542f2560a0 0x1ff6eb15422d55023d1d0cb48d8dc5063c4abe552c3f081e4cf3776a3d2152ae [
    Sqr_mul 0x7fb762f958465f2236fe6ab4fcdce1b1d2be6d393fa900f57f7a56e881eb53f 0xf461281c694fe7addec0833bbce0fb79f48b3edf7390bdc8df447d8e804d889,
    Sqr_mul 0x1d292b2ab292208825f2ae15f4c4c0d0c26fd6469c938f527b3ae9879008328 0x88722338e2844a542f186c70e9e59640da45116baabfca083dc5f58392007d7a,
    Sqr_mul 0x9172f09fa85dcebf674a8c8e69ee1214e4d57ffdce6622454308a7b43c9b5627 0xa8373f35cb95f03e2166ebe38635ddec245d8429a08ca04de6cb35b81a75f561,
    Sqr_mul 0xdd111dc5a7db9681018941a516c5609d0eca339339e18dc4c842f04400c3bc45 0x99ee924ebbeef8621aa4720ac33462783bdd2de1c949ecd7b2bc5fd028ab4afd,
    Sqr 0x5c8f09367aa6fbcebd285a32d1f559e8c3cd3accf10d64d863944b01984c07ab 0xb88a2d0215cf3bb2ccf9cc40428f7cdd3db39b5388df9287149e4650cca2e09e,
    Sqr_mul 0x10a0dd68f1b0649d92f030aa912c05ae0f5c89412aeb976d99ab08870e636171e 0x2950f8e2070a71a1ab89d1c2fc40c77057c24d9cd65710f9677c17024a2b466a,
    Sqr_mul 0xd5612a9caf8e842f191978abdbb3a4efc2d89cf9a2e39267db1349241cd7ef8 0x23bf9df3b17755408f8b78b14f0bdf275f7bc35bb6c2d5e299e98f61db3a12d0,
    Sqr_mul 0x9fbe93b6b3c820f3f7332879bd41cecfff2b4425c6d1f3a3dfc783da7574375 0x985ae9937f6add074e594b05d24018a989199fb222083506beb3d9a0df4cfc4b] = Some (0xabd18a4164f2ec2b49fc50cdb7e270542f2560a0f7, 0x985ae9937f6add074e594b05d24018a989199fb222083506beb3d9a0df4cfc4b)"
  by (simp only: pow_chain_simps)

lemma pow_n_r57_21: "pow_chain 0x10000000000000000000000000000000000000000000000000000000000000000 0x14551231950b75fc4402da1732fc9bebf 2 0xabd18a4164f2ec2b49fc50cdb7e270542f2560a0f7 0x985ae9937f6add074e594b05d24018a989199fb222083506beb3d9a0df4cfc4b [
    Sqr 0x5aac15a83822508830a976cb377fcba0b38f5c096a4c2dbbeb28f9d4bfbe59d2 0x50bb622a8ed3c86580c9122eaa8419a823745b4deebf52f6c2c1f0c3d8bc9da7,
    Sqr 0x1975a6832915a3138762ea8a7db57bfc9316af109e019c7048c85f7502f375ae 0xc87d2c0593c2e4daa8a02388688522e9c988718f408cf2ff72f680d5faf833c3,
    Sqr 0x9d03d1fcbbe4bcd33e94659c3ea4127965d0b999e28e8789da7e49f77df0cefc 0xfa613208155bf97b765f29c8477c2cdf6ff7fc85470e3c909bcc46a1a86cbc8d,
    Sqr 0xf4e1fa9ebd9efb9177bd9ba6f9fcb8833e109a21f49ee41a71e1d21e04876e9d 0x9054780f6933532f1c76266f36fff5933d3054f48cb1ad90f23e0ff0434072cc,
    Sqr 0x515f22f058c53ad1342aa78155e2a8923bfd14652af4c77c39278e451eeacba8 0x379ecbea1215cfa2f5ac52a0babf075400f8cca77b8a46b6c1e8eb8a74b6f4e8,
    Sqr 0xc159e1eeb20c0d7fb2a66ce1c6809e03e6d4c5873aeeeab4898d9862e4052a4 0x4f17003246befd65df838aa51a9e8ebf0e4007a1a014b36f6e9e8f9ca242729c,
    Sqr 0x186f343010b2a0961e695610f3c1087e4ebb2816730bd6310d943c695886450a 0x5f77716be249b2278ab4ababa4ecbfec830d9cc1e53b7a93b152d8507a043d86,
    Sqr 0x2399dde8b67f7df8fa9d14a757ff30c4c7bf25cfdcae386e2a334aaf6f1c7521 0x45541395ce6c6c19eb590c2bef78acef77eedd2d31eb2c9e678f617cbe0c03c3] = Some (0xabd18a4164f2ec2b49fc50cdb7e270542f2560a0f700, 0x45541395ce6c6c19eb590c2bef78acef77eedd2d31eb2c9e678f617cbe0c03c3)"
  by (simp only: pow_chain_simps)

lemma pow_n_r57_22: "pow_chain 0x10000000000000000000000000000000000000000000000000000000000000000 0x14551231950b75fc4402da1732fc9bebf 2 0xabd18a4164f2ec2b49fc50cdb7e270542f2560a0f700 0x45541395ce6c6c19eb590c2bef78acef77eedd2d31eb2c9e678f617cbe0c03c3 [
    Sqr_mul 0x258cdc573a2afb75e5299bffe755520e889903b7a2bd0b6eb11551b45ab0b498 0x276c4bb2b1ed23ebd9e20aff89c64f96e3b08d2574576a4e9554b1281fe3da7a,
    Sqr 0x6122ce0675e920507dea3103f66084439ec611294a3664de20fa98691caaafe 0xaa4a6e50b91a629a78a937a06cb422c1224dcf06b42f97df0e828b10cf5c19a6,
    Sqr_mul 0xe28de04e58170d7a19400a5afcdcdcb008ba2e189af01a7e4d97629f6cc0aaa4 0xeef68a1912c5d0d7c16e30615d83178ea3f5d3b94f73778d8fd18ca904ecb7a4,
    Sqr 0xdf0f56345196ef307b7c72a206506622e250ea9334c70f80bf803e9c0de9a54d 0x3ca9588bca2f36bbf6b6dbb02e952aefef9187edb707d7e2d8f5204cf0925b83,
    Sqr_mul 0x1cbfa30f1beef6a808cd527418403cb5295011a23d243f091a16b4055ad719fa 0xf12f70e3e767700aa95edb2725c5a774d580e524dc0eda87dc86a974fb52b798,
    Sqr_mul 0x1c674b6af7e4fdc9bd6e94d1c457f75a4632c7a711f7bda094023abe7ef817dcb 0xb0555bf0cdbe5ae4a06e7f12e6783215d910f5a3e3478b008caf26bf3871d8f5,
    Sqr_mul 0xf2eaf5c293a6e454ee9bb3e5e31958fc78583203de4b6ab15ad9824bc5a55560 0x495426a442c22abe7937db20fb7124433f80efb689bae4c586ffad1ab468a792,
    Sqr 0x150119b30fb3b903ed0168f787fda8f99c9e0f2acd7adff7c376443069745541 0x78b2562772519fb8891a2106e4f46bbe29b247e64344c231241d7a9c86aa8c3] = Some (0xabd18a4164f2ec2b49fc50cdb7e270542f2560a0f700ae, 0x78b2562772519fb8891a2106e4f46bbe29b247e64344c231241d7a9c86aa8c3)"
  by (simp only: pow_chain_simps)

lemma pow_n_r57_23: "pow_chain 0x10000000000000000000000000000000000000000000000000000000000000000 0x14551231950b75fc4402da1732fc9bebf 2 0xabd18a4164f2ec2b49fc50cdb7e270542f2560a0f700ae 0x78b2562772519fb8891a2106e4f46bbe29b247e64344c231241d7a9c86aa8c3 [
    Sqr 0x38e7ad00e7060621fc6299ea88eb021d3cff75fbeb13b38ac55d0b40b98d9f 0x6228c7545a2c76b6c95e76c8aaa846b5d66eabf0f5bd89f70d9c75234520302a,
    Sqr 0x25a33f1b7a9a78c578cca0ad4f80bfdf10615d75645e08957c5e13399c6c4cab 0xbd6920a72057524b600e4d0a0f4976763f31f274c53488d24003b67f6486e479,
    Sqr 0x8c2465629303ac55d8401232d47146d63e4b664d76099a5fbde368fa3f6dbee8 0xf995550ae2c745531fc0d8fb9873e4eda85f2d0959130c6271dd10d8c54d6049,
    Sqr_mul 0x1e6a7ad169027b7c2760e575c5955705c058349225bbb406854ab7a0fdcc7855d 0xaf3c7b08d1797ee7a71740593c7eb4dac6dc50658ecd3db957c9c9236b1e3005,
    Sqr_mul 0xefe77cffeb4f8c196bf48194d1184308d4239e377078e733875654a4b501fd5b 0xd28df8d4c198595db6d50e70b4769780f7664cb40ce0d227f0ad625218545117,
    Sqr_mul 0x15a5a75f233b038b12a23327ff278977326ac25be93bb5eb2971666969a927053 0x89060e43d0b84091d2de52ea7f6be21191ffc123877f11f7527d2c63b259880f,
    Sqr 0x49577b69415e7a8a2c358419696220883aa34d30cee1b0a7850936e836c7ca9f 0x351237db947109ce55939532c0816df9f43ef2ca4d7c2ffd260e09862e071f82,
    Sqr_mul 0x160118d9a50f88296446f3281de02cd135ef8f79fc54c404e07dda8ed5730624 0x17fb6fa4b71470a4e1676d79182088312019fca43cde52378ba38dd3f79dc8e4] = Some (0xabd18a4164f2ec2b49fc50cdb7e270542f2560a0f700ae1d, 0x17fb6fa4b71470a4e1676d79182088312019fca43cde52378ba38dd3f79dc8e4)"
  by (simp only: pow_chain_simps)

lemma pow_n_r57_24: "pow_chain 0x10000000000000000000000000000000000000000000000000000000000000000 0x14551231950b75fc4402da1732fc9bebf 2 0xabd18a4164f2ec2b49fc50cdb7e270542f2560a0f700ae1d 0x17fb6fa4b71470a4e1676d79182088312019fca43cde52378ba38dd3f79dc8e4 [
    Sqr 0x23f2503b694ef1152a01fe270d4346f54ed0fb0e65f5523341fcb8fc99c067f 0x44ed939ce2095dccee2329a742d6e8685379668e8b7d1048a3747d68a03f25d1,
    Sqr_mul 0x251e25cbfb5a15cf2157a0e04e444a28970a2be783c1e03b69f827cc33d8ca7a 0x9bf14c630e9053f19b33fe565d32d450779e5eecfc32d0fe0f9c1658b9b7c648,
    Sqr 0x5efe15f0dcef285e9523a97354ffdde8ccb4f1a81ad78b82d6b9f25ee2478d20 0x6727efe8747c650e538cf8786cdc15600a62f0d3fa9ac78746166533c0c37f20,
    Sqr 0x29912948076373cbecc1c6e44d3a7a42915121d51632fd886326d2198969e639 0xc5780dee92d747e5869f206d7caf1a8c69e7ac9836d2988a776809ca4282d687,
    Sqr 0x9851fdbe3e6b17b9e2305e9506fc8bff1c10b6ed76d2640f5e2279cef5bcea16 0xf7516ae2ab4ba4cd0f36396f3ad66543b593276cbf901ca05837de8393d6f59b,
    Sqr 0xeeee3626369cdc6f85c53250abcb3272725eaaa3206e152b5a6327fddefebffe 0x99ac4d433861b043d83dcf8b63423bf65e75bef511ca992a3ab5dd7a5fc3ce5b,
    Sqr 0x5c3f6852430a0987473a6b209a894e4d795fdb6e1417c2fd54a752d72edfeb4a 0x1efae021db78d0cca5ee226182f08da69a401565bfeb317e27de5f3e0bc40c8f,
    Sqr 0x3bfc26275cc3d75854bca9012c1d09f5c9c68edb73f7f4fc6fef7d25a21957e 0x8c1a9f0d40be770e7442a2d8a968a6ebeacf6a265b28ac35d8f4ffbc3385c4e3] = Some (0xabd18a4164f2ec2b49fc50cdb7e270542f2560a0f700ae1d40, 0x8c1a9f0d40be770e7442a2d8a968a6ebeacf6a265b28ac35d8f4ffbc3385c4e3)"
  by (simp only: pow_chain_simps)

lemma pow_n_r57: "pow_mod 0xfffffffffffffffffffffffffffffffebaaedce6af48a03bbfd25e8cd0364141 2 0xabd18a4164f2ec2b49fc50cdb7e270542f2560a0f700ae1d40 0x8c1a9f0d40be770e7442a2d8a968a6ebeacf6a265b28ac35d8f4ffbc3385c4e3"
  using pow_chain_correct [OF pow_chain_correct [OF pow_chain_correct [OF pow_chain_correct [OF pow_chain_correct [OF pow_chain_correct [OF pow_chain_correct [OF pow_chain_correct [OF pow_chain_correct [OF pow_chain_correct [OF pow_chain_correct [OF pow_chain_correct [OF pow_chain_correct [OF pow_chain_correct [OF pow_chain_correct [OF pow_chain_correct [OF pow_chain_correct [OF pow_chain_correct [OF pow_chain_correct [OF pow_chain_correct [OF pow_chain_correct [OF pow_chain_correct [OF pow_chain_correct [OF pow_chain_correct [OF pow_n_r57_0 pow_n_r57_1] pow_n_r57_2] pow_n_r57_3] pow_n_r57_4] pow_n_r57_5] pow_n_r57_6] pow_n_r57_7] pow_n_r57_8] pow_n_r57_9] pow_n_r57_10] pow_n_r57_11] pow_n_r57_12] pow_n_r57_13] pow_n_r57_14] pow_n_r57_15] pow_n_r57_16] pow_n_r57_17] pow_n_r57_18] pow_n_r57_19] pow_n_r57_20] pow_n_r57_21] pow_n_r57_22] pow_n_r57_23] pow_n_r57_24] by simp

lemma pow_n_s_0: "pow_mod (0x10000000000000000000000000000000000000000000000000000000000000000 - 0x14551231950b75fc4402da1732fc9bebf) 0x8c1a9f0d40be770e7442a2d8a968a6ebeacf6a265b28ac35d8f4ffbc3385c4e3 1 0x8c1a9f0d40be770e7442a2d8a968a6ebeacf6a265b28ac35d8f4ffbc3385c4e3"
  by (simp add: pow_mod_def)

lemma pow_n_s_1: "pow_chain 0x10000000000000000000000000000000000000000000000000000000000000000 0x14551231950b75fc4402da1732fc9bebf 0x8c1a9f0d40be770e7442a2d8a968a6ebeacf6a265b28ac35d8f4ffbc3385c4e3 1 0x8c1a9f0d40be770e7442a2d8a968a6ebeacf6a265b28ac35d8f4ffbc3385c4e3 [
    Sqr 0x4cad20bb3052f00439b454c4cd4ee18273f424a3899cc953d5eb20f7d4c70939 0x7b55391f0f667c91f76f306aadb0466f8b2e12c47a3c954cb6931b26cb6390d0,
    Sqr 0x3b6b0142d42b8e635beb7f86b629e521d8c21cc7d6423a625b90708bbd07dcd9 0xbc95b131aa8bcc6a9f4bb63109212a67c4c95138132dae558adb25e44ef27ce7,
    Mul 0x67357945e4a95989b7b36860a2e9d59705df7d7df4718bea81ff36c411fa75bf 0xb244b1e03c9168b3d832b61096b2a36dfe78c2e72dca1b2afec80a1762e13856,
    Sqr 0x7c2399cacef23b04d7c5c77c56c754626b87e9fcd0a0a14d7211d354fbb6a88c 0x3e0a2fc31858b8076046b4eb49f9bb9415ba2e629738d4eda32fba3353dd6558,
    Mul 0x21f405b315004b088605afdd85745b1abebcdf45d1d8d72035baa02e374cec2b 0x4e6f6d529ce61575042beb08b2e2e1600c96fa0da4aa5a657fdea627ba0f5b1d,
    Sqr 0x1808171e53efb8debbd8fec45dfac986d7309749ed19ffa3993d798685fb8e35 0xc879816959fd85253805cd5d6fc2052320a3946e6133b2caa466cb63feab10d4,
    Mul 0x6db74baa9a2951921785331cf4daa17034a2ed4f32d23c7839322ad871d8a95d 0x68d7a91216eafa28270ba7b169ca9bc1dda3d9421db5b9961c452b8790149e5f,
    Sqr 0x2aefef0c1eaa4d7a488c79b3df8ff82fc80f2ec4f4dc7ba688ef89e0d30b0d12 0x7d2941252f394117cc062e6a6e9fe1f76d455c8781561f4263eacd8f3ae583af,
    Mul 0x447f93940dcff1be791cab764159bd265b3d553151029f59d96e159b0c268576 0x59f799e5bad086c1c74213bf00bfe8161705379da5d2f2d5bc5d3f8a54b1e737,
    Sqr 0x1f9e187c11b7e38bc8f2d7c53849c3a6f66d01d9c3acc659c8fd91e1f1041340 0xef292c45d986e07ba09e6db564ce89a3771d40260e3e707325e0fe9958762a91,
    Mul 0x82e362fba620b6f730561a1888f7af7b99e520f6a4fd01a8d31d1cac9907087e 0x7f49b4da6cec532237b2da82a3a9118a6e0d999767ce5460bb5e59171b2e9c95,
    Sqr 0x3f4a36a95c687ccd62852db6dddbc14a1373916b0ef2209012539e7c92d6be3b 0xfb71ae3f4d9b01b6f7474844873f1299b3bd1166885e45a38d09540340ca6be,
    Sqr 0xf6f81e2b6caa955a4c9241b9ed5b103b2d6e6d0c1b06d92624a05691b9498f 0x6c0c0234b1352be5463979980a1382beaf587605a7825549f870f9547e87f8b5,
    Mul 0x3b21cd8e17914ddb5bd0301c8d55d8aeb524ab3b76d755f381b6c8ba7ff2f5d6 0x7be02310eba0d5f2f0edb13348248e53c5444a3493bd1dbf8febce0ba9c55b29] = Some (381, 0x7be02310eba0d5f2f0edb13348248e53c5444a3493bd1dbf8febce0ba9c55b29)"
  by (simp only: pow_chain_simps)

lemma pow_n_s_2: "pow_chain 0x10000000000000000000000000000000000000000000000000000000000000000 0x14551231950b75fc4402da1732fc9bebf 0x8c1a9f0d40be770e7442a2d8a968a6ebeacf6a265b28ac35d8f4ffbc3385c4e3 381 0x7be02310eba0d5f2f0edb13348248e53c5444a3493bd1dbf8febce0ba9c55b29 [
    Sqr 0x3bf125efa4d6889a2425e254a60b44ca755fdcda833eb83bf46469eb414bbc32 0x74b747c0ede1eab712fdd0ecbb05af681bcb7478730a1fe794edc57d6e00b1df,
    Sqr 0x35369c3e81856b0c7b10df51e8b9c490d01d981784e82e3dea719629073db875 0x871409f1222e4ccacc47819ae44ade12dbf68824a791c2a041a27480a466958c,
    Mul 0x49ed016551899259ccee868c91c317d42ed799816fa5dec617d015e06c18995c 0xdc333328a9e341924e4bd7d511beacb81b850e92641383e5e1c7f24e1c9a7ec8,
    Sqr 0xbd680a2b506b8365aac02c696ab9bf55b51a0195a8737cdacdead28919756d76 0x6aacc575d52fd5b4533adff7bfb87bcefeab0d4a8591e2d39f154e5548e9bb4a,
    Mul 0x3a6193cf52f29553336c4fa8870115efc2c63c3831ea804e53d0be9711191623 0xe2f0d1bf63086b21f3c1928714637825e29d657c46e88e644fb9c16ad4b838bb,
    Sqr 0xc92e14dfdd8e9bb97dd7a1782adb6932341d2c12c9a6b1833cb3b770aa407750 0x8c3547dfd8a99f01f4bad5abc5df07beea6cf00a9b36038869227a438dd8bd49,
    Sqr 0x4cca51b3abd72a0f3f9076eef9e53d1abb6e24e7a767432da375d6f811b7d33f 0xa0c0699a4cf03e41fc69e147da08ecdee7b7aeb7a64b7dba7dd8cdde758b3cd2,
    Mul 0x57f9f12aefc31908fffa60dd4b2f2815c397bba961ad2a422bf0c0c2cfb11d6c 0x2a624505396db341feb45b43c19585587919eab30b01a90877aca6669ae8d1ca,
    Sqr 0x704645ea173c7df53e6ccbecec7eea8c2a5d85c9a2124c7d221d8b7b625e1db 0x3b017a14029d73ca8555c5361b063397df8fb302c15d2ad1551c47f37fe27fc9,
    Mul 0x204af1925048450310876c01fa1569a8569a75585cce1d4b1ef1d98d2fa5c96c 0x3d58d5d65c23aa2dad904cc0f33eb66d60e9657accf1ebbf52fd33eed015a2cf,
    Sqr 0xeb374bbdde6c0704a184641d3ea64b4726a872fa72f402c4794d2050847840a 0xae78f6249b119bc98e7561f8bc93b9b17db0baf9fb6211e8afb0071140b592d7,
    Sqr 0x76e8a7c171c7af89dce6a18fc4ebf4ba466be22a969b25d88aa23afccc8f6d7b 0x6363750bc08d09fa4764df57a7fe2c230829a20621d5386f17e4aa291516e956] = Some (97644, 0x6363750bc08d09fa4764df57a7fe2c230829a20621d5386f17e4aa291516e956)"
  by (simp only: pow_chain_simps)

lemma pow_n_s_3: "pow_chain 0x10000000000000000000000000000000000000000000000000000000000000000 0x14551231950b75fc4402da1732fc9bebf 0x8c1a9f0d40be770e7442a2d8a968a6ebeacf6a265b28ac35d8f4ffbc3385c4e3 97644 0x6363750bc08d09fa4764df57a7fe2c230829a20621d5386f17e4aa291516e956 [
    Sqr 0x2696132ad387c15852dcba3249b957a64fcee1ef9a0251de258cd08ab321f935 0xebbf89d1e00e770167c946df439f6fb45c99a0369ae3e431e5186c8c4e60ed6f,
    Mul 0x8105434af0cb4c9e51eeb0a4977612143f74ea6f9660e6ba7408274f6e0149c6 0xe29ba7fc29764c428089ff6cc1289b2bd591748c79327cbe055b30007b938427,
    Sqr 0xc897333e12ca0a5fc2974fd01ede9be652f149f7d95432678aa51978b3e249bb 0x512cf135262a1e3b502ce5eedd9de40265c604e5d709c175feb5cec4e4630a76,
    Mul 0x2c6d04e8ade4cc9f63385119483dc5cc2f35d7d5ae96c76e28227e9855054736 0x659912b602381bfbfeac7d5416a3fd1aa6b84d01ca34fd4e0c7ce1df7652d3ec,
    Sqr 0x2852244afcad06dd55e6abecb88bb9acf0961a47fb480b461f17bf6a2c089959 0xd4275278ee3fc2c027bada7b36caf5b61970f61fecde08760502319fcba58f7,
    Mul 0x741b90e7ea7309904396fcba631f77caf0f4078ee60c15ad0a26bc030128e71 0xb364d6c65b39f13a25e9f7b9ca3cf0d83ebf85832e6c88e93c540d046bf62354,
    Sqr 0x7db62c11e2ba86d1e3e36b29d034cad407eff855f43156b669ad49c017e7e817 0x9b1bd31a7fb8b1ffce82b02fe29c2e8464df709ef08372e2df5afae689a64eb9,
    Mul 0x54e358a43e4b83562a8a2cc5f398fbc3855418c5d8b3a2c9373b0a434219c26e 0xd359163a23524486812f1514f91f15f958e52dc93e846392dca271546dbe261d,
    Sqr 0xae7bf9a44c94376f886733d09c08fb6326bce44c79ec56925c692d3a4ffa9996 0x690382598512f0b65487aca433438305255b6ee8a2684b6c67383eee15748a33,
    Mul 0x3978d6e2cf9019ca5d656ab679883874dc0b47211fd813f123382e3f713c49b7 0xbb53982df5ee402c0c369511b58a24e6237e58bff2ff8bddbb538285ea0468c2,
    Sqr 0x89133b9f2d8e268944a06bb9564635cb41f1f32c17cf735bce9b7d4aaa8745ff 0x9ec5f65bbd606122f1759a000599d1bb40fa50fac8c43cce303d610c8005ae45,
    Sqr 0x6278f52e5408df120b2073b3501e41bfb3f19f87257ef2ab52764325c0ccf56f 0xd52e264d8c91727a209251f2eaaebd661bc0dac917423a85d58c7ef9518e5e6a,
    Mul 0x74ab6814ffcc1297318b3a1f223b5e1e15d137abc33ebce7cb79404f97367f53 0x6d1bd0515b05ab0cfb7acc1e7ec2341ab922e491728defddeecb4f31f5ec78eb,
    Sqr 0x2e80b26ae230549f12cbfc53115c4f260480355b9d3164405451ed41e9574353 0x846971f42b11c63f823784d26e094d513ddaf3fb5f3c24ac1f07695beda2fca6,
    Mul 0x48776f4b72f868b3338d7c8e1ad926c27ab81817dc7603f33fae823b12993a36 0x4c599ff2511f81e1813b00c657d5c3fbbc3e3fbc9e770d108d7f7a800d1fa17c] = Some (0x17d6cfb, 0x4c599ff2511f81e1813b00c657d5c3fbbc3e3fbc9e770d108d7f7a800d1fa17c)"
  by (simp only: pow_chain_simps)

lemma pow_n_s_4: "pow_chain 0x10000000000000000000000000000000000000000000000000000000000000000 0x14551231950b75fc4402da1732fc9bebf 0x8c1a9f0d40be770e7442a2d8a968a6ebeacf6a265b28ac35d8f4ffbc3385c4e3 0x17d6cfb 0x4c599ff2511f81e1813b00c657d5c3fbbc3e3fbc9e770d108d7f7a800d1fa17c [
    Sqr 0x16c556587a960328d023846d56dd84c308b1246b424a1ec633a184b8cde9809c 0xeb133db187f28f3bab2f5e6c342861e38aed0f053001f8dc955d820aa70bf074,
    Mul 0x80a6f7be791f8f721f30f7fcc3b30034cba76d095b35c473127959aaf542f708 0x98564c66511969a70ddd2febdecd4933dbd70f58a7af69f0b25468bd698945d4,
    Sqr 0x5aa697d0ebd993952d60724030c4d903cdda1558674820e1f3362f8eb5dc2eb1 0xbb058b41815db72118047f9fcae526acc81d78e9bff02152039c2754f9db2b9f,
    Sqr 0x88a119906f4e2a72383606616ec9596fe38c86c32f5ecac71023afb74e5db657 0xe6a630d7be448266a156aea59c9f83ead8e0bc98bcae2767ad2daae7200769aa,
    Sqr 0xcfcf0ba70aff78545c64470575bbfb1e9c59f38ed2ade4a9984e9703866e66ac 0x1d04bf944e487aaca71576c4e8a1d1c2942f37627e8c1750a00cb9a0e0872738,
    Sqr 0x34a137e25bd80c9b60bcdcdfc9f29874d8e0baf9bcabcbcf1e8f761afac8369 0xacdab8400bb5d2c5fabd8d5f49ce9a687cc4d8c79a716215c3c47ffef2c11597,
    Mul 0x5e99965e882b0b0a63f1e3c53e5c558b2cb591409c186ddb8a3f80d7e7a14015 0xf6228b636e4d9524631fd5bd90baa053e090e30c10d24f56f7c1603c0c8c2690,
    Sqr 0xeca6688c6a4b87a44ba924b4a932a6e223995284938e8921a61a2a6e262e35c5 0x4a7d412b68ef018683c540f1ed3e24bef6e34eff7daf9e95d1116f02de5e64fb,
    Mul 0x28c43ea402785e62243b66597b2e4f1ab885873fbb61eae30eba5636f2204e01 0xda53ee8eab2f5f39a59f41be5b14a8befe6debf73d97d3371bbf41cf832a750,
    Sqr 0xba330dcf8a5d44b45d89c71fcd528788e6e8a18b190b66d54d18eba8408e81 0xbb4e4f99df689f21584e2746bd30218a6e7a14c6c0c6e48b86c2e02fccd0893f,
    Mul 0x66824ddb9197735a3f3a960f50d38dcd443b9dd50608b5c39291feaeb66408ca 0xfad5a6d68cb7614303f7eea5fc352295367d3af10de12b3d6f9020c3707b6993,
    Sqr 0xf5c5fc2a1897456c1f57739cfbea6c987893fba0338430b83afbdc43638b1f3e 0x755231159fc183c5b268b743f7a8d51f2dea75678f5fdecd1ad1e1cbae763dab] = Some (0x17d6cfb8e, 0x755231159fc183c5b268b743f7a8d51f2dea75678f5fdecd1ad1e1cbae763dab)"
  by (simp only: pow_chain_simps)

lemma pow_n_s_5: "pow_chain 0x10000000000000000000000000000000000000000000000000000000000000000 0x14551231950b75fc4402da1732fc9bebf 0x8c1a9f0d40be770e7442a2d8a968a6ebeacf6a265b28ac35d8f4ffbc3385c4e3 0x17d6cfb8e 0x755231159fc183c5b268b743f7a8d51f2dea75678f5fdecd1ad1e1cbae763dab [
    Sqr 0x35c43b413f4a8366cd9d434c6aca13ba8ebc56f4d9d931476df51addaea1c95d 0x1afe6c5b6b35aebd684d2b6595191b687d177e2818ff50dc029eab6ae7ac329c,
    Mul 0xec5f1de6af637b72eba083240cab5c1df9bac624552d51e75a8d32fed61f255 0x8c265a892338433e170f915ee678fbb7dd8f2f4033642d277671e3cb512833bf,
    Sqr 0x4cb9f8c4ff40b47a25ffef0b0c42f88cd5254c61a7f5645b53b74f767ea28973 0xc1761af1a868732686d89a5ad588f53720c63b22a9c5e36e8a92d3e139b88f4e,
    Mul 0x69e0b4ed434d25d06cc7b5a681c0bce07f7099926b1208c7f83e72706b750d34 0xdeab5040962346d59a357c76c3800779e8a6c96095754fb9201951ef6fda3bf6,
    Sqr 0xc1ad91d453d6301c8ec70e5f8cfc0a9e96b6b24898144d0645fb9e84109b5801 0xe675ce50b9c33820106bfb16c593cb54ed686295cab85303e5c59ccc7803b723,
    Mul 0x7e2063fa3332282fff5f5640cbea7022d71f8fbce14445ad4219fae3a73c0dc5 0x37f3b9129912ce3a5b35ed55289cfa7a38ddae95c48e4a581a399674b464ac04,
    Sqr 0xc3aa18edce090e7a6372847531643ae1982b815ee220db7200573bbe83edb7d 0x8873bce90020f258eeb102ccba184ecb22d14d35cba3c0245d19367aaca6e853,
    Sqr 0x48bb2d0ad4e02b59d96e4eb5ffa4bdf9c49f3ea13bc2370f96e289ec98ec32d6 0xf1dc39d1eafee2e3ae217bf3731cb6d4af8ec4e0a2d68bb339aa840e40754c93,
    Sqr 0xe4806250aa4ef40db21d24c9e4424158fafb4f5dd1378f7ba85153f94c8a18e4 0x3361e607590c7fc482e03465027397c610f0948e03e6545d7dd2875695cb6685,
    Sqr 0xa5027170dbdaa99924e4c24d71f0226165f7237b4583e414119c153265adcc8 0xfbada714f54e47ce717aaf5deedacd27f5ddb38f0cfc2a35837d4387b0ab6a51,
    Mul 0x89bd23605085e35771f1322150eb6c1017ec78080d31d6095ea49036c6f2bbd7 0x563fdd6c7ba0d9ac3a0d93bc1482d7a0f3a7528072387049cc5147acfcd013c,
    Sqr 0x1d0ef8b39df966d71d04adb9d1086e9a1b3849a729f357386d7134bfd38a87 0x7262f527c3f1be1de73df063ed6f348369c7bca94e3ae275fbcbeb3faebd12c9,
    Mul 0x3e9a0330076a182c1babf4769869c465c4ab69f5c482315f707744d141fb5dcc 0x93ac7e8d65c1b73c795105c007c7bf940784bd92430821fb8e35db2764caef6f] = Some (0x17d6cfb8ee3, 0x93ac7e8d65c1b73c795105c007c7bf940784bd92430821fb8e35db2764caef6f)"
  by (simp only: pow_chain_simps)

lemma pow_n_s_6: "pow_chain 0x10000000000000000000000000000000000000000000000000000000000000000 0x14551231950b75fc4402da1732fc9bebf 0x8c1a9f0d40be770e7442a2d8a968a6ebeacf6a265b28ac35d8f4ffbc3385c4e3 0x17d6cfb8ee3 0x93ac7e8d65c1b73c795105c007c7bf940784bd92430821fb8e35db2764caef6f [
    Sqr 0x552f8d90af6cb3019ccbdeaf2bf3960e2dcbf18f1e5c87a3a2c30949ccf947e4 0x27873037d009584e2388a92a52289e64056ad226049b41f7e0642148b2784d3d,
    Sqr 0x61a7814e5553cf17f6d8c6a2185f8e062bdfb15c39645fdb85ba93a3665ae3b 0x5fae6ba3f24c7c41f93633ba6897f62660ad49c047eacfa5e0f5e76302fd888e,
    Sqr 0x23c2eaba2df499bc433f143013f1167ba5501940457c67350b1dc1d4e9bdcfab 0xffbc0ad1c7cb931040e41e735f8a8e60fd3d17867bff709d056faa5c20850959,
    Sqr 0xff7827add09a117e1ef749d82dca53ae40664ee73dee30e799cd92231782943d 0xca593901882277d4f72d9fac9aec45da1468c325722bbab028a8ea3702284074,
    Sqr 0x9ff0ed0f1a98bbb51a2e4767fd4083987d2aecd9a4f3690c66237ae89e054308 0x1c1f54fc9d6bcfd3d574af5fec3aa7d5d94b0d14a57161662ea9f00beb6f2788,
    Mul 0xf640f21b23beac94aa2fe8884272a7cb18336215f51737274a0c20b508e11d7 0x25f5341cb1a25288086c2ce15ba26654d915aa94cc6c2bc0cca9abf485880f01,
    Sqr 0x5a0cbed14e097ee931a9241802761991f4d16c6133c26d88aac2050f38b37d3 0xd9307fb032eecaab0eee6217eae4adb7b9d3fd2f2238d410f4cb574d95e95e6e,
    Mul 0x76dd1bb1b1726597a7b0508b17d466fcb748510c4b2ab5dec54f8cbce4bdba6d 0xcd356ad6d9591c2b8fabf1cfa4bb9ffcf269efec0dfbbfbd745a08446fe0f0dd,
    Sqr 0xa47e984181a5565152fa3b0db87be3d64f20aac6b0033e90e7cd5d8a3e86946a 0xa93fcb7f52de402e4eac5f09b5f72d1f2c6cab6d39c8c8f6d3ef2302912885df,
    Sqr 0x6fe54a93e5d766e087ca8f1a1195ab02140d8dd3c05528a46dfe5e9a6f32428c 0x4c16405e54fe99a2ed21887a07f8a5cd545fee07ec515201faa2acdef18106b5] = Some (0x17d6cfb8ee30c, 0x4c16405e54fe99a2ed21887a07f8a5cd545fee07ec515201faa2acdef18106b5)"
  by (simp only: pow_chain_simps)

lemma pow_n_s_7: "pow_chain 0x10000000000000000000000000000000000000000000000000000000000000000 0x14551231950b75fc4402da1732fc9bebf 0x8c1a9f0d40be770e7442a2d8a968a6ebeacf6a265b28ac35d8f4ffbc3385c4e3 0x17d6cfb8ee30c 0x4c16405e54fe99a2ed21887a07f8a5cd545fee07ec515201faa2acdef18106b5 [
    Sqr 0x169d382722dd143cf8cf070af9b2f606aa3d5735349f844dac73c010ce40a22b 0xbccfef3be9c499b2785036afbdc5e78a48a043dd77fe64aa264082089feee40e,
    Sqr 0x8b421044c1cdba315c65edb65e95fa144ad305ffb3b85afd8042ae845b39111f 0x171114b103a2fc676fc0aac2f186bd0d16189b5e9ab800105442d16ac5d0b8e5,
    Mul 0xc9fbd61b584ed6977fa618151baedf542cfcfc5e1761c97ec6490112e02e882 0x110d8211c09a4efe8e5330b676dfb664a40454d35fce5542b674c8e8cc6a3c0d,
    Sqr 0x122cbfcd3781701b2625ac78af7b2eaa0220b1eeaabe8a63186a3a9ddf59d53 0xbc389f4371af58dbe06a3fbfa5a357d7f67eb9466fe906ed2f4c0ed729091396,
    Sqr 0x8a6336711f902036567424858980533b09959f94b9791f57947924541d3a0540 0x41b3e9d0afbe5f0c9adc825952d543a52c16d211e09510a3d865f4442b7b06a4,
    Mul 0x23f538f604474e9ac1db6bca01decd49051addfd4379812640c5a53623653f45 0x35e769dcf7b990da15389d0bbf05dddb8e5fb68bbd5cc3ef3a42c32ec40cdde7,
    Sqr 0xb59a305b720e8cea5d73576b488b5ddf820d123023a5d62cb9af012e092b1e1 0x892cc79ef7d80f6f649fee88e7bd2b69c855c13cc3e34d814113291eac215b50,
    Sqr 0x4980f57d5f92fad34ea2a45c6270153687990b0575c19b199032cb6d940ad4a6 0xc7d1ac5b8441ae0772397c35d1f64e860b9d4bb133fe2791fa8e1e8b196fd4da,
    Sqr 0x9bf7a5b129172a3d489d681273f5cb6dcc901d75396f8bc3df6fd87480d7e5e3 0x4b3e4b286ceac120ff869cbd81046af7178bbf04f67a1265a164106663f3c801,
    Sqr 0x161d8f322d770512a6913f4d28ea9581e3f9fd14d8cd8f685646f10b59055f8d 0xb270e9d81fe51ee88d2c8c51d3fa95a885b3c39979d7b8f59071b44564c98034,
    Mul 0x61a84e374f7ea33563f285c1dbf1d2cddb041664c38f2dff7c0a4e9101304c5b 1] = Some (0x17d6cfb8ee30c51, 1)"
  by (simp only: pow_chain_simps)

lemma pow_n_s: "pow_mod 0xfffffffffffffffffffffffffffffffebaaedce6af48a03bbfd25e8cd0364141 0x8c1a9f0d40be770e7442a2d8a968a6ebeacf6a265b28ac35d8f4ffbc3385c4e3 0x17d6cfb8ee30c51 1"
  using pow_chain_correct [OF pow_chain_correct [OF pow_chain_correct [OF pow_chain_correct [OF pow_chain_correct [OF pow_chain_correct [OF pow_chain_correct [OF pow_n_s_0 pow_n_s_1] pow_n_s_2] pow_n_s_3] pow_n_s_4] pow_n_s_5] pow_n_s_6] pow_n_s_7] by simp

lemma pow_n_f: "pow_mod 0xfffffffffffffffffffffffffffffffebaaedce6af48a03bbfd25e8cd0364141 2 0xfffffffffffffffffffffffffffffffebaaedce6af48a03bbfd25e8cd0364140 1"
  using pow_mod_trans [OF pow_n_r57 pow_n_s] by simp

lemma pow_n_r68_0: "pow_mod (0x10000000000000000000000000000000000000000000000000000000000000000 - 0x14551231950b75fc4402da1732fc9bebf) 2 216 0x1000000000000000000000000000000000000000000000000000000"
  by (simp add: pow_mod_def)

lemma pow_n_r68_1: "pow_chain 0x10000000000000000000000000000000000000000000000000000000000000000 0x14551231950b75fc4402da1732fc9bebf 2 216 0x1000000000000000000000000000000000000000000000000000000 [
    Sqr 0x1000000000000000000000000000000014551231950b7 0x5fc4402da1732fc9bec09d671cd581c6221366e46c5a9bfce4d87d7cf27a0a89,
    Sqr 0x23d33e1433c98eb4a8b4ce00a5d0dbfbc575c575810db016dc9eb1a176c9bb58 0xf1d0b2da6c92265d5ddd1d51d4baba2946dc9ad85af1e920721a20c3a8a913f9,
    Sqr_mul 0x1c8d535c4c0a02624ed8353bb409cf0019885c70084c01e5caf672f7bde407450 0x15eed8629a982887d76a4e3c54a9be14ad9c4288d24a72523bfe50b50bdbf812,
    Sqr_mul 0x3c21cae7735e8da4857526e8cc2d33f6ac013ac531b8e61fdec6bb039b545f4 0xfc7512fdb679ee80c68050fa4b347224b6a5aa2d012a913ead50f6a7271c0b94,
    Sqr_mul 0x1f1ed65dbb9230439ba3e60b738121487ff257f48f2f1af391ff2de7da6a02d8f 0x695595a3f2f4c5ce362a4b3718acfe0936ea6a9aee19a079a0f5172b7b653ad1,
    Sqr 0x2b57515d33a4629ebbe84972e29472731f38650fa08a988e0acffc6c0af532db 0xc51e50cbfd9a63b193283210ae11a9e7a0d1acccb4cf1af7fb1575bc980fda06,
    Sqr 0x97c7abf0fd9f2eab567df83afe2f213147e6dfcec22c86fef455f41fd86faee9 0xf6f96281cf20181f2895771ab51c0f64f1f11aaf6f2080aecb0fdb8fe177a5fb,
    Sqr 0xee443c42407e3f31c701492ac98a7122fcba86dbfe69f481aaffbc9ee3722fd8 0x446bb95f75bd1279ed80ed6eedc7ce99eca8ddeceebc23fdf24cf2eb9b438641] = Some (55352, 0x446bb95f75bd1279ed80ed6eedc7ce99eca8ddeceebc23fdf24cf2eb9b438641)"
  by (simp only: pow_chain_simps)

lemma pow_n_r68_2: "pow_chain 0x10000000000000000000000000000000000000000000000000000000000000000 0x14551231950b75fc4402da1732fc9bebf 2 55352 0x446bb95f75bd1279ed80ed6eedc7ce99eca8ddeceebc23fdf24cf2eb9b438641 [
    Sqr_mul 0x2492cf9e6527f3442a8eac6784babf4ca2902d324b9e312d75c6d2b664951090 0x567093df23e450aa937ace072f3c03194ee59287c466375963457f0a36e7472,
    Sqr 0x1d2fd4dba4c6d3b0f1c8361b802a2c44fae5a5b81ad9b2de7904d4d4c68329 0x1638b3f872e332e9ae417ebb450ccbf832529bd714b9a4ca38d070c40a94cc5b,
    Sqr 0x1edcb7deef6b1eef5240fdc4ba950735eaac945c62aaaf1350e3b4ab1dfbac3 0xcc499839d8d78ce68aee1e7a9ab3942379fdd06dae268054e52273173afd39d6,
    Sqr_mul 0x1460abf88ba33e4200fc36690dbe37f94e29a09699b0c703f71aa4eea3a5929ec 0x6c50f664fda929fa9884534f61e3ec333d74e15f76ae683796f4ea10a0096cdc,
    Sqr_mul 0x5ba8d300449708fbe2fa5d4c91d092de40d90a9a963b6a10b6aca6c3b436966f 0x39bc35adc86aea0c69a6cb8dd0d52fa3d6a4826d502d6d17ae2fbaf3220c58f1,
    Sqr 0xd055a4645bf64360b98268008584c66abbb4bcdf792b56b5ffb0ef9ec2845bd 0x5651d7c37096f3e0b6a0ccf5fb89e58838376947c1ca375b5fe400cf03b1e0e4,
    Sqr_mul 0x3a362e431e590f67280e09ed3abcaced177411179eb705a871d2a3cf2458f9ba 0x5a51ae67accb5c7682dc970cfecec38200783eb0f39734822572abf59273f3e6,
    Sqr 0x1fdd88b0b9eb6e94c8f950d8e96b30e1dd108ca867bd01ff0341909c42482f60 0x52137540974e77abef937ce4d1342bd846b823be71f644351499623a3a670b44] = Some (0xd8389a, 0x52137540974e77abef937ce4d1342bd846b823be71f644351499623a3a670b44)"
  by (simp only: pow_chain_simps)

lemma pow_n_r68_3: "pow_chain 0x10000000000000000000000000000000000000000000000000000000000000000 0x14551231950b75fc4402da1732fc9bebf 2 0xd8389a 0x52137540974e77abef937ce4d1342bd846b823be71f644351499623a3a670b44 [
    Sqr 0x1a507897fe38d4e9a30cb415b33b5ae29297e70b7682df99acb413aa847ea3b4 0xdc521a5baf76301961c6d7b24e0383494ef21cd3387507cdb090454c4d86a55c,
    Sqr_mul 0x17b3a6f44f60c95b950bd18af3f3633cd4dbf3fc6738cf03e1dfcd696d6c98ce2 0xb7cc68ea4fb1d7e31ba26647febddae9bb300c071596537c2ec4386cb0a14abe,
    Sqr_mul 0x107ebc26cbcbcfa9a199952f5a431377cacab0985d611cd3b9d816493558ebf7f 0xa767ec916bd196b706c8662731fe14653a08344ca591a446caa5641f24f4ebc9,
    Sqr_mul 0xdaf181abe4994d5fa1aff3e9e2be9a1a6fcc4b75555f655b2087a227ba605ae1 0x13a0ebcb644bff02f36b0f4cc055cff07853e7f80d78682e03ddb102eba51381,
    Sqr_mul 0x302904f909f6529e3a6f2edac96f53e3e1e1277f929577928cc106419588893 0x459e6b1dfb8a310ca631970a2ecafc82ca990e02a0fadf7ff488d2a7ce62cdaf,
    Sqr 0x12eec7c68f6d10cdd6abd734c2382dfe5ee32b988a9a7873dbd3da7f7d34d219 0x86cc4890048461f486d76223201651b3f62777ba64c65b4e01405ecbee360c48,
    Sqr_mul 0x8df4fdf4fda63a2f4df910eda9e35734e9ede44a7d7630bbf131557a0b514a38 0x6048c5b1462613961f817715519f009943c061c150268a166ff981ee72a19848,
    Sqr 0x2436a8f4c0fe54d44a17cc97b6ce6d4236127d709f41fc12a7b3e4853aebf860 0x3c4a4319be8539c66452336933787c8e51ee53983c6d4cf8eca7f1a2c0eb23e0] = Some (0xd8389a7a, 0x3c4a4319be8539c66452336933787c8e51ee53983c6d4cf8eca7f1a2c0eb23e0)"
  by (simp only: pow_chain_simps)

lemma pow_n_r68_4: "pow_chain 0x10000000000000000000000000000000000000000000000000000000000000000 0x14551231950b75fc4402da1732fc9bebf 2 0xd8389a7a 0x3c4a4319be8539c66452336933787c8e51ee53983c6d4cf8eca7f1a2c0eb23e0 [
    Sqr 0xe32e4feedc7146ae5c5aff93a018bad6e880ab6033194cbe40b70daf62bbabb 0x54c8f2f98714ddf78ca2763f34f33fa19f5c0b2573ba0b6d5d2337fbf3511f85,
    Sqr 0x1c147d304d2578e0c89d30b37e928f30d8efe50917e5f2bccf4ad5a6b81269ef 0xd5a264242f62bd3fa32f45aa357eab44b6cf4692389049eb5741019f820ee66a,
    Sqr 0xb247a1a71bd29205ea7b8ab70ab461875b43e551d5aa997493d7b7800a1acdca 0x3fa649cadf20dad28affaec4ba61cff56c5337fb49e6efa40bb47526c350199a,
    Sqr_mul 0x1fa688ab4461bcaa112b892dcbc2a0816e5686224ac88b95adcebc609cf595bb 0xbe3621100a417607965ffc8fa541679f2d3f5642b298bf90d2996d7582cd61cd,
    Sqr 0x8d546485c642a277376fcf110f08434bbf11ea7dace0d88a2aa91fb0a1b7efde 0xf1a001981dfaaf8dfae3a9da1fbb56f53d2486cd10fdeb9399780d7a3f3fb8cb,
    Sqr_mul 0x1c81d4e04cd340508acd930647539a022ed70e51c390e7268e7fc0475f10231f7 0x67035cf100050543635b0b30260389fec8bb7868a2a8b0cae0e6a051cc447b3b,
    Sqr_mul 0x52e769aa7ad04a7dfd87df0d6fd5fc8f751c99fe5b637ad6b7c6b3baf64b804b 0x85ba138968dfd4414896ebe5e10ab09ce74a81369113fed3d132c9ebc0c2e127,
    Sqr_mul 0x8bb5bf1a58454e3dd0a79674864003f0440ab75b3e644a5a102281549da554a9 0x243d804bdab0d6ea97311ebb02fc29bebafe31e721756579e2c7c0c4dd23bff9] = Some (0xd8389a7a17, 0x243d804bdab0d6ea97311ebb02fc29bebafe31e721756579e2c7c0c4dd23bff9)"
  by (simp only: pow_chain_simps)

lemma pow_n_r68_5: "pow_chain 0x10000000000000000000000000000000000000000000000000000000000000000 0x14551231950b75fc4402da1732fc9bebf 2 0xd8389a7a17 0x243d804bdab0d6ea97311ebb02fc29bebafe31e721756579e2c7c0c4dd23bff9 [
    Sqr 0x5215adbb9f3e5e31bac0ae2b3f5f4191a3228e5fc9a0856a9d46b77fce19d85 0x77e64175031edfc413e359c7d7ac0c9045baa9094a7732094a85d0be2fb5bc6c,
    Sqr 0x3827dff477e4f093e6b4f2488d04373dc30dc11372db4bae8393894afa3de45d 0x3c6c5f092a29f811d49ac0c3bb786f6d9085bd4f0520b4515a9d6b7aa71634f3,
    Sqr_mul 0x1c85f4d93d8e1aa19d6ccc82e5a9c5777c94d194e37aeff6c05dd8df03961fbc 0x7936cf869b1af3797bc84ccaafd27e57b104bfcec1406c6e19415a6fe49a7296,
    Sqr 0x3964dbe973a3df23e232901ef9b8e1147f028f034c72d30b0918f0bca266ddd9 0x443c0641d58d3f5487a44784a6031026fe1818e24908f1aef5e4739cc98982cb,
    Sqr_mul 0x245fe2cbd0ec9596b50aa7341f4af79cfbe2de6dc9a617dc9af5b145cf382a26 0xa1d2b9b49d9be11561584e24e682e3203496e28351448fe7ebdcf0196837404c,
    Sqr_mul 0xcc957614c28e6026f62589d76595a24e672d65c57484519143f8860176ba3c2f 0x522e902aa519f36aa6d14966ed5c154f213b9cbbd36207d5c065109d9120f631,
    Sqr 0x1a61dcd37247f61b9608574f6d9e2e2adce214b3e0cb050c1e460333e2bd2ee3 0x7bcc9dbaa1ee2d436ef9b7a1dce111b2867d0800a0121b4a07eee590c2faabe,
    Sqr 0x3bde431d1a3b65c4c828c314c54ce5e92ec3b098ab22c170ce29507ce33d55 0x5c87cdbce42658aa2c83db4e1c102629e30c00c30dfb9ba1d6cd9988b71bd6f] = Some (0xd8389a7a172c, 0x5c87cdbce42658aa2c83db4e1c102629e30c00c30dfb9ba1d6cd9988b71bd6f)"
  by (simp only: pow_chain_simps)

lemma pow_n_r68_6: "pow_chain 0x10000000000000000000000000000000000000000000000000000000000000000 0x14551231950b75fc4402da1732fc9bebf 2 0xd8389a7a172c 0x5c87cdbce42658aa2c83db4e1c102629e30c00c30dfb9ba1d6cd9988b71bd6f [
    Sqr_mul 0x42e3c7d4cd1881e24241a3371fefdb474b0a22dd399d764323f80243c590b3 0x51798055e3c7ddcfd21b272709740f7c325d99cc9d61b6532ff77344facfbcf,
    Sqr 0x19ee1ce0ebabcde61c9ef9f78bf6b2022230a1ac0c46afaf7c9e9c30cd058e 0x48689424cd453dbb06c30d2f486317e6ebbeb71db03d635dc366faee196c1a53,
    Sqr_mul 0x28f5fc1ace309b3b966993d1378b42260934d87b14820ce9e797c39b197fd177 0xb4a2f1be5c333478e604e266beb9b3f88a0f6a3f3a0aa86f931a2c2710bc879b,
    Sqr_mul 0xfeeb175515b9537ba4f8b21d000915e250dcbba59062852098b4413152af0b07 0x59b9fca659a7313c771e74619a454da6fb96893abd12f282ccd912cf33411beb,
    Sqr_mul 0x3ee5b195983780f582bfd297a84611fcd7b6718c5a0f357aededcb840139bcdb 0x7f631217bd18616854f312d8e10a649a9fd62e8b6dfdc464bb4c5939e5f444d7,
    Sqr_mul 0x7ec6e4951a8394979d781f1756d2a58d1755d789b976905c1e519b78cadf44a7 0x2454ed9ac3e3e3d066146484ffc035d99204348f96f11815dae6ee91865d03bb,
    Sqr 0x527ff00513091e4555ba5513bb06ed13af3e513abd1780722cc8caa9030d077 0xc72f2064d2407e7ce6e0e5e9e58a71ca70c125c89c3cee6a0632a2ddcf7ec562,
    Sqr 0x9afa4d09a7fed499af7e57170fa937b9c721d7686dad0a04abd8c962a067b32d 0x4c68dd92cb111558684542e751bcdf27a7f0ab73f0335099686d4e59f6570e17] = Some (0xd8389a7a172cbc, 0x4c68dd92cb111558684542e751bcdf27a7f0ab73f0335099686d4e59f6570e17)"
  by (simp only: pow_chain_simps)

lemma pow_n_r68_7: "pow_chain 0x10000000000000000000000000000000000000000000000000000000000000000 0x14551231950b75fc4402da1732fc9bebf 2 0xd8389a7a172cbc 0x4c68dd92cb111558684542e751bcdf27a7f0ab73f0335099686d4e59f6570e17 [
    Sqr_mul 0x2d9cdd07df3bd2ab2a51dbb88bc323be861cafa1eed9b9ee13b321ac16190bba 0xd4daa27574b2e274ceb1696036b4915bbcf5584bae6d9b9ecea08283ff3ed7e8,
    Sqr_mul 0x161f5af9740d7caa2d92e968bb025f7d3b86d8fafe284180fbcd80862cac4a869 0xacd2a618046b93234a0b2876b1d45380c0c4f20a96c01c6a2f1745acb41798d7,
    Sqr 0x74abbc85311af63128755d1faaa45fecf859a9d30f988ce3fd1272a57d948e79 0x8f47d6e0abfac985df0843912786ca536ac8766c9a6e5f26a9dfcdd731771ed8,
    Sqr 0x50315637e51df6f40ac26c20d429938cb4ed957f79226cc2861570f7c4055fd9 0xb8ad8f875028aa7b3ed407551def036fccf105e8cf6649577f8e28afb60de727,
    Sqr_mul 0x10a73e7fba12a7e354ead48984e65dda2464a02103d5f9a5a26419948b7d96752 0x5a1da43d677dff7eb2d59b231149e5a6b7ff0761d97beef6ac908eb2309fc210,
    Sqr 0x1fb8dae9cc0cc584e3af6e982b4aeb7e1f5473d15a9f070eb580b358dee552e5 0xf13ae71e7526a59ad160e52ad97bdfd400f6f8ab1155fd58f2ec0d9a44680fdb,
    Sqr_mul 0x1c69fe969c60fa8b7e3cfbd7b1b50f7b9d8ee4d96c9f54eb7061d830710f6da8c 0xa2384b46b3218d1f44e4b6544085837caccc5171f92e65015e9d661ca023c126,
    Sqr 0x66cb4ba67fc755c56d410a0980a1585bdea86e545b6014d53b77f5e4af15714e 0x5d96d186a7d1112d27302f0cbe89546439a6f1a824fea005bbd1c9fbb573bed6] = Some (0xd8389a7a172cbcca, 0x5d96d186a7d1112d27302f0cbe89546439a6f1a824fea005bbd1c9fbb573bed6)"
  by (simp only: pow_chain_simps)

lemma pow_n_r68_8: "pow_chain 0x10000000000000000000000000000000000000000000000000000000000000000 0x14551231950b75fc4402da1732fc9bebf 2 0xd8389a7a172cbcca 0x5d96d186a7d1112d27302f0cbe89546439a6f1a824fea005bbd1c9fbb573bed6 [
    Sqr 0x2236ed160b37b4526a4f130e0ea501ee3cf7a8dc89e3e50cf976811536b36e34 0x6ef1babe444425c726001a029864cca55c53c0e41f732cfb6ca54ab9ad042bb0,
    Sqr_mul 0x602941794a4042c567bebf2b4ab6b17754e20caa9c8cbfa28ee8284fb1011579 0x8ae103ad2240d2d4f4b5c7bb498a17748192484f2e3b9475eba432f47aa90547,
    Sqr 0x4b575dbe1f519d25074d5cd8abfb3373e7463e84892b9836c7e634ccc3ffa53b 0x682f915b8473904992218fe0929fb404de9c724b77f17fe0dad2d9c52c8aeab6,
    Sqr_mul 0x54cd5de21b82a8da33c474100d1e117566cb2605faeacf888714f40ed5e3a65a 0x29e4b87ae10d2a7551cb0cfc8c113a8019d63fc9ac110721f17fd1df93cc5bee,
    Sqr 0x6db0f707be7f58b6899fe8d6fa65d89478a32cf5bfe0447b0fb6c8963a8a81b 0xb3906403ae8fa1caecd51e91fd7a39438ae6c40f650c0ab60e25c13c721f8769,
    Sqr 0x7df33d4dd1541e4590485cd09a7e056e356fa357228cea823b135524ee416443 0x8ea450f887e8f43a9f3d72aa37e96e09be4374abe6ce41ad71be12eee7dc710e,
    Sqr 0x4f7ab34b8ed0d7a327e98c9c160a612f72913809977a8afc147d18159071837c 0xf3d2cf5e70bd556ba9f22ff29bb71b82fc2c6800c472d3b77fb30624caa07e48,
    Sqr_mul 0x1d073c68c51e487e76c334e124e7054a5ae944621e791f2b62824bdf959f3b20d 0x89f80ed357780cafca2ecdf7f4f52a543ca7122dc371bc3ab8b174fa9ac26633] = Some (0xd8389a7a172cbcca51, 0x89f80ed357780cafca2ecdf7f4f52a543ca7122dc371bc3ab8b174fa9ac26633)"
  by (simp only: pow_chain_simps)

lemma pow_n_r68_9: "pow_chain 0x10000000000000000000000000000000000000000000000000000000000000000 0x14551231950b75fc4402da1732fc9bebf 2 0xd8389a7a172cbcca51 0x89f80ed357780cafca2ecdf7f4f52a543ca7122dc371bc3ab8b174fa9ac26633 [
    Sqr 0x4a5b703aedf3c2372a28c7f23d21f7633751ff706f732818ecc646a899bffa83 0xbc9b2fed2fbe5e2569d997302e34edbbe1cc07ba0f90aa7e462e06aa5a1ccfe6,
    Sqr 0x8af44c7770505e164ab945d159a1d5252f33c54fe0d6995de6bdf26959dade4e 0xf6727f92d45cf43b84017abf02625201f2bc913e6984a8990b12dee133ad82d6,
    Sqr_mul 0x1da8080c81cf5962e167040aef52ee27f7e7132d78cc29c420d78a5398f0ead7a 0x36d6ca476941e2dd9572db8ad9055cf33ec3d428993f43e09520221af3b20fce,
    Sqr 0xbbf518cefa08be44d5af4768a0815c479764d8788419533d6aeeff245a5c9d6 0x313d36a487b5e814a0fd54dbbf173a3b68e6db5bcf4f1d7ade7da981d4f6346e,
    Sqr_mul 0x12f0fb1c240c450eccc23b2eeb3b3d6b4b79d3caecb3861b1eb47d9d7501ac49 0x8f054e75bce6bcbacc35fca844754ca162fa4ca45b70f7d648cd9d0432b876ff,
    Sqr_mul 0x9fcddb87635e3a3dc17cad72e22ca81b1b5a191806a3872d48872e8ff9675527 0x105079b3c0d5556ce01c344cbefcf72569ac74a8a7e35a17f9694d8c8daa9e1b,
    Sqr 0x10a2882c24e9a83e666ac30ec9165601a368a4069c895bd823af4a4cb5fa22e 0xfe382370482689383ec4a4a538cf6fc044d35e9e9c043e85e1986ad39a577b2b,
    Sqr 0xfc7372a25533ee2164bcd21d3fa83925ea36bd4b05719b59dd8c51ef0571acbd 0xde4c4706a77c6db0e3e890daf6cba6fdf206bf61aa88fd26486a25346fe5803c] = Some (0xd8389a7a172cbcca512c, 0xde4c4706a77c6db0e3e890daf6cba6fdf206bf61aa88fd26486a25346fe5803c)"
  by (simp only: pow_chain_simps)

lemma pow_n_r68_10: "pow_chain 0x10000000000000000000000000000000000000000000000000000000000000000 0x14551231950b75fc4402da1732fc9bebf 2 0xd8389a7a172cbcca512c 0xde4c4706a77c6db0e3e890daf6cba6fdf206bf61aa88fd26486a25346fe5803c [
    Sqr_mul 0x18210c3d39447e266711f073d6204a09a985336265ad5583f252da0c2c94a841b 0x747d26ee54f3aec886c36e8f53ce9385dd4bbc5231da691bb65a164291ffb645,
    Sqr 0x3501a87707a76b78d3220e91549478a5423a1eaf92f812ae8731123e6e2e9c62 0x319b8352ca594e68887bbd15bac04e276d5aa2fbabec0202b1df692a5d0597b7,
    Sqr 0x99ce6bdfb150e069e3ae9c3f0ad2c20935aaf6fef089546fa827765257a619f 0xca988c8de6f5c0e250657efd773035f5da0ceb8018d9ac9c5f7adb1ddea93c72,
    Sqr_mul 0x140aa316e4c5336fe7358515795827e33605e917d436f44f9125e4e712aa36828 0xebf4b670247ea1211a6414057dec2456e85aac168c8010b3f5d558d6033ab60,
    Sqr 0xd97b30de2ac9b239eea9f5f9f51db056cd7201b5ffc7b8978d36e91f838fe8 0xcfec9a10110e5af1af67e0703a812b66a31da13fc50fe7872cf1c2f77817f218,
    Sqr_mul 0x151c0f7a4cbd7fe23df3ce538c12b4adf8f389e609d67612723d967d6c29d7758 0x33fdecb31fc98a3a19dee51c8a5b80b0395e8fe27d06e70b243287c7b8aa1f28,
    Sqr 0xa8f282d1391e15f6bcaccf1c9ce3fb98cc656f89d50a7baa0753d03ce1b0cb9 0xe2fd2387d0de6a72edc209e27072b66e1a73415e534172b8e16ed183b2cb8247,
    Sqr 0xc943ed0b0c29f6bc190e6b6cb76a31805c3bec2d17466145e46a156f7e5313b2 0x813a00222fe2b545ff880226c66684ba0bf57207b58d50e2efabde5ba841fd7f] = Some (0xd8389a7a172cbcca512c94, 0x813a00222fe2b545ff880226c66684ba0bf57207b58d50e2efabde5ba841fd7f)"
  by (simp only: pow_chain_simps)

lemma pow_n_r68_11: "pow_chain 0x10000000000000000000000000000000000000000000000000000000000000000 0x14551231950b75fc4402da1732fc9bebf 2 0xd8389a7a172cbcca512c94 0x813a00222fe2b545ff880226c66684ba0bf57207b58d50e2efabde5ba841fd7f [
    Sqr 0x413b814683c031fb706c09b8316cf5ecc5376d30bc94c7dabddbb857a61d58ce 0x4154dc8df784514aa13751aae78f2a531646f77704cad1c009220394a90e6ab3,
    Sqr_mul 0x2158684325bfe08683449ca9fdd75c3b9f7e14aa889948184dc6789e39c39c63 0xee8197daea1523cab7a4aab9fde374e951845e9ed293adc2a3c76a0199d79a2f,
    Sqr_mul 0x1bc6a6feadfe66666e41004f0cab66585baaa706bc3740598ef6d72ff9a94177d 0xbf6efa7ed10424eeffbef64f71cb832d48e90dd8992245dc602052a8adae7585,
    Sqr_mul 0x11e4d93caebf77b75c3c34d94b705f89854938d18c4c7579b4b446cfc44b742a3 0x4d642d3fb354a9c8b94a5c90be67ecae4777d79e61282c2e0833ff22f8a85fcf,
    Sqr 0x17656a6bb3a47d2ce94321254a35f0057f0370c439792750294b3c01d215f880 0xa02e696c758c963f1b7f33334b3c4859311cf91cc5e3371681eaba029cdeb0e1,
    Sqr 0x643a0c31a15420b598e53a0e6c2406cd6974506a66d9db249bfa3be8585eedef 0x38e08d99fda551ab56130810fa83a584473bd0a8c2bd53ac4d1106528d840d12,
    Sqr_mul 0x194605d6f58e662650c2fd44dbfd91544dd192edab2575b0662daa445a321262 0x5abe8e8d48cd38e435d5ccbc004137e7e9420b77106c821a899a8ebd80681da6,
    Sqr_mul 0x405514268092cebbb4f851e2389ae41febe7fb6a7327784b5a2540fe6d7db9f6 0x32cb2dd78d30e1bc39fa2e6f01c1f9ebe413a7eaaf37b487d130da8619661d2] = Some (0xd8389a7a172cbcca512c9473, 0x32cb2dd78d30e1bc39fa2e6f01c1f9ebe413a7eaaf37b487d130da8619661d2)"
  by (simp only: pow_chain_simps)

lemma pow_n_r68_12: "pow_chain 0x10000000000000000000000000000000000000000000000000000000000000000 0x14551231950b75fc4402da1732fc9bebf 2 0xd8389a7a172cbcca512c9473 0x32cb2dd78d30e1bc39fa2e6f01c1f9ebe413a7eaaf37b487d130da8619661d2 [
    Sqr_mul 0x1427fe53de6d01aa58ffcae63992a338beeb7255f12fff6b1b57940442cfdb 0xba4f03efc8dca080c03144eacd850fa9f2305bd372a12e6e8ffef5c803023eed,
    Sqr 0x8796ea1bddee10b3fc0e64632d64e37bd4560c8fbd748d0ef444fa2dce2262b1 0xab668f569358100031c3ccb42e479b65379891910c803c71bedd7899e60ba778,
    Sqr_mul 0xe5845928642dcae170f8e7ca7be0f2b1c587370c6bca681253ad59c13311608a 0x7be672165c5b7ba9e4105feff06e5ed91de9d436696b7cc7547b0a2f05b30376,
    Sqr 0x3bf74112afc5c96cf19bfb81fee0df564ae6af848f364c346c990e9cc23dc901 0xd58a01a62a7e7ba1a0db5691d165b4c38bb2761baa797dda69a4fea03b20b023,
    Sqr_mul 0x1643de24893be0490bff784ea8cc2e0462ab1605bbd814c596191b0627c35b867 0xaac72ee040015a5a4e0e3440fe1ca2d7fe8c1a8f63cdaad4abb61c3184b0506b,
    Sqr_mul 0xe3da4a777c755315edceed807b9675aaeabffa4295ff4258ca2b4e4ad4931f11 0xabf7c830bc2099bdc28dcdbc70ae82279e7d33ac9fc55285c2d17e1a56f1e521,
    Sqr 0x7384f54505eac38634c8eb98c8537232238ef381cf2ca02a9f155148f2333497 0xc1223d7ca476333b28ca416edbf45aa7e97d90b6e463c334c1b062171a015cea,
    Sqr 0x91b4a54a53da8bb4dfcb475981447408498db7dd6ed353a1fdc2392cae5bc398 0x25dac65d010480eb6e7976f2035c06dc4cbdfb8554fcb594d2926e90f86c44c] = Some (0xd8389a7a172cbcca512c9473ac, 0x25dac65d010480eb6e7976f2035c06dc4cbdfb8554fcb594d2926e90f86c44c)"
  by (simp only: pow_chain_simps)

lemma pow_n_r68_13: "pow_chain 0x10000000000000000000000000000000000000000000000000000000000000000 0x14551231950b75fc4402da1732fc9bebf 2 0xd8389a7a172cbcca512c9473ac 0x25dac65d010480eb6e7976f2035c06dc4cbdfb8554fcb594d2926e90f86c44c [
    Sqr 0x598f84d5265084c539a2648d089c977452e2ce582b3ca74ce80e6e2d2bb26 0xf4d30ba1d3cc72884df51dd48a08c000b5e22ca7a74528b8b3963cc98b0a4bea,
    Sqr_mul 0x1d445f851521057b0930c6249beaffaed0be3db40b298fad03a0850f44322a141 0xf30ad512dd865d6b4914ca8b8e1c6ea0843c3c9d441026d4b7c53bac97237147,
    Sqr 0xe6bd90f7275ec9de772a1ca8cd3f51e215c094efc5b4f521230f9ba26aab0a72 0x445014dc0d542e45760975a4a9fbece67d2fe1967da6bbb1350bf9b6966928bf,
    Sqr 0x123aa421f2502c6de2bad69ecfcb764e4add8af2c2e3886bfceb5ccc6b83ecfc 0x5f31b3d11e13ff61c264082d81cc2fb9db70fc2ab36c5bc910e46d21be571685,
    Sqr 0x2365ed1b88ae761469050d3f035c6cc3ea050eea17c5a7dcd7cc77f0ac6d2948 0x4a335f1d39cef814456cfaa23dd68f42638ae2c2af88e30201e7cf8307fe5dd1,
    Sqr 0x1581bd4bee6764205247bc3d7d0b6c14805eb56f12b3a18b1d1ffca6573032b1 0x51e302ce07948678b9fe971e44dd7e70d9520e60dc2f2f2b801c413fd9abb4b0,
    Sqr_mul 0x3462e228b46a98daca516fb5a77f1dc7c0516907242e5f3444b250da5a895c0c 0xdee708b3866e2c6bea018ca7f858c617bb8cf7e8d09f96df8f8249797d8886f4,
    Sqr_mul 0x1842b073022decc56f816c4675c7ab16a56519ab78b99787f20509535ed14e5e8 0x27227f451f89b9fac55b1bd60050a9c64d90a3618f448c23e248328b652a6938] = Some (0xd8389a7a172cbcca512c9473ac43, 0x27227f451f89b9fac55b1bd60050a9c64d90a3618f448c23e248328b652a6938)"
  by (simp only: pow_chain_simps)

lemma pow_n_r68_14: "pow_chain 0x10000000000000000000000000000000000000000000000000000000000000000 0x14551231950b75fc4402da1732fc9bebf 2 0xd8389a7a172cbcca512c9473ac43 0x27227f451f89b9fac55b1bd60050a9c64d90a3618f448c23e248328b652a6938 [
    Sqr_mul 0xbf70eda3a7bfe68f2cbc9a165f763f236941b11cbb88552d2c82f6ae8363724 0xcaa2dac7d512f178d644cf4d41c43724f2848df13f86c9ca15c0aab227e1d45c,
    Sqr_mul 0x140cad1b9f84907db0e4308810dd8412c557e1647c94b99b7050851f760585728 0xbfb59ba153c14dbe46631799f7e97b19414c0326e1220f8f515191d3cc1b8f8,
    Sqr_mul 0x11f20fe20576f44e0c98d048eb20afc653bc0a31a772fd3f0525ca8fca1561f 0xc60ca8e325e2ceb24e533d938f2ac95f93eea1863fbd9ba56e9e28f6e0cc23a1,
    Sqr_mul 0x1326f2bbf46a2a08a2e001586a82c903fcad5916af7178372c45bd1ab07e03c7e 0x967744fbdb87a87a8b3bf1723368b3da99a64686ab9a50af3cf77855093b7c84,
    Sqr_mul 0xb0dff8d0b3ffabed0dbd1a2bed26322bf1647a6f75ce776cd42db1a92776e948 0xeba401c6389ccbd1ecb6f1a782cb7865a9fd830486e99260635e557fe733c4d8,
    Sqr_mul 0x1b1cd08a863d71a0acc6e1faf46a2c84067c444ff491fcdf86e3864bb1351add0 0x37ecc6ec5e83965e99867d4685867e2abfdf7e21bbb2f9938adb7a705c17fab0,
    Sqr_mul 0x186f30f1ddfa9357acfea7862e11da87fb9a315bf5aa57d45ac6226f1e60531a 0xdc499481cd0ce17086cc30573f5de59b5102e01569b8c95d00a811df2f2dbe66,
    Sqr 0xbd8e8c65209b6bb929bec481994fc65caf188f0accc73a39c6a59ca1f970729e 0x458ef0951bf1d9215b5fa3238bb7be2252cd26c758051a5776b48313817c5886] = Some (0xd8389a7a172cbcca512c9473ac43fe, 0x458ef0951bf1d9215b5fa3238bb7be2252cd26c758051a5776b48313817c5886)"
  by (simp only: pow_chain_simps)

lemma pow_n_r68_15: "pow_chain 0x10000000000000000000000000000000000000000000000000000000000000000 0x14551231950b75fc4402da1732fc9bebf 2 0xd8389a7a172cbcca512c9473ac43fe 0x458ef0951bf1d9215b5fa3238bb7be2252cd26c758051a5776b48313817c5886 [
    Sqr 0x12e65d8028934a97ddf520796634616a295bd9aeade34f57f95b109ef3a31a57 0x6f6d029bbcab63e31af7034bb7361c0b190a1c1556088e4e04ecfde667f89f0d,
    Sqr_mul 0x60ff6d5c8c84308561dbb42e4500c037e0e6f278f04cfaab3117e4227018d5c8 0x199cb494ff52eb39050ab0c1c7b0314d2f8a0a5421c906097a252615a73c3d8a,
    Sqr 0x28ffb31aed73cc4a1c8b00942ccec2bfcfee182354709f47740d262f9c77782 0xe195f2f5f514cc665deebac3ca79924dfbe2b74703a4a8b1aafc52490d11b462,
    Sqr_mul 0x18d91d9d2236792586e51254a71b7ef5a57eba2746269b3447c2570187486867e 0x1afc915c7514398b2eb130cd440188239032ca87ad0adf8a2b678c845359c70a,
    Sqr 0x2d846b548587986d4c46fe251ee55ffc52466ae6f528403bcef327dadf6c6a4 0xaad4ca4642a1a4b7de872f28a6073189ff786bc76ac9b50240a1c0a4810478c0,
    Sqr 0x71ff4d84f4affeec9dc41942882e2d7b6cb1f4a6edcf0ac510effa479f850f10 0x281f9e94c84d5451137b484c877f59c7d5d0cdfb8495f91b89c19d0707f8acf0,
    Sqr_mul 0xc93caec91b95596d7df76b1474ca876cbf2a5a4dcd423716fd6a806071e0326 0x15ab77951da60fb0208e224b3a7be7ffbff65a43add3b5aa15b8ff4754374f5a,
    Sqr 0x1d594776feed2d7c3f5dc12722edaa021d12770c9a51b2cdb84c89cf5a0035c 0x5d9d2194a3de59d569a4e15b46cd86ce83d37bcbf025fe93114d6ceecd617548] = Some (0xd8389a7a172cbcca512c9473ac43fe52, 0x5d9d2194a3de59d569a4e15b46cd86ce83d37bcbf025fe93114d6ceecd617548)"
  by (simp only: pow_chain_simps)

lemma pow_n_r68_16: "pow_chain 0x10000000000000000000000000000000000000000000000000000000000000000 0x14551231950b75fc4402da1732fc9bebf 2 0xd8389a7a172cbcca512c9473ac43fe52 0x5d9d2194a3de59d569a4e15b46cd86ce83d37bcbf025fe93114d6ceecd617548 [
    Sqr_mul 0x447715b067906918e75656fa2cab18463c39226f9a02dbed77c61f90c6f95746 0xc66ce788b2a42c5dbeef42c0fd19dfba34831dd6c2acebb78b26558daf59d9ba,
    Sqr_mul 0x1339948f7422955120b387c9980b502273aeb1e7f15ad1d3eeaf1776ad03ffb66 0xd5d25562d6f2fe9778a7cc22efb49756086ec5850b68a4c2307059a9ca69fb62,
    Sqr_mul 0x1652f5dcd58a79670c5bfaec0d709b3415732ac31bc70d1e6813b26f50eb08900 0xea1ba0ec3434697ec385cf3344ec0f863b135b6e7eeb11de27a45e7536deda08,
    Sqr_mul 0x1ac2d0a564cd5de379aa851736dda711b65b77dd3e681b716631c5ca78521ae34 0xe4a42898a48924f3fba084ffaee4d759827bcf8174981d67676204292562d14c,
    Sqr 0xcc34d193ef1727f898f873bffc2c0e9652de26fc179b0d5be57c3a3c09bbb927 0x9ba6c2bfb2aaedda9b3643aadb8126be8597c14f5a740a5d604cf1e9006644a9,
    Sqr_mul 0xbd46b8ea8e3b9814af6ac94e882e2c8ebd14edf3bbf9bd9903cd9542a3aa2735 0xbf10b71fa8cb37b80ec47817bf4209f163a80cf0b693d09d1c802ec47ad605ad,
    Sqr_mul 0x11d33e4b149a53b90ee6e03cbce1ac05853bc94665b3476cc4d5d37cc9be56dd4 0xfd5a864b322a98e516bd9ee036679ce5c53489ded66944246c09c86281dcb6fe,
    Sqr_mul 0x1f5781ae6a8f48d86adc1bc6973f67b314b5e48887b7182ab11bac15c56163d31 0xfe809010f706c6f432397886589a76fbe0802b82c840fa9bba8718dbcd374d97] = Some (0xd8389a7a172cbcca512c9473ac43fe52f7, 0xfe809010f706c6f432397886589a76fbe0802b82c840fa9bba8718dbcd374d97)"
  by (simp only: pow_chain_simps)

lemma pow_n_r68_17: "pow_chain 0x10000000000000000000000000000000000000000000000000000000000000000 0x14551231950b75fc4402da1732fc9bebf 2 0xd8389a7a172cbcca512c9473ac43fe52f7 0xfe809010f706c6f432397886589a76fbe0802b82c840fa9bba8718dbcd374d97 [
    Sqr 0xfd035e720c3b909af6e5efc333ed3af27b2cd4324477a9f0a45cb8199420f95c 0x983088cdcba83ba79fb50ece73812d3e8b2336f0ef7c387a2dd54195ef4e82b5,
    Sqr 0x5a79aba7f81f73bff958c6cb0f7b3c07fd71669d4ef2a5be4112df50c2ad8ef9 0xeebc394bbf962ff9822ba931b0deef0e2f9186102e4141e2849d8f1e723cdc0,
    Sqr 0xdea284ed0c4f7785173f0a952e66d26c70af6810e1d215a380fec9a73b3fc8 0x978a31b77fed13cf7661b7939bea13735f1454a24f6ebc252a116576f2701638,
    Sqr_mul 0xb368a28038ceb6f1ff8f76187857959b1d55876648420a8736fc027aa5594b9a 0x4dbd1a7678ab23363fce9c62ad82753d25b0756d41f5c276140875cfeb810c66,
    Sqr_mul 0x2f369b36b482ce6db491bf13f6e769e2beb8b236fcb0b4d073fae52f2a80bb20 0xbf0fa9d98a29f03b537e5a58a6e6e643d4b797eb88a363d7095e1e1393d8ce28,
    Sqr 0x8e986067f459b6a992632a4e0962937dbd3ee52cff0fcf6f767bd4d85a99e35e 0x53e3a36a807048f375bcc424a0a8049256b57ef5e16fec7b64c5b3c40fe2cd62,
    Sqr_mul 0x36faccc48cf2c499b0dc3f65b59125da9a60526515d4b2e48ac08e92707b8042 0xbf0844d059ead23d3037e1eda15440289ec300c035bbc5cfd27dfa08eac3e046,
    Sqr_mul 0x11d1aade68b62bb76dd43527ca0ed3fb0651acd93a73953fd74dbe9f71c564e0a 0x6a0f4c2ff444712fdfc5a9ab494dfb9afb2077ea29c55d2a9668377a1c66cbbe] = Some (0xd8389a7a172cbcca512c9473ac43fe52f71b, 0x6a0f4c2ff444712fdfc5a9ab494dfb9afb2077ea29c55d2a9668377a1c66cbbe)"
  by (simp only: pow_chain_simps)

lemma pow_n_r68_18: "pow_chain 0x10000000000000000000000000000000000000000000000000000000000000000 0x14551231950b75fc4402da1732fc9bebf 2 0xd8389a7a172cbcca512c9473ac43fe52f71b 0x6a0f4c2ff444712fdfc5a9ab494dfb9afb2077ea29c55d2a9668377a1c66cbbe [
    Sqr_mul 0x57e1580375279f8a4ca8e059b04849b8b1608714560b316ba828e5dfcef8baa0 0x8b456b12bf5cdde4409a268612eddf427b50f07d2eed6e2d802c34e708d3bf68,
    Sqr 0x4bc4751940b2ae5c94c9efd3237e5aaf781fdd218a9d2011428ca009913d6da8 0x5b8bd443336f750284cbb4857e08d9eac53310f3c1a056355ea548f79abda98,
    Sqr 0x20bcb547f78a770d6b9e0bf584c25f249f5bab644c3448e06b974347a825b6 0xa6d486baa0be5196f6cbf81ff372c6ae7e09a5c43e7863f2f6e930e6ba0e710a,
    Sqr 0x6cb84f297478f55c210054d277603f2d49198dc8bd8433ca1930447854aabf5f 0x70ba7b9f4977b2a755abb359f4ad8cdb1e05a4c5fa1d4500865fc988af061e45,
    Sqr 0x31a3b4033f71f1f76390ee79c18b54bb0ff5aa1b12271b43fafe060311eab749 0x4ae87c15fbfafaa581baec6bf8b64ae9990189fca5f6cd38f3220c29a6482c10,
    Sqr 0x15eb3addd9ab1dcc6cfec5de5a3d2971653c2beb9abc5463b924845edadef17c 0x4eafc1088e9df141b6f65110c21052bad8bc5ead88a24abb1778b1e9b281b484,
    Sqr_mul 0x305f24956452448e84dc02752b78239814b02983133bec5e24ece8e7a52068e1 0x829ba2408555ea156aa4d493ec84e9d298c7162560c24f9f7dc46b36e15205ff,
    Sqr_mul 0x8544deced0c4e195c5d2267a3fc04da56aa6bc79cc710c2c32a9a7ae8e3690ed 0x19b76cda74acb196199b06b41f03c8b977655f410e5d375b8d50727f125aeed5] = Some (0xd8389a7a172cbcca512c9473ac43fe52f71b83, 0x19b76cda74acb196199b06b41f03c8b977655f410e5d375b8d50727f125aeed5)"
  by (simp only: pow_chain_simps)

lemma pow_n_r68_19: "pow_chain 0x10000000000000000000000000000000000000000000000000000000000000000 0x14551231950b75fc4402da1732fc9bebf 2 0xd8389a7a172cbcca512c9473ac43fe52f71b83 0x19b76cda74acb196199b06b41f03c8b977655f410e5d375b8d50727f125aeed5 [
    Sqr 0x29556af79659671d6baf1a0515a475bdb36eef3517e72a45af23c758eaa74ff 0x9911e657aef948be0fcb4479fc53fe28f14c528a6cc32b67722dae61ce497a,
    Sqr_mul 0xb70ccd2a6c19c4fe57b7b013adc44b88caf5f3ab7223033e1152febe83cf 0xc54fbf47ffea9824c328cbedd637a27cc7f10dfc663009def7846844875c95b9,
    Sqr 0x9813d53c6d3b85127e09aeb8c3d593df77498490449f1b5395858e1b897e0172 0xa47a4976c8af11a76c3a20b4e42e1ef371b6842a92f9437fe2b886ad3d208fbf,
    Sqr 0x69ace88a4b6c8b0ccd0566ae9a3a58f40df76e83aa7efa445df897d1bcc1b616 0x5490f3f7ec50ca2a72a59dad8f8feb33d13594af8c24f37f14891ac6e1681eeb,
    Sqr_mul 0x37dee45c24fef49511aad73057eb7bd576067880006e4b4189b8f8f80e6458b2 0x89888c16d4c7f5937f866d0fbd1522407b887ea321b4fa168c02df35f9cc2040,
    Sqr_mul 0x93c6dd8b295228218611669f5b3012a80807cfb72afedbad1c10ef1d9d7c5553 0xa027248759824079316a7928010c7c91dcfb29565685095667468b8cd66262ed,
    Sqr_mul 0xc861e74aacacde0697001d69971c00ee80a39a0fb6aa97d70215e8375789601b 0x53760e4efe4a4aac97c6d0ab0da028f01d40065ef2a68b6c5679d7bcee625cf7,
    Sqr 0x1b35c3b86a835518d38eba1b433ec90ab4aeb203a43f36f87a92aa3f05a0e3d4 0x1a9db631284a5d496c1eb73fb3666f7f2714c895701f03de5a36e403fc73c97d] = Some (0xd8389a7a172cbcca512c9473ac43fe52f71b834e, 0x1a9db631284a5d496c1eb73fb3666f7f2714c895701f03de5a36e403fc73c97d)"
  by (simp only: pow_chain_simps)

lemma pow_n_r68_20: "pow_chain 0x10000000000000000000000000000000000000000000000000000000000000000 0x14551231950b75fc4402da1732fc9bebf 2 0xd8389a7a172cbcca512c9473ac43fe52f71b834e 0x1a9db631284a5d496c1eb73fb3666f7f2714c895701f03de5a36e403fc73c97d [
    Sqr_mul 0x588d455ec48e9c70af092fb8e3c38cbdcc0a1a899010fc3a3b0a79ccad72f11 0xaea46850f773423fe444f35a2484e54ea4bd3ebb0be6ba7a8681ab7989ac9c1,
    Sqr_mul 0xee47cec7c53f38c9f26e4491cdfbda60c3c892a8331e69be4e01f7f8addf7d 0x9599729307272efa42742c96dc4fa3c6b705b2df6ccf76c0f8c5577c1826cb45,
    Sqr_mul 0xaed7f6b29ab2e0ab2b1157db74d63759ce5e5080bf16d00ebe8ac3d38b855b8d 0xa2948ea0c57d872affbbf2baca8b7e5e3457b738d01d679a3e482ae8aaebf565,
    Sqr 0x67405ab8b34df8456c98a98eb17cc179723889004c7539f041b6d2f778cbe421 0x86f03eb5a8bb7900175c38fe2cb61885fd096359bc1e583b4273bb8c37012c78,
    Sqr 0x4720631bd09d20d1cf8c1620c5626dcc15e8ce6938d22d25c91642545a9a1c66 0x7c110c934c32c716311a2782e9f279c49ef80e9fbf83c2b2fa99e293f0ce5c5a,
    Sqr_mul 0x78410aa2bbfee7029859883cecd3acc54f95794619b9839e2bc7936f14e05b8c 0xb1840328e450fb6ee9521ba253b26ba380db814694c305896ea147f4b093d4bc,
    Sqr 0x7b17d071cded6b14b3d7ac7f79503ba6cf70e1c9b3a4ee55430b0c2fb6091dd2 0xe33a8796473693eddd842ee46bb301a89255ab2f26911ad803fff9ec0d8105be,
    Sqr_mul 0x19361b3ac7465cccbecd4ae400b1fdd07cc358f70057cd3ee658f887a03c0b222 0xbafb3dda68cf540b78d5bcfe48d5b6a0a8bc6c7834458a0e1c0137f016e61566] = Some (0xd8389a7a172cbcca512c9473ac43fe52f71b834ee5, 0xbafb3dda68cf540b78d5bcfe48d5b6a0a8bc6c7834458a0e1c0137f016e61566)"
  by (simp only: pow_chain_simps)

lemma pow_n_r68_21: "pow_chain 0x10000000000000000000000000000000000000000000000000000000000000000 0x14551231950b75fc4402da1732fc9bebf 2 0xd8389a7a172cbcca512c9473ac43fe52f71b834ee5 0xbafb3dda68cf540b78d5bcfe48d5b6a0a8bc6c7834458a0e1c0137f016e61566 [
    Sqr_mul 0x1112418e7731139f1e84e822839c6168c894536576512ade83ea530478890ae58 0x3ec185893c6fcb84017102bfbd96fb3160016dab502c5907f0512b4d4a932cf0,
    Sqr 0xf624ef917db2982b5207ebbfbb2032f852879589fa66ca48b2f3471cb01143a 0x453acb2e2cbad8ed8830120b6abaa16aa5a5f09ba423c01ab363cf262dde8446,
    Sqr 0x12b8bf07964b40dec60b0dcd1a65ad37c5a929987c4f651192f3d7bde4c6ae93 0x5633aee1098aba60a0bd6788626af1d33f12317fd8d851b5ba5c54407df89cd1,
    Sqr_mul 0x3a0d87dcaf1362931422a356569f404863124d2dca3aa140091756c2e6691345 0x7e9cf00d93c79487f5c2fdcae37437ad17dc61a896c5563d26e389d4ede5bbd,
    Sqr_mul 0x7d3db9059e3c0e82d3649483fd429d076fcbcf77ea12f7d8a7d25b55eb6832 0xc78a3bde4f1a78f1d88b5b12ca13a33df65a246ccbe4bbc4a712980ea091ac60,
    Sqr_mul 0x1371067707151542bc30168f6840541659870b20afb002860e9e8df8b141a8d49 0xe2147a09cf377313cdd1760995c8b235585ea1d52441349415d794fd7b9edf77,
    Sqr_mul 0x18f5052393b2743740b9b59a0508e5592e60472419004a3d57e79cf277d7f7304 0x4caf5917766d739cf0b4e3f7c7fc9aba924c9b1e7fafb8cab5eda8ac2b80da9e,
    Sqr_mul 0x2df12a01b6cc718fb0a6f338508d86f2a6265f6f43bf38f62f1ac9e8a802e1ad 0xed8837f5ef6b4c3e853c296d143c7e60cb60163c9e8aff331a094de94adcb91b] = Some (0xd8389a7a172cbcca512c9473ac43fe52f71b834ee59f, 0xed8837f5ef6b4c3e853c296d143c7e60cb60163c9e8aff331a094de94adcb91b)"
  by (simp only: pow_chain_simps)

lemma pow_n_r68_22: "pow_chain 0x10000000000000000000000000000000000000000000000000000000000000000 0x14551231950b75fc4402da1732fc9bebf 2 0xd8389a7a172cbcca512c9473ac43fe52f71b834ee59f 0xed8837f5ef6b4c3e853c296d143c7e60cb60163c9e8aff331a094de94adcb91b [
    Sqr_mul 0x1b8cb0031bdad4ca206568dc0d4211f8c4b3cece82bf102ea886e1840c50489f8 0x43d10065c6b600f5fd5ebce98d11ae6d30fea3172c24152516cb7c9c90111ba,
    Sqr_mul 0x23ee21add863c4497444311d0748c784623a5f8550eb48c3fb964c1c5704c5 0x48b1455266840ccda8a09eb4579c6000f00327428451e19b5c80c35a15803b43,
    Sqr 0x14a431bf48618f9667ca16589a35d021bd73ea3f6bd3a2a5e8806cbecdd0adcf 0xbee2e6e3f1b09018b7756cf9dd14ab762c46f0e96257435316cff1eb36f042fa,
    Sqr_mul 0x11cab2fadaaee65c5c4602f5147d0d99abfce65aaa662fb07ea5fddbd393768ce 0x586c2b219ae8e39180917ad644f36cc87f3a884c677e46ee72c76d642869cdfa,
    Sqr_mul 0x3d1516b70c3e3ecf2ac6231e935535855292b2242f68f06b6b446b5f965def86 0x6d0f9cc2246993c6e17130e640cfb5927b027d4697daaf740f0352a90badd942,
    Sqr 0x2e764c7111bf5bd28e950831ef2dfaf1fdf2fbcea71dd597c61b75d46b97b142 0xe38daf6d0dd61d54a53ad49ff02d0133b60f611d7a1ba884b67e8f812e233142,
    Sqr_mul 0x19489270c39c27a7fe2e4fbd949253b4bfc1afa59d21c914a3dc42a8f998e7d48 0xbe7534ac38a0f4a19808afaf706937326e9e24c54f7e98966de7b4705adf92c0,
    Sqr 0x8db22fd8d451191d01930bda3a8a8f0f50c2e8eef89519d445efa54d0c83f56b 0xae7ebd43406be15783a2da4f1b666f2cbb3d990164c84ada7579f19b3c14d5] = Some (0xd8389a7a172cbcca512c9473ac43fe52f71b834ee59fda, 0xae7ebd43406be15783a2da4f1b666f2cbb3d990164c84ada7579f19b3c14d5)"
  by (simp only: pow_chain_simps)

lemma pow_n_r68_23: "pow_chain 0x10000000000000000000000000000000000000000000000000000000000000000 0x14551231950b75fc4402da1732fc9bebf 2 0xd8389a7a172cbcca512c9473ac43fe52f71b834ee59fda 0xae7ebd43406be15783a2da4f1b666f2cbb3d990164c84ada7579f19b3c14d5 [
    Sqr 0x76f0880645b26f4edc803f61b409b66d796efbc916fb9060547833edc242 0x66b6ba960b3b5d7534b3256e3661bcb138f3b894e2ed96d65ab1d0948bece477,
    Sqr 0x29361f1d6649a725b683ae47690b474193bda36fb3c33e844eb96028dd8632bb 0xfb700c16d81c1264fdc3ee76c79bce4a24e6c7bbc9d4813588b0ae7d4be5d2d6,
    Sqr 0xf6f4e8bf60564aee9ef844520306cec76e28e0fd84c8d400e4ff36f2ec02a8c8 0xccb522f78e12dd60a6625ca8b343efa50873a3232569a091458cf42b90c8281c,
    Sqr 0xa3b12fe50143a89f8de5d6723049e98be61766f167cf7b5631b3b44fa70e058a 0xf72fad2ae4fc27e4688504d3dcad00157194418fe7e63069755b4c74ecf55106,
    Sqr 0xeead0909d0c1aa3e2508fbcc17dee594947e3bd84c5911d1245a556b8a0459b4 0x80894521654e00cb538d9bbda87ca1924c43e68444848439d39a6b50ed475170] = Some (0x1b07134f42e597994a25928e75887fca5ee37069dcb3fb40, 0x80894521654e00cb538d9bbda87ca1924c43e68444848439d39a6b50ed475170)"
  by (simp only: pow_chain_simps)

lemma pow_n_r68: "pow_mod 0xfffffffffffffffffffffffffffffffebaaedce6af48a03bbfd25e8cd0364141 2 0x1b07134f42e597994a25928e75887fca5ee37069dcb3fb40 0x80894521654e00cb538d9bbda87ca1924c43e68444848439d39a6b50ed475170"
  using pow_chain_correct [OF pow_chain_correct [OF pow_chain_correct [OF pow_chain_correct [OF pow_chain_correct [OF pow_chain_correct [OF pow_chain_correct [OF pow_chain_correct [OF pow_chain_correct [OF pow_chain_correct [OF pow_chain_correct [OF pow_chain_correct [OF pow_chain_correct [OF pow_chain_correct [OF pow_chain_correct [OF pow_chain_correct [OF pow_chain_correct [OF pow_chain_correct [OF pow_chain_correct [OF pow_chain_correct [OF pow_chain_correct [OF pow_chain_correct [OF pow_chain_correct [OF pow_n_r68_0 pow_n_r68_1] pow_n_r68_2] pow_n_r68_3] pow_n_r68_4] pow_n_r68_5] pow_n_r68_6] pow_n_r68_7] pow_n_r68_8] pow_n_r68_9] pow_n_r68_10] pow_n_r68_11] pow_n_r68_12] pow_n_r68_13] pow_n_r68_14] pow_n_r68_15] pow_n_r68_16] pow_n_r68_17] pow_n_r68_18] pow_n_r68_19] pow_n_r68_20] pow_n_r68_21] pow_n_r68_22] pow_n_r68_23] by simp

lemma pow_n_d68: "is_prime d \<Longrightarrow> d dvd 0xfffffffffffffffffffffffffffffffebaaedce6af48a03bbfd25e8cd0364141 \<Longrightarrow> 0x978c6f353c3889a79 dvd d - 1"
  using pocklington_factor [OF prime_q68 _ _ pow_n_f pow_n_r68, of d "0xb71d6f711f135bed1fea75409caa7f11ceaae5f4618a3e28e0a0711f1f2d3d66" "0x5bf0e7ec055e92c900f661e11b085cd295dafafcddb58559d48dab7c4f572df9"] by simp

lemma pow_n_d57: "is_prime d \<Longrightarrow> d dvd 0xfffffffffffffffffffffffffffffffebaaedce6af48a03bbfd25e8cd0364141 \<Longrightarrow> 0x17d6cfb8ee30c51 dvd d - 1"
  using pocklington_factor [OF prime_q57 _ _ pow_n_f pow_n_r57, of d "0xa7c436a6e3fec00aee98ee09295699f8b4b9bba19a85d906f19cd2e2ea67ec71" "0x5bd0c00c5ef8c64a3ffe74b74d9b49a158192a4579f958b49651bb16c24dde81"] by simp

lemma pow_n_n1: "\<not> 0xe1cc85ac6c6d3f70246931e5cc18c4a dvd (0xfffffffffffffffffffffffffffffffebaaedce6af48a03bbfd25e8cd0364141 :: int)"
  by (rule not_dvd_cert [of _ "0x1223d9456d42040e378ca5b381c233b5f6" _ "0xd40ff96fa492e316253f1a1cf4b2025"]) simp_all

lemma pow_n_n2: "\<not> 0x1c3990b58d8da7ee048d263cb9831893 dvd (0xfffffffffffffffffffffffffffffffebaaedce6af48a03bbfd25e8cd0364141 :: int)"
  by (rule not_dvd_cert [of _ "0x911eca2b6a102071bc652d9c0e119db4d" _ "0x14bd482643eb6b0fb3708bef44671c0a"]) simp_all

lemma pow_n_n3: "\<not> 0x2a56591054547be506d3b95b1644a4dc dvd (0xfffffffffffffffffffffffffffffffebaaedce6af48a03bbfd25e8cd0364141 :: int)"
  by (rule not_dvd_cert [of _ "0x60bf317246b56af67d98c912b40bbe79b" _ "0x1287c837c4df38b2230d38fef72fec0d"]) simp_all

lemma pow_n_n4: "\<not> 0x3873216b1b1b4fdc091a4c7973063125 dvd (0xfffffffffffffffffffffffffffffffebaaedce6af48a03bbfd25e8cd0364141 :: int)"
  by (rule not_dvd_cert [of _ "0x488f6515b5081038de3296ce0708cedbb" _ "0x187b6c6de8bc897edbfed915fef51a3a"]) simp_all

lemma pow_n_n5: "\<not> 0x468fe9c5e1e223d30b60df97cfc7bd6e dvd (0xfffffffffffffffffffffffffffffffebaaedce6af48a03bbfd25e8cd0364141 :: int)"
  by (rule not_dvd_cert [of _ "0x3a0c50de2a6cd9c7182878a4d26d72499" _ "0x10c361df5f3bdd3415f0f6a51fd09283"]) simp_all

lemma pow_n_n6: "\<not> 0x54acb220a8a8f7ca0da772b62c8949b7 dvd (0xfffffffffffffffffffffffffffffffebaaedce6af48a03bbfd25e8cd0364141 :: int)"
  by (rule not_dvd_cert [of _ "0x305f98b9235ab57b3ecc64895a05df3d6" _ "0x48c569b460ee56309bc432881cfeed47"]) simp_all

lemma pow_n_n7: "\<not> 0x62c97a7b6f6fcbc10fee05d4894ad600 dvd (0xfffffffffffffffffffffffffffffffebaaedce6af48a03bbfd25e8cd0364141 :: int)"
  by (rule not_dvd_cert [of _ "0x297682e7d5292dd75a660d080405087dd" _ "0x548d4c4dd49704add23ba4c8f3c18341"]) simp_all

lemma pow_n_n8: "\<not> 0x70e642d636369fb8123498f2e60c6249 dvd (0xfffffffffffffffffffffffffffffffebaaedce6af48a03bbfd25e8cd0364141 :: int)"
  by (rule not_dvd_cert [of _ "0x2447b28ada84081c6f194b670384676e2" _ "0x60ea68579d073c897ba6df412c03d6cf"]) simp_all

lemma pow_n_n9: "\<not> 0x7f030b30fcfd73af147b2c1142cdee92 dvd (0xfffffffffffffffffffffffffffffffebaaedce6af48a03bbfd25e8cd0364141 :: int)"
  by (rule not_dvd_cert [of _ "0x203fbb261791ce5229dd985b91593f7e6" _ "0x4cbd2c832381e163c1ba9d42222d0c15"]) simp_all

lemma pow_n_n10: "\<not> 0x8d1fd38bc3c447a616c1bf2f9f8f7adb dvd (0xfffffffffffffffffffffffffffffffebaaedce6af48a03bbfd25e8cd0364141 :: int)"
  by (rule not_dvd_cert [of _ "0x1d06286f15366ce38c143c526936b924f" _ "0x805657f34937f84d9e505dd4a45571ac"]) simp_all

lemma pow_n_n11: "\<not> 0x9b3c9be68a8b1b9d1908524dfc510724 dvd (0xfffffffffffffffffffffffffffffffebaaedce6af48a03bbfd25e8cd0364141 :: int)"
  by (rule not_dvd_cert [of _ "0x1a62b064fc02eea050cc93edd40333f31" _ "0x63fdeecefa8db8ae476a048627c6075d"]) simp_all

lemma pow_n_n12: "\<not> 0xa95964415151ef941b4ee56c5912936d dvd (0xfffffffffffffffffffffffffffffffebaaedce6af48a03bbfd25e8cd0364141 :: int)"
  by (rule not_dvd_cert [of _ "0x182fcc5c91ad5abd9f663244ad02ef9ed" _ "0x790f66fad92022e25b898bfa3b08c058"]) simp_all

lemma pow_n_n13: "\<not> 0xb7762c9c1818c38b1d95788ab5d41fb6 dvd (0xfffffffffffffffffffffffffffffffebaaedce6af48a03bbfd25e8cd0364141 :: int)"
  by (rule not_dvd_cert [of _ "0x165381908678a287a6d47d2bb3652bf51" _ "0x88b74b60c5a4d24ae25e4a6b78236eab"]) simp_all

lemma pow_n_n14: "\<not> 0xc592f4f6dedf97821fdc0ba91295abff dvd (0xfffffffffffffffffffffffffffffffebaaedce6af48a03bbfd25e8cd0364141 :: int)"
  by (rule not_dvd_cert [of _ "0x14bb4173ea9496ebad3306840202843f0" _ "0x77e4f41a2f91102575a1fb8b78094531"]) simp_all

lemma pow_n_n15: "\<not> 0xd3afbd51a5a66b7922229ec76f573848 dvd (0xfffffffffffffffffffffffffffffffebaaedce6af48a03bbfd25e8cd0364141 :: int)"
  by (rule not_dvd_cert [of _ "0x1359704a0e244897b2b82836f0cf2618b" _ "0x47721cf214b3d19211ef00c4bb776a29"]) simp_all

lemma pow_n_n16: "\<not> 0xe1cc85ac6c6d3f70246931e5cc18c491 dvd (0xfffffffffffffffffffffffffffffffebaaedce6af48a03bbfd25e8cd0364141 :: int)"
  by (rule not_dvd_cert [of _ "0x1223d9456d42040e378ca5b381c233b72" _ "0xa15b770204ba3dfcd00808937c0e4daf"]) simp_all

lemma pow_n_n17: "\<not> 0xefe94e073334136726afc50428da50da dvd (0xfffffffffffffffffffffffffffffffebaaedce6af48a03bbfd25e8cd0364141 :: int)"
  by (rule not_dvd_cert [of _ "0x1112ae5f75e3c794e8fcd8307a2030ac6" _ "0x5dc17340d1f50dc7ab5d6e0dc9a534a5"]) simp_all

lemma pow_n_n18: "\<not> 0xfe061661f9fae75e28f65822859bdd23 dvd (0xfffffffffffffffffffffffffffffffebaaedce6af48a03bbfd25e8cd0364141 :: int)"
  by (rule not_dvd_cert [of _ "0x101fdd930bc8e72914eecc2dc8ac9fbf4" _ "0x50b4ef51e6156c96e7b107fc275b2ae5"]) simp_all

lemma prime_n: "is_prime 0xfffffffffffffffffffffffffffffffebaaedce6af48a03bbfd25e8cd0364141"
proof (rule pocklington [of _ "0xe1cc85ac6c6d3f70246931e5cc18c49" 19])
  fix d assume d: "is_prime d" "d dvd 0xfffffffffffffffffffffffffffffffebaaedce6af48a03bbfd25e8cd0364141"
  show "0xe1cc85ac6c6d3f70246931e5cc18c49 dvd d - 1"
    using primes_dvd_mult [OF prime_q68 pow_n_d68 [OF d] pow_n_d57 [OF d]] by simp
qed (simp_all add: upto.simps pow_n_n1 pow_n_n2 pow_n_n3 pow_n_n4 pow_n_n5 pow_n_n6 pow_n_n7 pow_n_n8 pow_n_n9 pow_n_n10 pow_n_n11 pow_n_n12 pow_n_n13 pow_n_n14 pow_n_n15 pow_n_n16 pow_n_n17 pow_n_n18)

end
