(* ===== verification/Order.thy ===== *)
theory Order
  imports Order_Cert Prime_N Scalar
begin

text \<open>
  The order of the group of curve points. The group has \<open>scalar_n\<close> elements: the generator has order
  \<open>scalar_n\<close> (a prime, by \<open>Prime_N\<close>, that kills the generator, by the certificate of \<open>Order_Cert\<close>), the number
  of points is odd and at most \<open>2 field_p + 1\<close>, and it is a multiple of \<open>scalar_n\<close>. So the arithmetic of
  scalars modulo \<open>scalar_n\<close> is the arithmetic of multiples of every point.
\<close>

section \<open>Finite abelian groups\<close>

lemma sum_const_smul: "finite A \<Longrightarrow> (\<Sum>h\<in>A. g) = smul (int (card A)) g"
  by (induction rule: finite_induct) (simp_all add: smul_add)

lemma smul_card:
  fixes g :: "'a :: ab_group_add"
  assumes "finite (UNIV :: 'a set)"
  shows "smul (int (card (UNIV :: 'a set))) g = 0"
proof -
  have "bij ((+) g)" by (rule bij_betw_byWitness [where f' = "\<lambda>h. h - g"]) auto
  then have "(\<Sum>h\<in>UNIV. g + h) = (\<Sum>h\<in>UNIV. h :: 'a)" by (rule sum.reindex_bij_betw)
  then show ?thesis by (simp only: sum.distrib sum_const_smul [OF assms] add_cancel_left_left)
qed

lemma smul_gcd: "smul a g = 0 \<Longrightarrow> smul b g = 0 \<Longrightarrow> smul (gcd a b) g = 0"
proof -
  assume z: "smul a g = 0" "smul b g = 0"
  obtain u v where "u * a + v * b = gcd a b" using bezout_int by blast
  moreover have "smul (u * a + v * b) g = 0" unfolding smul_add smul_mult z by simp
  ultimately show ?thesis by (simp only:)
qed

lemma even_card_involution:
  assumes "finite A" "\<forall>x\<in>A. f x \<in> A \<and> f x \<noteq> x \<and> f (f x) = x"
  shows "even (card A)"
  using assms
proof (induction A rule: finite_psubset_induct)
  case (psubset A)
  show ?case
  proof (cases "A = {}")
    case False
    then obtain x where x: "x \<in> A" by blast
    let ?B = "A - {x, f x}"
    have inv: "f y \<in> A" "f y \<noteq> y" "f (f y) = y" if "y \<in> A" for y using bspec [OF psubset.prems that] by simp_all
    have "f y \<in> ?B" if y: "y \<in> ?B" for y
    proof -
      have "f y \<noteq> x" using inv(3) [of y] y by auto
      moreover have "f y \<noteq> f x" using inv(3) [of y] inv(3) [OF x] y by auto
      ultimately show ?thesis using inv(1) [of y] y by blast
    qed
    then have c: "\<forall>y\<in>?B. f y \<in> ?B \<and> f y \<noteq> y \<and> f (f y) = y" using inv(2,3) by simp
    have "?B \<subset> A" using x by blast
    then have "even (card ?B)" using c by (rule psubset.IH)
    moreover have "card A = Suc (Suc (card ?B))"
    proof -
      have "A = insert x (insert (f x) ?B)" using x inv(1) by blast
      then have "card A = card (insert x (insert (f x) ?B))" by (rule arg_cong)
      also have "\<dots> = Suc (card (insert (f x) ?B))" using psubset.hyps(1) inv(2) [OF x] by (subst card_insert_disjoint) auto
      also have "card (insert (f x) ?B) = Suc (card ?B)" using psubset.hyps(1) by (subst card_insert_disjoint) auto
      finally show ?thesis .
    qed
    ultimately show ?thesis by simp
  qed simp
qed

section \<open>The number of points\<close>

lemma finite_fp: "finite (UNIV :: fp set)" and card_fp: "int (card (UNIV :: fp set)) = field_p"
proof -
  have i: "inj_on Abs_fp {0..<field_p}" by (rule inj_onI) (simp add: Abs_fp_inject)
  have u: "UNIV = Abs_fp ` {0..<field_p}"
  proof (rule UNIV_eq_I)
    fix a :: fp
    show "a \<in> Abs_fp ` {0..<field_p}" by (cases a) auto
  qed
  show "finite (UNIV :: fp set)" unfolding u by simp
  show "int (card (UNIV :: fp set)) = field_p" unfolding u card_image [OF i] by (simp add: field_p_def)
qed

lemma card_roots: "card {y :: fp. y ^ 2 = c} \<le> 2"
proof (cases "\<exists>z. z ^ 2 = c")
  case True
  then obtain z where "z ^ 2 = c" by blast
  then have "{y. y ^ 2 = c} \<subseteq> {z, - z}" by (auto simp: power2_eq_iff)
  then have "card {y. y ^ 2 = c} \<le> card {z, - z}" by (rule card_mono [rotated]) simp
  also have "\<dots> \<le> 2" using card_insert_le_m1 [of 2 "{- z}" z] by simp
  finally show ?thesis .
next
  case False
  then have "{y. y ^ 2 = c} = {}" by blast
  then show ?thesis by (simp only: card.empty)
qed

lemma curve_points:
  "{P. on_curve P} = insert Infinity ((\<lambda>(x, y). Point x y) ` (SIGMA x:UNIV. {y. y ^ 2 = x ^ 3 + 7}))"
proof (rule set_eqI)
  fix P
  show "P \<in> {P. on_curve P} \<longleftrightarrow> P \<in> insert Infinity ((\<lambda>(x, y). Point x y) ` (SIGMA x:UNIV. {y. y ^ 2 = x ^ 3 + 7}))"
    by (cases P) auto
qed

lemma card_curve_points: "card {P. on_curve P} \<le> 2 * card (UNIV :: fp set) + 1"
proof -
  let ?S = "SIGMA x:UNIV. {y :: fp. y ^ 2 = x ^ 3 + 7}"
  have f: "finite ?S" by (rule finite_subset [of _ UNIV]) (auto simp: finite_fp finite_prod)
  have "card ?S = (\<Sum>x\<in>UNIV. card {y :: fp. y ^ 2 = x ^ 3 + 7})"
    by (rule card_SigmaI) (auto intro: finite_subset [OF subset_UNIV finite_fp] simp: finite_fp)
  also have "\<dots> \<le> (\<Sum>x\<in>(UNIV :: fp set). 2)" by (rule sum_mono) (rule card_roots)
  finally have "card ?S \<le> 2 * card (UNIV :: fp set)" by simp
  moreover have "card ((\<lambda>(x, y). Point x y) ` ?S) \<le> card ?S" by (rule card_image_le [OF f])
  ultimately show ?thesis unfolding curve_points using f by (simp add: card_insert_if)
qed

lemma finite_cpoint: "finite (UNIV :: cpoint set)" and card_cpoint: "card (UNIV :: cpoint set) = card {P. on_curve P}"
proof -
  have i: "inj_on cpt {P. on_curve P}" by (rule inj_onI) (simp add: cpt_inject)
  have u: "UNIV = cpt ` {P. on_curve P}" 
  proof (rule UNIV_eq_I)
    fix P :: cpoint
    show "P \<in> cpt ` {P. on_curve P}" by (cases P) auto
  qed
  have "finite {P. on_curve P}"
    unfolding curve_points by (intro finite_insert [THEN iffD2] finite_imageI finite_SigmaI finite_fp
      finite_subset [OF subset_UNIV finite_fp])
  then show "finite (UNIV :: cpoint set)" unfolding u by simp
  show "card (UNIV :: cpoint set) = card {P. on_curve P}" unfolding u by (rule card_image [OF i])
qed

lemma cpoint_neg_neq: "P \<noteq> 0 \<Longrightarrow> - P \<noteq> P" for P :: cpoint
proof (transfer)
  fix P :: point
  assume P: "on_curve P" "P \<noteq> Infinity"
  then obtain x y where xy: "P = Point x y" by (cases P) auto
  then have "y \<noteq> 0" using P(1) on_curve_y by simp
  moreover have "(2 :: fp) \<noteq> 0" by (rule numeral_fp_neq_0)
  ultimately have "2 * y \<noteq> 0" by (simp only: mult_eq_0_iff not_False_eq_True simp_thms)
  then have "y + y \<noteq> 0" by (simp only: mult_2 not_False_eq_True)
  then have "- y \<noteq> y" by (simp only: neg_eq_iff_add_eq_0 not_False_eq_True)
  then show "pneg P \<noteq> P" unfolding xy by simp
qed

lemma odd_card_cpoint: "odd (card (UNIV :: cpoint set))"
proof -
  have "even (card (UNIV - {0 :: cpoint}))"
  proof (rule even_card_involution [of _ uminus])
    show "finite (UNIV - {0 :: cpoint})" by (rule finite_Diff [OF finite_cpoint])
    show "\<forall>P\<in>UNIV - {0 :: cpoint}. - P \<in> UNIV - {0} \<and> - P \<noteq> P \<and> - (- P) = P"
    proof
      fix P :: cpoint
      assume "P \<in> UNIV - {0}"
      then have "P \<noteq> 0" by simp
      then show "- P \<in> UNIV - {0} \<and> - P \<noteq> P \<and> - (- P) = P" using cpoint_neg_neq [of P] by simp
    qed
  qed
  moreover have "card (UNIV :: cpoint set) = Suc (card (UNIV - {0 :: cpoint}))"
    by (rule card.remove [OF finite_cpoint]) simp
  ultimately show ?thesis by (simp only: even_Suc not_not)
qed

section \<open>The group order\<close>

lemma prime_scalar_n: "is_prime scalar_n"
  unfolding scalar_n_def by (rule prime_n)

lemma scalar_n_norm: "(0x3086d221a7d46bcde86c90e49284eb15 * 0x3086d221a7d46bcde86c90e49284eb15 :: int)
      + 0x3086d221a7d46bcde86c90e49284eb15 * 0xe4437ed6010e88286f547fa90abfe4c3
      + 0xe4437ed6010e88286f547fa90abfe4c3 * 0xe4437ed6010e88286f547fa90abfe4c3 = scalar_n"
  unfolding scalar_n_def by (simp only: big_num_simps)

lemma generator_order: "smul scalar_n generator = 0"
  using emul_norm [OF order_emul]
  unfolding mult_minus_right mult_minus_left minus_minus diff_minus_eq_add scalar_n_norm .

lemma scalar_n_dvd_card: "scalar_n dvd int (card (UNIV :: cpoint set))"
proof -
  define d where "d = gcd scalar_n (int (card (UNIV :: cpoint set)))"
  have z: "smul d generator = 0"
    unfolding d_def by (rule smul_gcd [OF generator_order smul_card [OF finite_cpoint]])
  have "d \<noteq> 1" using z generator_neq_0 by auto
  moreover have "0 < d" using scalar_n_pos unfolding d_def gcd_pos_int by linarith
  moreover have "d dvd scalar_n" unfolding d_def by (rule gcd_dvd1)
  ultimately have "d = scalar_n" using prime_scalar_n unfolding is_prime_def by blast
  moreover have "d dvd int (card (UNIV :: cpoint set))" unfolding d_def by (rule gcd_dvd2)
  ultimately show ?thesis by (simp only:)
qed

lemma odd_multiple_lt_3:
  fixes n k N M :: int
  assumes "N = n * k" "odd N" "N \<le> M" "M < n * 3" "0 < n" "0 \<le> N"
  shows "N = n"
proof -
  have "n * k < n * 3" using assms(1,3,4) by linarith
  then have "k < 3" using assms(5) by (simp only: mult_less_cancel_left_pos)
  moreover have "0 \<le> k" using assms(1,5,6) zero_le_mult_iff [of n k] by linarith
  moreover have "k \<noteq> 0" "k \<noteq> 2" using assms(1,2) by auto
  ultimately have "k = 1" by linarith
  then show ?thesis using assms(1) by simp
qed

theorem card_cpoint_scalar_n: "int (card (UNIV :: cpoint set)) = scalar_n"
proof -
  obtain k where k: "int (card (UNIV :: cpoint set)) = scalar_n * k" using scalar_n_dvd_card by (rule dvdE)
  have le: "int (card (UNIV :: cpoint set)) \<le> 2 * field_p + 1"
    using card_curve_points card_fp unfolding card_cpoint by linarith
  have lt: "2 * field_p + 1 < scalar_n * 3" by (simp add: field_p_def scalar_n_def)
  have od: "odd (int (card (UNIV :: cpoint set)))" using odd_card_cpoint by (simp only: even_of_nat not_False_eq_True)
  show ?thesis by (rule odd_multiple_lt_3 [OF k od le lt scalar_n_pos of_nat_0_le_iff])
qed

theorem group_order: "smul scalar_n P = 0" for P :: cpoint
  using smul_card [OF finite_cpoint, of P] unfolding card_cpoint_scalar_n .

lemma smul_mod_n: "smul (k mod scalar_n) P = smul k P" for P :: cpoint
proof -
  have "smul (k div scalar_n * scalar_n + k mod scalar_n) P = smul (k mod scalar_n) P"
    by (simp only: smul_add smul_mult group_order smul_simps(3) add_0_left)
  then show ?thesis by (simp only: div_mult_mod_eq)
qed

lemma smul_cong_n:
  fixes P :: cpoint
  assumes "j mod scalar_n = k mod scalar_n"
  shows "smul j P = smul k P"
proof -
  have "smul j P = smul (j mod scalar_n) P" by (rule smul_mod_n [symmetric])
  also have "\<dots> = smul k P" unfolding assms by (rule smul_mod_n)
  finally show ?thesis .
qed

end
