(* ===== verification/Ecmult_Impl.thy ===== *)
theory Ecmult_Impl
  imports Ecmult Group Field_Impl Hash
begin

text \<open>
  Scalar multiplication: the tables of odd multiples, the context and \<^verbatim>\<open>secp256k1_ecmult\<close> of
  \<^verbatim>\<open>ecmult_impl.h\<close>, the comb method with blinding of \<^verbatim>\<open>ecmult_gen_impl.h\<close>, and the constant-time
  multiplication of \<^verbatim>\<open>ecmult_const_impl.h\<close>. The contents of local and allocated arrays before they are
  written are arguments. A context pointer that is null is \<^const>\<open>None\<close>. The retry loops of the blinding have
  fuel.
\<close>

section \<open>Tables of odd multiples\<close>

definition ECMULT_TABLE_SIZE :: "nat \<Rightarrow> nat" where
  "ECMULT_TABLE_SIZE w = 2 ^ (w - 2)"

record 'fe table_locals =
  loc_prej :: "'fe gej list"
  loc_zr :: "'fe list"
  loc_d :: "'fe gej"
  loc_z :: 'fe

definition ecmult_odd_multiples_table ::
    "('fe, 'st) field_ops \<Rightarrow> 'fe table_locals \<Rightarrow> nat \<Rightarrow> 'fe gej \<Rightarrow> 'fe gej list \<times> 'fe list" where
  "ecmult_odd_multiples_table F loc n a =
    (let d = fst (gej_double_var F (loc_d loc) a None);
         d_ge = \<lparr>ge_x = gej_x d, ge_y = gej_y d, ge_infinity = False\<rparr>;
         a_ge = ge_set_gej_zinv F a (gej_z d);
         prej = (loc_prej loc)[0 := \<lparr>gej_x = ge_x a_ge, gej_y = ge_y a_ge, gej_z = gej_z a, gej_infinity = False\<rparr>];
         zr = (loc_zr loc)[0 := gej_z d];
         (prej, zr) = foldl (\<lambda>(prej, zr) i.
             let (p, z) = gej_add_ge_var F (prej ! i) (prej ! (i - 1)) d_ge (Some (zr ! i))
             in (prej[i := p], zr[i := the z])) (prej, zr) [1..<n];
         l = prej ! (n - 1)
     in (prej[n - 1 := l\<lparr>gej_z := fe_mul F (gej_z l) (gej_z d)\<rparr>], zr))"

definition ecmult_odd_multiples_table_globalz_windowa ::
    "('fe, 'st) field_ops \<Rightarrow> 'fe table_locals \<Rightarrow> 'fe gej \<Rightarrow> 'fe ge list \<times> 'fe" where
  "ecmult_odd_multiples_table_globalz_windowa F loc a =
    (let (prej, zr) = ecmult_odd_multiples_table F loc (ECMULT_TABLE_SIZE WINDOW_A) a
     in ge_globalz_set_table_gej F (loc_z loc) prej zr)"

definition ecmult_odd_multiples_table_storage_var ::
    "('fe, 'st) field_ops \<Rightarrow> 'fe table_locals \<Rightarrow> nat \<Rightarrow> 'fe gej \<Rightarrow> 'st ge_storage list" where
  "ecmult_odd_multiples_table_storage_var F loc n a =
    (let (prej, zr) = ecmult_odd_multiples_table F loc n a;
         prea = ge_set_table_gej_var F prej zr
     in map (ge_to_storage F) prea)"

definition ECMULT_TABLE_GET_GE :: "('fe, 'st) field_ops \<Rightarrow> 'fe ge list \<Rightarrow> int \<Rightarrow> 'fe ge" where
  "ECMULT_TABLE_GET_GE F pre n =
    (if 0 < n then pre ! nat ((n - 1) div 2) else ge_neg F (pre ! nat ((- n - 1) div 2)))"

definition ECMULT_TABLE_GET_GE_STORAGE :: "('fe, 'st) field_ops \<Rightarrow> 'st ge_storage list \<Rightarrow> int \<Rightarrow> 'fe ge" where
  "ECMULT_TABLE_GET_GE_STORAGE F pre n =
    (if 0 < n then ge_from_storage F (pre ! nat ((n - 1) div 2))
     else ge_neg F (ge_from_storage F (pre ! nat ((- n - 1) div 2))))"

section \<open>The context of the general multiplication\<close>

record 'st ecmult_context =
  pre_g :: "'st ge_storage list option"

definition ecmult_context_init :: "'st ecmult_context" where
  "ecmult_context_init = \<lparr>pre_g = None\<rparr>"

definition ecmult_context_build ::
    "('fe, 'st) field_ops \<Rightarrow> 'fe table_locals \<Rightarrow> 'st ecmult_context \<Rightarrow> 'st ecmult_context" where
  "ecmult_context_build F loc ctx =
    (if pre_g ctx \<noteq> None then ctx
     else
       let gj = gej_set_ge F (ge_const_g F)
       in ctx\<lparr>pre_g := Some (ecmult_odd_multiples_table_storage_var F loc (ECMULT_TABLE_SIZE WINDOW_G) gj)\<rparr>)"

definition ecmult_context_clone :: "'st ecmult_context \<Rightarrow> 'st ecmult_context \<Rightarrow> 'st ecmult_context" where
  "ecmult_context_clone dst src =
    (case pre_g src of
       None \<Rightarrow> dst\<lparr>pre_g := None\<rparr>
     | Some t \<Rightarrow> dst\<lparr>pre_g := Some t\<rparr>)"

definition ecmult_context_is_built :: "'st ecmult_context \<Rightarrow> bool" where
  "ecmult_context_is_built ctx = (pre_g ctx \<noteq> None)"

definition ecmult_context_clear :: "'st ecmult_context \<Rightarrow> 'st ecmult_context" where
  "ecmult_context_clear ctx = ecmult_context_init"

section \<open>The general multiplication\<close>

text \<open>The loop counts down from the highest digit; \<open>Suc i\<close> stands for the iteration with index \<open>i\<close>.\<close>

primrec ecmult_loop ::
    "('fe, 'st) field_ops \<Rightarrow> 'fe ge list \<Rightarrow> 'st ge_storage list \<Rightarrow> 'fe \<Rightarrow> int list \<Rightarrow> int \<Rightarrow> int list \<Rightarrow> int \<Rightarrow>
      nat \<Rightarrow> 'fe gej \<Rightarrow> 'fe gej" where
  "ecmult_loop F pre_a table_g Z wnaf_na bits_na wnaf_ng bits_ng 0 r = r"
| "ecmult_loop F pre_a table_g Z wnaf_na bits_na wnaf_ng bits_ng (Suc i) r =
    (let r = fst (gej_double_var F r r None);
         r = (if int i < bits_na \<and> wnaf_na ! i \<noteq> 0
              then fst (gej_add_ge_var F r r (ECMULT_TABLE_GET_GE F pre_a (wnaf_na ! i)) None) else r);
         r = (if int i < bits_ng \<and> wnaf_ng ! i \<noteq> 0
              then gej_add_zinv_var F r r (ECMULT_TABLE_GET_GE_STORAGE F table_g (wnaf_ng ! i)) Z else r)
     in ecmult_loop F pre_a table_g Z wnaf_na bits_na wnaf_ng bits_ng i r)"

definition ecmult ::
    "('fe, 'st) field_ops \<Rightarrow> 'sc scalar_ops \<Rightarrow> 'fe table_locals \<Rightarrow> 'st ecmult_context \<Rightarrow> 'fe gej \<Rightarrow> 'sc \<Rightarrow> 'sc \<Rightarrow> 'fe gej option" where
  "ecmult F S loc ctx a na ng =
    (case (ecmult_wnaf S 256 na WINDOW_A, ecmult_wnaf S 256 ng WINDOW_G, pre_g ctx) of
       (Some (wnaf_na, bits_na), Some (wnaf_ng, bits_ng), Some table) \<Rightarrow>
         let (pre_a, Z) = ecmult_odd_multiples_table_globalz_windowa F loc a;
             bits = (if bits_ng > bits_na then bits_ng else bits_na);
             r = ecmult_loop F pre_a table Z wnaf_na bits_na wnaf_ng bits_ng (nat bits) (gej_set_infinity F)
         in Some (if \<not> gej_infinity r then r\<lparr>gej_z := fe_mul F (gej_z r) Z\<rparr> else r)
     | _ \<Rightarrow> None)"

section \<open>Multiples of the generator\<close>

record ('fe, 'st, 'sc) ecmult_gen_context =
  prec :: "'st ge_storage list list option"
  blind :: 'sc
  initial :: "'fe gej"

definition ecmult_gen_context_init :: "('fe, 'st, 'sc) ecmult_gen_context \<Rightarrow> ('fe, 'st, 'sc) ecmult_gen_context" where
  "ecmult_gen_context_init ctx = ctx\<lparr>prec := None\<rparr>"

primrec ecmult_gen_select :: "('fe, 'st) field_ops \<Rightarrow> 'st ge_storage list \<Rightarrow> nat \<Rightarrow> nat \<Rightarrow> 'st ge_storage \<Rightarrow> 'st ge_storage" where
  "ecmult_gen_select F row bits 0 adds = adds"
| "ecmult_gen_select F row bits (Suc i) adds =
    ge_storage_cmov F (ecmult_gen_select F row bits i adds) (row ! i) (of_bool (i = bits))"

primrec ecmult_gen_loop ::
    "('fe, 'st) field_ops \<Rightarrow> 'sc scalar_ops \<Rightarrow> 'st ge_storage list list \<Rightarrow> 'sc \<Rightarrow> nat \<Rightarrow> 'fe gej \<times> 'st ge_storage \<Rightarrow>
      'fe gej \<times> 'st ge_storage" where
  "ecmult_gen_loop F S table gnb 0 s = s"
| "ecmult_gen_loop F S table gnb (Suc j) s =
    (let (r, adds) = ecmult_gen_loop F S table gnb j s;
         bits = unat (scalar_get_bits S gnb (j * 4) 4);
         adds = ecmult_gen_select F (table ! j) bits 16 adds
     in (gej_add_ge F r (ge_from_storage F adds), adds))"

text \<open>The zeroed storage form is that of the zero element in both coordinates.\<close>

definition ge_storage_zero :: "('fe, 'st) field_ops \<Rightarrow> 'st ge_storage" where
  "ge_storage_zero F = \<lparr>gs_x = fe_to_storage F (fe_clear F), gs_y = fe_to_storage F (fe_clear F)\<rparr>"

definition ecmult_gen ::
    "('fe, 'st) field_ops \<Rightarrow> 'sc scalar_ops \<Rightarrow> ('fe, 'st, 'sc) ecmult_gen_context \<Rightarrow> 'sc \<Rightarrow> 'fe gej option" where
  "ecmult_gen F S ctx gn =
    (case prec ctx of
       None \<Rightarrow> None
     | Some table \<Rightarrow>
         let gnb = fst (scalar_add S gn (blind ctx))
         in Some (fst (ecmult_gen_loop F S table gnb 64 (initial ctx, ge_storage_zero F))))"

primrec ecmult_gen_draw_fe ::
    "('fe, 'st) field_ops \<Rightarrow> u8 list \<Rightarrow> nat \<Rightarrow> rfc6979_hmac_sha256_t \<Rightarrow> (rfc6979_hmac_sha256_t \<times> 'fe) option" where
  "ecmult_gen_draw_fe F buf 0 rng = None"
| "ecmult_gen_draw_fe F buf (Suc fuel) rng =
    (let (rng, nonce32) = rfc6979_hmac_sha256_generate buf rng 32;
         (s, ok) = fe_set_b32 F nonce32;
         retry = (\<not> ok \<or> fe_is_zero F s)
     in if retry then ecmult_gen_draw_fe F buf fuel rng else Some (rng, s))"

primrec ecmult_gen_draw_scalar ::
    "'sc scalar_ops \<Rightarrow> u8 list \<Rightarrow> nat \<Rightarrow> rfc6979_hmac_sha256_t \<Rightarrow> (rfc6979_hmac_sha256_t \<times> 'sc) option" where
  "ecmult_gen_draw_scalar S buf 0 rng = None"
| "ecmult_gen_draw_scalar S buf (Suc fuel) rng =
    (let (rng, nonce32) = rfc6979_hmac_sha256_generate buf rng 32;
         (b, overflow) = scalar_set_b32 S nonce32;
         retry = (overflow \<noteq> 0 \<or> scalar_is_zero S b)
     in if retry then ecmult_gen_draw_scalar S buf fuel rng else Some (rng, b))"

definition ecmult_gen_blind ::
    "('fe, 'st) field_ops \<Rightarrow> 'sc scalar_ops \<Rightarrow> u8 list \<Rightarrow> nat \<Rightarrow> ('fe, 'st, 'sc) ecmult_gen_context \<Rightarrow> u8 list option \<Rightarrow>
      ('fe, 'st, 'sc) ecmult_gen_context option" where
  "ecmult_gen_blind F S buf fuel ctx seed32 =
    (let ctx = (if seed32 = None
                then ctx\<lparr>initial := gej_neg F (gej_set_ge F (ge_const_g F)), blind := scalar_set_int S 1\<rparr>
                else ctx);
         nonce32 = scalar_get_b32 S (blind ctx);
         keydata = nonce32 @ (case seed32 of None \<Rightarrow> [] | Some s \<Rightarrow> take 32 s);
         rng = rfc6979_hmac_sha256_initialize buf keydata
     in case ecmult_gen_draw_fe F buf fuel rng of
          None \<Rightarrow> None
        | Some (rng, s) \<Rightarrow>
            let ctx = ctx\<lparr>initial := gej_rescale F (initial ctx) s\<rparr>
            in case ecmult_gen_draw_scalar S buf fuel rng of
                 None \<Rightarrow> None
               | Some (rng, b) \<Rightarrow>
                   (case ecmult_gen F S ctx b of
                      None \<Rightarrow> None
                    | Some gb \<Rightarrow> Some (ctx\<lparr>blind := scalar_negate S b, initial := gb\<rparr>)))"

record 'fe gen_locals =
  loc_prec :: "'fe ge list"
  loc_azi :: "'fe list"
  loc_precj :: "'fe gej list"
  loc_nums :: "'fe gej"

definition nums_b32 :: "u8 list" where
  "nums_b32 = map of_char ''The scalar for this x is unknown''"

definition ecmult_gen_build_row :: "('fe, 'st) field_ops \<Rightarrow> nat \<Rightarrow> 'fe gej list \<Rightarrow> 'fe gej \<Rightarrow> 'fe gej \<Rightarrow> 'fe gej list" where
  "ecmult_gen_build_row F j precj gbase numsbase =
    foldl (\<lambda>precj i. precj[j * 16 + i := fst (gej_add_var F (precj ! (j * 16 + i)) (precj ! (j * 16 + i - 1)) gbase None)])
      (precj[j * 16 := numsbase]) [1..<16]"

primrec ecmult_gen_build_loop ::
    "('fe, 'st) field_ops \<Rightarrow> 'fe gej \<Rightarrow> nat \<Rightarrow> 'fe gej list \<times> 'fe gej \<times> 'fe gej \<Rightarrow> 'fe gej list \<times> 'fe gej \<times> 'fe gej" where
  "ecmult_gen_build_loop F nums_gej 0 s = s"
| "ecmult_gen_build_loop F nums_gej (Suc j) s =
    (let (precj, gbase, numsbase) = ecmult_gen_build_loop F nums_gej j s;
         precj = ecmult_gen_build_row F j precj gbase numsbase;
         gbase = ((\<lambda>g. fst (gej_double_var F g g None)) ^^ 4) gbase;
         numsbase = fst (gej_double_var F numsbase numsbase None);
         numsbase = (if j = 62 then let m = gej_neg F numsbase in fst (gej_add_var F m m nums_gej None) else numsbase)
     in (precj, gbase, numsbase))"

definition ecmult_gen_context_build ::
    "('fe, 'st) field_ops \<Rightarrow> 'sc scalar_ops \<Rightarrow> u8 list \<Rightarrow> nat \<Rightarrow> 'fe gen_locals \<Rightarrow> ('fe, 'st, 'sc) ecmult_gen_context \<Rightarrow>
      ('fe, 'st, 'sc) ecmult_gen_context option" where
  "ecmult_gen_context_build F S buf fuel loc ctx =
    (if prec ctx \<noteq> None then Some ctx
     else
       let gj = gej_set_ge F (ge_const_g F);
           nums_x = fst (fe_set_b32 F nums_b32);
           nums_ge = fst (ge_set_xo_var F nums_x False);
           nums_gej = gej_set_ge F nums_ge;
           nums_gej = fst (gej_add_ge_var F nums_gej nums_gej (ge_const_g F) None);
           (precj, _, _) = ecmult_gen_build_loop F nums_gej 64 (loc_precj loc, gj, nums_gej);
           p = ge_set_all_gej_var F (loc_prec loc) (loc_azi loc) precj;
           ctx = ctx\<lparr>prec := Some (map (\<lambda>j. map (\<lambda>i. ge_to_storage F (p ! (j * 16 + i))) [0..<16]) [0..<64])\<rparr>
       in ecmult_gen_blind F S buf fuel ctx None)"

definition ecmult_gen_context_is_built :: "('fe, 'st, 'sc) ecmult_gen_context \<Rightarrow> bool" where
  "ecmult_gen_context_is_built ctx = (prec ctx \<noteq> None)"

definition ecmult_gen_context_clone ::
    "('fe, 'st, 'sc) ecmult_gen_context \<Rightarrow> ('fe, 'st, 'sc) ecmult_gen_context \<Rightarrow> ('fe, 'st, 'sc) ecmult_gen_context" where
  "ecmult_gen_context_clone dst src =
    (case prec src of
       None \<Rightarrow> dst\<lparr>prec := None\<rparr>
     | Some t \<Rightarrow> dst\<lparr>prec := Some t, initial := initial src, blind := blind src\<rparr>)"

definition ecmult_gen_context_clear ::
    "('fe, 'st) field_ops \<Rightarrow> 'sc scalar_ops \<Rightarrow> ('fe, 'st, 'sc) ecmult_gen_context \<Rightarrow> ('fe, 'st, 'sc) ecmult_gen_context" where
  "ecmult_gen_context_clear F S ctx = ctx\<lparr>blind := scalar_clear S, initial := gej_clear F, prec := None\<rparr>"

section \<open>Constant-time multiplication\<close>

definition WNAF_BITS :: nat where
  "WNAF_BITS = 256"

definition WNAF_SIZE :: "nat \<Rightarrow> nat" where
  "WNAF_SIZE w = (WNAF_BITS + w - 1) div w"

definition ECMULT_CONST_TABLE_GET_GE :: "('fe, 'st) field_ops \<Rightarrow> 'fe ge \<Rightarrow> 'fe ge list \<Rightarrow> int \<Rightarrow> nat \<Rightarrow> 'fe ge" where
  "ECMULT_CONST_TABLE_GET_GE F r pre n w =
    (let abs_n = n * (of_bool (0 < n) * 2 - 1);
         idx_n = abs_n div 2;
         r = foldl (\<lambda>r m. r\<lparr>ge_x := fe_cmov F (ge_x r) (ge_x (pre ! m)) (of_bool (int m = idx_n)),
                           ge_y := fe_cmov F (ge_y r) (ge_y (pre ! m)) (of_bool (int m = idx_n))\<rparr>)
               r [0..<ECMULT_TABLE_SIZE w];
         r = r\<lparr>ge_infinity := False\<rparr>;
         neg_y = fe_negate F (ge_y r) 1
     in r\<lparr>ge_y := fe_cmov F (ge_y r) neg_y (of_bool (n \<noteq> abs_n))\<rparr>)"

primrec wnaf_const_loop ::
    "'sc scalar_ops \<Rightarrow> nat \<Rightarrow> int \<Rightarrow> nat \<Rightarrow> nat \<Rightarrow> 'sc \<Rightarrow> int \<Rightarrow> int \<Rightarrow> int list \<Rightarrow> int list option" where
  "wnaf_const_loop S w global_sign 0 word s u_last u wnaf = None"
| "wnaf_const_loop S w global_sign (Suc fuel) word s u_last u wnaf =
    (if word * w < WNAF_BITS then
       let (s, u) = scalar_shr_int S s w;
           even = of_bool (u AND 1 = 0);
           sign = 2 * of_bool (0 < u_last) - 1;
           u = u + sign * even;
           u_last = u_last - sign * even * 2 ^ w;
           wnaf = wnaf[word := u_last * global_sign]
       in wnaf_const_loop S w global_sign fuel (word + 1) s u u wnaf
     else Some (wnaf[word := u * global_sign]))"

definition wnaf_const :: "'sc scalar_ops \<Rightarrow> int list \<Rightarrow> int \<Rightarrow> 'sc \<Rightarrow> nat \<Rightarrow> (int list \<times> int) option" where
  "wnaf_const S wnaf u s w =
    (let flip = scalar_is_high S s;
         bit = (of_bool (flip \<noteq> (\<not> scalar_is_even S s)) :: nat);
         neg_s = scalar_negate S s;
         not_neg_one = of_bool (\<not> scalar_is_one S neg_s);
         s = scalar_cadd_bit S s bit not_neg_one;
         (s, global_sign) = scalar_cond_negate S s flip;
         global_sign = global_sign * (not_neg_one * 2 - 1);
         skew = 2 ^ bit;
         (s, u_last) = scalar_shr_int S s w
     in map_option (\<lambda>wnaf. (wnaf, skew)) (wnaf_const_loop S w global_sign (WNAF_BITS + 1) 0 s u_last u wnaf))"

record 'fe const_locals =
  loc_table :: "'fe table_locals"
  loc_wnaf :: "int list"
  loc_u :: int
  loc_tmpa :: "'fe ge"

primrec ecmult_const_loop :: "('fe, 'st) field_ops \<Rightarrow> 'fe ge list \<Rightarrow> int list \<Rightarrow> nat \<Rightarrow> 'fe gej \<Rightarrow> 'fe ge \<Rightarrow> 'fe gej" where
  "ecmult_const_loop F pre_a wnaf 0 r tmpa = r"
| "ecmult_const_loop F pre_a wnaf (Suc i) r tmpa =
    (let r = ((\<lambda>r. fst (gej_double_nonzero F r r None)) ^^ (WINDOW_A - 1)) r;
         tmpa = ECMULT_CONST_TABLE_GET_GE F tmpa pre_a (wnaf ! i) WINDOW_A
     in ecmult_const_loop F pre_a wnaf i (gej_add_ge F r tmpa) tmpa)"

definition ecmult_const ::
    "('fe, 'st) field_ops \<Rightarrow> 'sc scalar_ops \<Rightarrow> 'fe const_locals \<Rightarrow> 'fe ge \<Rightarrow> 'sc \<Rightarrow> 'fe gej option" where
  "ecmult_const F S loc a scalar =
    (case wnaf_const S (loc_wnaf loc) (loc_u loc) scalar (WINDOW_A - 1) of
       None \<Rightarrow> None
     | Some (wnaf_1, skew_1) \<Rightarrow>
         let (pre_a, Z) = ecmult_odd_multiples_table_globalz_windowa F (loc_table loc) (gej_set_ge F a);
             pre_a = map (\<lambda>p. p\<lparr>ge_y := fe_normalize_weak F (ge_y p)\<rparr>) pre_a;
             tmpa = ECMULT_CONST_TABLE_GET_GE F (loc_tmpa loc) pre_a (wnaf_1 ! WNAF_SIZE (WINDOW_A - 1)) WINDOW_A;
             r = ecmult_const_loop F pre_a wnaf_1 (WNAF_SIZE (WINDOW_A - 1)) (gej_set_ge F tmpa) tmpa;
             r = r\<lparr>gej_z := fe_mul F (gej_z r) Z\<rparr>;
             tmpj = gej_set_ge F a;
             tmpj = fst (gej_double_var F tmpj tmpj None);
             correction = fst (ge_set_gej F tmpj);
             correction_1_stor = ge_to_storage F a;
             a2_stor = ge_to_storage F correction;
             correction_1_stor = ge_storage_cmov F correction_1_stor a2_stor (of_bool (skew_1 = 2));
             correction = ge_neg F (ge_from_storage F correction_1_stor)
         in Some (gej_add_ge F r correction))"

end
