(* ===== verification/Eckey.thy ===== *)
theory Eckey
  imports Ecmult_Impl Scalar_Impl
begin

text \<open>
  Keys, \<^verbatim>\<open>eckey_impl.h\<close>, and the signature equations of \<^verbatim>\<open>ecdsa_impl.h\<close>. A parser gets the bytes and their number,
  which is the length of the list.
\<close>

section \<open>Public and private keys\<close>

definition eckey_pubkey_parse :: "('fe, 'st) field_ops \<Rightarrow> u8 list \<Rightarrow> 'fe ge option" where
  "eckey_pubkey_parse F pub =
    (if length pub = 33 \<and> (pub ! 0 = 0x02 \<or> pub ! 0 = 0x03) then
       let (x, ok) = fe_set_b32 F (take 32 (drop 1 pub))
       in if ok
          then let (elem, ok) = ge_set_xo_var F x (pub ! 0 = 0x03) in if ok then Some elem else None
          else None
     else if length pub = 65 \<and> (pub ! 0 = 0x04 \<or> pub ! 0 = 0x06 \<or> pub ! 0 = 0x07) then
       let (x, okx) = fe_set_b32 F (take 32 (drop 1 pub));
           (y, oky) = fe_set_b32 F (take 32 (drop 33 pub))
       in if \<not> okx \<or> \<not> oky then None
          else
            let elem = ge_set_xy x y
            in if (pub ! 0 = 0x06 \<or> pub ! 0 = 0x07) \<and> fe_is_odd F y \<noteq> (pub ! 0 = 0x07) then None
               else if ge_is_valid_var F elem then Some elem else None
     else None)"

text \<open>The serialization normalizes its argument, which is a second result, and writes a prefix of the output.\<close>

definition eckey_pubkey_serialize :: "('fe, 'st) field_ops \<Rightarrow> 'fe ge \<Rightarrow> bool \<Rightarrow> ('fe ge \<times> u8 list) option" where
  "eckey_pubkey_serialize F elem compressed =
    (if ge_is_infinity elem then None
     else
       let elem = elem\<lparr>ge_x := fe_normalize_var F (ge_x elem)\<rparr>;
           elem = elem\<lparr>ge_y := fe_normalize_var F (ge_y elem)\<rparr>;
           pub = fe_get_b32 F (ge_x elem)
       in Some (elem, if compressed then (0x02 OR (if fe_is_odd F (ge_y elem) then 0x01 else 0x00)) # pub
                      else 0x04 # pub @ fe_get_b32 F (ge_y elem)))"

definition eckey_privkey_tweak_add :: "'sc scalar_ops \<Rightarrow> 'sc \<Rightarrow> 'sc \<Rightarrow> 'sc \<times> bool" where
  "eckey_privkey_tweak_add S key tweak =
    (let key = fst (scalar_add S key tweak)
     in if scalar_is_zero S key then (key, False) else (key, True))"

definition eckey_pubkey_tweak_add ::
    "('fe, 'st) field_ops \<Rightarrow> 'sc scalar_ops \<Rightarrow> 'fe table_locals \<Rightarrow> 'st ecmult_context \<Rightarrow> 'fe ge \<Rightarrow> 'sc \<Rightarrow> ('fe ge \<times> bool) option" where
  "eckey_pubkey_tweak_add F S loc ctx key tweak =
    (let pt = gej_set_ge F key;
         one = scalar_set_int S 1
     in case ecmult F S loc ctx pt one tweak of
          None \<Rightarrow> None
        | Some pt \<Rightarrow>
            if gej_is_infinity pt then Some (key, False)
            else Some (fst (ge_set_gej F pt), True))"

definition eckey_privkey_tweak_mul :: "'sc scalar_ops \<Rightarrow> 'sc \<Rightarrow> 'sc \<Rightarrow> 'sc \<times> bool" where
  "eckey_privkey_tweak_mul S key tweak =
    (if scalar_is_zero S tweak then (key, False) else (scalar_mul S key tweak, True))"

definition eckey_pubkey_tweak_mul ::
    "('fe, 'st) field_ops \<Rightarrow> 'sc scalar_ops \<Rightarrow> 'fe table_locals \<Rightarrow> 'st ecmult_context \<Rightarrow> 'fe ge \<Rightarrow> 'sc \<Rightarrow> ('fe ge \<times> bool) option" where
  "eckey_pubkey_tweak_mul F S loc ctx key tweak =
    (if scalar_is_zero S tweak then Some (key, False)
     else
       let zero = scalar_set_int S 0;
           pt = gej_set_ge F key
       in case ecmult F S loc ctx pt tweak zero of
            None \<Rightarrow> None
          | Some pt \<Rightarrow> Some (fst (ge_set_gej F pt), True))"

section \<open>Signatures\<close>

definition ecdsa_const_order_as_fe :: "('fe, 'st) field_ops \<Rightarrow> 'fe" where
  "ecdsa_const_order_as_fe F = fe_const F 0xFFFFFFFF 0xFFFFFFFF 0xFFFFFFFF 0xFFFFFFFE 0xBAAEDCE6 0xAF48A03B 0xBFD25E8C 0xD0364141"

definition ecdsa_const_p_minus_order :: "('fe, 'st) field_ops \<Rightarrow> 'fe" where
  "ecdsa_const_p_minus_order F = fe_const F 0 0 0 1 0x45512319 0x50B75FC4 0x402DA172 0x2FC9BAEE"

text \<open>The last part of the verification: is the scalar the first coordinate of the point modulo the order?\<close>

definition ecdsa_x_matches :: "('fe, 'st) field_ops \<Rightarrow> 'sc scalar_ops \<Rightarrow> 'sc \<Rightarrow> 'fe gej \<Rightarrow> bool" where
  "ecdsa_x_matches F S sigr pr =
    (let c = scalar_get_b32 S sigr;
         xr = fst (fe_set_b32 F c)
     in if gej_eq_x_var F xr pr then True
        else if fe_cmp_var F xr (ecdsa_const_p_minus_order F) \<ge> 0 then False
        else
          let xr = fe_add F xr (ecdsa_const_order_as_fe F)
          in gej_eq_x_var F xr pr)"

definition ecdsa_sig_verify ::
    "('fe, 'st) field_ops \<Rightarrow> 'sc scalar_ops \<Rightarrow> 'fe table_locals \<Rightarrow> 'st ecmult_context \<Rightarrow> 'sc \<Rightarrow> 'sc \<Rightarrow> 'fe ge \<Rightarrow> 'sc \<Rightarrow> bool option" where
  "ecdsa_sig_verify F S loc ctx sigr sigs pubkey message =
    (if scalar_is_zero S sigr \<or> scalar_is_zero S sigs then Some False
     else
       let sn = scalar_inverse_var S sigs;
           u1 = scalar_mul S sn message;
           u2 = scalar_mul S sn sigr;
           pubkeyj = gej_set_ge F pubkey
       in case ecmult F S loc ctx pubkeyj u2 u1 of
            None \<Rightarrow> None
          | Some pr \<Rightarrow>
              if gej_is_infinity pr then Some False
              else Some (ecdsa_x_matches F S sigr pr))"

text \<open>The second half of signing, from the nonce point to the signature and the recovery id.\<close>

definition ecdsa_sign_point ::
    "('fe, 'st) field_ops \<Rightarrow> 'sc scalar_ops \<Rightarrow> 'fe gej \<Rightarrow> 'sc \<Rightarrow> 'sc \<Rightarrow> 'sc \<Rightarrow> 'sc \<times> 'sc \<times> int \<times> bool" where
  "ecdsa_sign_point F S rp seckey message nonce =
    (let r = fst (ge_set_gej F rp);
         r = r\<lparr>ge_x := fe_normalize F (ge_x r)\<rparr>;
         r = r\<lparr>ge_y := fe_normalize F (ge_y r)\<rparr>;
         b = fe_get_b32 F (ge_x r);
         (sigr, overflow) = scalar_set_b32 S b;
         recid = (if overflow \<noteq> 0 then 2 else 0) OR (if fe_is_odd F (ge_y r) then 1 else 0);
         n = scalar_mul S sigr seckey;
         n = fst (scalar_add S n message);
         sigs = scalar_inverse S nonce;
         sigs = scalar_mul S sigs n
     in if scalar_is_zero S sigs then (sigr, sigs, recid, False)
        else if scalar_is_high S sigs then (sigr, scalar_negate S sigs, recid XOR 1, True)
        else (sigr, sigs, recid, True))"

definition ecdsa_sig_sign ::
    "('fe, 'st) field_ops \<Rightarrow> 'sc scalar_ops \<Rightarrow> ('fe, 'st, 'sc) ecmult_gen_context \<Rightarrow> 'sc \<Rightarrow> 'sc \<Rightarrow> 'sc \<Rightarrow>
      ('sc \<times> 'sc \<times> int \<times> bool) option" where
  "ecdsa_sig_sign F S ctx seckey message nonce =
    (case ecmult_gen F S ctx nonce of
       None \<Rightarrow> None
     | Some rp \<Rightarrow> Some (ecdsa_sign_point F S rp seckey message nonce))"

end
