(* ===== verification/Api.thy ===== *)
theory Api
  imports Eckey Der
begin

text \<open>
  The public interface, \<^verbatim>\<open>secp256k1.c\<close>. The result of a function is the list of failed argument checks (the
  illegal-argument callback is called with the text of each, and a callback that returns lets the function
  go on with the return value 0 of the check), the returned flag, and the final contents of the outputs. A
  pointer argument that may be null is an option. An opaque public key is the pair of coordinates in storage form and an
  opaque signature the pair of scalars: in the compiled configuration both structures have 64 bytes and
  are copied as they are.
\<close>

section \<open>Contexts\<close>

type_synonym 'a api = "string list \<times> bool \<times> 'a"

definition illegal :: "string \<Rightarrow> 'a \<Rightarrow> 'a api" where
  "illegal cond out = ([cond], False, out)"

definition returns :: "bool \<Rightarrow> 'a \<Rightarrow> 'a api" where
  "returns ret out = ([], ret, out)"

record ('fe, 'st, 'sc) secp256k1_context =
  ecmult_ctx :: "'st ecmult_context"
  ecmult_gen_ctx :: "('fe, 'st, 'sc) ecmult_gen_context"

definition FLAGS_TYPE_MASK :: u32 where "FLAGS_TYPE_MASK = 0xFF"
definition FLAGS_TYPE_CONTEXT :: u32 where "FLAGS_TYPE_CONTEXT = 1"
definition FLAGS_TYPE_COMPRESSION :: u32 where "FLAGS_TYPE_COMPRESSION = 2"
definition FLAGS_BIT_CONTEXT_VERIFY :: u32 where "FLAGS_BIT_CONTEXT_VERIFY = 0x100"
definition FLAGS_BIT_CONTEXT_SIGN :: u32 where "FLAGS_BIT_CONTEXT_SIGN = 0x200"
definition FLAGS_BIT_COMPRESSION :: u32 where "FLAGS_BIT_COMPRESSION = 0x100"

text \<open>
  Creation: \<open>ret\<close> is the allocated structure before it is written. The outer option is the fuel of the blinding,
  the inner one the returned pointer.
\<close>

definition context_create ::
    "('fe, 'st) field_ops \<Rightarrow> 'sc scalar_ops \<Rightarrow> u8 list \<Rightarrow> nat \<Rightarrow> 'fe gen_locals \<Rightarrow> 'fe table_locals \<Rightarrow>
      ('fe, 'st, 'sc) secp256k1_context \<Rightarrow> u32 \<Rightarrow> (string list \<times> ('fe, 'st, 'sc) secp256k1_context option) option" where
  "context_create F S buf fuel gloc loc ret flags =
    (if flags AND FLAGS_TYPE_MASK \<noteq> FLAGS_TYPE_CONTEXT then Some ([''Invalid flags''], None)
     else
       let ret = ret\<lparr>ecmult_ctx := ecmult_context_init\<rparr>;
           ret = ret\<lparr>ecmult_gen_ctx := ecmult_gen_context_init (ecmult_gen_ctx ret)\<rparr>;
           built = (if flags AND FLAGS_BIT_CONTEXT_SIGN \<noteq> 0
                    then ecmult_gen_context_build F S buf fuel gloc (ecmult_gen_ctx ret)
                    else Some (ecmult_gen_ctx ret))
       in case built of
            None \<Rightarrow> None
          | Some gen \<Rightarrow>
              let ret = ret\<lparr>ecmult_gen_ctx := gen\<rparr>;
                  ret = (if flags AND FLAGS_BIT_CONTEXT_VERIFY \<noteq> 0
                         then ret\<lparr>ecmult_ctx := ecmult_context_build F loc (ecmult_ctx ret)\<rparr> else ret)
              in Some ([], Some ret))"

definition context_clone :: "('fe, 'st, 'sc) secp256k1_context \<Rightarrow> ('fe, 'st, 'sc) secp256k1_context \<Rightarrow> ('fe, 'st, 'sc) secp256k1_context" where
  "context_clone ret ctx = ret\<lparr>ecmult_ctx := ecmult_context_clone (ecmult_ctx ret) (ecmult_ctx ctx),
    ecmult_gen_ctx := ecmult_gen_context_clone (ecmult_gen_ctx ret) (ecmult_gen_ctx ctx)\<rparr>"

definition context_randomize ::
    "('fe, 'st) field_ops \<Rightarrow> 'sc scalar_ops \<Rightarrow> u8 list \<Rightarrow> nat \<Rightarrow> ('fe, 'st, 'sc) secp256k1_context \<Rightarrow> u8 list option \<Rightarrow>
      ('fe, 'st, 'sc) secp256k1_context api option" where
  "context_randomize F S buf fuel ctx seed32 =
    (if \<not> ecmult_gen_context_is_built (ecmult_gen_ctx ctx)
     then Some (illegal ''secp256k1_ecmult_gen_context_is_built(&ctx->ecmult_gen_ctx)'' ctx)
     else map_option (\<lambda>gen. returns True (ctx\<lparr>ecmult_gen_ctx := gen\<rparr>)) (ecmult_gen_blind F S buf fuel (ecmult_gen_ctx ctx) seed32))"

section \<open>Public keys\<close>

definition pubkey_load :: "('fe, 'st) field_ops \<Rightarrow> 'st ge_storage \<Rightarrow> 'fe ge api" where
  "pubkey_load F pubkey =
    (let ge = ge_from_storage F pubkey
     in if fe_is_zero F (ge_x ge) then illegal ''!secp256k1_fe_is_zero(&ge->x)'' ge else returns True ge)"

definition pubkey_save :: "('fe, 'st) field_ops \<Rightarrow> 'fe ge \<Rightarrow> 'st ge_storage" where
  "pubkey_save F ge = ge_to_storage F ge"

definition ec_pubkey_parse ::
    "('fe, 'st) field_ops \<Rightarrow> 'st ge_storage option \<Rightarrow> u8 list option \<Rightarrow> 'st ge_storage option api" where
  "ec_pubkey_parse F pubkey input =
    (if pubkey = None then illegal ''pubkey != NULL'' None
     else
       let pubkey = ge_storage_zero F
       in case input of
            None \<Rightarrow> illegal ''input != NULL'' (Some pubkey)
          | Some bytes \<Rightarrow>
              (case eckey_pubkey_parse F bytes of
                 None \<Rightarrow> returns False (Some pubkey)
               | Some Q \<Rightarrow> returns True (Some (pubkey_save F Q))))"

text \<open>The output is the buffer with the length written back; the buffer has the length passed in.\<close>

definition ec_pubkey_serialize ::
    "('fe, 'st) field_ops \<Rightarrow> u8 list option \<Rightarrow> nat option \<Rightarrow> 'st ge_storage option \<Rightarrow> u32 \<Rightarrow> (u8 list option \<times> nat option) api" where
  "ec_pubkey_serialize F out outputlen pubkey flags =
    (let compressed = (flags AND FLAGS_BIT_COMPRESSION \<noteq> 0)
     in case outputlen of
          None \<Rightarrow> illegal ''outputlen != NULL'' (out, None)
        | Some len \<Rightarrow>
            if len < (if compressed then 33 else 65)
            then illegal ''*outputlen >= ((flags & SECP256K1_FLAGS_BIT_COMPRESSION) ? 33 : 65)'' (out, Some len)
            else case out of
                   None \<Rightarrow> illegal ''output != NULL'' (None, Some 0)
                 | Some b \<Rightarrow>
                     let buf = replicate len 0 @ drop len b
                     in case pubkey of
                          None \<Rightarrow> illegal ''pubkey != NULL'' (Some buf, Some 0)
                        | Some key \<Rightarrow>
                            if flags AND FLAGS_TYPE_MASK \<noteq> FLAGS_TYPE_COMPRESSION
                            then illegal ''(flags & SECP256K1_FLAGS_TYPE_MASK) == SECP256K1_FLAGS_TYPE_COMPRESSION'' (Some buf, Some 0)
                            else
                              let (calls, ok, Q) = pubkey_load F key
                              in if ok
                                 then case eckey_pubkey_serialize F Q compressed of
                                        None \<Rightarrow> (calls, False, Some buf, Some 0)
                                      | Some (_, bytes) \<Rightarrow>
                                          (calls, True, Some (bytes @ drop (length bytes) buf), Some (length bytes))
                                 else (calls, False, Some buf, Some 0))"

definition ec_pubkey_create ::
    "('fe, 'st) field_ops \<Rightarrow> 'sc scalar_ops \<Rightarrow> ('fe, 'st, 'sc) secp256k1_context \<Rightarrow> 'st ge_storage option \<Rightarrow> u8 list option \<Rightarrow>
      'st ge_storage option api option" where
  "ec_pubkey_create F S ctx pubkey seckey =
    (if pubkey = None then Some (illegal ''pubkey != NULL'' None)
     else
       let pubkey = ge_storage_zero F
       in if \<not> ecmult_gen_context_is_built (ecmult_gen_ctx ctx)
          then Some (illegal ''secp256k1_ecmult_gen_context_is_built(&ctx->ecmult_gen_ctx)'' (Some pubkey))
          else case seckey of
                 None \<Rightarrow> Some (illegal ''seckey != NULL'' (Some pubkey))
               | Some key \<Rightarrow>
                   let (sec, overflow) = scalar_set_b32 S key
                   in if overflow = 0 \<and> \<not> scalar_is_zero S sec
                      then map_option (\<lambda>pj. returns True (Some (pubkey_save F (fst (ge_set_gej F pj)))))
                             (ecmult_gen F S (ecmult_gen_ctx ctx) sec)
                      else Some (returns False (Some pubkey)))"

text \<open>The sum of public keys. The result of a failed load is ignored and the loaded point is added.\<close>

fun pubkey_combine_loop :: "('fe, 'st) field_ops \<Rightarrow> 'st ge_storage list \<Rightarrow> 'fe gej \<Rightarrow> string list \<times> 'fe gej" where
  "pubkey_combine_loop F [] Qj = ([], Qj)"
| "pubkey_combine_loop F (k # ks) Qj =
    (let (calls, _, Q) = pubkey_load F k;
         (calls', Qj) = pubkey_combine_loop F ks (gej_add_ge F Qj Q)
     in (calls @ calls', Qj))"

definition ec_pubkey_combine ::
    "('fe, 'st) field_ops \<Rightarrow> 'st ge_storage option \<Rightarrow> 'st ge_storage list option \<Rightarrow> nat \<Rightarrow> 'st ge_storage option api" where
  "ec_pubkey_combine F pubnonce pubnonces n =
    (if pubnonce = None then illegal ''pubnonce != NULL'' None
     else
       let pubnonce = ge_storage_zero F
       in if \<not> 1 \<le> n then illegal ''n >= 1'' (Some pubnonce)
          else case pubnonces of
                 None \<Rightarrow> illegal ''pubnonces != NULL'' (Some pubnonce)
               | Some ks \<Rightarrow>
                   let (calls, Qj) = pubkey_combine_loop F (take n ks) (gej_set_infinity F)
                   in if gej_is_infinity Qj then (calls, False, Some pubnonce)
                      else (calls, True, Some (pubkey_save F (fst (ge_set_gej F Qj)))))"

section \<open>Private keys and tweaks\<close>

definition ec_seckey_verify :: "'sc scalar_ops \<Rightarrow> u8 list option \<Rightarrow> unit api" where
  "ec_seckey_verify S seckey =
    (case seckey of
       None \<Rightarrow> illegal ''seckey != NULL'' ()
     | Some key \<Rightarrow>
         let (sec, overflow) = scalar_set_b32 S key
         in returns (overflow = 0 \<and> \<not> scalar_is_zero S sec) ())"

definition ec_privkey_tweak_add :: "'sc scalar_ops \<Rightarrow> u8 list option \<Rightarrow> u8 list option \<Rightarrow> u8 list option api" where
  "ec_privkey_tweak_add S seckey tweak =
    (case (seckey, tweak) of
       (None, _) \<Rightarrow> illegal ''seckey != NULL'' seckey
     | (_, None) \<Rightarrow> illegal ''tweak != NULL'' seckey
     | (Some key, Some t) \<Rightarrow>
         let (term, overflow) = scalar_set_b32 S t;
             sec = fst (scalar_set_b32 S key);
             (sec, ok) = (if overflow = 0 then eckey_privkey_tweak_add S sec term else (sec, False))
         in returns ok (Some (if ok then scalar_get_b32 S sec else replicate 32 0)))"

definition ec_privkey_tweak_mul :: "'sc scalar_ops \<Rightarrow> u8 list option \<Rightarrow> u8 list option \<Rightarrow> u8 list option api" where
  "ec_privkey_tweak_mul S seckey tweak =
    (case (seckey, tweak) of
       (None, _) \<Rightarrow> illegal ''seckey != NULL'' seckey
     | (_, None) \<Rightarrow> illegal ''tweak != NULL'' seckey
     | (Some key, Some t) \<Rightarrow>
         let (factor, overflow) = scalar_set_b32 S t;
             sec = fst (scalar_set_b32 S key);
             (sec, ok) = (if overflow = 0 then eckey_privkey_tweak_mul S sec factor else (sec, False))
         in returns ok (Some (if ok then scalar_get_b32 S sec else replicate 32 0)))"

text \<open>The common part of the two tweaks of a public key, which differ in the operation on the loaded point.\<close>

definition pubkey_tweak_with ::
    "('fe, 'st) field_ops \<Rightarrow> 'sc scalar_ops \<Rightarrow> ('fe, 'st, 'sc) secp256k1_context \<Rightarrow> ('fe ge \<Rightarrow> 'sc \<Rightarrow> ('fe ge \<times> bool) option) \<Rightarrow>
      'st ge_storage option \<Rightarrow> u8 list option \<Rightarrow> 'st ge_storage option api option" where
  "pubkey_tweak_with F S ctx f pubkey tweak =
    (if \<not> ecmult_context_is_built (ecmult_ctx ctx)
     then Some (illegal ''secp256k1_ecmult_context_is_built(&ctx->ecmult_ctx)'' pubkey)
     else case (pubkey, tweak) of
            (None, _) \<Rightarrow> Some (illegal ''pubkey != NULL'' pubkey)
          | (_, None) \<Rightarrow> Some (illegal ''tweak != NULL'' pubkey)
          | (Some key, Some t) \<Rightarrow>
              let (term, overflow) = scalar_set_b32 S t;
                  zero = Some (ge_storage_zero F)
              in if overflow \<noteq> 0 then Some (returns False zero)
                 else
                   let (calls, ok, p) = pubkey_load F key
                   in if ok
                      then map_option (\<lambda>(p, ok). if ok then (calls, True, Some (pubkey_save F p)) else (calls, False, zero)) (f p term)
                      else Some (calls, False, zero))"

definition ec_pubkey_tweak_add ::
    "('fe, 'st) field_ops \<Rightarrow> 'sc scalar_ops \<Rightarrow> 'fe table_locals \<Rightarrow> ('fe, 'st, 'sc) secp256k1_context \<Rightarrow> 'st ge_storage option \<Rightarrow>
      u8 list option \<Rightarrow> 'st ge_storage option api option" where
  "ec_pubkey_tweak_add F S loc ctx = pubkey_tweak_with F S ctx (eckey_pubkey_tweak_add F S loc (ecmult_ctx ctx))"

definition ec_pubkey_tweak_mul ::
    "('fe, 'st) field_ops \<Rightarrow> 'sc scalar_ops \<Rightarrow> 'fe table_locals \<Rightarrow> ('fe, 'st, 'sc) secp256k1_context \<Rightarrow> 'st ge_storage option \<Rightarrow>
      u8 list option \<Rightarrow> 'st ge_storage option api option" where
  "ec_pubkey_tweak_mul F S loc ctx = pubkey_tweak_with F S ctx (eckey_pubkey_tweak_mul F S loc (ecmult_ctx ctx))"

section \<open>Signatures\<close>

record 'sc signature =
  sig_r :: 'sc
  sig_s :: 'sc

definition signature_zero :: "'sc scalar_ops \<Rightarrow> 'sc signature" where
  "signature_zero S = \<lparr>sig_r = scalar_clear S, sig_s = scalar_clear S\<rparr>"

definition ecdsa_signature_load :: "'sc signature \<Rightarrow> 'sc \<times> 'sc" where
  "ecdsa_signature_load sig = (sig_r sig, sig_s sig)"

definition ecdsa_signature_save :: "'sc \<Rightarrow> 'sc \<Rightarrow> 'sc signature" where
  "ecdsa_signature_save r s = \<lparr>sig_r = r, sig_s = s\<rparr>"

text \<open>The outer option of the two DER functions is an access out of the bounds of the buffer.\<close>

definition ecdsa_signature_parse_der ::
    "'sc scalar_ops \<Rightarrow> 'sc signature option \<Rightarrow> u8 list option \<Rightarrow> 'sc signature option api option" where
  "ecdsa_signature_parse_der S sig input =
    (case (sig, input) of
       (None, _) \<Rightarrow> Some (illegal ''sig != NULL'' sig)
     | (_, None) \<Rightarrow> Some (illegal ''input != NULL'' sig)
     | (Some _, Some bytes) \<Rightarrow>
         (case ecdsa_sig_parse S bytes of
            None \<Rightarrow> None
          | Some None \<Rightarrow> Some (returns False (Some (signature_zero S)))
          | Some (Some (r, s)) \<Rightarrow> Some (returns True (Some (ecdsa_signature_save r s)))))"

definition ecdsa_signature_parse_compact ::
    "'sc scalar_ops \<Rightarrow> 'sc signature option \<Rightarrow> u8 list option \<Rightarrow> 'sc signature option api" where
  "ecdsa_signature_parse_compact S sig input64 =
    (case (sig, input64) of
       (None, _) \<Rightarrow> illegal ''sig != NULL'' sig
     | (_, None) \<Rightarrow> illegal ''input64 != NULL'' sig
     | (Some _, Some bytes) \<Rightarrow>
         let (r, overflow) = scalar_set_b32 S (take 32 bytes);
             ret = (overflow = 0);
             (s, overflow) = scalar_set_b32 S (take 32 (drop 32 bytes));
             ret = (ret \<and> overflow = 0)
         in returns ret (Some (if ret then ecdsa_signature_save r s else signature_zero S)))"

definition ecdsa_signature_serialize_compact ::
    "'sc scalar_ops \<Rightarrow> u8 list option \<Rightarrow> 'sc signature option \<Rightarrow> u8 list option api" where
  "ecdsa_signature_serialize_compact S output64 sig =
    (case (output64, sig) of
       (None, _) \<Rightarrow> illegal ''output64 != NULL'' output64
     | (_, None) \<Rightarrow> illegal ''sig != NULL'' output64
     | (Some _, Some sg) \<Rightarrow>
         let (r, s) = ecdsa_signature_load sg
         in returns True (Some (scalar_get_b32 S r @ scalar_get_b32 S s)))"

definition ecdsa_signature_normalize ::
    "'sc scalar_ops \<Rightarrow> 'sc signature option \<Rightarrow> 'sc signature option \<Rightarrow> 'sc signature option api" where
  "ecdsa_signature_normalize S sigout sigin =
    (case sigin of
       None \<Rightarrow> illegal ''sigin != NULL'' sigout
     | Some sg \<Rightarrow>
         let (r, s) = ecdsa_signature_load sg;
             ret = scalar_is_high S s
         in returns ret (map_option (\<lambda>_. ecdsa_signature_save r (if ret then scalar_negate S s else s)) sigout))"

definition ecdsa_verify ::
    "('fe, 'st) field_ops \<Rightarrow> 'sc scalar_ops \<Rightarrow> 'fe table_locals \<Rightarrow> ('fe, 'st, 'sc) secp256k1_context \<Rightarrow> 'sc signature option \<Rightarrow>
      u8 list option \<Rightarrow> 'st ge_storage option \<Rightarrow> unit api option" where
  "ecdsa_verify F S loc ctx sig msg32 pubkey =
    (if \<not> ecmult_context_is_built (ecmult_ctx ctx)
     then Some (illegal ''secp256k1_ecmult_context_is_built(&ctx->ecmult_ctx)'' ())
     else case (msg32, sig, pubkey) of
            (None, _, _) \<Rightarrow> Some (illegal ''msg32 != NULL'' ())
          | (_, None, _) \<Rightarrow> Some (illegal ''sig != NULL'' ())
          | (_, _, None) \<Rightarrow> Some (illegal ''pubkey != NULL'' ())
          | (Some msg, Some sg, Some key) \<Rightarrow>
              let m = fst (scalar_set_b32 S msg);
                  (r, s) = ecdsa_signature_load sg
              in if scalar_is_high S s then Some (returns False ())
                 else
                   let (calls, ok, q) = pubkey_load F key
                   in if \<not> ok then Some (calls, False, ())
                      else map_option (\<lambda>v. (calls, v, ())) (ecdsa_sig_verify F S loc (ecmult_ctx ctx) r s q m))"

primrec nonce_generate :: "u8 list \<Rightarrow> nat \<Rightarrow> rfc6979_hmac_sha256_t \<Rightarrow> u8 list \<Rightarrow> rfc6979_hmac_sha256_t \<times> u8 list" where
  "nonce_generate buf 0 rng nonce32 = (rng, nonce32)"
| "nonce_generate buf (Suc i) rng nonce32 =
    (let (rng, _) = nonce_generate buf i rng nonce32 in rfc6979_hmac_sha256_generate buf rng 32)"

definition nonce_function_rfc6979 ::
    "u8 list \<Rightarrow> u8 list \<Rightarrow> u8 list \<Rightarrow> u8 list \<Rightarrow> u8 list option \<Rightarrow> u8 list option \<Rightarrow> nat \<Rightarrow> u8 list \<times> bool" where
  "nonce_function_rfc6979 buf nonce32 msg32 key32 algo16 data counter =
    (let keydata = take 32 key32 @ take 32 msg32;
         keydata = keydata @ (case data of None \<Rightarrow> [] | Some d \<Rightarrow> take 32 d);
         keydata = keydata @ (case algo16 of None \<Rightarrow> [] | Some a \<Rightarrow> take 16 a);
         rng = rfc6979_hmac_sha256_initialize buf keydata
     in (snd (nonce_generate buf (counter + 1) rng nonce32), True))"

text \<open>
  The loop of signing, on the number of attempts left: a nonce function that keeps returning unusable nonces keeps
  the loop going. The nonce function is an argument of the code; it gets the old nonce buffer.
\<close>

primrec ecdsa_sign_loop ::
    "('fe, 'st) field_ops \<Rightarrow> 'sc scalar_ops \<Rightarrow> ('fe, 'st, 'sc) ecmult_gen_context \<Rightarrow> (u8 list \<Rightarrow> nat \<Rightarrow> u8 list \<times> bool) \<Rightarrow>
      'sc \<Rightarrow> 'sc \<Rightarrow> nat \<Rightarrow> nat \<Rightarrow> u8 list \<Rightarrow> ('sc \<times> 'sc) option option" where
  "ecdsa_sign_loop F S ctx noncefp sec msg 0 count nonce32 = None"
| "ecdsa_sign_loop F S ctx noncefp sec msg (Suc fuel) count nonce32 =
    (let (nonce32, ret) = noncefp nonce32 count
     in if \<not> ret then Some None
        else
          let (non, overflow) = scalar_set_b32 S nonce32
          in if overflow = 0 \<and> \<not> scalar_is_zero S non
             then case ecdsa_sig_sign F S ctx sec msg non of
                    None \<Rightarrow> None
                  | Some (r, s, _, ok) \<Rightarrow>
                      if ok then Some (Some (r, s))
                      else ecdsa_sign_loop F S ctx noncefp sec msg fuel (count + 1) nonce32
             else ecdsa_sign_loop F S ctx noncefp sec msg fuel (count + 1) nonce32)"

definition ecdsa_sign ::
    "('fe, 'st) field_ops \<Rightarrow> 'sc scalar_ops \<Rightarrow> u8 list \<Rightarrow> u8 list \<Rightarrow> nat \<Rightarrow> ('fe, 'st, 'sc) secp256k1_context \<Rightarrow> 'sc signature option \<Rightarrow>
      u8 list option \<Rightarrow> u8 list option \<Rightarrow>
      (u8 list \<Rightarrow> u8 list \<Rightarrow> u8 list \<Rightarrow> u8 list option \<Rightarrow> u8 list option \<Rightarrow> nat \<Rightarrow> u8 list \<times> bool) option \<Rightarrow> u8 list option \<Rightarrow>
      'sc signature option api option" where
  "ecdsa_sign F S buf nonce32 fuel ctx signature msg32 seckey noncefp noncedata =
    (if \<not> ecmult_gen_context_is_built (ecmult_gen_ctx ctx)
     then Some (illegal ''secp256k1_ecmult_gen_context_is_built(&ctx->ecmult_gen_ctx)'' signature)
     else case (msg32, signature, seckey) of
            (None, _, _) \<Rightarrow> Some (illegal ''msg32 != NULL'' signature)
          | (_, None, _) \<Rightarrow> Some (illegal ''signature != NULL'' signature)
          | (_, _, None) \<Rightarrow> Some (illegal ''seckey != NULL'' signature)
          | (Some m, Some _, Some key) \<Rightarrow>
              let noncefp = (case noncefp of None \<Rightarrow> nonce_function_rfc6979 buf | Some f \<Rightarrow> f);
                  (sec, overflow) = scalar_set_b32 S key
              in if overflow = 0 \<and> \<not> scalar_is_zero S sec
                 then let msg = fst (scalar_set_b32 S m)
                      in map_option (\<lambda>res. case res of
                             None \<Rightarrow> returns False (Some (signature_zero S))
                           | Some (r, s) \<Rightarrow> returns True (Some (ecdsa_signature_save r s)))
                           (ecdsa_sign_loop F S (ecmult_gen_ctx ctx) (\<lambda>n. noncefp n m key None noncedata) sec msg fuel 0 nonce32)
                 else Some (returns False (Some (signature_zero S))))"

end
