(* ===== verification/Protocol.thy ===== *)
theory Protocol
  imports Order Api
begin

text \<open>
  Properties that span the group, the scalars and the public interface: multiples of the generator by the blinded comb,
  scalars as the exponents of the group, and what the interface does with private keys and signatures, on every
  branch.
\<close>

section \<open>Definitions\<close>

text \<open>
  The representation of a group element, and the invariant of a context for multiples of the generator: the table entry
  \<open>i\<close> of row \<open>j\<close> is the offset of the row plus \<open>i 16\<^sup>j\<close> times the generator and not infinity, the offsets add up to zero,
  and the initial point takes the blinding scalar away.
\<close>

definition gej_is :: "fe_10x26 gej \<Rightarrow> cpoint \<Rightarrow> bool" where
  "gej_is a P \<longleftrightarrow> gej_rep fe_mag_10x26 fe_res_10x26 a (pt P)"

definition ge_is :: "fe_10x26 ge \<Rightarrow> cpoint \<Rightarrow> bool" where
  "ge_is a P \<longleftrightarrow> ge_rep fe_mag_10x26 fe_res_10x26 a (pt P)"

definition gen_context_ok where
  "gen_context_ok ctx U \<longleftrightarrow> scalar_wf_8x32 (blind ctx) \<and>
    gej_is (initial ctx) (smul (- scalar_val_8x32 (blind ctx)) generator) \<and> (\<Sum>j<64. U j) = 0 \<and>
    (case prec ctx of
       None \<Rightarrow> False
     | Some table \<Rightarrow> \<forall>j<64. \<forall>i<16. ge_is (ge_from_storage F10x26 (table ! j ! i)) (U j + smul (int i * 16 ^ j) generator) \<and>
         U j + smul (int i * 16 ^ j) generator \<noteq> 0)"

section \<open>The comb\<close>

lemma storage_cmov_if: "ge_storage_cmov F10x26 r a (of_bool c) = (if c then a else r)"
  unfolding ge_storage_cmov_def fe10.storage_cmov by (cases c) simp_all

lemma gen_select:
  "ecmult_gen_select F10x26 row bits n adds = (if bits < n then row ! bits else adds)"
proof (induction n)
  case (Suc n)
  then show ?case unfolding ecmult_gen_select.simps storage_cmov_if by (cases "n = bits") (simp_all add: less_Suc_eq)
qed simp

lemma sum_smul: "(\<Sum>k<(m::nat). smul (c k) P) = smul (\<Sum>k<m. c k) P"
  by (induction m) (simp_all add: smul_add)

lemma sum_digits: "(\<Sum>k<m. v div 16 ^ k mod 16 * 16 ^ k) = v mod 16 ^ m" for v :: int
proof (induction m)
  case (Suc m)
  have e: "(16 :: int) ^ Suc m = 16 ^ m * 16" by (rule power_Suc2)
  have "v mod (16 ^ m * 16) = 16 ^ m * (v div 16 ^ m mod 16) + v mod 16 ^ m" by (rule zmod_zmult2_eq) simp
  then show ?case unfolding sum.lessThan_Suc Suc.IH e by (simp only: add.commute mult.commute)
qed simp

lemma gej_is_add: "gej_is a P \<Longrightarrow> ge_is b Q \<Longrightarrow> Q \<noteq> 0 \<Longrightarrow> gej_is (gej_add_ge F10x26 a b) (P + Q)"
  unfolding gej_is_def ge_is_def plus_cpoint.rep_eq
  by (rule fe10.gej_add_ge_correct) (simp_all add: zero_cpoint.rep_eq [symmetric] pt_inject)

lemma scalar_nibble:
  assumes "scalar_wf_8x32 a" "j < 64"
  shows "int (unat (scalar_get_bits S8x32 a (j * 4) 4)) = scalar_val_8x32 a div 16 ^ j mod 16"
proof -
  have c: "(j * 4 + 4 - 1) div 32 = j * 4 div 32"
  proof -
    have "(j * 4 + 3) div (4 * 8) = j div 8" "(j * 4) div (4 * 8) = j div 8" unfolding div_mult2_eq by simp_all
    then show ?thesis by simp
  qed
  have p: "(2 :: int) ^ (j * 4) = 16 ^ j" unfolding mult.commute [of j] power_mult by simp
  have "uint (scalar_get_bits S8x32 a (j * 4) 4) = scalar_val_8x32 a div 2 ^ (j * 4) mod 2 ^ 4"
    by (rule sc8.get_bits [OF assms(1) _ _ _ c]) (use assms(2) in linarith)+
  moreover have "(2 :: int) ^ 4 = 16" by simp
  ultimately show ?thesis unfolding p uint_nat by (simp only:)
qed

lemma gen_loop:
  assumes ok: "gen_context_ok ctx U" and t: "prec ctx = Some table" and w: "scalar_wf_8x32 b" and j: "j \<le> 64"
  shows "gej_is (fst (ecmult_gen_loop F10x26 S8x32 table b j (initial ctx, adds)))
    (smul (- scalar_val_8x32 (blind ctx)) generator + (\<Sum>k<j. U k)
      + smul (\<Sum>k<j. scalar_val_8x32 b div 16 ^ k mod 16 * 16 ^ k) generator)"
  using j
proof (induction j)
  case 0
  then show ?case using ok by (simp add: gen_context_ok_def)
next
  case (Suc j)
  define i where "i = unat (scalar_get_bits S8x32 b (j * 4) 4)"
  have i: "int i = scalar_val_8x32 b div 16 ^ j mod 16" unfolding i_def using scalar_nibble [OF w] Suc.prems by simp
  then have "int i < 16" by simp
  then have i16: "i < 16" by simp
  let ?Q = "U j + smul (int i * 16 ^ j) generator"
  have q: "ge_is (ge_from_storage F10x26 (table ! j ! i)) ?Q" "?Q \<noteq> 0"
    using ok Suc_le_lessD [OF Suc.prems] i16 unfolding gen_context_ok_def t option.case by blast+
  obtain r adds' where l: "ecmult_gen_loop F10x26 S8x32 table b j (initial ctx, adds) = (r, adds')" by fastforce
  have IH: "gej_is r (smul (- scalar_val_8x32 (blind ctx)) generator + (\<Sum>k<j. U k)
      + smul (\<Sum>k<j. scalar_val_8x32 b div 16 ^ k mod 16 * 16 ^ k) generator)"
    using Suc.IH [OF Suc_leD [OF Suc.prems], unfolded l fst_conv] .
  have "fst (ecmult_gen_loop F10x26 S8x32 table b (Suc j) (initial ctx, adds))
      = gej_add_ge F10x26 r (ge_from_storage F10x26 (table ! j ! i))"
    by (simp add: l Let_def gen_select i_def [symmetric] i16)
  moreover have "smul (- scalar_val_8x32 (blind ctx)) generator + (\<Sum>k<j. U k)
      + smul (\<Sum>k<j. scalar_val_8x32 b div 16 ^ k mod 16 * 16 ^ k) generator + ?Q
    = smul (- scalar_val_8x32 (blind ctx)) generator + (\<Sum>k<Suc j. U k)
      + smul (\<Sum>k<Suc j. scalar_val_8x32 b div 16 ^ k mod 16 * 16 ^ k) generator"
    unfolding sum.lessThan_Suc smul_add i by (simp only: ac_simps)
  ultimately show ?case using gej_is_add [OF IH q] by (simp only:)
qed

lemma scalar_n_less_16: "scalar_n < 16 ^ 64"
  by (simp add: scalar_n_def)

text \<open>
  C9: on a context whose table, blinding scalar and initial point satisfy the invariant \<open>gen_context_ok\<close>, the multiple of
  the generator by a scalar is computed with blinding, for every scalar: the comb of 64 table look-ups gives the multiple by the blinded scalar, from which the initial
  point takes the blinding away, since exponents count modulo the group order.
\<close>

theorem ecmult_gen_correct:
  assumes ok: "gen_context_ok ctx U" and w: "scalar_wf_8x32 gn"
  shows "\<exists>r. ecmult_gen F10x26 S8x32 ctx gn = Some r \<and> gej_is r (smul (scalar_val_8x32 gn) generator)"
proof -
  obtain table where t: "prec ctx = Some table" using ok by (cases "prec ctx") (simp_all add: gen_context_ok_def)
  let ?b = "blind ctx"
  have wb: "scalar_wf_8x32 ?b" "(\<Sum>j<64. U j) = 0" using ok by (simp_all add: gen_context_ok_def)
  define s where "s = fst (scalar_add S8x32 gn ?b)"
  have s: "scalar_wf_8x32 s" "scalar_val_8x32 s = (scalar_val_8x32 gn + scalar_val_8x32 ?b) mod scalar_n"
    unfolding s_def using sc8.add [OF w wb(1)] by simp_all
  have "scalar_val_8x32 s mod 16 ^ 64 = scalar_val_8x32 s"
    using sc8.val_range [OF s(1)] order.strict_trans [OF _ scalar_n_less_16] by (intro mod_pos_pos_trivial) blast+
  then have d: "(\<Sum>k<64. scalar_val_8x32 s div 16 ^ k mod 16 * 16 ^ k) = scalar_val_8x32 s" by (simp only: sum_digits)
  have "smul (- scalar_val_8x32 ?b) generator + smul (scalar_val_8x32 s) generator = smul (scalar_val_8x32 gn) generator"
    unfolding s(2) smul_mod_n by (simp add: smul_add smul_neg)
  with gen_loop [OF ok t s(1) order_refl, of "ge_storage_zero F10x26", unfolded d wb(2) add_0_right]
  have "gej_is (fst (ecmult_gen_loop F10x26 S8x32 table s 64 (initial ctx, ge_storage_zero F10x26))) (smul (scalar_val_8x32 gn) generator)"
    by (simp only:)
  then show ?thesis unfolding ecmult_gen_def t option.case Let_def s_def [symmetric] by blast
qed

text \<open>A context whose table entries are multiples of the generator that are known not to be infinity.\<close>

definition ge_of_point :: "cpoint \<Rightarrow> fe_10x26 ge" where
  "ge_of_point P = (case pt P of
     Infinity \<Rightarrow> ge_clear F10x26
   | Point x y \<Rightarrow> ge_set_xy (fst (fe_set_b32 F10x26 (be_bytes 32 (Rep_fp x)))) (fst (fe_set_b32 F10x26 (be_bytes 32 (Rep_fp y)))))"

lemma set_b32_Rep: "fe10.fr 8 (fst (fe_set_b32 F10x26 (be_bytes 32 (Rep_fp x)))) x"
proof -
  have r: "0 \<le> Rep_fp x" "Rep_fp x < field_p" using Rep_fp [of x] by simp_all
  have "field_p < 256 ^ 32" by (simp add: field_p_def)
  then have v: "be_val (be_bytes 32 (Rep_fp x)) = Rep_fp x"
    unfolding be_val_be_bytes using r by (intro mod_pos_pos_trivial) simp_all
  have l: "length (be_bytes 32 (Rep_fp x)) = 32" by (rule length_be_bytes)
  note b = fe10.set_b32 [OF l, unfolded v]
  have "fe_res_10x26 (fst (fe_set_b32 F10x26 (be_bytes 32 (Rep_fp x)))) = Rep_fp x"
    using b mod_pos_pos_trivial [OF r] by (simp only:)
  moreover have "fe_mag_10x26 8 (fst (fe_set_b32 F10x26 (be_bytes 32 (Rep_fp x))))"
    by (rule fe10.mag_mono [of 1]) (use b in simp_all)
  ultimately show ?thesis unfolding fe10.fr_def fval_def by (simp only: of_int_Rep_fp simp_thms)
qed

lemma ge_of_point_storage: "P \<noteq> 0 \<Longrightarrow> ge_is (ge_from_storage F10x26 (ge_to_storage F10x26 (ge_of_point P))) P"
proof -
  assume P: "P \<noteq> 0"
  obtain x y where xy: "pt P = Point x y" using P by (cases "pt P") (simp_all add: zero_cpoint.rep_eq [symmetric] pt_inject)
  have "on_curve (Point x y)" using pt [of P] unfolding xy by (rule CollectD)
  then have "ge_rep fe_mag_10x26 fe_res_10x26 (ge_of_point P) (Point x y)"
    unfolding fe10.ge_rep_Point ge_of_point_def xy point.case ge_set_xy_def using set_b32_Rep by simp
  then show ?thesis unfolding ge_is_def xy by (rule fe10.ge_storage_roundtrip)
qed

lemma smul_generator_0: "smul k generator = 0 \<Longrightarrow> scalar_n dvd k"
proof -
  assume "smul k generator = 0"
  then have z: "smul (gcd scalar_n k) generator = 0" by (rule smul_gcd [OF generator_order])
  have "gcd scalar_n k \<noteq> 1" using z generator_neq_0 by (metis smul_simps(2))
  moreover have "0 < gcd scalar_n k" using scalar_n_pos unfolding gcd_pos_int by linarith
  ultimately have "gcd scalar_n k = scalar_n" using prime_scalar_n gcd_dvd1 unfolding is_prime_def by blast
  then show ?thesis using gcd_dvd2 [of scalar_n k] by (simp only:)
qed

lemma smul_generator_neq_0: "0 < \<bar>k\<bar> \<Longrightarrow> \<bar>k\<bar> < scalar_n \<Longrightarrow> smul k generator \<noteq> 0"
  using smul_generator_0 [of k] dvd_imp_le_int [of k scalar_n] by (auto simp del: abs_ge_self)

definition comb_offset :: "nat \<Rightarrow> int" where
  "comb_offset j = (if j < 63 then 16 ^ j else - (\<Sum>k<63. 16 ^ k))"

lemma comb_sum: "(\<Sum>j<64. smul (comb_offset j) generator) = 0"
proof -
  have "(\<Sum>j<Suc 63. comb_offset j) = (\<Sum>j<63. comb_offset j) + comb_offset 63" by (rule sum.lessThan_Suc)
  also have "(\<Sum>j<63. comb_offset j) = (\<Sum>k<63. 16 ^ k)" by (rule sum.cong) (simp_all add: comb_offset_def)
  finally have "(\<Sum>j<Suc 63. comb_offset j) = 0" by (simp only: comb_offset_def less_irrefl if_False add.right_inverse)
  moreover have "Suc 63 = (64 :: nat)" by simp
  ultimately show ?thesis unfolding sum_smul by (simp only: smul_simps(1))
qed

lemma comb_exponent:
  assumes "j < 64" "i < 16"
  shows "0 < \<bar>comb_offset j + int i * 16 ^ j\<bar>" "\<bar>comb_offset j + int i * 16 ^ j\<bar> < scalar_n"
proof -
  have n: "15 * 16 ^ 63 < scalar_n" "(16 :: int) ^ 63 < scalar_n" by (simp_all add: scalar_n_def)
  have "0 < \<bar>comb_offset j + int i * 16 ^ j\<bar> \<and> \<bar>comb_offset j + int i * 16 ^ j\<bar> < scalar_n"
  proof (cases "j < 63")
    case True
    have e: "comb_offset j + int i * 16 ^ j = (1 + int i) * 16 ^ j" using True by (simp add: comb_offset_def algebra_simps)
    have "(1 + int i) * 16 ^ j \<le> 16 * 16 ^ 62" using True assms(2) by (intro mult_mono power_increasing) simp_all
    also have "\<dots> = 16 ^ 63" by simp
    finally have "(1 + int i) * 16 ^ j < scalar_n" using n(2) by linarith
    moreover have "0 < (1 + int i) * (16 :: int) ^ j" by simp
    ultimately show ?thesis unfolding e by linarith
  next
    case False
    then have j: "j = 63" using assms(1) by simp
    define C where "C = (\<Sum>k<(63::nat). (16 :: int) ^ k)"
    have "15 * C = 16 ^ 63 - 1" unfolding C_def using power_diff_1_eq [of "16 :: int" 63] by simp
    moreover define T where "T = (16 :: int) ^ 63"
    moreover have "1 < T" unfolding T_def by simp
    ultimately have C: "0 < C" "C < T" by linarith+
    have e: "comb_offset j + int i * 16 ^ j = int i * T - C" unfolding j C_def T_def by (simp only: comb_offset_def) simp
    define M where "M = int i * T"
    have "M \<le> 15 * T" unfolding M_def using assms(2) C by (intro mult_right_mono) simp_all
    moreover have "M = 0 \<or> T \<le> M" unfolding M_def using C by (cases "i = 0") simp_all
    moreover have "15 * T < scalar_n" using n(1) unfolding T_def .
    ultimately show ?thesis unfolding e M_def [symmetric] using C by (elim disjE; intro conjI; linarith)
  qed
  then show "0 < \<bar>comb_offset j + int i * 16 ^ j\<bar>" "\<bar>comb_offset j + int i * 16 ^ j\<bar> < scalar_n" by blast+
qed

definition comb_context :: "(fe_10x26, fe_storage_8x32, scalar_8x32) ecmult_gen_context" where
  "comb_context = \<lparr>prec = Some (map (\<lambda>j. map (\<lambda>i. ge_to_storage F10x26
      (ge_of_point (smul (comb_offset j + int i * 16 ^ j) generator))) [0..<16]) [0..<64]),
    blind = scalar_set_int S8x32 1, initial = gej_neg F10x26 (gej_set_ge F10x26 (ge_const_g F10x26))\<rparr>"

lemma comb_context_ok: "gen_context_ok comb_context (\<lambda>j. smul (comb_offset j) generator)"
proof -
  have b: "scalar_wf_8x32 (scalar_set_int S8x32 1)" "scalar_val_8x32 (scalar_set_int S8x32 1) = 1" using sc8.set_int [of 1] by simp_all
  have "gej_is (initial comb_context) (- generator)"
    unfolding gej_is_def comb_context_def uminus_cpoint.rep_eq generator.rep_eq ecmult_gen_context.select_convs
    by (rule fe10.gej_neg_correct [OF fe10.gej_set_ge_correct [OF fe10.generator_rep]])
  moreover have "ge_is (ge_from_storage F10x26 (the (prec comb_context) ! j ! i)) (smul (comb_offset j) generator + smul (int i * 16 ^ j) generator) \<and>
      smul (comb_offset j) generator + smul (int i * 16 ^ j) generator \<noteq> 0" if "j < 64" "i < 16" for j i
  proof -
    have z: "smul (comb_offset j + int i * 16 ^ j) generator \<noteq> 0" by (rule smul_generator_neq_0 [OF comb_exponent [OF that]])
    have "the (prec comb_context) ! j ! i = ge_to_storage F10x26 (ge_of_point (smul (comb_offset j + int i * 16 ^ j) generator))"
      using that by (simp add: comb_context_def)
    then show ?thesis using ge_of_point_storage [OF z] z by (simp only: smul_add simp_thms)
  qed
  ultimately show ?thesis
    unfolding gen_context_ok_def using comb_sum b by (simp add: comb_context_def smul_simps)
qed

theorem ecmult_gen_correct_witness:
  "\<exists>r. ecmult_gen F10x26 S8x32 comb_context (scalar_set_int S8x32 5) = Some r \<and> gej_is r (smul 5 generator)"
proof -
  have "scalar_wf_8x32 (scalar_set_int S8x32 5)" "scalar_val_8x32 (scalar_set_int S8x32 5) = 5" using sc8.set_int [of 5] by simp_all
  then show ?thesis using ecmult_gen_correct [OF comb_context_ok, of "scalar_set_int S8x32 5"] by simp
qed

section \<open>Exponents\<close>

lemma scalar_unit_val:
  assumes "scalar_wf_8x32 a" "scalar_val_8x32 a \<noteq> 0"
  shows "scalar_unit (scalar_val_8x32 a)"
proof -
  have "\<not> scalar_n dvd scalar_val_8x32 a"
    using sc8.val_range [OF assms(1)] assms(2) zdvd_imp_le [of scalar_n "scalar_val_8x32 a"] by linarith
  then show ?thesis unfolding scalar_unit_def by (rule fermat_little [OF prime_scalar_n])
qed

text \<open>
  C10: the arithmetic of scalars is the arithmetic of multiples of a point of the curve, whatever the point: the
  sum, the product and the negation of scalars give the sum, the composition and the negation of the multiples, and
  the multiple by the inverse of a nonzero scalar undoes the multiple by the scalar.
\<close>

theorem scalar_group_action:
  fixes P :: cpoint
  assumes "scalar_wf_8x32 a" "scalar_wf_8x32 b"
  shows "smul (scalar_val_8x32 (fst (scalar_add S8x32 a b))) P = smul (scalar_val_8x32 a) P + smul (scalar_val_8x32 b) P \<and>
    smul (scalar_val_8x32 (scalar_mul S8x32 a b)) P = smul (scalar_val_8x32 a) (smul (scalar_val_8x32 b) P) \<and>
    smul (scalar_val_8x32 (scalar_negate S8x32 a)) P = - smul (scalar_val_8x32 a) P \<and>
    (scalar_val_8x32 a \<noteq> 0 \<longrightarrow> smul (scalar_val_8x32 (scalar_inverse S8x32 a)) (smul (scalar_val_8x32 a) P) = P)"
proof (intro conjI impI)
  show "smul (scalar_val_8x32 (fst (scalar_add S8x32 a b))) P = smul (scalar_val_8x32 a) P + smul (scalar_val_8x32 b) P"
    unfolding conjunct1 [OF conjunct2 [OF sc8.add [OF assms]]] smul_mod_n smul_add ..
  show "smul (scalar_val_8x32 (scalar_mul S8x32 a b)) P = smul (scalar_val_8x32 a) (smul (scalar_val_8x32 b) P)"
    unfolding conjunct2 [OF sc8.mul [OF assms]] smul_mod_n smul_mult ..
  show "smul (scalar_val_8x32 (scalar_negate S8x32 a)) P = - smul (scalar_val_8x32 a) P"
    unfolding conjunct2 [OF sc8.negate [OF assms(1)]] smul_mod_n smul_neg ..
next
  assume "scalar_val_8x32 a \<noteq> 0"
  note i = scalar_repr.inverse_correct(2) [OF sc8.scalar_repr_axioms assms(1) scalar_unit_val [OF assms(1) this]]
  have "smul (scalar_val_8x32 (scalar_inverse S8x32 a) * scalar_val_8x32 a) P = P"
    unfolding smul_mod_n [of "_ * _", symmetric] i by simp
  then show "smul (scalar_val_8x32 (scalar_inverse S8x32 a)) (smul (scalar_val_8x32 a) P) = P" unfolding smul_mult .
qed

theorem scalar_group_action_witness:
  "smul (scalar_val_8x32 (scalar_inverse S8x32 (scalar_set_int S8x32 2))) (smul (scalar_val_8x32 (scalar_set_int S8x32 2)) generator)
    = generator"
proof -
  have "scalar_wf_8x32 (scalar_set_int S8x32 2)" "scalar_val_8x32 (scalar_set_int S8x32 2) \<noteq> 0"
    using sc8.set_int [of 2] by simp_all
  then show ?thesis using scalar_group_action [of "scalar_set_int S8x32 2" "scalar_set_int S8x32 2" generator] by blast
qed

lemma scalar_n_less_256: "scalar_n < 256 ^ 32"
  by (simp add: scalar_n_def)

lemma scalar_n_half_pos: "0 < scalar_n_half"
  by (simp add: scalar_n_half_def)

section \<open>Private keys\<close>

text \<open>
  C11: adding a tweak to a private key of 32 bytes succeeds exactly if the tweak is less than the group order and the sum is not
  a multiple of the order; the new key is then the sum modulo the order, and after a failure the key is overwritten by zeros. No argument
  check fails.
\<close>

theorem ec_privkey_tweak_add_behaviour:
  assumes "length key = 32" "length tweak = 32"
  shows "ec_privkey_tweak_add S8x32 (Some key) (Some tweak) =
    (if be_val tweak < scalar_n \<and> (be_val key + be_val tweak) mod scalar_n \<noteq> 0
     then returns True (Some (be_bytes 32 ((be_val key + be_val tweak) mod scalar_n)))
     else returns False (Some (replicate 32 0)))"
proof -
  define t s where "t = fst (scalar_set_b32 S8x32 tweak)" and "s = fst (scalar_set_b32 S8x32 key)"
  define k where "k = fst (scalar_add S8x32 s t)"
  have t: "scalar_wf_8x32 t" "scalar_val_8x32 t = be_val tweak mod scalar_n" "snd (scalar_set_b32 S8x32 tweak) = of_bool (scalar_n \<le> be_val tweak)"
    and s: "scalar_wf_8x32 s" "scalar_val_8x32 s = be_val key mod scalar_n"
    unfolding t_def s_def using sc8.set_b32 [OF assms(2)] sc8.set_b32 [OF assms(1)] by blast+
  have k: "scalar_wf_8x32 k" "scalar_val_8x32 k = (be_val key + be_val tweak) mod scalar_n"
    unfolding k_def using sc8.add [OF s(1) t(1)] unfolding s(2) t(2) mod_add_eq by blast+
  have e: "scalar_set_b32 S8x32 tweak = (t, of_bool (scalar_n \<le> be_val tweak))"
    unfolding t_def t(3) [symmetric] by simp
  show ?thesis
    unfolding ec_privkey_tweak_add_def eckey_privkey_tweak_add_def prod.case option.case e Let_def s_def [symmetric] k_def [symmetric]
      sc8.is_zero [OF k(1)] sc8.get_b32 [OF k(1)] k(2)
    by (cases "scalar_n \<le> be_val tweak"; cases "(be_val key + be_val tweak) mod scalar_n = 0")
      (simp_all only: of_bool_eq not_le [symmetric] prod.case if_True if_False simp_thms one_neq_zero zero_neq_one
        sc8.get_b32 [OF k(1)] k(2))
qed

theorem ec_privkey_tweak_add_behaviour_witness:
  "ec_privkey_tweak_add S8x32 (Some (be_bytes 32 1)) (Some (be_bytes 32 (scalar_n - 1))) = returns False (Some (replicate 32 0))"
proof -
  have "1 < scalar_n" by (simp add: scalar_n_def)
  then have e: "(1 :: int) mod 256 ^ 32 = 1" "(scalar_n - 1) mod 256 ^ 32 = scalar_n - 1"
    using scalar_n_less_256 by (intro mod_pos_pos_trivial; linarith)+
  have z: "(1 + (scalar_n - 1)) mod scalar_n = 0" by simp
  show ?thesis
    using ec_privkey_tweak_add_behaviour [of "be_bytes 32 1" "be_bytes 32 (scalar_n - 1)", OF length_be_bytes length_be_bytes]
    unfolding be_val_be_bytes e z by simp
qed

section \<open>Signatures\<close>

text \<open>
  C17: a signature of two scalars that is written in the compact form of 64 bytes is read back unchanged.
\<close>

theorem ecdsa_signature_compact_roundtrip:
  assumes "scalar_wf_8x32 (sig_r sg)" "scalar_wf_8x32 (sig_s sg)"
  shows "\<exists>bytes. ecdsa_signature_serialize_compact S8x32 (Some out) (Some sg) = returns True (Some bytes) \<and> length bytes = 64 \<and>
    ecdsa_signature_parse_compact S8x32 (Some old) (Some bytes) = returns True (Some (ecdsa_signature_save (sig_r sg) (sig_s sg)))"
proof -
  have rt: "scalar_set_b32 S8x32 (be_bytes 32 (scalar_val_8x32 a)) = (a, 0)" if w: "scalar_wf_8x32 a" for a
  proof -
    let ?b = "be_bytes 32 (scalar_val_8x32 a)"
    have v: "be_val ?b = scalar_val_8x32 a" unfolding be_val_be_bytes
      using sc8.val_range [OF w] order.strict_trans [OF _ scalar_n_less_256] by (intro mod_pos_pos_trivial) blast+
    have l: "length ?b = 32" by simp
    note b = sc8.set_b32 [OF l, unfolded v scalar_repr.val_mod [OF sc8.scalar_repr_axioms w]]
    have "fst (scalar_set_b32 S8x32 ?b) = a" by (rule sc8.val_inj) (use b w in blast)+
    moreover have "snd (scalar_set_b32 S8x32 ?b) = 0" using b sc8.val_range [OF w] by simp
    ultimately show ?thesis by (metis prod.collapse)
  qed
  show ?thesis
    unfolding ecdsa_signature_serialize_compact_def ecdsa_signature_load_def prod.case option.case Let_def
      sc8.get_b32 [OF assms(1)] sc8.get_b32 [OF assms(2)]
    by (rule exI [of _ "be_bytes 32 (scalar_val_8x32 (sig_r sg)) @ be_bytes 32 (scalar_val_8x32 (sig_s sg))"])
      (simp add: ecdsa_signature_parse_compact_def rt [OF assms(1)] rt [OF assms(2)])
qed

theorem ecdsa_signature_compact_roundtrip_witness:
  "\<exists>bytes. ecdsa_signature_serialize_compact S8x32 (Some []) (Some (signature_zero S8x32)) = returns True (Some bytes) \<and> length bytes = 64 \<and>
    ecdsa_signature_parse_compact S8x32 (Some (signature_zero S8x32)) (Some bytes) = returns True (Some (signature_zero S8x32))"
  using ecdsa_signature_compact_roundtrip [of "signature_zero S8x32" "[]" "signature_zero S8x32"] sc8.clear
  by (simp add: signature_zero_def ecdsa_signature_save_def)

text \<open>
  C12: normalizing a signature gives one whose second scalar is not above half of the group order, and is the old one or
  its negative; the returned flag says whether it changed, and a second normalization changes nothing.
\<close>

theorem ecdsa_signature_normalize_low:
  assumes "scalar_wf_8x32 (sig_s sg)"
  shows "\<exists>s. ecdsa_signature_normalize S8x32 (Some old) (Some sg)
      = returns (scalar_n_half < scalar_val_8x32 (sig_s sg)) (Some (ecdsa_signature_save (sig_r sg) s)) \<and>
    scalar_wf_8x32 s \<and> scalar_val_8x32 s \<le> scalar_n_half \<and>
    (scalar_val_8x32 s = scalar_val_8x32 (sig_s sg) \<or> scalar_val_8x32 s = scalar_n - scalar_val_8x32 (sig_s sg)) \<and>
    ecdsa_signature_normalize S8x32 (Some old) (Some (ecdsa_signature_save (sig_r sg) s)) = returns False (Some (ecdsa_signature_save (sig_r sg) s))"
proof -
  let ?v = "scalar_val_8x32 (sig_s sg)"
  define s where "s = (if scalar_n_half < ?v then scalar_negate S8x32 (sig_s sg) else sig_s sg)"
  have r: "0 \<le> ?v" "?v < scalar_n" using sc8.val_range [OF assms] by blast+
  have n: "scalar_wf_8x32 (scalar_negate S8x32 (sig_s sg))" "scalar_val_8x32 (scalar_negate S8x32 (sig_s sg)) = (- ?v) mod scalar_n"
    using sc8.negate [OF assms] by blast+
  have m: "(- ?v) mod scalar_n = scalar_n - ?v" if h: "scalar_n_half < ?v"
  proof -
    have "0 < ?v" using h scalar_n_half_pos by linarith
    then have "?v mod scalar_n = ?v" "?v \<noteq> 0" using r mod_pos_pos_trivial [of ?v scalar_n] by simp_all
    then show ?thesis by (simp only: zmod_zminus1_eq_if if_False)
  qed
  have s: "scalar_wf_8x32 s" "scalar_val_8x32 s \<le> scalar_n_half" "scalar_val_8x32 s = ?v \<or> scalar_val_8x32 s = scalar_n - ?v"
  proof -
    have "scalar_wf_8x32 s \<and> scalar_val_8x32 s \<le> scalar_n_half \<and> (scalar_val_8x32 s = ?v \<or> scalar_val_8x32 s = scalar_n - ?v)"
    proof (cases "scalar_n_half < ?v")
      case True
      then have "s = scalar_negate S8x32 (sig_s sg)" unfolding s_def by (rule if_P)
      moreover have "scalar_n - ?v \<le> scalar_n_half" using True scalar_n_half_eq by linarith
      ultimately show ?thesis using n m [OF True] by (simp only: simp_thms)
    next
      case False
      then have "s = sig_s sg" unfolding s_def by (rule if_not_P)
      then show ?thesis using assms False by (simp only: simp_thms not_less)
    qed
    then show "scalar_wf_8x32 s" "scalar_val_8x32 s \<le> scalar_n_half" "scalar_val_8x32 s = ?v \<or> scalar_val_8x32 s = scalar_n - ?v"
      by blast+
  qed
  have h: "\<not> scalar_is_high S8x32 s" using s(2) sc8.is_high [OF s(1)] by simp
  have e: "ecdsa_signature_normalize S8x32 (Some old) (Some sg)
      = returns (scalar_n_half < ?v) (Some (ecdsa_signature_save (sig_r sg) s))"
    unfolding ecdsa_signature_normalize_def ecdsa_signature_load_def option.case Let_def prod.case sc8.is_high [OF assms] s_def by simp
  have "ecdsa_signature_normalize S8x32 (Some old) (Some (ecdsa_signature_save (sig_r sg) s))
      = returns False (Some (ecdsa_signature_save (sig_r sg) s))"
    using h by (simp add: ecdsa_signature_normalize_def ecdsa_signature_load_def ecdsa_signature_save_def)
  with e s show ?thesis by blast
qed

theorem ecdsa_signature_normalize_low_witness:
  "\<exists>s. ecdsa_signature_normalize S8x32 (Some (signature_zero S8x32)) (Some (signature_zero S8x32))
    = returns (scalar_n_half < scalar_val_8x32 (sig_s (signature_zero S8x32))) (Some (ecdsa_signature_save (sig_r (signature_zero S8x32)) s))"
proof -
  have "scalar_wf_8x32 (sig_s (signature_zero S8x32))" using sc8.clear by (simp add: signature_zero_def)
  from ecdsa_signature_normalize_low [OF this, of "signature_zero S8x32"] show ?thesis by blast
qed

end
