(* ===== verification/Spec2Isabelle.thy ===== *)
theory Spec2Isabelle
  imports Field_10x26 Field_5x52 Field_Impl Scalar_8x32 Scalar_4x64 Scalar_Impl Hash Der Group Ecmult
    Protocol
begin

text \<open>
  A verification library for the C implementation of the curve secp256k1 in
  \<^verbatim>\<open>src/proton/crypto/secp256k1/libsecp256k1\<close>, the code behind the signatures of the node. The
  program is a stack: field elements modulo \<open>field_p\<close> and scalars modulo \<open>scalar_n\<close>, each in two limb
  representations selected at compile time; group operations and scalar multiplication on the
  curve; hashing and deterministic nonces; the encodings; and the public interface on top.

  \<^item> \<open>Prelude\<close>: machine words read as integers, byte strings and limb vectors.
  \<^item> \<open>Field\<close>: the interface \<^verbatim>\<open>field.h\<close>, as the record \<open>field_ops\<close> of the operations that depend on the
    representation, and its contract, the locale \<open>field_repr\<close>.
  \<^item> \<open>Field_10x26\<close>: \<^verbatim>\<open>field_10x26_impl.h\<close>, ten 32-bit words; the locale is interpreted as \<open>fe10\<close>.
  \<^item> \<open>Field_5x52\<close>: \<^verbatim>\<open>field_5x52_impl.h\<close> and \<^verbatim>\<open>field_5x52_int128_impl.h\<close>, five 64-bit words with 128-bit
    products; the locale is interpreted as \<open>fe5\<close>.
  \<^item> \<open>Field_Impl\<close>: \<^verbatim>\<open>field_impl.h\<close>, comparison, square root, inverse and batch inverse, written against
    \<open>field_ops\<close> and proved once in the locale.
  \<^item> \<open>Scalar\<close>: the interface \<^verbatim>\<open>scalar.h\<close>, the carry chains and the accumulator macros shared by the two
    representations, and the contract, the locale \<open>scalar_repr\<close>.
  \<^item> \<open>Scalar_8x32\<close>, \<open>Scalar_4x64\<close>: \<^verbatim>\<open>scalar_8x32_impl.h\<close> and \<^verbatim>\<open>scalar_4x64_impl.h\<close>, with the
    interpretations \<open>sc8\<close> and \<open>sc4\<close>.
  \<^item> \<open>Scalar_Impl\<close>: \<^verbatim>\<open>scalar_impl.h\<close>, the inverse and the decomposition for the endomorphism.
  \<^item> \<open>Hash\<close>: \<^verbatim>\<open>hash_impl.h\<close>, SHA-256, HMAC and the generator of RFC 6979, with reference definitions
    after the standards and the proofs that the streaming code refines them.
  \<^item> \<open>Primality\<close>, \<open>Prime_Q\<close>, \<open>Prime_P\<close>: Fermat's theorem and Pocklington's criterion, and the certificates
    that the field characteristic is prime and that \<open>-7\<close> is not a cube.
  \<^item> \<open>Fp\<close>, \<open>Curve\<close>: the prime field as a type, and the points of the curve with the chord and tangent law,
    which is proved to be an abelian group.
  \<^item> \<open>Group\<close>: \<^verbatim>\<open>group_impl.h\<close>, the operations on affine and Jacobian coordinates, against the field interface;
    a record stands for a point of \<open>Curve\<close> by \<open>ge_rep\<close> and \<open>gej_rep\<close>.
    The representations are relative to a common factor of the Z coordinates, by which the code works on
    isomorphic curves.
  \<^item> \<open>Prime_N\<close>, \<open>Endo\<close>, \<open>Order_Cert\<close>, \<open>Order\<close>: the group order. \<open>scalar_n\<close> is prime, it kills the generator
    (a certificate of point additions, shortened by the endomorphism), and the group has exactly \<open>scalar_n\<close> elements.
  \<^item> \<open>Ecmult\<close>: the signed windowed recoding of scalars of \<^verbatim>\<open>ecmult_impl.h\<close>.
  \<^item> \<open>Ecmult_Impl\<close>: the tables, contexts and main loops of \<^verbatim>\<open>ecmult_impl.h\<close>, \<^verbatim>\<open>ecmult_gen_impl.h\<close> and
    \<^verbatim>\<open>ecmult_const_impl.h\<close>.
  \<^item> \<open>Der\<close>: the DER parser and serializer of \<^verbatim>\<open>ecdsa_impl.h\<close>, with checked memory accesses.
  \<^item> \<open>Eckey\<close>: \<^verbatim>\<open>eckey_impl.h\<close> and the signature equations of \<^verbatim>\<open>ecdsa_impl.h\<close>.
  \<^item> \<open>Api\<close>: \<^verbatim>\<open>secp256k1.c\<close>, with its argument checks.
  \<^item> \<open>Protocol\<close>: the correctness of \<^verbatim>\<open>secp256k1_ecmult_gen\<close> on every context that satisfies the invariant
    \<open>gen_context_ok\<close>, and properties of the scalars as exponents of the group and of the public interface.

  State and effects. A C function with an output pointer returns the new value; an in/out pointer is
  an argument and a result. Words wrap around as the C unsigned types do; the lemmas state where they
  do not. A loop is a recursive function on the counter or on the remaining bytes, so all of them
  are total. The loop of the recoding has fuel, one unit for each position of its output, which
  is proved to be enough; so has the constant-time recoding. The loops that draw random numbers, of the blinding and of
  signing, have fuel as an argument, since the code does not bound them; \<^const>\<open>None\<close> stands for running out of
  it, and no property is about a drawing loop. The contents of memory before it is written are arguments. The representation independent code takes the record of the
  operations it is compiled against as its first argument.

  What is shown. For each representation: every operation computes the residue it should and keeps the
  magnitude and normalization discipline that a \<^verbatim>\<open>VERIFY\<close> build checks at run time. For the code above: inverse and square root are the powers
  they should be; the hash functions are those of the standards, for any split of the input; the
  parser stays within its input, accepts exactly the DER encodings of two integers, and inverts the serializer, whose output has
  the length of the minimal encoding;
  the additions, doublings and conversions of points compute the group law on every branch; the arithmetic of
  scalars is that of the multiples of every point; the blinded comb computes the multiple of the generator. Of the public interface: on arguments that are not null, the
  addition of a tweak to a private key succeeds exactly when it should and adds modulo the order; a signature survives the compact
  format; and the normalization of a signature, with an output, gives the low of the two equivalent ones.
  The properties below span two components; the others are at the end of the theory of their component.

  Bounds. The size of the hashed input is below \<open>2 ^ 61\<close> bytes, where its length in bits fits the
  64-bit counter; encodings are below \<open>2 ^ 31\<close> bytes where a length is returned as an \<^verbatim>\<open>int\<close>; a host
  is little endian with a 64-bit \<^verbatim>\<open>size_t\<close>.

  Not modelled: the assembly variants of the arithmetic, whose instruction sets are outside the model;
  the wrapper of the GMP library, which is not compiled in; tests, benchmarks and the Java binding; the recovery and
  key agreement modules, the lax DER parsers and the setters of the callbacks; the code under \<^verbatim>\<open>USE_ENDOMORPHISM\<close> in the scalar
  multiplications, which the configuration leaves out; and the branches of the loading and saving of public keys and signatures for storage
  types of another size, which are dead code. The general and the constant-time
  scalar multiplication, the construction of the table of the generator, signing and verification are modelled, but their correctness is not
  proved.
\<close>

section \<open>Representations are interchangeable\<close>

context field_repr
begin

text \<open>The bytes of a product and of an inverse, as functions of the bytes of the arguments.\<close>

lemma mul_bytes:
  assumes "length a = 32" "length b = 32"
  shows "fe_get_b32 F (fe_normalize F (fe_mul F (fst (fe_set_b32 F a)) (fst (fe_set_b32 F b))))
    = be_bytes 32 (be_val a * be_val b mod field_p)"
proof -
  have m: "mag 8 (fst (fe_set_b32 F a))" "mag 8 (fst (fe_set_b32 F b))"
    using set_b32 [OF assms(1)] set_b32 [OF assms(2)] mag_weaken by simp_all
  note p = mul [OF m]
  show ?thesis
    using normalize [of 1 "fe_mul F (fst (fe_set_b32 F a)) (fst (fe_set_b32 F b))"] p
      get_b32 [of "fe_normalize F (fe_mul F (fst (fe_set_b32 F a)) (fst (fe_set_b32 F b)))"]
      set_b32 [OF assms(1)] set_b32 [OF assms(2)]
    by (simp add: mod_mult_eq)
qed

lemma inv_bytes:
  assumes "length a = 32"
  shows "fe_get_b32 F (fe_normalize F (fe_inv F (fst (fe_set_b32 F a))))
    = be_bytes 32 (be_val a ^ nat (field_p - 2) mod field_p)"
proof -
  have m: "mag 8 (fst (fe_set_b32 F a))" using set_b32 [OF assms] mag_weaken by simp
  note p = inv_pow [OF m]
  show ?thesis
    using normalize [of 1 "fe_inv F (fst (fe_set_b32 F a))"] p
      get_b32 [of "fe_normalize F (fe_inv F (fst (fe_set_b32 F a)))"] set_b32 [OF assms]
    by (simp add: power_mod)
qed

end

context scalar_repr
begin

lemma mul_scalar_bytes:
  assumes "length a = 32" "length b = 32"
  shows "scalar_get_b32 S (scalar_mul S (fst (scalar_set_b32 S a)) (fst (scalar_set_b32 S b)))
    = be_bytes 32 (be_val a * be_val b mod scalar_n)"
proof -
  note s = set_b32 [OF assms(1)] set_b32 [OF assms(2)]
  note p = mul [of "fst (scalar_set_b32 S a)" "fst (scalar_set_b32 S b)"]
  show ?thesis
    using s p get_b32 [of "scalar_mul S (fst (scalar_set_b32 S a)) (fst (scalar_set_b32 S b))"]
    by (simp add: mod_mult_eq)
qed

lemma inverse_scalar_bytes:
  assumes "length a = 32"
  shows "scalar_get_b32 S (scalar_inverse S (fst (scalar_set_b32 S a)))
    = be_bytes 32 (be_val a ^ nat (scalar_n - 2) mod scalar_n)"
proof -
  note s = set_b32 [OF assms]
  show ?thesis
    using s inverse_pow [of "fst (scalar_set_b32 S a)"] get_b32 [of "scalar_inverse S (fst (scalar_set_b32 S a))"]
    by (simp add: power_mod)
qed

end

text \<open>
  C29: the two field representations are interchangeable. Multiplying and inverting on ten limbs of
  26 bits with 64-bit products, and on five limbs of 52 bits with 128-bit products, gives the same
  32 bytes for all operands, also for byte strings that are not reduced.
\<close>

theorem fe_representations_agree:
  assumes "length a = 32" "length b = 32"
  shows "fe_get_b32_10x26 (fe_normalize_10x26 (fe_mul_10x26 (fst (fe_set_b32_10x26 a)) (fst (fe_set_b32_10x26 b))))
      = fe_get_b32_5x52 (fe_normalize_5x52 (fe_mul_5x52 (fst (fe_set_b32_5x52 a)) (fst (fe_set_b32_5x52 b)))) \<and>
    fe_get_b32_10x26 (fe_normalize_10x26 (fe_inv F10x26 (fst (fe_set_b32_10x26 a))))
      = fe_get_b32_5x52 (fe_normalize_5x52 (fe_inv F5x52 (fst (fe_set_b32_5x52 a))))"
  using fe10.mul_bytes [OF assms] fe5.mul_bytes [OF assms] fe10.inv_bytes [OF assms(1)] fe5.inv_bytes [OF assms(1)]
  by (simp add: F10x26_def F5x52_def)

theorem fe_representations_agree_witness:
  "fe_get_b32_10x26 (fe_normalize_10x26 (fe_mul_10x26 (fst (fe_set_b32_10x26 (be_bytes 32 3))) (fst (fe_set_b32_10x26 (be_bytes 32 (2 ^ 256 - 1))))))
    = fe_get_b32_5x52 (fe_normalize_5x52 (fe_mul_5x52 (fst (fe_set_b32_5x52 (be_bytes 32 3))) (fst (fe_set_b32_5x52 (be_bytes 32 (2 ^ 256 - 1))))))"
  using fe_representations_agree [of "be_bytes 32 3" "be_bytes 32 (2 ^ 256 - 1)"] by simp

text \<open>
  C30: the two scalar representations are interchangeable in the same sense: products and inverses
  modulo the group order computed on eight words of 32 bits and on four of 64 bits have the same bytes.
\<close>

theorem scalar_representations_agree:
  assumes "length a = 32" "length b = 32"
  shows "scalar_get_b32_8x32 (scalar_mul_8x32 (fst (scalar_set_b32_8x32 a)) (fst (scalar_set_b32_8x32 b)))
      = scalar_get_b32_4x64 (scalar_mul_4x64 (fst (scalar_set_b32_4x64 a)) (fst (scalar_set_b32_4x64 b))) \<and>
    scalar_get_b32_8x32 (scalar_inverse S8x32 (fst (scalar_set_b32_8x32 a)))
      = scalar_get_b32_4x64 (scalar_inverse S4x64 (fst (scalar_set_b32_4x64 a)))"
  using sc8.mul_scalar_bytes [OF assms] sc4.mul_scalar_bytes [OF assms]
    sc8.inverse_scalar_bytes [OF assms(1)] sc4.inverse_scalar_bytes [OF assms(1)]
  by (simp add: S8x32_def S4x64_def)

theorem scalar_representations_agree_witness:
  "scalar_get_b32_8x32 (scalar_inverse S8x32 (fst (scalar_set_b32_8x32 (be_bytes 32 3))))
    = scalar_get_b32_4x64 (scalar_inverse S4x64 (fst (scalar_set_b32_4x64 (be_bytes 32 3))))"
  using scalar_representations_agree [of "be_bytes 32 3" "be_bytes 32 3"] by simp

text \<open>
  C28: the decomposition of a scalar for the endomorphism. The two halves recombine to the scalar
  with the eigenvalue \<open>lambda\<close>, and both are, up to sign, below \<open>2 ^ 128\<close>.
\<close>

theorem scalar_split_lambda_short:
  assumes "scalar_wf_8x32 a"
  defines "r1 \<equiv> fst (scalar_split_lambda S8x32 a)" and "r2 \<equiv> snd (scalar_split_lambda S8x32 a)"
  shows "(scalar_val_8x32 r1 + scalar_lambda * scalar_val_8x32 r2) mod scalar_n = scalar_val_8x32 a \<and>
    (\<exists>k1 k2. scalar_val_8x32 r1 = k1 mod scalar_n \<and> scalar_val_8x32 r2 = k2 mod scalar_n \<and>
      \<bar>k1\<bar> < 2 ^ 128 \<and> \<bar>k2\<bar> < 2 ^ 128)"
  using scalar_repr.split_lambda_correct [OF sc8.scalar_repr_axioms assms(1)] unfolding r1_def r2_def by blast

theorem scalar_split_lambda_short_witness:
  "(scalar_val_8x32 (fst (scalar_split_lambda S8x32 (scalar_set_int_8x32 5))) +
    scalar_lambda * scalar_val_8x32 (snd (scalar_split_lambda S8x32 (scalar_set_int_8x32 5)))) mod scalar_n = 5"
  using scalar_split_lambda_short [of "scalar_set_int_8x32 5"] sc8.set_int [of 5] by (simp add: S8x32_def)

end
